(* ===== verification/Prelude.thy ===== *)
theory Prelude
  imports Main "HOL-Library.Char_ord" "HOL-Library.List_Lexorder" "HOL-Library.Multiset"
    "HOL-Library.Word" "HOL-Library.AList"
begin

text \<open>
  Shared vocabulary of the development: the results of Go code that may panic, the parts of
  the Go standard library the program uses (\<open>strings\<close>, \<open>path\<close>, \<open>sort\<close>, \<open>slices\<close>, built-in maps),
  and the generic lemmas the components rest on.

  Conventions. A pointer or a Go value that may be \<open>nil\<close> is an \<open>option\<close>; a slice or map whose
  \<open>nil\<close> differs from its empty value in the code is an \<open>option\<close> of a list or map, any other slice
  is a list. A Go map is a HOL map (or an association list where it is nested in a datatype); an
  iteration over a map takes the order of the keys as an argument, constrained only by
  \<open>iter_order\<close>, because Go leaves that order unspecified.
\<close>

section \<open>Panics\<close>

text \<open>What stops a run of the program: a nil dereference, a write to a nil map, an index out of range, a failed type
  assertion, the close of a closed channel; \<open>OutOfFuel\<close> marks a recursion cut off by the model and is proved not to occur.\<close>

datatype trap = NilDeref | NilMapWrite | IndexOutOfRange | BadAssertion | CloseOfClosed | OutOfFuel

type_synonym 'a outcome = "trap + 'a"

definition bind_out :: "'a outcome \<Rightarrow> ('a \<Rightarrow> 'b outcome) \<Rightarrow> 'b outcome" where
  "bind_out m f = (case m of Inl t \<Rightarrow> Inl t | Inr a \<Rightarrow> f a)"

definition deref :: "'a option \<Rightarrow> 'a outcome" where
  "deref p = (case p of None \<Rightarrow> Inl NilDeref | Some v \<Rightarrow> Inr v)"

named_theorems out_simps \<open>evaluation of outcomes\<close>
named_theorems out_elims \<open>inversion of successful outcomes\<close>

lemma bind_out_Inl [simp, out_simps]: "bind_out (Inl t) f = Inl t"
  by (simp add: bind_out_def)

lemma bind_out_Inr [simp, out_simps]: "bind_out (Inr a) f = f a"
  by (simp add: bind_out_def)

lemma bind_out_InrE [out_elims]:
  assumes "bind_out m f = Inr b"
  obtains a where "m = Inr a" and "f a = Inr b"
  using assms by (cases m) auto

lemma bind_out_InlE:
  assumes "bind_out m f = Inl t"
  obtains "m = Inl t" | a where "m = Inr a" and "f a = Inl t"
  using assms by (cases m) auto

lemma bind_out_cong [fundef_cong]:
  "m = m' \<Longrightarrow> (\<And>a. m' = Inr a \<Longrightarrow> f a = f' a) \<Longrightarrow> bind_out m f = bind_out m' f'"
  by (cases m') auto

lemma deref_simps [simp, out_simps]:
  "deref None = Inl NilDeref" "deref (Some v) = Inr v"
  by (simp_all add: deref_def)

lemma deref_eq_Inr [simp]: "deref p = Inr v \<longleftrightarrow> p = Some v"
  by (cases p) auto

lemma bind_out_assoc: "bind_out (bind_out m f) g = bind_out m (\<lambda>a. bind_out (f a) g)"
  by (cases m) auto

text \<open>A loop over a slice that threads a state and stops at a panic.\<close>

fun fold_out :: "('a \<Rightarrow> 's \<Rightarrow> 's outcome) \<Rightarrow> 'a list \<Rightarrow> 's \<Rightarrow> 's outcome" where
  "fold_out f [] s = Inr s"
| "fold_out f (x # xs) s = bind_out (f x s) (fold_out f xs)"

lemma fold_out_append: "fold_out f (xs @ ys) s = bind_out (fold_out f xs s) (fold_out f ys)"
proof (induction xs arbitrary: s)
  case Nil
  show ?case by simp
next
  case (Cons x xs)
  then have "fold_out f (xs @ ys) = (\<lambda>t. bind_out (fold_out f xs t) (fold_out f ys))"
    by (intro ext)
  then show ?case by (simp add: bind_out_assoc)
qed

lemma fold_out_invariant:
  assumes step: "\<And>x s s'. x \<in> set xs \<Longrightarrow> P s \<Longrightarrow> f x s = Inr s' \<Longrightarrow> P s'"
    and start: "P s" and run: "fold_out f xs s = Inr s'"
  shows "P s'"
  using start run step
proof (induction xs arbitrary: s)
  case Nil
  then show ?case by simp
next
  case (Cons x xs)
  from Cons.prems(2) obtain s1 where 1: "f x s = Inr s1" and 2: "fold_out f xs s1 = Inr s'"
    by (auto elim: bind_out_InrE)
  from Cons.prems(1,3) 1 have "P s1" by auto
  then show ?case using 2 Cons.prems(3) by (intro Cons.IH) auto
qed

lemma fold_out_no_trap:
  assumes "\<And>x s. x \<in> set xs \<Longrightarrow> P s \<Longrightarrow> f x s \<noteq> Inl t \<and> (\<forall>s'. f x s = Inr s' \<longrightarrow> P s')"
    and "P s"
  shows "fold_out f xs s \<noteq> Inl t"
  using assms
proof (induction xs arbitrary: s)
  case Nil
  then show ?case by simp
next
  case (Cons x xs)
  show ?case
  proof (cases "f x s")
    case (Inl u)
    with Cons.prems show ?thesis by auto
  next
    case (Inr s1)
    with Cons.prems have "P s1" by auto
    with Cons.IH [of s1] Cons.prems(1) Inr show ?thesis by auto
  qed
qed

lemma fold_out_returns:
  assumes "\<And>x s. x \<in> set xs \<Longrightarrow> P s \<Longrightarrow> \<exists>s'. f x s = Inr s' \<and> P s'" "P s"
  shows "\<exists>s'. fold_out f xs s = Inr s' \<and> P s'"
  using assms
proof (induction xs arbitrary: s)
  case Nil
  then show ?case by simp
next
  case (Cons x xs)
  from Cons.prems obtain s1 where "f x s = Inr s1" "P s1" by force
  moreover have "\<exists>s'. fold_out f xs s1 = Inr s' \<and> P s'"
    using Cons.prems(1) \<open>P s1\<close> by (intro Cons.IH) auto
  ultimately show ?case by auto
qed

lemma fold_out_cong [fundef_cong]:
  assumes "xs = ys" "s = t" "\<And>x u. x \<in> set ys \<Longrightarrow> f x u = g x u"
  shows "fold_out f xs s = fold_out g ys t"
  using assms(3) unfolding assms(1,2)
proof (induction ys arbitrary: t)
  case Nil
  show ?case by simp
next
  case (Cons y ys)
  then have "fold_out f ys = fold_out g ys" by (intro ext) simp
  with Cons.prems show ?case by simp
qed

section \<open>Strings\<close>

definition hasPrefix :: "string \<Rightarrow> string \<Rightarrow> bool" where
  "hasPrefix s p \<longleftrightarrow> take (length p) s = p"

definition hasSuffix :: "string \<Rightarrow> string \<Rightarrow> bool" where
  "hasSuffix s p \<longleftrightarrow> length p \<le> length s \<and> drop (length s - length p) s = p"

lemma hasPrefix_iff: "hasPrefix s p \<longleftrightarrow> (\<exists>r. s = p @ r)"
  unfolding hasPrefix_def by (metis append_eq_conv_conj append_take_drop_id)

lemma hasSuffix_iff: "hasSuffix s p \<longleftrightarrow> (\<exists>r. s = r @ p)"
proof
  assume "hasSuffix s p"
  then have "s = take (length s - length p) s @ p"
    unfolding hasSuffix_def by (metis append_take_drop_id)
  then show "\<exists>r. s = r @ p" by blast
next
  assume "\<exists>r. s = r @ p"
  then show "hasSuffix s p" by (auto simp: hasSuffix_def)
qed

lemma hasPrefix_refl [simp]: "hasPrefix s s"
  by (simp add: hasPrefix_def)

lemma hasPrefix_trans: "hasPrefix a b \<Longrightarrow> hasPrefix b c \<Longrightarrow> hasPrefix a c"
  by (auto simp: hasPrefix_iff)

text \<open>\<open>strings.ToLower\<close> on ASCII.\<close>

definition lower_char :: "char \<Rightarrow> char" where
  "lower_char c = (let n = of_char c :: nat in
     if 65 \<le> n \<and> n \<le> 90 then char_of (n + 32) else c)"

definition toLower :: "string \<Rightarrow> string" where
  "toLower s = map lower_char s"

definition replace_char :: "char \<Rightarrow> char \<Rightarrow> string \<Rightarrow> string" where
  "replace_char a b s = map (\<lambda>c. if c = a then b else c) s"

lemma replace_char_id: "a \<notin> set s \<Longrightarrow> replace_char a b s = s"
  by (auto simp: replace_char_def intro: map_idI)

lemma inj_replace_char:
  assumes "b \<notin> set s" "b \<notin> set t" "replace_char a b s = replace_char a b t"
  shows "s = t"
proof -
  have "length s = length t"
    using assms(3) by (metis length_map replace_char_def)
  then show ?thesis using assms
  proof (induction s t rule: list_induct2)
    case Nil
    show ?case by simp
  next
    case (Cons x xs y ys)
    then show ?case by (auto simp: replace_char_def split: if_splits)
  qed
qed

fun join_strings :: "string \<Rightarrow> string list \<Rightarrow> string" where
  "join_strings sep [] = []"
| "join_strings sep [x] = x"
| "join_strings sep (x # y # xs) = x @ sep @ join_strings sep (y # xs)"

fun split_char :: "char \<Rightarrow> string \<Rightarrow> string list" where
  "split_char c [] = [[]]"
| "split_char c (x # xs) =
     (if x = c then [] # split_char c xs
      else (case split_char c xs of [] \<Rightarrow> [[x]] | p # ps \<Rightarrow> (x # p) # ps))"

lemma split_char_nonempty [simp]: "split_char c s \<noteq> []"
  by (induction s) (auto split: list.split)

text \<open>\<open>strconv\<close>/\<open>fmt.Sprintf("%d")\<close> on non-negative integers.\<close>

fun show_nat :: "nat \<Rightarrow> string" where
  "show_nat n = (if n < 10 then [char_of (48 + n)] else show_nat (n div 10) @ [char_of (48 + n mod 10)])"

declare show_nat.simps [simp del]

text \<open>\<open>path.Clean\<close> and \<open>path.Join\<close>: the slash-separated elements are kept on a stack, empty and
  \<open>.\<close> elements are dropped, and \<open>..\<close> removes the element before it when there is one.\<close>

fun clean_elems :: "bool \<Rightarrow> string list \<Rightarrow> string list \<Rightarrow> string list" where
  "clean_elems rooted acc [] = rev acc"
| "clean_elems rooted acc (e # es) =
     (if e = [] \<or> e = ''.'' then clean_elems rooted acc es
      else if e = ''..'' then
        (case acc of
           a # acc' \<Rightarrow> if a \<noteq> ''..'' then clean_elems rooted acc' es
                      else clean_elems rooted (e # acc) es
         | [] \<Rightarrow> if rooted then clean_elems rooted [] es else clean_elems rooted [e] es)
      else clean_elems rooted (e # acc) es)"

definition path_clean :: "string \<Rightarrow> string" where
  "path_clean p =
     (if p = [] then ''.''
      else let rooted = (hd p = CHR ''/'');
               es = clean_elems rooted [] (split_char (CHR ''/'') p);
               body = join_strings ''/'' es
           in if rooted then ''/'' @ body else if body = [] then ''.'' else body)"

definition path_join :: "string \<Rightarrow> string \<Rightarrow> string" where
  "path_join a b =
     (let es = filter (\<lambda>e. e \<noteq> []) [a, b]
      in if es = [] then [] else path_clean (join_strings ''/'' es))"

section \<open>Sorting\<close>

text \<open>\<open>sort.Stable\<close> and \<open>sort.SliceStable\<close>: the insertion sort they run on a block. The element at
  the next position moves left while it is less than its left neighbour; the sorted prefix is kept
  reversed. For a comparison that is a strict weak order every stable sort gives this result.\<close>

fun insert_back :: "('a \<Rightarrow> 'a \<Rightarrow> bool) \<Rightarrow> 'a \<Rightarrow> 'a list \<Rightarrow> 'a list" where
  "insert_back lt x [] = [x]"
| "insert_back lt x (y # ys) = (if lt x y then y # insert_back lt x ys else x # y # ys)"

definition sort_stable :: "('a \<Rightarrow> 'a \<Rightarrow> bool) \<Rightarrow> 'a list \<Rightarrow> 'a list" where
  "sort_stable lt xs = rev (foldl (\<lambda>acc x. insert_back lt x acc) [] xs)"

lemma mset_insert_back [simp]: "mset (insert_back lt x ys) = add_mset x (mset ys)"
  by (induction ys) auto

lemma set_insert_back [simp]: "set (insert_back lt x ys) = insert x (set ys)"
  by (induction ys) auto

lemma mset_foldl_insert_back:
  "mset (foldl (\<lambda>acc x. insert_back lt x acc) acc xs) = mset acc + mset xs"
  by (induction xs arbitrary: acc) auto

lemma mset_sort_stable [simp]: "mset (sort_stable lt xs) = mset xs"
  by (simp add: sort_stable_def mset_foldl_insert_back)

lemma set_sort_stable [simp]: "set (sort_stable lt xs) = set xs"
  by (metis mset_sort_stable set_mset_mset)

lemma length_sort_stable [simp]: "length (sort_stable lt xs) = length xs"
  by (metis mset_sort_stable size_mset)

text \<open>The order the comparison asks for: \<open>le a b\<close> means that \<open>a\<close> may stand before \<open>b\<close>.\<close>

lemma sorted_insert_back:
  assumes pass: "\<And>a b. a \<in> S \<Longrightarrow> b \<in> S \<Longrightarrow> lt a b \<Longrightarrow> le a b"
    and stop: "\<And>a b. a \<in> S \<Longrightarrow> b \<in> S \<Longrightarrow> \<not> lt a b \<Longrightarrow> le b a"
    and trans: "\<And>a b c. a \<in> S \<Longrightarrow> b \<in> S \<Longrightarrow> c \<in> S \<Longrightarrow> le a b \<Longrightarrow> le b c \<Longrightarrow> le a c"
    and "x \<in> S" "set ys \<subseteq> S" "sorted_wrt (\<lambda>a b. le b a) ys"
  shows "sorted_wrt (\<lambda>a b. le b a) (insert_back lt x ys)"
  using assms(4-6)
proof (induction ys)
  case Nil
  then show ?case by simp
next
  case (Cons y ys)
  show ?case
  proof (cases "lt x y")
    case True
    with Cons pass [of x y] show ?thesis by auto
  next
    case False
    with Cons.prems stop [of x y] have yx: "le y x" by auto
    have "le z x" if "z \<in> set ys" for z
      using that Cons.prems yx by (intro trans [of z y x]) auto
    with False yx Cons.prems show ?thesis by auto
  qed
qed

lemma sorted_sort_stable:
  assumes pass: "\<And>a b. a \<in> set xs \<Longrightarrow> b \<in> set xs \<Longrightarrow> lt a b \<Longrightarrow> le a b"
    and stop: "\<And>a b. a \<in> set xs \<Longrightarrow> b \<in> set xs \<Longrightarrow> \<not> lt a b \<Longrightarrow> le b a"
    and trans: "\<And>a b c. a \<in> set xs \<Longrightarrow> b \<in> set xs \<Longrightarrow> c \<in> set xs \<Longrightarrow> le a b \<Longrightarrow> le b c \<Longrightarrow> le a c"
  shows "sorted_wrt le (sort_stable lt xs)"
proof -
  have "sorted_wrt (\<lambda>a b. le b a) (foldl (\<lambda>acc x. insert_back lt x acc) acc zs)"
    if "set acc \<subseteq> set xs" "set zs \<subseteq> set xs" "sorted_wrt (\<lambda>a b. le b a) acc" for acc zs
    using that
  proof (induction zs arbitrary: acc)
    case Nil
    then show ?case by simp
  next
    case (Cons z zs)
    then have "sorted_wrt (\<lambda>a b. le b a) (insert_back lt z acc)"
      using sorted_insert_back [of "set xs" lt le z acc, OF pass stop trans] by simp
    with Cons show ?case by auto
  qed
  from this [of "[]" xs] show ?thesis
    by (simp add: sort_stable_def sorted_wrt_rev)
qed

section \<open>Go maps\<close>

text \<open>The order in which a \<open>range\<close> loop visits the keys of a map: any enumeration of its domain.\<close>

definition iter_order :: "('k \<rightharpoonup> 'v) \<Rightarrow> 'k list \<Rightarrow> bool" where
  "iter_order m ks \<longleftrightarrow> distinct ks \<and> set ks = dom m"

lemma iter_orderD:
  assumes "iter_order m ks"
  shows "distinct ks" "set ks = dom m"
  using assms by (auto simp: iter_order_def)

lemma iter_order_length:
  assumes "iter_order m ks" "iter_order m ks'"
  shows "length ks = length ks'"
  using assms distinct_card [of ks] distinct_card [of ks'] by (simp add: iter_order_def)

lemma iter_order_mset:
  assumes "iter_order m ks" "iter_order m ks'"
  shows "mset ks = mset ks'"
  using assms by (simp add: iter_order_def set_eq_iff_mset_eq_distinct [symmetric])

text \<open>\<open>slices.IndexFunc\<close>, with \<open>None\<close> for -1.\<close>

fun indexFunc :: "('a \<Rightarrow> bool) \<Rightarrow> 'a list \<Rightarrow> nat option" where
  "indexFunc P [] = None"
| "indexFunc P (x # xs) = (if P x then Some 0 else map_option Suc (indexFunc P xs))"

lemma indexFunc_None_iff [simp]: "indexFunc P xs = None \<longleftrightarrow> (\<forall>x \<in> set xs. \<not> P x)"
  by (induction xs) auto

lemma indexFunc_SomeD: "indexFunc P xs = Some i \<Longrightarrow> i < length xs \<and> P (xs ! i)"
  by (induction xs arbitrary: i) (auto split: if_splits)

section \<open>Lists\<close>

text \<open>A map over a list that threads a state.\<close>

fun map_st :: "('s \<Rightarrow> 'a \<Rightarrow> 's \<times> 'b) \<Rightarrow> 's \<Rightarrow> 'a list \<Rightarrow> 's \<times> 'b list" where
  "map_st f s [] = (s, [])"
| "map_st f s (x # xs) = (let (s, y) = f s x; (s, ys) = map_st f s xs in (s, y # ys))"


lemma foldl_invariant:
  assumes "\<And>acc x. x \<in> set xs \<Longrightarrow> P acc \<Longrightarrow> P (f acc x)" "P acc"
  shows "P (foldl f acc xs)"
  using assms by (induction xs arbitrary: acc) auto

lemma concat_map_filter_single:
  "concat (map (\<lambda>x. if P x then [f x] else []) xs) = map f (filter P xs)"
  by (induction xs) auto

end
