(* ===== verification/GatewayApi.thy ===== *)
theory GatewayApi
  imports Prelude
begin

text \<open>
  The data of the Kubernetes Gateway API (\<open>sigs.k8s.io/gateway-api/apis/v1\<close>, \<open>metav1\<close>) as far as
  the program reads it: gateways with their listeners, HTTP routes with their rules, references,
  reference grants and status conditions. String enumerations of the API keep their string values.

  A route match holds its path by pointer, and the delegation code writes through that pointer, so
  the types of matches, rules and routes are parametrised by the representation \<open>'p\<close> of that
  pointer's target: an API object read from the cluster carries the path itself
  (an \<open>http_path_match\<close>), an object in the translator's memory carries a location.
\<close>

section \<open>Names, references, conditions\<close>

datatype namespaced_name = NamespacedName (nn_Namespace: string) (nn_Name: string)

text \<open>\<open>types.NamespacedName.String()\<close>\<close>

definition nn_String :: "namespaced_name \<Rightarrow> string" where
  "nn_String n = nn_Namespace n @ ''/'' @ nn_Name n"

lemma nn_String_inj:
  assumes "CHR ''/'' \<notin> set (nn_Namespace a)" "CHR ''/'' \<notin> set (nn_Namespace b)"
    and "nn_String a = nn_String b"
  shows "a = b"
proof -
  have take_ns: "takeWhile (\<lambda>c. c \<noteq> CHR ''/'') (s @ CHR ''/'' # t) = s"
    if "CHR ''/'' \<notin> set s" for s t
    using that by (induction s) auto
  have "takeWhile (\<lambda>c. c \<noteq> CHR ''/'') (nn_String a) = nn_Namespace a"
    and "takeWhile (\<lambda>c. c \<noteq> CHR ''/'') (nn_String b) = nn_Namespace b"
    using take_ns [OF assms(1)] take_ns [OF assms(2)] by (simp_all add: nn_String_def)
  with assms(3) have ns: "nn_Namespace a = nn_Namespace b" by simp
  with assms(3) have "nn_Name a = nn_Name b" by (simp add: nn_String_def)
  with ns show ?thesis by (cases a; cases b) simp
qed

datatype group_kind = GroupKind (gk_Group: string) (gk_Kind: string)

type_synonym port_number = "32 word"

record parent_reference =
  pr_Group :: "string option"
  pr_Kind :: "string option"
  pr_Namespace :: "string option"
  pr_Name :: string
  pr_SectionName :: "string option"
  pr_Port :: "port_number option"

record condition =
  cond_Type :: string
  cond_Status :: string
  cond_ObservedGeneration :: int
  cond_LastTransitionTime :: int
  cond_Reason :: string
  cond_Message :: string

text \<open>The zero value of \<open>metav1.Condition\<close>'s time.\<close>

abbreviation zeroTime :: int where "zeroTime \<equiv> 0"

abbreviation ConditionTrue :: string where "ConditionTrue \<equiv> ''True''"
abbreviation ConditionFalse :: string where "ConditionFalse \<equiv> ''False''"

abbreviation GroupName :: string where "GroupName \<equiv> ''gateway.networking.k8s.io''"
abbreviation HTTPRouteKind :: string where "HTTPRouteKind \<equiv> ''HTTPRoute''"
abbreviation GatewayKind :: string where "GatewayKind \<equiv> ''Gateway''"
abbreviation ServiceKind :: string where "ServiceKind \<equiv> ''Service''"

section \<open>Gateways\<close>

record route_group_kind =
  rgk_Group :: "string option"
  rgk_Kind :: string

text \<open>A label selector is opaque to the program: it is handed to the API library.\<close>

record 'sel route_namespaces =
  rns_From :: "string option"
  rns_Selector :: "'sel option"

record 'sel allowed_routes =
  ar_Namespaces :: "'sel route_namespaces option"
  ar_Kinds :: "route_group_kind list option"

record secret_object_reference =
  sr_Group :: "string option"
  sr_Kind :: "string option"
  sr_Name :: string
  sr_Namespace :: "string option"

record gateway_tls_config =
  tls_Mode :: "string option"
  tls_CertificateRefs :: "secret_object_reference list"

record 'sel listener =
  l_Name :: string
  l_Hostname :: "string option"
  l_Port :: port_number
  l_Protocol :: string
  l_TLS :: "gateway_tls_config option"
  l_AllowedRoutes :: "'sel allowed_routes option"

abbreviation HTTPProtocolType :: string where "HTTPProtocolType \<equiv> ''HTTP''"
abbreviation HTTPSProtocolType :: string where "HTTPSProtocolType \<equiv> ''HTTPS''"
abbreviation TLSProtocolType :: string where "TLSProtocolType \<equiv> ''TLS''"
abbreviation TCPProtocolType :: string where "TCPProtocolType \<equiv> ''TCP''"
abbreviation UDPProtocolType :: string where "UDPProtocolType \<equiv> ''UDP''"

record listener_status =
  ls_Name :: string
  ls_SupportedKinds :: "route_group_kind list"
  ls_AttachedRoutes :: "32 word"
  ls_Conditions :: "condition list"

text \<open>An address of a status holds its type by pointer. Equality of Go structs compares the pointer
  and not the type it points to, so the pointer keeps its location.\<close>

datatype 'a ptr = Ptr (ptr_loc: nat) (ptr_target: 'a)

record gateway_status_address =
  gsa_Type :: "string ptr option"
  gsa_Value :: string

record gateway_status =
  gs_Addresses :: "gateway_status_address list"
  gs_Conditions :: "condition list"
  gs_Listeners :: "listener_status list"

record 'sel gateway =
  gw_Kind :: string
  gw_APIVersion :: string
  gw_Namespace :: string
  gw_Name :: string
  gw_UID :: string
  gw_Generation :: int
  gw_DeletionTimestamp :: "int option"
  gw_Annotations :: "string \<rightharpoonup> string"
  gw_GatewayClassName :: string
  gw_Listeners :: "'sel listener list"
  gw_Status :: gateway_status

definition gw_key :: "'sel gateway \<Rightarrow> namespaced_name" where
  "gw_key gw = NamespacedName (gw_Namespace gw) (gw_Name gw)"

section \<open>HTTP routes\<close>

record http_path_match =
  pm_Type :: "string option"
  pm_Value :: "string option"

record http_header_match =
  hhm_Type :: "string option"
  hhm_Name :: string
  hhm_Value :: string

record http_query_param_match =
  hqm_Type :: "string option"
  hqm_Name :: string
  hqm_Value :: string

record 'p http_route_match =
  hm_Path :: "'p option"
  hm_Headers :: "http_header_match list"
  hm_QueryParams :: "http_query_param_match list"
  hm_Method :: "string option"

abbreviation PathMatchExact :: string where "PathMatchExact \<equiv> ''Exact''"
abbreviation PathMatchPathPrefix :: string where "PathMatchPathPrefix \<equiv> ''PathPrefix''"
abbreviation PathMatchRegularExpression :: string where
  "PathMatchRegularExpression \<equiv> ''RegularExpression''"

record backend_object_reference =
  bor_Group :: "string option"
  bor_Kind :: "string option"
  bor_Name :: string
  bor_Namespace :: "string option"
  bor_Port :: "port_number option"

record http_header =
  hh_Name :: string
  hh_Value :: string

record http_header_filter =
  hf_Set :: "http_header list"
  hf_Add :: "http_header list"
  hf_Remove :: "string list"

record http_path_modifier =
  hpm_Type :: string
  hpm_ReplaceFullPath :: "string option"
  hpm_ReplacePrefixMatch :: "string option"

record http_request_redirect_filter =
  rr_Scheme :: "string option"
  rr_Hostname :: "string option"
  rr_Path :: "http_path_modifier option"
  rr_Port :: "port_number option"
  rr_StatusCode :: "int option"

record http_url_rewrite_filter =
  ur_Hostname :: "string option"
  ur_Path :: "http_path_modifier option"

record local_object_reference =
  lor_Group :: string
  lor_Kind :: string
  lor_Name :: string

record http_route_filter =
  hrf_Type :: string
  hrf_RequestHeaderModifier :: "http_header_filter option"
  hrf_ResponseHeaderModifier :: "http_header_filter option"
  hrf_RequestMirror :: "backend_object_reference option"
  hrf_RequestRedirect :: "http_request_redirect_filter option"
  hrf_URLRewrite :: "http_url_rewrite_filter option"
  hrf_ExtensionRef :: "local_object_reference option"

record http_backend_ref =
  br_Ref :: backend_object_reference
  br_Weight :: "32 word option"
  br_Filters :: "http_route_filter list"

text \<open>The code tells a nil list of matches from an empty one, and a nil list of hostnames from an
  empty one.\<close>

record 'p http_route_rule =
  rule_Matches :: "'p http_route_match list option"
  rule_Filters :: "http_route_filter list"
  rule_BackendRefs :: "http_backend_ref list"

definition rule_matches :: "'p http_route_rule \<Rightarrow> 'p http_route_match list" where
  "rule_matches r = (case rule_Matches r of None \<Rightarrow> [] | Some ms \<Rightarrow> ms)"

record route_parent_status =
  rps_ParentRef :: parent_reference
  rps_ControllerName :: string
  rps_Conditions :: "condition list"

record 'p http_route =
  hr_Namespace :: string
  hr_Name :: string
  hr_Generation :: int
  hr_CreationTimestamp :: int
  hr_Annotations :: "string \<rightharpoonup> string"
  hr_ParentRefs :: "parent_reference list"
  hr_Hostnames :: "string list option"
  hr_Rules :: "'p http_route_rule list"
  hr_Status :: "route_parent_status list"

definition hr_key :: "'p http_route \<Rightarrow> namespaced_name" where
  "hr_key hr = NamespacedName (hr_Namespace hr) (hr_Name hr)"

definition hr_hostnames :: "'p http_route \<Rightarrow> string list" where
  "hr_hostnames hr = (case hr_Hostnames hr of None \<Rightarrow> [] | Some hs \<Rightarrow> hs)"

section \<open>Reference grants\<close>

record reference_grant_from =
  rgf_Group :: string
  rgf_Kind :: string
  rgf_Namespace :: string

record reference_grant_to =
  rgt_Group :: string
  rgt_Kind :: string
  rgt_Name :: "string option"

record reference_grant =
  rg_Namespace :: string
  rg_From :: "reference_grant_from list"
  rg_To :: "reference_grant_to list"

end
