(* ===== verification/OptionsApi.thy ===== *)
theory OptionsApi
  imports GatewayApi
begin

text \<open>
  The option resources of Gloo (\<open>RouteOption\<close>, \<open>VirtualHostOption\<close>, \<open>ListenerOption\<close> and \<open>HttpListenerOption\<close> of
  \<open>projects/gateway/pkg/api/v1\<close>, generated from protocol buffers) and the option messages they hold
  (\<open>projects/gloo/pkg/api/v1\<close>), as far as the gateway translator reads and writes them.
\<close>

section \<open>Options\<close>

record resource_ref =
  rref_Name :: string
  rref_Namespace :: string

record header_value_option =
  hvo_Key :: string
  hvo_Value :: string
  hvo_Append :: bool

record header_manipulation =
  hman_RequestHeadersToAdd :: "header_value_option list"
  hman_RequestHeadersToRemove :: "string list"
  hman_ResponseHeadersToAdd :: "header_value_option list"
  hman_ResponseHeadersToRemove :: "string list"

record regex_rewrite =
  rw_Regex :: string
  rw_Substitution :: string

record route_shadowing =
  sh_Upstream :: resource_ref
  sh_Percentage :: nat

text \<open>Option messages have many fields the translator only passes on. They are a list of the names of
  their Go fields with their values, without the fields whose value is empty.\<close>

type_synonym option_fields = "(string \<times> string) list"

datatype host_rewrite_type =
    HostRewrite string
  | AutoHostRewrite bool
  | HostRewritePathRegex string
  | HostRewriteHeader string

record route_options =
  ro_HeaderManipulation :: "header_manipulation option"
  ro_HostRewriteType :: "host_rewrite_type option"
  ro_PrefixRewrite :: "string option"
  ro_RegexRewrite :: "regex_rewrite option"
  ro_Shadowing :: "route_shadowing option"
  ro_Fields :: option_fields

definition NewRouteOptions :: route_options where
  "NewRouteOptions = \<lparr>ro_HeaderManipulation = None, ro_HostRewriteType = None, ro_PrefixRewrite = None,
     ro_RegexRewrite = None, ro_Shadowing = None, ro_Fields = []\<rparr>"

section \<open>Resources\<close>

text \<open>A reference of a policy to its target, \<open>PolicyTargetReferenceWithSectionName\<close>; those of a \<open>RouteOption\<close>
  have no section name.\<close>

record policy_target_ref =
  ptr_Group :: string
  ptr_Kind :: string
  ptr_Name :: string
  ptr_Namespace :: "string option"
  ptr_SectionName :: "string option"

text \<open>A policy resource with options \<open>'o\<close>. The kind is that of its type meta.\<close>

record 'o policy =
  pol_Namespace :: string
  pol_Name :: string
  pol_Kind :: string
  pol_Generation :: int
  pol_CreationTimestamp :: int
  pol_TargetRefs :: "policy_target_ref option list"
  pol_Options :: "'o option"

type_synonym route_option = "route_options policy"
type_synonym virtual_host_option = "option_fields policy"
type_synonym listener_option = "option_fields policy"
type_synonym http_listener_option = "option_fields policy"

text \<open>\<open>client.ObjectKeyFromObject\<close>\<close>

definition pol_key :: "'o policy \<Rightarrow> namespaced_name" where
  "pol_key p = NamespacedName (pol_Namespace p) (pol_Name p)"

end
