(* ===== verification/Query.thy ===== *)
theory Query
  imports OptionsApi
begin

text \<open>
  The query engine of the translator, \<open>projects/gateway2/query\<close> and \<open>translator/backendref\<close>: which
  routes attach to which listeners of a gateway, which backends and delegated routes a route refers
  to, and whether a cross-namespace reference is permitted.

  The Kubernetes API server and the client library are not part of the program. They are the record
  \<open>k8s_client\<close>, an argument of every operation that reads the cluster; nothing is assumed of it here.

  Every object read through the client is a fresh copy. The parts of it that the translator later
  writes to are kept in an explicit memory: the targets of the \<open>Path\<close> pointers of route matches, and
  the \<open>HTTPRouteInfo\<close> structs, which hold the array of rules of their route. A pointer to either is an
  index into the memory.
\<close>

section \<open>Errors\<close>

datatype go_error =
    ErrMissingReferenceGrant
  | ErrUnknownBackendKind
  | ErrNoMatchingListenerHostname
  | ErrNoMatchingParent
  | ErrNotAllowedByListeners
  | ErrLocalObjRefMissingKind
  | ErrCyclicReference
  | ErrUnresolvedReference
  | ApiNotFound string
  | ErrMsg string
  | Wrapped string go_error
  | Detailed go_error string

text \<open>The last two are errors made with \<open>fmt.Errorf("...: %w")\<close> and \<open>fmt.Errorf("%w: ...")\<close>. Then
  \<open>errors.Is\<close> and \<open>error.Error()\<close>.\<close>

fun errors_Is :: "go_error \<Rightarrow> go_error \<Rightarrow> bool" where
  "errors_Is (Wrapped m e) t = (Wrapped m e = t \<or> errors_Is e t)"
| "errors_Is (Detailed e m) t = (Detailed e m = t \<or> errors_Is e t)"
| "errors_Is e t = (e = t)"

fun IsNotFound :: "go_error \<Rightarrow> bool" where
  "IsNotFound (ApiNotFound _) = True"
| "IsNotFound (Wrapped _ e) = IsNotFound e"
| "IsNotFound (Detailed e _) = IsNotFound e"
| "IsNotFound _ = False"

fun err_Error :: "go_error \<Rightarrow> string" where
  "err_Error ErrMissingReferenceGrant = ''missing reference grant''"
| "err_Error ErrUnknownBackendKind = ''unknown backend kind''"
| "err_Error ErrNoMatchingListenerHostname = ''no matching listener hostname''"
| "err_Error ErrNoMatchingParent = ''no matching parent''"
| "err_Error ErrNotAllowedByListeners = ''not allowed by listeners''"
| "err_Error ErrLocalObjRefMissingKind = ''localObjRef provided with empty kind''"
| "err_Error ErrCyclicReference = ''cyclic reference detected while evaluating delegated routes''"
| "err_Error ErrUnresolvedReference = ''unresolved reference''"
| "err_Error (ApiNotFound m) = m"
| "err_Error (ErrMsg m) = m"
| "err_Error (Wrapped m e) = m @ '': '' @ err_Error e"
| "err_Error (Detailed e m) = err_Error e @ '': '' @ m"

section \<open>Backend references (backendref/types.go)\<close>

abbreviation GlooGroup :: string where "GlooGroup \<equiv> ''gloo.solo.io''"
abbreviation UpstreamKind :: string where "UpstreamKind \<equiv> ''Upstream''"

definition RefIsService :: "backend_object_reference \<Rightarrow> bool" where
  "RefIsService ref \<longleftrightarrow> (bor_Kind ref = None \<or> bor_Kind ref = Some ServiceKind) \<and>
     (bor_Group ref = None \<or> bor_Group ref = Some [])"

definition RefIsUpstream :: "backend_object_reference \<Rightarrow> bool" where
  "RefIsUpstream ref \<longleftrightarrow> bor_Kind ref = Some UpstreamKind \<and> bor_Group ref = Some GlooGroup"

definition RefIsHTTPRoute :: "backend_object_reference \<Rightarrow> bool" where
  "RefIsHTTPRoute ref \<longleftrightarrow> bor_Kind ref = Some HTTPRouteKind \<and> bor_Group ref = Some GroupName"

definition ptrOrDefault :: "'a option \<Rightarrow> 'a \<Rightarrow> 'a" where
  "ptrOrDefault p fallback = (case p of None \<Rightarrow> fallback | Some v \<Rightarrow> v)"

definition backendref_ToString :: "backend_object_reference \<Rightarrow> string" where
  "backendref_ToString ref = ptrOrDefault (bor_Kind ref) [] @ ''.'' @ ptrOrDefault (bor_Group ref) [] @
     '' '' @ ptrOrDefault (bor_Namespace ref) [] @ ''/'' @ bor_Name ref"

section \<open>Backend maps (backendmap.go)\<close>

record 'a backend_map =
  bm_items :: "string \<rightharpoonup> 'a"
  bm_errors :: "string \<rightharpoonup> go_error"

definition NewBackendMap :: "'a backend_map" where
  "NewBackendMap = \<lparr>bm_items = Map.empty, bm_errors = Map.empty\<rparr>"

definition backendToRefKey :: "backend_object_reference \<Rightarrow> string" where
  "backendToRefKey ref = ptrOrDefault (bor_Group ref) [] @ ''~'' @ ptrOrDefault (bor_Kind ref) [] @ ''~'' @
     bor_Name ref @ ''~'' @ ptrOrDefault (bor_Namespace ref) []"

definition bm_Add :: "'a backend_map \<Rightarrow> backend_object_reference \<Rightarrow> 'a \<Rightarrow> 'a backend_map" where
  "bm_Add bm ref v = bm\<lparr>bm_items := (bm_items bm)(backendToRefKey ref \<mapsto> v)\<rparr>"

definition bm_AddError :: "'a backend_map \<Rightarrow> backend_object_reference \<Rightarrow> go_error \<Rightarrow> 'a backend_map" where
  "bm_AddError bm ref e = bm\<lparr>bm_errors := (bm_errors bm)(backendToRefKey ref \<mapsto> e)\<rparr>"

definition bm_get :: "'a backend_map \<Rightarrow> backend_object_reference \<Rightarrow> go_error + 'a" where
  "bm_get bm ref =
     (case bm_errors bm (backendToRefKey ref) of
        Some e \<Rightarrow> Inl e
      | None \<Rightarrow> (case bm_items bm (backendToRefKey ref) of
                  Some v \<Rightarrow> Inr v
                | None \<Rightarrow> Inl ErrUnresolvedReference))"

section \<open>The cluster\<close>

datatype upstream_type = UpstreamAws | UpstreamAzure | UpstreamOther

record secret =
  sec_Namespace :: string
  sec_Name :: string
  sec_Data :: "string \<rightharpoonup> string"

record direct_response =
  dr_Namespace :: string
  dr_Name :: string
  dr_StatusCode :: "32 word"
  dr_Body :: string

text \<open>The objects the code tells apart by a type switch.\<close>

datatype k8s_object =
    ObjService (obj_ns: string) (obj_name: string)
  | ObjUpstream (obj_ns: string) (obj_name: string) upstream_type
  | ObjSecret secret
  | ObjDirectResponse direct_response
  | ObjRouteOption route_option
  | ObjOther (obj_ns: string) (obj_name: string)

fun obj_GetNamespace :: "k8s_object \<Rightarrow> string" where
  "obj_GetNamespace (ObjService ns _) = ns"
| "obj_GetNamespace (ObjUpstream ns _ _) = ns"
| "obj_GetNamespace (ObjSecret s) = sec_Namespace s"
| "obj_GetNamespace (ObjDirectResponse d) = dr_Namespace d"
| "obj_GetNamespace (ObjRouteOption p) = pol_Namespace p"
| "obj_GetNamespace (ObjOther ns _) = ns"

fun obj_GetName :: "k8s_object \<Rightarrow> string" where
  "obj_GetName (ObjService _ n) = n"
| "obj_GetName (ObjUpstream _ n _) = n"
| "obj_GetName (ObjSecret s) = sec_Name s"
| "obj_GetName (ObjDirectResponse d) = dr_Name d"
| "obj_GetName (ObjRouteOption p) = pol_Name p"
| "obj_GetName (ObjOther _ n) = n"

text \<open>The dynamic type of an object as \<open>%T\<close> prints it.\<close>

fun obj_type :: "k8s_object \<Rightarrow> string" where
  "obj_type (ObjService _ _) = ''*v1.Service''"
| "obj_type (ObjUpstream _ _ _) = ''*v1.Upstream''"
| "obj_type (ObjSecret _) = ''*v1.Secret''"
| "obj_type (ObjDirectResponse _) = ''*v1alpha1.DirectResponse''"
| "obj_type (ObjRouteOption _) = ''*v1.RouteOption''"
| "obj_type (ObjOther _ _) = ''client.Object''"

type_synonym labels = "string \<rightharpoonup> string"
type_synonym api_route = "http_path_match http_route"
type_synonym route = "nat http_route"

text \<open>The client and the scheme: reads of the cluster by field index, by namespace and by name, the
  reference grants indexed by the namespace they grant, the labels of a namespace (none when the
  namespace cannot be read), the conversion of label selectors and the kinds the scheme knows.
  \<open>kc_New\<close> says whether the new object of a kind is a \<open>client.Object\<close>.\<close>

record 'sel k8s_client =
  kc_ListRoutesByTarget :: "string \<Rightarrow> go_error + api_route list"
  kc_ListRoutesInNamespace :: "string \<Rightarrow> go_error + api_route list"
  kc_GetRoute :: "namespaced_name \<Rightarrow> go_error + api_route"
  kc_GetObject :: "group_kind \<Rightarrow> string \<Rightarrow> namespaced_name \<Rightarrow> go_error + k8s_object"
  kc_ListGrants :: "string \<Rightarrow> string \<Rightarrow> go_error + reference_grant list"
  kc_NamespaceLabels :: "string \<Rightarrow> labels"
  kc_LabelSelectorAsSelector :: "'sel \<Rightarrow> go_error + (labels \<Rightarrow> bool)"
  kc_VersionsForGroupKind :: "group_kind \<Rightarrow> string list"
  kc_New :: "group_kind \<Rightarrow> string \<Rightarrow> go_error + bool"
  kc_ObjectKindsHTTPRoute :: "go_error + (group_kind list \<times> bool)"

text \<open>\<open>From\<close>: the origin of a reference.\<close>

record ref_from =
  fr_GroupKind :: "go_error + group_kind"
  fr_Namespace :: string

definition FromObject_GroupKind :: "(go_error + (group_kind list \<times> bool)) \<Rightarrow> go_error + group_kind" where
  "FromObject_GroupKind kinds =
     (case kinds of
        Inl _ \<Rightarrow> Inl (ErrMsg ''failed to get object kind *v1.HTTPRoute'')
      | Inr (gvks, isUnversioned) \<Rightarrow>
          if isUnversioned then Inl (ErrMsg ''object of type *v1.HTTPRoute is not versioned'')
          else (case gvks of [gvk] \<Rightarrow> Inr gvk | _ \<Rightarrow> Inl (ErrMsg ''ambigous gvks for query.FromObject'')))"

definition ObjToFrom :: "'sel k8s_client \<Rightarrow> 'p http_route \<Rightarrow> ref_from" where
  "ObjToFrom kc hr = \<lparr>fr_GroupKind = FromObject_GroupKind (kc_ObjectKindsHTTPRoute kc),
     fr_Namespace = hr_Namespace hr\<rparr>"

definition FromGkNs :: "group_kind \<Rightarrow> string \<Rightarrow> ref_from" where
  "FromGkNs gk ns = \<lparr>fr_GroupKind = Inr gk, fr_Namespace = ns\<rparr>"

section \<open>References (query.go)\<close>

definition coreIfEmpty :: "string \<Rightarrow> string" where
  "coreIfEmpty s = (if s = [] then ''core'' else s)"

definition ReferenceAllowed ::
  "group_kind \<Rightarrow> string \<Rightarrow> group_kind \<Rightarrow> string \<Rightarrow> reference_grant list \<Rightarrow> bool" where
  "ReferenceAllowed fromgk fromns togk toname grantsInToNs =
     list_ex (\<lambda>refGrant.
       list_ex (\<lambda>from.
         (if rgf_Namespace from \<noteq> fromns then False
          else if coreIfEmpty (gk_Group fromgk) = coreIfEmpty (rgf_Group from) \<and> gk_Kind fromgk = rgf_Kind from
          then list_ex (\<lambda>to.
            (if coreIfEmpty (gk_Group togk) = coreIfEmpty (rgt_Group to) \<and> gk_Kind togk = rgt_Kind to
             then (case rgt_Name to of None \<Rightarrow> True | Some n \<Rightarrow> n = toname) else False)) (rg_To refGrant)
          else False)) (rg_From refGrant)) grantsInToNs"

definition referenceAllowed ::
  "'sel k8s_client \<Rightarrow> group_kind \<Rightarrow> string \<Rightarrow> group_kind \<Rightarrow> string \<Rightarrow> string \<Rightarrow> go_error + bool" where
  "referenceAllowed kc from fromns to tons toname =
     (case kc_ListGrants kc tons fromns of
        Inl e \<Rightarrow> Inl e
      | Inr gs \<Rightarrow> Inr (ReferenceAllowed from fromns to toname gs))"

definition getRef ::
  "'sel k8s_client \<Rightarrow> ref_from \<Rightarrow> string \<Rightarrow> string option \<Rightarrow> group_kind \<Rightarrow> go_error + k8s_object" where
  "getRef kc from backendName backendNS backendGK =
     (let fromNs = (if fr_Namespace from = [] then ''default'' else fr_Namespace from);
          ns = (case backendNS of None \<Rightarrow> fromNs | Some n \<Rightarrow> n);
          permitted = (if ns \<noteq> fromNs
             then (case fr_GroupKind from of
                     Inl e \<Rightarrow> Inl e
                   | Inr fromgk \<Rightarrow>
                      (case referenceAllowed kc fromgk fromNs backendGK ns backendName of
                         Inl e \<Rightarrow> Inl e
                       | Inr allowed \<Rightarrow> if allowed then Inr () else Inl ErrMissingReferenceGrant))
             else Inr ())
      in case permitted of
           Inl e \<Rightarrow> Inl e
         | Inr _ \<Rightarrow>
            (case kc_VersionsForGroupKind kc backendGK of
               [] \<Rightarrow> Inl ErrUnknownBackendKind
             | version # _ \<Rightarrow>
                (case kc_New kc backendGK version of
                   Inl e \<Rightarrow> Inl e
                 | Inr isObject \<Rightarrow>
                     if \<not> isObject then Inl (ErrMsg ''new object is not a client.Object'')
                     else kc_GetObject kc backendGK version (NamespacedName ns backendName))))"

definition GetSecretForRef :: "'sel k8s_client \<Rightarrow> ref_from \<Rightarrow> secret_object_reference \<Rightarrow> go_error + k8s_object" where
  "GetSecretForRef kc obj secretRef =
     getRef kc obj (sr_Name secretRef) (sr_Namespace secretRef)
       (GroupKind (ptrOrDefault (sr_Group secretRef) []) (ptrOrDefault (sr_Kind secretRef) ''Secret''))"

definition GetLocalObjRef :: "'sel k8s_client \<Rightarrow> ref_from \<Rightarrow> local_object_reference \<Rightarrow> go_error + k8s_object" where
  "GetLocalObjRef kc obj ref =
     (if lor_Kind ref = [] then Inl ErrLocalObjRefMissingKind
      else getRef kc obj (lor_Name ref) None (GroupKind (lor_Group ref) (lor_Kind ref)))"

definition GetBackendForRef :: "'sel k8s_client \<Rightarrow> ref_from \<Rightarrow> backend_object_reference \<Rightarrow> go_error + k8s_object" where
  "GetBackendForRef kc obj backend =
     getRef kc obj (bor_Name backend) (bor_Namespace backend)
       (GroupKind (ptrOrDefault (bor_Group backend) []) (ptrOrDefault (bor_Kind backend) ServiceKind))"

section \<open>Listeners and routes (query.go, httproute.go)\<close>

definition parentRefMatchListener :: "parent_reference \<Rightarrow> 'sel listener \<Rightarrow> bool" where
  "parentRefMatchListener ref l =
     (if pr_Port ref \<noteq> None \<and> pr_Port ref \<noteq> Some (l_Port l) then False
      else if pr_SectionName ref \<noteq> None \<and> pr_SectionName ref \<noteq> Some (l_Name l) then False
      else True)"

definition refersToGw :: "'sel gateway \<Rightarrow> 'p http_route \<Rightarrow> parent_reference \<Rightarrow> bool" where
  "refersToGw gw hr pRef =
     (if pr_Group pRef \<noteq> None \<and> pr_Group pRef \<noteq> Some ''gateway.networking.k8s.io'' then False
      else if pr_Kind pRef \<noteq> None \<and> pr_Kind pRef \<noteq> Some ''Gateway'' then False
      else let ns = (case pr_Namespace pRef of None \<Rightarrow> hr_Namespace hr | Some n \<Rightarrow> n)
           in ns = gw_Namespace gw \<and> pr_Name pRef = gw_Name gw)"

definition getParentRefsForGw :: "'sel gateway \<Rightarrow> 'p http_route \<Rightarrow> parent_reference list" where
  "getParentRefsForGw gw hr = filter (refersToGw gw hr) (hr_ParentRefs hr)"

text \<open>The route hostnames against an exact listener hostname: the first that equals it or is a
  wildcard covering it decides.\<close>

fun exactListenerMatch :: "string \<Rightarrow> string list \<Rightarrow> bool \<times> string list" where
  "exactListenerMatch lh [] = (False, [])"
| "exactListenerMatch lh (hrHost # hs) =
     (if hrHost = lh then (True, [lh])
      else if hasPrefix hrHost ''*.'' \<and> hasSuffix lh (drop 1 hrHost) then (True, [lh])
      else exactListenerMatch lh hs)"

definition hostnameIntersect :: "'sel listener \<Rightarrow> 'p http_route \<Rightarrow> bool \<times> string list" where
  "hostnameIntersect l hr =
     (case l_Hostname l of
        None \<Rightarrow> (True, hr_hostnames hr)
      | Some listenerHostname \<Rightarrow>
          if hasPrefix listenerHostname ''*.'' then
            (case hr_Hostnames hr of
               None \<Rightarrow> (True, [listenerHostname])
             | Some hs \<Rightarrow>
                 let hostnames = filter (\<lambda>h. hasSuffix h (drop 1 listenerHostname)) hs
                 in (hostnames \<noteq> [], hostnames))
          else if hr_hostnames hr = [] then (True, [listenerHostname])
          else exactListenerMatch listenerHostname (hr_hostnames hr))"

definition isRouteAllowed :: "string \<Rightarrow> string \<Rightarrow> group_kind list \<Rightarrow> bool" where
  "isRouteAllowed grp kind allowedKinds =
     list_ex (\<lambda>k. (if gk_Group k = [] then GroupName else gk_Group k) = grp \<and> gk_Kind k = kind) allowedKinds"

definition isHttpRouteAllowed :: "group_kind list \<Rightarrow> bool" where
  "isHttpRouteAllowed allowedKinds = isRouteAllowed GroupName HTTPRouteKind allowedKinds"

definition SameNamespace :: "string \<Rightarrow> string \<Rightarrow> bool" where
  "SameNamespace ns s \<longleftrightarrow> ns = s"

definition AllNamespace :: "string \<Rightarrow> bool" where
  "AllNamespace s \<longleftrightarrow> True"

definition NamespaceSelector :: "'sel k8s_client \<Rightarrow> (labels \<Rightarrow> bool) \<Rightarrow> string \<Rightarrow> bool" where
  "NamespaceSelector kc sel s = sel (kc_NamespaceLabels kc s)"

definition protocolKinds :: "string \<Rightarrow> group_kind list" where
  "protocolKinds p =
     (if p = HTTPSProtocolType \<or> p = HTTPProtocolType then [GroupKind GroupName HTTPRouteKind]
      else if p = TLSProtocolType \<or> p = TCPProtocolType then [GroupKind [] []]
      else if p = UDPProtocolType then [GroupKind [] []]
      else [GroupKind GroupName HTTPRouteKind])"

definition allowedRoutes ::
  "'sel k8s_client \<Rightarrow> 'sel gateway \<Rightarrow> 'sel listener \<Rightarrow> go_error + ((string \<Rightarrow> bool) \<times> group_kind list)" where
  "allowedRoutes kc gw l =
     (case l_AllowedRoutes l of
        None \<Rightarrow> Inr (SameNamespace (gw_Namespace gw), protocolKinds (l_Protocol l))
      | Some ar \<Rightarrow>
          let allowedKinds = (case ar_Kinds ar of
                 None \<Rightarrow> protocolKinds (l_Protocol l)
               | Some ks \<Rightarrow> map (\<lambda>k. GroupKind (ptrOrDefault (rgk_Group k) GroupName) (rgk_Kind k)) ks)
          in (case ar_Namespaces ar of
                None \<Rightarrow> Inr (SameNamespace (gw_Namespace gw), allowedKinds)
              | Some n \<Rightarrow>
                 (case rns_From n of
                    None \<Rightarrow> Inr (SameNamespace (gw_Namespace gw), allowedKinds)
                  | Some from \<Rightarrow>
                     if from = ''All'' then Inr (AllNamespace, allowedKinds)
                     else if from = ''Selector'' then
                       (case rns_Selector n of
                          None \<Rightarrow> Inl (ErrMsg ''selector must be set'')
                        | Some s \<Rightarrow>
                           (case kc_LabelSelectorAsSelector kc s of
                              Inl e \<Rightarrow> Inl e
                            | Inr sel \<Rightarrow> Inr (NamespaceSelector kc sel, allowedKinds)))
                     else Inr (SameNamespace (gw_Namespace gw), allowedKinds))))"

section \<open>Indexers (indexers.go)\<close>

definition resolveNs :: "string option \<Rightarrow> string" where
  "resolveNs ns = (case ns of None \<Rightarrow> [] | Some n \<Rightarrow> n)"

definition httpRouteToTargetIndexer :: "'p http_route \<Rightarrow> string list" where
  "httpRouteToTargetIndexer hr =
     map (\<lambda>pRef. let ns = resolveNs (pr_Namespace pRef);
                     ns = (if ns = [] then hr_Namespace hr else ns)
                 in nn_String (NamespacedName ns (pr_Name pRef)))
       (filter (\<lambda>pRef. \<not> (pr_Group pRef \<noteq> None \<and> pr_Group pRef \<noteq> Some GroupName) \<and>
                       \<not> (pr_Kind pRef \<noteq> None \<and> pr_Kind pRef \<noteq> Some ''Gateway''))
         (hr_ParentRefs hr))"

definition refGrantFromIndexer :: "reference_grant \<Rightarrow> string list" where
  "refGrantFromIndexer rg = map rgf_Namespace (filter (\<lambda>f. rgf_Namespace f \<noteq> []) (rg_From rg))"

section \<open>Memory\<close>

record http_route_info =
  hri_HTTPRoute :: route
  hri_ParentRef :: parent_reference
  hri_HostnameOverrides :: "string list"
  hri_Backends :: "k8s_object backend_map"
  hri_Children :: "nat list backend_map"

record mem =
  mem_paths :: "http_path_match list"
  mem_infos :: "http_route_info list"

text \<open>A read through the client: the object is copied into fresh memory.\<close>

definition copy_match ::
  "http_path_match list \<Rightarrow> http_path_match http_route_match \<Rightarrow> http_path_match list \<times> nat http_route_match" where
  "copy_match ps m =
     (let rest = (\<lambda>p. \<lparr>hm_Path = p, hm_Headers = hm_Headers m, hm_QueryParams = hm_QueryParams m,
                       hm_Method = hm_Method m\<rparr>)
      in case hm_Path m of
           None \<Rightarrow> (ps, rest None)
         | Some p \<Rightarrow> (ps @ [p], rest (Some (length ps))))"

definition copy_rule ::
  "http_path_match list \<Rightarrow> http_path_match http_route_rule \<Rightarrow> http_path_match list \<times> nat http_route_rule" where
  "copy_rule ps r =
     (let rest = (\<lambda>ms. \<lparr>rule_Matches = ms, rule_Filters = rule_Filters r, rule_BackendRefs = rule_BackendRefs r\<rparr>)
      in case rule_Matches r of
           None \<Rightarrow> (ps, rest None)
         | Some ms \<Rightarrow> (let (ps, ms) = map_st copy_match ps ms in (ps, rest (Some ms))))"

definition copy_route :: "http_path_match list \<Rightarrow> api_route \<Rightarrow> http_path_match list \<times> route" where
  "copy_route ps hr =
     (let (ps, rules) = map_st copy_rule ps (hr_Rules hr)
      in (ps, \<lparr>hr_Namespace = hr_Namespace hr, hr_Name = hr_Name hr, hr_Generation = hr_Generation hr,
               hr_CreationTimestamp = hr_CreationTimestamp hr, hr_Annotations = hr_Annotations hr,
               hr_ParentRefs = hr_ParentRefs hr, hr_Hostnames = hr_Hostnames hr, hr_Rules = rules,
               hr_Status = hr_Status hr\<rparr>))"

definition load_route :: "mem \<Rightarrow> api_route \<Rightarrow> mem \<times> route" where
  "load_route mm hr = (let (ps, r) = copy_route (mem_paths mm) hr in (mm\<lparr>mem_paths := ps\<rparr>, r))"

definition alloc_info :: "mem \<Rightarrow> http_route_info \<Rightarrow> mem \<times> nat" where
  "alloc_info mm i = (mm\<lparr>mem_infos := mem_infos mm @ [i]\<rparr>, length (mem_infos mm))"

section \<open>Route infos (httproute.go)\<close>

definition info_Hostnames :: "http_route_info \<Rightarrow> string list" where
  "info_Hostnames i =
     (if hri_HostnameOverrides i \<noteq> [] then hri_HostnameOverrides i else hr_hostnames (hri_HTTPRoute i))"

definition info_GetBackendForRef :: "http_route_info \<Rightarrow> backend_object_reference \<Rightarrow> go_error + k8s_object" where
  "info_GetBackendForRef i ref = bm_get (hri_Backends i) ref"

definition info_GetChildrenForRef :: "http_route_info \<Rightarrow> backend_object_reference \<Rightarrow> go_error + nat list" where
  "info_GetChildrenForRef i ref = bm_get (hri_Children i) ref"

definition info_Clone :: "http_route_info \<Rightarrow> http_route_info" where
  "info_Clone i = \<lparr>hri_HTTPRoute = hri_HTTPRoute i, hri_ParentRef = hri_ParentRef i,
     hri_HostnameOverrides = [], hri_Backends = hri_Backends i, hri_Children = hri_Children i\<rparr>"

definition UniqueRouteName :: "http_route_info \<Rightarrow> nat \<Rightarrow> nat \<Rightarrow> string" where
  "UniqueRouteName i ruleIdx matchIdx =
     hr_Name (hri_HTTPRoute i) @ ''-'' @ hr_Namespace (hri_HTTPRoute i) @ ''-'' @
     show_nat ruleIdx @ ''-'' @ show_nat matchIdx"

definition resolveRouteBackends :: "'sel k8s_client \<Rightarrow> route \<Rightarrow> k8s_object backend_map" where
  "resolveRouteBackends kc hr =
     foldl (\<lambda>out rule.
       foldl (\<lambda>out backendRef.
         (case GetBackendForRef kc (ObjToFrom kc hr) (br_Ref backendRef) of
            Inl err \<Rightarrow> bm_AddError out (br_Ref backendRef) err
          | Inr obj \<Rightarrow> bm_Add out (br_Ref backendRef) obj)) out (rule_BackendRefs rule))
       NewBackendMap (hr_Rules hr)"

definition fetchChildRoutes ::
  "'sel k8s_client \<Rightarrow> string \<Rightarrow> http_backend_ref \<Rightarrow> go_error + api_route list" where
  "fetchChildRoutes kc parentNamespace backendRef =
     (if \<not> RefIsHTTPRoute (br_Ref backendRef) then Inr []
      else
        let delegatedNs = (case bor_Namespace (br_Ref backendRef) of None \<Rightarrow> parentNamespace | Some n \<Rightarrow> n);
            name = bor_Name (br_Ref backendRef);
            found = (if name = [] \<or> name = ''*'' then kc_ListRoutesInNamespace kc delegatedNs
                     else (case kc_GetRoute kc (NamespacedName delegatedNs name) of
                             Inl e \<Rightarrow> Inl e | Inr child \<Rightarrow> Inr [child]))
        in case found of
             Inl e \<Rightarrow> Inl e
           | Inr refChildren \<Rightarrow>
               if refChildren = [] then Inl ErrUnresolvedReference else Inr refChildren)"

text \<open>The state of the loops of \<open>getDelegatedChildren\<close>: the memory, the set \<open>visited\<close> (shared by the
  whole recursion), the children found so far, and the variable \<open>refChildren\<close> of the rule.\<close>

record chain_state =
  cs_mem :: mem
  cs_visited :: "namespaced_name set"
  cs_children :: "nat list backend_map"
  cs_refChildren :: "nat list"

definition childParentRef :: "route \<Rightarrow> parent_reference" where
  "childParentRef parent = \<lparr>pr_Group = Some GroupName, pr_Kind = Some HTTPRouteKind,
     pr_Namespace = Some (hr_Namespace parent), pr_Name = hr_Name parent,
     pr_SectionName = None, pr_Port = None\<rparr>"

text \<open>One child route of a backend reference; \<open>rec\<close> is the recursive call.\<close>

definition resolveChild ::
  "'sel k8s_client \<Rightarrow>
   (route \<Rightarrow> namespaced_name set \<Rightarrow> mem \<Rightarrow> (mem \<times> namespaced_name set \<times> nat list backend_map) outcome) \<Rightarrow>
   route \<Rightarrow> http_backend_ref \<Rightarrow> api_route \<Rightarrow> chain_state \<Rightarrow> chain_state outcome" where
  "resolveChild kc rec parent backendRef childApi st =
     (let (mm, childRoute) = load_route (cs_mem st) childApi;
          childRef = hr_key childRoute
      in if childRef \<in> cs_visited st
         then Inr (st\<lparr>cs_mem := mm, cs_children := bm_AddError (cs_children st) (br_Ref backendRef)
                (Wrapped (''ignoring child route '' @ nn_String (hr_key parent) @ '' for parent '' @
                   nn_String childRef) ErrCyclicReference)\<rparr>)
         else bind_out (rec childRoute (cs_visited st) mm) (\<lambda>(mm, visited, kids).
           let (mm, i) = alloc_info mm \<lparr>hri_HTTPRoute = childRoute, hri_ParentRef = childParentRef parent,
                  hri_HostnameOverrides = [], hri_Backends = resolveRouteBackends kc childRoute,
                  hri_Children = kids\<rparr>
           in Inr (st\<lparr>cs_mem := mm, cs_visited := visited, cs_refChildren := cs_refChildren st @ [i]\<rparr>)))"

definition resolveChildRef ::
  "'sel k8s_client \<Rightarrow>
   (route \<Rightarrow> namespaced_name set \<Rightarrow> mem \<Rightarrow> (mem \<times> namespaced_name set \<times> nat list backend_map) outcome) \<Rightarrow>
   route \<Rightarrow> http_backend_ref \<Rightarrow> chain_state \<Rightarrow> chain_state outcome" where
  "resolveChildRef kc rec parent backendRef st =
     (if \<not> RefIsHTTPRoute (br_Ref backendRef) then Inr st
      else case fetchChildRoutes kc (hr_Namespace parent) backendRef of
             Inl err \<Rightarrow> Inr (st\<lparr>cs_children := bm_AddError (cs_children st) (br_Ref backendRef) err\<rparr>)
           | Inr referencedRoutes \<Rightarrow>
               bind_out (fold_out (resolveChild kc rec parent backendRef) referencedRoutes st) (\<lambda>st.
                 Inr (st\<lparr>cs_children := bm_Add (cs_children st) (br_Ref backendRef) (cs_refChildren st)\<rparr>)))"

definition resolveChildRule ::
  "'sel k8s_client \<Rightarrow>
   (route \<Rightarrow> namespaced_name set \<Rightarrow> mem \<Rightarrow> (mem \<times> namespaced_name set \<times> nat list backend_map) outcome) \<Rightarrow>
   route \<Rightarrow> nat http_route_rule \<Rightarrow> chain_state \<Rightarrow> chain_state outcome" where
  "resolveChildRule kc rec parent rule st =
     fold_out (resolveChildRef kc rec parent) (rule_BackendRefs rule) (st\<lparr>cs_refChildren := []\<rparr>)"

primrec getDelegatedChildren ::
  "nat \<Rightarrow> 'sel k8s_client \<Rightarrow> route \<Rightarrow> namespaced_name set \<Rightarrow> mem \<Rightarrow>
   (mem \<times> namespaced_name set \<times> nat list backend_map) outcome" where
  "getDelegatedChildren 0 kc parent visited mm = Inl OutOfFuel"
| "getDelegatedChildren (Suc fuel) kc parent visited mm =
     bind_out (fold_out (resolveChildRule kc (getDelegatedChildren fuel kc) parent) (hr_Rules parent)
        \<lparr>cs_mem = mm, cs_visited = insert (hr_key parent) visited, cs_children = NewBackendMap,
         cs_refChildren = []\<rparr>)
       (\<lambda>st. Inr (cs_mem st, cs_visited st, cs_children st))"

definition GetHTTPRouteChain ::
  "nat \<Rightarrow> 'sel k8s_client \<Rightarrow> route \<Rightarrow> string list \<Rightarrow> parent_reference \<Rightarrow> mem \<Rightarrow> (mem \<times> nat) outcome" where
  "GetHTTPRouteChain fuel kc route hostnames parentRef mm =
     bind_out (getDelegatedChildren fuel kc route {} mm) (\<lambda>(mm, _, kids).
       Inr (alloc_info mm \<lparr>hri_HTTPRoute = route, hri_ParentRef = parentRef,
         hri_HostnameOverrides = hostnames, hri_Backends = resolveRouteBackends kc route,
         hri_Children = kids\<rparr>))"

section \<open>Routes of a gateway (httproute.go)\<close>

record listener_result =
  lres_Error :: "go_error option"
  lres_Routes :: "nat list"

record route_error =
  re_Route :: route
  re_ParentRef :: parent_reference
  re_Reason :: string
  re_E :: go_error

record routes_for_gw =
  rfg_ListenerResults :: "string \<rightharpoonup> listener_result"
  rfg_RouteErrors :: "route_error list"

text \<open>The state of the loop over the listeners for one parent reference of one route: the memory, the
  results and the flags \<open>anyRoutesAllowed\<close>, \<open>anyListenerMatched\<close>, \<open>anyHostsMatch\<close>.\<close>

record attach_state =
  as_mem :: mem
  as_results :: "string \<rightharpoonup> listener_result"
  as_allowed :: bool
  as_matched :: bool
  as_hosts :: bool

definition attachToListener ::
  "nat \<Rightarrow> 'sel k8s_client \<Rightarrow> 'sel gateway \<Rightarrow> route \<Rightarrow> parent_reference \<Rightarrow> 'sel listener \<Rightarrow>
   attach_state \<Rightarrow> attach_state outcome" where
  "attachToListener fuel kc gw hr ref l st =
     (let lr = (case as_results st (l_Name l) of None \<Rightarrow> \<lparr>lres_Error = None, lres_Routes = []\<rparr> | Some lr \<Rightarrow> lr);
          st = st\<lparr>as_results := (as_results st)(l_Name l \<mapsto> lr)\<rparr>
      in case allowedRoutes kc gw l of
           Inl err \<Rightarrow> Inr (st\<lparr>as_results := (as_results st)(l_Name l \<mapsto> lr\<lparr>lres_Error := Some err\<rparr>)\<rparr>)
         | Inr (allowedNs, allowedKinds) \<Rightarrow>
             if \<not> isHttpRouteAllowed allowedKinds then Inr st
             else if \<not> allowedNs (hr_Namespace hr) then Inr st
             else let st = st\<lparr>as_allowed := True\<rparr> in
               if \<not> parentRefMatchListener ref l then Inr st
               else let st = st\<lparr>as_matched := True\<rparr>; (ok, hostnames) = hostnameIntersect l hr in
                 if \<not> ok then Inr st
                 else bind_out (GetHTTPRouteChain fuel kc hr hostnames ref (as_mem st)) (\<lambda>(mm, i).
                   Inr (st\<lparr>as_hosts := True, as_mem := mm,
                     as_results := (as_results st)(l_Name l \<mapsto> lr\<lparr>lres_Routes := lres_Routes lr @ [i]\<rparr>)\<rparr>)))"

definition attachError :: "route \<Rightarrow> parent_reference \<Rightarrow> attach_state \<Rightarrow> route_error list" where
  "attachError hr ref st =
     (if \<not> as_allowed st then [\<lparr>re_Route = hr, re_ParentRef = ref,
         re_Reason = ''NotAllowedByListeners'', re_E = ErrNotAllowedByListeners\<rparr>]
      else if \<not> as_matched st then [\<lparr>re_Route = hr, re_ParentRef = ref,
         re_Reason = ''NoMatchingParent'', re_E = ErrNoMatchingParent\<rparr>]
      else if \<not> as_hosts st then [\<lparr>re_Route = hr, re_ParentRef = ref,
         re_Reason = ''NoMatchingListenerHostname'', re_E = ErrNoMatchingListenerHostname\<rparr>]
      else [])"

definition attachRef ::
  "nat \<Rightarrow> 'sel k8s_client \<Rightarrow> 'sel gateway \<Rightarrow> route \<Rightarrow> parent_reference \<Rightarrow> mem \<times> routes_for_gw \<Rightarrow>
   (mem \<times> routes_for_gw) outcome" where
  "attachRef fuel kc gw hr ref = (\<lambda>(mm, ret).
     bind_out (fold_out (attachToListener fuel kc gw hr ref) (gw_Listeners gw)
        \<lparr>as_mem = mm, as_results = rfg_ListenerResults ret, as_allowed = False, as_matched = False,
         as_hosts = False\<rparr>) (\<lambda>st.
       Inr (as_mem st, \<lparr>rfg_ListenerResults = as_results st,
         rfg_RouteErrors = rfg_RouteErrors ret @ attachError hr ref st\<rparr>)))"

definition attachRoute ::
  "nat \<Rightarrow> 'sel k8s_client \<Rightarrow> 'sel gateway \<Rightarrow> api_route \<Rightarrow> mem \<times> routes_for_gw \<Rightarrow>
   (mem \<times> routes_for_gw) outcome" where
  "attachRoute fuel kc gw hrApi = (\<lambda>(mm, ret).
     let (mm, hr) = load_route mm hrApi
     in fold_out (attachRef fuel kc gw hr) (getParentRefsForGw gw hr) (mm, ret))"

definition GetRoutesForGateway ::
  "nat \<Rightarrow> 'sel k8s_client \<Rightarrow> 'sel gateway \<Rightarrow> mem \<Rightarrow> (mem \<times> (go_error + routes_for_gw)) outcome" where
  "GetRoutesForGateway fuel kc gw mm =
     (case kc_ListRoutesByTarget kc (nn_String (gw_key gw)) of
        Inl err \<Rightarrow> Inr (mm, Inl err)
      | Inr items \<Rightarrow>
          bind_out (fold_out (attachRoute fuel kc gw) items
             (mm, \<lparr>rfg_ListenerResults = Map.empty, rfg_RouteErrors = []\<rparr>)) (\<lambda>(mm, ret).
            Inr (mm, Inr ret)))"

end
