(* ===== verification/Reports.thy ===== *)
theory Reports
  imports GatewayApi
begin

text \<open>
  The status reports of a translation run, \<open>projects/gateway2/reports\<close>: the report map filled by
  the translator (\<open>reporter.go\<close>) and the Kubernetes statuses built from it (\<open>status.go\<close>).

  A report is reached through a pointer that the report map holds under a key and never replaces,
  so the reporters handed out by the code (\<open>GatewayReporter\<close>, \<open>ListenerReporter\<close>,
  \<open>ParentRefReporter\<close>) are these keys, and each method is a function on the report map.

  \<open>meta.FindStatusCondition\<close> and \<open>meta.SetStatusCondition\<close> belong to \<open>k8s.io/apimachinery\<close>: they are
  the arguments \<open>findC\<close> and \<open>setC\<close> of the status builders, with their documented behaviour in the
  locale \<open>condition_api\<close>.
\<close>

section \<open>The report map (reporter.go)\<close>

datatype parent_ref_key =
  ParentRefKey (prk_Group: string) (prk_Kind: string) (prk_NamespacedName: namespaced_name)

type_synonym listener_report = listener_status

record gateway_report =
  gr_conditions :: "condition list"
  gr_listeners :: "string \<rightharpoonup> listener_report"
  gr_observedGeneration :: int

type_synonym parent_ref_report = "condition list"

record route_report =
  rr_parents :: "parent_ref_key \<rightharpoonup> parent_ref_report"
  rr_observedGeneration :: int

record report_map =
  rm_gateways :: "namespaced_name \<rightharpoonup> gateway_report"
  rm_routes :: "namespaced_name \<rightharpoonup> route_report"

text \<open>\<open>GatewayCondition\<close>, \<open>ListenerCondition\<close> and \<open>HTTPRouteCondition\<close> have the same fields.\<close>

record report_condition =
  rc_Type :: string
  rc_Status :: string
  rc_Reason :: string
  rc_Message :: string

definition NewReportMap :: report_map where
  "NewReportMap = \<lparr>rm_gateways = Map.empty, rm_routes = Map.empty\<rparr>"

definition ReportMap_Gateway :: "report_map \<Rightarrow> 'sel gateway \<Rightarrow> gateway_report option" where
  "ReportMap_Gateway r gw = rm_gateways r (gw_key gw)"

definition newGatewayReport :: "report_map \<Rightarrow> 'sel gateway \<Rightarrow> report_map" where
  "newGatewayReport r gw =
     (let gr = \<lparr>gr_conditions = [], gr_listeners = Map.empty,
                gr_observedGeneration = gw_Generation gw\<rparr>
      in r\<lparr>rm_gateways := (rm_gateways r)(gw_key gw \<mapsto> gr)\<rparr>)"

definition ReportMap_route :: "report_map \<Rightarrow> 'p http_route \<Rightarrow> route_report option" where
  "ReportMap_route r hr = rm_routes r (hr_key hr)"

definition newRouteReport :: "report_map \<Rightarrow> 'p http_route \<Rightarrow> report_map" where
  "newRouteReport r hr =
     (let rr = \<lparr>rr_parents = Map.empty, rr_observedGeneration = hr_Generation hr\<rparr>
      in r\<lparr>rm_routes := (rm_routes r)(hr_key hr \<mapsto> rr)\<rparr>)"

definition NewListenerReport :: "string \<Rightarrow> listener_report" where
  "NewListenerReport name = \<lparr>ls_Name = name, ls_SupportedKinds = [], ls_AttachedRoutes = 0,
     ls_Conditions = []\<rparr>"

text \<open>\<open>GatewayReport.listener\<close>: the report of a listener, created on first use.\<close>

definition gr_listener :: "gateway_report \<Rightarrow> string \<Rightarrow> gateway_report \<times> listener_report" where
  "gr_listener g name =
     (case gr_listeners g name of
        None \<Rightarrow> let lr = NewListenerReport name
                in (g\<lparr>gr_listeners := (gr_listeners g)(name \<mapsto> lr)\<rparr>, lr)
      | Some lr \<Rightarrow> (g, lr))"

definition to_condition :: "report_condition \<Rightarrow> condition" where
  "to_condition c = \<lparr>cond_Type = rc_Type c, cond_Status = rc_Status c,
     cond_ObservedGeneration = 0, cond_LastTransitionTime = zeroTime,
     cond_Reason = rc_Reason c, cond_Message = rc_Message c\<rparr>"

definition GatewayReport_GetConditions :: "gateway_report option \<Rightarrow> condition list" where
  "GatewayReport_GetConditions g = (case g of None \<Rightarrow> [] | Some g \<Rightarrow> gr_conditions g)"

definition GatewayReport_SetCondition :: "gateway_report \<Rightarrow> report_condition \<Rightarrow> gateway_report" where
  "GatewayReport_SetCondition g gc = g\<lparr>gr_conditions := gr_conditions g @ [to_condition gc]\<rparr>"

definition ListenerReport_SetCondition :: "listener_report \<Rightarrow> report_condition \<Rightarrow> listener_report" where
  "ListenerReport_SetCondition l lc = l\<lparr>ls_Conditions := ls_Conditions l @ [to_condition lc]\<rparr>"

definition ListenerReport_SetSupportedKinds ::
  "listener_report \<Rightarrow> route_group_kind list \<Rightarrow> listener_report" where
  "ListenerReport_SetSupportedKinds l rgks = l\<lparr>ls_SupportedKinds := rgks\<rparr>"

definition ListenerReport_SetAttachedRoutes :: "listener_report \<Rightarrow> 64 word \<Rightarrow> listener_report" where
  "ListenerReport_SetAttachedRoutes l n = l\<lparr>ls_AttachedRoutes := ucast n\<rparr>"

definition getParentRefKey :: "parent_reference \<Rightarrow> parent_ref_key" where
  "getParentRefKey p =
     ParentRefKey (case pr_Group p of None \<Rightarrow> [] | Some g \<Rightarrow> g)
       (case pr_Kind p of None \<Rightarrow> [] | Some k \<Rightarrow> k)
       (NamespacedName (case pr_Namespace p of None \<Rightarrow> [] | Some n \<Rightarrow> n) (pr_Name p))"

definition RouteReport_parentRef ::
  "route_report \<Rightarrow> parent_reference \<Rightarrow> route_report \<times> parent_ref_report" where
  "RouteReport_parentRef r p =
     (let key = getParentRefKey p in
      case rr_parents r key of
        None \<Rightarrow> (r\<lparr>rr_parents := (rr_parents r)(key \<mapsto> [])\<rparr>, [])
      | Some prr \<Rightarrow> (r, prr))"

text \<open>\<open>parentRefs\<close> ranges over the map; \<open>ks\<close> is the order of its keys.\<close>

definition RouteReport_parentRefs :: "parent_ref_key list \<Rightarrow> parent_reference list" where
  "RouteReport_parentRefs ks =
     map (\<lambda>key. \<lparr>pr_Group = Some (prk_Group key), pr_Kind = Some (prk_Kind key),
       pr_Namespace = Some (nn_Namespace (prk_NamespacedName key)),
       pr_Name = nn_Name (prk_NamespacedName key), pr_SectionName = None, pr_Port = None\<rparr>) ks"

definition ParentRefReport_SetCondition ::
  "parent_ref_report \<Rightarrow> report_condition \<Rightarrow> parent_ref_report" where
  "ParentRefReport_SetCondition prr rc = prr @ [to_condition rc]"

subsection \<open>Reporters\<close>

type_synonym gateway_reporter = namespaced_name
type_synonym listener_reporter = "namespaced_name \<times> string"
type_synonym parent_ref_reporter = "namespaced_name \<times> parent_ref_key"

definition reporter_Gateway :: "'sel gateway \<Rightarrow> report_map \<Rightarrow> report_map \<times> gateway_reporter" where
  "reporter_Gateway gw r =
     (case ReportMap_Gateway r gw of
        None \<Rightarrow> (newGatewayReport r gw, gw_key gw)
      | Some _ \<Rightarrow> (r, gw_key gw))"

definition reporter_Route :: "'p http_route \<Rightarrow> report_map \<Rightarrow> report_map \<times> namespaced_name" where
  "reporter_Route hr r =
     (case ReportMap_route r hr of
        None \<Rightarrow> (newRouteReport r hr, hr_key hr)
      | Some _ \<Rightarrow> (r, hr_key hr))"

definition upd_gateway :: "namespaced_name \<Rightarrow> (gateway_report \<Rightarrow> gateway_report) \<Rightarrow> report_map \<Rightarrow> report_map" where
  "upd_gateway k f r = (case rm_gateways r k of None \<Rightarrow> r
     | Some g \<Rightarrow> r\<lparr>rm_gateways := (rm_gateways r)(k \<mapsto> f g)\<rparr>)"

definition upd_listener :: "listener_reporter \<Rightarrow> (listener_report \<Rightarrow> listener_report) \<Rightarrow> report_map \<Rightarrow> report_map" where
  "upd_listener lr f = upd_gateway (fst lr) (\<lambda>g. case gr_listeners g (snd lr) of None \<Rightarrow> g
     | Some l \<Rightarrow> g\<lparr>gr_listeners := (gr_listeners g)(snd lr \<mapsto> f l)\<rparr>)"

definition upd_route :: "namespaced_name \<Rightarrow> (route_report \<Rightarrow> route_report) \<Rightarrow> report_map \<Rightarrow> report_map" where
  "upd_route k f r = (case rm_routes r k of None \<Rightarrow> r
     | Some g \<Rightarrow> r\<lparr>rm_routes := (rm_routes r)(k \<mapsto> f g)\<rparr>)"

definition gwr_SetCondition :: "gateway_reporter \<Rightarrow> report_condition \<Rightarrow> report_map \<Rightarrow> report_map" where
  "gwr_SetCondition k c = upd_gateway k (\<lambda>g. GatewayReport_SetCondition g c)"

definition gwr_Listener ::
  "gateway_reporter \<Rightarrow> 'sel listener \<Rightarrow> report_map \<Rightarrow> report_map \<times> listener_reporter" where
  "gwr_Listener k l r = (upd_gateway k (\<lambda>g. fst (gr_listener g (l_Name l))) r, (k, l_Name l))"

definition lr_SetCondition :: "listener_reporter \<Rightarrow> report_condition \<Rightarrow> report_map \<Rightarrow> report_map" where
  "lr_SetCondition lr c = upd_listener lr (\<lambda>l. ListenerReport_SetCondition l c)"

definition lr_SetSupportedKinds ::
  "listener_reporter \<Rightarrow> route_group_kind list \<Rightarrow> report_map \<Rightarrow> report_map" where
  "lr_SetSupportedKinds lr ks = upd_listener lr (\<lambda>l. ListenerReport_SetSupportedKinds l ks)"

definition lr_SetAttachedRoutes :: "listener_reporter \<Rightarrow> 64 word \<Rightarrow> report_map \<Rightarrow> report_map" where
  "lr_SetAttachedRoutes lr n = upd_listener lr (\<lambda>l. ListenerReport_SetAttachedRoutes l n)"

definition rr_ParentRef ::
  "namespaced_name \<Rightarrow> parent_reference \<Rightarrow> report_map \<Rightarrow> report_map \<times> parent_ref_reporter" where
  "rr_ParentRef k p r = (upd_route k (\<lambda>g. fst (RouteReport_parentRef g p)) r, (k, getParentRefKey p))"

definition prr_SetCondition :: "parent_ref_reporter \<Rightarrow> report_condition \<Rightarrow> report_map \<Rightarrow> report_map" where
  "prr_SetCondition prr c = upd_route (fst prr) (\<lambda>g.
     case rr_parents g (snd prr) of None \<Rightarrow> g
     | Some cs \<Rightarrow> g\<lparr>rr_parents := (rr_parents g)(snd prr \<mapsto> ParentRefReport_SetCondition cs c)\<rparr>)"

lemmas report_defs = gwr_SetCondition_def gwr_Listener_def lr_SetCondition_def
  lr_SetSupportedKinds_def lr_SetAttachedRoutes_def rr_ParentRef_def prr_SetCondition_def
  upd_gateway_def upd_listener_def upd_route_def

section \<open>Status conditions of the API library\<close>

text \<open>What \<open>meta.SetStatusCondition\<close> documents for a condition whose type is already present: every
  field is taken from the new condition, the transition time only when the status changes.\<close>

definition updated_condition :: "int \<Rightarrow> condition \<Rightarrow> condition \<Rightarrow> condition" where
  "updated_condition now old new = new\<lparr>cond_LastTransitionTime :=
     (if cond_Status old \<noteq> cond_Status new
      then (if cond_LastTransitionTime new \<noteq> zeroTime then cond_LastTransitionTime new else now)
      else cond_LastTransitionTime old)\<rparr>"

definition fresh_condition :: "int \<Rightarrow> condition \<Rightarrow> condition" where
  "fresh_condition now new = new\<lparr>cond_LastTransitionTime :=
     (if cond_LastTransitionTime new = zeroTime then now else cond_LastTransitionTime new)\<rparr>"

locale condition_api =
  fixes findC :: "condition list \<Rightarrow> string \<Rightarrow> condition option"
    and setC :: "condition list \<Rightarrow> condition \<Rightarrow> condition list"
    and now :: int
  assumes find_none: "findC cs t = None \<longleftrightarrow> (\<forall>c \<in> set cs. cond_Type c \<noteq> t)"
    and find_first: "\<lbrakk>cond_Type c = t; \<forall>c \<in> set xs. cond_Type c \<noteq> t\<rbrakk>
      \<Longrightarrow> findC (xs @ c # ys) t = Some c"
    and set_absent: "\<forall>c \<in> set cs. cond_Type c \<noteq> cond_Type new
      \<Longrightarrow> setC cs new = cs @ [fresh_condition now new]"
    and set_present: "\<lbrakk>cond_Type old = cond_Type new; \<forall>c \<in> set xs. cond_Type c \<noteq> cond_Type new\<rbrakk>
      \<Longrightarrow> setC (xs @ old # ys) new = xs @ updated_condition now old new # ys"

lemma cond_Type_updated [simp]:
  "cond_Type (updated_condition now old new) = cond_Type new"
  "cond_Type (fresh_condition now new) = cond_Type new"
  by (simp_all add: updated_condition_def fresh_condition_def)

section \<open>Building statuses (status.go)\<close>

definition missing :: "string \<Rightarrow> string \<Rightarrow> string \<Rightarrow> report_condition" where
  "missing t s r = \<lparr>rc_Type = t, rc_Status = s, rc_Reason = r, rc_Message = []\<rparr>"

text \<open>\<open>if cond := meta.FindStatusCondition(...); cond == nil { report.SetCondition(...) }\<close>, for each kind of
  report.\<close>

definition default_gateway ::
  "(condition list \<Rightarrow> string \<Rightarrow> condition option) \<Rightarrow> gateway_report \<Rightarrow> report_condition \<Rightarrow> gateway_report" where
  "default_gateway findC g c =
     (if findC (gr_conditions g) (rc_Type c) = None then GatewayReport_SetCondition g c else g)"

definition default_listener ::
  "(condition list \<Rightarrow> string \<Rightarrow> condition option) \<Rightarrow> listener_report \<Rightarrow> report_condition \<Rightarrow> listener_report" where
  "default_listener findC l c =
     (if findC (ls_Conditions l) (rc_Type c) = None then ListenerReport_SetCondition l c else l)"

definition default_parentRef ::
  "(condition list \<Rightarrow> string \<Rightarrow> condition option) \<Rightarrow> parent_ref_report \<Rightarrow> report_condition \<Rightarrow> parent_ref_report" where
  "default_parentRef findC p c =
     (if findC p (rc_Type c) = None then ParentRefReport_SetCondition p c else p)"

definition addMissingGatewayConditions ::
  "(condition list \<Rightarrow> string \<Rightarrow> condition option) \<Rightarrow> gateway_report \<Rightarrow> gateway_report" where
  "addMissingGatewayConditions findC g = foldl (default_gateway findC) g
     [missing ''Accepted'' ConditionTrue ''Accepted'',
      missing ''Programmed'' ConditionTrue ''Programmed'']"

definition addMissingListenerConditions ::
  "(condition list \<Rightarrow> string \<Rightarrow> condition option) \<Rightarrow> listener_report \<Rightarrow> listener_report" where
  "addMissingListenerConditions findC l = foldl (default_listener findC) l
     [missing ''Accepted'' ConditionTrue ''Accepted'',
      missing ''Conflicted'' ConditionFalse ''NoConflicts'',
      missing ''ResolvedRefs'' ConditionTrue ''ResolvedRefs'',
      missing ''Programmed'' ConditionTrue ''Programmed'']"

definition addMissingParentRefConditions ::
  "(condition list \<Rightarrow> string \<Rightarrow> condition option) \<Rightarrow> parent_ref_report \<Rightarrow> parent_ref_report" where
  "addMissingParentRefConditions findC p = foldl (default_parentRef findC) p
     [missing ''Accepted'' ConditionTrue ''Accepted'',
      missing ''ResolvedRefs'' ConditionTrue ''ResolvedRefs'']"

text \<open>The loop shared by the three builders: each reported condition gets the observed generation;
  an old condition of its type is copied first, so that \<open>SetStatusCondition\<close> can keep its transition
  time.\<close>

definition finalConditions ::
  "(condition list \<Rightarrow> string \<Rightarrow> condition option) \<Rightarrow> (condition list \<Rightarrow> condition \<Rightarrow> condition list) \<Rightarrow>
   condition list \<Rightarrow> int \<Rightarrow> condition list \<Rightarrow> condition list" where
  "finalConditions findC setC olds gen reported =
     foldl (\<lambda>final c.
        let c = c\<lparr>cond_ObservedGeneration := gen\<rparr>;
            final = (case findC olds (cond_Type c) of None \<Rightarrow> final | Some old \<Rightarrow> final @ [old])
        in setC final c) [] reported"

text \<open>One turn of the loop over the listeners of the gateway: the state is the gateway's report and
  the statuses built so far.\<close>

definition buildListenerStatus ::
  "(condition list \<Rightarrow> string \<Rightarrow> condition option) \<Rightarrow> (condition list \<Rightarrow> condition \<Rightarrow> condition list) \<Rightarrow>
   'sel gateway \<Rightarrow> gateway_report \<times> listener_status list \<Rightarrow> 'sel listener \<Rightarrow>
   gateway_report \<times> listener_status list" where
  "buildListenerStatus findC setC gw = (\<lambda>(g, finals) lis.
     let (g, lr) = gr_listener g (l_Name lis);
         lr = addMissingListenerConditions findC lr;
         olds = (case indexFunc (\<lambda>s. ls_Name s = l_Name lis) (gs_Listeners (gw_Status gw)) of
                   None \<Rightarrow> [] | Some i \<Rightarrow> ls_Conditions (gs_Listeners (gw_Status gw) ! i));
         lr = lr\<lparr>ls_Conditions := finalConditions findC setC olds (gr_observedGeneration g) (ls_Conditions lr)\<rparr>
     in (g\<lparr>gr_listeners := (gr_listeners g)(l_Name lis \<mapsto> lr)\<rparr>, finals @ [lr]))"

definition BuildGWStatus ::
  "(condition list \<Rightarrow> string \<Rightarrow> condition option) \<Rightarrow> (condition list \<Rightarrow> condition \<Rightarrow> condition list) \<Rightarrow>
   'sel gateway \<Rightarrow> report_map \<Rightarrow> report_map \<times> gateway_status option" where
  "BuildGWStatus findC setC gw r =
     (case ReportMap_Gateway r gw of
        None \<Rightarrow> (r, None)
      | Some g \<Rightarrow>
          let (g, finalListeners) = foldl (buildListenerStatus findC setC gw) (g, []) (gw_Listeners gw);
              g = addMissingGatewayConditions findC g;
              finals = finalConditions findC setC (gs_Conditions (gw_Status gw)) (gr_observedGeneration g)
                (GatewayReport_GetConditions (Some g))
          in (r\<lparr>rm_gateways := (rm_gateways r)(gw_key gw \<mapsto> g)\<rparr>,
              Some \<lparr>gs_Addresses = [], gs_Conditions = finals, gs_Listeners = finalListeners\<rparr>))"

definition buildParentStatus ::
  "(condition list \<Rightarrow> string \<Rightarrow> condition option) \<Rightarrow> (condition list \<Rightarrow> condition \<Rightarrow> condition list) \<Rightarrow>
   'p http_route \<Rightarrow> string \<Rightarrow> route_report \<times> route_parent_status list \<Rightarrow> parent_reference \<Rightarrow>
   route_report \<times> route_parent_status list" where
  "buildParentStatus findC setC hr cName = (\<lambda>(g, finals) parentRef.
     let (g, prr) = RouteReport_parentRef g parentRef;
         prr = addMissingParentRefConditions findC prr;
         olds = (case indexFunc (\<lambda>s. rps_ParentRef s = parentRef) (hr_Status hr) of
                   None \<Rightarrow> [] | Some i \<Rightarrow> rps_Conditions (hr_Status hr ! i))
     in (g\<lparr>rr_parents := (rr_parents g)(getParentRefKey parentRef \<mapsto> prr)\<rparr>,
         finals @ [\<lparr>rps_ParentRef = parentRef, rps_ControllerName = cName,
           rps_Conditions = finalConditions findC setC olds (rr_observedGeneration g) prr\<rparr>]))"

text \<open>\<open>ks\<close> is the order in which \<open>routeReport.parentRefs()\<close> visits the parents.\<close>

definition BuildRouteStatus ::
  "(condition list \<Rightarrow> string \<Rightarrow> condition option) \<Rightarrow> (condition list \<Rightarrow> condition \<Rightarrow> condition list) \<Rightarrow>
   parent_ref_key list \<Rightarrow> 'p http_route \<Rightarrow> string \<Rightarrow> report_map \<Rightarrow>
   report_map \<times> route_parent_status list option" where
  "BuildRouteStatus findC setC ks hr cName r =
     (case ReportMap_route r hr of
        None \<Rightarrow> (r, None)
      | Some g \<Rightarrow>
          let parentRefs = (if hr_ParentRefs hr = [] then RouteReport_parentRefs ks else hr_ParentRefs hr);
              (g, parents) = foldl (buildParentStatus findC setC hr cName) (g, []) parentRefs
          in (r\<lparr>rm_routes := (rm_routes r)(hr_key hr \<mapsto> g)\<rparr>, Some parents))"

section \<open>What the builders compute\<close>

text \<open>The status condition a reported condition turns into.\<close>

definition final_condition ::
  "(condition list \<Rightarrow> string \<Rightarrow> condition option) \<Rightarrow> int \<Rightarrow> condition list \<Rightarrow> int \<Rightarrow> condition \<Rightarrow> condition" where
  "final_condition findC now olds gen c =
     (let c = c\<lparr>cond_ObservedGeneration := gen\<rparr> in
      case findC olds (cond_Type c) of
        None \<Rightarrow> fresh_condition now c
      | Some old \<Rightarrow> updated_condition now old c)"

lemma final_condition_fields [simp]:
  "cond_Type (final_condition findC now olds gen c) = cond_Type c"
  "cond_Status (final_condition findC now olds gen c) = cond_Status c"
  "cond_Reason (final_condition findC now olds gen c) = cond_Reason c"
  "cond_Message (final_condition findC now olds gen c) = cond_Message c"
  "cond_ObservedGeneration (final_condition findC now olds gen c) = gen"
  by (auto simp: final_condition_def fresh_condition_def updated_condition_def Let_def split: option.split)

lemma cond_Type_to_condition [simp]: "cond_Type (to_condition c) = rc_Type c"
  by (simp add: to_condition_def)

lemma rc_Type_missing [simp]: "rc_Type (missing t s r) = t"
  by (simp add: missing_def)

abbreviation cond_types :: "condition list \<Rightarrow> string list" where
  "cond_types cs \<equiv> map cond_Type cs"

text \<open>Completing a report is a sequence of conditional appends.\<close>

definition add_missing ::
  "(condition list \<Rightarrow> string \<Rightarrow> condition option) \<Rightarrow> condition list \<Rightarrow> report_condition \<Rightarrow> condition list" where
  "add_missing findC cs c = (if findC cs (rc_Type c) = None then cs @ [to_condition c] else cs)"

lemma default_conditions [simp]:
  "ls_Conditions (default_listener findC l c) = add_missing findC (ls_Conditions l) c"
  "gr_conditions (default_gateway findC g c) = add_missing findC (gr_conditions g) c"
  "default_parentRef findC p c = add_missing findC p c"
  by (simp_all add: default_listener_def default_gateway_def default_parentRef_def add_missing_def
      ListenerReport_SetCondition_def GatewayReport_SetCondition_def ParentRefReport_SetCondition_def)

lemma default_frame [simp]:
  "ls_Name (default_listener findC l c) = ls_Name l"
  "ls_SupportedKinds (default_listener findC l c) = ls_SupportedKinds l"
  "ls_AttachedRoutes (default_listener findC l c) = ls_AttachedRoutes l"
  "gr_listeners (default_gateway findC g c) = gr_listeners g"
  "gr_observedGeneration (default_gateway findC g c) = gr_observedGeneration g"
  by (simp_all add: default_listener_def default_gateway_def
      ListenerReport_SetCondition_def GatewayReport_SetCondition_def)

lemma foldl_default_conditions:
  "ls_Conditions (foldl (default_listener findC) l ms) = foldl (add_missing findC) (ls_Conditions l) ms"
  "gr_conditions (foldl (default_gateway findC) g ms) = foldl (add_missing findC) (gr_conditions g) ms"
  "foldl (default_parentRef findC) p ms = foldl (add_missing findC) p ms"
  by (induction ms arbitrary: l g p) simp_all

lemmas addMissing_eq = addMissingListenerConditions_def addMissingGatewayConditions_def
  addMissingParentRefConditions_def foldl_default_conditions

context condition_api
begin

lemma find_SomeD:
  assumes "findC cs t = Some c"
  shows "c \<in> set cs" "cond_Type c = t"
proof -
  from assms have "\<not> (\<forall>c \<in> set cs. cond_Type c \<noteq> t)"
    using find_none [of cs t] by auto
  then obtain xs d ys where cs: "cs = xs @ d # ys" "cond_Type d = t" "\<forall>c \<in> set xs. cond_Type c \<noteq> t"
    using split_list_first_prop [of cs "\<lambda>c. cond_Type c = t"] by auto
  then have "findC cs t = Some d" using find_first [of d t xs ys] by simp
  with assms cs show "c \<in> set cs" "cond_Type c = t" by auto
qed

lemma find_none_types: "findC cs t = None \<longleftrightarrow> t \<notin> set (cond_types cs)"
  by (auto simp: find_none)

lemma find_unique:
  assumes "distinct (cond_types cs)" "c \<in> set cs"
  shows "findC cs (cond_Type c) = Some c"
proof -
  from assms(2) obtain xs ys where "cs = xs @ c # ys" by (meson split_list)
  with assms(1) have "cond_Type c \<notin> cond_Type ` set xs" by simp
  then have "\<forall>d \<in> set xs. cond_Type d \<noteq> cond_Type c" by (metis imageI)
  with \<open>cs = xs @ c # ys\<close> show ?thesis using find_first by simp
qed

lemma finalConditions_distinct:
  assumes "distinct (cond_types reported)"
  shows "finalConditions findC setC olds gen reported = map (final_condition findC now olds gen) reported"
  using assms
proof (induction reported rule: rev_induct)
  case Nil
  show ?case by (simp add: finalConditions_def)
next
  case (snoc c cs)
  let ?c = "c\<lparr>cond_ObservedGeneration := gen\<rparr>" and ?done = "map (final_condition findC now olds gen) cs"
  from snoc.prems have "cond_Type c \<notin> cond_Type ` set cs" by simp
  then have "\<forall>d \<in> set cs. cond_Type d \<noteq> cond_Type c" by (metis imageI)
  then have other: "\<forall>d \<in> set ?done. cond_Type d \<noteq> cond_Type ?c" by simp
  have IH: "finalConditions findC setC olds gen cs = ?done" using snoc by simp
  have step: "finalConditions findC setC olds gen (cs @ [c]) =
      setC (case findC olds (cond_Type c) of None \<Rightarrow> ?done | Some old \<Rightarrow> ?done @ [old]) ?c"
    using IH by (simp add: finalConditions_def Let_def)
  show ?case
  proof (cases "findC olds (cond_Type c)")
    case None
    with step set_absent [OF other] show ?thesis by (simp add: final_condition_def)
  next
    case (Some old)
    with step set_present [of old ?c ?done "[]"] other find_SomeD(2) [OF Some] show ?thesis
      by (simp add: final_condition_def)
  qed
qed

lemma finalConditions_types:
  assumes "distinct (cond_types reported)"
  shows "cond_types (finalConditions findC setC olds gen reported) = cond_types reported"
  using finalConditions_distinct [OF assms] by simp

lemma foldl_add_missing_types:
  "set (cond_types (foldl (add_missing findC) cs ms)) = set (cond_types cs) \<union> rc_Type ` set ms"
proof (induction ms arbitrary: cs)
  case Nil
  show ?case by simp
next
  case (Cons m ms)
  have "set (cond_types (add_missing findC cs m)) = insert (rc_Type m) (set (cond_types cs))"
    using find_none_types [of cs "rc_Type m"] by (cases "findC cs (rc_Type m)") (auto simp: add_missing_def)
  with Cons [of "add_missing findC cs m"] show ?case by simp
qed

lemma foldl_add_missing_distinct:
  "distinct (cond_types cs) \<Longrightarrow> distinct (cond_types (foldl (add_missing findC) cs ms))"
proof (induction ms arbitrary: cs)
  case Nil
  then show ?case by simp
next
  case (Cons m ms)
  then have "distinct (cond_types (add_missing findC cs m))"
    using find_none_types [of cs "rc_Type m"] by (cases "findC cs (rc_Type m)") (auto simp: add_missing_def)
  with Cons.IH show ?case by simp
qed

lemmas add_missing_facts = addMissing_eq foldl_add_missing_types foldl_add_missing_distinct

lemma addMissingListener_types:
  "{''Accepted'', ''Conflicted'', ''ResolvedRefs'', ''Programmed''}
     \<subseteq> set (cond_types (ls_Conditions (addMissingListenerConditions findC l)))"
  by (simp add: add_missing_facts del: set_map foldl.simps)

lemma addMissingListener_distinct:
  "distinct (cond_types (ls_Conditions l)) \<Longrightarrow>
   distinct (cond_types (ls_Conditions (addMissingListenerConditions findC l)))"
  by (simp add: add_missing_facts del: foldl.simps)

lemma addMissingGateway_types:
  "{''Accepted'', ''Programmed''} \<subseteq> set (cond_types (gr_conditions (addMissingGatewayConditions findC g)))"
  by (simp add: add_missing_facts del: set_map foldl.simps)

lemma addMissingGateway_distinct:
  "distinct (cond_types (gr_conditions g)) \<Longrightarrow>
   distinct (cond_types (gr_conditions (addMissingGatewayConditions findC g)))"
  by (simp add: add_missing_facts del: foldl.simps)

lemma addMissingParentRef_types:
  "{''Accepted'', ''ResolvedRefs''} \<subseteq> set (cond_types (addMissingParentRefConditions findC p))"
  by (simp add: add_missing_facts del: set_map foldl.simps)

lemma addMissingParentRef_distinct:
  "distinct (cond_types p) \<Longrightarrow> distinct (cond_types (addMissingParentRefConditions findC p))"
  by (simp add: add_missing_facts del: foldl.simps)

end

text \<open>The fields that completing a report leaves alone.\<close>

lemma addMissing_frame [simp]:
  "ls_Name (addMissingListenerConditions findC l) = ls_Name l"
  "ls_SupportedKinds (addMissingListenerConditions findC l) = ls_SupportedKinds l"
  "ls_AttachedRoutes (addMissingListenerConditions findC l) = ls_AttachedRoutes l"
  "gr_listeners (addMissingGatewayConditions findC g) = gr_listeners g"
  "gr_observedGeneration (addMissingGatewayConditions findC g) = gr_observedGeneration g"
  by (simp_all add: addMissingListenerConditions_def addMissingGatewayConditions_def)

lemma foldl_add_missing_prefix: "\<exists>extra. foldl (add_missing findC) cs ms = cs @ extra"
proof (induction ms arbitrary: cs)
  case Nil
  show ?case by simp
next
  case (Cons m ms)
  have "\<exists>e1. add_missing findC cs m = cs @ e1" by (simp add: add_missing_def)
  then obtain e1 where "add_missing findC cs m = cs @ e1" ..
  with Cons [of "cs @ e1"] show ?case by auto
qed

subsection \<open>Well-formed reports\<close>

text \<open>A listener report carries the name it is stored under; no report holds two conditions of one
  type. The first holds of every report the reporters build; the second is what the status builders
  rely on.\<close>

definition gr_named :: "gateway_report \<Rightarrow> bool" where
  "gr_named g \<longleftrightarrow> (\<forall>n l. gr_listeners g n = Some l \<longrightarrow> ls_Name l = n)"

definition gr_uniq :: "gateway_report \<Rightarrow> bool" where
  "gr_uniq g \<longleftrightarrow> distinct (cond_types (gr_conditions g)) \<and>
     (\<forall>n l. gr_listeners g n = Some l \<longrightarrow> distinct (cond_types (ls_Conditions l)))"

lemma gr_listener_facts:
  assumes "gr_listener g n = (g', l)"
  shows "gr_listeners g' n = Some l" "gr_observedGeneration g' = gr_observedGeneration g"
    "gr_conditions g' = gr_conditions g"
    "gr_named g \<Longrightarrow> gr_named g' \<and> ls_Name l = n"
    "gr_uniq g \<Longrightarrow> gr_uniq g' \<and> distinct (cond_types (ls_Conditions l))"
  using assms
  by (auto simp: gr_listener_def NewListenerReport_def gr_named_def gr_uniq_def Let_def
      split: option.splits if_splits)

context condition_api
begin

text \<open>What one turn of the listener loop adds, for a well-formed report.\<close>

lemma buildListenerStatus_step:
  assumes "buildListenerStatus findC setC gw (g, fs) lis = (g', fs')" "gr_named g" "gr_uniq g"
  shows "gr_named g' \<and> gr_uniq g' \<and> gr_conditions g' = gr_conditions g \<and>
    gr_observedGeneration g' = gr_observedGeneration g \<and>
    (\<exists>s. fs' = fs @ [s] \<and> ls_Name s = l_Name lis \<and> distinct (cond_types (ls_Conditions s)) \<and>
       {''Accepted'', ''Conflicted'', ''ResolvedRefs'', ''Programmed''} \<subseteq> set (cond_types (ls_Conditions s)))"
proof -
  obtain g1 l where gl: "gr_listener g (l_Name lis) = (g1, l)" by (cases "gr_listener g (l_Name lis)")
  note f = gr_listener_facts [OF gl]
  let ?l = "addMissingListenerConditions findC l"
  define olds where "olds = (case indexFunc (\<lambda>s. ls_Name s = l_Name lis) (gs_Listeners (gw_Status gw)) of
      None \<Rightarrow> [] | Some i \<Rightarrow> ls_Conditions (gs_Listeners (gw_Status gw) ! i))"
  let ?s = "?l\<lparr>ls_Conditions := finalConditions findC setC olds (gr_observedGeneration g1) (ls_Conditions ?l)\<rparr>"
  have d: "distinct (cond_types (ls_Conditions ?l))"
    using f(5) assms(3) addMissingListener_distinct by blast
  have types: "cond_types (ls_Conditions ?s) = cond_types (ls_Conditions ?l)"
    using finalConditions_types [OF d] by simp
  have g': "g' = g1\<lparr>gr_listeners := (gr_listeners g1)(l_Name lis \<mapsto> ?s)\<rparr>" and fs': "fs' = fs @ [?s]"
    using assms(1) gl by (auto simp: buildListenerStatus_def Let_def olds_def)
  have "gr_named g'" using f(4) [OF assms(2)] by (simp add: g' gr_named_def)
  moreover have "gr_uniq g'"
    using f(5) [OF assms(3)] types d by (simp add: g' gr_uniq_def)
  moreover have "distinct (cond_types (ls_Conditions ?s))" using types d by simp
  moreover have "{''Accepted'', ''Conflicted'', ''ResolvedRefs'', ''Programmed''} \<subseteq> set (cond_types (ls_Conditions ?s))"
    using types addMissingListener_types [of l] by simp
  moreover have "gr_conditions g' = gr_conditions g" "gr_observedGeneration g' = gr_observedGeneration g"
    "ls_Name ?s = l_Name lis"
    using f(2,3,4) assms(2) by (simp_all add: g')
  ultimately show ?thesis using fs' by blast
qed

lemma buildListenerStatus_loop:
  assumes "foldl (buildListenerStatus findC setC gw) (g, fs) ls = (g', fs')" "gr_named g" "gr_uniq g"
  shows "gr_named g' \<and> gr_uniq g' \<and> gr_conditions g' = gr_conditions g \<and>
    gr_observedGeneration g' = gr_observedGeneration g \<and>
    (\<exists>ss. fs' = fs @ ss \<and> map ls_Name ss = map l_Name ls \<and> (\<forall>s \<in> set ss. distinct (cond_types (ls_Conditions s)) \<and>
       {''Accepted'', ''Conflicted'', ''ResolvedRefs'', ''Programmed''} \<subseteq> set (cond_types (ls_Conditions s))))"
  using assms
proof (induction ls arbitrary: g fs)
  case Nil
  then show ?case by auto
next
  case (Cons lis ls)
  obtain g1 fs1 where st: "buildListenerStatus findC setC gw (g, fs) lis = (g1, fs1)"
    by (cases "buildListenerStatus findC setC gw (g, fs) lis")
  note one = buildListenerStatus_step [OF st Cons.prems(2,3)]
  from Cons.prems(1) st have rest: "foldl (buildListenerStatus findC setC gw) (g1, fs1) ls = (g', fs')"
    by simp
  from one obtain s where s: "fs1 = fs @ [s]" "ls_Name s = l_Name lis"
    "distinct (cond_types (ls_Conditions s))"
    "{''Accepted'', ''Conflicted'', ''ResolvedRefs'', ''Programmed''} \<subseteq> set (cond_types (ls_Conditions s))"
    by blast
  from one have "gr_named g1" "gr_uniq g1" by auto
  from Cons.IH [OF rest this] obtain ss where "fs' = fs1 @ ss" "map ls_Name ss = map l_Name ls"
    "\<forall>s \<in> set ss. distinct (cond_types (ls_Conditions s)) \<and>
       {''Accepted'', ''Conflicted'', ''ResolvedRefs'', ''Programmed''} \<subseteq> set (cond_types (ls_Conditions s))"
    and "gr_named g' \<and> gr_uniq g' \<and> gr_conditions g' = gr_conditions g1 \<and>
       gr_observedGeneration g' = gr_observedGeneration g1" by blast
  moreover have "fs' = fs @ (s # ss)" using \<open>fs' = fs1 @ ss\<close> s(1) by simp
  ultimately show ?case using one s
    by (intro conjI exI [of _ "s # ss"]) auto
qed

end

subsection \<open>Route statuses\<close>

text \<open>The status of one parent, read off the report as it was before the loop.\<close>

definition parent_conditions :: "route_report \<Rightarrow> parent_reference \<Rightarrow> parent_ref_report" where
  "parent_conditions g p = (case rr_parents g (getParentRefKey p) of None \<Rightarrow> [] | Some prr \<Rightarrow> prr)"

definition parent_status ::
  "(condition list \<Rightarrow> string \<Rightarrow> condition option) \<Rightarrow> (condition list \<Rightarrow> condition \<Rightarrow> condition list) \<Rightarrow>
   'p http_route \<Rightarrow> string \<Rightarrow> route_report \<Rightarrow> parent_reference \<Rightarrow> route_parent_status" where
  "parent_status findC setC hr cName g p =
     \<lparr>rps_ParentRef = p, rps_ControllerName = cName,
      rps_Conditions = finalConditions findC setC
        (case indexFunc (\<lambda>s. rps_ParentRef s = p) (hr_Status hr) of
           None \<Rightarrow> [] | Some i \<Rightarrow> rps_Conditions (hr_Status hr ! i))
        (rr_observedGeneration g) (addMissingParentRefConditions findC (parent_conditions g p))\<rparr>"

definition parents_built ::
  "(condition list \<Rightarrow> string \<Rightarrow> condition option) \<Rightarrow> route_report \<Rightarrow> parent_reference \<Rightarrow> route_report" where
  "parents_built findC g p =
     g\<lparr>rr_parents := (rr_parents g)(getParentRefKey p \<mapsto>
        addMissingParentRefConditions findC (parent_conditions g p))\<rparr>"

lemma buildParentStatus_eq:
  "buildParentStatus findC setC hr cName (g, fs) p =
     (parents_built findC g p, fs @ [parent_status findC setC hr cName g p])"
  by (auto simp: buildParentStatus_def parent_status_def parents_built_def RouteReport_parentRef_def
      parent_conditions_def Let_def split: option.splits)

lemma parent_status_built:
  "getParentRefKey q \<noteq> getParentRefKey p \<Longrightarrow>
   parent_status findC setC hr cName (parents_built findC g p) q = parent_status findC setC hr cName g q"
  by (simp add: parent_status_def parents_built_def parent_conditions_def)

lemma buildParentStatus_loop:
  assumes "distinct (map getParentRefKey ps)"
  shows "snd (foldl (buildParentStatus findC setC hr cName) (g, fs) ps) =
    fs @ map (parent_status findC setC hr cName g) ps"
  using assms
proof (induction ps arbitrary: g fs)
  case Nil
  show ?case by simp
next
  case (Cons p ps)
  have "map (parent_status findC setC hr cName (parents_built findC g p)) ps =
      map (parent_status findC setC hr cName g) ps"
    using Cons.prems by (intro map_cong refl parent_status_built) (auto simp: image_iff)
  with Cons show ?case by (simp add: buildParentStatus_eq)
qed

lemma getParentRefKey_parentRefs [simp]:
  "map getParentRefKey (RouteReport_parentRefs ks) = ks"
  by (induction ks) (auto simp: RouteReport_parentRefs_def getParentRefKey_def)

text \<open>A route that names no parents (a delegatee) gets one status per parent of its report.\<close>

lemma BuildRouteStatus_inferred:
  assumes "ReportMap_route r hr = Some g" "hr_ParentRefs hr = []" "iter_order (rr_parents g) ks"
  shows "snd (BuildRouteStatus findC setC ks hr cName r) =
    Some (map (parent_status findC setC hr cName g) (RouteReport_parentRefs ks))"
  using assms iter_orderD(1) [OF assms(3)]
    buildParentStatus_loop [of "RouteReport_parentRefs ks" findC setC hr cName g "[]"]
  by (simp add: BuildRouteStatus_def Let_def split: prod.split) auto

lemma BuildRouteStatus_declared:
  assumes "ReportMap_route r hr = Some g" "hr_ParentRefs hr \<noteq> []"
    "distinct (map getParentRefKey (hr_ParentRefs hr))"
  shows "snd (BuildRouteStatus findC setC ks hr cName r) =
    Some (map (parent_status findC setC hr cName g) (hr_ParentRefs hr))"
  using assms buildParentStatus_loop [OF assms(3), of findC setC hr cName g "[]"]
  by (simp add: BuildRouteStatus_def Let_def split: prod.split) auto

context condition_api
begin

lemma parent_status_conditions:
  assumes "distinct (cond_types (parent_conditions g p))"
  shows "distinct (cond_types (rps_Conditions (parent_status findC setC hr cName g p)))"
    and "{''Accepted'', ''ResolvedRefs''} \<subseteq> set (cond_types (rps_Conditions (parent_status findC setC hr cName g p)))"
  using finalConditions_types [OF addMissingParentRef_distinct [OF assms]]
    addMissingParentRef_distinct [OF assms] addMissingParentRef_types [of "parent_conditions g p"]
  by (simp_all add: parent_status_def del: set_map)

end

section \<open>A reference instance of the condition library\<close>

text \<open>The documented algorithm, to show that the laws of \<open>condition_api\<close> can be met.\<close>

definition findStatusCondition :: "condition list \<Rightarrow> string \<Rightarrow> condition option" where
  "findStatusCondition cs t = List.find (\<lambda>c. cond_Type c = t) cs"

fun setStatusCondition :: "int \<Rightarrow> condition list \<Rightarrow> condition \<Rightarrow> condition list" where
  "setStatusCondition now [] new = [fresh_condition now new]"
| "setStatusCondition now (c # cs) new =
     (if cond_Type c = cond_Type new then updated_condition now c new # cs
      else c # setStatusCondition now cs new)"

lemma setStatusCondition_absent:
  "\<forall>c \<in> set cs. cond_Type c \<noteq> cond_Type new \<Longrightarrow> setStatusCondition now cs new = cs @ [fresh_condition now new]"
  by (induction cs) auto

lemma setStatusCondition_present:
  "\<lbrakk>cond_Type old = cond_Type new; \<forall>c \<in> set xs. cond_Type c \<noteq> cond_Type new\<rbrakk> \<Longrightarrow>
   setStatusCondition now (xs @ old # ys) new = xs @ updated_condition now old new # ys"
  by (induction xs) auto

lemma findStatusCondition_first:
  "\<lbrakk>cond_Type c = t; \<forall>c \<in> set xs. cond_Type c \<noteq> t\<rbrakk> \<Longrightarrow> findStatusCondition (xs @ c # ys) t = Some c"
  by (induction xs) (auto simp: findStatusCondition_def)

interpretation meta: condition_api findStatusCondition "setStatusCondition now" now for now
proof unfold_locales
  show "findStatusCondition cs t = None \<longleftrightarrow> (\<forall>c \<in> set cs. cond_Type c \<noteq> t)" for cs t
    by (auto simp: findStatusCondition_def find_None_iff)
qed (simp_all add: findStatusCondition_first setStatusCondition_absent setStatusCondition_present)

section \<open>Properties\<close>


text \<open>The gateway conditions built are the reported ones, each with its status, reason and
  message, the report's generation and a transition time that moves only when the status changes,
  followed by a positive condition for each type not reported.\<close>

theorem BuildGWStatus_reported:
  assumes api: "condition_api findC setC now"
    and rep: "ReportMap_Gateway r gw = Some g" and wf: "gr_named g" "gr_uniq g"
    and built: "BuildGWStatus findC setC gw r = (r', Some st)"
  shows "gs_Conditions st =
    map (final_condition findC now (gs_Conditions (gw_Status gw)) (gr_observedGeneration g))
      (foldl (add_missing findC) (gr_conditions g)
        [missing ''Accepted'' ConditionTrue ''Accepted'', missing ''Programmed'' ConditionTrue ''Programmed''])"
proof -
  obtain g1 fs where loop: "foldl (buildListenerStatus findC setC gw) (g, []) (gw_Listeners gw) = (g1, fs)"
    by (cases "foldl (buildListenerStatus findC setC gw) (g, []) (gw_Listeners gw)")
  note l = condition_api.buildListenerStatus_loop [OF api loop wf]
  have d: "distinct (cond_types (gr_conditions (addMissingGatewayConditions findC g1)))"
    using condition_api.addMissingGateway_distinct [OF api] l wf(2) by (simp add: gr_uniq_def)
  have "gs_Conditions st = finalConditions findC setC (gs_Conditions (gw_Status gw))
      (gr_observedGeneration g1) (gr_conditions (addMissingGatewayConditions findC g1))"
    using built rep loop by (auto simp: BuildGWStatus_def Let_def GatewayReport_GetConditions_def)
  then show ?thesis
    using condition_api.finalConditions_distinct [OF api d] l
    by (simp add: addMissingGatewayConditions_def foldl_default_conditions del: foldl.simps)
qed

text \<open>The status built for a delegatee route that declares no parents has one entry per parent of
  its report; whatever order the report's map is visited in, the entries are the same up to their
  order, and every entry carries exactly one condition per type, \<open>Accepted\<close> and \<open>ResolvedRefs\<close>
  included.\<close>

theorem BuildRouteStatus_delegatee:
  assumes api: "condition_api findC setC now"
    and rep: "ReportMap_route r hr = Some g" and nopar: "hr_ParentRefs hr = []"
    and uniq: "\<forall>prr \<in> ran (rr_parents g). distinct (cond_types prr)"
    and ks: "iter_order (rr_parents g) ks" and ks': "iter_order (rr_parents g) ks'"
  shows "\<exists>ps ps'. snd (BuildRouteStatus findC setC ks hr cName r) = Some ps \<and>
    snd (BuildRouteStatus findC setC ks' hr cName r) = Some ps' \<and> mset ps = mset ps' \<and>
    length ps = card (dom (rr_parents g)) \<and>
    (\<forall>s \<in> set ps. rps_ControllerName s = cName \<and> distinct (cond_types (rps_Conditions s)) \<and>
       {''Accepted'', ''ResolvedRefs''} \<subseteq> set (cond_types (rps_Conditions s)))"
proof -
  let ?st = "parent_status findC setC hr cName g"
  let ?ps = "map ?st (RouteReport_parentRefs ks)" and ?ps' = "map ?st (RouteReport_parentRefs ks')"
  have "mset ?ps = mset ?ps'"
    using iter_order_mset [OF ks ks'] by (simp add: RouteReport_parentRefs_def mset_map)
  moreover have "length ?ps = card (dom (rr_parents g))"
    using iter_orderD [OF ks] distinct_card [of ks] by (simp add: RouteReport_parentRefs_def)
  moreover have "rps_ControllerName s = cName \<and> distinct (cond_types (rps_Conditions s)) \<and>
      {''Accepted'', ''ResolvedRefs''} \<subseteq> set (cond_types (rps_Conditions s))" if "s \<in> set ?ps" for s
  proof -
    from that obtain p where p: "s = ?st p" by auto
    have "distinct (cond_types (parent_conditions g p))"
      using uniq by (auto simp: parent_conditions_def ran_def split: option.split)
    from condition_api.parent_status_conditions [OF api this, of hr cName] p show ?thesis
      by (simp add: parent_status_def)
  qed
  ultimately show ?thesis
    using BuildRouteStatus_inferred [OF rep nopar ks, of findC setC cName]
      BuildRouteStatus_inferred [OF rep nopar ks', of findC setC cName] by blast
qed

text \<open>C0. The transition time of a gateway condition: when the gateway's current status holds a
  condition of that type with the same status, its transition time is kept; otherwise it is the
  time of the update.\<close>

theorem final_condition_transition_time:
  assumes api: "condition_api findC setC now" and uniq: "distinct (cond_types olds)"
    and rc: "c = to_condition rc"
  shows "cond_LastTransitionTime (final_condition findC now olds gen c) =
    (case filter (\<lambda>old. cond_Type old = cond_Type c \<and> cond_Status old = cond_Status c) olds of
       [] \<Rightarrow> now | old # _ \<Rightarrow> cond_LastTransitionTime old)"
proof (cases "findC olds (cond_Type c)")
  case None
  then have "filter (\<lambda>old. cond_Type old = cond_Type c \<and> cond_Status old = cond_Status c) olds = []"
    using condition_api.find_none [OF api, of olds "cond_Type c"] by (auto simp: filter_empty_conv)
  with None rc show ?thesis by (simp add: final_condition_def fresh_condition_def to_condition_def)
next
  case (Some old)
  note old = condition_api.find_SomeD [OF api Some]
  have only: "filter (\<lambda>d. cond_Type d = cond_Type c) olds = [old]"
  proof -
    from old(1) obtain xs ys where olds: "olds = xs @ old # ys" by (meson split_list)
    have "\<forall>d \<in> set xs \<union> set ys. cond_Type d \<noteq> cond_Type c"
      using uniq old(2) olds by (auto simp: image_iff)
    with olds old(2) show ?thesis by (simp add: filter_empty_conv)
  qed
  have "filter (\<lambda>d. cond_Type d = cond_Type c \<and> cond_Status d = cond_Status c) olds =
      filter (\<lambda>d. cond_Status d = cond_Status c) [old]"
    unfolding only [symmetric] by (simp add: conj_commute)
  with Some rc show ?thesis
    by (simp add: final_condition_def updated_condition_def to_condition_def)
qed

subsection \<open>Witnesses\<close>

definition ex_listener :: "unit listener" where
  "ex_listener = \<lparr>l_Name = ''http'', l_Hostname = None, l_Port = 80, l_Protocol = ''HTTP'',
     l_TLS = None, l_AllowedRoutes = None\<rparr>"

definition ex_gw :: "unit gateway" where
  "ex_gw = \<lparr>gw_Kind = GatewayKind, gw_APIVersion = ''gateway.networking.k8s.io/v1'', gw_Namespace = ''ns'', gw_Name = ''gw'', gw_UID = ''gw-uid'', gw_Generation = 3, gw_DeletionTimestamp = None, gw_Annotations = Map.empty,
     gw_GatewayClassName = ''gloo-gateway'', gw_Listeners = [ex_listener],
     gw_Status = \<lparr>gs_Addresses = [], gs_Conditions = [], gs_Listeners = []\<rparr>\<rparr>"

definition ex_gw_report :: gateway_report where
  "ex_gw_report = \<lparr>gr_conditions = [to_condition (missing ''Accepted'' ''False'' ''ListenersNotValid'')],
     gr_listeners = Map.empty, gr_observedGeneration = 3\<rparr>"

definition ex_gw_reports :: report_map where
  "ex_gw_reports = \<lparr>rm_gateways = [gw_key ex_gw \<mapsto> ex_gw_report], rm_routes = Map.empty\<rparr>"

lemma ex_gw_wf:
  "ReportMap_Gateway ex_gw_reports ex_gw = Some ex_gw_report" "gr_named ex_gw_report" "gr_uniq ex_gw_report"
  by (simp_all add: ReportMap_Gateway_def ex_gw_reports_def ex_gw_report_def gr_named_def gr_uniq_def)


theorem BuildGWStatus_reported_witness:
  "\<exists>r' st. BuildGWStatus findStatusCondition (setStatusCondition 9) ex_gw ex_gw_reports = (r', Some st) \<and>
     map cond_Status (gs_Conditions st) = [''False'', ''True'']"
proof -
  obtain r' st where b: "BuildGWStatus findStatusCondition (setStatusCondition 9) ex_gw ex_gw_reports = (r', Some st)"
    by (cases "BuildGWStatus findStatusCondition (setStatusCondition 9) ex_gw ex_gw_reports")
      (auto simp: BuildGWStatus_def ex_gw_wf(1) Let_def split: prod.splits)
  have "map cond_Status (gs_Conditions st) = [''False'', ''True'']"
    by (simp add: BuildGWStatus_reported [OF meta.condition_api_axioms ex_gw_wf b]
        ex_gw_report_def add_missing_def findStatusCondition_def to_condition_def missing_def)
  with b show ?thesis by (intro exI conjI)
qed

definition ex_delegatee :: "nat http_route" where
  "ex_delegatee = \<lparr>hr_Namespace = ''ns'', hr_Name = ''c'', hr_Generation = 2, hr_CreationTimestamp = 0,
     hr_Annotations = Map.empty, hr_ParentRefs = [], hr_Hostnames = None, hr_Rules = [], hr_Status = []\<rparr>"

definition ex_parents :: route_report where
  "ex_parents = \<lparr>rr_parents = [ParentRefKey ''g'' ''k'' (NamespacedName ''n'' ''a'') \<mapsto> [],
     ParentRefKey ''g'' ''k'' (NamespacedName ''n'' ''b'') \<mapsto> []], rr_observedGeneration = 2\<rparr>"

theorem BuildRouteStatus_delegatee_witness:
  "\<exists>ps ps'.
     snd (BuildRouteStatus findStatusCondition (setStatusCondition 9)
       [ParentRefKey ''g'' ''k'' (NamespacedName ''n'' ''a''), ParentRefKey ''g'' ''k'' (NamespacedName ''n'' ''b'')]
       ex_delegatee ''c'' \<lparr>rm_gateways = Map.empty, rm_routes = [hr_key ex_delegatee \<mapsto> ex_parents]\<rparr>) = Some ps \<and>
     snd (BuildRouteStatus findStatusCondition (setStatusCondition 9)
       [ParentRefKey ''g'' ''k'' (NamespacedName ''n'' ''b''), ParentRefKey ''g'' ''k'' (NamespacedName ''n'' ''a'')]
       ex_delegatee ''c'' \<lparr>rm_gateways = Map.empty, rm_routes = [hr_key ex_delegatee \<mapsto> ex_parents]\<rparr>) = Some ps' \<and>
     mset ps = mset ps'"
proof -
  let ?a = "ParentRefKey ''g'' ''k'' (NamespacedName ''n'' ''a'')"
    and ?b = "ParentRefKey ''g'' ''k'' (NamespacedName ''n'' ''b'')"
  let ?r = "\<lparr>rm_gateways = Map.empty, rm_routes = [hr_key ex_delegatee \<mapsto> ex_parents]\<rparr>"
  have "ReportMap_route ?r ex_delegatee = Some ex_parents" by (simp add: ReportMap_route_def)
  moreover have "hr_ParentRefs ex_delegatee = []" by (simp add: ex_delegatee_def)
  moreover have "\<forall>prr \<in> ran (rr_parents ex_parents). distinct (cond_types prr)"
    by (auto simp: ex_parents_def ran_def split: if_splits)
  moreover have "iter_order (rr_parents ex_parents) [?a, ?b]" "iter_order (rr_parents ex_parents) [?b, ?a]"
    by (auto simp: iter_order_def ex_parents_def split: if_splits)
  ultimately show ?thesis
    using BuildRouteStatus_delegatee [OF meta.condition_api_axioms, of ?r ex_delegatee ex_parents "[?a, ?b]" "[?b, ?a]" 9 "''c''"]
    by blast
qed

theorem final_condition_transition_time_witness:
  "cond_LastTransitionTime (final_condition findStatusCondition 9
     [(to_condition (missing ''Accepted'' ''True'' ''x''))\<lparr>cond_LastTransitionTime := 4\<rparr>] 1
     (to_condition (missing ''Accepted'' ''True'' ''y''))) = 4"
  using final_condition_transition_time [OF meta.condition_api_axioms,
      of "[(to_condition (missing ''Accepted'' ''True'' ''x''))\<lparr>cond_LastTransitionTime := 4\<rparr>]"
         "to_condition (missing ''Accepted'' ''True'' ''y'')" "missing ''Accepted'' ''True'' ''y''" 9 1]
  by (simp add: to_condition_def missing_def)

subsection \<open>Repeated conditions\<close>

definition ex_ref :: parent_reference where
  "ex_ref = \<lparr>pr_Group = None, pr_Kind = None, pr_Namespace = None, pr_Name = ''gw'',
     pr_SectionName = None, pr_Port = None\<rparr>"

definition ex_cond :: "string \<Rightarrow> condition" where
  "ex_cond m = \<lparr>cond_Type = ''ResolvedRefs'', cond_Status = ''False'', cond_ObservedGeneration = 1,
     cond_LastTransitionTime = 5, cond_Reason = ''BackendNotFound'', cond_Message = m\<rparr>"

definition ex_route :: "nat http_route" where
  "ex_route = \<lparr>hr_Namespace = ''ns'', hr_Name = ''r'', hr_Generation = 2, hr_CreationTimestamp = 0,
     hr_Annotations = Map.empty, hr_ParentRefs = [ex_ref], hr_Hostnames = None, hr_Rules = [],
     hr_Status = [\<lparr>rps_ParentRef = ex_ref, rps_ControllerName = ''c'', rps_Conditions = [ex_cond ''a'']\<rparr>]\<rparr>"

text \<open>The report after two backends of the route failed to resolve.\<close>

definition ex_report :: report_map where
  "ex_report =
     (let (r, k) = reporter_Route ex_route NewReportMap;
          (r, prr) = rr_ParentRef k ex_ref r;
          bad = (\<lambda>m. \<lparr>rc_Type = ''ResolvedRefs'', rc_Status = ''False'', rc_Reason = ''BackendNotFound'', rc_Message = m\<rparr>)
      in prr_SetCondition prr (bad ''b'') (prr_SetCondition prr (bad ''a'') r))"

lemmas ex_report_simps = ex_report_def ex_route_def ex_ref_def ex_cond_def NewReportMap_def
  reporter_Route_def ReportMap_route_def newRouteReport_def hr_key_def report_defs
  RouteReport_parentRef_def ParentRefReport_SetCondition_def to_condition_def getParentRefKey_def

text \<open>\<open>SetCondition\<close> appends, and the status builder copies the old condition once per reported
  condition: when two backends of a route fail and the route's current status already holds
  \<open>ResolvedRefs\<close>, the new status holds two conditions of that type.\<close>

theorem BuildRouteStatus_repeated_condition:
  "\<exists>s. snd (BuildRouteStatus findStatusCondition (setStatusCondition 9) [] ex_route ''c'' ex_report) = Some [s] \<and>
     cond_types (rps_Conditions s) = [''ResolvedRefs'', ''ResolvedRefs'', ''Accepted'']"
  by (simp add: BuildRouteStatus_def buildParentStatus_def finalConditions_def
      addMissingParentRefConditions_def default_parentRef_def missing_def findStatusCondition_def
      updated_condition_def fresh_condition_def add_missing_def Let_def ex_report_simps)

text \<open>C0. A parent reference is identified by group, kind, namespace and name only: two references of a
  route to different sections or ports of one gateway share their report.\<close>

theorem getParentRefKey_ignores_section:
  "getParentRefKey (p\<lparr>pr_SectionName := s, pr_Port := n\<rparr>) = getParentRefKey p"
  by (simp add: getParentRefKey_def)

end
