(* ===== verification/GlooRoute.thy ===== *)
theory GlooRoute
  imports Query Reports
begin

text \<open>
  The data the translator produces: routes of a Gloo \<open>Proxy\<close> (\<open>projects/gloo/pkg/api/v1\<close>, generated from
  protocol buffers) as far as the translator and its plugins write them, the context handed to the
  plugins (\<open>translator/plugins/plugins.go\<close>) and the handling of resolved backends
  (\<open>query/utils.go\<close>). A one-of field of a message is an option of a datatype.
\<close>

section \<open>Routes\<close>

datatype path_specifier = Matcher_Prefix string | Matcher_Exact string | Matcher_Regex string

record header_matcher =
  hdm_Name :: string
  hdm_Value :: string
  hdm_Regex :: bool

record query_parameter_matcher =
  qpm_Name :: string
  qpm_Value :: string
  qpm_Regex :: bool

record matcher =
  mt_PathSpecifier :: "path_specifier option"
  mt_Headers :: "header_matcher list"
  mt_QueryParameters :: "query_parameter_matcher list"
  mt_Methods :: "string list"

datatype destination_spec = DestinationSpec_Aws string | DestinationSpec_Azure string

datatype destination_type =
    Destination_Kube resource_ref "32 word"
  | Destination_Upstream resource_ref

record destination =
  dest_Type :: destination_type
  dest_Spec :: "destination_spec option"

record weighted_destination =
  wd_Destination :: destination
  wd_Weight :: "32 word"

datatype route_action = Single destination | Multi "weighted_destination list"

datatype redirect_code = MOVED_PERMANENTLY | FOUND | SEE_OTHER | TEMPORARY_REDIRECT | PERMANENT_REDIRECT

datatype path_rewrite = PathRedirect string | PrefixRewrite string

record redirect_action =
  ra_HttpsRedirect :: bool
  ra_HostRedirect :: string
  ra_ResponseCode :: redirect_code
  ra_PortRedirect :: "32 word option"
  ra_PathRewrite :: "path_rewrite option"

record direct_response_action =
  dra_Status :: "32 word"
  dra_Body :: string

datatype action =
    RouteAction route_action
  | RedirectAction redirect_action
  | DirectResponseAction direct_response_action

record source_ref =
  src_Kind :: string
  src_Ref :: resource_ref
  src_Generation :: int

record gloo_route =
  rt_Name :: string
  rt_Matchers :: "matcher list"
  rt_Action :: "action option"
  rt_Options :: "route_options option"
  rt_Sources :: "source_ref list option"

text \<open>\<open>routeutils.AppendSourceToRoute\<close>\<close>

definition AppendSourceToRoute :: "gloo_route \<Rightarrow> source_ref list \<Rightarrow> bool \<Rightarrow> gloo_route" where
  "AppendSourceToRoute route newSources preserveExisting =
     (let sources = (case rt_Sources route of None \<Rightarrow> [] | Some ss \<Rightarrow> ss);
          sources = (if preserveExisting then sources else [])
      in route\<lparr>rt_Sources := Some (sources @ newSources)\<rparr>)"

section \<open>Plugins\<close>

text \<open>\<open>plugins.RouteContext\<close>. The match is the rule's match with its path as it reads when the plugin
  is called; the delegation chain lists the parents of the route, nearest first.\<close>

record 'sel route_context =
  rctx_Listener :: "'sel listener"
  rctx_Route :: route
  rctx_Hostnames :: "string list"
  rctx_DelegationChain :: "namespaced_name list"
  rctx_Rule :: "nat http_route_rule"
  rctx_Match :: "http_path_match http_route_match"
  rctx_Reporter :: parent_ref_reporter

text \<open>What a plugin may change besides the route: the status reports, and state \<open>'x\<close> of its own.\<close>

type_synonym 'x plugin_state = "report_map \<times> 'x"

type_synonym ('sel, 'x) route_plugin =
  "'sel route_context \<Rightarrow> gloo_route \<Rightarrow> 'x plugin_state \<Rightarrow> (go_error option \<times> gloo_route \<times> 'x plugin_state) outcome"

section \<open>Resolved backends (query/utils.go)\<close>

definition unresolved :: "string \<Rightarrow> string \<Rightarrow> report_condition" where
  "unresolved reason msg = \<lparr>rc_Type = ''ResolvedRefs'', rc_Status = ConditionFalse, rc_Reason = reason, rc_Message = msg\<rparr>"

definition ProcessBackendError :: "go_error \<Rightarrow> parent_ref_reporter \<Rightarrow> report_map \<Rightarrow> report_map" where
  "ProcessBackendError err reporter rm =
     (let reason =
        (if errors_Is err ErrUnknownBackendKind then ''InvalidKind''
         else if errors_Is err ErrMissingReferenceGrant then ''RefNotPermitted''
         else if errors_Is err ErrCyclicReference then ''RefNotPermitted''
         else if errors_Is err ErrUnresolvedReference then ''BackendNotFound''
         else if IsNotFound err then ''BackendNotFound''
         else ''BackendNotFound'')
      in prr_SetCondition reporter (unresolved reason (err_Error err)) rm)"

definition ProcessBackendRef ::
  "go_error + k8s_object \<Rightarrow> parent_ref_reporter \<Rightarrow> backend_object_reference \<Rightarrow> report_map \<Rightarrow>
   string option \<times> report_map" where
  "ProcessBackendRef res reporter backendRef rm =
     (case res of
        Inl err \<Rightarrow> (None, ProcessBackendError err reporter rm)
      | Inr obj \<Rightarrow>
         (case obj of
            ObjUpstream _ name _ \<Rightarrow> (Some name, rm)
          | ObjService _ name \<Rightarrow>
              let port = (case bor_Port backendRef of None \<Rightarrow> 0 | Some p \<Rightarrow> p)
              in if port = 0 then (None, prr_SetCondition reporter (unresolved ''UnsupportedValue'' ''invalid port value'') rm)
                 else (Some name, rm)
          | _ \<Rightarrow> (None, prr_SetCondition reporter (unresolved ''InvalidKind'' ''invalid backend type provided'') rm)))"

end
