(* ===== verification/OptionMerge.thy ===== *)
theory OptionMerge
  imports GlooRoute
begin

text \<open>
  What the plugins for option resources share: the shallow merge of options of
  \<open>projects/gloo/pkg/utils/merge.go\<close>, and the order of policies,
  \<open>translator/plugins/utils/sort_objects.go\<close> and \<open>GetPrioritizedListenerPolicies\<close> of \<open>plugin_utils.go\<close>.

  The merge of the code runs over the fields of a struct by reflection. A field whose value is empty is
  \<open>None\<close> here: the fields of options are pointers, interfaces, slices and maps, and a pointer to a struct is
  never empty. Merging shares the values of fields between the structs; the structs merged are copies
  read for one call of a plugin, so nothing is written through a shared value.
\<close>

section \<open>Shallow merge (merge.go)\<close>

text \<open>One field: its value after the merge, and whether it was overwritten.\<close>

definition ShallowMerge :: "'a option \<Rightarrow> 'a option \<Rightarrow> bool \<Rightarrow> 'a option \<times> bool" where
  "ShallowMerge dst src overwrite = (if src \<noteq> None \<and> (overwrite \<or> dst = None) then (src, True) else (dst, False))"

text \<open>The fields that are only passed on.\<close>

definition mergeFields :: "option_fields \<Rightarrow> option_fields \<Rightarrow> option_fields \<times> bool" where
  "mergeFields dst src = (let new = filter (\<lambda>(k, _). map_of dst k = None) src in (dst @ new, new \<noteq> []))"

definition ShallowMergeRouteOptions :: "route_options option \<Rightarrow> route_options option \<Rightarrow> route_options option \<times> bool" where
  "ShallowMergeRouteOptions dst src =
     (case src of
        None \<Rightarrow> (dst, False)
      | Some s \<Rightarrow>
          (case dst of
             None \<Rightarrow> (Some s, True)
           | Some d \<Rightarrow>
               let (headers, b1) = ShallowMerge (ro_HeaderManipulation d) (ro_HeaderManipulation s) False;
                   (host, b2) = ShallowMerge (ro_HostRewriteType d) (ro_HostRewriteType s) False;
                   (prefix, b3) = ShallowMerge (ro_PrefixRewrite d) (ro_PrefixRewrite s) False;
                   (regex, b4) = ShallowMerge (ro_RegexRewrite d) (ro_RegexRewrite s) False;
                   (shadowing, b5) = ShallowMerge (ro_Shadowing d) (ro_Shadowing s) False;
                   (fields, b6) = mergeFields (ro_Fields d) (ro_Fields s)
               in (Some \<lparr>ro_HeaderManipulation = headers, ro_HostRewriteType = host, ro_PrefixRewrite = prefix,
                     ro_RegexRewrite = regex, ro_Shadowing = shadowing, ro_Fields = fields\<rparr>,
                   b1 \<or> b2 \<or> b3 \<or> b4 \<or> b5 \<or> b6)))"

definition ShallowMergeVirtualHostOptions :: "option_fields option \<Rightarrow> option_fields option \<Rightarrow> option_fields option \<times> bool" where
  "ShallowMergeVirtualHostOptions dst src =
     (case src of
        None \<Rightarrow> (dst, False)
      | Some s \<Rightarrow>
          (case dst of
             None \<Rightarrow> (Some s, True)
           | Some d \<Rightarrow> let (fields, overwrote) = mergeFields d s in (Some fields, overwrote)))"

text \<open>The value of a field of options, over all kinds of fields.\<close>

datatype route_option_value =
    HeaderManipulationValue header_manipulation
  | HostRewriteValue host_rewrite_type
  | RegexRewriteValue regex_rewrite
  | ShadowingValue route_shadowing
  | FieldValue string

datatype option_key =
    KeyHeaderManipulation | KeyHostRewriteType | KeyPrefixRewrite | KeyRegexRewrite | KeyShadowing | KeyField string

fun ro_get :: "option_key \<Rightarrow> route_options \<Rightarrow> route_option_value option" where
  "ro_get KeyHeaderManipulation opts = map_option HeaderManipulationValue (ro_HeaderManipulation opts)"
| "ro_get KeyHostRewriteType opts = map_option HostRewriteValue (ro_HostRewriteType opts)"
| "ro_get KeyPrefixRewrite opts = map_option FieldValue (ro_PrefixRewrite opts)"
| "ro_get KeyRegexRewrite opts = map_option RegexRewriteValue (ro_RegexRewrite opts)"
| "ro_get KeyShadowing opts = map_option ShadowingValue (ro_Shadowing opts)"
| "ro_get (KeyField k) opts = map_option FieldValue (map_of (ro_Fields opts) k)"

section \<open>Merging a list of options\<close>

fun first_some :: "'a option list \<Rightarrow> 'a option" where
  "first_some [] = None"
| "first_some (None # xs) = first_some xs"
| "first_some (Some v # xs) = Some v"

lemma first_some_append: "first_some (xs @ ys) = (case first_some xs of None \<Rightarrow> first_some ys | Some v \<Rightarrow> Some v)"
  by (induction xs rule: first_some.induct) auto

lemma first_some_None: "first_some xs = None \<longleftrightarrow> (\<forall>x \<in> set xs. x = None)"
  by (induction xs rule: first_some.induct) auto

text \<open>The loops of the plugins over policies: merge each into what there is and collect those used.\<close>

definition mergePolicy ::
  "('o option \<Rightarrow> 'o option \<Rightarrow> 'o option \<times> bool) \<Rightarrow> 'o option \<times> 'o policy list \<times> 'o policy list \<Rightarrow> 'o policy \<Rightarrow>
   'o option \<times> 'o policy list \<times> 'o policy list" where
  "mergePolicy merge = (\<lambda>(merged, used, ignored) opt.
     let (merged, optionUsed) = merge merged (pol_Options opt)
     in if optionUsed then (merged, used @ [opt], ignored) else (merged, used, ignored @ [opt]))"

lemma fst_foldl_mergePolicy:
  "fst (foldl (mergePolicy merge) (m, used, ignored) ps) = foldl (\<lambda>m p. fst (merge m (pol_Options p))) m ps"
  by (induction ps arbitrary: m used ignored) (simp_all add: mergePolicy_def case_prod_beta Let_def)

text \<open>The contract of a shallow merge: a field that is set stays, an empty one is filled, and the flag
  says whether one was filled. Options that are nil count as filled by any options.\<close>

locale shallow_merge =
  fixes merge :: "'o option \<Rightarrow> 'o option \<Rightarrow> 'o option \<times> bool" and get :: "'k \<Rightarrow> 'o \<Rightarrow> 'v option"
  assumes merge_nil: "merge x None = (x, False)"
    and merge_into_nil: "merge None (Some s) = (Some s, True)"
    and merge_some: "\<exists>m b. merge (Some d) (Some s) = (Some m, b) \<and>
      (\<forall>k. get k m = first_some [get k d, get k s]) \<and> (b \<longleftrightarrow> (\<exists>k. get k d = None \<and> get k s \<noteq> None))"
begin

definition opt_get :: "'k \<Rightarrow> 'o option \<Rightarrow> 'v option" where
  "opt_get k x = Option.bind x (get k)"

text \<open>Options set something that no earlier ones set.\<close>

definition contributes :: "'o option list \<Rightarrow> 'o option \<Rightarrow> bool" where
  "contributes earlier x \<longleftrightarrow> x \<noteq> None \<and>
     ((\<forall>y \<in> set earlier. y = None) \<or> (\<exists>k. opt_get k x \<noteq> None \<and> (\<forall>y \<in> set earlier. opt_get k y = None)))"

lemma opt_get_simps [simp]: "opt_get k None = None" "opt_get k (Some x) = get k x"
  by (simp_all add: opt_get_def)

lemma merge_get:
  "opt_get k (fst (merge d s)) = first_some [opt_get k d, opt_get k s] \<and>
    (fst (merge d s) = None \<longleftrightarrow> d = None \<and> s = None) \<and> (snd (merge d s) \<longleftrightarrow> contributes [d] s)"
proof (cases s)
  case None
  then show ?thesis by (cases "opt_get k d") (auto simp: merge_nil contributes_def)
next
  case s: (Some s')
  show ?thesis
  proof (cases d)
    case None
    then show ?thesis using s by (cases "get k s'") (auto simp: merge_into_nil contributes_def)
  next
    case (Some d')
    obtain m b where "merge (Some d') (Some s') = (Some m, b)" "\<forall>k. get k m = first_some [get k d', get k s']"
      "b \<longleftrightarrow> (\<exists>k. get k d' = None \<and> get k s' \<noteq> None)"
      using merge_some by blast
    then show ?thesis using Some s by (auto simp: contributes_def)
  qed
qed

text \<open>What merging a list of policies gives: every field comes from the first policy that sets it, and
  the policies used are those that set something new.\<close>

definition merged_ok :: "'o option list \<Rightarrow> 'o option \<Rightarrow> bool" where
  "merged_ok os m \<longleftrightarrow> (m = None \<longleftrightarrow> (\<forall>x \<in> set os. x = None)) \<and> (\<forall>k. opt_get k m = first_some (map (opt_get k) os))"

lemma merged_ok_contributes: "merged_ok os m \<Longrightarrow> contributes [m] x \<longleftrightarrow> contributes os x"
  by (simp add: merged_ok_def contributes_def first_some_None)

lemma merged_ok_step:
  assumes "merged_ok os m"
  shows "merged_ok (os @ [x]) (fst (merge m x))"
proof -
  have m: "m = None \<longleftrightarrow> (\<forall>x \<in> set os. x = None)" "\<And>k. opt_get k m = first_some (map (opt_get k) os)"
    using assms by (simp_all add: merged_ok_def)
  have f: "first_some [first_some xs, y] = first_some (xs @ [y])" for xs and y :: "'v option"
    by (cases "first_some xs"; cases y) (simp_all add: first_some_append)
  have "opt_get k (fst (merge m x)) = first_some (map (opt_get k) (os @ [x]))" for k
    using merge_get [of k m x] by (simp add: m(2) f)
  moreover have "fst (merge m x) = None \<longleftrightarrow> (\<forall>x \<in> set (os @ [x]). x = None)"
    using merge_get [of _ m x] m(1) by auto
  ultimately show ?thesis unfolding merged_ok_def by blast
qed

fun used_of :: "'o option list \<Rightarrow> 'o policy list \<Rightarrow> 'o policy list" where
  "used_of earlier [] = []"
| "used_of earlier (p # ps) =
     (if contributes earlier (pol_Options p) then [p] else []) @ used_of (earlier @ [pol_Options p]) ps"

fun ignored_of :: "'o option list \<Rightarrow> 'o policy list \<Rightarrow> 'o policy list" where
  "ignored_of earlier [] = []"
| "ignored_of earlier (p # ps) =
     (if contributes earlier (pol_Options p) then [] else [p]) @ ignored_of (earlier @ [pol_Options p]) ps"

lemma merge_policies:
  assumes "merged_ok os m"
  shows "\<exists>m'. foldl (mergePolicy merge) (m, used, ignored) ps = (m', used @ used_of os ps, ignored @ ignored_of os ps) \<and>
    merged_ok (os @ map pol_Options ps) m'"
  using assms
proof (induction ps arbitrary: os m used ignored)
  case Nil
  then show ?case by simp
next
  case (Cons p ps)
  obtain m1 b where b: "merge m (pol_Options p) = (m1, b)" by (cases "merge m (pol_Options p)")
  have c: "b \<longleftrightarrow> contributes os (pol_Options p)" "merged_ok (os @ [pol_Options p]) m1"
    using merge_get [of _ m "pol_Options p"] b merged_ok_contributes [OF Cons.prems] merged_ok_step [OF Cons.prems, of "pol_Options p"]
    by simp_all
  have step: "mergePolicy merge (m, used, ignored) p =
      (m1, if b then used @ [p] else used, if b then ignored else ignored @ [p])"
    by (simp add: mergePolicy_def b)
  show ?case
    using Cons.IH [OF c(2), of "if b then used @ [p] else used" "if b then ignored else ignored @ [p]"] c(1)
    by (cases b) (simp_all add: step)
qed

end

subsection \<open>The two merges\<close>

lemma map_of_mergeFields: "map_of (fst (mergeFields d s)) k = first_some [map_of d k, map_of s k]"
proof -
  have "map_of (filter (\<lambda>(k, _). map_of d k = None) s) k = (if map_of d k = None then map_of s k else None)"
    by (induction s) auto
  then show ?thesis
    by (cases "map_of d k"; cases "map_of s k") (simp_all add: mergeFields_def Let_def map_add_def)
qed

lemma snd_mergeFields: "snd (mergeFields d s) \<longleftrightarrow> (\<exists>k. map_of d k = None \<and> map_of s k \<noteq> None)"
proof -
  have "snd (mergeFields d s) \<longleftrightarrow> (\<exists>(k, v) \<in> set s. map_of d k = None)"
    by (auto simp: mergeFields_def Let_def filter_empty_conv)
  also have "\<dots> \<longleftrightarrow> (\<exists>k. map_of d k = None \<and> k \<in> fst ` set s)" by force
  finally show ?thesis by (simp add: map_of_eq_None_iff)
qed

interpretation vho: shallow_merge ShallowMergeVirtualHostOptions "\<lambda>k opts. map_of opts k"
proof unfold_locales
  fix d s :: option_fields
  show "\<exists>m b. ShallowMergeVirtualHostOptions (Some d) (Some s) = (Some m, b) \<and>
      (\<forall>k. map_of m k = first_some [map_of d k, map_of s k]) \<and> (b \<longleftrightarrow> (\<exists>k. map_of d k = None \<and> map_of s k \<noteq> None))"
    using map_of_mergeFields [of d s] snd_mergeFields [of d s]
    by (cases "mergeFields d s") (simp add: ShallowMergeVirtualHostOptions_def)
qed (simp_all add: ShallowMergeVirtualHostOptions_def)

lemma first_some_map_option: "first_some [map_option f x, map_option f y] = map_option f (first_some [x, y])"
  by (cases x; cases y) simp_all

lemma ShallowMerge_fst: "fst (ShallowMerge d s False) = first_some [d, s]"
  by (cases d; cases s) (simp_all add: ShallowMerge_def)

lemma ShallowMerge_snd: "snd (ShallowMerge d s False) \<longleftrightarrow> d = None \<and> s \<noteq> None"
  by (simp add: ShallowMerge_def)

lemma ShallowMergeRouteOptions_Some:
  "ShallowMergeRouteOptions (Some d) (Some s) =
     (Some \<lparr>ro_HeaderManipulation = first_some [ro_HeaderManipulation d, ro_HeaderManipulation s],
        ro_HostRewriteType = first_some [ro_HostRewriteType d, ro_HostRewriteType s],
        ro_PrefixRewrite = first_some [ro_PrefixRewrite d, ro_PrefixRewrite s],
        ro_RegexRewrite = first_some [ro_RegexRewrite d, ro_RegexRewrite s],
        ro_Shadowing = first_some [ro_Shadowing d, ro_Shadowing s],
        ro_Fields = fst (mergeFields (ro_Fields d) (ro_Fields s))\<rparr>,
      ro_HeaderManipulation d = None \<and> ro_HeaderManipulation s \<noteq> None \<or> ro_HostRewriteType d = None \<and> ro_HostRewriteType s \<noteq> None \<or>
      ro_PrefixRewrite d = None \<and> ro_PrefixRewrite s \<noteq> None \<or> ro_RegexRewrite d = None \<and> ro_RegexRewrite s \<noteq> None \<or>
      ro_Shadowing d = None \<and> ro_Shadowing s \<noteq> None \<or> (\<exists>k. map_of (ro_Fields d) k = None \<and> map_of (ro_Fields s) k \<noteq> None))"
  by (simp only: ShallowMergeRouteOptions_def option.case case_prod_beta Let_def ShallowMerge_fst ShallowMerge_snd snd_mergeFields)

lemma ex_option_key:
  "(\<exists>k. P k) \<longleftrightarrow> P KeyHeaderManipulation \<or> P KeyHostRewriteType \<or> P KeyPrefixRewrite \<or> P KeyRegexRewrite \<or> P KeyShadowing \<or>
     (\<exists>k. P (KeyField k))"
  by (metis option_key.exhaust)

interpretation rto: shallow_merge ShallowMergeRouteOptions ro_get
proof unfold_locales
  fix d s
  let ?m = "fst (ShallowMergeRouteOptions (Some d) (Some s))"
  have "ro_get k (the ?m) = first_some [ro_get k d, ro_get k s]" for k
    by (cases k) (simp_all add: ShallowMergeRouteOptions_Some first_some_map_option map_of_mergeFields)
  moreover have "snd (ShallowMergeRouteOptions (Some d) (Some s)) \<longleftrightarrow> (\<exists>k. ro_get k d = None \<and> ro_get k s \<noteq> None)"
    by (subst ex_option_key) (simp add: ShallowMergeRouteOptions_Some)
  ultimately show "\<exists>m b. ShallowMergeRouteOptions (Some d) (Some s) = (Some m, b) \<and>
      (\<forall>k. ro_get k m = first_some [ro_get k d, ro_get k s]) \<and> (b \<longleftrightarrow> (\<exists>k. ro_get k d = None \<and> ro_get k s \<noteq> None))"
    by (cases "ShallowMergeRouteOptions (Some d) (Some s)") (auto simp: ShallowMergeRouteOptions_Some)
qed (simp_all add: ShallowMergeRouteOptions_def)

end
