(* ===== verification/PolicyAttachment.thy ===== *)
theory PolicyAttachment
  imports OptionMerge
begin

text \<open>
  How policies attach: the field indexes of the four option resources
  (\<open>translator/plugins/*/query/indexers.go\<close>), the order of policies
  (\<open>translator/plugins/utils/sort_objects.go\<close>, \<open>GetPrioritizedListenerPolicies\<close> of \<open>plugin_utils.go\<close>) and the queries for
  the policies of a listener (\<open>translator/plugins/*/query/query.go\<close>).

  A list of the API server by field index and namespace is an argument; what is relied on is
  \<open>lists_by_index\<close>: it returns resources of the namespace that have the key in the index.
\<close>

section \<open>Indexes (indexers.go)\<close>

definition StringValue_GetValue :: "string option \<Rightarrow> string" where
  "StringValue_GetValue v = (case v of None \<Rightarrow> [] | Some s \<Rightarrow> s)"

text \<open>The four indexers differ in the kind of the target only.\<close>

definition targetRefIndexer :: "string \<Rightarrow> 'o policy \<Rightarrow> string list" where
  "targetRefIndexer kind opt =
     (case pol_TargetRefs opt of
        [] \<Rightarrow> []
      | None # _ \<Rightarrow> []
      | Some targetRef # _ \<Rightarrow>
          if ptr_Group targetRef \<noteq> GroupName then []
          else if ptr_Kind targetRef \<noteq> kind then []
          else
            let ns = StringValue_GetValue (ptr_Namespace targetRef);
                ns = (if ns = [] then pol_Namespace opt else ns)
            in [nn_String (NamespacedName ns (ptr_Name targetRef))])"

definition routeOptionTargetRefIndexer :: "route_option \<Rightarrow> string list" where
  "routeOptionTargetRefIndexer = targetRefIndexer HTTPRouteKind"

definition virtualHostOptionTargetRefIndexer :: "virtual_host_option \<Rightarrow> string list" where
  "virtualHostOptionTargetRefIndexer = targetRefIndexer GatewayKind"

definition httpListenerOptionTargetRefIndexer :: "http_listener_option \<Rightarrow> string list" where
  "httpListenerOptionTargetRefIndexer = targetRefIndexer GatewayKind"

definition listenerOptionTargetRefIndexer :: "listener_option \<Rightarrow> string list" where
  "listenerOptionTargetRefIndexer = targetRefIndexer GatewayKind"

text \<open>A list by field index: the key and the namespace give an error or the resources.\<close>

type_synonym 'o list_policies = "string \<Rightarrow> string \<Rightarrow> go_error + 'o policy list"

definition lists_by_index :: "('o policy \<Rightarrow> string list) \<Rightarrow> 'o list_policies \<Rightarrow> bool" where
  "lists_by_index indexer list \<longleftrightarrow> (\<forall>key ns items. list key ns = Inr items \<longrightarrow>
     (\<forall>p \<in> set items. pol_Namespace p = ns \<and> key \<in> set (indexer p)))"

lemma targetRefIndexer_nonempty: "key \<in> set (targetRefIndexer kind p) \<Longrightarrow> pol_TargetRefs p \<noteq> []"
  by (auto simp: targetRefIndexer_def)

section \<open>The order of policies (sort_objects.go, plugin_utils.go)\<close>

definition creationLess :: "'o policy \<Rightarrow> 'o policy \<Rightarrow> bool" where
  "creationLess a b =
     (if pol_CreationTimestamp a = pol_CreationTimestamp b then nn_String (pol_key a) < nn_String (pol_key b)
      else pol_CreationTimestamp a < pol_CreationTimestamp b)"

definition SortByCreationTime :: "'o policy list \<Rightarrow> 'o policy list" where
  "SortByCreationTime objs = sort_stable creationLess objs"

definition GetSectionName :: "policy_target_ref option \<Rightarrow> string option" where
  "GetSectionName ref = (case ref of None \<Rightarrow> None | Some r \<Rightarrow> ptr_SectionName r)"

definition GetPrioritizedListenerPolicies :: "'o policy list \<Rightarrow> 'sel listener \<Rightarrow> 'o policy list outcome" where
  "GetPrioritizedListenerPolicies items listener =
     bind_out
       (fold_out (\<lambda>item (optsWithSectionName, optsWithoutSectionName).
          case pol_TargetRefs item of
            [] \<Rightarrow> Inl IndexOutOfRange
          | targetRef # _ \<Rightarrow>
              let sectionName = GetSectionName targetRef
              in if sectionName \<noteq> None \<and> StringValue_GetValue sectionName \<noteq> []
                 then Inr (if StringValue_GetValue sectionName = l_Name listener then optsWithSectionName @ [item] else optsWithSectionName,
                           optsWithoutSectionName)
                 else Inr (optsWithSectionName, optsWithoutSectionName @ [item])) items ([], []))
       (\<lambda>(optsWithSectionName, optsWithoutSectionName).
          if length optsWithoutSectionName + length optsWithSectionName = 0 then Inr []
          else Inr (SortByCreationTime optsWithSectionName @ SortByCreationTime optsWithoutSectionName))"

section \<open>Policies of a listener (query.go)\<close>

definition listenerPolicies :: "'o list_policies \<Rightarrow> 'sel listener \<Rightarrow> 'sel gateway \<Rightarrow> (go_error + 'o policy list) outcome" where
  "listenerPolicies list listener parentGw =
     (if gw_Name parentGw = [] \<or> gw_Namespace parentGw = []
      then Inr (Inl (ErrMsg (''parent gateway must have name and namespace; received name: '' @ gw_Name parentGw @
             '', namespace: '' @ gw_Namespace parentGw)))
      else
        (case list (nn_String (gw_key parentGw)) (gw_Namespace parentGw) of
           Inl err \<Rightarrow> Inr (Inl err)
         | Inr items \<Rightarrow>
             if items = [] then Inr (Inr [])
             else bind_out (GetPrioritizedListenerPolicies items listener) (\<lambda>ps. Inr (Inr ps))))"

definition GetVirtualHostOptionsForListener ::
  "option_fields list_policies \<Rightarrow> 'sel listener \<Rightarrow> 'sel gateway \<Rightarrow> (go_error + virtual_host_option list) outcome" where
  "GetVirtualHostOptionsForListener = listenerPolicies"

definition GetAttachedHttpListenerOptions ::
  "option_fields list_policies \<Rightarrow> 'sel listener \<Rightarrow> 'sel gateway \<Rightarrow> (go_error + http_listener_option list) outcome" where
  "GetAttachedHttpListenerOptions = listenerPolicies"

definition GetAttachedListenerOptions ::
  "option_fields list_policies \<Rightarrow> 'sel listener \<Rightarrow> 'sel gateway \<Rightarrow> (go_error + listener_option list) outcome" where
  "GetAttachedListenerOptions = listenerPolicies"

section \<open>Properties\<close>

text \<open>The order that the sort follows: creation time, then namespace and name.\<close>

definition older :: "'o policy \<Rightarrow> 'o policy \<Rightarrow> bool" where
  "older a b \<longleftrightarrow> pol_CreationTimestamp a < pol_CreationTimestamp b \<or>
     pol_CreationTimestamp a = pol_CreationTimestamp b \<and> nn_String (pol_key a) \<le> nn_String (pol_key b)"

lemma sorted_SortByCreationTime: "sorted_wrt older (SortByCreationTime ps)"
  unfolding SortByCreationTime_def
  by (rule sorted_sort_stable) (auto simp: creationLess_def older_def split: if_splits)

lemma mset_SortByCreationTime [simp]: "mset (SortByCreationTime ps) = mset ps"
  and set_SortByCreationTime [simp]: "set (SortByCreationTime ps) = set ps"
  by (simp_all add: SortByCreationTime_def)

lemma SortByCreationTime_singleton [simp]: "SortByCreationTime [] = []" "SortByCreationTime [p] = [p]"
  by (simp_all add: SortByCreationTime_def sort_stable_def)

definition section_of :: "'o policy \<Rightarrow> string" where
  "section_of p = (case pol_TargetRefs p of [] \<Rightarrow> [] | r # _ \<Rightarrow> StringValue_GetValue (GetSectionName r))"

text \<open>A policy with a section name comes before one without.\<close>

definition policy_precedes :: "'o policy \<Rightarrow> 'o policy \<Rightarrow> bool" where
  "policy_precedes a b \<longleftrightarrow> (if (section_of a = []) = (section_of b = []) then older a b else section_of a \<noteq> [])"

lemma StringValue_some: "StringValue_GetValue v \<noteq> [] \<Longrightarrow> \<exists>y. v = Some y"
  by (cases v) (simp_all add: StringValue_GetValue_def)

lemma fold_sections:
  assumes "\<forall>p \<in> set items. pol_TargetRefs p \<noteq> []"
  shows "fold_out (\<lambda>item (w, wo).
          case pol_TargetRefs item of
            [] \<Rightarrow> Inl IndexOutOfRange
          | targetRef # _ \<Rightarrow>
              let sectionName = GetSectionName targetRef
              in if sectionName \<noteq> None \<and> StringValue_GetValue sectionName \<noteq> []
                 then Inr (if StringValue_GetValue sectionName = l_Name listener then w @ [item] else w, wo)
                 else Inr (w, wo @ [item])) items (w, wo) =
     Inr (w @ filter (\<lambda>p. section_of p \<noteq> [] \<and> section_of p = l_Name listener) items, wo @ filter (\<lambda>p. section_of p = []) items)"
  using assms
proof (induction items arbitrary: w wo)
  case Nil
  show ?case by simp
next
  case (Cons p items)
  then obtain r rs where r: "pol_TargetRefs p = r # rs" by (cases "pol_TargetRefs p") auto
  then have s: "section_of p = StringValue_GetValue (GetSectionName r)" by (simp add: section_of_def)
  show ?case
    using Cons.prems Cons.IH by (cases "section_of p = []") (simp_all add: r s StringValue_some Let_def)
qed

text \<open>The policies that attach to a listener: those for it and those for the whole gateway.\<close>

definition attaches :: "'sel listener \<Rightarrow> 'o policy \<Rightarrow> bool" where
  "attaches listener p \<longleftrightarrow> section_of p = [] \<or> section_of p = l_Name listener"

lemma GetPrioritizedListenerPolicies_returns:
  assumes "\<forall>p \<in> set items. pol_TargetRefs p \<noteq> []"
  shows "\<exists>ps. GetPrioritizedListenerPolicies items listener = Inr ps \<and> mset ps = mset (filter (attaches listener) items) \<and>
    sorted_wrt policy_precedes ps"
proof -
  let ?w = "filter (\<lambda>p. section_of p \<noteq> [] \<and> section_of p = l_Name listener) items"
  let ?wo = "filter (\<lambda>p. section_of p = []) items"
  have "GetPrioritizedListenerPolicies items listener = Inr (SortByCreationTime ?w @ SortByCreationTime ?wo)"
    unfolding GetPrioritizedListenerPolicies_def fold_sections [OF assms, of listener] by simp
  moreover have "mset ?w + mset ?wo = mset (filter (attaches listener) items)"
    by (induction items) (auto simp: attaches_def)
  moreover have "sorted_wrt policy_precedes (SortByCreationTime ?w @ SortByCreationTime ?wo)"
    unfolding sorted_wrt_append
    using sorted_wrt_mono_rel [OF _ sorted_SortByCreationTime, of ?w policy_precedes]
      sorted_wrt_mono_rel [OF _ sorted_SortByCreationTime, of ?wo policy_precedes]
    by (auto simp: policy_precedes_def)
  ultimately show ?thesis by simp
qed

text \<open>The policies of a listener are exactly those of the gateway that name the listener or no listener,
  those that name it first, and each group from the oldest to the newest, ties broken by name.\<close>

lemma listenerPolicies_ok:
  assumes "lists_by_index (targetRefIndexer GatewayKind) list" "list (nn_String (gw_key gw)) (gw_Namespace gw) = Inr items"
    and "gw_Name gw \<noteq> []" "gw_Namespace gw \<noteq> []"
  shows "\<exists>ps. listenerPolicies list listener gw = Inr (Inr ps) \<and> mset ps = mset (filter (attaches listener) items) \<and>
    sorted_wrt policy_precedes ps"
proof (cases "items = []")
  case True
  then show ?thesis using assms(2-4) by (simp add: listenerPolicies_def)
next
  case False
  have "\<forall>p \<in> set items. pol_TargetRefs p \<noteq> []"
    using assms(1,2) targetRefIndexer_nonempty unfolding lists_by_index_def by blast
  from GetPrioritizedListenerPolicies_returns [OF this, of listener]
  show ?thesis using False assms(2-4) by (auto simp: listenerPolicies_def)
qed

lemma listenerPolicies_returns:
  assumes "lists_by_index (targetRefIndexer GatewayKind) list"
  shows "\<exists>res. listenerPolicies list listener gw = Inr res"
proof (cases "list (nn_String (gw_key gw)) (gw_Namespace gw)")
  case (Inr items)
  then have "\<forall>p \<in> set items. pol_TargetRefs p \<noteq> []"
    using assms targetRefIndexer_nonempty unfolding lists_by_index_def by blast
  from GetPrioritizedListenerPolicies_returns [OF this, of listener] Inr
  show ?thesis by (auto simp: listenerPolicies_def)
qed (simp add: listenerPolicies_def)

end
