(* ===== verification/QueryProps.thy ===== *)
theory QueryProps
  imports Query
begin

text \<open>
  What the query engine guarantees: hostname intersection, permission of cross-namespace references,
  the backend map, classification of routes by the listeners of a gateway, and termination and
  well-foundedness of the delegation tree.
\<close>

section \<open>Hostnames\<close>

definition wildcard :: "string \<Rightarrow> bool" where
  "wildcard h \<longleftrightarrow> hasPrefix h ''*.''"

text \<open>A hostname a listener serves, and a route hostname that intersects the listener's.\<close>

definition served :: "string option \<Rightarrow> string \<Rightarrow> bool" where
  "served lh h \<longleftrightarrow> (case lh of None \<Rightarrow> True
     | Some l \<Rightarrow> if wildcard l then hasSuffix h (drop 1 l) else h = l)"

definition intersects :: "string \<Rightarrow> string \<Rightarrow> bool" where
  "intersects l h \<longleftrightarrow> (if wildcard l then hasSuffix h (drop 1 l)
     else h = l \<or> (wildcard h \<and> hasSuffix l (drop 1 h)))"

lemma exactListenerMatch_eq:
  "exactListenerMatch l hs =
     (if \<exists>h \<in> set hs. h = l \<or> (wildcard h \<and> hasSuffix l (drop 1 h)) then (True, [l]) else (False, []))"
  by (induction hs) (auto simp: wildcard_def)

lemma wildcard_served: "wildcard l \<Longrightarrow> hasSuffix l (drop 1 l)"
  by (auto simp: wildcard_def hasPrefix_iff hasSuffix_iff)


section \<open>Reference grants\<close>

text \<open>A grant that permits a reference from kind \<open>fromgk\<close> in \<open>fromns\<close> to the object \<open>toname\<close> of kind
  \<open>togk\<close>.\<close>

definition grants :: "reference_grant \<Rightarrow> group_kind \<Rightarrow> string \<Rightarrow> group_kind \<Rightarrow> string \<Rightarrow> bool" where
  "grants g fromgk fromns togk toname \<longleftrightarrow>
     (\<exists>f \<in> set (rg_From g). rgf_Namespace f = fromns \<and> gk_Kind fromgk = rgf_Kind f \<and>
        coreIfEmpty (gk_Group fromgk) = coreIfEmpty (rgf_Group f)) \<and>
     (\<exists>t \<in> set (rg_To g). gk_Kind togk = rgt_Kind t \<and> coreIfEmpty (gk_Group togk) = coreIfEmpty (rgt_Group t) \<and>
        rgt_Name t \<in> {None, Some toname})"

lemma ReferenceAllowed_iff:
  "ReferenceAllowed fromgk fromns togk toname gs \<longleftrightarrow> (\<exists>g \<in> set gs. grants g fromgk fromns togk toname)"
proof -
  have name: "(case n of None \<Rightarrow> True | Some m \<Rightarrow> m = toname) \<longleftrightarrow> n \<in> {None, Some toname}" for n
    by (cases n) auto
  show ?thesis by (simp add: ReferenceAllowed_def grants_def list_ex_iff name) blast
qed

definition effectiveNs :: "ref_from \<Rightarrow> string" where
  "effectiveNs from = (if fr_Namespace from = [] then ''default'' else fr_Namespace from)"

text \<open>C16. No object of another namespace is handed out without a grant: when a backend reference
  resolves across namespaces, the target namespace holds a reference grant from the referring kind
  and namespace to that kind and name, and the object is the one the client reads there.\<close>

theorem GetBackendForRef_needs_grant:
  assumes ok: "GetBackendForRef kc from ref = Inr obj"
    and cross: "bor_Namespace ref = Some ns" "ns \<noteq> effectiveNs from"
  shows "\<exists>fromgk gs g v. fr_GroupKind from = Inr fromgk \<and> kc_ListGrants kc ns (effectiveNs from) = Inr gs \<and>
    g \<in> set gs \<and> grants g fromgk (effectiveNs from)
      (GroupKind (ptrOrDefault (bor_Group ref) []) (ptrOrDefault (bor_Kind ref) ServiceKind)) (bor_Name ref) \<and>
    kc_GetObject kc (GroupKind (ptrOrDefault (bor_Group ref) []) (ptrOrDefault (bor_Kind ref) ServiceKind)) v
      (NamespacedName ns (bor_Name ref)) = Inr obj"
  using ok cross
  by (auto simp: GetBackendForRef_def getRef_def referenceAllowed_def ReferenceAllowed_iff Let_def effectiveNs_def
      split: sum.splits if_splits list.splits)

section \<open>Backend maps\<close>

text \<open>A store of results per reference, in which a recorded failure wins over any result.\<close>

locale keyed_results =
  fixes empty :: 'm
    and add :: "'m \<Rightarrow> 'r \<Rightarrow> 'v \<Rightarrow> 'm"
    and add_error :: "'m \<Rightarrow> 'r \<Rightarrow> 'e \<Rightarrow> 'm"
    and get :: "'m \<Rightarrow> 'r \<Rightarrow> 'e + 'v"
    and same :: "'r \<Rightarrow> 'r \<Rightarrow> bool"
    and failed :: "'m \<Rightarrow> 'r \<Rightarrow> bool"
  assumes same_refl: "same r r"
    and failed_empty: "\<not> failed empty r"
    and failed_add: "failed (add m r v) r' = failed m r'"
    and failed_add_error: "failed (add_error m r e) r' \<longleftrightarrow> same r r' \<or> failed m r'"
    and get_add: "get (add m r v) r' = (if same r r' \<and> \<not> failed m r' then Inr v else get m r')"
    and get_add_error: "get (add_error m r e) r' = (if same r r' then Inl e else get m r')"
begin

definition fill :: "('r \<Rightarrow> 'e + 'v) \<Rightarrow> 'm \<Rightarrow> 'r list \<Rightarrow> 'm" where
  "fill res m rs = foldl (\<lambda>m r. case res r of Inl e \<Rightarrow> add_error m r e | Inr v \<Rightarrow> add m r v) m rs"

lemma fill_correct:
  assumes cons: "\<And>r r'. r \<in> set rs \<Longrightarrow> same r r' \<Longrightarrow> r' \<in> T \<Longrightarrow> res r = res r'" and "r' \<in> T"
    and inv: "failed m r' \<Longrightarrow> \<exists>e. res r' = Inl e" "done \<Longrightarrow> get m r' = res r'"
  shows "(failed (fill res m rs) r' \<longrightarrow> (\<exists>e. res r' = Inl e)) \<and>
    (done \<or> (\<exists>r \<in> set rs. same r r') \<longrightarrow> get (fill res m rs) r' = res r')"
  using cons inv
proof (induction rs arbitrary: m "done")
  case Nil
  then show ?case by (auto simp: fill_def)
next
  case (Cons r rs)
  let ?m = "case res r of Inl e \<Rightarrow> add_error m r e | Inr v \<Rightarrow> add m r v"
  have eq: "same r r' \<Longrightarrow> res r = res r'" using Cons.prems(1) [of r r'] \<open>r' \<in> T\<close> by simp
  have f: "failed ?m r' \<Longrightarrow> \<exists>e. res r' = Inl e"
    using Cons.prems(2) eq by (cases "res r") (auto simp: failed_add failed_add_error intro: sym)
  have g: "get ?m r' = res r'" if "done \<or> same r r'"
    using that Cons.prems(2,3) eq
    by (cases "res r") (auto simp: get_add get_add_error)
  have "fill res m (r # rs) = fill res ?m rs" by (simp add: fill_def)
  moreover have "(failed (fill res ?m rs) r' \<longrightarrow> (\<exists>e. res r' = Inl e)) \<and>
      ((done \<or> same r r') \<or> (\<exists>r \<in> set rs. same r r') \<longrightarrow> get (fill res ?m rs) r' = res r')"
    using Cons.prems(1) f g by (intro Cons.IH) auto
  ultimately show ?case by auto
qed

lemma get_fill:
  assumes "\<And>r r'. r \<in> set rs \<Longrightarrow> r' \<in> set rs \<Longrightarrow> same r r' \<Longrightarrow> res r = res r'" "r \<in> set rs"
  shows "get (fill res empty rs) r = res r"
  using fill_correct [of rs "set rs" res r empty False] assms same_refl failed_empty by blast

end

interpretation bm: keyed_results NewBackendMap bm_Add bm_AddError bm_get
  "\<lambda>r r'. backendToRefKey r = backendToRefKey r'" "\<lambda>m r. bm_errors m (backendToRefKey r) \<noteq> None"
  by unfold_locales
    (auto simp: NewBackendMap_def bm_Add_def bm_AddError_def bm_get_def split: option.splits)

text \<open>References as the API server admits them: the delimiter does not occur, and an optional part is
  absent rather than empty.\<close>

definition clean_ref :: "backend_object_reference \<Rightarrow> bool" where
  "clean_ref r \<longleftrightarrow> CHR ''~'' \<notin> set (ptrOrDefault (bor_Group r) []) \<and> CHR ''~'' \<notin> set (ptrOrDefault (bor_Kind r) []) \<and>
     CHR ''~'' \<notin> set (bor_Name r) \<and> bor_Kind r \<noteq> Some [] \<and> bor_Namespace r \<noteq> Some []"

lemma append_delim_inj:
  assumes "c \<notin> set a" "c \<notin> set b" "a @ c # x = b @ c # y"
  shows "a = b \<and> x = y"
  using assms
proof (induction a arbitrary: b)
  case Nil
  then show ?case by (cases b) auto
next
  case (Cons z a)
  then show ?case by (cases b) auto
qed

lemma backendToRefKey_inj:
  assumes "clean_ref r" "clean_ref r'" "backendToRefKey r = backendToRefKey r'"
  shows "ptrOrDefault (bor_Group r) [] = ptrOrDefault (bor_Group r') []" "bor_Kind r = bor_Kind r'"
    "bor_Name r = bor_Name r'" "bor_Namespace r = bor_Namespace r'"
proof -
  have k: "ptrOrDefault (bor_Group r) [] @ CHR ''~'' # ptrOrDefault (bor_Kind r) [] @ CHR ''~'' #
      bor_Name r @ CHR ''~'' # ptrOrDefault (bor_Namespace r) [] =
    ptrOrDefault (bor_Group r') [] @ CHR ''~'' # ptrOrDefault (bor_Kind r') [] @ CHR ''~'' #
      bor_Name r' @ CHR ''~'' # ptrOrDefault (bor_Namespace r') []"
    using assms(3) by (simp add: backendToRefKey_def)
  note c = assms(1,2) [unfolded clean_ref_def]
  from append_delim_inj [OF _ _ k] c have 1: "ptrOrDefault (bor_Group r) [] = ptrOrDefault (bor_Group r') []"
    and k2: "ptrOrDefault (bor_Kind r) [] @ CHR ''~'' # bor_Name r @ CHR ''~'' # ptrOrDefault (bor_Namespace r) [] =
      ptrOrDefault (bor_Kind r') [] @ CHR ''~'' # bor_Name r' @ CHR ''~'' # ptrOrDefault (bor_Namespace r') []"
    by auto
  from append_delim_inj [OF _ _ k2] c have 2: "ptrOrDefault (bor_Kind r) [] = ptrOrDefault (bor_Kind r') []"
    and k3: "bor_Name r @ CHR ''~'' # ptrOrDefault (bor_Namespace r) [] =
      bor_Name r' @ CHR ''~'' # ptrOrDefault (bor_Namespace r') []"
    by auto
  from append_delim_inj [OF _ _ k3] c have 3: "bor_Name r = bor_Name r'"
    and 4: "ptrOrDefault (bor_Namespace r) [] = ptrOrDefault (bor_Namespace r') []"
    by auto
  show "ptrOrDefault (bor_Group r) [] = ptrOrDefault (bor_Group r') []" by (rule 1)
  show "bor_Name r = bor_Name r'" by (rule 3)
  show "bor_Kind r = bor_Kind r'" "bor_Namespace r = bor_Namespace r'"
    using 2 4 c by (auto simp: ptrOrDefault_def split: option.splits)
qed

definition route_refs :: "'p http_route \<Rightarrow> backend_object_reference list" where
  "route_refs hr = concat (map (\<lambda>rule. map br_Ref (rule_BackendRefs rule)) (hr_Rules hr))"

lemma resolveRouteBackends_fill:
  "resolveRouteBackends kc hr = bm.fill (GetBackendForRef kc (ObjToFrom kc hr)) NewBackendMap (route_refs hr)"
proof -
  have "foldl (\<lambda>out rule. foldl (\<lambda>out backendRef. f out (br_Ref backendRef)) out (rule_BackendRefs rule)) m rules =
      foldl f m (concat (map (\<lambda>rule. map br_Ref (rule_BackendRefs rule)) rules))"
    for f :: "'k \<Rightarrow> backend_object_reference \<Rightarrow> 'k" and m and rules :: "'q http_route_rule list"
    by (induction rules arbitrary: m) (simp_all add: foldl_map)
  then show ?thesis
    unfolding resolveRouteBackends_def bm.fill_def route_refs_def .
qed

text \<open>Pre-resolving the backends of a route loses nothing: for every backend reference of the route,
  the lookup in its backend map gives exactly the object or the error that resolving that reference
  gives.\<close>

theorem resolveRouteBackends_get:
  assumes "\<forall>r \<in> set (route_refs hr). clean_ref r" "ref \<in> set (route_refs hr)"
  shows "bm_get (resolveRouteBackends kc hr) ref = GetBackendForRef kc (ObjToFrom kc hr) ref"
  unfolding resolveRouteBackends_fill
proof (rule bm.get_fill [OF _ assms(2)])
  fix r r'
  assume "r \<in> set (route_refs hr)" "r' \<in> set (route_refs hr)" "backendToRefKey r = backendToRefKey r'"
  with assms(1) backendToRefKey_inj [of r r'] show
    "GetBackendForRef kc (ObjToFrom kc hr) r = GetBackendForRef kc (ObjToFrom kc hr) r'"
    by (simp add: GetBackendForRef_def)
qed

section \<open>The index of routes by gateway\<close>

text \<open>The index by which the routes of a gateway are listed is complete: a route with a parent
  reference to the gateway is indexed under the gateway's name.\<close>

theorem target_index_complete:
  assumes "getParentRefsForGw gw hr \<noteq> []" "gw_Namespace gw \<noteq> []"
  shows "nn_String (gw_key gw) \<in> set (httpRouteToTargetIndexer hr)"
proof -
  from assms(1) obtain p where p: "p \<in> set (hr_ParentRefs hr)" "refersToGw gw hr p"
    by (auto simp: getParentRefsForGw_def filter_empty_conv)
  let ?idx = "\<lambda>pRef. let ns = resolveNs (pr_Namespace pRef); ns = (if ns = [] then hr_Namespace hr else ns)
      in nn_String (NamespacedName ns (pr_Name pRef))"
  have "?idx p = nn_String (gw_key gw)"
    using p(2) assms(2)
    by (auto simp: refersToGw_def resolveNs_def gw_key_def Let_def split: option.splits if_splits)
  moreover have "\<not> (pr_Group p \<noteq> None \<and> pr_Group p \<noteq> Some GroupName)"
    "\<not> (pr_Kind p \<noteq> None \<and> pr_Kind p \<noteq> Some ''Gateway'')"
    using p(2) by (auto simp: refersToGw_def split: if_splits)
  ultimately show ?thesis
    unfolding httpRouteToTargetIndexer_def set_map using p(1) by (intro image_eqI [of _ _ p]) auto
qed

section \<open>Termination of the delegation tree\<close>

text \<open>The names of the routes a client can return.\<close>

definition client_within :: "'sel k8s_client \<Rightarrow> namespaced_name set \<Rightarrow> bool" where
  "client_within kc N \<longleftrightarrow>
     (\<forall>n hr. kc_GetRoute kc n = Inr hr \<longrightarrow> hr_key hr \<in> N) \<and>
     (\<forall>ns hrs. kc_ListRoutesInNamespace kc ns = Inr hrs \<longrightarrow> hr_key ` set hrs \<subseteq> N)"

lemma load_route_key: "load_route mm hr = (mm', r) \<Longrightarrow> hr_key r = hr_key hr"
  by (auto simp: load_route_def copy_route_def hr_key_def split: prod.splits)

lemma load_route_infos: "load_route mm hr = (mm', r) \<Longrightarrow> mem_infos mm' = mem_infos mm"
  by (auto simp: load_route_def split: prod.splits)

lemma fetchChildRoutes_within:
  assumes "client_within kc N" "fetchChildRoutes kc ns br = Inr hrs" "hr \<in> set hrs"
  shows "hr_key hr \<in> N"
proof -
  let ?ns = "case bor_Namespace (br_Ref br) of None \<Rightarrow> ns | Some n \<Rightarrow> n"
  from assms(2,3) have "kc_ListRoutesInNamespace kc ?ns = Inr hrs \<or>
      kc_GetRoute kc (NamespacedName ?ns (bor_Name (br_Ref br))) = Inr hr"
    by (auto simp: fetchChildRoutes_def Let_def split: if_splits sum.splits)
  with assms(1,3) show ?thesis unfolding client_within_def by blast
qed

text \<open>Every step keeps what was visited before, and a run that ends in a panic can only have run out
  of fuel.\<close>

lemma resolveChildRef_InrE:
  assumes "resolveChildRef kc rec parent br st = Inr st'"
  obtains "st' = st"
    | e where "st' = st\<lparr>cs_children := bm_AddError (cs_children st) (br_Ref br) e\<rparr>"
    | hrs st1 where "fold_out (resolveChild kc rec parent br) hrs st = Inr st1"
      "st' = st1\<lparr>cs_children := bm_Add (cs_children st1) (br_Ref br) (cs_refChildren st1)\<rparr>"
  using assms
  by (auto simp: resolveChildRef_def split: if_splits sum.splits elim!: bind_out_InrE)

definition keeps_visited ::
  "(route \<Rightarrow> namespaced_name set \<Rightarrow> mem \<Rightarrow> (mem \<times> namespaced_name set \<times> nat list backend_map) outcome) \<Rightarrow> bool" where
  "keeps_visited rec \<longleftrightarrow> (\<forall>r v mm mm' v' k. rec r v mm = Inr (mm', v', k) \<longrightarrow> v \<subseteq> v')"

lemma resolveChild_visited:
  assumes "keeps_visited rec" "resolveChild kc rec parent br hr st = Inr st'" "V \<subseteq> cs_visited st"
  shows "V \<subseteq> cs_visited st'"
proof -
  obtain mm r where l: "load_route (cs_mem st) hr = (mm, r)" by (cases "load_route (cs_mem st) hr")
  show ?thesis
  proof (cases "hr_key r \<in> cs_visited st")
    case True
    with assms l show ?thesis by (auto simp: resolveChild_def)
  next
    case False
    with assms(2) l obtain mm1 v1 k where "rec r (cs_visited st) mm = Inr (mm1, v1, k)" "cs_visited st' = v1"
      by (auto simp: resolveChild_def Let_def elim!: bind_out_InrE split: prod.splits)
    with assms(1,3) show ?thesis unfolding keeps_visited_def by blast
  qed
qed

lemma resolveChildRef_visited:
  assumes "keeps_visited rec" "resolveChildRef kc rec parent br st = Inr st'" "V \<subseteq> cs_visited st"
  shows "V \<subseteq> cs_visited st'"
proof -
  have "V \<subseteq> cs_visited st1" if "fold_out (resolveChild kc rec parent br) hrs st = Inr st1" for hrs st1
    by (rule fold_out_invariant [where P = "\<lambda>s. V \<subseteq> cs_visited s", OF _ assms(3) that])
      (rule resolveChild_visited [OF assms(1)])
  with assms(3) show ?thesis by (cases rule: resolveChildRef_InrE [OF assms(2)]) auto
qed

lemma resolveChildRule_visited:
  assumes "keeps_visited rec" "resolveChildRule kc rec parent rule st = Inr st'" "V \<subseteq> cs_visited st"
  shows "V \<subseteq> cs_visited st'"
proof (rule fold_out_invariant [where P = "\<lambda>s. V \<subseteq> cs_visited s", OF _ _ assms(2) [unfolded resolveChildRule_def]])
  show "V \<subseteq> cs_visited (st\<lparr>cs_refChildren := []\<rparr>)" using assms(3) by simp
qed (rule resolveChildRef_visited [OF assms(1)])

lemma getDelegatedChildren_visited:
  "getDelegatedChildren fuel kc parent v mm = Inr (mm', v', k) \<Longrightarrow> insert (hr_key parent) v \<subseteq> v'"
proof (induction fuel arbitrary: parent v mm mm' v' k)
  case 0
  then show ?case by simp
next
  case (Suc fuel)
  have rec: "keeps_visited (getDelegatedChildren fuel kc)"
    unfolding keeps_visited_def using Suc.IH by blast
  from Suc.prems obtain st where run: "fold_out (resolveChildRule kc (getDelegatedChildren fuel kc) parent)
      (hr_Rules parent) \<lparr>cs_mem = mm, cs_visited = insert (hr_key parent) v, cs_children = NewBackendMap,
        cs_refChildren = []\<rparr> = Inr st" and v': "v' = cs_visited st"
    by (auto elim!: bind_out_InrE)
  have "insert (hr_key parent) v \<subseteq> cs_visited st"
  proof (rule fold_out_invariant [where P = "\<lambda>s. insert (hr_key parent) v \<subseteq> cs_visited s", OF _ _ run])
    show "insert (hr_key parent) v \<subseteq> cs_visited \<lparr>cs_mem = mm, cs_visited = insert (hr_key parent) v,
        cs_children = NewBackendMap, cs_refChildren = []\<rparr>" by simp
  qed (rule resolveChildRule_visited [OF rec])
  with v' show ?case by simp
qed

definition returns_on ::
  "(route \<Rightarrow> namespaced_name set \<Rightarrow> mem \<Rightarrow> (mem \<times> namespaced_name set \<times> nat list backend_map) outcome) \<Rightarrow>
   namespaced_name set \<Rightarrow> namespaced_name set \<Rightarrow> bool" where
  "returns_on rec N V \<longleftrightarrow> (\<forall>r v mm. hr_key r \<in> N - v \<longrightarrow> V \<subseteq> v \<longrightarrow> (\<exists>x. rec r v mm = Inr x))"

lemma resolveChild_returns:
  assumes rec: "returns_on rec N V"
    and "hr_key hr \<in> N" "V \<subseteq> cs_visited st"
  shows "\<exists>st'. resolveChild kc rec parent br hr st = Inr st'"
proof -
  obtain mm r where l: "load_route (cs_mem st) hr = (mm, r)" by (cases "load_route (cs_mem st) hr")
  show ?thesis
  proof (cases "hr_key r \<in> cs_visited st")
    case True
    with l show ?thesis by (simp add: resolveChild_def)
  next
    case False
    with assms(2,3) load_route_key [OF l] have "hr_key r \<in> N - cs_visited st" by simp
    with rec assms(3) obtain x where "rec r (cs_visited st) mm = Inr x" unfolding returns_on_def by blast
    with l False show ?thesis by (auto simp: resolveChild_def Let_def alloc_info_def split: prod.splits)
  qed
qed

lemma resolveChildRef_returns:
  assumes within: "client_within kc N"
    and rec: "returns_on rec N V"
    and mono: "keeps_visited rec"
    and "V \<subseteq> cs_visited st"
  shows "\<exists>st'. resolveChildRef kc rec parent br st = Inr st' \<and> V \<subseteq> cs_visited st'"
proof (cases "RefIsHTTPRoute (br_Ref br)")
  case False
  with assms(4) show ?thesis by (simp add: resolveChildRef_def)
next
  case True
  show ?thesis
  proof (cases "fetchChildRoutes kc (hr_Namespace parent) br")
    case (Inl e)
    with True assms(4) show ?thesis by (simp add: resolveChildRef_def)
  next
    case (Inr hrs)
    have "\<exists>st'. fold_out (resolveChild kc rec parent br) hrs st = Inr st' \<and> V \<subseteq> cs_visited st'"
    proof (rule fold_out_returns [where P = "\<lambda>s. V \<subseteq> cs_visited s", OF _ assms(4)])
      fix hr and s :: chain_state
      assume "hr \<in> set hrs" and V: "V \<subseteq> cs_visited s"
      then have "hr_key hr \<in> N" using fetchChildRoutes_within [OF within Inr] by blast
      from resolveChild_returns [OF rec this V] obtain s' where s': "resolveChild kc rec parent br hr s = Inr s'"
        by blast
      with resolveChild_visited [OF mono s' V] show "\<exists>s'. resolveChild kc rec parent br hr s = Inr s' \<and> V \<subseteq> cs_visited s'"
        by auto
    qed
    with True Inr show ?thesis by (auto simp: resolveChildRef_def)
  qed
qed

lemma getDelegatedChildren_returns:
  assumes "finite N" "client_within kc N"
  shows "card (N - insert (hr_key parent) v) < fuel \<Longrightarrow> \<exists>x. getDelegatedChildren fuel kc parent v mm = Inr x"
proof (induction fuel arbitrary: parent v mm)
  case 0
  then show ?case by simp
next
  case (Suc fuel)
  let ?V = "insert (hr_key parent) v"
  have rec: "returns_on (getDelegatedChildren fuel kc) N ?V"
    unfolding returns_on_def
  proof (intro allI impI, rule Suc.IH)
    fix r w assume that: "hr_key (r :: route) \<in> N - w" "?V \<subseteq> w"
    have "N - insert (hr_key r) w \<subset> N - ?V" using that by auto
    then have "card (N - insert (hr_key r) w) < card (N - ?V)"
      using assms(1) by (simp add: psubset_card_mono)
    with Suc.prems show "card (N - insert (hr_key r) w) < fuel" by simp
  qed
  have mono: "keeps_visited (getDelegatedChildren fuel kc)"
    unfolding keeps_visited_def using getDelegatedChildren_visited by blast
  have "\<exists>st'. fold_out (resolveChildRule kc (getDelegatedChildren fuel kc) parent) (hr_Rules parent)
      \<lparr>cs_mem = mm, cs_visited = ?V, cs_children = NewBackendMap, cs_refChildren = []\<rparr> = Inr st' \<and> ?V \<subseteq> cs_visited st'"
  proof (rule fold_out_returns [where P = "\<lambda>s. ?V \<subseteq> cs_visited s"])
    fix rule and s :: chain_state
    assume "?V \<subseteq> cs_visited s"
    then have start: "?V \<subseteq> cs_visited (s\<lparr>cs_refChildren := []\<rparr>)" by simp
    show "\<exists>s'. resolveChildRule kc (getDelegatedChildren fuel kc) parent rule s = Inr s' \<and> ?V \<subseteq> cs_visited s'"
      unfolding resolveChildRule_def
      by (rule fold_out_returns [where P = "\<lambda>s. ?V \<subseteq> cs_visited s", OF resolveChildRef_returns [OF assms(2) rec mono] start])
  qed simp
  then show ?case by auto
qed

text \<open>Resolving delegated routes always ends, cyclic delegation included: with the routes of the
  cluster drawn from a finite set of names, a recursion depth of one more than their number is never
  exhausted, whatever the routes refer to.\<close>

lemma getDelegatedChildren_terminates:
  assumes "finite N" "client_within kc N" "card N < fuel"
  shows "\<exists>mm' v' kids. getDelegatedChildren fuel kc parent v mm = Inr (mm', v', kids)"
proof -
  have "card (N - insert (hr_key parent) v) \<le> card N" using assms(1) by (simp add: card_mono)
  with assms(3) getDelegatedChildren_returns [OF assms(1,2), of parent v fuel mm] show ?thesis by auto
qed

section \<open>The delegation tree is well founded\<close>

text \<open>The pointers of a children map; in a well-formed memory every info points to earlier ones only.\<close>

definition kid_ids :: "nat list backend_map \<Rightarrow> nat set" where
  "kid_ids kids = \<Union> (set ` ran (bm_items kids))"

definition mem_wf :: "mem \<Rightarrow> bool" where
  "mem_wf mm \<longleftrightarrow> (\<forall>i < length (mem_infos mm). \<forall>k \<in> kid_ids (hri_Children (mem_infos mm ! i)). k < i)"

lemma kid_ids_add: "kid_ids (bm_Add m r ks) \<subseteq> kid_ids m \<union> set ks"
  by (auto simp: kid_ids_def bm_Add_def ran_def split: if_splits)

lemma kid_ids_add_error [simp]: "kid_ids (bm_AddError m r e) = kid_ids m"
  by (simp add: kid_ids_def bm_AddError_def)

lemma kid_ids_new [simp]: "kid_ids NewBackendMap = {}"
  by (simp add: kid_ids_def NewBackendMap_def)

text \<open>A later memory holds every info of an earlier one, at the same place.\<close>

definition mem_ext :: "mem \<Rightarrow> mem \<Rightarrow> bool" where
  "mem_ext mm mm' \<longleftrightarrow> (\<exists>ys. mem_infos mm' = mem_infos mm @ ys)"

lemma mem_ext_refl [simp, intro]: "mem_ext mm mm"
  by (simp add: mem_ext_def)

lemma mem_ext_trans [trans]: "mem_ext a b \<Longrightarrow> mem_ext b c \<Longrightarrow> mem_ext a c"
  by (auto simp: mem_ext_def)

lemma mem_ext_length: "mem_ext a b \<Longrightarrow> length (mem_infos a) \<le> length (mem_infos b)"
  by (auto simp: mem_ext_def)

lemma mem_ext_nth: "mem_ext a b \<Longrightarrow> i < length (mem_infos a) \<Longrightarrow> mem_infos b ! i = mem_infos a ! i"
  by (auto simp: mem_ext_def nth_append)

lemma alloc_info_wf:
  assumes "mem_wf mm" "\<forall>k \<in> kid_ids (hri_Children i). k < length (mem_infos mm)" "alloc_info mm i = (mm', n)"
  shows "mem_wf mm'" "n < length (mem_infos mm')" "mem_ext mm mm'" "mem_infos mm' ! n = i"
  using assms by (auto simp: alloc_info_def mem_wf_def mem_ext_def nth_append less_Suc_eq)

text \<open>The invariant of the loops started in memory \<open>mm0\<close>.\<close>

definition chain_wf :: "mem \<Rightarrow> chain_state \<Rightarrow> bool" where
  "chain_wf mm0 st \<longleftrightarrow> mem_wf (cs_mem st) \<and> mem_ext mm0 (cs_mem st) \<and>
     (\<forall>k \<in> kid_ids (cs_children st) \<union> set (cs_refChildren st). k < length (mem_infos (cs_mem st)))"

definition returns_wf ::
  "(route \<Rightarrow> namespaced_name set \<Rightarrow> mem \<Rightarrow> (mem \<times> namespaced_name set \<times> nat list backend_map) outcome) \<Rightarrow> bool" where
  "returns_wf rec \<longleftrightarrow> (\<forall>r v mm mm' v' kids. rec r v mm = Inr (mm', v', kids) \<longrightarrow> mem_wf mm \<longrightarrow>
     mem_wf mm' \<and> mem_ext mm mm' \<and> (\<forall>k \<in> kid_ids kids. k < length (mem_infos mm')))"

lemma resolveChild_wf:
  assumes rec: "returns_wf rec" and st: "chain_wf mm0 st" and run: "resolveChild kc rec parent br hr st = Inr st'"
  shows "chain_wf mm0 st'"
proof -
  obtain mm r where l: "load_route (cs_mem st) hr = (mm, r)" by (cases "load_route (cs_mem st) hr")
  note infos = load_route_infos [OF l]
  have wf: "mem_wf mm" and ext: "mem_ext mm0 mm"
    using st infos by (simp_all add: chain_wf_def mem_wf_def mem_ext_def)
  show ?thesis
  proof (cases "hr_key r \<in> cs_visited st")
    case True
    with run l st wf ext infos show ?thesis by (auto simp: resolveChild_def chain_wf_def)
  next
    case False
    with run l obtain mm1 v1 kids where r1: "rec r (cs_visited st) mm = Inr (mm1, v1, kids)"
      and rest: "(let (mm, i) = alloc_info mm1 \<lparr>hri_HTTPRoute = r, hri_ParentRef = childParentRef parent,
            hri_HostnameOverrides = [], hri_Backends = resolveRouteBackends kc r, hri_Children = kids\<rparr>
          in Inr (st\<lparr>cs_mem := mm, cs_visited := v1, cs_refChildren := cs_refChildren st @ [i]\<rparr>)) = (Inr st' :: chain_state outcome)"
      by (auto simp: resolveChild_def elim!: bind_out_InrE)
    from rec r1 wf have w1: "mem_wf mm1" "mem_ext mm mm1" "\<forall>k \<in> kid_ids kids. k < length (mem_infos mm1)"
      unfolding returns_wf_def by blast+
    from rest obtain mm2 n where a: "alloc_info mm1 \<lparr>hri_HTTPRoute = r, hri_ParentRef = childParentRef parent,
            hri_HostnameOverrides = [], hri_Backends = resolveRouteBackends kc r, hri_Children = kids\<rparr> = (mm2, n)"
      and st': "st' = st\<lparr>cs_mem := mm2, cs_visited := v1, cs_refChildren := cs_refChildren st @ [n]\<rparr>"
      by (auto split: prod.splits)
    have w2: "mem_wf mm2" "n < length (mem_infos mm2)" "mem_ext mm1 mm2"
      using alloc_info_wf [OF w1(1) _ a] w1(3) by simp_all
    have old: "k < length (mem_infos mm2)" if "k \<in> kid_ids (cs_children st) \<union> set (cs_refChildren st)" for k
    proof -
      from st that infos have "k < length (mem_infos mm)" by (auto simp: chain_wf_def)
      with mem_ext_length [OF w1(2)] mem_ext_length [OF w2(3)] show ?thesis by simp
    qed
    have "mem_ext mm0 mm2" using ext w1(2) w2(3) by (blast intro: mem_ext_trans)
    with w2 old show ?thesis by (auto simp: chain_wf_def st')
  qed
qed

lemma resolveChildRef_wf:
  assumes rec: "returns_wf rec" and st: "chain_wf mm0 st" and run: "resolveChildRef kc rec parent br st = Inr st'"
  shows "chain_wf mm0 st'"
proof -
  have loop: "chain_wf mm0 st1" if "fold_out (resolveChild kc rec parent br) hrs st = Inr st1" for hrs st1
    by (rule fold_out_invariant [where P = "chain_wf mm0", OF _ st that]) (rule resolveChild_wf [OF rec])
  have "chain_wf mm0 (st1\<lparr>cs_children := bm_Add (cs_children st1) ref (cs_refChildren st1)\<rparr>)"
    if "chain_wf mm0 st1" for st1 ref
    using that kid_ids_add [of "cs_children st1" ref "cs_refChildren st1"] by (auto simp: chain_wf_def)
  moreover have "chain_wf mm0 (st\<lparr>cs_children := bm_AddError (cs_children st) ref e\<rparr>)" for ref e
    using st by (simp add: chain_wf_def)
  ultimately show ?thesis using st loop by (cases rule: resolveChildRef_InrE [OF run]) auto
qed

lemma resolveChildRule_wf:
  assumes rec: "returns_wf rec" and st: "chain_wf mm0 st" and run: "resolveChildRule kc rec parent rule st = Inr st'"
  shows "chain_wf mm0 st'"
proof (rule fold_out_invariant [where P = "chain_wf mm0", OF _ _ run [unfolded resolveChildRule_def]])
  show "chain_wf mm0 (st\<lparr>cs_refChildren := []\<rparr>)" using st by (simp add: chain_wf_def)
qed (rule resolveChildRef_wf [OF rec])

lemma getDelegatedChildren_wf: "returns_wf (getDelegatedChildren fuel kc)"
proof (induction fuel)
  case 0
  show ?case by (simp add: returns_wf_def)
next
  case (Suc fuel)
  show ?case
    unfolding returns_wf_def
  proof (intro allI impI)
    fix r v mm mm' v' kids
    assume run: "getDelegatedChildren (Suc fuel) kc r v mm = Inr (mm', v', kids)" and "mem_wf mm"
    let ?st = "\<lparr>cs_mem = mm, cs_visited = insert (hr_key r) v, cs_children = NewBackendMap, cs_refChildren = []\<rparr>"
    from run obtain st where f: "fold_out (resolveChildRule kc (getDelegatedChildren fuel kc) r) (hr_Rules r) ?st = Inr st"
      and res: "mm' = cs_mem st" "kids = cs_children st"
      by (auto elim!: bind_out_InrE)
    have "chain_wf mm ?st" using \<open>mem_wf mm\<close> by (simp add: chain_wf_def)
    have "chain_wf mm st"
      by (rule fold_out_invariant [where P = "chain_wf mm", OF _ \<open>chain_wf mm ?st\<close> f])
        (rule resolveChildRule_wf [OF Suc.IH])
    with res show "mem_wf mm' \<and> mem_ext mm mm' \<and> (\<forall>k \<in> kid_ids kids. k < length (mem_infos mm'))"
      by (auto simp: chain_wf_def)
  qed
qed

lemma GetHTTPRouteChain_facts:
  assumes run: "GetHTTPRouteChain fuel kc hr hosts ref mm = Inr (mm', i)" and wf: "mem_wf mm"
  shows "mem_wf mm'" "mem_ext mm mm'" "i < length (mem_infos mm')"
    "hri_HTTPRoute (mem_infos mm' ! i) = hr" "hri_ParentRef (mem_infos mm' ! i) = ref"
    "hri_HostnameOverrides (mem_infos mm' ! i) = hosts"
    "hri_Backends (mem_infos mm' ! i) = resolveRouteBackends kc hr"
proof -
  from run obtain mm1 v kids where g: "getDelegatedChildren fuel kc hr {} mm = Inr (mm1, v, kids)"
    and a: "alloc_info mm1 \<lparr>hri_HTTPRoute = hr, hri_ParentRef = ref, hri_HostnameOverrides = hosts,
      hri_Backends = resolveRouteBackends kc hr, hri_Children = kids\<rparr> = (mm', i)"
    by (auto simp: GetHTTPRouteChain_def elim!: bind_out_InrE)
  from getDelegatedChildren_wf [of fuel kc] g wf have w: "mem_wf mm1" "mem_ext mm mm1"
    "\<forall>k \<in> kid_ids kids. k < length (mem_infos mm1)"
    unfolding returns_wf_def by blast+
  note f = alloc_info_wf [OF w(1) _ a]
  show "mem_wf mm'" "mem_ext mm mm'" "i < length (mem_infos mm')"
    using f w mem_ext_trans [OF w(2)] by simp_all
  show "hri_HTTPRoute (mem_infos mm' ! i) = hr" "hri_ParentRef (mem_infos mm' ! i) = ref"
    "hri_HostnameOverrides (mem_infos mm' ! i) = hosts"
    "hri_Backends (mem_infos mm' ! i) = resolveRouteBackends kc hr"
    using f(4) w(3) by simp_all
qed

text \<open>The tree of delegated routes built for a route contains no cycle: every route info points
  only to infos created before it, at any depth, and building it changes no info that was there.\<close>

theorem GetHTTPRouteChain_acyclic:
  assumes "GetHTTPRouteChain fuel kc hr hosts ref mm = Inr (mm', i)" "mem_wf mm"
  shows "(\<forall>j < length (mem_infos mm'). \<forall>k \<in> kid_ids (hri_Children (mem_infos mm' ! j)). k < j) \<and>
    (\<forall>j < length (mem_infos mm). mem_infos mm' ! j = mem_infos mm ! j) \<and>
    hri_HTTPRoute (mem_infos mm' ! i) = hr"
  using GetHTTPRouteChain_facts [OF assms] mem_ext_nth by (auto simp: mem_wf_def)

section \<open>Routes of a gateway\<close>

text \<open>The three conditions under which a listener takes a route, as \<open>GetRoutesForGateway\<close> tests them.\<close>

definition listenerAllows :: "'sel k8s_client \<Rightarrow> 'sel gateway \<Rightarrow> route \<Rightarrow> 'sel listener \<Rightarrow> bool" where
  "listenerAllows kc gw hr l \<longleftrightarrow> (\<exists>ns ks. allowedRoutes kc gw l = Inr (ns, ks) \<and> isHttpRouteAllowed ks \<and> ns (hr_Namespace hr))"

definition listenerMatches :: "'sel k8s_client \<Rightarrow> 'sel gateway \<Rightarrow> route \<Rightarrow> parent_reference \<Rightarrow> 'sel listener \<Rightarrow> bool" where
  "listenerMatches kc gw hr ref l \<longleftrightarrow> listenerAllows kc gw hr l \<and> parentRefMatchListener ref l"

definition listenerTakes :: "'sel k8s_client \<Rightarrow> 'sel gateway \<Rightarrow> route \<Rightarrow> parent_reference \<Rightarrow> 'sel listener \<Rightarrow> bool" where
  "listenerTakes kc gw hr ref l \<longleftrightarrow> listenerMatches kc gw hr ref l \<and> fst (hostnameIntersect l hr)"

lemmas listener_conds = listenerAllows_def listenerMatches_def listenerTakes_def

lemma attachToListener_flags:
  assumes "attachToListener fuel kc gw hr ref l st = Inr st'"
  shows "as_allowed st' \<longleftrightarrow> as_allowed st \<or> listenerAllows kc gw hr l"
    "as_matched st' \<longleftrightarrow> as_matched st \<or> listenerMatches kc gw hr ref l"
    "as_hosts st' \<longleftrightarrow> as_hosts st \<or> listenerTakes kc gw hr ref l"
  using assms
  by (auto simp: attachToListener_def listener_conds Let_def split: sum.splits prod.splits if_splits elim!: bind_out_InrE)

lemma attach_loop_flags:
  assumes "fold_out (attachToListener fuel kc gw hr ref) ls st = Inr st'"
  shows "(as_allowed st' \<longleftrightarrow> as_allowed st \<or> (\<exists>l \<in> set ls. listenerAllows kc gw hr l)) \<and>
    (as_matched st' \<longleftrightarrow> as_matched st \<or> (\<exists>l \<in> set ls. listenerMatches kc gw hr ref l)) \<and>
    (as_hosts st' \<longleftrightarrow> as_hosts st \<or> (\<exists>l \<in> set ls. listenerTakes kc gw hr ref l))"
  using assms
proof (induction ls arbitrary: st)
  case Nil
  then show ?case by simp
next
  case (Cons l ls)
  from Cons.prems obtain st1 where "attachToListener fuel kc gw hr ref l st = Inr st1"
    "fold_out (attachToListener fuel kc gw hr ref) ls st1 = Inr st'"
    by (auto elim: bind_out_InrE)
  with Cons.IH [OF this(2)] attachToListener_flags [OF this(1)] show ?case by auto
qed

text \<open>Every parent reference of a route to the gateway is accounted for exactly: an error is
  recorded for it if and only if no listener takes the route through it, and the reason is the
  first condition that no listener meets, in the order permission, section or port, hostname.\<close>

theorem attachRef_reason:
  assumes "attachRef fuel kc gw hr ref (mm, ret) = Inr (mm', ret')"
  shows "map (\<lambda>e. (re_Route e, re_ParentRef e, re_Reason e)) (rfg_RouteErrors ret') =
    map (\<lambda>e. (re_Route e, re_ParentRef e, re_Reason e)) (rfg_RouteErrors ret) @
    (if \<exists>l \<in> set (gw_Listeners gw). listenerTakes kc gw hr ref l then []
     else if \<exists>l \<in> set (gw_Listeners gw). listenerMatches kc gw hr ref l
       then [(hr, ref, ''NoMatchingListenerHostname'')]
     else if \<exists>l \<in> set (gw_Listeners gw). listenerAllows kc gw hr l then [(hr, ref, ''NoMatchingParent'')]
     else [(hr, ref, ''NotAllowedByListeners'')])"
proof -
  from assms obtain st where st: "fold_out (attachToListener fuel kc gw hr ref) (gw_Listeners gw)
      \<lparr>as_mem = mm, as_results = rfg_ListenerResults ret, as_allowed = False, as_matched = False, as_hosts = False\<rparr> = Inr st"
    and ret': "rfg_RouteErrors ret' = rfg_RouteErrors ret @ attachError hr ref st"
    by (auto simp: attachRef_def elim!: bind_out_InrE)
  from attach_loop_flags [OF st] have
    "as_allowed st \<longleftrightarrow> (\<exists>l \<in> set (gw_Listeners gw). listenerAllows kc gw hr l)"
    "as_matched st \<longleftrightarrow> (\<exists>l \<in> set (gw_Listeners gw). listenerMatches kc gw hr ref l)"
    "as_hosts st \<longleftrightarrow> (\<exists>l \<in> set (gw_Listeners gw). listenerTakes kc gw hr ref l)" by simp_all
  with ret' show ?thesis
    by (auto simp: attachError_def listenerMatches_def listenerTakes_def)
qed

text \<open>What holds of an info listed under a listener's name.\<close>

definition attached :: "'sel k8s_client \<Rightarrow> 'sel gateway \<Rightarrow> string \<Rightarrow> http_route_info \<Rightarrow> bool" where
  "attached kc gw n info \<longleftrightarrow> (\<exists>l \<in> set (gw_Listeners gw). l_Name l = n \<and>
     hri_ParentRef info \<in> set (getParentRefsForGw gw (hri_HTTPRoute info)) \<and>
     listenerTakes kc gw (hri_HTTPRoute info) (hri_ParentRef info) l \<and>
     hri_HostnameOverrides info = snd (hostnameIntersect l (hri_HTTPRoute info)) \<and>
     hri_Backends info = resolveRouteBackends kc (hri_HTTPRoute info))"

definition results_ok :: "'sel k8s_client \<Rightarrow> 'sel gateway \<Rightarrow> mem \<Rightarrow> (string \<rightharpoonup> listener_result) \<Rightarrow> bool" where
  "results_ok kc gw mm res \<longleftrightarrow> mem_wf mm \<and> (\<forall>n lr i. res n = Some lr \<longrightarrow> i \<in> set (lres_Routes lr) \<longrightarrow>
     i < length (mem_infos mm) \<and> attached kc gw n (mem_infos mm ! i))"

lemma results_ok_ext:
  assumes "results_ok kc gw mm res" "mem_ext mm mm'" "mem_wf mm'"
  shows "results_ok kc gw mm' res"
proof -
  have "i < length (mem_infos mm') \<and> attached kc gw n (mem_infos mm' ! i)"
    if "res n = Some lr" "i \<in> set (lres_Routes lr)" for n lr i
  proof -
    from assms(1) that have "i < length (mem_infos mm)" "attached kc gw n (mem_infos mm ! i)"
      unfolding results_ok_def by blast+
    with mem_ext_nth [OF assms(2)] mem_ext_length [OF assms(2)] show ?thesis by simp
  qed
  with assms(3) show ?thesis unfolding results_ok_def by blast
qed

lemma results_ok_update:
  assumes "results_ok kc gw mm res" "case res n of None \<Rightarrow> lres_Routes lr = [] | Some lr0 \<Rightarrow> lres_Routes lr = lres_Routes lr0"
  shows "results_ok kc gw mm (res(n \<mapsto> lr))"
  using assms by (auto simp: results_ok_def split: option.splits if_splits)

lemma results_ok_append:
  assumes "results_ok kc gw mm (res(n \<mapsto> lr))" "i < length (mem_infos mm)" "attached kc gw n (mem_infos mm ! i)"
  shows "results_ok kc gw mm (res(n \<mapsto> lr\<lparr>lres_Routes := lres_Routes lr @ [i]\<rparr>))"
  using assms by (auto simp: results_ok_def split: if_splits)

lemma attachToListener_ok:
  assumes run: "attachToListener fuel kc gw hr ref l st = Inr st'" and ok: "results_ok kc gw (as_mem st) (as_results st)"
    and l: "l \<in> set (gw_Listeners gw)" and ref: "ref \<in> set (getParentRefsForGw gw hr)"
  shows "results_ok kc gw (as_mem st') (as_results st')"
proof -
  define lr where "lr = (case as_results st (l_Name l) of None \<Rightarrow> \<lparr>lres_Error = None, lres_Routes = []\<rparr> | Some lr \<Rightarrow> lr)"
  have base: "results_ok kc gw (as_mem st) ((as_results st)(l_Name l \<mapsto> lr\<lparr>lres_Error := e\<rparr>))" for e
    using ok by (rule results_ok_update) (simp add: lr_def split: option.split)
  have base': "results_ok kc gw (as_mem st) ((as_results st)(l_Name l \<mapsto> lr))"
    using ok by (rule results_ok_update) (simp add: lr_def split: option.split)
  show ?thesis
  proof (cases "listenerTakes kc gw hr ref l")
    case False
    with run base base' show ?thesis
      by (auto simp: attachToListener_def lr_def [symmetric] listener_conds Let_def
          split: sum.splits prod.splits if_splits elim!: bind_out_InrE)
  next
    case True
    then obtain ns ks where "allowedRoutes kc gw l = Inr (ns, ks)" "isHttpRouteAllowed ks" "ns (hr_Namespace hr)"
      "parentRefMatchListener ref l" "fst (hostnameIntersect l hr)"
      by (auto simp: listener_conds)
    with run obtain mm i where c: "GetHTTPRouteChain fuel kc hr (snd (hostnameIntersect l hr)) ref (as_mem st) = Inr (mm, i)"
      and st': "as_mem st' = mm" "as_results st' = (as_results st)(l_Name l \<mapsto> lr\<lparr>lres_Routes := lres_Routes lr @ [i]\<rparr>)"
      by (auto simp: attachToListener_def lr_def [symmetric] Let_def elim!: bind_out_InrE split: prod.splits if_splits)
    have wf: "mem_wf (as_mem st)" using ok by (simp add: results_ok_def)
    note f = GetHTTPRouteChain_facts [OF c wf]
    have "attached kc gw (l_Name l) (mem_infos mm ! i)"
      unfolding attached_def using l ref True f by auto
    with results_ok_append results_ok_ext [OF base' f(2,1)] f(3) st' show ?thesis by auto
  qed
qed

lemma attachRef_ok:
  assumes run: "attachRef fuel kc gw hr ref (mm, ret) = Inr (mm', ret')"
    and ok: "results_ok kc gw mm (rfg_ListenerResults ret)" and ref: "ref \<in> set (getParentRefsForGw gw hr)"
  shows "results_ok kc gw mm' (rfg_ListenerResults ret')"
proof -
  let ?st = "\<lparr>as_mem = mm, as_results = rfg_ListenerResults ret, as_allowed = False, as_matched = False, as_hosts = False\<rparr>"
  from run obtain st where f: "fold_out (attachToListener fuel kc gw hr ref) (gw_Listeners gw) ?st = Inr st"
    and res: "mm' = as_mem st" "rfg_ListenerResults ret' = as_results st"
    by (auto simp: attachRef_def elim!: bind_out_InrE)
  have "results_ok kc gw (as_mem st) (as_results st)"
  proof (rule fold_out_invariant [where P = "\<lambda>s. results_ok kc gw (as_mem s) (as_results s)", OF _ _ f])
    show "results_ok kc gw (as_mem ?st) (as_results ?st)" using ok by simp
  qed (use ref in \<open>blast intro: attachToListener_ok\<close>)
  with res show ?thesis by simp
qed

lemma attachRoute_ok:
  assumes run: "attachRoute fuel kc gw hrApi (mm, ret) = Inr (mm', ret')"
    and ok: "results_ok kc gw mm (rfg_ListenerResults ret)"
  shows "results_ok kc gw mm' (rfg_ListenerResults ret')"
proof -
  obtain mm1 hr where l: "load_route mm hrApi = (mm1, hr)" by (cases "load_route mm hrApi")
  have ok1: "results_ok kc gw mm1 (rfg_ListenerResults ret)"
    using ok load_route_infos [OF l] by (simp add: results_ok_def mem_wf_def)
  from run l have f: "fold_out (attachRef fuel kc gw hr) (getParentRefsForGw gw hr) (mm1, ret) = Inr (mm', ret')"
    by (simp add: attachRoute_def)
  have "(\<lambda>(m, r). results_ok kc gw m (rfg_ListenerResults r)) (mm', ret')"
    by (rule fold_out_invariant [where P = "\<lambda>(m, r). results_ok kc gw m (rfg_ListenerResults r)", OF _ _ f])
      (use ok1 in \<open>auto intro: attachRef_ok\<close>)
  then show ?thesis by simp
qed

text \<open>C17. Only routes that belong there attach to a listener: every route info listed for a listener
  name comes from a route with a parent reference to this gateway, through which some listener of
  that name takes it (kind and namespace allowed, section and port matching, hostnames
  intersecting); it carries that reference, the intersected hostnames and the resolved backends.\<close>

theorem GetRoutesForGateway_attached:
  assumes run: "GetRoutesForGateway fuel kc gw mm = Inr (mm', Inr ret)" and wf: "mem_wf mm"
    and i: "rfg_ListenerResults ret n = Some lr" "i \<in> set (lres_Routes lr)"
  shows "i < length (mem_infos mm') \<and> attached kc gw n (mem_infos mm' ! i)"
proof -
  from run obtain items where
    f: "fold_out (attachRoute fuel kc gw) items (mm, \<lparr>rfg_ListenerResults = Map.empty, rfg_RouteErrors = []\<rparr>) = Inr (mm', ret)"
    by (auto simp: GetRoutesForGateway_def split: sum.splits elim!: bind_out_InrE)
  have "(\<lambda>(m, r). results_ok kc gw m (rfg_ListenerResults r)) (mm', ret)"
    by (rule fold_out_invariant [where P = "\<lambda>(m, r). results_ok kc gw m (rfg_ListenerResults r)", OF _ _ f])
      (use wf in \<open>auto simp: results_ok_def [of _ _ mm] intro: attachRoute_ok\<close>)
  with i show ?thesis unfolding results_ok_def by auto
qed

lemma GetRoutesForGateway_returns:
  assumes "finite N" "client_within kc N" "card N < fuel"
  shows "\<exists>mm' res. GetRoutesForGateway fuel kc gw mm = Inr (mm', res)"
proof -
  have chain: "\<exists>x. GetHTTPRouteChain fuel kc hr hosts ref m = Inr x" for hr hosts ref m
  proof -
    obtain x where "getDelegatedChildren fuel kc hr {} m = Inr x"
      using getDelegatedChildren_returns [OF assms(1,2), of hr "{}" fuel m] assms(3)
        card_mono [OF assms(1), of "N - insert (hr_key hr) {}"] by fastforce
    then show ?thesis by (cases x) (simp add: GetHTTPRouteChain_def)
  qed
  have lis: "\<exists>s'. attachToListener fuel kc gw hr ref l s = Inr s'" for hr ref l s
  proof -
    from chain [of hr "snd (hostnameIntersect l hr)" ref "as_mem s"] obtain m i where
      "GetHTTPRouteChain fuel kc hr (snd (hostnameIntersect l hr)) ref (as_mem s) = Inr (m, i)" by (metis surj_pair)
    then show ?thesis
      by (cases "allowedRoutes kc gw l"; cases "hostnameIntersect l hr") (auto simp: attachToListener_def Let_def split: prod.splits)
  qed
  have ref: "\<exists>s'. attachRef fuel kc gw hr r s = Inr s'" for hr r s
  proof -
    obtain m ret where s: "s = (m, ret)" by (cases s)
    obtain st where "fold_out (attachToListener fuel kc gw hr r) (gw_Listeners gw)
        \<lparr>as_mem = m, as_results = rfg_ListenerResults ret, as_allowed = False, as_matched = False, as_hosts = False\<rparr> = Inr st"
      using fold_out_returns [where P = "\<lambda>_. True", of "gw_Listeners gw" "attachToListener fuel kc gw hr r"] lis by blast
    then show ?thesis by (simp add: attachRef_def s)
  qed
  have route: "\<exists>s'. attachRoute fuel kc gw hr s = Inr s'" for hr s
  proof -
    obtain m ret where s: "s = (m, ret)" by (cases s)
    obtain m1 r where l: "load_route m hr = (m1, r)" by (cases "load_route m hr")
    obtain s' where "fold_out (attachRef fuel kc gw r) (getParentRefsForGw gw r) (m1, ret) = Inr s'"
      using fold_out_returns [where P = "\<lambda>_. True", of "getParentRefsForGw gw r" "attachRef fuel kc gw r" "(m1, ret)"] ref by blast
    then show ?thesis by (simp add: attachRoute_def s l)
  qed
  show ?thesis
  proof (cases "kc_ListRoutesByTarget kc (nn_String (gw_key gw))")
    case (Inl e)
    then show ?thesis by (simp add: GetRoutesForGateway_def)
  next
    case (Inr items)
    obtain x where "fold_out (attachRoute fuel kc gw) items (mm, \<lparr>rfg_ListenerResults = Map.empty, rfg_RouteErrors = []\<rparr>) = Inr x"
      using fold_out_returns [where P = "\<lambda>_. True", of items "attachRoute fuel kc gw"] route by blast
    with Inr show ?thesis by (cases x) (simp add: GetRoutesForGateway_def)
  qed
qed

text \<open>Looking up the routes of a gateway always completes when the routes of the cluster are drawn
  from a finite set of names: it gives the error of the listing or the attached routes.\<close>

theorem GetRoutesForGateway_total:
  assumes "finite N" "client_within kc N" "card N < fuel"
  shows "\<exists>mm' res. GetRoutesForGateway fuel kc gw mm = Inr (mm', res)"
  by (rule GetRoutesForGateway_returns [OF assms])

section \<open>Witnesses\<close>

text \<open>A small cluster: the route \<open>ns/p\<close> attaches to the gateway \<open>ns/gw\<close> and delegates to \<open>ns/c\<close> from two
  rules, \<open>ns/c\<close> delegates back to \<open>ns/p\<close>, and \<open>ns/c\<close> uses a service of the namespace \<open>other\<close>, which a
  reference grant permits.\<close>

definition q_ref :: "string \<Rightarrow> string \<Rightarrow> string option \<Rightarrow> string \<Rightarrow> http_backend_ref" where
  "q_ref grp kind ns name = \<lparr>br_Ref = \<lparr>bor_Group = Some grp, bor_Kind = Some kind, bor_Name = name,
     bor_Namespace = ns, bor_Port = None\<rparr>, br_Weight = None, br_Filters = []\<rparr>"

definition q_rule :: "http_backend_ref list \<Rightarrow> 'p http_route_rule" where
  "q_rule bs = \<lparr>rule_Matches = None, rule_Filters = [], rule_BackendRefs = bs\<rparr>"

definition q_route :: "string \<Rightarrow> parent_reference list \<Rightarrow> string list option \<Rightarrow> 'p http_route_rule list \<Rightarrow> 'p http_route" where
  "q_route name ps hs rules = \<lparr>hr_Namespace = ''ns'', hr_Name = name, hr_Generation = 1, hr_CreationTimestamp = 0,
     hr_Annotations = Map.empty, hr_ParentRefs = ps, hr_Hostnames = hs, hr_Rules = rules, hr_Status = []\<rparr>"

definition q_parent_ref :: parent_reference where
  "q_parent_ref = \<lparr>pr_Group = None, pr_Kind = None, pr_Namespace = None, pr_Name = ''gw'',
     pr_SectionName = None, pr_Port = None\<rparr>"

definition q_parent :: "'p http_route" where
  "q_parent = q_route ''p'' [q_parent_ref] (Some [''a.example.com'', ''b.org''])
     [q_rule [q_ref GroupName HTTPRouteKind None ''c''], q_rule [q_ref GroupName HTTPRouteKind None ''c'']]"

definition q_service :: http_backend_ref where
  "q_service = q_ref [] ServiceKind (Some ''other'') ''svc''"

definition q_child :: "'p http_route" where
  "q_child = q_route ''c'' [] None [q_rule [q_ref GroupName HTTPRouteKind None ''p'', q_service]]"

definition q_grant :: reference_grant where
  "q_grant = \<lparr>rg_Namespace = ''other'',
     rg_From = [\<lparr>rgf_Group = GroupName, rgf_Kind = HTTPRouteKind, rgf_Namespace = ''ns''\<rparr>],
     rg_To = [\<lparr>rgt_Group = [], rgt_Kind = ServiceKind, rgt_Name = None\<rparr>]\<rparr>"

definition q_client :: "unit k8s_client" where
  "q_client = \<lparr>kc_ListRoutesByTarget = (\<lambda>t. Inr (if t = ''ns/gw'' then [q_parent] else [])),
     kc_ListRoutesInNamespace = (\<lambda>ns. Inr (if ns = ''ns'' then [q_parent, q_child] else [])),
     kc_GetRoute = (\<lambda>n. if n = NamespacedName ''ns'' ''p'' then Inr q_parent
        else if n = NamespacedName ''ns'' ''c'' then Inr q_child else Inl (ApiNotFound (nn_String n))),
     kc_GetObject = (\<lambda>gk v n. if n = NamespacedName ''other'' ''svc'' then Inr (ObjService ''other'' ''svc'')
        else Inl (ApiNotFound (nn_String n))),
     kc_ListGrants = (\<lambda>tons fromns. Inr (if tons = ''other'' then [q_grant] else [])),
     kc_NamespaceLabels = (\<lambda>_. Map.empty), kc_LabelSelectorAsSelector = (\<lambda>_. Inr (\<lambda>_. True)),
     kc_VersionsForGroupKind = (\<lambda>_. [''v1'']), kc_New = (\<lambda>_ _. Inr True),
     kc_ObjectKindsHTTPRoute = Inr ([GroupKind GroupName HTTPRouteKind], False)\<rparr>"

definition q_listener :: "string option \<Rightarrow> unit listener" where
  "q_listener h = \<lparr>l_Name = ''http'', l_Hostname = h, l_Port = 80, l_Protocol = ''HTTP'', l_TLS = None,
     l_AllowedRoutes = None\<rparr>"

definition q_gw :: "unit gateway" where
  "q_gw = \<lparr>gw_Kind = GatewayKind, gw_APIVersion = ''gateway.networking.k8s.io/v1'', gw_Namespace = ''ns'', gw_Name = ''gw'', gw_UID = ''gw-uid'', gw_Generation = 1, gw_DeletionTimestamp = None, gw_Annotations = Map.empty,
     gw_GatewayClassName = ''gloo-gateway'', gw_Listeners = [q_listener (Some ''*.example.com'')],
     gw_Status = \<lparr>gs_Addresses = [], gs_Conditions = [], gs_Listeners = []\<rparr>\<rparr>"

definition q_mem :: mem where
  "q_mem = \<lparr>mem_paths = [], mem_infos = []\<rparr>"

lemmas q_defs = q_ref_def q_rule_def q_route_def q_parent_ref_def q_parent_def q_service_def q_child_def
  q_grant_def q_client_def q_listener_def q_gw_def q_mem_def

lemma q_mem_wf: "mem_wf q_mem"
  by (simp add: mem_wf_def q_mem_def)

lemma q_client_within: "client_within q_client {NamespacedName ''ns'' ''p'', NamespacedName ''ns'' ''c''}"
  by (auto simp: client_within_def hr_key_def q_defs split: if_splits)


theorem GetBackendForRef_needs_grant_witness:
  "\<exists>gs g. kc_ListGrants q_client ''other'' ''ns'' = Inr gs \<and> g \<in> set gs \<and>
     grants g (GroupKind GroupName HTTPRouteKind) ''ns'' (GroupKind [] ServiceKind) ''svc''"
proof -
  let ?from = "FromGkNs (GroupKind GroupName HTTPRouteKind) ''ns''"
  have "GetBackendForRef q_client ?from (br_Ref q_service) = Inr (ObjService ''other'' ''svc'')"
    by (simp add: GetBackendForRef_def getRef_def referenceAllowed_def ReferenceAllowed_def FromGkNs_def
        ptrOrDefault_def coreIfEmpty_def q_defs)
  from GetBackendForRef_needs_grant [OF this, of "''other''"] show ?thesis
    by (auto simp: FromGkNs_def effectiveNs_def q_service_def q_ref_def ptrOrDefault_def)
qed

theorem resolveRouteBackends_get_witness:
  "bm_get (resolveRouteBackends q_client q_child) (br_Ref q_service) =
     GetBackendForRef q_client (ObjToFrom q_client (q_child :: route)) (br_Ref q_service)"
  by (rule resolveRouteBackends_get) (simp_all add: route_refs_def clean_ref_def q_defs ptrOrDefault_def)

theorem target_index_complete_witness:
  "''ns/gw'' \<in> set (httpRouteToTargetIndexer (q_parent :: route))"
proof -
  have "getParentRefsForGw q_gw (q_parent :: route) \<noteq> []"
    by (simp add: getParentRefsForGw_def refersToGw_def q_defs)
  from target_index_complete [OF this] show ?thesis by (simp add: gw_key_def nn_String_def q_gw_def)
qed

theorem GetHTTPRouteChain_acyclic_witness:
  "\<exists>mm' i. GetHTTPRouteChain 3 q_client q_parent [] q_parent_ref q_mem = Inr (mm', i) \<and>
     hri_HTTPRoute (mem_infos mm' ! i) = q_parent"
proof -
  obtain mm' v' kids where "getDelegatedChildren 3 q_client q_parent {} q_mem = Inr (mm', v', kids)"
    using getDelegatedChildren_returns [OF _ q_client_within, of q_parent "{}" 3 q_mem] by (auto simp: hr_key_def q_defs)
  then obtain m i where "GetHTTPRouteChain 3 q_client q_parent [] q_parent_ref q_mem = Inr (m, i)"
    by (simp add: GetHTTPRouteChain_def alloc_info_def)
  with GetHTTPRouteChain_acyclic [OF this q_mem_wf] show ?thesis by blast
qed

theorem GetRoutesForGateway_total_witness:
  "\<exists>mm' res. GetRoutesForGateway 3 q_client q_gw q_mem = Inr (mm', res)"
  by (rule GetRoutesForGateway_total [OF _ q_client_within]) simp_all

lemma q_chain:
  "\<exists>m i. GetHTTPRouteChain 3 q_client hr hosts ref mm = Inr (m, i)"
proof -
  have "card ({NamespacedName ''ns'' ''p'', NamespacedName ''ns'' ''c''} - insert (hr_key hr) {}) < 3"
    by (rule le_less_trans [OF card_mono [of "{NamespacedName ''ns'' ''p'', NamespacedName ''ns'' ''c''}"]]) auto
  with getDelegatedChildren_returns [OF _ q_client_within, of hr "{}" 3 mm] obtain x where
    "getDelegatedChildren 3 q_client hr {} mm = Inr x" by auto
  then show ?thesis by (cases x) (simp add: GetHTTPRouteChain_def alloc_info_def)
qed

theorem attachRef_reason_witness:
  "\<exists>mm' ret'. attachRef 3 q_client q_gw q_parent (q_parent_ref\<lparr>pr_SectionName := Some ''other''\<rparr>)
       (q_mem, \<lparr>rfg_ListenerResults = Map.empty, rfg_RouteErrors = []\<rparr>) = Inr (mm', ret') \<and>
     map re_Reason (rfg_RouteErrors ret') = [''NoMatchingParent'']"
proof -
  let ?ref = "q_parent_ref\<lparr>pr_SectionName := Some ''other''\<rparr>"
  let ?ret = "\<lparr>rfg_ListenerResults = Map.empty, rfg_RouteErrors = []\<rparr>"
  have ex: "\<exists>x. attachRef 3 q_client q_gw q_parent ?ref (q_mem, ?ret) = Inr x"
    by (simp add: attachRef_def attachToListener_def allowedRoutes_def protocolKinds_def isHttpRouteAllowed_def
        isRouteAllowed_def SameNamespace_def parentRefMatchListener_def q_defs)
  then obtain mm' ret' where r: "attachRef 3 q_client q_gw q_parent ?ref (q_mem, ?ret) = Inr (mm', ret')" by auto
  have "map (\<lambda>e. (re_Route e, re_ParentRef e, re_Reason e)) (rfg_RouteErrors ret') =
      [(q_parent, ?ref, ''NoMatchingParent'')]"
    using attachRef_reason [OF r]
    by (simp add: listener_conds allowedRoutes_def protocolKinds_def isHttpRouteAllowed_def isRouteAllowed_def
        SameNamespace_def parentRefMatchListener_def q_defs)
  then have "map (\<lambda>t. snd (snd t)) (map (\<lambda>e. (re_Route e, re_ParentRef e, re_Reason e)) (rfg_RouteErrors ret')) =
      [''NoMatchingParent'']" by simp
  then have "map re_Reason (rfg_RouteErrors ret') = [''NoMatchingParent'']" by (simp add: comp_def)
  with r show ?thesis by (intro exI conjI)
qed

theorem GetRoutesForGateway_attached_witness:
  "\<exists>mm' ret lr i. GetRoutesForGateway 3 q_client q_gw q_mem = Inr (mm', Inr ret) \<and>
     rfg_ListenerResults ret ''http'' = Some lr \<and> lres_Routes lr = [i] \<and>
     attached q_client q_gw ''http'' (mem_infos mm' ! i)"
proof -
  obtain mm1 hr where l: "load_route q_mem q_parent = (mm1, hr)" by (cases "load_route q_mem q_parent")
  have hr: "hr_Namespace hr = ''ns''" "hr_ParentRefs hr = [q_parent_ref]" "hr_Hostnames hr = Some [''a.example.com'', ''b.org'']"
    using l by (auto simp: load_route_def copy_route_def copy_rule_def q_defs Let_def split: prod.splits)
  obtain m i where c: "GetHTTPRouteChain 3 q_client hr [''a.example.com''] q_parent_ref mm1 = Inr (m, i)"
    using q_chain by blast
  have list: "kc_ListRoutesByTarget q_client (nn_String (gw_key q_gw)) = Inr [q_parent]"
    by (simp add: gw_key_def nn_String_def q_defs)
  have refs: "getParentRefsForGw q_gw hr = [q_parent_ref]"
    by (simp add: getParentRefsForGw_def refersToGw_def hr q_defs)
  have hs: "hostnameIntersect (q_listener (Some ''*.example.com'')) hr = (True, [''a.example.com''])"
    by (simp add: hostnameIntersect_def q_listener_def hr hasPrefix_def hasSuffix_def)
  have ar: "allowedRoutes q_client q_gw (q_listener (Some ''*.example.com'')) =
      Inr (SameNamespace ''ns'', [GroupKind GroupName HTTPRouteKind])"
    by (simp add: allowedRoutes_def protocolKinds_def q_listener_def q_gw_def)
  have pm: "parentRefMatchListener q_parent_ref (q_listener (Some ''*.example.com''))"
    by (simp add: parentRefMatchListener_def q_parent_ref_def)
  have n: "gw_Listeners q_gw = [q_listener (Some ''*.example.com'')]" "l_Name (q_listener h) = ''http''" for h
    by (simp_all add: q_gw_def q_listener_def)
  obtain ret lr where r: "GetRoutesForGateway 3 q_client q_gw q_mem = Inr (m, Inr ret)"
    and lr: "rfg_ListenerResults ret ''http'' = Some lr" "lres_Routes lr = [i]"
    by (simp add: GetRoutesForGateway_def list attachRoute_def l refs attachRef_def n attachToListener_def ar hs pm c
        isHttpRouteAllowed_def isRouteAllowed_def SameNamespace_def hr)
  from GetRoutesForGateway_attached [OF r q_mem_wf lr(1), of i] lr(2) r lr show ?thesis by auto
qed

section \<open>Two surprises of the delegation tree\<close>

text \<open>Two leaf routes, which delegate nowhere.\<close>

definition leaf_client :: "unit k8s_client" where
  "leaf_client = q_client\<lparr>kc_GetRoute := (\<lambda>n. Inr (q_route (nn_Name n) [] None []))\<rparr>"

definition ref_to :: "string \<Rightarrow> http_backend_ref" where
  "ref_to name = q_ref GroupName HTTPRouteKind None name"

lemmas leaf_eval = getDelegatedChildren.simps resolveChildRule_def resolveChildRef_def resolveChild_def
  fetchChildRoutes_def RefIsHTTPRoute_def leaf_client_def ref_to_def q_defs load_route_def copy_route_def
  hr_key_def bm_Add_def bm_AddError_def NewBackendMap_def bm_get_def backendToRefKey_def ptrOrDefault_def
  alloc_info_def resolveRouteBackends_def Let_def numeral_2_eq_2

text \<open>A child route that two rules of one route delegate to is reported as a cycle, although no
  route of the cluster delegates back: names that were visited stay visited, and the error recorded
  for the second reference hides the children found for the first.\<close>

theorem getDelegatedChildren_shared_child:
  "\<exists>mm v kids e. getDelegatedChildren 2 leaf_client
       (q_route ''p'' [] None [q_rule [ref_to ''c''], q_rule [ref_to ''c'']]) {} q_mem = Inr (mm, v, kids) \<and>
     bm_get kids (br_Ref (ref_to ''c'')) = Inl e \<and> errors_Is e ErrCyclicReference"
  by (simp add: leaf_eval)

text \<open>The children of a reference are collected per rule, not per reference: in a rule that
  delegates to \<open>c\<close> and then to \<open>d\<close>, the children recorded for \<open>d\<close> are those of both references.\<close>

theorem getDelegatedChildren_shares_rule:
  "\<exists>mm v kids. getDelegatedChildren 2 leaf_client
       (q_route ''p'' [] None [q_rule [ref_to ''c'', ref_to ''d'']]) {} q_mem = Inr (mm, v, kids) \<and>
     bm_get kids (br_Ref (ref_to ''c'')) = Inr [0] \<and> bm_get kids (br_Ref (ref_to ''d'')) = Inr [0, 1] \<and>
     hr_Name (hri_HTTPRoute (mem_infos mm ! 0)) = ''c'' \<and> hr_Name (hri_HTTPRoute (mem_infos mm ! 1)) = ''d''"
  by (simp add: leaf_eval)

end
