(* ===== verification/Delegation.thy ===== *)
theory Delegation
  imports QueryProps
begin

text \<open>
  Selection of delegated routes, \<open>translator/httproute/delegation_helpers.go\<close>: which rules and matches of
  a child route apply under a match of its parent, and the inheritance of the parent's matcher.

  The children are pointers into the memory. \<open>Clone\<close> copies the struct but not the array of rules, so
  writing \<open>child.Spec.Rules[i].Matches\<close> changes the rules of the original, and merging matches writes
  through the \<open>Path\<close> pointer of the child's match; both writes are writes to the memory here. The
  \<open>range\<close> over the Go map in \<open>mergeHeaders\<close> and \<open>mergeQueries\<close> takes its order as an argument, and the
  result is shown not to depend on it.
\<close>

section \<open>Model\<close>

abbreviation inheritMatcherAnnotation :: string where
  "inheritMatcherAnnotation \<equiv> ''delegation.gateway.solo.io/inherit-parent-matcher''"

definition shouldInheritMatcher :: "'p http_route \<Rightarrow> bool" where
  "shouldInheritMatcher hr =
     (case hr_Annotations hr inheritMatcherAnnotation of
        None \<Rightarrow> False
      | Some val \<Rightarrow> toLower val \<in> {''true'', ''yes'', ''enabled''})"

text \<open>A match with its path read from the memory.\<close>

definition view_match :: "mem \<Rightarrow> nat http_route_match \<Rightarrow> http_path_match http_route_match" where
  "view_match mm m = \<lparr>hm_Path = map_option (\<lambda>i. mem_paths mm ! i) (hm_Path m), hm_Headers = hm_Headers m,
     hm_QueryParams = hm_QueryParams m, hm_Method = hm_Method m\<rparr>"

definition parentRefMatches :: "namespaced_name \<Rightarrow> string \<Rightarrow> parent_reference \<Rightarrow> bool" where
  "parentRefMatches parentRef childNs ref =
     (let refNs = (case pr_Namespace ref of None \<Rightarrow> childNs | Some n \<Rightarrow> n)
      in pr_Group ref = Some GroupName \<and> pr_Kind ref = Some HTTPRouteKind \<and>
         pr_Name ref = nn_Name parentRef \<and> refNs = nn_Namespace parentRef)"

definition isDelegatedRouteMatch ::
  "http_path_match http_route_match \<Rightarrow> namespaced_name \<Rightarrow> http_path_match http_route_match \<Rightarrow> string \<Rightarrow>
   parent_reference list \<Rightarrow> bool outcome" where
  "isDelegatedRouteMatch parent parentRef child childNs parentRefs =
     (if parentRefs \<noteq> [] \<and> \<not> list_ex (parentRefMatches parentRef childNs) parentRefs then Inr False
      else case hm_Path parent of
        None \<Rightarrow> Inr False
      | Some pp \<Rightarrow>
        if pm_Type pp \<noteq> Some PathMatchPathPrefix then Inr False
        else bind_out (deref (pm_Value pp)) (\<lambda>parentPath.
          case hm_Path child of
            None \<Rightarrow> Inr False
          | Some cp \<Rightarrow>
            if pm_Type cp = None then Inr False
            else bind_out (deref (pm_Value cp)) (\<lambda>childPath.
              if \<not> hasPrefix childPath parentPath then Inr False
              else if \<not> list_all (\<lambda>h. list_ex (\<lambda>c. h = c) (hm_Headers child)) (hm_Headers parent) then Inr False
              else if \<not> list_all (\<lambda>q. list_ex (\<lambda>c. q = c) (hm_QueryParams child)) (hm_QueryParams parent) then Inr False
              else if hm_Method parent \<noteq> None \<and> hm_Method child \<noteq> hm_Method parent then Inr False
              else Inr True)))"

text \<open>\<open>mergeHeaders\<close> and \<open>mergeQueries\<close>: parents first, then children whose name is not taken, read back
  in the order \<open>ks\<close> of the map and sorted by name.\<close>

definition mergedMap :: "('a \<Rightarrow> string) \<Rightarrow> 'a list \<Rightarrow> 'a list \<Rightarrow> string \<rightharpoonup> 'a" where
  "mergedMap name parent child =
     foldl (\<lambda>merged h. if merged (name h) = None then merged(name h \<mapsto> h) else merged)
       (foldl (\<lambda>merged h. merged(name h \<mapsto> h)) Map.empty parent) child"

definition mergeOrdered :: "('a \<Rightarrow> string) \<Rightarrow> string list \<Rightarrow> 'a list \<Rightarrow> 'a list \<Rightarrow> 'a list" where
  "mergeOrdered name ks parent child =
     sort_stable (\<lambda>a b. name a < name b) (map (\<lambda>k. the (mergedMap name parent child k)) ks)"

definition mergeOrder :: "('a \<Rightarrow> string) \<Rightarrow> 'a list \<Rightarrow> 'a list \<Rightarrow> string list" where
  "mergeOrder name parent child = remdups (map name parent @ map name child)"

definition mergeHeaders :: "http_header_match list \<Rightarrow> http_header_match list \<Rightarrow> http_header_match list" where
  "mergeHeaders parent child = mergeOrdered hhm_Name (mergeOrder hhm_Name parent child) parent child"

definition mergeQueries ::
  "http_query_param_match list \<Rightarrow> http_query_param_match list \<Rightarrow> http_query_param_match list" where
  "mergeQueries parent child = mergeOrdered hqm_Name (mergeOrder hqm_Name parent child) parent child"

definition mergeParentChildRouteMatch ::
  "nat http_route_match \<Rightarrow> nat http_route_match \<Rightarrow> mem \<Rightarrow> (mem \<times> nat http_route_match) outcome" where
  "mergeParentChildRouteMatch parent child mm =
     (let (mm, c) = (case hm_Path child of
            Some c \<Rightarrow> (mm, c)
          | None \<Rightarrow> (mm\<lparr>mem_paths := mem_paths mm @ [\<lparr>pm_Type = Some PathMatchPathPrefix, pm_Value = Some []\<rparr>]\<rparr>,
                      length (mem_paths mm)))
      in bind_out (deref (hm_Path parent)) (\<lambda>p.
         bind_out (deref (pm_Value (mem_paths mm ! p))) (\<lambda>parentPath.
         bind_out (deref (pm_Value (mem_paths mm ! c))) (\<lambda>childPath.
           Inr (mm\<lparr>mem_paths := (mem_paths mm)[c := (mem_paths mm ! c)\<lparr>pm_Value := Some (path_join parentPath childPath)\<rparr>]\<rparr>,
                child\<lparr>hm_Path := Some c,
                      hm_Headers := mergeHeaders (hm_Headers parent) (hm_Headers child),
                      hm_QueryParams := mergeQueries (hm_QueryParams parent) (hm_QueryParams child),
                      hm_Method := (case hm_Method parent of Some m \<Rightarrow> Some m | None \<Rightarrow> hm_Method child)\<rparr>)))))"

text \<open>One match of a rule of the child: the state is the memory and the valid matches.\<close>

definition filterMatch ::
  "namespaced_name \<Rightarrow> nat http_route_match \<Rightarrow> route \<Rightarrow> nat http_route_match \<Rightarrow>
   mem \<times> nat http_route_match list \<Rightarrow> (mem \<times> nat http_route_match list) outcome" where
  "filterMatch parentRef parentMatch childRoute match = (\<lambda>(mm, validMatches).
     if shouldInheritMatcher childRoute
     then bind_out (mergeParentChildRouteMatch parentMatch match mm) (\<lambda>(mm, match).
       Inr (mm, validMatches @ [match]))
     else bind_out (isDelegatedRouteMatch (view_match mm parentMatch) parentRef (view_match mm match)
            (hr_Namespace childRoute) (hr_ParentRefs childRoute)) (\<lambda>ok.
       Inr (mm, if ok then validMatches @ [match] else validMatches)))"

definition info_rules :: "mem \<Rightarrow> nat \<Rightarrow> nat http_route_rule list" where
  "info_rules mm cid = hr_Rules (hri_HTTPRoute (mem_infos mm ! cid))"

text \<open>\<open>child.Spec.Rules[i].Matches = validMatches\<close>, in the array shared with the original.\<close>

definition write_matches :: "nat \<Rightarrow> nat \<Rightarrow> nat http_route_match list option \<Rightarrow> mem \<Rightarrow> mem" where
  "write_matches cid i ms mm =
     (let info = mem_infos mm ! cid; hr = hri_HTTPRoute info;
          rules = (hr_Rules hr)[i := (hr_Rules hr ! i)\<lparr>rule_Matches := ms\<rparr>]
      in mm\<lparr>mem_infos := (mem_infos mm)[cid := info\<lparr>hri_HTTPRoute := hr\<lparr>hr_Rules := rules\<rparr>\<rparr>]\<rparr>)"

definition filterRule ::
  "namespaced_name \<Rightarrow> nat http_route_match \<Rightarrow> nat \<Rightarrow> route \<Rightarrow> nat \<Rightarrow>
   mem \<times> nat http_route_rule list \<Rightarrow> (mem \<times> nat http_route_rule list) outcome" where
  "filterRule parentRef parentMatch cid childRoute i = (\<lambda>(mm, validRules).
     let rule = info_rules mm cid ! i;
         inherited = (if shouldInheritMatcher childRoute \<and> rule_matches rule = [] then [parentMatch] else [])
     in bind_out (fold_out (filterMatch parentRef parentMatch childRoute) (rule_matches rule) (mm, inherited))
          (\<lambda>(mm, validMatches).
            let ms = (if validMatches = [] then None else Some validMatches)
            in Inr (write_matches cid i ms mm,
                    if validMatches \<noteq> [] then validRules @ [rule\<lparr>rule_Matches := Some validMatches\<rparr>]
                    else validRules)))"

definition filterChild ::
  "namespaced_name \<Rightarrow> nat http_route_match \<Rightarrow> nat \<Rightarrow> mem \<times> http_route_info list \<Rightarrow>
   (mem \<times> http_route_info list) outcome" where
  "filterChild parentRef parentMatch cid = (\<lambda>(mm, selected).
     let child = info_Clone (mem_infos mm ! cid)
     in bind_out (fold_out (filterRule parentRef parentMatch cid (hri_HTTPRoute child))
            [0..<length (hr_Rules (hri_HTTPRoute child))] (mm, []))
          (\<lambda>(mm, validRules).
            Inr (mm, if validRules \<noteq> []
                     then selected @ [child\<lparr>hri_HTTPRoute := (hri_HTTPRoute child)\<lparr>hr_Rules := validRules\<rparr>\<rparr>]
                     else selected)))"

definition filterDelegatedChildren ::
  "namespaced_name \<Rightarrow> nat http_route_match \<Rightarrow> nat list \<Rightarrow> mem \<Rightarrow> (mem \<times> http_route_info list) outcome" where
  "filterDelegatedChildren parentRef parentMatch children mm =
     fold_out (filterChild parentRef parentMatch) children (mm, [])"

section \<open>Merging headers and query parameters\<close>

lemma foldl_upd_names:
  "foldl (\<lambda>merged h. merged(name h \<mapsto> h)) m xs k =
     (case filter (\<lambda>h. name h = k) xs of [] \<Rightarrow> m k | ys \<Rightarrow> Some (last ys))"
  by (induction xs arbitrary: m) (auto split: list.splits)

lemma foldl_add_names:
  "foldl (\<lambda>merged h. if merged (name h) = None then merged(name h \<mapsto> h) else merged) m xs k =
     (case m k of Some v \<Rightarrow> Some v | None \<Rightarrow> (case filter (\<lambda>h. name h = k) xs of [] \<Rightarrow> None | y # _ \<Rightarrow> Some y))"
  by (induction xs arbitrary: m) (auto split: list.splits option.splits)

text \<open>What the merged map holds: the last entry of the parent with that name, or else the first of the
  child.\<close>

lemma mergedMap_eq:
  "mergedMap name parent child k =
     (case filter (\<lambda>h. name h = k) parent of
        [] \<Rightarrow> (case filter (\<lambda>h. name h = k) child of [] \<Rightarrow> None | y # _ \<Rightarrow> Some y)
      | ys \<Rightarrow> Some (last ys))"
  by (simp add: mergedMap_def foldl_add_names foldl_upd_names split: list.split option.split)

lemma mergedMap_SomeD:
  assumes "mergedMap name parent child k = Some h"
  shows "name h = k"
proof (cases "filter (\<lambda>h. name h = k) parent")
  case Nil
  with assms show ?thesis
    by (auto simp: mergedMap_eq filter_eq_Cons_iff split: list.splits)
next
  case (Cons y ys)
  with assms have "h = last (filter (\<lambda>h. name h = k) parent)" by (simp add: mergedMap_eq)
  with Cons last_in_set [of "filter (\<lambda>h. name h = k) parent"] have "h \<in> set (filter (\<lambda>h. name h = k) parent)"
    by (metis list.distinct(1))
  then show ?thesis by simp
qed

lemma mergedMap_None_iff: "mergedMap name parent child k = None \<longleftrightarrow> k \<notin> name ` set parent \<union> name ` set child"
proof -
  have "mergedMap name parent child k = None \<longleftrightarrow>
      filter (\<lambda>h. name h = k) parent = [] \<and> filter (\<lambda>h. name h = k) child = []"
    by (simp add: mergedMap_eq split: list.split)
  then show ?thesis by (auto simp: filter_empty_conv)
qed

lemma mergedMap_dom: "dom (mergedMap name parent child) = name ` set parent \<union> name ` set child"
  using mergedMap_None_iff [of name parent child] by (auto simp: dom_def)

lemma mergeOrder_iter: "iter_order (mergedMap name parent child) (mergeOrder name parent child)"
  by (simp add: iter_order_def mergeOrder_def mergedMap_dom)

lemma sorted_names_unique:
  assumes "sorted_wrt (\<lambda>a b. name a \<le> (name b :: string)) xs" "sorted_wrt (\<lambda>a b. name a \<le> name b) ys"
    and "mset xs = mset ys" "inj_on name (set xs)"
  shows "xs = ys"
proof -
  have "sorted (map name xs)" "sorted (map name ys)" using assms(1,2) by (simp_all add: sorted_wrt_map)
  moreover have "mset (map name xs) = mset (map name ys)" using assms(3) by simp
  ultimately have "map name xs = map name ys" by (metis sorted_list_of_multiset_mset sorted_sort_id)
  moreover have "set xs = set ys" using assms(3) by (rule mset_eq_setD)
  ultimately show ?thesis using assms(4) by (metis map_inj_on Un_absorb)
qed

lemma sorted_mergeOrdered: "sorted_wrt (\<lambda>a b. name a \<le> name b) (mergeOrdered name ks parent child)"
  unfolding mergeOrdered_def by (rule sorted_sort_stable) auto

lemma set_mergeOrdered:
  assumes "iter_order (mergedMap name parent child) ks"
  shows "set (mergeOrdered name ks parent child) = ran (mergedMap name parent child)"
proof -
  have "set ks = dom (mergedMap name parent child)" using assms by (rule iter_orderD)
  then show ?thesis by (force simp: mergeOrdered_def ran_def dom_def image_iff)
qed

lemma mergeOrdered_order:
  assumes "iter_order (mergedMap name parent child) ks" "iter_order (mergedMap name parent child) ks'"
  shows "mergeOrdered name ks parent child = mergeOrdered name ks' parent child"
proof (rule sorted_names_unique [of name])
  show "sorted_wrt (\<lambda>a b. name a \<le> name b) (mergeOrdered name ks parent child)"
    "sorted_wrt (\<lambda>a b. name a \<le> name b) (mergeOrdered name ks' parent child)"
    by (rule sorted_mergeOrdered)+
  show "mset (mergeOrdered name ks parent child) = mset (mergeOrdered name ks' parent child)"
    using iter_order_mset [OF assms] by (simp add: mergeOrdered_def mset_map)
  show "inj_on name (set (mergeOrdered name ks parent child))"
  proof (rule inj_onI)
    fix a b
    assume ab: "a \<in> set (mergeOrdered name ks parent child)" "b \<in> set (mergeOrdered name ks parent child)" "name a = name b"
    then obtain k l where "mergedMap name parent child k = Some a" "mergedMap name parent child l = Some b"
      using set_mergeOrdered [OF assms(1)] by (auto simp: ran_def)
    with ab(3) mergedMap_SomeD [of name parent child] show "a = b" by fastforce
  qed
qed

text \<open>Merging the headers of parent and child is deterministic, whatever order Go visits the map in,
  and gives one header per name of either side, sorted by name: the parent's header where the parent
  has one of that name (its last), the child's first otherwise.\<close>

theorem mergeHeaders_correct:
  assumes "iter_order (mergedMap hhm_Name parent child) ks"
  shows "mergeOrdered hhm_Name ks parent child = mergeHeaders parent child \<and>
    sorted_wrt (\<lambda>a b. hhm_Name a < hhm_Name b) (mergeHeaders parent child) \<and>
    hhm_Name ` set (mergeHeaders parent child) = hhm_Name ` set parent \<union> hhm_Name ` set child \<and>
    (\<forall>h \<in> set (mergeHeaders parent child).
       (case filter (\<lambda>p. hhm_Name p = hhm_Name h) parent of
          [] \<Rightarrow> h = hd (filter (\<lambda>c. hhm_Name c = hhm_Name h) child)
        | ps \<Rightarrow> h = last ps))"
proof (intro conjI ballI)
  let ?M = "mergedMap hhm_Name parent child" and ?R = "mergeHeaders parent child"
  have set: "set ?R = ran ?M" unfolding mergeHeaders_def by (rule set_mergeOrdered [OF mergeOrder_iter])
  show "mergeOrdered hhm_Name ks parent child = ?R"
    unfolding mergeHeaders_def by (rule mergeOrdered_order [OF assms mergeOrder_iter])
  have "distinct (map hhm_Name ?R)"
  proof -
    have "mset (map hhm_Name ?R) = mset (map (\<lambda>k. hhm_Name (the (?M k))) (mergeOrder hhm_Name parent child))"
      by (simp add: mergeHeaders_def mergeOrdered_def mset_map image_mset.compositionality comp_def)
    also have "\<dots> = mset (mergeOrder hhm_Name parent child)"
      using iter_orderD(2) [OF mergeOrder_iter [of hhm_Name parent child]] mergedMap_SomeD
      by (intro arg_cong [of _ _ mset] map_idI) fastforce
    finally show ?thesis by (metis mset_eq_imp_distinct_iff mergeOrder_def distinct_remdups)
  qed
  moreover have "sorted (map hhm_Name ?R)"
    using sorted_mergeOrdered unfolding mergeHeaders_def by (simp add: sorted_wrt_map)
  ultimately have "sorted_wrt (<) (map hhm_Name ?R)" using strict_sorted_iff by blast
  then show "sorted_wrt (\<lambda>a b. hhm_Name a < hhm_Name b) ?R" by (simp add: sorted_wrt_map)
  show "hhm_Name ` set ?R = hhm_Name ` set parent \<union> hhm_Name ` set child"
    unfolding set mergedMap_dom [symmetric] using mergedMap_SomeD [of hhm_Name parent child]
    by (auto simp: ran_def dom_def image_iff)
  fix h assume "h \<in> set ?R"
  then have "?M (hhm_Name h) = Some h"
    unfolding set using mergedMap_SomeD [of hhm_Name parent child] by (auto simp: ran_def)
  then show "case filter (\<lambda>p. hhm_Name p = hhm_Name h) parent of
      [] \<Rightarrow> h = hd (filter (\<lambda>c. hhm_Name c = hhm_Name h) child) | ps \<Rightarrow> h = last ps"
    by (auto simp: mergedMap_eq split: list.splits)
qed

section \<open>Delegated matches\<close>

text \<open>When a child match belongs under a parent match: the child's parent references, if any, name the
  parent, the parent's path is a prefix path and a prefix of the child's, and the child demands every
  header, query parameter and method the parent demands.\<close>

definition delegates ::
  "namespaced_name \<Rightarrow> string \<Rightarrow> parent_reference list \<Rightarrow> http_path_match http_route_match \<Rightarrow>
   http_path_match http_route_match \<Rightarrow> bool" where
  "delegates parentRef childNs parentRefs parent child \<longleftrightarrow>
     (parentRefs = [] \<or> (\<exists>ref \<in> set parentRefs. parentRefMatches parentRef childNs ref)) \<and>
     (case (hm_Path parent, hm_Path child) of
        (Some pp, Some cp) \<Rightarrow> pm_Type pp = Some PathMatchPathPrefix \<and> pm_Type cp \<noteq> None \<and>
          (case (pm_Value pp, pm_Value cp) of (Some v, Some w) \<Rightarrow> hasPrefix w v | _ \<Rightarrow> False)
      | _ \<Rightarrow> False) \<and>
     set (hm_Headers parent) \<subseteq> set (hm_Headers child) \<and> set (hm_QueryParams parent) \<subseteq> set (hm_QueryParams child) \<and>
     (hm_Method parent = None \<or> hm_Method child = hm_Method parent)"

definition path_valued :: "http_path_match http_route_match \<Rightarrow> bool" where
  "path_valued m \<longleftrightarrow> (\<forall>p. hm_Path m = Some p \<longrightarrow> pm_Value p \<noteq> None)"

lemma isDelegatedRouteMatch_eq:
  assumes "path_valued parent" "path_valued child"
  shows "isDelegatedRouteMatch parent parentRef child childNs parentRefs =
    Inr (delegates parentRef childNs parentRefs parent child)"
proof -
  have sub: "list_all (\<lambda>h. list_ex (\<lambda>c. h = c) ys) xs \<longleftrightarrow> set xs \<subseteq> set ys" for xs ys :: "'k list"
    by (auto simp: list_all_iff list_ex_iff)
  have refs: "(parentRefs \<noteq> [] \<and> \<not> list_ex (parentRefMatches parentRef childNs) parentRefs) \<longleftrightarrow>
      \<not> (parentRefs = [] \<or> (\<exists>ref \<in> set parentRefs. parentRefMatches parentRef childNs ref))"
    by (auto simp: list_ex_iff)
  show ?thesis
    using assms unfolding isDelegatedRouteMatch_def delegates_def sub refs path_valued_def
    by (auto split: option.splits)
qed

text \<open>The test for delegation decides the delegation relation, and it does not panic when paths that
  are present have a value.\<close>

theorem isDelegatedRouteMatch_correct:
  assumes "path_valued parent" "path_valued child"
  shows "isDelegatedRouteMatch parent parentRef child childNs parentRefs =
    Inr (delegates parentRef childNs parentRefs parent child)"
  using assms by (rule isDelegatedRouteMatch_eq)

section \<open>Memory\<close>

text \<open>The memory is in order when every path has a value, as the API server's defaults ensure, and the
  matches of the route infos point into it.\<close>

definition match_in :: "mem \<Rightarrow> nat http_route_match \<Rightarrow> bool" where
  "match_in mm m \<longleftrightarrow> (\<forall>i. hm_Path m = Some i \<longrightarrow> i < length (mem_paths mm))"

definition rules_in :: "mem \<Rightarrow> nat http_route_rule list \<Rightarrow> bool" where
  "rules_in mm rs \<longleftrightarrow> (\<forall>r \<in> set rs. \<forall>m \<in> set (rule_matches r). match_in mm m)"

definition paths_valued :: "mem \<Rightarrow> bool" where
  "paths_valued mm \<longleftrightarrow> (\<forall>p \<in> set (mem_paths mm). pm_Value p \<noteq> None)"

definition mem_ok :: "mem \<Rightarrow> bool" where
  "mem_ok mm \<longleftrightarrow> paths_valued mm \<and> (\<forall>info \<in> set (mem_infos mm). rules_in mm (hr_Rules (hri_HTTPRoute info)))"

lemma match_in_paths: "mem_paths mm' = mem_paths mm \<Longrightarrow> match_in mm' = match_in mm"
  by (simp add: match_in_def fun_eq_iff)

lemma view_match_paths: "mem_paths mm' = mem_paths mm \<Longrightarrow> view_match mm' = view_match mm"
  by (simp add: view_match_def fun_eq_iff)

lemma view_match_valued: "paths_valued mm \<Longrightarrow> match_in mm m \<Longrightarrow> path_valued (view_match mm m)"
  by (auto simp: path_valued_def view_match_def paths_valued_def match_in_def)

lemma write_matches_paths [simp]: "mem_paths (write_matches cid i ms mm) = mem_paths mm"
  by (simp add: write_matches_def Let_def)

lemma write_matches_length [simp]: "length (mem_infos (write_matches cid i ms mm)) = length (mem_infos mm)"
  by (simp add: write_matches_def Let_def)

lemma write_matches_other: "k \<noteq> cid \<Longrightarrow> mem_infos (write_matches cid i ms mm) ! k = mem_infos mm ! k"
  by (simp add: write_matches_def Let_def)

lemma write_matches_self:
  assumes "cid < length (mem_infos mm)"
  shows "mem_infos (write_matches cid i ms mm) ! cid =
    (mem_infos mm ! cid)\<lparr>hri_HTTPRoute := (hri_HTTPRoute (mem_infos mm ! cid))\<lparr>hr_Rules :=
       (info_rules mm cid)[i := (info_rules mm cid ! i)\<lparr>rule_Matches := ms\<rparr>]\<rparr>\<rparr>"
  using assms by (simp add: write_matches_def info_rules_def Let_def)

section \<open>Selection without inheritance\<close>

text \<open>The reference: keep the matches that satisfy \<open>P\<close>, and the rules that have any.\<close>

definition restrict_rule :: "(nat http_route_match \<Rightarrow> bool) \<Rightarrow> nat http_route_rule \<Rightarrow> nat http_route_rule" where
  "restrict_rule P r =
     (let ms = filter P (rule_matches r) in r\<lparr>rule_Matches := (if ms = [] then None else Some ms)\<rparr>)"

definition delegated_rules :: "(nat http_route_match \<Rightarrow> bool) \<Rightarrow> nat http_route_rule list \<Rightarrow> nat http_route_rule list" where
  "delegated_rules P rs = filter (\<lambda>r. rule_Matches r \<noteq> None) (map (restrict_rule P) rs)"

definition delegated_info :: "(nat http_route_match \<Rightarrow> bool) \<Rightarrow> http_route_info \<Rightarrow> http_route_info" where
  "delegated_info P info = (info_Clone info)\<lparr>hri_HTTPRoute := (hri_HTTPRoute info)\<lparr>hr_Rules :=
     delegated_rules P (hr_Rules (hri_HTTPRoute info))\<rparr>\<rparr>"

definition restrict_info :: "(nat http_route_match \<Rightarrow> bool) \<Rightarrow> http_route_info \<Rightarrow> http_route_info" where
  "restrict_info P info = info\<lparr>hri_HTTPRoute := (hri_HTTPRoute info)\<lparr>hr_Rules :=
     map (restrict_rule P) (hr_Rules (hri_HTTPRoute info))\<rparr>\<rparr>"

abbreviation under :: "mem \<Rightarrow> namespaced_name \<Rightarrow> nat http_route_match \<Rightarrow> route \<Rightarrow> nat http_route_match \<Rightarrow> bool" where
  "under mm parentRef parentMatch child m \<equiv>
     delegates parentRef (hr_Namespace child) (hr_ParentRefs child) (view_match mm parentMatch) (view_match mm m)"

lemma filterMatch_fold:
  assumes "\<not> shouldInheritMatcher child" "paths_valued mm" "match_in mm parentMatch" "\<forall>m \<in> set ms. match_in mm m"
  shows "fold_out (filterMatch parentRef parentMatch child) ms (mm, valid) =
    Inr (mm, valid @ filter (under mm parentRef parentMatch child) ms)"
  using assms
proof (induction ms arbitrary: valid)
  case Nil
  then show ?case by simp
next
  case (Cons m ms)
  then have "isDelegatedRouteMatch (view_match mm parentMatch) parentRef (view_match mm m) (hr_Namespace child)
      (hr_ParentRefs child) = Inr (under mm parentRef parentMatch child m)"
    by (intro isDelegatedRouteMatch_eq view_match_valued) simp_all
  with Cons show ?case by (simp add: filterMatch_def)
qed

lemma restrict_rule_matches: "rule_Matches (restrict_rule P r) \<noteq> None \<longleftrightarrow> filter P (rule_matches r) \<noteq> []"
  by (simp add: restrict_rule_def Let_def)

lemma filterRule_eq:
  assumes ni: "\<not> shouldInheritMatcher child" and ok: "paths_valued mm" "match_in mm parentMatch"
    and ms: "\<forall>m \<in> set (rule_matches (info_rules mm cid ! i)). match_in mm m"
  shows "filterRule parentRef parentMatch cid child i (mm, valid) =
    (let r = restrict_rule (under mm parentRef parentMatch child) (info_rules mm cid ! i)
     in Inr (write_matches cid i (rule_Matches r) mm, if rule_Matches r \<noteq> None then valid @ [r] else valid))"
proof -
  let ?ms = "filter (under mm parentRef parentMatch child) (rule_matches (info_rules mm cid ! i))"
  have "fold_out (filterMatch parentRef parentMatch child) (rule_matches (info_rules mm cid ! i)) (mm, []) =
      Inr (mm, ?ms)"
    using filterMatch_fold [OF ni ok ms, of parentRef "[]"] by simp
  with ni show ?thesis by (simp add: filterRule_def restrict_rule_def Let_def)
qed

text \<open>The memory after the first \<open>k\<close> rules of the info \<open>cid\<close> were restricted.\<close>

definition restrict_upto :: "(nat http_route_match \<Rightarrow> bool) \<Rightarrow> nat \<Rightarrow> nat \<Rightarrow> mem \<Rightarrow> mem" where
  "restrict_upto P cid k mm = mm\<lparr>mem_infos := (mem_infos mm)[cid := (mem_infos mm ! cid)\<lparr>hri_HTTPRoute :=
     (hri_HTTPRoute (mem_infos mm ! cid))\<lparr>hr_Rules := map (restrict_rule P) (take k (info_rules mm cid)) @
       drop k (info_rules mm cid)\<rparr>\<rparr>]\<rparr>"

lemma restrict_upto_0 [simp]: "restrict_upto P cid 0 mm = mm"
  by (simp add: restrict_upto_def info_rules_def)

lemma restrict_upto_paths [simp]: "mem_paths (restrict_upto P cid k mm) = mem_paths mm"
  by (simp add: restrict_upto_def)

lemma restrict_upto_rules:
  assumes "cid < length (mem_infos mm)"
  shows "info_rules (restrict_upto P cid k mm) cid =
    map (restrict_rule P) (take k (info_rules mm cid)) @ drop k (info_rules mm cid)"
  using assms by (simp add: restrict_upto_def info_rules_def)

lemma restrict_upto_Suc:
  assumes "cid < length (mem_infos mm)" "k < length (info_rules mm cid)"
  shows "write_matches cid k (rule_Matches (restrict_rule P (info_rules mm cid ! k))) (restrict_upto P cid k mm) =
    restrict_upto P cid (Suc k) mm"
proof -
  let ?rs = "info_rules mm cid"
  have nth: "(map (restrict_rule P) (take k ?rs) @ drop k ?rs) ! k = ?rs ! k"
    using assms(2) by (simp add: nth_append)
  have r: "restrict_rule P (?rs ! k) = (?rs ! k)\<lparr>rule_Matches := rule_Matches (restrict_rule P (?rs ! k))\<rparr>"
    by (simp add: restrict_rule_def Let_def)
  have "(map (restrict_rule P) (take k ?rs) @ drop k ?rs)[k := restrict_rule P (?rs ! k)] =
      map (restrict_rule P) (take (Suc k) ?rs) @ drop (Suc k) ?rs"
    using assms(2) by (simp add: list_update_append take_Suc_conv_app_nth Cons_nth_drop_Suc [symmetric])
  with assms nth r [symmetric] show ?thesis
    by (simp add: write_matches_def restrict_upto_def info_rules_def Let_def)
qed

lemma filterRule_fold:
  fixes parentRef :: namespaced_name
  assumes ni: "\<not> shouldInheritMatcher child" and ok: "paths_valued mm" "match_in mm parentMatch"
    and cid: "cid < length (mem_infos mm)" and rules: "rules_in mm (info_rules mm cid)"
    and k: "k \<le> length (info_rules mm cid)"
  defines "P \<equiv> under mm parentRef parentMatch child"
  shows "fold_out (filterRule parentRef parentMatch cid child) [0..<k] (mm, []) =
    Inr (restrict_upto P cid k mm, delegated_rules P (take k (info_rules mm cid)))"
  using k
proof (induction k)
  case 0
  then show ?case by (simp add: delegated_rules_def)
next
  case (Suc k)
  let ?mm = "restrict_upto P cid k mm" and ?r = "info_rules mm cid ! k"
  have r: "info_rules ?mm cid ! k = ?r"
    using Suc.prems by (simp add: restrict_upto_rules [OF cid] nth_append)
  have ms: "\<forall>m \<in> set (rule_matches ?r). match_in mm m"
    using rules nth_mem [of k "info_rules mm cid"] Suc.prems by (auto simp: rules_in_def)
  have "filterRule parentRef parentMatch cid child k (?mm, delegated_rules P (take k (info_rules mm cid))) =
      Inr (restrict_upto P cid (Suc k) mm, delegated_rules P (take (Suc k) (info_rules mm cid)))"
  proof (subst filterRule_eq [OF ni])
    show "paths_valued ?mm" using ok(1) by (simp add: paths_valued_def)
    show "match_in ?mm parentMatch" using ok(2) by (simp add: match_in_paths [of ?mm mm])
    show "\<forall>m \<in> set (rule_matches (info_rules ?mm cid ! k)). match_in ?mm m"
      using ms r by (simp add: match_in_paths [of ?mm mm])
    have P: "under ?mm parentRef parentMatch child = P"
      using view_match_paths [of ?mm mm] by (simp add: P_def)
    show "(let r = restrict_rule (under ?mm parentRef parentMatch child) (info_rules ?mm cid ! k)
        in Inr (write_matches cid k (rule_Matches r) ?mm, if rule_Matches r \<noteq> None
             then delegated_rules P (take k (info_rules mm cid)) @ [r]
             else delegated_rules P (take k (info_rules mm cid)))) =
        Inr (restrict_upto P cid (Suc k) mm, delegated_rules P (take (Suc k) (info_rules mm cid)))"
      using Suc.prems unfolding P r
      by (simp add: Let_def restrict_upto_Suc [OF cid] delegated_rules_def take_Suc_conv_app_nth)
  qed
  with Suc show ?case by (simp add: fold_out_append)
qed

lemma filterChild_eq:
  fixes parentRef :: namespaced_name
  assumes ni: "\<not> shouldInheritMatcher (hri_HTTPRoute (mem_infos mm ! cid))"
    and ok: "paths_valued mm" "match_in mm parentMatch"
    and cid: "cid < length (mem_infos mm)" and rules: "rules_in mm (info_rules mm cid)"
  defines "P \<equiv> under mm parentRef parentMatch (hri_HTTPRoute (mem_infos mm ! cid))"
  shows "filterChild parentRef parentMatch cid (mm, sel) =
    Inr (mm\<lparr>mem_infos := (mem_infos mm)[cid := restrict_info P (mem_infos mm ! cid)]\<rparr>,
      sel @ filter (\<lambda>c. hr_Rules (hri_HTTPRoute c) \<noteq> []) [delegated_info P (mem_infos mm ! cid)])"
proof -
  let ?info = "mem_infos mm ! cid"
  have c: "hri_HTTPRoute (info_Clone ?info) = hri_HTTPRoute ?info" by (simp add: info_Clone_def)
  have "fold_out (filterRule parentRef parentMatch cid (hri_HTTPRoute ?info)) [0..<length (info_rules mm cid)] (mm, []) =
      Inr (restrict_upto P cid (length (info_rules mm cid)) mm, delegated_rules P (info_rules mm cid))"
    using filterRule_fold [OF ni ok cid rules order_refl, of parentRef] by (simp add: P_def)
  moreover have "restrict_upto P cid (length (info_rules mm cid)) mm =
      mm\<lparr>mem_infos := (mem_infos mm)[cid := restrict_info P ?info]\<rparr>"
    by (simp add: restrict_upto_def restrict_info_def info_rules_def)
  ultimately show ?thesis
    unfolding info_rules_def by (simp add: filterChild_def c delegated_info_def Let_def)
qed

text \<open>Without matcher inheritance, the selection of delegated children is the reference selection:
  each child, in order, keeps exactly the matches that belong under the parent's match and the rules
  that still have one, and a child with no rule left is dropped. The selection also restricts the
  rules of the children in memory to these matches.\<close>

theorem filterDelegatedChildren_reference:
  fixes parentRef :: namespaced_name
  assumes "distinct ids" "\<forall>c \<in> set ids. c < length (mem_infos mm) \<and> \<not> shouldInheritMatcher (hri_HTTPRoute (mem_infos mm ! c))"
    and "mem_ok mm" "match_in mm parentMatch"
  shows "\<exists>mm'. filterDelegatedChildren parentRef parentMatch ids mm =
      Inr (mm', filter (\<lambda>c. hr_Rules (hri_HTTPRoute c) \<noteq> [])
        (map (\<lambda>c. delegated_info (under mm parentRef parentMatch (hri_HTTPRoute (mem_infos mm ! c))) (mem_infos mm ! c)) ids)) \<and>
    mem_paths mm' = mem_paths mm \<and> length (mem_infos mm') = length (mem_infos mm) \<and>
    (\<forall>c < length (mem_infos mm). mem_infos mm' ! c = (if c \<in> set ids
       then restrict_info (under mm parentRef parentMatch (hri_HTTPRoute (mem_infos mm ! c))) (mem_infos mm ! c)
       else mem_infos mm ! c))"
  using assms(1,2)
proof (induction ids rule: rev_induct)
  case Nil
  then show ?case by (simp add: filterDelegatedChildren_def)
next
  case (snoc c ids)
  then obtain mm' where f: "filterDelegatedChildren parentRef parentMatch ids mm =
      Inr (mm', filter (\<lambda>c. hr_Rules (hri_HTTPRoute c) \<noteq> [])
        (map (\<lambda>c. delegated_info (under mm parentRef parentMatch (hri_HTTPRoute (mem_infos mm ! c))) (mem_infos mm ! c)) ids))"
      (is "_ = Inr (_, ?sel)")
    and paths: "mem_paths mm' = mem_paths mm" and len: "length (mem_infos mm') = length (mem_infos mm)"
    and infos: "\<forall>c < length (mem_infos mm). mem_infos mm' ! c = (if c \<in> set ids
       then restrict_info (under mm parentRef parentMatch (hri_HTTPRoute (mem_infos mm ! c))) (mem_infos mm ! c)
       else mem_infos mm ! c)"
    by auto
  have c: "c < length (mem_infos mm)" "c \<notin> set ids" using snoc.prems by auto
  with infos have same: "mem_infos mm' ! c = mem_infos mm ! c" by simp
  have view: "view_match mm' = view_match mm" using paths by (rule view_match_paths)
  have rules: "rules_in mm' (info_rules mm' c)"
    using assms(3) nth_mem [OF c(1)] same paths
    by (auto simp: mem_ok_def rules_in_def info_rules_def match_in_paths [of mm' mm])
  let ?P = "under mm parentRef parentMatch (hri_HTTPRoute (mem_infos mm ! c))"
  have "filterChild parentRef parentMatch c (mm', ?sel) =
      Inr (mm'\<lparr>mem_infos := (mem_infos mm')[c := restrict_info ?P (mem_infos mm ! c)]\<rparr>,
        ?sel @ filter (\<lambda>c. hr_Rules (hri_HTTPRoute c) \<noteq> []) [delegated_info ?P (mem_infos mm ! c)])"
    using filterChild_eq [of mm' c parentMatch parentRef ?sel, OF _ _ _ _ rules] snoc.prems c len assms(3,4) paths
    by (simp add: same view mem_ok_def paths_valued_def match_in_paths [of mm' mm])
  with f have "filterDelegatedChildren parentRef parentMatch (ids @ [c]) mm =
      Inr (mm'\<lparr>mem_infos := (mem_infos mm')[c := restrict_info ?P (mem_infos mm ! c)]\<rparr>,
        ?sel @ filter (\<lambda>c. hr_Rules (hri_HTTPRoute c) \<noteq> []) [delegated_info ?P (mem_infos mm ! c)])"
    by (simp add: filterDelegatedChildren_def fold_out_append)
  with paths len infos c show ?case by (auto simp: nth_list_update)
qed

section \<open>Examples\<close>

text \<open>A parent \<open>ns/p\<close> with the matches \<open>/a\<close> and \<open>/b\<close>, and a child whose only rule has the matches \<open>ms\<close>.\<close>

definition d_path :: "string \<Rightarrow> http_path_match" where
  "d_path v = \<lparr>pm_Type = Some PathMatchPathPrefix, pm_Value = Some v\<rparr>"

definition d_match :: "nat option \<Rightarrow> nat http_route_match" where
  "d_match i = \<lparr>hm_Path = i, hm_Headers = [], hm_QueryParams = [], hm_Method = None\<rparr>"

definition d_child :: "bool \<Rightarrow> nat http_route_match list option \<Rightarrow> http_route_info" where
  "d_child inherit ms = \<lparr>hri_HTTPRoute = (q_route ''c'' [] None [(q_rule [])\<lparr>rule_Matches := ms\<rparr>])\<lparr>hr_Annotations :=
       (if inherit then [inheritMatcherAnnotation \<mapsto> ''true''] else Map.empty)\<rparr>,
     hri_ParentRef = q_parent_ref, hri_HostnameOverrides = [], hri_Backends = NewBackendMap, hri_Children = NewBackendMap\<rparr>"

definition d_mem :: "bool \<Rightarrow> nat http_route_match list option \<Rightarrow> mem" where
  "d_mem inherit ms = \<lparr>mem_paths = [d_path ''/a'', d_path ''/b'', d_path ''/a/x'', d_path ''/b/y''],
     mem_infos = [d_child inherit ms]\<rparr>"

definition d_parent :: namespaced_name where
  "d_parent = NamespacedName ''ns'' ''p''"

lemmas d_defs = d_path_def d_match_def d_child_def d_mem_def d_parent_def q_route_def q_rule_def

lemmas d_eval = filterDelegatedChildren_def filterChild_def filterRule_def filterMatch_def info_rules_def
  info_Clone_def shouldInheritMatcher_def view_match_def isDelegatedRouteMatch_def mergeParentChildRouteMatch_def
  write_matches_def rule_matches_def Let_def d_defs

theorem mergeHeaders_correct_witness:
  "mergeOrdered hhm_Name [''b'', ''a''] [\<lparr>hhm_Type = None, hhm_Name = ''b'', hhm_Value = ''1''\<rparr>]
     [\<lparr>hhm_Type = None, hhm_Name = ''a'', hhm_Value = ''2''\<rparr>, \<lparr>hhm_Type = None, hhm_Name = ''b'', hhm_Value = ''3''\<rparr>] =
   mergeHeaders [\<lparr>hhm_Type = None, hhm_Name = ''b'', hhm_Value = ''1''\<rparr>]
     [\<lparr>hhm_Type = None, hhm_Name = ''a'', hhm_Value = ''2''\<rparr>, \<lparr>hhm_Type = None, hhm_Name = ''b'', hhm_Value = ''3''\<rparr>]"
proof -
  have "iter_order (mergedMap hhm_Name [\<lparr>hhm_Type = None, hhm_Name = ''b'', hhm_Value = ''1''\<rparr>]
     [\<lparr>hhm_Type = None, hhm_Name = ''a'', hhm_Value = ''2''\<rparr>, \<lparr>hhm_Type = None, hhm_Name = ''b'', hhm_Value = ''3''\<rparr>])
     [''b'', ''a'']"
    by (auto simp: iter_order_def mergedMap_dom)
  from mergeHeaders_correct [OF this] show ?thesis by simp
qed

theorem isDelegatedRouteMatch_correct_witness:
  "isDelegatedRouteMatch (view_match (d_mem False None) (d_match (Some 0))) d_parent
     (view_match (d_mem False None) (d_match (Some 2))) ''ns'' [] = Inr True"
proof -
  have "delegates d_parent ''ns'' [] (view_match (d_mem False None) (d_match (Some 0)))
      (view_match (d_mem False None) (d_match (Some 2)))"
    by (simp add: delegates_def view_match_def d_defs hasPrefix_def)
  then show ?thesis
    by (subst isDelegatedRouteMatch_correct) (simp_all add: path_valued_def view_match_def d_defs)
qed

lemma d_mem_ok: "mem_ok (d_mem False (Some [d_match (Some 2), d_match (Some 3)]))"
  by (auto simp: mem_ok_def paths_valued_def rules_in_def match_in_def rule_matches_def d_defs)

theorem filterDelegatedChildren_reference_witness:
  "\<exists>mm' sel. filterDelegatedChildren d_parent (d_match (Some 0)) [0] (d_mem False (Some [d_match (Some 2), d_match (Some 3)])) =
     Inr (mm', sel) \<and> map (\<lambda>c. map rule_matches (hr_Rules (hri_HTTPRoute c))) sel = [[[d_match (Some 2)]]]"
proof -
  have "delegated_info (under (d_mem False (Some [d_match (Some 2), d_match (Some 3)])) d_parent (d_match (Some 0))
      (hri_HTTPRoute (d_child False (Some [d_match (Some 2), d_match (Some 3)])))) (d_child False (Some [d_match (Some 2), d_match (Some 3)])) =
      d_child False (Some [d_match (Some 2)])"
    by (simp add: delegated_info_def delegated_rules_def restrict_rule_def rule_matches_def delegates_def view_match_def
        info_Clone_def hasPrefix_def d_defs)
  with filterDelegatedChildren_reference [of "[0]" "d_mem False (Some [d_match (Some 2), d_match (Some 3)])" "d_match (Some 0)" d_parent, OF _ _ d_mem_ok]
  show ?thesis
    by (auto simp: d_mem_def shouldInheritMatcher_def match_in_def) (auto simp: d_defs shouldInheritMatcher_def rule_matches_def)
qed

text \<open>The clone of a child shares its rules with the original: when a parent rule has the matches
  \<open>/a\<close> and \<open>/b\<close> and the child the matches \<open>/a/x\<close> and \<open>/b/y\<close>, selecting under \<open>/a\<close> leaves nothing to select
  under \<open>/b\<close>, while selecting under \<open>/b\<close> alone finds the child's \<open>/b/y\<close>.\<close>

theorem filterDelegatedChildren_loses_second_match:
  "(case filterDelegatedChildren d_parent (d_match (Some 0)) [0] (d_mem False (Some [d_match (Some 2), d_match (Some 3)])) of
      Inr (mm, _) \<Rightarrow> (case filterDelegatedChildren d_parent (d_match (Some 1)) [0] mm of Inr (_, sel) \<Rightarrow> sel = [] | _ \<Rightarrow> False)
    | _ \<Rightarrow> False) \<and>
   (case filterDelegatedChildren d_parent (d_match (Some 1)) [0] (d_mem False (Some [d_match (Some 2), d_match (Some 3)])) of
      Inr (_, sel) \<Rightarrow> map (\<lambda>c. map rule_matches (hr_Rules (hri_HTTPRoute c))) sel = [[[d_match (Some 3)]]] | _ \<Rightarrow> False)"
  by (simp add: d_eval hasPrefix_def)

text \<open>A child that inherits the parent's matcher and has no match of its own gets the paths of the
  parent compounded: under the second match \<open>/b\<close> its route has the path \<open>/b/a\<close>, and the path of the
  parent's own first match is changed with it.\<close>

theorem filterDelegatedChildren_compounds_paths:
  "case filterDelegatedChildren d_parent (d_match (Some 0)) [0] (d_mem True None) of
     Inr (mm, _) \<Rightarrow> (case filterDelegatedChildren d_parent (d_match (Some 1)) [0] mm of
        Inr (mm, sel) \<Rightarrow> mem_paths mm ! 0 = d_path ''/b/a'' \<and>
          map (\<lambda>c. map rule_matches (hr_Rules (hri_HTTPRoute c))) sel = [[[d_match (Some 0)]]]
      | _ \<Rightarrow> False)
   | _ \<Rightarrow> False"
  by (simp add: d_eval toLower_def lower_char_def path_join_def path_clean_def mergeHeaders_def mergeQueries_def
      mergeOrdered_def mergeOrder_def sort_stable_def)

text \<open>A parent rule without matches has the empty match, and a child that inherits it and has a
  match of its own makes the translator dereference a nil path.\<close>

theorem filterDelegatedChildren_nil_path:
  "filterDelegatedChildren d_parent (d_match None) [0] (d_mem True (Some [d_match (Some 2)])) = Inl NilDeref"
  by (simp add: d_eval toLower_def lower_char_def)

end
