(* ===== verification/RouteSort.thy ===== *)
theory RouteSort
  imports GlooRoute "HOL-Library.Product_Lexorder"
begin

text \<open>
  The precedence of routes, \<open>translator/routeutils/sortable_route.go\<close>. Routes of one virtual host are
  sorted so that Envoy, which takes the first match, sees the most specific route first; the order is
  the one the Gateway API prescribes for \<open>HTTPRouteRule\<close>.

  The code sorts with \<open>sort.Stable\<close> and the comparison \<open>Less(i, j) = !routeWrapperLessFunc(i, j)\<close>.
\<close>

section \<open>Model\<close>

record sortable_route =
  sr_Route :: gloo_route
  sr_HttpRoute :: route
  sr_Idx :: nat

definition ToRoutes :: "sortable_route list \<Rightarrow> gloo_route list" where
  "ToRoutes a = map sr_Route a"

definition ToSortable :: "route \<Rightarrow> gloo_route list \<Rightarrow> sortable_route list" where
  "ToSortable hr routes =
     map (\<lambda>(i, r). \<lparr>sr_Route = r, sr_HttpRoute = hr, sr_Idx = i\<rparr>) (List.enumerate 0 routes)"

text \<open>The decision by path specifiers alone, if they decide.\<close>

definition pathLess :: "path_specifier option \<Rightarrow> path_specifier option \<Rightarrow> bool option" where
  "pathLess pa pb =
     (case pa of
        Some (Matcher_Prefix a) \<Rightarrow>
          (case pb of
             Some (Matcher_Prefix b) \<Rightarrow> if length a \<noteq> length b then Some (length a < length b) else None
           | Some (Matcher_Exact _) \<Rightarrow> Some True
           | Some (Matcher_Regex _) \<Rightarrow> Some True
           | None \<Rightarrow> None)
      | Some (Matcher_Exact a) \<Rightarrow>
          (case pb of
             Some (Matcher_Exact b) \<Rightarrow> if length a \<noteq> length b then Some (length a < length b) else None
           | Some (Matcher_Regex _) \<Rightarrow> Some False
           | Some (Matcher_Prefix _) \<Rightarrow> Some False
           | None \<Rightarrow> None)
      | Some (Matcher_Regex _) \<Rightarrow>
          (case pb of
             Some (Matcher_Prefix _) \<Rightarrow> Some False
           | Some (Matcher_Exact _) \<Rightarrow> Some True
           | Some (Matcher_Regex _) \<Rightarrow> None
           | None \<Rightarrow> None)
      | None \<Rightarrow> None)"

text \<open>The comparison on the first matchers of two routes.\<close>

definition lessOn :: "matcher \<Rightarrow> sortable_route \<Rightarrow> matcher \<Rightarrow> sortable_route \<Rightarrow> bool" where
  "lessOn matchA wrapperA matchB wrapperB =
     (case pathLess (mt_PathSpecifier matchA) (mt_PathSpecifier matchB) of
        Some b \<Rightarrow> b
      | None \<Rightarrow>
        if length (mt_Methods matchA) \<noteq> length (mt_Methods matchB)
        then length (mt_Methods matchA) < length (mt_Methods matchB)
        else if length (mt_Headers matchA) \<noteq> length (mt_Headers matchB)
        then length (mt_Headers matchA) < length (mt_Headers matchB)
        else if length (mt_QueryParameters matchA) \<noteq> length (mt_QueryParameters matchB)
        then length (mt_QueryParameters matchA) < length (mt_QueryParameters matchB)
        else if hr_CreationTimestamp (sr_HttpRoute wrapperA) \<noteq> hr_CreationTimestamp (sr_HttpRoute wrapperB)
        then hr_CreationTimestamp (sr_HttpRoute wrapperA) > hr_CreationTimestamp (sr_HttpRoute wrapperB)
        else if hr_Name (sr_HttpRoute wrapperA) \<noteq> hr_Name (sr_HttpRoute wrapperB) \<or>
                hr_Namespace (sr_HttpRoute wrapperA) \<noteq> hr_Namespace (sr_HttpRoute wrapperB)
        then nn_String (hr_key (sr_HttpRoute wrapperA)) > nn_String (hr_key (sr_HttpRoute wrapperB))
        else sr_Idx wrapperA > sr_Idx wrapperB)"

definition routeWrapperLessFunc :: "sortable_route \<Rightarrow> sortable_route \<Rightarrow> bool outcome" where
  "routeWrapperLessFunc wrapperA wrapperB =
     (case (rt_Matchers (sr_Route wrapperA), rt_Matchers (sr_Route wrapperB)) of
        (matchA # _, matchB # _) \<Rightarrow> Inr (lessOn matchA wrapperA matchB wrapperB)
      | _ \<Rightarrow> Inl IndexOutOfRange)"

text \<open>\<open>SortableRoutes.Less\<close>, and \<open>sort.Stable\<close> with it. A route without matchers makes the comparison
  panic, and a sort of two or more elements compares every element.\<close>

definition Less :: "sortable_route \<Rightarrow> sortable_route \<Rightarrow> bool" where
  "Less a b = (case routeWrapperLessFunc a b of Inr l \<Rightarrow> \<not> l | Inl _ \<Rightarrow> False)"

definition sort_routes :: "sortable_route list \<Rightarrow> sortable_route list outcome" where
  "sort_routes xs =
     (if length xs < 2 \<or> list_all (\<lambda>w. rt_Matchers (sr_Route w) \<noteq> []) xs
      then Inr (sort_stable Less xs) else Inl IndexOutOfRange)"

section \<open>The order of the Gateway API\<close>

text \<open>Exact paths before regular expressions before prefixes, and among exact paths or prefixes the
  longer first.\<close>

fun path_rank :: "path_specifier \<Rightarrow> nat \<times> nat" where
  "path_rank (Matcher_Prefix p) = (0, length p)"
| "path_rank (Matcher_Regex r) = (1, 0)"
| "path_rank (Matcher_Exact p) = (2, length p)"

text \<open>Then a method match, more headers, more query parameters, the older route; ties are broken by the
  alphabetical order of namespace and name and by the position in the route.\<close>

definition specificity :: "sortable_route \<Rightarrow> (nat \<times> nat) \<times> nat \<times> nat \<times> nat \<times> int" where
  "specificity w =
     (let m = hd (rt_Matchers (sr_Route w))
      in (path_rank (the (mt_PathSpecifier m)), length (mt_Methods m), length (mt_Headers m),
          length (mt_QueryParameters m), - hr_CreationTimestamp (sr_HttpRoute w)))"

definition tie_break :: "sortable_route \<Rightarrow> string \<times> nat" where
  "tie_break w = (nn_String (hr_key (sr_HttpRoute w)), sr_Idx w)"

definition precedes :: "sortable_route \<Rightarrow> sortable_route \<Rightarrow> bool" where
  "precedes a b \<longleftrightarrow> specificity a > specificity b \<or> (specificity a = specificity b \<and> tie_break a \<le> tie_break b)"

text \<open>A route as the route translator makes it.\<close>

definition sortable_ok :: "sortable_route \<Rightarrow> bool" where
  "sortable_ok w \<longleftrightarrow>
     (\<exists>m. rt_Matchers (sr_Route w) = [m] \<and> mt_PathSpecifier m \<noteq> None) \<and>
     CHR ''/'' \<notin> set (hr_Namespace (sr_HttpRoute w))"

lemma precedes_trans: "precedes a b \<Longrightarrow> precedes b c \<Longrightarrow> precedes a c"
  by (auto simp: precedes_def)

lemma precedes_total: "precedes a b \<or> precedes b a"
  by (auto simp: precedes_def)

lemma precedes_antisym: "precedes a b \<Longrightarrow> precedes b a \<Longrightarrow> tie_break a = tie_break b"
  by (auto simp: precedes_def)

lemma pathLess_rank:
  "pathLess (Some p) (Some q) = (if path_rank p = path_rank q then None else Some (path_rank p < path_rank q))"
  by (cases p; cases q) (auto simp: pathLess_def)

lemma names_eq_iff:
  assumes "CHR ''/'' \<notin> set (hr_Namespace a)" "CHR ''/'' \<notin> set (hr_Namespace b)"
  shows "nn_String (hr_key a) = nn_String (hr_key b) \<longleftrightarrow> hr_Name a = hr_Name b \<and> hr_Namespace a = hr_Namespace b"
  using assms nn_String_inj [of "hr_key a" "hr_key b"] by (auto simp: hr_key_def)

lemma lex_step:
  fixes a b :: "'a::linorder" and x y :: "'b::linorder"
  assumes "P \<longleftrightarrow> \<not> (x > y \<or> x = y \<and> Q)"
  shows "(if a \<noteq> b then a < b else P) \<longleftrightarrow> \<not> ((a, x) > (b, y) \<or> (a, x) = (b, y) \<and> Q)"
proof (cases "a = b")
  case True
  with assms show ?thesis by simp
next
  case False
  then show ?thesis by (auto simp: not_le)
qed

lemma lex_chain:
  fixes r r' :: "'a::linorder" and m m' h h' k k' :: "'b::linorder" and t t' :: int and s s' :: "'s::linorder" and i i' :: nat
  shows "(if r \<noteq> r' then r < r' else if m \<noteq> m' then m < m' else if h \<noteq> h' then h < h' else if k \<noteq> k' then k < k'
      else if t \<noteq> t' then t > t' else if s \<noteq> s' then s > s' else i > i') \<longleftrightarrow>
    \<not> ((r, m, h, k, - t) > (r', m', h', k', - t') \<or>
       (r, m, h, k, - t) = (r', m', h', k', - t') \<and> (s, i) \<le> (s', i'))"
proof -
  have "(if t \<noteq> t' then t > t' else if s \<noteq> s' then s > s' else i > i') \<longleftrightarrow>
      \<not> (- t > - t' \<or> - t = - t' \<and> (s, i) \<le> (s', i'))"
    by (rule linorder_cases [of s s']) auto
  then show ?thesis by (intro lex_step)
qed

lemma routeWrapperLessFunc_precedes:
  assumes "sortable_ok a" "sortable_ok b"
  shows "routeWrapperLessFunc a b = Inr (\<not> precedes a b)"
proof -
  from assms obtain ma mb p q where m: "rt_Matchers (sr_Route a) = [ma]" "rt_Matchers (sr_Route b) = [mb]"
    and p: "mt_PathSpecifier ma = Some p" "mt_PathSpecifier mb = Some q"
    by (auto simp: sortable_ok_def)
  have n: "nn_String (hr_key (sr_HttpRoute a)) = nn_String (hr_key (sr_HttpRoute b)) \<longleftrightarrow>
      hr_Name (sr_HttpRoute a) = hr_Name (sr_HttpRoute b) \<and> hr_Namespace (sr_HttpRoute a) = hr_Namespace (sr_HttpRoute b)"
    using assms by (intro names_eq_iff) (simp_all add: sortable_ok_def)
  have "lessOn ma a mb b \<longleftrightarrow> \<not> precedes a b"
    unfolding precedes_def specificity_def tie_break_def m list.sel p option.sel Let_def
    by (subst lex_chain [symmetric]) (use n in \<open>auto simp: lessOn_def p pathLess_rank\<close>)
  then show ?thesis by (simp add: routeWrapperLessFunc_def m)
qed

lemma Less_precedes: "sortable_ok a \<Longrightarrow> sortable_ok b \<Longrightarrow> Less a b \<longleftrightarrow> precedes a b"
  by (simp add: Less_def routeWrapperLessFunc_precedes)

text \<open>C15. Sorting the routes of a virtual host never panics, keeps every route, and puts each route after
  all routes that take precedence over it under the Gateway API.\<close>

theorem sort_routes_precedence:
  assumes ok: "\<forall>w \<in> set xs. sortable_ok w"
  shows "\<exists>ys. sort_routes xs = Inr ys \<and> mset ys = mset xs \<and> sorted_wrt precedes ys"
proof -
  have "list_all (\<lambda>w. rt_Matchers (sr_Route w) \<noteq> []) xs"
    using ok by (auto simp: list_all_iff sortable_ok_def)
  moreover have "sorted_wrt precedes (sort_stable Less xs)"
    by (rule sorted_sort_stable) (use ok precedes_total precedes_trans in \<open>auto simp: Less_precedes\<close>)
  ultimately show ?thesis by (simp add: sort_routes_def)
qed

lemma sorted_precedes_unique:
  assumes "sorted_wrt precedes ys" "sorted_wrt precedes zs" "mset ys = mset zs"
    and "inj_on tie_break (set ys)"
  shows "ys = zs"
  using assms
proof (induction ys arbitrary: zs)
  case Nil
  then show ?case by simp
next
  case (Cons y ys)
  then obtain z zs' where zs: "zs = z # zs'" by (cases zs) auto
  have sets: "set (y # ys) = set (z # zs')" using Cons.prems(3) zs by (metis mset_eq_setD)
  have "z = y"
  proof (rule ccontr)
    assume "z \<noteq> y"
    then have "z \<in> set ys" "y \<in> set zs'" using sets by auto
    with Cons.prems(1,2) zs have "precedes y z" "precedes z y" by auto
    then have "tie_break y = tie_break z" by (rule precedes_antisym)
    with Cons.prems(4) sets \<open>z \<noteq> y\<close> show False by (auto simp: inj_on_def)
  qed
  with Cons zs show ?case by (auto simp: inj_on_def)
qed

text \<open>The order is deterministic: for routes that differ in name or position, the sorted list does
  not depend on the order in which the routes were collected.\<close>

theorem sort_routes_deterministic:
  assumes ok: "\<forall>w \<in> set xs. sortable_ok w" and perm: "mset xs = mset ys" and inj: "inj_on tie_break (set xs)"
  shows "sort_routes xs = sort_routes ys"
proof -
  have sets: "set xs = set ys" using perm by (rule mset_eq_setD)
  have srt: "sorted_wrt precedes (sort_stable Less zs)" if "set zs = set xs" for zs
    by (rule sorted_sort_stable) (use ok that precedes_total precedes_trans in \<open>auto simp: Less_precedes\<close>)
  have "sort_stable Less xs = sort_stable Less ys"
    by (rule sorted_precedes_unique) (use srt sets perm inj in auto)
  moreover have "list_all (\<lambda>w. rt_Matchers (sr_Route w) \<noteq> []) xs" "list_all (\<lambda>w. rt_Matchers (sr_Route w) \<noteq> []) ys"
    using ok sets by (auto simp: list_all_iff sortable_ok_def)
  ultimately show ?thesis by (simp add: sort_routes_def)
qed

lemma ToRoutes_ToSortable: "ToRoutes (ToSortable hr rs) = rs"
proof -
  have "map sr_Route (map (\<lambda>(i, r). \<lparr>sr_Route = r, sr_HttpRoute = hr, sr_Idx = i\<rparr>) (List.enumerate n rs)) = rs" for n
    by (induction rs arbitrary: n) simp_all
  then show ?thesis by (simp only: ToRoutes_def ToSortable_def)
qed

section \<open>Witnesses\<close>

definition s_matcher :: "path_specifier \<Rightarrow> string list \<Rightarrow> matcher" where
  "s_matcher p ms = \<lparr>mt_PathSpecifier = Some p, mt_Headers = [], mt_QueryParameters = [], mt_Methods = ms\<rparr>"

definition s_route :: "path_specifier \<Rightarrow> string list \<Rightarrow> gloo_route" where
  "s_route p ms = \<lparr>rt_Name = ''r'', rt_Matchers = [s_matcher p ms], rt_Action = None, rt_Options = None, rt_Sources = None\<rparr>"

definition s_hr :: route where
  "s_hr = \<lparr>hr_Namespace = ''ns'', hr_Name = ''r'', hr_Generation = 1, hr_CreationTimestamp = 5, hr_Annotations = Map.empty,
     hr_ParentRefs = [], hr_Hostnames = None, hr_Rules = [], hr_Status = []\<rparr>"

definition s_list :: "sortable_route list" where
  "s_list = ToSortable s_hr [s_route (Matcher_Prefix ''/'') [], s_route (Matcher_Prefix ''/a'') [],
     s_route (Matcher_Regex ''.*'') [], s_route (Matcher_Exact ''/'') [], s_route (Matcher_Prefix ''/'') [''GET'']]"

lemma s_list_ok: "\<forall>w \<in> set s_list. sortable_ok w"
  by (simp add: s_list_def ToSortable_def s_route_def s_matcher_def s_hr_def sortable_ok_def)

theorem sort_routes_precedence_witness:
  "\<exists>ys. sort_routes s_list = Inr ys \<and> map sr_Idx ys = [3, 2, 1, 4, 0] \<and> sorted_wrt precedes ys"
proof -
  have e: "sort_routes s_list = Inr (sort_stable Less s_list)"
    using s_list_ok by (auto simp: sort_routes_def list_all_iff sortable_ok_def)
  have i: "map sr_Idx (sort_stable Less s_list) = [3, 2, 1, 4, 0]"
    by (simp add: sort_stable_def s_list_def ToSortable_def s_route_def s_matcher_def Less_def routeWrapperLessFunc_def
        lessOn_def pathLess_def)
  from sort_routes_precedence [OF s_list_ok] e i show ?thesis by auto
qed

theorem sort_routes_deterministic_witness:
  "sort_routes s_list = sort_routes (rev s_list)"
  by (rule sort_routes_deterministic [OF s_list_ok])
    (auto simp: s_list_def ToSortable_def tie_break_def inj_on_def)

end
