(* ===== verification/HttpRouteTranslator.thy ===== *)
theory HttpRouteTranslator
  imports Delegation RouteSort
begin

text \<open>
  The route translator, \<open>translator/httproute/gateway_http_route_translator.go\<close> and
  \<open>delegation.go\<close>: the rules of an \<open>HTTPRoute\<close> become Gloo routes, one per match, and delegated routes
  are flattened recursively.

  The recursion runs over the delegation tree, whose infos point to earlier infos only; it is cut off
  by a fuel that \<open>TranslateGatewayHTTPRouteRules_total\<close> shows to be enough. The route plugins
  are an argument.
\<close>

section \<open>Matchers\<close>

definition translateGlooHeaderMatcher :: "http_header_match \<Rightarrow> header_matcher" where
  "translateGlooHeaderMatcher header = \<lparr>hdm_Name = hhm_Name header, hdm_Value = hhm_Value header,
     hdm_Regex = (hhm_Type header = Some ''RegularExpression'')\<rparr>"

definition parsePath :: "http_path_match option \<Rightarrow> string \<times> string" where
  "parsePath path =
     ((case path of Some p \<Rightarrow> (case pm_Type p of Some t \<Rightarrow> t | None \<Rightarrow> PathMatchPathPrefix) | None \<Rightarrow> PathMatchPathPrefix),
      (case path of Some p \<Rightarrow> (case pm_Value p of Some v \<Rightarrow> v | None \<Rightarrow> ''/'') | None \<Rightarrow> ''/''))"

definition translateGlooMatcher :: "http_path_match http_route_match \<Rightarrow> matcher" where
  "translateGlooMatcher match =
     (let (pathType, pathValue) = parsePath (hm_Path match)
      in \<lparr>mt_PathSpecifier =
            (if pathType = PathMatchPathPrefix then Some (Matcher_Prefix pathValue)
             else if pathType = PathMatchExact then Some (Matcher_Exact pathValue)
             else if pathType = PathMatchRegularExpression then Some (Matcher_Regex pathValue)
             else None),
          mt_Headers = map translateGlooHeaderMatcher (hm_Headers match),
          mt_QueryParameters = map (\<lambda>p. \<lparr>qpm_Name = hqm_Name p, qpm_Value = hqm_Value p, qpm_Regex = False\<rparr>) (hm_QueryParams match),
          mt_Methods = (case hm_Method match of None \<Rightarrow> [] | Some m \<Rightarrow> [m])\<rparr>)"

section \<open>Destinations\<close>

definition isParameterFilter :: "http_route_filter \<Rightarrow> bool" where
  "isParameterFilter f \<longleftrightarrow> hrf_Type f = ''ExtensionRef'' \<and>
     (case hrf_ExtensionRef f of None \<Rightarrow> False | Some e \<Rightarrow> lor_Group e = ''gloo.solo.io'' \<and> lor_Kind e = ''Parameter'')"

definition makeDestinationSpec :: "upstream_type \<Rightarrow> http_route_filter list \<Rightarrow> go_error + destination_spec option" where
  "makeDestinationSpec ut filters =
     (let sectionName = (case filter isParameterFilter filters of
            [] \<Rightarrow> [] | f # _ \<Rightarrow> (case hrf_ExtensionRef f of Some e \<Rightarrow> lor_Name e | None \<Rightarrow> []))
      in case ut of
           UpstreamAws \<Rightarrow>
             if sectionName = [] then Inl (ErrMsg ''upstreams must have a logical name specified in the backend ref via the parameters extensionref'')
             else Inr (Some (DestinationSpec_Aws sectionName))
         | UpstreamAzure \<Rightarrow>
             if sectionName = [] then Inl (ErrMsg ''upstreams must have a function name specified in the backend ref via the parameters extensionref'')
             else Inr (Some (DestinationSpec_Azure sectionName))
         | UpstreamOther \<Rightarrow>
             if sectionName \<noteq> [] then Inl (ErrMsg ''parameters extensionref is only supported for aws and azure upstreams'')
             else Inr None)"

section \<open>State\<close>

text \<open>What a translation run changes: the memory, the status reports, the plugins' own state and the set
  \<open>routesVisited\<close>.\<close>

record 'x trans_state =
  ts_mem :: mem
  ts_reports :: report_map
  ts_plug :: 'x
  ts_visited :: "namespaced_name set"

text \<open>The recursive call: a route info, its reporter, hostnames, delegation chain and the output list.\<close>

type_synonym 'x translate_rec =
  "http_route_info \<Rightarrow> parent_ref_reporter \<Rightarrow> string list \<Rightarrow> namespaced_name list \<Rightarrow>
   gloo_route list \<times> 'x trans_state \<Rightarrow> (gloo_route list \<times> 'x trans_state) outcome"

section \<open>Delegation (delegation.go)\<close>

definition validateChildRoute :: "'p http_route \<Rightarrow> go_error option" where
  "validateChildRoute hr =
     (if hr_hostnames hr \<noteq> []
      then Some (ErrMsg ''spec.hostnames must be unset on a delegatee route as they are inherited from the parent route'')
      else None)"

definition flattenChild ::
  "'x translate_rec \<Rightarrow> namespaced_name \<Rightarrow> parent_ref_reporter \<Rightarrow> string list \<Rightarrow> namespaced_name list \<Rightarrow>
   http_route_info \<Rightarrow> gloo_route list \<times> 'x trans_state \<Rightarrow> (gloo_route list \<times> 'x trans_state) outcome" where
  "flattenChild rec parentRef parentReporter hostnames chain child = (\<lambda>(outputs, ts).
     let childRef = hr_key (hri_HTTPRoute child)
     in if childRef \<in> ts_visited ts
        then Inr (outputs, ts\<lparr>ts_reports := prr_SetCondition parentReporter (unresolved ''RefNotPermitted''
               (''cyclic reference detected while evaluating delegated routes for parent: '' @ nn_String parentRef @
                ''; child route '' @ nn_String childRef @ '' will be ignored'')) (ts_reports ts)\<rparr>)
        else let (rm, k) = reporter_Route (hri_HTTPRoute child) (ts_reports ts);
                 (rm, reporter) = rr_ParentRef k \<lparr>pr_Group = Some GroupName, pr_Kind = Some HTTPRouteKind,
                    pr_Namespace = Some (nn_Namespace parentRef), pr_Name = nn_Name parentRef,
                    pr_SectionName = None, pr_Port = None\<rparr> rm;
                 ts = ts\<lparr>ts_reports := rm\<rparr>
             in case validateChildRoute (hri_HTTPRoute child) of
                  Some err \<Rightarrow> Inr (outputs, ts\<lparr>ts_reports := prr_SetCondition reporter
                     \<lparr>rc_Type = ''Accepted'', rc_Status = ConditionFalse, rc_Reason = ''UnsupportedValue'',
                      rc_Message = err_Error err\<rparr> (ts_reports ts)\<rparr>)
                | None \<Rightarrow> rec child reporter hostnames chain (outputs, ts))"

definition flattenDelegatedRoutes ::
  "'x translate_rec \<Rightarrow> http_route_info \<Rightarrow> http_backend_ref \<Rightarrow> parent_ref_reporter \<Rightarrow> nat http_route_match \<Rightarrow>
   namespaced_name list \<Rightarrow> gloo_route list \<times> 'x trans_state \<Rightarrow>
   (go_error option \<times> gloo_route list \<times> 'x trans_state) outcome" where
  "flattenDelegatedRoutes rec parent backendRef parentReporter parentMatch chain = (\<lambda>(outputs, ts).
     let parentRef = hr_key (hri_HTTPRoute parent);
         ts = ts\<lparr>ts_visited := insert parentRef (ts_visited ts)\<rparr>;
         chain = parentRef # chain;
         finish = (\<lambda>err outputs ts. Inr (err, outputs, ts\<lparr>ts_visited := ts_visited ts - {parentRef}\<rparr>))
     in case info_GetChildrenForRef parent (br_Ref backendRef) of
          Inl err \<Rightarrow> finish (Some err) outputs ts
        | Inr rawChildren \<Rightarrow>
            if rawChildren = []
            then finish (Some (ErrMsg (''unresolved reference '' @ backendref_ToString (br_Ref backendRef)))) outputs ts
            else bind_out (filterDelegatedChildren parentRef parentMatch rawChildren (ts_mem ts)) (\<lambda>(mm, children).
              bind_out (fold_out (flattenChild rec parentRef parentReporter (hr_hostnames (hri_HTTPRoute parent)) chain)
                  children (outputs, ts\<lparr>ts_mem := mm\<rparr>)) (\<lambda>(outputs, ts).
                finish None outputs ts)))"

section \<open>Route actions\<close>

record 'x action_state =
  acs_ts :: "'x trans_state"
  acs_outputs :: "gloo_route list"
  acs_weighted :: "weighted_destination list"
  acs_delegates :: bool

text \<open>A backend that is not an HTTPRoute: the destination it adds, if any.\<close>

definition backendDestination ::
  "go_error + k8s_object \<Rightarrow> string option \<Rightarrow> http_backend_ref \<Rightarrow>
   (go_error + weighted_destination list) outcome" where
  "backendDestination res ptrClusterName backendRef =
     (let ref = (case (ptrClusterName, res) of
             (Some n, Inr obj) \<Rightarrow> \<lparr>rref_Name = n, rref_Namespace = obj_GetNamespace obj\<rparr>
           | _ \<Rightarrow> \<lparr>rref_Name = ''blackhole_cluster'', rref_Namespace = ''blackhole_ns''\<rparr>);
          weight = (case br_Weight backendRef of Some w \<Rightarrow> w | None \<Rightarrow> 1);
          port = (case bor_Port (br_Ref backendRef) of Some p \<Rightarrow> p | None \<Rightarrow> 0)
      in if RefIsService (br_Ref backendRef) then
           Inr (Inr [\<lparr>wd_Destination = \<lparr>dest_Type = Destination_Kube ref port, dest_Spec = None\<rparr>, wd_Weight = weight\<rparr>])
         else if RefIsUpstream (br_Ref backendRef) then
           (case res of
              Inr (ObjUpstream _ _ ut) \<Rightarrow>
                (case makeDestinationSpec ut (br_Filters backendRef) of
                   Inl err \<Rightarrow> Inr (Inl err)
                 | Inr spec \<Rightarrow>
                     Inr (Inr [\<lparr>wd_Destination = \<lparr>dest_Type = Destination_Upstream ref, dest_Spec = spec\<rparr>, wd_Weight = weight\<rparr>]))
            | _ \<Rightarrow> Inr (Inr []))
         else bind_out (deref (bor_Kind (br_Ref backendRef))) (\<lambda>_.
              bind_out (deref (bor_Group (br_Ref backendRef))) (\<lambda>_. Inr (Inr []))))"

definition routeBackend ::
  "'x translate_rec \<Rightarrow> http_route_info \<Rightarrow> parent_ref_reporter \<Rightarrow> nat http_route_match \<Rightarrow> namespaced_name list \<Rightarrow>
   http_backend_ref \<Rightarrow> 'x action_state \<Rightarrow> 'x action_state outcome" where
  "routeBackend rec gwroute reporter match chain backendRef st =
     (if RefIsHTTPRoute (br_Ref backendRef)
      then bind_out (flattenDelegatedRoutes rec gwroute backendRef reporter match chain (acs_outputs st, acs_ts st))
        (\<lambda>(err, outputs, ts).
          let ts = (case err of None \<Rightarrow> ts
                    | Some e \<Rightarrow> ts\<lparr>ts_reports := ProcessBackendError e reporter (ts_reports ts)\<rparr>)
          in Inr (st\<lparr>acs_ts := ts, acs_outputs := outputs, acs_delegates := True\<rparr>))
      else
        let res = info_GetBackendForRef gwroute (br_Ref backendRef);
            (ptrClusterName, rm) = ProcessBackendRef res reporter (br_Ref backendRef) (ts_reports (acs_ts st));
            ts = (acs_ts st)\<lparr>ts_reports := rm\<rparr>
        in bind_out (backendDestination res ptrClusterName backendRef) (\<lambda>r.
             case r of
               Inl err \<Rightarrow> Inr (st\<lparr>acs_ts := ts\<lparr>ts_reports :=
                 prr_SetCondition reporter (unresolved ''BackendNotFound'' (err_Error err)) (ts_reports ts)\<rparr>\<rparr>)
             | Inr ds \<Rightarrow> Inr (st\<lparr>acs_ts := ts, acs_weighted := acs_weighted st @ ds\<rparr>)))"

definition weightedAction :: "weighted_destination list \<Rightarrow> action option" where
  "weightedAction ds =
     (case ds of [] \<Rightarrow> None | [d] \<Rightarrow> Some (RouteAction (Single (wd_Destination d))) | _ \<Rightarrow> Some (RouteAction (Multi ds)))"

text \<open>The delegated routes go to the output list of the state, which the caller starts empty.\<close>

definition setRouteAction ::
  "'x translate_rec \<Rightarrow> http_route_info \<Rightarrow> nat http_route_rule \<Rightarrow> gloo_route \<Rightarrow> parent_ref_reporter \<Rightarrow>
   nat http_route_match \<Rightarrow> namespaced_name list \<Rightarrow> gloo_route list \<times> 'x trans_state \<Rightarrow>
   (bool \<times> gloo_route \<times> gloo_route list \<times> 'x trans_state) outcome" where
  "setRouteAction rec gwroute rule outputRoute reporter match chain = (\<lambda>(outputs, ts).
     bind_out (fold_out (routeBackend rec gwroute reporter match chain) (rule_BackendRefs rule)
        \<lparr>acs_ts = ts, acs_outputs = outputs, acs_weighted = [], acs_delegates = False\<rparr>) (\<lambda>st.
       Inr (acs_delegates st,
            (case weightedAction (acs_weighted st) of None \<Rightarrow> outputRoute | Some a \<Rightarrow> outputRoute\<lparr>rt_Action := Some a\<rparr>),
            acs_outputs st, acs_ts st)))"

section \<open>Plugins\<close>

definition applyPlugin ::
  "('sel, 'x) route_plugin \<Rightarrow> 'sel route_context \<Rightarrow> gloo_route \<Rightarrow> 'x trans_state \<Rightarrow>
   (gloo_route \<times> 'x trans_state) outcome" where
  "applyPlugin plugin rtCtx route ts =
     bind_out (plugin rtCtx route (ts_reports ts, ts_plug ts)) (\<lambda>(_, route, rm, x).
       Inr (route, ts\<lparr>ts_reports := rm, ts_plug := x\<rparr>))"

definition applyToChild ::
  "('sel, 'x) route_plugin \<Rightarrow> 'sel route_context \<Rightarrow> gloo_route \<Rightarrow> gloo_route list \<times> 'x trans_state \<Rightarrow>
   (gloo_route list \<times> 'x trans_state) outcome" where
  "applyToChild plugin rtCtx child = (\<lambda>(acc, ts).
     bind_out (applyPlugin plugin rtCtx child ts) (\<lambda>(child, ts). Inr (acc @ [child], ts)))"

definition applyPluginAll ::
  "'sel route_context \<Rightarrow> ('sel, 'x) route_plugin \<Rightarrow> gloo_route \<times> gloo_route list \<times> 'x trans_state \<Rightarrow>
   (gloo_route \<times> gloo_route list \<times> 'x trans_state) outcome" where
  "applyPluginAll rtCtx plugin = (\<lambda>(outputRoute, delegatedRoutes, ts).
     bind_out (applyPlugin plugin rtCtx outputRoute ts) (\<lambda>(outputRoute, ts).
       bind_out (fold_out (applyToChild plugin rtCtx) delegatedRoutes ([], ts)) (\<lambda>(delegatedRoutes, ts).
         Inr (outputRoute, delegatedRoutes, ts))))"

section \<open>Rules\<close>

abbreviation StatusInternalServerError :: "32 word" where "StatusInternalServerError \<equiv> 500"

definition ErrorResponseAction :: action where
  "ErrorResponseAction = DirectResponseAction \<lparr>dra_Status = StatusInternalServerError, dra_Body = []\<rparr>"

text \<open>One match of a rule: the state is the output list, the routes of the rule (none where the match gives
  no route of its own) and the run's state.\<close>

definition translateMatch ::
  "'x translate_rec \<Rightarrow> ('sel, 'x) route_plugin list \<Rightarrow> 'sel listener \<Rightarrow> http_route_info \<Rightarrow> nat http_route_rule \<Rightarrow>
   nat \<Rightarrow> parent_ref_reporter \<Rightarrow> string list \<Rightarrow> namespaced_name list \<Rightarrow> nat \<times> nat http_route_match \<Rightarrow>
   gloo_route list \<times> gloo_route option list \<times> 'x trans_state \<Rightarrow>
   (gloo_route list \<times> gloo_route option list \<times> 'x trans_state) outcome" where
  "translateMatch rec plugins gwListener gwroute rule ruleIdx reporter hostnames chain = (\<lambda>(idx, match) (outputs, routes, ts).
     let outputRoute = \<lparr>rt_Name = UniqueRouteName gwroute ruleIdx idx,
           rt_Matchers = [translateGlooMatcher (view_match (ts_mem ts) match)],
           rt_Action = None, rt_Options = Some NewRouteOptions, rt_Sources = None\<rparr>
     in bind_out
       (if rule_BackendRefs rule \<noteq> []
        then setRouteAction rec gwroute rule outputRoute reporter match chain ([], ts)
        else Inr (False, outputRoute, [], ts))
       (\<lambda>(delegates, outputRoute, delegatedRoutes, ts).
         let rtCtx = \<lparr>rctx_Listener = gwListener, rctx_Route = hri_HTTPRoute gwroute, rctx_Hostnames = hostnames,
               rctx_DelegationChain = chain, rctx_Rule = rule, rctx_Match = view_match (ts_mem ts) match,
               rctx_Reporter = reporter\<rparr>
         in bind_out (fold_out (applyPluginAll rtCtx) plugins (outputRoute, delegatedRoutes, ts))
           (\<lambda>(outputRoute, delegatedRoutes, ts).
             let outputRoute = (if rt_Action outputRoute = None \<and> \<not> delegates
                    then outputRoute\<lparr>rt_Action := Some ErrorResponseAction\<rparr> else outputRoute)
             in Inr (outputs @ delegatedRoutes,
                  routes @ [if rt_Action outputRoute \<noteq> None
                    then Some (outputRoute\<lparr>rt_Matchers := [translateGlooMatcher (view_match (ts_mem ts) match)]\<rparr>)
                    else None],
                  ts))))"

definition translateGatewayHTTPRouteRule ::
  "'x translate_rec \<Rightarrow> ('sel, 'x) route_plugin list \<Rightarrow> 'sel listener \<Rightarrow> http_route_info \<Rightarrow> nat http_route_rule \<Rightarrow>
   nat \<Rightarrow> parent_ref_reporter \<Rightarrow> string list \<Rightarrow> namespaced_name list \<Rightarrow> gloo_route list \<times> 'x trans_state \<Rightarrow>
   (gloo_route option list \<times> gloo_route list \<times> 'x trans_state) outcome" where
  "translateGatewayHTTPRouteRule rec plugins gwListener gwroute rule ruleIdx reporter hostnames chain = (\<lambda>(outputs, ts).
     bind_out (fold_out (translateMatch rec plugins gwListener gwroute rule ruleIdx reporter hostnames chain)
          (List.enumerate 0 (rule_matches rule)) (outputs, [], ts))
       (\<lambda>(outputs, routes, ts). Inr (routes, outputs, ts)))"

definition emptyMatch :: "nat http_route_match" where
  "emptyMatch = \<lparr>hm_Path = None, hm_Headers = [], hm_QueryParams = [], hm_Method = None\<rparr>"

definition translateRuleStep ::
  "'x translate_rec \<Rightarrow> ('sel, 'x) route_plugin list \<Rightarrow> 'sel listener \<Rightarrow> http_route_info \<Rightarrow>
   parent_ref_reporter \<Rightarrow> string list \<Rightarrow> namespaced_name list \<Rightarrow> nat \<times> nat http_route_rule \<Rightarrow>
   gloo_route list \<times> 'x trans_state \<Rightarrow> (gloo_route list \<times> 'x trans_state) outcome" where
  "translateRuleStep rec plugins gwListener route reporter hostnames chain = (\<lambda>(ruleIdx, rule) (outputs, ts).
     let rule = (if rule_Matches rule = None then rule\<lparr>rule_Matches := Some [emptyMatch]\<rparr> else rule)
     in bind_out (translateGatewayHTTPRouteRule rec plugins gwListener route rule ruleIdx reporter hostnames chain (outputs, ts))
          (\<lambda>(outputRoutes, outputs, ts).
            Inr (outputs @ map the (filter (\<lambda>r. r \<noteq> None) outputRoutes), ts)))"

primrec translateGatewayHTTPRouteRulesUtil ::
  "nat \<Rightarrow> ('sel, 'x) route_plugin list \<Rightarrow> 'sel listener \<Rightarrow> 'x translate_rec" where
  "translateGatewayHTTPRouteRulesUtil 0 plugins gwListener = (\<lambda>route reporter hostnames chain outs. Inl OutOfFuel)"
| "translateGatewayHTTPRouteRulesUtil (Suc fuel) plugins gwListener = (\<lambda>route reporter hostnames chain outs.
     fold_out (translateRuleStep (translateGatewayHTTPRouteRulesUtil fuel plugins gwListener) plugins gwListener
         route reporter hostnames chain)
       (List.enumerate 0 (hr_Rules (hri_HTTPRoute route))) outs)"

definition TranslateGatewayHTTPRouteRules ::
  "nat \<Rightarrow> ('sel, 'x) route_plugin list \<Rightarrow> 'sel listener \<Rightarrow> http_route_info \<Rightarrow> parent_ref_reporter \<Rightarrow>
   mem \<times> report_map \<times> 'x \<Rightarrow> (gloo_route list \<times> mem \<times> report_map \<times> 'x) outcome" where
  "TranslateGatewayHTTPRouteRules fuel plugins gwListener route reporter = (\<lambda>(mm, rm, x).
     bind_out (translateGatewayHTTPRouteRulesUtil fuel plugins gwListener route reporter (hr_hostnames (hri_HTTPRoute route)) []
         ([], \<lparr>ts_mem = mm, ts_reports = rm, ts_plug = x, ts_visited = {}\<rparr>))
       (\<lambda>(outs, ts). Inr (outs, ts_mem ts, ts_reports ts, ts_plug ts)))"

end
