(* ===== verification/HttpRouteProps.thy ===== *)
theory HttpRouteProps
  imports HttpRouteTranslator
begin

text \<open>
  Properties of the route translator. The contract of the route plugins is the locale
  \<open>route_plugins\<close>; the main theorem is that translation of a well-formed route returns, and that every
  route it gives has exactly one matcher, with a path, and an action, so that the sort by precedence
  cannot fail.
\<close>

section \<open>Well-formed routes\<close>

text \<open>A path as the API server admits it: it has a value, and its type is a known one or unset.\<close>

definition path_good :: "http_path_match \<Rightarrow> bool" where
  "path_good p \<longleftrightarrow> pm_Value p \<noteq> None \<and>
     pm_Type p \<in> {None, Some PathMatchPathPrefix, Some PathMatchExact, Some PathMatchRegularExpression}"

definition paths_good :: "mem \<Rightarrow> bool" where
  "paths_good mm \<longleftrightarrow> (\<forall>p \<in> set (mem_paths mm). path_good p)"

definition match_ok :: "mem \<Rightarrow> nat http_route_match \<Rightarrow> bool" where
  "match_ok mm m \<longleftrightarrow> (\<exists>i. hm_Path m = Some i \<and> i < length (mem_paths mm))"

text \<open>A backend reference of a kind the translator knows, or with its kind and group set.\<close>

definition backend_ok :: "backend_object_reference \<Rightarrow> bool" where
  "backend_ok r \<longleftrightarrow> RefIsService r \<or> RefIsUpstream r \<or> RefIsHTTPRoute r \<or> (bor_Kind r \<noteq> None \<and> bor_Group r \<noteq> None)"

text \<open>A rule with paths on its matches (the API server's default), filters \<open>A\<close> and known backends.\<close>

definition rule_ok :: "(http_route_filter list \<Rightarrow> bool) \<Rightarrow> mem \<Rightarrow> nat http_route_rule \<Rightarrow> bool" where
  "rule_ok A mm r \<longleftrightarrow> (\<forall>m \<in> set (rule_matches r). match_ok mm m) \<and> A (rule_Filters r) \<and>
     (\<forall>b \<in> set (rule_BackendRefs r). backend_ok (br_Ref b))"

definition infos_ok :: "(http_route_filter list \<Rightarrow> bool) \<Rightarrow> mem \<Rightarrow> bool" where
  "infos_ok A mm \<longleftrightarrow> paths_good mm \<and> mem_wf mm \<and>
     (\<forall>info \<in> set (mem_infos mm). \<forall>r \<in> set (hr_Rules (hri_HTTPRoute info)). rule_ok A mm r)"

text \<open>The infos some info delegates to.\<close>

definition mem_kids :: "mem \<Rightarrow> nat set" where
  "mem_kids mm = \<Union> (kid_ids ` set (map hri_Children (mem_infos mm)))"

text \<open>A route info that can be translated, with its delegated routes below \<open>n\<close>.\<close>

definition info_ok :: "(http_route_filter list \<Rightarrow> bool) \<Rightarrow> nat \<Rightarrow> mem \<Rightarrow> http_route_info \<Rightarrow> bool" where
  "info_ok A n mm info \<longleftrightarrow> n \<le> length (mem_infos mm) \<and> (\<forall>k \<in> kid_ids (hri_Children info). k < n) \<and>
     kid_ids (hri_Children info) \<subseteq> mem_kids mm \<and>
     (\<forall>r \<in> set (hr_Rules (hri_HTTPRoute info)). rule_ok A mm r \<and> rule_Matches r \<noteq> None)"

text \<open>How the memory changes in a translation: paths are added, the infos keep their children, and those
  that no info delegates to are not written.\<close>

definition grows :: "mem \<Rightarrow> mem \<Rightarrow> bool" where
  "grows mm mm' \<longleftrightarrow> length (mem_paths mm) \<le> length (mem_paths mm') \<and>
     map hri_Children (mem_infos mm') = map hri_Children (mem_infos mm) \<and>
     (\<forall>i < length (mem_infos mm). i \<notin> mem_kids mm \<longrightarrow> mem_infos mm' ! i = mem_infos mm ! i)"

lemma grows_refl [simp, intro]: "grows mm mm"
  by (simp add: grows_def)

lemma grows_kids: "grows mm mm' \<Longrightarrow> mem_kids mm' = mem_kids mm"
  by (simp add: grows_def mem_kids_def)

lemma grows_trans [trans]:
  assumes "grows a b" "grows b c"
  shows "grows a c"
proof -
  have "length (mem_infos b) = length (mem_infos a)" using assms(1) unfolding grows_def by (metis length_map)
  then show ?thesis using assms grows_kids [OF assms(1)] by (simp add: grows_def)
qed

lemma grows_length: "grows mm mm' \<Longrightarrow> length (mem_infos mm') = length (mem_infos mm)"
  unfolding grows_def by (metis length_map)

lemma grows_children: "grows mm mm' \<Longrightarrow> i < length (mem_infos mm) \<Longrightarrow>
    hri_Children (mem_infos mm' ! i) = hri_Children (mem_infos mm ! i)"
  unfolding grows_def by (metis length_map nth_map)

lemma match_ok_grows: "match_ok mm m \<Longrightarrow> grows mm mm' \<Longrightarrow> match_ok mm' m"
  by (auto simp: match_ok_def grows_def)

lemma rule_ok_grows: "rule_ok A mm r \<Longrightarrow> grows mm mm' \<Longrightarrow> rule_ok A mm' r"
  by (auto simp: rule_ok_def match_ok_grows)

lemma info_ok_grows: "info_ok A n mm info \<Longrightarrow> grows mm mm' \<Longrightarrow> info_ok A n mm' info"
  using rule_ok_grows [of A mm _ mm'] by (simp add: info_ok_def grows_length grows_kids)

lemma mem_wf_grows: "mem_wf mm \<Longrightarrow> grows mm mm' \<Longrightarrow> mem_wf mm'"
  unfolding mem_wf_def using grows_length grows_children by metis

section \<open>Delegated children of well-formed routes\<close>

lemma mergeParentChildRouteMatch_ok:
  assumes good: "paths_good mm" and p: "match_ok mm parent" and c: "match_in mm child"
  shows "\<exists>mm' m. mergeParentChildRouteMatch parent child mm = Inr (mm', m) \<and> paths_good mm' \<and> grows mm mm' \<and>
    mem_infos mm' = mem_infos mm \<and> match_ok mm' m"
proof -
  define mc where "mc = (case hm_Path child of
      Some c \<Rightarrow> (mm, c)
    | None \<Rightarrow> (mm\<lparr>mem_paths := mem_paths mm @ [\<lparr>pm_Type = Some PathMatchPathPrefix, pm_Value = Some []\<rparr>]\<rparr>,
               length (mem_paths mm)))"
  obtain m1 ci where mc': "mc = (m1, ci)" by (cases mc)
  have new: "path_good \<lparr>pm_Type = Some PathMatchPathPrefix, pm_Value = Some []\<rparr>" by (simp add: path_good_def)
  have m1: "paths_good m1" "ci < length (mem_paths m1)" "length (mem_paths mm) \<le> length (mem_paths m1)"
    "mem_infos m1 = mem_infos mm"
    using mc' good c unfolding mc_def
    by (auto simp: paths_good_def match_in_def new split: option.splits)
  from p obtain pi where pi: "hm_Path parent = Some pi" "pi < length (mem_paths mm)" by (auto simp: match_ok_def)
  have good1: "path_good (mem_paths m1 ! i)" if "i < length (mem_paths m1)" for i
    using m1(1) that by (auto simp: paths_good_def)
  from good1 [of pi] pi m1(3) obtain pv where pv: "pm_Value (mem_paths m1 ! pi) = Some pv"
    by (auto simp: path_good_def)
  from good1 [OF m1(2)] obtain cv where cv: "pm_Value (mem_paths m1 ! ci) = Some cv" by (auto simp: path_good_def)
  let ?q = "(mem_paths m1 ! ci)\<lparr>pm_Value := Some (path_join pv cv)\<rparr>"
  have "path_good ?q" using good1 [OF m1(2)] by (simp add: path_good_def)
  then have "paths_good (m1\<lparr>mem_paths := (mem_paths m1)[ci := ?q]\<rparr>)"
    using m1(1) set_update_subset_insert [of "mem_paths m1" ci ?q] by (auto simp: paths_good_def)
  then show ?thesis
    using pi pv cv m1 unfolding mergeParentChildRouteMatch_def mc_def [symmetric] mc'
    by (simp add: grows_def match_ok_def)
qed

lemma view_match_good: "paths_good mm \<Longrightarrow> match_in mm m \<Longrightarrow> path_valued (view_match mm m)"
  by (rule view_match_valued) (auto simp: paths_good_def path_good_def paths_valued_def)

lemma match_ok_in: "match_ok mm m \<Longrightarrow> match_in mm m"
  by (auto simp: match_ok_def match_in_def)

text \<open>The state of the loops over the matches of a rule: a memory that grew from \<open>mm0\<close> with the same infos,
  and valid matches.\<close>

definition matches_state :: "mem \<Rightarrow> mem \<times> nat http_route_match list \<Rightarrow> bool" where
  "matches_state mm0 s \<longleftrightarrow> paths_good (fst s) \<and> grows mm0 (fst s) \<and> mem_infos (fst s) = mem_infos mm0 \<and>
     (\<forall>m \<in> set (snd s). match_ok (fst s) m)"

lemma filterMatch_ok:
  assumes "matches_state mm0 s" "match_ok mm0 parentMatch" "match_ok mm0 m"
  shows "\<exists>s'. filterMatch parentRef parentMatch child m s = Inr s' \<and> matches_state mm0 s'"
proof -
  obtain mm valid where s: "s = (mm, valid)" by (cases s)
  have g: "paths_good mm" "grows mm0 mm" "mem_infos mm = mem_infos mm0" "\<forall>m \<in> set valid. match_ok mm m"
    using assms(1) s by (simp_all add: matches_state_def)
  note p = match_ok_grows [OF assms(2) g(2)] and c = match_ok_grows [OF assms(3) g(2)]
  show ?thesis
  proof (cases "shouldInheritMatcher child")
    case True
    from mergeParentChildRouteMatch_ok [OF g(1) p match_ok_in [OF c]] obtain mm' m' where
      r: "mergeParentChildRouteMatch parentMatch m mm = Inr (mm', m')" "paths_good mm'" "grows mm mm'"
        "mem_infos mm' = mem_infos mm" "match_ok mm' m'" by blast
    have "matches_state mm0 (mm', valid @ [m'])"
      using r g grows_trans [OF g(2) r(3)] match_ok_grows [OF _ r(3)] by (auto simp: matches_state_def)
    with True r(1) show ?thesis by (simp add: filterMatch_def s)
  next
    case False
    from isDelegatedRouteMatch_eq [OF view_match_good [OF g(1) match_ok_in [OF p]] view_match_good [OF g(1) match_ok_in [OF c]]]
    show ?thesis using False g c by (simp add: filterMatch_def s matches_state_def)
  qed
qed

text \<open>The state of the loop over the rules of a child.\<close>

abbreviation rule_counts :: "mem \<Rightarrow> nat list" where
  "rule_counts mm \<equiv> map (\<lambda>i. length (hr_Rules (hri_HTTPRoute i))) (mem_infos mm)"

definition rules_state :: "(http_route_filter list \<Rightarrow> bool) \<Rightarrow> mem \<Rightarrow> mem \<times> nat http_route_rule list \<Rightarrow> bool" where
  "rules_state A mm0 s \<longleftrightarrow> infos_ok A (fst s) \<and> grows mm0 (fst s) \<and> rule_counts (fst s) = rule_counts mm0 \<and>
     (\<forall>r \<in> set (snd s). rule_ok A (fst s) r \<and> rule_Matches r \<noteq> None)"

lemma rule_counts_nth: "rule_counts mm = rule_counts mm0 \<Longrightarrow> cid < length (mem_infos mm0) \<Longrightarrow>
    length (info_rules mm cid) = length (info_rules mm0 cid)"
  unfolding info_rules_def by (metis (mono_tags, lifting) length_map nth_map)

lemma map_update_same: "f y = f (xs ! i) \<Longrightarrow> map f (xs[i := y]) = map f xs"
  by (cases "i < length xs") (simp_all add: map_update list_update_same_conv list_update_beyond)

lemma write_matches_ok:
  assumes ok: "infos_ok A mm" and g: "matches_state mm (mm1, valid)" and cid: "cid < length (mem_infos mm)" "cid \<in> mem_kids mm"
    and ms: "ms = None \<or> ms = Some valid"
  shows "infos_ok A (write_matches cid i ms mm1)" "grows mm (write_matches cid i ms mm1)"
    "rule_counts (write_matches cid i ms mm1) = rule_counts mm"
proof -
  let ?mm2 = "write_matches cid i ms mm1"
  have g': "paths_good mm1" "grows mm mm1" "mem_infos mm1 = mem_infos mm" "\<forall>m \<in> set valid. match_ok mm1 m"
    using g by (simp_all add: matches_state_def)
  have g2: "grows mm1 ?mm2"
  proof -
    have "cid \<noteq> i'" if "i' \<notin> mem_kids mm1" for i'
      using that cid(2) g'(3) by (auto simp: mem_kids_def)
    then show ?thesis
      unfolding grows_def write_matches_def Let_def by (simp add: map_update_same)
  qed
  show gr: "grows mm ?mm2" by (rule grows_trans [OF g'(2) g2])
  show "rule_counts ?mm2 = rule_counts mm"
    unfolding write_matches_def Let_def g'(3) [symmetric] by (simp add: map_update_same)
  have rules: "rule_ok A ?mm2 r" if info: "info \<in> set (mem_infos ?mm2)" and r: "r \<in> set (hr_Rules (hri_HTTPRoute info))" for info r
  proof -
    have old: "rule_ok A ?mm2 r" if "info \<in> set (mem_infos mm)" "r \<in> set (hr_Rules (hri_HTTPRoute info))" for info r
      using ok gr that by (auto simp: infos_ok_def intro: rule_ok_grows)
    let ?new = "(hr_Rules (hri_HTTPRoute (mem_infos mm ! cid)) ! i)\<lparr>rule_Matches := ms\<rparr>"
    from info g'(3) have "info \<in> set (mem_infos mm) \<or> info = (mem_infos mm ! cid)\<lparr>hri_HTTPRoute :=
        (hri_HTTPRoute (mem_infos mm ! cid))\<lparr>hr_Rules := (hr_Rules (hri_HTTPRoute (mem_infos mm ! cid)))[i := ?new]\<rparr>\<rparr>"
      using set_update_subset_insert by (fastforce simp: write_matches_def Let_def)
    then show ?thesis
    proof
      assume "info \<in> set (mem_infos mm)"
      with r old show ?thesis by blast
    next
      assume i: "info = (mem_infos mm ! cid)\<lparr>hri_HTTPRoute := (hri_HTTPRoute (mem_infos mm ! cid))\<lparr>hr_Rules :=
          (hr_Rules (hri_HTTPRoute (mem_infos mm ! cid)))[i := ?new]\<rparr>\<rparr>"
      have mem: "mem_infos mm ! cid \<in> set (mem_infos mm)" using cid(1) by simp
      show ?thesis
      proof (cases "i < length (hr_Rules (hri_HTTPRoute (mem_infos mm ! cid)))")
        case False
        with i r have "r \<in> set (hr_Rules (hri_HTTPRoute (mem_infos mm ! cid)))" by (simp add: list_update_beyond)
        with mem old show ?thesis by blast
      next
        case True
        with mem old have "rule_ok A ?mm2 (hr_Rules (hri_HTTPRoute (mem_infos mm ! cid)) ! i)" by simp
        then have "rule_ok A ?mm2 ?new"
          using ms g'(4) match_ok_grows [OF _ g2] by (auto simp: rule_ok_def rule_matches_def)
        moreover from i r have "r = ?new \<or> r \<in> set (hr_Rules (hri_HTTPRoute (mem_infos mm ! cid)))"
          using set_update_subset_insert by fastforce
        ultimately show ?thesis using mem old by blast
      qed
    qed
  qed
  show "infos_ok A ?mm2"
    using ok g'(1) rules mem_wf_grows [OF _ gr] by (auto simp: infos_ok_def paths_good_def)
qed

lemma filterRule_ok:
  assumes st: "rules_state A mm0 s" and p: "match_ok mm0 parentMatch" and cid: "cid < length (mem_infos mm0)" "cid \<in> mem_kids mm0"
    and i: "i < length (info_rules mm0 cid)"
  shows "\<exists>s'. filterRule parentRef parentMatch cid child i s = Inr s' \<and> rules_state A mm0 s'"
proof -
  obtain mm valid where s: "s = (mm, valid)" by (cases s)
  have g: "infos_ok A mm" "grows mm0 mm" "rule_counts mm = rule_counts mm0"
    "\<forall>r \<in> set valid. rule_ok A mm r \<and> rule_Matches r \<noteq> None"
    using st s by (simp_all add: rules_state_def)
  have cid': "cid < length (mem_infos mm)" "cid \<in> mem_kids mm" using cid grows_length [OF g(2)] grows_kids [OF g(2)] by simp_all
  have i': "i < length (info_rules mm cid)" using i rule_counts_nth [OF g(3) cid(1)] by simp
  let ?rule = "info_rules mm cid ! i"
  let ?inh = "if shouldInheritMatcher child \<and> rule_matches ?rule = [] then [parentMatch] else []"
  note p' = match_ok_grows [OF p g(2)]
  have rule: "rule_ok A mm ?rule"
    using g(1) nth_mem [OF cid'(1)] i' by (simp add: infos_ok_def info_rules_def)
  have start: "matches_state mm (mm, ?inh)" using g(1) p' by (simp add: matches_state_def infos_ok_def)
  have "\<exists>s'. fold_out (filterMatch parentRef parentMatch child) (rule_matches ?rule) (mm, ?inh) = Inr s' \<and> matches_state mm s'"
    using rule p' start by (intro fold_out_returns [where P = "matches_state mm"] filterMatch_ok) (auto simp: rule_ok_def)
  then obtain mm1 ms where f: "fold_out (filterMatch parentRef parentMatch child) (rule_matches ?rule) (mm, ?inh) = Inr (mm1, ms)"
    and ms: "matches_state mm (mm1, ms)" by auto
  let ?mm2 = "write_matches cid i (if ms = [] then None else Some ms) mm1"
  note w = write_matches_ok [OF g(1) ms cid', of "if ms = [] then None else Some ms" i]
  have w2: "infos_ok A ?mm2" "grows mm ?mm2" "rule_counts ?mm2 = rule_counts mm" using w by simp_all
  have "match_ok ?mm2 m" if "m \<in> set ms" for m
    using ms that by (auto simp: matches_state_def match_ok_def)
  then have "rule_ok A ?mm2 (?rule\<lparr>rule_Matches := Some ms\<rparr>)"
    using rule by (simp add: rule_ok_def rule_matches_def)
  then have "rules_state A mm0 (?mm2, if ms \<noteq> [] then valid @ [?rule\<lparr>rule_Matches := Some ms\<rparr>] else valid)"
    using w2 g grows_trans [OF g(2) w2(2)] rule_ok_grows [OF _ w2(2)] by (auto simp: rules_state_def)
  with f show ?thesis by (simp add: filterRule_def s Let_def)
qed

text \<open>The children selected so far: each is an info whose delegated routes are those of one of the ids.\<close>

definition selected_state ::
  "(http_route_filter list \<Rightarrow> bool) \<Rightarrow> mem \<Rightarrow> nat \<Rightarrow> mem \<times> http_route_info list \<Rightarrow> bool" where
  "selected_state A mm0 n s \<longleftrightarrow> infos_ok A (fst s) \<and> grows mm0 (fst s) \<and>
     (\<forall>c \<in> set (snd s). \<exists>k < n. info_ok A k (fst s) c)"

lemma filterChild_ok:
  assumes st: "selected_state A mm0 n s" and p: "match_ok mm0 parentMatch"
    and cid: "cid < n" "n \<le> length (mem_infos mm0)" "cid \<in> mem_kids mm0"
  shows "\<exists>s'. filterChild parentRef parentMatch cid s = Inr s' \<and> selected_state A mm0 n s'"
proof -
  obtain mm sel where s: "s = (mm, sel)" by (cases s)
  have g: "infos_ok A mm" "grows mm0 mm" "\<forall>c \<in> set sel. \<exists>k < n. info_ok A k mm c"
    using st s by (simp_all add: selected_state_def)
  have cid': "cid < length (mem_infos mm)" "cid \<in> mem_kids mm" using cid grows_length [OF g(2)] grows_kids [OF g(2)] by simp_all
  let ?child = "info_Clone (mem_infos mm ! cid)"
  have hr: "hri_HTTPRoute ?child = hri_HTTPRoute (mem_infos mm ! cid)" by (simp add: info_Clone_def)
  have start: "rules_state A mm (mm, [])" using g(1) by (simp add: rules_state_def)
  have "\<exists>s'. fold_out (filterRule parentRef parentMatch cid (hri_HTTPRoute ?child))
      [0..<length (hr_Rules (hri_HTTPRoute ?child))] (mm, []) = Inr s' \<and> rules_state A mm s'"
    using match_ok_grows [OF p g(2)] cid' start
    by (intro fold_out_returns [where P = "rules_state A mm"] filterRule_ok) (auto simp: hr info_rules_def)
  then obtain mm1 rs where f: "fold_out (filterRule parentRef parentMatch cid (hri_HTTPRoute ?child))
      [0..<length (hr_Rules (hri_HTTPRoute ?child))] (mm, []) = Inr (mm1, rs)" and r: "rules_state A mm (mm1, rs)"
    by auto
  have r': "infos_ok A mm1" "grows mm mm1" "\<forall>r \<in> set rs. rule_ok A mm1 r \<and> rule_Matches r \<noteq> None"
    using r by (simp_all add: rules_state_def)
  let ?new = "?child\<lparr>hri_HTTPRoute := (hri_HTTPRoute ?child)\<lparr>hr_Rules := rs\<rparr>\<rparr>"
  have "\<forall>k \<in> kid_ids (hri_Children ?new). k < cid"
    using g(1) cid' by (simp add: infos_ok_def mem_wf_def info_Clone_def)
  moreover have "kid_ids (hri_Children ?new) \<subseteq> mem_kids mm1"
    using cid'(1) grows_kids [OF r'(2)] by (auto simp: info_Clone_def mem_kids_def)
  ultimately have "info_ok A cid mm1 ?new"
    using r'(3) cid grows_length [OF grows_trans [OF g(2) r'(2)]] by (simp add: info_ok_def)
  moreover have "\<exists>k < n. info_ok A k mm1 c" if "c \<in> set sel" for c
    using g(3) that info_ok_grows [OF _ r'(2)] by blast
  ultimately have "selected_state A mm0 n (mm1, if rs \<noteq> [] then sel @ [?new] else sel)"
    using r'(1) grows_trans [OF g(2) r'(2)] cid(1) by (auto simp: selected_state_def)
  with f show ?thesis by (simp add: filterChild_def s Let_def)
qed

lemma filterDelegatedChildren_ok:
  assumes "infos_ok A mm" "match_ok mm parentMatch" "\<forall>c \<in> set ids. c < n" "n \<le> length (mem_infos mm)"
    "set ids \<subseteq> mem_kids mm"
  shows "\<exists>mm' sel. filterDelegatedChildren parentRef parentMatch ids mm = Inr (mm', sel) \<and>
    selected_state A mm n (mm', sel)"
proof -
  have start: "selected_state A mm n (mm, [])" using assms(1) by (simp add: selected_state_def)
  have "\<exists>s'. fold_out (filterChild parentRef parentMatch) ids (mm, []) = Inr s' \<and> selected_state A mm n s'"
    using assms start by (intro fold_out_returns [where P = "selected_state A mm n"] filterChild_ok) auto
  then show ?thesis by (auto simp: filterDelegatedChildren_def)
qed

section \<open>The contract of route plugins\<close>

text \<open>A route the translator hands on.\<close>

definition route_wf :: "gloo_route \<Rightarrow> bool" where
  "route_wf r \<longleftrightarrow> (\<exists>m. rt_Matchers r = [m] \<and> mt_PathSpecifier m \<noteq> None) \<and> rt_Action r \<noteq> None \<and> rt_Options r \<noteq> None"

text \<open>What the translator relies on: with filters that the plugins admit they return, errors included, and
  they keep the matchers, the options and an action that is set.\<close>

locale route_plugins =
  fixes plugins :: "('sel, 'x) route_plugin list" and admits :: "http_route_filter list \<Rightarrow> bool"
  assumes returns: "p \<in> set plugins \<Longrightarrow> admits (rule_Filters (rctx_Rule ctx)) \<Longrightarrow> rt_Options r \<noteq> None \<Longrightarrow>
      \<exists>e r' s'. p ctx r s = Inr (e, r', s')"
    and keeps_matchers: "p \<in> set plugins \<Longrightarrow> p ctx r s = Inr (e, r', s') \<Longrightarrow> rt_Matchers r' = rt_Matchers r"
    and keeps_action: "p \<in> set plugins \<Longrightarrow> p ctx r s = Inr (e, r', s') \<Longrightarrow> rt_Action r \<noteq> None \<Longrightarrow> rt_Action r' \<noteq> None"
    and keeps_options: "p \<in> set plugins \<Longrightarrow> p ctx r s = Inr (e, r', s') \<Longrightarrow> rt_Options r \<noteq> None \<Longrightarrow> rt_Options r' \<noteq> None"
begin

lemma applyPlugin_ok:
  assumes "p \<in> set plugins" "admits (rule_Filters (rctx_Rule ctx))" "rt_Options r \<noteq> None"
  shows "\<exists>r' ts'. applyPlugin p ctx r ts = Inr (r', ts') \<and> ts_mem ts' = ts_mem ts \<and> ts_visited ts' = ts_visited ts \<and>
    rt_Options r' \<noteq> None \<and> (route_wf r \<longrightarrow> route_wf r') \<and> rt_Matchers r' = rt_Matchers r"
proof -
  from returns [OF assms] obtain e r' rm x where p: "p ctx r (ts_reports ts, ts_plug ts) = Inr (e, r', rm, x)"
    by (metis surj_pair)
  then show ?thesis
    using keeps_matchers [OF assms(1) p] keeps_action [OF assms(1) p] keeps_options [OF assms(1) p assms(3)]
    by (simp add: applyPlugin_def route_wf_def)
qed

lemma applyPluginAll_ok:
  assumes p: "p \<in> set plugins" "admits (rule_Filters (rctx_Rule ctx))"
    and r: "rt_Options r \<noteq> None" and ds: "list_all route_wf ds"
  shows "\<exists>r' ds' ts'. applyPluginAll ctx p (r, ds, ts) = Inr (r', ds', ts') \<and> ts_mem ts' = ts_mem ts \<and>
    rt_Options r' \<noteq> None \<and> rt_Matchers r' = rt_Matchers r \<and> list_all route_wf ds'"
proof -
  from applyPlugin_ok [OF p r, of ts] obtain r' ts1 where 1: "applyPlugin p ctx r ts = Inr (r', ts1)"
    "ts_mem ts1 = ts_mem ts" "rt_Options r' \<noteq> None" "rt_Matchers r' = rt_Matchers r" by blast
  let ?P = "\<lambda>(acc :: gloo_route list, t :: 'x trans_state). list_all route_wf acc \<and> ts_mem t = ts_mem ts"
  have "\<exists>s'. fold_out (applyToChild p ctx) ds ([], ts1) = Inr s' \<and> ?P s'"
  proof (rule fold_out_returns)
    fix d s assume d: "d \<in> set ds" and s: "?P s"
    obtain acc t where s': "s = (acc, t)" by (cases s)
    have wf: "route_wf d" using ds d by (auto simp: list_all_iff)
    then have "rt_Options d \<noteq> None" by (simp add: route_wf_def)
    from applyPlugin_ok [OF p this, of t] wf obtain d' t' where "applyPlugin p ctx d t = Inr (d', t')"
      "ts_mem t' = ts_mem t" "route_wf d'" by blast
    with s show "\<exists>s'. applyToChild p ctx d s = Inr s' \<and> ?P s'" by (simp add: applyToChild_def s')
  qed (use 1 in simp)
  then obtain ds' ts' where "fold_out (applyToChild p ctx) ds ([], ts1) = Inr (ds', ts')" "list_all route_wf ds'"
    "ts_mem ts' = ts_mem ts" by auto
  with 1 show ?thesis by (simp add: applyPluginAll_def)
qed

lemma applyPlugins_ok:
  assumes "admits (rule_Filters (rctx_Rule ctx))" "rt_Options r \<noteq> None" "list_all route_wf ds"
  shows "\<exists>r' ds' ts'. fold_out (applyPluginAll ctx) plugins (r, ds, ts) = Inr (r', ds', ts') \<and> ts_mem ts' = ts_mem ts \<and>
    rt_Options r' \<noteq> None \<and> list_all route_wf ds'"
proof -
  let ?P = "\<lambda>(r' :: gloo_route, ds' :: gloo_route list, t :: 'x trans_state). rt_Options r' \<noteq> None \<and> list_all route_wf ds' \<and> ts_mem t = ts_mem ts"
  have "\<exists>s'. fold_out (applyPluginAll ctx) plugins (r, ds, ts) = Inr s' \<and> ?P s'"
  proof (rule fold_out_returns)
    fix p s assume p: "p \<in> set plugins" and s: "?P s"
    obtain r' ds' t where s': "s = (r', ds', t)" by (metis surj_pair)
    from applyPluginAll_ok [OF p assms(1), of r' ds' t] s s' show "\<exists>s'. applyPluginAll ctx p s = Inr s' \<and> ?P s'"
      by auto
  qed (use assms in simp)
  then show ?thesis by auto
qed

end

section \<open>Translation of well-formed routes\<close>

definition trans_ok :: "(http_route_filter list \<Rightarrow> bool) \<Rightarrow> mem \<Rightarrow> gloo_route list \<times> 'x trans_state \<Rightarrow> bool" where
  "trans_ok A mm0 s \<longleftrightarrow> list_all route_wf (fst s) \<and> infos_ok A (ts_mem (snd s)) \<and> grows mm0 (ts_mem (snd s))"

text \<open>The recursive call translates every info whose delegated routes are below \<open>n\<close>.\<close>

definition rec_ok :: "(http_route_filter list \<Rightarrow> bool) \<Rightarrow> nat \<Rightarrow> 'x translate_rec \<Rightarrow> bool" where
  "rec_ok A n rec \<longleftrightarrow> (\<forall>info reporter hostnames chain mm s. trans_ok A mm s \<longrightarrow> info_ok A n (ts_mem (snd s)) info \<longrightarrow>
     (\<exists>s'. rec info reporter hostnames chain s = Inr s' \<and> trans_ok A mm s'))"

lemma trans_okI: "list_all route_wf o' \<Longrightarrow> infos_ok A (ts_mem t) \<Longrightarrow> grows mm (ts_mem t) \<Longrightarrow> trans_ok A mm (o', t)"
  by (simp add: trans_ok_def)

lemma flattenChild_ok:
  assumes rec: "rec_ok A k rec" and s: "trans_ok A mm s" and c: "info_ok A k (ts_mem (snd s)) child"
  shows "\<exists>s'. flattenChild rec parentRef reporter hostnames chain child s = Inr s' \<and> trans_ok A mm s'"
proof -
  obtain outs ts where s': "s = (outs, ts)" by (cases s)
  obtain rm k1 where r1: "reporter_Route (hri_HTTPRoute child) (ts_reports ts) = (rm, k1)"
    by (cases "reporter_Route (hri_HTTPRoute child) (ts_reports ts)")
  let ?ref = "\<lparr>pr_Group = Some GroupName, pr_Kind = Some HTTPRouteKind, pr_Namespace = Some (nn_Namespace parentRef),
    pr_Name = nn_Name parentRef, pr_SectionName = None, pr_Port = None\<rparr>"
  obtain rm2 prr where r2: "rr_ParentRef k1 ?ref rm = (rm2, prr)" by (cases "rr_ParentRef k1 ?ref rm")
  have ok: "trans_ok A mm (outs, ts\<lparr>ts_reports := rm'\<rparr>)" for rm' using s s' by (simp add: trans_ok_def)
  have "\<exists>s'. rec child prr hostnames chain (outs, ts\<lparr>ts_reports := rm2\<rparr>) = Inr s' \<and> trans_ok A mm s'"
    using rec ok c s' unfolding rec_ok_def by (metis (no_types, lifting) snd_conv trans_state.select_convs(1) trans_state.surjective trans_state.update_convs(2))
  then show ?thesis
    using ok s' by (auto simp: flattenChild_def r1 r2 Let_def split: option.split)
qed

lemma bm_get_kids: "bm_get m r = Inr ks \<Longrightarrow> set ks \<subseteq> kid_ids m"
  by (auto simp: bm_get_def kid_ids_def ran_def split: option.splits)

lemma flattenDelegatedRoutes_ok:
  fixes rec :: "'x translate_rec"
  assumes rec: "\<forall>k < n. rec_ok A k rec" and s: "trans_ok A mm s" and p: "info_ok A n (ts_mem (snd s)) parent"
    and m: "match_ok (ts_mem (snd s)) parentMatch"
  shows "\<exists>e s'. flattenDelegatedRoutes rec parent backendRef reporter parentMatch chain s = Inr (e, s') \<and> trans_ok A mm s'"
proof -
  obtain outs ts where s': "s = (outs, ts)" by (cases s)
  let ?ref = "hr_key (hri_HTTPRoute parent)" and ?mm = "ts_mem ts"
  let ?ts = "ts\<lparr>ts_visited := insert (hr_key (hri_HTTPRoute parent)) (ts_visited ts)\<rparr>"
  have ok: "trans_ok A mm (outs, t)" if "ts_mem t = ts_mem ts" for t :: "'x trans_state"
    using s s' that by (simp add: trans_ok_def)
  show ?thesis
  proof (cases "info_GetChildrenForRef parent (br_Ref backendRef)")
    case (Inl err)
    with ok show ?thesis by (simp add: flattenDelegatedRoutes_def s' Let_def)
  next
    case (Inr ids)
    show ?thesis
    proof (cases "ids = []")
      case True
      with Inr ok show ?thesis by (simp add: flattenDelegatedRoutes_def s' Let_def)
    next
      case False
      have ids: "\<forall>c \<in> set ids. c < n" "n \<le> length (mem_infos ?mm)" "set ids \<subseteq> mem_kids ?mm"
        using bm_get_kids [of "hri_Children parent" "br_Ref backendRef" ids] Inr p s'
        unfolding info_GetChildrenForRef_def info_ok_def by auto
      have i: "infos_ok A ?mm" "grows mm ?mm" "list_all route_wf outs" using s s' by (simp_all add: trans_ok_def)
      from filterDelegatedChildren_ok [OF i(1) _ ids, of parentMatch ?ref] m s' obtain mm1 sel where
        f: "filterDelegatedChildren ?ref parentMatch ids ?mm = Inr (mm1, sel)" and sel: "selected_state A ?mm n (mm1, sel)" by auto
      have g1: "infos_ok A mm1" "grows ?mm mm1" using sel by (simp_all add: selected_state_def)
      let ?P = "\<lambda>s :: gloo_route list \<times> 'x trans_state. trans_ok A mm s \<and> grows mm1 (ts_mem (snd s))"
      have "\<exists>s'. fold_out (flattenChild rec ?ref reporter (hr_hostnames (hri_HTTPRoute parent)) (?ref # chain)) sel
          (outs, ?ts\<lparr>ts_mem := mm1\<rparr>) = Inr s' \<and> ?P s'"
      proof (rule fold_out_returns)
        fix c s1 assume c: "c \<in> set sel" and s1: "?P s1"
        from sel c obtain k where k: "k < n" "info_ok A k mm1 c" by (auto simp: selected_state_def)
        have "trans_ok A mm1 s1" using s1 by (simp add: trans_ok_def)
        from flattenChild_ok [OF _ this info_ok_grows [OF k(2)], of rec] rec k s1 obtain s2 where
          "flattenChild rec ?ref reporter (hr_hostnames (hri_HTTPRoute parent)) (?ref # chain) c s1 = Inr s2" "trans_ok A mm1 s2"
          by blast
        moreover from this(2) have "?P s2" using grows_trans [OF grows_trans [OF i(2) g1(2)]] by (simp add: trans_ok_def)
        ultimately show "\<exists>s'. flattenChild rec ?ref reporter (hr_hostnames (hri_HTTPRoute parent)) (?ref # chain) c s1 = Inr s' \<and> ?P s'"
          by blast
      qed (use i g1 grows_trans [OF i(2) g1(2)] in \<open>simp add: trans_ok_def\<close>)
      then obtain o2 t2 where r: "fold_out (flattenChild rec ?ref reporter (hr_hostnames (hri_HTTPRoute parent)) (?ref # chain)) sel
          (outs, ?ts\<lparr>ts_mem := mm1\<rparr>) = Inr (o2, t2)" and ok2: "trans_ok A mm (o2, t2)" by auto
      have "flattenDelegatedRoutes rec parent backendRef reporter parentMatch chain s =
          Inr (None, o2, t2\<lparr>ts_visited := ts_visited t2 - {?ref}\<rparr>)"
        using False by (simp add: flattenDelegatedRoutes_def s' Inr Let_def f r)
      with ok2 show ?thesis by (auto simp: trans_ok_def)
    qed
  qed
qed

lemma backendDestination_returns:
  assumes "backend_ok (br_Ref b)" "\<not> RefIsHTTPRoute (br_Ref b)"
  shows "\<exists>d. backendDestination res cn b = Inr d"
proof -
  have "bor_Kind (br_Ref b) \<noteq> None \<and> bor_Group (br_Ref b) \<noteq> None" if "\<not> RefIsService (br_Ref b)" "\<not> RefIsUpstream (br_Ref b)"
    using assms that by (simp add: backend_ok_def)
  then show ?thesis
    unfolding backendDestination_def Let_def
    by (auto split: sum.split k8s_object.split option.split)
qed

definition action_ok :: "(http_route_filter list \<Rightarrow> bool) \<Rightarrow> mem \<Rightarrow> 'x action_state \<Rightarrow> bool" where
  "action_ok A mm st \<longleftrightarrow> trans_ok A mm (acs_outputs st, acs_ts st)"

lemma routeBackend_ok:
  fixes rec :: "'x translate_rec"
  assumes rec: "\<forall>k < n. rec_ok A k rec" and st: "action_ok A mm st" and b: "backend_ok (br_Ref b)"
    and p: "info_ok A n mm route" and m: "match_ok mm match"
  shows "\<exists>st'. routeBackend rec route reporter match chain b st = Inr st' \<and> action_ok A mm st'"
proof (cases "RefIsHTTPRoute (br_Ref b)")
  case True
  have g: "grows mm (ts_mem (acs_ts st))" using st by (simp add: action_ok_def trans_ok_def)
  from flattenDelegatedRoutes_ok [of n A rec mm "(acs_outputs st, acs_ts st)" route match b reporter chain]
  obtain e outs ts where f: "flattenDelegatedRoutes rec route b reporter match chain (acs_outputs st, acs_ts st) = Inr (e, outs, ts)"
    and ok: "trans_ok A mm (outs, ts)"
    using rec st info_ok_grows [OF p g] match_ok_grows [OF m g] by (auto simp: action_ok_def)
  with True show ?thesis
    by (simp add: routeBackend_def Let_def) (auto simp: action_ok_def trans_ok_def split: option.splits)
next
  case False
  obtain cn rm where pb: "ProcessBackendRef (info_GetBackendForRef route (br_Ref b)) reporter (br_Ref b) (ts_reports (acs_ts st)) = (cn, rm)"
    by (cases "ProcessBackendRef (info_GetBackendForRef route (br_Ref b)) reporter (br_Ref b) (ts_reports (acs_ts st))")
  obtain d where "backendDestination (info_GetBackendForRef route (br_Ref b)) cn b = Inr d"
    using backendDestination_returns [OF b False] by blast
  with False st show ?thesis
    by (cases d) (simp_all add: routeBackend_def pb Let_def action_ok_def trans_ok_def)
qed

lemma setRouteAction_ok:
  fixes rec :: "'x translate_rec"
  assumes rec: "\<forall>k < n. rec_ok A k rec" and s: "trans_ok A mm (outs, ts)" and r: "rule_ok A mm rule"
    and p: "info_ok A n mm route" and m: "match_ok mm match"
  shows "\<exists>d out' outs' ts'. setRouteAction rec route rule out reporter match chain (outs, ts) = Inr (d, out', outs', ts') \<and>
    trans_ok A mm (outs', ts') \<and> rt_Options out' = rt_Options out"
proof -
  let ?st = "\<lparr>acs_ts = ts, acs_outputs = outs, acs_weighted = [], acs_delegates = False\<rparr>"
  have start: "action_ok A mm ?st" using s by (simp add: action_ok_def)
  have "\<exists>st'. fold_out (routeBackend rec route reporter match chain) (rule_BackendRefs rule) ?st = Inr st' \<and> action_ok A mm st'"
    using rec p m r start by (intro fold_out_returns [where P = "action_ok A mm"] routeBackend_ok) (auto simp: rule_ok_def)
  then show ?thesis by (auto simp: setRouteAction_def action_ok_def split: option.split)
qed

lemma translateGlooMatcher_path:
  assumes "paths_good mm" "match_ok mm m"
  shows "mt_PathSpecifier (translateGlooMatcher (view_match mm m)) \<noteq> None"
proof -
  from assms(2) obtain i where i: "hm_Path m = Some i" "i < length (mem_paths mm)" by (auto simp: match_ok_def)
  with assms(1) have "path_good (mem_paths mm ! i)" by (auto simp: paths_good_def)
  with i show ?thesis
    by (auto simp: translateGlooMatcher_def view_match_def parsePath_def path_good_def Let_def split: option.splits)
qed

lemma enumerate_snd: "x \<in> set (List.enumerate n xs) \<Longrightarrow> snd x \<in> set xs"
  by (induction xs arbitrary: n) auto

definition rule_state_ok ::
  "(http_route_filter list \<Rightarrow> bool) \<Rightarrow> mem \<Rightarrow> gloo_route list \<times> gloo_route option list \<times> 'x trans_state \<Rightarrow> bool" where
  "rule_state_ok A mm s \<longleftrightarrow> trans_ok A mm (fst s, snd (snd s)) \<and> (\<forall>r. Some r \<in> set (fst (snd s)) \<longrightarrow> route_wf r)"

context route_plugins
begin

lemma translateMatch_ok:
  fixes rec :: "'x translate_rec"
  assumes rec: "\<forall>k < n. rec_ok admits k rec" and s: "rule_state_ok admits mm s" and r: "rule_ok admits mm rule"
    and p: "info_ok admits n mm route" and m: "match_ok mm (snd im)"
  shows "\<exists>s'. translateMatch rec plugins gwListener route rule ruleIdx reporter hostnames chain im s = Inr s' \<and>
    rule_state_ok admits mm s'"
proof -
  obtain outs rs ts where s': "s = (outs, rs, ts)" by (metis surj_pair)
  obtain idx match where im: "im = (idx, match)" by (cases im)
  have t: "trans_ok admits mm (outs, ts)" "\<forall>r. Some r \<in> set rs \<longrightarrow> route_wf r" using s s' by (simp_all add: rule_state_ok_def)
  let ?out = "\<lparr>rt_Name = UniqueRouteName route ruleIdx idx, rt_Matchers = [translateGlooMatcher (view_match (ts_mem ts) match)],
     rt_Action = None, rt_Options = Some NewRouteOptions, rt_Sources = None\<rparr>"
  let ?act = "if rule_BackendRefs rule \<noteq> [] then setRouteAction rec route rule ?out reporter match chain ([], ts)
     else Inr (False, ?out, [], ts)"
  have t0: "trans_ok admits mm ([], ts)" using t(1) by (simp add: trans_ok_def)
  have "\<exists>d out' ds ts'. ?act = Inr (d, out', ds, ts') \<and> trans_ok admits mm (ds, ts') \<and> rt_Options out' \<noteq> None"
    using setRouteAction_ok [OF rec t0 r p, of match ?out reporter chain] m im t0 by (auto simp: NewRouteOptions_def)
  then obtain d out1 ds ts1 where act: "?act = Inr (d, out1, ds, ts1)" and ds: "trans_ok admits mm (ds, ts1)"
    and o1: "rt_Options out1 \<noteq> None" by blast
  let ?ctx = "\<lparr>rctx_Listener = gwListener, rctx_Route = hri_HTTPRoute route, rctx_Hostnames = hostnames,
     rctx_DelegationChain = chain, rctx_Rule = rule, rctx_Match = view_match (ts_mem ts1) match, rctx_Reporter = reporter\<rparr>"
  have ad: "admits (rule_Filters (rctx_Rule ?ctx))" using r by (simp add: rule_ok_def)
  have wds: "list_all route_wf ds" using ds by (simp add: trans_ok_def)
  from applyPlugins_ok [OF ad o1 wds, of ts1] obtain out2 ds2 ts2 where
    pl: "fold_out (applyPluginAll ?ctx) plugins (out1, ds, ts1) = Inr (out2, ds2, ts2)" and
    p2: "ts_mem ts2 = ts_mem ts1" "rt_Options out2 \<noteq> None" "list_all route_wf ds2" by blast
  let ?mt = "translateGlooMatcher (view_match (ts_mem ts2) match)"
  have mt: "mt_PathSpecifier ?mt \<noteq> None"
    using ds p2(1) m im match_ok_grows by (intro translateGlooMatcher_path) (auto simp: trans_ok_def infos_ok_def)
  have t2: "trans_ok admits mm (outs @ ds2, ts2)"
    using t(1) ds p2 by (simp add: trans_ok_def)
  let ?fin = "if rt_Action out2 = None \<and> \<not> d then out2\<lparr>rt_Action := Some ErrorResponseAction\<rparr> else out2"
  have fin: "route_wf (?fin\<lparr>rt_Matchers := [?mt]\<rparr>)" if "rt_Action ?fin \<noteq> None"
    using mt p2(2) that by (simp add: route_wf_def)
  have "translateMatch rec plugins gwListener route rule ruleIdx reporter hostnames chain im s =
      Inr (outs @ ds2, rs @ [if rt_Action ?fin \<noteq> None then Some (?fin\<lparr>rt_Matchers := [?mt]\<rparr>) else None], ts2)"
    unfolding translateMatch_def s' im prod.case Let_def act bind_out_Inr pl ..
  moreover have "rule_state_ok admits mm
      (outs @ ds2, rs @ [if rt_Action ?fin \<noteq> None then Some (?fin\<lparr>rt_Matchers := [?mt]\<rparr>) else None], ts2)"
    using t(2) t2 fin unfolding rule_state_ok_def by (auto split: if_splits)
  ultimately show ?thesis by blast
qed

lemma translateRuleStep_ok:
  fixes rec :: "'x translate_rec"
  assumes rec: "\<forall>k < n. rec_ok admits k rec" and s: "trans_ok admits mm s" and p: "info_ok admits n mm route"
    and r: "rule_ok admits mm (snd ir)" "rule_Matches (snd ir) \<noteq> None"
  shows "\<exists>s'. translateRuleStep rec plugins gwListener route reporter hostnames chain ir s = Inr s' \<and> trans_ok admits mm s'"
proof -
  obtain outs ts where s': "s = (outs, ts)" by (cases s)
  obtain idx rule where ir: "ir = (idx, rule)" by (cases ir)
  have start: "rule_state_ok admits mm (outs, [], ts)" using s s' by (simp add: rule_state_ok_def)
  have ms: "match_ok mm (snd im)" if "im \<in> set (List.enumerate 0 (rule_matches rule))" for im
    using r(1) enumerate_snd [OF that] ir by (simp add: rule_ok_def)
  have "\<exists>s'. fold_out (translateMatch rec plugins gwListener route rule idx reporter hostnames chain)
      (List.enumerate 0 (rule_matches rule)) (outs, [], ts) = Inr s' \<and> rule_state_ok admits mm s'"
    using rec p ms r(1) ir start
    by (intro fold_out_returns [where P = "rule_state_ok admits mm"] translateMatch_ok) auto
  then obtain outs2 rs ts2 where f: "fold_out (translateMatch rec plugins gwListener route rule idx reporter hostnames chain)
      (List.enumerate 0 (rule_matches rule)) (outs, [], ts) = Inr (outs2, rs, ts2)"
    and ok: "rule_state_ok admits mm (outs2, rs, ts2)" by auto
  have "list_all route_wf (map the (filter (\<lambda>r. r \<noteq> None) rs))"
    using ok by (auto simp: rule_state_ok_def list_all_iff)
  then have "trans_ok admits mm (outs2 @ map the (filter (\<lambda>r. r \<noteq> None) rs), ts2)"
    using ok by (simp add: rule_state_ok_def trans_ok_def)
  moreover obtain ms where "rule_Matches rule = Some ms" using r(2) ir by auto
  ultimately show ?thesis
    using f unfolding translateRuleStep_def translateGatewayHTTPRouteRule_def ir s' prod.case Let_def by simp
qed

lemma translateUtil_ok: "n < fuel \<Longrightarrow> rec_ok admits n (translateGatewayHTTPRouteRulesUtil fuel plugins gwListener)"
proof (induction fuel arbitrary: n)
  case 0
  then show ?case by simp
next
  case (Suc fuel)
  let ?rec = "translateGatewayHTTPRouteRulesUtil fuel plugins gwListener"
  have rec: "\<forall>k < n. rec_ok admits k ?rec" using Suc by auto
  show ?case
    unfolding rec_ok_def
  proof (intro allI impI)
    fix info reporter hostnames chain mm and s :: "gloo_route list \<times> 'x trans_state"
    assume s: "trans_ok admits mm s" and i: "info_ok admits n (ts_mem (snd s)) info"
    let ?mm = "ts_mem (snd s)"
    have start: "trans_ok admits ?mm s" using s by (simp add: trans_ok_def)
    have rs: "rule_ok admits ?mm (snd ir) \<and> rule_Matches (snd ir) \<noteq> None"
      if "ir \<in> set (List.enumerate 0 (hr_Rules (hri_HTTPRoute info)))" for ir
      using i enumerate_snd [OF that] by (simp add: info_ok_def)
    have "\<exists>s'. fold_out (translateRuleStep ?rec plugins gwListener info reporter hostnames chain)
        (List.enumerate 0 (hr_Rules (hri_HTTPRoute info))) s = Inr s' \<and> trans_ok admits ?mm s'"
      using rec i rs start by (intro fold_out_returns [where P = "trans_ok admits ?mm"] translateRuleStep_ok) auto
    then show "\<exists>s'. translateGatewayHTTPRouteRulesUtil (Suc fuel) plugins gwListener info reporter hostnames chain s = Inr s' \<and>
        trans_ok admits mm s'"
      using s grows_trans by (fastforce simp: trans_ok_def)
  qed
qed

lemma TranslateGatewayHTTPRouteRules_ok:
  assumes "infos_ok admits mm" "info_ok admits n mm info" "n < fuel"
  shows "\<exists>outs mm' rm' x'. TranslateGatewayHTTPRouteRules fuel plugins gwListener info reporter (mm, rm, x) = Inr (outs, mm', rm', x') \<and>
    list_all route_wf outs \<and> infos_ok admits mm' \<and> grows mm mm'"
proof -
  let ?s = "([], \<lparr>ts_mem = mm, ts_reports = rm, ts_plug = x, ts_visited = {}\<rparr>)"
  have "trans_ok admits mm ?s" using assms(1) by (simp add: trans_ok_def)
  with translateUtil_ok [OF assms(3), of gwListener] assms(2) obtain outs ts where
    "translateGatewayHTTPRouteRulesUtil fuel plugins gwListener info reporter (hr_hostnames (hri_HTTPRoute info)) [] ?s = Inr (outs, ts)"
    "trans_ok admits mm (outs, ts)"
    unfolding rec_ok_def by fastforce
  then show ?thesis by (simp add: TranslateGatewayHTTPRouteRules_def trans_ok_def)
qed

end

end
