(* ===== verification/Plugins.thy ===== *)
theory Plugins
  imports HttpRouteProps
begin

text \<open>
  The route plugins for the filters of the Gateway API, \<open>translator/plugins\<close>: header modification,
  request mirroring, redirects, URL rewriting and direct responses, with their helpers
  \<open>plugins/utils\<close>, in the order in which the registry runs them. The plugin for \<open>RouteOption\<close> resources
  is an argument of the registry.

  The name of a Kubernetes service's upstream is made by \<open>SanitizeNameV2\<close> of another repository, the
  argument \<open>sanitize\<close>.
\<close>

section \<open>Helpers (plugins/utils)\<close>

definition FindAppliedRouteFilters :: "'sel route_context \<Rightarrow> string list \<Rightarrow> http_route_filter list" where
  "FindAppliedRouteFilters routeCtx filterTypes =
     concat (map (\<lambda>f. concat (map (\<lambda>t. if hrf_Type f = t then [f] else []) filterTypes)) (rule_Filters (rctx_Rule routeCtx)))"

definition FindAppliedRouteFilter :: "'sel route_context \<Rightarrow> string \<Rightarrow> http_route_filter option" where
  "FindAppliedRouteFilter routeCtx filterType = find (\<lambda>f. hrf_Type f = filterType) (rule_Filters (rctx_Rule routeCtx))"

definition FindExtensionRefFilters :: "'p http_route_rule \<Rightarrow> group_kind \<Rightarrow> http_route_filter list outcome" where
  "FindExtensionRefFilters rule gk =
     fold_out (\<lambda>f acc.
       if hrf_Type f = ''ExtensionRef''
       then bind_out (deref (hrf_ExtensionRef f)) (\<lambda>e.
         Inr (if lor_Group e = gk_Group gk \<and> lor_Kind e = gk_Kind gk then acc @ [f] else acc))
       else Inr acc) (rule_Filters rule) []"

text \<open>\<open>GetExtensionRefObj[T]\<close>; \<open>cast\<close> is the type assertion to \<open>T\<close> and \<open>tname\<close> the name of \<open>T\<close>.\<close>

definition ErrTypesNotEqual :: go_error where
  "ErrTypesNotEqual = ErrMsg ''types not equal''"

definition GetExtensionRefObjFrom ::
  "string \<Rightarrow> (k8s_object \<Rightarrow> 'a option) \<Rightarrow> 'sel k8s_client \<Rightarrow> ref_from \<Rightarrow> local_object_reference option \<Rightarrow> (go_error + 'a) outcome" where
  "GetExtensionRefObjFrom tname cast kc from extensionRef =
     bind_out (deref extensionRef) (\<lambda>ref.
       Inr (case GetLocalObjRef kc from ref of
              Inl e \<Rightarrow> Inl e
            | Inr obj \<Rightarrow> (case cast obj of Some t \<Rightarrow> Inr t | None \<Rightarrow> Inl (Detailed ErrTypesNotEqual
                (''generic object typeOf: '' @ [CHR 0x27] @ tname @ [CHR 0x27] @ '' localObj typeOf: '' @ [CHR 0x27] @ obj_type obj @ [CHR 0x27])))))"

definition GetExtensionRefObj ::
  "string \<Rightarrow> (k8s_object \<Rightarrow> 'a option) \<Rightarrow> route \<Rightarrow> 'sel k8s_client \<Rightarrow> local_object_reference option \<Rightarrow> (go_error + 'a) outcome" where
  "GetExtensionRefObj tname cast hr kc extensionRef = GetExtensionRefObjFrom tname cast kc (ObjToFrom kc hr) extensionRef"

section \<open>Header modification (headermodifier)\<close>

definition translateHeaders :: "http_header list \<Rightarrow> bool \<Rightarrow> header_value_option list" where
  "translateHeaders gwHeaders add = map (\<lambda>h. \<lparr>hvo_Key = hh_Name h, hvo_Value = hh_Value h, hvo_Append = add\<rparr>) gwHeaders"

definition requestHeadersToAdd :: "http_header list \<Rightarrow> http_header list \<Rightarrow> header_value_option list" where
  "requestHeadersToAdd add st = translateHeaders add True @ translateHeaders st False"

definition translateResponseHeaders :: "http_header list \<Rightarrow> bool \<Rightarrow> header_value_option list" where
  "translateResponseHeaders gwHeaders add = map (\<lambda>h. \<lparr>hvo_Key = hh_Name h, hvo_Value = hh_Value h, hvo_Append = add\<rparr>) gwHeaders"

definition responseHeadersToAdd :: "http_header list \<Rightarrow> http_header list \<Rightarrow> header_value_option list" where
  "responseHeadersToAdd add st = translateResponseHeaders add True @ translateResponseHeaders st False"

definition NewHeaderManipulation :: header_manipulation where
  "NewHeaderManipulation = \<lparr>hman_RequestHeadersToAdd = [], hman_RequestHeadersToRemove = [],
     hman_ResponseHeadersToAdd = [], hman_ResponseHeadersToRemove = []\<rparr>"

text \<open>\<open>outputRoute.GetOptions().GetHeaderManipulation()\<close>, which is nil-safe, or a new one.\<close>

definition headerManipulationOf :: "gloo_route \<Rightarrow> header_manipulation" where
  "headerManipulationOf r =
     (case rt_Options r of None \<Rightarrow> NewHeaderManipulation
      | Some opts \<Rightarrow> (case ro_HeaderManipulation opts of None \<Rightarrow> NewHeaderManipulation | Some h \<Rightarrow> h))"

text \<open>A write to a field of \<open>outputRoute.GetOptions()\<close>.\<close>

definition set_option :: "(route_options \<Rightarrow> route_options) \<Rightarrow> gloo_route \<Rightarrow> gloo_route outcome" where
  "set_option f r = bind_out (deref (rt_Options r)) (\<lambda>opts. Inr (r\<lparr>rt_Options := Some (f opts)\<rparr>))"

definition applyRequestFilter :: "http_header_filter option \<Rightarrow> gloo_route \<Rightarrow> (go_error option \<times> gloo_route) outcome" where
  "applyRequestFilter config outputRoute =
     (case config of
        None \<Rightarrow> Inr (Some (ErrMsg ''RequestHeaderModifier filter supplied does not define requestHeaderModifier''), outputRoute)
      | Some c \<Rightarrow>
         let h = (headerManipulationOf outputRoute)\<lparr>hman_RequestHeadersToAdd := requestHeadersToAdd (hf_Add c) (hf_Set c),
                    hman_RequestHeadersToRemove := hf_Remove c\<rparr>
         in bind_out (set_option (\<lambda>opts. opts\<lparr>ro_HeaderManipulation := Some h\<rparr>) outputRoute) (\<lambda>r. Inr (None, r)))"

definition applyResponseFilter :: "http_header_filter option \<Rightarrow> gloo_route \<Rightarrow> (go_error option \<times> gloo_route) outcome" where
  "applyResponseFilter config outputRoute =
     (case config of
        None \<Rightarrow> Inr (Some (ErrMsg ''Response filter supplied does not define requestHeaderModifier''), outputRoute)
      | Some c \<Rightarrow>
         let h = (headerManipulationOf outputRoute)\<lparr>hman_ResponseHeadersToAdd := responseHeadersToAdd (hf_Add c) (hf_Set c),
                    hman_ResponseHeadersToRemove := hf_Remove c\<rparr>
         in bind_out (set_option (\<lambda>opts. opts\<lparr>ro_HeaderManipulation := Some h\<rparr>) outputRoute) (\<lambda>r. Inr (None, r)))"

text \<open>The loop stops at the first error.\<close>

definition headerFilterStep :: "http_route_filter \<Rightarrow> go_error option \<times> gloo_route \<Rightarrow> (go_error option \<times> gloo_route) outcome" where
  "headerFilterStep f = (\<lambda>(err, r).
     if err \<noteq> None then Inr (err, r)
     else if hrf_Type f = ''RequestHeaderModifier'' then applyRequestFilter (hrf_RequestHeaderModifier f) r
     else if hrf_Type f = ''ResponseHeaderModifier'' then applyResponseFilter (hrf_ResponseHeaderModifier f) r
     else Inr (None, r))"

definition headermodifier :: "('sel, 'x) route_plugin" where
  "headermodifier routeCtx outputRoute s =
     bind_out (fold_out headerFilterStep (FindAppliedRouteFilters routeCtx [''RequestHeaderModifier'', ''ResponseHeaderModifier''])
         (None, outputRoute)) (\<lambda>(err, r). Inr (err, r, s))"

section \<open>Mirroring (mirror)\<close>

text \<open>\<open>kubernetes.DestinationToUpstreamRef\<close>, with the port printed as a signed 32-bit integer.\<close>

definition show_int :: "int \<Rightarrow> string" where
  "show_int i = (if i < 0 then ''-'' @ show_nat (nat (- i)) else show_nat (nat i))"

definition fakeUpstreamName :: "(string \<Rightarrow> string) \<Rightarrow> string \<Rightarrow> string \<Rightarrow> 32 word \<Rightarrow> string" where
  "fakeUpstreamName sanitize serviceName serviceNamespace port =
     ''kube-svc:'' @ sanitize (serviceNamespace @ ''-'' @ serviceName @ ''-'' @ show_int (sint port))"

definition DestinationToUpstreamRef :: "(string \<Rightarrow> string) \<Rightarrow> resource_ref \<Rightarrow> 32 word \<Rightarrow> resource_ref" where
  "DestinationToUpstreamRef sanitize ref port =
     \<lparr>rref_Name = fakeUpstreamName sanitize (rref_Name ref) (rref_Namespace ref) port, rref_Namespace = rref_Namespace ref\<rparr>"

definition mirror :: "(string \<Rightarrow> string) \<Rightarrow> 'sel k8s_client \<Rightarrow> ('sel, 'x) route_plugin" where
  "mirror sanitize kc routeCtx outputRoute s =
     (case FindAppliedRouteFilter routeCtx ''RequestMirror'' of
        None \<Rightarrow> Inr (None, outputRoute, s)
      | Some f \<Rightarrow>
       (case hrf_RequestMirror f of
          None \<Rightarrow> Inr (Some (ErrMsg ''RequestMirror filter supplied does not define requestMirror config''), outputRoute, s)
        | Some ref \<Rightarrow>
            if rt_Action outputRoute = None then Inr (Some (ErrMsg ''RequestMirror must have destinations''), outputRoute, s)
            else
              let res = GetBackendForRef kc (ObjToFrom kc (rctx_Route routeCtx)) ref;
                  (clusterName, rm) = ProcessBackendRef res (rctx_Reporter routeCtx) ref (fst s);
                  s = (rm, snd s)
              in case (clusterName, res) of
                   (Some name, Inr obj) \<Rightarrow>
                     let port = (case bor_Port ref of Some p \<Rightarrow> p | None \<Rightarrow> 0);
                         dest = \<lparr>rref_Name = name, rref_Namespace = obj_GetNamespace obj\<rparr>;
                         shadow = (\<lambda>u. bind_out (set_option (\<lambda>opts. opts\<lparr>ro_Shadowing := Some \<lparr>sh_Upstream = u, sh_Percentage = 100\<rparr>\<rparr>) outputRoute)
                            (\<lambda>r. Inr (None, r, s)))
                     in if RefIsService ref then shadow (DestinationToUpstreamRef sanitize dest port)
                        else if RefIsUpstream ref then shadow dest
                        else Inr (Some (ErrMsg ''unsupported backend type for mirror filter''), outputRoute, s)
                 | _ \<Rightarrow> Inr (None, outputRoute, s)))"

section \<open>Redirects (redirect)\<close>

definition translatePort :: "port_number option \<Rightarrow> 32 word option" where
  "translatePort port = port"

definition translateHostname :: "string option \<Rightarrow> string" where
  "translateHostname hostname = (case hostname of None \<Rightarrow> [] | Some h \<Rightarrow> h)"

definition translateStatusCode :: "int \<Rightarrow> redirect_code" where
  "translateStatusCode i =
     (if i = 301 then MOVED_PERMANENTLY else if i = 302 then FOUND else if i = 303 then SEE_OTHER
      else if i = 307 then TEMPORARY_REDIRECT else if i = 308 then PERMANENT_REDIRECT else FOUND)"

definition translatePathRewrite :: "http_path_modifier option \<Rightarrow> redirect_action \<Rightarrow> redirect_action outcome" where
  "translatePathRewrite pathRewrite a =
     (case pathRewrite of
        None \<Rightarrow> Inr a
      | Some m \<Rightarrow>
          if hpm_Type m = ''ReplaceFullPath''
          then bind_out (deref (hpm_ReplaceFullPath m)) (\<lambda>v. Inr (a\<lparr>ra_PathRewrite := Some (PathRedirect v)\<rparr>))
          else if hpm_Type m = ''ReplacePrefixMatch''
          then bind_out (deref (hpm_ReplacePrefixMatch m)) (\<lambda>v. Inr (a\<lparr>ra_PathRewrite := Some (PrefixRewrite v)\<rparr>))
          else Inr a)"

definition redirect :: "('sel, 'x) route_plugin" where
  "redirect routeCtx outputRoute s =
     (case FindAppliedRouteFilter routeCtx ''RequestRedirect'' of
        None \<Rightarrow> Inr (None, outputRoute, s)
      | Some f \<Rightarrow>
       (case hrf_RequestRedirect f of
          None \<Rightarrow> Inr (Some (ErrMsg ''RequestRedirect filter supplied does not define requestRedirect config''), outputRoute, s)
        | Some config \<Rightarrow>
            if rt_Action outputRoute \<noteq> None then Inr (Some (ErrMsg ''RequestRedirect route cannot have destinations''), outputRoute, s)
            else bind_out (deref (rr_StatusCode config)) (\<lambda>code.
              bind_out (translatePathRewrite (rr_Path config)
                 \<lparr>ra_HttpsRedirect = (case rr_Scheme config of None \<Rightarrow> False | Some sc \<Rightarrow> toLower sc = ''https''),
                  ra_HostRedirect = translateHostname (rr_Hostname config), ra_ResponseCode = translateStatusCode code,
                  ra_PortRedirect = translatePort (rr_Port config), ra_PathRewrite = None\<rparr>) (\<lambda>a.
                Inr (None, outputRoute\<lparr>rt_Action := Some (RedirectAction a)\<rparr>, s)))))"

section \<open>URL rewriting (urlrewrite)\<close>

definition rewritePath :: "'sel route_context \<Rightarrow> http_path_modifier option \<Rightarrow> gloo_route \<Rightarrow> (go_error option \<times> gloo_route) outcome" where
  "rewritePath routeCtx path outputRoute =
     (case path of
        None \<Rightarrow> Inr (None, outputRoute)
      | Some m \<Rightarrow>
          if hpm_Type m = ''ReplaceFullPath'' then
            (case hpm_ReplaceFullPath m of
               None \<Rightarrow> Inr (Some (ErrMsg ''UrlRewrite filter supplied with Full Path rewrite type, but no Full Path supplied''), outputRoute)
             | Some v \<Rightarrow> bind_out (set_option (\<lambda>opts. opts\<lparr>ro_RegexRewrite := Some \<lparr>rw_Regex = ''.*'', rw_Substitution = v\<rparr>\<rparr>) outputRoute)
                 (\<lambda>r. Inr (None, r)))
          else if hpm_Type m = ''ReplacePrefixMatch'' then
            (case hpm_ReplacePrefixMatch m of
               None \<Rightarrow> Inr (Some (ErrMsg ''UrlRewrite filter supplied with prefix rewrite type, but no prefix supplied''), outputRoute)
             | Some v \<Rightarrow>
                 (case hm_Path (rctx_Match routeCtx) of
                    Some p \<Rightarrow>
                     (case pm_Value p of
                        Some pv \<Rightarrow>
                          if v = ''/''
                          then bind_out (set_option (\<lambda>opts. opts\<lparr>ro_RegexRewrite :=
                             Some \<lparr>rw_Regex = ''^'' @ pv @ [CHR 0x5C, CHR ''/'', CHR ''*''], rw_Substitution = ''/''\<rparr>\<rparr>) outputRoute) (\<lambda>r. Inr (None, r))
                          else bind_out (set_option (\<lambda>opts. opts\<lparr>ro_PrefixRewrite := Some v\<rparr>) outputRoute) (\<lambda>r. Inr (None, r))
                      | None \<Rightarrow> bind_out (set_option (\<lambda>opts. opts\<lparr>ro_PrefixRewrite := Some v\<rparr>) outputRoute) (\<lambda>r. Inr (None, r)))
                  | None \<Rightarrow> bind_out (set_option (\<lambda>opts. opts\<lparr>ro_PrefixRewrite := Some v\<rparr>) outputRoute) (\<lambda>r. Inr (None, r))))
          else Inr (None, outputRoute))"

definition urlrewrite :: "('sel, 'x) route_plugin" where
  "urlrewrite routeCtx outputRoute s =
     (case FindAppliedRouteFilter routeCtx ''URLRewrite'' of
        None \<Rightarrow> Inr (None, outputRoute, s)
      | Some f \<Rightarrow>
       (case hrf_URLRewrite f of
          None \<Rightarrow> Inr (Some (ErrMsg ''UrlRewrite filter supplied does not define urlRewrite config''), outputRoute, s)
        | Some config \<Rightarrow>
            bind_out (case ur_Hostname config of
                 None \<Rightarrow> Inr outputRoute
               | Some h \<Rightarrow> set_option (\<lambda>opts. opts\<lparr>ro_HostRewriteType := Some (HostRewrite h)\<rparr>) outputRoute) (\<lambda>r.
              bind_out (rewritePath routeCtx (ur_Path config) r) (\<lambda>(err, r). Inr (err, r, s)))))"

section \<open>Direct responses (directresponse)\<close>

definition DirectResponseGK :: group_kind where
  "DirectResponseGK = GroupKind ''gateway.gloo.solo.io'' ''DirectResponse''"

fun as_DirectResponse :: "k8s_object \<Rightarrow> direct_response option" where
  "as_DirectResponse (ObjDirectResponse d) = Some d"
| "as_DirectResponse _ = None"

fun action_type :: "action \<Rightarrow> string" where
  "action_type (RouteAction _) = ''*v1.Route_RouteAction''"
| "action_type (RedirectAction _) = ''*v1.Route_RedirectAction''"
| "action_type (DirectResponseAction _) = ''*v1.Route_DirectResponseAction''"

definition not_accepted :: "string \<Rightarrow> report_condition" where
  "not_accepted msg = \<lparr>rc_Type = ''Accepted'', rc_Status = ConditionFalse, rc_Reason = ''IncompatibleFilters'', rc_Message = msg\<rparr>"

definition directresponse :: "'sel k8s_client \<Rightarrow> ('sel, 'x) route_plugin" where
  "directresponse kc routeCtx outputRoute s =
     bind_out (FindExtensionRefFilters (rctx_Rule routeCtx) DirectResponseGK) (\<lambda>filters.
       case filters of
         [] \<Rightarrow> Inr (None, outputRoute, s)
       | f # others \<Rightarrow>
           if others \<noteq> [] then
             let errMsg = ''multiple DirectResponse extension refs found. expected 1, found '' @ show_nat (length filters)
             in Inr (Some (ErrMsg errMsg), outputRoute\<lparr>rt_Action := Some ErrorResponseAction\<rparr>,
                     prr_SetCondition (rctx_Reporter routeCtx) (not_accepted errMsg) (fst s), snd s)
           else bind_out (GetExtensionRefObj ''*v1alpha1.DirectResponse'' as_DirectResponse (rctx_Route routeCtx) kc (hrf_ExtensionRef f)) (\<lambda>res.
             case res of
               Inl err \<Rightarrow> Inr (Some err, outputRoute\<lparr>rt_Action := Some ErrorResponseAction\<rparr>,
                  prr_SetCondition (rctx_Reporter routeCtx) (unresolved ''BackendNotFound'' (err_Error err)) (fst s), snd s)
             | Inr dr \<Rightarrow>
                (case rt_Action outputRoute of
                   Some a \<Rightarrow>
                     let errMsg = ''DirectResponse cannot be applied to route with existing action: '' @ action_type a
                     in Inr (Some (ErrMsg errMsg), outputRoute\<lparr>rt_Action := Some ErrorResponseAction\<rparr>,
                        prr_SetCondition (rctx_Reporter routeCtx) (not_accepted errMsg) (fst s), snd s)
                 | None \<Rightarrow> Inr (None, outputRoute\<lparr>rt_Action := Some (DirectResponseAction
                        \<lparr>dra_Status = dr_StatusCode dr, dra_Body = dr_Body dr\<rparr>)\<rparr>, s))))"

section \<open>The registry (registry/plugin_registry.go)\<close>

definition route_plugins_of ::
  "(string \<Rightarrow> string) \<Rightarrow> 'sel k8s_client \<Rightarrow> ('sel, 'x) route_plugin \<Rightarrow> ('sel, 'x) route_plugin list" where
  "route_plugins_of sanitize kc routeoptions =
     [headermodifier, mirror sanitize kc, redirect, routeoptions, urlrewrite, directresponse kc]"

end
