(* ===== verification/PluginsProps.thy ===== *)
theory PluginsProps
  imports Plugins
begin

text \<open>
  Properties of the route plugins: each of them, and with them the registry, meets the contract
  \<open>route_plugins\<close> the translator relies on, and what each does to a route.
\<close>

section \<open>The contract\<close>

definition plugin_contract :: "(http_route_filter list \<Rightarrow> bool) \<Rightarrow> ('sel, 'x) route_plugin \<Rightarrow> bool" where
  "plugin_contract A p \<longleftrightarrow>
     (\<forall>ctx r s. A (rule_Filters (rctx_Rule ctx)) \<longrightarrow> rt_Options r \<noteq> None \<longrightarrow> (\<exists>e r' s'. p ctx r s = Inr (e, r', s'))) \<and>
     (\<forall>ctx r s e r' s'. p ctx r s = Inr (e, r', s') \<longrightarrow> rt_Matchers r' = rt_Matchers r \<and>
        (rt_Action r \<noteq> None \<longrightarrow> rt_Action r' \<noteq> None) \<and> (rt_Options r \<noteq> None \<longrightarrow> rt_Options r' \<noteq> None))"

lemma plugin_contractD:
  assumes "plugin_contract A p"
  shows "A (rule_Filters (rctx_Rule ctx)) \<Longrightarrow> rt_Options r \<noteq> None \<Longrightarrow> \<exists>e r' s'. p ctx r s = Inr (e, r', s')"
    and "p ctx r s = Inr (e, r', s') \<Longrightarrow> rt_Matchers r' = rt_Matchers r"
    and "p ctx r s = Inr (e, r', s') \<Longrightarrow> rt_Action r \<noteq> None \<Longrightarrow> rt_Action r' \<noteq> None"
    and "p ctx r s = Inr (e, r', s') \<Longrightarrow> rt_Options r \<noteq> None \<Longrightarrow> rt_Options r' \<noteq> None"
  using assms [unfolded plugin_contract_def, THEN conjunct1, rule_format, of ctx r s]
    assms [unfolded plugin_contract_def, THEN conjunct2, rule_format, of ctx r s e r' s'] by simp_all

lemma plugin_contractI:
  assumes "\<And>ctx r s. A (rule_Filters (rctx_Rule ctx)) \<Longrightarrow> rt_Options r \<noteq> None \<Longrightarrow> \<exists>e r' s'. p ctx r s = Inr (e, r', s')"
    and "\<And>ctx r s e r' s'. p ctx r s = Inr (e, r', s') \<Longrightarrow> rt_Matchers r' = rt_Matchers r"
    and "\<And>ctx r s e r' s'. p ctx r s = Inr (e, r', s') \<Longrightarrow> rt_Action r \<noteq> None \<Longrightarrow> rt_Action r' \<noteq> None"
    and "\<And>ctx r s e r' s'. p ctx r s = Inr (e, r', s') \<Longrightarrow> rt_Options r \<noteq> None \<Longrightarrow> rt_Options r' \<noteq> None"
  shows "plugin_contract A p"
  unfolding plugin_contract_def by (intro conjI allI impI; rule assms; assumption)

lemma route_plugins_of_contracts:
  assumes "\<forall>p \<in> set ps. plugin_contract A p"
  shows "route_plugins ps A"
  by unfold_locales (rule plugin_contractD [OF bspec [OF assms]]; assumption)+

text \<open>The filters the API server admits: a redirect has a status code (it is defaulted) and the value
  its path modifier names, and an extension filter has its reference.\<close>

definition modifier_set :: "http_path_modifier option \<Rightarrow> bool" where
  "modifier_set m \<longleftrightarrow> (case m of None \<Rightarrow> True | Some m \<Rightarrow>
     (hpm_Type m = ''ReplaceFullPath'' \<longrightarrow> hpm_ReplaceFullPath m \<noteq> None) \<and>
     (hpm_Type m = ''ReplacePrefixMatch'' \<longrightarrow> hpm_ReplacePrefixMatch m \<noteq> None))"

definition filter_admitted :: "http_route_filter \<Rightarrow> bool" where
  "filter_admitted f \<longleftrightarrow>
     (hrf_Type f = ''RequestRedirect'' \<longrightarrow> (case hrf_RequestRedirect f of None \<Rightarrow> True
        | Some c \<Rightarrow> rr_StatusCode c \<noteq> None \<and> modifier_set (rr_Path c))) \<and>
     (hrf_Type f = ''ExtensionRef'' \<longrightarrow> hrf_ExtensionRef f \<noteq> None)"

definition filters_admitted :: "http_route_filter list \<Rightarrow> bool" where
  "filters_admitted fs \<longleftrightarrow> list_all filter_admitted fs"

lemma set_option_InrE:
  assumes "set_option f r = Inr r'"
  obtains opts where "rt_Options r = Some opts" "r' = r\<lparr>rt_Options := Some (f opts)\<rparr>"
  using assms by (auto simp: set_option_def elim!: bind_out_InrE)

lemma set_option_returns: "rt_Options r = Some opts \<Longrightarrow> set_option f r = Inr (r\<lparr>rt_Options := Some (f opts)\<rparr>)"
  by (simp add: set_option_def)

text \<open>A route with other options only.\<close>

definition options_only :: "gloo_route \<Rightarrow> gloo_route \<Rightarrow> bool" where
  "options_only r r' \<longleftrightarrow> (\<exists>opts. r' = r\<lparr>rt_Options := opts\<rparr> \<and> (rt_Options r \<noteq> None \<longrightarrow> opts \<noteq> None))"

lemma options_only_refl [simp]: "options_only r r"
  unfolding options_only_def by (rule exI [of _ "rt_Options r"]) simp

lemma options_only_trans: "options_only r r1 \<Longrightarrow> options_only r1 r2 \<Longrightarrow> options_only r r2"
  unfolding options_only_def by fastforce

lemma set_option_only: "set_option f r = Inr r' \<Longrightarrow> options_only r r'"
  by (elim set_option_InrE) (auto simp: options_only_def)

lemma options_only_fields: "options_only r r' \<Longrightarrow> rt_Matchers r' = rt_Matchers r \<and> rt_Action r' = rt_Action r \<and>
    (rt_Options r \<noteq> None \<longrightarrow> rt_Options r' \<noteq> None)"
  by (auto simp: options_only_def)

lemma find_admitted: "filters_admitted fs \<Longrightarrow> find P fs = Some f \<Longrightarrow> filter_admitted f \<and> P f"
  by (auto simp: filters_admitted_def list_all_iff find_Some_iff)

lemma plugin_contract_options:
  assumes "\<And>ctx r s. rt_Options r \<noteq> None \<Longrightarrow> \<exists>e r' s'. p ctx r s = Inr (e, r', s')"
    and only: "\<And>ctx r s e r' s'. p ctx r s = Inr (e, r', s') \<Longrightarrow> options_only r r'"
  shows "plugin_contract A p"
proof (rule plugin_contractI)
  show "\<exists>e r' s'. p ctx r s = Inr (e, r', s')" if "rt_Options r \<noteq> None" for ctx r s
    by (rule assms(1) [OF that])
  fix ctx r s e r' s'
  assume "p ctx r s = Inr (e, r', s')"
  note o = options_only_fields [OF only [OF this]]
  show "rt_Matchers r' = rt_Matchers r" using o by simp
  show "rt_Action r' \<noteq> None" if "rt_Action r \<noteq> None" using o that by simp
  show "rt_Options r' \<noteq> None" if "rt_Options r \<noteq> None" using o that by simp
qed

section \<open>Header modification\<close>

lemma headerFilterStep_only:
  assumes "headerFilterStep f (e, r) = Inr (e', r')"
  shows "options_only r r'"
  using assms
  by (auto simp: headerFilterStep_def applyRequestFilter_def applyResponseFilter_def Let_def
      split: if_splits option.splits elim!: bind_out_InrE dest: set_option_only)

lemma headerFilterStep_returns:
  assumes "rt_Options r \<noteq> None"
  shows "\<exists>e' r'. headerFilterStep f (e, r) = Inr (e', r') \<and> rt_Options r' \<noteq> None"
  using assms
  by (auto simp: headerFilterStep_def applyRequestFilter_def applyResponseFilter_def Let_def set_option_def
      split: option.split)

lemma headermodifier_only: "headermodifier ctx r s = Inr (e, r', s') \<Longrightarrow> options_only r r' \<and> s' = s"
proof -
  assume "headermodifier ctx r s = Inr (e, r', s')"
  then have f: "fold_out headerFilterStep (FindAppliedRouteFilters ctx [''RequestHeaderModifier'', ''ResponseHeaderModifier'']) (None, r) = Inr (e, r')"
    and s: "s' = s"
    by (auto simp: headermodifier_def elim!: bind_out_InrE)
  have "(\<lambda>(e, r'). options_only r r') (e, r')"
    by (rule fold_out_invariant [where P = "\<lambda>(e, r'). options_only r r'", OF _ _ f])
      (auto intro: options_only_trans dest: headerFilterStep_only)
  with s show ?thesis by simp
qed

lemma headermodifier_contract: "plugin_contract A headermodifier"
proof (rule plugin_contract_options)
  fix ctx :: "'a route_context" and r :: gloo_route and s :: "'b plugin_state"
  assume r: "rt_Options r \<noteq> None"
  have "\<exists>x. fold_out headerFilterStep (FindAppliedRouteFilters ctx [''RequestHeaderModifier'', ''ResponseHeaderModifier'']) (None, r) = Inr x \<and>
      rt_Options (snd x) \<noteq> None"
    by (rule fold_out_returns [where P = "\<lambda>x. rt_Options (snd x) \<noteq> None"])
      (use r headerFilterStep_returns in \<open>auto simp: split_paired_all\<close>)
  then show "\<exists>e r' s'. headermodifier ctx r s = Inr (e, r', s')" by (auto simp: headermodifier_def)
qed (rule headermodifier_only [THEN conjunct1])

section \<open>The other plugins\<close>

lemma mirror_only: "mirror sanitize kc ctx r s = Inr (e, r', s') \<Longrightarrow> options_only r r'"
  by (auto simp: mirror_def Let_def split: option.splits if_splits sum.splits prod.splits
      elim!: bind_out_InrE dest: set_option_only)

lemma mirror_contract: "plugin_contract A (mirror sanitize kc)"
proof (rule plugin_contract_options)
  fix ctx :: "'a route_context" and r :: gloo_route and s :: "'b plugin_state"
  assume r: "rt_Options r \<noteq> None"
  then obtain opts where "rt_Options r = Some opts" by auto
  then show "\<exists>e r' s'. mirror sanitize kc ctx r s = Inr (e, r', s')"
    by (auto simp: mirror_def Let_def set_option_returns split: option.split sum.split prod.split)
qed (rule mirror_only)

lemma translatePathRewrite_returns: "modifier_set m \<Longrightarrow> \<exists>a'. translatePathRewrite m a = Inr a'"
  by (auto simp: translatePathRewrite_def modifier_set_def split: option.splits)

lemma redirect_contract: "plugin_contract filters_admitted redirect"
proof (rule plugin_contractI)
  fix ctx :: "'a route_context" and r :: gloo_route and s :: "'b plugin_state"
  assume a: "filters_admitted (rule_Filters (rctx_Rule ctx))"
  show "\<exists>e r' s'. redirect ctx r s = Inr (e, r', s')"
  proof (cases "FindAppliedRouteFilter ctx ''RequestRedirect''")
    case None
    then show ?thesis by (simp add: redirect_def)
  next
    case (Some f)
    with find_admitted [OF a] have f: "filter_admitted f" "hrf_Type f = ''RequestRedirect''"
      by (auto simp: FindAppliedRouteFilter_def)
    show ?thesis
    proof (cases "hrf_RequestRedirect f")
      case None
      with Some show ?thesis by (simp add: redirect_def)
    next
      case c: (Some c)
      then obtain code where "rr_StatusCode c = Some code" and m: "modifier_set (rr_Path c)"
        using f by (auto simp: filter_admitted_def)
      moreover obtain a where "translatePathRewrite (rr_Path c)
          \<lparr>ra_HttpsRedirect = (case rr_Scheme c of None \<Rightarrow> False | Some sc \<Rightarrow> toLower sc = ''https''),
           ra_HostRedirect = translateHostname (rr_Hostname c), ra_ResponseCode = translateStatusCode code,
           ra_PortRedirect = translatePort (rr_Port c), ra_PathRewrite = None\<rparr> = Inr a"
        using translatePathRewrite_returns [OF m] by blast
      ultimately show ?thesis using Some c by (simp add: redirect_def)
    qed
  qed
qed (auto simp: redirect_def split: option.splits if_splits elim!: bind_out_InrE)

lemma rewritePath_only: "rewritePath ctx m r = Inr (e, r') \<Longrightarrow> options_only r r'"
  by (auto simp: rewritePath_def split: option.splits if_splits elim!: bind_out_InrE dest: set_option_only)

lemma rewritePath_returns: "rt_Options r = Some opts \<Longrightarrow> \<exists>e r'. rewritePath ctx m r = Inr (e, r')"
  by (auto simp: rewritePath_def set_option_returns split: option.split)

lemma urlrewrite_only: "urlrewrite ctx r s = Inr (e, r', s') \<Longrightarrow> options_only r r'"
  by (auto simp: urlrewrite_def split: option.splits elim!: bind_out_InrE
      dest!: set_option_only rewritePath_only intro: options_only_trans)

lemma urlrewrite_contract: "plugin_contract A urlrewrite"
proof (rule plugin_contract_options)
  fix ctx :: "'a route_context" and r :: gloo_route and s :: "'b plugin_state"
  assume r: "rt_Options r \<noteq> None"
  have "\<exists>e r' s'. bind_out (rewritePath ctx m r1) (\<lambda>(err, r). Inr (err, r, s)) = Inr (e, r', s')" if "rt_Options r1 \<noteq> None" for m r1
  proof -
    from that obtain opts where "rt_Options r1 = Some opts" by auto
    from rewritePath_returns [OF this] obtain e r' where "rewritePath ctx m r1 = Inr (e, r')" by blast
    then show ?thesis by simp
  qed
  with r show "\<exists>e r' s'. urlrewrite ctx r s = Inr (e, r', s')"
    by (auto simp: urlrewrite_def set_option_def split: option.split)
qed (rule urlrewrite_only)

lemma FindExtensionRefFilters_eq:
  assumes "filters_admitted (rule_Filters rule)"
  shows "FindExtensionRefFilters rule gk =
    Inr (filter (\<lambda>f. hrf_Type f = ''ExtensionRef'' \<and> lor_Group (the (hrf_ExtensionRef f)) = gk_Group gk \<and>
       lor_Kind (the (hrf_ExtensionRef f)) = gk_Kind gk) (rule_Filters rule))"
proof -
  let ?step = "\<lambda>f acc. if hrf_Type f = ''ExtensionRef'' then bind_out (deref (hrf_ExtensionRef f)) (\<lambda>e.
       Inr (if lor_Group e = gk_Group gk \<and> lor_Kind e = gk_Kind gk then acc @ [f] else acc)) else Inr acc"
  have "fold_out ?step fs acc = Inr (acc @ filter (\<lambda>f. hrf_Type f = ''ExtensionRef'' \<and>
      lor_Group (the (hrf_ExtensionRef f)) = gk_Group gk \<and> lor_Kind (the (hrf_ExtensionRef f)) = gk_Kind gk) fs)"
    if "filters_admitted fs" for fs acc
    using that by (induction fs arbitrary: acc) (auto simp: filters_admitted_def filter_admitted_def)
  from this [OF assms, of "[]"] show ?thesis by (simp add: FindExtensionRefFilters_def)
qed

lemma directresponse_contract: "plugin_contract filters_admitted (directresponse kc)"
proof (rule plugin_contractI)
  fix ctx :: "'a route_context" and r :: gloo_route and s :: "'b plugin_state"
  assume a: "filters_admitted (rule_Filters (rctx_Rule ctx))"
  let ?fs = "filter (\<lambda>f. hrf_Type f = ''ExtensionRef'' \<and> lor_Group (the (hrf_ExtensionRef f)) = gk_Group DirectResponseGK \<and>
       lor_Kind (the (hrf_ExtensionRef f)) = gk_Kind DirectResponseGK) (rule_Filters (rctx_Rule ctx))"
  have e: "FindExtensionRefFilters (rctx_Rule ctx) DirectResponseGK = Inr ?fs" by (rule FindExtensionRefFilters_eq [OF a])
  show "\<exists>e r' s'. directresponse kc ctx r s = Inr (e, r', s')"
  proof (cases ?fs)
    case Nil
    with e show ?thesis by (simp add: directresponse_def)
  next
    case (Cons f others)
    then have "f \<in> set ?fs" by simp
    then have "hrf_ExtensionRef f \<noteq> None"
      using a by (auto simp: filters_admitted_def list_all_iff filter_admitted_def)
    then obtain ref where "hrf_ExtensionRef f = Some ref" by auto
    with e Cons show ?thesis
      by (auto simp: directresponse_def GetExtensionRefObj_def GetExtensionRefObjFrom_def Let_def split: sum.split option.split)
  qed
qed (auto simp: directresponse_def Let_def split: list.splits if_splits sum.splits option.splits elim!: bind_out_InrE)

lemma registry_contract:
  assumes "plugin_contract filters_admitted routeoptions"
  shows "route_plugins (route_plugins_of sanitize kc routeoptions) filters_admitted"
  by (rule route_plugins_of_contracts) (simp add: route_plugins_of_def assms headermodifier_contract mirror_contract redirect_contract urlrewrite_contract directresponse_contract)

text \<open>The registry without \<open>RouteOption\<close> resources, where that plugin does nothing.\<close>

definition no_routeoptions :: "('sel, 'x) route_plugin" where
  "no_routeoptions ctx r s = Inr (None, r, s)"

lemma no_routeoptions_contract: "plugin_contract A no_routeoptions"
  by (rule plugin_contractI) (auto simp: no_routeoptions_def)

interpretation builtin: route_plugins "route_plugins_of sanitize kc no_routeoptions" filters_admitted for sanitize kc
  by (rule registry_contract [OF no_routeoptions_contract])

section \<open>Properties\<close>

text \<open>C32. Translating a well-formed route with the registered plugins always returns, however deep the
  delegation, and every route it gives has exactly one matcher, with a path, an action and options;
  the memory stays well formed for the routes translated after it.\<close>

theorem TranslateGatewayHTTPRouteRules_total:
  assumes "plugin_contract filters_admitted routeoptions"
    and "infos_ok filters_admitted mm" "info_ok filters_admitted n mm info" "n < fuel"
  shows "\<exists>outs mm' rm' x'. TranslateGatewayHTTPRouteRules fuel (route_plugins_of sanitize kc routeoptions)
      gwListener info reporter (mm, rm, x) = Inr (outs, mm', rm', x') \<and>
    list_all route_wf outs \<and> infos_ok filters_admitted mm' \<and> grows mm mm'"
  by (rule route_plugins.TranslateGatewayHTTPRouteRules_ok [OF registry_contract [OF assms(1)] assms(2-4)])

lemma false_condition:
  "\<exists>c. rc_Status c = ConditionFalse \<and> prr_SetCondition R (not_accepted m) x = prr_SetCondition R c x"
  "\<exists>c. rc_Status c = ConditionFalse \<and> prr_SetCondition R (unresolved reason m) x = prr_SetCondition R c x"
  by (rule exI [of _ "not_accepted m"], simp add: not_accepted_def)
    (rule exI [of _ "unresolved reason m"], simp add: unresolved_def)

text \<open>The direct response plugin fails closed: whenever it reports an error, the route answers 500 and
  a condition is reported on the route; without an error, either no direct response applies and the
  route is unchanged, or the route had no action and answers with the status and body of the
  referenced resource.\<close>

theorem directresponse_fails_closed:
  assumes run: "directresponse kc ctx r s = Inr (e, r', s')"
  shows "(case e of
      Some err \<Rightarrow> r' = r\<lparr>rt_Action := Some ErrorResponseAction\<rparr> \<and> snd s' = snd s \<and>
        (\<exists>c. rc_Status c = ConditionFalse \<and> fst s' = prr_SetCondition (rctx_Reporter ctx) c (fst s))
    | None \<Rightarrow> s' = s \<and> (FindExtensionRefFilters (rctx_Rule ctx) DirectResponseGK = Inr [] \<and> r' = r \<or>
        (\<exists>f dr. FindExtensionRefFilters (rctx_Rule ctx) DirectResponseGK = Inr [f] \<and>
           GetExtensionRefObj ''*v1alpha1.DirectResponse'' as_DirectResponse (rctx_Route ctx) kc (hrf_ExtensionRef f) = Inr (Inr dr) \<and>
           rt_Action r = None \<and>
           r' = r\<lparr>rt_Action := Some (DirectResponseAction \<lparr>dra_Status = dr_StatusCode dr, dra_Body = dr_Body dr\<rparr>)\<rparr>)))"
proof -
  from run obtain fs where fs: "FindExtensionRefFilters (rctx_Rule ctx) DirectResponseGK = Inr fs"
    by (auto simp: directresponse_def elim!: bind_out_InrE)
  show ?thesis
  proof (cases fs)
    case Nil
    with run fs show ?thesis by (auto simp: directresponse_def)
  next
    case (Cons f others)
    show ?thesis
    proof (cases "others = []")
      case False
      with run fs Cons show ?thesis by (auto simp: directresponse_def Let_def intro!: false_condition)
    next
      case True
      with run fs Cons show ?thesis
        by (auto simp: directresponse_def Let_def elim!: bind_out_InrE split: sum.splits option.splits intro!: false_condition)
    qed
  qed
qed

text \<open>A redirect never replaces an action: it takes effect exactly on a route without one, with the
  scheme, host, port and response code of the filter (302 for a code it does not know).\<close>

theorem redirect_correct:
  assumes "FindAppliedRouteFilter ctx ''RequestRedirect'' = Some f" "hrf_RequestRedirect f = Some c"
    and "rr_StatusCode c = Some code" "modifier_set (rr_Path c)"
  shows "\<exists>a. ra_ResponseCode a = translateStatusCode code \<and> ra_PortRedirect a = rr_Port c \<and>
      ra_HostRedirect a = (case rr_Hostname c of None \<Rightarrow> [] | Some h \<Rightarrow> h) \<and>
      ra_PathRewrite a = (case rr_Path c of None \<Rightarrow> None | Some m \<Rightarrow>
        if hpm_Type m = ''ReplaceFullPath'' then map_option PathRedirect (hpm_ReplaceFullPath m)
        else if hpm_Type m = ''ReplacePrefixMatch'' then map_option PrefixRewrite (hpm_ReplacePrefixMatch m) else None) \<and>
    redirect ctx r s = Inr (case rt_Action r of
        None \<Rightarrow> (None, r\<lparr>rt_Action := Some (RedirectAction a)\<rparr>, s)
      | Some _ \<Rightarrow> (Some (ErrMsg ''RequestRedirect route cannot have destinations''), r, s))"
proof -
  let ?a0 = "\<lparr>ra_HttpsRedirect = (case rr_Scheme c of None \<Rightarrow> False | Some sc \<Rightarrow> toLower sc = ''https''),
     ra_HostRedirect = translateHostname (rr_Hostname c), ra_ResponseCode = translateStatusCode code,
     ra_PortRedirect = translatePort (rr_Port c), ra_PathRewrite = None\<rparr>"
  from translatePathRewrite_returns [OF assms(4)] obtain a where a: "translatePathRewrite (rr_Path c) ?a0 = Inr a" by blast
  have pr: "ra_PathRewrite a = (case rr_Path c of None \<Rightarrow> None | Some m \<Rightarrow>
        if hpm_Type m = ''ReplaceFullPath'' then map_option PathRedirect (hpm_ReplaceFullPath m)
        else if hpm_Type m = ''ReplacePrefixMatch'' then map_option PrefixRewrite (hpm_ReplacePrefixMatch m) else None)"
    using a by (auto simp: translatePathRewrite_def split: option.splits if_splits elim!: bind_out_InrE)
  have "ra_ResponseCode a = translateStatusCode code \<and> ra_PortRedirect a = translatePort (rr_Port c) \<and>
      ra_HostRedirect a = translateHostname (rr_Hostname c)"
    using a by (auto simp: translatePathRewrite_def split: option.splits if_splits elim!: bind_out_InrE)
  with pr show ?thesis
    using assms a by (intro exI [of _ a]) (simp add: redirect_def translatePort_def translateHostname_def split: option.split)
qed

section \<open>Witnesses\<close>

definition p_filter :: "string \<Rightarrow> http_route_filter" where
  "p_filter t = \<lparr>hrf_Type = t, hrf_RequestHeaderModifier = None, hrf_ResponseHeaderModifier = None, hrf_RequestMirror = None,
     hrf_RequestRedirect = None, hrf_URLRewrite = None, hrf_ExtensionRef = None\<rparr>"

definition p_ref :: parent_ref_reporter where
  "p_ref = (NamespacedName ''ns'' ''r'', getParentRefKey q_parent_ref)"

definition p_ctx :: "http_route_filter list \<Rightarrow> unit route_context" where
  "p_ctx fs = \<lparr>rctx_Listener = q_listener None, rctx_Route = q_parent, rctx_Hostnames = [], rctx_DelegationChain = [],
     rctx_Rule = (q_rule [])\<lparr>rule_Filters := fs\<rparr>,
     rctx_Match = \<lparr>hm_Path = Some (d_path ''/a''), hm_Headers = [], hm_QueryParams = [], hm_Method = None\<rparr>, rctx_Reporter = p_ref\<rparr>"

definition p_route :: gloo_route where
  "p_route = \<lparr>rt_Name = ''r'', rt_Matchers = [], rt_Action = None, rt_Options = Some NewRouteOptions, rt_Sources = None\<rparr>"

definition p_info :: http_route_info where
  "p_info = \<lparr>hri_HTTPRoute = q_route ''r'' [q_parent_ref] None [(q_rule [q_service])\<lparr>rule_Matches := Some [d_match (Some 0)]\<rparr>],
     hri_ParentRef = q_parent_ref, hri_HostnameOverrides = [], hri_Backends = NewBackendMap, hri_Children = NewBackendMap\<rparr>"

theorem TranslateGatewayHTTPRouteRules_total_witness:
  "\<exists>outs mm' rm' x'. TranslateGatewayHTTPRouteRules 1 (route_plugins_of id q_client no_routeoptions) (q_listener None) p_info p_ref
      (\<lparr>mem_paths = [d_path ''/a''], mem_infos = []\<rparr>, NewReportMap, ()) = Inr (outs, mm', rm', x') \<and> list_all route_wf outs"
proof -
  let ?mm = "\<lparr>mem_paths = [d_path ''/a''], mem_infos = []\<rparr>"
  have "infos_ok filters_admitted ?mm"
    by (simp add: infos_ok_def paths_good_def path_good_def mem_wf_def d_path_def)
  moreover have "info_ok filters_admitted 0 ?mm p_info"
    by (simp add: info_ok_def p_info_def q_route_def q_rule_def rule_ok_def rule_matches_def match_ok_def d_match_def
        filters_admitted_def backend_ok_def RefIsService_def q_service_def q_ref_def)
  ultimately show ?thesis
    using TranslateGatewayHTTPRouteRules_total [OF no_routeoptions_contract, of ?mm 0 p_info 1 id q_client "q_listener None" p_ref NewReportMap "()"]
    by auto
qed

theorem directresponse_fails_closed_witness:
  "\<exists>e r' s'. directresponse q_client (p_ctx [(p_filter ''ExtensionRef'')\<lparr>hrf_ExtensionRef :=
       Some \<lparr>lor_Group = ''gateway.gloo.solo.io'', lor_Kind = ''DirectResponse'', lor_Name = ''missing''\<rparr>\<rparr>]) p_route (NewReportMap, ()) =
     Inr (Some e, r', s') \<and> rt_Action r' = Some ErrorResponseAction"
proof -
  let ?ctx = "p_ctx [(p_filter ''ExtensionRef'')\<lparr>hrf_ExtensionRef :=
       Some \<lparr>lor_Group = ''gateway.gloo.solo.io'', lor_Kind = ''DirectResponse'', lor_Name = ''missing''\<rparr>\<rparr>]"
  obtain e r' s' where r: "directresponse q_client ?ctx p_route (NewReportMap, ()) = Inr (Some e, r', s')"
    by (simp add: directresponse_def FindExtensionRefFilters_def GetExtensionRefObj_def GetExtensionRefObjFrom_def GetLocalObjRef_def
        getRef_def DirectResponseGK_def ObjToFrom_def p_ctx_def p_filter_def p_route_def q_defs)
  from directresponse_fails_closed [OF this] have "rt_Action r' = Some ErrorResponseAction" by auto
  with r show ?thesis by (intro exI conjI)
qed

definition p_redirect :: http_route_filter where
  "p_redirect = (p_filter ''RequestRedirect'')\<lparr>hrf_RequestRedirect := Some \<lparr>rr_Scheme = Some ''HTTPS'', rr_Hostname = None,
     rr_Path = None, rr_Port = Some 8443, rr_StatusCode = Some 301\<rparr>\<rparr>"

theorem redirect_correct_witness:
  "\<exists>a. ra_ResponseCode a = MOVED_PERMANENTLY \<and> ra_PortRedirect a = Some 8443 \<and>
     redirect (p_ctx [p_redirect]) p_route (NewReportMap, ()) = Inr (None, p_route\<lparr>rt_Action := Some (RedirectAction a)\<rparr>, NewReportMap, ())"
  using redirect_correct [of "p_ctx [p_redirect]" p_redirect
      "\<lparr>rr_Scheme = Some ''HTTPS'', rr_Hostname = None, rr_Path = None, rr_Port = Some 8443, rr_StatusCode = Some 301\<rparr>"
      301 p_route "(NewReportMap, ())"]
  by (auto simp: FindAppliedRouteFilter_def p_ctx_def p_redirect_def p_filter_def p_route_def q_rule_def modifier_set_def translateStatusCode_def)

section \<open>Rewrites of a delegated route\<close>

definition p_rewrite :: "string \<Rightarrow> http_route_filter" where
  "p_rewrite v = (p_filter ''URLRewrite'')\<lparr>hrf_URLRewrite := Some \<lparr>ur_Hostname = None,
     ur_Path = Some \<lparr>hpm_Type = ''ReplacePrefixMatch'', hpm_ReplaceFullPath = None, hpm_ReplacePrefixMatch = Some v\<rparr>\<rparr>\<rparr>"

text \<open>Rewrites of a child and its parent are both kept: when the child's rule replaces the prefix by
  \<open>/x\<close> and the parent's by \<open>/\<close>, the route ends with the child's prefix rewrite and the parent's regex
  rewrite at once.\<close>

theorem urlrewrite_keeps_both:
  "case urlrewrite (p_ctx [p_rewrite ''/x'']) p_route (NewReportMap, ()) of
     Inr (_, child, s) \<Rightarrow> (case urlrewrite (p_ctx [p_rewrite ''/'']) child s of
        Inr (None, r, _) \<Rightarrow> (case rt_Options r of
           Some opts \<Rightarrow> ro_PrefixRewrite opts = Some ''/x'' \<and> ro_RegexRewrite opts \<noteq> None | None \<Rightarrow> False)
      | _ \<Rightarrow> False)
   | _ \<Rightarrow> False"
  by (simp add: urlrewrite_def rewritePath_def FindAppliedRouteFilter_def p_ctx_def p_rewrite_def p_filter_def p_route_def
      q_rule_def d_path_def set_option_def NewRouteOptions_def)

end
