(* ===== verification/ListenerValidation.thy ===== *)
theory ListenerValidation
  imports Reports
begin

text \<open>
  Validation of the listeners of a gateway, \<open>translator/listener/validation.go\<close>: listeners with an
  unsupported protocol or route kind are dropped, and of the others those that share a port with a
  listener of another protocol or of the same hostname; each drop is reported.

  The code ranges over a Go map from ports; the order of its keys is the argument \<open>ord\<close>.
\<close>

section \<open>Model\<close>

abbreviation NormalizedHTTPSTLSType :: string where "NormalizedHTTPSTLSType \<equiv> ''HTTPS/TLS''"
abbreviation DefaultHostname :: string where "DefaultHostname \<equiv> ''*''"

text \<open>The map of supported route kinds by group has a single key per protocol, so it is a list.\<close>

definition getSupportedProtocolsRoutes :: "string \<Rightarrow> (string \<times> string list) list option" where
  "getSupportedProtocolsRoutes =
     [HTTPProtocolType \<mapsto> [(GroupName, [HTTPRouteKind])], HTTPSProtocolType \<mapsto> [(GroupName, [HTTPRouteKind])]]"

definition buildDefaultRouteKindsForProtocol :: "(string \<times> string list) list \<Rightarrow> route_group_kind list" where
  "buildDefaultRouteKindsForProtocol supported =
     concat (map (\<lambda>(grp, kinds). map (\<lambda>kind. \<lparr>rgk_Group = Some grp, rgk_Kind = kind\<rparr>) kinds) supported)"

text \<open>A kind with its group defaulted, and whether it is supported.\<close>

definition defaultGroup :: "route_group_kind \<Rightarrow> route_group_kind" where
  "defaultGroup rgk = (if rgk_Group rgk = None then rgk\<lparr>rgk_Group := Some GroupName\<rparr> else rgk)"

definition kindSupported :: "(string \<times> string list) list \<Rightarrow> route_group_kind \<Rightarrow> bool" where
  "kindSupported supported rgk =
     (case rgk_Group rgk of None \<Rightarrow> False
      | Some g \<Rightarrow> (case map_of supported g of None \<Rightarrow> False | Some kinds \<Rightarrow> rgk_Kind rgk \<in> set kinds))"

definition listenerKinds :: "'sel listener \<Rightarrow> route_group_kind list" where
  "listenerKinds l = (case l_AllowedRoutes l of None \<Rightarrow> []
     | Some ar \<Rightarrow> (case ar_Kinds ar of None \<Rightarrow> [] | Some ks \<Rightarrow> ks))"

definition listener_condition :: "string \<Rightarrow> string \<Rightarrow> string \<Rightarrow> string \<Rightarrow> report_condition" where
  "listener_condition t st reason msg = \<lparr>rc_Type = t, rc_Status = st, rc_Reason = reason, rc_Message = msg\<rparr>"

definition validateSupportedRoute ::
  "gateway_reporter \<Rightarrow> report_map \<times> 'sel listener list \<Rightarrow> 'sel listener \<Rightarrow> report_map \<times> 'sel listener list" where
  "validateSupportedRoute reporter = (\<lambda>(rm, validListeners) listener.
     let (rm, lr) = gwr_Listener reporter listener rm
     in case getSupportedProtocolsRoutes (l_Protocol listener) of
          None \<Rightarrow> (lr_SetCondition lr (listener_condition ''Accepted'' ConditionFalse ''UnsupportedProtocol'' []) rm, validListeners)
        | Some supported \<Rightarrow>
            if listenerKinds listener = []
            then (lr_SetSupportedKinds lr (buildDefaultRouteKindsForProtocol supported) rm, validListeners @ [listener])
            else
              let rgks = map defaultGroup (listenerKinds listener);
                  foundSupported = filter (kindSupported supported) rgks;
                  foundInvalid = filter (\<lambda>k. \<not> kindSupported supported k) rgks;
                  rm = lr_SetSupportedKinds lr foundSupported rm
              in if foundInvalid \<noteq> []
                 then (lr_SetCondition lr (listener_condition ''ResolvedRefs'' ConditionFalse ''InvalidRouteKinds'' []) rm, validListeners)
                 else (rm, validListeners @ [listener]))"

definition validateSupportedRoutes ::
  "'sel listener list \<Rightarrow> gateway_reporter \<Rightarrow> report_map \<Rightarrow> report_map \<times> 'sel listener list" where
  "validateSupportedRoutes listeners reporter rm = foldl (validateSupportedRoute reporter) (rm, []) listeners"

record 'sel port_protocol =
  pp_hostnames :: "string \<Rightarrow> nat"
  pp_protocol :: "string list"
  pp_listeners :: "'sel listener list"

definition normalizedProtocol :: "'sel listener \<Rightarrow> string" where
  "normalizedProtocol l =
     (if l_Protocol l = HTTPSProtocolType \<or> l_Protocol l = TLSProtocolType then NormalizedHTTPSTLSType else l_Protocol l)"

definition listenerHostname :: "'sel listener \<Rightarrow> string" where
  "listenerHostname l = (case l_Hostname l of None \<Rightarrow> DefaultHostname | Some h \<Rightarrow> h)"

text \<open>The keys of the map \<open>protocol\<close> are a list without duplicates.\<close>

definition addPortListener ::
  "(port_number \<rightharpoonup> 'sel port_protocol) \<Rightarrow> 'sel listener \<Rightarrow> (port_number \<rightharpoonup> 'sel port_protocol)" where
  "addPortListener portListeners listener =
     (let protocol = normalizedProtocol listener; hostname = listenerHostname listener
      in case portListeners (l_Port listener) of
           Some pp \<Rightarrow> portListeners(l_Port listener \<mapsto>
             \<lparr>pp_hostnames = (pp_hostnames pp)(hostname := pp_hostnames pp hostname + 1),
              pp_protocol = List.insert protocol (pp_protocol pp),
              pp_listeners = pp_listeners pp @ [listener]\<rparr>)
         | None \<Rightarrow> portListeners(l_Port listener \<mapsto>
             \<lparr>pp_hostnames = (\<lambda>_. 0)(hostname := 1), pp_protocol = [protocol], pp_listeners = [listener]\<rparr>))"

definition protocolConflictMsg :: string where
  "protocolConflictMsg = ''Found conflicting protocols on listeners, a single port can only contain listeners with compatible protocols''"

definition hostnameConflictMsg :: string where
  "hostnameConflictMsg = ''Found conflicting hostnames on listeners, all listeners on a single port must have unique hostnames''"

definition checkListener ::
  "gateway_reporter \<Rightarrow> 'sel port_protocol \<Rightarrow> report_map \<times> 'sel listener list \<Rightarrow> 'sel listener \<Rightarrow> report_map \<times> 'sel listener list" where
  "checkListener reporter pp = (\<lambda>(rm, validListeners) listener.
     if length (pp_protocol pp) > 1 then
       (let (rm, lr) = gwr_Listener reporter listener rm
        in (lr_SetCondition lr (listener_condition ''Conflicted'' ConditionTrue ''ProtocolConflict'' protocolConflictMsg) rm, validListeners))
     else if pp_hostnames pp (listenerHostname listener) > 1 then
       (let (rm, lr) = gwr_Listener reporter listener rm
        in (lr_SetCondition lr (listener_condition ''Conflicted'' ConditionTrue ''HostnameConflict'' hostnameConflictMsg) rm, validListeners))
     else (rm, validListeners @ [listener]))"

definition checkPort ::
  "gateway_reporter \<Rightarrow> (port_number \<rightharpoonup> 'sel port_protocol) \<Rightarrow> report_map \<times> 'sel listener list \<Rightarrow> port_number \<Rightarrow>
   report_map \<times> 'sel listener list" where
  "checkPort reporter portListeners s port =
     (case portListeners port of None \<Rightarrow> s | Some pp \<Rightarrow> foldl (checkListener reporter pp) s (pp_listeners pp))"

definition portMap :: "'sel listener list \<Rightarrow> port_number \<rightharpoonup> 'sel port_protocol" where
  "portMap listeners = foldl addPortListener Map.empty listeners"

definition validateListeners ::
  "port_number list \<Rightarrow> 'sel gateway \<Rightarrow> gateway_reporter \<Rightarrow> report_map \<Rightarrow> report_map \<times> 'sel listener list" where
  "validateListeners ord gw reporter rm =
     (let (rm, supported) = validateSupportedRoutes (gw_Listeners gw) reporter rm;
          (rm, validListeners) = foldl (checkPort reporter (portMap supported)) (rm, []) ord
      in if validListeners = []
         then (gwr_SetCondition reporter (listener_condition ''Programmed'' ConditionFalse ''Invalid'' [])
                 (gwr_SetCondition reporter (listener_condition ''Accepted'' ConditionFalse ''ListenersNotValid'' []) rm), validListeners)
         else (rm, validListeners))"

section \<open>Specification\<close>

text \<open>A listener whose protocol is supported and all of whose route kinds are HTTP routes.\<close>

definition supported_listener :: "'sel listener \<Rightarrow> bool" where
  "supported_listener l \<longleftrightarrow> l_Protocol l \<in> {HTTPProtocolType, HTTPSProtocolType} \<and>
     (\<forall>k \<in> set (listenerKinds l). (rgk_Group k = None \<or> rgk_Group k = Some GroupName) \<and> rgk_Kind k = HTTPRouteKind)"

text \<open>No other of the listeners \<open>ls\<close> on the port has another protocol or the same hostname.\<close>

definition unconflicted :: "'sel listener list \<Rightarrow> 'sel listener \<Rightarrow> bool" where
  "unconflicted ls l \<longleftrightarrow>
     (\<forall>l' \<in> set ls. l_Port l' = l_Port l \<longrightarrow> normalizedProtocol l' = normalizedProtocol l) \<and>
     length (filter (\<lambda>l'. l_Port l' = l_Port l \<and> listenerHostname l' = listenerHostname l) ls) \<le> 1"

lemma kindSupported_iff:
  "kindSupported [(GroupName, [HTTPRouteKind])] (defaultGroup k) \<longleftrightarrow>
     (rgk_Group k = None \<or> rgk_Group k = Some GroupName) \<and> rgk_Kind k = HTTPRouteKind"
  by (auto simp: kindSupported_def defaultGroup_def split: if_splits)

lemma validateSupportedRoute_valid:
  "snd (validateSupportedRoute reporter s l) = snd s @ filter supported_listener [l]"
proof (cases "getSupportedProtocolsRoutes (l_Protocol l)")
  case None
  then show ?thesis
    by (auto simp: validateSupportedRoute_def getSupportedProtocolsRoutes_def supported_listener_def gwr_Listener_def split: prod.split if_splits)
next
  case (Some sup)
  then have sup: "sup = [(GroupName, [HTTPRouteKind])]" "l_Protocol l \<in> {HTTPProtocolType, HTTPSProtocolType}"
    by (auto simp: getSupportedProtocolsRoutes_def split: if_splits)
  have ks: "supported_listener l \<longleftrightarrow> filter (\<lambda>k. \<not> kindSupported sup k) (map defaultGroup (listenerKinds l)) = []"
    using sup by (auto simp: supported_listener_def filter_empty_conv kindSupported_iff)
  show ?thesis
    using Some ks by (cases s) (auto simp: validateSupportedRoute_def gwr_Listener_def Let_def)
qed

lemma validateSupportedRoutes_valid: "snd (validateSupportedRoutes ls reporter rm) = filter supported_listener ls"
proof -
  have "snd (foldl (validateSupportedRoute reporter) s ls) = snd s @ filter supported_listener ls" for s
    by (induction ls arbitrary: s) (simp_all add: validateSupportedRoute_valid)
  then show ?thesis by (simp add: validateSupportedRoutes_def)
qed

section \<open>The map of ports\<close>

definition port_summary :: "'sel listener list \<Rightarrow> 'sel port_protocol" where
  "port_summary ls = \<lparr>pp_hostnames = (\<lambda>h. length (filter (\<lambda>l. listenerHostname l = h) ls)),
     pp_protocol = foldl (\<lambda>ps l. List.insert (normalizedProtocol l) ps) [] ls, pp_listeners = ls\<rparr>"

lemma port_summary_snoc:
  "port_summary (ls @ [l]) = \<lparr>pp_hostnames = (pp_hostnames (port_summary ls))(listenerHostname l :=
       pp_hostnames (port_summary ls) (listenerHostname l) + 1),
     pp_protocol = List.insert (normalizedProtocol l) (pp_protocol (port_summary ls)), pp_listeners = ls @ [l]\<rparr>"
  by (auto simp: port_summary_def)

lemma port_summary_one:
  "port_summary [l] = \<lparr>pp_hostnames = (\<lambda>_. 0)(listenerHostname l := 1), pp_protocol = [normalizedProtocol l], pp_listeners = [l]\<rparr>"
  using port_summary_snoc [of "[]" l] by (simp add: port_summary_def fun_eq_iff)

lemma portMap_eq:
  "portMap ls p = (let on = filter (\<lambda>l. l_Port l = p) ls in if on = [] then None else Some (port_summary on))"
proof (induction ls rule: rev_induct)
  case Nil
  then show ?case by (simp add: portMap_def)
next
  case (snoc l ls)
  have step: "portMap (ls @ [l]) = addPortListener (portMap ls) l" by (simp add: portMap_def)
  show ?case
  proof (cases "l_Port l = p")
    case False
    with snoc step show ?thesis by (simp add: addPortListener_def Let_def split: option.split)
  next
    case True
    let ?on = "filter (\<lambda>l. l_Port l = p) ls"
    have pl: "pp_listeners (port_summary ?on) = ?on" by (simp add: port_summary_def)
    show ?thesis
      using snoc step True by (cases "?on = []")
        (simp_all add: addPortListener_def Let_def port_summary_snoc port_summary_one pl)
  qed
qed

lemma foldl_insert_keys: "set (foldl (\<lambda>ps l. List.insert (f l) ps) acc ls) = set acc \<union> f ` set ls \<and>
    (distinct acc \<longrightarrow> distinct (foldl (\<lambda>ps l. List.insert (f l) ps) acc ls))"
  by (induction ls arbitrary: acc) auto

lemma protocols_conflict_iff:
  assumes "l \<in> set ls"
  shows "1 < length (pp_protocol (port_summary ls)) \<longleftrightarrow> (\<exists>l' \<in> set ls. normalizedProtocol l' \<noteq> normalizedProtocol l)"
proof -
  let ?ps = "pp_protocol (port_summary ls)"
  have ps: "set ?ps = normalizedProtocol ` set ls" "distinct ?ps"
    using foldl_insert_keys [of normalizedProtocol "[]" ls] by (simp_all add: port_summary_def)
  have "length ?ps = card (normalizedProtocol ` set ls)" using distinct_card [OF ps(2)] ps(1) by simp
  moreover have "card (normalizedProtocol ` set ls) \<le> 1 \<longleftrightarrow> (\<forall>l' \<in> set ls. normalizedProtocol l' = normalizedProtocol l)"
  proof
    assume "card (normalizedProtocol ` set ls) \<le> 1"
    then have "\<forall>a \<in> normalizedProtocol ` set ls. \<forall>b \<in> normalizedProtocol ` set ls. a = b"
      unfolding One_nat_def by (rule iffD1 [OF card_le_Suc0_iff_eq, rotated]) simp
    with assms show "\<forall>l' \<in> set ls. normalizedProtocol l' = normalizedProtocol l" by blast
  next
    assume "\<forall>l' \<in> set ls. normalizedProtocol l' = normalizedProtocol l"
    then have "normalizedProtocol ` set ls \<subseteq> {normalizedProtocol l}" by blast
    then show "card (normalizedProtocol ` set ls) \<le> 1"
      by (metis card.empty card.insert card_mono empty_iff finite.intros One_nat_def)
  qed
  ultimately show ?thesis by (metis not_less)
qed

section \<open>The valid listeners\<close>

lemma checkListener_valid:
  "snd (checkListener reporter pp s l) = snd s @ filter (\<lambda>l. length (pp_protocol pp) \<le> 1 \<and> pp_hostnames pp (listenerHostname l) \<le> 1) [l]"
  by (cases s) (auto simp: checkListener_def gwr_Listener_def)

lemma checkListeners_valid:
  "snd (foldl (checkListener reporter pp) s ls) =
     snd s @ filter (\<lambda>l. length (pp_protocol pp) \<le> 1 \<and> pp_hostnames pp (listenerHostname l) \<le> 1) ls"
  by (induction ls arbitrary: s) (simp_all add: checkListener_valid)

lemma checkPort_valid:
  "snd (checkPort reporter (portMap ls) s p) = snd s @ filter (\<lambda>l. l_Port l = p \<and> unconflicted ls l) ls"
proof -
  let ?on = "filter (\<lambda>l. l_Port l = p) ls"
  have conf: "length (pp_protocol (port_summary ?on)) \<le> 1 \<and> pp_hostnames (port_summary ?on) (listenerHostname l) \<le> 1 \<longleftrightarrow>
      unconflicted ls l" if "l \<in> set ?on" for l
  proof -
    have "length (pp_protocol (port_summary ?on)) \<le> 1 \<longleftrightarrow> (\<forall>l' \<in> set ?on. normalizedProtocol l' = normalizedProtocol l)"
      using protocols_conflict_iff [OF that] by (metis not_less)
    moreover have "pp_hostnames (port_summary ?on) (listenerHostname l) =
        length (filter (\<lambda>l'. l_Port l' = l_Port l \<and> listenerHostname l' = listenerHostname l) ls)"
      using that by (simp add: port_summary_def conj_commute)
    ultimately show ?thesis using that by (auto simp: unconflicted_def)
  qed
  have "filter (\<lambda>l. length (pp_protocol (port_summary ?on)) \<le> 1 \<and> pp_hostnames (port_summary ?on) (listenerHostname l) \<le> 1) ?on =
      filter (unconflicted ls) ?on"
    using conf by (intro filter_cong) auto
  moreover have "filter (unconflicted ls) ?on = filter (\<lambda>l. l_Port l = p \<and> unconflicted ls l) ls"
    by (simp add: conj_commute)
  ultimately show ?thesis
    by (auto simp: checkPort_def portMap_eq Let_def checkListeners_valid port_summary_def filter_empty_conv)
qed

lemma checkPorts_valid:
  "snd (foldl (checkPort reporter (portMap ls)) s ord) =
     snd s @ concat (map (\<lambda>p. filter (\<lambda>l. l_Port l = p \<and> unconflicted ls l) ls) ord)"
  by (induction ord arbitrary: s) (simp_all add: checkPort_valid)

lemma validateListeners_listeners:
  "snd (validateListeners ord gw reporter rm) =
     (let sup = filter supported_listener (gw_Listeners gw)
      in concat (map (\<lambda>p. filter (\<lambda>l. l_Port l = p \<and> unconflicted sup l) sup) ord))"
proof -
  obtain rm1 sup where s: "validateSupportedRoutes (gw_Listeners gw) reporter rm = (rm1, sup)"
    by (cases "validateSupportedRoutes (gw_Listeners gw) reporter rm")
  have sup: "sup = filter supported_listener (gw_Listeners gw)"
    using validateSupportedRoutes_valid [of "gw_Listeners gw" reporter rm] s by simp
  obtain rm2 vs where v: "foldl (checkPort reporter (portMap sup)) (rm1, []) ord = (rm2, vs)"
    by (cases "foldl (checkPort reporter (portMap sup)) (rm1, []) ord")
  have "vs = concat (map (\<lambda>p. filter (\<lambda>l. l_Port l = p \<and> unconflicted sup l) sup) ord)"
    using checkPorts_valid [of reporter sup "(rm1, [])" ord] v by simp
  then show ?thesis using v unfolding sup [symmetric] Let_def by (simp add: validateListeners_def s)
qed

lemma mset_partition_ports:
  fixes xs :: "'a listener list"
  assumes "distinct ps" "l_Port ` set xs \<subseteq> set ps"
  shows "mset (concat (map (\<lambda>p. filter (\<lambda>l. l_Port l = p \<and> Q l) xs) ps)) = mset (filter Q xs)"
proof -
  have split: "mset (filter A ys) + mset (filter B ys) = mset (filter (\<lambda>l. A l \<or> B l) ys)"
    if "\<And>l. \<not> (A l \<and> B l)" for A B and ys :: "'a listener list"
    using that by (induction ys) auto
  have "mset (concat (map (\<lambda>p. filter (\<lambda>l. l_Port l = p \<and> Q l) xs) ps)) = mset (filter (\<lambda>l. l_Port l \<in> set ps \<and> Q l) xs)"
    using assms(1)
  proof (induction ps)
    case Nil
    then show ?case by simp
  next
    case (Cons p ps)
    then have "mset (filter (\<lambda>l. l_Port l = p \<and> Q l) xs) + mset (filter (\<lambda>l. l_Port l \<in> set ps \<and> Q l) xs) =
        mset (filter (\<lambda>l. (l_Port l = p \<and> Q l) \<or> (l_Port l \<in> set ps \<and> Q l)) xs)"
      by (intro split) auto
    moreover have "(\<lambda>l. (l_Port l = p \<and> Q l) \<or> (l_Port l \<in> set ps \<and> Q l)) = (\<lambda>l. l_Port l \<in> set (p # ps) \<and> Q l)" by auto
    ultimately show ?case using Cons by simp
  qed
  also have "filter (\<lambda>l. l_Port l \<in> set ps \<and> Q l) xs = filter Q xs"
    using assms(2) by (intro filter_cong) auto
  finally show ?thesis .
qed

lemma portMap_dom: "dom (portMap ls) = l_Port ` set ls"
  by (auto simp: dom_def portMap_eq Let_def filter_empty_conv image_iff split: if_splits)

text \<open>C19. The listeners that pass validation are, whatever order the map of ports is visited in, exactly
  those with a supported protocol and supported route kinds that share their port with no listener of
  another protocol and of the same hostname.\<close>

theorem validateListeners_correct:
  assumes ord: "iter_order (portMap (filter supported_listener (gw_Listeners gw))) ord"
  shows "mset (snd (validateListeners ord gw reporter rm)) =
    mset (filter (\<lambda>l. supported_listener l \<and> unconflicted (filter supported_listener (gw_Listeners gw)) l) (gw_Listeners gw))"
proof -
  let ?sup = "filter supported_listener (gw_Listeners gw)"
  have "mset (snd (validateListeners ord gw reporter rm)) = mset (filter (unconflicted ?sup) ?sup)"
    unfolding validateListeners_listeners Let_def
    by (rule mset_partition_ports) (use iter_orderD [OF ord] in \<open>simp_all add: portMap_dom\<close>)
  then show ?thesis by (simp add: conj_commute)
qed

section \<open>Reports\<close>

text \<open>The report of the listener \<open>n\<close> of the gateway \<open>k\<close> holds the condition \<open>c\<close>.\<close>

definition has_cond :: "report_map \<Rightarrow> gateway_reporter \<Rightarrow> string \<Rightarrow> report_condition \<Rightarrow> bool" where
  "has_cond rm k n c \<longleftrightarrow> (\<exists>g lr. rm_gateways rm k = Some g \<and> gr_listeners g n = Some lr \<and> to_condition c \<in> set (ls_Conditions lr))"

text \<open>A change of reports that keeps the gateway's report and every condition in it.\<close>

definition keeps_conds :: "gateway_reporter \<Rightarrow> report_map \<Rightarrow> report_map \<Rightarrow> bool" where
  "keeps_conds k rm rm' \<longleftrightarrow> (rm_gateways rm k \<noteq> None \<longrightarrow> rm_gateways rm' k \<noteq> None) \<and> (\<forall>n c. has_cond rm k n c \<longrightarrow> has_cond rm' k n c)"

lemma keeps_conds_refl [simp]: "keeps_conds k rm rm"
  by (simp add: keeps_conds_def)

lemma keeps_conds_trans [trans]: "keeps_conds k a b \<Longrightarrow> keeps_conds k b c \<Longrightarrow> keeps_conds k a c"
  by (simp add: keeps_conds_def)

lemma keeps_report_ops:
  "keeps_conds k rm (fst (gwr_Listener k l rm))"
  "keeps_conds k rm (lr_SetCondition (k, n) c rm)"
  "keeps_conds k rm (lr_SetSupportedKinds (k, n) ks rm)"
  "keeps_conds k rm (gwr_SetCondition k c rm)"
  by (auto simp: keeps_conds_def has_cond_def report_defs upd_listener_def upd_gateway_def gr_listener_def Let_def
      ListenerReport_SetCondition_def ListenerReport_SetSupportedKinds_def GatewayReport_SetCondition_def
      split: option.splits if_splits)

lemma set_condition_has:
  assumes "rm_gateways rm k \<noteq> None"
  shows "has_cond (lr_SetCondition (k, l_Name l) c (fst (gwr_Listener k l rm))) k (l_Name l) c"
  using assms
  by (auto simp: has_cond_def report_defs upd_listener_def upd_gateway_def gr_listener_def Let_def
      ListenerReport_SetCondition_def split: option.splits)

text \<open>The conditions that say why a listener is not valid.\<close>

definition reject_conditions :: "report_condition set" where
  "reject_conditions = {listener_condition ''Accepted'' ConditionFalse ''UnsupportedProtocol'' [],
     listener_condition ''ResolvedRefs'' ConditionFalse ''InvalidRouteKinds'' [],
     listener_condition ''Conflicted'' ConditionTrue ''ProtocolConflict'' protocolConflictMsg,
     listener_condition ''Conflicted'' ConditionTrue ''HostnameConflict'' hostnameConflictMsg}"

definition rejected :: "report_map \<Rightarrow> gateway_reporter \<Rightarrow> string \<Rightarrow> bool" where
  "rejected rm k n \<longleftrightarrow> (\<exists>c \<in> reject_conditions. has_cond rm k n c)"

lemma rejected_keeps: "rejected rm k n \<Longrightarrow> keeps_conds k rm rm' \<Longrightarrow> rejected rm' k n"
  by (auto simp: rejected_def keeps_conds_def)

lemma set_condition_rejected:
  assumes "rm_gateways rm k \<noteq> None" "c \<in> reject_conditions"
  shows "rejected (lr_SetCondition (k, l_Name l) c (fst (gwr_Listener k l rm))) k (l_Name l)"
  using set_condition_has [OF assms(1)] assms(2) by (auto simp: rejected_def)

lemma gwr_Listener_pair: "gwr_Listener k l rm = (fst (gwr_Listener k l rm), (k, l_Name l))"
  by (simp add: gwr_Listener_def)

lemma set_kinds_has:
  assumes "rm_gateways rm k \<noteq> None"
  shows "has_cond (lr_SetCondition (k, l_Name l) c (lr_SetSupportedKinds (k, l_Name l) ks (fst (gwr_Listener k l rm)))) k (l_Name l) c"
  using assms
  by (auto simp: has_cond_def report_defs upd_listener_def upd_gateway_def gr_listener_def Let_def
      ListenerReport_SetCondition_def ListenerReport_SetSupportedKinds_def split: option.splits)

lemma validateSupportedRoute_reports:
  assumes "rm_gateways (fst s) k \<noteq> None"
  shows "keeps_conds k (fst s) (fst (validateSupportedRoute k s l)) \<and>
    (l \<in> set (snd (validateSupportedRoute k s l)) \<or> rejected (fst (validateSupportedRoute k s l)) k (l_Name l)) \<and>
    set (snd s) \<subseteq> set (snd (validateSupportedRoute k s l))"
proof -
  obtain rm vs where s: "s = (rm, vs)" by (cases s)
  let ?rm1 = "fst (gwr_Listener k l rm)"
  have k1: "keeps_conds k rm ?rm1" by (rule keeps_report_ops)
  note k2 = keeps_conds_trans [OF k1 keeps_report_ops(2)] keeps_conds_trans [OF k1 keeps_report_ops(3)]
    keeps_conds_trans [OF keeps_conds_trans [OF k1 keeps_report_ops(3)] keeps_report_ops(2)]
  have has: "rejected (lr_SetCondition (k, l_Name l) (listener_condition ''ResolvedRefs'' ConditionFalse ''InvalidRouteKinds'' [])
      (lr_SetSupportedKinds (k, l_Name l) ks ?rm1)) k (l_Name l)" for ks
    using set_kinds_has [of rm k l] assms s by (auto simp: rejected_def reject_conditions_def)
  have unsup: "rejected (lr_SetCondition (k, l_Name l) (listener_condition ''Accepted'' ConditionFalse ''UnsupportedProtocol'' []) ?rm1) k (l_Name l)"
    using assms s by (intro set_condition_rejected) (auto simp: reject_conditions_def)
  show ?thesis
    unfolding s validateSupportedRoute_def prod.case
    by (subst (1 2 3 4) gwr_Listener_pair) (auto simp: Let_def k2 has unsup split: option.split)
qed

lemma checkListener_reports:
  assumes "rm_gateways (fst s) k \<noteq> None"
  shows "keeps_conds k (fst s) (fst (checkListener k pp s l)) \<and>
    (l \<in> set (snd (checkListener k pp s l)) \<or> rejected (fst (checkListener k pp s l)) k (l_Name l)) \<and>
    set (snd s) \<subseteq> set (snd (checkListener k pp s l))"
proof -
  obtain rm vs where s: "s = (rm, vs)" by (cases s)
  have k1: "keeps_conds k rm (lr_SetCondition (k, l_Name l) c (fst (gwr_Listener k l rm)))" for c
    by (rule keeps_conds_trans [OF keeps_report_ops(1) keeps_report_ops(2)])
  have r: "rejected (lr_SetCondition (k, l_Name l) c (fst (gwr_Listener k l rm))) k (l_Name l)" if "c \<in> reject_conditions" for c
    using assms s that by (intro set_condition_rejected) auto
  have "keeps_conds k rm (fst (checkListener k pp s l)) \<and>
      (l \<in> set (snd (checkListener k pp s l)) \<or> rejected (fst (checkListener k pp s l)) k (l_Name l))"
    unfolding s checkListener_def prod.case
    by (subst (1 2 3 4 5 6) gwr_Listener_pair) (simp add: k1 r reject_conditions_def)
  then show ?thesis by (simp add: s checkListener_valid del: filter.simps)
qed

text \<open>A loop over listeners that reports or keeps each one.\<close>

lemma foldl_reports:
  assumes step: "\<And>s l. rm_gateways (fst s) k \<noteq> None \<Longrightarrow>
      keeps_conds k (fst s) (fst (f s l)) \<and> (l \<in> set (snd (f s l)) \<or> rejected (fst (f s l)) k (l_Name l)) \<and>
      set (snd s) \<subseteq> set (snd (f s l))"
    and start: "rm_gateways (fst s) k \<noteq> None"
  shows "keeps_conds k (fst s) (fst (foldl f s ls)) \<and> set (snd s) \<subseteq> set (snd (foldl f s ls)) \<and>
    (\<forall>l \<in> set ls. l \<in> set (snd (foldl f s ls)) \<or> rejected (fst (foldl f s ls)) k (l_Name l))"
  using start
proof (induction ls arbitrary: s)
  case Nil
  then show ?case by simp
next
  case (Cons l ls)
  note st = step [OF Cons.prems, of l]
  then have "rm_gateways (fst (f s l)) k \<noteq> None" using Cons.prems by (simp add: keeps_conds_def)
  note IH = Cons.IH [OF this]
  have "keeps_conds k (fst s) (fst (foldl f (f s l) ls))" using st IH keeps_conds_trans by blast
  moreover have "l \<in> set (snd (foldl f (f s l) ls)) \<or> rejected (fst (foldl f (f s l) ls)) k (l_Name l)"
    using st IH rejected_keeps by blast
  ultimately show ?case using st IH by auto
qed

lemma checkPort_reports:
  assumes "rm_gateways (fst s) k \<noteq> None"
  shows "keeps_conds k (fst s) (fst (checkPort k (portMap ls) s p)) \<and> set (snd s) \<subseteq> set (snd (checkPort k (portMap ls) s p)) \<and>
    (\<forall>l \<in> set ls. l_Port l = p \<longrightarrow> l \<in> set (snd (checkPort k (portMap ls) s p)) \<or> rejected (fst (checkPort k (portMap ls) s p)) k (l_Name l))"
proof -
  let ?on = "filter (\<lambda>l. l_Port l = p) ls"
  have pl: "pp_listeners (port_summary ?on) = ?on" by (simp add: port_summary_def)
  have "keeps_conds k (fst s) (fst (foldl (checkListener k (port_summary ?on)) s ?on)) \<and>
      set (snd s) \<subseteq> set (snd (foldl (checkListener k (port_summary ?on)) s ?on)) \<and>
      (\<forall>l \<in> set ?on. l \<in> set (snd (foldl (checkListener k (port_summary ?on)) s ?on)) \<or>
         rejected (fst (foldl (checkListener k (port_summary ?on)) s ?on)) k (l_Name l))"
    by (rule foldl_reports [OF checkListener_reports assms])
  then show ?thesis
    by (auto simp: checkPort_def portMap_eq Let_def pl filter_empty_conv)
qed

lemma checkPorts_reports:
  assumes "rm_gateways (fst s) k \<noteq> None"
  shows "keeps_conds k (fst s) (fst (foldl (checkPort k (portMap ls)) s ord)) \<and>
    set (snd s) \<subseteq> set (snd (foldl (checkPort k (portMap ls)) s ord)) \<and>
    (\<forall>l \<in> set ls. l_Port l \<in> set ord \<longrightarrow> l \<in> set (snd (foldl (checkPort k (portMap ls)) s ord)) \<or>
       rejected (fst (foldl (checkPort k (portMap ls)) s ord)) k (l_Name l))"
  using assms
proof (induction ord arbitrary: s)
  case Nil
  then show ?case by simp
next
  case (Cons p ord)
  note st = checkPort_reports [OF Cons.prems, of ls p]
  then have "rm_gateways (fst (checkPort k (portMap ls) s p)) k \<noteq> None" using Cons.prems by (simp add: keeps_conds_def)
  note IH = Cons.IH [OF this]
  have "keeps_conds k (fst s) (fst (foldl (checkPort k (portMap ls)) (checkPort k (portMap ls) s p) ord))"
    using st IH keeps_conds_trans by blast
  moreover have "l \<in> set (snd (foldl (checkPort k (portMap ls)) (checkPort k (portMap ls) s p) ord)) \<or>
      rejected (fst (foldl (checkPort k (portMap ls)) (checkPort k (portMap ls) s p) ord)) k (l_Name l)"
    if "l \<in> set ls" "l_Port l \<in> set (p # ord)" for l
    using that st IH rejected_keeps by (cases "l_Port l \<in> set ord") (auto 4 3)
  ultimately show ?case using st IH by auto
qed

text \<open>No listener is dropped silently: after validation of a gateway with a report, every listener of
  the gateway is valid or its report holds a condition saying that its protocol or route kinds are
  unsupported or that it conflicts; and when none is valid the gateway is reported as neither accepted
  nor programmed.\<close>

theorem validateListeners_reports:
  assumes ord: "iter_order (portMap (filter supported_listener (gw_Listeners gw))) ord"
    and rep: "rm_gateways rm k \<noteq> None" and run: "validateListeners ord gw k rm = (rm', valid)"
  shows "(\<forall>l \<in> set (gw_Listeners gw). l \<in> set valid \<or> rejected rm' k (l_Name l)) \<and>
    (valid = [] \<longrightarrow> (\<exists>g. rm_gateways rm' k = Some g \<and>
       {(''Accepted'', ''False''), (''Programmed'', ''False'')} \<subseteq> (\<lambda>c. (cond_Type c, cond_Status c)) ` set (gr_conditions g)))"
proof -
  let ?s1 = "validateSupportedRoutes (gw_Listeners gw) k rm"
  obtain rm1 sup where s1: "?s1 = (rm1, sup)" by (cases ?s1)
  have sup: "sup = filter supported_listener (gw_Listeners gw)"
    using validateSupportedRoutes_valid [of "gw_Listeners gw" k rm] s1 by simp
  have rep0: "rm_gateways (fst (rm, [] :: 'a listener list)) k \<noteq> None" using rep by simp
  have "keeps_conds k (fst (rm, [] :: 'a listener list)) (fst ?s1) \<and> set (snd (rm, [] :: 'a listener list)) \<subseteq> set (snd ?s1) \<and>
      (\<forall>l \<in> set (gw_Listeners gw). l \<in> set (snd ?s1) \<or> rejected (fst ?s1) k (l_Name l))"
    unfolding validateSupportedRoutes_def
    by (rule foldl_reports [OF validateSupportedRoute_reports rep0])
  then have 1: "keeps_conds k rm rm1" "\<forall>l \<in> set (gw_Listeners gw). l \<in> set sup \<or> rejected rm1 k (l_Name l)"
    by (simp_all add: s1)
  then have rep1: "rm_gateways (fst (rm1, [] :: 'a listener list)) k \<noteq> None" using rep by (simp add: keeps_conds_def)
  obtain rm2 vs where s2: "foldl (checkPort k (portMap sup)) (rm1, []) ord = (rm2, vs)"
    by (cases "foldl (checkPort k (portMap sup)) (rm1, []) ord")
  have 2: "keeps_conds k rm1 rm2" "\<forall>l \<in> set sup. l \<in> set vs \<or> rejected rm2 k (l_Name l)"
    using checkPorts_reports [OF rep1, of sup ord] s2 iter_orderD(2) [OF ord] by (auto simp: portMap_dom sup)
  let ?acc = "listener_condition ''Accepted'' ConditionFalse ''ListenersNotValid'' []"
  let ?prog = "listener_condition ''Programmed'' ConditionFalse ''Invalid'' []"
  have res: "valid = vs" "rm' = (if vs = [] then gwr_SetCondition k ?prog (gwr_SetCondition k ?acc rm2) else rm2)"
    using run s1 s2 by (auto simp: validateListeners_def split: if_splits)
  have k2: "keeps_conds k rm2 rm'"
    using res(2) keeps_conds_trans [OF keeps_report_ops(4) keeps_report_ops(4)] by simp
  have all: "l \<in> set valid \<or> rejected rm' k (l_Name l)" if "l \<in> set (gw_Listeners gw)" for l
    using that 1(2) 2 res(1) rejected_keeps [OF _ k2] rejected_keeps [OF _ keeps_conds_trans [OF 2(1) k2]] by blast
  have "rm_gateways rm2 k \<noteq> None" using rep1 2(1) by (simp add: keeps_conds_def)
  then have "\<exists>g. rm_gateways rm' k = Some g \<and>
      {(''Accepted'', ''False''), (''Programmed'', ''False'')} \<subseteq> (\<lambda>c. (cond_Type c, cond_Status c)) ` set (gr_conditions g)" if "valid = []"
    using that res by (auto simp: gwr_SetCondition_def upd_gateway_def GatewayReport_SetCondition_def to_condition_def listener_condition_def)
  with all show ?thesis by blast
qed

section \<open>Witnesses\<close>

text \<open>Three listeners: two HTTP listeners of the same hostname on port 80, and a TCP listener.\<close>

definition v_listener :: "string \<Rightarrow> string \<Rightarrow> 32 word \<Rightarrow> unit listener" where
  "v_listener name protocol port = \<lparr>l_Name = name, l_Hostname = None, l_Port = port, l_Protocol = protocol,
     l_TLS = None, l_AllowedRoutes = None\<rparr>"

definition v_gw :: "unit listener list \<Rightarrow> unit gateway" where
  "v_gw ls = \<lparr>gw_Kind = GatewayKind, gw_APIVersion = ''gateway.networking.k8s.io/v1'', gw_Namespace = ''ns'', gw_Name = ''gw'', gw_UID = ''gw-uid'', gw_Generation = 1, gw_DeletionTimestamp = None, gw_Annotations = Map.empty,
     gw_GatewayClassName = ''gloo-gateway'', gw_Listeners = ls, gw_Status = \<lparr>gs_Addresses = [], gs_Conditions = [], gs_Listeners = []\<rparr>\<rparr>"

definition v_listeners :: "unit listener list" where
  "v_listeners = [v_listener ''a'' ''HTTP'' 80, v_listener ''b'' ''TCP'' 9000, v_listener ''c'' ''HTTP'' 80, v_listener ''d'' ''HTTPS'' 443]"

lemma v_supported: "filter supported_listener v_listeners = [v_listener ''a'' ''HTTP'' 80, v_listener ''c'' ''HTTP'' 80, v_listener ''d'' ''HTTPS'' 443]"
  by (simp add: v_listeners_def v_listener_def supported_listener_def listenerKinds_def)

lemma v_order: "iter_order (portMap (filter supported_listener (gw_Listeners (v_gw v_listeners)))) [443, 80]"
  by (auto simp: iter_order_def portMap_dom v_gw_def v_supported) (simp_all add: v_listener_def)

theorem validateListeners_correct_witness:
  "mset (snd (validateListeners [443, 80] (v_gw v_listeners) (NamespacedName ''ns'' ''gw'') NewReportMap)) =
     {#v_listener ''d'' ''HTTPS'' 443#}"
proof -
  have "filter (\<lambda>l. supported_listener l \<and> unconflicted (filter supported_listener v_listeners) l) v_listeners =
      filter (unconflicted (filter supported_listener v_listeners)) (filter supported_listener v_listeners)"
    by (simp add: conj_commute)
  also have "\<dots> = [v_listener ''d'' ''HTTPS'' 443]"
    unfolding v_supported by (simp add: unconflicted_def v_listener_def normalizedProtocol_def listenerHostname_def)
  finally show ?thesis
    using validateListeners_correct [OF v_order, of "NamespacedName ''ns'' ''gw''" NewReportMap] by (simp add: v_gw_def)
qed

theorem validateListeners_reports_witness:
  "\<exists>rm' valid. validateListeners [443, 80] (v_gw v_listeners) (NamespacedName ''ns'' ''gw'') (newGatewayReport NewReportMap (v_gw v_listeners)) = (rm', valid) \<and>
     (v_listener ''b'' ''TCP'' 9000 \<in> set valid \<or> rejected rm' (NamespacedName ''ns'' ''gw'') ''b'')"
proof -
  obtain rm' valid where r: "validateListeners [443, 80] (v_gw v_listeners) (NamespacedName ''ns'' ''gw'')
      (newGatewayReport NewReportMap (v_gw v_listeners)) = (rm', valid)" by (metis surj_pair)
  have "rm_gateways (newGatewayReport NewReportMap (v_gw v_listeners)) (NamespacedName ''ns'' ''gw'') \<noteq> None"
    by (simp add: newGatewayReport_def gw_key_def v_gw_def)
  from validateListeners_reports [OF v_order this r] r show ?thesis by (auto simp: v_gw_def v_listeners_def v_listener_def)
qed

end
