(* ===== verification/ListenerTranslator.thy ===== *)
theory ListenerTranslator
  imports PluginsProps ListenerValidation
begin

text \<open>
  The listener translator, \<open>translator/listener/gateway_listener_translator.go\<close>, with
  \<open>translator/sslutils\<close> and \<open>ports\<close>: the valid listeners of a gateway are merged by port, the routes
  attached to them are translated and grouped by hostname into virtual hosts, and HTTPS listeners get
  their TLS configuration.

  A \<open>range\<close> over the Go map from hosts to routes visits its entries in the order \<open>visit\<close> gives them.
  Certificates are parsed by the Go library, the record \<open>tls_lib\<close>. Listener plugins are an argument.
\<close>

section \<open>Ports (ports/ports.go)\<close>

abbreviation portOffset :: "16 word" where "portOffset \<equiv> 8000"

definition TranslatePort :: "16 word \<Rightarrow> 16 word" where
  "TranslatePort u = (if u \<ge> 1024 then u else u + portOffset)"

text \<open>\<open>gwv1.PortNumber(ports.TranslatePort(uint16(listener.Port)))\<close>\<close>

definition finalPort :: "port_number \<Rightarrow> port_number" where
  "finalPort p = ucast (TranslatePort (ucast p))"

section \<open>TLS secrets (sslutils)\<close>

record 'cert tls_lib =
  tl_X509KeyPair :: "string \<Rightarrow> string \<Rightarrow> go_error option"
  tl_ParseCertsPEM :: "string \<Rightarrow> go_error + 'cert list"
  tl_EncodeCertificates :: "'cert list \<Rightarrow> go_error + string"

text \<open>\<open>strings.TrimSpace\<close> on ASCII.\<close>

definition is_space :: "char \<Rightarrow> bool" where
  "is_space c \<longleftrightarrow> c \<in> {CHR 0x09, CHR 0x0A, CHR 0x0B, CHR 0x0C, CHR 0x0D, CHR 0x20}"

definition trimSpace :: "string \<Rightarrow> string" where
  "trimSpace s = rev (dropWhile is_space (rev (dropWhile is_space s)))"

definition NoCertificateFoundError :: go_error where
  "NoCertificateFoundError = ErrMsg ''no certificate information found''"

definition isValidSslKeyPair :: "'cert tls_lib \<Rightarrow> string \<Rightarrow> string \<Rightarrow> string \<Rightarrow> go_error option" where
  "isValidSslKeyPair lib certChain privateKey rootCa =
     (if certChain = [] \<or> privateKey = [] then Some NoCertificateFoundError
      else case tl_X509KeyPair lib certChain privateKey of
        Some err \<Rightarrow> Some err
      | None \<Rightarrow>
        (case tl_ParseCertsPEM lib certChain of
           Inl err \<Rightarrow> Some err
         | Inr candidateCert \<Rightarrow>
           (case tl_EncodeCertificates lib candidateCert of
              Inl err \<Rightarrow> Some err
            | Inr reencoded \<Rightarrow>
                if trimSpace reencoded \<noteq> trimSpace certChain
                then Some (ErrMsg ''certificate chain does not match parsed certificate'') else None)))"

definition secret_data :: "secret \<Rightarrow> string \<Rightarrow> string" where
  "secret_data s k = (case sec_Data s k of None \<Rightarrow> [] | Some v \<Rightarrow> v)"

definition validatedCertData :: "'cert tls_lib \<Rightarrow> secret \<Rightarrow> go_error option" where
  "validatedCertData lib sslSecret =
     (case isValidSslKeyPair lib (secret_data sslSecret ''tls.crt'') (secret_data sslSecret ''tls.key'') (secret_data sslSecret ''ca.crt'') of
        Some err \<Rightarrow> Some (Wrapped (sec_Namespace sslSecret @ ''.'' @ sec_Name sslSecret @ '' is not a valid TLS secret'') err)
      | None \<Rightarrow> None)"

definition ValidateTlsSecret :: "'cert tls_lib \<Rightarrow> secret \<Rightarrow> go_error option" where
  "ValidateTlsSecret lib s = validatedCertData lib s"

record ssl_config =
  ssl_SecretRef :: resource_ref
  ssl_SniDomains :: "string list"

text \<open>The type assertion \<open>secret.(*corev1.Secret)\<close>.\<close>

fun as_Secret :: "k8s_object \<Rightarrow> secret outcome" where
  "as_Secret (ObjSecret s) = Inr s"
| "as_Secret _ = Inl BadAssertion"

definition translateSslConfig ::
  "'cert tls_lib \<Rightarrow> 'sel k8s_client \<Rightarrow> string \<Rightarrow> string option \<Rightarrow> gateway_tls_config option \<Rightarrow>
   (go_error + ssl_config option) outcome" where
  "translateSslConfig lib kc parentNamespace sniDomain tls =
     (case tls of
        None \<Rightarrow> Inr (Inr None)
      | Some t \<Rightarrow>
         if tls_Mode t \<noteq> Some ''Terminate'' then Inr (Inr None)
         else case tls_CertificateRefs t of
           [] \<Rightarrow> Inr (Inr None)
         | certRef # _ \<Rightarrow>
            (case GetSecretForRef kc (FromGkNs (GroupKind GroupName ''Gateway'') parentNamespace) certRef of
               Inl err \<Rightarrow> Inr (Inl err)
             | Inr obj \<Rightarrow>
                bind_out (as_Secret obj) (\<lambda>secret.
                  case ValidateTlsSecret lib secret of
                    Some err \<Rightarrow> Inr (Inl err)
                  | None \<Rightarrow> Inr (Inr (Some
                      \<lparr>ssl_SecretRef = \<lparr>rref_Name = sr_Name certRef,
                         rref_Namespace = (case sr_Namespace certRef of None \<Rightarrow> parentNamespace | Some n \<Rightarrow> n)\<rparr>,
                       ssl_SniDomains = (case sniDomain of None \<Rightarrow> [] | Some d \<Rightarrow> [d])\<rparr>)))))"

section \<open>Merging listeners by port\<close>

record filter_chain_parent =
  fcp_gatewayListenerName :: string
  fcp_routesWithHosts :: "nat list"

record https_filter_chain =
  sfc_gatewayListenerName :: string
  sfc_sniDomain :: "string option"
  sfc_tls :: "gateway_tls_config option"
  sfc_routesWithHosts :: "nat list"

record 'sel merged_listener =
  ml_name :: string
  ml_gatewayNamespace :: string
  ml_port :: port_number
  ml_httpFilterChain :: "filter_chain_parent list option"
  ml_httpsFilterChains :: "https_filter_chain list"
  ml_listenerReporter :: listener_reporter
  ml_listener :: "'sel listener"

text \<open>The loop that updates the first merged listener on the port, if there is one.\<close>

fun update_port ::
  "port_number \<Rightarrow> ('sel merged_listener \<Rightarrow> 'sel merged_listener) \<Rightarrow> 'sel merged_listener list \<Rightarrow> 'sel merged_listener list option" where
  "update_port p f [] = None"
| "update_port p f (lis # ls) =
     (if ml_port lis = p then Some (f lis # ls) else map_option (\<lambda>ls. lis # ls) (update_port p f ls))"

definition appendHttpListener ::
  "string \<Rightarrow> 'sel listener \<Rightarrow> nat list \<Rightarrow> listener_reporter \<Rightarrow> 'sel merged_listener list \<Rightarrow> 'sel merged_listener list" where
  "appendHttpListener ns listener routesWithHosts reporter mls =
     (let parent = \<lparr>fcp_gatewayListenerName = l_Name listener, fcp_routesWithHosts = routesWithHosts\<rparr>;
          port = finalPort (l_Port listener)
      in case update_port port (\<lambda>lis. lis\<lparr>ml_name := ml_name lis @ ''~'' @ l_Name listener,
             ml_httpFilterChain := (case ml_httpFilterChain lis of Some ps \<Rightarrow> Some (ps @ [parent]) | None \<Rightarrow> Some [parent])\<rparr>) mls of
           Some mls' \<Rightarrow> mls'
         | None \<Rightarrow> mls @ [\<lparr>ml_name = l_Name listener, ml_gatewayNamespace = ns, ml_port = port,
             ml_httpFilterChain = Some [parent], ml_httpsFilterChains = [], ml_listenerReporter = reporter, ml_listener = listener\<rparr>])"

definition appendHttpsListener ::
  "string \<Rightarrow> 'sel listener \<Rightarrow> nat list \<Rightarrow> listener_reporter \<Rightarrow> 'sel merged_listener list \<Rightarrow> 'sel merged_listener list" where
  "appendHttpsListener ns listener routesWithHosts reporter mls =
     (let mfc = \<lparr>sfc_gatewayListenerName = l_Name listener, sfc_sniDomain = l_Hostname listener, sfc_tls = l_TLS listener,
            sfc_routesWithHosts = routesWithHosts\<rparr>;
          port = finalPort (l_Port listener)
      in case update_port port (\<lambda>lis. lis\<lparr>ml_name := ml_name lis @ ''~'' @ l_Name listener,
             ml_httpsFilterChains := ml_httpsFilterChains lis @ [mfc]\<rparr>) mls of
           Some mls' \<Rightarrow> mls'
         | None \<Rightarrow> mls @ [\<lparr>ml_name = l_Name listener, ml_gatewayNamespace = ns, ml_port = port,
             ml_httpFilterChain = None, ml_httpsFilterChains = [mfc], ml_listenerReporter = reporter, ml_listener = listener\<rparr>])"

definition appendListener ::
  "string \<Rightarrow> 'sel listener \<Rightarrow> nat list \<Rightarrow> listener_reporter \<Rightarrow> 'sel merged_listener list \<Rightarrow> 'sel merged_listener list" where
  "appendListener ns listener routes reporter mls =
     (if l_Protocol listener = HTTPProtocolType then appendHttpListener ns listener routes reporter mls
      else if l_Protocol listener = HTTPSProtocolType then appendHttpsListener ns listener routes reporter mls
      else mls)"

definition mergeGWListener ::
  "string \<Rightarrow> routes_for_gw \<Rightarrow> gateway_reporter \<Rightarrow> report_map \<times> 'sel merged_listener list \<Rightarrow> 'sel listener \<Rightarrow>
   report_map \<times> 'sel merged_listener list" where
  "mergeGWListener ns routesForGw reporter = (\<lambda>(rm, mls) listener.
     let (rm, listenerReporter) = gwr_Listener reporter listener rm;
         routes = (case rfg_ListenerResults routesForGw (l_Name listener) of None \<Rightarrow> [] | Some res \<Rightarrow> lres_Routes res)
     in (rm, appendListener ns listener routes listenerReporter mls))"

definition mergeGWListeners ::
  "string \<Rightarrow> 'sel listener list \<Rightarrow> routes_for_gw \<Rightarrow> gateway_reporter \<Rightarrow> report_map \<Rightarrow> report_map \<times> 'sel merged_listener list" where
  "mergeGWListeners ns listeners routesForGw reporter rm = foldl (mergeGWListener ns routesForGw reporter) (rm, []) listeners"

section \<open>Virtual hosts\<close>

record virtual_host =
  vh_Name :: string
  vh_Domains :: "string list"
  vh_Routes :: "gloo_route list"
  vh_Options :: "option_fields option"
  vh_Sources :: "source_ref list option"

record http_filter_chain =
  hfc_SslConfig :: "ssl_config option"
  hfc_VirtualHostRefs :: "string list"
  hfc_HttpOptionsRef :: string

text \<open>The map from hosts to routes: its entries in the order of their first use.\<close>

type_synonym routes_by_host = "(string \<times> sortable_route list) list"

type_synonym 'x listener_state = "mem \<times> report_map \<times> 'x"

definition append_host :: "string \<Rightarrow> sortable_route list \<Rightarrow> routes_by_host \<Rightarrow> routes_by_host" where
  "append_host host rs m =
     (case map_of m host of None \<Rightarrow> m @ [(host, rs)] | Some old \<Rightarrow> AList.update host (old @ rs) m)"

definition buildRoute ::
  "('sel, 'x) route_plugin list \<Rightarrow> 'sel listener \<Rightarrow> nat \<Rightarrow> routes_by_host \<times> 'x listener_state \<Rightarrow>
   (routes_by_host \<times> 'x listener_state) outcome" where
  "buildRoute plugins gwListener i = (\<lambda>(routesByHost, mm, rm, x).
     let info = mem_infos mm ! i;
         (rm, k) = reporter_Route (hri_HTTPRoute info) rm;
         (rm, parentRefReporter) = rr_ParentRef k (hri_ParentRef info) rm
     in bind_out (TranslateGatewayHTTPRouteRules (Suc (length (mem_infos mm))) plugins gwListener info parentRefReporter (mm, rm, x))
          (\<lambda>(routes, s).
            if routes = [] then Inr (routesByHost, s)
            else let hostnames = (if info_Hostnames info = [] then [''*''] else info_Hostnames info)
                 in Inr (foldl (\<lambda>m host. append_host host (ToSortable (hri_HTTPRoute info) routes) m) routesByHost hostnames, s)))"

definition buildRoutesPerHost ::
  "('sel, 'x) route_plugin list \<Rightarrow> nat list \<Rightarrow> 'sel listener \<Rightarrow> routes_by_host \<times> 'x listener_state \<Rightarrow>
   (routes_by_host \<times> 'x listener_state) outcome" where
  "buildRoutesPerHost plugins routes gwListener = fold_out (buildRoute plugins gwListener) routes"

text \<open>\<open>utils.SanitizeForEnvoy\<close>\<close>

definition SanitizeForEnvoy :: "string \<Rightarrow> string" where
  "SanitizeForEnvoy resourceName = replace_char (CHR ''.'') (CHR ''_'') resourceName"

definition makeVhostName :: "string \<Rightarrow> string \<Rightarrow> string" where
  "makeVhostName parentName domain = SanitizeForEnvoy (parentName @ ''~'' @ domain)"

definition addVhost ::
  "string \<Rightarrow> string \<times> sortable_route list \<Rightarrow> string list \<times> (string \<rightharpoonup> virtual_host) \<Rightarrow>
   (string list \<times> (string \<rightharpoonup> virtual_host)) outcome" where
  "addVhost parentName = (\<lambda>(host, vhostRoutes) (refs, vhosts).
     bind_out (sort_routes vhostRoutes) (\<lambda>vhostRoutes.
       let vhostName = makeVhostName parentName host
       in Inr (refs @ [vhostName],
            vhosts(vhostName \<mapsto> \<lparr>vh_Name = vhostName, vh_Domains = [host], vh_Routes = ToRoutes vhostRoutes,
              vh_Options = None, vh_Sources = None\<rparr>))))"

definition makeVhosts ::
  "(routes_by_host \<Rightarrow> routes_by_host) \<Rightarrow> string \<Rightarrow> routes_by_host \<Rightarrow> (string list \<times> (string \<rightharpoonup> virtual_host)) outcome" where
  "makeVhosts visit parentName routesByHost =
     bind_out (fold_out (addVhost parentName) (visit routesByHost) ([], Map.empty)) (\<lambda>(refs, vhosts).
       Inr (sort refs, vhosts))"

definition translateHttpFilterChain ::
  "(routes_by_host \<Rightarrow> routes_by_host) \<Rightarrow> ('sel, 'x) route_plugin list \<Rightarrow> filter_chain_parent list \<Rightarrow> string \<Rightarrow> 'sel listener \<Rightarrow>
   'x listener_state \<Rightarrow> (http_filter_chain \<times> (string \<rightharpoonup> virtual_host) \<times> 'x listener_state) outcome" where
  "translateHttpFilterChain visit plugins parents parentName listener s =
     bind_out (fold_out (\<lambda>parent. buildRoutesPerHost plugins (fcp_routesWithHosts parent) listener) parents ([], s))
       (\<lambda>(routesByHost, s).
         bind_out (makeVhosts visit parentName routesByHost) (\<lambda>(refs, vhosts).
           Inr (\<lparr>hfc_SslConfig = None, hfc_VirtualHostRefs = refs, hfc_HttpOptionsRef = []\<rparr>, vhosts, s)))"

definition translateHttpsFilterChain ::
  "'cert tls_lib \<Rightarrow> 'sel k8s_client \<Rightarrow> (routes_by_host \<Rightarrow> routes_by_host) \<Rightarrow> ('sel, 'x) route_plugin list \<Rightarrow> https_filter_chain \<Rightarrow>
   string \<Rightarrow> string \<Rightarrow> 'sel listener \<Rightarrow> listener_reporter \<Rightarrow> 'x listener_state \<Rightarrow>
   ((http_filter_chain \<times> (string \<rightharpoonup> virtual_host)) option \<times> 'x listener_state) outcome" where
  "translateHttpsFilterChain lib kc visit plugins chain parentName gatewayNamespace listener listenerReporter s =
     bind_out (buildRoutesPerHost plugins (sfc_routesWithHosts chain) listener ([], s)) (\<lambda>(routesByHost, mm, rm, x).
       bind_out (makeVhosts visit parentName routesByHost) (\<lambda>(refs, vhosts).
         bind_out (translateSslConfig lib kc gatewayNamespace (sfc_sniDomain chain) (sfc_tls chain)) (\<lambda>res.
           case res of
             Inl err \<Rightarrow>
               let reason = (if \<not> errors_Is err ErrMissingReferenceGrant then ''InvalidCertificateRef'' else ''RefNotPermitted'');
                   rm = lr_SetCondition listenerReporter (listener_condition ''ResolvedRefs'' ConditionFalse reason []) rm;
                   rm = lr_SetCondition listenerReporter (listener_condition ''Programmed'' ConditionFalse ''Invalid'' []) rm
               in Inr (None, mm, rm, x)
           | Inr sslConfig \<Rightarrow> Inr (Some (\<lparr>hfc_SslConfig = sslConfig, hfc_VirtualHostRefs = refs, hfc_HttpOptionsRef = []\<rparr>, vhosts), mm, rm, x))))"

section \<open>Listeners\<close>

record gloo_listener =
  gl_Name :: string
  gl_BindAddress :: string
  gl_BindPort :: "32 word"
  gl_VirtualHosts :: "string \<rightharpoonup> virtual_host"
  gl_HttpFilterChains :: "http_filter_chain list"
  gl_HttpOptions :: "string \<rightharpoonup> option_fields option"
  gl_Options :: "option_fields option"
  gl_Sources :: "source_ref list option"

definition translateHttpsChainStep ::
  "'cert tls_lib \<Rightarrow> 'sel k8s_client \<Rightarrow> (routes_by_host \<Rightarrow> routes_by_host) \<Rightarrow> ('sel, 'x) route_plugin list \<Rightarrow> 'sel merged_listener \<Rightarrow>
   https_filter_chain \<Rightarrow> http_filter_chain list \<times> (string \<rightharpoonup> virtual_host) \<times> 'x listener_state \<Rightarrow>
   (http_filter_chain list \<times> (string \<rightharpoonup> virtual_host) \<times> 'x listener_state) outcome" where
  "translateHttpsChainStep lib kc visit plugins ml mfc = (\<lambda>(chains, mergedVhosts, s).
     bind_out (translateHttpsFilterChain lib kc visit plugins mfc (sfc_gatewayListenerName mfc) (ml_gatewayNamespace ml)
         (ml_listener ml) (ml_listenerReporter ml) s) (\<lambda>(res, s).
       case res of
         None \<Rightarrow> Inr (chains, mergedVhosts, s)
       | Some (chain, vhosts) \<Rightarrow> Inr (chains @ [chain], mergedVhosts ++ vhosts, s)))"

definition translateListener ::
  "'cert tls_lib \<Rightarrow> 'sel k8s_client \<Rightarrow> (routes_by_host \<Rightarrow> routes_by_host) \<Rightarrow> ('sel, 'x) route_plugin list \<Rightarrow> 'sel merged_listener \<Rightarrow>
   'x listener_state \<Rightarrow> (gloo_listener \<times> 'x listener_state) outcome" where
  "translateListener lib kc visit plugins ml s =
     bind_out (case ml_httpFilterChain ml of
         None \<Rightarrow> Inr ([], Map.empty, s)
       | Some parents \<Rightarrow>
           bind_out (translateHttpFilterChain visit plugins parents (ml_name ml) (ml_listener ml) s) (\<lambda>(chain, vhosts, s).
             Inr ([chain], vhosts, s))) (\<lambda>st.
       bind_out (fold_out (translateHttpsChainStep lib kc visit plugins ml) (ml_httpsFilterChains ml) st) (\<lambda>(chains, mergedVhosts, s).
         Inr (\<lparr>gl_Name = ml_name ml, gl_BindAddress = ''::'', gl_BindPort = ml_port ml,
                gl_VirtualHosts = mergedVhosts, gl_HttpFilterChains = chains,
                gl_HttpOptions = Map.empty, gl_Options = None, gl_Sources = None\<rparr>, s)))"

text \<open>A listener plugin gets the gateway, the listener of the merged listener and the output.\<close>

type_synonym ('sel, 'x) listener_plugin =
  "'sel gateway \<Rightarrow> 'sel listener \<Rightarrow> gloo_listener \<Rightarrow> 'x plugin_state \<Rightarrow> (go_error option \<times> gloo_listener \<times> 'x plugin_state) outcome"

definition applyListenerPlugin ::
  "'sel gateway \<Rightarrow> 'sel listener \<Rightarrow> ('sel, 'x) listener_plugin \<Rightarrow> gloo_listener \<times> 'x listener_state \<Rightarrow>
   (gloo_listener \<times> 'x listener_state) outcome" where
  "applyListenerPlugin gw l plugin = (\<lambda>(listener, mm, rm, x).
     bind_out (plugin gw l listener (rm, x)) (\<lambda>(_, listener, rm, x). Inr (listener, mm, rm, x)))"

definition translateMergedListener ::
  "'cert tls_lib \<Rightarrow> 'sel k8s_client \<Rightarrow> (routes_by_host \<Rightarrow> routes_by_host) \<Rightarrow> ('sel, 'x) route_plugin list \<Rightarrow>
   ('sel, 'x) listener_plugin list \<Rightarrow> 'sel gateway \<Rightarrow> 'sel merged_listener \<Rightarrow> gloo_listener list \<times> 'x listener_state \<Rightarrow>
   (gloo_listener list \<times> 'x listener_state) outcome" where
  "translateMergedListener lib kc visit plugins lplugins gw ml = (\<lambda>(listeners, s).
     bind_out (translateListener lib kc visit plugins ml s) (\<lambda>st.
       bind_out (fold_out (applyListenerPlugin gw (ml_listener ml)) lplugins st) (\<lambda>(listener, s).
         Inr (listeners @ [listener], s))))"

definition translateListeners ::
  "'cert tls_lib \<Rightarrow> 'sel k8s_client \<Rightarrow> (routes_by_host \<Rightarrow> routes_by_host) \<Rightarrow> ('sel, 'x) route_plugin list \<Rightarrow>
   ('sel, 'x) listener_plugin list \<Rightarrow> 'sel gateway \<Rightarrow> 'sel merged_listener list \<Rightarrow> 'x listener_state \<Rightarrow>
   (gloo_listener list \<times> 'x listener_state) outcome" where
  "translateListeners lib kc visit plugins lplugins gw mls s =
     fold_out (translateMergedListener lib kc visit plugins lplugins gw) mls ([], s)"

definition TranslateListeners ::
  "'cert tls_lib \<Rightarrow> 'sel k8s_client \<Rightarrow> port_number list \<Rightarrow> (routes_by_host \<Rightarrow> routes_by_host) \<Rightarrow> ('sel, 'x) route_plugin list \<Rightarrow>
   ('sel, 'x) listener_plugin list \<Rightarrow> 'sel gateway \<Rightarrow> routes_for_gw \<Rightarrow> 'x listener_state \<Rightarrow>
   (gloo_listener list \<times> 'x listener_state) outcome" where
  "TranslateListeners lib kc ord visit plugins lplugins gateway routesForGw = (\<lambda>(mm, rm, x).
     let (rm, reporter) = reporter_Gateway gateway rm;
         (rm, validatedListeners) = validateListeners ord gateway reporter rm;
         (rm, merged) = mergeGWListeners (gw_Namespace gateway) validatedListeners routesForGw reporter rm
     in translateListeners lib kc visit plugins lplugins gateway merged (mm, rm, x))"

end
