(* ===== verification/ListenerProps.thy ===== *)
theory ListenerProps
  imports ListenerTranslator
begin

text \<open>
  Properties of the listener translator: ports, the merge of listeners by port, virtual hosts, the TLS
  configuration, and the theorem that the translation of a gateway's listeners returns well-formed
  listeners.
\<close>

section \<open>Ports\<close>

lemma TranslatePort_unat: "unat (TranslatePort u) = (if 1024 \<le> unat u then unat u else unat u + 8000)"
  by (simp add: TranslatePort_def word_le_nat_alt unat_word_ariths)

text \<open>C40. Port translation leaves only unprivileged ports, and two ports collide exactly when one of them
  is privileged and the other is 8000 above it.\<close>

theorem TranslatePort_collisions:
  "1024 \<le> TranslatePort u \<and>
   (TranslatePort u = TranslatePort v \<longleftrightarrow> u = v \<or> (u < 1024 \<and> v = u + 8000) \<or> (v < 1024 \<and> u = v + 8000))"
proof -
  have add: "w = z + 8000 \<longleftrightarrow> unat w = unat z + 8000" if "z < 1024" for w z :: "16 word"
  proof -
    from that have "unat z < 1024" by (simp add: word_less_nat_alt)
    then have "unat (z + 8000) = unat z + 8000" by (simp add: unat_word_ariths)
    then show ?thesis by (metis word_eq_iff_unsigned)
  qed
  have "TranslatePort u = TranslatePort v \<longleftrightarrow> unat (TranslatePort u) = unat (TranslatePort v)"
    by (metis word_eq_iff_unsigned)
  moreover have "u = v \<longleftrightarrow> unat u = unat v" by (metis word_eq_iff_unsigned)
  moreover have "w < 1024 \<longleftrightarrow> unat w < 1024" for w :: "16 word" by (simp add: word_less_nat_alt)
  ultimately have "TranslatePort u = TranslatePort v \<longleftrightarrow>
      u = v \<or> (u < 1024 \<and> v = u + 8000) \<or> (v < 1024 \<and> u = v + 8000)"
    using add by (auto simp: TranslatePort_unat)
  moreover have "1024 \<le> TranslatePort u" by (simp add: word_le_nat_alt TranslatePort_unat)
  ultimately show ?thesis by blast
qed

lemma finalPort_unprivileged: "1024 \<le> finalPort p"
proof -
  have "unat (TranslatePort (ucast p)) < 2 ^ 16" using unsigned_less [of "TranslatePort (ucast p)"] by simp
  then have "unat (finalPort p) = unat (TranslatePort (ucast p))"
    by (simp add: finalPort_def unsigned_ucast_eq take_bit_nat_eq_self_iff)
  then show ?thesis by (simp add: word_le_nat_alt TranslatePort_unat)
qed

section \<open>Merging listeners by port\<close>

definition served :: "'sel listener \<Rightarrow> bool" where
  "served l \<longleftrightarrow> l_Protocol l \<in> {HTTPProtocolType, HTTPSProtocolType}"

text \<open>The listeners of a port, the ports in the order of their first listener, and what the listeners of
  a port are merged to: their names joined, the HTTP listeners as the parents of one filter chain, a
  filter chain for each HTTPS listener.\<close>

definition listeners_on :: "'sel listener list \<Rightarrow> port_number \<Rightarrow> 'sel listener list" where
  "listeners_on ls p = filter (\<lambda>l. served l \<and> finalPort (l_Port l) = p) ls"

definition first_ports :: "'sel listener list \<Rightarrow> port_number list" where
  "first_ports ls = rev (remdups (rev (map (\<lambda>l. finalPort (l_Port l)) (filter served ls))))"

definition listener_routes :: "routes_for_gw \<Rightarrow> 'sel listener \<Rightarrow> nat list" where
  "listener_routes r l = (case rfg_ListenerResults r (l_Name l) of None \<Rightarrow> [] | Some res \<Rightarrow> lres_Routes res)"

definition http_parent :: "routes_for_gw \<Rightarrow> 'sel listener \<Rightarrow> filter_chain_parent" where
  "http_parent r l = \<lparr>fcp_gatewayListenerName = l_Name l, fcp_routesWithHosts = listener_routes r l\<rparr>"

definition https_chain :: "routes_for_gw \<Rightarrow> 'sel listener \<Rightarrow> https_filter_chain" where
  "https_chain r l = \<lparr>sfc_gatewayListenerName = l_Name l, sfc_sniDomain = l_Hostname l, sfc_tls = l_TLS l,
     sfc_routesWithHosts = listener_routes r l\<rparr>"

definition merge_on :: "string \<Rightarrow> routes_for_gw \<Rightarrow> gateway_reporter \<Rightarrow> 'sel listener list \<Rightarrow> 'sel merged_listener" where
  "merge_on ns r k on =
     (let https = filter (\<lambda>l. l_Protocol l = HTTPSProtocolType) on; http = filter (\<lambda>l. l_Protocol l = HTTPProtocolType) on
      in \<lparr>ml_name = join_strings ''~'' (map l_Name on), ml_gatewayNamespace = ns, ml_port = finalPort (l_Port (hd on)),
          ml_httpFilterChain = (if http = [] then None else Some (map (http_parent r) http)),
          ml_httpsFilterChains = map (https_chain r) https,
          ml_listenerReporter = (k, l_Name (hd on)), ml_listener = hd on\<rparr>)"

definition merge_spec :: "string \<Rightarrow> routes_for_gw \<Rightarrow> gateway_reporter \<Rightarrow> 'sel listener list \<Rightarrow> 'sel merged_listener list" where
  "merge_spec ns r k ls = map (\<lambda>p. merge_on ns r k (listeners_on ls p)) (first_ports ls)"

lemma join_strings_snoc: "xs \<noteq> [] \<Longrightarrow> join_strings sep (xs @ [y]) = join_strings sep xs @ sep @ y"
  by (induction sep xs rule: join_strings.induct) auto

lemma first_ports_snoc:
  "first_ports (ls @ [l]) = (if served l then (if finalPort (l_Port l) \<in> set (first_ports ls) then first_ports ls
     else first_ports ls @ [finalPort (l_Port l)]) else first_ports ls)"
  by (simp add: first_ports_def)

lemma set_first_ports: "set (first_ports ls) = (\<lambda>l. finalPort (l_Port l)) ` set (filter served ls)"
  by (auto simp: first_ports_def)

lemma distinct_first_ports: "distinct (first_ports ls)"
  by (simp add: first_ports_def)

lemma listeners_on_empty: "listeners_on ls p = [] \<longleftrightarrow> p \<notin> set (first_ports ls)"
  by (auto simp: listeners_on_def set_first_ports filter_empty_conv)

lemma listeners_on_snoc: "listeners_on (ls @ [l]) p =
    listeners_on ls p @ (if served l \<and> finalPort (l_Port l) = p then [l] else [])"
  by (simp add: listeners_on_def)

lemma merge_on_port: "on = listeners_on ls p \<Longrightarrow> on \<noteq> [] \<Longrightarrow> ml_port (merge_on ns r k on) = p"
proof -
  assume "on = listeners_on ls p" "on \<noteq> []"
  then have "hd on \<in> set (listeners_on ls p)" by (metis hd_in_set)
  then show ?thesis by (simp add: merge_on_def listeners_on_def Let_def)
qed

lemma update_port_map:
  assumes "distinct ps" "\<And>p. p \<in> set ps \<Longrightarrow> ml_port (g p) = p"
  shows "update_port p f (map g ps) = (if p \<in> set ps then Some (map (\<lambda>q. if q = p then f (g q) else g q) ps) else None)"
  using assms
proof (induction ps)
  case Nil
  then show ?case by simp
next
  case (Cons q ps)
  show ?case
  proof (cases "q = p")
    case True
    with Cons have "map (\<lambda>q. if q = p then f (g q) else g q) ps = map g ps" by (intro map_cong) auto
    with True Cons show ?thesis by simp
  next
    case False
    with Cons show ?thesis by (auto simp: eq_commute)
  qed
qed

text \<open>Adding a listener to those of its port.\<close>

definition merge_into :: "routes_for_gw \<Rightarrow> 'sel listener \<Rightarrow> 'sel merged_listener \<Rightarrow> 'sel merged_listener" where
  "merge_into r l = (if l_Protocol l = HTTPProtocolType
     then (\<lambda>lis. lis\<lparr>ml_name := ml_name lis @ ''~'' @ l_Name l, ml_httpFilterChain := (case ml_httpFilterChain lis of
         Some ps \<Rightarrow> Some (ps @ [http_parent r l]) | None \<Rightarrow> Some [http_parent r l])\<rparr>)
     else (\<lambda>lis. lis\<lparr>ml_name := ml_name lis @ ''~'' @ l_Name l, ml_httpsFilterChains := ml_httpsFilterChains lis @ [https_chain r l]\<rparr>))"

lemma appendListener_eq:
  "appendListener ns l (listener_routes r l) (k, l_Name l) mls =
     (if served l then (case update_port (finalPort (l_Port l)) (merge_into r l) mls of
         Some mls' \<Rightarrow> mls' | None \<Rightarrow> mls @ [merge_on ns r k [l]]) else mls)"
  unfolding appendListener_def appendHttpListener_def appendHttpsListener_def served_def merge_into_def merge_on_def
    http_parent_def https_chain_def Let_def
  by (auto split: option.split)

lemma merge_into_on:
  assumes "on \<noteq> []" "served l"
  shows "merge_into r l (merge_on ns r k on) = merge_on ns r k (on @ [l])"
  using assms join_strings_snoc [of "map l_Name on" "''~''" "l_Name l"]
  by (auto simp: merge_into_def merge_on_def Let_def served_def)

lemma appendListener_spec:
  "appendListener ns l (listener_routes r l) (k, l_Name l) (merge_spec ns r k ls) = merge_spec ns r k (ls @ [l])"
proof (cases "served l")
  case False
  then show ?thesis by (simp add: appendListener_eq merge_spec_def first_ports_snoc listeners_on_snoc)
next
  case True
  let ?p = "finalPort (l_Port l)" and ?g = "\<lambda>p. merge_on ns r k (listeners_on ls p)"
  have ports: "ml_port (?g q) = q" if "q \<in> set (first_ports ls)" for q
    using that merge_on_port [OF refl] listeners_on_empty by metis
  note u = update_port_map [OF distinct_first_ports, of ls ?g ?p "merge_into r l", OF ports]
  have other: "listeners_on (ls @ [l]) q = listeners_on ls q" if "q \<noteq> ?p" for q
    using that by (auto simp: listeners_on_snoc)
  show ?thesis
  proof (cases "?p \<in> set (first_ports ls)")
    case False
    then have "listeners_on (ls @ [l]) ?p = [l]" using listeners_on_empty True by (auto simp: listeners_on_snoc)
    moreover have "map (\<lambda>p. merge_on ns r k (listeners_on (ls @ [l]) p)) (first_ports ls) = map ?g (first_ports ls)"
      using False other by (intro map_cong refl arg_cong [of _ _ "merge_on ns r k"]) metis
    ultimately show ?thesis
      using False True u by (simp add: appendListener_eq merge_spec_def first_ports_snoc)
  next
    case in_ports: True
    then have "merge_into r l (?g ?p) = merge_on ns r k (listeners_on (ls @ [l]) ?p)"
      using merge_into_on [of "listeners_on ls ?p"] True listeners_on_empty [of ls ?p] by (simp add: listeners_on_snoc)
    then have "map (\<lambda>q. if q = ?p then merge_into r l (?g q) else ?g q) (first_ports ls) =
        map (\<lambda>p. merge_on ns r k (listeners_on (ls @ [l]) p)) (first_ports ls)"
      using other by (intro map_cong) auto
    then show ?thesis
      using in_ports True u by (simp add: appendListener_eq merge_spec_def first_ports_snoc)
  qed
qed

lemma mergeGWListeners_eq: "snd (mergeGWListeners ns ls r k rm) = merge_spec ns r k ls"
proof (induction ls rule: rev_induct)
  case Nil
  then show ?case by (simp add: mergeGWListeners_def merge_spec_def first_ports_def)
next
  case (snoc l ls)
  obtain rm1 mls where s: "mergeGWListeners ns ls r k rm = (rm1, mls)" by (cases "mergeGWListeners ns ls r k rm")
  have "mergeGWListeners ns (ls @ [l]) r k rm = mergeGWListener ns r k (mergeGWListeners ns ls r k rm) l"
    by (simp add: mergeGWListeners_def)
  then have "snd (mergeGWListeners ns (ls @ [l]) r k rm) = appendListener ns l (listener_routes r l) (k, l_Name l) mls"
    by (simp add: s mergeGWListener_def gwr_Listener_def listener_routes_def)
  with snoc s show ?case by (simp add: appendListener_spec)
qed

lemma merge_spec_ports: "map ml_port (merge_spec ns r k ls) = first_ports ls"
  unfolding merge_spec_def map_map comp_def by (rule map_idI) (metis merge_on_port listeners_on_empty)

text \<open>C33. Merging gives one listener per translated port, in the order of the ports' first listeners: all
  HTTP listeners of the port with their routes are the parents of its HTTP filter chain, every HTTPS
  listener has a filter chain with its hostname, TLS configuration and routes, and the names are
  joined; nothing is lost or duplicated.\<close>

theorem mergeGWListeners_correct:
  "snd (mergeGWListeners ns ls r k rm) = merge_spec ns r k ls \<and> distinct (map ml_port (merge_spec ns r k ls)) \<and>
   set (map ml_port (merge_spec ns r k ls)) = (\<lambda>l. finalPort (l_Port l)) ` set (filter served ls)"
  using distinct_first_ports set_first_ports by (metis mergeGWListeners_eq merge_spec_ports)

section \<open>Routes by host\<close>

definition sortable_wf :: "sortable_route \<Rightarrow> bool" where
  "sortable_wf w \<longleftrightarrow> route_wf (sr_Route w) \<and> CHR ''/'' \<notin> set (hr_Namespace (sr_HttpRoute w))"

lemma sortable_wf_ok: "sortable_wf w \<Longrightarrow> sortable_ok w"
  by (auto simp: sortable_wf_def sortable_ok_def route_wf_def)

definition hosts_ok :: "routes_by_host \<Rightarrow> bool" where
  "hosts_ok m \<longleftrightarrow> distinct (map fst m) \<and> (\<forall>(h, ws) \<in> set m. \<forall>w \<in> set ws. sortable_wf w)"

lemma alist_update_entries: "e \<in> set (AList.update k v m) \<Longrightarrow> e = (k, v) \<or> e \<in> set m"
  by (induction m) (auto split: if_splits)

lemma hosts_ok_append:
  assumes "hosts_ok m" "\<forall>w \<in> set ws. sortable_wf w"
  shows "hosts_ok (append_host h ws m)"
proof (cases "map_of m h")
  case None
  then have "h \<notin> fst ` set m" by (simp add: map_of_eq_None_iff)
  with None assms show ?thesis by (auto simp: append_host_def hosts_ok_def)
next
  case (Some old)
  then have "\<forall>w \<in> set old. sortable_wf w" using assms(1) map_of_SomeD [OF Some] by (auto simp: hosts_ok_def)
  then have "\<forall>(h', ws') \<in> set (AList.update h (old @ ws) m). \<forall>w \<in> set ws'. sortable_wf w"
    using assms by (fastforce simp: hosts_ok_def dest: alist_update_entries)
  with Some assms(1) show ?thesis by (simp add: append_host_def hosts_ok_def distinct_update)
qed

lemma ToSortable_wf:
  assumes "list_all route_wf rs" "CHR ''/'' \<notin> set (hr_Namespace hr)"
  shows "\<forall>w \<in> set (ToSortable hr rs). sortable_wf w"
  using assms enumerate_snd by (fastforce simp: ToSortable_def sortable_wf_def list_all_iff)

text \<open>A route attached to a listener: its info is not also a delegated one, its rules have matches with
  paths, admitted filters and known backends.\<close>

definition root_ok :: "(http_route_filter list \<Rightarrow> bool) \<Rightarrow> mem \<Rightarrow> nat \<Rightarrow> bool" where
  "root_ok A mm i \<longleftrightarrow> i < length (mem_infos mm) \<and> i \<notin> mem_kids mm \<and>
     CHR ''/'' \<notin> set (hr_Namespace (hri_HTTPRoute (mem_infos mm ! i))) \<and>
     (\<forall>r \<in> set (hr_Rules (hri_HTTPRoute (mem_infos mm ! i))). rule_ok A mm r \<and> rule_Matches r \<noteq> None)"

lemma root_ok_grows:
  assumes "root_ok A mm i" "grows mm mm'"
  shows "root_ok A mm' i"
proof -
  have "mem_infos mm' ! i = mem_infos mm ! i" using assms by (simp add: root_ok_def grows_def)
  then show ?thesis
    using assms rule_ok_grows [OF _ assms(2)] by (simp add: root_ok_def grows_length grows_kids)
qed

lemma root_info_ok:
  assumes "infos_ok A mm" "root_ok A mm i"
  shows "info_ok A (length (mem_infos mm)) mm (mem_infos mm ! i)"
proof -
  have i: "i < length (mem_infos mm)" using assms(2) by (simp add: root_ok_def)
  then have "\<forall>k \<in> kid_ids (hri_Children (mem_infos mm ! i)). k < length (mem_infos mm)"
    using assms(1) by (fastforce simp: infos_ok_def mem_wf_def)
  moreover have "kid_ids (hri_Children (mem_infos mm ! i)) \<subseteq> mem_kids mm" using nth_mem [OF i] by (auto simp: mem_kids_def)
  ultimately show ?thesis using assms(2) by (simp add: info_ok_def root_ok_def)
qed

text \<open>The state of the loops over routes, and of the later loops, where \<open>mm0\<close> is the memory at the start.\<close>

definition mem_state :: "(http_route_filter list \<Rightarrow> bool) \<Rightarrow> mem \<Rightarrow> mem \<Rightarrow> bool" where
  "mem_state A mm0 mm \<longleftrightarrow> infos_ok A mm \<and> grows mm0 mm"

definition host_state :: "(http_route_filter list \<Rightarrow> bool) \<Rightarrow> mem \<Rightarrow> routes_by_host \<times> 'x listener_state \<Rightarrow> bool" where
  "host_state A mm0 = (\<lambda>(m, mm, _). hosts_ok m \<and> mem_state A mm0 mm)"

context route_plugins
begin

lemma buildRoute_ok:
  assumes st: "host_state admits mm0 s" and root: "root_ok admits mm0 i"
  shows "\<exists>s'. buildRoute plugins gwListener i s = Inr s' \<and> host_state admits mm0 s'"
proof -
  obtain m mm rm x where s: "s = (m, mm, rm, x)" by (metis surj_pair)
  have g: "hosts_ok m" "infos_ok admits mm" "grows mm0 mm" using st s by (simp_all add: host_state_def mem_state_def)
  note r = root_ok_grows [OF root g(3)]
  let ?info = "mem_infos mm ! i"
  obtain rm1 k where k: "reporter_Route (hri_HTTPRoute ?info) rm = (rm1, k)" by (metis surj_pair)
  obtain rm2 prr where p: "rr_ParentRef k (hri_ParentRef ?info) rm1 = (rm2, prr)" by (metis surj_pair)
  from TranslateGatewayHTTPRouteRules_ok [OF g(2) root_info_ok [OF g(2) r], of "Suc (length (mem_infos mm))" gwListener prr rm2 x]
  obtain outs mm' rm' x' where t: "TranslateGatewayHTTPRouteRules (Suc (length (mem_infos mm))) plugins gwListener ?info prr (mm, rm2, x)
      = Inr (outs, mm', rm', x')" and o: "list_all route_wf outs" and g': "infos_ok admits mm'" "grows mm mm'" by auto
  have ws: "\<forall>w \<in> set (ToSortable (hri_HTTPRoute ?info) outs). sortable_wf w"
    using r by (intro ToSortable_wf [OF o]) (simp add: root_ok_def)
  have "hosts_ok (foldl (\<lambda>m h. append_host h (ToSortable (hri_HTTPRoute ?info) outs) m) m hs)" for hs
    by (rule foldl_invariant [where P = hosts_ok]) (use g(1) ws hosts_ok_append in auto)
  then show ?thesis
    using g(1) g' grows_trans [OF g(3) g'(2)]
    by (auto simp: buildRoute_def s k p t Let_def host_state_def mem_state_def)
qed

lemma buildRoutesPerHost_ok:
  assumes "host_state admits mm0 s" "\<forall>i \<in> set routes. root_ok admits mm0 i"
  shows "\<exists>s'. buildRoutesPerHost plugins routes gwListener s = Inr s' \<and> host_state admits mm0 s'"
  unfolding buildRoutesPerHost_def
  using assms by (intro fold_out_returns [where P = "host_state admits mm0"] buildRoute_ok) auto

end

section \<open>Virtual hosts\<close>

text \<open>A virtual host as Envoy needs it: one domain, and complete routes in the order of precedence.\<close>

definition vhost_wf :: "virtual_host \<Rightarrow> bool" where
  "vhost_wf vh \<longleftrightarrow> length (vh_Domains vh) = 1 \<and> list_all route_wf (vh_Routes vh) \<and>
     (\<exists>ws. vh_Routes vh = ToRoutes ws \<and> sorted_wrt precedes ws)"

lemma sort_routes_ok:
  assumes "\<forall>w \<in> set ws. sortable_wf w"
  shows "\<exists>vs. sort_routes ws = Inr vs \<and> mset vs = mset ws \<and> sorted_wrt precedes vs"
proof -
  have ok: "\<forall>w \<in> set ws. sortable_ok w" using assms sortable_wf_ok by blast
  then have "list_all (\<lambda>w. rt_Matchers (sr_Route w) \<noteq> []) ws" by (auto simp: list_all_iff sortable_ok_def)
  moreover have "sorted_wrt precedes (sort_stable Less ws)"
    by (rule sorted_sort_stable) (use ok precedes_total precedes_trans in \<open>auto simp: Less_precedes\<close>)
  ultimately show ?thesis by (simp add: sort_routes_def)
qed

definition vhosts_state :: "string list \<times> (string \<rightharpoonup> virtual_host) \<Rightarrow> bool" where
  "vhosts_state = (\<lambda>(refs, vhosts). set refs = dom vhosts \<and> (\<forall>vh \<in> ran vhosts. vhost_wf vh))"

lemma addVhost_ok:
  assumes st: "vhosts_state s" and ws: "\<forall>w \<in> set (snd hw). sortable_wf w"
  shows "\<exists>s'. addVhost parentName hw s = Inr s' \<and> vhosts_state s'"
proof -
  obtain h ws where hw: "hw = (h, ws)" by (cases hw)
  obtain refs vhosts where s: "s = (refs, vhosts)" by (cases s)
  from sort_routes_ok [of ws] assms(2) hw obtain vs where
    v: "sort_routes ws = Inr vs" "mset vs = mset ws" "sorted_wrt precedes vs" by auto
  let ?n = "makeVhostName parentName h"
  let ?vh = "\<lparr>vh_Name = ?n, vh_Domains = [h], vh_Routes = ToRoutes vs, vh_Options = None, vh_Sources = None\<rparr>"
  have "\<forall>w \<in> set vs. sortable_wf w" using ws hw v(2) mset_eq_setD [OF v(2)] by simp
  then have "vhost_wf ?vh" using v(3) by (auto simp: vhost_wf_def ToRoutes_def list_all_iff sortable_wf_def)
  moreover have "ran (vhosts(?n \<mapsto> ?vh)) \<subseteq> insert ?vh (ran vhosts)" by (auto simp: ran_def)
  ultimately have "\<forall>vh \<in> ran (vhosts(?n \<mapsto> ?vh)). vhost_wf vh" using st s by (auto simp: vhosts_state_def)
  then have "vhosts_state (refs @ [?n], vhosts(?n \<mapsto> ?vh))" using st s by (simp add: vhosts_state_def)
  moreover have "addVhost parentName hw s = Inr (refs @ [?n], vhosts(?n \<mapsto> ?vh))"
    by (simp add: addVhost_def hw s v(1) Let_def)
  ultimately show ?thesis by blast
qed

text \<open>Go visits the entries of the map in some order.\<close>

definition visits :: "(routes_by_host \<Rightarrow> routes_by_host) \<Rightarrow> bool" where
  "visits visit \<longleftrightarrow> (\<forall>m. mset (visit m) = mset m)"

lemma visits_set: "visits visit \<Longrightarrow> set (visit m) = set m"
  unfolding visits_def using mset_eq_setD by blast

lemma makeVhosts_ok:
  assumes "visits visit" "hosts_ok m"
  shows "\<exists>s'. makeVhosts visit parentName m = Inr s' \<and> vhosts_state s'"
proof -
  have "\<exists>s'. fold_out (addVhost parentName) (visit m) ([], Map.empty) = Inr s' \<and> vhosts_state s'"
    using assms visits_set [OF assms(1)]
    by (intro fold_out_returns [where P = vhosts_state] addVhost_ok) (auto simp: hosts_ok_def vhosts_state_def)
  then show ?thesis by (auto simp: makeVhosts_def vhosts_state_def)
qed

text \<open>The virtual hosts the map of routes stands for.\<close>

definition host_entry :: "string \<Rightarrow> string \<times> sortable_route list \<Rightarrow> string \<times> virtual_host" where
  "host_entry parentName = (\<lambda>(h, ws). (makeVhostName parentName h,
     \<lparr>vh_Name = makeVhostName parentName h, vh_Domains = [h], vh_Routes = ToRoutes (sort_stable Less ws),
       vh_Options = None, vh_Sources = None\<rparr>))"

lemma fst_host_entry: "fst (host_entry parentName hw) = makeVhostName parentName (fst hw)"
  by (simp add: host_entry_def split: prod.split)

lemma addVhosts_eq:
  assumes "\<forall>(h, ws) \<in> set es. \<forall>w \<in> set ws. sortable_wf w"
  shows "fold_out (addVhost parentName) es (refs, vhosts) =
    Inr (refs @ map (\<lambda>e. makeVhostName parentName (fst e)) es, vhosts ++ map_of (rev (map (host_entry parentName) es)))"
  using assms
proof (induction es arbitrary: refs vhosts)
  case Nil
  then show ?case by simp
next
  case (Cons e es)
  obtain h ws where e: "e = (h, ws)" by (cases e)
  have "list_all (\<lambda>w. rt_Matchers (sr_Route w) \<noteq> []) ws"
    using Cons.prems e sortable_wf_ok by (fastforce simp: list_all_iff sortable_ok_def)
  then have s: "sort_routes ws = Inr (sort_stable Less ws)" by (simp add: sort_routes_def)
  have "addVhost parentName e (refs, vhosts) =
      Inr (refs @ [makeVhostName parentName h], vhosts(fst (host_entry parentName e) \<mapsto> snd (host_entry parentName e)))"
    by (simp add: addVhost_def e s host_entry_def Let_def)
  with Cons show ?case
    by (simp add: e fst_host_entry map_add_upd_left flip: map_add_assoc) (simp add: map_add_def fun_eq_iff split: option.split)
qed

text \<open>A hostname, as the Gateway API admits it, has no underscore; then names of virtual hosts differ.\<close>

lemma makeVhostName_inj:
  assumes "CHR ''_'' \<notin> set h" "CHR ''_'' \<notin> set h'" "makeVhostName p h = makeVhostName p h'"
  shows "h = h'"
proof -
  have "replace_char (CHR ''.'') (CHR ''_'') h = replace_char (CHR ''.'') (CHR ''_'') h'"
    using assms(3) by (simp add: makeVhostName_def SanitizeForEnvoy_def replace_char_def)
  then show ?thesis using assms(1,2) inj_replace_char by blast
qed

text \<open>C34. Whatever order Go visits the map of hosts in, every host gets its own virtual host, named after
  it, with exactly its routes in order of precedence, and the filter chain refers to all of them in
  sorted order.\<close>

theorem makeVhosts_correct:
  assumes v: "visits visit" and ok: "hosts_ok m" and names: "\<forall>h \<in> fst ` set m. CHR ''_'' \<notin> set h"
  shows "makeVhosts visit parentName m =
    Inr (sort (map (\<lambda>e. makeVhostName parentName (fst e)) m), map_of (map (host_entry parentName) m))"
proof -
  let ?keys = "\<lambda>es. map fst (map (host_entry parentName) es)"
  have set: "set (visit m) = set m" by (rule visits_set [OF v])
  have ms: "mset (visit m) = mset m" using v by (simp add: visits_def)
  have "inj_on (makeVhostName parentName) (fst ` set m)"
    using names makeVhostName_inj by (intro inj_onI) blast
  then have "distinct (map (makeVhostName parentName) (map fst m))"
    using ok by (simp only: distinct_map set_map hosts_ok_def)
  then have d: "distinct (?keys m)" by (simp add: fst_host_entry comp_def)
  have "mset (?keys (visit m)) = mset (?keys m)" using ms by simp
  then have d': "distinct (?keys (visit m))" using d by (metis mset_eq_imp_distinct_iff)
  have "map_of (rev (map (host_entry parentName) (visit m))) = map_of (map (host_entry parentName) m)"
    using d d' set by (intro map_of_inject_set [THEN iffD2]) (simp_all flip: rev_map)
  moreover have "sort (map (\<lambda>e. makeVhostName parentName (fst e)) (visit m)) = sort (map (\<lambda>e. makeVhostName parentName (fst e)) m)"
    using ms by (intro properties_for_sort) simp_all
  moreover have "\<forall>(h, ws) \<in> set (visit m). \<forall>w \<in> set ws. sortable_wf w" using ok set by (simp add: hosts_ok_def)
  ultimately show ?thesis by (simp add: makeVhosts_def addVhosts_eq)
qed

end
