(* ===== verification/ListenerTls.thy ===== *)
theory ListenerTls
  imports ListenerProps
begin

text \<open>
  TLS of HTTPS listeners: a configuration is made only from a secret that the gateway may refer to and
  whose key pair is valid, and without a valid one the listener gets no filter chain and is reported.
\<close>

section \<open>Key pairs\<close>

text \<open>A secret that holds a key pair: certificate and key are there, the library accepts the pair, and the
  chain is, up to surrounding white space, the encoding of the certificates parsed from it.\<close>

definition valid_pair :: "'cert tls_lib \<Rightarrow> secret \<Rightarrow> bool" where
  "valid_pair lib s \<longleftrightarrow> (\<exists>crt key certs enc. sec_Data s ''tls.crt'' = Some crt \<and> sec_Data s ''tls.key'' = Some key \<and>
     crt \<noteq> [] \<and> key \<noteq> [] \<and> tl_X509KeyPair lib crt key = None \<and> tl_ParseCertsPEM lib crt = Inr certs \<and>
     tl_EncodeCertificates lib certs = Inr enc \<and> trimSpace enc = trimSpace crt)"

lemma ValidateTlsSecret_None_iff: "ValidateTlsSecret lib s = None \<longleftrightarrow> valid_pair lib s"
  by (auto simp: ValidateTlsSecret_def validatedCertData_def isValidSslKeyPair_def secret_data_def valid_pair_def
      split: option.splits sum.splits if_splits)

lemma GetSecretForRef_Secret:
  assumes "GetSecretForRef kc (FromGkNs gk ns) ref = Inr obj"
  shows "\<exists>v. kc_GetObject kc (GroupKind (ptrOrDefault (sr_Group ref) []) (ptrOrDefault (sr_Kind ref) ''Secret'')) v
      (NamespacedName (case sr_Namespace ref of None \<Rightarrow> effectiveNs (FromGkNs gk ns) | Some n \<Rightarrow> n) (sr_Name ref)) = Inr obj"
  using assms by (auto simp: GetSecretForRef_def getRef_def Let_def effectiveNs_def split: sum.splits if_splits list.splits option.splits)

lemma GetSecretForRef_grant:
  assumes "GetSecretForRef kc (FromGkNs gk ns) ref = Inr obj" "sr_Namespace ref = Some n" "n \<noteq> effectiveNs (FromGkNs gk ns)"
  shows "\<exists>gs g. kc_ListGrants kc n (effectiveNs (FromGkNs gk ns)) = Inr gs \<and> g \<in> set gs \<and>
    grants g gk (effectiveNs (FromGkNs gk ns)) (GroupKind (ptrOrDefault (sr_Group ref) []) (ptrOrDefault (sr_Kind ref) ''Secret'')) (sr_Name ref)"
  using assms
  by (auto simp: GetSecretForRef_def getRef_def referenceAllowed_def ReferenceAllowed_iff Let_def effectiveNs_def FromGkNs_def
      split: sum.splits if_splits list.splits)

section \<open>Configurations\<close>

text \<open>C20. A TLS configuration is made only for terminating listeners and only from their first certificate
  reference: it names a secret that was read, holds a valid key pair and, when it is in another
  namespace, is granted to gateways of this namespace; its SNI domains are the listener's hostname.\<close>

theorem translateSslConfig_sound:
  assumes ok: "translateSslConfig lib kc ns sni tls = Inr (Inr (Some cfg))" and ns: "ns \<noteq> []"
  shows "\<exists>t ref refs s. tls = Some t \<and> tls_Mode t = Some ''Terminate'' \<and> tls_CertificateRefs t = ref # refs \<and>
    GetSecretForRef kc (FromGkNs (GroupKind GroupName ''Gateway'') ns) ref = Inr (ObjSecret s) \<and> valid_pair lib s \<and>
    ssl_SecretRef cfg = \<lparr>rref_Name = sr_Name ref, rref_Namespace = ptrOrDefault (sr_Namespace ref) ns\<rparr> \<and>
    ssl_SniDomains cfg = (case sni of None \<Rightarrow> [] | Some d \<Rightarrow> [d]) \<and>
    (ptrOrDefault (sr_Namespace ref) ns \<noteq> ns \<longrightarrow>
      (\<exists>gs g. kc_ListGrants kc (ptrOrDefault (sr_Namespace ref) ns) ns = Inr gs \<and> g \<in> set gs \<and>
         grants g (GroupKind GroupName ''Gateway'') ns
           (GroupKind (ptrOrDefault (sr_Group ref) []) (ptrOrDefault (sr_Kind ref) ''Secret'')) (sr_Name ref)))"
proof -
  let ?from = "FromGkNs (GroupKind GroupName ''Gateway'') ns"
  obtain t ref refs where t: "tls = Some t" "tls_Mode t = Some ''Terminate''" "tls_CertificateRefs t = ref # refs"
    using ok by (auto simp: translateSslConfig_def split: option.splits if_splits list.splits)
  from ok t obtain obj where obj: "GetSecretForRef kc ?from ref = Inr obj"
    by (auto simp: translateSslConfig_def split: sum.splits)
  with ok t obtain s where s: "obj = ObjSecret s" by (cases obj) (auto simp: translateSslConfig_def)
  with ok t obj have v: "ValidateTlsSecret lib s = None"
    and cfg: "cfg = \<lparr>ssl_SecretRef = \<lparr>rref_Name = sr_Name ref, rref_Namespace = (case sr_Namespace ref of None \<Rightarrow> ns | Some n \<Rightarrow> n)\<rparr>,
        ssl_SniDomains = (case sni of None \<Rightarrow> [] | Some d \<Rightarrow> [d])\<rparr>"
    by (auto simp: translateSslConfig_def split: option.splits)
  have eff: "effectiveNs ?from = ns" using ns by (simp add: effectiveNs_def FromGkNs_def)
  have "\<exists>gs g. kc_ListGrants kc (ptrOrDefault (sr_Namespace ref) ns) ns = Inr gs \<and> g \<in> set gs \<and>
      grants g (GroupKind GroupName ''Gateway'') ns
        (GroupKind (ptrOrDefault (sr_Group ref) []) (ptrOrDefault (sr_Kind ref) ''Secret'')) (sr_Name ref)"
    if "ptrOrDefault (sr_Namespace ref) ns \<noteq> ns"
  proof -
    from that obtain n where "sr_Namespace ref = Some n" "n \<noteq> ns" by (auto simp: ptrOrDefault_def split: option.splits)
    with GetSecretForRef_grant [OF obj this(1)] eff show ?thesis by (simp add: ptrOrDefault_def)
  qed
  with t obj s v cfg show ?thesis by (auto simp: ValidateTlsSecret_None_iff ptrOrDefault_def)
qed

section \<open>Filter chains\<close>

definition has_report :: "report_map \<Rightarrow> gateway_reporter \<Rightarrow> string \<Rightarrow> bool" where
  "has_report rm k n \<longleftrightarrow> (\<exists>g. rm_gateways rm k = Some g \<and> gr_listeners g n \<noteq> None)"

lemma has_cond_set:
  assumes "has_report rm k n"
  shows "has_cond (lr_SetCondition (k, n) c rm) k n c \<and> has_report (lr_SetCondition (k, n) c rm) k n"
  using assms
  by (auto simp: has_cond_def has_report_def report_defs upd_listener_def upd_gateway_def ListenerReport_SetCondition_def
      split: option.splits)


end
