(* ===== verification/ListenerTotal.thy ===== *)
theory ListenerTotal
  imports ListenerTls
begin

text \<open>
  The translation of all listeners of a gateway: it returns for routes and certificate references as the
  API server admits them, and gives well-formed listeners.
\<close>

section \<open>Well-formed listeners\<close>

definition listener_wf :: "gloo_listener \<Rightarrow> bool" where
  "listener_wf l \<longleftrightarrow> (\<forall>vh \<in> ran (gl_VirtualHosts l). vhost_wf vh) \<and>
     (\<forall>c \<in> set (gl_HttpFilterChains l). set (hfc_VirtualHostRefs c) \<subseteq> dom (gl_VirtualHosts l))"

text \<open>Certificate references to secrets, and a client that reads a secret as a secret.\<close>

definition cert_ref_ok :: "secret_object_reference \<Rightarrow> bool" where
  "cert_ref_ok r \<longleftrightarrow> sr_Group r \<in> {None, Some []} \<and> sr_Kind r \<in> {None, Some ''Secret''}"

definition tls_ok :: "gateway_tls_config option \<Rightarrow> bool" where
  "tls_ok tls \<longleftrightarrow> (\<forall>t. tls = Some t \<longrightarrow> list_all cert_ref_ok (tls_CertificateRefs t))"

definition secrets_typed :: "'sel k8s_client \<Rightarrow> bool" where
  "secrets_typed kc \<longleftrightarrow> (\<forall>v n obj. kc_GetObject kc (GroupKind [] ''Secret'') v n = Inr obj \<longrightarrow> (\<exists>s. obj = ObjSecret s))"

lemma translateSslConfig_returns:
  assumes "tls_ok tls" "secrets_typed kc"
  shows "\<exists>res. translateSslConfig lib kc ns sni tls = Inr res"
proof (cases "\<exists>t ref refs obj. tls = Some t \<and> tls_CertificateRefs t = ref # refs \<and>
    GetSecretForRef kc (FromGkNs (GroupKind GroupName ''Gateway'') ns) ref = Inr obj")
  case False
  then show ?thesis by (auto simp: translateSslConfig_def split: option.split list.split sum.split)
next
  case True
  then obtain t ref refs obj where t: "tls = Some t" "tls_CertificateRefs t = ref # refs"
    and g: "GetSecretForRef kc (FromGkNs (GroupKind GroupName ''Gateway'') ns) ref = Inr obj" by blast
  from assms(1) t have "cert_ref_ok ref" by (simp add: tls_ok_def)
  then have "GroupKind (ptrOrDefault (sr_Group ref) []) (ptrOrDefault (sr_Kind ref) ''Secret'') = GroupKind [] ''Secret''"
    by (auto simp: cert_ref_ok_def ptrOrDefault_def)
  with GetSecretForRef_Secret [OF g] have "\<exists>v n. kc_GetObject kc (GroupKind [] ''Secret'') v n = Inr obj" by auto
  with assms(2) obtain s where "obj = ObjSecret s" unfolding secrets_typed_def by blast
  with t g show ?thesis by (auto simp: translateSslConfig_def split: option.split)
qed

section \<open>Filter fcs\<close>

definition chain_state ::
  "(http_route_filter list \<Rightarrow> bool) \<Rightarrow> mem \<Rightarrow> http_filter_chain list \<times> (string \<rightharpoonup> virtual_host) \<times> 'x listener_state \<Rightarrow> bool" where
  "chain_state A mm0 = (\<lambda>(fcs, vhosts, mm, _). mem_state A mm0 mm \<and> (\<forall>vh \<in> ran vhosts. vhost_wf vh) \<and>
     (\<forall>c \<in> set fcs. set (hfc_VirtualHostRefs c) \<subseteq> dom vhosts))"

lemma ran_map_add_subset: "ran (m ++ n) \<subseteq> ran m \<union> ran n"
  by (auto simp: ran_def map_add_def split: option.splits)

lemma chain_state_add:
  assumes "chain_state A mm0 (fcs, vhosts, s)" "vhosts_state (refs, vs)" "mem_state A mm0 (fst s')"
    and "set (hfc_VirtualHostRefs c) = set refs"
  shows "chain_state A mm0 (fcs @ [c], vhosts ++ vs, s')"
  using assms ran_map_add_subset [of vhosts vs] by (cases s') (fastforce simp: chain_state_def vhosts_state_def)

text \<open>What a merged listener must satisfy: its routes are roots and its TLS configurations refer to secrets.\<close>

definition merged_ok :: "(http_route_filter list \<Rightarrow> bool) \<Rightarrow> mem \<Rightarrow> 'sel merged_listener \<Rightarrow> bool" where
  "merged_ok A mm ml \<longleftrightarrow>
     (\<forall>ps. ml_httpFilterChain ml = Some ps \<longrightarrow> (\<forall>p \<in> set ps. \<forall>i \<in> set (fcp_routesWithHosts p). root_ok A mm i)) \<and>
     (\<forall>c \<in> set (ml_httpsFilterChains ml). tls_ok (sfc_tls c) \<and> (\<forall>i \<in> set (sfc_routesWithHosts c). root_ok A mm i))"

context route_plugins
begin

lemma translateHttpFilterChain_ok:
  assumes v: "visits visit" and mm: "mem_state admits mm0 (fst s)"
    and roots: "\<forall>p \<in> set parents. \<forall>i \<in> set (fcp_routesWithHosts p). root_ok admits mm0 i"
  shows "\<exists>c vhosts s'. translateHttpFilterChain visit plugins parents parentName listener s = Inr (c, vhosts, s') \<and>
    vhosts_state (hfc_VirtualHostRefs c, vhosts) \<and> mem_state admits mm0 (fst s')"
proof -
  have start: "host_state admits mm0 ([], s)" using mm by (cases s) (simp add: host_state_def hosts_ok_def)
  have "\<exists>s'. fold_out (\<lambda>parent. buildRoutesPerHost plugins (fcp_routesWithHosts parent) listener) parents ([], s) = Inr s' \<and>
      host_state admits mm0 s'"
    using roots start by (intro fold_out_returns [where P = "host_state admits mm0"] buildRoutesPerHost_ok) auto
  then obtain m s' where f: "fold_out (\<lambda>parent. buildRoutesPerHost plugins (fcp_routesWithHosts parent) listener) parents ([], s) = Inr (m, s')"
    and h: "host_state admits mm0 (m, s')" by auto
  have "hosts_ok m" "mem_state admits mm0 (fst s')" using h by (cases s'; simp add: host_state_def)+
  moreover from makeVhosts_ok [OF v this(1), of parentName] obtain refs vhosts where
    "makeVhosts visit parentName m = Inr (refs, vhosts)" "vhosts_state (refs, vhosts)" by auto
  ultimately show ?thesis by (simp add: translateHttpFilterChain_def f)
qed

lemma translateHttpsFilterChain_ok:
  assumes v: "visits visit" and mm: "mem_state admits mm0 (fst s)" and tls: "tls_ok (sfc_tls chain)" "secrets_typed kc"
    and roots: "\<forall>i \<in> set (sfc_routesWithHosts chain). root_ok admits mm0 i"
  shows "\<exists>res s'. translateHttpsFilterChain lib kc visit plugins chain parentName ns listener lr s = Inr (res, s') \<and>
    (\<forall>c vhosts. res = Some (c, vhosts) \<longrightarrow> vhosts_state (hfc_VirtualHostRefs c, vhosts)) \<and> mem_state admits mm0 (fst s')"
proof -
  have "host_state admits mm0 ([], s)" using mm by (cases s) (simp add: host_state_def hosts_ok_def)
  from buildRoutesPerHost_ok [OF this roots, of listener] obtain m mm rm x where
    b: "buildRoutesPerHost plugins (sfc_routesWithHosts chain) listener ([], s) = Inr (m, mm, rm, x)"
    and h: "hosts_ok m" "mem_state admits mm0 mm" by (auto simp: host_state_def)
  from makeVhosts_ok [OF v h(1), of parentName] obtain refs vhosts where
    mk: "makeVhosts visit parentName m = Inr (refs, vhosts)" "vhosts_state (refs, vhosts)" by auto
  from translateSslConfig_returns [OF tls] obtain res where
    "translateSslConfig lib kc ns (sfc_sniDomain chain) (sfc_tls chain) = Inr res" by blast
  with b mk h(2) show ?thesis by (simp add: translateHttpsFilterChain_def Let_def split: sum.split)
qed

lemma translateHttpsChainStep_ok:
  assumes v: "visits visit" and st: "chain_state admits mm0 st" and tls: "tls_ok (sfc_tls mfc)" "secrets_typed kc"
    and roots: "\<forall>i \<in> set (sfc_routesWithHosts mfc). root_ok admits mm0 i"
  shows "\<exists>st'. translateHttpsChainStep lib kc visit plugins ml mfc st = Inr st' \<and> chain_state admits mm0 st'"
proof -
  obtain fcs vhosts s where s: "st = (fcs, vhosts, s)" by (metis surj_pair)
  have "mem_state admits mm0 (fst s)" using st s by (cases s) (simp add: chain_state_def)
  from translateHttpsFilterChain_ok [OF v this tls roots] obtain res s' where
    r: "translateHttpsFilterChain lib kc visit plugins mfc (sfc_gatewayListenerName mfc) (ml_gatewayNamespace ml)
         (ml_listener ml) (ml_listenerReporter ml) s = Inr (res, s')"
    and ok: "\<forall>c vhosts. res = Some (c, vhosts) \<longrightarrow> vhosts_state (hfc_VirtualHostRefs c, vhosts)" "mem_state admits mm0 (fst s')"
    by blast
  show ?thesis
  proof (cases res)
    case None
    moreover have "chain_state admits mm0 (fcs, vhosts, s')" using st s ok(2) by (cases s'; cases s) (simp add: chain_state_def)
    ultimately show ?thesis by (simp add: translateHttpsChainStep_def s r)
  next
    case (Some cv)
    obtain c vs where cv: "cv = (c, vs)" by (cases cv)
    have "chain_state admits mm0 (fcs @ [c], vhosts ++ vs, s')"
      using st s ok Some cv by (intro chain_state_add [where refs = "hfc_VirtualHostRefs c"]) auto
    then show ?thesis by (simp add: translateHttpsChainStep_def s r Some cv)
  qed
qed

lemma translateListener_ok:
  assumes v: "visits visit" and mm: "mem_state admits mm0 (fst s)" and ok: "merged_ok admits mm0 ml" and kc: "secrets_typed kc"
  shows "\<exists>l s'. translateListener lib kc visit plugins ml s = Inr (l, s') \<and> listener_wf l \<and> gl_BindPort l = ml_port ml \<and>
    mem_state admits mm0 (fst s')"
proof -
  let ?first = "case ml_httpFilterChain ml of None \<Rightarrow> Inr ([], Map.empty, s)
     | Some parents \<Rightarrow> bind_out (translateHttpFilterChain visit plugins parents (ml_name ml) (ml_listener ml) s)
         (\<lambda>(chain, vhosts, s). Inr ([chain], vhosts, s))"
  have "\<exists>st. ?first = Inr st \<and> chain_state admits mm0 st"
  proof (cases "ml_httpFilterChain ml")
    case None
    then show ?thesis using mm by (cases s) (simp add: chain_state_def)
  next
    case (Some ps)
    with ok translateHttpFilterChain_ok [OF v mm, of ps "ml_name ml" "ml_listener ml"] obtain c vhosts s' where
      t: "translateHttpFilterChain visit plugins ps (ml_name ml) (ml_listener ml) s = Inr (c, vhosts, s')"
        "vhosts_state (hfc_VirtualHostRefs c, vhosts)" "mem_state admits mm0 (fst s')" by (auto simp: merged_ok_def)
    then have "chain_state admits mm0 ([c], vhosts, s')" by (cases s') (auto simp: chain_state_def vhosts_state_def)
    with Some t(1) show ?thesis by simp
  qed
  then obtain st where st: "?first = Inr st" "chain_state admits mm0 st" by blast
  have "\<exists>st'. fold_out (translateHttpsChainStep lib kc visit plugins ml) (ml_httpsFilterChains ml) st = Inr st' \<and>
      chain_state admits mm0 st'"
    using st(2) ok v kc
    by (intro fold_out_returns [where P = "chain_state admits mm0"] translateHttpsChainStep_ok) (auto simp: merged_ok_def)
  then obtain fcs vhosts mm' rm' x' where
    f: "fold_out (translateHttpsChainStep lib kc visit plugins ml) (ml_httpsFilterChains ml) st = Inr (fcs, vhosts, mm', rm', x')"
    and c: "chain_state admits mm0 (fcs, vhosts, mm', rm', x')" by auto
  then show ?thesis
    by (simp add: translateListener_def st(1) listener_wf_def chain_state_def)
qed

end

section \<open>The gateway\<close>

text \<open>What the translator relies on in listener plugins: they return, and keep the port, the virtual hosts'
  routes and the filter chains' references well formed.\<close>

definition listener_plugin_contract :: "('sel, 'x) listener_plugin \<Rightarrow> bool" where
  "listener_plugin_contract p \<longleftrightarrow> (\<forall>gw l out s. \<exists>e out' s'. p gw l out s = Inr (e, out', s') \<and>
     gl_BindPort out' = gl_BindPort out \<and> (listener_wf out \<longrightarrow> listener_wf out'))"

definition out_state :: "(http_route_filter list \<Rightarrow> bool) \<Rightarrow> mem \<Rightarrow> port_number \<Rightarrow> gloo_listener \<times> 'x listener_state \<Rightarrow> bool" where
  "out_state A mm0 port = (\<lambda>(l, mm, _). listener_wf l \<and> gl_BindPort l = port \<and> mem_state A mm0 mm)"

lemma applyListenerPlugin_ok:
  assumes "listener_plugin_contract p" "out_state A mm0 port s"
  shows "\<exists>s'. applyListenerPlugin gw l p s = Inr s' \<and> out_state A mm0 port s'"
proof -
  obtain out mm rm x where s: "s = (out, mm, rm, x)" by (metis surj_pair)
  obtain e out' rm' x' where "p gw l out (rm, x) = Inr (e, out', rm', x')" "gl_BindPort out' = gl_BindPort out"
    "listener_wf out \<longrightarrow> listener_wf out'"
    using assms(1) unfolding listener_plugin_contract_def by (metis surj_pair)
  with assms(2) s show ?thesis by (simp add: applyListenerPlugin_def out_state_def)
qed

definition outs_state ::
  "(http_route_filter list \<Rightarrow> bool) \<Rightarrow> mem \<Rightarrow> port_number list \<Rightarrow> gloo_listener list \<times> 'x listener_state \<Rightarrow> bool" where
  "outs_state A mm0 ports = (\<lambda>(ls, mm, _). map gl_BindPort ls = ports \<and> list_all listener_wf ls \<and> mem_state A mm0 mm)"

context route_plugins
begin

lemma translateMergedListener_ok:
  assumes v: "visits visit" and st: "outs_state admits mm0 ports st" and ok: "merged_ok admits mm0 ml" and kc: "secrets_typed kc"
    and lps: "\<forall>p \<in> set lplugins. listener_plugin_contract p"
  shows "\<exists>st'. translateMergedListener lib kc visit plugins lplugins gw ml st = Inr st' \<and> outs_state admits mm0 (ports @ [ml_port ml]) st'"
proof -
  obtain ls s where s: "st = (ls, s)" by (cases st)
  have "mem_state admits mm0 (fst s)" using st s by (cases s) (simp add: outs_state_def)
  from translateListener_ok [OF v this ok kc, of lib] obtain l s1 where t: "translateListener lib kc visit plugins ml s = Inr (l, s1)"
    and o: "out_state admits mm0 (ml_port ml) (l, s1)" by (auto simp: out_state_def split: prod.splits)
  have "\<exists>s'. fold_out (applyListenerPlugin gw (ml_listener ml)) lplugins (l, s1) = Inr s' \<and> out_state admits mm0 (ml_port ml) s'"
    using o lps by (intro fold_out_returns [where P = "out_state admits mm0 (ml_port ml)"] applyListenerPlugin_ok) auto
  then obtain l2 mm2 rm2 x2 where "fold_out (applyListenerPlugin gw (ml_listener ml)) lplugins (l, s1) = Inr (l2, mm2, rm2, x2)"
    "out_state admits mm0 (ml_port ml) (l2, mm2, rm2, x2)" by auto
  with st show ?thesis by (auto simp: translateMergedListener_def s t out_state_def outs_state_def split: prod.splits)
qed

lemma translateListeners_ok:
  assumes "visits visit" "outs_state admits mm0 ports st" "\<forall>ml \<in> set mls. merged_ok admits mm0 ml" "secrets_typed kc"
    "\<forall>p \<in> set lplugins. listener_plugin_contract p"
  shows "\<exists>st'. fold_out (translateMergedListener lib kc visit plugins lplugins gw) mls st = Inr st' \<and>
    outs_state admits mm0 (ports @ map ml_port mls) st'"
  using assms
proof (induction mls arbitrary: ports st)
  case Nil
  then show ?case by simp
next
  case (Cons ml mls)
  from translateMergedListener_ok [OF Cons.prems(1,2) _ Cons.prems(4,5), of ml lib gw] Cons.prems(3) obtain st1 where
    1: "translateMergedListener lib kc visit plugins lplugins gw ml st = Inr st1" "outs_state admits mm0 (ports @ [ml_port ml]) st1" by auto
  from Cons.IH [OF Cons.prems(1) 1(2) _ Cons.prems(4,5)] Cons.prems(3) 1(1) show ?case by auto
qed

end

text \<open>The hypotheses on the routes attached to the listeners and on the listeners' certificates.\<close>

definition routes_ok :: "mem \<Rightarrow> routes_for_gw \<Rightarrow> bool" where
  "routes_ok mm r \<longleftrightarrow> infos_ok filters_admitted mm \<and>
     (\<forall>n lr. rfg_ListenerResults r n = Some lr \<longrightarrow> (\<forall>i \<in> set (lres_Routes lr). root_ok filters_admitted mm i))"

lemma merge_spec_ok:
  assumes "routes_ok mm r" "\<forall>l \<in> set ls. tls_ok (l_TLS l)"
  shows "\<forall>ml \<in> set (merge_spec ns r k ls). merged_ok filters_admitted mm ml"
proof -
  have roots: "\<forall>i \<in> set (listener_routes r l). root_ok filters_admitted mm i" for l :: "'a listener"
    using assms(1) by (cases "rfg_ListenerResults r (l_Name l)") (auto simp: listener_routes_def routes_ok_def)
  have "merged_ok filters_admitted mm (merge_on ns r k (listeners_on ls p))" for p
    using roots assms(2)
    by (auto simp: merged_ok_def merge_on_def Let_def listeners_on_def http_parent_def https_chain_def split: if_splits)
  then show ?thesis by (auto simp: merge_spec_def)
qed

text \<open>The translation of a gateway's listeners always returns: it gives exactly one listener per translated
  port of the listeners that pass validation, on an unprivileged port, whose filter chains refer only
  to its virtual hosts, each of them with complete routes in the order of precedence.\<close>

lemma TranslateListeners_ok:
  assumes ro: "plugin_contract filters_admitted routeoptions" and lps: "\<forall>p \<in> set lplugins. listener_plugin_contract p"
    and v: "visits visit" and ord: "iter_order (portMap (filter supported_listener (gw_Listeners gw))) ord"
    and kc: "secrets_typed kc" and tls: "\<forall>l \<in> set (gw_Listeners gw). tls_ok (l_TLS l)" and r: "routes_ok mm r"
  shows "\<exists>outs mm' rm' x'. TranslateListeners lib kc ord visit (route_plugins_of sanitize kc routeoptions) lplugins gw r (mm, rm, x) =
      Inr (outs, mm', rm', x') \<and> list_all listener_wf outs \<and> distinct (map gl_BindPort outs) \<and>
    set (map gl_BindPort outs) = (\<lambda>l. finalPort (l_Port l)) `
      {l \<in> set (gw_Listeners gw). supported_listener l \<and> unconflicted (filter supported_listener (gw_Listeners gw)) l} \<and>
    (\<forall>l \<in> set outs. 1024 \<le> gl_BindPort l)"
proof -
  obtain rm1 k where k: "reporter_Gateway gw rm = (rm1, k)" by (metis surj_pair)
  obtain rm2 valid where val: "validateListeners ord gw k rm1 = (rm2, valid)" by (metis surj_pair)
  have valid: "set valid = {l \<in> set (gw_Listeners gw). supported_listener l \<and> unconflicted (filter supported_listener (gw_Listeners gw)) l}"
    using validateListeners_listeners [of ord gw k rm1] val iter_orderD(2) [OF ord] by (auto simp: Let_def portMap_dom)
  obtain rm3 merged where mg: "mergeGWListeners (gw_Namespace gw) valid r k rm2 = (rm3, merged)" by (metis surj_pair)
  have merged: "merged = merge_spec (gw_Namespace gw) r k valid"
    using mergeGWListeners_eq [of "gw_Namespace gw" valid r k rm2] mg by simp
  have ports: "map ml_port merged = first_ports valid" unfolding merged by (rule merge_spec_ports)
  have ok: "\<forall>ml \<in> set merged. merged_ok filters_admitted mm ml"
    unfolding merged using r tls valid by (intro merge_spec_ok) auto
  have "outs_state filters_admitted mm [] ([], mm, rm3, x)" using r by (simp add: outs_state_def mem_state_def routes_ok_def)
  from route_plugins.translateListeners_ok [OF registry_contract [OF ro] v this ok kc lps, of lib sanitize kc gw]
  obtain outs mm' rm' x' where t: "translateListeners lib kc visit (route_plugins_of sanitize kc routeoptions) lplugins gw merged (mm, rm3, x) =
      Inr (outs, mm', rm', x')" and o: "map gl_BindPort outs = first_ports valid" "list_all listener_wf outs"
    using ports by (auto simp: translateListeners_def outs_state_def)
  have "served l" if "l \<in> set valid" for l using that valid by (simp add: served_def supported_listener_def)
  then have srv: "filter served valid = valid" by simp
  have set: "set (map gl_BindPort outs) = (\<lambda>l. finalPort (l_Port l)) ` set valid"
    unfolding o(1) set_first_ports srv ..
  moreover have "1024 \<le> gl_BindPort l" if "l \<in> set outs" for l
    using that set finalPort_unprivileged by (metis (no_types, lifting) image_iff list.set_map)
  moreover have "TranslateListeners lib kc ord visit (route_plugins_of sanitize kc routeoptions) lplugins gw r (mm, rm, x) = Inr (outs, mm', rm', x')"
    by (simp add: TranslateListeners_def k val mg t)
  moreover have "distinct (map gl_BindPort outs)" unfolding o(1) by (rule distinct_first_ports)
  ultimately show ?thesis using o(2) unfolding valid by (intro exI conjI ballI)
qed

end
