(* ===== verification/ListenerExamples.thy ===== *)
theory ListenerExamples
  imports ListenerTotal
begin

text \<open>
  The listener translator on concrete gateways: instances of its theorems, and behaviours that the
  comments of the code or the Gateway API do not intend.
\<close>

section \<open>Examples\<close>

text \<open>A TLS library on strings: every pair is a key pair, and a chain is one certificate.\<close>

definition x_lib :: "string tls_lib" where
  "x_lib = \<lparr>tl_X509KeyPair = (\<lambda>crt key. None), tl_ParseCertsPEM = (\<lambda>crt. Inr [crt]), tl_EncodeCertificates = (\<lambda>cs. Inr (concat cs))\<rparr>"

definition x_secret :: secret where
  "x_secret = \<lparr>sec_Namespace = ''ns'', sec_Name = ''cert'', sec_Data = [''tls.crt'' \<mapsto> ''crt'', ''tls.key'' \<mapsto> ''key'']\<rparr>"

text \<open>A cluster with the secret \<open>ns/cert\<close> and the service \<open>ns/svc\<close>.\<close>

definition x_client :: "unit k8s_client" where
  "x_client = q_client\<lparr>kc_GetObject := (\<lambda>gk v n.
     if gk = GroupKind [] ''Secret'' \<and> n = NamespacedName ''ns'' ''cert'' then Inr (ObjSecret x_secret)
     else if gk = GroupKind [] ''Service'' \<and> n = NamespacedName ''ns'' ''svc'' then Inr (ObjService ''ns'' ''svc'')
     else Inl (ApiNotFound (nn_String n)))\<rparr>"

definition x_cert :: "string option \<Rightarrow> string \<Rightarrow> secret_object_reference" where
  "x_cert kind name = \<lparr>sr_Group = None, sr_Kind = kind, sr_Name = name, sr_Namespace = None\<rparr>"

definition x_tls :: "secret_object_reference list \<Rightarrow> gateway_tls_config" where
  "x_tls refs = \<lparr>tls_Mode = Some ''Terminate'', tls_CertificateRefs = refs\<rparr>"

definition x_https :: "string \<Rightarrow> 32 word \<Rightarrow> string \<Rightarrow> secret_object_reference list \<Rightarrow> unit listener" where
  "x_https name port host refs = (v_listener name ''HTTPS'' port)\<lparr>l_Hostname := Some host, l_TLS := Some (x_tls refs)\<rparr>"

lemmas x_defs = x_lib_def x_secret_def x_client_def x_cert_def x_tls_def x_https_def v_listener_def

abbreviation x_key :: gateway_reporter where
  "x_key \<equiv> NamespacedName ''ns'' ''gw''"

definition x_none :: routes_for_gw where
  "x_none = \<lparr>rfg_ListenerResults = Map.empty, rfg_RouteErrors = []\<rparr>"

lemmas x_getRef = GetSecretForRef_def getRef_def FromGkNs_def ptrOrDefault_def q_client_def

theorem translateSslConfig_sound_witness:
  "\<exists>cfg. translateSslConfig x_lib x_client ''ns'' (Some ''a.com'') (Some (x_tls [x_cert None ''cert''])) = Inr (Inr (Some cfg)) \<and>
     ssl_SecretRef cfg = \<lparr>rref_Name = ''cert'', rref_Namespace = ''ns''\<rparr>"
proof -
  obtain cfg where c: "translateSslConfig x_lib x_client ''ns'' (Some ''a.com'') (Some (x_tls [x_cert None ''cert''])) = Inr (Inr (Some cfg))"
    by (simp add: translateSslConfig_def x_defs x_getRef ValidateTlsSecret_def validatedCertData_def isValidSslKeyPair_def secret_data_def)
  from translateSslConfig_sound [OF c] have "ssl_SecretRef cfg = \<lparr>rref_Name = ''cert'', rref_Namespace = ''ns''\<rparr>"
    by (auto simp: x_defs ptrOrDefault_def)
  with c show ?thesis by blast
qed

text \<open>Reports of a gateway with two listeners.\<close>

definition x_reports :: "unit listener list \<Rightarrow> report_map" where
  "x_reports ls = foldl (\<lambda>rm l. fst (gwr_Listener x_key l rm)) (newGatewayReport NewReportMap (v_gw ls)) ls"

lemma x_build_none: "buildRoutesPerHost plugins [] l s = Inr s"
  by (simp add: buildRoutesPerHost_def)

lemma x_makeVhosts_none: "makeVhosts (\<lambda>m. m) n [] = Inr ([], Map.empty)"
  by (simp add: makeVhosts_def)


definition x_routes :: "sortable_route list" where
  "x_routes = ToSortable s_hr [(s_route (Matcher_Prefix ''/'') [])\<lparr>rt_Action := Some ErrorResponseAction, rt_Options := Some NewRouteOptions\<rparr>]"

theorem makeVhosts_correct_witness:
  "makeVhosts rev ''http'' [(''b.com'', x_routes), (''a.com'', x_routes)] =
     Inr ([''http~a_com'', ''http~b_com''], map_of (map (host_entry ''http'') [(''b.com'', x_routes), (''a.com'', x_routes)]))"
proof -
  have "visits rev" by (simp add: visits_def)
  moreover have "hosts_ok [(''b.com'', x_routes), (''a.com'', x_routes)]"
    by (simp add: hosts_ok_def x_routes_def ToSortable_def sortable_wf_def route_wf_def s_route_def s_matcher_def s_hr_def NewRouteOptions_def)
  ultimately show ?thesis
    using makeVhosts_correct [of rev "[(''b.com'', x_routes), (''a.com'', x_routes)]" "''http''"]
    by (simp add: makeVhostName_def SanitizeForEnvoy_def replace_char_def)
qed

section \<open>Unintended behaviours\<close>

lemma merge_reports: "fst (mergeGWListeners ns ls r k rm) = foldl (\<lambda>rm l. fst (gwr_Listener k l rm)) rm ls"
proof -
  have "fst (foldl (mergeGWListener ns r k) s ls) = foldl (\<lambda>rm l. fst (gwr_Listener k l rm)) (fst s) ls" for s
    by (induction ls arbitrary: s) (auto simp: mergeGWListener_def split: prod.split)
  then show ?thesis by (simp add: mergeGWListeners_def)
qed

lemma x_merge: "mergeGWListeners ''ns'' ls x_none x_key (newGatewayReport NewReportMap (v_gw ls)) = (x_reports ls, merge_spec ''ns'' x_none x_key ls)"
  by (rule prod_eqI) (simp_all add: merge_reports x_reports_def mergeGWListeners_eq)

lemma x_ports: "finalPort 80 = 8080" "finalPort 8080 = 8080" "finalPort 443 = 8443"
  by (simp_all add: finalPort_def TranslatePort_def)

lemma x_merge_one:
  "merge_spec ''ns'' x_none x_key [x_https n 443 h refs] = [merge_on ''ns'' x_none x_key [x_https n 443 h refs]]"
  by (simp add: merge_spec_def first_ports_def listeners_on_def served_def x_https_def v_listener_def)

text \<open>Conflicts are checked before ports are translated: an HTTP listener on port 80 and an HTTPS listener
  on port 8080 of one gateway are both valid, but they are merged into a single listener on port 8080
  that has both a plain and a TLS filter chain.\<close>

theorem port_translation_defeats_validation:
  "let ls = [v_listener ''a'' ''HTTP'' 80, x_https ''b'' 8080 ''b.com'' [x_cert None ''cert'']];
       valid = snd (validateListeners [80, 8080] (v_gw ls) x_key NewReportMap)
   in valid = ls \<and>
      map (\<lambda>ml. (ml_port ml, ml_httpFilterChain ml \<noteq> None, length (ml_httpsFilterChains ml)))
        (snd (mergeGWListeners ''ns'' valid x_none x_key NewReportMap)) = [(8080, True, 1)]"
proof -
  let ?ls = "[v_listener ''a'' ''HTTP'' 80, x_https ''b'' 8080 ''b.com'' [x_cert None ''cert'']]"
  have sup: "filter supported_listener (gw_Listeners (v_gw ?ls)) = ?ls"
    by (simp add: v_gw_def supported_listener_def listenerKinds_def x_https_def v_listener_def)
  have un: "unconflicted ?ls l" if "l \<in> set ?ls" for l
    using that by (auto simp: unconflicted_def x_https_def v_listener_def normalizedProtocol_def listenerHostname_def)
  have valid: "snd (validateListeners [80, 8080] (v_gw ?ls) x_key NewReportMap) = ?ls"
    using un unfolding validateListeners_listeners Let_def sup by (simp add: x_https_def v_listener_def)
  have "first_ports ?ls = [8080]" "listeners_on ?ls 8080 = ?ls"
    by (simp_all add: first_ports_def listeners_on_def served_def x_https_def v_listener_def x_ports)
  then have "merge_spec ''ns'' x_none x_key ?ls = [merge_on ''ns'' x_none x_key ?ls]" by (simp add: merge_spec_def)
  then show ?thesis
    unfolding valid Let_def mergeGWListeners_eq by (simp add: merge_on_def x_https_def v_listener_def x_ports)
qed

lemmas x_translate = translateListeners_def translateMergedListener_def translateListener_def translateHttpsChainStep_def
  translateHttpsFilterChain_def translateSslConfig_def merge_on_def https_chain_def listener_routes_def x_none_def Let_def
  x_build_none x_makeVhosts_none x_getRef ValidateTlsSecret_def validatedCertData_def isValidSslKeyPair_def secret_data_def

lemmas x_report_defs = has_cond_def x_reports_def report_defs newGatewayReport_def gw_key_def v_gw_def gr_listener_def
  NewReportMap_def NewListenerReport_def ListenerReport_SetCondition_def to_condition_def listener_condition_def

text \<open>A TLS error is reported on the wrong listener: when the second of two HTTPS listeners of a port
  names a missing secret, the first one, whose certificate is valid, is reported as not programmed, and
  the second one gets no condition.\<close>

theorem tls_error_on_first_listener:
  "let ls = [x_https ''a'' 443 ''a.com'' [x_cert None ''cert''], x_https ''b'' 443 ''b.com'' [x_cert None ''gone'']];
       (rm, mls) = mergeGWListeners ''ns'' ls x_none x_key (newGatewayReport NewReportMap (v_gw ls))
   in case translateListeners x_lib x_client (\<lambda>m. m) [] [] (v_gw ls) mls (q_mem, rm, ()) of
        Inr (outs, _, rm', _) \<Rightarrow> map (\<lambda>l. map hfc_SslConfig (gl_HttpFilterChains l)) outs =
            [[Some \<lparr>ssl_SecretRef = \<lparr>rref_Name = ''cert'', rref_Namespace = ''ns''\<rparr>, ssl_SniDomains = [''a.com'']\<rparr>]] \<and>
          has_cond rm' x_key ''a'' (listener_condition ''Programmed'' ''False'' ''Invalid'' []) \<and>
          \<not> has_cond rm' x_key ''b'' (listener_condition ''Programmed'' ''False'' ''Invalid'' [])
      | Inl _ \<Rightarrow> False"
proof -
  let ?ls = "[x_https ''a'' 443 ''a.com'' [x_cert None ''cert''], x_https ''b'' 443 ''b.com'' [x_cert None ''gone'']]"
  have "first_ports ?ls = [8443]" "listeners_on ?ls 8443 = ?ls"
    by (simp_all add: first_ports_def listeners_on_def served_def x_https_def v_listener_def x_ports)
  then have m: "merge_spec ''ns'' x_none x_key ?ls = [merge_on ''ns'' x_none x_key ?ls]" by (simp add: merge_spec_def)
  show ?thesis
    unfolding Let_def x_merge prod.case m
    by (simp add: x_translate x_defs) (simp add: x_report_defs Let_def)
qed

text \<open>An HTTPS listener without certificate references gets a filter chain without TLS: it is neither
  dropped nor reported.\<close>

theorem https_without_certificates:
  "let l = x_https ''a'' 443 ''a.com'' [];
       (rm, mls) = mergeGWListeners ''ns'' [l] x_none x_key (newGatewayReport NewReportMap (v_gw [l]))
   in case translateListeners x_lib x_client (\<lambda>m. m) [] [] (v_gw [l]) mls (q_mem, rm, ()) of
        Inr (outs, _, rm', _) \<Rightarrow> map (\<lambda>l. map hfc_SslConfig (gl_HttpFilterChains l)) outs = [[None]] \<and>
          \<not> has_cond rm' x_key ''a'' (listener_condition ''Programmed'' ''False'' ''Invalid'' [])
      | Inl _ \<Rightarrow> False"
  unfolding Let_def x_merge prod.case x_merge_one
  by (simp add: x_translate x_defs) (simp add: x_report_defs Let_def)

text \<open>A certificate reference to an object that is not a secret panics the translator.\<close>

theorem non_secret_certificate_panics:
  "let l = x_https ''a'' 443 ''a.com'' [x_cert (Some ''Service'') ''svc''];
       (rm, mls) = mergeGWListeners ''ns'' [l] x_none x_key (newGatewayReport NewReportMap (v_gw [l]))
   in translateListeners x_lib x_client (\<lambda>m. m) [] [] (v_gw [l]) mls (q_mem, rm, ()) = Inl BadAssertion"
  unfolding Let_def x_merge prod.case x_merge_one
  by (simp add: x_translate x_defs)

end
