(* ===== verification/GatewayTranslator.thy ===== *)
theory GatewayTranslator
  imports ListenerExamples
begin

text \<open>
  The translation of a gateway, \<open>translator/gateway_translator.go\<close>: the routes of the gateway are looked
  up, the route errors and the number of attached routes are reported, and the listeners are
  translated into the proxy.
\<close>

section \<open>Model\<close>

abbreviation ProxyTypeKey :: string where "ProxyTypeKey \<equiv> ''created_by''"
abbreviation GatewayApiProxyValue :: string where "GatewayApiProxyValue \<equiv> ''gloo-kube-gateway-api''"
abbreviation GatewayNamespaceKey :: string where "GatewayNamespaceKey \<equiv> ''gateway_namespace''"

record proxy_metadata =
  pmd_Name :: string
  pmd_Namespace :: string
  pmd_Labels :: "string \<rightharpoonup> string"
  pmd_Annotations :: "(string \<rightharpoonup> string) option"

record proxy =
  px_Metadata :: proxy_metadata
  px_Listeners :: "gloo_listener list"

definition proxyMetadata :: "'sel gateway \<Rightarrow> string \<Rightarrow> proxy_metadata" where
  "proxyMetadata gateway writeNamespace = \<lparr>pmd_Name = gw_Namespace gateway @ ''-'' @ gw_Name gateway,
     pmd_Namespace = writeNamespace,
     pmd_Labels = [ProxyTypeKey \<mapsto> GatewayApiProxyValue, GatewayNamespaceKey \<mapsto> gw_Namespace gateway],
     pmd_Annotations = None\<rparr>"

definition reportRouteError :: "report_map \<Rightarrow> route_error \<Rightarrow> report_map" where
  "reportRouteError rm rErr =
     (let (rm, k) = reporter_Route (re_Route rErr) rm;
          (rm, reporter) = rr_ParentRef k (re_ParentRef rErr) rm
      in prr_SetCondition reporter \<lparr>rc_Type = ''Accepted'', rc_Status = ConditionFalse, rc_Reason = re_Reason rErr,
           rc_Message = []\<rparr> rm)"

definition reportAttachedRoutes :: "'sel gateway \<Rightarrow> routes_for_gw \<Rightarrow> report_map \<Rightarrow> 'sel listener \<Rightarrow> report_map" where
  "reportAttachedRoutes gateway routesForGw rm listener =
     (let availRoutes = (case rfg_ListenerResults routesForGw (l_Name listener) of None \<Rightarrow> 0 | Some res \<Rightarrow> length (lres_Routes res));
          (rm, reporter) = reporter_Gateway gateway rm;
          (rm, lr) = gwr_Listener reporter listener rm
      in lr_SetAttachedRoutes lr (of_nat availRoutes) rm)"

definition TranslateProxy ::
  "nat \<Rightarrow> 'cert tls_lib \<Rightarrow> 'sel k8s_client \<Rightarrow> port_number list \<Rightarrow> (routes_by_host \<Rightarrow> routes_by_host) \<Rightarrow>
   ('sel, 'x) route_plugin list \<Rightarrow> ('sel, 'x) listener_plugin list \<Rightarrow> 'sel gateway \<Rightarrow> string \<Rightarrow> report_map \<times> 'x \<Rightarrow>
   (proxy option \<times> report_map \<times> 'x) outcome" where
  "TranslateProxy fuel lib kc ord visit plugins lplugins gateway writeNamespace = (\<lambda>(rm, x).
     bind_out (GetRoutesForGateway fuel kc gateway \<lparr>mem_paths = [], mem_infos = []\<rparr>) (\<lambda>(mm, res).
       case res of
         Inl err \<Rightarrow> Inr (None, rm, x)
       | Inr routesForGw \<Rightarrow>
           let rm = foldl reportRouteError rm (rfg_RouteErrors routesForGw);
               rm = foldl (reportAttachedRoutes gateway routesForGw) rm (gw_Listeners gateway)
           in bind_out (TranslateListeners lib kc ord visit plugins lplugins gateway routesForGw (mm, rm, x)) (\<lambda>(listeners, mm, rm, x).
                Inr (Some \<lparr>px_Metadata = proxyMetadata gateway writeNamespace, px_Listeners = listeners\<rparr>, rm, x))))"

section \<open>Routes as the API server admits them\<close>

text \<open>The defaults and validation of the API server: rules have matches, matches have paths of a known
  type, filters have the field of their type and backends a kind; a namespace has no slash.\<close>

definition api_route_ok :: "api_route \<Rightarrow> bool" where
  "api_route_ok hr \<longleftrightarrow> CHR ''/'' \<notin> set (hr_Namespace hr) \<and> (\<forall>r \<in> set (hr_Rules hr).
     (\<exists>ms. rule_Matches r = Some ms \<and> (\<forall>m \<in> set ms. \<exists>p. hm_Path m = Some p \<and> path_good p)) \<and>
     filters_admitted (rule_Filters r) \<and> (\<forall>b \<in> set (rule_BackendRefs r). backend_ok (br_Ref b)))"

definition client_ok :: "'sel k8s_client \<Rightarrow> bool" where
  "client_ok kc \<longleftrightarrow> (\<forall>t hrs. kc_ListRoutesByTarget kc t = Inr hrs \<longrightarrow> list_all api_route_ok hrs) \<and>
     (\<forall>ns hrs. kc_ListRoutesInNamespace kc ns = Inr hrs \<longrightarrow> list_all api_route_ok hrs) \<and>
     (\<forall>n hr. kc_GetRoute kc n = Inr hr \<longrightarrow> api_route_ok hr)"

text \<open>A route in memory, and the memory of the infos; both stay good when paths are added.\<close>

definition route_ok :: "mem \<Rightarrow> route \<Rightarrow> bool" where
  "route_ok mm r \<longleftrightarrow> CHR ''/'' \<notin> set (hr_Namespace r) \<and>
     (\<forall>rule \<in> set (hr_Rules r). rule_ok filters_admitted mm rule \<and> rule_Matches rule \<noteq> None)"

definition rules_good :: "mem \<Rightarrow> bool" where
  "rules_good mm \<longleftrightarrow> paths_good mm \<and> (\<forall>info \<in> set (mem_infos mm). route_ok mm (hri_HTTPRoute info))"

definition paths_le :: "mem \<Rightarrow> mem \<Rightarrow> bool" where
  "paths_le mm mm' \<longleftrightarrow> length (mem_paths mm) \<le> length (mem_paths mm')"

lemma paths_le_trans: "paths_le a b \<Longrightarrow> paths_le b c \<Longrightarrow> paths_le a c"
  by (simp add: paths_le_def)

lemma route_ok_le: "route_ok mm r \<Longrightarrow> paths_le mm mm' \<Longrightarrow> route_ok mm' r"
  by (fastforce simp: route_ok_def paths_le_def rule_ok_def match_ok_def)

text \<open>Copying a match, a rule and a route.\<close>

lemma map_st_copy:
  fixes f :: "http_path_match list \<Rightarrow> 'a \<Rightarrow> http_path_match list \<times> 'b" and Q :: "nat \<Rightarrow> 'b \<Rightarrow> bool"
  assumes step: "\<And>ps y. y \<in> set ys \<Longrightarrow> list_all path_good ps \<Longrightarrow> list_all path_good (fst (f ps y)) \<and>
      length ps \<le> length (fst (f ps y)) \<and> Q (length (fst (f ps y))) (snd (f ps y))"
    and mono: "\<And>m n z. m \<le> n \<Longrightarrow> Q m z \<Longrightarrow> Q n z" and ps: "list_all path_good ps"
  shows "list_all path_good (fst (map_st f ps ys)) \<and> length ps \<le> length (fst (map_st f ps ys)) \<and>
    (\<forall>z \<in> set (snd (map_st f ps ys)). Q (length (fst (map_st f ps ys))) z)"
  using step ps
proof (induction ys arbitrary: ps)
  case Nil
  then show ?case by simp
next
  case (Cons y ys)
  obtain ps1 z where f: "f ps y = (ps1, z)" by (cases "f ps y")
  obtain ps2 zs where g: "map_st f ps1 ys = (ps2, zs)" by (cases "map_st f ps1 ys")
  have 1: "list_all path_good ps1" "length ps \<le> length ps1" "Q (length ps1) z" using Cons.prems(1) [of y ps] Cons.prems(2) f by simp_all
  have 2: "list_all path_good ps2" "length ps1 \<le> length ps2" "\<forall>z \<in> set zs. Q (length ps2) z"
    using Cons.IH [of ps1] Cons.prems(1) 1(1) g by auto
  with 1 mono show ?case by (auto simp: f g)
qed

definition match_in_paths :: "nat \<Rightarrow> nat http_route_match \<Rightarrow> bool" where
  "match_in_paths n m \<longleftrightarrow> (\<exists>i < n. hm_Path m = Some i)"

lemma copy_match_ok:
  assumes "hm_Path m = Some p" "path_good p" "list_all path_good ps"
  shows "list_all path_good (fst (copy_match ps m)) \<and> length ps \<le> length (fst (copy_match ps m)) \<and>
    match_in_paths (length (fst (copy_match ps m))) (snd (copy_match ps m))"
  using assms by (simp add: copy_match_def Let_def match_in_paths_def)

definition rule_in_paths :: "nat \<Rightarrow> nat http_route_rule \<Rightarrow> bool" where
  "rule_in_paths n r \<longleftrightarrow> (\<exists>ms. rule_Matches r = Some ms \<and> (\<forall>m \<in> set ms. match_in_paths n m)) \<and>
     filters_admitted (rule_Filters r) \<and> (\<forall>b \<in> set (rule_BackendRefs r). backend_ok (br_Ref b))"

lemma copy_rule_ok:
  assumes r: "rule_Matches r = Some ms" "\<forall>m \<in> set ms. \<exists>p. hm_Path m = Some p \<and> path_good p" "filters_admitted (rule_Filters r)"
      "\<forall>b \<in> set (rule_BackendRefs r). backend_ok (br_Ref b)" and ps: "list_all path_good ps"
  shows "list_all path_good (fst (copy_rule ps r)) \<and> length ps \<le> length (fst (copy_rule ps r)) \<and>
    rule_in_paths (length (fst (copy_rule ps r))) (snd (copy_rule ps r))"
proof -
  have "list_all path_good (fst (map_st copy_match ps ms)) \<and> length ps \<le> length (fst (map_st copy_match ps ms)) \<and>
      (\<forall>z \<in> set (snd (map_st copy_match ps ms)). match_in_paths (length (fst (map_st copy_match ps ms))) z)"
  proof (rule map_st_copy [OF _ _ ps])
    fix ps y assume "y \<in> set ms" "list_all path_good ps"
    with r(2) show "list_all path_good (fst (copy_match ps y)) \<and> length ps \<le> length (fst (copy_match ps y)) \<and>
        match_in_paths (length (fst (copy_match ps y))) (snd (copy_match ps y))"
      by (metis copy_match_ok)
  next
    fix m n z assume "m \<le> n" "match_in_paths m z"
    then show "match_in_paths n z" unfolding match_in_paths_def by (meson order_less_le_trans)
  qed
  with r show ?thesis by (auto simp: copy_rule_def Let_def rule_in_paths_def split: prod.split)
qed

lemma load_route_ok:
  assumes l: "load_route mm hr = (mm', r)" and ok: "api_route_ok hr" and good: "rules_good mm"
  shows "rules_good mm'" "paths_le mm mm'" "route_ok mm' r"
proof -
  have p: "list_all path_good (mem_paths mm)" using good by (simp add: rules_good_def paths_good_def list_all_iff)
  obtain ps rules where c: "map_st copy_rule (mem_paths mm) (hr_Rules hr) = (ps, rules)" by (metis surj_pair)
  have m: "list_all path_good (fst (map_st copy_rule (mem_paths mm) (hr_Rules hr))) \<and>
      length (mem_paths mm) \<le> length (fst (map_st copy_rule (mem_paths mm) (hr_Rules hr))) \<and>
      (\<forall>z \<in> set (snd (map_st copy_rule (mem_paths mm) (hr_Rules hr))). rule_in_paths (length (fst (map_st copy_rule (mem_paths mm) (hr_Rules hr)))) z)"
  proof (rule map_st_copy [OF _ _ p])
    fix ps y assume "y \<in> set (hr_Rules hr)" "list_all path_good ps"
    with ok show "list_all path_good (fst (copy_rule ps y)) \<and> length ps \<le> length (fst (copy_rule ps y)) \<and>
        rule_in_paths (length (fst (copy_rule ps y))) (snd (copy_rule ps y))"
      unfolding api_route_ok_def by (metis copy_rule_ok)
  next
    fix m n z assume "m \<le> n" "rule_in_paths m z"
    then show "rule_in_paths n z" unfolding rule_in_paths_def match_in_paths_def by (meson order_less_le_trans)
  qed
  have l': "mm' = mm\<lparr>mem_paths := ps\<rparr>" "hr_Rules r = rules" "hr_Namespace r = hr_Namespace hr"
    using l c by (auto simp: load_route_def copy_route_def split: prod.splits)
  show le: "paths_le mm mm'" using m c l' by (simp add: paths_le_def)
  have "rule_ok filters_admitted mm' z \<and> rule_Matches z \<noteq> None" if "z \<in> set rules" for z
    using m c that l'(1) by (fastforce simp: rule_in_paths_def match_in_paths_def rule_ok_def rule_matches_def match_ok_def)
  then show "route_ok mm' r" using l' ok by (simp add: route_ok_def api_route_ok_def)
  show "rules_good mm'"
    using good m c l'(1) route_ok_le [OF _ le] by (auto simp: rules_good_def paths_good_def list_all_iff)
qed

section \<open>The delegation tree in memory\<close>

text \<open>The infos at \<open>n\<close> and after delegate only to infos at \<open>n\<close> and after.\<close>

definition kids_from :: "nat \<Rightarrow> mem \<Rightarrow> bool" where
  "kids_from n mm \<longleftrightarrow> (\<forall>j. n \<le> j \<longrightarrow> j < length (mem_infos mm) \<longrightarrow> (\<forall>k \<in> kid_ids (hri_Children (mem_infos mm ! j)). n \<le> k))"

text \<open>What a step from \<open>mm0\<close> to \<open>mm\<close> keeps.\<close>

definition steps_to :: "mem \<Rightarrow> mem \<Rightarrow> bool" where
  "steps_to mm0 mm \<longleftrightarrow> mem_wf mm \<and> mem_ext mm0 mm \<and> rules_good mm \<and> paths_le mm0 mm \<and> kids_from (length (mem_infos mm0)) mm"

lemma kids_from_ext:
  assumes "kids_from n a" "mem_ext a b" "kids_from (length (mem_infos a)) b" "n \<le> length (mem_infos a)"
  shows "kids_from n b"
  unfolding kids_from_def
proof (intro allI impI ballI)
  fix j k assume j: "n \<le> j" "j < length (mem_infos b)" and k: "k \<in> kid_ids (hri_Children (mem_infos b ! j))"
  show "n \<le> k"
  proof (cases "j < length (mem_infos a)")
    case True
    with j k assms(1) mem_ext_nth [OF assms(2) True] show ?thesis by (simp add: kids_from_def)
  next
    case False
    then have "length (mem_infos a) \<le> j" by simp
    with j k assms(3) have "length (mem_infos a) \<le> k" unfolding kids_from_def by blast
    with assms(4) show ?thesis by simp
  qed
qed

lemma steps_to_trans:
  assumes "steps_to a b" "steps_to b c"
  shows "steps_to a c"
  using assms kids_from_ext [of "length (mem_infos a)" b c] mem_ext_length [of a b]
  by (auto simp: steps_to_def intro: mem_ext_trans paths_le_trans)

lemma steps_to_load:
  assumes "load_route mm hr = (mm', r)" "api_route_ok hr" "mem_wf mm" "rules_good mm"
  shows "steps_to mm mm'" "route_ok mm' r"
proof -
  note l = load_route_ok [OF assms(1,2,4)]
  have "mem_infos mm' = mem_infos mm" by (rule load_route_infos [OF assms(1)])
  with l assms(3) show "steps_to mm mm'" by (simp add: steps_to_def mem_wf_def mem_ext_def kids_from_def)
  show "route_ok mm' r" by (rule l(3))
qed

lemma steps_to_alloc:
  assumes s: "steps_to mm0 mm" and a: "alloc_info mm i = (mm', n)" and r: "route_ok mm (hri_HTTPRoute i)"
    and kids: "\<forall>k \<in> kid_ids (hri_Children i). length (mem_infos mm0) \<le> k \<and> k < length (mem_infos mm)"
  shows "steps_to mm0 mm'" "n = length (mem_infos mm)" "length (mem_infos mm') = Suc n"
proof -
  have mm': "mm' = mm\<lparr>mem_infos := mem_infos mm @ [i]\<rparr>" "n = length (mem_infos mm)" using a by (simp_all add: alloc_info_def)
  have wf: "mem_wf mm'" using alloc_info_wf(1) [OF _ _ a] s kids by (simp add: steps_to_def)
  have r': "route_ok mm' x" if "route_ok mm x" for x using that by (rule route_ok_le) (simp add: mm' paths_le_def)
  have "rules_good mm'"
    using s r r' by (auto simp: mm'(1) steps_to_def rules_good_def paths_good_def)
  moreover have "mem_ext mm0 mm'" using s by (auto simp: mm' steps_to_def mem_ext_def)
  moreover have "kids_from (length (mem_infos mm0)) mm'"
    using s kids by (auto simp: mm' steps_to_def kids_from_def nth_append less_Suc_eq)
  ultimately show "steps_to mm0 mm'" using wf s by (simp add: steps_to_def mm' paths_le_def)
  show "n = length (mem_infos mm)" "length (mem_infos mm') = Suc n" by (simp_all add: mm')
qed

definition chain_good :: "mem \<Rightarrow> Query.chain_state \<Rightarrow> bool" where
  "chain_good mm0 st \<longleftrightarrow> steps_to mm0 (cs_mem st) \<and> (\<forall>k \<in> kid_ids (cs_children st) \<union> set (cs_refChildren st).
     length (mem_infos mm0) \<le> k \<and> k < length (mem_infos (cs_mem st)))"

definition returns_good ::
  "(route \<Rightarrow> namespaced_name set \<Rightarrow> mem \<Rightarrow> (mem \<times> namespaced_name set \<times> nat list backend_map) outcome) \<Rightarrow> bool" where
  "returns_good rec \<longleftrightarrow> (\<forall>r v mm mm' v' kids. rec r v mm = Inr (mm', v', kids) \<longrightarrow> mem_wf mm \<longrightarrow> rules_good mm \<longrightarrow>
     steps_to mm mm' \<and> (\<forall>k \<in> kid_ids kids. length (mem_infos mm) \<le> k \<and> k < length (mem_infos mm')))"

lemma chain_good_step:
  assumes st: "chain_good mm0 st" and s: "steps_to (cs_mem st) mm" and ids: "\<forall>k \<in> K. length (mem_infos mm0) \<le> k \<and> k < length (mem_infos mm)"
    and st': "cs_mem st' = mm" "kid_ids (cs_children st') \<union> set (cs_refChildren st') \<subseteq> kid_ids (cs_children st) \<union> set (cs_refChildren st) \<union> K"
  shows "chain_good mm0 st'"
proof -
  have len: "length (mem_infos (cs_mem st)) \<le> length (mem_infos mm)" using s mem_ext_length by (auto simp: steps_to_def)
  have "length (mem_infos mm0) \<le> k \<and> k < length (mem_infos mm)" if "k \<in> kid_ids (cs_children st) \<union> set (cs_refChildren st) \<union> K" for k
  proof (cases "k \<in> K")
    case True
    with ids show ?thesis by blast
  next
    case False
    with that st have "length (mem_infos mm0) \<le> k \<and> k < length (mem_infos (cs_mem st))" unfolding chain_good_def by blast
    with len show ?thesis by simp
  qed
  moreover have "steps_to mm0 mm" using st s steps_to_trans by (auto simp: chain_good_def)
  ultimately show ?thesis using st' unfolding chain_good_def by blast
qed

lemma resolveChild_good:
  assumes rec: "returns_good rec" and hr: "api_route_ok hr" and st: "chain_good mm0 st"
    and run: "resolveChild kc rec parent br hr st = Inr st'"
  shows "chain_good mm0 st'"
proof -
  obtain mm r where l: "load_route (cs_mem st) hr = (mm, r)" by (cases "load_route (cs_mem st) hr")
  have g: "mem_wf (cs_mem st)" "rules_good (cs_mem st)" using st by (simp_all add: chain_good_def steps_to_def)
  note ld = steps_to_load [OF l hr g]
  show ?thesis
  proof (cases "hr_key r \<in> cs_visited st")
    case True
    with run l have "cs_mem st' = mm" "kid_ids (cs_children st') = kid_ids (cs_children st)" "cs_refChildren st' = cs_refChildren st"
      by (auto simp: resolveChild_def)
    then show ?thesis by (intro chain_good_step [OF st ld(1), of "{}"]) simp_all
  next
    case False
    with run l obtain mm1 v1 kids where r1: "rec r (cs_visited st) mm = Inr (mm1, v1, kids)"
      by (auto simp: resolveChild_def elim!: bind_out_InrE)
    let ?info = "\<lparr>hri_HTTPRoute = r, hri_ParentRef = childParentRef parent, hri_HostnameOverrides = [],
       hri_Backends = resolveRouteBackends kc r, hri_Children = kids\<rparr>"
    obtain mm2 n where a: "alloc_info mm1 ?info = (mm2, n)" by (metis surj_pair)
    have st': "st' = st\<lparr>cs_mem := mm2, cs_visited := v1, cs_refChildren := cs_refChildren st @ [n]\<rparr>"
      using run l False r1 a by (simp add: resolveChild_def)
    have w: "mem_wf mm" "rules_good mm" using ld(1) by (simp_all add: steps_to_def)
    from rec r1 w have s1: "steps_to mm mm1" and k1: "\<forall>k \<in> kid_ids kids. length (mem_infos mm) \<le> k \<and> k < length (mem_infos mm1)"
      unfolding returns_good_def by blast+
    have "paths_le mm mm1" using s1 by (simp add: steps_to_def)
    then have "route_ok mm1 r" by (rule route_ok_le [OF ld(2)])
    note al = steps_to_alloc [OF s1 a, simplified, OF this k1]
    have "steps_to mm0 (cs_mem st)" using st by (simp add: chain_good_def)
    then have "steps_to mm0 mm1" by (rule steps_to_trans [OF _ steps_to_trans [OF ld(1) s1]])
    then have len: "length (mem_infos mm0) \<le> n" "n < length (mem_infos mm2)"
      using al(2,3) mem_ext_length by (auto simp: steps_to_def)
    show ?thesis
      by (rule chain_good_step [OF st steps_to_trans [OF ld(1) al(1)], of "{n}"]) (simp_all add: len st')
  qed
qed

lemma fetchChildRoutes_ok:
  assumes "client_ok kc" "fetchChildRoutes kc ns br = Inr hrs" "hr \<in> set hrs"
  shows "api_route_ok hr"
proof -
  let ?ns = "case bor_Namespace (br_Ref br) of None \<Rightarrow> ns | Some n \<Rightarrow> n"
  from assms(2,3) have "kc_ListRoutesInNamespace kc ?ns = Inr hrs \<or>
      kc_GetRoute kc (NamespacedName ?ns (bor_Name (br_Ref br))) = Inr hr"
    by (auto simp: fetchChildRoutes_def Let_def split: if_splits sum.splits)
  then show ?thesis using assms(1,3) unfolding client_ok_def list_all_iff by blast
qed

lemma resolveChildRef_good:
  assumes rec: "returns_good rec" and kc: "client_ok kc" and st: "chain_good mm0 st"
    and run: "resolveChildRef kc rec parent br st = Inr st'"
  shows "chain_good mm0 st'"
proof (cases "RefIsHTTPRoute (br_Ref br)")
  case False
  with run st show ?thesis by (simp add: resolveChildRef_def)
next
  case True
  show ?thesis
  proof (cases "fetchChildRoutes kc (hr_Namespace parent) br")
    case (Inl e)
    with run True st show ?thesis by (auto simp: resolveChildRef_def chain_good_def)
  next
    case (Inr hrs)
    with run True obtain st1 where f: "fold_out (resolveChild kc rec parent br) hrs st = Inr st1"
      and st': "st' = st1\<lparr>cs_children := bm_Add (cs_children st1) (br_Ref br) (cs_refChildren st1)\<rparr>"
      by (auto simp: resolveChildRef_def elim!: bind_out_InrE)
    have "chain_good mm0 st1"
      by (rule fold_out_invariant [where P = "chain_good mm0", OF _ st f])
        (blast intro: resolveChild_good [OF rec] fetchChildRoutes_ok [OF kc Inr])
    then show ?thesis
      using kid_ids_add [of "cs_children st1" "br_Ref br" "cs_refChildren st1"] by (auto simp: st' chain_good_def)
  qed
qed

lemma getDelegatedChildren_good: "client_ok kc \<Longrightarrow> returns_good (getDelegatedChildren fuel kc)"
proof (induction fuel)
  case 0
  show ?case by (simp add: returns_good_def)
next
  case (Suc fuel)
  note IH = Suc.IH [OF Suc.prems]
  have rule: "chain_good mm0 st'" if "chain_good mm0 st" "resolveChildRule kc (getDelegatedChildren fuel kc) r rule st = Inr st'" for mm0 st st' r rule
  proof (rule fold_out_invariant [where P = "chain_good mm0", OF _ _ that(2) [unfolded resolveChildRule_def]])
    show "chain_good mm0 (st\<lparr>cs_refChildren := []\<rparr>)" using that(1) by (auto simp: chain_good_def)
  qed (rule resolveChildRef_good [OF IH Suc.prems])
  show ?case
    unfolding returns_good_def
  proof (intro allI impI)
    fix r v mm mm' v' kids
    assume run: "getDelegatedChildren (Suc fuel) kc r v mm = Inr (mm', v', kids)" and w: "mem_wf mm" "rules_good mm"
    let ?st = "\<lparr>cs_mem = mm, cs_visited = insert (hr_key r) v, cs_children = NewBackendMap, cs_refChildren = []\<rparr>"
    from run obtain st where f: "fold_out (resolveChildRule kc (getDelegatedChildren fuel kc) r) (hr_Rules r) ?st = Inr st"
      and res: "mm' = cs_mem st" "kids = cs_children st"
      by (auto elim!: bind_out_InrE)
    have "chain_good mm ?st" using w by (simp add: chain_good_def steps_to_def kids_from_def paths_le_def)
    then have "chain_good mm st" using f rule by (intro fold_out_invariant [where P = "chain_good mm", OF _ _ f]) auto
    with res show "steps_to mm mm' \<and> (\<forall>k \<in> kid_ids kids. length (mem_infos mm) \<le> k \<and> k < length (mem_infos mm'))"
      by (auto simp: chain_good_def)
  qed
qed

section \<open>The routes of a gateway in memory\<close>

definition roots_good :: "mem \<Rightarrow> (string \<rightharpoonup> listener_result) \<Rightarrow> bool" where
  "roots_good mm res \<longleftrightarrow> mem_wf mm \<and> rules_good mm \<and>
     (\<forall>n lr. res n = Some lr \<longrightarrow> (\<forall>i \<in> set (lres_Routes lr). i < length (mem_infos mm) \<and> i \<notin> mem_kids mm))"

lemma mem_kids_iff: "k \<in> mem_kids mm \<longleftrightarrow> (\<exists>j < length (mem_infos mm). k \<in> kid_ids (hri_Children (mem_infos mm ! j)))"
  unfolding mem_kids_def by (auto simp: set_conv_nth)

lemma old_root:
  assumes s: "steps_to mm mm'" and i: "i < length (mem_infos mm)" "i \<notin> mem_kids mm"
  shows "i < length (mem_infos mm') \<and> i \<notin> mem_kids mm'"
proof
  have ext: "mem_ext mm mm'" using s by (simp add: steps_to_def)
  show "i < length (mem_infos mm')" using i(1) mem_ext_length [OF ext] by simp
  show "i \<notin> mem_kids mm'"
  proof
    assume "i \<in> mem_kids mm'"
    then obtain j where j: "j < length (mem_infos mm')" "i \<in> kid_ids (hri_Children (mem_infos mm' ! j))"
      by (auto simp: mem_kids_iff)
    show False
    proof (cases "j < length (mem_infos mm)")
      case True
      with j(2) mem_ext_nth [OF ext True] i(2) show False by (auto simp: mem_kids_iff)
    next
      case False
      then have "length (mem_infos mm) \<le> j" by simp
      with s j have "length (mem_infos mm) \<le> i" unfolding steps_to_def kids_from_def by blast
      with i(1) show False by simp
    qed
  qed
qed

lemma roots_good_step:
  assumes "roots_good mm res" "steps_to mm mm'"
  shows "roots_good mm' res"
proof -
  have "i < length (mem_infos mm') \<and> i \<notin> mem_kids mm'" if "res n = Some lr" "i \<in> set (lres_Routes lr)" for n lr i
  proof -
    from assms(1) that have "i < length (mem_infos mm)" "i \<notin> mem_kids mm" unfolding roots_good_def by blast+
    with assms(2) show ?thesis by (rule old_root)
  qed
  with assms(2) show ?thesis by (simp add: roots_good_def steps_to_def)
qed

lemma GetHTTPRouteChain_good:
  assumes run: "GetHTTPRouteChain fuel kc hr hosts ref mm = Inr (mm', i)" and kc: "client_ok kc"
    and mm: "mem_wf mm" "rules_good mm" and hr: "route_ok mm hr"
  shows "steps_to mm mm'" "i < length (mem_infos mm') \<and> i \<notin> mem_kids mm'"
proof -
  from run obtain mm1 v kids where g: "getDelegatedChildren fuel kc hr {} mm = Inr (mm1, v, kids)"
    and a: "alloc_info mm1 \<lparr>hri_HTTPRoute = hr, hri_ParentRef = ref, hri_HostnameOverrides = hosts,
      hri_Backends = resolveRouteBackends kc hr, hri_Children = kids\<rparr> = (mm', i)"
    by (auto simp: GetHTTPRouteChain_def elim!: bind_out_InrE)
  from getDelegatedChildren_good [OF kc, of fuel] g mm have s: "steps_to mm mm1"
    and k: "\<forall>k \<in> kid_ids kids. length (mem_infos mm) \<le> k \<and> k < length (mem_infos mm1)"
    unfolding returns_good_def by blast+
  have "route_ok mm1 hr" using hr s route_ok_le by (auto simp: steps_to_def)
  note al = steps_to_alloc [OF s a, simplified, OF this k]
  show "steps_to mm mm'" by (rule al(1))
  have "mem_wf mm'" using al(1) by (simp add: steps_to_def)
  then show "i < length (mem_infos mm') \<and> i \<notin> mem_kids mm'"
    using al(3) by (fastforce simp: mem_kids_iff mem_wf_def less_Suc_eq)
qed

definition attach_good :: "route \<Rightarrow> attach_state \<Rightarrow> bool" where
  "attach_good hr st \<longleftrightarrow> roots_good (as_mem st) (as_results st) \<and> route_ok (as_mem st) hr"

lemma roots_good_upd:
  assumes "roots_good mm res" "\<forall>i \<in> set (lres_Routes lr). i < length (mem_infos mm) \<and> i \<notin> mem_kids mm"
  shows "roots_good mm (res(n \<mapsto> lr))"
  using assms by (auto simp: roots_good_def split: if_splits)

lemma attachToListener_good:
  assumes run: "attachToListener fuel kc gw hr ref l st = Inr st'" and kc: "client_ok kc" and st: "attach_good hr st"
  shows "attach_good hr st'"
proof -
  define lr where "lr = (case as_results st (l_Name l) of None \<Rightarrow> \<lparr>lres_Error = None, lres_Routes = []\<rparr> | Some lr \<Rightarrow> lr)"
  have rg: "roots_good (as_mem st) (as_results st)" and ro: "route_ok (as_mem st) hr" using st by (simp_all add: attach_good_def)
  have lr: "\<forall>i \<in> set (lres_Routes lr). i < length (mem_infos (as_mem st)) \<and> i \<notin> mem_kids (as_mem st)"
    using rg by (cases "as_results st (l_Name l)") (auto simp: lr_def roots_good_def)
  have base: "roots_good (as_mem st) ((as_results st)(l_Name l \<mapsto> lr\<lparr>lres_Error := e\<rparr>))"
      "roots_good (as_mem st) ((as_results st)(l_Name l \<mapsto> lr))" for e
    using lr by (auto intro!: roots_good_upd [OF rg])
  have chain: "roots_good mm ((as_results st)(l_Name l \<mapsto> lr\<lparr>lres_Routes := lres_Routes lr @ [i]\<rparr>)) \<and> route_ok mm hr"
    if "GetHTTPRouteChain fuel kc hr hosts ref (as_mem st) = Inr (mm, i)" for hosts mm i
  proof -
    have m: "mem_wf (as_mem st)" "rules_good (as_mem st)" using rg by (simp_all add: roots_good_def)
    note c = GetHTTPRouteChain_good [OF that kc m ro]
    have "\<forall>j \<in> set (lres_Routes lr @ [i]). j < length (mem_infos mm) \<and> j \<notin> mem_kids mm"
      using c(2) lr old_root [OF c(1)] by auto
    then have "roots_good mm ((as_results st)(l_Name l \<mapsto> lr\<lparr>lres_Routes := lres_Routes lr @ [i]\<rparr>))"
      by (intro roots_good_upd roots_good_step [OF rg c(1)]) simp
    moreover have "route_ok mm hr" using ro c(1) route_ok_le by (auto simp: steps_to_def)
    ultimately show ?thesis ..
  qed
  from run base ro chain show ?thesis
    by (auto simp: attachToListener_def lr_def [symmetric] attach_good_def Let_def split: sum.splits prod.splits if_splits elim!: bind_out_InrE)
qed

definition gather_good :: "mem \<times> routes_for_gw \<Rightarrow> bool" where
  "gather_good = (\<lambda>(mm, ret). roots_good mm (rfg_ListenerResults ret))"

lemma attachRef_good:
  assumes run: "attachRef fuel kc gw hr ref s = Inr s'" and kc: "client_ok kc" and s: "gather_good s \<and> route_ok (fst s) hr"
  shows "gather_good s' \<and> route_ok (fst s') hr"
proof -
  obtain mm ret where s': "s = (mm, ret)" by (cases s)
  let ?st = "\<lparr>as_mem = mm, as_results = rfg_ListenerResults ret, as_allowed = False, as_matched = False, as_hosts = False\<rparr>"
  from run obtain st where f: "fold_out (attachToListener fuel kc gw hr ref) (gw_Listeners gw) ?st = Inr st"
    and res: "fst s' = as_mem st" "rfg_ListenerResults (snd s') = as_results st"
    by (auto simp: attachRef_def s' elim!: bind_out_InrE)
  have start: "attach_good hr ?st" using s s' by (simp add: attach_good_def gather_good_def)
  have "attach_good hr st"
    by (rule fold_out_invariant [where P = "attach_good hr", OF _ start f]) (blast intro: attachToListener_good [OF _ kc])
  with res show ?thesis by (cases s') (simp add: attach_good_def gather_good_def)
qed

lemma attachRoute_good:
  assumes run: "attachRoute fuel kc gw hrApi s = Inr s'" and kc: "client_ok kc" and ok: "api_route_ok hrApi" and s: "gather_good s"
  shows "gather_good s'"
proof -
  obtain mm ret where s': "s = (mm, ret)" by (cases s)
  obtain mm1 hr where l: "load_route mm hrApi = (mm1, hr)" by (cases "load_route mm hrApi")
  have m: "mem_wf mm" "rules_good mm" using s s' by (simp_all add: gather_good_def roots_good_def)
  note ld = steps_to_load [OF l ok m]
  have start: "gather_good (mm1, ret) \<and> route_ok (fst (mm1, ret)) hr"
    using s s' ld roots_good_step by (auto simp: gather_good_def)
  from run l have f: "fold_out (attachRef fuel kc gw hr) (getParentRefsForGw gw hr) (mm1, ret) = Inr s'"
    by (simp add: attachRoute_def s')
  have "gather_good s' \<and> route_ok (fst s') hr"
    by (rule fold_out_invariant [where P = "\<lambda>s. gather_good s \<and> route_ok (fst s) hr", OF _ start f])
      (rule attachRef_good [OF _ kc])
  then show ?thesis ..
qed

lemma GetRoutesForGateway_routes_ok:
  assumes run: "GetRoutesForGateway fuel kc gw \<lparr>mem_paths = [], mem_infos = []\<rparr> = Inr (mm, Inr ret)" and kc: "client_ok kc"
  shows "routes_ok mm ret"
proof -
  let ?s = "(\<lparr>mem_paths = [], mem_infos = []\<rparr>, \<lparr>rfg_ListenerResults = Map.empty, rfg_RouteErrors = []\<rparr>)"
  from run obtain items where items: "kc_ListRoutesByTarget kc (nn_String (gw_key gw)) = Inr items"
    and f: "fold_out (attachRoute fuel kc gw) items ?s = Inr (mm, ret)"
    by (auto simp: GetRoutesForGateway_def split: sum.splits elim!: bind_out_InrE)
  have "list_all api_route_ok items" using kc items by (simp add: client_ok_def)
  then have ok: "api_route_ok hr" if "hr \<in> set items" for hr using that by (simp add: list_all_iff)
  have start: "gather_good ?s" by (simp add: gather_good_def roots_good_def mem_wf_def rules_good_def paths_good_def)
  have "gather_good (mm, ret)"
    by (rule fold_out_invariant [where P = gather_good, OF _ start f]) (blast intro: attachRoute_good [OF _ kc] ok)
  then have g: "mem_wf mm" "rules_good mm"
    and r: "rfg_ListenerResults ret n = Some lr \<Longrightarrow> i \<in> set (lres_Routes lr) \<Longrightarrow> i < length (mem_infos mm) \<and> i \<notin> mem_kids mm" for n lr i
    by (auto simp: gather_good_def roots_good_def)
  have "infos_ok filters_admitted mm" using g by (auto simp: infos_ok_def rules_good_def route_ok_def)
  moreover have "root_ok filters_admitted mm i" if "rfg_ListenerResults ret n = Some lr" "i \<in> set (lres_Routes lr)" for n lr i
  proof -
    note i = r [OF that]
    then have "route_ok mm (hri_HTTPRoute (mem_infos mm ! i))" using g(2) nth_mem by (auto simp: rules_good_def)
    with i show ?thesis by (simp add: root_ok_def route_ok_def)
  qed
  ultimately show ?thesis by (auto simp: routes_ok_def)
qed

section \<open>The proxy\<close>

lemma GetRoutesForGateway_listing:
  assumes "GetRoutesForGateway fuel kc gw mm = Inr (mm', res)"
  shows "(\<exists>e. res = Inl e) \<longleftrightarrow> (\<exists>e. kc_ListRoutesByTarget kc (nn_String (gw_key gw)) = Inl e)"
  using assms by (auto simp: GetRoutesForGateway_def split: sum.splits elim!: bind_out_InrE)

text \<open>Proxy names are not unique: the gateways \<open>b-c\<close> of the namespace \<open>a\<close> and \<open>c\<close> of the namespace \<open>a-b\<close> get
  the same proxy, name and namespace alike.\<close>

theorem proxyMetadata_collision:
  "let gw = (\<lambda>ns n. (v_gw [])\<lparr>gw_Namespace := ns, gw_Name := n\<rparr>);
       p = proxyMetadata (gw ''a'' ''b-c'') ''gloo-system''; q = proxyMetadata (gw ''a-b'' ''c'') ''gloo-system''
   in pmd_Name p = pmd_Name q \<and> pmd_Namespace p = pmd_Namespace q"
  by (simp add: proxyMetadata_def v_gw_def)

text \<open>A gateway whose routes cannot be listed is not reported on: no proxy is returned, and the reports
  are unchanged.\<close>

theorem TranslateProxy_silent_failure:
  assumes "kc_ListRoutesByTarget kc (nn_String (gw_key gw)) = Inl e"
  shows "TranslateProxy fuel lib kc ord visit plugins lplugins gw ns (rm, x) = Inr (None, rm, x)"
  using assms by (simp add: TranslateProxy_def GetRoutesForGateway_def)

section \<open>Witnesses\<close>

definition t_route :: api_route where
  "t_route = q_route ''r'' [q_parent_ref] None [(q_rule [q_service])\<lparr>rule_Matches := Some
     [\<lparr>hm_Path = Some (d_path ''/a''), hm_Headers = [], hm_QueryParams = [], hm_Method = None\<rparr>]\<rparr>]"

definition t_client :: "unit k8s_client" where
  "t_client = q_client\<lparr>kc_ListRoutesByTarget := (\<lambda>t. Inr [t_route]), kc_ListRoutesInNamespace := (\<lambda>ns. Inr []),
     kc_GetRoute := (\<lambda>n. Inl (ApiNotFound (nn_String n))), kc_GetObject := (\<lambda>gk v n. Inl (ApiNotFound (nn_String n)))\<rparr>"

theorem TranslateProxy_silent_failure_witness:
  "TranslateProxy 1 x_lib (t_client\<lparr>kc_ListRoutesByTarget := (\<lambda>_. Inl (ErrMsg ''timeout''))\<rparr>) [] rev [] [] (v_gw v_listeners) ''gloo-system''
     (NewReportMap, ()) = Inr (None, NewReportMap, ())"
  by (rule TranslateProxy_silent_failure [where e = "ErrMsg ''timeout''"]) simp

section \<open>Totality\<close>

text \<open>The translation of a gateway returns; stated over all parts in the root theory.\<close>

lemma TranslateProxy_returns:
  assumes N: "finite N" "client_within kc N" "card N < fuel" and client: "client_ok kc" "secrets_typed kc"
    and tls: "\<forall>l \<in> set (gw_Listeners gw). tls_ok (l_TLS l)"
    and plugins: "plugin_contract filters_admitted routeoptions" "\<forall>p \<in> set lplugins. listener_plugin_contract p"
    and orders: "visits visit" "iter_order (portMap (filter supported_listener (gw_Listeners gw))) ord"
  shows "\<exists>p rm' x'. TranslateProxy fuel lib kc ord visit (route_plugins_of sanitize kc routeoptions) lplugins gw ns (rm, x) = Inr (p, rm', x') \<and>
    (p = None \<longleftrightarrow> (\<exists>e. kc_ListRoutesByTarget kc (nn_String (gw_key gw)) = Inl e)) \<and>
    (case p of
       None \<Rightarrow> True
     | Some px \<Rightarrow> px_Metadata px = proxyMetadata gw ns \<and> list_all listener_wf (px_Listeners px) \<and>
         distinct (map gl_BindPort (px_Listeners px)) \<and> (\<forall>l \<in> set (px_Listeners px). 1024 \<le> gl_BindPort l) \<and>
         gl_BindPort ` set (px_Listeners px) = (\<lambda>l. finalPort (l_Port l)) `
           {l \<in> set (gw_Listeners gw). supported_listener l \<and> unconflicted (filter supported_listener (gw_Listeners gw)) l})"
proof -
  let ?mem = "\<lparr>mem_paths = [], mem_infos = []\<rparr>"
  obtain mm res where g: "GetRoutesForGateway fuel kc gw ?mem = Inr (mm, res)"
    using GetRoutesForGateway_returns [OF N] by blast
  show ?thesis
  proof (cases res)
    case (Inl e)
    with GetRoutesForGateway_listing [OF g] g show ?thesis by (simp add: TranslateProxy_def)
  next
    case (Inr ret)
    let ?rm = "foldl (reportAttachedRoutes gw ret) (foldl reportRouteError rm (rfg_RouteErrors ret)) (gw_Listeners gw)"
    have "routes_ok mm ret" using g Inr by (intro GetRoutesForGateway_routes_ok [OF _ client(1)]) simp
    from TranslateListeners_ok [OF plugins orders client(2) tls this, of lib sanitize ?rm x] obtain outs mm' rm' x' where
      t: "TranslateListeners lib kc ord visit (route_plugins_of sanitize kc routeoptions) lplugins gw ret (mm, ?rm, x) = Inr (outs, mm', rm', x')"
      and o: "list_all listener_wf outs" "distinct (map gl_BindPort outs)" "\<forall>l \<in> set outs. 1024 \<le> gl_BindPort l"
        "set (map gl_BindPort outs) = (\<lambda>l. finalPort (l_Port l)) `
           {l \<in> set (gw_Listeners gw). supported_listener l \<and> unconflicted (filter supported_listener (gw_Listeners gw)) l}" by blast
    have "\<not> (\<exists>e. kc_ListRoutesByTarget kc (nn_String (gw_key gw)) = Inl e)"
      unfolding GetRoutesForGateway_listing [OF g, symmetric] using Inr by simp
    moreover have "TranslateProxy fuel lib kc ord visit (route_plugins_of sanitize kc routeoptions) lplugins gw ns (rm, x) =
        Inr (Some \<lparr>px_Metadata = proxyMetadata gw ns, px_Listeners = outs\<rparr>, rm', x')"
      by (simp add: TranslateProxy_def g Inr Let_def t)
    ultimately show ?thesis
      using o unfolding set_map by (intro exI conjI) (assumption | simp)+
  qed
qed

end
