(* ===== verification/PluginRegistry.thy ===== *)
theory PluginRegistry
  imports GatewayTranslator
begin

text \<open>
  The plugin registry, \<open>translator/plugins/registry/plugin_registry.go\<close>, with the plugin interfaces of
  \<open>translator/plugins/plugins.go\<close>: a Go type assertion tells which of the interfaces a plugin has,
  which is the option of its field. The state of the plugin objects, which is shared by the
  interfaces of a plugin, is the type \<open>'x\<close> that the plugins thread.
\<close>

record 'r proxy_with_reports =
  pwr_Proxy :: proxy
  pwr_Reports :: 'r

record 'sel translated_gateway =
  tg_Gateway :: "'sel gateway"

type_synonym ('sel, 'x) post_translation_plugin = "'sel translated_gateway list \<Rightarrow> 'x \<Rightarrow> 'x \<times> string option"
type_synonym ('r, 'x) status_plugin = "'r proxy_with_reports list \<Rightarrow> 'x \<Rightarrow> 'x \<times> string option"

record ('sel, 'r, 'x) plugin =
  as_RoutePlugin :: "('sel, 'x) route_plugin option"
  as_ListenerPlugin :: "('sel, 'x) listener_plugin option"
  as_PostTranslationPlugin :: "('sel, 'x) post_translation_plugin option"
  as_StatusPlugin :: "('r, 'x) status_plugin option"

record ('sel, 'r, 'x) plugin_registry =
  reg_routePlugins :: "('sel, 'x) route_plugin list"
  reg_listenerPlugins :: "('sel, 'x) listener_plugin list"
  reg_postTranslationPlugins :: "('sel, 'x) post_translation_plugin list"
  reg_statusPlugins :: "('r, 'x) status_plugin list"

definition append_opt :: "'a list \<Rightarrow> 'a option \<Rightarrow> 'a list" where
  "append_opt xs p = (case p of None \<Rightarrow> xs | Some v \<Rightarrow> xs @ [v])"

definition registerPlugin :: "('sel, 'r, 'x) plugin_registry \<Rightarrow> ('sel, 'r, 'x) plugin \<Rightarrow> ('sel, 'r, 'x) plugin_registry" where
  "registerPlugin reg plugin =
     \<lparr>reg_routePlugins = append_opt (reg_routePlugins reg) (as_RoutePlugin plugin),
      reg_listenerPlugins = append_opt (reg_listenerPlugins reg) (as_ListenerPlugin plugin),
      reg_postTranslationPlugins = append_opt (reg_postTranslationPlugins reg) (as_PostTranslationPlugin plugin),
      reg_statusPlugins = append_opt (reg_statusPlugins reg) (as_StatusPlugin plugin)\<rparr>"

definition NewPluginRegistry :: "('sel, 'r, 'x) plugin list \<Rightarrow> ('sel, 'r, 'x) plugin_registry" where
  "NewPluginRegistry allPlugins =
     foldl registerPlugin \<lparr>reg_routePlugins = [], reg_listenerPlugins = [],
       reg_postTranslationPlugins = [], reg_statusPlugins = []\<rparr> allPlugins"

text \<open>The registry keeps, for every interface, the plugins that have it in the order given.\<close>

lemma foldl_registerPlugin:
  "foldl registerPlugin reg ps =
     \<lparr>reg_routePlugins = reg_routePlugins reg @ List.map_filter as_RoutePlugin ps,
      reg_listenerPlugins = reg_listenerPlugins reg @ List.map_filter as_ListenerPlugin ps,
      reg_postTranslationPlugins = reg_postTranslationPlugins reg @ List.map_filter as_PostTranslationPlugin ps,
      reg_statusPlugins = reg_statusPlugins reg @ List.map_filter as_StatusPlugin ps\<rparr>"
  by (induction ps arbitrary: reg)
    (simp_all add: registerPlugin_def append_opt_def List.map_filter_def split: option.split)

lemma NewPluginRegistry_fields [simp]:
  "reg_routePlugins (NewPluginRegistry ps) = List.map_filter as_RoutePlugin ps"
  "reg_listenerPlugins (NewPluginRegistry ps) = List.map_filter as_ListenerPlugin ps"
  "reg_postTranslationPlugins (NewPluginRegistry ps) = List.map_filter as_PostTranslationPlugin ps"
  "reg_statusPlugins (NewPluginRegistry ps) = List.map_filter as_StatusPlugin ps"
  by (simp_all add: NewPluginRegistry_def foldl_registerPlugin)

end
