(* ===== verification/Transition.thy ===== *)
theory Transition
  imports Main
begin

text \<open>
  Runs of labelled transition systems, shared by the concurrent parts of the control plane: the
  work queues, the syncer loop and the status syncer. A system is a relation
  \<open>step s l s'\<close>; a run is the sequence of its labels. Two proof interfaces are locales: an
  invariant of the runs of a system, which may speak of the labels seen so far, and a simulation of
  a system by an abstract one.
\<close>

inductive run :: "('s \<Rightarrow> 'l \<Rightarrow> 's \<Rightarrow> bool) \<Rightarrow> 's \<Rightarrow> 'l list \<Rightarrow> 's \<Rightarrow> bool" for step and s where
  run_nil: "run step s [] s"
| run_snoc: "run step s tr s' \<Longrightarrow> step s' l s'' \<Longrightarrow> run step s (tr @ [l]) s''"

inductive_cases run_nilE: "run step s [] s'"

lemma run_single: "step s l s' \<Longrightarrow> run step s [l] s'"
  using run_snoc [OF run_nil, of step s l s'] by simp

lemma run_append:
  assumes "run step s tr s'" "run step s' tr' s''"
  shows "run step s (tr @ tr') s''"
  using assms(2,1)
proof (induction rule: run.induct)
  case run_nil
  then show ?case by simp
next
  case (run_snoc tr' t l u)
  then show ?case using run.run_snoc [of step s "tr @ tr'" t l u] by simp
qed

lemma run_Cons: "step s l s' \<Longrightarrow> run step s' tr s'' \<Longrightarrow> run step s (l # tr) s''"
  using run_append [OF run_single, of step s l s' tr s''] by simp

lemma run_snocE:
  assumes "run step s (tr @ [l]) s''"
  obtains s' where "run step s tr s'" and "step s' l s''"
  using assms by (auto elim: run.cases)

lemma run_appendE:
  assumes "run step s (tr @ tr') s''"
  obtains s' where "run step s tr s'" and "run step s' tr' s''"
  using assms
proof (induction tr' arbitrary: s'' thesis rule: rev_induct)
  case Nil
  then show ?case using run_nil by fastforce
next
  case (snoc l tr')
  from snoc.prems(2) have "run step s ((tr @ tr') @ [l]) s''" by simp
  then obtain t where t: "run step s (tr @ tr') t" "step t l s''" by (rule run_snocE)
  then obtain s' where "run step s tr s'" "run step s' tr' t" using snoc.IH by blast
  then show ?case using snoc.prems(1) run_snoc t(2) by metis
qed

lemma run_ConsE:
  assumes "run step s (l # tr) s''"
  obtains s' where "step s l s'" and "run step s' tr s''"
proof -
  have "run step s ([l] @ tr) s''" using assms by simp
  then obtain s' where s': "run step s [l] s'" "run step s' tr s''" by (rule run_appendE)
  have "run step s ([] @ [l]) s'" using s'(1) by simp
  then obtain t where t: "run step s [] t" "step t l s'" by (rule run_snocE)
  from t(1) have "t = s" by (rule run_nilE)
  then show ?thesis using that t(2) s'(2) by simp
qed

text \<open>Runs of a system by a function that gives the successor for a label, for concrete runs.\<close>

fun exec_run :: "('s \<Rightarrow> 'l \<Rightarrow> 's option) \<Rightarrow> 's \<Rightarrow> 'l list \<Rightarrow> 's option" where
  "exec_run f s [] = Some s"
| "exec_run f s (l # tr) = (case f s l of None \<Rightarrow> None | Some s' \<Rightarrow> exec_run f s' tr)"

lemma exec_run_sound:
  assumes "\<And>s l s'. f s l = Some s' \<Longrightarrow> step s l s'" "exec_run f s tr = Some s'"
  shows "run step s tr s'"
  using assms(2)
proof (induction tr arbitrary: s)
  case Nil
  then show ?case by (simp add: run_nil)
next
  case (Cons l tr)
  then obtain t where "f s l = Some t" "run step t tr s'" by (auto split: option.splits)
  then show ?case using assms(1) run_Cons by metis
qed

text \<open>A property of the labels seen so far and the state, established at the start and kept by
  every step.\<close>

locale run_invariant =
  fixes step :: "'s \<Rightarrow> 'l \<Rightarrow> 's \<Rightarrow> bool" and init :: 's and I :: "'l list \<Rightarrow> 's \<Rightarrow> bool"
  assumes inv_init: "I [] init"
    and inv_step: "\<And>tr s l s'. run step init tr s \<Longrightarrow> I tr s \<Longrightarrow> step s l s' \<Longrightarrow> I (tr @ [l]) s'"
begin

lemma invariant_run: "run step init tr s \<Longrightarrow> I tr s"
proof (induction rule: run.induct)
  case run_nil
  show ?case by (rule inv_init)
next
  case (run_snoc tr s' l s'')
  then show ?case by (intro inv_step)
qed

end

text \<open>Every step of the concrete system is matched by a run of the abstract system with the labels
  the step shows.\<close>

locale simulation =
  fixes cstep :: "'c \<Rightarrow> 'l \<Rightarrow> 'c \<Rightarrow> bool" and astep :: "'a \<Rightarrow> 'e \<Rightarrow> 'a \<Rightarrow> bool"
    and obs :: "'l \<Rightarrow> 'e list" and R :: "'a \<Rightarrow> 'c \<Rightarrow> bool" and a0 :: 'a and c0 :: 'c
  assumes sim_init: "R a0 c0"
    and sim_step: "\<And>a c l c'. R a c \<Longrightarrow> cstep c l c' \<Longrightarrow> \<exists>a'. run astep a (obs l) a' \<and> R a' c'"
begin

lemma simulates:
  "run cstep c0 tr c \<Longrightarrow> \<exists>a. run astep a0 (concat (map obs tr)) a \<and> R a c"
proof (induction rule: run.induct)
  case run_nil
  have "run astep a0 [] a0" by (rule run.run_nil)
  then show ?case using sim_init by auto
next
  case (run_snoc tr c l c')
  then obtain a where a: "run astep a0 (concat (map obs tr)) a" "R a c" by auto
  obtain a' where "run astep a (obs l) a'" "R a' c'" using sim_step [OF a(2) run_snoc(2)] by auto
  then show ?case using run_append [OF a(1), of "obs l" a'] by auto
qed

end

end
