(* ===== verification/Strconv.thy ===== *)
theory Strconv
  imports Prelude
begin

text \<open>
  \<open>strconv.Itoa\<close> and \<open>strconv.Atoi\<close> of the Go standard library, on a 64-bit \<open>int\<close>. The digits are read
  left to right; a character that is not a digit is a syntax error with value 0, and a value out of
  range is an error with the nearest value of the range.
\<close>

datatype num_error = ErrSyntax | ErrRange

definition Itoa :: "int \<Rightarrow> string" where
  "Itoa n = (if n < 0 then CHR ''-'' # show_nat (nat (- n)) else show_nat (nat n))"

definition is_digit :: "char \<Rightarrow> bool" where
  "is_digit c \<longleftrightarrow> 48 \<le> (of_char c :: nat) \<and> of_char c \<le> (57 :: nat)"

fun parse_uint :: "nat \<Rightarrow> string \<Rightarrow> num_error + nat" where
  "parse_uint n [] = Inr n"
| "parse_uint n (c # cs) =
     (if \<not> is_digit c then Inl ErrSyntax
      else let n1 = 10 * n + (of_char c - 48)
           in if 2 ^ 64 \<le> n1 then Inl ErrRange else parse_uint n1 cs)"

definition ParseUint :: "string \<Rightarrow> num_error + nat" where
  "ParseUint s = (if s = [] then Inl ErrSyntax else parse_uint 0 s)"

definition clamp :: "bool \<Rightarrow> nat \<Rightarrow> int \<times> num_error option" where
  "clamp neg un =
     (if neg then if 2 ^ 63 < int un then (- (2 ^ 63), Some ErrRange) else (- int un, None)
      else if 2 ^ 63 \<le> int un then (2 ^ 63 - 1, Some ErrRange) else (int un, None))"

definition Atoi :: "string \<Rightarrow> int \<times> num_error option" where
  "Atoi s =
     (let neg = (s \<noteq> [] \<and> hd s = CHR ''-'');
          digits = (if s \<noteq> [] \<and> hd s \<in> {CHR ''-'', CHR ''+''} then tl s else s)
      in case ParseUint digits of
           Inl ErrSyntax \<Rightarrow> (0, Some ErrSyntax)
         | Inl ErrRange \<Rightarrow> clamp neg (2 ^ 64 - 1)
         | Inr un \<Rightarrow> clamp neg un)"

section \<open>Reading what was written\<close>

lemma parse_uint_append:
  "parse_uint n (s @ t) = (case parse_uint n s of Inl e \<Rightarrow> Inl e | Inr m \<Rightarrow> parse_uint m t)"
  by (induction s arbitrary: n) (auto simp: Let_def)

lemma of_char_digit: "d < 10 \<Longrightarrow> (of_char (char_of (48 + d) :: char) :: nat) = 48 + d"
  by (simp add: of_char_of)

lemma parse_uint_digit:
  assumes "d < 10" "10 * n + d < 2 ^ 64"
  shows "parse_uint n [char_of (48 + d)] = Inr (10 * n + d)"
  using assms by (simp add: is_digit_def of_char_digit Let_def)

lemma parse_uint_show_nat: "n < 2 ^ 64 \<Longrightarrow> parse_uint 0 (show_nat n) = Inr n"
proof (induction n rule: show_nat.induct)
  case (1 n)
  show ?case
  proof (cases "n < 10")
    case True
    then show ?thesis using parse_uint_digit [of n 0] "1.prems" by (simp add: show_nat.simps [of n])
  next
    case False
    then have "parse_uint 0 (show_nat (n div 10)) = Inr (n div 10)" using 1 by simp
    moreover have "parse_uint (n div 10) [char_of (48 + n mod 10)] = Inr n"
      using parse_uint_digit [of "n mod 10" "n div 10"] "1.prems" by simp
    ultimately show ?thesis using False by (simp add: show_nat.simps [of n] parse_uint_append)
  qed
qed

lemma show_nat_digits: "c \<in> set (show_nat n) \<Longrightarrow> is_digit c"
proof (induction n rule: show_nat.induct)
  case (1 n)
  then show ?case
    by (subst (asm) (2) show_nat.simps) (auto simp: is_digit_def of_char_digit split: if_splits)
qed

lemma show_nat_nonempty [simp]: "show_nat n \<noteq> []"
  by (subst show_nat.simps) simp

lemma show_nat_hd: "hd (show_nat n) \<notin> {CHR ''-'', CHR ''+''}"
proof -
  have "is_digit (hd (show_nat n))" by (rule show_nat_digits [of _ n]) simp
  then show ?thesis by (auto simp: is_digit_def)
qed

lemma Atoi_Itoa:
  assumes "- (2 ^ 63) \<le> n" "n < 2 ^ 63"
  shows "Atoi (Itoa n) = (n, None)"
proof (cases "n < 0")
  case True
  then have "nat (- n) < 2 ^ 64" using assms by auto
  then show ?thesis
    using True assms by (simp add: Atoi_def Itoa_def ParseUint_def parse_uint_show_nat clamp_def)
next
  case False
  then have "nat n < 2 ^ 64" using assms by auto
  then show ?thesis
    using False assms show_nat_hd [of "nat n"]
    by (simp add: Atoi_def Itoa_def ParseUint_def parse_uint_show_nat clamp_def)
qed

end
