(* ===== verification/StatusSyncer.thy ===== *)
theory StatusSyncer
  imports PluginRegistry Transition Strconv
begin

text \<open>
  The status syncer, \<open>projects/gateway2/status/status_syncer.go\<close>: translation queues the proxies of a
  sync with the plugin registry that produced them, and when the reports of the proxies come back,
  later and in any order, the status plugins of the right registry are run on them. The mutex makes
  the two operations atomic, so the runs are sequences of \<open>QueueStatusForProxies\<close> and
  \<open>HandleProxyReports\<close>.

  The effects of the status plugins are the state \<open>'x\<close>; the content of a report is the type \<open>'r\<close>. The
  order of the loop over the map of reports is the argument \<open>ord\<close>.
\<close>

section \<open>Model\<close>

abbreviation ProxySyncId :: string where "ProxySyncId \<equiv> ''proxy_sync_id''"

record ('sel, 'r, 'x) statusSyncerFactory =
  registryPerSync :: "int \<rightharpoonup> ('sel, 'r, 'x) plugin_registry"
  resyncsPerProxy :: "namespaced_name \<rightharpoonup> int"
  resyncsPerIteration :: "int \<rightharpoonup> namespaced_name list"

definition NewStatusSyncerFactory :: "('sel, 'r, 'x) statusSyncerFactory" where
  "NewStatusSyncerFactory = \<lparr>registryPerSync = Map.empty, resyncsPerProxy = Map.empty,
     resyncsPerIteration = Map.empty\<rparr>"

definition getProxyNameNamespace :: "proxy \<Rightarrow> namespaced_name" where
  "getProxyNameNamespace p = NamespacedName (pmd_Namespace (px_Metadata p)) (pmd_Name (px_Metadata p))"

text \<open>The value of a key of a Go map, or the zero value.\<close>

definition map_get :: "'v \<Rightarrow> ('k \<rightharpoonup> 'v) \<Rightarrow> 'k \<Rightarrow> 'v" where
  "map_get z m k = (case m k of None \<Rightarrow> z | Some v \<Rightarrow> v)"

definition queueProxy :: "int \<Rightarrow> ('sel, 'r, 'x) statusSyncerFactory \<Rightarrow> proxy \<Rightarrow> ('sel, 'r, 'x) statusSyncerFactory" where
  "queueProxy totalSyncCount f proxy =
     (let k = getProxyNameNamespace proxy
      in f\<lparr>resyncsPerProxy := (resyncsPerProxy f)(k \<mapsto> totalSyncCount),
           resyncsPerIteration := (resyncsPerIteration f)
             (totalSyncCount \<mapsto> map_get [] (resyncsPerIteration f) totalSyncCount @ [k])\<rparr>)"

definition QueueStatusForProxies ::
  "proxy list \<Rightarrow> ('sel, 'r, 'x) plugin_registry \<Rightarrow> int \<Rightarrow>
   ('sel, 'r, 'x) statusSyncerFactory \<Rightarrow> ('sel, 'r, 'x) statusSyncerFactory" where
  "QueueStatusForProxies proxiesToQueue pluginRegistry totalSyncCount f =
     (let f = foldl (queueProxy totalSyncCount) f proxiesToQueue
      in f\<lparr>registryPerSync := (registryPerSync f)(totalSyncCount \<mapsto> pluginRegistry)\<rparr>)"

definition filterProxiesByControllerName :: "'r proxy_with_reports list \<Rightarrow> 'r proxy_with_reports list" where
  "filterProxiesByControllerName reports =
     filter (\<lambda>pr. map_get [] (pmd_Labels (px_Metadata (pwr_Proxy pr))) ProxyTypeKey = GatewayApiProxyValue) reports"

definition applyStatusPlugins :: "('sel, 'r, 'x) plugin_registry \<Rightarrow> 'r proxy_with_reports list \<Rightarrow> 'x \<Rightarrow> 'x" where
  "applyStatusPlugins pluginRegistry proxiesWithReports x =
     (let proxiesWithReports = filterProxiesByControllerName proxiesWithReports
      in foldl (\<lambda>x plugin. fst (plugin proxiesWithReports x)) x (reg_statusPlugins pluginRegistry))"

text \<open>The sync count in the annotation of a proxy; the error of \<open>Atoi\<close> is ignored.\<close>

definition syncIdOf :: "proxy \<Rightarrow> int option" where
  "syncIdOf p =
     (case pmd_Annotations (px_Metadata p) of
        None \<Rightarrow> None
      | Some annotations \<Rightarrow>
          (case annotations ProxySyncId of None \<Rightarrow> None | Some syncId \<Rightarrow> Some (fst (Atoi syncId))))"

text \<open>The body of the first loop of \<open>HandleProxyReports\<close>. The sync count is declared outside of the
  loop: a proxy without the annotation is handled with the count of the proxy before it.\<close>

record ('sel, 'r, 'x) handle_state =
  hs_factory :: "('sel, 'r, 'x) statusSyncerFactory"
  hs_proxySyncCount :: int
  hs_proxiesToReport :: "int \<rightharpoonup> 'r proxy_with_reports list"

definition handle_start :: "('sel, 'r, 'x) statusSyncerFactory \<Rightarrow> ('sel, 'r, 'x) handle_state" where
  "handle_start f = \<lparr>hs_factory = f, hs_proxySyncCount = 0, hs_proxiesToReport = Map.empty\<rparr>"

definition handleReport :: "('sel, 'r, 'x) handle_state \<Rightarrow> 'r proxy_with_reports \<Rightarrow> ('sel, 'r, 'x) handle_state" where
  "handleReport h proxyWithReport =
     (let f = hs_factory h;
          proxySyncCount = (case syncIdOf (pwr_Proxy proxyWithReport) of None \<Rightarrow> hs_proxySyncCount h | Some n \<Rightarrow> n);
          h = h\<lparr>hs_proxySyncCount := proxySyncCount\<rparr>;
          proxyKey = getProxyNameNamespace (pwr_Proxy proxyWithReport)
      in if map_get 0 (resyncsPerProxy f) proxyKey > proxySyncCount then h
         else
           (case resyncsPerIteration f proxySyncCount of
              None \<Rightarrow> h
            | Some l \<Rightarrow>
                h\<lparr>hs_factory :=
                    f\<lparr>resyncsPerIteration := (resyncsPerIteration f)(proxySyncCount \<mapsto> filter (\<lambda>k. k \<noteq> proxyKey) l),
                      resyncsPerProxy := (resyncsPerProxy f)(proxyKey := None)\<rparr>,
                  hs_proxiesToReport := (hs_proxiesToReport h)
                    (proxySyncCount \<mapsto> map_get [] (hs_proxiesToReport h) proxySyncCount @ [proxyWithReport])\<rparr>))"

definition applyReports ::
  "(int \<rightharpoonup> 'r proxy_with_reports list) \<Rightarrow> ('sel, 'r, 'x) statusSyncerFactory \<times> 'x \<Rightarrow> int \<Rightarrow>
   ('sel, 'r, 'x) statusSyncerFactory \<times> 'x" where
  "applyReports proxiesToReport = (\<lambda>(f, x) syncCount.
     let x = (case registryPerSync f syncCount of
                None \<Rightarrow> x
              | Some plugins \<Rightarrow> applyStatusPlugins plugins (map_get [] proxiesToReport syncCount) x)
     in (if resyncsPerIteration f = Map.empty
         then f\<lparr>registryPerSync := (registryPerSync f)(syncCount := None)\<rparr> else f, x))"

definition HandleProxyReports ::
  "((int \<rightharpoonup> 'r proxy_with_reports list) \<Rightarrow> int list) \<Rightarrow> 'r proxy_with_reports list \<Rightarrow>
   ('sel, 'r, 'x) statusSyncerFactory \<times> 'x \<Rightarrow> ('sel, 'r, 'x) statusSyncerFactory \<times> 'x" where
  "HandleProxyReports ord proxiesWithReports = (\<lambda>(f, x).
     let h = foldl handleReport (handle_start f)
               (filterProxiesByControllerName proxiesWithReports)
     in foldl (applyReports (hs_proxiesToReport h)) (hs_factory h, x) (ord (hs_proxiesToReport h)))"

section \<open>Runs\<close>

text \<open>The queue operation is called with a growing count, the report callback with any reports.\<close>

datatype ('sel, 'r, 'x) status_event =
  Queue int "proxy list" "('sel, 'r, 'x) plugin_registry" | Handle "'r proxy_with_reports list"

record ('sel, 'r, 'x) status_sys =
  ss_factory :: "('sel, 'r, 'x) statusSyncerFactory"
  ss_world :: 'x
  ss_count :: int

inductive status_step ::
  "((int \<rightharpoonup> 'r proxy_with_reports list) \<Rightarrow> int list) \<Rightarrow>
   ('sel, 'r, 'x) status_sys \<Rightarrow> ('sel, 'r, 'x) status_event \<Rightarrow> ('sel, 'r, 'x) status_sys \<Rightarrow> bool" for ord where
  queue: "ss_count s < n \<Longrightarrow> status_step ord s (Queue n ps reg)
    (s\<lparr>ss_factory := QueueStatusForProxies ps reg n (ss_factory s), ss_count := n\<rparr>)"
| handle: "HandleProxyReports ord prs (ss_factory s, ss_world s) = (f, x) \<Longrightarrow>
    status_step ord s (Handle prs) (s\<lparr>ss_factory := f, ss_world := x\<rparr>)"

inductive_simps status_step_simps:
  "status_step ord s (Queue n ps reg) s'" "status_step ord s (Handle prs) s'"

definition status_init :: "'x \<Rightarrow> ('sel, 'r, 'x) status_sys" where
  "status_init x = \<lparr>ss_factory = NewStatusSyncerFactory, ss_world = x, ss_count = 0\<rparr>"

text \<open>A loop over a Go map visits each key once.\<close>

definition visits_all :: "(('k \<rightharpoonup> 'v) \<Rightarrow> 'k list) \<Rightarrow> bool" where
  "visits_all ord \<longleftrightarrow> (\<forall>m. finite (dom m) \<longrightarrow> iter_order m (ord m))"

section \<open>Handling a batch of reports\<close>

lemma map_get_simps [simp]: "map_get z Map.empty k = z" "map_get z (m(k \<mapsto> v)) k = v"
  by (simp_all add: map_get_def)

lemma map_get_upd_other [simp]: "j \<noteq> k \<Longrightarrow> map_get z (m(k := v)) j = map_get z m j"
  by (simp add: map_get_def)

abbreviation pwr_key :: "'r proxy_with_reports \<Rightarrow> namespaced_name" where
  "pwr_key pr \<equiv> getProxyNameNamespace (pwr_Proxy pr)"

text \<open>The reports of a batch that are due for a sync: they carry its count, the sync has queued
  proxies, and no newer sync of the proxy is pending.\<close>

definition due :: "('sel, 'r, 'x) statusSyncerFactory \<Rightarrow> int \<Rightarrow> 'r proxy_with_reports list \<Rightarrow> 'r proxy_with_reports list" where
  "due f n prs = filter (\<lambda>pr. syncIdOf (pwr_Proxy pr) = Some n \<and> n \<in> dom (resyncsPerIteration f) \<and>
     map_get 0 (resyncsPerProxy f) (pwr_key pr) \<le> n) prs"

definition due_keys :: "('sel, 'r, 'x) statusSyncerFactory \<Rightarrow> 'r proxy_with_reports list \<Rightarrow> namespaced_name set" where
  "due_keys f prs = (\<Union>n. pwr_key ` set (due f n prs))"

text \<open>The maps of the syncer after the due reports are taken.\<close>

definition take_due :: "('sel, 'r, 'x) statusSyncerFactory \<Rightarrow> 'r proxy_with_reports list \<Rightarrow> ('sel, 'r, 'x) statusSyncerFactory" where
  "take_due f prs = f\<lparr>
     resyncsPerProxy := (\<lambda>k. if k \<in> due_keys f prs then None else resyncsPerProxy f k),
     resyncsPerIteration := (\<lambda>n. map_option (filter (\<lambda>k. k \<notin> pwr_key ` set (due f n prs))) (resyncsPerIteration f n))\<rparr>"

definition add_due :: "('sel, 'r, 'x) statusSyncerFactory \<Rightarrow> 'r proxy_with_reports list \<Rightarrow>
  (int \<rightharpoonup> 'r proxy_with_reports list) \<Rightarrow> (int \<rightharpoonup> 'r proxy_with_reports list)" where
  "add_due f prs m = (\<lambda>n. if due f n prs = [] then m n else Some (map_get [] m n @ due f n prs))"

lemma due_Nil [simp]: "due f n [] = []"
  by (simp add: due_def)

lemma due_Cons:
  "due f n (pr # prs) = (if syncIdOf (pwr_Proxy pr) = Some n \<and> n \<in> dom (resyncsPerIteration f) \<and>
     map_get 0 (resyncsPerProxy f) (pwr_key pr) \<le> n then pr # due f n prs else due f n prs)"
  by (simp add: due_def)

lemma filter_all [simp]: "filter (\<lambda>k. True) = (\<lambda>xs. xs)"
  by (simp add: fun_eq_iff)

lemma take_due_fields:
  "registryPerSync (take_due f prs) = registryPerSync f"
  "resyncsPerProxy (take_due f prs) k =
     (if k \<in> due_keys f prs then None else resyncsPerProxy f k)"
  "resyncsPerIteration (take_due f prs) n =
     map_option (filter (\<lambda>k. k \<notin> pwr_key ` set (due f n prs))) (resyncsPerIteration f n)"
  by (simp_all add: take_due_def)

lemma take_due_none:
  assumes "\<And>n. due f n prs = []"
  shows "take_due f prs = f" "add_due f prs m = m"
  by (simp_all add: take_due_def add_due_def due_keys_def assms option.map_ident)

lemma dom_take_due [simp]: "dom (resyncsPerIteration (take_due f prs)) = dom (resyncsPerIteration f)"
  by (auto simp: take_due_fields dom_def)

text \<open>Taking one report does not change what is due of other proxies.\<close>

lemma due_other:
  assumes "\<And>k. k \<noteq> k0 \<Longrightarrow> resyncsPerProxy f' k = resyncsPerProxy f k"
    "dom (resyncsPerIteration f') = dom (resyncsPerIteration f)" "k0 \<notin> pwr_key ` set prs"
  shows "due f' n prs = due f n prs"
proof -
  have "map_get 0 (resyncsPerProxy f') (pwr_key pr) = map_get 0 (resyncsPerProxy f) (pwr_key pr)" if "pr \<in> set prs" for pr
    using assms(1) [of "pwr_key pr"] assms(3) that by (auto simp: map_get_def image_iff)
  then show ?thesis unfolding due_def assms(2) by (intro filter_cong) auto
qed

lemma handleReport_step:
  assumes "syncIdOf (pwr_Proxy pr) = Some n"
  shows "handleReport h pr = \<lparr>hs_factory = take_due (hs_factory h) [pr], hs_proxySyncCount = n,
    hs_proxiesToReport = add_due (hs_factory h) [pr] (hs_proxiesToReport h)\<rparr>"
proof (cases "map_get 0 (resyncsPerProxy (hs_factory h)) (pwr_key pr) > n \<or> resyncsPerIteration (hs_factory h) n = None")
  case True
  then have d: "due (hs_factory h) m [pr] = []" for m
    using assms by (auto simp: due_Cons)
  have "handleReport h pr = h\<lparr>hs_proxySyncCount := n\<rparr>"
    using True assms by (auto simp: handleReport_def Let_def split: option.split)
  then show ?thesis by (simp add: take_due_none [OF d])
next
  case False
  then obtain l where l: "resyncsPerIteration (hs_factory h) n = Some l" by auto
  have d: "due (hs_factory h) m [pr] = (if m = n then [pr] else [])" for m
    using assms False l by (auto simp: due_Cons)
  have k: "due_keys (hs_factory h) [pr] = {pwr_key pr}" by (auto simp: due_keys_def d)
  have t: "take_due (hs_factory h) [pr] = hs_factory h
     \<lparr>resyncsPerIteration := (resyncsPerIteration (hs_factory h))(n \<mapsto> filter (\<lambda>k. k \<noteq> pwr_key pr) l),
      resyncsPerProxy := (resyncsPerProxy (hs_factory h))(pwr_key pr := None)\<rparr>"
    by (rule statusSyncerFactory.equality) (auto simp: take_due_fields d l k option.map_ident)
  have "add_due (hs_factory h) [pr] (hs_proxiesToReport h) = (hs_proxiesToReport h)
     (n \<mapsto> map_get [] (hs_proxiesToReport h) n @ [pr])"
    by (auto simp: add_due_def d)
  then show ?thesis using False assms l by (simp add: handleReport_def t Let_def)
qed

lemma take_due_append:
  assumes "pwr_key pr \<notin> pwr_key ` set prs"
  shows "take_due (take_due f [pr]) prs = take_due f (pr # prs)"
    and "add_due (take_due f [pr]) prs (add_due f [pr] m) = add_due f (pr # prs) m"
proof -
  have d: "due (take_due f [pr]) n prs = due f n prs" for n
    by (rule due_other [OF _ _ assms]) (auto simp: take_due_fields due_keys_def due_Cons split: if_splits)
  have k: "due_keys (take_due f [pr]) prs = due_keys f prs" by (simp add: due_keys_def d)
  have c: "due f n (pr # prs) = due f n [pr] @ due f n prs" for n by (simp add: due_Cons)
  have ck: "due_keys f (pr # prs) = due_keys f [pr] \<union> due_keys f prs"
    unfolding due_keys_def c by auto
  show "take_due (take_due f [pr]) prs = take_due f (pr # prs)"
    by (rule statusSyncerFactory.equality)
      (auto simp: take_due_fields d c k ck option.map_comp comp_def intro!: ext map_option_cong filter_cong)
  show "add_due (take_due f [pr]) prs (add_due f [pr] m) = add_due f (pr # prs) m"
    by (auto simp: add_due_def d c fun_eq_iff map_get_def)
qed

text \<open>Every report of the batch is annotated, and no proxy has two reports.\<close>

definition batch_ok :: "'r proxy_with_reports list \<Rightarrow> bool" where
  "batch_ok prs \<longleftrightarrow> distinct (map pwr_key prs) \<and> (\<forall>pr \<in> set prs. syncIdOf (pwr_Proxy pr) \<noteq> None)"

lemma foldl_handleReport:
  assumes "batch_ok prs"
  shows "hs_factory (foldl handleReport h prs) = take_due (hs_factory h) prs \<and>
    hs_proxiesToReport (foldl handleReport h prs) = add_due (hs_factory h) prs (hs_proxiesToReport h)"
  using assms
proof (induction prs arbitrary: h)
  case Nil
  show ?case by (simp add: take_due_none)
next
  case (Cons pr prs)
  then obtain n where n: "syncIdOf (pwr_Proxy pr) = Some n" by (auto simp: batch_ok_def)
  from Cons.prems have "batch_ok prs" "pwr_key pr \<notin> pwr_key ` set prs" by (auto simp: batch_ok_def)
  then show ?case
    using Cons.IH [of "handleReport h pr"] take_due_append [of pr prs "hs_factory h"]
    by (simp add: handleReport_step [OF n])
qed

text \<open>Reports are taken only for syncs that have queued proxies.\<close>

definition reports_known :: "('sel, 'r, 'x) handle_state \<Rightarrow> bool" where
  "reports_known h \<longleftrightarrow> dom (hs_proxiesToReport h) \<subseteq> dom (resyncsPerIteration (hs_factory h)) \<and>
     finite (dom (hs_proxiesToReport h))"

lemma handleReport_known:
  assumes "reports_known h"
  shows "reports_known (handleReport h pr) \<and>
    registryPerSync (hs_factory (handleReport h pr)) = registryPerSync (hs_factory h) \<and>
    dom (resyncsPerIteration (hs_factory (handleReport h pr))) = dom (resyncsPerIteration (hs_factory h))"
  using assms by (auto simp: handleReport_def reports_known_def Let_def split: option.split)

lemma foldl_handleReport_known:
  assumes "reports_known h"
  shows "reports_known (foldl handleReport h prs) \<and>
    registryPerSync (hs_factory (foldl handleReport h prs)) = registryPerSync (hs_factory h) \<and>
    dom (resyncsPerIteration (hs_factory (foldl handleReport h prs))) = dom (resyncsPerIteration (hs_factory h))"
  using assms
proof (induction prs arbitrary: h)
  case Nil
  then show ?case by simp
next
  case (Cons pr prs)
  then show ?case using handleReport_known [OF Cons.prems, of pr] by auto
qed

lemma handle_start_known [simp]: "reports_known (handle_start f)" "hs_factory (handle_start f) = f"
  "hs_proxiesToReport (handle_start f) = Map.empty"
  by (simp_all add: reports_known_def handle_start_def)

text \<open>The plugin calls of a batch: the status plugins of the registry of each sync, on its reports.\<close>

definition run_status_plugins ::
  "(int \<rightharpoonup> ('sel, 'r, 'x) plugin_registry) \<Rightarrow> (int \<rightharpoonup> 'r proxy_with_reports list) \<Rightarrow> 'x \<Rightarrow> int \<Rightarrow> 'x" where
  "run_status_plugins regs m x n =
     (case regs n of None \<Rightarrow> x | Some reg \<Rightarrow> applyStatusPlugins reg (map_get [] m n) x)"

lemma foldl_applyReports:
  assumes "resyncsPerIteration f \<noteq> Map.empty"
  shows "foldl (applyReports m) (f, x) ns = (f, foldl (run_status_plugins (registryPerSync f) m) x ns)"
  using assms by (induction ns arbitrary: x) (auto simp: applyReports_def run_status_plugins_def Let_def)

lemma HandleProxyReports_eq:
  assumes "visits_all ord"
    and "h = foldl handleReport (handle_start f)
      (filterProxiesByControllerName prs)"
  shows "HandleProxyReports ord prs (f, x) =
    (hs_factory h, foldl (run_status_plugins (registryPerSync f) (hs_proxiesToReport h)) x (ord (hs_proxiesToReport h)))"
proof -
  let ?m = "hs_proxiesToReport h"
  have h: "reports_known h" "registryPerSync (hs_factory h) = registryPerSync f"
    using foldl_handleReport_known [of "handle_start f"
        "filterProxiesByControllerName prs"] assms(2) by simp_all
  have run: "HandleProxyReports ord prs (f, x) = foldl (applyReports ?m) (hs_factory h, x) (ord ?m)"
    by (simp add: HandleProxyReports_def assms(2) Let_def)
  show ?thesis
  proof (cases "ord ?m = []")
    case True
    then show ?thesis by (simp add: run)
  next
    case False
    then have "dom ?m \<noteq> {}" using assms(1) h(1) by (auto simp: visits_all_def iter_order_def reports_known_def)
    then have "resyncsPerIteration (hs_factory h) \<noteq> Map.empty" using h(1) by (auto simp: reports_known_def)
    then show ?thesis by (simp add: run foldl_applyReports h(2))
  qed
qed

text \<open>What a batch of reports does. When the proxies of the batch are distinct and annotated, the
  status plugins run exactly on the due reports: the reports of proxies of this controller whose sync
  has queued proxies, unless a newer sync of the proxy is pending. They run once per sync, with the
  registry of that sync and all reports due for it, and the due proxies are no longer pending.\<close>

theorem HandleProxyReports_correct:
  fixes ord :: "(int \<rightharpoonup> 'r proxy_with_reports list) \<Rightarrow> int list"
  assumes "visits_all ord" and "batch_ok (filterProxiesByControllerName prs)"
  shows "\<exists>ns. HandleProxyReports ord prs (f, x) =
      (take_due f (filterProxiesByControllerName prs),
       foldl (\<lambda>x n. case registryPerSync f n of None \<Rightarrow> x
         | Some reg \<Rightarrow> applyStatusPlugins reg (due f n (filterProxiesByControllerName prs)) x) x ns) \<and>
    distinct ns \<and> set ns = {n. due f n (filterProxiesByControllerName prs) \<noteq> []}"
proof -
  let ?prs = "filterProxiesByControllerName prs"
  let ?h = "foldl handleReport (handle_start f) ?prs"
  have known: "reports_known ?h"
    using foldl_handleReport_known [of "handle_start f" ?prs]
    by simp
  have h: "hs_factory ?h = take_due f ?prs" "hs_proxiesToReport ?h = add_due f ?prs Map.empty"
    using foldl_handleReport [OF assms(2), of "handle_start f"] by simp_all
  have "iter_order (add_due f ?prs Map.empty) (ord (add_due f ?prs Map.empty))"
    using assms(1) known h(2) by (simp add: visits_all_def reports_known_def)
  then have ns: "distinct (ord (add_due f ?prs Map.empty))" "set (ord (add_due f ?prs Map.empty)) = {n. due f n ?prs \<noteq> []}"
    by (auto simp: iter_order_def add_due_def dom_def)
  have step: "run_status_plugins (registryPerSync f) (add_due f ?prs Map.empty) x n =
      (case registryPerSync f n of None \<Rightarrow> x | Some reg \<Rightarrow> applyStatusPlugins reg (due f n ?prs) x)" for x n
    by (simp add: run_status_plugins_def add_due_def map_get_def split: option.split)
  show ?thesis
    using HandleProxyReports_eq [OF assms(1) refl, of prs f x] ns
    by (intro exI [of _ "ord (add_due f ?prs Map.empty)"]) (simp add: h step [abs_def])
qed

text \<open>The registries are never released: whatever reports arrive, the registry of every sync and
  the entry of every sync in the map of iterations stay, because the check before the deletion asks
  for an empty map of iterations while a report was just taken for an iteration in that map.\<close>

theorem HandleProxyReports_keeps_registries:
  assumes "visits_all ord"
  shows "registryPerSync (fst (HandleProxyReports ord prs (f, x))) = registryPerSync f \<and>
    dom (resyncsPerIteration (fst (HandleProxyReports ord prs (f, x)))) = dom (resyncsPerIteration f)"
  using HandleProxyReports_eq [OF assms refl, of prs f x]
    foldl_handleReport_known [of "handle_start f" "filterProxiesByControllerName prs"]
  by simp

section \<open>The newest sync of a proxy\<close>

lemma foldl_queueProxy:
  "foldl (queueProxy n) f ps = f\<lparr>
     resyncsPerProxy := (\<lambda>k. if k \<in> getProxyNameNamespace ` set ps then Some n else resyncsPerProxy f k),
     resyncsPerIteration := (\<lambda>m. if m = n \<and> ps \<noteq> []
       then Some (map_get [] (resyncsPerIteration f) n @ map getProxyNameNamespace ps) else resyncsPerIteration f m)\<rparr>"
proof (induction ps arbitrary: f)
  case Nil
  show ?case by (simp add: fun_eq_iff)
next
  case (Cons p ps)
  show ?case
    unfolding foldl_Cons Cons.IH
    by (rule statusSyncerFactory.equality) (auto simp: queueProxy_def Let_def map_get_def fun_eq_iff)
qed

lemma Queue_fields:
  "registryPerSync (QueueStatusForProxies ps reg n f) = (registryPerSync f)(n \<mapsto> reg)"
  "resyncsPerProxy (QueueStatusForProxies ps reg n f) k =
     (if k \<in> getProxyNameNamespace ` set ps then Some n else resyncsPerProxy f k)"
  "dom (resyncsPerIteration (QueueStatusForProxies ps reg n f)) =
     dom (resyncsPerIteration f) \<union> (if ps = [] then {} else {n})"
  by (auto simp: QueueStatusForProxies_def foldl_queueProxy Let_def dom_def)

text \<open>A sync of a proxy is pending: it is the newest that was queued for the proxy, and its report has
  not come back.\<close>

definition pending :: "namespaced_name \<Rightarrow> int \<Rightarrow> ('sel, 'r, 'x) plugin_registry \<Rightarrow> ('sel, 'r, 'x) statusSyncerFactory \<Rightarrow> bool" where
  "pending k n reg f \<longleftrightarrow> resyncsPerProxy f k = Some n \<and> n \<in> dom (resyncsPerIteration f) \<and> registryPerSync f n = Some reg"

text \<open>An event that replaces or answers a sync of a proxy: the proxy is queued again, or a report for
  it arrives that is not one of an older sync.\<close>

fun answers :: "namespaced_name \<Rightarrow> int \<Rightarrow> ('sel, 'r, 'x) status_event \<Rightarrow> bool" where
  "answers k n (Queue m ps reg) \<longleftrightarrow> k \<in> getProxyNameNamespace ` set ps"
| "answers k n (Handle prs) \<longleftrightarrow> (\<exists>pr \<in> set prs. pwr_key pr = k \<and> \<not> (\<exists>m < n. syncIdOf (pwr_Proxy pr) = Some m))"

lemma handleReport_pending:
  assumes "pending k n reg (hs_factory h)"
    and "pwr_key pr = k \<longrightarrow> (\<exists>m < n. syncIdOf (pwr_Proxy pr) = Some m)"
  shows "pending k n reg (hs_factory (handleReport h pr))"
  using assms by (auto simp: pending_def handleReport_def map_get_def Let_def split: option.split)

lemma HandleProxyReports_pending:
  fixes f :: "('sel, 'r, 'x) statusSyncerFactory"
  assumes "visits_all ord" "pending k n reg f" "\<not> answers k n (Handle prs :: ('sel, 'r, 'x) status_event)"
  shows "pending k n reg (fst (HandleProxyReports ord prs (f, x)))"
proof -
  let ?prs = "filterProxiesByControllerName prs"
  have "pending k n reg (hs_factory (foldl handleReport (handle_start f) ?prs))"
  proof (rule foldl_invariant [where P = "\<lambda>h. pending k n reg (hs_factory h)"])
    fix h :: "('sel, 'r, 'x) handle_state" and pr
    assume "pr \<in> set ?prs" "pending k n reg (hs_factory h)"
    then show "pending k n reg (hs_factory (handleReport h pr))"
      using assms(3) by (intro handleReport_pending) (auto simp: filterProxiesByControllerName_def)
  qed (simp add: assms(2))
  then show ?thesis using HandleProxyReports_eq [OF assms(1) refl, of prs f x] by simp
qed

lemma status_step_pending:
  assumes "visits_all ord" "status_step ord s e s'" "pending k n reg (ss_factory s)" "n \<le> ss_count s"
    "\<not> answers k n e"
  shows "pending k n reg (ss_factory s') \<and> n \<le> ss_count s'"
  using assms(2)
proof cases
  case (queue m ps reg')
  then show ?thesis using assms by (auto simp: pending_def Queue_fields)
next
  case (handle prs f x)
  have "pending k n reg (fst (HandleProxyReports ord prs (ss_factory s, ss_world s)))"
    by (rule HandleProxyReports_pending [OF assms(1,3)]) (use handle assms(5) in simp)
  then show ?thesis using handle assms by simp
qed

lemma run_pending:
  assumes "visits_all ord" "run (status_step ord) s tr s'" "pending k n reg (ss_factory s)" "n \<le> ss_count s"
    "\<forall>e \<in> set tr. \<not> answers k n e"
  shows "pending k n reg (ss_factory s') \<and> n \<le> ss_count s'"
  using assms(2,5)
proof (induction rule: run.induct)
  case run_nil
  then show ?case using assms by simp
next
  case (run_snoc tr s' l s'')
  then show ?case using status_step_pending [OF assms(1) run_snoc(2), of k n reg] by simp
qed

lemma Queue_pending:
  assumes "status_step ord s (Queue n ps reg) s'" "k \<in> getProxyNameNamespace ` set ps"
  shows "pending k n reg (ss_factory s') \<and> n \<le> ss_count s'"
  using assms by (auto simp: status_step_simps pending_def Queue_fields)

lemma distinct_singleton: "distinct xs \<Longrightarrow> set xs = {a} \<Longrightarrow> xs = [a]"
  by (cases xs) (auto simp: subset_singleton_iff dest: equalityD1)

text \<open>A single report of a pending proxy.\<close>

definition controlled :: "proxy \<Rightarrow> bool" where
  "controlled p \<longleftrightarrow> map_get [] (pmd_Labels (px_Metadata p)) ProxyTypeKey = GatewayApiProxyValue"

lemma HandleProxyReports_single:
  assumes "visits_all ord" "controlled (pwr_Proxy pr)" "syncIdOf (pwr_Proxy pr) = Some m" "pending (pwr_key pr) n reg f"
  shows "m < n \<Longrightarrow> HandleProxyReports ord [pr] (f, x) = (f, x)"
    and "m = n \<Longrightarrow> HandleProxyReports ord [pr] (f, x) = (take_due f [pr], applyStatusPlugins reg [pr] x)"
proof -
  have flt: "filterProxiesByControllerName [pr] = [pr]"
    using assms(2) by (simp add: filterProxiesByControllerName_def controlled_def)
  have H: "HandleProxyReports ord [pr] (f, x) = (take_due f [pr],
      foldl (run_status_plugins (registryPerSync f) (add_due f [pr] Map.empty)) x (ord (add_due f [pr] Map.empty)))"
    using HandleProxyReports_eq [OF assms(1) refl, of "[pr]" f x] by (simp add: flt handleReport_step [OF assms(3)])
  have ord: "iter_order m (ord m)" if "finite (dom m)" for m using assms(1) that by (simp add: visits_all_def)
  { assume "m < n"
    then have d: "due f i [pr] = []" for i using assms(3,4) by (auto simp: due_Cons pending_def map_get_def)
    have "ord Map.empty = []" using ord [of Map.empty] by (simp add: iter_order_def)
    then show "HandleProxyReports ord [pr] (f, x) = (f, x)" by (simp add: H take_due_none [OF d]) }
  { assume "m = n"
    then have d: "due f i [pr] = (if i = n then [pr] else [])" for i
      using assms(3,4) by (auto simp: due_Cons pending_def map_get_def)
    then have a: "add_due f [pr] Map.empty = [n \<mapsto> [pr]]" by (auto simp: add_due_def)
    have "iter_order [n \<mapsto> [pr]] (ord [n \<mapsto> [pr]])" by (rule ord) simp
    then have "ord [n \<mapsto> [pr]] = [n]" by (simp add: iter_order_def distinct_singleton)
    then show "HandleProxyReports ord [pr] (f, x) = (take_due f [pr], applyStatusPlugins reg [pr] x)"
      using assms(4) by (simp add: H a run_status_plugins_def pending_def) }
qed

text \<open>C21. The newest sync of a proxy is the one reported. Take any run in which a proxy is queued by the
  sync \<open>n\<close>, and in which afterwards other syncs and reports happen but the proxy is neither queued
  again nor reported by this or a later sync. Then a report of an older sync of the proxy changes
  nothing, and the report of the sync \<open>n\<close> runs the status plugins of the registry that made the
  proxy, on this report.\<close>

theorem status_newest_sync:
  fixes ord :: "(int \<rightharpoonup> 'r proxy_with_reports list) \<Rightarrow> int list"
  assumes "visits_all ord"
    and "run (status_step ord) s0 (tr1 @ [Queue n ps reg] @ tr2) s"
    and "pwr_key pr \<in> getProxyNameNamespace ` set ps" and "\<forall>e \<in> set tr2. \<not> answers (pwr_key pr) n e"
    and "controlled (pwr_Proxy pr)" and "syncIdOf (pwr_Proxy pr) = Some m" and "m \<le> n"
    and "status_step ord s (Handle [pr]) s'"
  shows "if m < n then s' = s else ss_world s' = applyStatusPlugins reg [pr] (ss_world s)"
proof -
  obtain s1 s2 where run: "status_step ord s1 (Queue n ps reg) s2" "run (status_step ord) s2 tr2 s"
    using assms(2) by (auto elim!: run_appendE run_ConsE)
  have p: "pending (pwr_key pr) n reg (ss_factory s)"
    using run_pending [OF assms(1) run(2) _ _ assms(4), of reg] Queue_pending [OF run(1) assms(3)] by blast
  show ?thesis
    using HandleProxyReports_single [OF assms(1,5,6) p, of "ss_world s"] assms(7,8) by (auto simp: status_step_simps)
qed

end
