(* ===== verification/PolicyStatus.thy ===== *)
theory PolicyStatus
  imports PolicyAttachment StatusSyncer
begin

text \<open>
  The statuses of \<open>RouteOption\<close> and \<open>VirtualHostOption\<close> resources: the part of the status plugins that
  \<open>routeoptions/route_options_plugin.go\<close> and \<open>virtualhostoptions/virtualhost_options_plugin.go\<close> share.

  The reports of the Gloo translator are records of the parts that are read. A map of reports is visited
  in the order \<open>visit\<close>. The status reporter and the maps of resource reports are from a library; they are the record
  \<open>status_lib\<close>, and what is handed to the reporter is a log.
\<close>

section \<open>Reports of the Gloo translator\<close>

record report_error =
  rpe_Reason :: string
  rpe_Metadata :: "source_ref list option"

record virtual_host_report =
  vhr_Errors :: "report_error list"
  vhr_RouteReports :: "report_error list list"

text \<open>The HTTP listener reports of a report on an aggregate listener; a report on another listener has
  none.\<close>

record listener_report =
  lr_HttpListenerReports :: "string \<rightharpoonup> virtual_host_report list"

record 'rep proxy_reports =
  prp_Report :: 'rep
  prp_ListenerReports :: "listener_report list"

type_synonym visit_reports = "(string \<rightharpoonup> virtual_host_report list) \<Rightarrow> string list"

definition getAllVirtualHostReports :: "visit_reports \<Rightarrow> listener_report list \<Rightarrow> virtual_host_report list" where
  "getAllVirtualHostReports visit listenerReports =
     foldl (\<lambda>reports lr. foldl (\<lambda>reports k. reports @ map_get [] (lr_HttpListenerReports lr) k)
       reports (visit (lr_HttpListenerReports lr))) [] listenerReports"

definition getAllRouteReports :: "visit_reports \<Rightarrow> listener_report list \<Rightarrow> report_error list list" where
  "getAllRouteReports visit listenerReports =
     foldl (\<lambda>reports lr. foldl (\<lambda>reports k. foldl (\<lambda>reports vhr. reports @ vhr_RouteReports vhr)
         reports (map_get [] (lr_HttpListenerReports lr) k))
       reports (visit (lr_HttpListenerReports lr))) [] listenerReports"

definition src_key :: "source_ref \<Rightarrow> namespaced_name" where
  "src_key src = NamespacedName (rref_Namespace (src_Ref src)) (rref_Name (src_Ref src))"

text \<open>The first source of the kind.\<close>

definition extractSourceKeys :: "string \<Rightarrow> report_error \<Rightarrow> namespaced_name option" where
  "extractSourceKeys kind err =
     (case rpe_Metadata err of
        None \<Rightarrow> None
      | Some sources \<Rightarrow> map_option src_key (find (\<lambda>src. src_Kind src = kind) sources))"

definition addError :: "string \<Rightarrow> (namespaced_name \<rightharpoonup> report_error list) \<Rightarrow> report_error \<Rightarrow> (namespaced_name \<rightharpoonup> report_error list)" where
  "addError kind m err =
     (case extractSourceKeys kind err of
        None \<Rightarrow> m
      | Some key \<Rightarrow> m(key \<mapsto> map_get [] m key @ [err]))"

definition extractRouteOptionSourceKeys :: "report_error \<Rightarrow> namespaced_name option" where
  "extractRouteOptionSourceKeys = extractSourceKeys ''RouteOption''"

definition extractVirtualHostOptionSourceKeys :: "report_error \<Rightarrow> namespaced_name option" where
  "extractVirtualHostOptionSourceKeys = extractSourceKeys ''VirtualHostOption''"

definition extractRouteErrors :: "visit_reports \<Rightarrow> listener_report list \<Rightarrow> (namespaced_name \<rightharpoonup> report_error list)" where
  "extractRouteErrors visit listenerReports =
     foldl (foldl (addError ''RouteOption'')) Map.empty (getAllRouteReports visit listenerReports)"

definition extractVirtualHostErrors :: "visit_reports \<Rightarrow> listener_report list \<Rightarrow> (namespaced_name \<rightharpoonup> report_error list)" where
  "extractVirtualHostErrors visit listenerReports =
     foldl (\<lambda>m vhr. foldl (addError ''VirtualHostOption'') m (vhr_Errors vhr)) Map.empty (getAllVirtualHostReports visit listenerReports)"

section \<open>The status caches\<close>

record 'st legacy_status =
  ls_subresourceStatus :: "string \<rightharpoonup> 'st"
  ls_errors :: "report_error list"

record 'st classic_status = "'st legacy_status" +
  cs_warnings :: "string list"

text \<open>The library: the status of a proxy from its report, reading a resource (the object is nil when it
  cannot be read), and the reports on resources.\<close>

record ('rep, 'st, 'obj, 'rr) status_lib =
  sl_StatusFromReport :: "'rep \<Rightarrow> 'st"
  sl_Read :: "namespaced_name \<Rightarrow> 'obj"
  sl_NewReports :: 'rr
  sl_Accept :: "'obj \<Rightarrow> 'rr \<Rightarrow> 'rr"
  sl_AddError :: "'obj \<Rightarrow> string \<Rightarrow> 'rr \<Rightarrow> 'rr"
  sl_AddWarnings :: "'obj \<Rightarrow> string list \<Rightarrow> 'rr \<Rightarrow> 'rr"
  sl_WriteReports :: "'rr \<Rightarrow> (string \<rightharpoonup> 'st) \<Rightarrow> string option"

text \<open>\<open>xds.SnapshotCacheKey\<close>\<close>

definition OwnerNamespaceNameID :: "string \<Rightarrow> string \<Rightarrow> string \<Rightarrow> string" where
  "OwnerNamespaceNameID owner namespace name = owner @ ''~'' @ namespace @ ''~'' @ name"

definition SnapshotCacheKey :: "proxy \<Rightarrow> string" where
  "SnapshotCacheKey px =
     (let meta = px_Metadata px;
          owner = map_get [] (pmd_Labels meta) ProxyTypeKey
      in if owner = GatewayApiProxyValue
         then let namespaceLabel = map_get [] (pmd_Labels meta) GatewayNamespaceKey
              in OwnerNamespaceNameID owner (if namespaceLabel \<noteq> [] then namespaceLabel else pmd_Namespace meta) (pmd_Name meta)
         else pmd_Namespace meta @ ''~'' @ pmd_Name meta)"

text \<open>The errors of one proxy go to the cache. An entry that is missing has a nil map, and writing to it
  panics; \<open>trap\<close> is the panic.\<close>

definition recordErrors ::
  "trap \<Rightarrow> string \<Rightarrow> 'st \<Rightarrow> (namespaced_name \<rightharpoonup> report_error list) \<Rightarrow> namespaced_name \<Rightarrow>
   (namespaced_name \<rightharpoonup> ('st, 'z) legacy_status_scheme) \<Rightarrow> (namespaced_name \<rightharpoonup> ('st, 'z) legacy_status_scheme) outcome" where
  "recordErrors trap proxyKey proxyStatus errs key cache =
     (case cache key of
        None \<Rightarrow> Inl trap
      | Some status \<Rightarrow> Inr (cache(key \<mapsto> status\<lparr>
          ls_subresourceStatus := (ls_subresourceStatus status)(proxyKey \<mapsto> proxyStatus),
          ls_errors := ls_errors status @ map_get [] errs key\<rparr>)))"

definition recordProxy ::
  "trap \<Rightarrow> ('rep, 'st, 'obj, 'rr) status_lib \<Rightarrow> (listener_report list \<Rightarrow> (namespaced_name \<rightharpoonup> report_error list)) \<Rightarrow>
   ((namespaced_name \<rightharpoonup> report_error list) \<Rightarrow> namespaced_name list) \<Rightarrow> 'rep proxy_reports proxy_with_reports \<Rightarrow>
   (namespaced_name \<rightharpoonup> ('st, 'z) legacy_status_scheme) \<Rightarrow> (namespaced_name \<rightharpoonup> ('st, 'z) legacy_status_scheme) outcome" where
  "recordProxy trap lib extract ord pwr cache =
     (let proxyStatus = sl_StatusFromReport lib (prp_Report (pwr_Reports pwr));
          errs = extract (prp_ListenerReports (pwr_Reports pwr))
      in fold_out (recordErrors trap (SnapshotCacheKey (pwr_Proxy pwr)) proxyStatus errs) (ord errs) cache)"

text \<open>The loop that writes the statuses: one map of reports over all resources, written after each of
  them with the statuses of that resource. \<open>add\<close> adds the errors and warnings of an entry.\<close>

fun writeStatuses ::
  "('rep, 'st, 'obj, 'rr) status_lib \<Rightarrow> (('st, 'z) legacy_status_scheme \<Rightarrow> 'obj \<Rightarrow> 'rr \<Rightarrow> 'rr) \<Rightarrow> (namespaced_name \<rightharpoonup> ('st, 'z) legacy_status_scheme) \<Rightarrow>
   namespaced_name list \<Rightarrow> 'rr \<Rightarrow> ('rr \<times> (string \<rightharpoonup> 'st)) list \<Rightarrow> ('rr \<times> (string \<rightharpoonup> 'st)) list \<times> string option" where
  "writeStatuses lib add cache [] report writes = (writes, None)"
| "writeStatuses lib add cache (key # keys) report writes =
     (case cache key of
        None \<Rightarrow> writeStatuses lib add cache keys report writes
      | Some status \<Rightarrow>
          let obj = sl_Read lib key;
              report = add status obj (sl_Accept lib obj report);
              writes = writes @ [(report, ls_subresourceStatus status)]
          in case sl_WriteReports lib report (ls_subresourceStatus status) of
               Some err \<Rightarrow> (writes, Some err)
             | None \<Rightarrow> writeStatuses lib add cache keys report writes)"

definition addErrors :: "('rep, 'st, 'obj, 'rr) status_lib \<Rightarrow> ('st, 'z) legacy_status_scheme \<Rightarrow> 'obj \<Rightarrow> 'rr \<Rightarrow> 'rr" where
  "addErrors lib status obj report = foldl (\<lambda>report err. sl_AddError lib obj (rpe_Reason err) report) report (ls_errors status)"

section \<open>Properties\<close>

text \<open>The errors kept for a key are those whose first source of the kind is the key, in their order.\<close>

definition errors_of :: "string \<Rightarrow> report_error list \<Rightarrow> namespaced_name \<Rightarrow> report_error list" where
  "errors_of kind errs key = filter (\<lambda>e. extractSourceKeys kind e = Some key) errs"

lemma foldl_addError:
  "map_get [] (foldl (addError kind) m errs) key = map_get [] m key @ errors_of kind errs key \<and>
   dom (foldl (addError kind) m errs) = dom m \<union> {key. errors_of kind errs key \<noteq> []}"
proof (induction errs arbitrary: m)
  case Nil
  show ?case by (simp add: errors_of_def)
next
  case (Cons e errs)
  then show ?case
    by (cases "extractSourceKeys kind e") (auto simp: errors_of_def addError_def map_get_def split: if_splits)
qed

lemma foldl_concat: "foldl (foldl f) s xss = foldl f s (concat xss)"
  by (induction xss arbitrary: s) simp_all

lemma foldl_map_append: "foldl (\<lambda>acc x. acc @ f x) a xs = a @ concat (map f xs)"
  by (induction xs arbitrary: a) simp_all

lemma concat_concat_map: "concat (concat xss) = concat (map concat xss)"
  by (induction xss) simp_all

text \<open>All virtual host reports, as one list.\<close>

definition vhost_reports :: "visit_reports \<Rightarrow> listener_report list \<Rightarrow> virtual_host_report list" where
  "vhost_reports visit lrs =
     concat (map (\<lambda>lr. concat (map (map_get [] (lr_HttpListenerReports lr)) (visit (lr_HttpListenerReports lr)))) lrs)"

lemma getAllVirtualHostReports_eq: "getAllVirtualHostReports visit lrs = vhost_reports visit lrs"
  by (simp add: getAllVirtualHostReports_def vhost_reports_def foldl_map_append)

lemma getAllRouteReports_eq: "getAllRouteReports visit lrs = concat (map vhr_RouteReports (vhost_reports visit lrs))"
  by (simp add: getAllRouteReports_def vhost_reports_def foldl_map_append map_concat comp_def concat_concat_map)

lemma extractVirtualHostErrors_eq:
  "map_get [] (extractVirtualHostErrors visit lrs) key =
     errors_of ''VirtualHostOption'' (concat (map vhr_Errors (vhost_reports visit lrs))) key"
  "dom (extractVirtualHostErrors visit lrs) =
     {key. errors_of ''VirtualHostOption'' (concat (map vhr_Errors (vhost_reports visit lrs))) key \<noteq> []}"
proof -
  have "extractVirtualHostErrors visit lrs = foldl (addError ''VirtualHostOption'') Map.empty (concat (map vhr_Errors (vhost_reports visit lrs)))"
    by (simp add: extractVirtualHostErrors_def getAllVirtualHostReports_eq foldl_concat [symmetric] foldl_map)
  then show "map_get [] (extractVirtualHostErrors visit lrs) key =
     errors_of ''VirtualHostOption'' (concat (map vhr_Errors (vhost_reports visit lrs))) key"
    "dom (extractVirtualHostErrors visit lrs) =
     {key. errors_of ''VirtualHostOption'' (concat (map vhr_Errors (vhost_reports visit lrs))) key \<noteq> []}"
    using foldl_addError [of "''VirtualHostOption''" Map.empty "concat (map vhr_Errors (vhost_reports visit lrs))"]
    by (simp_all add: map_get_def)
qed

lemma extractRouteErrors_eq:
  "map_get [] (extractRouteErrors visit lrs) key =
     errors_of ''RouteOption'' (concat (concat (map vhr_RouteReports (vhost_reports visit lrs)))) key"
  "dom (extractRouteErrors visit lrs) =
     {key. errors_of ''RouteOption'' (concat (concat (map vhr_RouteReports (vhost_reports visit lrs)))) key \<noteq> []}"
proof -
  have "extractRouteErrors visit lrs = foldl (addError ''RouteOption'') Map.empty (concat (concat (map vhr_RouteReports (vhost_reports visit lrs))))"
    by (simp add: extractRouteErrors_def getAllRouteReports_eq foldl_concat)
  then show "map_get [] (extractRouteErrors visit lrs) key =
     errors_of ''RouteOption'' (concat (concat (map vhr_RouteReports (vhost_reports visit lrs)))) key"
    "dom (extractRouteErrors visit lrs) =
     {key. errors_of ''RouteOption'' (concat (concat (map vhr_RouteReports (vhost_reports visit lrs)))) key \<noteq> []}"
    using foldl_addError [of "''RouteOption''" Map.empty "concat (concat (map vhr_RouteReports (vhost_reports visit lrs)))"]
    by (simp_all add: map_get_def)
qed

text \<open>Recording the errors of a proxy: every entry with errors gets them, and the status of the proxy.\<close>

definition with_errors :: "string \<Rightarrow> 'st \<Rightarrow> report_error list \<Rightarrow> ('st, 'z) legacy_status_scheme \<Rightarrow> ('st, 'z) legacy_status_scheme" where
  "with_errors proxyKey proxyStatus es status = status\<lparr>
     ls_subresourceStatus := (ls_subresourceStatus status)(proxyKey \<mapsto> proxyStatus), ls_errors := ls_errors status @ es\<rparr>"

lemma fold_recordErrors:
  assumes "distinct ks" "set ks \<subseteq> dom cache"
  shows "fold_out (recordErrors t pk ps errs) ks cache =
    Inr (\<lambda>k. if k \<in> set ks then map_option (with_errors pk ps (map_get [] errs k)) (cache k) else cache k)"
  using assms
proof (induction ks arbitrary: cache)
  case Nil
  show ?case by simp
next
  case (Cons k ks)
  then obtain st where st: "cache k = Some st" by auto
  have "set ks \<subseteq> dom (cache(k \<mapsto> with_errors pk ps (map_get [] errs k) st))" using Cons.prems(2) by auto
  from Cons.IH [OF _ this] Cons.prems(1)
  have ih: "fold_out (recordErrors t pk ps errs) ks (cache(k \<mapsto> with_errors pk ps (map_get [] errs k) st)) =
      Inr (\<lambda>j. if j \<in> set ks then map_option (with_errors pk ps (map_get [] errs j))
      ((cache(k \<mapsto> with_errors pk ps (map_get [] errs k) st)) j) else (cache(k \<mapsto> with_errors pk ps (map_get [] errs k) st)) j)"
    by (simp only: distinct.simps)
  have step: "recordErrors t pk ps errs k cache = Inr (cache(k \<mapsto> with_errors pk ps (map_get [] errs k) st))"
    by (simp add: recordErrors_def st with_errors_def)
  have "fold_out (recordErrors t pk ps errs) (k # ks) cache = Inr (\<lambda>j. if j \<in> set ks then map_option (with_errors pk ps (map_get [] errs j))
      ((cache(k \<mapsto> with_errors pk ps (map_get [] errs k) st)) j) else (cache(k \<mapsto> with_errors pk ps (map_get [] errs k) st)) j)"
    by (simp only: fold_out.simps step bind_out_Inr ih)
  also have "\<dots> = Inr (\<lambda>j. if j \<in> set (k # ks) then map_option (with_errors pk ps (map_get [] errs j)) (cache j) else cache j)"
    using Cons.prems(1) st by (auto simp: fun_eq_iff)
  finally show ?case .
qed

lemma recordProxy_returns:
  assumes "visits_all ord" "finite (dom errs)" "extract (prp_ListenerReports (pwr_Reports pwr)) = errs" "dom errs \<subseteq> dom cache"
  shows "recordProxy t lib extract ord pwr cache =
    Inr (\<lambda>k. if k \<in> dom errs then map_option (with_errors (SnapshotCacheKey (pwr_Proxy pwr))
      (sl_StatusFromReport lib (prp_Report (pwr_Reports pwr))) (map_get [] errs k)) (cache k) else cache k)"
proof -
  have "iter_order errs (ord errs)" using assms(1,2) by (simp add: visits_all_def)
  then have "distinct (ord errs)" "set (ord errs) = dom errs" by (simp_all add: iter_order_def)
  then show ?thesis using fold_recordErrors [of "ord errs" cache] assms(4) by (simp add: recordProxy_def assms(3) Let_def)
qed

text \<open>What the status plugins rely on: the errors extracted from reports are those of a list of errors, by
  their first source of a kind.\<close>

lemma finite_errors_of: "finite {key. errors_of kind errs key \<noteq> []}"
proof -
  have "{key. errors_of kind errs key \<noteq> []} \<subseteq> (the \<circ> extractSourceKeys kind) ` set errs"
    by (force simp: errors_of_def filter_empty_conv)
  then show ?thesis by (rule finite_subset) simp
qed

locale extracted_errors =
  fixes kind :: string and errs_in :: "listener_report list \<Rightarrow> report_error list"
    and collect :: "listener_report list \<Rightarrow> (namespaced_name \<rightharpoonup> report_error list)"
  assumes extract_get: "map_get [] (collect lrs) key = errors_of kind (errs_in lrs) key"
    and extract_dom: "dom (collect lrs) = {key. errors_of kind (errs_in lrs) key \<noteq> []}"
begin

lemma record_all:
  assumes "visits_all ord"
    and "\<forall>pwr \<in> set prs. dom (collect (prp_ListenerReports (pwr_Reports pwr))) \<subseteq> dom cache"
  shows "\<exists>cache'. fold_out (recordProxy t lib collect ord) prs cache = Inr cache' \<and> dom cache' = dom cache \<and>
    (\<forall>key st. cache key = Some st \<longrightarrow> (\<exists>st'. cache' key = Some st' \<and>
       ls_errors st' = ls_errors st @ concat (map (\<lambda>pwr. errors_of kind (errs_in (prp_ListenerReports (pwr_Reports pwr))) key) prs)))"
  using assms(2)
proof (induction prs arbitrary: cache)
  case Nil
  then show ?case by simp
next
  case (Cons pwr prs)
  let ?errs = "collect (prp_ListenerReports (pwr_Reports pwr))"
  define c1 where "c1 = (\<lambda>k. if k \<in> dom ?errs then map_option (with_errors (SnapshotCacheKey (pwr_Proxy pwr))
      (sl_StatusFromReport lib (prp_Report (pwr_Reports pwr))) (map_get [] ?errs k)) (cache k) else cache k)"
  have r: "recordProxy t lib collect ord pwr cache = Inr c1"
    unfolding c1_def using Cons.prems by (intro recordProxy_returns [OF assms(1)]) (simp_all add: extract_dom finite_errors_of)
  have d: "dom c1 = dom cache" by (auto simp: c1_def split: if_splits)
  have s1: "\<exists>st1. c1 key = Some st1 \<and> ls_errors st1 = ls_errors st @ errors_of kind (errs_in (prp_ListenerReports (pwr_Reports pwr))) key"
    if "cache key = Some st" for key st
    using that by (auto simp: c1_def with_errors_def extract_get extract_dom)
  have "\<forall>pwr \<in> set prs. dom (collect (prp_ListenerReports (pwr_Reports pwr))) \<subseteq> dom c1"
    unfolding d using Cons.prems by simp
  from Cons.IH [OF this] obtain cache' where c: "fold_out (recordProxy t lib collect ord) prs c1 = Inr cache'"
    "dom cache' = dom c1" "\<forall>key st. c1 key = Some st \<longrightarrow> (\<exists>st'. cache' key = Some st' \<and>
       ls_errors st' = ls_errors st @ concat (map (\<lambda>pwr. errors_of kind (errs_in (prp_ListenerReports (pwr_Reports pwr))) key) prs))"
    by blast
  have "\<exists>st'. cache' key = Some st' \<and> ls_errors st' = ls_errors st @
      concat (map (\<lambda>pwr. errors_of kind (errs_in (prp_ListenerReports (pwr_Reports pwr))) key) (pwr # prs))" if "cache key = Some st" for key st
    using s1 [OF that] c(3) by fastforce
  then show ?case using c(1,2) d by (simp add: r)
qed

end

text \<open>The errors on the routes and on the virtual hosts of a proxy.\<close>

definition route_errors :: "visit_reports \<Rightarrow> listener_report list \<Rightarrow> report_error list" where
  "route_errors visit lrs = concat (concat (map vhr_RouteReports (vhost_reports visit lrs)))"

definition vhost_errors :: "visit_reports \<Rightarrow> listener_report list \<Rightarrow> report_error list" where
  "vhost_errors visit lrs = concat (map vhr_Errors (vhost_reports visit lrs))"

interpretation ro_errors: extracted_errors "''RouteOption''" "route_errors visit" "extractRouteErrors visit" for visit
  by unfold_locales (simp_all add: route_errors_def extractRouteErrors_eq)

interpretation vho_errors: extracted_errors "''VirtualHostOption''" "vhost_errors visit" "extractVirtualHostErrors visit" for visit
  by unfold_locales (simp_all add: vhost_errors_def extractVirtualHostErrors_eq)

text \<open>The reports after a list of resources, and the writes: the write for a resource holds the reports
  of all resources before it too, with the statuses of that resource only.\<close>

definition report_after ::
  "('rep, 'st, 'obj, 'rr) status_lib \<Rightarrow> (('st, 'z) legacy_status_scheme \<Rightarrow> 'obj \<Rightarrow> 'rr \<Rightarrow> 'rr) \<Rightarrow>
   (namespaced_name \<rightharpoonup> ('st, 'z) legacy_status_scheme) \<Rightarrow> namespaced_name list \<Rightarrow> 'rr \<Rightarrow> 'rr" where
  "report_after lib add cache keys report = foldl (\<lambda>report k. add (the (cache k)) (sl_Read lib k) (sl_Accept lib (sl_Read lib k) report)) report keys"

lemma writeStatuses_all:
  assumes "\<And>r st. sl_WriteReports lib r st = None" "set keys \<subseteq> dom cache"
  shows "writeStatuses lib add cache keys report writes =
    (writes @ map (\<lambda>i. (report_after lib add cache (take (Suc i) keys) report, ls_subresourceStatus (the (cache (keys ! i))))) [0..<length keys], None)"
  using assms(2)
proof (induction keys arbitrary: report writes)
  case Nil
  show ?case by simp
next
  case (Cons k keys)
  then obtain st where st: "cache k = Some st" by auto
  then show ?case
    using Cons.IH [of "add st (sl_Read lib k) (sl_Accept lib (sl_Read lib k) report)"] Cons.prems
    by (simp add: assms(1) Let_def report_after_def map_upt_Suc del: upt_Suc)
qed

text \<open>A failed write ends the loop: the resources after it get no status.\<close>

lemma writeStatuses_stops:
  assumes "cache k = Some st" "sl_WriteReports lib (add st (sl_Read lib k) (sl_Accept lib (sl_Read lib k) report)) (ls_subresourceStatus st) = Some err"
  shows "writeStatuses lib add cache (k # keys) report writes =
    (writes @ [(add st (sl_Read lib k) (sl_Accept lib (sl_Read lib k) report), ls_subresourceStatus st)], Some err)"
  using assms by (simp add: Let_def)

end
