(* ===== verification/RouteOptionsPlugin.thy ===== *)
theory RouteOptionsPlugin
  imports PolicyStatus PluginsProps
begin

text \<open>
  The plugin for \<open>RouteOption\<close> resources, \<open>translator/plugins/routeoptions/route_options_plugin.go\<close> and its
  \<open>query/query.go\<close>. The state of the plugin is its status cache. The list of resources by target and the
  combination of errors (\<open>multierror\<close>) are the record \<open>route_options_env\<close>.
\<close>

section \<open>Queries (query/query.go)\<close>

record route_options_env =
  roe_List :: "route_options list_policies"
  roe_Multierror :: "go_error list \<Rightarrow> go_error"

definition routeOptionGK :: group_kind where
  "routeOptionGK = GroupKind ''gateway.solo.io'' ''RouteOption''"

fun as_RouteOption :: "k8s_object \<Rightarrow> route_option option" where
  "as_RouteOption (ObjRouteOption p) = Some p"
| "as_RouteOption _ = None"

definition extensionRefLookup :: "string \<Rightarrow> ref_from" where
  "extensionRefLookup namespace = \<lparr>fr_GroupKind = Inr routeOptionGK, fr_Namespace = namespace\<rparr>"

definition quoted :: "string \<Rightarrow> string" where
  "quoted s = [CHR 0x27] @ s @ [CHR 0x27]"

text \<open>The arguments are in the order of the code, which does not fit the text.\<close>

definition errFilterNotFound :: "string \<Rightarrow> local_object_reference \<Rightarrow> go_error" where
  "errFilterNotFound namespace ref = ErrMsg (''extensionRef '' @ quoted (lor_Group ref) @ '' of type '' @ lor_Kind ref @ ''.'' @ lor_Name ref @
     '' in namespace '' @ quoted namespace @ '' not found'')"

definition lookupFilter ::
  "'sel k8s_client \<Rightarrow> string \<Rightarrow> http_route_filter \<Rightarrow> route_option list \<times> go_error list \<Rightarrow> (route_option list \<times> go_error list) outcome" where
  "lookupFilter kc namespace f = (\<lambda>(out, errs).
     bind_out (GetExtensionRefObjFrom ''*v1.RouteOption'' as_RouteOption kc (extensionRefLookup namespace) (hrf_ExtensionRef f)) (\<lambda>res.
       case res of
         Inl err \<Rightarrow>
           if IsNotFound err
           then bind_out (deref (hrf_ExtensionRef f)) (\<lambda>ref. Inr (out, errs @ [errFilterNotFound namespace ref]))
           else Inr (out, errs @ [err])
       | Inr routeOption \<Rightarrow> Inr (out @ [routeOption], errs)))"

definition lookupFilterAttachments ::
  "'sel k8s_client \<Rightarrow> route_options_env \<Rightarrow> namespaced_name \<Rightarrow> 'p http_route_rule \<Rightarrow> (go_error + route_option list) outcome" where
  "lookupFilterAttachments kc env route rule =
     bind_out (FindExtensionRefFilters rule routeOptionGK) (\<lambda>filters.
       bind_out (fold_out (lookupFilter kc (nn_Namespace route)) filters ([], [])) (\<lambda>(out, errs).
         Inr (if errs = [] then Inr out else Inl (roe_Multierror env errs))))"

definition routeOptionToSourceRef :: "route_option \<Rightarrow> source_ref" where
  "routeOptionToSourceRef opt = \<lparr>src_Kind = pol_Kind opt,
     src_Ref = \<lparr>rref_Name = pol_Name opt, rref_Namespace = pol_Namespace opt\<rparr>, src_Generation = pol_Generation opt\<rparr>"

text \<open>The merged resource is its options: nothing else of it is set, and it is nil when it has none.\<close>

definition GetRouteOptionForRouteRule ::
  "'sel k8s_client \<Rightarrow> route_options_env \<Rightarrow> namespaced_name \<Rightarrow> 'p http_route_rule \<Rightarrow>
   (go_error + (route_options option \<times> source_ref list)) outcome" where
  "GetRouteOptionForRouteRule kc env route rule =
     bind_out (lookupFilterAttachments kc env route rule) (\<lambda>res.
       case res of
         Inl err \<Rightarrow> Inr (Inl err)
       | Inr filterAttachments \<Rightarrow>
           let (merged, used, _) = foldl (mergePolicy ShallowMergeRouteOptions) (None, [], []) filterAttachments
           in case roe_List env (nn_String route) (nn_Namespace route) of
                Inl err \<Rightarrow> Inr (Inl err)
              | Inr items \<Rightarrow>
                  if items = [] then Inr (Inr (merged, map routeOptionToSourceRef used))
                  else
                    let (merged, used, _) = foldl (mergePolicy ShallowMergeRouteOptions) (merged, used, []) (SortByCreationTime items)
                    in Inr (Inr (merged, map routeOptionToSourceRef used)))"

section \<open>The plugin (route_options_plugin.go)\<close>

type_synonym 'st legacy_status_cache = "namespaced_name \<rightharpoonup> 'st legacy_status"

definition newLegacyStatus :: "'st legacy_status" where
  "newLegacyStatus = \<lparr>ls_subresourceStatus = Map.empty, ls_errors = []\<rparr>"

definition trackAcceptedRouteOptions :: "source_ref list \<Rightarrow> 'st legacy_status_cache \<Rightarrow> 'st legacy_status_cache" where
  "trackAcceptedRouteOptions sources cache = foldl (\<lambda>cache source. cache(src_key source \<mapsto> newLegacyStatus)) cache sources"

definition handleAttachment ::
  "'sel k8s_client \<Rightarrow> route_options_env \<Rightarrow> 'sel route_context \<Rightarrow> report_map \<Rightarrow>
   (report_map \<times> (go_error + (route_options option \<times> source_ref list))) outcome" where
  "handleAttachment kc env routeCtx rm =
     bind_out (GetRouteOptionForRouteRule kc env (hr_key (rctx_Route routeCtx)) (rctx_Rule routeCtx)) (\<lambda>res.
       case res of
         Inl err \<Rightarrow>
           Inr (if errors_Is err ErrTypesNotEqual then rm
                else prr_SetCondition (rctx_Reporter routeCtx) (unresolved ''BackendNotFound'' (err_Error err)) rm, Inl err)
       | Inr (attachedOption, sources) \<Rightarrow>
           Inr (rm, Inr (case attachedOption of None \<Rightarrow> (None, []) | Some options \<Rightarrow> (Some options, sources))))"

definition routeoptions :: "'sel k8s_client \<Rightarrow> route_options_env \<Rightarrow> ('sel, 'st legacy_status_cache) route_plugin" where
  "routeoptions kc env routeCtx outputRoute = (\<lambda>(rm, cache).
     bind_out (handleAttachment kc env routeCtx rm) (\<lambda>(rm, res).
       case res of
         Inl err \<Rightarrow> Inr (Some err, outputRoute, rm, cache)
       | Inr (None, _) \<Rightarrow> Inr (None, outputRoute, rm, cache)
       | Inr (Some routeOptions, sources) \<Rightarrow>
           let (merged, usedExistingSources) = ShallowMergeRouteOptions (Some routeOptions) (rt_Options outputRoute);
               outputRoute = AppendSourceToRoute (outputRoute\<lparr>rt_Options := merged\<rparr>) sources usedExistingSources
           in Inr (None, outputRoute, rm, trackAcceptedRouteOptions sources cache)))"

text \<open>\<open>ApplyStatusPlugin\<close>: the orders in which the maps of reports, errors and statuses are visited are arguments.\<close>

definition routeoptions_ApplyStatusPlugin ::
  "('rep, 'st, 'obj, 'rr) status_lib \<Rightarrow> visit_reports \<Rightarrow> ((namespaced_name \<rightharpoonup> report_error list) \<Rightarrow> namespaced_name list) \<Rightarrow>
   ('st legacy_status_cache \<Rightarrow> namespaced_name list) \<Rightarrow> 'rep proxy_reports proxy_with_reports list \<Rightarrow> 'st legacy_status_cache \<Rightarrow>
   ('st legacy_status_cache \<times> ('rr \<times> (string \<rightharpoonup> 'st)) list \<times> string option) outcome" where
  "routeoptions_ApplyStatusPlugin lib visit ord order proxiesWithReports cache =
     bind_out (fold_out (recordProxy NilMapWrite lib (extractRouteErrors visit) ord) proxiesWithReports cache) (\<lambda>cache.
       let (writes, err) = writeStatuses lib (addErrors lib) cache (order cache) (sl_NewReports lib) []
       in Inr (cache, writes, map_option (\<lambda>e. ''error writing status report from RouteOptionPlugin: '' @ e) err))"

section \<open>Filters\<close>

lemma lookupFilter_returns:
  assumes "hrf_ExtensionRef f \<noteq> None"
  shows "\<exists>s'. lookupFilter kc ns f s = Inr s'"
proof -
  obtain ref where ref: "hrf_ExtensionRef f = Some ref" using assms by auto
  obtain out errs where s: "s = (out, errs)" by (cases s)
  show ?thesis by (auto simp: lookupFilter_def s ref GetExtensionRefObjFrom_def split: sum.split)
qed

lemma lookupFilterAttachments_returns:
  assumes "filters_admitted (rule_Filters rule)"
  shows "\<exists>res. lookupFilterAttachments kc env route rule = Inr res"
proof -
  obtain fs where fs: "FindExtensionRefFilters rule routeOptionGK = Inr fs" "\<forall>f \<in> set fs. hrf_ExtensionRef f \<noteq> None"
    using FindExtensionRefFilters_eq [OF assms, of routeOptionGK] assms
    by (auto simp: filters_admitted_def filter_admitted_def list_all_iff)
  have "\<exists>s'. fold_out (lookupFilter kc (nn_Namespace route)) fs s = Inr s' \<and> True" for s
    using fs(2) lookupFilter_returns by (intro fold_out_returns) blast+
  then obtain out errs where "fold_out (lookupFilter kc (nn_Namespace route)) fs ([], []) = Inr (out, errs)" by force
  then show ?thesis using fs(1) by (simp add: lookupFilterAttachments_def)
qed

section \<open>Merged options\<close>

text \<open>The policies of a route rule in the order of their precedence: those its filters name, in the order
  of the filters, then those that target the route, from the oldest to the newest.\<close>

definition rule_policies ::
  "'sel k8s_client \<Rightarrow> route_options_env \<Rightarrow> namespaced_name \<Rightarrow> 'p http_route_rule \<Rightarrow> (go_error + route_option list) outcome" where
  "rule_policies kc env route rule =
     bind_out (lookupFilterAttachments kc env route rule) (\<lambda>res.
       Inr (case res of
              Inl err \<Rightarrow> Inl err
            | Inr fs \<Rightarrow> (case roe_List env (nn_String route) (nn_Namespace route) of
                            Inl err \<Rightarrow> Inl err
                          | Inr items \<Rightarrow> Inr (fs @ SortByCreationTime items))))"

lemma merged_ok_Nil: "rto.merged_ok [] None"
  by (simp add: rto.merged_ok_def)

lemma used_of_append: "rto.used_of os (ps @ qs) = rto.used_of os ps @ rto.used_of (os @ map pol_Options ps) qs"
  by (induction ps arbitrary: os) simp_all

lemma merge_route_policies:
  "foldl (mergePolicy ShallowMergeRouteOptions) (None, [], []) ps =
     (foldl (\<lambda>m p. fst (ShallowMergeRouteOptions m (pol_Options p))) None ps, rto.used_of [] ps, rto.ignored_of [] ps)"
  "rto.merged_ok (map pol_Options ps) (foldl (\<lambda>m p. fst (ShallowMergeRouteOptions m (pol_Options p))) None ps)"
  using rto.merge_policies [OF merged_ok_Nil, of "[]" "[]" ps] fst_foldl_mergePolicy [of ShallowMergeRouteOptions None "[]" "[]" ps] by auto

lemma merge_more_policies:
  "foldl (mergePolicy ShallowMergeRouteOptions) (foldl (\<lambda>m p. fst (ShallowMergeRouteOptions m (pol_Options p))) None ps, rto.used_of [] ps, ign) qs =
     (foldl (\<lambda>m p. fst (ShallowMergeRouteOptions m (pol_Options p))) None (ps @ qs), rto.used_of [] (ps @ qs),
      ign @ rto.ignored_of (map pol_Options ps) qs)"
  using rto.merge_policies [OF merge_route_policies(2), of ps "rto.used_of [] ps" ign qs]
    fst_foldl_mergePolicy [of ShallowMergeRouteOptions "foldl (\<lambda>m p. fst (ShallowMergeRouteOptions m (pol_Options p))) None ps"
      "rto.used_of [] ps" ign qs]
  by (auto simp: used_of_append)

lemma GetRouteOptionForRouteRule_spec:
  "GetRouteOptionForRouteRule kc env route rule =
     bind_out (rule_policies kc env route rule) (\<lambda>res.
       Inr (case res of
              Inl err \<Rightarrow> Inl err
            | Inr ps \<Rightarrow> Inr (foldl (\<lambda>m p. fst (ShallowMergeRouteOptions m (pol_Options p))) None ps,
                            map routeOptionToSourceRef (rto.used_of [] ps))))"
  unfolding GetRouteOptionForRouteRule_def rule_policies_def bind_out_assoc
  by (rule arg_cong [of _ _ "bind_out (lookupFilterAttachments kc env route rule)"])
    (auto simp: fun_eq_iff merge_route_policies(1) merge_more_policies Let_def split: sum.split)

section \<open>What the plugin does\<close>

lemma routeoptions_cases:
  assumes "rule_policies kc env (hr_key (rctx_Route ctx)) (rctx_Rule ctx) = Inr res"
  shows "routeoptions kc env ctx out (rm, cache) =
    (case res of
       Inl err \<Rightarrow> Inr (Some err, out, if errors_Is err ErrTypesNotEqual then rm
          else prr_SetCondition (rctx_Reporter ctx) (unresolved ''BackendNotFound'' (err_Error err)) rm, cache)
     | Inr ps \<Rightarrow>
         (case foldl (\<lambda>m p. fst (ShallowMergeRouteOptions m (pol_Options p))) None ps of
            None \<Rightarrow> Inr (None, out, rm, cache)
          | Some opts \<Rightarrow>
              Inr (None, AppendSourceToRoute (out\<lparr>rt_Options := fst (ShallowMergeRouteOptions (Some opts) (rt_Options out))\<rparr>)
                  (map routeOptionToSourceRef (rto.used_of [] ps)) (snd (ShallowMergeRouteOptions (Some opts) (rt_Options out))),
                rm, trackAcceptedRouteOptions (map routeOptionToSourceRef (rto.used_of [] ps)) cache)))"
  using assms
  by (cases res)
    (simp_all add: routeoptions_def handleAttachment_def GetRouteOptionForRouteRule_spec Let_def case_prod_beta split: option.split)

lemma rule_policies_returns:
  assumes "filters_admitted (rule_Filters rule)"
  shows "\<exists>res. rule_policies kc env route rule = Inr res"
  using lookupFilterAttachments_returns [OF assms, of kc env route] by (auto simp: rule_policies_def)

definition route_sources :: "gloo_route \<Rightarrow> source_ref list" where
  "route_sources r = (case rt_Sources r of None \<Rightarrow> [] | Some ss \<Rightarrow> ss)"

lemma AppendSourceToRoute_fields:
  "rt_Name (AppendSourceToRoute r ss b) = rt_Name r" "rt_Matchers (AppendSourceToRoute r ss b) = rt_Matchers r"
  "rt_Action (AppendSourceToRoute r ss b) = rt_Action r" "rt_Options (AppendSourceToRoute r ss b) = rt_Options r"
  "rt_Sources (AppendSourceToRoute r ss b) = Some ((if b then route_sources r else []) @ ss)"
  by (simp_all add: AppendSourceToRoute_def Let_def route_sources_def)

lemma routeoptions_contract: "plugin_contract filters_admitted (routeoptions kc env)"
proof (rule plugin_contractI)
  fix ctx :: "'a route_context" and r :: gloo_route and s :: "'b legacy_status_cache plugin_state"
  assume "filters_admitted (rule_Filters (rctx_Rule ctx))"
  from rule_policies_returns [OF this, of kc env "hr_key (rctx_Route ctx)"]
  obtain res where "rule_policies kc env (hr_key (rctx_Route ctx)) (rctx_Rule ctx) = Inr res" by blast
  from routeoptions_cases [OF this, of r "fst s" "snd s"] show "\<exists>e r' s'. routeoptions kc env ctx r s = Inr (e, r', s')"
    by (auto split: sum.splits option.splits)
next
  fix ctx :: "'a route_context" and r r' :: gloo_route and s s' :: "'b legacy_status_cache plugin_state" and e
  assume run: "routeoptions kc env ctx r s = Inr (e, r', s')"
  obtain rm cache where s: "s = (rm, cache)" by (cases s)
  obtain res where res: "rule_policies kc env (hr_key (rctx_Route ctx)) (rctx_Rule ctx) = Inr res"
    using run by (cases "rule_policies kc env (hr_key (rctx_Route ctx)) (rctx_Rule ctx)")
      (auto simp: s routeoptions_def handleAttachment_def GetRouteOptionForRouteRule_spec)
  have f: "r' = r \<or> (\<exists>opts ss b. r' = AppendSourceToRoute (r\<lparr>rt_Options := fst (ShallowMergeRouteOptions (Some opts) (rt_Options r))\<rparr>) ss b)"
    using run unfolding s routeoptions_cases [OF res] by (auto split: sum.splits option.splits)
  have o: "fst (ShallowMergeRouteOptions (Some opts) x) \<noteq> None" for opts x
    using rto.merge_get [of _ "Some opts" x] by simp
  show "rt_Matchers r' = rt_Matchers r" using f by (auto simp: AppendSourceToRoute_fields)
  show "rt_Action r' \<noteq> None" if "rt_Action r \<noteq> None" using f that by (auto simp: AppendSourceToRoute_fields)
  show "rt_Options r' \<noteq> None" if "rt_Options r \<noteq> None" using f that o by (auto simp: AppendSourceToRoute_fields)
qed

lemma dom_track: "dom (trackAcceptedRouteOptions ss cache) = dom cache \<union> src_key ` set ss"
  by (induction ss arbitrary: cache) (auto simp: trackAcceptedRouteOptions_def)


text \<open>When the policies of a route cannot be found, the route is left as it is, without the options of any
  policy, and so is the status cache; the error is reported on the route, unless one of the references
  is to a resource of another type.\<close>

theorem routeoptions_error:
  assumes "lookupFilterAttachments kc env (hr_key (rctx_Route ctx)) (rctx_Rule ctx) = Inr (Inl err)"
  shows "routeoptions kc env ctx out (rm, cache) = Inr (Some err, out,
    if errors_Is err ErrTypesNotEqual then rm
    else prr_SetCondition (rctx_Reporter ctx) (unresolved ''BackendNotFound'' (err_Error err)) rm, cache)"
proof -
  have "rule_policies kc env (hr_key (rctx_Route ctx)) (rctx_Rule ctx) = Inr (Inl err)"
    using assms by (simp add: rule_policies_def)
  then show ?thesis by (simp only: routeoptions_cases sum.case)
qed

section \<open>Statuses\<close>

text \<open>The status plugin never panics when the errors name policies that were applied. Every policy in
  the cache gets, besides what it had, exactly the route errors of all proxies whose first source it
  is; and when the writes succeed, there is one write per policy, with the statuses of that policy and
  the reports of it and all policies written before it.\<close>

theorem routeoptions_status:
  assumes orders: "visits_all ord" "visits_all order" and fin: "finite (dom cache)"
    and known: "\<forall>pwr \<in> set prs. dom (extractRouteErrors visit (prp_ListenerReports (pwr_Reports pwr))) \<subseteq> dom cache"
    and writes: "\<forall>r st. sl_WriteReports lib r st = None"
  shows "\<exists>cache' keys. routeoptions_ApplyStatusPlugin lib visit ord order prs cache =
      Inr (cache', map (\<lambda>i. (report_after lib (addErrors lib) cache' (take (Suc i) keys) (sl_NewReports lib),
        ls_subresourceStatus (the (cache' (keys ! i))))) [0..<length keys], None) \<and>
    distinct keys \<and> set keys = dom cache \<and> dom cache' = dom cache \<and>
    (\<forall>key st. cache key = Some st \<longrightarrow> (\<exists>st'. cache' key = Some st' \<and> ls_errors st' = ls_errors st @
       concat (map (\<lambda>pwr. errors_of ''RouteOption'' (route_errors visit (prp_ListenerReports (pwr_Reports pwr))) key) prs)))"
proof -
  obtain cache' where c: "fold_out (recordProxy NilMapWrite lib (extractRouteErrors visit) ord) prs cache = Inr cache'"
    "dom cache' = dom cache" "\<forall>key st. cache key = Some st \<longrightarrow> (\<exists>st'. cache' key = Some st' \<and> ls_errors st' = ls_errors st @
       concat (map (\<lambda>pwr. errors_of ''RouteOption'' (route_errors visit (prp_ListenerReports (pwr_Reports pwr))) key) prs))"
    using ro_errors.record_all [OF orders(1) known] by blast
  have "iter_order cache' (order cache')" using orders(2) fin c(2) by (simp add: visits_all_def)
  then have k: "distinct (order cache')" "set (order cache') = dom cache'" by (simp_all add: iter_order_def)
  have "writeStatuses lib (addErrors lib) cache' (order cache') (sl_NewReports lib) [] =
      (map (\<lambda>i. (report_after lib (addErrors lib) cache' (take (Suc i) (order cache')) (sl_NewReports lib),
        ls_subresourceStatus (the (cache' (order cache' ! i))))) [0..<length (order cache')], None)"
    using writeStatuses_all [OF writes [rule_format], of "order cache'" cache' "addErrors lib" "sl_NewReports lib" "[]"] k(2) by simp
  then show ?thesis
    using c k by (intro exI [of _ cache'] exI [of _ "order cache'"]) (simp add: routeoptions_ApplyStatusPlugin_def)
qed

text \<open>The plugin panics when an error names a policy that is not in the cache.\<close>

lemma routeoptions_status_unknown:
  assumes "ord (extractRouteErrors visit (prp_ListenerReports (pwr_Reports pwr))) = key # keys" "cache key = None"
  shows "routeoptions_ApplyStatusPlugin lib visit ord order (pwr # prs) cache = Inl NilMapWrite"
  using assms by (simp add: routeoptions_ApplyStatusPlugin_def recordProxy_def recordErrors_def)

end
