(* ===== verification/ListenerOptionsPlugins.thy ===== *)
theory ListenerOptionsPlugins
  imports PolicyStatus ListenerTotal Strconv
begin

text \<open>
  The plugins that attach options to listeners: \<open>translator/plugins/virtualhostoptions/virtualhost_options_plugin.go\<close>,
  \<open>httplisteneroptions/httplistener_options_plugin.go\<close> and \<open>listeneroptions/listener_options_plugin.go\<close>, with
  \<open>translator/vhostutils\<close> and \<open>translator/listenerutils\<close>. The listeners of the model are aggregate listeners, which is all that the
  translator makes, so the error for other listeners does not arise.
\<close>

section \<open>Sources (vhostutils, listenerutils)\<close>

definition policySourceRef :: "'o policy \<Rightarrow> source_ref" where
  "policySourceRef source = \<lparr>src_Kind = pol_Kind source,
     src_Ref = \<lparr>rref_Name = pol_Name source, rref_Namespace = pol_Namespace source\<rparr>, src_Generation = pol_Generation source\<rparr>"

definition sources_or_empty :: "source_ref list option \<Rightarrow> source_ref list" where
  "sources_or_empty ss = (case ss of None \<Rightarrow> [] | Some ss \<Rightarrow> ss)"

definition AppendSourceToVirtualHost :: "virtual_host \<Rightarrow> 'o policy \<Rightarrow> virtual_host" where
  "AppendSourceToVirtualHost vh source = vh\<lparr>vh_Sources := Some (sources_or_empty (vh_Sources vh) @ [policySourceRef source])\<rparr>"

definition AppendSourceToListener :: "gloo_listener \<Rightarrow> 'o policy \<Rightarrow> gloo_listener" where
  "AppendSourceToListener listener source =
     listener\<lparr>gl_Sources := Some (sources_or_empty (gl_Sources listener) @ [policySourceRef source])\<rparr>"

section \<open>VirtualHostOption (virtualhost_options_plugin.go)\<close>

type_synonym 'st classic_status_cache = "namespaced_name \<rightharpoonup> 'st classic_status"

definition getOrCreateEntry :: "'st classic_status_cache \<Rightarrow> namespaced_name \<Rightarrow> 'st classic_status_cache \<times> 'st classic_status" where
  "getOrCreateEntry c key =
     (case c key of
        Some cacheEntry \<Rightarrow> (c, cacheEntry)
      | None \<Rightarrow>
          let cacheEntry = \<lparr>ls_subresourceStatus = Map.empty, ls_errors = [], cs_warnings = []\<rparr>
          in (c(key \<mapsto> cacheEntry), cacheEntry))"

definition optionsToStr :: "virtual_host_option list \<Rightarrow> string" where
  "optionsToStr opts = join_strings '', '' (map (\<lambda>opt. nn_String (pol_key opt)) opts)"

definition applyOption ::
  "option_fields option \<Rightarrow> gloo_listener \<times> 'st classic_status_cache \<Rightarrow> virtual_host_option \<Rightarrow> gloo_listener \<times> 'st classic_status_cache" where
  "applyOption merged = (\<lambda>(outListener, cache) opt.
     (AppendSourceToListener
        (outListener\<lparr>gl_VirtualHosts := (\<lambda>n. map_option (\<lambda>v. AppendSourceToVirtualHost (v\<lparr>vh_Options := merged\<rparr>) opt)
            (gl_VirtualHosts outListener n))\<rparr>) opt,
      fst (getOrCreateEntry cache (pol_key opt))))"

definition conflictWarning :: "'sel gateway \<Rightarrow> 'sel listener \<Rightarrow> virtual_host_option list \<Rightarrow> namespaced_name \<Rightarrow> string" where
  "conflictWarning gw l optionsUsed nn =
     ''VirtualHostOption '' @ [CHR 0x27] @ nn_String nn @ [CHR 0x27] @ '' not attached to listener '' @ [CHR 0x27] @ l_Name l @ [CHR 0x27] @
     '' on Gateway '' @ [CHR 0x27] @ gw_Namespace gw @ ''/'' @ gw_Name gw @ [CHR 0x27] @
     '' due to conflict with more specific or older VirtualHostOptions '' @ [CHR 0x27] @ optionsToStr optionsUsed @ [CHR 0x27]"

definition warnIgnored ::
  "(namespaced_name \<Rightarrow> string) \<Rightarrow> 'st classic_status_cache \<Rightarrow> virtual_host_option \<Rightarrow> 'st classic_status_cache" where
  "warnIgnored warning cache opt =
     (let nn = pol_key opt;
          (cache, cacheEntry) = getOrCreateEntry cache nn
      in cache(nn \<mapsto> cacheEntry\<lparr>cs_warnings := cs_warnings cacheEntry @ [warning nn]\<rparr>))"

definition virtualhostoptions :: "option_fields list_policies \<Rightarrow> ('sel, 'st classic_status_cache) listener_plugin" where
  "virtualhostoptions list gw l outListener = (\<lambda>(rm, cache).
     bind_out (GetVirtualHostOptionsForListener list l gw) (\<lambda>res.
       case res of
         Inl err \<Rightarrow> Inr (Some err, outListener, rm, cache)
       | Inr [] \<Rightarrow> Inr (None, outListener, rm, cache)
       | Inr (first # others) \<Rightarrow>
           let (merged, optionsUsed, optionsIgnored) =
                 foldl (mergePolicy ShallowMergeVirtualHostOptions) (pol_Options first, [first], []) others;
               (outListener, cache) = foldl (applyOption merged) (outListener, cache) optionsUsed;
               cache = foldl (warnIgnored (conflictWarning gw l optionsUsed)) cache optionsIgnored
           in Inr (None, outListener, rm, cache)))"

definition addErrorsAndWarnings :: "('rep, 'st, 'obj, 'rr) status_lib \<Rightarrow> 'st classic_status \<Rightarrow> 'obj \<Rightarrow> 'rr \<Rightarrow> 'rr" where
  "addErrorsAndWarnings lib status obj report = sl_AddWarnings lib obj (cs_warnings status) (addErrors lib status obj report)"

definition virtualhostoptions_ApplyStatusPlugin ::
  "('rep, 'st, 'obj, 'rr) status_lib \<Rightarrow> visit_reports \<Rightarrow> ((namespaced_name \<rightharpoonup> report_error list) \<Rightarrow> namespaced_name list) \<Rightarrow>
   ('st classic_status_cache \<Rightarrow> namespaced_name list) \<Rightarrow> 'rep proxy_reports proxy_with_reports list \<Rightarrow> 'st classic_status_cache \<Rightarrow>
   ('st classic_status_cache \<times> ('rr \<times> (string \<rightharpoonup> 'st)) list \<times> string option) outcome" where
  "virtualhostoptions_ApplyStatusPlugin lib visit ord order proxiesWithReports cache =
     bind_out (fold_out (recordProxy NilDeref lib (extractVirtualHostErrors visit) ord) proxiesWithReports cache) (\<lambda>cache.
       let (writes, err) = writeStatuses lib (addErrorsAndWarnings lib) cache (order cache) (sl_NewReports lib) []
       in Inr (cache, writes, map_option (\<lambda>e. ''writing status report from VirtualHostOptionPlugin: '' @ e) err))"

section \<open>HttpListenerOption and ListenerOption\<close>

text \<open>\<open>HashAndStoreHttpOptions\<close>: the hash of the options is an argument; it is printed as a signed number.\<close>

definition HashAndStoreHttpOptions ::
  "(option_fields option \<Rightarrow> 64 word) \<Rightarrow> option_fields option \<Rightarrow> (string \<rightharpoonup> option_fields option) \<Rightarrow> string \<times> (string \<rightharpoonup> option_fields option)" where
  "HashAndStoreHttpOptions hash httpOptions httpOptionsByName =
     (let httpOptionsRef = Itoa (sint (hash httpOptions))
      in (httpOptionsRef, httpOptionsByName(httpOptionsRef \<mapsto> httpOptions)))"

definition httplisteneroptions ::
  "option_fields list_policies \<Rightarrow> (option_fields option \<Rightarrow> 64 word) \<Rightarrow> ('sel, 'x) listener_plugin" where
  "httplisteneroptions list hash gw l outListener s =
     bind_out (GetAttachedHttpListenerOptions list l gw) (\<lambda>res.
       case res of
         Inl err \<Rightarrow> Inr (Some err, outListener, s)
       | Inr [] \<Rightarrow> Inr (None, outListener, s)
       | Inr (optToUse # _) \<Rightarrow>
           let (httpOptionsRef, httpOptionsByName) = HashAndStoreHttpOptions hash (pol_Options optToUse) Map.empty
           in Inr (None, outListener\<lparr>gl_HttpOptions := httpOptionsByName,
                gl_HttpFilterChains := map (\<lambda>hfc. hfc\<lparr>hfc_HttpOptionsRef := httpOptionsRef\<rparr>) (gl_HttpFilterChains outListener)\<rparr>, s))"

definition listeneroptions :: "option_fields list_policies \<Rightarrow> ('sel, 'x) listener_plugin" where
  "listeneroptions list gw l outListener s =
     bind_out (GetAttachedListenerOptions list l gw) (\<lambda>res.
       case res of
         Inl err \<Rightarrow> Inr (Some err, outListener, s)
       | Inr [] \<Rightarrow> Inr (None, outListener, s)
       | Inr (optToUse # _) \<Rightarrow> Inr (None, outListener\<lparr>gl_Options := pol_Options optToUse\<rparr>, s))"

section \<open>Properties\<close>

lemma getOrCreateEntry_dom: "dom (fst (getOrCreateEntry c key)) = insert key (dom c)"
  by (auto simp: getOrCreateEntry_def Let_def split: option.split)

definition with_options :: "option_fields option \<Rightarrow> virtual_host_option list \<Rightarrow> virtual_host \<Rightarrow> virtual_host" where
  "with_options merged used v = v\<lparr>vh_Options := merged,
     vh_Sources := Some (sources_or_empty (vh_Sources v) @ map policySourceRef used)\<rparr>"

text \<open>The loop over the options that are used.\<close>

lemma applyOption_step:
  "applyOption merged (out, cache) p =
     (out\<lparr>gl_VirtualHosts := (\<lambda>n. map_option (with_options merged [p]) (gl_VirtualHosts out n)),
        gl_Sources := Some (sources_or_empty (gl_Sources out) @ [policySourceRef p])\<rparr>,
      fst (getOrCreateEntry cache (pol_key p)))"
  by (simp add: applyOption_def AppendSourceToListener_def AppendSourceToVirtualHost_def with_options_def [abs_def])

lemma with_options_again: "with_options merged ps (with_options merged [p] v) = with_options merged (p # ps) v"
  by (simp add: with_options_def sources_or_empty_def)

lemma foldl_applyOption:
  assumes "used \<noteq> []"
  shows "fst (foldl (applyOption merged) (out, cache) used) = out\<lparr>
      gl_VirtualHosts := (\<lambda>n. map_option (with_options merged used) (gl_VirtualHosts out n)),
      gl_Sources := Some (sources_or_empty (gl_Sources out) @ map policySourceRef used)\<rparr>"
  using assms
proof (induction used arbitrary: out cache rule: list_nonempty_induct)
  case (single p)
  show ?case by (simp add: applyOption_step)
next
  case (cons p ps)
  have [simp]: "sources_or_empty (Some ss) = ss" for ss by (simp add: sources_or_empty_def)
  show ?case by (simp add: applyOption_step cons.IH option.map_comp comp_def with_options_again)
qed

lemma dom_foldl_applyOption: "dom (snd (foldl (applyOption merged) (out, cache) used)) = dom cache \<union> pol_key ` set used"
proof (induction used arbitrary: out cache)
  case (Cons p used)
  then show ?case by (simp add: applyOption_step getOrCreateEntry_dom)
qed simp

lemma dom_foldl_warnIgnored: "dom (foldl (warnIgnored w) cache ps) = dom cache \<union> pol_key ` set ps"
proof (induction ps arbitrary: cache)
  case (Cons p ps)
  have "dom (warnIgnored w cache p) = insert (pol_key p) (dom cache)"
    using getOrCreateEntry_dom [of cache "pol_key p"]
    by (cases "getOrCreateEntry cache (pol_key p)") (simp add: warnIgnored_def Let_def)
  with Cons show ?case by simp
qed simp

lemma warned:
  assumes "p \<in> set ps"
  shows "\<exists>st. foldl (warnIgnored w) cache ps (pol_key p) = Some st \<and> w (pol_key p) \<in> set (cs_warnings st)"
  using assms
proof (induction ps arbitrary: cache rule: rev_induct)
  case (snoc q ps)
  let ?c = "foldl (warnIgnored w) cache ps"
  show ?case
  proof (cases "pol_key q = pol_key p")
    case True
    obtain c e where "getOrCreateEntry ?c (pol_key q) = (c, e)" by (cases "getOrCreateEntry ?c (pol_key q)")
    with True show ?thesis by (simp add: warnIgnored_def [of w ?c] Let_def)
  next
    case False
    then have "warnIgnored w ?c q (pol_key p) = ?c (pol_key p)"
      by (simp add: warnIgnored_def getOrCreateEntry_def Let_def split: option.split)
    with False snoc show ?thesis by auto
  qed
qed simp

lemma used_ignored_set: "set (vho.used_of os ps) \<union> set (vho.ignored_of os ps) = set ps"
  by (induction ps arbitrary: os) auto

lemma virtualhostoptions_attached:
  assumes "GetVirtualHostOptionsForListener list l gw = Inr (Inr (first # others))"
    and used: "used = first # vho.used_of [pol_Options first] others" and ignored: "ignored = vho.ignored_of [pol_Options first] others"
  shows "\<exists>merged cache'. virtualhostoptions list gw l out (rm, cache) =
      Inr (None, out\<lparr>gl_VirtualHosts := (\<lambda>n. map_option (with_options merged used) (gl_VirtualHosts out n)),
        gl_Sources := Some (sources_or_empty (gl_Sources out) @ map policySourceRef used)\<rparr>, rm, cache') \<and>
    (\<forall>k. vho.opt_get k merged = first_some (map (\<lambda>p. vho.opt_get k (pol_Options p)) (first # others))) \<and>
    dom cache' = dom cache \<union> pol_key ` set (first # others) \<and>
    (\<forall>p \<in> set ignored. \<exists>st. cache' (pol_key p) = Some st \<and> conflictWarning gw l used (pol_key p) \<in> set (cs_warnings st))"
proof -
  have "vho.merged_ok [pol_Options first] (pol_Options first)"
    by (simp add: vho.merged_ok_def) (metis first_some.simps option.exhaust)
  from vho.merge_policies [OF this, of "[first]" "[]" others] obtain merged where
    m: "foldl (mergePolicy ShallowMergeVirtualHostOptions) (pol_Options first, [first], []) others = (merged, used, ignored)"
    "vho.merged_ok (map pol_Options (first # others)) merged"
    using used ignored by auto
  obtain out' c1 where o: "foldl (applyOption merged) (out, cache) used = (out', c1)" by (cases "foldl (applyOption merged) (out, cache) used")
  have o': "out' = out\<lparr>gl_VirtualHosts := (\<lambda>n. map_option (with_options merged used) (gl_VirtualHosts out n)),
        gl_Sources := Some (sources_or_empty (gl_Sources out) @ map policySourceRef used)\<rparr>" "dom c1 = dom cache \<union> pol_key ` set used"
    using foldl_applyOption [of used merged out cache] dom_foldl_applyOption [of merged out cache used] used o by simp_all
  let ?c = "foldl (warnIgnored (conflictWarning gw l used)) c1 ignored"
  have "dom ?c = dom cache \<union> pol_key ` (set used \<union> set ignored)" by (auto simp: dom_foldl_warnIgnored o'(2))
  moreover have "set used \<union> set ignored = set (first # others)"
    using used_ignored_set [of "[pol_Options first]" others] used ignored by auto
  moreover have "\<forall>p \<in> set ignored. \<exists>st. ?c (pol_key p) = Some st \<and> conflictWarning gw l used (pol_key p) \<in> set (cs_warnings st)"
    using warned [of _ ignored "conflictWarning gw l used" c1] by blast
  moreover have "virtualhostoptions list gw l out (rm, cache) = Inr (None, out', rm, ?c)"
    by (simp only: virtualhostoptions_def assms(1) bind_out_Inr sum.case list.case prod.case m(1) Let_def o)
  ultimately show ?thesis
    using m(2) unfolding o'(1) vho.merged_ok_def by (intro exI [of _ merged] exI [of _ ?c]) (simp add: comp_def)
qed

lemma vhost_wf_with_options [simp]: "vhost_wf (with_options m us v) = vhost_wf v"
  by (simp add: vhost_wf_def with_options_def)

lemma listener_wf_with_options:
  "listener_wf out \<Longrightarrow> listener_wf (out\<lparr>gl_VirtualHosts := (\<lambda>n. map_option (with_options m us) (gl_VirtualHosts out n)), gl_Sources := ss\<rparr>)"
  by (auto simp: listener_wf_def ran_def dom_def)

lemma virtualhostoptions_contract:
  assumes "lists_by_index virtualHostOptionTargetRefIndexer list"
  shows "listener_plugin_contract (virtualhostoptions list :: ('sel, 'st classic_status_cache) listener_plugin)"
  unfolding listener_plugin_contract_def
proof (intro allI)
  fix gw :: "'sel gateway" and l out and s :: "'st classic_status_cache plugin_state"
  obtain rm cache where s: "s = (rm, cache)" by (cases s)
  obtain res where res: "GetVirtualHostOptionsForListener list l gw = Inr res"
    using listenerPolicies_returns [OF assms [unfolded virtualHostOptionTargetRefIndexer_def]]
    by (auto simp: GetVirtualHostOptionsForListener_def)
  consider err where "res = Inl err" | "res = Inr []" | p ps where "res = Inr (p # ps)" by (metis sumE list.exhaust)
  then show "\<exists>e out' s'. virtualhostoptions list gw l out s = Inr (e, out', s') \<and> gl_BindPort out' = gl_BindPort out \<and> (listener_wf out \<longrightarrow> listener_wf out')"
  proof cases
    case 3
    then show ?thesis
      using virtualhostoptions_attached [OF res [unfolded 3] refl refl, of out rm cache] listener_wf_with_options [of out]
      by (fastforce simp: s)
  qed (simp_all add: virtualhostoptions_def s res)
qed

lemma httplisteneroptions_contract:
  assumes "lists_by_index httpListenerOptionTargetRefIndexer list"
  shows "listener_plugin_contract (httplisteneroptions list hash)"
  unfolding listener_plugin_contract_def
proof (intro allI)
  fix gw :: "'a gateway" and l out and s :: "'b plugin_state"
  obtain res where res: "GetAttachedHttpListenerOptions list l gw = Inr res"
    using listenerPolicies_returns [OF assms [unfolded httpListenerOptionTargetRefIndexer_def]]
    by (auto simp: GetAttachedHttpListenerOptions_def)
  show "\<exists>e out' s'. httplisteneroptions list hash gw l out s = Inr (e, out', s') \<and> gl_BindPort out' = gl_BindPort out \<and> (listener_wf out \<longrightarrow> listener_wf out')"
    by (auto simp: httplisteneroptions_def res HashAndStoreHttpOptions_def Let_def listener_wf_def split: sum.split list.split)
qed

lemma listeneroptions_contract:
  assumes "lists_by_index listenerOptionTargetRefIndexer list"
  shows "listener_plugin_contract (listeneroptions list)"
  unfolding listener_plugin_contract_def
proof (intro allI)
  fix gw :: "'a gateway" and l out and s :: "'b plugin_state"
  obtain res where res: "GetAttachedListenerOptions list l gw = Inr res"
    using listenerPolicies_returns [OF assms [unfolded listenerOptionTargetRefIndexer_def]]
    by (auto simp: GetAttachedListenerOptions_def)
  show "\<exists>e out' s'. listeneroptions list gw l out s = Inr (e, out', s') \<and> gl_BindPort out' = gl_BindPort out \<and> (listener_wf out \<longrightarrow> listener_wf out')"
    by (auto simp: listeneroptions_def res listener_wf_def split: sum.split list.split)
qed

text \<open>C30. The virtual hosts of a listener get the options of all policies that attach to it. The policies are
  taken by specificity, those for the listener before those for the gateway, and by age; every option
  is that of the first policy that sets it. The policies that set something are the sources of the
  virtual hosts and of the listener; every other one gets the warning that names them, and all are in
  the status cache.\<close>

theorem virtualhostoptions_correct:
  assumes "lists_by_index virtualHostOptionTargetRefIndexer list" "list (nn_String (gw_key gw)) (gw_Namespace gw) = Inr items"
    and "gw_Name gw \<noteq> []" "gw_Namespace gw \<noteq> []"
  shows "\<exists>ps. mset ps = mset (filter (attaches l) items) \<and> sorted_wrt policy_precedes ps \<and>
    (case ps of
       [] \<Rightarrow> virtualhostoptions list gw l out (rm, cache) = Inr (None, out, rm, cache)
     | p # others \<Rightarrow>
         let used = p # vho.used_of [pol_Options p] others in
         \<exists>merged cache'. virtualhostoptions list gw l out (rm, cache) =
             Inr (None, out\<lparr>gl_VirtualHosts := (\<lambda>n. map_option (with_options merged used) (gl_VirtualHosts out n)),
               gl_Sources := Some (sources_or_empty (gl_Sources out) @ map policySourceRef used)\<rparr>, rm, cache') \<and>
           (\<forall>k. vho.opt_get k merged = first_some (map (\<lambda>p. vho.opt_get k (pol_Options p)) ps)) \<and>
           dom cache' = dom cache \<union> pol_key ` set ps \<and>
           (\<forall>q \<in> set (vho.ignored_of [pol_Options p] others). \<exists>st. cache' (pol_key q) = Some st \<and>
              conflictWarning gw l used (pol_key q) \<in> set (cs_warnings st)))"
proof -
  obtain ps where ps: "GetVirtualHostOptionsForListener list l gw = Inr (Inr ps)"
    "mset ps = mset (filter (attaches l) items)" "sorted_wrt policy_precedes ps"
    using listenerPolicies_ok [OF assms [unfolded virtualHostOptionTargetRefIndexer_def]] by (auto simp: GetVirtualHostOptionsForListener_def)
  show ?thesis
  proof (cases ps)
    case Nil
    then show ?thesis using ps by (intro exI [of _ ps]) (simp add: virtualhostoptions_def)
  next
    case (Cons p others)
    with ps show ?thesis
      unfolding Let_def
      using virtualhostoptions_attached [of list l gw p others _ _ out rm cache, OF _ refl refl]
      by (intro exI [of _ ps] conjI ps(2,3)) (simp only: list.case)
  qed
qed

text \<open>A listener has the options of the most specific and oldest policy that attaches to it: the
  \<open>ListenerOption\<close> as its options, and the \<open>HttpListenerOption\<close> as the options to which every filter chain
  refers.\<close>

theorem listener_options_correct:
  assumes "lists_by_index (targetRefIndexer GatewayKind) list" "list (nn_String (gw_key gw)) (gw_Namespace gw) = Inr items"
    and "gw_Name gw \<noteq> []" "gw_Namespace gw \<noteq> []" "\<exists>p \<in> set items. attaches l p"
  shows "\<exists>p \<in> set items. attaches l p \<and> (\<forall>q \<in> set items. attaches l q \<longrightarrow> q = p \<or> policy_precedes p q) \<and>
    listeneroptions list gw l out s = Inr (None, out\<lparr>gl_Options := pol_Options p\<rparr>, s) \<and>
    (\<exists>out'. httplisteneroptions list hash gw l out s = Inr (None, out', s) \<and>
       (\<forall>hfc \<in> set (gl_HttpFilterChains out'). gl_HttpOptions out' (hfc_HttpOptionsRef hfc) = Some (pol_Options p)))"
proof -
  obtain ps where ps: "listenerPolicies list l gw = Inr (Inr ps)" "mset ps = mset (filter (attaches l) items)" "sorted_wrt policy_precedes ps"
    using listenerPolicies_ok [OF assms(1-4)] by blast
  have set: "set ps = {q \<in> set items. attaches l q}" using mset_eq_setD [OF ps(2)] by simp
  with assms(5) obtain p others where p: "ps = p # others" by (cases ps) auto
  have "p \<in> set items" "attaches l p" using set p by auto
  moreover have "q = p \<or> policy_precedes p q" if "q \<in> set items" "attaches l q" for q
    using that set ps(3) p by auto
  moreover have "listeneroptions list gw l out s = Inr (None, out\<lparr>gl_Options := pol_Options p\<rparr>, s)"
    by (simp add: listeneroptions_def GetAttachedListenerOptions_def ps(1) p)
  moreover have "\<exists>out'. httplisteneroptions list hash gw l out s = Inr (None, out', s) \<and>
       (\<forall>hfc \<in> set (gl_HttpFilterChains out'). gl_HttpOptions out' (hfc_HttpOptionsRef hfc) = Some (pol_Options p))"
    by (simp add: httplisteneroptions_def GetAttachedHttpListenerOptions_def ps(1) p HashAndStoreHttpOptions_def Let_def)
  ultimately show ?thesis by blast
qed

text \<open>The status of virtual host policies: no panic for errors of policies that were applied, each
  policy gets exactly the virtual host errors whose first source it is.\<close>

lemma virtualhostoptions_status:
  assumes "visits_all ord" and "\<forall>pwr \<in> set prs. dom (extractVirtualHostErrors visit (prp_ListenerReports (pwr_Reports pwr))) \<subseteq> dom cache"
  shows "\<exists>cache' writes err. virtualhostoptions_ApplyStatusPlugin lib visit ord order prs cache = Inr (cache', writes, err) \<and>
    dom cache' = dom cache \<and>
    (\<forall>key st. cache key = Some st \<longrightarrow> (\<exists>st'. cache' key = Some st' \<and> ls_errors st' = ls_errors st @
       concat (map (\<lambda>pwr. errors_of ''VirtualHostOption'' (vhost_errors visit (prp_ListenerReports (pwr_Reports pwr))) key) prs)))"
proof -
  obtain cache' where c: "fold_out (recordProxy NilDeref lib (extractVirtualHostErrors visit) ord) prs cache = Inr cache'"
    "dom cache' = dom cache" "\<forall>key st. cache key = Some st \<longrightarrow> (\<exists>st'. cache' key = Some st' \<and> ls_errors st' = ls_errors st @
       concat (map (\<lambda>pwr. errors_of ''VirtualHostOption'' (vhost_errors visit (prp_ListenerReports (pwr_Reports pwr))) key) prs))"
    using vho_errors.record_all [OF assms] by blast
  then show ?thesis
    by (cases "writeStatuses lib (addErrorsAndWarnings lib) cache' (order cache') (sl_NewReports lib) []")
      (simp add: virtualhostoptions_ApplyStatusPlugin_def)
qed

end
