(* ===== verification/AsyncQueue.thy ===== *)
theory AsyncQueue
  imports Prelude Transition
begin

text \<open>
  The work queue of the proxy syncer, \<open>projects/gateway2/proxy_syncer/queue.go\<close>: a buffered channel
  of capacity one that keeps the newest item. \<open>Enqueue\<close> is two separate \<open>select\<close> statements on the
  channel, each atomic, so producers that run at the same time interleave between them; the step
  relation \<open>queue_step\<close> has one step per statement.

  Shown: with one producer the queue implements a register that a write overwrites and a read
  empties; with any number of producers a wake-up is never lost; with two producers the branch of
  \<open>Enqueue\<close> that the code calls impossible is reached and drops the newest item.
\<close>

section \<open>Channels\<close>

record 'a go_chan =
  ch_buf :: "'a list"
  ch_cap :: nat

definition make_chan :: "nat \<Rightarrow> 'a go_chan" where
  "make_chan n = \<lparr>ch_buf = [], ch_cap = n\<rparr>"

text \<open>\<open>select { case x = <-c: ...; default: }\<close> and \<open>select { case c <- x: ...; default: }\<close>; the second
  tells which branch was taken.\<close>

definition chan_recv :: "'a go_chan \<Rightarrow> ('a \<times> 'a go_chan) option" where
  "chan_recv c = (case ch_buf c of [] \<Rightarrow> None | x # xs \<Rightarrow> Some (x, c\<lparr>ch_buf := xs\<rparr>))"

definition chan_send :: "'a \<Rightarrow> 'a go_chan \<Rightarrow> 'a go_chan \<times> bool" where
  "chan_send x c = (if length (ch_buf c) < ch_cap c then (c\<lparr>ch_buf := ch_buf c @ [x]\<rparr>, True) else (c, False))"

section \<open>The queue\<close>

record 'a asyncQueue =
  aq_queue :: "'a go_chan"

definition NewAsyncQueue :: "'a asyncQueue" where
  "NewAsyncQueue = \<lparr>aq_queue = make_chan 1\<rparr>"

text \<open>\<open>Dequeue\<close> blocks (\<open>None\<close>) until an item or the end of the context; when both are ready
  \<open>select\<close> takes either, which the argument \<open>pick\<close> decides. The zero value of the item type, which
  is returned with the error, is an argument.\<close>

definition Dequeue :: "bool \<Rightarrow> 'a \<Rightarrow> string option \<Rightarrow> 'a asyncQueue \<Rightarrow> (('a \<times> string option) \<times> 'a asyncQueue) option" where
  "Dequeue pick zero ctxErr a =
     (case (chan_recv (aq_queue a), ctxErr) of
        (None, None) \<Rightarrow> None
      | (None, Some e) \<Rightarrow> Some ((zero, Some e), a)
      | (Some (t, q), None) \<Rightarrow> Some ((t, None), a\<lparr>aq_queue := q\<rparr>)
      | (Some (t, q), Some e) \<Rightarrow>
          if pick then Some ((t, None), a\<lparr>aq_queue := q\<rparr>) else Some ((zero, Some e), a))"

definition Enqueue_drain :: "'a asyncQueue \<Rightarrow> 'a asyncQueue" where
  "Enqueue_drain a = (case chan_recv (aq_queue a) of None \<Rightarrow> a | Some (_, q) \<Rightarrow> a\<lparr>aq_queue := q\<rparr>)"

definition Enqueue_add :: "'a \<Rightarrow> 'a asyncQueue \<Rightarrow> 'a asyncQueue \<times> bool" where
  "Enqueue_add t a = (let (q, ok) = chan_send t (aq_queue a) in (a\<lparr>aq_queue := q\<rparr>, ok))"

definition Enqueue :: "'a \<Rightarrow> 'a asyncQueue \<Rightarrow> 'a asyncQueue" where
  "Enqueue t a = fst (Enqueue_add t (Enqueue_drain a))"

definition Next :: "'a asyncQueue \<Rightarrow> 'a go_chan" where
  "Next a = aq_queue a"

section \<open>Concurrent use\<close>

text \<open>Each producer is between two calls (\<open>None\<close>) or inside \<open>Enqueue t\<close>, after the first \<open>select\<close>
  (\<open>Some t\<close>). The label \<open>Enq\<close> is the first statement of a call, \<open>Put\<close> and \<open>Drop\<close> are the two branches
  of the second, \<open>Recv\<close> is a receive from \<open>Next\<close> or in \<open>Dequeue\<close>.\<close>

record 'a queue_sys =
  qs_queue :: "'a asyncQueue"
  qs_pc :: "nat \<Rightarrow> 'a option"

datatype 'a queue_event = Enq nat 'a | Put nat 'a | Drop nat 'a | Recv 'a

definition queue_init :: "'a queue_sys" where
  "queue_init = \<lparr>qs_queue = NewAsyncQueue, qs_pc = (\<lambda>_. None)\<rparr>"

inductive queue_step :: "nat set \<Rightarrow> 'a queue_sys \<Rightarrow> 'a queue_event \<Rightarrow> 'a queue_sys \<Rightarrow> bool" for P where
  enq: "i \<in> P \<Longrightarrow> qs_pc s i = None \<Longrightarrow>
    queue_step P s (Enq i t) (s\<lparr>qs_queue := Enqueue_drain (qs_queue s), qs_pc := (qs_pc s)(i := Some t)\<rparr>)"
| put: "qs_pc s i = Some t \<Longrightarrow> Enqueue_add t (qs_queue s) = (q, True) \<Longrightarrow>
    queue_step P s (Put i t) (s\<lparr>qs_queue := q, qs_pc := (qs_pc s)(i := None)\<rparr>)"
| drop: "qs_pc s i = Some t \<Longrightarrow> Enqueue_add t (qs_queue s) = (q, False) \<Longrightarrow>
    queue_step P s (Drop i t) (s\<lparr>qs_queue := q, qs_pc := (qs_pc s)(i := None)\<rparr>)"
| recv: "chan_recv (Next (qs_queue s)) = Some (t, c) \<Longrightarrow>
    queue_step P s (Recv t) (s\<lparr>qs_queue := (qs_queue s)\<lparr>aq_queue := c\<rparr>\<rparr>)"

text \<open>A register: a write overwrites, a read returns the value and empties it.\<close>

datatype 'a register_event = Write 'a | Read 'a

inductive register_step :: "'a option \<Rightarrow> 'a register_event \<Rightarrow> 'a option \<Rightarrow> bool" where
  reg_write: "register_step r (Write t) (Some t)"
| reg_read: "register_step (Some t) (Read t) None"

inductive_simps register_step_simps [simp]:
  "register_step r (Write t) r'" "register_step r (Read t) r'"

fun observe :: "'a queue_event \<Rightarrow> 'a register_event list" where
  "observe (Enq i t) = [Write t]"
| "observe (Recv t) = [Read t]"
| "observe _ = []"

text \<open>An \<open>Enqueue\<close> has begun since the last receive.\<close>

fun enq_since_recv :: "'a queue_event list \<Rightarrow> bool" where
  "enq_since_recv [] = False"
| "enq_since_recv (e # es) =
     (case e of Enq _ _ \<Rightarrow> (\<forall>t. Recv t \<notin> set es) \<or> enq_since_recv es | _ \<Rightarrow> enq_since_recv es)"

definition enqueued :: "'a queue_event list \<Rightarrow> 'a \<Rightarrow> bool" where
  "enqueued tr t \<longleftrightarrow> (\<exists>i. Enq i t \<in> set tr)"

section \<open>Lemmas on single statements\<close>

definition buf :: "'a asyncQueue \<Rightarrow> 'a list" where
  "buf a = ch_buf (aq_queue a)"

text \<open>The channel of a queue never holds more than one item.\<close>

definition queue_ok :: "'a asyncQueue \<Rightarrow> bool" where
  "queue_ok a \<longleftrightarrow> ch_cap (aq_queue a) = 1 \<and> length (buf a) \<le> 1"

named_theorems queue_defs \<open>definitions of the queue operations\<close>
declare chan_recv_def [queue_defs] chan_send_def [queue_defs] Enqueue_drain_def [queue_defs]
  Enqueue_add_def [queue_defs] Next_def [queue_defs] buf_def [queue_defs] queue_ok_def [queue_defs]

lemma queue_ok_New [simp]: "queue_ok NewAsyncQueue" "buf NewAsyncQueue = []"
  by (simp_all add: queue_defs NewAsyncQueue_def make_chan_def)

lemma queue_ok_drain: "queue_ok a \<Longrightarrow> queue_ok (Enqueue_drain a) \<and> buf (Enqueue_drain a) = []"
  by (auto simp: queue_defs split: list.splits)

lemma Enqueue_add_cases:
  assumes "Enqueue_add t a = (q, ok)" "queue_ok a"
  shows "queue_ok q" "ok \<longleftrightarrow> buf a = []" "buf q = (if ok then [t] else buf a)"
  using assms by (auto simp: queue_defs split: if_splits)

lemma recv_cases:
  assumes "chan_recv (Next a) = Some (t, c)" "queue_ok a"
  shows "buf a = [t]" "buf (a\<lparr>aq_queue := c\<rparr>) = []" "queue_ok (a\<lparr>aq_queue := c\<rparr>)"
  using assms by (auto simp: queue_defs split: list.splits)

lemma Enqueue_ok:
  assumes "queue_ok a"
  shows "queue_ok (Enqueue t a)" "buf (Enqueue t a) = [t]"
proof -
  obtain q ok where q: "Enqueue_add t (Enqueue_drain a) = (q, ok)" by fastforce
  note Enqueue_add_cases [OF q conjunct1 [OF queue_ok_drain [OF assms]]]
  then show "queue_ok (Enqueue t a)" "buf (Enqueue t a) = [t]"
    using q queue_ok_drain [OF assms] by (simp_all add: Enqueue_def)
qed

lemma Dequeue_ready: "buf a = [t] \<Longrightarrow> Dequeue pick zero None a = Some ((t, None), a\<lparr>aq_queue := (aq_queue a)\<lparr>ch_buf := []\<rparr>\<rparr>)"
  by (simp add: Dequeue_def queue_defs)

section \<open>Invariants of the runs\<close>

text \<open>The queue is well formed, and after an \<open>Enqueue\<close> has begun there is an item in the queue or a
  producer about to put one, until a receive.\<close>

definition queue_inv :: "'a queue_event list \<Rightarrow> 'a queue_sys \<Rightarrow> bool" where
  "queue_inv tr s \<longleftrightarrow> queue_ok (qs_queue s) \<and>
     (enq_since_recv tr \<longrightarrow> buf (qs_queue s) \<noteq> [] \<or> (\<exists>i. qs_pc s i \<noteq> None)) \<and>
     (\<forall>i t. qs_pc s i = Some t \<longrightarrow> enqueued tr t) \<and>
     (\<forall>t \<in> set (buf (qs_queue s)). enqueued tr t)"

lemma enqueued_snoc [simp]:
  "enqueued (tr @ [l]) t \<longleftrightarrow> enqueued tr t \<or> (\<exists>i. l = Enq i t)"
  by (auto simp: enqueued_def)

lemma enq_since_recv_snoc [simp]:
  "enq_since_recv (tr @ [Enq i t])"
  "enq_since_recv (tr @ [Put i t]) = enq_since_recv tr"
  "enq_since_recv (tr @ [Drop i t]) = enq_since_recv tr"
  "\<not> enq_since_recv (tr @ [Recv t])"
  by (induction tr) (auto split: queue_event.split)

lemma queue_inv_step:
  assumes inv: "queue_inv tr s" and "queue_step P s l s'"
  shows "queue_inv (tr @ [l]) s'"
  using assms(2)
proof cases
  case (enq i t)
  then show ?thesis using inv queue_ok_drain [of "qs_queue s"] by (auto simp: queue_inv_def)
next
  case (put i t q)
  have "queue_ok (qs_queue s)" using inv by (simp add: queue_inv_def)
  note Enqueue_add_cases [OF put(4) this]
  then show ?thesis using inv put by (auto simp: queue_inv_def)
next
  case (drop i t q)
  have "queue_ok (qs_queue s)" using inv by (simp add: queue_inv_def)
  note Enqueue_add_cases [OF drop(4) this]
  then show ?thesis using inv drop by (auto simp: queue_inv_def)
next
  case (recv t c)
  have "queue_ok (qs_queue s)" using inv by (simp add: queue_inv_def)
  note recv_cases [OF recv(3) this]
  then show ?thesis using inv recv by (auto simp: queue_inv_def)
qed

lemma queue_inv_init: "queue_inv [] queue_init"
  by (simp add: queue_inv_def queue_init_def)

interpretation queue_runs: run_invariant "queue_step P" queue_init queue_inv for P
  by unfold_locales (auto intro: queue_inv_init queue_inv_step)

section \<open>One producer\<close>

text \<open>The content of the register: the item a call is about to put, or else the item in the queue.\<close>

definition register_of :: "'a queue_sys \<Rightarrow> 'a option" where
  "register_of s =
     (case qs_pc s 0 of Some t \<Rightarrow> Some t
      | None \<Rightarrow> (case buf (qs_queue s) of [] \<Rightarrow> None | t # _ \<Rightarrow> Some t))"

definition register_sim :: "'a option \<Rightarrow> 'a queue_sys \<Rightarrow> bool" where
  "register_sim r s \<longleftrightarrow> r = register_of s \<and> queue_ok (qs_queue s) \<and>
     (\<forall>i. i \<noteq> 0 \<longrightarrow> qs_pc s i = None) \<and> (qs_pc s 0 \<noteq> None \<longrightarrow> buf (qs_queue s) = [])"

lemma register_sim_step:
  assumes sim: "register_sim r s" and "queue_step {0} s l s'"
  shows "\<exists>r'. run register_step r (observe l) r' \<and> register_sim r' s' \<and> (\<forall>i t. l \<noteq> Drop i t)"
proof -
  have q: "queue_ok (qs_queue s)" using sim by (simp add: register_sim_def)
  have one: "i = 0" if "qs_pc s i = Some t" for i t
    using sim that by (cases "i = 0") (auto simp: register_sim_def)
  from assms(2) show ?thesis
  proof cases
    case (enq i t)
    have "run register_step r [Write t] (Some t)" by (rule run_single) simp
    then show ?thesis
      using enq sim queue_ok_drain [OF q] by (auto simp: register_sim_def register_of_def)
  next
    case (put i t c)
    have "run register_step r [] r" by (rule run.run_nil)
    then show ?thesis
      using put sim one [OF put(3)] Enqueue_add_cases [OF put(4) q]
      by (auto simp: register_sim_def register_of_def)
  next
    case (drop i t c)
    then show ?thesis
      using sim one [OF drop(3)] Enqueue_add_cases(2) [OF drop(4) q] by (auto simp: register_sim_def)
  next
    case (recv t c)
    have "qs_pc s 0 = None" using sim recv_cases(1) [OF recv(3) q] by (auto simp: register_sim_def)
    then have "r = Some t" using sim recv_cases(1) [OF recv(3) q]
      by (simp add: register_sim_def register_of_def)
    then have "run register_step r [Read t] None" by (intro run_single) simp
    then show ?thesis
      using recv sim recv_cases [OF recv(3) q] \<open>qs_pc s 0 = None\<close>
      by (auto simp: register_sim_def register_of_def)
  qed
qed

interpretation queue_register:
  simulation "queue_step {0}" register_step observe register_sim None queue_init
proof unfold_locales
  show "register_sim None queue_init"
    by (simp add: register_sim_def register_of_def queue_init_def)
next
  fix r :: "'a option" and s s' l
  assume "register_sim r s" "queue_step {0} s l s'"
  then show "\<exists>r'. run register_step r (observe l) r' \<and> register_sim r' s'"
    using register_sim_step by blast
qed

lemma one_producer_no_drop: "run (queue_step {0}) queue_init tr s \<Longrightarrow> Drop i t \<notin> set tr"
proof (induction arbitrary: rule: run.induct)
  case run_nil
  show ?case by simp
next
  case (run_snoc tr s l s')
  obtain r where "register_sim r s" using queue_register.simulates [OF run_snoc(1)] by auto
  then have "l \<noteq> Drop i t" using register_sim_step [OF _ run_snoc(2)] by blast
  then show ?case using run_snoc by simp
qed


text \<open>A wake-up is never lost: with any number of producers that enqueue concurrently, if some
  call of \<open>Enqueue\<close> began after the last receive and all calls have returned, then \<open>Dequeue\<close> returns
  at once, without an error, with an item that was enqueued.\<close>

theorem AsyncQueue_no_lost_wakeup:
  assumes "run (queue_step P) queue_init tr s" and "enq_since_recv tr" and "\<forall>i. qs_pc s i = None"
  shows "\<exists>t a. Dequeue pick zero None (qs_queue s) = Some ((t, None), a) \<and> buf a = [] \<and>
    enqueued tr t"
proof -
  have inv: "queue_inv tr s" by (rule queue_runs.invariant_run [OF assms(1)])
  then obtain t where t: "buf (qs_queue s) = [t]" "enqueued tr t"
    using assms(2,3) by (cases "buf (qs_queue s)") (auto simp: queue_inv_def queue_ok_def)
  show ?thesis using Dequeue_ready [OF t(1)] t(2) by (auto simp: buf_def)
qed

section \<open>Concrete runs\<close>

fun queue_exec :: "nat set \<Rightarrow> 'a queue_sys \<Rightarrow> 'a queue_event \<Rightarrow> 'a queue_sys option" where
  "queue_exec P s (Enq i t) =
     (if i \<in> P \<and> qs_pc s i = None
      then Some (s\<lparr>qs_queue := Enqueue_drain (qs_queue s), qs_pc := (qs_pc s)(i := Some t)\<rparr>) else None)"
| "queue_exec P s (Put i t) =
     (let (q, added) = Enqueue_add t (qs_queue s)
      in if qs_pc s i = Some t \<and> added then Some (s\<lparr>qs_queue := q, qs_pc := (qs_pc s)(i := None)\<rparr>) else None)"
| "queue_exec P s (Drop i t) =
     (let (q, added) = Enqueue_add t (qs_queue s)
      in if qs_pc s i = Some t \<and> \<not> added then Some (s\<lparr>qs_queue := q, qs_pc := (qs_pc s)(i := None)\<rparr>) else None)"
| "queue_exec P s (Recv t) =
     (case chan_recv (Next (qs_queue s)) of None \<Rightarrow> None
      | Some (u, c) \<Rightarrow> if u = t then Some (s\<lparr>qs_queue := (qs_queue s)\<lparr>aq_queue := c\<rparr>\<rparr>) else None)"

lemma queue_exec_step: "queue_exec P s l = Some s' \<Longrightarrow> queue_step P s l s'"
  by (cases l) (auto intro: queue_step.intros split: prod.splits option.splits if_splits)

lemma queue_exec_run: "exec_run (queue_exec P) s tr = Some s' \<Longrightarrow> run (queue_step P) s tr s'"
  by (rule exec_run_sound [OF queue_exec_step])

definition two_calls :: "nat queue_event list" where
  "two_calls = [Enq 0 1, Put 0 1, Recv 1, Enq 0 2, Put 0 2]"

definition two_producers :: "nat queue_event list" where
  "two_producers = [Enq 0 1, Enq 1 2, Put 0 1, Drop 1 2]"

definition queue_end :: "'a \<Rightarrow> 'a queue_sys" where
  "queue_end t = \<lparr>qs_queue = \<lparr>aq_queue = \<lparr>ch_buf = [t], ch_cap = 1\<rparr>\<rparr>, qs_pc = (\<lambda>_. None)\<rparr>"

lemmas queue_eval = queue_defs two_calls_def two_producers_def queue_end_def queue_init_def
  NewAsyncQueue_def make_chan_def fun_upd_def

lemma two_calls_run: "run (queue_step {0}) queue_init two_calls (queue_end 2)"
  by (rule queue_exec_run) (simp add: queue_eval fun_eq_iff)

lemma two_producers_run: "run (queue_step {0, 1}) queue_init two_producers (queue_end 1)"
  by (rule queue_exec_run) (simp add: queue_eval fun_eq_iff)


theorem AsyncQueue_no_lost_wakeup_witness:
  "\<exists>t a. Dequeue True 0 None (qs_queue (queue_end (1 :: nat))) = Some ((t, None), a) \<and> buf a = [] \<and>
    enqueued two_producers t"
proof (rule AsyncQueue_no_lost_wakeup [OF two_producers_run])
  show "enq_since_recv two_producers" by (simp add: two_producers_def)
  show "\<forall>i. qs_pc (queue_end (1 :: nat)) i = None" by (simp add: queue_end_def)
qed

text \<open>With two producers that enqueue at the same time, the branch of \<open>Enqueue\<close> that the code
  calls impossible is reached: both drain the queue, the first puts its item, and the item of the
  second, which was enqueued last, is dropped.\<close>

theorem Enqueue_drops_newest:
  "run (queue_step {0, 1}) queue_init [Enq 0 (1 :: nat), Enq 1 2, Put 0 1, Drop 1 2] (queue_end 1) \<and>
   \<not> run register_step None (concat (map observe [Enq 0 (1 :: nat), Enq 1 2, Put 0 1, Drop 1 2])) (Some 1)"
proof -
  have no: "\<not> run register_step None [Write (1 :: nat), Write 2] (Some 1)"
  proof
    assume "run register_step None [Write (1 :: nat), Write 2] (Some 1)"
    then have "run register_step None ([Write (1 :: nat)] @ [Write 2]) (Some 1)" by simp
    then show False by (rule run_snocE) simp
  qed
  show ?thesis using two_producers_run no by (simp add: two_producers_def)
qed

end
