(* ===== verification/ProxySyncer.thy ===== *)
theory ProxySyncer
  imports StatusSyncer AsyncQueue
begin

text \<open>
  The proxy syncer, \<open>projects/gateway2/proxy_syncer/proxy_syncer.go\<close>: the loop that waits for events,
  translates all gateways into proxies, queues the proxies for the status syncer and writes the
  statuses of gateways and routes and the proxies.

  The answers of the API server, of the proxy reconciler and of the extensions during one resync are
  the record \<open>sync_env\<close>. What the syncer writes to them is a log. Logging and the stopwatches are left
  out.
\<close>

section \<open>Model\<close>

type_synonym ('sel, 'x) gw_translator =
  "'sel gateway \<Rightarrow> string \<Rightarrow> report_map \<times> 'x \<Rightarrow> (proxy option \<times> report_map \<times> 'x) outcome"

record ('sel, 'r, 'x) sync_env =
  env_ListGateways :: "string + 'sel gateway list"
  env_ListRoutes :: "string + api_route list"
  env_parentRefOrder :: "api_route \<Rightarrow> report_map \<Rightarrow> parent_ref_key list"
  env_FindStatusCondition :: "condition list \<Rightarrow> string \<Rightarrow> condition option"
  env_SetStatusCondition :: "condition list \<Rightarrow> condition \<Rightarrow> condition list"
  env_CreatePluginRegistry :: "'x \<Rightarrow> ('sel, 'r, 'x) plugin_registry \<times> 'x"
  env_GetTranslator :: "'sel gateway \<Rightarrow> ('sel, 'r, 'x) plugin_registry \<Rightarrow> ('sel, 'x) gw_translator option"

datatype 'sel sync_write =
  PatchGatewayStatus "'sel gateway"
| UpdateRouteStatus api_route
| ReconcileProxies string "proxy list" "string \<rightharpoonup> string"

text \<open>The secrets that the secrets controller hands over: \<open>v1.Secret\<close> with a \<open>v1.TlsSecret\<close>.\<close>

record gloo_secret =
  gsec_PrivateKey :: string
  gsec_CertChain :: string
  gsec_RootCa :: string
  gsec_Metadata :: proxy_metadata

record secret_inputs =
  si_Secrets :: "gloo_secret list"

record gateway_input_channels =
  genericEvent :: "unit asyncQueue"
  secretEvent :: "secret_inputs asyncQueue"

record ('sel, 'r, 'x) proxy_syncer =
  ps_controllerName :: string
  ps_writeNamespace :: string
  ps_inputs :: gateway_input_channels
  ps_secretsWarmed :: bool
  ps_totalResyncs :: int
  ps_status :: "('sel, 'r, 'x) statusSyncerFactory"
  ps_world :: 'x
  ps_writes :: "'sel sync_write list"

definition NewGatewayInputChannels :: gateway_input_channels where
  "NewGatewayInputChannels = \<lparr>genericEvent = NewAsyncQueue, secretEvent = NewAsyncQueue\<rparr>"

definition Kick :: "gateway_input_channels \<Rightarrow> gateway_input_channels" where
  "Kick ch = ch\<lparr>genericEvent := Enqueue () (genericEvent ch)\<rparr>"

definition UpdateSecretInputs :: "secret_inputs \<Rightarrow> gateway_input_channels \<Rightarrow> gateway_input_channels" where
  "UpdateSecretInputs inputs ch = ch\<lparr>secretEvent := Enqueue inputs (secretEvent ch)\<rparr>"

definition kubeGatewayProxyLabels :: "string \<rightharpoonup> string" where
  "kubeGatewayProxyLabels = [ProxyTypeKey \<mapsto> GatewayApiProxyValue]"

definition NewProxySyncer ::
  "string \<Rightarrow> string \<Rightarrow> gateway_input_channels \<Rightarrow> ('sel, 'r, 'x) statusSyncerFactory \<Rightarrow> 'x \<Rightarrow> ('sel, 'r, 'x) proxy_syncer" where
  "NewProxySyncer controllerName writeNamespace inputs status x =
     \<lparr>ps_controllerName = controllerName, ps_writeNamespace = writeNamespace, ps_inputs = inputs,
      ps_secretsWarmed = False, ps_totalResyncs = 0, ps_status = status, ps_world = x, ps_writes = []\<rparr>"

text \<open>The annotation that ties a proxy to its sync.\<close>

definition annotateProxy :: "int \<Rightarrow> proxy \<Rightarrow> proxy" where
  "annotateProxy totalResyncs proxy =
     (let proxyAnnotations = (case pmd_Annotations (px_Metadata proxy) of None \<Rightarrow> Map.empty | Some a \<Rightarrow> a);
          proxyAnnotations = proxyAnnotations(ProxySyncId \<mapsto> Itoa totalResyncs)
      in proxy\<lparr>px_Metadata := (px_Metadata proxy)\<lparr>pmd_Annotations := Some proxyAnnotations\<rparr>\<rparr>)"

record ('sel, 'x) translation_loop =
  tl_reports :: report_map
  tl_plugins :: 'x
  tl_proxies :: "proxy list"
  tl_translated :: "'sel translated_gateway list"

definition translateGateway ::
  "('sel, 'r, 'x) sync_env \<Rightarrow> ('sel, 'r, 'x) plugin_registry \<Rightarrow> string \<Rightarrow> int \<Rightarrow> 'sel gateway \<Rightarrow>
   ('sel, 'x) translation_loop \<Rightarrow> ('sel, 'x) translation_loop outcome" where
  "translateGateway env pluginRegistry writeNamespace totalResyncs gw ts =
     (case env_GetTranslator env gw pluginRegistry of
        None \<Rightarrow> Inr ts
      | Some gatewayTranslator \<Rightarrow>
          bind_out (gatewayTranslator gw writeNamespace (tl_reports ts, tl_plugins ts)) (\<lambda>(proxy, rm, x).
            let ts = ts\<lparr>tl_reports := rm, tl_plugins := x\<rparr>
            in case proxy of
                 None \<Rightarrow> Inr ts
               | Some proxy \<Rightarrow>
                   Inr (ts\<lparr>tl_proxies := tl_proxies ts @ [annotateProxy totalResyncs proxy],
                           tl_translated := tl_translated ts @ [\<lparr>tg_Gateway = gw\<rparr>]\<rparr>)))"

definition applyPostTranslationPlugins ::
  "('sel, 'r, 'x) plugin_registry \<Rightarrow> 'sel translated_gateway list \<Rightarrow> 'x \<Rightarrow> 'x" where
  "applyPostTranslationPlugins pluginRegistry translationContext x =
     foldl (\<lambda>x plugin. fst (plugin translationContext x)) x (reg_postTranslationPlugins pluginRegistry)"

text \<open>\<open>cmp.Equal\<close> with the options of the syncer: deep equality that leaves out the transition times.
  A slice that is nil and an empty slice are one list here.\<close>

definition strip_condition :: "condition \<Rightarrow> condition" where
  "strip_condition c = c\<lparr>cond_LastTransitionTime := 0\<rparr>"

definition strip_address :: "gateway_status_address \<Rightarrow> gateway_status_address" where
  "strip_address a = a\<lparr>gsa_Type := map_option (\<lambda>p. Ptr 0 (ptr_target p)) (gsa_Type a)\<rparr>"

definition strip_listener_status :: "listener_status \<Rightarrow> listener_status" where
  "strip_listener_status s = s\<lparr>ls_Conditions := map strip_condition (ls_Conditions s)\<rparr>"

definition strip_gateway_status :: "gateway_status \<Rightarrow> gateway_status" where
  "strip_gateway_status st = \<lparr>gs_Addresses = map strip_address (gs_Addresses st),
     gs_Conditions = map strip_condition (gs_Conditions st), gs_Listeners = map strip_listener_status (gs_Listeners st)\<rparr>"

definition strip_parent_status :: "route_parent_status \<Rightarrow> route_parent_status" where
  "strip_parent_status s = s\<lparr>rps_Conditions := map strip_condition (rps_Conditions s)\<rparr>"

definition isGatewayStatusEqual :: "gateway_status \<Rightarrow> gateway_status \<Rightarrow> bool" where
  "isGatewayStatusEqual objA objB \<longleftrightarrow> strip_gateway_status objA = strip_gateway_status objB"

definition isHTTPRouteStatusEqual :: "route_parent_status list \<Rightarrow> route_parent_status list \<Rightarrow> bool" where
  "isHTTPRouteStatusEqual objA objB \<longleftrightarrow> map strip_parent_status objA = map strip_parent_status objB"

text \<open>The errors of the writes are only logged.\<close>

definition syncGatewayStatus ::
  "('sel, 'r, 'x) sync_env \<Rightarrow> report_map \<times> 'sel sync_write list \<Rightarrow> 'sel gateway \<Rightarrow> report_map \<times> 'sel sync_write list" where
  "syncGatewayStatus env = (\<lambda>(rm, writes) gw.
     case BuildGWStatus (env_FindStatusCondition env) (env_SetStatusCondition env) gw rm of
       (rm, None) \<Rightarrow> (rm, writes)
     | (rm, Some status) \<Rightarrow>
         if \<not> isGatewayStatusEqual (gw_Status gw) status
         then (rm, writes @ [PatchGatewayStatus (gw\<lparr>gw_Status := status\<rparr>)]) else (rm, writes))"

definition syncStatus ::
  "('sel, 'r, 'x) sync_env \<Rightarrow> report_map \<Rightarrow> 'sel gateway list \<Rightarrow> 'sel sync_write list \<Rightarrow> report_map \<times> 'sel sync_write list" where
  "syncStatus env rm gwl writes = foldl (syncGatewayStatus env) (rm, writes) gwl"

definition syncOneRouteStatus ::
  "('sel, 'r, 'x) sync_env \<Rightarrow> string \<Rightarrow> report_map \<times> 'sel sync_write list \<Rightarrow> api_route \<Rightarrow> report_map \<times> 'sel sync_write list" where
  "syncOneRouteStatus env controllerName = (\<lambda>(rm, writes) route.
     case BuildRouteStatus (env_FindStatusCondition env) (env_SetStatusCondition env) (env_parentRefOrder env route rm)
            route controllerName rm of
       (rm, None) \<Rightarrow> (rm, writes)
     | (rm, Some status) \<Rightarrow>
         if \<not> isHTTPRouteStatusEqual (hr_Status route) status
         then (rm, writes @ [UpdateRouteStatus (route\<lparr>hr_Status := status\<rparr>)]) else (rm, writes))"

definition syncRouteStatus ::
  "('sel, 'r, 'x) sync_env \<Rightarrow> string \<Rightarrow> report_map \<Rightarrow> 'sel sync_write list \<Rightarrow> report_map \<times> 'sel sync_write list" where
  "syncRouteStatus env controllerName rm writes =
     (case env_ListRoutes env of
        Inl err \<Rightarrow> (rm, writes)
      | Inr rl \<Rightarrow> foldl (syncOneRouteStatus env controllerName) (rm, writes) rl)"

definition reconcileProxies :: "string \<Rightarrow> proxy list \<Rightarrow> 'sel sync_write list \<Rightarrow> 'sel sync_write list" where
  "reconcileProxies writeNamespace proxyList writes =
     writes @ [ReconcileProxies writeNamespace proxyList kubeGatewayProxyLabels]"

definition resyncProxies :: "('sel, 'r, 'x) sync_env \<Rightarrow> ('sel, 'r, 'x) proxy_syncer \<Rightarrow> ('sel, 'r, 'x) proxy_syncer outcome" where
  "resyncProxies env s =
     (if \<not> ps_secretsWarmed s then Inr s
      else
        let totalResyncs = ps_totalResyncs s + 1;
            s = s\<lparr>ps_totalResyncs := totalResyncs\<rparr>
        in case env_ListGateways env of
             Inl err \<Rightarrow> Inr s
           | Inr gwl \<Rightarrow>
               let (pluginRegistry, x) = env_CreatePluginRegistry env (ps_world s)
               in bind_out (fold_out (translateGateway env pluginRegistry (ps_writeNamespace s) totalResyncs) gwl
                     \<lparr>tl_reports = NewReportMap, tl_plugins = x, tl_proxies = [], tl_translated = []\<rparr>) (\<lambda>ts.
                 let x = applyPostTranslationPlugins pluginRegistry (tl_translated ts) (tl_plugins ts);
                     status = QueueStatusForProxies (tl_proxies ts) pluginRegistry totalResyncs (ps_status s);
                     (rm, writes) = syncStatus env (tl_reports ts) gwl (ps_writes s);
                     (rm, writes) = syncRouteStatus env (ps_controllerName s) rm writes
                 in Inr (s\<lparr>ps_status := status, ps_world := x,
                       ps_writes := reconcileProxies (ps_writeNamespace s) (tl_proxies ts) writes\<rparr>)))"

text \<open>The loop of \<open>Start\<close>. Each iteration of the \<open>select\<close> is a step; other goroutines kick, update the
  secrets and report proxies in between.\<close>

datatype ('sel, 'r, 'x) syncer_event =
  KickEvent
| SecretsEvent secret_inputs
| ReportEvent "(int \<rightharpoonup> 'r proxy_with_reports list) \<Rightarrow> int list" "'r proxy_with_reports list"
| GenericSync "('sel, 'r, 'x) sync_env"
| SecretSync "('sel, 'r, 'x) sync_env"

inductive syncer_step ::
  "('sel, 'r, 'x) proxy_syncer \<Rightarrow> ('sel, 'r, 'x) syncer_event \<Rightarrow> ('sel, 'r, 'x) proxy_syncer \<Rightarrow> bool" where
  kick: "syncer_step s KickEvent (s\<lparr>ps_inputs := Kick (ps_inputs s)\<rparr>)"
| secrets: "syncer_step s (SecretsEvent v) (s\<lparr>ps_inputs := UpdateSecretInputs v (ps_inputs s)\<rparr>)"
| report: "HandleProxyReports ord prs (ps_status s, ps_world s) = (f, x) \<Longrightarrow>
    syncer_step s (ReportEvent ord prs) (s\<lparr>ps_status := f, ps_world := x\<rparr>)"
| generic_sync: "chan_recv (Next (genericEvent (ps_inputs s))) = Some (u, c) \<Longrightarrow>
    resyncProxies env (s\<lparr>ps_inputs := (ps_inputs s)\<lparr>genericEvent := (genericEvent (ps_inputs s))\<lparr>aq_queue := c\<rparr>\<rparr>\<rparr>) = Inr s' \<Longrightarrow>
    syncer_step s (GenericSync env) s'"
| secret_sync: "chan_recv (Next (secretEvent (ps_inputs s))) = Some (v, c) \<Longrightarrow>
    resyncProxies env (s\<lparr>ps_inputs := (ps_inputs s)\<lparr>secretEvent := (secretEvent (ps_inputs s))\<lparr>aq_queue := c\<rparr>\<rparr>,
      ps_secretsWarmed := True\<rparr>) = Inr s' \<Longrightarrow>
    syncer_step s (SecretSync env) s'"

inductive_cases syncer_stepE: "syncer_step s e s'"

end
