(* ===== verification/ProxySyncerProps.thy ===== *)
theory ProxySyncerProps
  imports ProxySyncer
begin

text \<open>
  Properties of the proxy syncer: statuses settle, nothing is written before the secrets are known,
  and the proxies of a resync are the ones the status syncer waits for.
\<close>

section \<open>Statuses settle\<close>

text \<open>Up to transition times, the status of a listener does not depend on the old status: one turn of
  the loop over the listeners acts on stripped reports as \<open>stripped_listener_status\<close>.\<close>

definition strip_report :: "gateway_report \<Rightarrow> gateway_report" where
  "strip_report g = g\<lparr>gr_listeners := (\<lambda>n. map_option strip_listener_status (gr_listeners g n))\<rparr>"

definition observed :: "int \<Rightarrow> condition \<Rightarrow> condition" where
  "observed gen c = strip_condition (c\<lparr>cond_ObservedGeneration := gen\<rparr>)"

definition stripped_listener_status ::
  "(condition list \<Rightarrow> string \<Rightarrow> condition option) \<Rightarrow> gateway_report \<times> listener_status list \<Rightarrow> 'sel listener \<Rightarrow>
   gateway_report \<times> listener_status list" where
  "stripped_listener_status findC = (\<lambda>(g, fs) lis.
     let (g, l) = gr_listener g (l_Name lis);
         l = addMissingListenerConditions findC l;
         l = l\<lparr>ls_Conditions := map (observed (gr_observedGeneration g)) (ls_Conditions l)\<rparr>
     in (g\<lparr>gr_listeners := (gr_listeners g)(l_Name lis \<mapsto> l)\<rparr>, fs @ [l]))"

lemma strip_simps [simp]:
  "cond_Type (strip_condition c) = cond_Type c"
  "strip_condition (strip_condition c) = strip_condition c"
  "observed gen (strip_condition c) = observed gen c"
  "strip_condition (to_condition rc) = to_condition rc"
  "ls_Conditions (strip_listener_status l) = map strip_condition (ls_Conditions l)"
  "gr_conditions (strip_report g) = gr_conditions g"
  "gr_observedGeneration (strip_report g) = gr_observedGeneration g"
  by (simp_all add: strip_condition_def observed_def to_condition_def strip_listener_status_def strip_report_def)

lemma strip_final_condition: "strip_condition (final_condition findC now olds gen c) = observed gen c"
  by (simp add: final_condition_def fresh_condition_def updated_condition_def strip_condition_def observed_def Let_def
      split: option.split)

lemma gr_listener_strip:
  assumes "gr_listener g n = (g', l)"
  shows "gr_listener (strip_report g) n = (strip_report g', strip_listener_status l)"
  using assms
  by (auto simp: gr_listener_def strip_report_def NewListenerReport_def strip_listener_status_def Let_def fun_eq_iff
      split: option.splits if_splits)

context condition_api
begin

lemma add_missing_strip: "add_missing findC (map strip_condition cs) m = map strip_condition (add_missing findC cs m)"
  by (simp add: add_missing_def find_none)

lemma foldl_add_missing_strip:
  "foldl (add_missing findC) (map strip_condition cs) ms = map strip_condition (foldl (add_missing findC) cs ms)"
  by (induction ms arbitrary: cs) (simp_all add: add_missing_strip)

lemma addMissingListener_strip:
  "addMissingListenerConditions findC (strip_listener_status l) = strip_listener_status (addMissingListenerConditions findC l)"
  by (rule listener_status.equality)
    (simp_all add: addMissing_eq strip_listener_status_def foldl_add_missing_strip del: foldl.simps,
     simp_all add: addMissingListenerConditions_def)

lemma buildListenerStatus_strip:
  assumes "gr_uniq g" "buildListenerStatus findC setC gw (g, fs) lis = (g', fs')"
  shows "stripped_listener_status findC (strip_report g, map strip_listener_status fs) lis =
    (strip_report g', map strip_listener_status fs')"
proof -
  obtain g1 l where gl: "gr_listener g (l_Name lis) = (g1, l)" by (cases "gr_listener g (l_Name lis)")
  let ?l = "addMissingListenerConditions findC l"
  define olds where "olds = (case indexFunc (\<lambda>s. ls_Name s = l_Name lis) (gs_Listeners (gw_Status gw)) of
      None \<Rightarrow> [] | Some i \<Rightarrow> ls_Conditions (gs_Listeners (gw_Status gw) ! i))"
  have "distinct (cond_types (ls_Conditions ?l))"
    using gr_listener_facts(5) [OF gl] assms(1) addMissingListener_distinct by blast
  note fin = finalConditions_distinct [OF this, of olds "gr_observedGeneration g1"]
  let ?s = "?l\<lparr>ls_Conditions := map (final_condition findC now olds (gr_observedGeneration g1)) (ls_Conditions ?l)\<rparr>"
  have g': "g' = g1\<lparr>gr_listeners := (gr_listeners g1)(l_Name lis \<mapsto> ?s)\<rparr>" and fs': "fs' = fs @ [?s]"
    using assms(2) gl fin by (auto simp: buildListenerStatus_def Let_def olds_def)
  have s: "strip_listener_status ?s =
      (strip_listener_status ?l)\<lparr>ls_Conditions := map (observed (gr_observedGeneration g1)) (ls_Conditions (strip_listener_status ?l))\<rparr>"
    by (simp add: strip_listener_status_def strip_final_condition comp_def)
  have r: "strip_report g' = (strip_report g1)\<lparr>gr_listeners := (gr_listeners (strip_report g1))(l_Name lis \<mapsto> strip_listener_status ?s)\<rparr>"
    by (simp add: g' strip_report_def fun_eq_iff)
  show ?thesis
    by (simp add: stripped_listener_status_def gr_listener_strip [OF gl] addMissingListener_strip Let_def r fs' s)
qed

lemma buildListenerStatus_strip_loop:
  assumes "gr_named g" "gr_uniq g" "foldl (buildListenerStatus findC setC gw) (g, fs) ls = (g', fs')"
  shows "foldl (stripped_listener_status findC) (strip_report g, map strip_listener_status fs) ls =
    (strip_report g', map strip_listener_status fs')"
  using assms
proof (induction ls arbitrary: g fs)
  case Nil
  then show ?case by simp
next
  case (Cons lis ls)
  obtain g1 fs1 where st: "buildListenerStatus findC setC gw (g, fs) lis = (g1, fs1)"
    by (cases "buildListenerStatus findC setC gw (g, fs) lis")
  note one = buildListenerStatus_step [OF st Cons.prems(1,2)] buildListenerStatus_strip [OF Cons.prems(2) st]
  show ?case using Cons.IH [of g1 fs1] Cons.prems(3) one st by simp
qed

text \<open>The status of a gateway up to transition times, from its report and its listeners alone.\<close>

lemma BuildGWStatus_strip:
  assumes "ReportMap_Gateway r gw = Some g" "gr_named g" "gr_uniq g" "BuildGWStatus findC setC gw r = (r', Some st)"
  shows "strip_gateway_status st = \<lparr>gs_Addresses = [],
    gs_Conditions = map (observed (gr_observedGeneration g)) (gr_conditions (addMissingGatewayConditions findC g)),
    gs_Listeners = snd (foldl (stripped_listener_status findC) (strip_report g, []) (gw_Listeners gw))\<rparr>"
proof -
  obtain g1 fs where loop: "foldl (buildListenerStatus findC setC gw) (g, []) (gw_Listeners gw) = (g1, fs)"
    by (cases "foldl (buildListenerStatus findC setC gw) (g, []) (gw_Listeners gw)")
  note l = buildListenerStatus_loop [OF loop assms(2,3)] buildListenerStatus_strip_loop [OF assms(2,3) loop]
  let ?g2 = "addMissingGatewayConditions findC g1"
  have c: "gr_conditions ?g2 = gr_conditions (addMissingGatewayConditions findC g)"
    using l(1) by (simp add: addMissing_eq del: foldl.simps)
  have "distinct (cond_types (gr_conditions ?g2))" using addMissingGateway_distinct l(1) assms(3) by (simp add: gr_uniq_def)
  note fin = finalConditions_distinct [OF this, of "gs_Conditions (gw_Status gw)" "gr_observedGeneration ?g2"]
  have "st = \<lparr>gs_Addresses = [], gs_Conditions = finalConditions findC setC (gs_Conditions (gw_Status gw))
      (gr_observedGeneration ?g2) (gr_conditions ?g2), gs_Listeners = fs\<rparr>"
    using assms(1,4) loop by (simp add: BuildGWStatus_def Let_def GatewayReport_GetConditions_def)
  then show ?thesis
    using l fin c by (simp add: strip_gateway_status_def strip_final_condition comp_def)
qed

end

lemma syncGatewayStatus_eq:
  assumes "BuildGWStatus (env_FindStatusCondition env) (env_SetStatusCondition env) gw rm = (rm', Some st)"
  shows "syncGatewayStatus env (rm, w) gw =
    (rm', if isGatewayStatusEqual (gw_Status gw) st then w else w @ [PatchGatewayStatus (gw\<lparr>gw_Status := st\<rparr>)])"
  using assms by (simp add: syncGatewayStatus_def)

lemma BuildGWStatus_some:
  assumes "ReportMap_Gateway rm gw = Some g"
  obtains rm' st where "BuildGWStatus findC setC gw rm = (rm', Some st)"
  using assms by (cases "BuildGWStatus findC setC gw rm") (auto simp: BuildGWStatus_def Let_def split: prod.splits)


text \<open>A gateway whose status carries addresses is patched by every resync: the status that is built
  has no addresses, and the comparison counts them.\<close>

theorem syncStatus_always_patches_addresses:
  assumes "ReportMap_Gateway rm gw = Some g" and "gs_Addresses (gw_Status gw) \<noteq> []"
  shows "\<exists>gw'. snd (syncGatewayStatus env (rm, w) gw) = w @ [PatchGatewayStatus gw'] \<and> gs_Addresses (gw_Status gw') = []"
proof -
  obtain r st where b: "BuildGWStatus (env_FindStatusCondition env) (env_SetStatusCondition env) gw rm = (r, Some st)"
    by (rule BuildGWStatus_some [OF assms(1)])
  have "gs_Addresses st = []" using b assms(1) by (auto simp: BuildGWStatus_def Let_def split: prod.splits)
  then show ?thesis
    using assms(2) by (simp add: syncGatewayStatus_eq [OF b] isGatewayStatusEqual_def strip_gateway_status_def)
qed

section \<open>What a resync leaves behind\<close>

lemma annotateProxy_facts [simp]:
  "getProxyNameNamespace (annotateProxy n p) = getProxyNameNamespace p"
  "px_Listeners (annotateProxy n p) = px_Listeners p"
  "controlled (annotateProxy n p) = controlled p"
  by (simp_all add: annotateProxy_def getProxyNameNamespace_def controlled_def Let_def)

lemma syncIdOf_annotateProxy:
  "- (2 ^ 63) \<le> n \<Longrightarrow> n < 2 ^ 63 \<Longrightarrow> syncIdOf (annotateProxy n p) = Some n"
  by (simp add: syncIdOf_def annotateProxy_def Let_def Atoi_Itoa)

definition annotated_by :: "int \<Rightarrow> ('sel, 'x) translation_loop \<Rightarrow> bool" where
  "annotated_by n ts \<longleftrightarrow> (\<forall>p \<in> set (tl_proxies ts). \<exists>q. p = annotateProxy n q)"

lemma translateGateway_annotated:
  assumes "translateGateway env reg ns n gw ts = Inr ts'" "annotated_by n ts"
  shows "annotated_by n ts'"
  using assms
  by (fastforce simp: translateGateway_def annotated_by_def Let_def elim!: bind_out_InrE split: option.splits)

lemma resyncProxies_parts:
  assumes "resyncProxies env s = Inr s'" "ps_secretsWarmed s" "env_ListGateways env = Inr gwl"
    and "env_CreatePluginRegistry env (ps_world s) = (reg, x)"
  obtains ts rm rm' w w' where
    "fold_out (translateGateway env reg (ps_writeNamespace s) (ps_totalResyncs s + 1)) gwl
       \<lparr>tl_reports = NewReportMap, tl_plugins = x, tl_proxies = [], tl_translated = []\<rparr> = Inr ts"
    "syncStatus env (tl_reports ts) gwl (ps_writes s) = (rm, w)"
    "syncRouteStatus env (ps_controllerName s) rm w = (rm', w')"
    "s' = s\<lparr>ps_totalResyncs := ps_totalResyncs s + 1,
       ps_status := QueueStatusForProxies (tl_proxies ts) reg (ps_totalResyncs s + 1) (ps_status s),
       ps_world := applyPostTranslationPlugins reg (tl_translated ts) (tl_plugins ts),
       ps_writes := w' @ [ReconcileProxies (ps_writeNamespace s) (tl_proxies ts) kubeGatewayProxyLabels]\<rparr>"
  using assms by (auto simp: resyncProxies_def Let_def reconcileProxies_def elim!: bind_out_InrE split: prod.splits)

text \<open>A resync and the status syncer agree. After a resync, the proxies given to the reconciler all
  carry the number of the resync in their annotation, as the status syncer reads it back, and the
  status syncer waits for exactly this sync of each of them, with the registry that produced them.\<close>

theorem resyncProxies_queues_status:
  assumes "resyncProxies env s = Inr s'" and "ps_secretsWarmed s" and "env_ListGateways env = Inr gwl"
    and "0 \<le> ps_totalResyncs s" and "ps_totalResyncs s + 1 < 2 ^ 63"
  shows "\<exists>proxies. last (ps_writes s') = ReconcileProxies (ps_writeNamespace s) proxies kubeGatewayProxyLabels \<and>
    (\<forall>p \<in> set proxies. syncIdOf p = Some (ps_totalResyncs s') \<and>
       pending (getProxyNameNamespace p) (ps_totalResyncs s') (fst (env_CreatePluginRegistry env (ps_world s))) (ps_status s'))"
proof -
  obtain reg x where reg: "env_CreatePluginRegistry env (ps_world s) = (reg, x)" by fastforce
  obtain ts rm rm' w w' where parts:
    "fold_out (translateGateway env reg (ps_writeNamespace s) (ps_totalResyncs s + 1)) gwl
       \<lparr>tl_reports = NewReportMap, tl_plugins = x, tl_proxies = [], tl_translated = []\<rparr> = Inr ts"
    "s' = s\<lparr>ps_totalResyncs := ps_totalResyncs s + 1,
       ps_status := QueueStatusForProxies (tl_proxies ts) reg (ps_totalResyncs s + 1) (ps_status s),
       ps_world := applyPostTranslationPlugins reg (tl_translated ts) (tl_plugins ts),
       ps_writes := w' @ [ReconcileProxies (ps_writeNamespace s) (tl_proxies ts) kubeGatewayProxyLabels]\<rparr>"
    by (rule resyncProxies_parts [OF assms(1-3) reg])
  have ann: "annotated_by (ps_totalResyncs s + 1) ts"
    by (rule fold_out_invariant [where P = "annotated_by (ps_totalResyncs s + 1)", OF _ _ parts(1)])
      (blast intro: translateGateway_annotated, simp add: annotated_by_def)
  have "syncIdOf p = Some (ps_totalResyncs s')" if "p \<in> set (tl_proxies ts)" for p
    using ann that syncIdOf_annotateProxy [of "ps_totalResyncs s + 1"] assms(4,5) parts(2) by (auto simp: annotated_by_def)
  moreover have "pending (getProxyNameNamespace p) (ps_totalResyncs s') reg (ps_status s')" if "p \<in> set (tl_proxies ts)" for p
    using that parts(2) by (auto simp: pending_def Queue_fields)
  ultimately show ?thesis using parts(2) reg by simp
qed

section \<open>Start-up\<close>

text \<open>Nothing happens before the secrets are known.\<close>

definition quiet :: "('sel, 'r, 'x) proxy_syncer \<Rightarrow> bool" where
  "quiet s \<longleftrightarrow> \<not> ps_secretsWarmed s \<and> ps_totalResyncs s = 0 \<and> ps_writes s = [] \<and>
     buf (secretEvent (ps_inputs s)) = [] \<and> dom (registryPerSync (ps_status s)) = {} \<and> dom (resyncsPerIteration (ps_status s)) = {}"

definition startup_inv :: "('sel, 'r, 'x) syncer_event list \<Rightarrow> ('sel, 'r, 'x) proxy_syncer \<Rightarrow> bool" where
  "startup_inv tr s \<longleftrightarrow> (\<forall>v. SecretsEvent v \<notin> set tr) \<longrightarrow> quiet s"

lemma resync_quiet: "quiet s \<Longrightarrow> resyncProxies env s = Inr s' \<Longrightarrow> quiet s'"
  by (simp add: resyncProxies_def quiet_def)

lemma Handle_quiet:
  assumes "dom (registryPerSync f) = {}" "dom (resyncsPerIteration f) = {}"
  shows "registryPerSync (fst (HandleProxyReports ord prs (f, x))) = Map.empty \<and>
    resyncsPerIteration (fst (HandleProxyReports ord prs (f, x))) = Map.empty"
proof -
  let ?h = "foldl handleReport (handle_start f) (filterProxiesByControllerName prs)"
  have h: "registryPerSync (hs_factory ?h) = Map.empty" "resyncsPerIteration (hs_factory ?h) = Map.empty"
    using foldl_handleReport_known [of "handle_start f" "filterProxiesByControllerName prs"] assms by auto
  have "registryPerSync (fst (foldl (applyReports m) (g, x) ns)) = Map.empty \<and>
      resyncsPerIteration (fst (foldl (applyReports m) (g, x) ns)) = Map.empty"
    if "registryPerSync g = Map.empty" "resyncsPerIteration g = Map.empty" for m g x ns
    using that by (induction ns arbitrary: g x) (auto simp: applyReports_def Let_def)
  from this [OF h] show ?thesis by (simp add: HandleProxyReports_def Let_def)
qed

lemma startup_step:
  assumes "startup_inv tr s" "syncer_step s e s'"
  shows "startup_inv (tr @ [e]) s'"
proof (cases "\<exists>v. SecretsEvent v \<in> set (tr @ [e])")
  case True
  then show ?thesis by (auto simp: startup_inv_def)
next
  case False
  then have q: "quiet s" using assms(1) by (auto simp: startup_inv_def)
  from assms(2) have "quiet s'"
  proof cases
    case kick
    then show ?thesis using q by (simp add: quiet_def Kick_def)
  next
    case (secrets v)
    then show ?thesis using False by auto
  next
    case (report ord prs f x)
    then show ?thesis using q Handle_quiet [of "ps_status s" ord prs "ps_world s"] by (simp add: quiet_def)
  next
    case (generic_sync u c env)
    have "quiet (s\<lparr>ps_inputs := (ps_inputs s)\<lparr>genericEvent := (genericEvent (ps_inputs s))\<lparr>aq_queue := c\<rparr>\<rparr>\<rparr>)"
      using q by (simp add: quiet_def)
    then show ?thesis by (rule resync_quiet [OF _ generic_sync(3)])
  next
    case (secret_sync v c env)
    then show ?thesis using q by (simp add: quiet_def queue_defs)
  qed
  then show ?thesis by (simp add: startup_inv_def)
qed

abbreviation syncer_init :: "string \<Rightarrow> string \<Rightarrow> 'x \<Rightarrow> ('sel, 'r, 'x) proxy_syncer" where
  "syncer_init name ns x \<equiv> NewProxySyncer name ns NewGatewayInputChannels NewStatusSyncerFactory x"

lemma startup_init: "startup_inv [] (syncer_init name ns x)"
  by (simp add: startup_inv_def quiet_def NewProxySyncer_def NewGatewayInputChannels_def NewStatusSyncerFactory_def)

interpretation syncer_startup: run_invariant syncer_step "syncer_init name ns x" startup_inv for name ns x
  by unfold_locales (auto intro: startup_init startup_step)

text \<open>Nothing is translated or written before the secrets are known: in a run without an update of
  the secrets, whatever kicks and reports arrive, the syncer has counted no resync, has written
  neither a status nor a proxy, and has queued nothing for the status syncer.\<close>

theorem syncer_waits_for_secrets:
  assumes "run syncer_step (syncer_init name ns x) tr s" and "\<forall>v. SecretsEvent v \<notin> set tr"
  shows "ps_totalResyncs s = 0 \<and> ps_writes s = [] \<and> registryPerSync (ps_status s) = Map.empty"
  using syncer_startup.invariant_run [OF assms(1)] assms(2) by (simp add: startup_inv_def quiet_def)

end
