(* ===== verification/Extensions.thy ===== *)
theory Extensions
  imports ProxySyncerProps
begin

text \<open>
  The open source extensions, \<open>projects/gateway2/extensions/extensions.go\<close>, and the list of plugins they
  register, \<open>BuildPlugins\<close> of \<open>translator/plugins/registry/plugin_registry.go\<close>. The plugins for the
  option resources are arguments: \<open>RouteOption\<close> (a route and status plugin), \<open>VirtualHostOption\<close> (a listener and
  status plugin), \<open>HttpListenerOption\<close> and \<open>ListenerOption\<close> (listener plugins).
\<close>

definition route_plugin_only :: "('sel, 'x) route_plugin \<Rightarrow> ('sel, 'r, 'x) plugin" where
  "route_plugin_only p = \<lparr>as_RoutePlugin = Some p, as_ListenerPlugin = None, as_PostTranslationPlugin = None, as_StatusPlugin = None\<rparr>"

definition listener_plugin_only :: "('sel, 'x) listener_plugin \<Rightarrow> ('sel, 'r, 'x) plugin" where
  "listener_plugin_only p = \<lparr>as_RoutePlugin = None, as_ListenerPlugin = Some p, as_PostTranslationPlugin = None, as_StatusPlugin = None\<rparr>"

record ('sel, 'r, 'x) option_plugins =
  routeoptions_route :: "('sel, 'x) route_plugin"
  routeoptions_status :: "('r, 'x) status_plugin"
  virtualhostoptions_listener :: "('sel, 'x) listener_plugin"
  virtualhostoptions_status :: "('r, 'x) status_plugin"
  httplisteneroptions_listener :: "('sel, 'x) listener_plugin"
  listeneroptions_listener :: "('sel, 'x) listener_plugin"

definition BuildPlugins ::
  "(string \<Rightarrow> string) \<Rightarrow> 'sel k8s_client \<Rightarrow> ('sel, 'r, 'x) option_plugins \<Rightarrow> ('sel, 'r, 'x) plugin list" where
  "BuildPlugins sanitize kc ops =
     [route_plugin_only headermodifier,
      route_plugin_only (mirror sanitize kc),
      route_plugin_only redirect,
      \<lparr>as_RoutePlugin = Some (routeoptions_route ops), as_ListenerPlugin = None,
       as_PostTranslationPlugin = None, as_StatusPlugin = Some (routeoptions_status ops)\<rparr>,
      \<lparr>as_RoutePlugin = None, as_ListenerPlugin = Some (virtualhostoptions_listener ops),
       as_PostTranslationPlugin = None, as_StatusPlugin = Some (virtualhostoptions_status ops)\<rparr>,
      listener_plugin_only (httplisteneroptions_listener ops),
      listener_plugin_only (listeneroptions_listener ops),
      route_plugin_only urlrewrite,
      route_plugin_only (directresponse kc)]"

definition CreatePluginRegistry ::
  "(string \<Rightarrow> string) \<Rightarrow> 'sel k8s_client \<Rightarrow> ('sel, 'r, 'x) option_plugins \<Rightarrow> ('sel, 'r, 'x) plugin_registry" where
  "CreatePluginRegistry sanitize kc ops = NewPluginRegistry (BuildPlugins sanitize kc ops)"

text \<open>The translator of every gateway; the orders in which it visits its maps and the fuel of its
  recursions are arguments.\<close>

definition GetTranslator ::
  "nat \<Rightarrow> 'cert tls_lib \<Rightarrow> 'sel k8s_client \<Rightarrow> ('sel gateway \<Rightarrow> port_number list) \<Rightarrow> (routes_by_host \<Rightarrow> routes_by_host) \<Rightarrow>
   'sel gateway \<Rightarrow> ('sel, 'r, 'x) plugin_registry \<Rightarrow> ('sel, 'x) gw_translator option" where
  "GetTranslator fuel lib kc ord visit gw pluginRegistry =
     Some (\<lambda>gateway. TranslateProxy fuel lib kc (ord gw) visit (reg_routePlugins pluginRegistry)
       (reg_listenerPlugins pluginRegistry) gateway)"

lemma CreatePluginRegistry_plugins [simp]:
  "reg_routePlugins (CreatePluginRegistry sanitize kc ops) = route_plugins_of sanitize kc (routeoptions_route ops)"
  "reg_listenerPlugins (CreatePluginRegistry sanitize kc ops) =
     [virtualhostoptions_listener ops, httplisteneroptions_listener ops, listeneroptions_listener ops]"
  "reg_statusPlugins (CreatePluginRegistry sanitize kc ops) = [routeoptions_status ops, virtualhostoptions_status ops]"
  "reg_postTranslationPlugins (CreatePluginRegistry sanitize kc ops) = []"
  by (simp_all add: CreatePluginRegistry_def BuildPlugins_def route_plugin_only_def listener_plugin_only_def
      route_plugins_of_def List.map_filter_def)

section \<open>A resync returns\<close>

text \<open>The cluster, the plugins and the orders of iteration are as the translation needs them.\<close>

definition ops_ok :: "('sel, 'r, 'x) option_plugins \<Rightarrow> bool" where
  "ops_ok ops \<longleftrightarrow> plugin_contract filters_admitted (routeoptions_route ops) \<and>
     listener_plugin_contract (virtualhostoptions_listener ops) \<and>
     listener_plugin_contract (httplisteneroptions_listener ops) \<and> listener_plugin_contract (listeneroptions_listener ops)"

definition gateways_ok :: "('sel gateway \<Rightarrow> port_number list) \<Rightarrow> 'sel gateway list \<Rightarrow> bool" where
  "gateways_ok ord gwl \<longleftrightarrow> (\<forall>gw \<in> set gwl. (\<forall>l \<in> set (gw_Listeners gw). tls_ok (l_TLS l)) \<and>
     iter_order (portMap (filter supported_listener (gw_Listeners gw))) (ord gw))"

definition listable :: "'sel k8s_client \<Rightarrow> 'sel gateway \<Rightarrow> bool" where
  "listable kc gw \<longleftrightarrow> (\<exists>rs. kc_ListRoutesByTarget kc (nn_String (gw_key gw)) = Inr rs)"

text \<open>The proxies made for a list of gateways.\<close>

definition proxies_for :: "'sel k8s_client \<Rightarrow> string \<Rightarrow> 'sel gateway list \<Rightarrow> proxy list \<Rightarrow> bool" where
  "proxies_for kc ns gws ps \<longleftrightarrow>
     map getProxyNameNamespace ps = map (\<lambda>gw. NamespacedName ns (gw_Namespace gw @ ''-'' @ gw_Name gw)) (filter (listable kc) gws) \<and>
     (\<forall>p \<in> set ps. controlled p \<and> list_all listener_wf (px_Listeners p) \<and> distinct (map gl_BindPort (px_Listeners p)))"

lemma proxies_for_Nil [simp]: "proxies_for kc ns [] []"
  by (simp add: proxies_for_def)

lemma proxies_for_append:
  "proxies_for kc ns gws ps \<Longrightarrow> proxies_for kc ns gws' ps' \<Longrightarrow> proxies_for kc ns (gws @ gws') (ps @ ps')"
  by (auto simp: proxies_for_def)

lemma translateGateway_ok:
  assumes N: "finite N" "client_within kc N" "card N < fuel" and client: "client_ok kc" "secrets_typed kc"
    and ops: "ops_ok ops" and visit: "visits visit" and gw: "gateways_ok ord [gw]"
    and tr: "env_GetTranslator env = GetTranslator fuel lib kc ord visit"
  shows "\<exists>ts' ps. translateGateway env (CreatePluginRegistry sanitize kc ops) ns n gw ts = Inr ts' \<and>
    tl_proxies ts' = tl_proxies ts @ ps \<and> proxies_for kc ns [gw] ps"
proof -
  have g: "\<forall>l \<in> set (gw_Listeners gw). tls_ok (l_TLS l)" "iter_order (portMap (filter supported_listener (gw_Listeners gw))) (ord gw)"
    using gw by (auto simp: gateways_ok_def)
  have o: "plugin_contract filters_admitted (routeoptions_route ops)"
    "\<forall>p \<in> set [virtualhostoptions_listener ops, httplisteneroptions_listener ops, listeneroptions_listener ops]. listener_plugin_contract p"
    using ops by (simp_all add: ops_ok_def)
  obtain p rm x where t: "TranslateProxy fuel lib kc (ord gw) visit (route_plugins_of sanitize kc (routeoptions_route ops))
      [virtualhostoptions_listener ops, httplisteneroptions_listener ops, listeneroptions_listener ops] gw ns (tl_reports ts, tl_plugins ts) = Inr (p, rm, x)"
    and none: "p = None \<longleftrightarrow> (\<exists>e. kc_ListRoutesByTarget kc (nn_String (gw_key gw)) = Inl e)"
    and wf0: "case p of None \<Rightarrow> True | Some px \<Rightarrow> px_Metadata px = proxyMetadata gw ns \<and> list_all listener_wf (px_Listeners px) \<and>
      distinct (map gl_BindPort (px_Listeners px)) \<and> (\<forall>l \<in> set (px_Listeners px). 1024 \<le> gl_BindPort l) \<and>
      gl_BindPort ` set (px_Listeners px) = (\<lambda>l. finalPort (l_Port l)) `
        {l \<in> set (gw_Listeners gw). supported_listener l \<and> unconflicted (filter supported_listener (gw_Listeners gw)) l}"
    using TranslateProxy_returns [OF N client g(1) o visit g(2), of lib sanitize ns "tl_reports ts" "tl_plugins ts"]
    by (elim exE conjE) (rule that)
  have wf: "px_Metadata px = proxyMetadata gw ns" "list_all listener_wf (px_Listeners px)" "distinct (map gl_BindPort (px_Listeners px))"
    if "p = Some px" for px
    using wf0 that by simp_all
  have l: "listable kc gw \<longleftrightarrow> p \<noteq> None"
    using none by (cases "kc_ListRoutesByTarget kc (nn_String (gw_key gw))") (auto simp: listable_def)
  show ?thesis
  proof (cases p)
    case None
    then show ?thesis using t l by (simp add: translateGateway_def tr GetTranslator_def proxies_for_def)
  next
    case (Some px)
    have "getProxyNameNamespace px = NamespacedName ns (gw_Namespace gw @ ''-'' @ gw_Name gw)" "controlled px"
      using wf [OF Some] by (simp_all add: getProxyNameNamespace_def controlled_def proxyMetadata_def map_get_def)
    then show ?thesis
      using t l wf [OF Some] Some by (simp add: translateGateway_def tr GetTranslator_def proxies_for_def)
  qed
qed

lemma translateGateways_ok:
  assumes N: "finite N" "client_within kc N" "card N < fuel" and client: "client_ok kc" "secrets_typed kc"
    and ops: "ops_ok ops" and visit: "visits visit" and gwl: "gateways_ok ord gwl"
    and tr: "env_GetTranslator env = GetTranslator fuel lib kc ord visit"
  shows "\<exists>ts' ps. fold_out (translateGateway env (CreatePluginRegistry sanitize kc ops) ns n) gwl ts = Inr ts' \<and>
    tl_proxies ts' = tl_proxies ts @ ps \<and> proxies_for kc ns gwl ps"
  using gwl
proof (induction gwl arbitrary: ts)
  case Nil
  show ?case by simp
next
  case (Cons gw gwl)
  then have c: "gateways_ok ord [gw]" "gateways_ok ord gwl" by (simp_all add: gateways_ok_def)
  obtain ts1 ps1 where 1: "translateGateway env (CreatePluginRegistry sanitize kc ops) ns n gw ts = Inr ts1"
    "tl_proxies ts1 = tl_proxies ts @ ps1" "proxies_for kc ns [gw] ps1"
    using translateGateway_ok [OF N client ops visit c(1) tr] by blast
  obtain ts2 ps2 where 2: "fold_out (translateGateway env (CreatePluginRegistry sanitize kc ops) ns n) gwl ts1 = Inr ts2"
    "tl_proxies ts2 = tl_proxies ts1 @ ps2" "proxies_for kc ns gwl ps2"
    using Cons.IH [OF c(2), of ts1] by blast
  show ?case using 1 2 proxies_for_append [OF 1(3) 2(3)] by simp
qed

end
