(* ===== verification/PolicyPlugins.thy ===== *)
theory PolicyPlugins
  imports RouteOptionsPlugin ListenerOptionsPlugins Extensions
begin

text \<open>
  The plugins for option resources in a registry. Every registry has plugin objects of its own, because
  \<open>BuildPlugins\<close> makes new ones, and a registry of an earlier sync may still be used to report statuses. So the
  state of the plugins is a store of plugin instances, and the plugins of a registry work on the instance
  that was allocated for it.
\<close>

record 'st policy_instance =
  pin_routeOptions :: "'st legacy_status_cache"
  pin_virtualHostOptions :: "'st classic_status_cache"

record 'st policy_store =
  pst_next :: nat
  pst_instances :: "nat \<Rightarrow> 'st policy_instance"

definition on_routeOptions :: "nat \<Rightarrow> ('sel, 'st legacy_status_cache) route_plugin \<Rightarrow> ('sel, 'st policy_store) route_plugin" where
  "on_routeOptions i p ctx r = (\<lambda>(rm, w).
     bind_out (p ctx r (rm, pin_routeOptions (pst_instances w i))) (\<lambda>(e, r, rm, c).
       Inr (e, r, rm, w\<lparr>pst_instances := (pst_instances w)(i := (pst_instances w i)\<lparr>pin_routeOptions := c\<rparr>)\<rparr>)))"

definition on_virtualHostOptions :: "nat \<Rightarrow> ('sel, 'st classic_status_cache) listener_plugin \<Rightarrow> ('sel, 'st policy_store) listener_plugin" where
  "on_virtualHostOptions i p gw l out = (\<lambda>(rm, w).
     bind_out (p gw l out (rm, pin_virtualHostOptions (pst_instances w i))) (\<lambda>(e, out, rm, c).
       Inr (e, out, rm, w\<lparr>pst_instances := (pst_instances w)(i := (pst_instances w i)\<lparr>pin_virtualHostOptions := c\<rparr>)\<rparr>)))"

text \<open>What the plugins read of the cluster.\<close>

record policy_env =
  pe_RouteOptions :: route_options_env
  pe_VirtualHostOptions :: "option_fields list_policies"
  pe_HttpListenerOptions :: "option_fields list_policies"
  pe_ListenerOptions :: "option_fields list_policies"
  pe_Hash :: "option_fields option \<Rightarrow> 64 word"

definition policy_ops ::
  "'sel k8s_client \<Rightarrow> policy_env \<Rightarrow> ('r, 'st policy_store) status_plugin \<Rightarrow> ('r, 'st policy_store) status_plugin \<Rightarrow> nat \<Rightarrow>
   ('sel, 'r, 'st policy_store) option_plugins" where
  "policy_ops kc env ro_status vho_status i =
     \<lparr>routeoptions_route = on_routeOptions i (routeoptions kc (pe_RouteOptions env)),
      routeoptions_status = ro_status,
      virtualhostoptions_listener = on_virtualHostOptions i (virtualhostoptions (pe_VirtualHostOptions env)),
      virtualhostoptions_status = vho_status,
      httplisteneroptions_listener = httplisteneroptions (pe_HttpListenerOptions env) (pe_Hash env),
      listeneroptions_listener = listeneroptions (pe_ListenerOptions env)\<rparr>"

text \<open>A new registry, with new plugin objects. The status plugins are arguments, given the instance.\<close>

definition NewRegistry ::
  "(string \<Rightarrow> string) \<Rightarrow> 'sel k8s_client \<Rightarrow> policy_env \<Rightarrow> (nat \<Rightarrow> ('r, 'st policy_store) status_plugin) \<Rightarrow> (nat \<Rightarrow> ('r, 'st policy_store) status_plugin) \<Rightarrow>
   'st policy_store \<Rightarrow> ('sel, 'r, 'st policy_store) plugin_registry \<times> 'st policy_store" where
  "NewRegistry sanitize kc env ro_status vho_status w =
     (let i = pst_next w
      in (CreatePluginRegistry sanitize kc (policy_ops kc env (ro_status i) (vho_status i) i),
          w\<lparr>pst_next := Suc i, pst_instances := (pst_instances w)(i :=
             \<lparr>pin_routeOptions = Map.empty, pin_virtualHostOptions = Map.empty\<rparr>)\<rparr>))"

text \<open>The lists of the API server follow the indexes.\<close>

definition policy_env_ok :: "policy_env \<Rightarrow> bool" where
  "policy_env_ok env \<longleftrightarrow> lists_by_index virtualHostOptionTargetRefIndexer (pe_VirtualHostOptions env) \<and>
     lists_by_index httpListenerOptionTargetRefIndexer (pe_HttpListenerOptions env) \<and>
     lists_by_index listenerOptionTargetRefIndexer (pe_ListenerOptions env)"

lemma on_routeOptions_contract:
  fixes p :: "('sel, 'st legacy_status_cache) route_plugin"
  assumes "plugin_contract A p"
  shows "plugin_contract A (on_routeOptions i p)"
proof (rule plugin_contractI)
  fix ctx :: "'sel route_context" and r :: gloo_route and s :: "'st policy_store plugin_state"
  assume "A (rule_Filters (rctx_Rule ctx))" "rt_Options r \<noteq> None"
  from plugin_contractD(1) [OF assms this, of "(fst s, pin_routeOptions (pst_instances (snd s) i))"]
  show "\<exists>e r' s'. on_routeOptions i p ctx r s = Inr (e, r', s')" by (auto simp: on_routeOptions_def split: prod.split)
next
  fix ctx :: "'sel route_context" and r r' :: gloo_route and e and s s' :: "'st policy_store plugin_state"
  assume "on_routeOptions i p ctx r s = Inr (e, r', s')"
  then obtain t where "p ctx r (fst s, pin_routeOptions (pst_instances (snd s) i)) = Inr (e, r', t)"
    by (auto simp: on_routeOptions_def elim!: bind_out_InrE split: prod.splits)
  note c = plugin_contractD(2-4) [OF assms this]
  show "rt_Matchers r' = rt_Matchers r" by (rule c(1))
  show "rt_Action r' \<noteq> None" if "rt_Action r \<noteq> None" by (rule c(2) [OF that])
  show "rt_Options r' \<noteq> None" if "rt_Options r \<noteq> None" by (rule c(3) [OF that])
qed

lemma on_virtualHostOptions_contract:
  fixes p :: "('sel, 'st classic_status_cache) listener_plugin"
  assumes "listener_plugin_contract p"
  shows "listener_plugin_contract (on_virtualHostOptions i p)"
  unfolding listener_plugin_contract_def
proof (intro allI)
  fix gw :: "'sel gateway" and l out and s :: "'st policy_store plugin_state"
  obtain e out' t where "p gw l out (fst s, pin_virtualHostOptions (pst_instances (snd s) i)) = Inr (e, out', t)"
    "gl_BindPort out' = gl_BindPort out" "listener_wf out \<longrightarrow> listener_wf out'"
    using assms unfolding listener_plugin_contract_def by blast
  then show "\<exists>e out' s'. on_virtualHostOptions i p gw l out s = Inr (e, out', s') \<and> gl_BindPort out' = gl_BindPort out \<and> (listener_wf out \<longrightarrow> listener_wf out')"
    by (cases t) (auto simp: on_virtualHostOptions_def split: prod.split)
qed

text \<open>The plugins of the registry keep the contracts that the translator needs.\<close>

lemma policy_ops_ok: "policy_env_ok env \<Longrightarrow> ops_ok (policy_ops kc env ro_status vho_status i)"
  by (simp add: ops_ok_def policy_ops_def policy_env_ok_def on_routeOptions_contract routeoptions_contract
      on_virtualHostOptions_contract virtualhostoptions_contract httplisteneroptions_contract listeneroptions_contract)

text \<open>The plugins of one registry do not touch the instances of another.\<close>

lemma on_routeOptions_frame:
  "on_routeOptions i p ctx r (rm, w) = Inr (e, r', rm', w') \<Longrightarrow> j \<noteq> i \<Longrightarrow> pst_instances w' j = pst_instances w j"
  by (auto simp: on_routeOptions_def elim!: bind_out_InrE)

lemma on_virtualHostOptions_frame:
  "on_virtualHostOptions i p gw l out (rm, w) = Inr (e, out', rm', w') \<Longrightarrow> j \<noteq> i \<Longrightarrow> pst_instances w' j = pst_instances w j"
  by (auto simp: on_virtualHostOptions_def elim!: bind_out_InrE)

end
