(* ===== verification/PolicyExamples.thy ===== *)
theory PolicyExamples
  imports PolicyPlugins
begin

text \<open>
  Concrete policies: the hypotheses of the theorems on the plugins for option resources can hold, and what
  the code does in three cases that its comments and messages describe otherwise.
\<close>

section \<open>An order of names\<close>

instantiation namespaced_name :: linorder
begin

definition less_eq_namespaced_name :: "namespaced_name \<Rightarrow> namespaced_name \<Rightarrow> bool" where
  "less_eq_namespaced_name a b \<longleftrightarrow> nn_Namespace a < nn_Namespace b \<or> nn_Namespace a = nn_Namespace b \<and> nn_Name a \<le> nn_Name b"

definition less_namespaced_name :: "namespaced_name \<Rightarrow> namespaced_name \<Rightarrow> bool" where
  "less_namespaced_name a b \<longleftrightarrow> a \<le> b \<and> \<not> b \<le> a"

instance
  by standard (auto simp: less_eq_namespaced_name_def less_namespaced_name_def intro: namespaced_name.expand)

end

definition sorted_keys :: "('k::linorder \<rightharpoonup> 'v) \<Rightarrow> 'k list" where
  "sorted_keys m = sorted_list_of_set (dom m)"

lemma sorted_keys_visits: "visits_all sorted_keys"
  by (simp add: visits_all_def iter_order_def sorted_keys_def)

section \<open>Route options\<close>

definition x_target :: "string \<Rightarrow> string \<Rightarrow> string option \<Rightarrow> policy_target_ref option" where
  "x_target kind name section' = Some \<lparr>ptr_Group = GroupName, ptr_Kind = kind, ptr_Name = name, ptr_Namespace = None, ptr_SectionName = section'\<rparr>"

definition x_policy :: "string \<Rightarrow> string \<Rightarrow> int \<Rightarrow> policy_target_ref option \<Rightarrow> 'o option \<Rightarrow> 'o policy" where
  "x_policy kind name time ref opts = \<lparr>pol_Namespace = ''ns'', pol_Name = name, pol_Kind = kind, pol_Generation = 1,
     pol_CreationTimestamp = time, pol_TargetRefs = [ref], pol_Options = opts\<rparr>"

definition x_ro :: "string \<Rightarrow> int \<Rightarrow> string \<Rightarrow> route_option" where
  "x_ro name time prefix = x_policy ''RouteOption'' name time (x_target HTTPRouteKind ''p'' None)
     (Some (NewRouteOptions\<lparr>ro_PrefixRewrite := Some prefix\<rparr>))"

definition x_env :: route_options_env where
  "x_env = \<lparr>roe_List = (\<lambda>key ns. Inr (if key = ''ns/p'' \<and> ns = ''ns'' then [x_ro ''new'' 5 ''/new'', x_ro ''old'' 3 ''/old''] else [])),
     roe_Multierror = hd\<rparr>"

lemma x_sorted: "SortByCreationTime [x_ro ''new'' 5 ''/new'', x_ro ''old'' 3 ''/old''] = [x_ro ''old'' 3 ''/old'', x_ro ''new'' 5 ''/new'']"
  by (simp add: SortByCreationTime_def sort_stable_def creationLess_def x_ro_def x_policy_def)

lemma x_no_filters: "lookupFilterAttachments kc env route (rctx_Rule (p_ctx [])) = Inr (Inr [])"
  by (simp add: lookupFilterAttachments_def FindExtensionRefFilters_def p_ctx_def)

lemma x_route_key: "hr_key (rctx_Route (p_ctx fs)) = NamespacedName ''ns'' ''p''" "hr_Namespace (rctx_Route (p_ctx fs)) = ''ns''"
  by (simp_all add: p_ctx_def q_parent_def q_route_def hr_key_def)


text \<open>A filter that refers to a resource that does not exist. The message has the group in the place of
  the name.\<close>

definition x_filter :: http_route_filter where
  "x_filter = (p_filter ''ExtensionRef'')\<lparr>hrf_ExtensionRef := Some \<lparr>lor_Group = ''gateway.solo.io'', lor_Kind = ''RouteOption'', lor_Name = ''opts''\<rparr>\<rparr>"

lemma x_lookup:
  "lookupFilterAttachments q_client x_env (hr_key (rctx_Route (p_ctx [x_filter]))) (rctx_Rule (p_ctx [x_filter])) =
     Inr (Inl (ErrMsg (''extensionRef '' @ quoted ''gateway.solo.io'' @ '' of type RouteOption.opts in namespace '' @ quoted ''ns'' @ '' not found'')))"
  by (simp add: lookupFilterAttachments_def FindExtensionRefFilters_def p_ctx_def x_filter_def p_filter_def routeOptionGK_def lookupFilter_def
      GetExtensionRefObjFrom_def GetLocalObjRef_def getRef_def q_client_def extensionRefLookup_def q_parent_def q_route_def hr_key_def
      errFilterNotFound_def quoted_def x_env_def)

theorem routeoptions_error_witness:
  "\<exists>err rm. routeoptions q_client x_env (p_ctx [x_filter]) p_route (NewReportMap, Map.empty) = Inr (Some err, p_route, rm, Map.empty)"
  using routeoptions_error [OF x_lookup, where out = p_route and rm = NewReportMap and cache = Map.empty] by blast

section \<open>Statuses\<close>

text \<open>A library whose reports are lists of the entries, in which accepting adds an entry.\<close>

type_synonym x_report = "(namespaced_name \<times> string list) list"

definition x_status_lib :: "(unit, unit, namespaced_name, x_report) status_lib" where
  "x_status_lib = \<lparr>sl_StatusFromReport = (\<lambda>_. ()), sl_Read = (\<lambda>k. k), sl_NewReports = [],
     sl_Accept = (\<lambda>k r. AList.update k [] r), sl_AddError = (\<lambda>k e r. AList.update k ((case map_of r k of None \<Rightarrow> [] | Some es \<Rightarrow> es) @ [e]) r),
     sl_AddWarnings = (\<lambda>k ws r. r), sl_WriteReports = (\<lambda>_ _. None)\<rparr>"

definition x_source :: "string \<Rightarrow> source_ref" where
  "x_source name = \<lparr>src_Kind = ''RouteOption'', src_Ref = \<lparr>rref_Name = name, rref_Namespace = ''ns''\<rparr>, src_Generation = 1\<rparr>"

definition x_pwr :: "unit proxy_reports proxy_with_reports" where
  "x_pwr = \<lparr>pwr_Proxy = \<lparr>px_Metadata = \<lparr>pmd_Name = ''gw'', pmd_Namespace = ''ns'', pmd_Labels = Map.empty, pmd_Annotations = None\<rparr>, px_Listeners = []\<rparr>,
     pwr_Reports = \<lparr>prp_Report = (), prp_ListenerReports = [\<lparr>lr_HttpListenerReports = [''l'' \<mapsto>
       [\<lparr>vhr_Errors = [], vhr_RouteReports = [[\<lparr>rpe_Reason = ''bad'', rpe_Metadata = Some [x_source ''a'', x_source ''b'']\<rparr>]]\<rparr>]]\<rparr>]\<rparr>\<rparr>"

definition x_cache :: "unit legacy_status_cache" where
  "x_cache = trackAcceptedRouteOptions [x_source ''a'', x_source ''b''] Map.empty"

lemma x_errors: "extractRouteErrors sorted_keys (prp_ListenerReports (pwr_Reports x_pwr)) =
    [NamespacedName ''ns'' ''a'' \<mapsto> [\<lparr>rpe_Reason = ''bad'', rpe_Metadata = Some [x_source ''a'', x_source ''b'']\<rparr>]]"
  by (simp add: extractRouteErrors_def getAllRouteReports_def x_pwr_def sorted_keys_def addError_def extractSourceKeys_def x_source_def src_key_def)

lemma x_cache_eq: "x_cache = [NamespacedName ''ns'' ''a'' \<mapsto> newLegacyStatus, NamespacedName ''ns'' ''b'' \<mapsto> newLegacyStatus]"
  by (simp add: x_cache_def trackAcceptedRouteOptions_def x_source_def src_key_def)

theorem routeoptions_status_witness:
  "\<exists>cache' keys st. routeoptions_ApplyStatusPlugin x_status_lib sorted_keys sorted_keys sorted_keys [x_pwr] x_cache =
      Inr (cache', map (\<lambda>i. (report_after x_status_lib (addErrors x_status_lib) cache' (take (Suc i) keys) (sl_NewReports x_status_lib),
        ls_subresourceStatus (the (cache' (keys ! i))))) [0..<length keys], None) \<and>
    set keys = dom x_cache \<and> cache' (NamespacedName ''ns'' ''a'') = Some st \<and> map rpe_Reason (ls_errors st) = [''bad'']"
proof -
  have fin: "finite (dom x_cache)" by (simp add: x_cache_eq)
  have known: "\<forall>pwr \<in> set [x_pwr]. dom (extractRouteErrors sorted_keys (prp_ListenerReports (pwr_Reports pwr))) \<subseteq> dom x_cache"
    by (simp add: x_errors x_cache_eq)
  have writes: "\<forall>r st. sl_WriteReports x_status_lib r st = None" by (simp add: x_status_lib_def)
  have k: "x_cache (NamespacedName ''ns'' ''a'') = Some newLegacyStatus" by (simp add: x_cache_eq)
  have e: "errors_of ''RouteOption'' (route_errors sorted_keys (prp_ListenerReports (pwr_Reports x_pwr))) (NamespacedName ''ns'' ''a'') =
      [\<lparr>rpe_Reason = ''bad'', rpe_Metadata = Some [x_source ''a'', x_source ''b'']\<rparr>]"
    using ro_errors.extract_get [of sorted_keys "prp_ListenerReports (pwr_Reports x_pwr)" "NamespacedName ''ns'' ''a''"]
    by (simp add: x_errors)
  from routeoptions_status [OF sorted_keys_visits sorted_keys_visits fin known writes] k e
  show ?thesis by (fastforce simp: newLegacyStatus_def)
qed

text \<open>Two policies of one route with an error: only the first gets the error, and the second write
  reports the first policy again, with the statuses of the second, which has none.\<close>

lemma second_write_mixes_statuses:
  "\<exists>c. routeoptions_ApplyStatusPlugin x_status_lib sorted_keys sorted_keys sorted_keys [x_pwr] x_cache =
     Inr (c, [([(NamespacedName ''ns'' ''a'', [''bad''])], [''ns~gw'' \<mapsto> ()]),
              ([(NamespacedName ''ns'' ''a'', [''bad'']), (NamespacedName ''ns'' ''b'', [])], Map.empty)], None)"
proof -
  have k: "sorted_keys m = [NamespacedName ''ns'' ''a'', NamespacedName ''ns'' ''b'']" if "dom m = {NamespacedName ''ns'' ''a'', NamespacedName ''ns'' ''b''}"
    for m :: "namespaced_name \<rightharpoonup> unit legacy_status"
    unfolding sorted_keys_def that
    by (simp add: sorted_list_of_set_insert_remove less_eq_namespaced_name_def)
  have s: "sorted_keys [NamespacedName ''ns'' ''a'' \<mapsto> es] = [NamespacedName ''ns'' ''a'']" for es :: "report_error list"
    by (simp add: sorted_keys_def)
  have key: "SnapshotCacheKey (pwr_Proxy x_pwr) = ''ns~gw''" by (simp add: SnapshotCacheKey_def x_pwr_def map_get_def)
  define c where "c = [NamespacedName ''ns'' ''a'' \<mapsto> \<lparr>ls_subresourceStatus = [''ns~gw'' \<mapsto> ()],
      ls_errors = [\<lparr>rpe_Reason = ''bad'', rpe_Metadata = Some [x_source ''a'', x_source ''b'']\<rparr>]\<rparr>,
    NamespacedName ''ns'' ''b'' \<mapsto> \<lparr>ls_subresourceStatus = Map.empty, ls_errors = []\<rparr>]"
  have "recordProxy NilMapWrite x_status_lib (extractRouteErrors sorted_keys) sorted_keys x_pwr x_cache = Inr c"
    by (simp add: recordProxy_def x_errors s recordErrors_def key x_cache_eq newLegacyStatus_def map_get_def x_status_lib_def c_def fun_upd_twist)
  moreover have "sorted_keys c = [NamespacedName ''ns'' ''a'', NamespacedName ''ns'' ''b'']" by (rule k) (auto simp: c_def)
  moreover have "writeStatuses x_status_lib (addErrors x_status_lib) c [NamespacedName ''ns'' ''a'', NamespacedName ''ns'' ''b''] (sl_NewReports x_status_lib) [] =
      ([([(NamespacedName ''ns'' ''a'', [''bad''])], [''ns~gw'' \<mapsto> ()]),
        ([(NamespacedName ''ns'' ''a'', [''bad'']), (NamespacedName ''ns'' ''b'', [])], Map.empty)], None)"
    by (simp add: c_def addErrors_def x_status_lib_def Let_def)
  ultimately show ?thesis by (simp add: routeoptions_ApplyStatusPlugin_def)
qed

section \<open>Listener options\<close>

definition x_vho :: "string \<Rightarrow> int \<Rightarrow> string option \<Rightarrow> option_fields \<Rightarrow> virtual_host_option" where
  "x_vho name time section' opts = x_policy ''VirtualHostOption'' name time (x_target GatewayKind ''gw'' section') (Some opts)"

definition x_list :: "option_fields list_policies" where
  "x_list key ns = Inr (if key = ''ns/gw'' \<and> ns = ''ns'' then [x_vho ''all'' 1 None [(''Cors'', ''x'')], x_vho ''http'' 2 (Some ''http'') [(''Cors'', ''y'')]] else [])"

lemma x_list_ok: "lists_by_index (targetRefIndexer GatewayKind) x_list"
  by (auto simp: lists_by_index_def x_list_def x_vho_def x_policy_def x_target_def targetRefIndexer_def StringValue_GetValue_def nn_String_def split: if_splits)

definition x_out :: gloo_listener where
  "x_out = \<lparr>gl_Name = ''l'', gl_BindAddress = ''::'', gl_BindPort = 8080, gl_VirtualHosts = [''h'' \<mapsto> \<lparr>vh_Name = ''h'', vh_Domains = [''h''], vh_Routes = [],
       vh_Options = None, vh_Sources = None\<rparr>], gl_HttpFilterChains = [\<lparr>hfc_SslConfig = None, hfc_VirtualHostRefs = [''h''], hfc_HttpOptionsRef = []\<rparr>],
     gl_HttpOptions = Map.empty, gl_Options = None, gl_Sources = None\<rparr>"

lemma x_list_gw: "x_list (nn_String (gw_key q_gw)) (gw_Namespace q_gw) =
    Inr [x_vho ''all'' 1 None [(''Cors'', ''x'')], x_vho ''http'' 2 (Some ''http'') [(''Cors'', ''y'')]]"
  by (simp add: x_list_def q_gw_def gw_key_def nn_String_def)

lemma x_names: "gw_Name q_gw \<noteq> []" "gw_Namespace q_gw \<noteq> []"
  by (simp_all add: q_gw_def)

lemma x_attaches: "attaches (q_listener None) (x_vho ''all'' 1 None opts)" "attaches (q_listener None) (x_vho ''http'' 2 (Some ''http'') opts)"
  by (simp_all add: attaches_def section_of_def x_vho_def x_policy_def x_target_def GetSectionName_def StringValue_GetValue_def q_listener_def)

theorem virtualhostoptions_correct_witness:
  "\<exists>out' cache'. virtualhostoptions x_list q_gw (q_listener None) x_out (NewReportMap, Map.empty :: unit classic_status_cache) = Inr (None, out', NewReportMap, cache') \<and>
     dom cache' = {NamespacedName ''ns'' ''all'', NamespacedName ''ns'' ''http''}"
proof -
  let ?items = "[x_vho ''all'' 1 None [(''Cors'', ''x'')], x_vho ''http'' 2 (Some ''http'') [(''Cors'', ''y'')]]"
  let ?run = "virtualhostoptions x_list q_gw (q_listener None) x_out (NewReportMap, Map.empty :: unit classic_status_cache)"
  obtain ps where ps: "mset ps = mset (filter (attaches (q_listener None)) ?items)"
    and r: "ps \<noteq> [] \<Longrightarrow> \<exists>out' cache'. ?run = Inr (None, out', NewReportMap, cache') \<and> dom cache' = dom (Map.empty :: unit classic_status_cache) \<union> pol_key ` set ps"
    using virtualhostoptions_correct [OF x_list_ok [folded virtualHostOptionTargetRefIndexer_def] x_list_gw x_names, of "q_listener None" x_out NewReportMap
        "Map.empty :: unit classic_status_cache"]
  proof (elim exE conjE, goal_cases)
    case (1 ps)
    have "\<exists>out' cache'. ?run = Inr (None, out', NewReportMap, cache') \<and> dom cache' = dom (Map.empty :: unit classic_status_cache) \<union> pol_key ` set ps"
      if "ps \<noteq> []"
    proof (cases ps)
      case Nil
      with that show ?thesis by simp
    next
      case (Cons p others)
      from 1(4) show ?thesis unfolding Cons list.case Let_def by blast
    qed
    with 1(1,2) show ?case by blast
  qed
  have "mset ps = mset ?items" unfolding ps by (simp add: x_attaches)
  then have "set ps = set ?items" by (rule mset_eq_setD)
  moreover from this have "ps \<noteq> []" by force
  moreover have "pol_key ` set ?items = {NamespacedName ''ns'' ''all'', NamespacedName ''ns'' ''http''}"
    by (simp add: x_vho_def x_policy_def pol_key_def)
  ultimately obtain out' cache' where "?run = Inr (None, out', NewReportMap, cache')"
    "dom cache' = {NamespacedName ''ns'' ''all'', NamespacedName ''ns'' ''http''}" using r by auto
  then show ?thesis by blast
qed

theorem listener_options_correct_witness:
  "\<exists>p. listeneroptions x_list q_gw (q_listener None) x_out (NewReportMap, ()) = Inr (None, x_out\<lparr>gl_Options := pol_Options p\<rparr>, NewReportMap, ()) \<and>
     policy_precedes p (x_vho ''all'' 1 None [(''Cors'', ''x'')])"
proof -
  have "\<exists>p \<in> set [x_vho ''all'' 1 None [(''Cors'', ''x'')], x_vho ''http'' 2 (Some ''http'') [(''Cors'', ''y'')]]. attaches (q_listener None) p"
    by (simp add: x_attaches)
  from listener_options_correct [OF x_list_ok x_list_gw x_names this, of x_out "(NewReportMap, ())"]
  obtain p where p: "\<forall>q \<in> set [x_vho ''all'' 1 None [(''Cors'', ''x'')], x_vho ''http'' 2 (Some ''http'') [(''Cors'', ''y'')]]. attaches (q_listener None) q \<longrightarrow>
      q = p \<or> policy_precedes p q"
    "listeneroptions x_list q_gw (q_listener None) x_out (NewReportMap, ()) = Inr (None, x_out\<lparr>gl_Options := pol_Options p\<rparr>, NewReportMap, ())"
    by blast
  have "policy_precedes q q" for q :: virtual_host_option by (simp add: policy_precedes_def older_def)
  then have "policy_precedes p (x_vho ''all'' 1 None [(''Cors'', ''x'')])" using p(1) x_attaches(1) by (metis list.set_intros(1))
  with p(2) show ?thesis by blast
qed

end
