(* ===== verification/StatusExamples.thy ===== *)
theory StatusExamples
  imports StatusSyncer
begin

text \<open>
  Concrete runs of the status syncer: the hypotheses of its theorems can hold, and three runs in
  which it does not do what its comments say. The status plugins of the registries write a log of
  their number and the names of the proxies they are called with.
\<close>

definition keys_in_order :: "(int \<rightharpoonup> 'v) \<Rightarrow> int list" where
  "keys_in_order m = sorted_list_of_set (dom m)"

lemma keys_in_order_visits: "visits_all keys_in_order"
  by (simp add: visits_all_def keys_in_order_def iter_order_def)

definition ex_proxy :: "string \<Rightarrow> int option \<Rightarrow> proxy" where
  "ex_proxy name n = \<lparr>px_Metadata = \<lparr>pmd_Name = name, pmd_Namespace = ''ns'',
     pmd_Labels = [ProxyTypeKey \<mapsto> GatewayApiProxyValue],
     pmd_Annotations = map_option (\<lambda>i. [ProxySyncId \<mapsto> Itoa i]) n\<rparr>, px_Listeners = []\<rparr>"

definition ex_report :: "string \<Rightarrow> int option \<Rightarrow> unit proxy_with_reports" where
  "ex_report name n = \<lparr>pwr_Proxy = ex_proxy name n, pwr_Reports = ()\<rparr>"

type_synonym status_log = "(nat \<times> string list) list"

definition ex_registry :: "nat \<Rightarrow> (unit, unit, status_log) plugin_registry" where
  "ex_registry i = NewPluginRegistry [\<lparr>as_RoutePlugin = None, as_ListenerPlugin = None, as_PostTranslationPlugin = None,
     as_StatusPlugin = Some (\<lambda>prs x. (x @ [(i, map (\<lambda>pr. pmd_Name (px_Metadata (pwr_Proxy pr))) prs)], None))\<rparr>]"

lemma ex_proxy_simps [simp]:
  "getProxyNameNamespace (ex_proxy name n) = NamespacedName ''ns'' name"
  "controlled (ex_proxy name n)"
  "pmd_Name (px_Metadata (ex_proxy name n)) = name"
  "map_get [] (pmd_Labels (px_Metadata (ex_proxy name n))) ProxyTypeKey = GatewayApiProxyValue"
  "syncIdOf (ex_proxy name None) = None"
  "pwr_Proxy (ex_report name n) = ex_proxy name n"
  by (simp_all add: ex_proxy_def ex_report_def getProxyNameNamespace_def controlled_def map_get_def syncIdOf_def)

lemma syncIdOf_ex_proxy [simp]: "\<lbrakk>- (2 ^ 63) \<le> n; n < 2 ^ 63\<rbrakk> \<Longrightarrow> syncIdOf (ex_proxy name (Some n)) = Some n"
  by (simp add: syncIdOf_def ex_proxy_def Atoi_Itoa)

lemma apply_ex_registry [simp]:
  "applyStatusPlugins (ex_registry i) prs x =
     x @ [(i, map (\<lambda>pr. pmd_Name (px_Metadata (pwr_Proxy pr))) (filterProxiesByControllerName prs))]"
  by (simp add: applyStatusPlugins_def ex_registry_def List.map_filter_def)

lemma filter_ex_report [simp]:
  "filterProxiesByControllerName [] = []"
  "filterProxiesByControllerName (ex_report name n # prs) = ex_report name n # filterProxiesByControllerName prs"
  by (simp_all add: filterProxiesByControllerName_def)

definition ex_queued :: "(unit, unit, status_log) statusSyncerFactory" where
  "ex_queued = QueueStatusForProxies [ex_proxy ''p'' (Some 2)] (ex_registry 2) 2
     (QueueStatusForProxies [ex_proxy ''p'' (Some 1)] (ex_registry 1) 1 NewStatusSyncerFactory)"

lemmas status_eval = HandleProxyReports_def handle_start_def handleReport_def applyReports_def ex_queued_def
  QueueStatusForProxies_def queueProxy_def NewStatusSyncerFactory_def keys_in_order_def map_get_def Let_def

section \<open>Witnesses\<close>

theorem HandleProxyReports_correct_witness:
  "\<exists>ns. HandleProxyReports keys_in_order [ex_report ''p'' (Some 2)] (ex_queued, []) =
      (take_due ex_queued [ex_report ''p'' (Some 2)],
       foldl (\<lambda>x n. case registryPerSync ex_queued n of None \<Rightarrow> x
         | Some r \<Rightarrow> applyStatusPlugins r (due ex_queued n [ex_report ''p'' (Some 2)]) x) [] ns) \<and>
    distinct ns \<and> set ns = {n. due ex_queued n [ex_report ''p'' (Some 2)] \<noteq> []}"
  using HandleProxyReports_correct [OF keys_in_order_visits, of "[ex_report ''p'' (Some 2)]" ex_queued "[]"]
  by (simp add: batch_ok_def filter_ex_report cong: option.case_cong)

theorem HandleProxyReports_keeps_registries_witness:
  "registryPerSync (fst (HandleProxyReports keys_in_order [ex_report ''p'' (Some 2)] (ex_queued, []))) 2 = Some (ex_registry 2)"
  using HandleProxyReports_keeps_registries [OF keys_in_order_visits, of "[ex_report ''p'' (Some 2)]" ex_queued "[]"]
  by (simp add: ex_queued_def Queue_fields)

definition sys0 :: "(unit, unit, status_log) status_sys" where
  "sys0 = status_init []"

definition sys1 :: "(unit, unit, status_log) status_sys" where
  "sys1 = sys0\<lparr>ss_factory := QueueStatusForProxies [ex_proxy ''p'' (Some 1)] (ex_registry 1) 1 (ss_factory sys0), ss_count := 1\<rparr>"

definition sys2 :: "(unit, unit, status_log) status_sys" where
  "sys2 = sys1\<lparr>ss_factory := QueueStatusForProxies [ex_proxy ''p'' (Some 2)] (ex_registry 2) 2 (ss_factory sys1), ss_count := 2\<rparr>"

lemma sys2_run:
  "run (status_step keys_in_order) sys0 ([Queue 1 [ex_proxy ''p'' (Some 1)] (ex_registry 1)] @ [Queue 2 [ex_proxy ''p'' (Some 2)] (ex_registry 2)] @ []) sys2"
proof -
  have "status_step keys_in_order sys0 (Queue 1 [ex_proxy ''p'' (Some 1)] (ex_registry 1)) sys1"
    by (simp add: status_step_simps sys1_def sys0_def status_init_def)
  moreover have "status_step keys_in_order sys1 (Queue 2 [ex_proxy ''p'' (Some 2)] (ex_registry 2)) sys2"
    by (simp add: status_step_simps sys2_def sys1_def)
  ultimately show ?thesis by (auto intro: run_Cons run.run_nil)
qed

definition sys3 :: "(unit, unit, status_log) status_sys" where
  "sys3 = (case HandleProxyReports keys_in_order [ex_report ''p'' (Some 2)] (ss_factory sys2, ss_world sys2) of
     (f, x) \<Rightarrow> sys2\<lparr>ss_factory := f, ss_world := x\<rparr>)"

lemma sys3_step: "status_step keys_in_order sys2 (Handle [ex_report ''p'' (Some 2)]) sys3"
  by (auto simp: status_step_simps sys3_def split: prod.split)

theorem status_newest_sync_witness: "ss_world sys3 = [(2, [''p''])]"
  using status_newest_sync [OF keys_in_order_visits sys2_run, of "ex_report ''p'' (Some 2)" 2, OF _ _ _ _ _ sys3_step]
  by (simp add: sys2_def sys1_def sys0_def status_init_def)

section \<open>Where the code and its comments differ\<close>

text \<open>A report of an old sync is applied after the report of the newest sync, although only the
  latest iteration is to be used: taking the newest report forgets the count of the proxy, so an old
  report that arrives later passes the comparison, and its status overwrites the newer one.\<close>

theorem stale_report_overwrites:
  "snd (HandleProxyReports keys_in_order [ex_report ''p'' (Some 1)]
      (HandleProxyReports keys_in_order [ex_report ''p'' (Some 2)] (ex_queued, []))) = [(2, [''p'']), (1, [''p''])]"
  by (simp add: status_eval)

text \<open>A proxy without the annotation of a sync is handled as one of the sync of the proxy before it
  in the list: here the proxy \<open>q\<close>, which no sync has queued, is reported with the registry of \<open>p\<close>.\<close>

theorem unannotated_proxy_takes_previous_sync:
  "snd (HandleProxyReports keys_in_order [ex_report ''p'' (Some 2), ex_report ''q'' None] (ex_queued, [])) = [(2, [''p'', ''q''])]"
  by (simp add: status_eval)

text \<open>A second report of a sync is applied again, although the comment on the check for nil says
  that nothing is to be done once the sync has happened: the list of an iteration whose proxies were
  all reported is empty, not nil.\<close>

theorem repeated_report_applied_again:
  "snd (HandleProxyReports keys_in_order [ex_report ''p'' (Some 2)]
      (HandleProxyReports keys_in_order [ex_report ''p'' (Some 2)] (ex_queued, []))) = [(2, [''p'']), (2, [''p''])]"
  by (simp add: status_eval)

end
