(* ===== verification/SyncerExamples.thy ===== *)
theory SyncerExamples
  imports ProxySyncerProps StatusExamples
begin

text \<open>Concrete syncs for the theorems on the proxy syncer.\<close>

definition s_env :: "int \<Rightarrow> (unit, unit, status_log) sync_env" where
  "s_env now = \<lparr>env_ListGateways = Inr [ex_gw], env_ListRoutes = Inr [], env_parentRefOrder = (\<lambda>_ _. []),
     env_FindStatusCondition = findStatusCondition, env_SetStatusCondition = setStatusCondition now,
     env_CreatePluginRegistry = (\<lambda>x. (ex_registry 1, x)),
     env_GetTranslator = (\<lambda>_ _. Some (\<lambda>_ _ (rm, x). Inr (Some (ex_proxy ''p'' None), rm, x)))\<rparr>"

definition s_syncer :: "(unit, unit, status_log) proxy_syncer" where
  "s_syncer = (syncer_init ''solo.io/gloo-gateway'' ''gloo-system'' [])\<lparr>ps_secretsWarmed := True\<rparr>"

lemma s_env_api: "condition_api (env_FindStatusCondition (s_env now)) (env_SetStatusCondition (s_env now)) now"
  by (simp add: s_env_def meta.condition_api_axioms)

lemma s_env_patches:
  "\<exists>rm1 gw1. syncGatewayStatus (s_env 9) (ex_gw_reports, []) ex_gw = (rm1, [] @ [PatchGatewayStatus gw1])"
proof -
  obtain rm st where b: "BuildGWStatus (env_FindStatusCondition (s_env 9)) (env_SetStatusCondition (s_env 9)) ex_gw ex_gw_reports = (rm, Some st)"
    by (rule BuildGWStatus_some [OF ex_gw_wf(1)])
  have "gs_Conditions (strip_gateway_status st) \<noteq> []"
    unfolding condition_api.BuildGWStatus_strip [OF s_env_api ex_gw_wf b]
    using condition_api.addMissingGateway_types [OF s_env_api, of 9 ex_gw_report] by auto
  then have "\<not> isGatewayStatusEqual (gw_Status ex_gw) st"
    by (auto simp: isGatewayStatusEqual_def strip_gateway_status_def ex_gw_def)
  then show ?thesis by (simp add: syncGatewayStatus_eq [OF b])
qed


definition ex_addressed_gw :: "unit gateway" where
  "ex_addressed_gw = ex_gw\<lparr>gw_Status := (gw_Status ex_gw)\<lparr>gs_Addresses := [\<lparr>gsa_Type = None, gsa_Value = ''10.0.0.1''\<rparr>]\<rparr>\<rparr>"

theorem syncStatus_always_patches_addresses_witness:
  "\<exists>gw'. snd (syncGatewayStatus (s_env 9) (ex_gw_reports, []) ex_addressed_gw) = [] @ [PatchGatewayStatus gw'] \<and>
    gs_Addresses (gw_Status gw') = []"
proof (rule syncStatus_always_patches_addresses)
  show "ReportMap_Gateway ex_gw_reports ex_addressed_gw = Some ex_gw_report"
    using ex_gw_wf(1) by (simp add: ex_addressed_gw_def ReportMap_Gateway_def gw_key_def)
  show "gs_Addresses (gw_Status ex_addressed_gw) \<noteq> []" by (simp add: ex_addressed_gw_def)
qed

lemma s_resync: "\<exists>s'. resyncProxies (s_env 9) s_syncer = Inr s'"
  by (simp add: resyncProxies_def s_env_def s_syncer_def NewProxySyncer_def translateGateway_def Let_def split: prod.split)

theorem resyncProxies_queues_status_witness:
  "\<exists>s' proxies. resyncProxies (s_env 9) s_syncer = Inr s' \<and>
    last (ps_writes s') = ReconcileProxies ''gloo-system'' proxies kubeGatewayProxyLabels \<and>
    (\<forall>p \<in> set proxies. syncIdOf p = Some (ps_totalResyncs s'))"
proof -
  obtain s' where s': "resyncProxies (s_env 9) s_syncer = Inr s'" using s_resync by blast
  have "ps_secretsWarmed s_syncer" "env_ListGateways (s_env 9) = Inr [ex_gw]" "0 \<le> ps_totalResyncs s_syncer"
    "ps_totalResyncs s_syncer + 1 < 2 ^ 63"
    by (simp_all add: s_syncer_def s_env_def NewProxySyncer_def)
  from resyncProxies_queues_status [OF s' this] s' show ?thesis by (auto simp: s_syncer_def NewProxySyncer_def)
qed

text \<open>A kick before the secrets are known is received, and nothing happens.\<close>

lemma kicked_run:
  "\<exists>s. run syncer_step (syncer_init ''c'' ''ns'' []) [KickEvent, GenericSync (s_env 9)] s"
proof -
  let ?s0 = "syncer_init ''c'' ''ns'' [] :: (unit, unit, status_log) proxy_syncer"
  let ?s1 = "?s0\<lparr>ps_inputs := Kick (ps_inputs ?s0)\<rparr>"
  have buf: "buf (genericEvent (ps_inputs ?s1)) = [()]"
    using Enqueue_ok(2) [of NewAsyncQueue "()"] by (simp add: Kick_def NewProxySyncer_def NewGatewayInputChannels_def)
  obtain c where c: "chan_recv (Next (genericEvent (ps_inputs ?s1))) = Some ((), c)"
    using buf by (simp add: queue_defs)
  let ?s2 = "?s1\<lparr>ps_inputs := (ps_inputs ?s1)\<lparr>genericEvent := (genericEvent (ps_inputs ?s1))\<lparr>aq_queue := c\<rparr>\<rparr>\<rparr>"
  have "resyncProxies (s_env 9) ?s2 = Inr ?s2" by (simp add: resyncProxies_def NewProxySyncer_def)
  from syncer_step.generic_sync [OF c this] syncer_step.kick [of ?s0] show ?thesis
    by (blast intro: run_Cons run.run_nil)
qed

theorem syncer_waits_for_secrets_witness:
  "\<exists>s. run syncer_step (syncer_init ''c'' ''ns'' []) [KickEvent, GenericSync (s_env 9)] s \<and> ps_writes s = []"
  using kicked_run syncer_waits_for_secrets [of "''c''" "''ns''" "[]" "[KickEvent, GenericSync (s_env 9)]"] by force

end
