(* ===== verification/GatewayParameters.thy ===== *)
theory GatewayParameters
  imports GatewayApi
begin

text \<open>
  The \<open>GatewayParameters\<close> resource, \<open>projects/gateway2/api/v1alpha1/gateway_parameters_types.go\<close> and
  \<open>kube_types.go\<close>, with its accessors, and the parts of \<open>k8s.io/api/core/v1\<close> that the deployer merges field
  by field. Everything in them can be absent and the deployer tells an absent slice or map from an
  empty one, so these are options. Values that the deployer only hands on (tolerations, containers,
  environment variables, ports, selector terms, quantities) are of the type \<open>'j\<close>.

  An accessor can be called on a nil pointer and then returns nil.
\<close>

section \<open>Kubernetes types\<close>

record se_linux_options =
  sel_User :: string
  sel_Role :: string
  sel_Type :: string
  sel_Level :: string

record windows_options =
  win_GMSACredentialSpecName :: "string option"
  win_GMSACredentialSpec :: "string option"
  win_RunAsUserName :: "string option"
  win_HostProcess :: "bool option"

record seccomp_profile =
  sec_Type :: string
  sec_LocalhostProfile :: "string option"

record sysctl =
  sys_Name :: string
  sys_Value :: string

record capabilities =
  cap_Add :: "string list option"
  cap_Drop :: "string list option"

record security_context =
  sctx_Capabilities :: "capabilities option"
  sctx_Privileged :: "bool option"
  sctx_SELinuxOptions :: "se_linux_options option"
  sctx_WindowsOptions :: "windows_options option"
  sctx_RunAsUser :: "int option"
  sctx_RunAsGroup :: "int option"
  sctx_RunAsNonRoot :: "bool option"
  sctx_ReadOnlyRootFilesystem :: "bool option"
  sctx_AllowPrivilegeEscalation :: "bool option"
  sctx_ProcMount :: "string option"
  sctx_SeccompProfile :: "seccomp_profile option"

record pod_security_context =
  psc_SELinuxOptions :: "se_linux_options option"
  psc_WindowsOptions :: "windows_options option"
  psc_RunAsUser :: "int option"
  psc_RunAsGroup :: "int option"
  psc_RunAsNonRoot :: "bool option"
  psc_SupplementalGroups :: "int list option"
  psc_FSGroup :: "int option"
  psc_Sysctls :: "sysctl list option"
  psc_FSGroupChangePolicy :: "string option"
  psc_SeccompProfile :: "seccomp_profile option"

record 'j node_selector =
  ns_NodeSelectorTerms :: "'j list option"

record 'j node_affinity =
  na_Required :: "'j node_selector option"
  na_Preferred :: "'j list option"

record 'j pod_affinity =
  pa_Required :: "'j list option"
  pa_Preferred :: "'j list option"

record 'j pod_anti_affinity =
  paa_Required :: "'j list option"
  paa_Preferred :: "'j list option"

record 'j affinity =
  aff_NodeAffinity :: "'j node_affinity option"
  aff_PodAffinity :: "'j pod_affinity option"
  aff_PodAntiAffinity :: "'j pod_anti_affinity option"

record 'j resource_requirements =
  rr_Limits :: "(string \<rightharpoonup> 'j) option"
  rr_Requests :: "(string \<rightharpoonup> 'j) option"

section \<open>Gateway parameters\<close>

definition nil_safe :: "('a \<Rightarrow> 'b option) \<Rightarrow> 'a option \<Rightarrow> 'b option" where
  "nil_safe field p = (case p of None \<Rightarrow> None | Some v \<Rightarrow> field v)"

record image =
  img_Registry :: "string option"
  img_Repository :: "string option"
  img_Tag :: "string option"
  img_Digest :: "string option"
  img_PullPolicy :: "string option"

definition img_GetRegistry :: "image option \<Rightarrow> string option" where
  "img_GetRegistry = nil_safe img_Registry"

definition img_GetRepository :: "image option \<Rightarrow> string option" where
  "img_GetRepository = nil_safe img_Repository"

definition img_GetTag :: "image option \<Rightarrow> string option" where
  "img_GetTag = nil_safe img_Tag"

definition img_GetDigest :: "image option \<Rightarrow> string option" where
  "img_GetDigest = nil_safe img_Digest"

definition img_GetPullPolicy :: "image option \<Rightarrow> string option" where
  "img_GetPullPolicy = nil_safe img_PullPolicy"

record service =
  svc_Type :: "string option"
  svc_ClusterIP :: "string option"
  svc_ExtraLabels :: "(string \<rightharpoonup> string) option"
  svc_ExtraAnnotations :: "(string \<rightharpoonup> string) option"

definition svc_GetType :: "service option \<Rightarrow> string option" where
  "svc_GetType = nil_safe svc_Type"

definition svc_GetClusterIP :: "service option \<Rightarrow> string option" where
  "svc_GetClusterIP = nil_safe svc_ClusterIP"

definition svc_GetExtraLabels :: "service option \<Rightarrow> (string \<rightharpoonup> string) option" where
  "svc_GetExtraLabels = nil_safe svc_ExtraLabels"

definition svc_GetExtraAnnotations :: "service option \<Rightarrow> (string \<rightharpoonup> string) option" where
  "svc_GetExtraAnnotations = nil_safe svc_ExtraAnnotations"

record 'j pod =
  pod_ExtraLabels :: "(string \<rightharpoonup> string) option"
  pod_ExtraAnnotations :: "(string \<rightharpoonup> string) option"
  pod_SecurityContext :: "pod_security_context option"
  pod_ImagePullSecrets :: "string list option"
  pod_NodeSelector :: "(string \<rightharpoonup> string) option"
  pod_Affinity :: "'j affinity option"
  pod_Tolerations :: "'j list option"

definition pod_GetExtraLabels :: "'j pod option \<Rightarrow> (string \<rightharpoonup> string) option" where
  "pod_GetExtraLabels = nil_safe pod_ExtraLabels"

definition pod_GetExtraAnnotations :: "'j pod option \<Rightarrow> (string \<rightharpoonup> string) option" where
  "pod_GetExtraAnnotations = nil_safe pod_ExtraAnnotations"

definition pod_GetSecurityContext :: "'j pod option \<Rightarrow> pod_security_context option" where
  "pod_GetSecurityContext = nil_safe pod_SecurityContext"

definition pod_GetImagePullSecrets :: "'j pod option \<Rightarrow> string list option" where
  "pod_GetImagePullSecrets = nil_safe pod_ImagePullSecrets"

definition pod_GetNodeSelector :: "'j pod option \<Rightarrow> (string \<rightharpoonup> string) option" where
  "pod_GetNodeSelector = nil_safe pod_NodeSelector"

definition pod_GetAffinity :: "'j pod option \<Rightarrow> 'j affinity option" where
  "pod_GetAffinity = nil_safe pod_Affinity"

definition pod_GetTolerations :: "'j pod option \<Rightarrow> 'j list option" where
  "pod_GetTolerations = nil_safe pod_Tolerations"

record proxy_deployment =
  pd_Replicas :: "32 word option"

definition pd_GetReplicas :: "proxy_deployment option \<Rightarrow> 32 word option" where
  "pd_GetReplicas = nil_safe pd_Replicas"

record envoy_bootstrap =
  eb_LogLevel :: "string option"
  eb_ComponentLogLevels :: "(string \<rightharpoonup> string) option"

definition eb_GetLogLevel :: "envoy_bootstrap option \<Rightarrow> string option" where
  "eb_GetLogLevel = nil_safe eb_LogLevel"

definition eb_GetComponentLogLevels :: "envoy_bootstrap option \<Rightarrow> (string \<rightharpoonup> string) option" where
  "eb_GetComponentLogLevels = nil_safe eb_ComponentLogLevels"

record 'j envoy_container =
  ec_Bootstrap :: "envoy_bootstrap option"
  ec_Image :: "image option"
  ec_SecurityContext :: "security_context option"
  ec_Resources :: "'j resource_requirements option"

definition ec_GetBootstrap :: "'j envoy_container option \<Rightarrow> envoy_bootstrap option" where
  "ec_GetBootstrap = nil_safe ec_Bootstrap"

definition ec_GetImage :: "'j envoy_container option \<Rightarrow> image option" where
  "ec_GetImage = nil_safe ec_Image"

definition ec_GetSecurityContext :: "'j envoy_container option \<Rightarrow> security_context option" where
  "ec_GetSecurityContext = nil_safe ec_SecurityContext"

definition ec_GetResources :: "'j envoy_container option \<Rightarrow> 'j resource_requirements option" where
  "ec_GetResources = nil_safe ec_Resources"

record sds_bootstrap =
  sb_LogLevel :: "string option"

definition sb_GetLogLevel :: "sds_bootstrap option \<Rightarrow> string option" where
  "sb_GetLogLevel = nil_safe sb_LogLevel"

record 'j sds_container =
  sc_Image :: "image option"
  sc_SecurityContext :: "security_context option"
  sc_Resources :: "'j resource_requirements option"
  sc_Bootstrap :: "sds_bootstrap option"

definition sc_GetImage :: "'j sds_container option \<Rightarrow> image option" where
  "sc_GetImage = nil_safe sc_Image"

definition sc_GetSecurityContext :: "'j sds_container option \<Rightarrow> security_context option" where
  "sc_GetSecurityContext = nil_safe sc_SecurityContext"

definition sc_GetResources :: "'j sds_container option \<Rightarrow> 'j resource_requirements option" where
  "sc_GetResources = nil_safe sc_Resources"

definition sc_GetBootstrap :: "'j sds_container option \<Rightarrow> sds_bootstrap option" where
  "sc_GetBootstrap = nil_safe sc_Bootstrap"

record 'j istio_container =
  ic_Image :: "image option"
  ic_SecurityContext :: "security_context option"
  ic_Resources :: "'j resource_requirements option"
  ic_LogLevel :: "string option"
  ic_IstioDiscoveryAddress :: "string option"
  ic_IstioMetaMeshId :: "string option"
  ic_IstioMetaClusterId :: "string option"

definition ic_GetImage :: "'j istio_container option \<Rightarrow> image option" where
  "ic_GetImage = nil_safe ic_Image"

definition ic_GetSecurityContext :: "'j istio_container option \<Rightarrow> security_context option" where
  "ic_GetSecurityContext = nil_safe ic_SecurityContext"

definition ic_GetResources :: "'j istio_container option \<Rightarrow> 'j resource_requirements option" where
  "ic_GetResources = nil_safe ic_Resources"

definition ic_GetLogLevel :: "'j istio_container option \<Rightarrow> string option" where
  "ic_GetLogLevel = nil_safe ic_LogLevel"

definition ic_GetIstioDiscoveryAddress :: "'j istio_container option \<Rightarrow> string option" where
  "ic_GetIstioDiscoveryAddress = nil_safe ic_IstioDiscoveryAddress"

definition ic_GetIstioMetaMeshId :: "'j istio_container option \<Rightarrow> string option" where
  "ic_GetIstioMetaMeshId = nil_safe ic_IstioMetaMeshId"

definition ic_GetIstioMetaClusterId :: "'j istio_container option \<Rightarrow> string option" where
  "ic_GetIstioMetaClusterId = nil_safe ic_IstioMetaClusterId"

record 'j istio_integration =
  ii_IstioProxyContainer :: "'j istio_container option"
  ii_CustomSidecars :: "'j list option"

definition ii_GetIstioProxyContainer :: "'j istio_integration option \<Rightarrow> 'j istio_container option" where
  "ii_GetIstioProxyContainer = nil_safe ii_IstioProxyContainer"

definition ii_GetCustomSidecars :: "'j istio_integration option \<Rightarrow> 'j list option" where
  "ii_GetCustomSidecars = nil_safe ii_CustomSidecars"

record stats_config =
  st_Enabled :: "bool option"
  st_RoutePrefixRewrite :: "string option"
  st_EnableStatsRoute :: "bool option"
  st_StatsRoutePrefixRewrite :: "string option"

definition st_GetEnabled :: "stats_config option \<Rightarrow> bool option" where
  "st_GetEnabled = nil_safe st_Enabled"

definition st_GetRoutePrefixRewrite :: "stats_config option \<Rightarrow> string option" where
  "st_GetRoutePrefixRewrite = nil_safe st_RoutePrefixRewrite"

definition st_GetEnableStatsRoute :: "stats_config option \<Rightarrow> bool option" where
  "st_GetEnableStatsRoute = nil_safe st_EnableStatsRoute"

definition st_GetStatsRoutePrefixRewrite :: "stats_config option \<Rightarrow> string option" where
  "st_GetStatsRoutePrefixRewrite = nil_safe st_StatsRoutePrefixRewrite"

record custom_label =
  cl_Name :: string
  cl_MetadataNamespace :: "string option"
  cl_MetdataKey :: string
  cl_KeyDelimiter :: "string option"

record ai_extension_stats =
  aes_CustomLabels :: "custom_label list option"

definition aes_GetCustomLabels :: "ai_extension_stats option \<Rightarrow> custom_label list option" where
  "aes_GetCustomLabels = nil_safe aes_CustomLabels"

record 'j ai_extension =
  ae_Enabled :: "bool option"
  ae_Image :: "image option"
  ae_SecurityContext :: "security_context option"
  ae_Resources :: "'j resource_requirements option"
  ae_Env :: "'j list option"
  ae_Ports :: "'j list option"
  ae_Stats :: "ai_extension_stats option"

definition ae_GetEnabled :: "'j ai_extension option \<Rightarrow> bool option" where
  "ae_GetEnabled = nil_safe ae_Enabled"

definition ae_GetImage :: "'j ai_extension option \<Rightarrow> image option" where
  "ae_GetImage = nil_safe ae_Image"

definition ae_GetSecurityContext :: "'j ai_extension option \<Rightarrow> security_context option" where
  "ae_GetSecurityContext = nil_safe ae_SecurityContext"

definition ae_GetResources :: "'j ai_extension option \<Rightarrow> 'j resource_requirements option" where
  "ae_GetResources = nil_safe ae_Resources"

definition ae_GetEnv :: "'j ai_extension option \<Rightarrow> 'j list option" where
  "ae_GetEnv = nil_safe ae_Env"

definition ae_GetPorts :: "'j ai_extension option \<Rightarrow> 'j list option" where
  "ae_GetPorts = nil_safe ae_Ports"

definition ae_GetStats :: "'j ai_extension option \<Rightarrow> ai_extension_stats option" where
  "ae_GetStats = nil_safe ae_Stats"

record 'j kubernetes_proxy_config =
  kpc_Deployment :: "proxy_deployment option"
  kpc_EnvoyContainer :: "'j envoy_container option"
  kpc_SdsContainer :: "'j sds_container option"
  kpc_PodTemplate :: "'j pod option"
  kpc_Service :: "service option"
  kpc_Istio :: "'j istio_integration option"
  kpc_Stats :: "stats_config option"
  kpc_AiExtension :: "'j ai_extension option"
  kpc_FloatingUserId :: "bool option"

definition kpc_GetDeployment :: "'j kubernetes_proxy_config option \<Rightarrow> proxy_deployment option" where
  "kpc_GetDeployment = nil_safe kpc_Deployment"

definition kpc_GetEnvoyContainer :: "'j kubernetes_proxy_config option \<Rightarrow> 'j envoy_container option" where
  "kpc_GetEnvoyContainer = nil_safe kpc_EnvoyContainer"

definition kpc_GetSdsContainer :: "'j kubernetes_proxy_config option \<Rightarrow> 'j sds_container option" where
  "kpc_GetSdsContainer = nil_safe kpc_SdsContainer"

definition kpc_GetPodTemplate :: "'j kubernetes_proxy_config option \<Rightarrow> 'j pod option" where
  "kpc_GetPodTemplate = nil_safe kpc_PodTemplate"

definition kpc_GetService :: "'j kubernetes_proxy_config option \<Rightarrow> service option" where
  "kpc_GetService = nil_safe kpc_Service"

definition kpc_GetIstio :: "'j kubernetes_proxy_config option \<Rightarrow> 'j istio_integration option" where
  "kpc_GetIstio = nil_safe kpc_Istio"

definition kpc_GetStats :: "'j kubernetes_proxy_config option \<Rightarrow> stats_config option" where
  "kpc_GetStats = nil_safe kpc_Stats"

definition kpc_GetAiExtension :: "'j kubernetes_proxy_config option \<Rightarrow> 'j ai_extension option" where
  "kpc_GetAiExtension = nil_safe kpc_AiExtension"

definition kpc_GetFloatingUserId :: "'j kubernetes_proxy_config option \<Rightarrow> bool option" where
  "kpc_GetFloatingUserId = nil_safe kpc_FloatingUserId"

record 'j gateway_parameters_spec =
  gps_Kube :: "'j kubernetes_proxy_config option"
  gps_SelfManaged :: "unit option"

record 'j gateway_parameters =
  gwp_Spec :: "'j gateway_parameters_spec"

named_theorems getters \<open>definitions of the accessors\<close>

declare nil_safe_def [getters] img_GetRegistry_def [getters] img_GetRepository_def [getters]
  img_GetTag_def [getters] img_GetDigest_def [getters] img_GetPullPolicy_def [getters]
  svc_GetType_def [getters] svc_GetClusterIP_def [getters] svc_GetExtraLabels_def [getters]
  svc_GetExtraAnnotations_def [getters] pod_GetExtraLabels_def [getters]
  pod_GetExtraAnnotations_def [getters] pod_GetSecurityContext_def [getters]
  pod_GetImagePullSecrets_def [getters] pod_GetNodeSelector_def [getters]
  pod_GetAffinity_def [getters] pod_GetTolerations_def [getters] pd_GetReplicas_def [getters]
  eb_GetLogLevel_def [getters] eb_GetComponentLogLevels_def [getters] ec_GetBootstrap_def [getters]
  ec_GetImage_def [getters] ec_GetSecurityContext_def [getters] ec_GetResources_def [getters]
  sb_GetLogLevel_def [getters] sc_GetImage_def [getters] sc_GetSecurityContext_def [getters]
  sc_GetResources_def [getters] sc_GetBootstrap_def [getters] ic_GetImage_def [getters]
  ic_GetSecurityContext_def [getters] ic_GetResources_def [getters] ic_GetLogLevel_def [getters]
  ic_GetIstioDiscoveryAddress_def [getters] ic_GetIstioMetaMeshId_def [getters]
  ic_GetIstioMetaClusterId_def [getters] ii_GetIstioProxyContainer_def [getters]
  ii_GetCustomSidecars_def [getters] st_GetEnabled_def [getters]
  st_GetRoutePrefixRewrite_def [getters] st_GetEnableStatsRoute_def [getters]
  st_GetStatsRoutePrefixRewrite_def [getters] aes_GetCustomLabels_def [getters]
  ae_GetEnabled_def [getters] ae_GetImage_def [getters] ae_GetSecurityContext_def [getters]
  ae_GetResources_def [getters] ae_GetEnv_def [getters] ae_GetPorts_def [getters]
  ae_GetStats_def [getters] kpc_GetDeployment_def [getters] kpc_GetEnvoyContainer_def [getters]
  kpc_GetSdsContainer_def [getters] kpc_GetPodTemplate_def [getters] kpc_GetService_def [getters]
  kpc_GetIstio_def [getters] kpc_GetStats_def [getters] kpc_GetAiExtension_def [getters]
  kpc_GetFloatingUserId_def [getters]

end
