(* ===== verification/DeployerMerge.thy ===== *)
theory DeployerMerge
  imports GatewayParameters Prelude
begin

text \<open>
  The merge of two \<open>GatewayParameters\<close>, \<open>projects/gateway2/deployer/merge.go\<close>: the parameters of a gateway
  (\<open>src\<close>) override the defaults of its class (\<open>dst\<close>), field by field. The code updates \<open>dst\<close> in place and
  returns it, and returns \<open>src\<close> when there is no \<open>dst\<close>; a merged value is the value of the returned
  pointer. Only for the whole parameters, whose caller looks at \<open>dst\<close> and not at the result, the value
  left in \<open>dst\<close> is modelled too.

  The contract shared by all merges is the locale \<open>override\<close>.
\<close>

section \<open>Generic merges\<close>

definition mergePointers :: "'a option \<Rightarrow> 'a option \<Rightarrow> 'a option" where
  "mergePointers dst src = (case src of None \<Rightarrow> dst | Some _ \<Rightarrow> src)"

definition deepMergeMaps :: "('k \<rightharpoonup> 'v) option \<Rightarrow> ('k \<rightharpoonup> 'v) option \<Rightarrow> ('k \<rightharpoonup> 'v) option" where
  "deepMergeMaps dst src =
     (case src of
        None \<Rightarrow> dst
      | Some s \<Rightarrow>
          (case dst of
             None \<Rightarrow> src
           | Some d \<Rightarrow> if s = Map.empty then src else Some (d ++ s)))"

definition deepMergeSlices :: "'a list option \<Rightarrow> 'a list option \<Rightarrow> 'a list option" where
  "deepMergeSlices dst src =
     (case src of
        None \<Rightarrow> dst
      | Some s \<Rightarrow>
          (case dst of
             None \<Rightarrow> src
           | Some d \<Rightarrow> if s = [] then src else Some (d @ s)))"

text \<open>The zero value of the type is an argument.\<close>

definition mergeComparable :: "'a \<Rightarrow> 'a \<Rightarrow> 'a \<Rightarrow> 'a" where
  "mergeComparable t dst src = (if src = t then dst else src)"

text \<open>The two checks for nil that open every merge of structs.\<close>

definition merge_structs :: "('a \<Rightarrow> 'a \<Rightarrow> 'a) \<Rightarrow> 'a option \<Rightarrow> 'a option \<Rightarrow> 'a option" where
  "merge_structs f dst src =
     (case src of None \<Rightarrow> dst | Some s \<Rightarrow> (case dst of None \<Rightarrow> src | Some d \<Rightarrow> Some (f d s)))"

section \<open>Structs\<close>

definition deepMergeStatsConfig :: "stats_config option \<Rightarrow> stats_config option \<Rightarrow> stats_config option" where
  "deepMergeStatsConfig = merge_structs (\<lambda>dst src. dst\<lparr>
     st_Enabled := mergePointers (st_Enabled dst) (st_Enabled src),
     st_RoutePrefixRewrite := mergeComparable None (st_RoutePrefixRewrite dst) (st_RoutePrefixRewrite src),
     st_EnableStatsRoute := mergeComparable None (st_EnableStatsRoute dst) (st_EnableStatsRoute src),
     st_StatsRoutePrefixRewrite := mergeComparable None (st_StatsRoutePrefixRewrite dst) (st_StatsRoutePrefixRewrite src)\<rparr>)"

definition deepMergeSELinuxOptions :: "se_linux_options option \<Rightarrow> se_linux_options option \<Rightarrow> se_linux_options option" where
  "deepMergeSELinuxOptions = merge_structs (\<lambda>dst src. dst\<lparr>
     sel_User := mergeComparable [] (sel_User dst) (sel_User src),
     sel_Role := mergeComparable [] (sel_Role dst) (sel_Role src),
     sel_Type := mergeComparable [] (sel_Type dst) (sel_Type src),
     sel_Level := mergeComparable [] (sel_Level dst) (sel_Level src)\<rparr>)"

text \<open>The first assignment of the code takes the credential spec for its name.\<close>

definition deepMergeWindowsSecurityContextOptions :: "windows_options option \<Rightarrow> windows_options option \<Rightarrow> windows_options option" where
  "deepMergeWindowsSecurityContextOptions = merge_structs (\<lambda>dst src. dst\<lparr>
     win_GMSACredentialSpecName := mergePointers (win_GMSACredentialSpec dst) (win_GMSACredentialSpec src),
     win_GMSACredentialSpec := mergePointers (win_GMSACredentialSpec dst) (win_GMSACredentialSpec src),
     win_RunAsUserName := mergePointers (win_RunAsUserName dst) (win_RunAsUserName src),
     win_HostProcess := mergePointers (win_HostProcess dst) (win_HostProcess src)\<rparr>)"

definition deepMergeSeccompProfile :: "seccomp_profile option \<Rightarrow> seccomp_profile option \<Rightarrow> seccomp_profile option" where
  "deepMergeSeccompProfile = merge_structs (\<lambda>dst src. dst\<lparr>
     sec_Type := mergeComparable [] (sec_Type dst) (sec_Type src),
     sec_LocalhostProfile := mergePointers (sec_LocalhostProfile dst) (sec_LocalhostProfile src)\<rparr>)"

definition deepMergePodSecurityContext :: "pod_security_context option \<Rightarrow> pod_security_context option \<Rightarrow> pod_security_context option" where
  "deepMergePodSecurityContext = merge_structs (\<lambda>dst src. dst\<lparr>
     psc_SELinuxOptions := deepMergeSELinuxOptions (psc_SELinuxOptions dst) (psc_SELinuxOptions src),
     psc_WindowsOptions := deepMergeWindowsSecurityContextOptions (psc_WindowsOptions dst) (psc_WindowsOptions src),
     psc_RunAsUser := mergePointers (psc_RunAsUser dst) (psc_RunAsUser src),
     psc_RunAsGroup := mergePointers (psc_RunAsGroup dst) (psc_RunAsGroup src),
     psc_RunAsNonRoot := mergePointers (psc_RunAsNonRoot dst) (psc_RunAsNonRoot src),
     psc_SupplementalGroups := deepMergeSlices (psc_SupplementalGroups dst) (psc_SupplementalGroups src),
     psc_FSGroup := mergePointers (psc_FSGroup dst) (psc_FSGroup src),
     psc_Sysctls := deepMergeSlices (psc_Sysctls dst) (psc_Sysctls src),
     psc_FSGroupChangePolicy := mergePointers (psc_FSGroupChangePolicy dst) (psc_FSGroupChangePolicy src),
     psc_SeccompProfile := deepMergeSeccompProfile (psc_SeccompProfile dst) (psc_SeccompProfile src)\<rparr>)"

definition deepMergeNodeSelector :: "'j node_selector option \<Rightarrow> 'j node_selector option \<Rightarrow> 'j node_selector option" where
  "deepMergeNodeSelector = merge_structs (\<lambda>dst src. dst\<lparr>
     ns_NodeSelectorTerms := deepMergeSlices (ns_NodeSelectorTerms dst) (ns_NodeSelectorTerms src)\<rparr>)"

definition deepMergeNodeAffinity :: "'j node_affinity option \<Rightarrow> 'j node_affinity option \<Rightarrow> 'j node_affinity option" where
  "deepMergeNodeAffinity = merge_structs (\<lambda>dst src. dst\<lparr>
     na_Required := deepMergeNodeSelector (na_Required dst) (na_Required src),
     na_Preferred := deepMergeSlices (na_Preferred dst) (na_Preferred src)\<rparr>)"

definition deepMergePodAffinity :: "'j pod_affinity option \<Rightarrow> 'j pod_affinity option \<Rightarrow> 'j pod_affinity option" where
  "deepMergePodAffinity = merge_structs (\<lambda>dst src. dst\<lparr>
     pa_Required := deepMergeSlices (pa_Required dst) (pa_Required src),
     pa_Preferred := deepMergeSlices (pa_Preferred dst) (pa_Preferred src)\<rparr>)"

definition deepMergePodAntiAffinity :: "'j pod_anti_affinity option \<Rightarrow> 'j pod_anti_affinity option \<Rightarrow> 'j pod_anti_affinity option" where
  "deepMergePodAntiAffinity = merge_structs (\<lambda>dst src. dst\<lparr>
     paa_Required := deepMergeSlices (paa_Required dst) (paa_Required src),
     paa_Preferred := deepMergeSlices (paa_Preferred dst) (paa_Preferred src)\<rparr>)"

definition deepMergeAffinity :: "'j affinity option \<Rightarrow> 'j affinity option \<Rightarrow> 'j affinity option" where
  "deepMergeAffinity = merge_structs (\<lambda>dst src. dst\<lparr>
     aff_NodeAffinity := deepMergeNodeAffinity (aff_NodeAffinity dst) (aff_NodeAffinity src),
     aff_PodAffinity := deepMergePodAffinity (aff_PodAffinity dst) (aff_PodAffinity src),
     aff_PodAntiAffinity := deepMergePodAntiAffinity (aff_PodAntiAffinity dst) (aff_PodAntiAffinity src)\<rparr>)"

definition deepMergePodTemplate :: "'j pod option \<Rightarrow> 'j pod option \<Rightarrow> 'j pod option" where
  "deepMergePodTemplate = merge_structs (\<lambda>dst src. dst\<lparr>
     pod_ExtraLabels := deepMergeMaps (pod_ExtraLabels dst) (pod_ExtraLabels src),
     pod_ExtraAnnotations := deepMergeMaps (pod_ExtraAnnotations dst) (pod_ExtraAnnotations src),
     pod_SecurityContext := deepMergePodSecurityContext (pod_SecurityContext dst) (pod_SecurityContext src),
     pod_ImagePullSecrets := deepMergeSlices (pod_ImagePullSecrets dst) (pod_ImagePullSecrets src),
     pod_NodeSelector := deepMergeMaps (pod_NodeSelector dst) (pod_NodeSelector src),
     pod_Affinity := deepMergeAffinity (pod_Affinity dst) (pod_Affinity src),
     pod_Tolerations := deepMergeSlices (pod_Tolerations dst) (pod_Tolerations src)\<rparr>)"

definition deepMergeService :: "service option \<Rightarrow> service option \<Rightarrow> service option" where
  "deepMergeService = merge_structs (\<lambda>dst src. dst\<lparr>
     svc_Type := (if svc_Type src \<noteq> None then svc_Type src else svc_Type dst),
     svc_ClusterIP := (if svc_ClusterIP src \<noteq> None then svc_ClusterIP src else svc_ClusterIP dst),
     svc_ExtraLabels := deepMergeMaps (svc_ExtraLabels dst) (svc_ExtraLabels src),
     svc_ExtraAnnotations := deepMergeMaps (svc_ExtraAnnotations dst) (svc_ExtraAnnotations src)\<rparr>)"

definition deepMergeImage :: "image option \<Rightarrow> image option \<Rightarrow> image option" where
  "deepMergeImage = merge_structs (\<lambda>dst src. dst\<lparr>
     img_Registry := (if img_Registry src \<noteq> None then img_Registry src else img_Registry dst),
     img_Repository := (if img_Repository src \<noteq> None then img_Repository src else img_Repository dst),
     img_Tag := (if img_Tag src \<noteq> None then img_Tag src else img_Tag dst),
     img_Digest := (if img_Digest src \<noteq> None then img_Digest src else img_Digest dst),
     img_PullPolicy := (if img_PullPolicy src \<noteq> None then img_PullPolicy src else img_PullPolicy dst)\<rparr>)"

definition deepMergeResourceRequirements ::
  "'j resource_requirements option \<Rightarrow> 'j resource_requirements option \<Rightarrow> 'j resource_requirements option" where
  "deepMergeResourceRequirements = merge_structs (\<lambda>dst src. dst\<lparr>
     rr_Limits := deepMergeMaps (rr_Limits dst) (rr_Limits src),
     rr_Requests := deepMergeMaps (rr_Requests dst) (rr_Requests src)\<rparr>)"

definition deepMergeCapabilities :: "capabilities option \<Rightarrow> capabilities option \<Rightarrow> capabilities option" where
  "deepMergeCapabilities = merge_structs (\<lambda>dst src. dst\<lparr>
     cap_Add := deepMergeSlices (cap_Add dst) (cap_Add src),
     cap_Drop := deepMergeSlices (cap_Drop dst) (cap_Drop src)\<rparr>)"

definition deepMergeSecurityContext :: "security_context option \<Rightarrow> security_context option \<Rightarrow> security_context option" where
  "deepMergeSecurityContext = merge_structs (\<lambda>dst src. dst\<lparr>
     sctx_Capabilities := deepMergeCapabilities (sctx_Capabilities dst) (sctx_Capabilities src),
     sctx_SELinuxOptions := deepMergeSELinuxOptions (sctx_SELinuxOptions dst) (sctx_SELinuxOptions src),
     sctx_WindowsOptions := deepMergeWindowsSecurityContextOptions (sctx_WindowsOptions dst) (sctx_WindowsOptions src),
     sctx_RunAsUser := mergePointers (sctx_RunAsUser dst) (sctx_RunAsUser src),
     sctx_RunAsGroup := mergePointers (sctx_RunAsGroup dst) (sctx_RunAsGroup src),
     sctx_RunAsNonRoot := mergePointers (sctx_RunAsNonRoot dst) (sctx_RunAsNonRoot src),
     sctx_Privileged := mergePointers (sctx_Privileged dst) (sctx_Privileged src),
     sctx_ReadOnlyRootFilesystem := mergePointers (sctx_ReadOnlyRootFilesystem dst) (sctx_ReadOnlyRootFilesystem src),
     sctx_AllowPrivilegeEscalation := mergePointers (sctx_AllowPrivilegeEscalation dst) (sctx_AllowPrivilegeEscalation src),
     sctx_ProcMount := mergePointers (sctx_ProcMount dst) (sctx_ProcMount src),
     sctx_SeccompProfile := deepMergeSeccompProfile (sctx_SeccompProfile dst) (sctx_SeccompProfile src)\<rparr>)"

definition deepMergeSdsBootstrap :: "sds_bootstrap option \<Rightarrow> sds_bootstrap option \<Rightarrow> sds_bootstrap option" where
  "deepMergeSdsBootstrap = merge_structs (\<lambda>dst src. dst\<lparr>
     sb_LogLevel := (if sb_LogLevel src \<noteq> None then sb_LogLevel src else sb_LogLevel dst)\<rparr>)"

definition deepMergeSdsContainer :: "'j sds_container option \<Rightarrow> 'j sds_container option \<Rightarrow> 'j sds_container option" where
  "deepMergeSdsContainer = merge_structs (\<lambda>dst src. dst\<lparr>
     sc_Image := deepMergeImage (sc_Image dst) (sc_Image src),
     sc_SecurityContext := deepMergeSecurityContext (sc_SecurityContext dst) (sc_SecurityContext src),
     sc_Resources := deepMergeResourceRequirements (sc_Resources dst) (sc_Resources src),
     sc_Bootstrap := deepMergeSdsBootstrap (sc_Bootstrap dst) (sc_Bootstrap src)\<rparr>)"

definition mergeCustomSidecars :: "'j list option \<Rightarrow> 'j list option \<Rightarrow> 'j list option" where
  "mergeCustomSidecars dst src = (case src of None \<Rightarrow> dst | Some _ \<Rightarrow> src)"

definition deepMergeIstioContainer :: "'j istio_container option \<Rightarrow> 'j istio_container option \<Rightarrow> 'j istio_container option" where
  "deepMergeIstioContainer = merge_structs (\<lambda>dst src. dst\<lparr>
     ic_Image := deepMergeImage (ic_Image dst) (ic_Image src),
     ic_SecurityContext := deepMergeSecurityContext (ic_SecurityContext dst) (ic_SecurityContext src),
     ic_Resources := deepMergeResourceRequirements (ic_Resources dst) (ic_Resources src),
     ic_LogLevel := (if ic_LogLevel src \<noteq> None then ic_LogLevel src else ic_LogLevel dst),
     ic_IstioDiscoveryAddress :=
       (if ic_IstioDiscoveryAddress dst = None then ic_IstioDiscoveryAddress src else ic_IstioDiscoveryAddress dst),
     ic_IstioMetaMeshId := (if ic_IstioMetaMeshId dst = None then ic_IstioMetaMeshId src else ic_IstioMetaMeshId dst),
     ic_IstioMetaClusterId :=
       (if ic_IstioMetaClusterId dst = None then ic_IstioMetaClusterId src else ic_IstioMetaClusterId dst)\<rparr>)"

definition deepMergeIstioIntegration :: "'j istio_integration option \<Rightarrow> 'j istio_integration option \<Rightarrow> 'j istio_integration option" where
  "deepMergeIstioIntegration = merge_structs (\<lambda>dst src. dst\<lparr>
     ii_IstioProxyContainer := deepMergeIstioContainer (ii_IstioProxyContainer dst) (ii_IstioProxyContainer src),
     ii_CustomSidecars := mergeCustomSidecars (ii_CustomSidecars dst) (ii_CustomSidecars src)\<rparr>)"

definition deepMergeEnvoyBootstrap :: "envoy_bootstrap option \<Rightarrow> envoy_bootstrap option \<Rightarrow> envoy_bootstrap option" where
  "deepMergeEnvoyBootstrap = merge_structs (\<lambda>dst src. dst\<lparr>
     eb_LogLevel := (if eb_LogLevel src \<noteq> None then eb_LogLevel src else eb_LogLevel dst),
     eb_ComponentLogLevels := deepMergeMaps (eb_ComponentLogLevels dst) (eb_ComponentLogLevels src)\<rparr>)"

definition deepMergeEnvoyContainer :: "'j envoy_container option \<Rightarrow> 'j envoy_container option \<Rightarrow> 'j envoy_container option" where
  "deepMergeEnvoyContainer = merge_structs (\<lambda>dst src. dst\<lparr>
     ec_Bootstrap := deepMergeEnvoyBootstrap (ec_Bootstrap dst) (ec_Bootstrap src),
     ec_Image := deepMergeImage (ec_Image dst) (ec_Image src),
     ec_SecurityContext := deepMergeSecurityContext (ec_SecurityContext dst) (ec_SecurityContext src),
     ec_Resources := deepMergeResourceRequirements (ec_Resources dst) (ec_Resources src)\<rparr>)"

definition deepMergeDeployment :: "proxy_deployment option \<Rightarrow> proxy_deployment option \<Rightarrow> proxy_deployment option" where
  "deepMergeDeployment = merge_structs (\<lambda>dst src. dst\<lparr>
     pd_Replicas := mergePointers (pd_Replicas dst) (pd_Replicas src)\<rparr>)"

definition deepMergeAIExtensionStats :: "ai_extension_stats option \<Rightarrow> ai_extension_stats option \<Rightarrow> ai_extension_stats option" where
  "deepMergeAIExtensionStats = merge_structs (\<lambda>dst src. dst\<lparr>
     aes_CustomLabels := deepMergeSlices (aes_CustomLabels dst) (aes_CustomLabels src)\<rparr>)"

definition deepMergeAIExtension :: "'j ai_extension option \<Rightarrow> 'j ai_extension option \<Rightarrow> 'j ai_extension option" where
  "deepMergeAIExtension = merge_structs (\<lambda>dst src. dst\<lparr>
     ae_Enabled := mergePointers (ae_Enabled dst) (ae_Enabled src),
     ae_Image := deepMergeImage (ae_Image dst) (ae_Image src),
     ae_SecurityContext := deepMergeSecurityContext (ae_SecurityContext dst) (ae_SecurityContext src),
     ae_Resources := deepMergeResourceRequirements (ae_Resources dst) (ae_Resources src),
     ae_Env := deepMergeSlices (ae_Env dst) (ae_Env src),
     ae_Ports := deepMergeSlices (ae_Ports dst) (ae_Ports src),
     ae_Stats := deepMergeAIExtensionStats (ae_Stats dst) (ae_Stats src)\<rparr>)"

text \<open>The part of \<open>deepMergeGatewayParameters\<close> for two Kubernetes configurations.\<close>

definition merge_kube :: "'j kubernetes_proxy_config \<Rightarrow> 'j kubernetes_proxy_config \<Rightarrow> 'j kubernetes_proxy_config" where
  "merge_kube dst src = dst\<lparr>
     kpc_Deployment := deepMergeDeployment (kpc_Deployment dst) (kpc_Deployment src),
     kpc_EnvoyContainer := deepMergeEnvoyContainer (kpc_EnvoyContainer dst) (kpc_EnvoyContainer src),
     kpc_SdsContainer := deepMergeSdsContainer (kpc_SdsContainer dst) (kpc_SdsContainer src),
     kpc_PodTemplate := deepMergePodTemplate (kpc_PodTemplate dst) (kpc_PodTemplate src),
     kpc_Service := deepMergeService (kpc_Service dst) (kpc_Service src),
     kpc_Istio := deepMergeIstioIntegration (kpc_Istio dst) (kpc_Istio src),
     kpc_Stats := deepMergeStatsConfig (kpc_Stats dst) (kpc_Stats src),
     kpc_AiExtension := deepMergeAIExtension (kpc_AiExtension dst) (kpc_AiExtension src),
     kpc_FloatingUserId := mergePointers (kpc_FloatingUserId dst) (kpc_FloatingUserId src)\<rparr>"

text \<open>The result is the value left in \<open>dst\<close> and the value of the returned pointer.\<close>

abbreviation gwp_Kube :: "'j gateway_parameters \<Rightarrow> 'j kubernetes_proxy_config option" where
  "gwp_Kube p \<equiv> gps_Kube (gwp_Spec p)"

abbreviation gwp_SelfManaged :: "'j gateway_parameters \<Rightarrow> unit option" where
  "gwp_SelfManaged p \<equiv> gps_SelfManaged (gwp_Spec p)"

definition deepMergeGatewayParameters ::
  "'j gateway_parameters option \<Rightarrow> 'j gateway_parameters option \<Rightarrow>
   ('j gateway_parameters option \<times> 'j gateway_parameters option) outcome" where
  "deepMergeGatewayParameters dst src =
     (case src of
        None \<Rightarrow> Inr (dst, dst)
      | Some s \<Rightarrow>
          if gwp_SelfManaged s \<noteq> None then
            bind_out (deref dst) (\<lambda>d.
              let d = d\<lparr>gwp_Spec := \<lparr>gps_Kube = None, gps_SelfManaged = gwp_SelfManaged s\<rparr>\<rparr>
              in Inr (Some d, Some d))
          else
            (case gwp_Kube s of
               None \<Rightarrow> Inr (dst, dst)
             | Some srcKube \<Rightarrow>
                 (case dst of
                    None \<Rightarrow> Inr (dst, src)
                  | Some d \<Rightarrow>
                      (case gwp_Kube d of
                         None \<Rightarrow> Inr (dst, src)
                       | Some dstKube \<Rightarrow>
                           let d = d\<lparr>gwp_Spec := (gwp_Spec d)\<lparr>gps_Kube := Some (merge_kube dstKube srcKube)\<rparr>\<rparr>
                           in Inr (Some d, Some d)))))"

section \<open>The contract of a merge\<close>

text \<open>A merge keeps a value that is not overridden and takes an override of nothing; the result is nil
  only when both are.\<close>

locale override =
  fixes merge :: "'a option \<Rightarrow> 'a option \<Rightarrow> 'a option"
  assumes nil_src: "merge dst None = dst" and nil_dst: "merge None src = src"
    and both: "merge (Some d) (Some s) \<noteq> None"
begin

lemma merge_None_iff: "merge dst src = None \<longleftrightarrow> dst = None \<and> src = None"
  by (cases dst; cases src) (simp_all add: nil_src nil_dst both)

text \<open>In a chain of overrides the absent ones do not matter.\<close>

lemma merge_chain: "foldl merge dst (filter (\<lambda>s. s \<noteq> None) srcs) = foldl merge dst srcs"
  by (induction srcs arbitrary: dst) (auto simp: nil_src)

end

lemma override_structs: "override (merge_structs f)"
  by unfold_locales (simp_all add: merge_structs_def split: option.split)

interpretation merge_pointers: override mergePointers
  by unfold_locales (simp_all add: mergePointers_def split: option.split)

interpretation merge_maps: override deepMergeMaps
  by unfold_locales (simp_all add: deepMergeMaps_def split: option.split)

interpretation merge_slices: override deepMergeSlices
  by unfold_locales (simp_all add: deepMergeSlices_def split: option.split)

interpretation merge_sidecars: override mergeCustomSidecars
  by unfold_locales (simp_all add: mergeCustomSidecars_def split: option.split)

interpretation merge_StatsConfig: override deepMergeStatsConfig
  by (simp add: deepMergeStatsConfig_def override_structs)

interpretation merge_SELinuxOptions: override deepMergeSELinuxOptions
  by (simp add: deepMergeSELinuxOptions_def override_structs)

interpretation merge_WindowsSecurityContextOptions: override deepMergeWindowsSecurityContextOptions
  by (simp add: deepMergeWindowsSecurityContextOptions_def override_structs)

interpretation merge_SeccompProfile: override deepMergeSeccompProfile
  by (simp add: deepMergeSeccompProfile_def override_structs)

interpretation merge_PodSecurityContext: override deepMergePodSecurityContext
  by (simp add: deepMergePodSecurityContext_def override_structs)

interpretation merge_NodeSelector: override deepMergeNodeSelector
  by (simp add: deepMergeNodeSelector_def override_structs)

interpretation merge_NodeAffinity: override deepMergeNodeAffinity
  by (simp add: deepMergeNodeAffinity_def override_structs)

interpretation merge_PodAffinity: override deepMergePodAffinity
  by (simp add: deepMergePodAffinity_def override_structs)

interpretation merge_PodAntiAffinity: override deepMergePodAntiAffinity
  by (simp add: deepMergePodAntiAffinity_def override_structs)

interpretation merge_Affinity: override deepMergeAffinity
  by (simp add: deepMergeAffinity_def override_structs)

interpretation merge_PodTemplate: override deepMergePodTemplate
  by (simp add: deepMergePodTemplate_def override_structs)

interpretation merge_Service: override deepMergeService
  by (simp add: deepMergeService_def override_structs)

interpretation merge_Image: override deepMergeImage
  by (simp add: deepMergeImage_def override_structs)

interpretation merge_ResourceRequirements: override deepMergeResourceRequirements
  by (simp add: deepMergeResourceRequirements_def override_structs)

interpretation merge_Capabilities: override deepMergeCapabilities
  by (simp add: deepMergeCapabilities_def override_structs)

interpretation merge_SecurityContext: override deepMergeSecurityContext
  by (simp add: deepMergeSecurityContext_def override_structs)

interpretation merge_SdsBootstrap: override deepMergeSdsBootstrap
  by (simp add: deepMergeSdsBootstrap_def override_structs)

interpretation merge_SdsContainer: override deepMergeSdsContainer
  by (simp add: deepMergeSdsContainer_def override_structs)

interpretation merge_IstioContainer: override deepMergeIstioContainer
  by (simp add: deepMergeIstioContainer_def override_structs)

interpretation merge_IstioIntegration: override deepMergeIstioIntegration
  by (simp add: deepMergeIstioIntegration_def override_structs)

interpretation merge_EnvoyBootstrap: override deepMergeEnvoyBootstrap
  by (simp add: deepMergeEnvoyBootstrap_def override_structs)

interpretation merge_EnvoyContainer: override deepMergeEnvoyContainer
  by (simp add: deepMergeEnvoyContainer_def override_structs)

interpretation merge_Deployment: override deepMergeDeployment
  by (simp add: deepMergeDeployment_def override_structs)

interpretation merge_AIExtensionStats: override deepMergeAIExtensionStats
  by (simp add: deepMergeAIExtensionStats_def override_structs)

interpretation merge_AIExtension: override deepMergeAIExtension
  by (simp add: deepMergeAIExtension_def override_structs)

section \<open>Settings of a configuration\<close>

lemma mergeComparable_None: "mergeComparable None dst src = mergePointers dst src"
  by (simp add: mergeComparable_def mergePointers_def split: option.split)

lemma if_override: "(if src \<noteq> None then src else dst) = mergePointers dst src"
  by (simp add: mergePointers_def split: option.split)

lemma if_protect: "(if dst = None then src else dst) = mergePointers src dst"
  by (simp add: mergePointers_def split: option.split)

text \<open>Reading a field of merged structs is merging the fields read, because every merge has the
  contract.\<close>

lemmas nil_laws =
  merge_pointers.nil_src merge_pointers.nil_dst
  merge_maps.nil_src merge_maps.nil_dst
  merge_slices.nil_src merge_slices.nil_dst
  merge_sidecars.nil_src merge_sidecars.nil_dst
  merge_StatsConfig.nil_src merge_StatsConfig.nil_dst
  merge_SELinuxOptions.nil_src merge_SELinuxOptions.nil_dst
  merge_WindowsSecurityContextOptions.nil_src merge_WindowsSecurityContextOptions.nil_dst
  merge_SeccompProfile.nil_src merge_SeccompProfile.nil_dst
  merge_PodSecurityContext.nil_src merge_PodSecurityContext.nil_dst
  merge_NodeSelector.nil_src merge_NodeSelector.nil_dst
  merge_NodeAffinity.nil_src merge_NodeAffinity.nil_dst
  merge_PodAffinity.nil_src merge_PodAffinity.nil_dst
  merge_PodAntiAffinity.nil_src merge_PodAntiAffinity.nil_dst
  merge_Affinity.nil_src merge_Affinity.nil_dst
  merge_PodTemplate.nil_src merge_PodTemplate.nil_dst
  merge_Service.nil_src merge_Service.nil_dst
  merge_Image.nil_src merge_Image.nil_dst
  merge_ResourceRequirements.nil_src merge_ResourceRequirements.nil_dst
  merge_Capabilities.nil_src merge_Capabilities.nil_dst
  merge_SecurityContext.nil_src merge_SecurityContext.nil_dst
  merge_SdsBootstrap.nil_src merge_SdsBootstrap.nil_dst
  merge_SdsContainer.nil_src merge_SdsContainer.nil_dst
  merge_IstioContainer.nil_src merge_IstioContainer.nil_dst
  merge_IstioIntegration.nil_src merge_IstioIntegration.nil_dst
  merge_EnvoyBootstrap.nil_src merge_EnvoyBootstrap.nil_dst
  merge_EnvoyContainer.nil_src merge_EnvoyContainer.nil_dst
  merge_Deployment.nil_src merge_Deployment.nil_dst
  merge_AIExtensionStats.nil_src merge_AIExtensionStats.nil_dst
  merge_AIExtension.nil_src merge_AIExtension.nil_dst

lemmas nil_safe_structs = nil_safe_def merge_structs_def option.case_distrib mergeComparable_None if_override if_protect
  merge_kube_def nil_laws

named_theorems get_merge \<open>reading a setting of a merged configuration\<close>

lemma get_StatsConfig [get_merge]:
  "st_GetEnabled (deepMergeStatsConfig d s) = mergePointers (st_GetEnabled d) (st_GetEnabled s)"
  "st_GetRoutePrefixRewrite (deepMergeStatsConfig d s) = mergePointers (st_GetRoutePrefixRewrite d) (st_GetRoutePrefixRewrite s)"
  "st_GetEnableStatsRoute (deepMergeStatsConfig d s) = mergePointers (st_GetEnableStatsRoute d) (st_GetEnableStatsRoute s)"
  "st_GetStatsRoutePrefixRewrite (deepMergeStatsConfig d s) = mergePointers (st_GetStatsRoutePrefixRewrite d) (st_GetStatsRoutePrefixRewrite s)"
  unfolding st_GetEnabled_def st_GetRoutePrefixRewrite_def st_GetEnableStatsRoute_def
    st_GetStatsRoutePrefixRewrite_def deepMergeStatsConfig_def
  by (simp_all add: nil_safe_structs del: not_None_eq split: option.split)

lemma get_SeccompProfile [get_merge]:
  "nil_safe sec_LocalhostProfile (deepMergeSeccompProfile d s) = mergePointers (nil_safe sec_LocalhostProfile d) (nil_safe sec_LocalhostProfile s)"
  unfolding deepMergeSeccompProfile_def
  by (simp_all add: nil_safe_structs del: not_None_eq split: option.split)

lemma get_PodSecurityContext [get_merge]:
  "nil_safe psc_SELinuxOptions (deepMergePodSecurityContext d s) = deepMergeSELinuxOptions (nil_safe psc_SELinuxOptions d) (nil_safe psc_SELinuxOptions s)"
  "nil_safe psc_WindowsOptions (deepMergePodSecurityContext d s) = deepMergeWindowsSecurityContextOptions (nil_safe psc_WindowsOptions d) (nil_safe psc_WindowsOptions s)"
  "nil_safe psc_RunAsUser (deepMergePodSecurityContext d s) = mergePointers (nil_safe psc_RunAsUser d) (nil_safe psc_RunAsUser s)"
  "nil_safe psc_RunAsGroup (deepMergePodSecurityContext d s) = mergePointers (nil_safe psc_RunAsGroup d) (nil_safe psc_RunAsGroup s)"
  "nil_safe psc_RunAsNonRoot (deepMergePodSecurityContext d s) = mergePointers (nil_safe psc_RunAsNonRoot d) (nil_safe psc_RunAsNonRoot s)"
  "nil_safe psc_SupplementalGroups (deepMergePodSecurityContext d s) = deepMergeSlices (nil_safe psc_SupplementalGroups d) (nil_safe psc_SupplementalGroups s)"
  "nil_safe psc_FSGroup (deepMergePodSecurityContext d s) = mergePointers (nil_safe psc_FSGroup d) (nil_safe psc_FSGroup s)"
  "nil_safe psc_Sysctls (deepMergePodSecurityContext d s) = deepMergeSlices (nil_safe psc_Sysctls d) (nil_safe psc_Sysctls s)"
  "nil_safe psc_FSGroupChangePolicy (deepMergePodSecurityContext d s) = mergePointers (nil_safe psc_FSGroupChangePolicy d) (nil_safe psc_FSGroupChangePolicy s)"
  "nil_safe psc_SeccompProfile (deepMergePodSecurityContext d s) = deepMergeSeccompProfile (nil_safe psc_SeccompProfile d) (nil_safe psc_SeccompProfile s)"
  unfolding deepMergePodSecurityContext_def
  by (simp_all add: nil_safe_structs del: not_None_eq split: option.split)

lemma get_NodeSelector [get_merge]:
  "nil_safe ns_NodeSelectorTerms (deepMergeNodeSelector d s) = deepMergeSlices (nil_safe ns_NodeSelectorTerms d) (nil_safe ns_NodeSelectorTerms s)"
  unfolding deepMergeNodeSelector_def
  by (simp_all add: nil_safe_structs del: not_None_eq split: option.split)

lemma get_NodeAffinity [get_merge]:
  "nil_safe na_Required (deepMergeNodeAffinity d s) = deepMergeNodeSelector (nil_safe na_Required d) (nil_safe na_Required s)"
  "nil_safe na_Preferred (deepMergeNodeAffinity d s) = deepMergeSlices (nil_safe na_Preferred d) (nil_safe na_Preferred s)"
  unfolding deepMergeNodeAffinity_def
  by (simp_all add: nil_safe_structs del: not_None_eq split: option.split)

lemma get_PodAffinity [get_merge]:
  "nil_safe pa_Required (deepMergePodAffinity d s) = deepMergeSlices (nil_safe pa_Required d) (nil_safe pa_Required s)"
  "nil_safe pa_Preferred (deepMergePodAffinity d s) = deepMergeSlices (nil_safe pa_Preferred d) (nil_safe pa_Preferred s)"
  unfolding deepMergePodAffinity_def
  by (simp_all add: nil_safe_structs del: not_None_eq split: option.split)

lemma get_PodAntiAffinity [get_merge]:
  "nil_safe paa_Required (deepMergePodAntiAffinity d s) = deepMergeSlices (nil_safe paa_Required d) (nil_safe paa_Required s)"
  "nil_safe paa_Preferred (deepMergePodAntiAffinity d s) = deepMergeSlices (nil_safe paa_Preferred d) (nil_safe paa_Preferred s)"
  unfolding deepMergePodAntiAffinity_def
  by (simp_all add: nil_safe_structs del: not_None_eq split: option.split)

lemma get_Affinity [get_merge]:
  "nil_safe aff_NodeAffinity (deepMergeAffinity d s) = deepMergeNodeAffinity (nil_safe aff_NodeAffinity d) (nil_safe aff_NodeAffinity s)"
  "nil_safe aff_PodAffinity (deepMergeAffinity d s) = deepMergePodAffinity (nil_safe aff_PodAffinity d) (nil_safe aff_PodAffinity s)"
  "nil_safe aff_PodAntiAffinity (deepMergeAffinity d s) = deepMergePodAntiAffinity (nil_safe aff_PodAntiAffinity d) (nil_safe aff_PodAntiAffinity s)"
  unfolding deepMergeAffinity_def
  by (simp_all add: nil_safe_structs del: not_None_eq split: option.split)

lemma get_PodTemplate [get_merge]:
  "pod_GetExtraLabels (deepMergePodTemplate d s) = deepMergeMaps (pod_GetExtraLabels d) (pod_GetExtraLabels s)"
  "pod_GetExtraAnnotations (deepMergePodTemplate d s) = deepMergeMaps (pod_GetExtraAnnotations d) (pod_GetExtraAnnotations s)"
  "pod_GetSecurityContext (deepMergePodTemplate d s) = deepMergePodSecurityContext (pod_GetSecurityContext d) (pod_GetSecurityContext s)"
  "pod_GetImagePullSecrets (deepMergePodTemplate d s) = deepMergeSlices (pod_GetImagePullSecrets d) (pod_GetImagePullSecrets s)"
  "pod_GetNodeSelector (deepMergePodTemplate d s) = deepMergeMaps (pod_GetNodeSelector d) (pod_GetNodeSelector s)"
  "pod_GetAffinity (deepMergePodTemplate d s) = deepMergeAffinity (pod_GetAffinity d) (pod_GetAffinity s)"
  "pod_GetTolerations (deepMergePodTemplate d s) = deepMergeSlices (pod_GetTolerations d) (pod_GetTolerations s)"
  unfolding pod_GetExtraLabels_def pod_GetExtraAnnotations_def pod_GetSecurityContext_def
    pod_GetImagePullSecrets_def pod_GetNodeSelector_def pod_GetAffinity_def pod_GetTolerations_def
    deepMergePodTemplate_def
  by (simp_all add: nil_safe_structs del: not_None_eq split: option.split)

lemma get_Service [get_merge]:
  "svc_GetType (deepMergeService d s) = mergePointers (svc_GetType d) (svc_GetType s)"
  "svc_GetClusterIP (deepMergeService d s) = mergePointers (svc_GetClusterIP d) (svc_GetClusterIP s)"
  "svc_GetExtraLabels (deepMergeService d s) = deepMergeMaps (svc_GetExtraLabels d) (svc_GetExtraLabels s)"
  "svc_GetExtraAnnotations (deepMergeService d s) = deepMergeMaps (svc_GetExtraAnnotations d) (svc_GetExtraAnnotations s)"
  unfolding svc_GetType_def svc_GetClusterIP_def svc_GetExtraLabels_def svc_GetExtraAnnotations_def
    deepMergeService_def
  by (simp_all add: nil_safe_structs del: not_None_eq split: option.split)

lemma get_Image [get_merge]:
  "img_GetRegistry (deepMergeImage d s) = mergePointers (img_GetRegistry d) (img_GetRegistry s)"
  "img_GetRepository (deepMergeImage d s) = mergePointers (img_GetRepository d) (img_GetRepository s)"
  "img_GetTag (deepMergeImage d s) = mergePointers (img_GetTag d) (img_GetTag s)"
  "img_GetDigest (deepMergeImage d s) = mergePointers (img_GetDigest d) (img_GetDigest s)"
  "img_GetPullPolicy (deepMergeImage d s) = mergePointers (img_GetPullPolicy d) (img_GetPullPolicy s)"
  unfolding img_GetRegistry_def img_GetRepository_def img_GetTag_def img_GetDigest_def
    img_GetPullPolicy_def deepMergeImage_def
  by (simp_all add: nil_safe_structs del: not_None_eq split: option.split)

lemma get_ResourceRequirements [get_merge]:
  "nil_safe rr_Limits (deepMergeResourceRequirements d s) = deepMergeMaps (nil_safe rr_Limits d) (nil_safe rr_Limits s)"
  "nil_safe rr_Requests (deepMergeResourceRequirements d s) = deepMergeMaps (nil_safe rr_Requests d) (nil_safe rr_Requests s)"
  unfolding deepMergeResourceRequirements_def
  by (simp_all add: nil_safe_structs del: not_None_eq split: option.split)

lemma get_Capabilities [get_merge]:
  "nil_safe cap_Add (deepMergeCapabilities d s) = deepMergeSlices (nil_safe cap_Add d) (nil_safe cap_Add s)"
  "nil_safe cap_Drop (deepMergeCapabilities d s) = deepMergeSlices (nil_safe cap_Drop d) (nil_safe cap_Drop s)"
  unfolding deepMergeCapabilities_def
  by (simp_all add: nil_safe_structs del: not_None_eq split: option.split)

lemma get_SecurityContext [get_merge]:
  "nil_safe sctx_Capabilities (deepMergeSecurityContext d s) = deepMergeCapabilities (nil_safe sctx_Capabilities d) (nil_safe sctx_Capabilities s)"
  "nil_safe sctx_SELinuxOptions (deepMergeSecurityContext d s) = deepMergeSELinuxOptions (nil_safe sctx_SELinuxOptions d) (nil_safe sctx_SELinuxOptions s)"
  "nil_safe sctx_WindowsOptions (deepMergeSecurityContext d s) = deepMergeWindowsSecurityContextOptions (nil_safe sctx_WindowsOptions d) (nil_safe sctx_WindowsOptions s)"
  "nil_safe sctx_RunAsUser (deepMergeSecurityContext d s) = mergePointers (nil_safe sctx_RunAsUser d) (nil_safe sctx_RunAsUser s)"
  "nil_safe sctx_RunAsGroup (deepMergeSecurityContext d s) = mergePointers (nil_safe sctx_RunAsGroup d) (nil_safe sctx_RunAsGroup s)"
  "nil_safe sctx_RunAsNonRoot (deepMergeSecurityContext d s) = mergePointers (nil_safe sctx_RunAsNonRoot d) (nil_safe sctx_RunAsNonRoot s)"
  "nil_safe sctx_Privileged (deepMergeSecurityContext d s) = mergePointers (nil_safe sctx_Privileged d) (nil_safe sctx_Privileged s)"
  "nil_safe sctx_ReadOnlyRootFilesystem (deepMergeSecurityContext d s) = mergePointers (nil_safe sctx_ReadOnlyRootFilesystem d) (nil_safe sctx_ReadOnlyRootFilesystem s)"
  "nil_safe sctx_AllowPrivilegeEscalation (deepMergeSecurityContext d s) = mergePointers (nil_safe sctx_AllowPrivilegeEscalation d) (nil_safe sctx_AllowPrivilegeEscalation s)"
  "nil_safe sctx_ProcMount (deepMergeSecurityContext d s) = mergePointers (nil_safe sctx_ProcMount d) (nil_safe sctx_ProcMount s)"
  "nil_safe sctx_SeccompProfile (deepMergeSecurityContext d s) = deepMergeSeccompProfile (nil_safe sctx_SeccompProfile d) (nil_safe sctx_SeccompProfile s)"
  unfolding deepMergeSecurityContext_def
  by (simp_all add: nil_safe_structs del: not_None_eq split: option.split)

lemma get_SdsBootstrap [get_merge]:
  "sb_GetLogLevel (deepMergeSdsBootstrap d s) = mergePointers (sb_GetLogLevel d) (sb_GetLogLevel s)"
  unfolding sb_GetLogLevel_def deepMergeSdsBootstrap_def
  by (simp_all add: nil_safe_structs del: not_None_eq split: option.split)

lemma get_SdsContainer [get_merge]:
  "sc_GetImage (deepMergeSdsContainer d s) = deepMergeImage (sc_GetImage d) (sc_GetImage s)"
  "sc_GetSecurityContext (deepMergeSdsContainer d s) = deepMergeSecurityContext (sc_GetSecurityContext d) (sc_GetSecurityContext s)"
  "sc_GetResources (deepMergeSdsContainer d s) = deepMergeResourceRequirements (sc_GetResources d) (sc_GetResources s)"
  "sc_GetBootstrap (deepMergeSdsContainer d s) = deepMergeSdsBootstrap (sc_GetBootstrap d) (sc_GetBootstrap s)"
  unfolding sc_GetImage_def sc_GetSecurityContext_def sc_GetResources_def sc_GetBootstrap_def
    deepMergeSdsContainer_def
  by (simp_all add: nil_safe_structs del: not_None_eq split: option.split)

lemma get_IstioContainer [get_merge]:
  "ic_GetImage (deepMergeIstioContainer d s) = deepMergeImage (ic_GetImage d) (ic_GetImage s)"
  "ic_GetSecurityContext (deepMergeIstioContainer d s) = deepMergeSecurityContext (ic_GetSecurityContext d) (ic_GetSecurityContext s)"
  "ic_GetResources (deepMergeIstioContainer d s) = deepMergeResourceRequirements (ic_GetResources d) (ic_GetResources s)"
  "ic_GetLogLevel (deepMergeIstioContainer d s) = mergePointers (ic_GetLogLevel d) (ic_GetLogLevel s)"
  "ic_GetIstioDiscoveryAddress (deepMergeIstioContainer d s) = mergePointers (ic_GetIstioDiscoveryAddress s) (ic_GetIstioDiscoveryAddress d)"
  "ic_GetIstioMetaMeshId (deepMergeIstioContainer d s) = mergePointers (ic_GetIstioMetaMeshId s) (ic_GetIstioMetaMeshId d)"
  "ic_GetIstioMetaClusterId (deepMergeIstioContainer d s) = mergePointers (ic_GetIstioMetaClusterId s) (ic_GetIstioMetaClusterId d)"
  unfolding ic_GetImage_def ic_GetSecurityContext_def ic_GetResources_def ic_GetLogLevel_def
    ic_GetIstioDiscoveryAddress_def ic_GetIstioMetaMeshId_def ic_GetIstioMetaClusterId_def
    deepMergeIstioContainer_def
  by (simp_all add: nil_safe_structs del: not_None_eq split: option.split)

lemma get_IstioIntegration [get_merge]:
  "ii_GetIstioProxyContainer (deepMergeIstioIntegration d s) = deepMergeIstioContainer (ii_GetIstioProxyContainer d) (ii_GetIstioProxyContainer s)"
  "ii_GetCustomSidecars (deepMergeIstioIntegration d s) = mergeCustomSidecars (ii_GetCustomSidecars d) (ii_GetCustomSidecars s)"
  unfolding ii_GetIstioProxyContainer_def ii_GetCustomSidecars_def deepMergeIstioIntegration_def
  by (simp_all add: nil_safe_structs del: not_None_eq split: option.split)

lemma get_EnvoyBootstrap [get_merge]:
  "eb_GetLogLevel (deepMergeEnvoyBootstrap d s) = mergePointers (eb_GetLogLevel d) (eb_GetLogLevel s)"
  "eb_GetComponentLogLevels (deepMergeEnvoyBootstrap d s) = deepMergeMaps (eb_GetComponentLogLevels d) (eb_GetComponentLogLevels s)"
  unfolding eb_GetLogLevel_def eb_GetComponentLogLevels_def deepMergeEnvoyBootstrap_def
  by (simp_all add: nil_safe_structs del: not_None_eq split: option.split)

lemma get_EnvoyContainer [get_merge]:
  "ec_GetBootstrap (deepMergeEnvoyContainer d s) = deepMergeEnvoyBootstrap (ec_GetBootstrap d) (ec_GetBootstrap s)"
  "ec_GetImage (deepMergeEnvoyContainer d s) = deepMergeImage (ec_GetImage d) (ec_GetImage s)"
  "ec_GetSecurityContext (deepMergeEnvoyContainer d s) = deepMergeSecurityContext (ec_GetSecurityContext d) (ec_GetSecurityContext s)"
  "ec_GetResources (deepMergeEnvoyContainer d s) = deepMergeResourceRequirements (ec_GetResources d) (ec_GetResources s)"
  unfolding ec_GetBootstrap_def ec_GetImage_def ec_GetSecurityContext_def ec_GetResources_def
    deepMergeEnvoyContainer_def
  by (simp_all add: nil_safe_structs del: not_None_eq split: option.split)

lemma get_Deployment [get_merge]:
  "pd_GetReplicas (deepMergeDeployment d s) = mergePointers (pd_GetReplicas d) (pd_GetReplicas s)"
  unfolding pd_GetReplicas_def deepMergeDeployment_def
  by (simp_all add: nil_safe_structs del: not_None_eq split: option.split)

lemma get_AIExtensionStats [get_merge]:
  "aes_GetCustomLabels (deepMergeAIExtensionStats d s) = deepMergeSlices (aes_GetCustomLabels d) (aes_GetCustomLabels s)"
  unfolding aes_GetCustomLabels_def deepMergeAIExtensionStats_def
  by (simp_all add: nil_safe_structs del: not_None_eq split: option.split)

lemma get_AIExtension [get_merge]:
  "ae_GetEnabled (deepMergeAIExtension d s) = mergePointers (ae_GetEnabled d) (ae_GetEnabled s)"
  "ae_GetImage (deepMergeAIExtension d s) = deepMergeImage (ae_GetImage d) (ae_GetImage s)"
  "ae_GetSecurityContext (deepMergeAIExtension d s) = deepMergeSecurityContext (ae_GetSecurityContext d) (ae_GetSecurityContext s)"
  "ae_GetResources (deepMergeAIExtension d s) = deepMergeResourceRequirements (ae_GetResources d) (ae_GetResources s)"
  "ae_GetEnv (deepMergeAIExtension d s) = deepMergeSlices (ae_GetEnv d) (ae_GetEnv s)"
  "ae_GetPorts (deepMergeAIExtension d s) = deepMergeSlices (ae_GetPorts d) (ae_GetPorts s)"
  "ae_GetStats (deepMergeAIExtension d s) = deepMergeAIExtensionStats (ae_GetStats d) (ae_GetStats s)"
  unfolding ae_GetEnabled_def ae_GetImage_def ae_GetSecurityContext_def ae_GetResources_def ae_GetEnv_def
    ae_GetPorts_def ae_GetStats_def deepMergeAIExtension_def
  by (simp_all add: nil_safe_structs del: not_None_eq split: option.split)

lemma get_merge_kube [get_merge]:
  "kpc_GetDeployment (merge_structs merge_kube d s) = deepMergeDeployment (kpc_GetDeployment d) (kpc_GetDeployment s)"
  "kpc_GetEnvoyContainer (merge_structs merge_kube d s) = deepMergeEnvoyContainer (kpc_GetEnvoyContainer d) (kpc_GetEnvoyContainer s)"
  "kpc_GetSdsContainer (merge_structs merge_kube d s) = deepMergeSdsContainer (kpc_GetSdsContainer d) (kpc_GetSdsContainer s)"
  "kpc_GetPodTemplate (merge_structs merge_kube d s) = deepMergePodTemplate (kpc_GetPodTemplate d) (kpc_GetPodTemplate s)"
  "kpc_GetService (merge_structs merge_kube d s) = deepMergeService (kpc_GetService d) (kpc_GetService s)"
  "kpc_GetIstio (merge_structs merge_kube d s) = deepMergeIstioIntegration (kpc_GetIstio d) (kpc_GetIstio s)"
  "kpc_GetStats (merge_structs merge_kube d s) = deepMergeStatsConfig (kpc_GetStats d) (kpc_GetStats s)"
  "kpc_GetAiExtension (merge_structs merge_kube d s) = deepMergeAIExtension (kpc_GetAiExtension d) (kpc_GetAiExtension s)"
  "kpc_GetFloatingUserId (merge_structs merge_kube d s) = mergePointers (kpc_GetFloatingUserId d) (kpc_GetFloatingUserId s)"
  unfolding kpc_GetDeployment_def kpc_GetEnvoyContainer_def kpc_GetSdsContainer_def kpc_GetPodTemplate_def
    kpc_GetService_def kpc_GetIstio_def kpc_GetStats_def kpc_GetAiExtension_def
    kpc_GetFloatingUserId_def
  by (simp_all add: nil_safe_structs del: not_None_eq split: option.split)

end
