(* ===== verification/DeployerMergeProps.thy ===== *)
theory DeployerMergeProps
  imports DeployerMerge
begin

text \<open>
  What the merge of gateway parameters does to each setting. The settings are the accessor paths from
  the Kubernetes configuration to a scalar, a map or a slice.
\<close>

section \<open>Settings\<close>

type_synonym ('j, 'v) setting = "'j kubernetes_proxy_config option \<Rightarrow> 'v option"

definition images :: "('j, image) setting list" where
  "images = [\<lambda>k. ec_GetImage (kpc_GetEnvoyContainer k), \<lambda>k. sc_GetImage (kpc_GetSdsContainer k),
     \<lambda>k. ic_GetImage (ii_GetIstioProxyContainer (kpc_GetIstio k)), \<lambda>k. ae_GetImage (kpc_GetAiExtension k)]"

definition security_contexts :: "('j, security_context) setting list" where
  "security_contexts = [\<lambda>k. ec_GetSecurityContext (kpc_GetEnvoyContainer k), \<lambda>k. sc_GetSecurityContext (kpc_GetSdsContainer k),
     \<lambda>k. ic_GetSecurityContext (ii_GetIstioProxyContainer (kpc_GetIstio k)), \<lambda>k. ae_GetSecurityContext (kpc_GetAiExtension k)]"

definition resources :: "('j, 'j resource_requirements) setting list" where
  "resources = [\<lambda>k. ec_GetResources (kpc_GetEnvoyContainer k), \<lambda>k. sc_GetResources (kpc_GetSdsContainer k),
     \<lambda>k. ic_GetResources (ii_GetIstioProxyContainer (kpc_GetIstio k)), \<lambda>k. ae_GetResources (kpc_GetAiExtension k)]"

text \<open>All paths that go through one of the first list and then read a field.\<close>

definition through :: "('a \<Rightarrow> 'b) list \<Rightarrow> ('b \<Rightarrow> 'c) list \<Rightarrow> ('a \<Rightarrow> 'c) list" where
  "through gs fs = concat (map (\<lambda>g. map (\<lambda>f k. f (g k)) fs) gs)"

definition string_settings :: "('j, string) setting list" where
  "string_settings = through images [img_GetRegistry, img_GetRepository, img_GetTag, img_GetDigest, img_GetPullPolicy] @
     through security_contexts [nil_safe sctx_ProcMount, \<lambda>c. nil_safe sec_LocalhostProfile (nil_safe sctx_SeccompProfile c)] @
     [\<lambda>k. eb_GetLogLevel (ec_GetBootstrap (kpc_GetEnvoyContainer k)), \<lambda>k. sb_GetLogLevel (sc_GetBootstrap (kpc_GetSdsContainer k)),
      \<lambda>k. ic_GetLogLevel (ii_GetIstioProxyContainer (kpc_GetIstio k)), \<lambda>k. svc_GetType (kpc_GetService k),
      \<lambda>k. svc_GetClusterIP (kpc_GetService k), \<lambda>k. st_GetRoutePrefixRewrite (kpc_GetStats k),
      \<lambda>k. st_GetStatsRoutePrefixRewrite (kpc_GetStats k),
      \<lambda>k. nil_safe psc_FSGroupChangePolicy (pod_GetSecurityContext (kpc_GetPodTemplate k))]"

definition bool_settings :: "('j, bool) setting list" where
  "bool_settings = through security_contexts [nil_safe sctx_RunAsNonRoot, nil_safe sctx_Privileged,
       nil_safe sctx_ReadOnlyRootFilesystem, nil_safe sctx_AllowPrivilegeEscalation] @
     [kpc_GetFloatingUserId, \<lambda>k. st_GetEnabled (kpc_GetStats k), \<lambda>k. st_GetEnableStatsRoute (kpc_GetStats k),
      \<lambda>k. ae_GetEnabled (kpc_GetAiExtension k), \<lambda>k. nil_safe psc_RunAsNonRoot (pod_GetSecurityContext (kpc_GetPodTemplate k))]"

definition int_settings :: "('j, int) setting list" where
  "int_settings = through security_contexts [nil_safe sctx_RunAsUser, nil_safe sctx_RunAsGroup] @
     through [\<lambda>k. pod_GetSecurityContext (kpc_GetPodTemplate k)] [nil_safe psc_RunAsUser, nil_safe psc_RunAsGroup, nil_safe psc_FSGroup]"

text \<open>The settings that helm sets for all gateways.\<close>

definition protected_settings :: "('j, string) setting list" where
  "protected_settings = through [\<lambda>k. ii_GetIstioProxyContainer (kpc_GetIstio k)]
     [ic_GetIstioDiscoveryAddress, ic_GetIstioMetaMeshId, ic_GetIstioMetaClusterId]"

definition map_settings :: "('j, string \<rightharpoonup> string) setting list" where
  "map_settings = [\<lambda>k. eb_GetComponentLogLevels (ec_GetBootstrap (kpc_GetEnvoyContainer k)),
     \<lambda>k. pod_GetExtraLabels (kpc_GetPodTemplate k), \<lambda>k. pod_GetExtraAnnotations (kpc_GetPodTemplate k),
     \<lambda>k. pod_GetNodeSelector (kpc_GetPodTemplate k), \<lambda>k. svc_GetExtraLabels (kpc_GetService k),
     \<lambda>k. svc_GetExtraAnnotations (kpc_GetService k)]"

definition slice_settings :: "('j, 'j list) setting list" where
  "slice_settings = [\<lambda>k. pod_GetTolerations (kpc_GetPodTemplate k), \<lambda>k. ae_GetEnv (kpc_GetAiExtension k),
     \<lambda>k. ae_GetPorts (kpc_GetAiExtension k)] @
     through [\<lambda>k. pod_GetAffinity (kpc_GetPodTemplate k)]
       [\<lambda>a. nil_safe na_Preferred (nil_safe aff_NodeAffinity a), \<lambda>a. nil_safe pa_Required (nil_safe aff_PodAffinity a),
        \<lambda>a. nil_safe pa_Preferred (nil_safe aff_PodAffinity a), \<lambda>a. nil_safe paa_Required (nil_safe aff_PodAntiAffinity a),
        \<lambda>a. nil_safe paa_Preferred (nil_safe aff_PodAntiAffinity a)]"

text \<open>A setting is merged by \<open>M\<close>.\<close>

definition merged_by :: "('v option \<Rightarrow> 'v option \<Rightarrow> 'v option) \<Rightarrow> ('j, 'v) setting \<Rightarrow> bool" where
  "merged_by M a \<longleftrightarrow> (\<forall>d s. a (merge_structs merge_kube d s) = M (a d) (a s))"

lemmas setting_defs = images_def security_contexts_def through_def merged_by_def

lemma settings_merged:
  "list_all (merged_by mergePointers) string_settings"
  "list_all (merged_by mergePointers) bool_settings"
  "list_all (merged_by mergePointers) int_settings"
  "list_all (merged_by (\<lambda>d s. mergePointers s d)) protected_settings"
  "list_all (merged_by deepMergeMaps) map_settings"
  "list_all (merged_by deepMergeSlices) slice_settings"
  by (simp_all add: string_settings_def bool_settings_def int_settings_def protected_settings_def
      map_settings_def slice_settings_def setting_defs get_merge)

section \<open>The whole parameters\<close>

lemma deepMerge_kube:
  assumes "gwp_SelfManaged s = None" "deepMergeGatewayParameters (Some d) (Some s) = Inr (d', Some r)"
  shows "gwp_Kube r = merge_structs merge_kube (gwp_Kube d) (gwp_Kube s)"
  using assms by (auto simp: deepMergeGatewayParameters_def merge_structs_def Let_def split: option.splits)


text \<open>The merge panics only for a self-managed override of nothing. Otherwise a self-managed override
  gives self-managed parameters without a Kubernetes configuration, an override without
  a configuration changes nothing, and the object that was passed in holds the result except when it
  had no configuration to merge into.\<close>

theorem deepMergeGatewayParameters_cases:
  "(\<exists>t. deepMergeGatewayParameters dst src = Inl t) = (dst = None \<and> (\<exists>s. src = Some s \<and> gwp_SelfManaged s \<noteq> None)) \<and>
   (case src of None \<Rightarrow> deepMergeGatewayParameters dst src = Inr (dst, dst)
    | Some s \<Rightarrow>
        (case dst of None \<Rightarrow> True
         | Some d \<Rightarrow> \<exists>d' r. deepMergeGatewayParameters dst src = Inr (Some d', Some r) \<and>
             (gwp_SelfManaged s \<noteq> None \<longrightarrow> d' = r \<and> gwp_SelfManaged r = gwp_SelfManaged s \<and> gwp_Kube r = None) \<and>
             (gwp_SelfManaged s = None \<and> gwp_Kube s = None \<longrightarrow> d' = d \<and> r = d) \<and>
             (gwp_SelfManaged s = None \<and> gwp_Kube s \<noteq> None \<longrightarrow>
                (d' = r \<longleftrightarrow> gwp_Kube d \<noteq> None \<or> d = s) \<and> gwp_Kube r = merge_structs merge_kube (gwp_Kube d) (gwp_Kube s))))"
proof (cases src)
  case None
  then show ?thesis by (simp add: deepMergeGatewayParameters_def)
next
  case (Some s)
  then show ?thesis
    by (cases dst; cases "gwp_SelfManaged s"; cases "gwp_Kube s")
      (auto simp: deepMergeGatewayParameters_def merge_structs_def Let_def split: option.splits)
qed

section \<open>Concrete merges\<close>

definition no_kube :: "'j kubernetes_proxy_config" where
  "no_kube = \<lparr>kpc_Deployment = None, kpc_EnvoyContainer = None, kpc_SdsContainer = None, kpc_PodTemplate = None,
     kpc_Service = None, kpc_Istio = None, kpc_Stats = None, kpc_AiExtension = None, kpc_FloatingUserId = None\<rparr>"

definition gwp_of :: "'j kubernetes_proxy_config option \<Rightarrow> unit option \<Rightarrow> 'j gateway_parameters" where
  "gwp_of k m = \<lparr>gwp_Spec = \<lparr>gps_Kube = k, gps_SelfManaged = m\<rparr>\<rparr>"


theorem deepMergeGatewayParameters_cases_witness:
  "\<exists>t. deepMergeGatewayParameters None (Some (gwp_of None (Some ()))) = Inl t"
  using deepMergeGatewayParameters_cases [of None "Some (gwp_of None (Some ()))"] by (simp add: gwp_of_def)

text \<open>The name of a Windows credential spec is lost: merging options that only set a user name into
  options with a credential spec name clears that name, because the code assigns the credential spec to
  it.\<close>

theorem windows_credential_name_lost:
  "deepMergeWindowsSecurityContextOptions
     (Some \<lparr>win_GMSACredentialSpecName = Some ''gmsa-webapp'', win_GMSACredentialSpec = None, win_RunAsUserName = None, win_HostProcess = None\<rparr>)
     (Some \<lparr>win_GMSACredentialSpecName = None, win_GMSACredentialSpec = None, win_RunAsUserName = Some ''u'', win_HostProcess = None\<rparr>) =
   Some \<lparr>win_GMSACredentialSpecName = None, win_GMSACredentialSpec = None, win_RunAsUserName = Some ''u'', win_HostProcess = None\<rparr>"
  by (simp add: deepMergeWindowsSecurityContextOptions_def merge_structs_def mergePointers_def)

text \<open>An empty map in the override removes all default entries, although the comment says that the
  entries of the override are added to the default when neither is nil; likewise for slices.\<close>

theorem empty_override_clears:
  "deepMergeMaps (Some [''app'' \<mapsto> ''web'']) (Some Map.empty) = Some (Map.empty :: string \<rightharpoonup> string) \<and>
   deepMergeSlices (Some [1 :: nat, 2]) (Some []) = Some []"
  by (simp add: deepMergeMaps_def deepMergeSlices_def)

end
