(* ===== verification/Deployer.thy ===== *)
theory Deployer
  imports DeployerMergeProps ListenerTranslator
begin

text \<open>
  The deployer, \<open>projects/gateway2/deployer/deployer.go\<close>, \<open>values.go\<close> and \<open>values_helpers.go\<close>: it looks up the
  parameters of a gateway, merges them with the defaults of its class, turns them into the values of a
  Helm chart, renders the chart and applies the objects.

  The API client, the JSON encoder, Helm and the YAML decoder are arguments (the records \<open>deployer_client\<close>
  and \<open>chart_lib\<close>). The loader of the embedded chart is left out.
\<close>

section \<open>Helm values (values.go)\<close>

record helm_port =
  hp_Port :: "16 word option"
  hp_Protocol :: "string option"
  hp_Name :: "string option"
  hp_TargetPort :: "16 word option"

record helm_image =
  hi_Registry :: "string option"
  hi_Repository :: "string option"
  hi_Tag :: "string option"
  hi_Digest :: "string option"
  hi_PullPolicy :: "string option"

record helm_service =
  hs_Type :: "string option"
  hs_ClusterIP :: "string option"
  hs_ExtraAnnotations :: "(string \<rightharpoonup> string) option"
  hs_ExtraLabels :: "(string \<rightharpoonup> string) option"

record helm_xds =
  hx_Host :: "string option"
  hx_Port :: "int option"

record helm_istio =
  his_Enabled :: "bool option"

record helm_sds_bootstrap =
  hsb_LogLevel :: "string option"

record 'j helm_sds_container =
  hsc_Image :: "helm_image option"
  hsc_Resources :: "'j resource_requirements option"
  hsc_SecurityContext :: "security_context option"
  hsc_SdsBootstrap :: "helm_sds_bootstrap option"

record 'j helm_istio_container =
  hic_Image :: "helm_image option"
  hic_LogLevel :: "string option"
  hic_Resources :: "'j resource_requirements option"
  hic_SecurityContext :: "security_context option"
  hic_IstioDiscoveryAddress :: "string option"
  hic_IstioMetaMeshId :: "string option"
  hic_IstioMetaClusterId :: "string option"

record helm_stats_config =
  hst_Enabled :: "bool option"
  hst_RoutePrefixRewrite :: "string option"
  hst_EnableStatsRoute :: "bool option"
  hst_StatsPrefixRewrite :: "string option"

record 'j helm_ai_extension =
  hai_Enabled :: bool
  hai_Image :: "helm_image option"
  hai_SecurityContext :: "security_context option"
  hai_Resources :: "'j resource_requirements option"
  hai_Env :: "'j list option"
  hai_Ports :: "'j list option"
  hai_Stats :: string

text \<open>The fields for autoscaling, the floating user id and the name overrides are never set by the code
  and are left out.\<close>

record 'j helm_gateway =
  hg_Name :: "string option"
  hg_GatewayName :: "string option"
  hg_GatewayNamespace :: "string option"
  hg_ReplicaCount :: "32 word option"
  hg_Ports :: "helm_port list"
  hg_Service :: "helm_service option"
  hg_ExtraPodAnnotations :: "(string \<rightharpoonup> string) option"
  hg_ExtraPodLabels :: "(string \<rightharpoonup> string) option"
  hg_ImagePullSecrets :: "string list option"
  hg_PodSecurityContext :: "pod_security_context option"
  hg_NodeSelector :: "(string \<rightharpoonup> string) option"
  hg_Affinity :: "'j affinity option"
  hg_Tolerations :: "'j list option"
  hg_SdsContainer :: "'j helm_sds_container option"
  hg_IstioContainer :: "'j helm_istio_container option"
  hg_Istio :: "helm_istio option"
  hg_LogLevel :: "string option"
  hg_ComponentLogLevel :: "string option"
  hg_Image :: "helm_image option"
  hg_Resources :: "'j resource_requirements option"
  hg_SecurityContext :: "security_context option"
  hg_Xds :: "helm_xds option"
  hg_Stats :: "helm_stats_config option"
  hg_AIExtension :: "'j helm_ai_extension option"

record 'j helm_config =
  hc_Gateway :: "'j helm_gateway option"

section \<open>Errors\<close>

datatype deploy_error =
  ComponentLogLevelEmptyError string string
| MarshalError string
| GetGatewayParametersError string namespaced_name namespaced_name string
| NoDefaultGatewayParameters string
| NoGatewayParametersForClass
| EmptyGatewayClassName
| GetGatewayClassError namespaced_name
| ValuesError namespaced_name deploy_error
| ConvertValuesError namespaced_name string
| RenderError namespaced_name string
| ApplyError string string

section \<open>Values (values_helpers.go)\<close>

definition addPortValue :: "helm_port list \<Rightarrow> 'sel listener \<Rightarrow> helm_port list" where
  "addPortValue gwPorts l =
     (let listenerPort = ucast (l_Port l) :: 16 word
      in if indexFunc (\<lambda>p. hp_Port p = Some listenerPort) gwPorts \<noteq> None then gwPorts
         else gwPorts @ [\<lparr>hp_Port = Some listenerPort, hp_Protocol = Some ''TCP'', hp_Name = Some (l_Name l),
                          hp_TargetPort = Some (TranslatePort listenerPort)\<rparr>])"

definition getPortsValues :: "'sel gateway \<Rightarrow> helm_port list" where
  "getPortsValues gw = foldl addPortValue [] (gw_Listeners gw)"

definition getServiceValues :: "service option \<Rightarrow> helm_service option" where
  "getServiceValues svcConfig = Some \<lparr>hs_Type = svc_GetType svcConfig, hs_ClusterIP = svc_GetClusterIP svcConfig,
     hs_ExtraAnnotations = svc_GetExtraAnnotations svcConfig, hs_ExtraLabels = svc_GetExtraLabels svcConfig\<rparr>"

definition getImageValues :: "image option \<Rightarrow> helm_image option" where
  "getImageValues img =
     (case img of
        None \<Rightarrow> Some \<lparr>hi_Registry = None, hi_Repository = None, hi_Tag = None, hi_Digest = None, hi_PullPolicy = None\<rparr>
      | Some _ \<Rightarrow> Some \<lparr>hi_Registry = img_GetRegistry img, hi_Repository = img_GetRepository img,
          hi_Tag = img_GetTag img, hi_Digest = img_GetDigest img, hi_PullPolicy = img_GetPullPolicy img\<rparr>)"

definition getSdsContainerValues :: "'j sds_container option \<Rightarrow> 'j helm_sds_container option" where
  "getSdsContainerValues config =
     (case config of
        None \<Rightarrow> None
      | Some _ \<Rightarrow>
          let vals = \<lparr>hsc_Image = getImageValues (sc_GetImage config), hsc_Resources = sc_GetResources config,
                      hsc_SecurityContext = sc_GetSecurityContext config, hsc_SdsBootstrap = Some \<lparr>hsb_LogLevel = None\<rparr>\<rparr>
          in Some (case sc_GetBootstrap config of
                     None \<Rightarrow> vals
                   | Some b \<Rightarrow> vals\<lparr>hsc_SdsBootstrap := Some \<lparr>hsb_LogLevel = sb_GetLogLevel (Some b)\<rparr>\<rparr>))"

definition getIstioContainerValues :: "'j istio_container option \<Rightarrow> 'j helm_istio_container option" where
  "getIstioContainerValues config =
     (case config of
        None \<Rightarrow> None
      | Some _ \<Rightarrow> Some \<lparr>hic_Image = getImageValues (ic_GetImage config), hic_LogLevel = ic_GetLogLevel config,
          hic_Resources = ic_GetResources config, hic_SecurityContext = ic_GetSecurityContext config,
          hic_IstioDiscoveryAddress = ic_GetIstioDiscoveryAddress config,
          hic_IstioMetaMeshId = ic_GetIstioMetaMeshId config, hic_IstioMetaClusterId = ic_GetIstioMetaClusterId config\<rparr>)"

text \<open>Both branches of the code return the same value.\<close>

definition getIstioValues :: "bool \<Rightarrow> 'j istio_integration option \<Rightarrow> helm_istio option" where
  "getIstioValues integrationEnabled istioConfig =
     (case istioConfig of
        None \<Rightarrow> Some \<lparr>his_Enabled = Some integrationEnabled\<rparr>
      | Some _ \<Rightarrow> Some \<lparr>his_Enabled = Some integrationEnabled\<rparr>)"

definition getStatsValues :: "stats_config option \<Rightarrow> helm_stats_config option" where
  "getStatsValues statsConfig =
     (case statsConfig of
        None \<Rightarrow> None
      | Some _ \<Rightarrow> Some \<lparr>hst_Enabled = st_GetEnabled statsConfig, hst_RoutePrefixRewrite = st_GetRoutePrefixRewrite statsConfig,
          hst_EnableStatsRoute = st_GetEnableStatsRoute statsConfig,
          hst_StatsPrefixRewrite = st_GetStatsRoutePrefixRewrite statsConfig\<rparr>)"

text \<open>The loop over the map takes the order of the keys \<open>ks\<close> and stops at the first empty key or value.\<close>

fun logLevelParts :: "(string \<rightharpoonup> string) \<Rightarrow> string list \<Rightarrow> deploy_error + string list" where
  "logLevelParts vals [] = Inr []"
| "logLevelParts vals (k # ks) =
     (let v = (case vals k of None \<Rightarrow> [] | Some v \<Rightarrow> v)
      in if k = [] \<or> v = [] then Inl (ComponentLogLevelEmptyError k v)
         else case logLevelParts vals ks of Inl e \<Rightarrow> Inl e | Inr parts \<Rightarrow> Inr ((k @ '':'' @ v) # parts))"

definition ComponentLogLevelsToString :: "string list \<Rightarrow> (string \<rightharpoonup> string) option \<Rightarrow> deploy_error + string" where
  "ComponentLogLevelsToString ks vals =
     (case vals of
        None \<Rightarrow> Inr []
      | Some m \<Rightarrow>
          if m = Map.empty then Inr []
          else case logLevelParts m ks of
                 Inl e \<Rightarrow> Inl e
               | Inr parts \<Rightarrow> Inr (join_strings '','' (sort parts)))"

definition getAIExtensionValues ::
  "(ai_extension_stats \<Rightarrow> string + string) \<Rightarrow> 'j ai_extension option \<Rightarrow> (deploy_error + 'j helm_ai_extension option) outcome" where
  "getAIExtensionValues marshal config =
     (case config of
        None \<Rightarrow> Inr (Inr None)
      | Some _ \<Rightarrow>
          (case (case ae_GetStats config of None \<Rightarrow> Inr [] | Some st \<Rightarrow> marshal st) of
             Inl err \<Rightarrow> Inr (Inl (MarshalError err))
           | Inr byt \<Rightarrow>
               bind_out (deref (ae_GetEnabled config)) (\<lambda>enabled.
                 Inr (Inr (Some \<lparr>hai_Enabled = enabled, hai_Image = getImageValues (ae_GetImage config),
                   hai_SecurityContext = ae_GetSecurityContext config, hai_Resources = ae_GetResources config,
                   hai_Env = ae_GetEnv config, hai_Ports = ae_GetPorts config, hai_Stats = byt\<rparr>)))))"

section \<open>The deployer (deployer.go)\<close>

record gateway_class =
  gwc_Name :: string
  gwc_Namespace :: string
  gwc_ParametersRef :: "(string \<times> string option) option"

record 'j deployer_client =
  dc_GetGatewayParameters :: "namespaced_name \<Rightarrow> string + 'j gateway_parameters"
  dc_GetGatewayClass :: "string \<Rightarrow> string + gateway_class"

record deployer_inputs =
  in_ControllerName :: string
  in_IntegrationEnabled :: bool
  in_XdsHost :: string
  in_XdsPort :: int

abbreviation GatewayParametersAnnotationName :: string where
  "GatewayParametersAnnotationName \<equiv> ''gateway.gloo.solo.io/gateway-parameters-name''"

definition getGatewayClassFromGateway :: "'j deployer_client \<Rightarrow> 'sel gateway \<Rightarrow> deploy_error + gateway_class" where
  "getGatewayClassFromGateway cli gw =
     (if gw_GatewayClassName gw = [] then Inl EmptyGatewayClassName
      else case dc_GetGatewayClass cli (gw_GatewayClassName gw) of
             Inl err \<Rightarrow> Inl (GetGatewayClassError (gw_key gw))
           | Inr gwc \<Rightarrow> Inr gwc)"

definition getGatewayParametersForGatewayClass ::
  "'j deployer_client \<Rightarrow> gateway_class \<Rightarrow> deploy_error + 'j gateway_parameters" where
  "getGatewayParametersForGatewayClass cli gwc =
     (case gwc_ParametersRef gwc of
        None \<Rightarrow> Inl (NoDefaultGatewayParameters (gwc_Name gwc))
      | Some (gwpName, paramNamespace) \<Rightarrow>
          if gwpName = [] then Inl NoGatewayParametersForClass
          else
            let gwpNamespace = (case paramNamespace of None \<Rightarrow> [] | Some ns \<Rightarrow> ns)
            in case dc_GetGatewayParameters cli (NamespacedName gwpNamespace gwpName) of
                 Inl err \<Rightarrow> Inl (GetGatewayParametersError err (NamespacedName gwpNamespace gwpName)
                              (NamespacedName (gwc_Namespace gwc) (gwc_Name gwc)) ''GatewayClass'')
               | Inr gwp \<Rightarrow> Inr gwp)"

definition getDefaultGatewayParameters :: "'j deployer_client \<Rightarrow> 'sel gateway \<Rightarrow> deploy_error + 'j gateway_parameters" where
  "getDefaultGatewayParameters cli gw =
     (case getGatewayClassFromGateway cli gw of
        Inl err \<Rightarrow> Inl err
      | Inr gwc \<Rightarrow> getGatewayParametersForGatewayClass cli gwc)"

text \<open>The value that the merge returns is ignored; the code goes on with the object it merged into.\<close>

definition getGatewayParametersForGateway ::
  "'j deployer_client \<Rightarrow> 'sel gateway \<Rightarrow> (deploy_error + 'j gateway_parameters) outcome" where
  "getGatewayParametersForGateway cli gw =
     (let gwpName = (case gw_Annotations gw GatewayParametersAnnotationName of None \<Rightarrow> [] | Some n \<Rightarrow> n)
      in if gwpName = [] then Inr (getDefaultGatewayParameters cli gw)
         else
           case dc_GetGatewayParameters cli (NamespacedName (gw_Namespace gw) gwpName) of
             Inl err \<Rightarrow> Inr (Inl (GetGatewayParametersError err (NamespacedName (gw_Namespace gw) gwpName) (gw_key gw) ''Gateway''))
           | Inr gwp \<Rightarrow>
               (case getDefaultGatewayParameters cli gw of
                  Inl err \<Rightarrow> Inr (Inl err)
                | Inr defaultGwp \<Rightarrow>
                    bind_out (deepMergeGatewayParameters (Some defaultGwp) (Some gwp)) (\<lambda>(mergedGwp, _).
                      bind_out (deref mergedGwp) (\<lambda>merged. Inr (Inr merged)))))"

text \<open>The update through each pointer to a security context.\<close>

definition clear_user :: "security_context option \<Rightarrow> security_context option" where
  "clear_user c = map_option (\<lambda>c. c\<lparr>sctx_RunAsUser := None\<rparr>) c"

definition applyFloatingUserId :: "'j kubernetes_proxy_config option \<Rightarrow> 'j kubernetes_proxy_config option" where
  "applyFloatingUserId dstKube =
     (case kpc_GetFloatingUserId dstKube of
        Some True \<Rightarrow>
          map_option (\<lambda>k. k\<lparr>
            kpc_PodTemplate := map_option (\<lambda>p. p\<lparr>pod_SecurityContext :=
              map_option (\<lambda>c. c\<lparr>psc_RunAsUser := None\<rparr>) (pod_SecurityContext p)\<rparr>) (kpc_PodTemplate k),
            kpc_EnvoyContainer := map_option (\<lambda>c. c\<lparr>ec_SecurityContext := clear_user (ec_SecurityContext c)\<rparr>) (kpc_EnvoyContainer k),
            kpc_SdsContainer := map_option (\<lambda>c. c\<lparr>sc_SecurityContext := clear_user (sc_SecurityContext c)\<rparr>) (kpc_SdsContainer k),
            kpc_Istio := map_option (\<lambda>i. i\<lparr>ii_IstioProxyContainer :=
              map_option (\<lambda>c. c\<lparr>ic_SecurityContext := clear_user (ic_SecurityContext c)\<rparr>) (ii_IstioProxyContainer i)\<rparr>) (kpc_Istio k),
            kpc_AiExtension := map_option (\<lambda>c. c\<lparr>ae_SecurityContext := clear_user (ae_SecurityContext c)\<rparr>) (kpc_AiExtension k)\<rparr>) dstKube
      | _ \<Rightarrow> dstKube)"

definition default_values :: "deployer_inputs \<Rightarrow> 'sel gateway \<Rightarrow> 'j helm_gateway" where
  "default_values inputs gw = \<lparr>hg_Name = Some (gw_Name gw), hg_GatewayName = Some (gw_Name gw),
     hg_GatewayNamespace = Some (gw_Namespace gw), hg_ReplicaCount = None, hg_Ports = getPortsValues gw,
     hg_Service = None, hg_ExtraPodAnnotations = None, hg_ExtraPodLabels = None, hg_ImagePullSecrets = None,
     hg_PodSecurityContext = None, hg_NodeSelector = None, hg_Affinity = None, hg_Tolerations = None,
     hg_SdsContainer = None, hg_IstioContainer = None, hg_Istio = None, hg_LogLevel = None,
     hg_ComponentLogLevel = None, hg_Image = None, hg_Resources = None, hg_SecurityContext = None,
     hg_Xds = Some \<lparr>hx_Host = Some (in_XdsHost inputs), hx_Port = Some (in_XdsPort inputs)\<rparr>,
     hg_Stats = None, hg_AIExtension = None\<rparr>"

definition getValues ::
  "(ai_extension_stats \<Rightarrow> string + string) \<Rightarrow> string list \<Rightarrow> deployer_inputs \<Rightarrow> 'sel gateway \<Rightarrow> 'j gateway_parameters option \<Rightarrow>
   (deploy_error + 'j helm_config) outcome" where
  "getValues marshal ks inputs gw gwParam =
     (let gateway = default_values inputs gw
      in case gwParam of
           None \<Rightarrow> Inr (Inr \<lparr>hc_Gateway = Some gateway\<rparr>)
         | Some p \<Rightarrow>
             let kube = gwp_Kube p;
                 kube = (if kpc_GetFloatingUserId kube = Some True then applyFloatingUserId kube else kube);
                 pod = kpc_GetPodTemplate kube;
                 envoy = kpc_GetEnvoyContainer kube;
                 gateway = gateway\<lparr>hg_ReplicaCount := pd_GetReplicas (kpc_GetDeployment kube),
                   hg_Service := getServiceValues (kpc_GetService kube),
                   hg_ExtraPodAnnotations := pod_GetExtraAnnotations pod,
                   hg_ExtraPodLabels := pod_GetExtraLabels pod,
                   hg_ImagePullSecrets := pod_GetImagePullSecrets pod,
                   hg_PodSecurityContext := pod_GetSecurityContext pod,
                   hg_NodeSelector := pod_GetNodeSelector pod,
                   hg_Affinity := pod_GetAffinity pod,
                   hg_Tolerations := pod_GetTolerations pod,
                   hg_LogLevel := eb_GetLogLevel (ec_GetBootstrap envoy)\<rparr>
             in case ComponentLogLevelsToString ks (eb_GetComponentLogLevels (ec_GetBootstrap envoy)) of
                  Inl err \<Rightarrow> Inr (Inl err)
                | Inr compLogLevelStr \<Rightarrow>
                    let gateway = gateway\<lparr>hg_ComponentLogLevel := Some compLogLevelStr,
                          hg_Resources := ec_GetResources envoy,
                          hg_SecurityContext := ec_GetSecurityContext envoy,
                          hg_Image := getImageValues (ec_GetImage envoy),
                          hg_Istio := getIstioValues (in_IntegrationEnabled inputs) (kpc_GetIstio kube),
                          hg_SdsContainer := getSdsContainerValues (kpc_GetSdsContainer kube),
                          hg_IstioContainer := getIstioContainerValues (ii_GetIstioProxyContainer (kpc_GetIstio kube))\<rparr>
                    in bind_out (getAIExtensionValues marshal (kpc_GetAiExtension kube)) (\<lambda>ai.
                         case ai of
                           Inl err \<Rightarrow> Inr (Inl err)
                         | Inr aiExtension \<Rightarrow>
                             Inr (Inr \<lparr>hc_Gateway = Some (gateway\<lparr>hg_AIExtension := aiExtension,
                               hg_Stats := getStatsValues (kpc_GetStats kube)\<rparr>)\<rparr>)))"

text \<open>Rendering: the JSON conversion and the chart installation, and the decoder of the manifest, which gives
  the documents up to the end of the stream or an error.\<close>

record 'b object =
  obj_GVK :: "string \<times> string \<times> string"
  obj_Namespace :: string
  obj_Name :: string
  obj_OwnerReferences :: "(string \<times> string \<times> bool \<times> string \<times> string) list"
  obj_Body :: 'b

record ('j, 'v, 'doc, 'b) chart_lib =
  cl_Convert :: "'j helm_config \<Rightarrow> string + 'v"
  cl_Install :: "string \<Rightarrow> string \<Rightarrow> 'v \<Rightarrow> string + string"
  cl_Decode :: "string \<Rightarrow> (string + 'doc) list"
  cl_SchemeKnows :: "'doc \<Rightarrow> bool"
  cl_FromUnstructured :: "'doc \<Rightarrow> 'b object option"
  cl_IsEmpty :: "'doc \<Rightarrow> bool"
  cl_Unstructured :: "'doc \<Rightarrow> 'b object"

fun ConvertYAMLToObjects :: "('j, 'v, 'doc, 'b) chart_lib \<Rightarrow> (string + 'doc) list \<Rightarrow> string + 'b object list" where
  "ConvertYAMLToObjects lib [] = Inr []"
| "ConvertYAMLToObjects lib (Inl err # docs) = Inl err"
| "ConvertYAMLToObjects lib (Inr doc # docs) =
     (let objs = (if cl_SchemeKnows lib doc
                  then (case cl_FromUnstructured lib doc of Some realObj \<Rightarrow> [realObj] | None \<Rightarrow> [cl_Unstructured lib doc])
                  else if cl_IsEmpty lib doc then [] else [cl_Unstructured lib doc])
      in case ConvertYAMLToObjects lib docs of Inl err \<Rightarrow> Inl err | Inr rest \<Rightarrow> Inr (objs @ rest))"

definition Render :: "('j, 'v, 'doc, 'b) chart_lib \<Rightarrow> string \<Rightarrow> string \<Rightarrow> 'v \<Rightarrow> deploy_error + 'b object list" where
  "Render lib name ns vals =
     (case cl_Install lib name ns vals of
        Inl err \<Rightarrow> Inl (RenderError (NamespacedName ns name) err)
      | Inr manifest \<Rightarrow>
          (case ConvertYAMLToObjects lib (cl_Decode lib manifest) of
             Inl err \<Rightarrow> Inl (RenderError (NamespacedName ns name) err)
           | Inr objs \<Rightarrow> Inr objs))"

definition renderChartToObjects :: "('j, 'v, 'doc, 'b) chart_lib \<Rightarrow> 'sel gateway \<Rightarrow> 'v \<Rightarrow> deploy_error + 'b object list" where
  "renderChartToObjects lib gw vals =
     (case Render lib (gw_Name gw) (gw_Namespace gw) vals of
        Inl err \<Rightarrow> Inl err
      | Inr objs \<Rightarrow> Inr (map (\<lambda>obj. obj\<lparr>obj_Namespace := gw_Namespace gw\<rparr>) objs))"

definition GetGvksToWatch :: "('j, 'v, 'doc, 'b) chart_lib \<Rightarrow> 'sel gateway \<Rightarrow> 'v \<Rightarrow> deploy_error + (string \<times> string \<times> string) list" where
  "GetGvksToWatch lib emptyGw vals =
     (case renderChartToObjects lib emptyGw vals of
        Inl err \<Rightarrow> Inl err
      | Inr objs \<Rightarrow> Inr (foldl (\<lambda>ret obj. if obj_GVK obj \<in> set ret then ret else ret @ [obj_GVK obj]) [] objs))"

text \<open>An owner reference: kind, API version, controller flag, UID and name.\<close>

definition gateway_owner :: "'sel gateway \<Rightarrow> string \<times> string \<times> bool \<times> string \<times> string" where
  "gateway_owner gw = (gw_Kind gw, gw_APIVersion gw, True, gw_UID gw, gw_Name gw)"

definition GetObjsToDeploy ::
  "(ai_extension_stats \<Rightarrow> string + string) \<Rightarrow> string list \<Rightarrow> ('j, 'v, 'doc, 'b) chart_lib \<Rightarrow> 'j deployer_client \<Rightarrow> deployer_inputs \<Rightarrow>
   'sel gateway \<Rightarrow> (deploy_error + 'b object list) outcome" where
  "GetObjsToDeploy marshal ks lib cli inputs gw =
     bind_out (getGatewayParametersForGateway cli gw) (\<lambda>res.
       case res of
         Inl err \<Rightarrow> Inr (Inl err)
       | Inr gwParam \<Rightarrow>
           if gwp_SelfManaged gwParam \<noteq> None then Inr (Inr [])
           else
             bind_out (getValues marshal ks inputs gw (Some gwParam)) (\<lambda>res.
               case res of
                 Inl err \<Rightarrow> Inr (Inl (ValuesError (gw_key gw) err))
               | Inr vals \<Rightarrow>
                   (case cl_Convert lib vals of
                      Inl err \<Rightarrow> Inr (Inl (ConvertValuesError (gw_key gw) err))
                    | Inr convertedVals \<Rightarrow>
                        (case renderChartToObjects lib gw convertedVals of
                           Inl err \<Rightarrow> Inr (Inl err)
                         | Inr objs \<Rightarrow> Inr (Inr (map (\<lambda>obj. obj\<lparr>obj_OwnerReferences := [gateway_owner gw]\<rparr>) objs))))))"

text \<open>\<open>patch\<close> is the server-side apply of the API client; the objects applied are the log.\<close>

fun DeployObjs :: "('b object \<Rightarrow> string option) \<Rightarrow> 'b object list \<Rightarrow> 'b object list \<times> deploy_error option" where
  "DeployObjs patch [] = ([], None)"
| "DeployObjs patch (obj # objs) =
     (case patch obj of
        Some err \<Rightarrow> ([], Some (ApplyError (obj_Name obj) err))
      | None \<Rightarrow> (let (applied, err) = DeployObjs patch objs in (obj # applied, err)))"

end
