(* ===== verification/DeployerProps.thy ===== *)
theory DeployerProps
  imports Deployer
begin

text \<open>Properties of the deployer: ports, ownership of the objects, user ids, log levels and parameters.\<close>

section \<open>Ports\<close>

definition exposes :: "16 word list \<Rightarrow> helm_port list \<Rightarrow> bool" where
  "exposes ports hps \<longleftrightarrow> distinct (map hp_Port hps) \<and> hp_Port ` set hps = Some ` set ports \<and>
     (\<forall>h \<in> set hps. \<exists>p. hp_Port h = Some p \<and> hp_TargetPort h = Some (TranslatePort p))"

lemma addPortValue_exposes:
  assumes "exposes ports hps"
  shows "exposes (ports @ [ucast (l_Port l)]) (addPortValue hps l)"
proof (cases "\<exists>h \<in> set hps. hp_Port h = Some (ucast (l_Port l) :: 16 word)")
  case True
  then have "Some (ucast (l_Port l)) \<in> Some ` set ports" using assms unfolding exposes_def by (metis imageI)
  then show ?thesis using True assms by (auto simp: addPortValue_def exposes_def Let_def insert_absorb)
next
  case False
  then have "Some (ucast (l_Port l)) \<notin> hp_Port ` set hps" by (metis image_iff)
  then show ?thesis using False assms by (auto simp: addPortValue_def exposes_def Let_def)
qed

lemma getPortsValues_exposes: "exposes (map (\<lambda>l. ucast (l_Port l)) (gw_Listeners gw)) (getPortsValues gw)"
proof -
  have "exposes (ps @ map (\<lambda>l. ucast (l_Port l)) ls) (foldl addPortValue hps ls)" if "exposes ps hps" for ps hps and ls :: "'a listener list"
    using that
  proof (induction ls arbitrary: ps hps)
    case Nil
    then show ?case by simp
  next
    case (Cons l ls)
    then show ?case using Cons.IH [OF addPortValue_exposes [OF Cons.prems, of l]] by simp
  qed
  from this [of "[]" "[]" "gw_Listeners gw"] show ?thesis by (simp add: getPortsValues_def exposes_def)
qed


section \<open>Ownership\<close>

text \<open>Every object to deploy for a gateway is in the gateway's namespace and has the gateway as its only
  owner and controller, whatever the chart renders, so that it is removed with the gateway and not
  with another; a self-managed gateway gets no objects.\<close>

theorem GetObjsToDeploy_owned:
  assumes "GetObjsToDeploy marshal ks lib cli inputs gw = Inr (Inr objs)"
  shows "list_all (\<lambda>ob. obj_Namespace ob = gw_Namespace gw \<and> obj_OwnerReferences ob = [gateway_owner gw]) objs \<and>
    (\<forall>p. getGatewayParametersForGateway cli gw = Inr (Inr p) \<and> gwp_SelfManaged p \<noteq> None \<longrightarrow> objs = [])"
  using assms
  by (auto simp: GetObjsToDeploy_def renderChartToObjects_def list_all_iff elim!: bind_out_InrE
      split: sum.splits if_splits)

text \<open>Applying the objects stops at the first failure: what was applied is the longest prefix that the
  API server accepts, and the error names the object after it.\<close>

lemma DeployObjs_prefix:
  "DeployObjs patch objs = (takeWhile (\<lambda>ob. patch ob = None) objs,
     case dropWhile (\<lambda>ob. patch ob = None) objs of [] \<Rightarrow> None
     | ob # _ \<Rightarrow> map_option (ApplyError (obj_Name ob)) (patch ob))"
  by (induction objs) (auto split: option.splits)

section \<open>Kinds to watch\<close>

lemma foldl_add_new:
  fixes f :: "'a \<Rightarrow> 'b"
  assumes "distinct acc"
  shows "distinct (foldl (\<lambda>ret x. if f x \<in> set ret then ret else ret @ [f x]) acc xs) \<and>
    set (foldl (\<lambda>ret x. if f x \<in> set ret then ret else ret @ [f x]) acc xs) = set acc \<union> f ` set xs"
  using assms by (induction xs arbitrary: acc) auto

lemma GetGvksToWatch_kinds:
  assumes "renderChartToObjects lib gw vals = Inr objs"
  shows "\<exists>gvks. GetGvksToWatch lib gw vals = Inr gvks \<and> distinct gvks \<and> set gvks = obj_GVK ` set objs"
  using assms foldl_add_new [of "[]" obj_GVK objs] by (simp add: GetGvksToWatch_def)

section \<open>Floating user ids\<close>

definition helm_security_contexts :: "'j helm_gateway \<Rightarrow> security_context option list" where
  "helm_security_contexts g = [hg_SecurityContext g, Option.bind (hg_SdsContainer g) hsc_SecurityContext,
     Option.bind (hg_IstioContainer g) hic_SecurityContext, Option.bind (hg_AIExtension g) hai_SecurityContext]"

definition floating :: "'j gateway_parameters \<Rightarrow> bool" where
  "floating p \<longleftrightarrow> kpc_GetFloatingUserId (gwp_Kube p) = Some True"

lemma bind_helm_containers:
  "Option.bind (getSdsContainerValues c) hsc_SecurityContext = sc_GetSecurityContext c"
  "Option.bind (getIstioContainerValues i) hic_SecurityContext = ic_GetSecurityContext i"
  by (simp_all add: getSdsContainerValues_def getIstioContainerValues_def sc_GetSecurityContext_def
      ic_GetSecurityContext_def nil_safe_def Let_def split: option.split)

lemma getAIExtensionValues_context:
  assumes "getAIExtensionValues marshal c = Inr (Inr v)"
  shows "Option.bind v hai_SecurityContext = ae_GetSecurityContext c"
  using assms by (auto simp: getAIExtensionValues_def ae_GetSecurityContext_def nil_safe_def elim!: bind_out_InrE
      split: option.splits sum.splits)

lemma getValues_ai:
  assumes "getValues marshal ks inputs gw (Some p) = Inr (Inr vals)"
    and "kube = (if floating p then applyFloatingUserId (gwp_Kube p) else gwp_Kube p)" and "g = the (hc_Gateway vals)"
  shows "hc_Gateway vals = Some g \<and> getAIExtensionValues marshal (kpc_GetAiExtension kube) = Inr (Inr (hg_AIExtension g)) \<and>
    hg_PodSecurityContext g = pod_GetSecurityContext (kpc_GetPodTemplate kube) \<and>
    hg_SecurityContext g = ec_GetSecurityContext (kpc_GetEnvoyContainer kube) \<and>
    hg_SdsContainer g = getSdsContainerValues (kpc_GetSdsContainer kube) \<and>
    hg_IstioContainer g = getIstioContainerValues (ii_GetIstioProxyContainer (kpc_GetIstio kube))"
  using assms(1) unfolding getValues_def floating_def [symmetric] Let_def option.case assms(2) [symmetric] assms(3)
  by (auto elim!: bind_out_InrE split: sum.splits)

lemma getValues_parts:
  assumes "getValues marshal ks inputs gw (Some p) = Inr (Inr vals)"
    and "kube = (if floating p then applyFloatingUserId (gwp_Kube p) else gwp_Kube p)" and "g = the (hc_Gateway vals)"
  shows "hc_Gateway vals = Some g" "hg_PodSecurityContext g = pod_GetSecurityContext (kpc_GetPodTemplate kube)"
    "helm_security_contexts g = map (\<lambda>a. a kube) security_contexts"
proof -
  note g = getValues_ai [OF assms]
  then show "hc_Gateway vals = Some g" "hg_PodSecurityContext g = pod_GetSecurityContext (kpc_GetPodTemplate kube)" by auto
  from g have "getAIExtensionValues marshal (kpc_GetAiExtension kube) = Inr (Inr (hg_AIExtension g))" by simp
  from getAIExtensionValues_context [OF this] g show "helm_security_contexts g = map (\<lambda>a. a kube) security_contexts"
    by (simp add: helm_security_contexts_def security_contexts_def bind_helm_containers)
qed

lemma clear_user_RunAsUser [simp]: "nil_safe sctx_RunAsUser (clear_user c) = None"
  by (simp add: nil_safe_def clear_user_def split: option.split)

lemma applyFloatingUserId_clears:
  assumes "kpc_GetFloatingUserId k = Some True"
  shows "list_all (\<lambda>a. nil_safe sctx_RunAsUser (a (applyFloatingUserId k)) = None) security_contexts"
    and "nil_safe psc_RunAsUser (pod_GetSecurityContext (kpc_GetPodTemplate (applyFloatingUserId k))) = None"
  using assms
  by (auto simp: applyFloatingUserId_def security_contexts_def getters clear_user_def split: option.splits)

text \<open>With a floating user id, no security context in the values of the chart sets a user: neither the
  pod's nor the one of the Envoy, SDS, Istio or AI extension container, whatever the merged parameters
  say.\<close>

theorem getValues_floating_user:
  assumes "getValues marshal ks inputs gw (Some p) = Inr (Inr vals)" and "floating p"
  shows "\<exists>g. hc_Gateway vals = Some g \<and> nil_safe psc_RunAsUser (hg_PodSecurityContext g) = None \<and>
    list_all (\<lambda>c. nil_safe sctx_RunAsUser c = None) (helm_security_contexts g)"
proof -
  have k: "kpc_GetFloatingUserId (gwp_Kube p) = Some True" using assms(2) by (simp add: floating_def)
  have kube: "applyFloatingUserId (gwp_Kube p) = (if floating p then applyFloatingUserId (gwp_Kube p) else gwp_Kube p)"
    using assms(2) by simp
  note g = getValues_parts [OF assms(1) kube refl]
  then show ?thesis
    using applyFloatingUserId_clears [OF k] by (intro exI [of _ "the (hc_Gateway vals)"]) (simp add: list_all_iff)
qed

section \<open>Component log levels\<close>

definition levels_ok :: "(string \<rightharpoonup> string) \<Rightarrow> bool" where
  "levels_ok m \<longleftrightarrow> (\<forall>k v. m k = Some v \<longrightarrow> k \<noteq> [] \<and> v \<noteq> [])"

definition level_part :: "(string \<rightharpoonup> string) \<Rightarrow> string \<Rightarrow> string" where
  "level_part m k = k @ '':'' @ (case m k of None \<Rightarrow> [] | Some v \<Rightarrow> v)"

lemma logLevelParts_ok:
  assumes "set ks \<subseteq> dom m" "levels_ok m"
  shows "logLevelParts m ks = Inr (map (level_part m) ks)"
  using assms by (induction ks) (auto simp: levels_ok_def level_part_def Let_def)

lemma logLevelParts_error:
  assumes "k \<in> set ks" "k = [] \<or> m k = Some []"
  shows "\<exists>k' v. logLevelParts m ks = Inl (ComponentLogLevelEmptyError k' v)"
  using assms by (induction ks) (auto simp: Let_def split: option.splits sum.splits)

lemma sort_mset_cong: "mset xs = mset ys \<Longrightarrow> sort xs = sort (ys :: 'a :: linorder list)"
  by (metis sorted_list_of_multiset_mset)

text \<open>The component log levels are written in any order of the map as the same string: the parts
  \<open>key:value\<close> joined by commas in sorted order. There is an error exactly when the map is not empty and
  has an empty key or an empty value.\<close>

theorem ComponentLogLevelsToString_correct:
  assumes "iter_order m ks" and "m \<noteq> Map.empty"
  shows "(if levels_ok m
    then ComponentLogLevelsToString ks (Some m) =
      Inr (join_strings '','' (sorted_list_of_multiset (image_mset (level_part m) (mset_set (dom m)))))
    else \<exists>k v. ComponentLogLevelsToString ks (Some m) = Inl (ComponentLogLevelEmptyError k v))"
proof (cases "levels_ok m")
  case True
  have "mset_set (dom m) = mset ks" using assms(1) mset_set_set [of ks] by (simp add: iter_order_def)
  then have "sort (map (level_part m) ks) = sorted_list_of_multiset (image_mset (level_part m) (mset_set (dom m)))"
    by (metis mset_map sorted_list_of_multiset_mset)
  then show ?thesis
    using True assms logLevelParts_ok [of ks m] by (simp add: ComponentLogLevelsToString_def iter_order_def)
next
  case False
  then obtain k v where "m k = Some v" "k = [] \<or> v = []" by (auto simp: levels_ok_def)
  moreover from this have "k \<in> set ks" using assms(1) by (auto simp: iter_order_def)
  ultimately obtain k' v' where "logLevelParts m ks = Inl (ComponentLogLevelEmptyError k' v')"
    using logLevelParts_error [of k ks m] by auto
  then show ?thesis using False assms(2) by (simp add: ComponentLogLevelsToString_def)
qed

text \<open>The string read back: parts at commas, the key up to the first colon.\<close>

definition parse_part :: "string \<Rightarrow> string \<times> string" where
  "parse_part p = (takeWhile (\<lambda>c. c \<noteq> CHR '':'') p, drop 1 (dropWhile (\<lambda>c. c \<noteq> CHR '':'') p))"

definition parse_levels :: "string \<Rightarrow> (string \<rightharpoonup> string)" where
  "parse_levels s = (if s = [] then Map.empty else map_of (map parse_part (split_char (CHR '','') s)))"

definition levels_plain :: "(string \<rightharpoonup> string) \<Rightarrow> bool" where
  "levels_plain m \<longleftrightarrow> (\<forall>k v. m k = Some v \<longrightarrow> CHR '':'' \<notin> set k \<and> CHR '','' \<notin> set k \<and> CHR '','' \<notin> set v)"

lemma split_char_plain: "c \<notin> set p \<Longrightarrow> split_char c p = [p]"
  by (induction p) auto

lemma split_char_append: "c \<notin> set p \<Longrightarrow> split_char c (p @ c # s) = p # split_char c s"
  by (induction p) auto

lemma split_join:
  assumes "ps \<noteq> []" "\<forall>p \<in> set ps. c \<notin> set p"
  shows "split_char c (join_strings [c] ps) = ps"
  using assms by (induction "[c]" ps rule: join_strings.induct) (auto simp: split_char_plain split_char_append)

lemma parse_level_part:
  assumes "m k = Some v" "CHR '':'' \<notin> set k"
  shows "parse_part (level_part m k) = (k, v)"
proof -
  have "takeWhile (\<lambda>c. c \<noteq> CHR '':'') (k @ CHR '':'' # v) = k" "dropWhile (\<lambda>c. c \<noteq> CHR '':'') (k @ CHR '':'' # v) = CHR '':'' # v"
    using assms(2) by (induction k) auto
  then show ?thesis using assms(1) by (simp add: parse_part_def level_part_def)
qed

lemma join_strings_Nil_iff: "join_strings sep ps = [] \<Longrightarrow> ps \<noteq> [] \<Longrightarrow> [] \<in> set ps \<or> sep = []"
  by (induction sep ps rule: join_strings.induct) auto

lemma map_of_permuted:
  assumes "set ps = (\<lambda>k. (k, the (m k))) ` dom m" "distinct (map fst ps)"
  shows "map_of ps = m"
proof
  fix k
  show "map_of ps k = m k"
  proof (cases "m k")
    case None
    then have "k \<notin> fst ` set ps" using assms(1) by force
    then show ?thesis using None by (simp add: map_of_eq_None_iff)
  next
    case (Some v)
    then have "(k, v) \<in> set ps" using assms(1) by force
    then show ?thesis using Some assms(2) by simp
  qed
qed

text \<open>The string of the component log levels can be read back: if no key has a colon or comma and no
  value has a comma, splitting the string at the commas and the first colons gives the map again.\<close>

theorem ComponentLogLevels_roundtrip:
  assumes "iter_order m ks" and "levels_ok m" and "levels_plain m"
  shows "\<exists>s. ComponentLogLevelsToString ks (Some m) = Inr s \<and> parse_levels s = m"
proof (cases "m = Map.empty")
  case True
  then show ?thesis by (simp add: ComponentLogLevelsToString_def parse_levels_def)
next
  case False
  let ?ps = "sort (map (level_part m) ks)"
  have ks: "distinct ks" "set ks = dom m" using assms(1) by (simp_all add: iter_order_def)
  have ne: "?ps \<noteq> []" using False ks(2) by (metis dom_eq_empty_conv list.map_disc_iff mset_sort mset_zero_iff set_empty2)
  have parse: "parse_part (level_part m k) = (k, the (m k))" if "k \<in> dom m" for k
    using that assms(3) parse_level_part by (fastforce simp: levels_plain_def)
  have plain: "\<forall>p \<in> set ?ps. CHR '','' \<notin> set p"
    using assms(3) ks(2) by (force simp: level_part_def levels_plain_def)
  have "[] \<notin> set ?ps" by (auto simp: level_part_def)
  then have "join_strings '','' ?ps \<noteq> []" using join_strings_Nil_iff [of "'',''" ?ps] ne by auto
  then have "parse_levels (join_strings '','' ?ps) = map_of (map parse_part ?ps)"
    using split_join [OF ne plain] by (simp add: parse_levels_def)
  also have "\<dots> = m"
  proof (rule map_of_permuted)
    show "set (map parse_part ?ps) = (\<lambda>k. (k, the (m k))) ` dom m" using ks(2) parse by (force simp: image_iff)
    have "mset (map fst (map parse_part ?ps)) = mset (map (\<lambda>k. fst (parse_part (level_part m k))) ks)"
      by (simp add: multiset.map_comp comp_def)
    also have "map (\<lambda>k. fst (parse_part (level_part m k))) ks = ks" using ks(2) parse by (intro map_idI) auto
    finally show "distinct (map fst (map parse_part ?ps))" using ks(1) by (metis mset_eq_imp_distinct_iff)
  qed
  finally show ?thesis
    using False ks(2) logLevelParts_ok [of ks m] assms(2) by (simp add: ComponentLogLevelsToString_def)
qed

end
