(* ===== verification/DeployerExamples.thy ===== *)
theory DeployerExamples
  imports DeployerProps
begin

text \<open>The lookup of parameters, witnesses for the theorems on the deployer, and runs in which it departs
  from its documentation.\<close>

section \<open>Parameters of a gateway\<close>

lemma getGatewayParametersForGateway_merge:
  assumes "gw_Annotations gw GatewayParametersAnnotationName = Some n" "n \<noteq> []"
    and "dc_GetGatewayParameters cli (NamespacedName (gw_Namespace gw) n) = Inr gwp"
    and "getDefaultGatewayParameters cli gw = Inr d"
  shows "\<exists>d' r. deepMergeGatewayParameters (Some d) (Some gwp) = Inr (Some d', r) \<and>
    getGatewayParametersForGateway cli gw = Inr (Inr d')"
  using assms by (auto simp: getGatewayParametersForGateway_def deepMergeGatewayParameters_def Let_def split: option.split)

text \<open>The parameters of a gateway are its own merged over the defaults of its class, when the class
  configures Kubernetes proxies: a self-managed gateway is self-managed whatever the class says, and any
  other configuration is the merge of the two. Both lookups have to succeed, also when the gateway has
  parameters of its own.\<close>

theorem getGatewayParametersForGateway_merged:
  assumes "gw_Annotations gw GatewayParametersAnnotationName = Some n" and "n \<noteq> []"
    and "dc_GetGatewayParameters cli (NamespacedName (gw_Namespace gw) n) = Inr gwp"
    and "getDefaultGatewayParameters cli gw = Inr d" and "gwp_Kube d \<noteq> None"
  shows "\<exists>r. getGatewayParametersForGateway cli gw = Inr (Inr r) \<and>
    (if gwp_SelfManaged gwp \<noteq> None then gwp_SelfManaged r \<noteq> None \<and> gwp_Kube r = None
     else gwp_SelfManaged r = gwp_SelfManaged d \<and> gwp_Kube r = merge_structs merge_kube (gwp_Kube d) (gwp_Kube gwp))"
  using assms
  by (auto simp: getGatewayParametersForGateway_def deepMergeGatewayParameters_def merge_structs_def Let_def split: option.splits)

section \<open>Witnesses\<close>

lemma gwp_of_simps [simp]: "gwp_Kube (gwp_of k m) = k" "gwp_SelfManaged (gwp_of k m) = m"
  by (simp_all add: gwp_of_def)

definition dx_gw :: "unit gateway" where
  "dx_gw = ex_gw\<lparr>gw_Annotations := [GatewayParametersAnnotationName \<mapsto> ''custom'']\<rparr>"

definition dx_client :: "nat gateway_parameters \<Rightarrow> nat gateway_parameters \<Rightarrow> nat deployer_client" where
  "dx_client dflt custom = \<lparr>
     dc_GetGatewayParameters = (\<lambda>n. if n = NamespacedName ''ns'' ''custom'' then Inr custom
       else if n = NamespacedName ''gloo-system'' ''default'' then Inr dflt else Inl ''not found''),
     dc_GetGatewayClass = (\<lambda>c. Inr \<lparr>gwc_Name = c, gwc_Namespace = [], gwc_ParametersRef = Some (''default'', Some ''gloo-system'')\<rparr>)\<rparr>"

lemma dx_lookups:
  "gw_Annotations dx_gw GatewayParametersAnnotationName = Some ''custom''"
  "dc_GetGatewayParameters (dx_client d c) (NamespacedName (gw_Namespace dx_gw) ''custom'') = Inr c"
  "getDefaultGatewayParameters (dx_client d c) dx_gw = Inr d"
  by (simp_all add: dx_gw_def dx_client_def ex_gw_def getDefaultGatewayParameters_def getGatewayClassFromGateway_def
      getGatewayParametersForGatewayClass_def Let_def)

theorem getGatewayParametersForGateway_merged_witness:
  "\<exists>r. getGatewayParametersForGateway (dx_client (gwp_of (Some no_kube) None) (gwp_of None (Some ()))) dx_gw = Inr (Inr r) \<and>
    gwp_SelfManaged r \<noteq> None \<and> gwp_Kube r = None"
  using getGatewayParametersForGateway_merged [OF dx_lookups(1) _ dx_lookups(2,3), of "gwp_of (Some no_kube) None" "gwp_of None (Some ())"]
  by (auto simp: gwp_of_def)

definition dx_inputs :: deployer_inputs where
  "dx_inputs = \<lparr>in_ControllerName = ''solo.io/gloo-gateway'', in_IntegrationEnabled = False, in_XdsHost = ''gloo'', in_XdsPort = 9977\<rparr>"

definition dx_obj :: "unit object" where
  "dx_obj = \<lparr>obj_GVK = (''apps'', ''v1'', ''Deployment''), obj_Namespace = [], obj_Name = ''gw'', obj_OwnerReferences = [], obj_Body = ()\<rparr>"

definition dx_lib :: "(nat, unit, unit, unit) chart_lib" where
  "dx_lib = \<lparr>cl_Convert = (\<lambda>_. Inr ()), cl_Install = (\<lambda>_ _ _. Inr ''manifest''), cl_Decode = (\<lambda>_. [Inr (), Inr ()]),
     cl_SchemeKnows = (\<lambda>_. True), cl_FromUnstructured = (\<lambda>_. Some dx_obj), cl_IsEmpty = (\<lambda>_. False), cl_Unstructured = (\<lambda>_. dx_obj)\<rparr>"

definition dx_floating :: "nat kubernetes_proxy_config" where
  "dx_floating = no_kube\<lparr>kpc_FloatingUserId := Some True,
     kpc_EnvoyContainer := Some \<lparr>ec_Bootstrap = None, ec_Image = None, ec_SecurityContext = Some \<lparr>sctx_Capabilities = None,
       sctx_Privileged = None, sctx_SELinuxOptions = None, sctx_WindowsOptions = None, sctx_RunAsUser = Some 10101,
       sctx_RunAsGroup = None, sctx_RunAsNonRoot = None, sctx_ReadOnlyRootFilesystem = None, sctx_AllowPrivilegeEscalation = None,
       sctx_ProcMount = None, sctx_SeccompProfile = None\<rparr>, ec_Resources = None\<rparr>\<rparr>"

lemmas values_eval = getValues_def getAIExtensionValues_def ComponentLogLevelsToString_def applyFloatingUserId_def
  no_kube_def gwp_of_def getters Let_def

definition dx_marshal :: "ai_extension_stats \<Rightarrow> string + string" where
  "dx_marshal st = Inr ''{}''"

lemma dx_values: "\<exists>vals. getValues dx_marshal [] dx_inputs dx_gw (Some (gwp_of (Some dx_floating) None)) = Inr (Inr vals)"
  by (simp add: values_eval dx_floating_def)

theorem getValues_floating_user_witness:
  "\<exists>vals g. getValues dx_marshal [] dx_inputs dx_gw (Some (gwp_of (Some dx_floating) None)) = Inr (Inr vals) \<and>
    hc_Gateway vals = Some g \<and> list_all (\<lambda>c. nil_safe sctx_RunAsUser c = None) (helm_security_contexts g)"
proof -
  obtain vals where v: "getValues dx_marshal [] dx_inputs dx_gw (Some (gwp_of (Some dx_floating) None)) = Inr (Inr vals)"
    using dx_values by blast
  have "floating (gwp_of (Some dx_floating) None)" by (simp add: floating_def gwp_of_def dx_floating_def getters)
  from getValues_floating_user [OF v this] v show ?thesis by blast
qed

theorem GetObjsToDeploy_owned_witness:
  "\<exists>objs. GetObjsToDeploy dx_marshal [] dx_lib (dx_client (gwp_of (Some no_kube) None) (gwp_of (Some no_kube) None)) dx_inputs dx_gw =
      Inr (Inr objs) \<and>
    list_all (\<lambda>ob. obj_Namespace ob = ''ns'' \<and> obj_OwnerReferences ob = [gateway_owner dx_gw]) objs \<and> length objs = 2"
proof -
  let ?cli = "dx_client (gwp_of (Some no_kube) None) (gwp_of (Some no_kube) None)"
  have m: "deepMergeGatewayParameters (Some (gwp_of (Some no_kube) None)) (Some (gwp_of (Some no_kube) None)) =
      Inr (Some (gwp_of (Some no_kube) None), Some (gwp_of (Some (no_kube :: nat kubernetes_proxy_config)) None))"
    by (simp add: deepMergeGatewayParameters_def gwp_of_def merge_kube_def no_kube_def nil_laws Let_def)
  have p: "getGatewayParametersForGateway ?cli dx_gw = Inr (Inr (gwp_of (Some no_kube) None))"
    using getGatewayParametersForGateway_merge [OF dx_lookups(1) _ dx_lookups(2,3), of "gwp_of (Some no_kube) None" "gwp_of (Some no_kube) None"] m
    by simp
  obtain vals where v: "getValues dx_marshal [] dx_inputs dx_gw (Some (gwp_of (Some (no_kube :: nat kubernetes_proxy_config)) None)) = Inr (Inr vals)"
    by (simp add: values_eval)
  let ?objs = "replicate 2 (dx_obj\<lparr>obj_Namespace := gw_Namespace dx_gw, obj_OwnerReferences := [gateway_owner dx_gw]\<rparr>)"
  have g: "GetObjsToDeploy dx_marshal [] dx_lib ?cli dx_inputs dx_gw = Inr (Inr ?objs)"
    by (simp add: GetObjsToDeploy_def p v renderChartToObjects_def Render_def dx_lib_def numeral_2_eq_2)
  from GetObjsToDeploy_owned [OF this] g show ?thesis
    by (intro exI [of _ ?objs]) (simp add: dx_gw_def ex_gw_def)
qed

definition dx_levels :: "string \<rightharpoonup> string" where
  "dx_levels = [''a'' \<mapsto> ''x'', ''a1'' \<mapsto> ''y'']"

lemma dx_levels_facts: "iter_order dx_levels [''a'', ''a1'']" "dx_levels \<noteq> Map.empty" "levels_ok dx_levels" "levels_plain dx_levels"
  by (auto simp: iter_order_def dx_levels_def levels_ok_def levels_plain_def split: if_splits)

theorem ComponentLogLevelsToString_correct_witness:
  "ComponentLogLevelsToString [''a'', ''a1''] (Some dx_levels) =
     Inr (join_strings '','' (sorted_list_of_multiset (image_mset (level_part dx_levels) (mset_set (dom dx_levels)))))"
  using ComponentLogLevelsToString_correct [OF dx_levels_facts(1,2)] dx_levels_facts(3) by simp

theorem ComponentLogLevels_roundtrip_witness:
  "\<exists>s. ComponentLogLevelsToString [''a'', ''a1''] (Some dx_levels) = Inr s \<and> parse_levels s = dx_levels"
  by (rule ComponentLogLevels_roundtrip [OF dx_levels_facts(1,3,4)])

section \<open>Where the code and its documentation differ\<close>

text \<open>The parameters of a gateway are lost when those of its class are self-managed: the lookup ignores
  the merged value and returns the default object, in which there was nothing to merge, so that the
  gateway is taken for self-managed and nothing is deployed.\<close>

theorem gateway_parameters_lost:
  "getGatewayParametersForGateway (dx_client (gwp_of None (Some ())) (gwp_of (Some no_kube) None)) dx_gw =
     Inr (Inr (gwp_of None (Some ()))) \<and>
   deepMergeGatewayParameters (Some (gwp_of None (Some ()))) (Some (gwp_of (Some (no_kube :: nat kubernetes_proxy_config)) None)) =
     Inr (Some (gwp_of None (Some ())), Some (gwp_of (Some no_kube) None))"
  using getGatewayParametersForGateway_merge [OF dx_lookups(1) _ dx_lookups(2,3), of "gwp_of None (Some ())" "gwp_of (Some no_kube) None"]
  by (auto simp: deepMergeGatewayParameters_def gwp_of_def)

text \<open>Parameters for the AI extension that do not say whether it is enabled make the deployer panic.\<close>

theorem ai_extension_without_enabled_panics:
  "getValues dx_marshal [] dx_inputs dx_gw (Some (gwp_of (Some (no_kube\<lparr>kpc_AiExtension :=
     Some \<lparr>ae_Enabled = None, ae_Image = None, ae_SecurityContext = None, ae_Resources = None, ae_Env = None, ae_Ports = None,
       ae_Stats = None\<rparr>\<rparr>)) None)) = Inl NilDeref"
  by (simp add: values_eval)

text \<open>The component log levels are not sorted by key, as the comment says: the parts with their values
  are sorted, so that \<open>a1\<close> stands before \<open>a\<close>.\<close>

theorem log_levels_not_sorted_by_key:
  "ComponentLogLevelsToString [''a'', ''a1''] (Some dx_levels) = Inr ''a1:y,a:x''"
  by (simp add: ComponentLogLevelsToString_def dx_levels_def)

text \<open>Custom sidecars have no effect: they are merged, but no value of the chart depends on them.\<close>

theorem custom_sidecars_ignored:
  "getValues marshal ks inputs gw (Some (gwp_of (Some (k\<lparr>kpc_Istio := Some (i\<lparr>ii_CustomSidecars := c\<rparr>)\<rparr>)) m)) =
   getValues marshal ks inputs gw (Some (gwp_of (Some (k\<lparr>kpc_Istio := Some i\<rparr>)) m))"
proof -
  define effective where "effective kube = (if kpc_GetFloatingUserId kube = Some True then applyFloatingUserId kube else kube)"
    for kube :: "'a kubernetes_proxy_config option"
  let ?k1 = "effective (Some (k\<lparr>kpc_Istio := Some (i\<lparr>ii_CustomSidecars := c\<rparr>)\<rparr>))" and ?k2 = "effective (Some (k\<lparr>kpc_Istio := Some i\<rparr>))"
  have same: "kpc_GetPodTemplate ?k1 = kpc_GetPodTemplate ?k2" "kpc_GetEnvoyContainer ?k1 = kpc_GetEnvoyContainer ?k2"
    "kpc_GetDeployment ?k1 = kpc_GetDeployment ?k2" "kpc_GetService ?k1 = kpc_GetService ?k2"
    "kpc_GetSdsContainer ?k1 = kpc_GetSdsContainer ?k2" "kpc_GetStats ?k1 = kpc_GetStats ?k2"
    "kpc_GetAiExtension ?k1 = kpc_GetAiExtension ?k2"
    "ii_GetIstioProxyContainer (kpc_GetIstio ?k1) = ii_GetIstioProxyContainer (kpc_GetIstio ?k2)"
    "getIstioValues b (kpc_GetIstio ?k1) = getIstioValues b (kpc_GetIstio ?k2)" for b
    by (cases "kpc_FloatingUserId k = Some True";
        simp add: effective_def applyFloatingUserId_def getters getIstioValues_def)+
  show ?thesis unfolding getValues_def Let_def option.case gwp_of_simps effective_def [symmetric] same ..
qed

end
