(* ===== verification/GatewayController.thy ===== *)
theory GatewayController
  imports DeployerExamples
begin

text \<open>
  The reconciler of gateways, \<open>projects/gateway2/controller/gw_controller.go\<close>: it deploys the proxy of a gateway,
  copies the addresses of its service into the status of the gateway and kicks the proxy syncer.

  The API server's answers are the record \<open>reconcile_env\<close>; what is written is a log. The addresses hold
  their type by pointer, and the comparison of the code compares these pointers, so the location of the
  next allocation is an argument.
\<close>

section \<open>Model\<close>

datatype api_error = NotFound | OtherError string

text \<open>\<open>client.IgnoreNotFound\<close>\<close>

definition IgnoreNotFound :: "api_error \<Rightarrow> api_error option" where
  "IgnoreNotFound err = (case err of NotFound \<Rightarrow> None | OtherError m \<Rightarrow> Some (OtherError m))"

record ingress =
  ing_Hostname :: string
  ing_IP :: string

record k8s_service =
  ks_ControllerUID :: "string option"
  ks_Type :: string
  ks_Ingress :: "ingress list"
  ks_ClusterIPs :: "string list"
  ks_ClusterIP :: string

text \<open>The type and value of the addresses of an ingress; each address gets a new variable for its type.\<close>

definition ingressAddresses :: "ingress \<Rightarrow> (string \<times> string) list" where
  "ingressAddresses ing =
     (if ing_Hostname ing \<noteq> [] then [(''Hostname'', ing_Hostname ing)] else []) @
     (if ing_IP ing \<noteq> [] then [(''IPAddress'', ing_IP ing)] else [])"

fun allocate :: "nat \<Rightarrow> (string \<times> string) list \<Rightarrow> gateway_status_address list" where
  "allocate fresh [] = []"
| "allocate fresh ((t, v) # as) = \<lparr>gsa_Type = Some (Ptr fresh t), gsa_Value = v\<rparr> # allocate (fresh + 1) as"

definition getDesiredAddresses :: "nat \<Rightarrow> k8s_service \<Rightarrow> gateway_status_address list" where
  "getDesiredAddresses fresh svc =
     (if ks_Type svc = ''LoadBalancer'' then
        if ks_Ingress svc = [] then [] else allocate fresh (concat (map ingressAddresses (ks_Ingress svc)))
      else if ks_ClusterIPs svc \<noteq> [] then
        map (\<lambda>ip. \<lparr>gsa_Type = Some (Ptr fresh ''IPAddress''), gsa_Value = ip\<rparr>) (ks_ClusterIPs svc)
      else if ks_ClusterIP svc \<noteq> [] then
        [\<lparr>gsa_Type = Some (Ptr fresh ''IPAddress''), gsa_Value = ks_ClusterIP svc\<rparr>]
      else [])"

text \<open>Equality of the structs: pointers are compared by location.\<close>

definition address_eq :: "gateway_status_address \<Rightarrow> gateway_status_address \<Rightarrow> bool" where
  "address_eq a b \<longleftrightarrow> map_option ptr_loc (gsa_Type a) = map_option ptr_loc (gsa_Type b) \<and> gsa_Value a = gsa_Value b"

definition slices_Equal :: "('a \<Rightarrow> 'a \<Rightarrow> bool) \<Rightarrow> 'a list \<Rightarrow> 'a list \<Rightarrow> bool" where
  "slices_Equal eq xs ys \<longleftrightarrow> list_all2 eq xs ys"

datatype ('sel, 'b) controller_write = PatchStatus "'sel gateway" | Apply "'b object" | KickSyncer

record ('sel, 'b) reconcile_env =
  re_GetNamespace :: "string \<Rightarrow> api_error + (string \<rightharpoonup> string)"
  re_GetGateway :: "namespaced_name \<Rightarrow> api_error + 'sel gateway"
  re_GetService :: "namespaced_name \<Rightarrow> api_error + k8s_service"
  re_IsService :: "'b object \<Rightarrow> bool"
  re_PatchStatus :: "'sel gateway \<Rightarrow> api_error option"
  re_Patch :: "'b object \<Rightarrow> string option"
  re_GetObjsToDeploy :: "'sel gateway \<Rightarrow> (deploy_error + 'b object list) outcome"

definition updateStatus ::
  "('sel, 'b) reconcile_env \<Rightarrow> nat \<Rightarrow> 'b object \<Rightarrow> 'sel gateway \<Rightarrow>
   'sel gateway \<times> ('sel, 'b) controller_write list \<times> api_error option" where
  "updateStatus env fresh svcmd gw =
     (case re_GetService env (NamespacedName (obj_Namespace svcmd) (obj_Name svcmd)) of
        Inl err \<Rightarrow> (gw, [], IgnoreNotFound err)
      | Inr svc \<Rightarrow>
          (case ks_ControllerUID svc of
             None \<Rightarrow> (gw, [], None)
           | Some uid \<Rightarrow>
               if gw_UID gw \<noteq> uid then (gw, [], None)
               else
                 let desiredAddresses = getDesiredAddresses fresh svc;
                     actualAddresses = gs_Addresses (gw_Status gw)
                 in if slices_Equal address_eq desiredAddresses actualAddresses then (gw, [], None)
                    else
                      let gw = gw\<lparr>gw_Status := (gw_Status gw)\<lparr>gs_Addresses := desiredAddresses\<rparr>\<rparr>
                      in (gw, [PatchStatus gw], re_PatchStatus env gw)))"

text \<open>The loop over the objects, which updates the status once for every service among them; the
  state is the gateway, whether to requeue, the writes and the next free location.\<close>

definition statusStep ::
  "('sel, 'b) reconcile_env \<Rightarrow> 'sel gateway \<times> bool \<times> ('sel, 'b) controller_write list \<times> nat \<Rightarrow> 'b object \<Rightarrow>
   'sel gateway \<times> bool \<times> ('sel, 'b) controller_write list \<times> nat" where
  "statusStep env = (\<lambda>(gw, requeue, writes, fresh) obj.
     if re_IsService env obj then
       let (gw, ws, err) = updateStatus env fresh obj gw
       in (gw, requeue \<or> err \<noteq> None, writes @ ws, fresh + length (gs_Addresses (gw_Status gw)) + 1)
     else (gw, requeue, writes, fresh))"

datatype reconcile_error = ApiErr api_error | DeployErr deploy_error

abbreviation GatewayAutoDeployAnnotationKey :: string where
  "GatewayAutoDeployAnnotationKey \<equiv> ''gateway.gloo.solo.io/auto-deploy''"

text \<open>The result is whether to requeue, the error and the writes in their order.\<close>

definition Reconcile ::
  "('sel, 'b) reconcile_env \<Rightarrow> nat \<Rightarrow> bool \<Rightarrow> namespaced_name \<Rightarrow>
   (bool \<times> reconcile_error option \<times> ('sel, 'b) controller_write list) outcome" where
  "Reconcile env fresh autoProvision req =
     (case re_GetNamespace env (nn_Namespace req) of
        Inl err \<Rightarrow> Inr (False, Some (ApiErr err), [])
      | Inr annotations \<Rightarrow>
          if \<not> autoProvision \<and> (case annotations GatewayAutoDeployAnnotationKey of None \<Rightarrow> [] | Some v \<Rightarrow> v) \<noteq> ''true''
          then Inr (False, None, [])
          else
            (case re_GetGateway env req of
               Inl err \<Rightarrow> Inr (False, map_option ApiErr (IgnoreNotFound err), [])
             | Inr gw \<Rightarrow>
                 if gw_DeletionTimestamp gw \<noteq> None then Inr (False, None, [])
                 else
                   bind_out (re_GetObjsToDeploy env gw) (\<lambda>res.
                     case res of
                       Inl err \<Rightarrow> Inr (False, Some (DeployErr err), [])
                     | Inr objs \<Rightarrow>
                         let (gw, requeue, writes, _) = foldl (statusStep env) (gw, False, [], fresh) objs;
                             (applied, err) = DeployObjs (re_Patch env) objs;
                             writes = writes @ map Apply applied
                         in case err of
                              Some err \<Rightarrow> Inr (requeue, Some (DeployErr err), writes)
                            | None \<Rightarrow> Inr (requeue, None, writes @ [KickSyncer]))))"

section \<open>Status updates\<close>

definition fresh_for :: "nat \<Rightarrow> 'sel gateway \<Rightarrow> bool" where
  "fresh_for n gw \<longleftrightarrow> (\<forall>a \<in> set (gs_Addresses (gw_Status gw)). \<forall>p. gsa_Type a = Some p \<longrightarrow> ptr_loc p < n)"

lemma allocate_locs: "a \<in> set (allocate n as) \<Longrightarrow> \<exists>p. gsa_Type a = Some p \<and> n \<le> ptr_loc p"
  by (induction n as rule: allocate.induct) fastforce+

lemma getDesiredAddresses_locs:
  "a \<in> set (getDesiredAddresses n svc) \<Longrightarrow> \<exists>p. gsa_Type a = Some p \<and> n \<le> ptr_loc p"
  using allocate_locs by (fastforce simp: getDesiredAddresses_def split: if_splits)

lemma fresh_not_equal:
  assumes "fresh_for n gw" "getDesiredAddresses n svc \<noteq> []"
  shows "\<not> slices_Equal address_eq (getDesiredAddresses n svc) (gs_Addresses (gw_Status gw))"
proof
  assume eq: "slices_Equal address_eq (getDesiredAddresses n svc) (gs_Addresses (gw_Status gw))"
  from assms(2) obtain a as where d: "getDesiredAddresses n svc = a # as" by (cases "getDesiredAddresses n svc") auto
  then obtain b bs where b: "gs_Addresses (gw_Status gw) = b # bs" "address_eq a b"
    using eq by (auto simp: slices_Equal_def list_all2_Cons1)
  obtain p where "gsa_Type a = Some p" "n \<le> ptr_loc p" using getDesiredAddresses_locs [of a n svc] d by auto
  then obtain q where "gsa_Type b = Some q" "n \<le> ptr_loc q" using b(2) by (cases "gsa_Type b") (auto simp: address_eq_def)
  then show False using assms(1) b(1) by (auto simp: fresh_for_def)
qed

text \<open>The status of a gateway is only written for a service that the gateway controls, and then with
  exactly the addresses of that service.\<close>

theorem updateStatus_owned:
  assumes "updateStatus env fresh svcmd gw = (gw', ws, err)"
  shows "(ws = [] \<and> gw' = gw) \<or>
    (\<exists>svc. re_GetService env (NamespacedName (obj_Namespace svcmd) (obj_Name svcmd)) = Inr svc \<and>
      ks_ControllerUID svc = Some (gw_UID gw) \<and> ws = [PatchStatus gw'] \<and>
      gw' = gw\<lparr>gw_Status := (gw_Status gw)\<lparr>gs_Addresses := getDesiredAddresses fresh svc\<rparr>\<rparr>)"
  using assms by (auto simp: updateStatus_def Let_def split: sum.splits option.splits if_splits)

text \<open>The status is written even when the addresses have not changed: the comparison looks at the
  pointers to the address types, and those of the desired addresses have just been allocated. So every
  reconciliation of a gateway whose service has an address patches the gateway.\<close>

theorem updateStatus_always_patches:
  assumes "re_GetService env (NamespacedName (obj_Namespace svcmd) (obj_Name svcmd)) = Inr svc"
    and "ks_ControllerUID svc = Some (gw_UID gw)" and "getDesiredAddresses fresh svc \<noteq> []" and "fresh_for fresh gw"
  shows "\<exists>gw' err. updateStatus env fresh svcmd gw = (gw', [PatchStatus gw'], err)"
  using assms fresh_not_equal [OF assms(4,3)] by (simp add: updateStatus_def Let_def)

section \<open>Reconciliation\<close>

lemma statusStep_writes:
  assumes "statusStep env (gw, rq, ws, n) obj = (gw', rq', ws', n')"
  shows "\<exists>ps. ws' = ws @ map PatchStatus ps"
proof (cases "re_IsService env obj")
  case True
  obtain g u e where up: "updateStatus env n obj gw = (g, u, e)" by (metis surj_pair)
  have "ws' = ws @ u" using assms True up by (auto simp: statusStep_def)
  moreover have "u = [] \<or> u = [PatchStatus g]"
    using up by (auto simp: updateStatus_def Let_def split: sum.splits option.splits if_splits)
  ultimately show ?thesis by (metis list.map(1,2))
next
  case False
  then show ?thesis using assms by (simp add: statusStep_def)
qed

lemma foldl_statusStep_writes:
  assumes "foldl (statusStep env) (gw, rq, ws, n) objs = (gw', rq', ws', n')"
  shows "\<exists>ps. ws' = ws @ map PatchStatus ps"
  using assms
proof (induction objs arbitrary: gw rq ws n)
  case Nil
  then show ?case by auto
next
  case (Cons obj objs)
  obtain g1 r1 w1 n1 where 1: "statusStep env (gw, rq, ws, n) obj = (g1, r1, w1, n1)" by (metis surj_pair)
  obtain ps where "w1 = ws @ map PatchStatus ps" using statusStep_writes [OF 1] by blast
  moreover obtain ps' where "ws' = w1 @ map PatchStatus ps'" using Cons.IH [of g1 r1 w1 n1] Cons.prems 1 by auto
  ultimately show ?case by (metis append.assoc map_append)
qed

text \<open>The syncer is kicked exactly when the proxy is fully deployed. For a gateway that is to be
  provisioned, reconciliation first updates the status, then applies the objects in order up to the first
  failure, and kicks the syncer last and only if every object was applied; otherwise it returns the
  error, so that the request is tried again. A failed status update does not keep the proxy from being
  deployed.\<close>

theorem Reconcile_kicks_when_deployed:
  assumes "re_GetNamespace env (nn_Namespace req) = Inr annotations"
    and "autoProvision \<or> annotations GatewayAutoDeployAnnotationKey = Some ''true''"
    and "re_GetGateway env req = Inr gw" and "gw_DeletionTimestamp gw = None"
    and "re_GetObjsToDeploy env gw = Inr (Inr objs)"
  shows "\<exists>requeue err patched. Reconcile env fresh autoProvision req = Inr (requeue, err,
      map PatchStatus patched @ map Apply (takeWhile (\<lambda>ob. re_Patch env ob = None) objs) @
      (if list_all (\<lambda>ob. re_Patch env ob = None) objs then [KickSyncer] else [])) \<and>
    (err = None \<longleftrightarrow> list_all (\<lambda>ob. re_Patch env ob = None) objs)"
proof -
  obtain gw' rq ws n where loop: "foldl (statusStep env) (gw, False, [], fresh) objs = (gw', rq, ws, n)" by (metis surj_pair)
  obtain ps where ws: "ws = map PatchStatus ps" using foldl_statusStep_writes [OF loop] by auto
  let ?ok = "\<lambda>ob. re_Patch env ob = None"
  have R: "Reconcile env fresh autoProvision req = (let (applied, err) = DeployObjs (re_Patch env) objs in
      case err of Some err \<Rightarrow> Inr (rq, Some (DeployErr err), ws @ map Apply applied)
      | None \<Rightarrow> Inr (rq, None, (ws @ map Apply applied) @ [KickSyncer]))"
    using assms by (auto simp: Reconcile_def loop Let_def split: prod.split)
  have all: "list_all ?ok objs \<longleftrightarrow> dropWhile ?ok objs = []" by (simp add: list_all_iff dropWhile_eq_Nil_conv)
  show ?thesis
  proof (cases "dropWhile ?ok objs")
    case Nil
    show ?thesis unfolding R all DeployObjs_prefix ws Nil by (intro exI [of _ rq] exI [of _ None] exI [of _ ps]) simp
  next
    case (Cons ob rest)
    then obtain e where "re_Patch env ob = Some e" using hd_dropWhile [of ?ok objs] by auto
    then show ?thesis
      unfolding R all DeployObjs_prefix ws using Cons
      by (intro exI [of _ rq] exI [of _ "Some (DeployErr (ApplyError (obj_Name ob) e))"] exI [of _ ps]) simp
  qed
qed

section \<open>Witnesses\<close>

definition cx_service :: k8s_service where
  "cx_service = \<lparr>ks_ControllerUID = Some ''gw-uid'', ks_Type = ''LoadBalancer'',
     ks_Ingress = [\<lparr>ing_Hostname = [], ing_IP = ''1.2.3.4''\<rparr>], ks_ClusterIPs = [], ks_ClusterIP = []\<rparr>"

definition cx_env :: "(unit, unit) reconcile_env" where
  "cx_env = \<lparr>re_GetNamespace = (\<lambda>_. Inr Map.empty), re_GetGateway = (\<lambda>_. Inr ex_gw), re_GetService = (\<lambda>_. Inr cx_service),
     re_IsService = (\<lambda>_. True), re_PatchStatus = (\<lambda>_. None), re_Patch = (\<lambda>_. None), re_GetObjsToDeploy = (\<lambda>_. Inr (Inr [dx_obj]))\<rparr>"

definition cx_gw :: "unit gateway" where
  "cx_gw = ex_gw\<lparr>gw_Status := (gw_Status ex_gw)\<lparr>gs_Addresses := [\<lparr>gsa_Type = Some (Ptr 0 ''IPAddress''), gsa_Value = ''1.2.3.4''\<rparr>]\<rparr>\<rparr>"

theorem updateStatus_owned_witness:
  "\<exists>gw' ws err. updateStatus cx_env 1 dx_obj ex_gw = (gw', ws, err) \<and>
    ((ws = [] \<and> gw' = ex_gw) \<or> ws = [PatchStatus gw'])"
proof -
  obtain gw' ws err where u: "updateStatus cx_env 1 dx_obj ex_gw = (gw', ws, err)" by (metis surj_pair)
  from updateStatus_owned [OF u] u show ?thesis by blast
qed

theorem updateStatus_always_patches_witness:
  "\<exists>gw' err. updateStatus cx_env 1 dx_obj cx_gw = (gw', [PatchStatus gw'], err)"
  by (rule updateStatus_always_patches [of _ _ cx_service])
    (simp_all add: cx_env_def cx_service_def cx_gw_def ex_gw_def getDesiredAddresses_def ingressAddresses_def fresh_for_def)

theorem Reconcile_kicks_when_deployed_witness:
  "\<exists>requeue err patched. Reconcile cx_env 0 True (NamespacedName ''ns'' ''gw'') =
      Inr (requeue, err, map PatchStatus patched @ [Apply dx_obj, KickSyncer]) \<and> err = None"
  using Reconcile_kicks_when_deployed [of cx_env "NamespacedName ''ns'' ''gw''" Map.empty True ex_gw "[dx_obj]" 0]
  by (simp add: cx_env_def ex_gw_def)

end
