(* ===== verification/Controllers.thy ===== *)
theory Controllers
  imports GatewayController ProxySyncerProps PolicyAttachment
begin

text \<open>
  The controllers of the control plane: \<open>projects/gateway2/controller/controller.go\<close> registers a controller with
  the manager for every kind of object the translation reads, the field indexes of the queries, and
  the reconcilers; \<open>projects/gateway2/secrets/controller.go\<close> hands the TLS secrets to the proxy syncer.

  A registration with the manager is data: the kind, the predicates and the reconciler that the builder of
  controller-runtime is given. What controller-runtime does with it is the locale \<open>controller_runtime\<close>. The
  outcomes of its calls and the answers of the API server are the record \<open>builder_env\<close>.
\<close>

section \<open>Objects and events\<close>

datatype watched_kind =
  W_GatewayClass | W_Gateway | W_HTTPRoute | W_ReferenceGrant | W_Namespace | W_HttpListenerOption | W_ListenerOption
| W_RouteOption | W_VirtualHostOption | W_Upstream | W_Service | W_DirectResponse | W_GatewayParameters | W_Secret

record gateway_class_object = gateway_class +
  gco_ControllerName :: string
  gco_Generation :: int
  gco_Conditions :: "condition list"

text \<open>\<open>client.Object\<close>: the kinds whose fields the predicates read, and the others with their namespace, name
  and generation.\<close>

datatype 'sel client_object =
  CoGateway "'sel gateway"
| CoGatewayClass gateway_class_object
| CoOther watched_kind string string int

fun co_Kind :: "'sel client_object \<Rightarrow> watched_kind" where
  "co_Kind (CoGateway gw) = W_Gateway"
| "co_Kind (CoGatewayClass gwc) = W_GatewayClass"
| "co_Kind (CoOther k _ _ _) = k"

fun co_Generation :: "'sel client_object \<Rightarrow> int" where
  "co_Generation (CoGateway gw) = gw_Generation gw"
| "co_Generation (CoGatewayClass gwc) = gco_Generation gwc"
| "co_Generation (CoOther _ _ _ g) = g"

datatype 'sel watch_event =
  CreateEvent "'sel client_object"
| UpdateEvent "'sel client_object" "'sel client_object"
| DeleteEvent "'sel client_object"

fun event_object :: "'sel watch_event \<Rightarrow> 'sel client_object" where
  "event_object (CreateEvent ob) = ob"
| "event_object (UpdateEvent old ob) = ob"
| "event_object (DeleteEvent ob) = ob"

text \<open>An event of which \<open>predicate.GenerationChangedPredicate\<close> lets the controllers know.\<close>

fun generation_changed :: "'sel watch_event \<Rightarrow> bool" where
  "generation_changed (UpdateEvent old ob) \<longleftrightarrow> co_Generation ob \<noteq> co_Generation old"
| "generation_changed _ \<longleftrightarrow> True"

section \<open>Registrations\<close>

datatype 'sel predicate = GenerationChangedPredicate | NewPredicateFuncs "'sel client_object \<Rightarrow> bool"

type_synonym gvk = "string \<times> string \<times> string"

text \<open>\<open>reconcile.Func\<close>: a handler of requests that reports an error and works on the input channels of the
  syncer. The three other reconcilers use the API server; they are named here and defined below and in
  the theory on the gateway controller.\<close>

datatype reconciler =
  ReconcileFunc "namespaced_name \<Rightarrow> gateway_input_channels \<Rightarrow> api_error option \<times> gateway_input_channels"
| GatewayReconciler | GatewayClassReconciler | SecretReconciler

record 'sel registration =
  rg_For :: watched_kind
  rg_ForPredicates :: "'sel predicate list"
  rg_EventFilters :: "'sel predicate list"
  rg_Watches :: "watched_kind list"
  rg_Owns :: "(gvk \<times> 'sel predicate list) list"
  rg_Reconciler :: reconciler

datatype 'sel indexer_func =
  IndexHTTPRoute "api_route \<Rightarrow> string list"
| IndexReferenceGrant "reference_grant \<Rightarrow> string list"
| IndexRouteOption "route_option \<Rightarrow> string list"
| IndexPolicy "option_fields policy \<Rightarrow> string list"
| IndexGateway "'sel gateway \<Rightarrow> string list"

record 'sel manager =
  mgr_Controllers :: "'sel registration list"
  mgr_Indexes :: "(watched_kind \<times> string \<times> 'sel indexer_func) list"

locale controller_runtime =
  fixes accepts :: "'sel predicate \<Rightarrow> 'sel watch_event \<Rightarrow> bool"
    and triggers :: "'sel registration \<Rightarrow> 'sel watch_event \<Rightarrow> bool"
  assumes accepts_funcs: "accepts (NewPredicateFuncs f) e \<longleftrightarrow> f (event_object e)"
    and accepts_generation: "accepts GenerationChangedPredicate e \<longleftrightarrow> generation_changed e"
    and triggers_for: "co_Kind (event_object e) \<notin> set (rg_Watches reg) \<Longrightarrow>
      triggers reg e \<longleftrightarrow> co_Kind (event_object e) = rg_For reg \<and>
        (\<forall>p \<in> set (rg_ForPredicates reg @ rg_EventFilters reg). accepts p e)"

section \<open>Construction of the deployer (deployer.go)\<close>

record 'c helm_chart =
  chart_AppVersion :: string
  chart_Version :: string
  chart_Files :: 'c

datatype setup_error =
  LibErr string
| NilDeployerInputsErr
| GvksErr deploy_error
| NotClientObject gvk
| Joined "setup_error list"

abbreviation UndefinedVersion :: string where "UndefinedVersion \<equiv> ''undefined''"

text \<open>The chart read from the embedded files is an argument.\<close>

definition NewDeployer :: "string \<Rightarrow> string + 'c helm_chart \<Rightarrow> 'i option \<Rightarrow> setup_error + 'c helm_chart \<times> 'i" where
  "NewDeployer version loadFs inputs =
     (case inputs of
        None \<Rightarrow> Inl NilDeployerInputsErr
      | Some inputs \<Rightarrow>
          (case loadFs of
             Inl err \<Rightarrow> Inl (LibErr err)
           | Inr helmChart \<Rightarrow>
               Inr (if version \<noteq> UndefinedVersion
                    then helmChart\<lparr>chart_AppVersion := version, chart_Version := version\<rparr> else helmChart, inputs)))"

section \<open>Builders\<close>

record ('sel, 'c, 'j, 'v, 'doc, 'b) builder_env =
  be_ControllerName :: string
  be_GWClasses :: "string list"
  be_Inputs :: deployer_inputs
  be_Version :: string
  be_LoadFs :: "string + 'c helm_chart"
  be_ChartLib :: "'c helm_chart \<Rightarrow> ('j, 'v, 'doc, 'b) chart_lib"
  be_MinimalValues :: 'v
  be_SchemeNew :: "gvk \<Rightarrow> string + bool"
  be_Complete :: "'sel registration \<Rightarrow> string option"
  be_IndexField :: "watched_kind \<Rightarrow> string \<Rightarrow> string option"

type_synonym 'sel builder_op = "'sel manager \<Rightarrow> setup_error option \<times> 'sel manager"

fun run_funcs :: "('m \<Rightarrow> 'e option \<times> 'm) list \<Rightarrow> 'm \<Rightarrow> 'e option \<times> 'm" where
  "run_funcs [] m = (None, m)"
| "run_funcs (f # fs) m =
     (case f m of
        (Some err, m) \<Rightarrow> (Some err, m)
      | (None, m) \<Rightarrow> run_funcs fs m)"

definition Complete :: "('sel, 'c, 'j, 'v, 'doc, 'b) builder_env \<Rightarrow> 'sel registration \<Rightarrow> 'sel builder_op" where
  "Complete env reg m =
     (case be_Complete env reg of
        Some err \<Rightarrow> (Some (LibErr err), m)
      | None \<Rightarrow> (None, m\<lparr>mgr_Controllers := mgr_Controllers m @ [reg]\<rparr>))"

definition IndexField :: "('sel, 'c, 'j, 'v, 'doc, 'b) builder_env \<Rightarrow> watched_kind \<Rightarrow> string \<Rightarrow> 'sel indexer_func \<Rightarrow> 'sel builder_op" where
  "IndexField env kind field indexer m =
     (case be_IndexField env kind field of
        Some err \<Rightarrow> (Some (LibErr err), m)
      | None \<Rightarrow> (None, m\<lparr>mgr_Indexes := mgr_Indexes m @ [(kind, field, indexer)]\<rparr>))"

text \<open>\<open>query.IterateIndices\<close> registers both indexes and joins their errors; those of the policy queries
  register one.\<close>

definition query_IterateIndices :: "(watched_kind \<Rightarrow> string \<Rightarrow> 'sel indexer_func \<Rightarrow> 'sel builder_op) \<Rightarrow> 'sel builder_op" where
  "query_IterateIndices f m =
     (let (err1, m) = f W_HTTPRoute ''http-route-target'' (IndexHTTPRoute httpRouteToTargetIndexer) m;
          (err2, m) = f W_ReferenceGrant ''ref-grant-from'' (IndexReferenceGrant refGrantFromIndexer) m;
          errs = (case err1 of None \<Rightarrow> [] | Some e \<Rightarrow> [e]) @ (case err2 of None \<Rightarrow> [] | Some e \<Rightarrow> [e])
      in (if errs = [] then None else Some (Joined errs), m))"

definition rtopt_IterateIndices :: "(watched_kind \<Rightarrow> string \<Rightarrow> 'sel indexer_func \<Rightarrow> 'sel builder_op) \<Rightarrow> 'sel builder_op" where
  "rtopt_IterateIndices f = f W_RouteOption ''routeOption.targetRef'' (IndexRouteOption routeOptionTargetRefIndexer)"

definition vhopt_IterateIndices :: "(watched_kind \<Rightarrow> string \<Rightarrow> 'sel indexer_func \<Rightarrow> 'sel builder_op) \<Rightarrow> 'sel builder_op" where
  "vhopt_IterateIndices f = f W_VirtualHostOption ''virtualHostOption.targetRef'' (IndexPolicy virtualHostOptionTargetRefIndexer)"

definition lisopt_IterateIndices :: "(watched_kind \<Rightarrow> string \<Rightarrow> 'sel indexer_func \<Rightarrow> 'sel builder_op) \<Rightarrow> 'sel builder_op" where
  "lisopt_IterateIndices f = f W_ListenerOption ''listenerOption.targetRef'' (IndexPolicy listenerOptionTargetRefIndexer)"

definition httplisopt_IterateIndices :: "(watched_kind \<Rightarrow> string \<Rightarrow> 'sel indexer_func \<Rightarrow> 'sel builder_op) \<Rightarrow> 'sel builder_op" where
  "httplisopt_IterateIndices f =
     f W_HttpListenerOption ''httpListenerOption.targetRef'' (IndexPolicy httpListenerOptionTargetRefIndexer)"

definition gatewayToParams :: "'sel gateway \<Rightarrow> string list" where
  "gatewayToParams gw =
     (let gwpName = (case gw_Annotations gw GatewayParametersAnnotationName of None \<Rightarrow> [] | Some n \<Rightarrow> n)
      in if gwpName \<noteq> [] then [gwpName] else [])"

abbreviation GatewayParamsField :: string where "GatewayParamsField \<equiv> ''gateway-params''"

definition addIndexes :: "('sel, 'c, 'j, 'v, 'doc, 'b) builder_env \<Rightarrow> 'sel builder_op" where
  "addIndexes env = query_IterateIndices (IndexField env)"

definition addGwParamsIndexes :: "('sel, 'c, 'j, 'v, 'doc, 'b) builder_env \<Rightarrow> 'sel builder_op" where
  "addGwParamsIndexes env = IndexField env W_Gateway GatewayParamsField (IndexGateway gatewayToParams)"

definition addRtOptIndexes :: "('sel, 'c, 'j, 'v, 'doc, 'b) builder_env \<Rightarrow> 'sel builder_op" where
  "addRtOptIndexes env = rtopt_IterateIndices (IndexField env)"

definition addVhOptIndexes :: "('sel, 'c, 'j, 'v, 'doc, 'b) builder_env \<Rightarrow> 'sel builder_op" where
  "addVhOptIndexes env = vhopt_IterateIndices (IndexField env)"

definition addLisOptIndexes :: "('sel, 'c, 'j, 'v, 'doc, 'b) builder_env \<Rightarrow> 'sel builder_op" where
  "addLisOptIndexes env = lisopt_IterateIndices (IndexField env)"

definition addHttpLisOptIndexes :: "('sel, 'c, 'j, 'v, 'doc, 'b) builder_env \<Rightarrow> 'sel builder_op" where
  "addHttpLisOptIndexes env = httplisopt_IterateIndices (IndexField env)"

section \<open>Reconcilers that kick the syncer\<close>

definition ReconcileHttpListenerOptions ::
  "('ch \<Rightarrow> 'ch) \<Rightarrow> namespaced_name \<Rightarrow> 'ch \<Rightarrow> api_error option \<times> 'ch" where
  "ReconcileHttpListenerOptions kick req ch = (None, kick ch)"

definition ReconcileListenerOptions ::
  "('ch \<Rightarrow> 'ch) \<Rightarrow> namespaced_name \<Rightarrow> 'ch \<Rightarrow> api_error option \<times> 'ch" where
  "ReconcileListenerOptions kick req ch = (None, kick ch)"

definition ReconcileRouteOptions ::
  "('ch \<Rightarrow> 'ch) \<Rightarrow> namespaced_name \<Rightarrow> 'ch \<Rightarrow> api_error option \<times> 'ch" where
  "ReconcileRouteOptions kick req ch = (None, kick ch)"

definition ReconcileDirectResponses ::
  "('ch \<Rightarrow> 'ch) \<Rightarrow> namespaced_name \<Rightarrow> 'ch \<Rightarrow> api_error option \<times> 'ch" where
  "ReconcileDirectResponses kick req ch = (None, kick ch)"

definition ReconcileVirtualHostOptions ::
  "('ch \<Rightarrow> 'ch) \<Rightarrow> namespaced_name \<Rightarrow> 'ch \<Rightarrow> api_error option \<times> 'ch" where
  "ReconcileVirtualHostOptions kick req ch = (None, kick ch)"

definition ReconcileUpstreams ::
  "('ch \<Rightarrow> 'ch) \<Rightarrow> namespaced_name \<Rightarrow> 'ch \<Rightarrow> api_error option \<times> 'ch" where
  "ReconcileUpstreams kick req ch = (None, kick ch)"

definition ReconcileServices ::
  "('ch \<Rightarrow> 'ch) \<Rightarrow> namespaced_name \<Rightarrow> 'ch \<Rightarrow> api_error option \<times> 'ch" where
  "ReconcileServices kick req ch = (None, kick ch)"

definition ReconcileNamespaces ::
  "('ch \<Rightarrow> 'ch) \<Rightarrow> namespaced_name \<Rightarrow> 'ch \<Rightarrow> api_error option \<times> 'ch" where
  "ReconcileNamespaces kick req ch = (None, kick ch)"

definition ReconcileHttpRoutes ::
  "('ch \<Rightarrow> 'ch) \<Rightarrow> namespaced_name \<Rightarrow> 'ch \<Rightarrow> api_error option \<times> 'ch" where
  "ReconcileHttpRoutes kick req ch = (None, kick ch)"

definition ReconcileReferenceGrants ::
  "('ch \<Rightarrow> 'ch) \<Rightarrow> namespaced_name \<Rightarrow> 'ch \<Rightarrow> api_error option \<times> 'ch" where
  "ReconcileReferenceGrants kick req ch = (None, kick ch)"

named_theorems reconcile_defs \<open>reconcilers that only kick\<close>
declare ReconcileHttpListenerOptions_def [reconcile_defs] ReconcileListenerOptions_def [reconcile_defs]
  ReconcileRouteOptions_def [reconcile_defs] ReconcileDirectResponses_def [reconcile_defs]
  ReconcileVirtualHostOptions_def [reconcile_defs] ReconcileUpstreams_def [reconcile_defs]
  ReconcileServices_def [reconcile_defs] ReconcileNamespaces_def [reconcile_defs]
  ReconcileHttpRoutes_def [reconcile_defs] ReconcileReferenceGrants_def [reconcile_defs]

section \<open>Watches\<close>

text \<open>The chain of builder calls that most watches share: event filters, the kind and the reconciler.\<close>

definition ControllerFor :: "watched_kind \<Rightarrow> 'sel predicate list \<Rightarrow> reconciler \<Rightarrow> 'sel registration" where
  "ControllerFor kind filters r = \<lparr>rg_For = kind, rg_ForPredicates = [], rg_EventFilters = filters,
     rg_Watches = [], rg_Owns = [], rg_Reconciler = r\<rparr>"

definition isOurGatewayClass :: "string \<Rightarrow> 'sel client_object \<Rightarrow> bool" where
  "isOurGatewayClass controllerName ob =
     (case ob of CoGatewayClass gwc \<Rightarrow> gco_ControllerName gwc = controllerName | _ \<Rightarrow> False)"

definition usesOurGatewayClass :: "string list \<Rightarrow> 'sel client_object \<Rightarrow> bool" where
  "usesOurGatewayClass gwClasses ob =
     (case ob of CoGateway gw \<Rightarrow> gw_GatewayClassName gw \<in> set gwClasses | _ \<Rightarrow> False)"

definition watchGwClass :: "('sel, 'c, 'j, 'v, 'doc, 'b) builder_env \<Rightarrow> 'sel builder_op" where
  "watchGwClass env = Complete env (ControllerFor W_GatewayClass
     [GenerationChangedPredicate, NewPredicateFuncs (isOurGatewayClass (be_ControllerName env))] GatewayClassReconciler)"

definition watchHttpRoute :: "('sel, 'c, 'j, 'v, 'doc, 'b) builder_env \<Rightarrow> 'sel builder_op" where
  "watchHttpRoute env = Complete env (ControllerFor W_HTTPRoute [GenerationChangedPredicate] (ReconcileFunc (ReconcileHttpRoutes Kick)))"

definition watchReferenceGrant :: "('sel, 'c, 'j, 'v, 'doc, 'b) builder_env \<Rightarrow> 'sel builder_op" where
  "watchReferenceGrant env =
     Complete env (ControllerFor W_ReferenceGrant [GenerationChangedPredicate] (ReconcileFunc (ReconcileReferenceGrants Kick)))"

definition watchNamespaces :: "('sel, 'c, 'j, 'v, 'doc, 'b) builder_env \<Rightarrow> 'sel builder_op" where
  "watchNamespaces env = Complete env (ControllerFor W_Namespace [] (ReconcileFunc (ReconcileNamespaces Kick)))"

definition watchHttpListenerOptions :: "('sel, 'c, 'j, 'v, 'doc, 'b) builder_env \<Rightarrow> 'sel builder_op" where
  "watchHttpListenerOptions env =
     Complete env (ControllerFor W_HttpListenerOption [GenerationChangedPredicate] (ReconcileFunc (ReconcileHttpListenerOptions Kick)))"

definition watchListenerOptions :: "('sel, 'c, 'j, 'v, 'doc, 'b) builder_env \<Rightarrow> 'sel builder_op" where
  "watchListenerOptions env =
     Complete env (ControllerFor W_ListenerOption [GenerationChangedPredicate] (ReconcileFunc (ReconcileListenerOptions Kick)))"

definition watchRouteOptions :: "('sel, 'c, 'j, 'v, 'doc, 'b) builder_env \<Rightarrow> 'sel builder_op" where
  "watchRouteOptions env =
     Complete env (ControllerFor W_RouteOption [GenerationChangedPredicate] (ReconcileFunc (ReconcileRouteOptions Kick)))"

definition watchVirtualHostOptions :: "('sel, 'c, 'j, 'v, 'doc, 'b) builder_env \<Rightarrow> 'sel builder_op" where
  "watchVirtualHostOptions env =
     Complete env (ControllerFor W_VirtualHostOption [GenerationChangedPredicate] (ReconcileFunc (ReconcileVirtualHostOptions Kick)))"

definition watchUpstreams :: "('sel, 'c, 'j, 'v, 'doc, 'b) builder_env \<Rightarrow> 'sel builder_op" where
  "watchUpstreams env = Complete env (ControllerFor W_Upstream [GenerationChangedPredicate] (ReconcileFunc (ReconcileUpstreams Kick)))"

definition watchServices :: "('sel, 'c, 'j, 'v, 'doc, 'b) builder_env \<Rightarrow> 'sel builder_op" where
  "watchServices env = Complete env (ControllerFor W_Service [GenerationChangedPredicate] (ReconcileFunc (ReconcileServices Kick)))"

definition watchDirectResponses :: "('sel, 'c, 'j, 'v, 'doc, 'b) builder_env \<Rightarrow> 'sel builder_op" where
  "watchDirectResponses env =
     Complete env (ControllerFor W_DirectResponse [GenerationChangedPredicate] (ReconcileFunc (ReconcileDirectResponses Kick)))"

definition shouldIgnoreStatusChild :: "gvk \<Rightarrow> bool" where
  "shouldIgnoreStatusChild gvk = (case gvk of (_, _, kind) \<Rightarrow> kind = ''Deployment'')"

fun addOwns :: "(gvk \<Rightarrow> string + bool) \<Rightarrow> gvk list \<Rightarrow> setup_error + (gvk \<times> 'sel predicate list) list" where
  "addOwns schemeNew [] = Inr []"
| "addOwns schemeNew (gvk # gvks) =
     (case schemeNew gvk of
        Inl err \<Rightarrow> Inl (LibErr err)
      | Inr ok \<Rightarrow>
          if \<not> ok then Inl (NotClientObject gvk)
          else
            let opts = (if shouldIgnoreStatusChild gvk then [GenerationChangedPredicate] else [])
            in case addOwns schemeNew gvks of Inl err \<Rightarrow> Inl err | Inr rest \<Rightarrow> Inr ((gvk, opts) # rest))"

text \<open>The placeholder of \<open>GetGvksToWatch\<close>.\<close>

definition emptyGw :: "'sel gateway" where
  "emptyGw = \<lparr>gw_Kind = [], gw_APIVersion = [], gw_Namespace = ''default'', gw_Name = ''default'', gw_UID = [], gw_Generation = 0,
     gw_DeletionTimestamp = None, gw_Annotations = Map.empty, gw_GatewayClassName = [], gw_Listeners = [],
     gw_Status = \<lparr>gs_Addresses = [], gs_Conditions = [], gs_Listeners = []\<rparr>\<rparr>"

definition watchGw :: "('sel, 'c, 'j, 'v, 'doc, 'b) builder_env \<Rightarrow> 'sel builder_op" where
  "watchGw env m =
     (case NewDeployer (be_Version env) (be_LoadFs env) (Some (be_Inputs env)) of
        Inl err \<Rightarrow> (Some err, m)
      | Inr (chart, _) \<Rightarrow>
          (case GetGvksToWatch (be_ChartLib env chart) (emptyGw :: 'sel gateway) (be_MinimalValues env) of
             Inl err \<Rightarrow> (Some (GvksErr err), m)
           | Inr gvks \<Rightarrow>
               (case addOwns (be_SchemeNew env) gvks of
                  Inl err \<Rightarrow> (Some err, m)
                | Inr owns \<Rightarrow>
                    Complete env \<lparr>rg_For = W_Gateway,
                      rg_ForPredicates = [NewPredicateFuncs (usesOurGatewayClass (be_GWClasses env)), GenerationChangedPredicate],
                      rg_EventFilters = [], rg_Watches = [W_GatewayParameters], rg_Owns = owns,
                      rg_Reconciler = GatewayReconciler\<rparr> m)))"

definition NewBaseGatewayController :: "('sel, 'c, 'j, 'v, 'doc, 'b) builder_env \<Rightarrow> 'sel builder_op" where
  "NewBaseGatewayController env = run_funcs
     [watchGwClass env, watchGw env, watchHttpRoute env, watchReferenceGrant env, watchNamespaces env,
      watchHttpListenerOptions env, watchListenerOptions env, watchRouteOptions env, watchVirtualHostOptions env,
      watchUpstreams env, watchServices env, addIndexes env, addHttpLisOptIndexes env, addLisOptIndexes env,
      addRtOptIndexes env, addVhOptIndexes env, addGwParamsIndexes env, watchDirectResponses env]"

text \<open>The function that maps a changed \<open>GatewayParameters\<close> to the gateways to reconcile; \<open>listBy\<close> lists the gateways
  of a namespace by the index of \<open>gatewayToParams\<close>.\<close>

definition gatewayParamsRequests ::
  "(string \<Rightarrow> string \<Rightarrow> string + 'sel gateway list) \<Rightarrow> namespaced_name \<Rightarrow> namespaced_name list" where
  "gatewayParamsRequests listBy gwp =
     (case listBy (nn_Namespace gwp) (nn_Name gwp) of
        Inl err \<Rightarrow> []
      | Inr gwList \<Rightarrow> map (\<lambda>gw. NamespacedName (gw_Namespace gw) (gw_Name gw)) gwList)"

section \<open>Gateway classes\<close>

text \<open>The result is the error and the classes given to the status update.\<close>

definition ReconcileGatewayClasses ::
  "(condition list \<Rightarrow> condition \<Rightarrow> condition list) \<Rightarrow> (namespaced_name \<Rightarrow> api_error + gateway_class_object) \<Rightarrow>
   (gateway_class_object \<Rightarrow> api_error option) \<Rightarrow> namespaced_name \<Rightarrow> api_error option \<times> gateway_class_object list" where
  "ReconcileGatewayClasses setC get update req =
     (case get req of
        Inl err \<Rightarrow> (IgnoreNotFound err, [])
      | Inr gwclass \<Rightarrow>
          let acceptedCondition = \<lparr>cond_Type = ''Accepted'', cond_Status = ConditionTrue,
                cond_ObservedGeneration = gco_Generation gwclass, cond_LastTransitionTime = zeroTime,
                cond_Reason = ''Accepted'', cond_Message = []\<rparr>;
              gwclass = gwclass\<lparr>gco_Conditions := setC (gco_Conditions gwclass) acceptedCondition\<rparr>;
              supportedVersionCondition = \<lparr>cond_Type = ''SupportedVersion'', cond_Status = ConditionTrue,
                cond_ObservedGeneration = gco_Generation gwclass, cond_LastTransitionTime = zeroTime,
                cond_Reason = ''SupportedVersion'', cond_Message = []\<rparr>;
              gwclass = gwclass\<lparr>gco_Conditions := setC (gco_Conditions gwclass) supportedVersionCondition\<rparr>
          in (update gwclass, [gwclass]))"

section \<open>Secrets (secrets/controller.go)\<close>

record kube_secret = secret +
  ksec_Type :: string

abbreviation SecretTypeTLS :: string where "SecretTypeTLS \<equiv> ''kubernetes.io/tls''"
abbreviation SecretTypeOpaque :: string where "SecretTypeOpaque \<equiv> ''Opaque''"

text \<open>\<open>string(secret.Data[key])\<close>\<close>

definition data_string :: "kube_secret \<Rightarrow> string \<Rightarrow> string" where
  "data_string s key = (case sec_Data s key of None \<Rightarrow> [] | Some v \<Rightarrow> v)"

text \<open>\<open>fromKubeMeta\<close> converts the metadata of an object.\<close>

definition convertSecret :: "(kube_secret \<Rightarrow> proxy_metadata) \<Rightarrow> kube_secret \<Rightarrow> gloo_secret" where
  "convertSecret fromKubeMeta s = \<lparr>gsec_PrivateKey = data_string s ''tls.key'', gsec_CertChain = data_string s ''tls.crt'',
     gsec_RootCa = data_string s ''ca.crt'', gsec_Metadata = fromKubeMeta s\<rparr>"

definition ReconcileSecrets ::
  "(kube_secret \<Rightarrow> proxy_metadata) \<Rightarrow> api_error + kube_secret list \<Rightarrow> gateway_input_channels \<Rightarrow>
   api_error option \<times> gateway_input_channels" where
  "ReconcileSecrets fromKubeMeta secretList ch =
     (case secretList of
        Inl err \<Rightarrow> (Some err, ch)
      | Inr items \<Rightarrow>
          let skSecretList = foldl (\<lambda>acc s.
                if ksec_Type s \<noteq> SecretTypeTLS \<and> ksec_Type s \<noteq> SecretTypeOpaque then acc
                else acc @ [convertSecret fromKubeMeta s]) [] items
          in (None, UpdateSecretInputs \<lparr>si_Secrets = skSecretList\<rparr> ch))"

definition watchSecrets :: "('sel, 'c, 'j, 'v, 'doc, 'b) builder_env \<Rightarrow> 'sel builder_op" where
  "watchSecrets env = Complete env (ControllerFor W_Secret [] SecretReconciler)"

definition NewSecretsController :: "('sel, 'c, 'j, 'v, 'doc, 'b) builder_env \<Rightarrow> 'sel builder_op" where
  "NewSecretsController env = run_funcs [watchSecrets env]"

section \<open>Start (start.go)\<close>

abbreviation wellknown_GatewayClassName :: string where "wellknown_GatewayClassName \<equiv> ''gloo-gateway''"
abbreviation GatewayControllerName :: string where "GatewayControllerName \<equiv> ''solo.io/gloo-gateway''"

text \<open>The outcomes of the calls of controller-runtime and of the factory of the extensions.\<close>

record 'sel start_env =
  se_NewManager :: "string option"
  se_ExtensionsFactory :: "string option"
  se_Add :: "string option"
  se_MgrStart :: "'sel manager \<Rightarrow> string option"

text \<open>The second component is the manager and the proxy syncer that are started, if it comes to that.\<close>

definition Start ::
  "'sel start_env \<Rightarrow> string \<Rightarrow> string list \<Rightarrow> ('sel, 'c, 'j, 'v, 'doc, 'b) builder_env \<Rightarrow> ('sel, 'r, 'x) statusSyncerFactory \<Rightarrow> 'x \<Rightarrow>
   setup_error option \<times> ('sel manager \<times> ('sel, 'r, 'x) proxy_syncer) option" where
  "Start se writeNamespace extraGatewayClasses env status x =
     (case se_NewManager se of Some err \<Rightarrow> (Some (LibErr err), None) | None \<Rightarrow>
        let inputChannels = NewGatewayInputChannels
        in case se_ExtensionsFactory se of Some err \<Rightarrow> (Some (LibErr err), None) | None \<Rightarrow>
          let proxySyncer = NewProxySyncer GatewayControllerName writeNamespace inputChannels status x
          in case se_Add se of Some err \<Rightarrow> (Some (LibErr err), None) | None \<Rightarrow>
            let gwCfg = env\<lparr>be_GWClasses := extraGatewayClasses @ [wellknown_GatewayClassName],
                  be_ControllerName := GatewayControllerName\<rparr>
            in case NewBaseGatewayController gwCfg \<lparr>mgr_Controllers = [], mgr_Indexes = []\<rparr> of
                 (Some err, _) \<Rightarrow> (Some err, None)
               | (None, mgr) \<Rightarrow>
                   (case NewSecretsController gwCfg mgr of
                      (Some err, _) \<Rightarrow> (Some err, None)
                    | (None, mgr) \<Rightarrow> (map_option LibErr (se_MgrStart se mgr), Some (mgr, proxySyncer))))"

end
