(* ===== verification/ControllerProps.thy ===== *)
theory ControllerProps
  imports Controllers
begin

text \<open>
  Properties of the controllers: which events reach which reconciler, that no kick and no update of
  the secrets is lost on the way to the proxy syncer, which gateways a change of their parameters
  reaches, and the statuses of gateway classes.
\<close>

section \<open>What the manager runs\<close>

definition adds :: "'sel registration list \<Rightarrow> 'sel builder_op \<Rightarrow> bool" where
  "adds regs f \<longleftrightarrow> (\<forall>m m'. f m = (None, m') \<longrightarrow> mgr_Controllers m' = mgr_Controllers m @ regs)"

lemma adds_run_funcs: "list_all2 adds regss fs \<Longrightarrow> adds (concat regss) (run_funcs fs)"
proof (induction rule: list_all2_induct)
  case Nil
  then show ?case by (simp add: adds_def)
next
  case (Cons regs regss f fs)
  have "mgr_Controllers m' = mgr_Controllers m @ regs @ concat regss" if "run_funcs (f # fs) m = (None, m')" for m m'
  proof -
    obtain m1 where m1: "f m = (None, m1)" "run_funcs fs m1 = (None, m')"
      using \<open>run_funcs (f # fs) m = (None, m')\<close> by (auto split: prod.splits option.splits)
    then have "mgr_Controllers m1 = mgr_Controllers m @ regs" "mgr_Controllers m' = mgr_Controllers m1 @ concat regss"
      using Cons unfolding adds_def by blast+
    then show ?thesis by simp
  qed
  then show ?case by (simp add: adds_def)
qed

lemma adds_Complete: "adds [reg] (Complete env reg)"
  by (auto simp: adds_def Complete_def split: option.splits)

lemma adds_IndexField: "adds [] (IndexField env kind field indexer)"
  by (auto simp: adds_def IndexField_def split: option.splits)

lemma adds_query_IterateIndices: "adds [] (query_IterateIndices (IndexField env))"
  by (auto simp: adds_def query_IterateIndices_def IndexField_def Let_def split: option.splits if_splits)

abbreviation gateway_registration ::
  "string list \<Rightarrow> (gvk \<times> 'sel predicate list) list \<Rightarrow> 'sel registration" where
  "gateway_registration gwClasses owns \<equiv> \<lparr>rg_For = W_Gateway,
     rg_ForPredicates = [NewPredicateFuncs (usesOurGatewayClass gwClasses), GenerationChangedPredicate],
     rg_EventFilters = [], rg_Watches = [W_GatewayParameters], rg_Owns = owns, rg_Reconciler = GatewayReconciler\<rparr>"

lemma watchGw_cases:
  fixes env :: "('sel, 'c, 'j, 'v, 'doc, 'b) builder_env"
  shows "(\<exists>owns. watchGw env = Complete env (gateway_registration (be_GWClasses env) owns)) \<or> (\<exists>err. watchGw env = (\<lambda>m. (Some err, m)))"
proof (cases "NewDeployer (be_Version env) (be_LoadFs env) (Some (be_Inputs env))")
  case (Inl err)
  then show ?thesis by (simp add: watchGw_def fun_eq_iff)
next
  case (Inr d)
  obtain chart i where d: "d = (chart, i)" by fastforce
  show ?thesis
  proof (cases "GetGvksToWatch (be_ChartLib env chart) (emptyGw :: 'sel gateway) (be_MinimalValues env)")
    case (Inl err)
    then show ?thesis by (simp add: watchGw_def fun_eq_iff Inr d)
  next
    case gvks: (Inr gvks)
    show ?thesis
    proof (cases "addOwns (be_SchemeNew env) gvks :: setup_error + (gvk \<times> 'sel predicate list) list")
      case (Inl err)
      then show ?thesis by (simp add: watchGw_def fun_eq_iff Inr d gvks)
    next
      case owns: (Inr owns)
      have "watchGw env m = Complete env (gateway_registration (be_GWClasses env) owns) m" for m
        by (simp add: watchGw_def Inr d gvks owns)
      then show ?thesis by (intro disjI1 exI [of _ owns] ext)
    qed
  qed
qed

lemma adds_watchGw: "\<exists>owns. adds [gateway_registration (be_GWClasses env) owns] (watchGw env)"
  using watchGw_cases [of env]
proof (elim disjE exE)
  fix owns assume "watchGw env = Complete env (gateway_registration (be_GWClasses env) owns)"
  then show ?thesis by (metis adds_Complete)
next
  fix err assume "watchGw env = (\<lambda>m. (Some err, m))"
  then show ?thesis by (simp add: adds_def)
qed

abbreviation kick_on :: "watched_kind \<Rightarrow> 'sel predicate list \<Rightarrow>
    ((gateway_input_channels \<Rightarrow> gateway_input_channels) \<Rightarrow> namespaced_name \<Rightarrow> gateway_input_channels \<Rightarrow>
     api_error option \<times> gateway_input_channels) \<Rightarrow> 'sel registration" where
  "kick_on kind filters reconcile \<equiv> ControllerFor kind filters (ReconcileFunc (reconcile Kick))"

abbreviation class_registration :: "string \<Rightarrow> 'sel registration" where
  "class_registration controllerName \<equiv> ControllerFor W_GatewayClass
     [GenerationChangedPredicate, NewPredicateFuncs (isOurGatewayClass controllerName)] GatewayClassReconciler"

abbreviation kick_registrations :: "'sel registration list" where
  "kick_registrations \<equiv>
     [kick_on W_HTTPRoute [GenerationChangedPredicate] ReconcileHttpRoutes,
      kick_on W_ReferenceGrant [GenerationChangedPredicate] ReconcileReferenceGrants,
      kick_on W_Namespace [] ReconcileNamespaces,
      kick_on W_HttpListenerOption [GenerationChangedPredicate] ReconcileHttpListenerOptions,
      kick_on W_ListenerOption [GenerationChangedPredicate] ReconcileListenerOptions,
      kick_on W_RouteOption [GenerationChangedPredicate] ReconcileRouteOptions,
      kick_on W_VirtualHostOption [GenerationChangedPredicate] ReconcileVirtualHostOptions,
      kick_on W_Upstream [GenerationChangedPredicate] ReconcileUpstreams,
      kick_on W_Service [GenerationChangedPredicate] ReconcileServices,
      kick_on W_DirectResponse [GenerationChangedPredicate] ReconcileDirectResponses]"

lemma adds_NewBaseGatewayController:
  "\<exists>owns. adds (class_registration (be_ControllerName env) # gateway_registration (be_GWClasses env) owns # kick_registrations)
     (NewBaseGatewayController env)"
proof -
  obtain owns where gw: "adds [gateway_registration (be_GWClasses env) owns] (watchGw env)" using adds_watchGw by blast
  have "list_all2 adds
    ([[class_registration (be_ControllerName env)], [gateway_registration (be_GWClasses env) owns]] @
     map (\<lambda>r. [r]) (butlast kick_registrations) @ replicate 6 [] @ [[last kick_registrations]])
    [watchGwClass env, watchGw env, watchHttpRoute env, watchReferenceGrant env, watchNamespaces env,
      watchHttpListenerOptions env, watchListenerOptions env, watchRouteOptions env, watchVirtualHostOptions env,
      watchUpstreams env, watchServices env, addIndexes env, addHttpLisOptIndexes env, addLisOptIndexes env,
      addRtOptIndexes env, addVhOptIndexes env, addGwParamsIndexes env, watchDirectResponses env]"
    by (simp add: numeral_eq_Suc gw adds_Complete adds_IndexField adds_query_IterateIndices watchGwClass_def watchHttpRoute_def
        watchReferenceGrant_def watchNamespaces_def watchHttpListenerOptions_def watchListenerOptions_def watchRouteOptions_def
        watchVirtualHostOptions_def watchUpstreams_def watchServices_def watchDirectResponses_def addIndexes_def
        addHttpLisOptIndexes_def addLisOptIndexes_def addRtOptIndexes_def addVhOptIndexes_def addGwParamsIndexes_def
        rtopt_IterateIndices_def vhopt_IterateIndices_def lisopt_IterateIndices_def httplisopt_IterateIndices_def)
  from adds_run_funcs [OF this] show ?thesis
    by (intro exI [of _ owns]) (simp add: NewBaseGatewayController_def numeral_eq_Suc)
qed

lemma Start_controllers:
  assumes "Start se ns extra env status x = (err, Some (mgr, s))"
  obtains owns where "mgr_Controllers mgr = class_registration GatewayControllerName #
      gateway_registration (extra @ [wellknown_GatewayClassName]) owns # kick_registrations @ [ControllerFor W_Secret [] SecretReconciler]"
    and "s = NewProxySyncer GatewayControllerName ns NewGatewayInputChannels status x"
proof -
  let ?env = "env\<lparr>be_GWClasses := extra @ [wellknown_GatewayClassName], be_ControllerName := GatewayControllerName\<rparr>"
  obtain mgr1 where 1: "NewBaseGatewayController ?env \<lparr>mgr_Controllers = [], mgr_Indexes = []\<rparr> = (None, mgr1)"
    "NewSecretsController ?env mgr1 = (None, mgr)" "s = NewProxySyncer GatewayControllerName ns NewGatewayInputChannels status x"
    using assms by (auto simp: Start_def Let_def split: option.splits prod.splits)
  have "adds [ControllerFor W_Secret [] SecretReconciler] (NewSecretsController ?env)"
    using adds_run_funcs [of "[[ControllerFor W_Secret [] SecretReconciler]]" "[watchSecrets ?env]"]
    by (simp add: NewSecretsController_def watchSecrets_def adds_Complete)
  from this [unfolded adds_def, rule_format, OF 1(2)]
  have "mgr_Controllers mgr = mgr_Controllers mgr1 @ [ControllerFor W_Secret [] SecretReconciler]" .
  moreover obtain owns where "mgr_Controllers mgr1 = class_registration GatewayControllerName #
      gateway_registration (extra @ [wellknown_GatewayClassName]) owns # kick_registrations"
  proof -
    obtain owns where "adds (class_registration (be_ControllerName ?env) # gateway_registration (be_GWClasses ?env) owns # kick_registrations)
        (NewBaseGatewayController ?env)"
      using adds_NewBaseGatewayController [of ?env] by (elim exE)
    from this [unfolded adds_def, rule_format, OF 1(1)] show ?thesis by (intro that) simp
  qed
  ultimately show ?thesis by (intro that [of owns] 1(3)) simp
qed

section \<open>Which events reach a reconciler\<close>

context controller_runtime
begin

lemma triggers_ControllerFor:
  "triggers (ControllerFor k fs r) e \<longleftrightarrow> co_Kind (event_object e) = k \<and> (\<forall>p \<in> set fs. accepts p e)"
  by (simp add: triggers_for ControllerFor_def)

lemma triggers_gateway:
  "co_Kind (event_object e) \<noteq> W_GatewayParameters \<Longrightarrow> triggers (gateway_registration cs owns) e \<longleftrightarrow>
    co_Kind (event_object e) = W_Gateway \<and> usesOurGatewayClass cs (event_object e) \<and> generation_changed e"
  by (simp add: triggers_for accepts_funcs accepts_generation)

end

text \<open>The kinds that the translation reads and whose changes are only announced.\<close>

definition kick_kinds :: "watched_kind set" where
  "kick_kinds = {W_HTTPRoute, W_ReferenceGrant, W_Namespace, W_HttpListenerOption, W_ListenerOption, W_RouteOption,
     W_VirtualHostOption, W_Upstream, W_Service, W_DirectResponse}"

definition kicks :: "reconciler \<Rightarrow> bool" where
  "kicks r \<longleftrightarrow> (\<exists>f. r = ReconcileFunc f \<and> (\<forall>req ch. queue_ok (genericEvent ch) \<longrightarrow>
     fst (f req ch) = None \<and> buf (genericEvent (snd (f req ch))) = [()] \<and> secretEvent (snd (f req ch)) = secretEvent ch))"

lemma kicks_registrations: "\<forall>reg \<in> set kick_registrations. kicks (rg_Reconciler reg)"
  by (simp add: kicks_def ControllerFor_def reconcile_defs Kick_def Enqueue_ok)


section \<open>Nothing is lost on the way to the syncer\<close>

text \<open>What a run of the syncer has announced and not yet taken up.\<close>

definition pending_kick :: "('sel, 'r, 'x) syncer_event list \<Rightarrow> bool" where
  "pending_kick = foldl (\<lambda>b e. case e of KickEvent \<Rightarrow> True | GenericSync _ \<Rightarrow> False | _ \<Rightarrow> b) False"

definition pending_secrets :: "('sel, 'r, 'x) syncer_event list \<Rightarrow> secret_inputs option" where
  "pending_secrets = foldl (\<lambda>v e. case e of SecretsEvent w \<Rightarrow> Some w | SecretSync _ \<Rightarrow> None | _ \<Rightarrow> v) None"

definition secrets_seen :: "('sel, 'r, 'x) syncer_event list \<Rightarrow> bool" where
  "secrets_seen tr \<longleftrightarrow> (\<exists>env. SecretSync env \<in> set tr)"

definition inputs_inv :: "('sel, 'r, 'x) syncer_event list \<Rightarrow> ('sel, 'r, 'x) proxy_syncer \<Rightarrow> bool" where
  "inputs_inv tr s \<longleftrightarrow> queue_ok (genericEvent (ps_inputs s)) \<and> queue_ok (secretEvent (ps_inputs s)) \<and>
     buf (genericEvent (ps_inputs s)) = (if pending_kick tr then [()] else []) \<and>
     buf (secretEvent (ps_inputs s)) = (case pending_secrets tr of None \<Rightarrow> [] | Some v \<Rightarrow> [v]) \<and>
     (ps_secretsWarmed s \<longleftrightarrow> secrets_seen tr)"

lemma resyncProxies_inputs:
  assumes "resyncProxies env s = Inr s'"
  shows "ps_inputs s' = ps_inputs s" "ps_secretsWarmed s' = ps_secretsWarmed s"
    "ps_controllerName s' = ps_controllerName s" "ps_writeNamespace s' = ps_writeNamespace s"
  using assms by (auto simp: resyncProxies_def Let_def elim!: bind_out_InrE split: if_splits sum.splits prod.splits)

lemma inputs_step:
  assumes "inputs_inv tr s" "syncer_step s e s'"
  shows "inputs_inv (tr @ [e]) s'"
  using assms(2)
proof cases
  case kick
  then show ?thesis
    using assms(1) by (simp add: inputs_inv_def pending_kick_def pending_secrets_def secrets_seen_def Kick_def Enqueue_ok)
next
  case (secrets v)
  then show ?thesis
    using assms(1) by (simp add: inputs_inv_def pending_kick_def pending_secrets_def secrets_seen_def UpdateSecretInputs_def Enqueue_ok)
next
  case (report ord prs f x)
  then show ?thesis using assms(1) by (simp add: inputs_inv_def pending_kick_def pending_secrets_def secrets_seen_def)
next
  case (generic_sync u c env)
  have q: "queue_ok (genericEvent (ps_inputs s))" using assms(1) by (simp add: inputs_inv_def)
  show ?thesis
    using assms(1) generic_sync(1) resyncProxies_inputs [OF generic_sync(3)] recv_cases [OF generic_sync(2) q]
    by (simp add: inputs_inv_def pending_kick_def pending_secrets_def secrets_seen_def)
next
  case (secret_sync v c env)
  have q: "queue_ok (secretEvent (ps_inputs s))" using assms(1) by (simp add: inputs_inv_def)
  show ?thesis
    using assms(1) secret_sync(1) resyncProxies_inputs [OF secret_sync(3)] recv_cases [OF secret_sync(2) q]
    by (auto simp: inputs_inv_def pending_kick_def pending_secrets_def secrets_seen_def)
qed

lemma inputs_init: "inputs_inv [] (syncer_init name ns x)"
  by (simp add: inputs_inv_def pending_kick_def pending_secrets_def secrets_seen_def NewProxySyncer_def NewGatewayInputChannels_def)

interpretation syncer_inputs: run_invariant syncer_step "syncer_init name ns x" inputs_inv for name ns x
  by unfold_locales (auto intro: inputs_init inputs_step)

lemma recv_of_buf: "buf a = [t] \<Longrightarrow> \<exists>c. chan_recv (Next a) = Some (t, c)"
  by (simp add: queue_defs)


text \<open>The newest secrets are the ones the syncer will see: an update that comes in before the previous one has
  been taken up replaces it.\<close>

theorem secrets_newest_pending:
  assumes "run syncer_step (syncer_init name ns x) tr s" and "pending_secrets tr = Some v"
  shows "\<exists>c. chan_recv (Next (secretEvent (ps_inputs s))) = Some (v, c)"
proof -
  have "buf (secretEvent (ps_inputs s)) = [v]"
    using syncer_inputs.invariant_run [OF assms(1)] assms(2) by (simp add: inputs_inv_def)
  then show ?thesis by (rule recv_of_buf)
qed

section \<open>Secrets\<close>

lemma foldl_filter_map: "foldl (\<lambda>acc s. if P s then acc else acc @ [f s]) ys xs = ys @ map f (filter (\<lambda>s. \<not> P s) xs)"
  by (induction xs arbitrary: ys) auto

text \<open>Exactly the TLS and opaque secrets are handed over, in the order of the list and in place of those
  of an earlier call that have not been taken up; an error of the list changes nothing.\<close>

theorem ReconcileSecrets_correct:
  assumes "queue_ok (secretEvent ch)"
  shows "ReconcileSecrets meta (Inl err) ch = (Some err, ch) \<and>
    (\<exists>ch'. ReconcileSecrets meta (Inr items) ch = (None, ch') \<and> genericEvent ch' = genericEvent ch \<and>
      buf (secretEvent ch') = [\<lparr>si_Secrets = map (convertSecret meta)
        (filter (\<lambda>s. ksec_Type s = SecretTypeTLS \<or> ksec_Type s = SecretTypeOpaque) items)\<rparr>])"
proof -
  have "filter (\<lambda>s. \<not> (ksec_Type s \<noteq> SecretTypeTLS \<and> ksec_Type s \<noteq> SecretTypeOpaque)) items =
      filter (\<lambda>s. ksec_Type s = SecretTypeTLS \<or> ksec_Type s = SecretTypeOpaque) items"
    by (rule filter_cong) auto
  then show ?thesis
    using assms by (simp add: ReconcileSecrets_def UpdateSecretInputs_def Enqueue_ok foldl_filter_map [where ys = "[]"])
qed

section \<open>Gateways and their parameters\<close>

text \<open>The client lists by the index of \<open>gatewayToParams\<close> what is in the cluster.\<close>

definition lists_by_params :: "'sel gateway list \<Rightarrow> (string \<Rightarrow> string \<Rightarrow> string + 'sel gateway list) \<Rightarrow> bool" where
  "lists_by_params cluster listBy \<longleftrightarrow> (\<forall>ns name. listBy ns name =
     Inr (filter (\<lambda>gw. gw_Namespace gw = ns \<and> name \<in> set (gatewayToParams gw)) cluster))"

text \<open>The parameters that the class of a gateway refers to.\<close>

definition class_parameters :: "'j deployer_client \<Rightarrow> 'sel gateway \<Rightarrow> namespaced_name option" where
  "class_parameters cli gw =
     (case dc_GetGatewayClass cli (gw_GatewayClassName gw) of
        Inl _ \<Rightarrow> None
      | Inr gwc \<Rightarrow> map_option (\<lambda>(name, ns). NamespacedName (case ns of None \<Rightarrow> [] | Some n \<Rightarrow> n) name) (gwc_ParametersRef gwc))"

lemma requests_iff:
  assumes "lists_by_params cluster listBy" "gw \<in> set cluster"
  shows "(\<exists>name. gatewayToParams gw = [name] \<and> gwp = NamespacedName (gw_Namespace gw) name) \<Longrightarrow>
    gw_key gw \<in> set (gatewayParamsRequests listBy gwp)"
  using assms by (auto simp: gatewayParamsRequests_def lists_by_params_def gw_key_def)

lemma default_parameters_agree:
  assumes "\<forall>k. k \<noteq> gwp \<longrightarrow> dc_GetGatewayParameters cli' k = dc_GetGatewayParameters cli k"
    and "dc_GetGatewayClass cli' = dc_GetGatewayClass cli" and "class_parameters cli gw \<noteq> Some gwp"
  shows "getDefaultGatewayParameters cli' gw = getDefaultGatewayParameters cli gw"
  using assms
  by (auto simp: getDefaultGatewayParameters_def getGatewayClassFromGateway_def getGatewayParametersForGatewayClass_def
      class_parameters_def Let_def split: sum.splits option.splits)


section \<open>Gateway classes\<close>

context condition_api
begin

text \<open>Setting a condition: what is found afterwards.\<close>

lemma find_set_same:
  "\<exists>c. findC (setC cs new) (cond_Type new) = Some c \<and> cond_Status c = cond_Status new \<and> cond_Reason c = cond_Reason new \<and>
    cond_ObservedGeneration c = cond_ObservedGeneration new"
proof (cases "\<exists>c \<in> set cs. cond_Type c = cond_Type new")
  case True
  from split_list_first_prop [OF this]
  obtain xs old ys where "cs = xs @ old # ys" "cond_Type old = cond_Type new" "\<forall>c \<in> set xs. cond_Type c \<noteq> cond_Type new"
    by blast
  then show ?thesis
    using find_first [of "updated_condition now old new" "cond_Type new" xs ys] set_present [of old new xs ys]
    by (auto simp: updated_condition_def Let_def)
next
  case False
  then show ?thesis
    using find_first [of "fresh_condition now new" "cond_Type new" cs "[]"] set_absent [of cs new]
    by (auto simp: fresh_condition_def)
qed

lemma find_list: "findC cs t = List.find (\<lambda>c. cond_Type c = t) cs"
proof (cases "findC cs t")
  case None
  then show ?thesis using find_none by (metis (mono_tags, lifting) find_None_iff)
next
  case (Some c)
  then have "\<exists>c \<in> set cs. cond_Type c = t" using find_none by (metis option.distinct(1))
  from split_list_first_prop [OF this]
  obtain xs old ys where "cs = xs @ old # ys" "cond_Type old = t" "\<forall>c \<in> set xs. cond_Type c \<noteq> t"
    by blast
  moreover have "List.find (\<lambda>c. cond_Type c = t) (xs @ old # ys) = Some old" if "\<forall>c \<in> set xs. cond_Type c \<noteq> t" "cond_Type old = t"
    using that by (induction xs) auto
  ultimately show ?thesis using find_first by auto
qed

lemma find_set_other:
  assumes "t \<noteq> cond_Type new"
  shows "findC (setC cs new) t = findC cs t"
proof (cases "\<exists>c \<in> set cs. cond_Type c = cond_Type new")
  case True
  from split_list_first_prop [OF this]
  obtain xs old ys where "cs = xs @ old # ys" "cond_Type old = cond_Type new" "\<forall>c \<in> set xs. cond_Type c \<noteq> cond_Type new"
    by blast
  moreover have "List.find (\<lambda>c. cond_Type c = t) (xs @ c # ys) = List.find (\<lambda>c. cond_Type c = t) (xs @ d # ys)"
    if "cond_Type c \<noteq> t" "cond_Type d \<noteq> t" for c d
    using that by (induction xs) auto
  ultimately show ?thesis using set_present [of old new xs ys] assms by (auto simp: find_list)
next
  case False
  have "List.find (\<lambda>c. cond_Type c = t) (cs @ [c]) = List.find (\<lambda>c. cond_Type c = t) cs" if "cond_Type c \<noteq> t" for c
    using that by (induction cs) auto
  then show ?thesis using False set_absent [of cs new] assms by (auto simp: find_list)
qed

end

text \<open>A gateway class of this controller is marked as accepted and of a supported version, for its
  current generation. Its other conditions and fields stay, and the error of the update is returned, so that
  the request is tried again; a class that is gone is no error and nothing is written.\<close>

theorem ReconcileGatewayClasses_correct:
  assumes "condition_api findC setC now"
  shows "(get req = Inl NotFound \<longrightarrow> ReconcileGatewayClasses setC get update req = (None, [])) \<and>
    (\<forall>m. get req = Inl (OtherError m) \<longrightarrow> ReconcileGatewayClasses setC get update req = (Some (OtherError m), [])) \<and>
    (\<forall>gwc. get req = Inr gwc \<longrightarrow> (\<exists>cs. ReconcileGatewayClasses setC get update req =
        (update (gwc\<lparr>gco_Conditions := cs\<rparr>), [gwc\<lparr>gco_Conditions := cs\<rparr>]) \<and>
      (\<forall>t \<in> {''Accepted'', ''SupportedVersion''}. \<exists>c. findC cs t = Some c \<and> cond_Status c = ConditionTrue \<and> cond_Reason c = t \<and>
        cond_ObservedGeneration c = gco_Generation gwc) \<and>
      (\<forall>t. t \<notin> {''Accepted'', ''SupportedVersion''} \<longrightarrow> findC cs t = findC (gco_Conditions gwc) t)))"
proof -
  have "\<exists>cs. ReconcileGatewayClasses setC get update req = (update (gwc\<lparr>gco_Conditions := cs\<rparr>), [gwc\<lparr>gco_Conditions := cs\<rparr>]) \<and>
      (\<forall>t \<in> {''Accepted'', ''SupportedVersion''}. \<exists>c. findC cs t = Some c \<and> cond_Status c = ConditionTrue \<and> cond_Reason c = t \<and>
        cond_ObservedGeneration c = gco_Generation gwc) \<and>
      (\<forall>t. t \<notin> {''Accepted'', ''SupportedVersion''} \<longrightarrow> findC cs t = findC (gco_Conditions gwc) t)" if "get req = Inr gwc" for gwc
  proof -
    define new where "new t = \<lparr>cond_Type = t, cond_Status = ConditionTrue, cond_ObservedGeneration = gco_Generation gwc,
      cond_LastTransitionTime = zeroTime, cond_Reason = t, cond_Message = []\<rparr>" for t
    define cs where "cs = setC (setC (gco_Conditions gwc) (new ''Accepted'')) (new ''SupportedVersion'')"
    have 1: "ReconcileGatewayClasses setC get update req = (update (gwc\<lparr>gco_Conditions := cs\<rparr>), [gwc\<lparr>gco_Conditions := cs\<rparr>])"
      using that by (simp add: ReconcileGatewayClasses_def Let_def cs_def new_def)
    have t: "cond_Type (new t) = t" for t by (simp add: new_def)
    note other = condition_api.find_set_other [OF assms, where new = "new _", unfolded t]
    note same = condition_api.find_set_same [OF assms, where new = "new _", unfolded t, unfolded new_def condition.simps]
    have 2: "\<exists>c. findC cs ''SupportedVersion'' = Some c \<and> cond_Status c = ConditionTrue \<and> cond_Reason c = ''SupportedVersion'' \<and>
        cond_ObservedGeneration c = gco_Generation gwc"
      unfolding cs_def using same [folded new_def] by blast
    have 3: "\<exists>c. findC cs ''Accepted'' = Some c \<and> cond_Status c = ConditionTrue \<and> cond_Reason c = ''Accepted'' \<and>
        cond_ObservedGeneration c = gco_Generation gwc"
      unfolding cs_def using same [folded new_def] other by simp
    have 4: "\<forall>t. t \<notin> {''Accepted'', ''SupportedVersion''} \<longrightarrow> findC cs t = findC (gco_Conditions gwc) t"
      unfolding cs_def using other by simp
    from 1 2 3 4 show ?thesis by blast
  qed
  then show ?thesis by (simp add: ReconcileGatewayClasses_def IgnoreNotFound_def)
qed

end
