(* ===== verification/ControllerExamples.thy ===== *)
theory ControllerExamples
  imports ControllerProps SyncerExamples
begin

text \<open>The documented behaviour of controller-runtime, which the locale on it asks for, witnesses for the
  theorems on the controllers, and a change of parameters that reaches no gateway.\<close>

fun accepts_event :: "'sel predicate \<Rightarrow> 'sel watch_event \<Rightarrow> bool" where
  "accepts_event GenerationChangedPredicate e = generation_changed e"
| "accepts_event (NewPredicateFuncs f) e = f (event_object e)"

definition triggers_controller :: "'sel registration \<Rightarrow> 'sel watch_event \<Rightarrow> bool" where
  "triggers_controller reg e \<longleftrightarrow> co_Kind (event_object e) \<in> set (rg_Watches reg) \<and> list_all (\<lambda>p. accepts_event p e) (rg_EventFilters reg) \<or>
     co_Kind (event_object e) = rg_For reg \<and> list_all (\<lambda>p. accepts_event p e) (rg_ForPredicates reg @ rg_EventFilters reg)"

interpretation documented: controller_runtime accepts_event triggers_controller
  by unfold_locales (auto simp: triggers_controller_def list_all_iff)

section \<open>Set up\<close>

definition kx_chart :: "unit helm_chart" where
  "kx_chart = \<lparr>chart_AppVersion = ''0'', chart_Version = ''0'', chart_Files = ()\<rparr>"

definition kx_env :: "(unit, unit, nat, unit, unit, unit) builder_env" where
  "kx_env = \<lparr>be_ControllerName = [], be_GWClasses = [], be_Inputs = dx_inputs, be_Version = ''1.18'', be_LoadFs = Inr kx_chart,
     be_ChartLib = (\<lambda>_. dx_lib), be_MinimalValues = (), be_SchemeNew = (\<lambda>_. Inr True), be_Complete = (\<lambda>_. None),
     be_IndexField = (\<lambda>_ _. None)\<rparr>"

definition kx_start :: "unit start_env" where
  "kx_start = \<lparr>se_NewManager = None, se_ExtensionsFactory = None, se_Add = None, se_MgrStart = (\<lambda>_. None)\<rparr>"

abbreviation kx_factory :: "(unit, unit, unit) statusSyncerFactory" where "kx_factory \<equiv> NewStatusSyncerFactory"

lemmas setup_defs = NewBaseGatewayController_def NewSecretsController_def watchSecrets_def watchGwClass_def watchGw_def
  watchHttpRoute_def watchReferenceGrant_def watchNamespaces_def watchHttpListenerOptions_def watchListenerOptions_def
  watchRouteOptions_def watchVirtualHostOptions_def watchUpstreams_def watchServices_def watchDirectResponses_def addIndexes_def
  addHttpLisOptIndexes_def addLisOptIndexes_def addRtOptIndexes_def addVhOptIndexes_def addGwParamsIndexes_def
  query_IterateIndices_def rtopt_IterateIndices_def vhopt_IterateIndices_def lisopt_IterateIndices_def httplisopt_IterateIndices_def

lemma kx_starts: "\<exists>mgr s. Start kx_start ''gloo-system'' [] kx_env kx_factory () = (None, Some (mgr, s))"
  by (simp add: Start_def kx_start_def kx_env_def setup_defs Complete_def IndexField_def NewDeployer_def kx_chart_def
      GetGvksToWatch_def renderChartToObjects_def Render_def dx_lib_def dx_obj_def Let_def)

definition kx_event :: "unit watch_event" where
  "kx_event = UpdateEvent (CoOther W_Service ''ns'' ''svc'' 1) (CoOther W_Service ''ns'' ''svc'' 2)"


section \<open>Kicks and secrets\<close>

lemma s_resync_total: "\<exists>t'. resyncProxies (s_env 9) t = Inr t'"
  by (simp add: resyncProxies_def s_env_def translateGateway_def Let_def split: prod.split)

definition kx_secrets :: secret_inputs where
  "kx_secrets = \<lparr>si_Secrets = []\<rparr>"

abbreviation kx_init :: "(unit, unit, status_log) proxy_syncer" where "kx_init \<equiv> syncer_init ''c'' ''ns'' []"

lemma kx_run:
  "\<exists>s. run syncer_step kx_init [SecretsEvent kx_secrets, SecretSync (s_env 9), KickEvent] s"
proof -
  let ?s1 = "kx_init\<lparr>ps_inputs := UpdateSecretInputs kx_secrets (ps_inputs kx_init)\<rparr>"
  have "buf (secretEvent (ps_inputs ?s1)) = [kx_secrets]"
    using Enqueue_ok(2) [of NewAsyncQueue kx_secrets] by (simp add: UpdateSecretInputs_def NewProxySyncer_def NewGatewayInputChannels_def)
  from recv_of_buf [OF this] obtain c where c: "chan_recv (Next (secretEvent (ps_inputs ?s1))) = Some (kx_secrets, c)" by (elim exE)
  obtain s2 where s2: "resyncProxies (s_env 9) (?s1\<lparr>ps_inputs := (ps_inputs ?s1)\<lparr>secretEvent := (secretEvent (ps_inputs ?s1))\<lparr>aq_queue := c\<rparr>\<rparr>,
      ps_secretsWarmed := True\<rparr>) = Inr s2"
    using s_resync_total by blast
  from syncer_step.secrets [of kx_init kx_secrets] syncer_step.secret_sync [OF c s2] syncer_step.kick [of s2]
  show ?thesis by (blast intro: run_Cons run.run_nil)
qed


lemma kx_run1: "run syncer_step kx_init [SecretsEvent kx_secrets] (kx_init\<lparr>ps_inputs := UpdateSecretInputs kx_secrets (ps_inputs kx_init)\<rparr>)"
  by (intro run_single syncer_step.secrets)

theorem secrets_newest_pending_witness:
  "\<exists>s c. run syncer_step kx_init [SecretsEvent kx_secrets] s \<and> chan_recv (Next (secretEvent (ps_inputs s))) = Some (kx_secrets, c)"
proof -
  have "pending_secrets [SecretsEvent kx_secrets :: (unit, unit, status_log) syncer_event] = Some kx_secrets" by (simp add: pending_secrets_def)
  from secrets_newest_pending [OF kx_run1 this] kx_run1 show ?thesis by blast
qed

definition kx_secret :: "string \<Rightarrow> kube_secret" where
  "kx_secret t = \<lparr>sec_Namespace = ''ns'', sec_Name = ''s'', sec_Data = [''tls.key'' \<mapsto> ''k'', ''tls.crt'' \<mapsto> ''c''], ksec_Type = t\<rparr>"

definition kx_meta :: "kube_secret \<Rightarrow> proxy_metadata" where
  "kx_meta s = \<lparr>pmd_Name = sec_Name s, pmd_Namespace = sec_Namespace s, pmd_Labels = Map.empty, pmd_Annotations = None\<rparr>"

theorem ReconcileSecrets_correct_witness:
  "\<exists>ch'. ReconcileSecrets kx_meta (Inr [kx_secret SecretTypeTLS, kx_secret ''helm.sh/release.v1'']) NewGatewayInputChannels = (None, ch') \<and>
    buf (secretEvent ch') = [\<lparr>si_Secrets = [convertSecret kx_meta (kx_secret SecretTypeTLS)]\<rparr>]"
proof -
  have "queue_ok (secretEvent NewGatewayInputChannels)" by (simp add: NewGatewayInputChannels_def)
  moreover have "ksec_Type (kx_secret t) = t" for t by (simp add: kx_secret_def)
  ultimately show ?thesis
    using ReconcileSecrets_correct [of NewGatewayInputChannels kx_meta NotFound "[kx_secret SecretTypeTLS, kx_secret ''helm.sh/release.v1'']"] by auto
qed

section \<open>Parameters\<close>

definition kx_other :: "unit gateway" where
  "kx_other = ex_gw\<lparr>gw_Name := ''other''\<rparr>"

definition kx_listBy :: "string \<Rightarrow> string \<Rightarrow> string + unit gateway list" where
  "kx_listBy ns name = Inr (filter (\<lambda>gw. gw_Namespace gw = ns \<and> name \<in> set (gatewayToParams gw)) [dx_gw, kx_other])"

lemma kx_lists: "lists_by_params [dx_gw, kx_other] kx_listBy"
  by (simp add: lists_by_params_def kx_listBy_def)

lemma kx_params: "gatewayToParams dx_gw = [''custom'']" "gatewayToParams kx_other = []"
  by (simp_all add: gatewayToParams_def dx_gw_def ex_gw_def kx_other_def)

lemma kx_requests:
  "gatewayParamsRequests kx_listBy (NamespacedName ''ns'' ''custom'') = [NamespacedName ''ns'' ''gw'']"
  "gatewayParamsRequests kx_listBy (NamespacedName ''gloo-system'' ''default'') = []"
  "gw_key kx_other = NamespacedName ''ns'' ''other''"
  by (simp_all add: gatewayParamsRequests_def kx_listBy_def kx_params, simp_all add: dx_gw_def ex_gw_def kx_other_def gw_key_def)

abbreviation kx_kube :: "nat gateway_parameters" where "kx_kube \<equiv> gwp_of (Some no_kube) None"
abbreviation kx_self :: "nat gateway_parameters" where "kx_self \<equiv> gwp_of None (Some ())"


text \<open>The parameters of the class are not looked at: their change makes no request, although a gateway
  without parameters of its own is deployed by them.\<close>

theorem class_parameters_change_makes_no_request:
  "gatewayParamsRequests kx_listBy (NamespacedName ''gloo-system'' ''default'') = [] \<and>
    class_parameters (dx_client d c) kx_other = Some (NamespacedName ''gloo-system'' ''default'') \<and>
    getGatewayParametersForGateway (dx_client d c) kx_other = Inr (Inr d)"
proof -
  have "gw_Annotations kx_other GatewayParametersAnnotationName = None" by (simp add: kx_other_def ex_gw_def)
  then show ?thesis
    by (simp add: kx_requests getGatewayParametersForGateway_def, simp add: dx_client_def class_parameters_def kx_other_def ex_gw_def
        getDefaultGatewayParameters_def getGatewayClassFromGateway_def getGatewayParametersForGatewayClass_def Let_def)
qed

text \<open>The requests that a change of parameters makes do not depend on the class of the gateways, while the
  events on gateways are filtered by it.\<close>

theorem gatewayParams_requests_any_class:
  "gatewayParamsRequests (\<lambda>ns name. Inr (filter (\<lambda>gw. gw_Namespace gw = ns \<and> name \<in> set (gatewayToParams gw))
      [dx_gw\<lparr>gw_GatewayClassName := ''istio''\<rparr>])) (NamespacedName ''ns'' ''custom'') = [NamespacedName ''ns'' ''gw''] \<and>
    \<not> usesOurGatewayClass [wellknown_GatewayClassName] (CoGateway (dx_gw\<lparr>gw_GatewayClassName := ''istio''\<rparr>))"
  by (simp add: gatewayParamsRequests_def gatewayToParams_def dx_gw_def ex_gw_def usesOurGatewayClass_def)

section \<open>Gateway classes\<close>

definition kx_class :: gateway_class_object where
  "kx_class = \<lparr>gwc_Name = ''gloo-gateway'', gwc_Namespace = [], gwc_ParametersRef = None,
     gco_ControllerName = GatewayControllerName, gco_Generation = 4, gco_Conditions = []\<rparr>"

theorem ReconcileGatewayClasses_correct_witness:
  "\<exists>cs c. ReconcileGatewayClasses (setStatusCondition 9) (\<lambda>_. Inr kx_class) (\<lambda>_. None) (NamespacedName [] ''gloo-gateway'') =
      (None, [kx_class\<lparr>gco_Conditions := cs\<rparr>]) \<and> findStatusCondition cs ''Accepted'' = Some c \<and> cond_ObservedGeneration c = 4"
  using ReconcileGatewayClasses_correct [OF meta.condition_api_axioms [of 9], of "\<lambda>_. Inr kx_class" "NamespacedName [] ''gloo-gateway''" "\<lambda>_. None"]
  by (auto simp: kx_class_def)

end
