(* ===== verification/PolicyValidator.thy ===== *)
theory PolicyValidator
  imports GatewayTranslator
begin

text \<open>
  The validation of policies at admission, \<open>projects/gateway2/validation/validator.go\<close>: a proxy with one route is built
  around the policy, and the errors that the Gloo translator reports for it are the verdict. The
  translator itself and its reports are arguments.
\<close>

section \<open>Model\<close>

text \<open>The upstreams of the snapshot: their references and, for static ones, their hosts.\<close>

record upstream =
  us_Ref :: resource_ref
  us_StaticHosts :: "(string \<times> 32 word) list option"

text \<open>\<open>UpsertToResourceList\<close> of the snapshot for upstreams; \<open>sortList\<close> is the sort of the list.\<close>

definition UpsertUpstream :: "(upstream list \<Rightarrow> upstream list) \<Rightarrow> upstream \<Rightarrow> upstream list \<Rightarrow> upstream list" where
  "UpsertUpstream sortList typed upstreams =
     (let updated = list_ex (\<lambda>res. us_Ref res = us_Ref typed) upstreams;
          upstreams = map (\<lambda>res. if us_Ref res = us_Ref typed then typed else res) upstreams
      in sortList (if updated then upstreams else upstreams @ [typed]))"

datatype policy_resource =
  ResRouteOption route_option
| ResVirtualHostOption virtual_host_option
| ResOther

definition fakeUpstream :: upstream where
  "fakeUpstream = \<lparr>us_Ref = \<lparr>rref_Name = ''zzz_fake-upstream-for-gloo-validation'', rref_Namespace = ''default''\<rparr>,
     us_StaticHosts = Some [(''solo.io'', 80)]\<rparr>"

text \<open>The route and the virtual host, with the options of the policy in the place that its type has.\<close>

definition validationRoute :: "policy_resource \<Rightarrow> gloo_route" where
  "validationRoute res =
     (let route = \<lparr>rt_Name = ''route'', rt_Matchers = [],
            rt_Action = Some (RouteAction (Single \<lparr>dest_Type = Destination_Upstream (us_Ref fakeUpstream), dest_Spec = None\<rparr>)),
            rt_Options = None, rt_Sources = None\<rparr>
      in case res of ResRouteOption policy \<Rightarrow> route\<lparr>rt_Options := pol_Options policy\<rparr> | _ \<Rightarrow> route)"

definition validationVirtualHost :: "policy_resource \<Rightarrow> virtual_host" where
  "validationVirtualHost res =
     (let vhost = \<lparr>vh_Name = ''vhost'', vh_Domains = [''*''], vh_Routes = [validationRoute res], vh_Options = None, vh_Sources = None\<rparr>
      in case res of ResVirtualHostOption policy \<Rightarrow> vhost\<lparr>vh_Options := pol_Options policy\<rparr> | _ \<Rightarrow> vhost)"

definition TranslateK8sGatewayProxies ::
  "(upstream list \<Rightarrow> upstream list) \<Rightarrow> upstream list \<Rightarrow> policy_resource \<Rightarrow> upstream list \<times> proxy list" where
  "TranslateK8sGatewayProxies sortList upstreams res =
     (let upstreams = UpsertUpstream sortList fakeUpstream upstreams;
          aggregateListener = \<lparr>gl_Name = ''aggregate-listener'', gl_BindAddress = ''127.0.0.1'', gl_BindPort = 8082,
            gl_VirtualHosts = [''vhost'' \<mapsto> validationVirtualHost res],
            gl_HttpFilterChains = [\<lparr>hfc_SslConfig = None, hfc_VirtualHostRefs = [''vhost''], hfc_HttpOptionsRef = ''opts1''\<rparr>],
            gl_HttpOptions = Map.empty, gl_Options = None, gl_Sources = None\<rparr>
      in (upstreams, [\<lparr>px_Metadata = \<lparr>pmd_Name = ''zzz-fake-proxy-for-validation'', pmd_Namespace = ''gloo-system'',
            pmd_Labels = Map.empty, pmd_Annotations = None\<rparr>, px_Listeners = [aggregateListener]\<rparr>]))"

text \<open>The reports of a validation run: a pointer to a map from the pointers of the resources to their
  errors. A report that is nil stops the loop with a panic.\<close>

type_synonym ('k, 'e) validation_report = "('k \<rightharpoonup> 'e option) option"

fun GetSimpleErrorFromGlooValidation :: "('k, 'e) validation_report list \<Rightarrow> 'k \<Rightarrow> 'e option outcome" where
  "GetSimpleErrorFromGlooValidation [] proxy = Inr None"
| "GetSimpleErrorFromGlooValidation (report # reports) proxy =
     bind_out (deref report) (\<lambda>resourceReports.
       case resourceReports proxy of
         Some (Some err) \<Rightarrow> Inr (Some err)
       | _ \<Rightarrow> GetSimpleErrorFromGlooValidation reports proxy)"

section \<open>Properties\<close>

text \<open>The options that a policy puts on the only route and on the only virtual host of the proxy.\<close>

fun route_policy :: "policy_resource \<Rightarrow> route_options option" where
  "route_policy (ResRouteOption p) = pol_Options p"
| "route_policy _ = None"

fun vhost_policy :: "policy_resource \<Rightarrow> option_fields option" where
  "vhost_policy (ResVirtualHostOption p) = pol_Options p"
| "vhost_policy _ = None"

lemma UpsertUpstream_set:
  assumes "\<And>xs. set (sortList xs) = set xs"
  shows "set (UpsertUpstream sortList us uss) = insert us {u \<in> set uss. us_Ref u \<noteq> us_Ref us}"
  using assms by (auto simp: UpsertUpstream_def Let_def list_ex_iff)

text \<open>The proxy that a policy is validated on carries it where the translation would put it: a
  \<open>RouteOption\<close> on the route, a \<open>VirtualHostOption\<close> on the virtual host, and nothing else has options. Every
  reference of the proxy resolves: the filter chain names the virtual host, the route leads to an
  upstream that the snapshot now holds, once, beside the other upstreams.\<close>

theorem TranslateK8sGatewayProxies_correct:
  assumes "\<And>xs. mset (sortList xs) = mset xs" and "TranslateK8sGatewayProxies sortList uss res = (uss', proxies)"
  shows "\<exists>proxy listener vhost route ref. proxies = [proxy] \<and> px_Listeners proxy = [listener] \<and> gl_Options listener = None \<and>
    map hfc_VirtualHostRefs (gl_HttpFilterChains listener) = [[vh_Name vhost]] \<and> gl_VirtualHosts listener = [vh_Name vhost \<mapsto> vhost] \<and>
    vh_Routes vhost = [route] \<and> rt_Options route = route_policy res \<and> vh_Options vhost = vhost_policy res \<and>
    rt_Action route = Some (RouteAction (Single \<lparr>dest_Type = Destination_Upstream ref, dest_Spec = None\<rparr>)) \<and>
    {u \<in> set uss'. us_Ref u = ref} = {fakeUpstream} \<and> {u \<in> set uss'. us_Ref u \<noteq> ref} = {u \<in> set uss. us_Ref u \<noteq> ref}"
proof -
  have s: "set (sortList xs) = set xs" for xs using assms(1) [of xs] by (metis set_mset_mset)
  have "uss' = UpsertUpstream sortList fakeUpstream uss" using assms(2) by (auto simp: TranslateK8sGatewayProxies_def Let_def)
  then have "{u \<in> set uss'. us_Ref u = us_Ref fakeUpstream} = {fakeUpstream}"
    "{u \<in> set uss'. us_Ref u \<noteq> us_Ref fakeUpstream} = {u \<in> set uss. us_Ref u \<noteq> us_Ref fakeUpstream}"
    using UpsertUpstream_set [OF s] by auto
  note us = this
  let ?v = "validationVirtualHost res" and ?r = "validationRoute res"
  have v: "vh_Name ?v = ''vhost''" "vh_Routes ?v = [?r]" "vh_Options ?v = vhost_policy res" "rt_Options ?r = route_policy res"
    "rt_Action ?r = Some (RouteAction (Single \<lparr>dest_Type = Destination_Upstream (us_Ref fakeUpstream), dest_Spec = None\<rparr>))"
    by (cases res; simp add: validationVirtualHost_def validationRoute_def Let_def)+
  obtain proxy listener where p: "proxies = [proxy]" "px_Listeners proxy = [listener]" "gl_Options listener = None"
    "map hfc_VirtualHostRefs (gl_HttpFilterChains listener) = [[''vhost'']]" "gl_VirtualHosts listener = [''vhost'' \<mapsto> ?v]"
    using assms(2) by (auto simp: TranslateK8sGatewayProxies_def Let_def)
  show ?thesis
    by (intro exI [of _ proxy] exI [of _ listener] exI [of _ ?v] exI [of _ ?r] exI [of _ "us_Ref fakeUpstream"])
      (simp add: p v us)
qed

text \<open>The verdict is the first error that a report has for the proxy.\<close>

theorem GetSimpleErrorFromGlooValidation_first:
  assumes "list_all (\<lambda>r. r \<noteq> None) reports"
  shows "GetSimpleErrorFromGlooValidation reports proxy =
    Inr (case List.find (\<lambda>r. \<exists>err. the r proxy = Some (Some err)) reports of None \<Rightarrow> None | Some r \<Rightarrow> the (the r proxy))"
  using assms by (induction reports) (auto simp: deref_def split: option.split)

section \<open>Witnesses\<close>

definition vx_policy :: route_option where
  "vx_policy = \<lparr>pol_Namespace = ''ns'', pol_Name = ''p'', pol_Kind = ''RouteOption'', pol_Generation = 1, pol_CreationTimestamp = 0,
     pol_TargetRefs = [], pol_Options = Some NewRouteOptions\<rparr>"

theorem TranslateK8sGatewayProxies_correct_witness:
  "\<exists>uss' proxy listener vhost route. TranslateK8sGatewayProxies (\<lambda>xs. xs) [] (ResRouteOption vx_policy) = (uss', [proxy]) \<and>
    px_Listeners proxy = [listener] \<and> gl_VirtualHosts listener = [vh_Name vhost \<mapsto> vhost] \<and> vh_Routes vhost = [route] \<and>
    rt_Options route = Some NewRouteOptions \<and> vh_Options vhost = None"
proof -
  obtain uss' proxies where t: "TranslateK8sGatewayProxies (\<lambda>xs. xs) [] (ResRouteOption vx_policy) = (uss', proxies)" by fastforce
  have "pol_Options vx_policy = Some NewRouteOptions" by (simp add: vx_policy_def)
  with TranslateK8sGatewayProxies_correct [of "\<lambda>xs. xs", OF refl t] t show ?thesis by auto
qed

theorem GetSimpleErrorFromGlooValidation_first_witness:
  "GetSimpleErrorFromGlooValidation [Some [1 \<mapsto> None], Some [1 \<mapsto> Some ''bad'', 2 \<mapsto> None], Some [1 \<mapsto> Some ''worse'']] (1 :: nat) = Inr (Some ''bad'')"
  using GetSimpleErrorFromGlooValidation_first [of "[Some [1 \<mapsto> None], Some [1 \<mapsto> Some ''bad'', 2 \<mapsto> None], Some [1 \<mapsto> Some ''worse'']]" "1 :: nat"]
  by simp

end
