(* ===== verification/EdgeApi.thy ===== *)
theory EdgeApi
  imports OptionMerge
begin

text \<open>
  The resources of the Edge API (\<open>projects/gateway/pkg/api/v1\<close>, generated from protocol buffers) as far as
  the translator of \<open>projects/gateway/pkg/translator\<close> reads them, and the memory it works in.

  The translator clones routes before it changes them, but options, transformations and slices are
  shared between what it builds and the resources they come from, and some are written through. They
  are therefore objects of an explicit heap: options of routes and of virtual hosts, stages of
  transformations, lists of transformations, and the backing arrays of the slices in matchers. A
  resource read from the snapshot is a value; cloning it allocates its parts.
\<close>

section \<open>Slices\<close>

text \<open>A backing array: the elements written so far and its capacity. All slices of the translator start at
  the beginning of their array.\<close>

record 'a go_array =
  ga_cells :: "'a list"
  ga_cap :: nat

record slice =
  sl_array :: nat
  sl_len :: nat

text \<open>The runtime decides the capacity of an array that \<open>append\<close> or a clone allocates.\<close>

record go_runtime =
  gr_append :: "nat \<Rightarrow> nat"
  gr_clone :: "nat \<Rightarrow> nat"

type_synonym 'a arrays = "nat \<Rightarrow> 'a go_array"

definition sl_read :: "'a arrays \<Rightarrow> slice \<Rightarrow> 'a list" where
  "sl_read h s = take (sl_len s) (ga_cells (h (sl_array s)))"

text \<open>\<open>append\<close>: in place when the capacity is large enough, otherwise into a new array at \<open>fresh\<close>. The
  result says whether an array was allocated.\<close>

definition go_append :: "(nat \<Rightarrow> nat) \<Rightarrow> nat \<Rightarrow> slice \<Rightarrow> 'a list \<Rightarrow> 'a arrays \<Rightarrow> slice \<times> 'a arrays" where
  "go_append grow fresh s xs h =
     (let n = sl_len s + length xs; a = h (sl_array s)
      in if xs = [] then (s, h)
         else if n \<le> ga_cap a
         then (\<lparr>sl_array = sl_array s, sl_len = n\<rparr>,
               h(sl_array s := a\<lparr>ga_cells := take (sl_len s) (ga_cells a) @ xs @ drop n (ga_cells a)\<rparr>))
         else (\<lparr>sl_array = fresh, sl_len = n\<rparr>, h(fresh := \<lparr>ga_cells = sl_read h s @ xs, ga_cap = max n (grow n)\<rparr>)))"

definition new_slice :: "(nat \<Rightarrow> nat) \<Rightarrow> nat \<Rightarrow> 'a list \<Rightarrow> 'a arrays \<Rightarrow> slice \<times> 'a arrays" where
  "new_slice capacity fresh xs h =
     (\<lparr>sl_array = fresh, sl_len = length xs\<rparr>,
      h(fresh := \<lparr>ga_cells = xs, ga_cap = (if xs = [] then 0 else max (length xs) (capacity (length xs)))\<rparr>))"

section \<open>Resources\<close>

record edge_meta =
  em_Name :: string
  em_Namespace :: string
  em_Labels :: "string \<rightharpoonup> string"
  em_Annotations :: "string \<rightharpoonup> string"
  em_Generation :: int

definition em_Ref :: "edge_meta \<Rightarrow> resource_ref" where
  "em_Ref m = \<lparr>rref_Name = em_Name m, rref_Namespace = em_Namespace m\<rparr>"

datatype edge_path = E_Prefix string | E_Exact string | E_Regex string | E_Connect

record edge_header =
  ehd_Name :: string
  ehd_Value :: string
  ehd_Regex :: bool
  ehd_InvertMatch :: bool

text \<open>A matcher of a resource.\<close>

record edge_matcher =
  emt_PathSpecifier :: "edge_path option"
  emt_CaseSensitive :: "bool option"
  emt_Headers :: "edge_header list"
  emt_QueryParameters :: "query_parameter_matcher list"
  emt_Methods :: "string list"

text \<open>\<open>transformation.RequestResponseTransformations\<close> and \<open>TransformationStages\<close>; a single transformation is opaque.\<close>

record transformations =
  trf_RequestTransforms :: "string list"
  trf_ResponseTransforms :: "string list"

record stages_value =
  sv_InheritTransformation :: bool
  sv_Regular :: "transformations option"
  sv_Early :: "transformations option"

record options_value =
  ov_HostRewriteType :: "host_rewrite_type option"
  ov_RegexRewrite :: "regex_rewrite option"
  ov_StagedTransformations :: "stages_value option"
  ov_Fields :: option_fields

datatype expression_operator =
  Op_Equals | Op_DoubleEquals | Op_NotEquals | Op_In | Op_NotIn | Op_Exists | Op_DoesNotExist | Op_GreaterThan | Op_LessThan

record selector_expression =
  sx_Key :: string
  sx_Operator :: expression_operator
  sx_Values :: "string list"

record route_table_selector =
  rts_Namespaces :: "string list"
  rts_Labels :: "(string \<times> string) list"
  rts_Expressions :: "selector_expression list"

datatype delegation_type = DelegateRef resource_ref | DelegateSelector route_table_selector

text \<open>The name and namespace are the deprecated form of the reference.\<close>

record delegate_action =
  da_Name :: string
  da_Namespace :: string
  da_DelegationType :: "delegation_type option"

datatype edge_destination = DestUpstream resource_ref | DestOther string

datatype edge_route_action =
  DestSingle edge_destination
| DestMulti "(edge_destination \<times> 32 word) list"
| DestElsewhere string

datatype edge_action =
  EdgeRouteAction edge_route_action
| EdgeRedirectAction redirect_action
| EdgeDirectResponseAction direct_response_action
| EdgeDelegateAction delegate_action
| EdgeGraphqlApiRef resource_ref

record edge_route =
  egr_Name :: string
  egr_Matchers :: "edge_matcher list"
  egr_InheritableMatchers :: "bool option"
  egr_InheritablePathMatchers :: "bool option"
  egr_Options :: "options_value option"
  egr_DelegateOptions :: "resource_ref list"
  egr_Action :: "edge_action option"

record route_table =
  rtb_Metadata :: edge_meta
  rtb_Weight :: "int option"
  rtb_Routes :: "edge_route list"

section \<open>The heap\<close>

record edge_options =
  eo_HostRewriteType :: "host_rewrite_type option"
  eo_RegexRewrite :: "regex_rewrite option"
  eo_StagedTransformations :: "nat option"
  eo_Fields :: option_fields

record vhost_options =
  vo_StagedTransformations :: "nat option"
  vo_Fields :: option_fields

record stages =
  sg_InheritTransformation :: bool
  sg_Regular :: "nat option"
  sg_Early :: "nat option"

record edge_heap =
  hp_options :: "nat \<Rightarrow> edge_options"
  hp_vhost_options :: "nat \<Rightarrow> vhost_options"
  hp_stages :: "nat \<Rightarrow> stages"
  hp_transformations :: "nat \<Rightarrow> transformations"
  hp_headers :: "edge_header arrays"
  hp_params :: "query_parameter_matcher arrays"
  hp_methods :: "string arrays"
  hp_next :: nat

text \<open>A matcher in memory. The flag for case sensitivity is held by pointer, and one check compares the pointers.\<close>

record mem_matcher =
  mm_PathSpecifier :: "edge_path option"
  mm_CaseSensitive :: "bool ptr option"
  mm_Headers :: slice
  mm_QueryParameters :: slice
  mm_Methods :: slice

definition read_matcher :: "edge_heap \<Rightarrow> mem_matcher \<Rightarrow> edge_matcher" where
  "read_matcher h m = \<lparr>emt_PathSpecifier = mm_PathSpecifier m, emt_CaseSensitive = map_option ptr_target (mm_CaseSensitive m),
     emt_Headers = sl_read (hp_headers h) (mm_Headers m), emt_QueryParameters = sl_read (hp_params h) (mm_QueryParameters m),
     emt_Methods = sl_read (hp_methods h) (mm_Methods m)\<rparr>"

text \<open>\<open>proto.Clone\<close> of the parts of a route. Every part gets a new location.\<close>

definition clone_matcher :: "go_runtime \<Rightarrow> edge_heap \<Rightarrow> edge_matcher \<Rightarrow> edge_heap \<times> mem_matcher" where
  "clone_matcher rt h m =
     (let n = hp_next h;
          (hs, headers) = new_slice (gr_clone rt) n (emt_Headers m) (hp_headers h);
          (qs, params) = new_slice (gr_clone rt) n (emt_QueryParameters m) (hp_params h);
          (ms, methods) = new_slice (gr_clone rt) n (emt_Methods m) (hp_methods h)
      in (h\<lparr>hp_headers := headers, hp_params := params, hp_methods := methods, hp_next := n + 1\<rparr>,
          \<lparr>mm_PathSpecifier = emt_PathSpecifier m, mm_CaseSensitive = map_option (Ptr n) (emt_CaseSensitive m),
           mm_Headers = hs, mm_QueryParameters = qs, mm_Methods = ms\<rparr>))"

definition clone_transformations :: "edge_heap \<Rightarrow> transformations option \<Rightarrow> edge_heap \<times> nat option" where
  "clone_transformations h t =
     (case t of
        None \<Rightarrow> (h, None)
      | Some t \<Rightarrow> (h\<lparr>hp_transformations := (hp_transformations h)(hp_next h := t), hp_next := hp_next h + 1\<rparr>, Some (hp_next h)))"

definition clone_stages :: "edge_heap \<Rightarrow> stages_value option \<Rightarrow> edge_heap \<times> nat option" where
  "clone_stages h s =
     (case s of
        None \<Rightarrow> (h, None)
      | Some s \<Rightarrow>
          let (h, regular) = clone_transformations h (sv_Regular s);
              (h, early) = clone_transformations h (sv_Early s);
              ob = \<lparr>sg_InheritTransformation = sv_InheritTransformation s, sg_Regular = regular, sg_Early = early\<rparr>
          in (h\<lparr>hp_stages := (hp_stages h)(hp_next h := ob), hp_next := hp_next h + 1\<rparr>, Some (hp_next h)))"

definition clone_options :: "edge_heap \<Rightarrow> options_value option \<Rightarrow> edge_heap \<times> nat option" where
  "clone_options h v =
     (case v of
        None \<Rightarrow> (h, None)
      | Some v \<Rightarrow>
          let (h, staged) = clone_stages h (ov_StagedTransformations v);
              ob = \<lparr>eo_HostRewriteType = ov_HostRewriteType v, eo_RegexRewrite = ov_RegexRewrite v,
                eo_StagedTransformations = staged, eo_Fields = ov_Fields v\<rparr>
          in (h\<lparr>hp_options := (hp_options h)(hp_next h := ob), hp_next := hp_next h + 1\<rparr>, Some (hp_next h)))"

text \<open>A clone of options that are in memory.\<close>

definition copy_transformations :: "edge_heap \<Rightarrow> nat option \<Rightarrow> transformations option" where
  "copy_transformations h a = map_option (hp_transformations h) a"

definition copy_stages :: "edge_heap \<Rightarrow> nat option \<Rightarrow> stages_value option" where
  "copy_stages h a =
     map_option (\<lambda>a. let s = hp_stages h a in \<lparr>sv_InheritTransformation = sg_InheritTransformation s,
       sv_Regular = copy_transformations h (sg_Regular s), sv_Early = copy_transformations h (sg_Early s)\<rparr>) a"

text \<open>What options in memory say.\<close>

definition read_options :: "edge_heap \<Rightarrow> nat option \<Rightarrow> options_value option" where
  "read_options h a =
     map_option (\<lambda>a. let v = hp_options h a in \<lparr>ov_HostRewriteType = eo_HostRewriteType v, ov_RegexRewrite = eo_RegexRewrite v,
       ov_StagedTransformations = copy_stages h (eo_StagedTransformations v), ov_Fields = eo_Fields v\<rparr>) a"

section \<open>Reports\<close>

text \<open>The resources that reports are about. Route tables and virtual services are known by their index in
  the snapshot, which stands for their pointer.\<close>

datatype edge_resource = VirtualServiceRes nat | RouteTableRes nat | GatewayRes nat

text \<open>The errors and warnings of the translator with the values their messages print.\<close>

datatype edge_error =
  NoActionErr
| InternalDelegationErr
| MatcherCountErr
| MissingPrefixErr
| InvalidPrefixWarning string string
| InvalidCaseSensitiveWarning "bool option" "bool option"
| InvalidHeadersWarning "edge_header list" "edge_header list"
| InvalidQueryParamsWarning "query_parameter_matcher list" "query_parameter_matcher list"
| InvalidMethodsWarning "string list" "string list"
| DelegationCycleErr "resource_ref list"
| TopLevelVirtualResourceErr resource_ref edge_error
| RouteTableMissingWarning resource_ref
| NoMatchingRouteTablesWarning
| MissingRefAndSelectorWarning
| ExpressionsAndLabelsWarning
| InvalidExpressionWarning string
| NotFoundWarning resource_ref
| NoVirtualHostErr resource_ref
| InvalidRegexErr resource_ref string
| DomainInOtherVirtualServicesErr string "resource_ref list"
| ConflictingVirtualServicesErr "string list"
| ConflictingMatcherErr string edge_matcher
| UnorderedPrefixErr string string edge_matcher
| UnorderedRegexErr string string edge_matcher
| MissingGatewayTypeErr
| EmptyHybridGatewayErr
| InvalidVirtualServiceRefErr resource_ref
| BindAddressNotUniqueErr string "resource_ref list"
| ConflictingSniDomainsErr "string list"

datatype edge_report = AddError edge_resource edge_error | AddWarning edge_resource edge_error

end
