(* ===== verification/EdgeSelector.thy ===== *)
theory EdgeSelector
  imports EdgeApi
begin

text \<open>
  How the Edge translator chooses and orders route tables and routes:
  \<open>projects/gateway/pkg/translator/route_table_selector.go\<close>, \<open>route_table_indexer.go\<close>, the selection of delegated
  gateways \<open>gateway_selector.go\<close>, and \<open>projects/gloo/pkg/utils/sort_routes.go\<close>. Route tables are given by
  their index in the list of the snapshot, which stands for their pointer. The label selectors of
  Kubernetes are the record \<open>label_lib\<close>.
\<close>

section \<open>Label selectors\<close>

type_synonym label_set = "string \<rightharpoonup> string"

record label_lib =
  ll_SelectorFromSet :: "(string \<times> string) list \<Rightarrow> label_set \<Rightarrow> bool"
  ll_NewRequirement :: "string \<Rightarrow> string \<Rightarrow> string list \<Rightarrow> string + (label_set \<Rightarrow> bool)"

text \<open>\<open>RouteTableExpressionOperatorValues\<close> and its copies for virtual services and gateways.\<close>

fun expressionOperatorValue :: "expression_operator \<Rightarrow> string" where
  "expressionOperatorValue Op_Equals = ''=''"
| "expressionOperatorValue Op_DoubleEquals = ''==''"
| "expressionOperatorValue Op_NotEquals = ''!=''"
| "expressionOperatorValue Op_In = ''in''"
| "expressionOperatorValue Op_NotIn = ''notin''"
| "expressionOperatorValue Op_Exists = ''exists''"
| "expressionOperatorValue Op_DoesNotExist = ''!''"
| "expressionOperatorValue Op_GreaterThan = ''gt''"
| "expressionOperatorValue Op_LessThan = ''lt''"

text \<open>The loop that makes requirements of expressions; it stops at the first one that is not valid.\<close>

fun newRequirements :: "label_lib \<Rightarrow> selector_expression list \<Rightarrow> string + (label_set \<Rightarrow> bool) list" where
  "newRequirements lib [] = Inr []"
| "newRequirements lib (e # es) =
     (case ll_NewRequirement lib (sx_Key e) (expressionOperatorValue (sx_Operator e)) (sx_Values e) of
        Inl err \<Rightarrow> Inl err
      | Inr r \<Rightarrow> (case newRequirements lib es of Inl err \<Rightarrow> Inl err | Inr rs \<Rightarrow> Inr (r # rs)))"

definition RouteTableLabelsMatchesExpressionRequirements :: "(label_set \<Rightarrow> bool) list \<Rightarrow> label_set \<Rightarrow> bool" where
  "RouteTableLabelsMatchesExpressionRequirements requirements rtLabels = list_all (\<lambda>r. r rtLabels) requirements"

section \<open>Selection of route tables\<close>

datatype ns_selector = NsOwner | NsAll | NsList

definition nsSelectorOf :: "string list \<Rightarrow> ns_selector" where
  "nsSelectorOf nss = (if ''*'' \<in> set nss then NsAll else if nss \<noteq> [] then NsList else NsOwner)"

definition nsMatches :: "string list \<Rightarrow> string \<Rightarrow> string \<Rightarrow> bool" where
  "nsMatches nss ownerNamespace ns =
     (case nsSelectorOf nss of NsAll \<Rightarrow> True | NsOwner \<Rightarrow> ns = ownerNamespace | NsList \<Rightarrow> ns \<in> set nss)"

definition RouteTablesForSelector ::
  "label_lib \<Rightarrow> route_table list \<Rightarrow> route_table_selector \<Rightarrow> string \<Rightarrow> edge_error + nat list" where
  "RouteTablesForSelector lib tables sel ownerNamespace =
     (if rts_Labels sel \<noteq> [] \<and> rts_Expressions sel \<noteq> [] then Inl ExpressionsAndLabelsWarning
      else case newRequirements lib (rts_Expressions sel) of
        Inl err \<Rightarrow> Inl (InvalidExpressionWarning err)
      | Inr requirements \<Rightarrow>
          Inr (filter (\<lambda>i. let meta = rtb_Metadata (tables ! i)
             in (rts_Labels sel = [] \<or> ll_SelectorFromSet lib (rts_Labels sel) (em_Labels meta)) \<and>
                (requirements = [] \<or> RouteTableLabelsMatchesExpressionRequirements requirements (em_Labels meta)) \<and>
                nsMatches (rts_Namespaces sel) ownerNamespace (em_Namespace meta)) [0..<length tables]))"

text \<open>\<open>getRouteTableRef\<close>\<close>

definition getRouteTableRef :: "delegate_action \<Rightarrow> resource_ref option" where
  "getRouteTableRef delegate =
     (if da_Namespace delegate \<noteq> [] \<or> da_Name delegate \<noteq> []
      then Some \<lparr>rref_Name = da_Name delegate, rref_Namespace = da_Namespace delegate\<rparr>
      else case da_DelegationType delegate of Some (DelegateRef ref) \<Rightarrow> Some ref | _ \<Rightarrow> None)"

text \<open>\<open>RouteTableList.Find\<close>: the first one with the reference.\<close>

definition findRouteTable :: "route_table list \<Rightarrow> resource_ref \<Rightarrow> nat option" where
  "findRouteTable tables ref = indexFunc (\<lambda>t. em_Ref (rtb_Metadata t) = ref) tables"

definition SelectRouteTables ::
  "label_lib \<Rightarrow> route_table list \<Rightarrow> delegate_action \<Rightarrow> string \<Rightarrow> edge_error + nat list" where
  "SelectRouteTables lib tables action parentNamespace =
     (case getRouteTableRef action of
        Some ref \<Rightarrow>
          (case findRouteTable tables ref of
             None \<Rightarrow> Inl (RouteTableMissingWarning ref)
           | Some i \<Rightarrow> Inr [i])
      | None \<Rightarrow>
          (case da_DelegationType action of
             Some (DelegateSelector sel) \<Rightarrow>
               (case RouteTablesForSelector lib tables sel parentNamespace of
                  Inl err \<Rightarrow> Inl err
                | Inr routeTables \<Rightarrow> if routeTables = [] then Inl NoMatchingRouteTablesWarning else Inr routeTables)
           | _ \<Rightarrow> Inl MissingRefAndSelectorWarning))"

section \<open>Weights (route_table_indexer.go)\<close>

abbreviation (input) defaultTableWeight :: int where "defaultTableWeight \<equiv> 0"

definition tableWeight :: "route_table \<Rightarrow> int" where
  "tableWeight t = (case rtb_Weight t of None \<Rightarrow> defaultTableWeight | Some w \<Rightarrow> w)"

definition appendByWeight :: "(nat \<Rightarrow> int) \<Rightarrow> (int \<rightharpoonup> nat list) \<Rightarrow> nat \<Rightarrow> (int \<rightharpoonup> nat list)" where
  "appendByWeight weight byWeight i =
     byWeight(weight i \<mapsto> (case byWeight (weight i) of None \<Rightarrow> [] | Some l \<Rightarrow> l) @ [i])"

text \<open>The keys are collected in the order of the map, an argument, and sorted.\<close>

definition IndexByWeight ::
  "((int \<rightharpoonup> nat list) \<Rightarrow> int list) \<Rightarrow> route_table list \<Rightarrow> nat list \<Rightarrow> (int \<rightharpoonup> nat list) \<times> int list" where
  "IndexByWeight visit tables routeTables =
     (let byWeight = foldl (appendByWeight (\<lambda>i. tableWeight (tables ! i))) Map.empty routeTables
      in (byWeight, sort_stable (<) (visit byWeight)))"

text \<open>The groups of route tables in the order they are processed in.\<close>

definition weightGroups :: "((int \<rightharpoonup> nat list) \<Rightarrow> int list) \<Rightarrow> route_table list \<Rightarrow> nat list \<Rightarrow> nat list list" where
  "weightGroups visit tables routeTables =
     (let (byWeight, sortedWeights) = IndexByWeight visit tables routeTables
      in map (\<lambda>w. case byWeight w of None \<Rightarrow> [] | Some l \<Rightarrow> l) sortedWeights)"

section \<open>Delegated gateways (gateway_selector.go)\<close>

record gateway_selector =
  gsel_Namespaces :: "string list"
  gsel_Labels :: "(string \<times> string) list"
  gsel_Expressions :: "selector_expression list option"

definition matchNamespaces :: "string \<Rightarrow> string list \<Rightarrow> bool" where
  "matchNamespaces gatewayNs namespaces = (namespaces = [] \<or> list_ex (\<lambda>ns. ns = ''*'' \<or> gatewayNs = ns) namespaces)"

definition matchLabels :: "label_lib \<Rightarrow> label_set \<Rightarrow> (string \<times> string) list \<Rightarrow> bool" where
  "matchLabels lib gatewayLabelSet validLabels = ll_SelectorFromSet lib validLabels gatewayLabelSet"

definition labelsMatchExpressionRequirements :: "(label_set \<Rightarrow> bool) list \<Rightarrow> label_set \<Rightarrow> bool" where
  "labelsMatchExpressionRequirements requirements labels = list_all (\<lambda>r. r labels) requirements"

definition matchExpressions :: "label_lib \<Rightarrow> label_set \<Rightarrow> selector_expression list option \<Rightarrow> edge_error + bool" where
  "matchExpressions lib gatewayLabelSet expressions =
     (case expressions of
        None \<Rightarrow> Inr True
      | Some expressions \<Rightarrow>
          (case newRequirements lib expressions of
             Inl err \<Rightarrow> Inl (InvalidExpressionWarning err)
           | Inr requirements \<Rightarrow> Inr (labelsMatchExpressionRequirements requirements gatewayLabelSet)))"

text \<open>The getters of a selector that is nil give empty values.\<close>

definition matchMetadata ::
  "label_lib \<Rightarrow> edge_meta \<Rightarrow> resource_ref option \<Rightarrow> gateway_selector option \<Rightarrow> edge_error + bool" where
  "matchMetadata lib meta refSelector sel =
     (case refSelector of
        Some ref \<Rightarrow> Inr (ref = em_Ref meta)
      | None \<Rightarrow>
          let sel = (case sel of None \<Rightarrow> \<lparr>gsel_Namespaces = [], gsel_Labels = [], gsel_Expressions = None\<rparr> | Some s \<Rightarrow> s);
              doesMatchNamespaces = matchNamespaces (em_Namespace meta) (gsel_Namespaces sel);
              doesMatchLabels = matchLabels lib (em_Labels meta) (gsel_Labels sel)
          in case matchExpressions lib (em_Labels meta) (gsel_Expressions sel) of
               Inl err \<Rightarrow> Inl err
             | Inr doesMatchExpressions \<Rightarrow> Inr (doesMatchNamespaces \<and> doesMatchLabels \<and> doesMatchExpressions))"

section \<open>Order of routes (sort_routes.go)\<close>

text \<open>The comparison looks at the path and the number of methods.\<close>

fun PathAsString :: "edge_path option \<Rightarrow> string" where
  "PathAsString (Some (E_Prefix p)) = p"
| "PathAsString (Some (E_Exact p)) = p"
| "PathAsString (Some (E_Regex p)) = p"
| "PathAsString _ = []"

fun pathTypePriority :: "edge_path option \<Rightarrow> nat" where
  "pathTypePriority (Some (E_Exact _)) = 1"
| "pathTypePriority (Some (E_Regex _)) = 2"
| "pathTypePriority (Some (E_Prefix _)) = 3"
| "pathTypePriority _ = 0"

definition lessMatcher :: "mem_matcher \<Rightarrow> mem_matcher \<Rightarrow> bool" where
  "lessMatcher m1 m2 =
     (if sl_len (mm_Methods m1) \<noteq> sl_len (mm_Methods m2) then sl_len (mm_Methods m1) > sl_len (mm_Methods m2)
      else if pathTypePriority (mm_PathSpecifier m1) \<noteq> pathTypePriority (mm_PathSpecifier m2)
      then pathTypePriority (mm_PathSpecifier m1) < pathTypePriority (mm_PathSpecifier m2)
      else PathAsString (mm_PathSpecifier m1) > PathAsString (mm_PathSpecifier m2))"

text \<open>\<open>defaults.DefaultMatcher\<close>; its slices are nil.\<close>

abbreviation nil_slice :: slice where "nil_slice \<equiv> \<lparr>sl_array = 0, sl_len = 0\<rparr>"

definition DefaultMatcher :: mem_matcher where
  "DefaultMatcher = \<lparr>mm_PathSpecifier = Some (E_Prefix ''/''), mm_CaseSensitive = None, mm_Headers = nil_slice,
     mm_QueryParameters = nil_slice, mm_Methods = nil_slice\<rparr>"

definition getSmallestOrDefaultMatcher :: "mem_matcher list \<Rightarrow> mem_matcher" where
  "getSmallestOrDefaultMatcher matchers =
     (let smallest = (case matchers of [] \<Rightarrow> DefaultMatcher | m # _ \<Rightarrow> m)
      in foldl (\<lambda>smallest m. if lessMatcher m smallest then m else smallest) smallest matchers)"

definition SortRoutesByPath :: "('r \<Rightarrow> mem_matcher list) \<Rightarrow> 'r list \<Rightarrow> 'r list" where
  "SortRoutesByPath matchers routes =
     sort_stable (\<lambda>a b. lessMatcher (getSmallestOrDefaultMatcher (matchers a)) (getSmallestOrDefaultMatcher (matchers b))) routes"

end
