(* ===== verification/EdgeConverter.thy ===== *)
theory EdgeConverter
  imports EdgeSelector
begin

text \<open>
  The conversion of virtual services and the route tables they delegate to into routes of a proxy:
  \<open>projects/gateway/pkg/translator/converter.go\<close>, with the source metadata of \<open>config_source.go\<close>.

  The state of the traversal is the heap and the reports, which are a log in the order they are added.
  The recursion over route tables takes a fuel; running out of it is the panic \<open>OutOfFuel\<close>. The other arguments
  of the methods (the snapshot, the libraries and the names) are the record \<open>edge_env\<close> and the context of
  the virtual service.
\<close>

section \<open>State and arguments\<close>

record visit_state =
  vst_heap :: edge_heap
  vst_reports :: "edge_report list"

text \<open>The snapshot of the option resources has the location of the options of each resource.\<close>

record edge_env =
  ee_RouteTables :: "route_table list"
  ee_RouteOptions :: "(resource_ref \<times> nat option) list"
  ee_labels :: label_lib
  ee_weights :: "(int \<rightharpoonup> nat list) \<Rightarrow> int list"
  ee_runtime :: go_runtime
  ee_Kind :: "edge_resource \<Rightarrow> string"

text \<open>What a visit of a virtual service has at hand: the names of the gateway and the proxy, and the
  virtual service, with the location of the options of its virtual host.\<close>

record visit_context =
  vc_gatewayName :: string
  vc_proxyName :: string
  vc_virtualService :: edge_resource
  vc_virtualHostOptions :: "nat option"

text \<open>\<open>resourceWithRoutes\<close>\<close>

record visitable =
  va_InputResource :: edge_resource
  va_Metadata :: edge_meta
  va_Routes :: "edge_route list"

definition visitableRouteTable :: "edge_env \<Rightarrow> nat \<Rightarrow> visitable" where
  "visitableRouteTable env i = \<lparr>va_InputResource = RouteTableRes i, va_Metadata = rtb_Metadata (ee_RouteTables env ! i),
     va_Routes = rtb_Routes (ee_RouteTables env ! i)\<rparr>"

text \<open>\<open>routeInfo\<close>\<close>

record route_info =
  ri_matcher :: mem_matcher
  ri_options :: "nat option"
  ri_name :: string
  ri_hasName :: bool
  ri_inheritableMatchers :: bool
  ri_inheritablePathMatchers :: bool

text \<open>The clone of a route, and a route of the proxy.\<close>

record work_route =
  wr_Name :: string
  wr_Matchers :: "mem_matcher list"
  wr_InheritableMatchers :: "bool option"
  wr_InheritablePathMatchers :: "bool option"
  wr_Options :: "nat option"
  wr_Action :: "edge_action option"

record mem_route =
  mr_Name :: string
  mr_Matchers :: "mem_matcher list"
  mr_Options :: "nat option"
  mr_Action :: edge_action
  mr_Sources :: "source_ref list"

section \<open>Reports\<close>

definition helper_addError :: "edge_env \<Rightarrow> visit_context \<Rightarrow> edge_resource \<Rightarrow> edge_error \<Rightarrow> visit_state \<Rightarrow> visit_state" where
  "helper_addError env ctx res err st =
     st\<lparr>vst_reports := vst_reports st @ [AddError res err] @
       (case res of
          RouteTableRes i \<Rightarrow> [AddError (vc_virtualService ctx) (TopLevelVirtualResourceErr (em_Ref (rtb_Metadata (ee_RouteTables env ! i))) err)]
        | _ \<Rightarrow> [])\<rparr>"

definition helper_addWarning :: "edge_env \<Rightarrow> visit_context \<Rightarrow> edge_resource \<Rightarrow> edge_error \<Rightarrow> visit_state \<Rightarrow> visit_state" where
  "helper_addWarning env ctx res err st =
     st\<lparr>vst_reports := vst_reports st @ [AddWarning res err] @
       (case res of
          RouteTableRes i \<Rightarrow> [AddWarning (vc_virtualService ctx) (TopLevelVirtualResourceErr (em_Ref (rtb_Metadata (ee_RouteTables env ! i))) err)]
        | _ \<Rightarrow> [])\<rparr>"

section \<open>Names\<close>

definition UnnamedRoute :: "nat \<Rightarrow> string" where
  "UnnamedRoute index = ''<unnamed-'' @ show_nat index @ ''>''"

definition routeName ::
  "visit_context \<Rightarrow> visitable \<Rightarrow> string \<Rightarrow> route_info option \<Rightarrow> nat \<Rightarrow> string \<times> bool" where
  "routeName ctx resource name parentRouteInfo index =
     (let prefix = (case parentRouteInfo of None \<Rightarrow> [] | Some p \<Rightarrow> ri_name p @ ''_'');
          kind = (case va_InputResource resource of
                    VirtualServiceRes _ \<Rightarrow> ''vs:'' @ vc_gatewayName ctx @ ''_'' @ vc_proxyName ctx @ ''_''
                  | RouteTableRes _ \<Rightarrow> ''rt:''
                  | _ \<Rightarrow> []);
          routeDisplayName = (if name = [] then UnnamedRoute index else name);
          isRouteNamed = (name \<noteq> [] \<or> (case parentRouteInfo of None \<Rightarrow> False | Some p \<Rightarrow> ri_hasName p))
      in (prefix @ kind @ em_Namespace (va_Metadata resource) @ ''_'' @ em_Name (va_Metadata resource) @ ''_route:'' @
          routeDisplayName, isRouteNamed))"

section \<open>Options\<close>

text \<open>\<open>ShallowMergeRouteOptions\<close>: the merged object is the one at the location of the destination.\<close>

definition mergeEdgeOptions :: "edge_options \<Rightarrow> edge_options \<Rightarrow> edge_options" where
  "mergeEdgeOptions d s =
     \<lparr>eo_HostRewriteType = fst (ShallowMerge (eo_HostRewriteType d) (eo_HostRewriteType s) False),
      eo_RegexRewrite = fst (ShallowMerge (eo_RegexRewrite d) (eo_RegexRewrite s) False),
      eo_StagedTransformations = fst (ShallowMerge (eo_StagedTransformations d) (eo_StagedTransformations s) False),
      eo_Fields = fst (mergeFields (eo_Fields d) (eo_Fields s))\<rparr>"

definition mergeOptionsAt :: "nat option \<Rightarrow> nat option \<Rightarrow> edge_heap \<Rightarrow> edge_heap \<times> nat option" where
  "mergeOptionsAt dst src h =
     (case src of
        None \<Rightarrow> (h, dst)
      | Some s \<Rightarrow>
          (case dst of
             None \<Rightarrow> clone_options h (read_options h (Some s))
           | Some d \<Rightarrow> (h\<lparr>hp_options := (hp_options h)(d := mergeEdgeOptions (hp_options h d) (hp_options h s))\<rparr>, Some d)))"

text \<open>The loop over the references to \<open>RouteOption\<close> resources.\<close>

definition mergeOptionRef ::
  "edge_env \<Rightarrow> visit_context \<Rightarrow> edge_resource \<Rightarrow> visit_state \<times> nat option \<Rightarrow> resource_ref \<Rightarrow> visit_state \<times> nat option" where
  "mergeOptionRef env ctx res = (\<lambda>(st, options) ref.
     case map_of (ee_RouteOptions env) ref of
       None \<Rightarrow> (helper_addWarning env ctx res (NotFoundWarning ref) st, options)
     | Some routeOpts \<Rightarrow>
         (case options of
            None \<Rightarrow> (st, routeOpts)
          | Some _ \<Rightarrow> let (h, options) = mergeOptionsAt options routeOpts (vst_heap st) in (st\<lparr>vst_heap := h\<rparr>, options)))"

text \<open>Transformations: the lists of the child are extended in place, and a child without any shares those of
  the parent.\<close>

definition mergeTransformations :: "nat option \<Rightarrow> nat option \<Rightarrow> edge_heap \<Rightarrow> edge_heap \<times> nat option" where
  "mergeTransformations childPtr parent h =
     (case parent of
        None \<Rightarrow> (h, childPtr)
      | Some p \<Rightarrow>
          (case childPtr of
             None \<Rightarrow> (h, Some p)
           | Some c \<Rightarrow>
               let tc = hp_transformations h c; tp = hp_transformations h p
               in (h\<lparr>hp_transformations := (hp_transformations h)(c :=
                     tc\<lparr>trf_ResponseTransforms := trf_ResponseTransforms tc @ trf_ResponseTransforms tp,
                        trf_RequestTransforms := trf_RequestTransforms tc @ trf_RequestTransforms tp\<rparr>)\<rparr>, Some c)))"

definition inheritStagedTransformations :: "nat \<Rightarrow> nat option \<Rightarrow> edge_heap \<Rightarrow> edge_heap" where
  "inheritStagedTransformations child parent h =
     (let (h, regular) = mergeTransformations (sg_Regular (hp_stages h child)) (Option.bind parent (\<lambda>p. sg_Regular (hp_stages h p))) h;
          h = h\<lparr>hp_stages := (hp_stages h)(child := (hp_stages h child)\<lparr>sg_Regular := regular\<rparr>)\<rparr>;
          (h, early) = mergeTransformations (sg_Early (hp_stages h child)) (Option.bind parent (\<lambda>p. sg_Early (hp_stages h p))) h
      in h\<lparr>hp_stages := (hp_stages h)(child := (hp_stages h child)\<lparr>sg_Early := early\<rparr>)\<rparr>)"

text \<open>The location of the stages of options.\<close>

definition stagesOf :: "edge_heap \<Rightarrow> nat option \<Rightarrow> nat option" where
  "stagesOf h options = Option.bind options (\<lambda>a. eo_StagedTransformations (hp_options h a))"

definition inheritIfAsked :: "nat option \<Rightarrow> nat option \<Rightarrow> edge_heap \<Rightarrow> edge_heap" where
  "inheritIfAsked options parentStages h =
     (case stagesOf h options of
        Some s \<Rightarrow> if sg_InheritTransformation (hp_stages h s) then inheritStagedTransformations s parentStages h else h
      | None \<Rightarrow> h)"

section \<open>Matchers\<close>

definition getPrefix :: "mem_matcher \<Rightarrow> string" where
  "getPrefix m = (case mm_PathSpecifier m of Some (E_Prefix p) \<Rightarrow> p | _ \<Rightarrow> [])"

definition getDelegateRouteMatcher :: "mem_matcher list \<Rightarrow> edge_error + mem_matcher" where
  "getDelegateRouteMatcher matchers =
     (case matchers of
        [] \<Rightarrow> Inr DefaultMatcher
      | [m] \<Rightarrow>
          if mm_PathSpecifier m = None then Inr DefaultMatcher
          else if getPrefix m = [] then Inl MissingPrefixErr
          else Inr m
      | _ \<Rightarrow> Inl MatcherCountErr)"

text \<open>The checks of one child matcher against the matcher of the parent, in their order; a later header of the
  same name replaces an earlier one in the map.\<close>

definition by_name :: "('a \<Rightarrow> string) \<Rightarrow> 'a list \<Rightarrow> (string \<rightharpoonup> 'a)" where
  "by_name name xs = map_of (rev (map (\<lambda>x. (name x, x)) xs))"

definition validForDelegateMatcher :: "edge_heap \<Rightarrow> mem_matcher \<Rightarrow> mem_matcher \<Rightarrow> edge_error option" where
  "validForDelegateMatcher h parentMatcher childMatch =
     (let parent = read_matcher h parentMatcher; child = read_matcher h childMatch;
          pathString = PathAsString (mm_PathSpecifier childMatch)
      in if \<not> hasPrefix pathString (getPrefix parentMatcher) then Some (InvalidPrefixWarning (getPrefix parentMatcher) pathString)
         else if emt_CaseSensitive child \<noteq> emt_CaseSensitive parent
         then Some (InvalidCaseSensitiveWarning (emt_CaseSensitive child) (emt_CaseSensitive parent))
         else if \<exists>hd \<in> set (emt_Headers parent). by_name ehd_Name (emt_Headers child) (ehd_Name hd) \<noteq> Some hd
         then Some (InvalidHeadersWarning (emt_Headers parent) (emt_Headers child))
         else if \<exists>q \<in> set (emt_QueryParameters parent). by_name qpm_Name (emt_QueryParameters child) (qpm_Name q) \<noteq> Some q
         then Some (InvalidQueryParamsWarning (emt_QueryParameters parent) (emt_QueryParameters child))
         else if \<not> set (emt_Methods parent) \<subseteq> set (emt_Methods child)
         then Some (InvalidMethodsWarning (emt_Methods parent) (emt_Methods child))
         else None)"

fun isRouteTableValidForDelegateMatcher :: "edge_heap \<Rightarrow> mem_matcher \<Rightarrow> mem_matcher list \<Rightarrow> edge_error option" where
  "isRouteTableValidForDelegateMatcher h parentMatcher [] = None"
| "isRouteTableValidForDelegateMatcher h parentMatcher (m # ms) =
     (case validForDelegateMatcher h parentMatcher m of
        Some err \<Rightarrow> Some err
      | None \<Rightarrow> isRouteTableValidForDelegateMatcher h parentMatcher ms)"

definition inheritPath :: "mem_matcher \<Rightarrow> mem_matcher list \<Rightarrow> mem_matcher list" where
  "inheritPath parent matchers =
     (if matchers = []
      then [\<lparr>mm_PathSpecifier = mm_PathSpecifier parent, mm_CaseSensitive = mm_CaseSensitive parent, mm_Headers = nil_slice,
             mm_QueryParameters = nil_slice, mm_Methods = nil_slice\<rparr>]
      else map (\<lambda>m. m\<lparr>mm_PathSpecifier := mm_PathSpecifier parent, mm_CaseSensitive := mm_CaseSensitive parent\<rparr>) matchers)"

text \<open>The lists of the child are appended to those of the parent, which may write to the arrays of the parent.\<close>

definition inheritMatcher :: "go_runtime \<Rightarrow> mem_matcher \<Rightarrow> edge_heap \<Rightarrow> mem_matcher \<Rightarrow> edge_heap \<times> mem_matcher" where
  "inheritMatcher rt parent h m =
     (let n = hp_next h;
          (hs, headers) = go_append (gr_append rt) n (mm_Headers parent) (sl_read (hp_headers h) (mm_Headers m)) (hp_headers h);
          (ms, methods) = go_append (gr_append rt) n (mm_Methods parent) (sl_read (hp_methods h) (mm_Methods m)) (hp_methods h);
          (qs, params) = go_append (gr_append rt) n (mm_QueryParameters parent) (sl_read (hp_params h) (mm_QueryParameters m)) (hp_params h)
      in (h\<lparr>hp_headers := headers, hp_methods := methods, hp_params := params, hp_next := n + 1\<rparr>,
          m\<lparr>mm_Headers := hs, mm_Methods := ms, mm_QueryParameters := qs\<rparr>))"

text \<open>The heap is changed even when the route turns out not to fit its parent.\<close>

definition validateAndMergeParentRoute ::
  "go_runtime \<Rightarrow> work_route \<Rightarrow> route_info \<Rightarrow> edge_heap \<Rightarrow> edge_heap \<times> (edge_error + work_route)" where
  "validateAndMergeParentRoute rt child parent h =
     (let inhPath = (case wr_InheritablePathMatchers child of None \<Rightarrow> ri_inheritablePathMatchers parent | Some b \<Rightarrow> b);
          inhMatchers = (case wr_InheritableMatchers child of None \<Rightarrow> ri_inheritableMatchers parent | Some b \<Rightarrow> b);
          child = child\<lparr>wr_InheritablePathMatchers := Some inhPath, wr_InheritableMatchers := Some inhMatchers\<rparr>;
          matchers = (if inhPath then inheritPath (ri_matcher parent) (wr_Matchers child) else wr_Matchers child);
          matchers = (if matchers = [] then [DefaultMatcher] else matchers);
          (h, matchers) = (if inhMatchers then map_st (inheritMatcher rt (ri_matcher parent)) h matchers else (h, matchers));
          child = child\<lparr>wr_Matchers := matchers\<rparr>;
          h = inheritIfAsked (wr_Options child) (stagesOf h (ri_options parent)) h
      in case isRouteTableValidForDelegateMatcher h (ri_matcher parent) matchers of
           Some err \<Rightarrow> (h, Inl err)
         | None \<Rightarrow> let (h, options) = mergeOptionsAt (wr_Options child) (ri_options parent) h in (h, Inr (child\<lparr>wr_Options := options\<rparr>)))"

section \<open>Actions and sources\<close>

fun setUpstreamNamespace :: "string \<Rightarrow> edge_destination \<Rightarrow> edge_destination" where
  "setUpstreamNamespace ns (DestUpstream ref) =
     DestUpstream (if rref_Namespace ref = [] then ref\<lparr>rref_Namespace := ns\<rparr> else ref)"
| "setUpstreamNamespace ns d = d"

fun setActionNamespace :: "string \<Rightarrow> edge_action \<Rightarrow> edge_action" where
  "setActionNamespace ns (EdgeRouteAction (DestSingle d)) = EdgeRouteAction (DestSingle (setUpstreamNamespace ns d))"
| "setActionNamespace ns (EdgeRouteAction (DestMulti ds)) =
     EdgeRouteAction (DestMulti (map (\<lambda>(d, w). (setUpstreamNamespace ns d, w)) ds))"
| "setActionNamespace ns a = a"

definition convertSimpleAction :: "work_route \<Rightarrow> edge_error + mem_route" where
  "convertSimpleAction simpleRoute =
     (let matchers = (if wr_Matchers simpleRoute = [] then [DefaultMatcher] else wr_Matchers simpleRoute)
      in case wr_Action simpleRoute of
           None \<Rightarrow> Inl NoActionErr
         | Some (EdgeDelegateAction _) \<Rightarrow> Inl InternalDelegationErr
         | Some action \<Rightarrow> Inr \<lparr>mr_Name = wr_Name simpleRoute, mr_Matchers = matchers, mr_Options = wr_Options simpleRoute,
             mr_Action = action, mr_Sources = []\<rparr>)"

definition makeSourceRef :: "edge_env \<Rightarrow> visitable \<Rightarrow> source_ref" where
  "makeSourceRef env resource = \<lparr>src_Kind = ee_Kind env (va_InputResource resource), src_Ref = em_Ref (va_Metadata resource),
     src_Generation = em_Generation (va_Metadata resource)\<rparr>"

definition appendSource :: "edge_env \<Rightarrow> visitable \<Rightarrow> mem_route \<Rightarrow> mem_route" where
  "appendSource env resource r = r\<lparr>mr_Sources := mr_Sources r @ [makeSourceRef env resource]\<rparr>"

section \<open>The traversal\<close>

definition clone_route :: "go_runtime \<Rightarrow> edge_heap \<Rightarrow> edge_route \<Rightarrow> edge_heap \<times> work_route" where
  "clone_route rt h r =
     (let (h, matchers) = map_st (clone_matcher rt) h (egr_Matchers r);
          (h, options) = clone_options h (egr_Options r)
      in (h, \<lparr>wr_Name = egr_Name r, wr_Matchers = matchers, wr_InheritableMatchers = egr_InheritableMatchers r,
              wr_InheritablePathMatchers = egr_InheritablePathMatchers r, wr_Options = options, wr_Action = egr_Action r\<rparr>))"

text \<open>If any of the matching route tables has already been visited, there is a delegation cycle.\<close>

definition checkForCycles :: "edge_env \<Rightarrow> nat \<Rightarrow> nat list \<Rightarrow> edge_error option" where
  "checkForCycles env toVisit visited =
     (if toVisit \<in> set visited
      then Some (DelegationCycleErr (map (\<lambda>i. em_Ref (rtb_Metadata (ee_RouteTables env ! i))) (visited @ [toVisit])))
      else None)"

type_synonym visitor =
  "visitable \<Rightarrow> route_info option \<Rightarrow> nat list \<Rightarrow> visit_state \<Rightarrow> (mem_route list \<times> visit_state) outcome"

definition visitTable ::
  "visitor \<Rightarrow> edge_env \<Rightarrow> visit_context \<Rightarrow> route_info \<Rightarrow> nat list \<Rightarrow> nat \<Rightarrow> mem_route list \<times> visit_state \<Rightarrow>
   (mem_route list \<times> visit_state) outcome" where
  "visitTable visit env ctx info visited i = (\<lambda>(rtRoutesForWeight, st).
     case checkForCycles env i visited of
       Some err \<Rightarrow> Inr (rtRoutesForWeight, helper_addError env ctx (RouteTableRes i) err st)
     | None \<Rightarrow>
         bind_out (visit (visitableRouteTable env i) (Some info) (visited @ [i]) st) (\<lambda>(subRoutes, st).
           Inr (rtRoutesForWeight @ subRoutes, st)))"

definition visitWeight ::
  "visitor \<Rightarrow> edge_env \<Rightarrow> visit_context \<Rightarrow> route_info \<Rightarrow> nat list \<Rightarrow> nat list \<Rightarrow> mem_route list \<times> visit_state \<Rightarrow>
   (mem_route list \<times> visit_state) outcome" where
  "visitWeight visit env ctx info visited routeTablesForWeight = (\<lambda>(routes, st).
     bind_out (fold_out (visitTable visit env ctx info visited) routeTablesForWeight ([], st)) (\<lambda>(rtRoutesForWeight, st).
       Inr (routes @ (if length routeTablesForWeight > 1 then SortRoutesByPath mr_Matchers rtRoutesForWeight else rtRoutesForWeight), st)))"

text \<open>The delegate action of a route.\<close>

definition visitDelegate ::
  "visitor \<Rightarrow> edge_env \<Rightarrow> visit_context \<Rightarrow> visitable \<Rightarrow> nat list \<Rightarrow> work_route \<Rightarrow> string \<times> bool \<Rightarrow> delegate_action \<Rightarrow>
   mem_route list \<times> visit_state \<Rightarrow> (mem_route list \<times> visit_state) outcome" where
  "visitDelegate visit env ctx resource visited route nm action = (\<lambda>(routes, st).
     case getDelegateRouteMatcher (wr_Matchers route) of
       Inl err \<Rightarrow> Inr (routes, helper_addError env ctx (va_InputResource resource) err st)
     | Inr delegateMatcher \<Rightarrow>
         (case SelectRouteTables (ee_labels env) (ee_RouteTables env) action (em_Namespace (va_Metadata resource)) of
            Inl err \<Rightarrow> Inr (routes, helper_addWarning env ctx (va_InputResource resource) err st)
          | Inr routeTables \<Rightarrow>
              let info = \<lparr>ri_matcher = delegateMatcher, ri_options = wr_Options route, ri_name = fst nm, ri_hasName = snd nm,
                    ri_inheritableMatchers = (wr_InheritableMatchers route = Some True),
                    ri_inheritablePathMatchers = (wr_InheritablePathMatchers route = Some True)\<rparr>
              in fold_out (visitWeight visit env ctx info visited)
                   (weightGroups (ee_weights env) (ee_RouteTables env) routeTables) (routes, st)))"

definition visitSimple ::
  "edge_env \<Rightarrow> visit_context \<Rightarrow> visitable \<Rightarrow> work_route \<Rightarrow> bool \<Rightarrow> mem_route list \<times> visit_state \<Rightarrow> mem_route list \<times> visit_state" where
  "visitSimple env ctx resource route hasName = (\<lambda>(routes, st).
     let route = (if hasName then route else route\<lparr>wr_Name := []\<rparr>);
         route = route\<lparr>wr_Action := map_option (setActionNamespace (em_Namespace (va_Metadata resource))) (wr_Action route)\<rparr>
     in case convertSimpleAction route of
          Inl err \<Rightarrow> (routes, helper_addError env ctx (va_InputResource resource) err st)
        | Inr glooRoute \<Rightarrow> (routes @ [glooRoute], st))"

text \<open>The options that the route inherits: those of the parent route, or the transformations of the virtual host.\<close>

definition inheritFromParent ::
  "edge_env \<Rightarrow> visit_context \<Rightarrow> route_info option \<Rightarrow> work_route \<Rightarrow> edge_heap \<Rightarrow> edge_heap \<times> (edge_error + work_route)" where
  "inheritFromParent env ctx parentRoute route h =
     (case parentRoute of
        Some parent \<Rightarrow> validateAndMergeParentRoute (ee_runtime env) route parent h
      | None \<Rightarrow>
          (inheritIfAsked (wr_Options route)
             (Option.bind (vc_virtualHostOptions ctx) (\<lambda>a. vo_StagedTransformations (hp_vhost_options h a))) h, Inr route))"

definition visitRoute ::
  "visitor \<Rightarrow> edge_env \<Rightarrow> visit_context \<Rightarrow> visitable \<Rightarrow> route_info option \<Rightarrow> nat list \<Rightarrow> nat \<times> edge_route \<Rightarrow>
   mem_route list \<times> visit_state \<Rightarrow> (mem_route list \<times> visit_state) outcome" where
  "visitRoute visit env ctx resource parentRoute visited = (\<lambda>(idx, gatewayRoute) (routes, st).
     let (h, route) = clone_route (ee_runtime env) (vst_heap st) gatewayRoute;
         nm = routeName ctx resource (egr_Name gatewayRoute) parentRoute idx;
         route = route\<lparr>wr_Name := fst nm\<rparr>;
         (st, options) = foldl (mergeOptionRef env ctx (va_InputResource resource)) (st\<lparr>vst_heap := h\<rparr>, wr_Options route)
           (egr_DelegateOptions gatewayRoute);
         (h, merged) = inheritFromParent env ctx parentRoute (route\<lparr>wr_Options := options\<rparr>) (vst_heap st);
         st = st\<lparr>vst_heap := h\<rparr>
     in case merged of
          Inl err \<Rightarrow> Inr (routes, helper_addWarning env ctx (va_InputResource resource) err st)
        | Inr route \<Rightarrow>
            (case wr_Action route of
               Some (EdgeDelegateAction action) \<Rightarrow> visitDelegate visit env ctx resource visited route nm action (routes, st)
             | _ \<Rightarrow> Inr (visitSimple env ctx resource route (snd nm) (routes, st))))"

fun visit_resource :: "nat \<Rightarrow> edge_env \<Rightarrow> visit_context \<Rightarrow> visitor" where
  "visit_resource 0 env ctx resource parentRoute visited st = Inl OutOfFuel"
| "visit_resource (Suc fuel) env ctx resource parentRoute visited st =
     bind_out (fold_out (visitRoute (visit_resource fuel env ctx) env ctx resource parentRoute visited)
         (List.enumerate 0 (va_Routes resource)) ([], st)) (\<lambda>(routes, st).
       Inr (map (appendSource env resource) routes, st))"

definition ConvertVirtualService ::
  "nat \<Rightarrow> edge_env \<Rightarrow> visit_context \<Rightarrow> edge_meta \<Rightarrow> edge_route list \<Rightarrow> visit_state \<Rightarrow> (mem_route list \<times> visit_state) outcome" where
  "ConvertVirtualService fuel env ctx meta routes st =
     visit_resource fuel env ctx \<lparr>va_InputResource = vc_virtualService ctx, va_Metadata = meta, va_Routes = routes\<rparr> None [] st"

end
