(* ===== verification/EdgeVirtualService.thy ===== *)
theory EdgeVirtualService
  imports EdgeConverter
begin

text \<open>
  Virtual services of the Edge API into virtual hosts:
  \<open>projects/gateway/pkg/translator/virtual_service_translator.go\<close>.

  The translator writes to the virtual services of the snapshot (the options of the virtual host, and the setting
  \<open>OneWayTls\<close>), so these are part of the state. A virtual service is known by its index in the snapshot. The
  regular expressions of Go (a compiled expression is the test whether it is found in a string), the hashes
  of messages and the order in which Go visits a map are the record \<open>edge_libs\<close>.
\<close>

section \<open>Data\<close>

record edge_ssl =
  essl_SniDomains :: "string list"
  essl_OneWayTls :: "bool option"
  essl_Other :: string

record vs_host =
  vsh_Domains :: "string list"
  vsh_Routes :: "edge_route list"
  vsh_Options :: "nat option"
  vsh_DelegateOptions :: "resource_ref list"

record virtual_service =
  vsv_Metadata :: edge_meta
  vsv_VirtualHost :: "vs_host option"
  vsv_SslConfig :: "edge_ssl option"

text \<open>The location of the options of an \<open>HttpGateway\<close> is held by the gateway.\<close>

record http_gateway =
  hgw_VirtualServices :: "resource_ref list"
  hgw_VirtualServiceNamespaces :: "string list"
  hgw_VirtualServiceSelector :: "(string \<times> string) list option"
  hgw_VirtualServiceExpressions :: "selector_expression list option"
  hgw_Options :: "nat option"

text \<open>\<open>HttpListenerOptions\<close>: the settings of the connection manager, and the rest.\<close>

record http_options =
  hop_HcmSettings :: "string option"
  hop_Other :: string

record edge_libs =
  el_Compile :: "string \<Rightarrow> string + (string \<Rightarrow> bool)"
  el_HashMatcher :: "edge_matcher \<Rightarrow> 64 word"
  el_HashSsl :: "edge_ssl \<Rightarrow> 64 word"
  el_HashHttpOptions :: "http_options option \<Rightarrow> 64 word"
  el_mergeSsl :: "bool \<Rightarrow> edge_ssl \<Rightarrow> edge_ssl \<Rightarrow> edge_ssl"
  el_mergeHcm :: "bool \<Rightarrow> string \<Rightarrow> string \<Rightarrow> string"
  el_keys :: "(string \<rightharpoonup> nat list) \<Rightarrow> string list"

text \<open>The settings that the translator reads from its context and its options.\<close>

record edge_settings =
  ese_OneWayTls :: "bool option"
  ese_TranslateEmptyGateways :: bool
  ese_WarnOnRouteShortCircuiting :: bool

record vs_env =
  ve_edge :: edge_env
  ve_VirtualHostOptions :: "(resource_ref \<times> nat option) list"
  ve_libs :: edge_libs
  ve_settings :: edge_settings

record edge_state =
  est_visit :: visit_state
  est_VirtualServices :: "virtual_service list"
  est_HttpOptions :: "nat \<Rightarrow> http_options"
  est_nextHttpOptions :: nat

record mem_vhost =
  mvh_Name :: string
  mvh_Domains :: "string list"
  mvh_Routes :: "mem_route list"
  mvh_Options :: "nat option"
  mvh_Sources :: "source_ref list"

definition addReports :: "edge_report list \<Rightarrow> edge_state \<Rightarrow> edge_state" where
  "addReports rs st = st\<lparr>est_visit := (est_visit st)\<lparr>vst_reports := vst_reports (est_visit st) @ rs\<rparr>\<rparr>"

definition vsRef :: "virtual_service list \<Rightarrow> nat \<Rightarrow> resource_ref" where
  "vsRef vss i = em_Ref (vsv_Metadata (vss ! i))"

section \<open>Global settings and domains\<close>

definition applyOneWayTls :: "bool \<Rightarrow> virtual_service \<Rightarrow> virtual_service" where
  "applyOneWayTls val vs =
     (case vsv_SslConfig vs of
        Some cfg \<Rightarrow> if essl_OneWayTls cfg = None then vs\<lparr>vsv_SslConfig := Some (cfg\<lparr>essl_OneWayTls := Some val\<rparr>)\<rparr> else vs
      | None \<Rightarrow> vs)"

definition applyGlobalVirtualServiceSettings :: "edge_settings \<Rightarrow> nat list \<Rightarrow> edge_state \<Rightarrow> edge_state" where
  "applyGlobalVirtualServiceSettings settings virtualServices st =
     (case ese_OneWayTls settings of
        None \<Rightarrow> st
      | Some val \<Rightarrow> st\<lparr>est_VirtualServices :=
          foldl (\<lambda>vss i. vss[i := applyOneWayTls val (vss ! i)]) (est_VirtualServices st) virtualServices\<rparr>)"

definition hostDomains :: "vs_host \<Rightarrow> string list" where
  "hostDomains vh = (if vsh_Domains vh = [] then [''''] else vsh_Domains vh)"

definition addToKey :: "nat \<Rightarrow> (string \<rightharpoonup> nat list) \<Rightarrow> string \<Rightarrow> (string \<rightharpoonup> nat list)" where
  "addToKey i m d = m(d \<mapsto> (case m d of None \<Rightarrow> [] | Some l \<Rightarrow> l) @ [i])"

definition indexByDomain :: "virtual_service list \<Rightarrow> nat list \<Rightarrow> (string \<rightharpoonup> nat list)" where
  "indexByDomain vss virtualServices =
     foldl (\<lambda>m i. case vsv_VirtualHost (vss ! i) of None \<Rightarrow> m | Some vh \<Rightarrow> foldl (addToKey i) m (hostDomains vh))
       Map.empty virtualServices"

definition conflictsOf :: "virtual_service list \<Rightarrow> string \<Rightarrow> nat list \<Rightarrow> edge_report list" where
  "conflictsOf vss domain l =
     map (\<lambda>i. AddError (VirtualServiceRes (l ! i))
       (DomainInOtherVirtualServicesErr domain (map (\<lambda>j. vsRef vss (l ! j)) (filter (\<lambda>j. i \<noteq> j) [0..<length l])))) [0..<length l]"

definition validateVirtualServiceDomains :: "edge_libs \<Rightarrow> nat \<Rightarrow> virtual_service list \<Rightarrow> nat list \<Rightarrow> edge_report list" where
  "validateVirtualServiceDomains lib gateway vss virtualServices =
     (let noHost = filter (\<lambda>i. vsv_VirtualHost (vss ! i) = None) virtualServices;
          vsByDomain = indexByDomain vss virtualServices;
          withDomain = (\<lambda>d. case vsByDomain d of None \<Rightarrow> [] | Some l \<Rightarrow> l);
          conflictingDomains = filter (\<lambda>d. length (withDomain d) > 1) (el_keys lib vsByDomain)
      in map (\<lambda>i. AddWarning (VirtualServiceRes i) (NoVirtualHostErr (vsRef vss i))) noHost @
         concat (map (\<lambda>d. conflictsOf vss d (withDomain d)) conflictingDomains) @
         (if conflictingDomains \<noteq> [] then [AddError (GatewayRes gateway) (ConflictingVirtualServicesErr conflictingDomains)] else []))"

section \<open>Selection\<close>

definition hasSsl :: "virtual_service \<Rightarrow> bool" where
  "hasSsl vs \<longleftrightarrow> vsv_SslConfig vs \<noteq> None"

definition virtualServiceNamespaceValidForGateway :: "string list \<Rightarrow> virtual_service \<Rightarrow> bool" where
  "virtualServiceNamespaceValidForGateway virtualServiceNamespaces vs =
     (virtualServiceNamespaces = [] \<or>
      list_ex (\<lambda>ns. ns = ''*'' \<or> em_Namespace (vsv_Metadata vs) = ns) virtualServiceNamespaces)"

definition virtualServiceMatchesLabels :: "label_lib \<Rightarrow> virtual_service \<Rightarrow> (string \<times> string) list \<Rightarrow> string list \<Rightarrow> bool" where
  "virtualServiceMatchesLabels lib vs validLabels virtualServiceNamespaces =
     (ll_SelectorFromSet lib validLabels (em_Labels (vsv_Metadata vs)) \<and>
      virtualServiceNamespaceValidForGateway virtualServiceNamespaces vs)"

definition virtualServiceLabelsMatchesExpressionRequirements :: "(label_set \<Rightarrow> bool) list \<Rightarrow> label_set \<Rightarrow> bool" where
  "virtualServiceLabelsMatchesExpressionRequirements requirements vsLabels = list_all (\<lambda>r. r vsLabels) requirements"

definition virtualServiceValidForSelectorExpressions ::
  "label_lib \<Rightarrow> virtual_service \<Rightarrow> selector_expression list \<Rightarrow> string list \<Rightarrow> edge_error + bool" where
  "virtualServiceValidForSelectorExpressions lib vs expressions virtualServiceNamespaces =
     (case newRequirements lib expressions of
        Inl err \<Rightarrow> Inl (InvalidExpressionWarning err)
      | Inr requirements \<Rightarrow>
          if expressions \<noteq> [] \<and> \<not> virtualServiceLabelsMatchesExpressionRequirements requirements (em_Labels (vsv_Metadata vs))
          then Inr False
          else Inr (virtualServiceNamespaceValidForGateway virtualServiceNamespaces vs))"

definition HttpGatewayContainsVirtualService :: "label_lib \<Rightarrow> http_gateway \<Rightarrow> virtual_service \<Rightarrow> bool \<Rightarrow> edge_error + bool" where
  "HttpGatewayContainsVirtualService lib gw vs ssl =
     (if ssl \<noteq> hasSsl vs then Inr False
      else case hgw_VirtualServiceExpressions gw of
        Some expressions \<Rightarrow> virtualServiceValidForSelectorExpressions lib vs expressions (hgw_VirtualServiceNamespaces gw)
      | None \<Rightarrow>
          (case hgw_VirtualServiceSelector gw of
             Some validLabels \<Rightarrow> Inr (virtualServiceMatchesLabels lib vs validLabels (hgw_VirtualServiceNamespaces gw))
           | None \<Rightarrow>
               if hgw_VirtualServices gw = [] then Inr (virtualServiceNamespaceValidForGateway (hgw_VirtualServiceNamespaces gw) vs)
               else Inr (list_ex (\<lambda>ref. ref = em_Ref (vsv_Metadata vs)) (hgw_VirtualServices gw))))"

definition getVirtualServicesForHttpGateway ::
  "label_lib \<Rightarrow> nat \<Rightarrow> virtual_service list \<Rightarrow> http_gateway \<Rightarrow> bool \<Rightarrow> nat list \<times> edge_report list" where
  "getVirtualServicesForHttpGateway lib parentGateway vss httpGateway gatewaySsl =
     (let answer = (\<lambda>i. HttpGatewayContainsVirtualService lib httpGateway (vss ! i) gatewaySsl)
      in (filter (\<lambda>i. answer i = Inr True) [0..<length vss],
          concat (map (\<lambda>i. case answer i of Inl err \<Rightarrow> [AddError (GatewayRes parentGateway) err] | Inr _ \<Rightarrow> []) [0..<length vss])))"

section \<open>Options of the virtual host\<close>

definition mergeVhostOptions :: "vhost_options \<Rightarrow> vhost_options \<Rightarrow> vhost_options" where
  "mergeVhostOptions d s =
     \<lparr>vo_StagedTransformations = fst (ShallowMerge (vo_StagedTransformations d) (vo_StagedTransformations s) False),
      vo_Fields = fst (mergeFields (vo_Fields d) (vo_Fields s))\<rparr>"

text \<open>The state of the loop is the heap, the location of the options of the virtual host and the reports.\<close>

definition mergeVhostOptionRef ::
  "(resource_ref \<times> nat option) list \<Rightarrow> nat \<Rightarrow> edge_heap \<times> nat option \<times> edge_report list \<Rightarrow> resource_ref \<Rightarrow>
   edge_heap \<times> nat option \<times> edge_report list" where
  "mergeVhostOptionRef available vs = (\<lambda>(h, options, rs) ref.
     case map_of available ref of
       None \<Rightarrow> (h, options, rs @ [AddWarning (VirtualServiceRes vs) (NotFoundWarning ref)])
     | Some vhOption \<Rightarrow>
         (case options of
            None \<Rightarrow> (h, vhOption, rs)
          | Some d \<Rightarrow>
              (case vhOption of
                 None \<Rightarrow> (h, options, rs)
               | Some s \<Rightarrow>
                   (h\<lparr>hp_vhost_options := (hp_vhost_options h)(d := mergeVhostOptions (hp_vhost_options h d) (hp_vhost_options h s))\<rparr>,
                    options, rs))))"

definition mergeDelegatedVirtualHostOptions ::
  "(resource_ref \<times> nat option) list \<Rightarrow> nat \<Rightarrow> vs_host \<Rightarrow> edge_heap \<Rightarrow> edge_heap \<times> nat option \<times> edge_report list" where
  "mergeDelegatedVirtualHostOptions available vs vh h =
     foldl (mergeVhostOptionRef available vs) (h, vsh_Options vh, []) (vsh_DelegateOptions vh)"

section \<open>Regular expressions of the routes\<close>

definition getRegex :: "mem_matcher \<Rightarrow> string" where
  "getRegex m = (case mm_PathSpecifier m of Some (E_Regex r) \<Rightarrow> r | _ \<Rightarrow> [])"

definition regexReports :: "edge_libs \<Rightarrow> nat \<Rightarrow> resource_ref \<Rightarrow> string \<Rightarrow> edge_report list" where
  "regexReports lib vs ref pattern =
     (case el_Compile lib pattern of Inl err \<Rightarrow> [AddError (VirtualServiceRes vs) (InvalidRegexErr ref err)] | Inr _ \<Rightarrow> [])"

definition optionsRegexes :: "edge_options \<Rightarrow> string list" where
  "optionsRegexes options =
     (case eo_HostRewriteType options of Some (HostRewritePathRegex r) \<Rightarrow> [r] | _ \<Rightarrow> []) @
     (case eo_RegexRewrite options of Some rw \<Rightarrow> [rw_Regex rw] | None \<Rightarrow> [])"

definition validateRoutesRegex :: "edge_libs \<Rightarrow> nat \<Rightarrow> resource_ref \<Rightarrow> edge_heap \<Rightarrow> mem_route list \<Rightarrow> edge_report list" where
  "validateRoutesRegex lib vs ref h routes =
     concat (map (\<lambda>rt.
       (case mr_Options rt of
          None \<Rightarrow> []
        | Some a \<Rightarrow> concat (map (regexReports lib vs ref) (optionsRegexes (hp_options h a)))) @
       concat (map (\<lambda>m. regexReports lib vs ref (getRegex m)) (mr_Matchers rt))) routes)"

section \<open>Short-circuited routes\<close>

definition allMatchers :: "mem_route list \<Rightarrow> mem_matcher list" where
  "allMatchers routes = concat (map mr_Matchers routes)"

fun validateAnyDuplicateMatchers ::
  "edge_libs \<Rightarrow> nat \<Rightarrow> string \<Rightarrow> edge_heap \<Rightarrow> 64 word list \<Rightarrow> mem_matcher list \<Rightarrow> edge_report list" where
  "validateAnyDuplicateMatchers lib vs vhName h seen [] = []"
| "validateAnyDuplicateMatchers lib vs vhName h seen (m # ms) =
     (let hash = el_HashMatcher lib (read_matcher h m)
      in if hash \<in> set seen
         then AddWarning (VirtualServiceRes vs) (ConflictingMatcherErr vhName (read_matcher h m)) #
           validateAnyDuplicateMatchers lib vs vhName h seen ms
         else validateAnyDuplicateMatchers lib vs vhName h (hash # seen) ms)"

text \<open>The flags for case sensitivity are compared as pointers.\<close>

definition prefixShortCircuits :: "mem_matcher \<Rightarrow> mem_matcher \<Rightarrow> bool" where
  "prefixShortCircuits laterMatcher earlierMatcher =
     (hasPrefix (PathAsString (mm_PathSpecifier laterMatcher)) (getPrefix earlierMatcher) \<and>
      mm_CaseSensitive laterMatcher = mm_CaseSensitive earlierMatcher)"

definition regexShortCircuits :: "edge_libs \<Rightarrow> mem_matcher \<Rightarrow> mem_matcher \<Rightarrow> bool" where
  "regexShortCircuits lib laterMatcher earlierMatcher =
     (case el_Compile lib (getRegex earlierMatcher) of
        Inl _ \<Rightarrow> False
      | Inr re \<Rightarrow> re (PathAsString (mm_PathSpecifier laterMatcher)) \<and>
          map_option ptr_target (mm_CaseSensitive laterMatcher) \<noteq> Some True)"

definition paramShortCircuits :: "edge_libs \<Rightarrow> query_parameter_matcher \<Rightarrow> query_parameter_matcher \<Rightarrow> bool" where
  "paramShortCircuits lib earlyQpm laterQpm =
     (if qpm_Regex earlyQpm \<and> \<not> qpm_Regex laterQpm
      then (case el_Compile lib (qpm_Value earlyQpm) of Inl _ \<Rightarrow> False | Inr re \<Rightarrow> re (qpm_Value laterQpm))
      else if \<not> qpm_Regex earlyQpm \<and> \<not> qpm_Regex laterQpm
      then qpm_Value earlyQpm = qpm_Value laterQpm \<or> qpm_Value earlyQpm = []
      else False)"

definition earlyQueryParametersShortCircuitedLaterOnes ::
  "edge_libs \<Rightarrow> query_parameter_matcher list \<Rightarrow> query_parameter_matcher list \<Rightarrow> bool" where
  "earlyQueryParametersShortCircuitedLaterOnes lib later early =
     list_all (\<lambda>earlyQpm.
       let overlapping = filter (\<lambda>laterQpm. qpm_Name earlyQpm = qpm_Name laterQpm) later
       in overlapping \<noteq> [] \<and> list_all (paramShortCircuits lib earlyQpm) overlapping) early"

text \<open>The constant expression \<open>^\([\w]+([|[\w]+)+\)$\<close>: between parentheses a word character, then one or more
  that are word characters, bars or opening brackets.\<close>

definition isWordChar :: "char \<Rightarrow> bool" where
  "isWordChar c \<longleftrightarrow> (CHR ''0'' \<le> c \<and> c \<le> CHR ''9'') \<or> (CHR ''A'' \<le> c \<and> c \<le> CHR ''Z'') \<or> (CHR ''a'' \<le> c \<and> c \<le> CHR ''z'') \<or> c = CHR ''_''"

definition isSimpleOr :: "string \<Rightarrow> bool" where
  "isSimpleOr s =
     (case s of
        CHR ''('' # c # cs \<Rightarrow>
          isWordChar c \<and> cs \<noteq> [] \<and> last cs = CHR '')'' \<and> butlast cs \<noteq> [] \<and>
          list_all (\<lambda>c. isWordChar c \<or> c = CHR ''|'' \<or> c = CHR ''['') (butlast cs)
      | _ \<Rightarrow> False)"

definition laterOrRegexPartiallyShortCircuited :: "edge_libs \<Rightarrow> edge_header \<Rightarrow> edge_header \<Rightarrow> bool" where
  "laterOrRegexPartiallyShortCircuited lib later early =
     (isSimpleOr (ehd_Value later) \<and>
      (let matches = split_char (CHR ''|'') (butlast (tl (ehd_Value later)))
       in if ehd_Regex early
          then (case el_Compile lib (ehd_Value early) of
                  Inl _ \<Rightarrow> False
                | Inr re \<Rightarrow> list_ex (\<lambda>m. re m \<noteq> ehd_InvertMatch early) matches)
          else list_ex (\<lambda>m. (m = ehd_Value early) \<noteq> ehd_InvertMatch early) matches))"

definition headerShortCircuits :: "edge_libs \<Rightarrow> edge_header \<Rightarrow> edge_header \<Rightarrow> bool" where
  "headerShortCircuits lib early later =
     (if ehd_Regex early \<and> \<not> ehd_Regex later
      then (case el_Compile lib (ehd_Value early) of Inl _ \<Rightarrow> False | Inr re \<Rightarrow> re (ehd_Value later) \<noteq> ehd_InvertMatch early)
      else if \<not> ehd_Regex early \<and> \<not> ehd_Regex later
      then (ehd_Value early = ehd_Value later \<or> ehd_Value early = []) \<noteq> ehd_InvertMatch early
      else laterOrRegexPartiallyShortCircuited lib later early)"

definition earlyHeaderMatchersShortCircuitLaterOnes :: "edge_libs \<Rightarrow> edge_header list \<Rightarrow> edge_header list \<Rightarrow> bool" where
  "earlyHeaderMatchersShortCircuitLaterOnes lib later early =
     list_all (\<lambda>earlyHeader.
       let overlapping = filter (\<lambda>laterHeader. ehd_Name earlyHeader = ehd_Name laterHeader) later
       in overlapping \<noteq> [] \<and> list_all (headerShortCircuits lib earlyHeader) overlapping) early"

text \<open>Methods are turned into a header matcher, appended to the headers of a shallow copy of the matcher; the
  copy shares the array of the headers.\<close>

definition appendMethodHeader :: "go_runtime \<Rightarrow> edge_heap \<Rightarrow> mem_matcher \<Rightarrow> edge_heap \<times> slice" where
  "appendMethodHeader rt h m =
     (let methods = sl_read (hp_methods h) (mm_Methods m)
      in if methods = [] then (h, mm_Headers m)
         else let (s, headers) = go_append (gr_append rt) (hp_next h) (mm_Headers m)
                    [\<lparr>ehd_Name = '':method'', ehd_Value = ''('' @ join_strings ''|'' methods @ '')'', ehd_Regex = True, ehd_InvertMatch = False\<rparr>]
                    (hp_headers h)
              in (h\<lparr>hp_headers := headers, hp_next := hp_next h + 1\<rparr>, s))"

definition nonPathEarlyMatcherShortCircuitsLateMatcher ::
  "go_runtime \<Rightarrow> edge_libs \<Rightarrow> mem_matcher \<Rightarrow> mem_matcher \<Rightarrow> edge_heap \<Rightarrow> edge_heap \<times> bool" where
  "nonPathEarlyMatcherShortCircuitsLateMatcher rt lib laterMatcher earlierMatcher h =
     (let (h, early) = appendMethodHeader rt h earlierMatcher;
          (h, late) = appendMethodHeader rt h laterMatcher
      in (h, earlyQueryParametersShortCircuitedLaterOnes lib (sl_read (hp_params h) (mm_QueryParameters laterMatcher))
               (sl_read (hp_params h) (mm_QueryParameters earlierMatcher)) \<and>
             earlyHeaderMatchersShortCircuitLaterOnes lib (sl_read (hp_headers h) late) (sl_read (hp_headers h) early)))"

text \<open>The inner loop over the earlier matchers; \<open>test\<close> is the comparison of the paths and \<open>warn\<close> makes the warning.\<close>

fun checkEarlier ::
  "go_runtime \<Rightarrow> edge_libs \<Rightarrow> (mem_matcher \<Rightarrow> mem_matcher \<Rightarrow> bool) \<Rightarrow> (mem_matcher \<Rightarrow> edge_matcher \<Rightarrow> edge_report) \<Rightarrow>
   mem_matcher \<Rightarrow> mem_matcher list \<Rightarrow> edge_heap \<Rightarrow> edge_heap \<times> edge_report list" where
  "checkEarlier rt lib test warn later [] h = (h, [])"
| "checkEarlier rt lib test warn later (e # es) h =
     (let (h, hit) = (if test later e then nonPathEarlyMatcherShortCircuitsLateMatcher rt lib later e h else (h, False));
          w = (if hit then [warn e (read_matcher h later)] else []);
          (h, ws) = checkEarlier rt lib test warn later es h
      in (h, w @ ws))"

fun validatePrefixHijacking ::
  "go_runtime \<Rightarrow> edge_libs \<Rightarrow> nat \<Rightarrow> string \<Rightarrow> mem_matcher list \<Rightarrow> mem_matcher list \<Rightarrow> edge_heap \<Rightarrow> edge_heap \<times> edge_report list" where
  "validatePrefixHijacking rt lib vs vhName seen [] h = (h, [])"
| "validatePrefixHijacking rt lib vs vhName seen (m # ms) h =
     (let (h, ws) = checkEarlier rt lib prefixShortCircuits
            (\<lambda>e v. AddWarning (VirtualServiceRes vs) (UnorderedPrefixErr vhName (getPrefix e) v)) m seen h;
          seen = (if getPrefix m \<noteq> [] then seen @ [m] else seen);
          (h, ws') = validatePrefixHijacking rt lib vs vhName seen ms h
      in (h, ws @ ws'))"

fun validateRegexHijacking ::
  "go_runtime \<Rightarrow> edge_libs \<Rightarrow> nat \<Rightarrow> string \<Rightarrow> mem_matcher list \<Rightarrow> mem_matcher list \<Rightarrow> edge_heap \<Rightarrow> edge_heap \<times> edge_report list" where
  "validateRegexHijacking rt lib vs vhName seen [] h = (h, [])"
| "validateRegexHijacking rt lib vs vhName seen (m # ms) h =
     (if getRegex m \<noteq> [] then validateRegexHijacking rt lib vs vhName (seen @ [m]) ms h
      else let (h, ws) = checkEarlier rt lib (regexShortCircuits lib)
                 (\<lambda>e v. AddWarning (VirtualServiceRes vs) (UnorderedRegexErr vhName (getRegex e) v)) m seen h;
               (h, ws') = validateRegexHijacking rt lib vs vhName seen ms h
           in (h, ws @ ws'))"

definition validateRouteShortCircuiting ::
  "go_runtime \<Rightarrow> edge_libs \<Rightarrow> nat \<Rightarrow> string \<Rightarrow> mem_route list \<Rightarrow> edge_heap \<Rightarrow> edge_heap \<times> edge_report list" where
  "validateRouteShortCircuiting rt lib vs vhName routes h =
     (let duplicates = validateAnyDuplicateMatchers lib vs vhName h [] (allMatchers routes);
          (h, prefixes) = validatePrefixHijacking rt lib vs vhName [] (allMatchers routes) h;
          (h, regexes) = validateRegexHijacking rt lib vs vhName [] (allMatchers routes) h
      in (h, duplicates @ prefixes @ regexes))"

section \<open>Virtual hosts\<close>

definition VirtualHostName :: "virtual_service \<Rightarrow> string" where
  "VirtualHostName vs = em_Namespace (vsv_Metadata vs) @ ''.'' @ em_Name (vsv_Metadata vs)"

text \<open>A virtual service without virtual host is given an empty one.\<close>

definition ensureVirtualHost :: "virtual_service \<Rightarrow> virtual_service \<times> vs_host" where
  "ensureVirtualHost vs =
     (case vsv_VirtualHost vs of
        Some vh \<Rightarrow> (vs, vh)
      | None \<Rightarrow> let vh = \<lparr>vsh_Domains = [], vsh_Routes = [], vsh_Options = None, vsh_DelegateOptions = []\<rparr>
                in (vs\<lparr>vsv_VirtualHost := Some vh\<rparr>, vh))"

text \<open>The recursion over route tables has fuel for a path through all of them. \<open>appendSource\<close> does not fail on
  a virtual host.\<close>

definition virtualServiceToVirtualHost ::
  "vs_env \<Rightarrow> string \<Rightarrow> string \<Rightarrow> nat \<Rightarrow> virtual_service \<Rightarrow> vs_host \<Rightarrow> edge_state \<Rightarrow> (mem_vhost \<times> edge_state) outcome" where
  "virtualServiceToVirtualHost env gatewayName proxyName i vs vh st =
     (let (h, options, warnings) = mergeDelegatedVirtualHostOptions (ve_VirtualHostOptions env) i vh (vst_heap (est_visit st));
          vh = vh\<lparr>vsh_Options := options\<rparr>;
          vss = (est_VirtualServices st)[i := vs\<lparr>vsv_VirtualHost := Some vh\<rparr>];
          visit = \<lparr>vst_heap = h, vst_reports = vst_reports (est_visit st) @ warnings\<rparr>;
          ctx = \<lparr>vc_gatewayName = gatewayName, vc_proxyName = proxyName, vc_virtualService = VirtualServiceRes i,
                 vc_virtualHostOptions = options\<rparr>
      in bind_out (ConvertVirtualService (length (ee_RouteTables (ve_edge env)) + 1) (ve_edge env) ctx (vsv_Metadata vs)
             (vsh_Routes vh) visit) (\<lambda>(routes, visit).
           let name = VirtualHostName vs;
               rs = validateRoutesRegex (ve_libs env) i (em_Ref (vsv_Metadata vs)) (vst_heap visit) routes;
               (h, ws) = (if ese_WarnOnRouteShortCircuiting (ve_settings env)
                          then validateRouteShortCircuiting (ee_runtime (ve_edge env)) (ve_libs env) i name routes (vst_heap visit)
                          else (vst_heap visit, []))
           in Inr (\<lparr>mvh_Name = name, mvh_Domains = vsh_Domains vh, mvh_Routes = routes, mvh_Options = options,
                    mvh_Sources = [\<lparr>src_Kind = ee_Kind (ve_edge env) (VirtualServiceRes i), src_Ref = em_Ref (vsv_Metadata vs),
                      src_Generation = em_Generation (vsv_Metadata vs)\<rparr>]\<rparr>,
                   st\<lparr>est_VirtualServices := vss,
                      est_visit := \<lparr>vst_heap = h, vst_reports = vst_reports visit @ rs @ ws\<rparr>\<rparr>)))"

definition computeVirtualHost ::
  "vs_env \<Rightarrow> string \<Rightarrow> string \<Rightarrow> nat \<Rightarrow> mem_vhost list \<times> edge_state \<Rightarrow> (mem_vhost list \<times> edge_state) outcome" where
  "computeVirtualHost env gatewayName proxyName i = (\<lambda>(virtualHosts, st).
     let (vs, vh) = ensureVirtualHost (est_VirtualServices st ! i)
     in bind_out (virtualServiceToVirtualHost env gatewayName proxyName i vs vh st) (\<lambda>(host, st).
          Inr (virtualHosts @ [host], st)))"

definition computeHttpListenerVirtualHosts ::
  "vs_env \<Rightarrow> string \<Rightarrow> string \<Rightarrow> nat list \<Rightarrow> edge_state \<Rightarrow> (mem_vhost list \<times> edge_state) outcome" where
  "computeHttpListenerVirtualHosts env gatewayName proxyName virtualServices st =
     fold_out (computeVirtualHost env gatewayName proxyName) virtualServices ([], st)"

definition ComputeVirtualHosts ::
  "vs_env \<Rightarrow> nat \<Rightarrow> string \<Rightarrow> nat list \<Rightarrow> string \<Rightarrow> edge_state \<Rightarrow> (mem_vhost list \<times> edge_state) outcome" where
  "ComputeVirtualHosts env gateway gatewayName virtualServices proxyName st =
     (let st = applyGlobalVirtualServiceSettings (ve_settings env) virtualServices st;
          st = addReports (validateVirtualServiceDomains (ve_libs env) gateway (est_VirtualServices st) virtualServices) st
      in computeHttpListenerVirtualHosts env gatewayName proxyName virtualServices st)"

end
