(* ===== verification/EdgeListeners.thy ===== *)
theory EdgeListeners
  imports EdgeVirtualService Strconv
begin

text \<open>
  Gateways of the Edge API into listeners: the translators of \<open>projects/gateway/pkg/translator\<close>, which are
  \<open>http_translator.go\<close>, \<open>tcp_translator.go\<close>, \<open>hybrid_translator.go\<close>, \<open>aggregate_translator.go\<close> with its builder, and the
  helpers of \<open>ssl_configuration.go\<close>, \<open>merge.go\<close>, \<open>gateway_selector.go\<close> and \<open>utils/utils.go\<close>.

  A gateway is known by its index in the list that is translated. The options of an HTTP gateway are an
  object in memory that one operation writes to. The inner message of a gateway type may be nil, and
  its getters then give empty values.
\<close>

section \<open>Gateways\<close>

record gw_matcher =
  gm_SslConfig :: "edge_ssl option"
  gm_SourcePrefixRanges :: "string list"
  gm_PassthroughCipherSuites :: "string list"

record tcp_host =
  th_Name :: string
  th_SslConfig :: "edge_ssl option"
  th_Other :: string

record tcp_gateway =
  tgw_TcpHosts :: "tcp_host list"
  tgw_Options :: string

datatype matched_gateway_type = MatchedHttp "http_gateway option" | MatchedTcp "tcp_gateway option"

record matched_gateway =
  mg_Matcher :: "gw_matcher option"
  mg_GatewayType :: "matched_gateway_type option"

record matchable_http_gateway =
  mhg_Metadata :: edge_meta
  mhg_Matcher :: "gw_matcher option"
  mhg_HttpGateway :: "http_gateway option"

record matchable_tcp_gateway =
  mtg_Metadata :: edge_meta
  mtg_Matcher :: "gw_matcher option"
  mtg_TcpGateway :: "tcp_gateway option"

record delegated_http_gateway =
  dhg_Ref :: "resource_ref option"
  dhg_Selector :: "gateway_selector option"
  dhg_PreventChildOverrides :: bool
  dhg_HcmSettings :: "string option"
  dhg_SslConfig :: "edge_ssl option"

record delegated_tcp_gateway =
  dtg_Ref :: "resource_ref option"
  dtg_Selector :: "gateway_selector option"

record hybrid_gateway =
  hyb_MatchedGateways :: "matched_gateway list option"
  hyb_DelegatedHttpGateways :: "delegated_http_gateway option"
  hyb_DelegatedTcpGateways :: "delegated_tcp_gateway option"

datatype edge_gateway_type =
  HttpGatewayType "http_gateway option" | TcpGatewayType "tcp_gateway option" | HybridGatewayType "hybrid_gateway option"

record edge_gateway =
  egw_Metadata :: edge_meta
  egw_Ssl :: bool
  egw_BindAddress :: string
  egw_BindPort :: "32 word"
  egw_ProxyNames :: "string list"
  egw_GatewayType :: "edge_gateway_type option"
  egw_Options :: string
  egw_UseProxyProto :: string
  egw_RouteOptions :: string

text \<open>The getters of messages that may be nil.\<close>

definition getHttp :: "http_gateway option \<Rightarrow> http_gateway" where
  "getHttp g = (case g of Some g \<Rightarrow> g | None \<Rightarrow>
     \<lparr>hgw_VirtualServices = [], hgw_VirtualServiceNamespaces = [], hgw_VirtualServiceSelector = None,
      hgw_VirtualServiceExpressions = None, hgw_Options = None\<rparr>)"

definition getTcp :: "tcp_gateway option \<Rightarrow> tcp_gateway" where
  "getTcp g = (case g of Some g \<Rightarrow> g | None \<Rightarrow> \<lparr>tgw_TcpHosts = [], tgw_Options = []\<rparr>)"

definition getHybrid :: "hybrid_gateway option \<Rightarrow> hybrid_gateway" where
  "getHybrid g = (case g of Some g \<Rightarrow> g | None \<Rightarrow>
     \<lparr>hyb_MatchedGateways = None, hyb_DelegatedHttpGateways = None, hyb_DelegatedTcpGateways = None\<rparr>)"

definition getMatcher :: "gw_matcher option \<Rightarrow> gw_matcher" where
  "getMatcher m = (case m of Some m \<Rightarrow> m | None \<Rightarrow>
     \<lparr>gm_SslConfig = None, gm_SourcePrefixRanges = [], gm_PassthroughCipherSuites = []\<rparr>)"

section \<open>Listeners\<close>

record edge_http_listener =
  ehl_VirtualHosts :: "mem_vhost list"
  ehl_Options :: "nat option"

record edge_tcp_listener =
  etl_Options :: string
  etl_TcpHosts :: "tcp_host list"

datatype matched_listener_type = MatchedHttpListener edge_http_listener | MatchedTcpListenerType edge_tcp_listener

record matched_listener =
  ml_Matcher :: gw_matcher
  ml_ListenerType :: "matched_listener_type option"
  ml_SslConfigurations :: "edge_ssl option list"

record edge_filter_chain =
  efc_Matcher :: "gw_matcher option"
  efc_HttpOptionsRef :: string
  efc_VirtualHostRefs :: "string list"

record matched_tcp_listener =
  mtl_Matcher :: gw_matcher
  mtl_TcpListener :: edge_tcp_listener

record aggregate_listener =
  agl_VirtualHosts :: "string \<rightharpoonup> mem_vhost"
  agl_HttpOptions :: "string \<rightharpoonup> nat option"
  agl_HttpFilterChains :: "edge_filter_chain list"
  agl_TcpListeners :: "matched_tcp_listener list"

datatype edge_listener_type =
  EdgeHttpListener edge_http_listener
| EdgeTcpListener edge_tcp_listener
| EdgeHybridListener "matched_listener list"
| EdgeAggregateListener aggregate_listener

record edge_listener =
  eli_Name :: string
  eli_BindAddress :: string
  eli_BindPort :: "32 word"
  eli_Options :: string
  eli_UseProxyProto :: string
  eli_RouteOptions :: string
  eli_ListenerType :: edge_listener_type
  eli_SslConfigurations :: "edge_ssl option list"
  eli_Sources :: "source_ref list"

text \<open>What a translation has at hand: the environment of the virtual services and the delegated gateways of the snapshot.\<close>

record gw_env =
  ge_vs :: vs_env
  ge_HttpGateways :: "matchable_http_gateway list"
  ge_TcpGateways :: "matchable_tcp_gateway list"

definition ListenerName :: "edge_gateway \<Rightarrow> string" where
  "ListenerName gw = ''listener-'' @ egw_BindAddress gw @ ''-'' @ show_nat (unat (egw_BindPort gw))"

text \<open>\<open>makeListener\<close> with the type of the listener, its TLS configurations and its source.\<close>

definition makeListener :: "gw_env \<Rightarrow> nat \<Rightarrow> edge_gateway \<Rightarrow> edge_listener_type \<Rightarrow> edge_ssl option list \<Rightarrow> edge_listener" where
  "makeListener env i gw ty ssls =
     \<lparr>eli_Name = ListenerName gw, eli_BindAddress = egw_BindAddress gw, eli_BindPort = egw_BindPort gw, eli_Options = egw_Options gw,
      eli_UseProxyProto = egw_UseProxyProto gw, eli_RouteOptions = egw_RouteOptions gw, eli_ListenerType = ty,
      eli_SslConfigurations = ssls,
      eli_Sources = [\<lparr>src_Kind = ee_Kind (ve_edge (ge_vs env)) (GatewayRes i), src_Ref = em_Ref (egw_Metadata gw),
        src_Generation = em_Generation (egw_Metadata gw)\<rparr>]\<rparr>"

text \<open>The selection of virtual services as a step of the state.\<close>

definition selectVirtualServices :: "gw_env \<Rightarrow> nat \<Rightarrow> http_gateway \<Rightarrow> bool \<Rightarrow> edge_state \<Rightarrow> nat list \<times> edge_state" where
  "selectVirtualServices env i httpGateway ssl st =
     (let (vs, rs) = getVirtualServicesForHttpGateway (ee_labels (ve_edge (ge_vs env))) i (est_VirtualServices st) httpGateway ssl
      in (vs, addReports rs st))"

definition hostsFor :: "gw_env \<Rightarrow> nat \<Rightarrow> edge_gateway \<Rightarrow> string \<Rightarrow> nat list \<Rightarrow> edge_state \<Rightarrow> (mem_vhost list \<times> edge_state) outcome" where
  "hostsFor env i gw proxyName virtualServices st =
     ComputeVirtualHosts (ge_vs env) i (em_Name (egw_Metadata gw)) virtualServices proxyName st"

definition translateEmpty :: "gw_env \<Rightarrow> bool" where
  "translateEmpty env = ese_TranslateEmptyGateways (ve_settings (ge_vs env))"

section \<open>HTTP and TCP (http_translator.go, tcp_translator.go)\<close>

definition HttpTranslator_ComputeListener ::
  "gw_env \<Rightarrow> string \<Rightarrow> nat \<Rightarrow> edge_gateway \<Rightarrow> edge_state \<Rightarrow> (edge_listener option \<times> edge_state) outcome" where
  "HttpTranslator_ComputeListener env proxyName i gw st =
     (case egw_GatewayType gw of
        Some (HttpGatewayType (Some httpGateway)) \<Rightarrow>
          if est_VirtualServices st = [] \<and> \<not> translateEmpty env then Inr (None, st)
          else let (virtualServices, st) = selectVirtualServices env i httpGateway (egw_Ssl gw) st
               in bind_out (hostsFor env i gw proxyName virtualServices st) (\<lambda>(hosts, st).
                    Inr (Some (makeListener env i gw (EdgeHttpListener \<lparr>ehl_VirtualHosts = hosts, ehl_Options = hgw_Options httpGateway\<rparr>)
                      (if egw_Ssl gw then map (\<lambda>v. vsv_SslConfig (est_VirtualServices st ! v)) virtualServices else [])), st))
      | _ \<Rightarrow> Inr (None, st))"

definition ComputeTcpListener :: "tcp_gateway option \<Rightarrow> edge_tcp_listener" where
  "ComputeTcpListener g = \<lparr>etl_Options = tgw_Options (getTcp g), etl_TcpHosts = tgw_TcpHosts (getTcp g)\<rparr>"

definition TcpTranslator_ComputeListener :: "gw_env \<Rightarrow> nat \<Rightarrow> edge_gateway \<Rightarrow> edge_listener option" where
  "TcpTranslator_ComputeListener env i gw =
     (case egw_GatewayType gw of
        Some (TcpGatewayType (Some g)) \<Rightarrow> Some (makeListener env i gw (EdgeTcpListener (ComputeTcpListener (Some g))) [])
      | _ \<Rightarrow> None)"

text \<open>\<open>validateTcpHosts\<close>: the SNI domains of the hosts must be among those of the matcher, if it has any.\<close>

definition validateTcpHosts :: "nat \<Rightarrow> tcp_gateway option \<Rightarrow> edge_ssl option \<Rightarrow> edge_report list" where
  "validateTcpHosts i g tcpSSL =
     (case (tcpSSL, g) of
        (Some cfg, Some g) \<Rightarrow>
          let conflicting = concat (map (\<lambda>host. map (\<lambda>d. th_Name host @ '':'' @ d)
                (filter (\<lambda>d. d \<notin> set (essl_SniDomains cfg) \<and> essl_SniDomains cfg \<noteq> [])
                  (case th_SslConfig host of None \<Rightarrow> [] | Some c \<Rightarrow> essl_SniDomains c))) (tgw_TcpHosts g))
          in if conflicting \<noteq> [] then [AddError (GatewayRes i) (ConflictingSniDomainsErr conflicting)] else []
      | _ \<Rightarrow> [])"

section \<open>Delegated gateways\<close>

definition isHttpGatewaySelected :: "label_lib \<Rightarrow> matchable_http_gateway \<Rightarrow> delegated_http_gateway option \<Rightarrow> edge_error + bool" where
  "isHttpGatewaySelected lib g sel =
     (case sel of
        None \<Rightarrow> Inr False
      | Some s \<Rightarrow>
          if (dhg_SslConfig s \<noteq> None) \<noteq> (gm_SslConfig (getMatcher (mhg_Matcher g)) \<noteq> None) then Inr False
          else matchMetadata lib (mhg_Metadata g) (dhg_Ref s) (dhg_Selector s))"

definition isTcpGatewaySelected :: "label_lib \<Rightarrow> matchable_tcp_gateway \<Rightarrow> delegated_tcp_gateway option \<Rightarrow> edge_error + bool" where
  "isTcpGatewaySelected lib g sel =
     (case sel of None \<Rightarrow> Inr False | Some s \<Rightarrow> matchMetadata lib (mtg_Metadata g) (dtg_Ref s) (dtg_Selector s))"

text \<open>Both selectors visit the available gateways and report the errors on the parent.\<close>

definition selectGateways :: "('g \<Rightarrow> edge_error + bool) \<Rightarrow> nat \<Rightarrow> 'g list \<Rightarrow> 'g list \<times> edge_report list" where
  "selectGateways selected i gws =
     (filter (\<lambda>g. selected g = Inr True) gws,
      concat (map (\<lambda>g. case selected g of Inl err \<Rightarrow> [AddError (GatewayRes i) err] | Inr _ \<Rightarrow> []) gws))"

definition SelectMatchableHttpGateways ::
  "gw_env \<Rightarrow> nat \<Rightarrow> delegated_http_gateway option \<Rightarrow> matchable_http_gateway list \<times> edge_report list" where
  "SelectMatchableHttpGateways env i sel =
     selectGateways (\<lambda>g. isHttpGatewaySelected (ee_labels (ve_edge (ge_vs env))) g sel) i (ge_HttpGateways env)"

definition SelectMatchableTcpGateways ::
  "gw_env \<Rightarrow> nat \<Rightarrow> delegated_tcp_gateway option \<Rightarrow> matchable_tcp_gateway list \<times> edge_report list" where
  "SelectMatchableTcpGateways env i sel =
     selectGateways (\<lambda>g. isTcpGatewaySelected (ee_labels (ve_edge (ge_vs env))) g sel) i (ge_TcpGateways env)"

section \<open>Merging (merge.go)\<close>

text \<open>The merge of two messages that are there is that of the library.\<close>

definition mergeOver :: "(bool \<Rightarrow> 'a \<Rightarrow> 'a \<Rightarrow> 'a) \<Rightarrow> 'a option \<Rightarrow> 'a option \<Rightarrow> bool \<Rightarrow> 'a option" where
  "mergeOver mergo parent child preventChildOverrides =
     (case child of
        None \<Rightarrow> parent
      | Some c \<Rightarrow> (case parent of None \<Rightarrow> Some c | Some p \<Rightarrow> Some (mergo preventChildOverrides c p)))"

definition mergeSslConfig :: "edge_libs \<Rightarrow> edge_ssl option \<Rightarrow> edge_ssl option \<Rightarrow> bool \<Rightarrow> edge_ssl option" where
  "mergeSslConfig lib = mergeOver (el_mergeSsl lib)"

definition mergeHCMSettings :: "edge_libs \<Rightarrow> string option \<Rightarrow> string option \<Rightarrow> bool \<Rightarrow> string option" where
  "mergeHCMSettings lib = mergeOver (el_mergeHcm lib)"

definition delegatedHttpOf :: "edge_gateway \<Rightarrow> delegated_http_gateway option" where
  "delegatedHttpOf gw = (case egw_GatewayType gw of Some (HybridGatewayType h) \<Rightarrow> hyb_DelegatedHttpGateways (getHybrid h) | _ \<Rightarrow> None)"

definition preventChildOverridesOf :: "edge_gateway \<Rightarrow> bool" where
  "preventChildOverridesOf gw = (case delegatedHttpOf gw of None \<Rightarrow> False | Some d \<Rightarrow> dhg_PreventChildOverrides d)"

text \<open>The reconciled settings are written to the options of the delegated gateway, which are those of the snapshot.\<close>

definition reconcileGatewayLevelHCMConfig ::
  "edge_libs \<Rightarrow> edge_gateway \<Rightarrow> matchable_http_gateway \<Rightarrow> edge_state \<Rightarrow> nat \<times> edge_state" where
  "reconcileGatewayLevelHCMConfig lib parent g st =
     (let child = hgw_Options (getHttp (mhg_HttpGateway g));
          parentHcm = Option.bind (delegatedHttpOf parent) dhg_HcmSettings;
          childHcm = Option.bind child (\<lambda>a. hop_HcmSettings (est_HttpOptions st a));
          reconciled = mergeHCMSettings lib parentHcm childHcm (preventChildOverridesOf parent)
      in case child of
           Some a \<Rightarrow> (a, st\<lparr>est_HttpOptions := (est_HttpOptions st)(a := (est_HttpOptions st a)\<lparr>hop_HcmSettings := reconciled\<rparr>)\<rparr>)
         | None \<Rightarrow> let a = est_nextHttpOptions st
                   in (a, st\<lparr>est_HttpOptions := (est_HttpOptions st)(a := \<lparr>hop_HcmSettings = reconciled, hop_Other = []\<rparr>),
                             est_nextHttpOptions := a + 1\<rparr>))"

definition reconcileGatewayLevelSslConfig :: "edge_libs \<Rightarrow> edge_gateway \<Rightarrow> matchable_http_gateway \<Rightarrow> edge_ssl option" where
  "reconcileGatewayLevelSslConfig lib parent g =
     mergeSslConfig lib (Option.bind (delegatedHttpOf parent) dhg_SslConfig) (gm_SslConfig (getMatcher (mhg_Matcher g)))
       (preventChildOverridesOf parent)"

end
