(* ===== verification/EdgeReports.thy ===== *)
theory EdgeReports
  imports EdgeListeners
begin

text \<open>
  What the Gloo validation says of a proxy, and how it is charged to the resources that the proxy was made
  from: \<open>projects/gloo/pkg/utils/validation/proxy_validation.go\<close> and \<open>names.go\<close>, \<open>vhosts.go\<close> of its parent, the source metadata
  of \<open>projects/gateway/pkg/translator/config_source.go\<close>, and \<open>projects/gateway/pkg/reporting\<close>.

  The proxy is a value here, as the proxy client stores it: what the reconciler does to it happens on a
  clone. Fields that none of this code reads are one opaque field of their message.
\<close>

section \<open>The proxy\<close>

text \<open>The reference of a source is a pointer, and reading the name through it when it is nil is a panic.\<close>

record proxy_source =
  ps_ResourceRef :: "resource_ref option"
  ps_ResourceKind :: string
  ps_ObservedGeneration :: int

text \<open>The metadata of a listener or a virtual host: the static form, or a struct in the form of older releases.\<close>

datatype opaque_metadata =
  NoMetadata
| MetadataStatic "proxy_source list option"
| MetadataStruct "string option"

record proxy_vhost =
  pvh_Name :: string
  pvh_Routes :: "string list"
  pvh_Metadata :: opaque_metadata
  pvh_Other :: string

text \<open>The virtual hosts of a listener are pointers: those that the reconciler looks up by name may be nil.\<close>

record proxy_http_listener =
  phl_VirtualHosts :: "proxy_vhost option list"
  phl_Other :: string

record proxy_tcp_listener =
  ptl_TcpHosts :: "string list"
  ptl_Other :: string

datatype proxy_matched_type = PMatchedHttp proxy_http_listener | PMatchedTcp proxy_tcp_listener

record proxy_matched_listener =
  pml_Matcher :: "gw_matcher option"
  pml_ListenerType :: "proxy_matched_type option"
  pml_Other :: string

record proxy_filter_chain =
  pfc_Matcher :: "gw_matcher option"
  pfc_HttpOptionsRef :: string
  pfc_VirtualHostRefs :: "string list"

record proxy_aggregate_listener =
  pag_VirtualHosts :: "string \<rightharpoonup> proxy_vhost"
  pag_HttpOptions :: "string \<rightharpoonup> string"
  pag_HttpFilterChains :: "proxy_filter_chain list"
  pag_TcpListeners :: "(gw_matcher option \<times> proxy_tcp_listener) list"

datatype proxy_listener_type =
  PHttp proxy_http_listener
| PTcp proxy_tcp_listener
| PHybrid "proxy_matched_listener list"
| PAggregate proxy_aggregate_listener

record proxy_listener =
  pli_Name :: string
  pli_ListenerType :: "proxy_listener_type option"
  pli_Metadata :: opaque_metadata
  pli_Other :: string

text \<open>Getters that accept a nil message.\<close>

definition GetName :: "proxy_vhost option \<Rightarrow> string" where
  "GetName vh = (case vh of None \<Rightarrow> [] | Some vh \<Rightarrow> pvh_Name vh)"

definition GetVirtualHosts :: "proxy_http_listener option \<Rightarrow> proxy_vhost option list" where
  "GetVirtualHosts l = (case l of None \<Rightarrow> [] | Some l \<Rightarrow> phl_VirtualHosts l)"

definition GetHttpListener :: "proxy_listener \<Rightarrow> proxy_http_listener option" where
  "GetHttpListener l = (case pli_ListenerType l of Some (PHttp h) \<Rightarrow> Some h | _ \<Rightarrow> None)"

definition GetMatchedListeners :: "proxy_listener \<Rightarrow> proxy_matched_listener list" where
  "GetMatchedListeners l = (case pli_ListenerType l of Some (PHybrid mls) \<Rightarrow> mls | _ \<Rightarrow> [])"

definition matchedHttpListener :: "proxy_matched_listener \<Rightarrow> proxy_http_listener option" where
  "matchedHttpListener ml = (case pml_ListenerType ml of Some (PMatchedHttp h) \<Rightarrow> Some h | _ \<Rightarrow> None)"

text \<open>The virtual hosts that a filter chain of an aggregate listener names.\<close>

definition chainVirtualHosts :: "proxy_aggregate_listener \<Rightarrow> string list \<Rightarrow> proxy_vhost option list" where
  "chainVirtualHosts agg refs = map (pag_VirtualHosts agg) refs"

section \<open>Errors and runs\<close>

text \<open>Errors are made by \<open>eris\<close>; a wrapped error keeps what it wraps.\<close>

datatype eris_error = Errorf string | Wrapf string eris_error

text \<open>A step on a state that can return an error: the state is what the step has written in either case.\<close>

type_synonym 's erun = "(eris_error option \<times> 's) outcome"

fun for_each :: "('a \<Rightarrow> 's \<Rightarrow> 's erun) \<Rightarrow> 'a list \<Rightarrow> 's \<Rightarrow> 's erun" where
  "for_each f [] s = Inr (None, s)"
| "for_each f (x # xs) s = bind_out (f x s) (\<lambda>(err, s). case err of Some e \<Rightarrow> Inr (Some e, s) | None \<Rightarrow> for_each f xs s)"

definition and_then :: "'s erun \<Rightarrow> ('s \<Rightarrow> 's erun) \<Rightarrow> 's erun" where
  "and_then r f = bind_out r (\<lambda>(err, s). case err of Some e \<Rightarrow> Inr (Some e, s) | None \<Rightarrow> f s)"

section \<open>Reports of the validation\<close>

text \<open>The messages of \<open>gloo_validation.proto\<close>. An error or a warning has a type, known by its name, and a reason.\<close>

record report_entry =
  ren_Type :: string
  ren_Reason :: string
  ren_Metadata :: "proxy_source list option"

record vroute_report =
  rrp_Errors :: "report_entry list"
  rrp_Warnings :: "report_entry list"

record vhost_report =
  vrp_Errors :: "report_entry list"
  vrp_RouteReports :: "vroute_report list"

record http_listener_report =
  hlr_Errors :: "report_entry list"
  hlr_VirtualHostReports :: "vhost_report list"

record tcp_host_report =
  thr_Errors :: "report_entry list"
  thr_Warnings :: "report_entry list"

record tcp_listener_report =
  tlr_Errors :: "report_entry list"
  tlr_TcpHostReports :: "tcp_host_report list"

datatype matched_listener_report = MatchedHttpReport http_listener_report | MatchedTcpReport tcp_listener_report

datatype listener_type_report =
  HttpListenerReport http_listener_report
| TcpListenerReport tcp_listener_report
| HybridListenerReport "string \<rightharpoonup> matched_listener_report option"
| AggregateListenerReport "string \<rightharpoonup> http_listener_report" "string \<rightharpoonup> tcp_listener_report"

record vlistener_report =
  lrp_Errors :: "report_entry list"
  lrp_Warnings :: "report_entry list"
  lrp_ListenerTypeReport :: "listener_type_report option"

text \<open>A listener without a type has no report, and a missing report reads as an empty one.\<close>

definition getListenerReport :: "vlistener_report option \<Rightarrow> vlistener_report" where
  "getListenerReport r = (case r of Some r \<Rightarrow> r | None \<Rightarrow> \<lparr>lrp_Errors = [], lrp_Warnings = [], lrp_ListenerTypeReport = None\<rparr>)"

section \<open>Reports of resources\<close>

text \<open>A resource is a pointer; its kind and its reference are what a report is looked up by.\<close>

record input_resource =
  ir_Kind :: string
  ir_Ref :: resource_ref
  ir_Pointer :: nat

record resource_report =
  rrt_Errors :: "eris_error option"
  rrt_Warnings :: "string list"

type_synonym resource_reports = "input_resource \<rightharpoonup> resource_report"

text \<open>What comes from other modules: the methods of the reports of \<open>solo-kit\<close>, the reader of the metadata of older
  releases, the hash of a matcher, and the order in which a loop over a map visits its keys.\<close>

record report_lib =
  rl_Find :: "resource_reports \<Rightarrow> string \<Rightarrow> resource_ref \<Rightarrow> input_resource option \<times> resource_report"
  rl_AddErrors :: "resource_reports \<Rightarrow> input_resource \<Rightarrow> eris_error list \<Rightarrow> resource_reports"
  rl_AddWarnings :: "resource_reports \<Rightarrow> input_resource \<Rightarrow> string list \<Rightarrow> resource_reports"
  rl_UnmarshalStruct :: "string \<Rightarrow> eris_error + proxy_source list"
  rl_HashMatcher :: "gw_matcher \<Rightarrow> 64 word"
  rl_keys :: "string set \<Rightarrow> string list"

section \<open>Names (names.go)\<close>

definition RouteConfigName :: "proxy_listener \<Rightarrow> string" where
  "RouteConfigName listener = pli_Name listener @ ''-routes''"

definition MatchedRouteConfigName :: "report_lib \<Rightarrow> proxy_listener \<Rightarrow> gw_matcher option \<Rightarrow> string" where
  "MatchedRouteConfigName rl listener matcher =
     (case matcher of
        None \<Rightarrow> RouteConfigName listener
      | Some m \<Rightarrow> RouteConfigName listener @ ''-'' @ show_nat (unat (rl_HashMatcher rl m)))"

section \<open>Empty reports (proxy_validation.go)\<close>

definition makeVhostReports :: "proxy_vhost option list \<Rightarrow> vhost_report list" where
  "makeVhostReports vhosts =
     map (\<lambda>vh. \<lparr>vrp_Errors = [],
       vrp_RouteReports = map (\<lambda>_. \<lparr>rrp_Errors = [], rrp_Warnings = []\<rparr>) (case vh of None \<Rightarrow> [] | Some vh \<Rightarrow> pvh_Routes vh)\<rparr>) vhosts"

definition makeTcpHostReports :: "string list \<Rightarrow> tcp_host_report list" where
  "makeTcpHostReports hosts = map (\<lambda>_. \<lparr>thr_Errors = [], thr_Warnings = []\<rparr>) hosts"

definition makeHttpReport :: "proxy_vhost option list \<Rightarrow> http_listener_report" where
  "makeHttpReport vhosts = \<lparr>hlr_Errors = [], hlr_VirtualHostReports = makeVhostReports vhosts\<rparr>"

definition makeTcpReport :: "proxy_tcp_listener \<Rightarrow> tcp_listener_report" where
  "makeTcpReport l = \<lparr>tlr_Errors = [], tlr_TcpHostReports = makeTcpHostReports (ptl_TcpHosts l)\<rparr>"

definition makeMatchedReport :: "proxy_matched_listener \<Rightarrow> matched_listener_report option" where
  "makeMatchedReport ml =
     (case pml_ListenerType ml of
        Some (PMatchedHttp h) \<Rightarrow> Some (MatchedHttpReport (makeHttpReport (phl_VirtualHosts h)))
      | Some (PMatchedTcp t) \<Rightarrow> Some (MatchedTcpReport (makeTcpReport t))
      | None \<Rightarrow> None)"

definition makeListenerReport :: "report_lib \<Rightarrow> proxy_listener \<Rightarrow> vlistener_report option" where
  "makeListenerReport rl listener =
     map_option (\<lambda>ty. \<lparr>lrp_Errors = [], lrp_Warnings = [], lrp_ListenerTypeReport = Some
       (case ty of
          PHttp h \<Rightarrow> HttpListenerReport (makeHttpReport (phl_VirtualHosts h))
        | PTcp t \<Rightarrow> TcpListenerReport (makeTcpReport t)
        | PHybrid mls \<Rightarrow>
            HybridListenerReport (foldl (\<lambda>m ml. m(MatchedRouteConfigName rl listener (pml_Matcher ml) \<mapsto> makeMatchedReport ml)) Map.empty mls)
        | PAggregate agg \<Rightarrow>
            AggregateListenerReport
              (foldl (\<lambda>m c. m(MatchedRouteConfigName rl listener (pfc_Matcher c) \<mapsto>
                 makeHttpReport (chainVirtualHosts agg (pfc_VirtualHostRefs c)))) Map.empty (pag_HttpFilterChains agg))
              (foldl (\<lambda>m (matcher, t). m(MatchedRouteConfigName rl listener matcher \<mapsto> makeTcpReport t)) Map.empty (pag_TcpListeners agg)))\<rparr>)
       (pli_ListenerType listener)"

definition MakeReport :: "report_lib \<Rightarrow> proxy_listener list \<Rightarrow> vlistener_report option list" where
  "MakeReport rl listeners = map (makeListenerReport rl) listeners"

section \<open>Errors and warnings of a report (proxy_validation.go)\<close>

definition formattedError :: "string \<Rightarrow> report_entry \<Rightarrow> eris_error" where
  "formattedError level e = Errorf (level @ '' Error: '' @ ren_Type e @ ''. Reason: '' @ ren_Reason e)"

definition formattedWarning :: "string \<Rightarrow> report_entry \<Rightarrow> string" where
  "formattedWarning level e = level @ '' Warning: '' @ ren_Type e @ ''. Reason: '' @ ren_Reason e"

definition GetListenerErr :: "vlistener_report \<Rightarrow> eris_error list" where
  "GetListenerErr r = map (formattedError ''Listener'') (lrp_Errors r)"

definition GetListenerWarning :: "vlistener_report \<Rightarrow> string list" where
  "GetListenerWarning r = map (formattedWarning ''Listener'') (lrp_Warnings r)"

definition GetHttpListenerErr :: "http_listener_report \<Rightarrow> eris_error list" where
  "GetHttpListenerErr r = map (formattedError ''HttpListener'') (hlr_Errors r)"

definition GetVirtualHostErr :: "vhost_report \<Rightarrow> eris_error list" where
  "GetVirtualHostErr r = map (formattedError ''VirtualHost'') (vrp_Errors r)"

definition GetRouteErr :: "vroute_report \<Rightarrow> eris_error list" where
  "GetRouteErr r = map (\<lambda>e. Wrapf ''Route Error'' (Errorf (ren_Type e @ ''. Reason: '' @ ren_Reason e))) (rrp_Errors r)"

definition GetRouteWarning :: "vroute_report \<Rightarrow> string list" where
  "GetRouteWarning r = map (formattedWarning ''Route'') (rrp_Warnings r)"

definition GetTcpListenerErr :: "tcp_listener_report \<Rightarrow> eris_error list" where
  "GetTcpListenerErr r = map (formattedError ''TcpListener'') (tlr_Errors r)"

definition GetTcpHostErr :: "tcp_host_report \<Rightarrow> eris_error list" where
  "GetTcpHostErr r = map (formattedError ''TcpHost'') (thr_Errors r)"

definition GetTcpHostWarning :: "tcp_host_report \<Rightarrow> string list" where
  "GetTcpHostWarning r = map (formattedWarning ''TcpHost'') (thr_Warnings r)"

definition getTcpListenerReportErrs :: "tcp_listener_report \<Rightarrow> eris_error list" where
  "getTcpListenerReportErrs r = GetTcpListenerErr r @ concat (map GetTcpHostErr (tlr_TcpHostReports r))"

definition getHttpListenerReportErrs :: "http_listener_report \<Rightarrow> eris_error list" where
  "getHttpListenerReportErrs r =
     GetHttpListenerErr r @
     concat (map (\<lambda>v. GetVirtualHostErr v @ concat (map GetRouteErr (vrp_RouteReports v))) (hlr_VirtualHostReports r))"

text \<open>The values of a map in the order that a loop over it takes.\<close>

definition range_values :: "report_lib \<Rightarrow> (string \<rightharpoonup> 'v) \<Rightarrow> 'v list" where
  "range_values rl m = List.map_filter m (rl_keys rl (dom m))"

definition GetListenerError :: "report_lib \<Rightarrow> vlistener_report option \<Rightarrow> eris_error list" where
  "GetListenerError rl r =
     GetListenerErr (getListenerReport r) @
     (case lrp_ListenerTypeReport (getListenerReport r) of
        Some (HttpListenerReport h) \<Rightarrow> getHttpListenerReportErrs h
      | Some (TcpListenerReport t) \<Rightarrow> getTcpListenerReportErrs t
      | Some (HybridListenerReport m) \<Rightarrow>
          concat (map (\<lambda>mr. case mr of
              Some (MatchedHttpReport h) \<Rightarrow> getHttpListenerReportErrs h
            | Some (MatchedTcpReport t) \<Rightarrow> getTcpListenerReportErrs t
            | None \<Rightarrow> []) (range_values rl m))
      | Some (AggregateListenerReport hs ts) \<Rightarrow>
          concat (map getHttpListenerReportErrs (range_values rl hs)) @ concat (map getTcpListenerReportErrs (range_values rl ts))
      | None \<Rightarrow> [])"

text \<open>\<open>GetProxyError\<close> combines the errors of the listeners into one, which is nil when there is none.\<close>

definition GetProxyError :: "report_lib \<Rightarrow> vlistener_report option list \<Rightarrow> eris_error list" where
  "GetProxyError rl reports = concat (map (GetListenerError rl) reports)"

definition GetVhostReportsFromListenerReport :: "report_lib \<Rightarrow> vlistener_report option \<Rightarrow> vhost_report list" where
  "GetVhostReportsFromListenerReport rl r =
     (case lrp_ListenerTypeReport (getListenerReport r) of
        Some (HttpListenerReport h) \<Rightarrow> hlr_VirtualHostReports h
      | Some (HybridListenerReport m) \<Rightarrow>
          concat (map (\<lambda>mr. case mr of Some (MatchedHttpReport h) \<Rightarrow> hlr_VirtualHostReports h | _ \<Rightarrow> []) (range_values rl m))
      | Some (AggregateListenerReport hs _) \<Rightarrow> concat (map hlr_VirtualHostReports (range_values rl hs))
      | _ \<Rightarrow> [])"

definition GetTcpHostReportsFromListenerReport :: "report_lib \<Rightarrow> vlistener_report option \<Rightarrow> tcp_host_report list" where
  "GetTcpHostReportsFromListenerReport rl r =
     (case lrp_ListenerTypeReport (getListenerReport r) of
        Some (TcpListenerReport t) \<Rightarrow> tlr_TcpHostReports t
      | Some (HybridListenerReport m) \<Rightarrow>
          concat (map (\<lambda>mr. case mr of Some (MatchedTcpReport t) \<Rightarrow> tlr_TcpHostReports t | _ \<Rightarrow> []) (range_values rl m))
      | Some (AggregateListenerReport _ ts) \<Rightarrow> concat (map tlr_TcpHostReports (range_values rl ts))
      | _ \<Rightarrow> [])"

definition GetProxyWarning :: "report_lib \<Rightarrow> vlistener_report option list \<Rightarrow> string list" where
  "GetProxyWarning rl reports =
     concat (map (\<lambda>r. GetListenerWarning (getListenerReport r) @
       concat (map (\<lambda>v. concat (map GetRouteWarning (vrp_RouteReports v))) (GetVhostReportsFromListenerReport rl r)) @
       concat (map GetTcpHostWarning (GetTcpHostReportsFromListenerReport rl r))) reports)"

text \<open>The functions that the translator of Gloo writes its reports with.\<close>

definition AppendListenerError :: "string \<Rightarrow> string \<Rightarrow> vlistener_report \<Rightarrow> vlistener_report" where
  "AppendListenerError ty reason r = r\<lparr>lrp_Errors := lrp_Errors r @ [\<lparr>ren_Type = ty, ren_Reason = reason, ren_Metadata = None\<rparr>]\<rparr>"

definition AppendListenerWarning :: "string \<Rightarrow> string \<Rightarrow> vlistener_report \<Rightarrow> vlistener_report" where
  "AppendListenerWarning ty reason r = r\<lparr>lrp_Warnings := lrp_Warnings r @ [\<lparr>ren_Type = ty, ren_Reason = reason, ren_Metadata = None\<rparr>]\<rparr>"

definition AppendVirtualHostErrorWithMetadata :: "string \<Rightarrow> string \<Rightarrow> proxy_source list option \<Rightarrow> vhost_report \<Rightarrow> vhost_report" where
  "AppendVirtualHostErrorWithMetadata ty reason md r = r\<lparr>vrp_Errors := vrp_Errors r @ [\<lparr>ren_Type = ty, ren_Reason = reason, ren_Metadata = md\<rparr>]\<rparr>"

definition AppendVirtualHostError :: "string \<Rightarrow> string \<Rightarrow> vhost_report \<Rightarrow> vhost_report" where
  "AppendVirtualHostError ty reason r = r\<lparr>vrp_Errors := vrp_Errors r @ [\<lparr>ren_Type = ty, ren_Reason = reason, ren_Metadata = None\<rparr>]\<rparr>"

definition AppendHTTPListenerError :: "string \<Rightarrow> string \<Rightarrow> http_listener_report \<Rightarrow> http_listener_report" where
  "AppendHTTPListenerError ty reason r = r\<lparr>hlr_Errors := hlr_Errors r @ [\<lparr>ren_Type = ty, ren_Reason = reason, ren_Metadata = None\<rparr>]\<rparr>"

definition AppendTCPListenerError :: "string \<Rightarrow> string \<Rightarrow> tcp_listener_report \<Rightarrow> tcp_listener_report" where
  "AppendTCPListenerError ty reason r = r\<lparr>tlr_Errors := tlr_Errors r @ [\<lparr>ren_Type = ty, ren_Reason = reason, ren_Metadata = None\<rparr>]\<rparr>"

definition AppendRouteErrorWithMetadata :: "string \<Rightarrow> string \<Rightarrow> string \<Rightarrow> proxy_source list option \<Rightarrow> vroute_report \<Rightarrow> vroute_report" where
  "AppendRouteErrorWithMetadata ty reason nm md r =
     r\<lparr>rrp_Errors := rrp_Errors r @ [\<lparr>ren_Type = ty, ren_Reason = reason @ ''. Route Name: '' @ nm, ren_Metadata = md\<rparr>]\<rparr>"

definition AppendRouteError :: "string \<Rightarrow> string \<Rightarrow> string \<Rightarrow> vroute_report \<Rightarrow> vroute_report" where
  "AppendRouteError ty reason nm r =
     r\<lparr>rrp_Errors := rrp_Errors r @ [\<lparr>ren_Type = ty, ren_Reason = reason @ ''. Route Name: '' @ nm, ren_Metadata = None\<rparr>]\<rparr>"

definition AppendRouteWarning :: "string \<Rightarrow> string \<Rightarrow> vroute_report \<Rightarrow> vroute_report" where
  "AppendRouteWarning ty reason r = r\<lparr>rrp_Warnings := rrp_Warnings r @ [\<lparr>ren_Type = ty, ren_Reason = reason, ren_Metadata = None\<rparr>]\<rparr>"

definition AppendTcpHostWarning :: "string \<Rightarrow> string \<Rightarrow> tcp_host_report \<Rightarrow> tcp_host_report" where
  "AppendTcpHostWarning ty reason r = r\<lparr>thr_Warnings := thr_Warnings r @ [\<lparr>ren_Type = ty, ren_Reason = reason, ren_Metadata = None\<rparr>]\<rparr>"

section \<open>Sources (config_source.go)\<close>

definition GetSourceMeta :: "report_lib \<Rightarrow> opaque_metadata \<Rightarrow> eris_error + proxy_source list" where
  "GetSourceMeta rl meta =
     (case meta of
        MetadataStatic (Some sources) \<Rightarrow> Inr sources
      | MetadataStruct (Some s) \<Rightarrow> rl_UnmarshalStruct rl s
      | _ \<Rightarrow> Inr [])"

definition ForEachSource :: "report_lib \<Rightarrow> opaque_metadata \<Rightarrow> (proxy_source \<Rightarrow> 's \<Rightarrow> 's erun) \<Rightarrow> 's \<Rightarrow> 's erun" where
  "ForEachSource rl meta fn s =
     (case GetSourceMeta rl meta of
        Inl e \<Rightarrow> Inr (Some (Wrapf ''getting obj metadata'' e), s)
      | Inr sources \<Rightarrow> for_each fn sources s)"

definition vhostMetadata :: "proxy_vhost option \<Rightarrow> opaque_metadata" where
  "vhostMetadata vh = (case vh of None \<Rightarrow> NoMetadata | Some vh \<Rightarrow> pvh_Metadata vh)"

section \<open>Results of the validation (add_proxy_validation_result.go)\<close>

definition invalidReportsListenersErr :: eris_error where
  "invalidReportsListenersErr = Errorf ''internal err: reports did not match number of listeners''"

definition invalidReportsVirtualHostsErr :: eris_error where
  "invalidReportsVirtualHostsErr = Errorf ''internal err: reports did not match number of virtual hosts''"

definition invalidReportsHybridRcNameNotFound :: eris_error where
  "invalidReportsHybridRcNameNotFound = Errorf ''internal err: reports did not match expected hybrid rcName''"

definition missingReportForSourceErr :: eris_error where
  "missingReportForSourceErr = Errorf ''internal err: missing resource report for source resource''"

definition getListenerLevelErrors :: "report_lib \<Rightarrow> vlistener_report option \<Rightarrow> eris_error list" where
  "getListenerLevelErrors rl r =
     GetListenerErr (getListenerReport r) @
     (case lrp_ListenerTypeReport (getListenerReport r) of
        Some (HttpListenerReport h) \<Rightarrow> GetHttpListenerErr h
      | Some (TcpListenerReport t) \<Rightarrow> GetTcpListenerErr t @ concat (map GetTcpHostErr (tlr_TcpHostReports t))
      | Some (HybridListenerReport m) \<Rightarrow>
          concat (map (\<lambda>mr. case mr of
              Some (MatchedHttpReport h) \<Rightarrow> GetHttpListenerErr h
            | Some (MatchedTcpReport t) \<Rightarrow> GetTcpListenerErr t @ concat (map GetTcpHostErr (tlr_TcpHostReports t))
            | None \<Rightarrow> []) (range_values rl m))
      | Some (AggregateListenerReport hs _) \<Rightarrow> concat (map GetHttpListenerErr (range_values rl hs))
      | None \<Rightarrow> [])"

definition getListenerLevelWarnings :: "vlistener_report option \<Rightarrow> string list" where
  "getListenerLevelWarnings r = GetListenerWarning (getListenerReport r)"

definition getVirtualHostLevelErrorsAndWarnings :: "vhost_report \<Rightarrow> eris_error list \<times> string list" where
  "getVirtualHostLevelErrorsAndWarnings v =
     (GetVirtualHostErr v @ concat (map GetRouteErr (vrp_RouteReports v)), concat (map GetRouteWarning (vrp_RouteReports v)))"

definition addToSource :: "report_lib \<Rightarrow> eris_error list \<Rightarrow> string list \<Rightarrow> proxy_source \<Rightarrow> resource_reports \<Rightarrow> resource_reports erun" where
  "addToSource rl errs warnings src reports =
     bind_out (deref (ps_ResourceRef src)) (\<lambda>ref.
       case fst (rl_Find rl reports (ps_ResourceKind src) ref) of
         None \<Rightarrow> Inr (Some missingReportForSourceErr, reports)
       | Some res \<Rightarrow> Inr (None, rl_AddWarnings rl (rl_AddErrors rl reports res errs) res warnings))"

definition addListenerResult :: "report_lib \<Rightarrow> proxy_listener \<Rightarrow> vlistener_report option \<Rightarrow> resource_reports \<Rightarrow> resource_reports erun" where
  "addListenerResult rl listener r reports =
     ForEachSource rl (pli_Metadata listener) (addToSource rl (getListenerLevelErrors rl r) (getListenerLevelWarnings r)) reports"

definition addVirtualHostResult :: "report_lib \<Rightarrow> proxy_vhost option \<Rightarrow> vhost_report \<Rightarrow> resource_reports \<Rightarrow> resource_reports erun" where
  "addVirtualHostResult rl vh v reports =
     (let (errs, warnings) = getVirtualHostLevelErrorsAndWarnings v
      in ForEachSource rl (vhostMetadata vh) (addToSource rl errs warnings) reports)"

text \<open>The loop over the virtual hosts, which the code has for each of the three kinds of listener that have some.\<close>

definition addVirtualHostResults ::
  "report_lib \<Rightarrow> proxy_vhost option list \<Rightarrow> vhost_report list \<Rightarrow> resource_reports \<Rightarrow> resource_reports erun" where
  "addVirtualHostResults rl vhs vhReports reports =
     (if length vhReports \<noteq> length vhs then Inr (Some invalidReportsVirtualHostsErr, reports)
      else for_each (\<lambda>(vh, v). addVirtualHostResult rl vh v) (zip vhs vhReports) reports)"

definition addHybridResults ::
  "report_lib \<Rightarrow> proxy_listener \<Rightarrow> (string \<rightharpoonup> matched_listener_report option) \<Rightarrow> resource_reports \<Rightarrow> resource_reports erun" where
  "addHybridResults rl listener matchedReports reports =
     (let mappedHttpListeners = foldl (\<lambda>m ml. m(MatchedRouteConfigName rl listener (pml_Matcher ml) \<mapsto> matchedHttpListener ml))
        Map.empty (GetMatchedListeners listener)
      in for_each (\<lambda>rcName reports.
           case matchedReports rcName of
             Some (Some (MatchedHttpReport h)) \<Rightarrow>
               (case mappedHttpListeners rcName of
                  None \<Rightarrow> Inr (Some invalidReportsHybridRcNameNotFound, reports)
                | Some httpListener \<Rightarrow> addVirtualHostResults rl (GetVirtualHosts httpListener) (hlr_VirtualHostReports h) reports)
           | _ \<Rightarrow> Inr (None, reports)) (rl_keys rl (dom matchedReports)) reports)"

text \<open>A listener that is not an aggregate listener has no virtual hosts and no filter chains here.\<close>

definition getAggregate :: "proxy_listener \<Rightarrow> proxy_aggregate_listener" where
  "getAggregate l =
     (case pli_ListenerType l of
        Some (PAggregate agg) \<Rightarrow> agg
      | _ \<Rightarrow> \<lparr>pag_VirtualHosts = Map.empty, pag_HttpOptions = Map.empty, pag_HttpFilterChains = [], pag_TcpListeners = []\<rparr>)"

definition addAggregateResults ::
  "report_lib \<Rightarrow> proxy_listener \<Rightarrow> (string \<rightharpoonup> http_listener_report) \<Rightarrow> resource_reports \<Rightarrow> resource_reports erun" where
  "addAggregateResults rl listener httpReports reports =
     (let agg = getAggregate listener;
          mappedVirtualHostRefs = foldl (\<lambda>m c. m(MatchedRouteConfigName rl listener (pfc_Matcher c) \<mapsto> pfc_VirtualHostRefs c))
            Map.empty (pag_HttpFilterChains agg)
      in for_each (\<lambda>key reports.
           case httpReports key of
             None \<Rightarrow> Inr (None, reports)
           | Some h \<Rightarrow>
               addVirtualHostResults rl
                 (chainVirtualHosts agg (case mappedVirtualHostRefs key of None \<Rightarrow> [] | Some refs \<Rightarrow> refs)) (hlr_VirtualHostReports h) reports)
           (rl_keys rl (dom httpReports)) reports)"

definition addListenerAndHosts ::
  "report_lib \<Rightarrow> proxy_listener \<Rightarrow> vlistener_report option \<Rightarrow> resource_reports \<Rightarrow> resource_reports erun" where
  "addListenerAndHosts rl listener r reports =
     and_then (addListenerResult rl listener r reports) (\<lambda>reports.
       case lrp_ListenerTypeReport (getListenerReport r) of
         Some (HttpListenerReport h) \<Rightarrow>
           addVirtualHostResults rl (GetVirtualHosts (GetHttpListener listener)) (hlr_VirtualHostReports h) reports
       | Some (HybridListenerReport m) \<Rightarrow> addHybridResults rl listener m reports
       | Some (AggregateListenerReport hs _) \<Rightarrow> addAggregateResults rl listener hs reports
       | _ \<Rightarrow> Inr (None, reports))"

definition AddProxyValidationResult ::
  "report_lib \<Rightarrow> proxy_listener list \<Rightarrow> vlistener_report option list \<Rightarrow> resource_reports \<Rightarrow> resource_reports erun" where
  "AddProxyValidationResult rl listeners listenerReports reports =
     (if length listenerReports \<noteq> length listeners then Inr (Some invalidReportsListenersErr, reports)
      else for_each (\<lambda>(l, r). addListenerAndHosts rl l r) (zip listeners listenerReports) reports)"

section \<open>Accepted sources (check_source_reports.go)\<close>

definition AllSourcesAccepted :: "report_lib \<Rightarrow> resource_reports \<Rightarrow> opaque_metadata \<Rightarrow> (eris_error + bool) outcome" where
  "AllSourcesAccepted rl reports meta =
     bind_out (ForEachSource rl meta (\<lambda>src accepted.
         bind_out (deref (ps_ResourceRef src)) (\<lambda>ref.
           Inr (None, if rrt_Errors (snd (rl_Find rl reports (ps_ResourceKind src) ref)) \<noteq> None then False else accepted))) True)
       (\<lambda>(err, accepted). Inr (case err of Some e \<Rightarrow> Inl e | None \<Rightarrow> Inr accepted))"

end
