(* ===== verification/EdgeReconciler.thy ===== *)
theory EdgeReconciler
  imports EdgeReports
begin

text \<open>
  The reconciler of proxies, \<open>projects/gateway/pkg/reconciler/proxy_reconciler.go\<close>, and the transition of
  \<open>projects/gateway/pkg/utils/proxy_transition_function.go\<close>. The proxies that a translation generates are validated, what comes
  from a rejected resource is taken out, and when a proxy replaces an older one, the parts of the older
  one whose sources are rejected now are kept in their place.

  The reconciler of \<open>solo-kit\<close> that writes the proxies and the client of their statuses are arguments.
\<close>

section \<open>Results\<close>

text \<open>A result of a function that can return an error.\<close>

type_synonym 'a eres = "(eris_error + 'a) outcome"

definition bind_res :: "'a eres \<Rightarrow> ('a \<Rightarrow> 'b eres) \<Rightarrow> 'b eres" where
  "bind_res m f = bind_out m (\<lambda>r. case r of Inl e \<Rightarrow> Inr (Inl e) | Inr a \<Rightarrow> f a)"

fun map_res :: "('a \<Rightarrow> 'b eres) \<Rightarrow> 'a list \<Rightarrow> 'b list eres" where
  "map_res f [] = Inr (Inr [])"
| "map_res f (x # xs) = bind_res (f x) (\<lambda>y. bind_res (map_res f xs) (\<lambda>ys. Inr (Inr (y # ys))))"

section \<open>Proxies\<close>

record stored_metadata =
  smd_Name :: string
  smd_Namespace :: string
  smd_Labels :: "string \<rightharpoonup> string"
  smd_Annotations :: "string \<rightharpoonup> string"

record stored_proxy =
  sp_Metadata :: stored_metadata
  sp_Listeners :: "proxy_listener list"
  sp_Status :: string
  sp_Other :: string

text \<open>An entry of the map from generated proxies to their reports; the entry stands for the pointer of the proxy.\<close>

record generated_proxy =
  gen_Proxy :: stored_proxy
  gen_Reports :: resource_reports

text \<open>The order on metadata, the comparison of hashes (equal, and whether both could be hashed), and the status
  client are from other modules.\<close>

record reconcile_lib =
  rcl_reports :: report_lib
  rcl_Less :: "stored_metadata \<Rightarrow> stored_metadata \<Rightarrow> bool"
  rcl_HashableEqual :: "stored_proxy \<Rightarrow> stored_proxy \<Rightarrow> bool \<times> bool"
  rcl_GetStatus :: "stored_proxy \<Rightarrow> string"
  rcl_SetStatus :: "stored_proxy \<Rightarrow> string \<Rightarrow> stored_proxy"

section \<open>Accepted listeners and virtual hosts\<close>

text \<open>The loops give what they call their function with.\<close>

definition forEachListener :: "report_lib \<Rightarrow> resource_reports \<Rightarrow> proxy_listener list \<Rightarrow> (proxy_listener \<times> bool) list eres" where
  "forEachListener rl reports listeners =
     map_res (\<lambda>lis. bind_res (AllSourcesAccepted rl reports (pli_Metadata lis)) (\<lambda>accepted. Inr (Inr (lis, accepted)))) listeners"

definition forEachVhost :: "report_lib \<Rightarrow> resource_reports \<Rightarrow> proxy_vhost option list \<Rightarrow> (proxy_vhost option \<times> bool) list eres" where
  "forEachVhost rl reports vhosts =
     map_res (\<lambda>vhost. bind_res (AllSourcesAccepted rl reports (vhostMetadata vhost)) (\<lambda>accepted. Inr (Inr (vhost, accepted)))) vhosts"

definition sortHosts :: "proxy_vhost option list \<Rightarrow> proxy_vhost option list" where
  "sortHosts vhosts = sort_stable (\<lambda>a b. GetName a < GetName b) vhosts"

definition sortListeners :: "proxy_listener list \<Rightarrow> proxy_listener list" where
  "sortListeners listeners = sort_stable (\<lambda>a b. pli_Name a < pli_Name b) listeners"

section \<open>Stripping what is hasErrors\<close>

definition validHostsFromHttpListener :: "report_lib \<Rightarrow> resource_reports \<Rightarrow> proxy_vhost option list \<Rightarrow> proxy_vhost option list eres" where
  "validHostsFromHttpListener rl reports vhosts =
     bind_res (forEachVhost rl reports vhosts) (\<lambda>vs. Inr (Inr (sortHosts (map fst (filter snd vs)))))"

definition stripHttpListener :: "report_lib \<Rightarrow> resource_reports \<Rightarrow> proxy_http_listener \<Rightarrow> proxy_http_listener eres" where
  "stripHttpListener rl reports h =
     bind_res (validHostsFromHttpListener rl reports (phl_VirtualHosts h)) (\<lambda>vs. Inr (Inr (h\<lparr>phl_VirtualHosts := vs\<rparr>)))"

definition stripMatchedListener :: "report_lib \<Rightarrow> resource_reports \<Rightarrow> proxy_matched_listener \<Rightarrow> proxy_matched_listener eres" where
  "stripMatchedListener rl reports ml =
     (case matchedHttpListener ml of
        None \<Rightarrow> Inr (Inr ml)
      | Some h \<Rightarrow> bind_res (stripHttpListener rl reports h) (\<lambda>h. Inr (Inr (ml\<lparr>pml_ListenerType := Some (PMatchedHttp h)\<rparr>))))"

definition stripFilterChain ::
  "report_lib \<Rightarrow> resource_reports \<Rightarrow> proxy_aggregate_listener \<Rightarrow> proxy_filter_chain \<Rightarrow> proxy_filter_chain eres" where
  "stripFilterChain rl reports agg c =
     bind_res (validHostsFromHttpListener rl reports (chainVirtualHosts agg (pfc_VirtualHostRefs c))) (\<lambda>vs.
       Inr (Inr (c\<lparr>pfc_VirtualHostRefs := map GetName vs\<rparr>)))"

definition stripListener :: "report_lib \<Rightarrow> resource_reports \<Rightarrow> proxy_listener \<Rightarrow> proxy_listener eres" where
  "stripListener rl reports lis =
     (case pli_ListenerType lis of
        Some (PHttp h) \<Rightarrow> bind_res (stripHttpListener rl reports h) (\<lambda>h. Inr (Inr (lis\<lparr>pli_ListenerType := Some (PHttp h)\<rparr>)))
      | Some (PHybrid mls) \<Rightarrow>
          bind_res (map_res (stripMatchedListener rl reports) mls) (\<lambda>mls. Inr (Inr (lis\<lparr>pli_ListenerType := Some (PHybrid mls)\<rparr>)))
      | Some (PAggregate agg) \<Rightarrow>
          bind_res (map_res (stripFilterChain rl reports agg) (pag_HttpFilterChains agg)) (\<lambda>cs.
            Inr (Inr (lis\<lparr>pli_ListenerType := Some (PAggregate (agg\<lparr>pag_HttpFilterChains := cs\<rparr>))\<rparr>)))
      | _ \<Rightarrow> Inr (Inr lis))"

text \<open>The virtual hosts of all listeners are stripped, also of those that are dropped.\<close>

definition stripListeners :: "report_lib \<Rightarrow> resource_reports \<Rightarrow> proxy_listener list \<Rightarrow> proxy_listener list eres" where
  "stripListeners rl reports listeners =
     bind_res (forEachListener rl reports listeners) (\<lambda>ls.
       bind_res (map_res (stripListener rl reports) listeners) (\<lambda>stripped.
         Inr (Inr (sortListeners (map snd (filter (\<lambda>((_, accepted), _). accepted) (zip ls stripped)))))))"

definition stripInvalidListenersAndVirtualHosts :: "report_lib \<Rightarrow> generated_proxy list \<Rightarrow> generated_proxy list eres" where
  "stripInvalidListenersAndVirtualHosts rl proxies =
     map_res (\<lambda>g. bind_res (stripListeners rl (gen_Reports g) (sp_Listeners (gen_Proxy g))) (\<lambda>ls.
       Inr (Inr (g\<lparr>gen_Proxy := (gen_Proxy g)\<lparr>sp_Listeners := ls\<rparr>\<rparr>)))) proxies"

section \<open>Transition from the proxy that is stored\<close>

definition updateDesiredStatus :: "reconcile_lib \<Rightarrow> stored_proxy \<Rightarrow> stored_proxy \<Rightarrow> stored_proxy" where
  "updateDesiredStatus lib original desired =
     (case rcl_HashableEqual lib original desired of
        (equal, ok) \<Rightarrow> if ok \<and> equal then rcl_SetStatus lib desired (rcl_GetStatus lib original) else desired)"

text \<open>Whether the proxy has to be written, and the proxy that is written.\<close>

definition TransitionFunction :: "reconcile_lib \<Rightarrow> stored_proxy \<Rightarrow> stored_proxy \<Rightarrow> bool \<times> stored_proxy" where
  "TransitionFunction lib original desired =
     (if length (sp_Listeners original) \<noteq> length (sp_Listeners desired)
      then (True, updateDesiredStatus lib original desired)
      else if list_ex (\<lambda>(a, b). a \<noteq> b) (zip (sp_Listeners original) (sp_Listeners desired))
      then (True, updateDesiredStatus lib original desired)
      else (False, desired))"

definition copyRejectedVirtualHosts ::
  "report_lib \<Rightarrow> resource_reports \<Rightarrow> proxy_http_listener option \<Rightarrow> proxy_http_listener \<Rightarrow> proxy_http_listener eres" where
  "copyRejectedVirtualHosts rl reports original desired =
     bind_res (forEachVhost rl reports (GetVirtualHosts original)) (\<lambda>vs.
       Inr (Inr (desired\<lparr>phl_VirtualHosts := sortHosts (phl_VirtualHosts desired @ map fst (filter (Not \<circ> snd) vs))\<rparr>)))"

text \<open>The last matched listener of the original with the same matcher counts.\<close>

definition originalMatched :: "proxy_matched_listener list \<Rightarrow> gw_matcher option \<Rightarrow> proxy_http_listener option" where
  "originalMatched originals matcher =
     foldl (\<lambda>acc oml. if pml_Matcher oml = matcher then matchedHttpListener oml else acc) None originals"

definition transitionMatched ::
  "report_lib \<Rightarrow> resource_reports \<Rightarrow> proxy_matched_listener list \<Rightarrow> proxy_matched_listener \<Rightarrow> proxy_matched_listener eres" where
  "transitionMatched rl reports originals ml =
     (case matchedHttpListener ml of
        None \<Rightarrow> Inr (Inr ml)
      | Some h \<Rightarrow>
          bind_res (copyRejectedVirtualHosts rl reports (originalMatched originals (pml_Matcher ml)) h) (\<lambda>h.
            Inr (Inr (ml\<lparr>pml_ListenerType := Some (PMatchedHttp h)\<rparr>))))"

definition transitionListener ::
  "report_lib \<Rightarrow> resource_reports \<Rightarrow> proxy_listener list \<Rightarrow> proxy_listener \<Rightarrow> proxy_listener eres" where
  "transitionListener rl reports originals desired =
     (case List.find (\<lambda>orig. pli_Name orig = pli_Name desired) originals of
        None \<Rightarrow> Inr (Inr desired)
      | Some original \<Rightarrow>
          (case pli_ListenerType desired of
             Some (PHttp h) \<Rightarrow>
               bind_res (copyRejectedVirtualHosts rl reports (GetHttpListener original) h) (\<lambda>h.
                 Inr (Inr (desired\<lparr>pli_ListenerType := Some (PHttp h)\<rparr>)))
           | Some (PHybrid mls) \<Rightarrow>
               bind_res (map_res (transitionMatched rl reports (GetMatchedListeners original)) mls) (\<lambda>mls.
                 Inr (Inr (desired\<lparr>pli_ListenerType := Some (PHybrid mls)\<rparr>)))
           | _ \<Rightarrow> Inr (Inr desired)))"

definition transitionListeners ::
  "report_lib \<Rightarrow> resource_reports \<Rightarrow> proxy_listener list \<Rightarrow> proxy_listener list \<Rightarrow> proxy_listener list eres" where
  "transitionListeners rl reports originals desired =
     bind_res (map_res (transitionListener rl reports originals) desired) (\<lambda>ds.
       bind_res (forEachListener rl reports originals) (\<lambda>ls.
         Inr (Inr (sortListeners (ds @ map fst (filter (Not \<circ> snd) ls))))))"

definition transitionFunc :: "reconcile_lib \<Rightarrow> stored_proxy \<Rightarrow> generated_proxy \<Rightarrow> (bool \<times> stored_proxy) eres" where
  "transitionFunc lib original desired =
     bind_res (transitionListeners (rcl_reports lib) (gen_Reports desired) (sp_Listeners original) (sp_Listeners (gen_Proxy desired)))
       (\<lambda>ls. Inr (Inr (TransitionFunction lib original ((gen_Proxy desired)\<lparr>sp_Listeners := ls\<rparr>))))"

section \<open>Reconciliation\<close>

definition proxyValidationErrMsg :: string where
  "proxyValidationErrMsg = ''internal err: communication with proxy validation (gloo) failed''"

text \<open>The validation of one proxy: the reports of the listeners for each report of the response. The run of
  \<open>ValidateStrict\<close> beside it only decides a line of the log.\<close>

definition addProxyValidationResult1 ::
  "report_lib \<Rightarrow> (stored_proxy \<Rightarrow> eris_error + vlistener_report option list list) \<Rightarrow> generated_proxy \<Rightarrow> generated_proxy eres" where
  "addProxyValidationResult1 rl validate g =
     (case validate (gen_Proxy g) of
        Inl e \<Rightarrow> Inr (Inl (Wrapf proxyValidationErrMsg e))
      | Inr [listenerReports] \<Rightarrow>
          bind_out (AddProxyValidationResult rl (sp_Listeners (gen_Proxy g)) listenerReports (gen_Reports g)) (\<lambda>(err, reports).
            Inr (case err of Some e \<Rightarrow> Inl e | None \<Rightarrow> Inr (g\<lparr>gen_Reports := reports\<rparr>)))
      | Inr rs \<Rightarrow> Inr (Inl (Errorf (''Expected Gloo validation response to contain 1 report, but contained '' @ show_nat (length rs)))))"

definition addProxyValidationResults ::
  "report_lib \<Rightarrow> (stored_proxy \<Rightarrow> eris_error + vlistener_report option list list) option \<Rightarrow> generated_proxy list \<Rightarrow> generated_proxy list eres" where
  "addProxyValidationResults rl proxyValidator proxies =
     (case proxyValidator of
        None \<Rightarrow> Inr (Inr proxies)
      | Some validate \<Rightarrow> map_res (addProxyValidationResult1 rl validate) proxies)"

text \<open>The maps are given as lists of their entries in the order that a loop visits them; \<open>reorder\<close> is the order
  of the second loop. The base reconciler gets the sorted proxies and the transition function; what it
  writes is the state \<open>w\<close>. The reports that the validation wrote to are part of the result.\<close>

definition proxyReconciler_ReconcileProxies ::
  "reconcile_lib \<Rightarrow> (stored_proxy \<Rightarrow> eris_error + vlistener_report option list list) option \<Rightarrow>
   (generated_proxy list \<Rightarrow> generated_proxy list) \<Rightarrow>
   (string \<Rightarrow> generated_proxy list \<Rightarrow> (stored_proxy \<Rightarrow> generated_proxy \<Rightarrow> (bool \<times> stored_proxy) eres) \<Rightarrow> 'o \<Rightarrow> 'w \<Rightarrow> 'w erun) \<Rightarrow>
   generated_proxy list \<Rightarrow> string \<Rightarrow> 'o \<Rightarrow> 'w \<Rightarrow> (generated_proxy list \<times> 'w) erun" where
  "proxyReconciler_ReconcileProxies lib proxyValidator reorder baseReconcile proxies writeNamespace opts w =
     bind_out (addProxyValidationResults (rcl_reports lib) proxyValidator proxies) (\<lambda>r. case r of
       Inl e \<Rightarrow> Inr (Some (Wrapf ''failed to add proxy validation results to reports'' e), (proxies, w))
     | Inr proxies \<Rightarrow>
         bind_out (stripInvalidListenersAndVirtualHosts (rcl_reports lib) proxies) (\<lambda>r. case r of
           Inl e \<Rightarrow> Inr (Some e, (proxies, w))
         | Inr stripped \<Rightarrow>
             let allProxies = sort_stable (\<lambda>a b. rcl_Less lib (sp_Metadata (gen_Proxy a)) (sp_Metadata (gen_Proxy b))) (reorder stripped)
             in bind_out (baseReconcile writeNamespace allProxies (transitionFunc lib) opts w) (\<lambda>(err, w). Inr (err, (proxies, w)))))"

end
