(* ===== verification/EdgeTranslator.thy ===== *)
theory EdgeTranslator
  imports EdgeListeners
begin

text \<open>
  Hybrid and aggregate listeners, and the translation of a set of gateways into a proxy:
  \<open>ssl_configuration.go\<close>, \<open>hybrid_translator.go\<close>, \<open>aggregate_translator.go\<close>, \<open>predicate.go\<close>, \<open>translator.go\<close> of
  \<open>projects/gateway/pkg/translator\<close> and \<open>projects/gateway/pkg/utils/gateway_filtering.go\<close>.
\<close>

section \<open>Virtual services by TLS configuration (ssl_configuration.go)\<close>

definition hashSslConfig :: "edge_libs \<Rightarrow> edge_ssl \<Rightarrow> string" where
  "hashSslConfig lib cfg = show_nat (unat (el_HashSsl lib (cfg\<lparr>essl_SniDomains := []\<rparr>)))"

text \<open>\<open>merge\<close>: the new values that are not among the values there were before.\<close>

definition mergeValues :: "string list \<Rightarrow> string list \<Rightarrow> string list" where
  "mergeValues values newValues = values @ filter (\<lambda>v. v \<notin> set values) newValues"

record ssl_groups =
  sgr_merged :: "string \<rightharpoonup> edge_ssl"
  sgr_grouped :: "string \<rightharpoonup> nat list"

definition mergeSniDomains :: "edge_ssl \<Rightarrow> edge_ssl \<Rightarrow> edge_ssl" where
  "mergeSniDomains matchingCfg sslConfig =
     (if essl_SniDomains matchingCfg = [] \<or> essl_SniDomains sslConfig = [] then matchingCfg\<lparr>essl_SniDomains := []\<rparr>
      else matchingCfg\<lparr>essl_SniDomains := mergeValues (essl_SniDomains matchingCfg) (essl_SniDomains sslConfig)\<rparr>)"

text \<open>A virtual service without TLS configuration would be a dereference of nil.\<close>

definition groupVirtualService :: "edge_libs \<Rightarrow> virtual_service list \<Rightarrow> nat \<Rightarrow> ssl_groups \<Rightarrow> ssl_groups outcome" where
  "groupVirtualService lib vss i g =
     bind_out (deref (vsv_SslConfig (vss ! i))) (\<lambda>cfg.
       let hash = hashSslConfig lib cfg
       in case sgr_merged g hash of
            Some matchingCfg \<Rightarrow>
              Inr (g\<lparr>sgr_merged := (sgr_merged g)(hash \<mapsto> mergeSniDomains matchingCfg cfg),
                     sgr_grouped := (sgr_grouped g)(hash \<mapsto> (case sgr_grouped g hash of None \<Rightarrow> [] | Some l \<Rightarrow> l) @ [i])\<rparr>)
          | None \<Rightarrow> Inr (g\<lparr>sgr_merged := (sgr_merged g)(hash \<mapsto> cfg), sgr_grouped := (sgr_grouped g)(hash \<mapsto> [i])\<rparr>))"

definition GroupVirtualServicesBySslConfig ::
  "edge_libs \<Rightarrow> virtual_service list \<Rightarrow> nat list \<Rightarrow> (edge_ssl \<times> nat list) list outcome" where
  "GroupVirtualServicesBySslConfig lib vss virtualServices =
     bind_out (fold_out (groupVirtualService lib vss) virtualServices \<lparr>sgr_merged = Map.empty, sgr_grouped = Map.empty\<rparr>) (\<lambda>g.
       Inr (map (\<lambda>hash. (the (sgr_merged g hash), case sgr_grouped g hash of None \<Rightarrow> [] | Some l \<Rightarrow> l))
         (sort_stable (<) (el_keys lib (sgr_grouped g)))))"

section \<open>Hybrid listeners (hybrid_translator.go)\<close>

definition computeHybridMatched ::
  "gw_env \<Rightarrow> string \<Rightarrow> nat \<Rightarrow> edge_gateway \<Rightarrow> matched_gateway \<Rightarrow> matched_listener list \<times> edge_state \<Rightarrow>
   (matched_listener list \<times> edge_state) outcome" where
  "computeHybridMatched env proxyName i gw mg = (\<lambda>(listeners, st).
     let m = getMatcher (mg_Matcher mg); matcher = m\<lparr>gm_PassthroughCipherSuites := []\<rparr>
     in case mg_GatewayType mg of
          Some (MatchedHttp httpGateway) \<Rightarrow>
            if est_VirtualServices st = [] \<and> \<not> translateEmpty env then Inr (listeners, st)
            else let sslGateway = gm_SslConfig m \<noteq> None;
                     (virtualServices, st) = selectVirtualServices env i (getHttp httpGateway) sslGateway st
                 in bind_out (hostsFor env i gw proxyName virtualServices st) (\<lambda>(hosts, st).
                      Inr (listeners @ [\<lparr>ml_Matcher = matcher,
                        ml_ListenerType = Some (MatchedHttpListener \<lparr>ehl_VirtualHosts = hosts, ehl_Options = hgw_Options (getHttp httpGateway)\<rparr>),
                        ml_SslConfigurations =
                          (if sslGateway then map (\<lambda>v. vsv_SslConfig (est_VirtualServices st ! v)) virtualServices else [])\<rparr>], st))
        | Some (MatchedTcp tcpGateway) \<Rightarrow>
            Inr (listeners @ [\<lparr>ml_Matcher = m, ml_ListenerType = Some (MatchedTcpListenerType (ComputeTcpListener tcpGateway)),
                   ml_SslConfigurations = []\<rparr>],
                 addReports (validateTcpHosts i tcpGateway (gm_SslConfig m)) st)
        | None \<Rightarrow> Inr (listeners @ [\<lparr>ml_Matcher = matcher, ml_ListenerType = None, ml_SslConfigurations = []\<rparr>], st))"

definition computeMatchedHttpListener ::
  "gw_env \<Rightarrow> string \<Rightarrow> nat \<Rightarrow> edge_gateway \<Rightarrow> matchable_http_gateway \<Rightarrow> matched_listener list \<times> edge_state \<Rightarrow>
   (matched_listener list \<times> edge_state) outcome" where
  "computeMatchedHttpListener env proxyName i parent g = (\<lambda>(listeners, st).
     let lib = ve_libs (ge_vs env); m = getMatcher (mhg_Matcher g); sslGateway = gm_SslConfig m \<noteq> None;
         (options, st) = reconcileGatewayLevelHCMConfig lib parent g st;
         sslConfig = (if sslGateway then reconcileGatewayLevelSslConfig lib parent g else None);
         (virtualServices, st) = selectVirtualServices env i (getHttp (mhg_HttpGateway g)) sslGateway st
     in bind_out (hostsFor env i parent proxyName virtualServices st) (\<lambda>(hosts, st).
          Inr (listeners @ [\<lparr>ml_Matcher = \<lparr>gm_SslConfig = sslConfig, gm_SourcePrefixRanges = gm_SourcePrefixRanges m,
                   gm_PassthroughCipherSuites = []\<rparr>,
                 ml_ListenerType = Some (MatchedHttpListener \<lparr>ehl_VirtualHosts = hosts, ehl_Options = Some options\<rparr>),
                 ml_SslConfigurations =
                   (if sslGateway then map (\<lambda>v. vsv_SslConfig (est_VirtualServices st ! v)) virtualServices else [])\<rparr>], st)))"

definition computeMatchedTcpListener :: "nat \<Rightarrow> matchable_tcp_gateway \<Rightarrow> matched_listener \<times> edge_report list" where
  "computeMatchedTcpListener i g =
     (let m = getMatcher (mtg_Matcher g)
      in (\<lparr>ml_Matcher = m, ml_ListenerType = Some (MatchedTcpListenerType (ComputeTcpListener (mtg_TcpGateway g))),
           ml_SslConfigurations = []\<rparr>, validateTcpHosts i (mtg_TcpGateway g) (gm_SslConfig m)))"

definition computeHybridListenerFromDelegatedGateways ::
  "gw_env \<Rightarrow> string \<Rightarrow> nat \<Rightarrow> edge_gateway \<Rightarrow> hybrid_gateway \<Rightarrow> edge_state \<Rightarrow> (matched_listener list \<times> edge_state) outcome" where
  "computeHybridListenerFromDelegatedGateways env proxyName i gw hybrid st =
     (let (https, rs) = SelectMatchableHttpGateways env i (hyb_DelegatedHttpGateways hybrid);
          (tcps, rs') = SelectMatchableTcpGateways env i (hyb_DelegatedTcpGateways hybrid);
          st = addReports (rs @ rs') st
      in bind_out (fold_out (computeMatchedHttpListener env proxyName i gw) https ([], st)) (\<lambda>(listeners, st).
           Inr (listeners @ map (\<lambda>g. fst (computeMatchedTcpListener i g)) tcps,
                addReports (concat (map (\<lambda>g. snd (computeMatchedTcpListener i g)) tcps)) st)))"

definition HybridTranslator_ComputeListener ::
  "gw_env \<Rightarrow> string \<Rightarrow> nat \<Rightarrow> edge_gateway \<Rightarrow> edge_state \<Rightarrow> (edge_listener option \<times> edge_state) outcome" where
  "HybridTranslator_ComputeListener env proxyName i gw st =
     (case egw_GatewayType gw of
        Some (HybridGatewayType (Some hybrid)) \<Rightarrow>
          (case hyb_MatchedGateways hybrid of
             Some mgs \<Rightarrow>
               bind_out (fold_out (computeHybridMatched env proxyName i gw) mgs ([], st)) (\<lambda>(listeners, st).
                 if listeners = [] then Inr (None, addReports [AddError (GatewayRes i) EmptyHybridGatewayErr] st)
                 else Inr (Some (makeListener env i gw (EdgeHybridListener listeners) []), st))
           | None \<Rightarrow>
               if hyb_DelegatedHttpGateways hybrid = None \<and> hyb_DelegatedTcpGateways hybrid = None then Inr (None, st)
               else bind_out (computeHybridListenerFromDelegatedGateways env proxyName i gw hybrid st) (\<lambda>(listeners, st).
                 if listeners = [] then Inr (None, addReports [AddWarning (GatewayRes i) EmptyHybridGatewayErr] st)
                 else Inr (Some (makeListener env i gw (EdgeHybridListener listeners) []), st)))
      | _ \<Rightarrow> Inr (None, st))"

section \<open>Aggregate listeners (aggregate_translator.go)\<close>

definition newBuilder :: aggregate_listener where
  "newBuilder = \<lparr>agl_VirtualHosts = Map.empty, agl_HttpOptions = Map.empty, agl_HttpFilterChains = [], agl_TcpListeners = []\<rparr>"

text \<open>The hash is converted to a signed integer before it is printed.\<close>

definition HashAndStoreHttpOptions_at ::
  "edge_libs \<Rightarrow> nat option \<Rightarrow> edge_state \<Rightarrow> (string \<rightharpoonup> nat option) \<Rightarrow> string \<times> (string \<rightharpoonup> nat option)" where
  "HashAndStoreHttpOptions_at lib httpOptions st byName =
     (let ref = Itoa (sint (el_HashHttpOptions lib (map_option (est_HttpOptions st) httpOptions)))
      in (ref, byName(ref \<mapsto> httpOptions)))"

definition addHttpFilterChain ::
  "edge_libs \<Rightarrow> edge_state \<Rightarrow> mem_vhost list \<Rightarrow> nat option \<Rightarrow> gw_matcher option \<Rightarrow> aggregate_listener \<Rightarrow> aggregate_listener" where
  "addHttpFilterChain lib st virtualHosts httpOptions matcher b =
     (let (ref, httpOptionsByName) = HashAndStoreHttpOptions_at lib httpOptions st (agl_HttpOptions b)
      in b\<lparr>agl_HttpOptions := httpOptionsByName,
           agl_VirtualHosts := foldl (\<lambda>m vh. m(mvh_Name vh \<mapsto> vh)) (agl_VirtualHosts b) virtualHosts,
           agl_HttpFilterChains := agl_HttpFilterChains b @
             [\<lparr>efc_Matcher = matcher, efc_HttpOptionsRef = ref, efc_VirtualHostRefs = map mvh_Name virtualHosts\<rparr>]\<rparr>)"

text \<open>The loop over the TLS configurations of a gateway; \<open>matcherOf\<close> makes the matcher of a filter chain.\<close>

definition addSslChain ::
  "gw_env \<Rightarrow> string \<Rightarrow> nat \<Rightarrow> edge_gateway \<Rightarrow> nat option \<Rightarrow> (edge_ssl \<Rightarrow> gw_matcher) \<Rightarrow> edge_ssl \<times> nat list \<Rightarrow>
   aggregate_listener \<times> edge_state \<Rightarrow> (aggregate_listener \<times> edge_state) outcome" where
  "addSslChain env proxyName i gw httpOptions matcherOf = (\<lambda>(cfg, virtualServices) (b, st).
     bind_out (hostsFor env i gw proxyName virtualServices st) (\<lambda>(hosts, st).
       Inr (addHttpFilterChain (ve_libs (ge_vs env)) st hosts httpOptions (Some (matcherOf cfg)) b, st)))"

definition addSslChains ::
  "gw_env \<Rightarrow> string \<Rightarrow> nat \<Rightarrow> edge_gateway \<Rightarrow> nat option \<Rightarrow> (edge_ssl \<Rightarrow> gw_matcher) \<Rightarrow> nat list \<Rightarrow>
   aggregate_listener \<times> edge_state \<Rightarrow> (aggregate_listener \<times> edge_state) outcome" where
  "addSslChains env proxyName i gw httpOptions matcherOf virtualServices = (\<lambda>(b, st).
     bind_out (GroupVirtualServicesBySslConfig (ve_libs (ge_vs env)) (est_VirtualServices st) virtualServices) (\<lambda>groups.
       fold_out (addSslChain env proxyName i gw httpOptions matcherOf) groups (b, st)))"

definition addPlainChain ::
  "gw_env \<Rightarrow> string \<Rightarrow> nat \<Rightarrow> edge_gateway \<Rightarrow> nat option \<Rightarrow> gw_matcher option \<Rightarrow> nat list \<Rightarrow>
   aggregate_listener \<times> edge_state \<Rightarrow> (aggregate_listener \<times> edge_state) outcome" where
  "addPlainChain env proxyName i gw httpOptions matcher virtualServices = (\<lambda>(b, st).
     bind_out (hostsFor env i gw proxyName virtualServices st) (\<lambda>(hosts, st).
       Inr (addHttpFilterChain (ve_libs (ge_vs env)) st hosts httpOptions matcher b, st)))"

definition computeAggregateListenerForHttpGateway ::
  "gw_env \<Rightarrow> string \<Rightarrow> nat \<Rightarrow> edge_gateway \<Rightarrow> http_gateway \<Rightarrow> edge_state \<Rightarrow> (aggregate_listener \<times> edge_state) outcome" where
  "computeAggregateListenerForHttpGateway env proxyName i gw httpGateway st =
     (let (virtualServices, st) = selectVirtualServices env i httpGateway (egw_Ssl gw) st
      in if egw_Ssl gw
         then addSslChains env proxyName i gw (hgw_Options httpGateway)
           (\<lambda>cfg. \<lparr>gm_SslConfig = Some cfg, gm_SourcePrefixRanges = [], gm_PassthroughCipherSuites = []\<rparr>) virtualServices (newBuilder, st)
         else addPlainChain env proxyName i gw (hgw_Options httpGateway) None virtualServices (newBuilder, st))"

definition addTcpListener :: "gw_matcher \<Rightarrow> tcp_gateway option \<Rightarrow> aggregate_listener \<Rightarrow> aggregate_listener" where
  "addTcpListener m g b =
     b\<lparr>agl_TcpListeners := agl_TcpListeners b @ [\<lparr>mtl_Matcher = m, mtl_TcpListener = ComputeTcpListener g\<rparr>]\<rparr>"

text \<open>The matcher of a filter chain of a matched or delegated gateway: the configuration of the virtual services is merged
  into that of the gateway.\<close>

definition chainMatcher :: "edge_libs \<Rightarrow> edge_ssl option \<Rightarrow> gw_matcher \<Rightarrow> edge_ssl \<Rightarrow> gw_matcher" where
  "chainMatcher lib gatewaySsl m vsSslConfig =
     \<lparr>gm_SslConfig = mergeSslConfig lib gatewaySsl (Some vsSslConfig) False,
      gm_SourcePrefixRanges = gm_SourcePrefixRanges m, gm_PassthroughCipherSuites = []\<rparr>"

definition plainMatcher :: "gw_matcher \<Rightarrow> gw_matcher" where
  "plainMatcher m = \<lparr>gm_SslConfig = None, gm_SourcePrefixRanges = gm_SourcePrefixRanges m, gm_PassthroughCipherSuites = []\<rparr>"

definition computeAggregateMatched ::
  "gw_env \<Rightarrow> string \<Rightarrow> nat \<Rightarrow> edge_gateway \<Rightarrow> matched_gateway \<Rightarrow> aggregate_listener \<times> edge_state \<Rightarrow>
   (aggregate_listener \<times> edge_state) outcome" where
  "computeAggregateMatched env proxyName i gw mg = (\<lambda>(b, st).
     let m = getMatcher (mg_Matcher mg)
     in case mg_GatewayType mg of
          Some (MatchedTcp tcpGateway) \<Rightarrow> Inr (addTcpListener m tcpGateway b, st)
        | Some (MatchedHttp g) \<Rightarrow>
            let httpGateway = getHttp g;
                (virtualServices, st) = selectVirtualServices env i httpGateway (gm_SslConfig m \<noteq> None) st
            in if gm_SslConfig m \<noteq> None
               then addSslChains env proxyName i gw (hgw_Options httpGateway)
                 (chainMatcher (ve_libs (ge_vs env)) (gm_SslConfig m) m) virtualServices (b, st)
               else addPlainChain env proxyName i gw (hgw_Options httpGateway) (Some (plainMatcher m)) virtualServices (b, st)
        | None \<Rightarrow> Inr (b, st))"

definition processMatchableHttpGateway ::
  "gw_env \<Rightarrow> string \<Rightarrow> nat \<Rightarrow> edge_gateway \<Rightarrow> matchable_http_gateway \<Rightarrow> aggregate_listener \<times> edge_state \<Rightarrow>
   (aggregate_listener \<times> edge_state) outcome" where
  "processMatchableHttpGateway env proxyName i parent g = (\<lambda>(b, st).
     let lib = ve_libs (ge_vs env); m = getMatcher (mhg_Matcher g); sslGateway = gm_SslConfig m \<noteq> None;
         (options, st) = reconcileGatewayLevelHCMConfig lib parent g st;
         sslConfig = (if sslGateway then reconcileGatewayLevelSslConfig lib parent g else None);
         (virtualServices, st) = selectVirtualServices env i (getHttp (mhg_HttpGateway g)) sslGateway st
     in if sslGateway
        then addSslChains env proxyName i parent (Some options) (chainMatcher lib sslConfig m) virtualServices (b, st)
        else addPlainChain env proxyName i parent (Some options) (Some (plainMatcher m)) virtualServices (b, st))"

definition processMatchableTcpGateway ::
  "nat \<Rightarrow> aggregate_listener \<times> edge_state \<Rightarrow> matchable_tcp_gateway \<Rightarrow> aggregate_listener \<times> edge_state" where
  "processMatchableTcpGateway i = (\<lambda>(b, st) g.
     let m = getMatcher (mtg_Matcher g)
     in (addTcpListener m (mtg_TcpGateway g) b, addReports (validateTcpHosts i (mtg_TcpGateway g) (gm_SslConfig m)) st))"

text \<open>No selected gateway gives no listener, which has no filter chains.\<close>

definition computeListenerFromDelegatedGateway ::
  "gw_env \<Rightarrow> string \<Rightarrow> nat \<Rightarrow> edge_gateway \<Rightarrow> hybrid_gateway \<Rightarrow> edge_state \<Rightarrow> (aggregate_listener option \<times> edge_state) outcome" where
  "computeListenerFromDelegatedGateway env proxyName i gw hybrid st =
     (let (https, rs) = SelectMatchableHttpGateways env i (hyb_DelegatedHttpGateways hybrid);
          (tcps, rs') = SelectMatchableTcpGateways env i (hyb_DelegatedTcpGateways hybrid);
          st = addReports (rs @ rs') st
      in if https = [] \<and> tcps = [] then Inr (None, st)
         else bind_out (fold_out (processMatchableHttpGateway env proxyName i gw) https (newBuilder, st)) (\<lambda>s.
           let (b, st) = foldl (processMatchableTcpGateway i) s tcps in Inr (Some b, st)))"

definition computeAggregateListenerForHybridGateway ::
  "gw_env \<Rightarrow> string \<Rightarrow> nat \<Rightarrow> edge_gateway \<Rightarrow> hybrid_gateway \<Rightarrow> edge_state \<Rightarrow> (aggregate_listener option \<times> edge_state) outcome" where
  "computeAggregateListenerForHybridGateway env proxyName i gw hybrid st =
     (case hyb_MatchedGateways hybrid of
        Some mgs \<Rightarrow>
          bind_out (fold_out (computeAggregateMatched env proxyName i gw) mgs (newBuilder, st)) (\<lambda>(b, st).
            if agl_HttpFilterChains b = [] then Inr (None, addReports [AddError (GatewayRes i) EmptyHybridGatewayErr] st)
            else Inr (Some b, st))
      | None \<Rightarrow>
          if hyb_DelegatedHttpGateways hybrid = None \<and> hyb_DelegatedTcpGateways hybrid = None then Inr (None, st)
          else bind_out (computeListenerFromDelegatedGateway env proxyName i gw hybrid st) (\<lambda>(b, st).
            case b of
              Some b \<Rightarrow>
                if agl_HttpFilterChains b = [] \<and> agl_TcpListeners b = []
                then Inr (None, addReports [AddWarning (GatewayRes i) EmptyHybridGatewayErr] st) else Inr (Some b, st)
            | None \<Rightarrow> Inr (None, addReports [AddWarning (GatewayRes i) EmptyHybridGatewayErr] st)))"

text \<open>The early return of a hybrid gateway: no virtual services, no delegated gateways and no TCP gateway.\<close>

definition hasTcpMatched :: "hybrid_gateway \<Rightarrow> bool" where
  "hasTcpMatched hybrid =
     (case hyb_MatchedGateways hybrid of
        None \<Rightarrow> False
      | Some mgs \<Rightarrow> list_ex (\<lambda>mg. case mg_GatewayType mg of Some (MatchedTcp (Some _)) \<Rightarrow> True | _ \<Rightarrow> False) mgs)"

definition AggregateTranslator_ComputeListener ::
  "gw_env \<Rightarrow> string \<Rightarrow> nat \<Rightarrow> edge_gateway \<Rightarrow> edge_state \<Rightarrow> (edge_listener option \<times> edge_state) outcome" where
  "AggregateTranslator_ComputeListener env proxyName i gw st =
     bind_out
       (case egw_GatewayType gw of
          Some (HttpGatewayType g) \<Rightarrow>
            if est_VirtualServices st = [] \<and> \<not> translateEmpty env then Inr (None, st)
            else bind_out (computeAggregateListenerForHttpGateway env proxyName i gw (getHttp g) st) (\<lambda>(b, st). Inr (Some b, st))
        | Some (HybridGatewayType h) \<Rightarrow>
            let hybrid = getHybrid h;
                hasDelegatedGateways = (hyb_DelegatedTcpGateways hybrid \<noteq> None \<or> hyb_DelegatedHttpGateways hybrid \<noteq> None)
            in if est_VirtualServices st = [] \<and> \<not> hasDelegatedGateways \<and> \<not> hasTcpMatched hybrid \<and> \<not> translateEmpty env
               then Inr (None, st)
               else computeAggregateListenerForHybridGateway env proxyName i gw hybrid st
        | _ \<Rightarrow> Inr (None, st))
       (\<lambda>(b, st). Inr (map_option (\<lambda>b. makeListener env i gw (EdgeAggregateListener b) []) b, st))"

section \<open>Gateways of a proxy (predicate.go, gateway_filtering.go)\<close>

datatype gw_predicate = SingleNamespacePredicate string | AllNamespacesPredicate

fun ReadGateway :: "gw_predicate \<Rightarrow> edge_gateway \<Rightarrow> bool" where
  "ReadGateway (SingleNamespacePredicate ns) gw = (em_Namespace (egw_Metadata gw) = ns)"
| "ReadGateway AllNamespacesPredicate gw = True"

definition GetPredicate :: "string \<Rightarrow> bool \<Rightarrow> gw_predicate" where
  "GetPredicate writeNamespace readGatewaysFromAllNamespaces =
     (if readGatewaysFromAllNamespaces then AllNamespacesPredicate else SingleNamespacePredicate writeNamespace)"

definition FilterGateways :: "edge_gateway list \<Rightarrow> gw_predicate \<Rightarrow> nat list" where
  "FilterGateways gateways predicate = filter (\<lambda>i. ReadGateway predicate (gateways ! i)) [0..<length gateways]"

definition GetProxyNamesForGateway :: "edge_gateway \<Rightarrow> string list" where
  "GetProxyNamesForGateway gw = (if egw_ProxyNames gw = [] then [''gateway-proxy''] else egw_ProxyNames gw)"

definition GatewaysByProxyName :: "edge_gateway list \<Rightarrow> (string \<rightharpoonup> nat list)" where
  "GatewaysByProxyName gateways =
     foldl (\<lambda>m i. foldl (addToKey i) m (GetProxyNamesForGateway (gateways ! i))) Map.empty [0..<length gateways]"

definition SortedGatewaysByProxyName :: "edge_libs \<Rightarrow> edge_gateway list \<Rightarrow> (string \<times> nat list) list" where
  "SortedGatewaysByProxyName lib gateways =
     (let byName = GatewaysByProxyName gateways
      in sort_stable (\<lambda>a b. fst a < fst b)
           (map (\<lambda>name. (name, case byName name of None \<Rightarrow> [] | Some l \<Rightarrow> l)) (el_keys lib byName)))"

section \<open>The translator (translator.go)\<close>

text \<open>\<open>strconv.ParseBool\<close>\<close>

definition ParseBool :: "string \<Rightarrow> bool option" where
  "ParseBool s =
     (if s \<in> {''1'', ''t'', ''T'', ''true'', ''TRUE'', ''True''} then Some True
      else if s \<in> {''0'', ''f'', ''F'', ''false'', ''FALSE'', ''False''} then Some False
      else None)"

abbreviation IsolateVirtualHostsAnnotation :: string where
  "IsolateVirtualHostsAnnotation \<equiv> ''gateway.solo.io/isolate_vhost''"

record edge_translator =
  gt_writeNamespace :: string
  gt_predicate :: gw_predicate
  gt_isolateVirtualHostsBySslConfig :: bool

text \<open>The options that the translator is made from; the options of the validation may be nil.\<close>

record edge_opts =
  eop_WriteNamespace :: string
  eop_ReadGatewaysFromAllNamespaces :: bool
  eop_WarnOnRouteShortCircuiting :: "bool option"
  eop_IsolateVirtualHostsBySslConfig :: bool

definition NewDefaultTranslator :: "edge_opts \<Rightarrow> edge_translator \<times> bool" where
  "NewDefaultTranslator opts =
     (\<lparr>gt_writeNamespace = eop_WriteNamespace opts,
       gt_predicate = GetPredicate (eop_WriteNamespace opts) (eop_ReadGatewaysFromAllNamespaces opts),
       gt_isolateVirtualHostsBySslConfig = eop_IsolateVirtualHostsBySslConfig opts\<rparr>,
      eop_WarnOnRouteShortCircuiting opts = Some True)"

definition shouldIsolateVirtualHostsForGateway :: "edge_translator \<Rightarrow> edge_gateway \<Rightarrow> bool" where
  "shouldIsolateVirtualHostsForGateway t gw =
     (case Option.bind (em_Annotations (egw_Metadata gw) IsolateVirtualHostsAnnotation) ParseBool of
        Some b \<Rightarrow> b
      | None \<Rightarrow> gt_isolateVirtualHostsBySslConfig t)"

datatype listener_translator = HttpTranslator | TcpTranslator | HybridTranslator | AggregateTranslator | InvalidGatewayTypeTranslator

definition getListenerTranslatorForGateway :: "edge_translator \<Rightarrow> edge_gateway \<Rightarrow> listener_translator" where
  "getListenerTranslatorForGateway t gw =
     (case egw_GatewayType gw of
        Some (HttpGatewayType _) \<Rightarrow> if shouldIsolateVirtualHostsForGateway t gw then AggregateTranslator else HttpTranslator
      | Some (TcpGatewayType _) \<Rightarrow> TcpTranslator
      | Some (HybridGatewayType _) \<Rightarrow> if shouldIsolateVirtualHostsForGateway t gw then AggregateTranslator else HybridTranslator
      | None \<Rightarrow> InvalidGatewayTypeTranslator)"

definition ComputeListener ::
  "listener_translator \<Rightarrow> gw_env \<Rightarrow> string \<Rightarrow> nat \<Rightarrow> edge_gateway \<Rightarrow> edge_state \<Rightarrow> (edge_listener option \<times> edge_state) outcome" where
  "ComputeListener lt env proxyName i gw st =
     (case lt of
        HttpTranslator \<Rightarrow> HttpTranslator_ComputeListener env proxyName i gw st
      | TcpTranslator \<Rightarrow> Inr (TcpTranslator_ComputeListener env i gw, st)
      | HybridTranslator \<Rightarrow> HybridTranslator_ComputeListener env proxyName i gw st
      | AggregateTranslator \<Rightarrow> AggregateTranslator_ComputeListener env proxyName i gw st
      | InvalidGatewayTypeTranslator \<Rightarrow> Inr (None, addReports [AddError (GatewayRes i) MissingGatewayTypeErr] st))"

definition virtualServiceRefsOf :: "edge_gateway \<Rightarrow> resource_ref list" where
  "virtualServiceRefsOf gw =
     (case egw_GatewayType gw of
        Some (HttpGatewayType g) \<Rightarrow> hgw_VirtualServices (getHttp g)
      | Some (HybridGatewayType h) \<Rightarrow>
          concat (map (\<lambda>mg. case mg_GatewayType mg of Some (MatchedHttp (Some g)) \<Rightarrow> hgw_VirtualServices g | _ \<Rightarrow> [])
            (case hyb_MatchedGateways (getHybrid h) of None \<Rightarrow> [] | Some mgs \<Rightarrow> mgs))
      | _ \<Rightarrow> [])"

definition bindAddressOf :: "edge_gateway \<Rightarrow> string" where
  "bindAddressOf gw = egw_BindAddress gw @ '':'' @ show_nat (unat (egw_BindPort gw))"

definition gatewaysByAddress :: "edge_gateway list \<Rightarrow> nat list \<Rightarrow> (string \<rightharpoonup> nat list)" where
  "gatewaysByAddress gateways filtered = foldl (\<lambda>m i. addToKey i m (bindAddressOf (gateways ! i))) Map.empty filtered"

definition validateGateways :: "edge_libs \<Rightarrow> edge_gateway list \<Rightarrow> nat list \<Rightarrow> virtual_service list \<Rightarrow> edge_report list" where
  "validateGateways lib gateways filtered vss =
     (let bindAddresses = gatewaysByAddress gateways filtered;
          at = (\<lambda>addr. case bindAddresses addr of None \<Rightarrow> [] | Some l \<Rightarrow> l)
      in concat (map (\<lambda>i. map (\<lambda>ref. AddError (GatewayRes i) (InvalidVirtualServiceRefErr ref))
             (filter (\<lambda>ref. \<not> list_ex (\<lambda>vs. em_Ref (vsv_Metadata vs) = ref) vss) (virtualServiceRefsOf (gateways ! i)))) filtered) @
         concat (map (\<lambda>addr. if length (at addr) > 1
             then map (\<lambda>i. AddError (GatewayRes i) (BindAddressNotUniqueErr addr (map (\<lambda>j. em_Ref (egw_Metadata (gateways ! j))) (at addr)))) (at addr)
             else []) (el_keys lib bindAddresses)))"

record edge_proxy =
  epr_Name :: string
  epr_Namespace :: string
  epr_Listeners :: "edge_listener list"

definition translateEdgeGateway ::
  "edge_translator \<Rightarrow> gw_env \<Rightarrow> string \<Rightarrow> edge_gateway list \<Rightarrow> nat \<Rightarrow> edge_listener list \<times> edge_state \<Rightarrow>
   (edge_listener list \<times> edge_state) outcome" where
  "translateEdgeGateway t env proxyName gateways i = (\<lambda>(listeners, st).
     bind_out (ComputeListener (getListenerTranslatorForGateway t (gateways ! i)) env proxyName i (gateways ! i) st) (\<lambda>(l, st).
       Inr (case l of None \<Rightarrow> listeners | Some l \<Rightarrow> listeners @ [l], st)))"

definition Translate ::
  "edge_translator \<Rightarrow> gw_env \<Rightarrow> string \<Rightarrow> edge_gateway list \<Rightarrow> edge_state \<Rightarrow> (edge_proxy option \<times> edge_state) outcome" where
  "Translate t env proxyName gateways st =
     (let filteredGateways = FilterGateways gateways (gt_predicate t)
      in if filteredGateways = [] then Inr (None, st)
         else let st = addReports (validateGateways (ve_libs (ge_vs env)) gateways filteredGateways (est_VirtualServices st)) st
              in bind_out (fold_out (translateEdgeGateway t env proxyName gateways) filteredGateways ([], st)) (\<lambda>(listeners, st).
                   if listeners = [] then Inr (None, st)
                   else Inr (Some \<lparr>epr_Name = proxyName, epr_Namespace = gt_writeNamespace t, epr_Listeners = listeners\<rparr>, st)))"

end
