(* ===== verification/EdgeValidator.thy ===== *)
theory EdgeValidator
  imports EdgeReconciler EdgeTranslator
begin

text \<open>
  The validation of changes before they are stored, \<open>projects/gateway/pkg/validation/validator.go\<close>, with the snapshot it works on
  (\<open>RemoveFromResourceList\<close> and \<open>UpsertToResourceList\<close> of \<open>projects/gloo/pkg/api/v1/gloosnapshot/api_snapshot.sk.go\<close>).

  The validator holds the latest snapshot. A change is made on a clone, the clone is translated and
  validated, and when it passes the change is made on the snapshot itself. The translator of the gateways,
  the validator of Gloo, the extensions and the reporter are arguments. The calls are made under a lock, one
  after the other.
\<close>

section \<open>The snapshot\<close>

text \<open>The lists of the snapshot, by the type of their resources; a resource of another type belongs to none.\<close>

datatype snap_kind =
  ArtifactKind | EndpointKind | ProxyKind | UpstreamGroupKind | SecretKind | UpstreamKind | AuthConfigKind | RateLimitConfigKind
| VirtualServiceKind | RouteTableKind | GatewayKind | VirtualHostOptionKind | RouteOptionKind | HttpGatewayKind | TcpGatewayKind
| GraphQLApiKind

record snap_resource =
  snr_Kind :: "snap_kind option"
  snr_Ref :: resource_ref
  snr_Body :: string

type_synonym api_snapshot = "snap_kind \<Rightarrow> snap_resource list"

text \<open>The first resource with the reference is removed. The code compares the keys of references, the namespace and the name joined by a
  dot; they are different for different references, as a namespace has no dot.\<close>

fun removeFirst :: "resource_ref \<Rightarrow> snap_resource list \<Rightarrow> snap_resource list" where
  "removeFirst ref [] = []"
| "removeFirst ref (r # rs) = (if snr_Ref r = ref then rs else r # removeFirst ref rs)"

definition RemoveFromResourceList :: "snap_resource \<Rightarrow> api_snapshot \<Rightarrow> eris_error + api_snapshot" where
  "RemoveFromResourceList res s =
     (case snr_Kind res of
        None \<Rightarrow> Inl (Errorf ''did not remove the resource because its type does not exist'')
      | Some k \<Rightarrow> Inr (s(k := removeFirst (snr_Ref res) (s k))))"

text \<open>\<open>sortList\<close> is the sort of a list by metadata.\<close>

definition UpsertToResourceList ::
  "(snap_resource list \<Rightarrow> snap_resource list) \<Rightarrow> snap_resource \<Rightarrow> api_snapshot \<Rightarrow> eris_error + api_snapshot" where
  "UpsertToResourceList sortList res s =
     (case snr_Kind res of
        None \<Rightarrow> Inl (Errorf ''did not add/replace the resource type because it does not exist'')
      | Some k \<Rightarrow>
          let updated = list_ex (\<lambda>r. snr_Ref r = snr_Ref res) (s k);
              l = map (\<lambda>r. if snr_Ref r = snr_Ref res then res else r) (s k)
          in Inr (s(k := sortList (if updated then l else l @ [res]))))"

section \<open>Errors, options and state\<close>

text \<open>The errors of a validation. A combined error is the list of its parts; an empty list is no error.\<close>

datatype val_error =
  RenderErr eris_error
| K8sTranslateErr eris_error
| SyncNotYetRunError eris_error
| GlooValidationResponseLengthError nat
| PolicyErr eris_error
| ProxyFailedErr "eris_error list" stored_metadata
| WarningErr string
| ReportErr eris_error
| GlooProxyErr "eris_error list"
| ResourceReportsErr "val_error list"
| ExtensionErr eris_error
| NotReadyErr
| SnapshotErr eris_error
| ValidatingErr "val_error list"
| ParseErr string
| UnmarshalErr eris_error
| UnknownGvkErr string
| DeletionErr resource_ref "val_error list"
| ValidatingFailedErr "val_error list"

record gloo_validation_report =
  gvr_ProxyReport :: "vlistener_report option list"
  gvr_ResourceReports :: resource_reports

record validation_options =
  vop_DryRun :: bool
  vop_Delete :: bool
  vop_Resource :: snap_resource
  vop_GvkKind :: string
  vop_validateUnmodified :: bool
  vop_collectAllErrors :: bool

record validation_output =
  vout_proxies :: "stored_proxy list"
  vout_proxyReports :: "vlistener_report option list list"
  vout_err :: "val_error list"

text \<open>The last value of the metric \<open>valid_config\<close> is the last of the list.\<close>

record edge_validator =
  evd_latestSnapshot :: "api_snapshot option"
  evd_latestSnapshotErr :: "val_error list"
  evd_allowWarnings :: bool
  evd_disableValidationAgainstPreviousState :: bool
  evd_metric :: "bool list"

text \<open>What the validator is made from, and the parts of other modules that it uses. The reports of the extensions are \<open>None\<close> when
  there are none.\<close>

record validator_lib =
  vlb_Gateways :: "api_snapshot \<Rightarrow> edge_gateway list"
  vlb_edge :: edge_libs
  vlb_Translate :: "string \<Rightarrow> api_snapshot \<Rightarrow> nat list \<Rightarrow> stored_proxy option \<times> resource_reports"
  vlb_TranslateK8s :: "api_snapshot \<Rightarrow> snap_resource \<Rightarrow> stored_proxy list \<times> eris_error option"
  vlb_GlooValidator :: "stored_proxy \<Rightarrow> snap_resource option \<Rightarrow> bool \<Rightarrow> eris_error + gloo_validation_report list"
  vlb_SimpleError :: "gloo_validation_report list \<Rightarrow> stored_proxy \<Rightarrow> eris_error option"
  vlb_Extension :: "api_snapshot \<Rightarrow> resource_reports option"
  vlb_Validate :: "resource_reports \<Rightarrow> eris_error option"
  vlb_ValidateStrict :: "resource_reports \<Rightarrow> eris_error option"
  vlb_reports :: report_lib
  vlb_Error :: "val_error list \<Rightarrow> string"
  vlb_ErisError :: "eris_error \<Rightarrow> string"
  vlb_AsBreaking :: "val_error list \<Rightarrow> bool"
  vlb_HashProxy :: "stored_proxy \<Rightarrow> 64 word"
  vlb_HashAllSafe :: "snap_resource list \<Rightarrow> 64 word option"
  vlb_Sort :: "snap_resource list \<Rightarrow> snap_resource list"

definition NewValidator :: "bool \<Rightarrow> bool \<Rightarrow> edge_validator" where
  "NewValidator allowWarnings disablePrevious =
     \<lparr>evd_latestSnapshot = None, evd_latestSnapshotErr = [], evd_allowWarnings = allowWarnings,
      evd_disableValidationAgainstPreviousState = disablePrevious, evd_metric = []\<rparr>"

section \<open>Sync\<close>

definition gatewayHash :: "validator_lib \<Rightarrow> api_snapshot \<Rightarrow> 64 word option" where
  "gatewayHash lib s =
     vlb_HashAllSafe lib (s VirtualHostOptionKind @ s VirtualServiceKind @ s GatewayKind @ s RouteOptionKind @ s RouteTableKind @
       s HttpGatewayKind @ s VirtualHostOptionKind)"

definition gatewayUpdate :: "validator_lib \<Rightarrow> api_snapshot \<Rightarrow> edge_validator \<Rightarrow> bool" where
  "gatewayUpdate lib snap v =
     (case evd_latestSnapshot v of
        None \<Rightarrow> True
      | Some old \<Rightarrow>
          (case (gatewayHash lib old, gatewayHash lib snap) of
             (Some a, Some b) \<Rightarrow> a \<noteq> b
           | _ \<Rightarrow> True))"

definition getErrorsFromResourceReports :: "validator_lib \<Rightarrow> edge_validator \<Rightarrow> resource_reports \<Rightarrow> eris_error option" where
  "getErrorsFromResourceReports lib v reports = (if evd_allowWarnings v then vlb_Validate lib reports else vlb_ValidateStrict lib reports)"

text \<open>\<open>names\<close> is the order of the loop over the proxies. The result is whether the snapshot has an error.\<close>

definition validator_Sync :: "validator_lib \<Rightarrow> string list \<Rightarrow> api_snapshot \<Rightarrow> edge_validator \<Rightarrow> val_error list \<times> edge_validator" where
  "validator_Sync lib names snap v =
     (if \<not> gatewayUpdate lib snap v then ([], v)
      else let byName = GatewaysByProxyName (vlb_Gateways lib snap);
               errs = concat (map (\<lambda>name.
                 case getErrorsFromResourceReports lib v (snd (vlb_Translate lib name snap (case byName name of None \<Rightarrow> [] | Some l \<Rightarrow> l))) of
                   None \<Rightarrow> []
                 | Some e \<Rightarrow> [ReportErr e]) names);
               v = (if evd_latestSnapshot v = None then v\<lparr>evd_metric := evd_metric v @ [errs = []]\<rparr> else v)
           in (errs, v\<lparr>evd_latestSnapshotErr := errs, evd_latestSnapshot := Some snap\<rparr>))"

section \<open>Proxies and extensions\<close>

fun isK8sGatewayProxy :: "snap_kind option \<Rightarrow> bool" where
  "isK8sGatewayProxy (Some RouteOptionKind) = True"
| "isK8sGatewayProxy (Some VirtualHostOptionKind) = True"
| "isK8sGatewayProxy _ = False"

definition translateGlooEdgeProxy ::
  "validator_lib \<Rightarrow> edge_validator \<Rightarrow> bool \<Rightarrow> api_snapshot \<Rightarrow> stored_proxy list \<times> val_error list \<Rightarrow> string \<times> nat list \<Rightarrow>
   stored_proxy list \<times> val_error list" where
  "translateGlooEdgeProxy lib v collectAllErrors snap = (\<lambda>(proxies, errs) (proxyName, gatewayList).
     let (proxy, reports) = vlb_Translate lib proxyName snap gatewayList
     in case getErrorsFromResourceReports lib v reports of
          Some e \<Rightarrow>
            if \<not> collectAllErrors then (proxies, errs @ [RenderErr e])
            else (case proxy of None \<Rightarrow> proxies | Some p \<Rightarrow> proxies @ [p], errs @ [RenderErr e])
        | None \<Rightarrow> (case proxy of None \<Rightarrow> proxies | Some p \<Rightarrow> proxies @ [p], errs))"

definition translateGlooEdgeProxies :: "validator_lib \<Rightarrow> edge_validator \<Rightarrow> bool \<Rightarrow> api_snapshot \<Rightarrow> stored_proxy list \<times> val_error list" where
  "translateGlooEdgeProxies lib v collectAllErrors snap =
     foldl (translateGlooEdgeProxy lib v collectAllErrors snap) ([], []) (SortedGatewaysByProxyName (vlb_edge lib) (vlb_Gateways lib snap))"

text \<open>The errors with those of the report, and whether to go on with the next proxy.\<close>

definition appendProxyErrors ::
  "validator_lib \<Rightarrow> edge_validator \<Rightarrow> bool \<Rightarrow> vlistener_report option list \<Rightarrow> stored_proxy \<Rightarrow> val_error list \<Rightarrow> val_error list \<times> bool" where
  "appendProxyErrors lib v collectAllErrors proxyReport proxy errs =
     (let err = GetProxyError (vlb_reports lib) proxyReport;
          errs = (if err \<noteq> [] then errs @ [ProxyFailedErr err (sp_Metadata proxy)] else errs)
      in if err \<noteq> [] \<and> \<not> collectAllErrors then (errs, True)
         else let warnings = GetProxyWarning (vlb_reports lib) proxyReport
              in if \<not> evd_allowWarnings v \<and> warnings \<noteq> []
                 then (errs @ map WarningErr warnings, \<not> collectAllErrors)
                 else (errs, False))"

definition getErrorsFromGlooValidation :: "validator_lib \<Rightarrow> edge_validator \<Rightarrow> gloo_validation_report list \<Rightarrow> val_error list" where
  "getErrorsFromGlooValidation lib v reports =
     concat (map (\<lambda>r.
       (case getErrorsFromResourceReports lib v (gvr_ResourceReports r) of None \<Rightarrow> [] | Some e \<Rightarrow> [ReportErr e]) @
       (let err = GetProxyError (vlb_reports lib) (gvr_ProxyReport r) in if err \<noteq> [] then [GlooProxyErr err] else []) @
       (let warnings = GetProxyWarning (vlb_reports lib) (gvr_ProxyReport r)
        in if \<not> evd_allowWarnings v \<and> warnings \<noteq> [] then map WarningErr warnings else [])) reports)"

definition validateProxy ::
  "validator_lib \<Rightarrow> edge_validator \<Rightarrow> validation_options \<Rightarrow> vlistener_report option list list \<times> val_error list \<Rightarrow> stored_proxy \<Rightarrow>
   vlistener_report option list list \<times> val_error list" where
  "validateProxy lib v opts = (\<lambda>(proxyReports, errs) proxy.
     case vlb_GlooValidator lib proxy (if vop_validateUnmodified opts then None else Some (vop_Resource opts)) (vop_Delete opts) of
       Inl e \<Rightarrow> (proxyReports, errs @ [SyncNotYetRunError e])
     | Inr glooReports \<Rightarrow>
         (case glooReports of
            [report] \<Rightarrow>
              if isK8sGatewayProxy (snr_Kind (vop_Resource opts))
              then (proxyReports, errs @ (case vlb_SimpleError lib glooReports proxy of None \<Rightarrow> [] | Some e \<Rightarrow> [PolicyErr e]))
              else let proxyReport = gvr_ProxyReport report;
                       (errs, stop) = appendProxyErrors lib v (vop_collectAllErrors opts) proxyReport proxy errs
                   in (proxyReports @ [proxyReport],
                       if stop then errs
                       else let err = getErrorsFromGlooValidation lib v glooReports
                            in if err \<noteq> [] then errs @ [ResourceReportsErr err] else errs)
          | _ \<Rightarrow> (proxyReports, errs @ [GlooValidationResponseLengthError (length glooReports)])))"

definition validateProxiesAndExtensions :: "validator_lib \<Rightarrow> edge_validator \<Rightarrow> api_snapshot \<Rightarrow> validation_options \<Rightarrow> validation_output" where
  "validateProxiesAndExtensions lib v snap opts =
     (let (proxies, errs) =
            (if isK8sGatewayProxy (snr_Kind (vop_Resource opts))
             then (case vlb_TranslateK8s lib snap (vop_Resource opts) of
                     (ps, err) \<Rightarrow> (ps, case err of None \<Rightarrow> [] | Some e \<Rightarrow> [K8sTranslateErr e]))
             else translateGlooEdgeProxies lib v (vop_collectAllErrors opts) snap);
          (proxyReports, errs) = foldl (validateProxy lib v opts) ([], errs) proxies;
          errs = errs @
            (case vlb_Extension lib snap of
               None \<Rightarrow> []
             | Some reports \<Rightarrow> (case getErrorsFromResourceReports lib v reports of None \<Rightarrow> [] | Some e \<Rightarrow> [ExtensionErr e]))
      in \<lparr>vout_proxies = proxies, vout_proxyReports = proxyReports, vout_err = errs\<rparr>)"

section \<open>Comparison with the snapshot as it is\<close>

definition compareErrors :: "validator_lib \<Rightarrow> val_error list \<Rightarrow> val_error list \<Rightarrow> bool" where
  "compareErrors lib err1 err2 =
     (if err1 = [] \<and> err2 = [] then True else if err1 = [] \<or> err2 = [] then False else vlb_Error lib err1 = vlb_Error lib err2)"

fun sameReportType :: "listener_type_report option \<Rightarrow> listener_type_report option \<Rightarrow> bool" where
  "sameReportType None None = True"
| "sameReportType (Some (HttpListenerReport _)) (Some (HttpListenerReport _)) = True"
| "sameReportType (Some (TcpListenerReport _)) (Some (TcpListenerReport _)) = True"
| "sameReportType (Some (HybridListenerReport _)) (Some (HybridListenerReport _)) = True"
| "sameReportType (Some (AggregateListenerReport _ _)) (Some (AggregateListenerReport _ _)) = True"
| "sameReportType _ _ = False"

definition compareListenerReports :: "validator_lib \<Rightarrow> vlistener_report option \<Rightarrow> vlistener_report option \<Rightarrow> bool" where
  "compareListenerReports lib l1 l2 =
     (sameReportType (lrp_ListenerTypeReport (getListenerReport l1)) (lrp_ListenerTypeReport (getListenerReport l2)) \<and>
      (let e1 = GetListenerError (vlb_reports lib) l1; e2 = GetListenerError (vlb_reports lib) l2
       in length e1 = length e2 \<and> list_all (\<lambda>(a, b). vlb_ErisError lib a = vlb_ErisError lib b) (zip e1 e2)))"

definition compareReports ::
  "validator_lib \<Rightarrow> vlistener_report option list list \<Rightarrow> vlistener_report option list list \<Rightarrow> bool \<Rightarrow> bool" where
  "compareReports lib rs1 rs2 allowWarnings =
     (if \<not> allowWarnings then rs1 = rs2
      else length rs1 = length rs2 \<and>
           list_all (\<lambda>(l1, l2). length l1 = length l2 \<and> list_all (\<lambda>(a, b). compareListenerReports lib a b) (zip l1 l2)) (zip rs1 rs2))"

definition compareProxies :: "validator_lib \<Rightarrow> stored_proxy list \<Rightarrow> stored_proxy list \<Rightarrow> bool" where
  "compareProxies lib p1 p2 = (length p1 = length p2 \<and> list_all (\<lambda>(a, b). vlb_HashProxy lib a = vlb_HashProxy lib b) (zip p1 p2))"

definition compareValidationOutputs :: "validator_lib \<Rightarrow> edge_validator \<Rightarrow> validation_output \<Rightarrow> validation_output \<Rightarrow> bool" where
  "compareValidationOutputs lib v voMod voNoMod =
     (compareProxies lib (vout_proxies voMod) (vout_proxies voNoMod) \<and>
      compareReports lib (vout_proxyReports voMod) (vout_proxyReports voNoMod) (evd_allowWarnings v) \<and>
      compareErrors lib (vout_err voMod) (vout_err voNoMod))"

definition findBreakingErrors :: "validator_lib \<Rightarrow> val_error list \<Rightarrow> bool" where
  "findBreakingErrors lib errs = vlb_AsBreaking lib errs"

definition shouldValidateAgainstPreviousState :: "edge_validator \<Rightarrow> validation_options \<Rightarrow> bool" where
  "shouldValidateAgainstPreviousState v opts =
     (if evd_disableValidationAgainstPreviousState v then False else vop_Delete opts \<and> vop_GvkKind opts = ''Secret'')"

text \<open>The clone of the snapshot, unless there is none or it is known to be broken; the latter is measured.\<close>

definition copySnapshotNonThreadSafe :: "bool \<Rightarrow> edge_validator \<Rightarrow> api_snapshot option \<times> edge_validator" where
  "copySnapshotNonThreadSafe dryRun v =
     (case evd_latestSnapshot v of
        None \<Rightarrow> (None, v)
      | Some s \<Rightarrow>
          if evd_latestSnapshotErr v \<noteq> [] then (None, if dryRun then v else v\<lparr>evd_metric := evd_metric v @ [False]\<rparr>)
          else (Some s, v))"

definition validateAgainstCurrentSnapshot ::
  "validator_lib \<Rightarrow> validation_options \<Rightarrow> validation_output \<Rightarrow> edge_validator \<Rightarrow> bool \<times> edge_validator" where
  "validateAgainstCurrentSnapshot lib opts voMod v =
     (if findBreakingErrors lib (vout_err voMod) then (False, v)
      else case copySnapshotNonThreadSafe (vop_DryRun opts) v of
             (None, v) \<Rightarrow> (False, v)
           | (Some s, v) \<Rightarrow>
               (compareValidationOutputs lib v voMod (validateProxiesAndExtensions lib v s (opts\<lparr>vop_validateUnmodified := True\<rparr>)), v))"

section \<open>Changes\<close>

definition applyChange :: "validator_lib \<Rightarrow> validation_options \<Rightarrow> api_snapshot \<Rightarrow> eris_error + api_snapshot" where
  "applyChange lib opts s =
     (if vop_Delete opts then RemoveFromResourceList (vop_Resource opts) s
      else UpsertToResourceList (vlb_Sort lib) (vop_Resource opts) s)"

text \<open>The end of \<open>validateSnapshot\<close>: the measurement, the verdict, and the change of the snapshot itself. The result is the
  output, if a validation was run, the errors, and the validator afterwards.\<close>

definition finishValidation ::
  "validator_lib \<Rightarrow> validation_options \<Rightarrow> validation_output \<Rightarrow> bool \<times> edge_validator \<Rightarrow>
   ((validation_output option \<times> val_error list) \<times> edge_validator) outcome" where
  "finishValidation lib opts out = (\<lambda>(passed, v).
     let v = (if vop_DryRun opts then v else v\<lparr>evd_metric := evd_metric v @ [vout_err out = []]\<rparr>)
     in if vout_err out \<noteq> [] \<and> \<not> passed then Inr ((Some out, [ValidatingErr (vout_err out)]), v)
        else if vop_DryRun opts then Inr ((Some out, []), v)
        else bind_out (deref (evd_latestSnapshot v)) (\<lambda>latest.
          case applyChange lib opts latest of
            Inl e \<Rightarrow> Inr ((Some out, [SnapshotErr e]), v)
          | Inr latest \<Rightarrow> Inr ((Some out, []), v\<lparr>evd_latestSnapshot := Some latest\<rparr>)))"

definition validateSnapshot ::
  "validator_lib \<Rightarrow> validation_options \<Rightarrow> edge_validator \<Rightarrow> ((validation_output option \<times> val_error list) \<times> edge_validator) outcome" where
  "validateSnapshot lib opts v =
     (if evd_latestSnapshot v = None then Inr ((None, [NotReadyErr]), v)
      else case copySnapshotNonThreadSafe (vop_DryRun opts) v of
             (None, v) \<Rightarrow> Inr ((None, []), v)
           | (Some snapshotClone, v) \<Rightarrow>
               (case applyChange lib opts snapshotClone of
                  Inl e \<Rightarrow> Inr ((None, [SnapshotErr e]), v)
                | Inr changed \<Rightarrow>
                    let previous = shouldValidateAgainstPreviousState v opts;
                        opts = opts\<lparr>vop_collectAllErrors := previous\<rparr>;
                        out = validateProxiesAndExtensions lib v changed opts
                    in finishValidation lib opts out
                         (if previous \<and> vout_err out \<noteq> [] then validateAgainstCurrentSnapshot lib opts out v else (False, v))))"

definition newOptions :: "string \<Rightarrow> snap_resource \<Rightarrow> bool \<Rightarrow> bool \<Rightarrow> validation_options" where
  "newOptions gvkKind res delete dryRun =
     \<lparr>vop_DryRun = dryRun, vop_Delete = delete, vop_Resource = res, vop_GvkKind = gvkKind, vop_validateUnmodified = False,
      vop_collectAllErrors = False\<rparr>"

definition ValidateDeletedGvk ::
  "validator_lib \<Rightarrow> string \<Rightarrow> snap_resource \<Rightarrow> bool \<Rightarrow> edge_validator \<Rightarrow> (val_error list \<times> edge_validator) outcome" where
  "ValidateDeletedGvk lib gvkKind res dryRun v =
     bind_out (validateSnapshot lib (newOptions gvkKind res True dryRun) v) (\<lambda>((_, errs), v). Inr (errs, v))"

definition ValidateModifiedGvk ::
  "validator_lib \<Rightarrow> string \<Rightarrow> snap_resource \<Rightarrow> bool \<Rightarrow> edge_validator \<Rightarrow>
   ((validation_output option \<times> val_error list) \<times> edge_validator) outcome" where
  "ValidateModifiedGvk lib gvkKind res dryRun v =
     bind_out (validateSnapshot lib (newOptions gvkKind res False dryRun) v) (\<lambda>((out, errs), v).
       Inr ((out, if errs \<noteq> [] then [ValidatingFailedErr errs] else []), v))"

section \<open>Lists\<close>

text \<open>An item of a list is what reading it gives: an error, or the kind and the resource. The items are validated as changes
  that are made.\<close>

definition processItem ::
  "validator_lib \<Rightarrow> val_error + string \<times> snap_resource \<Rightarrow> edge_validator \<Rightarrow>
   ((validation_output option \<times> val_error list) \<times> edge_validator) outcome" where
  "processItem lib item v =
     (case item of
        Inl e \<Rightarrow> Inr ((None, [e]), v)
      | Inr (gvkKind, res) \<Rightarrow> ValidateModifiedGvk lib gvkKind res False v)"

definition collectItem ::
  "validator_lib \<Rightarrow> val_error + string \<times> snap_resource \<Rightarrow> validation_output \<times> edge_validator \<Rightarrow> (validation_output \<times> edge_validator) outcome" where
  "collectItem lib item = (\<lambda>(acc, v).
     bind_out (processItem lib item v) (\<lambda>((out, errs), v).
       let acc = acc\<lparr>vout_err := vout_err acc @ errs\<rparr>
       in Inr (case out of
                 None \<Rightarrow> acc
               | Some o1 \<Rightarrow> acc\<lparr>vout_proxyReports := vout_proxyReports acc @ vout_proxyReports o1, vout_proxies := vout_proxies acc @ vout_proxies o1\<rparr>, v)))"

text \<open>The clone of the snapshot is taken before anything else, also when there is no snapshot.\<close>

definition ValidateList ::
  "validator_lib \<Rightarrow> (val_error + string \<times> snap_resource) list \<Rightarrow> bool \<Rightarrow> edge_validator \<Rightarrow> (validation_output \<times> edge_validator) outcome" where
  "ValidateList lib items dryRun v =
     bind_out (deref (evd_latestSnapshot v)) (\<lambda>originalSnapshot.
       bind_out (fold_out (collectItem lib) items (\<lparr>vout_proxies = [], vout_proxyReports = [], vout_err = []\<rparr>, v)) (\<lambda>(acc, v).
         Inr (acc, if dryRun then v\<lparr>evd_latestSnapshot := Some originalSnapshot\<rparr> else v)))"

end
