(* ===== verification/EdgeWebhook.thy ===== *)
theory EdgeWebhook
  imports EdgeValidator
begin

text \<open>
  The validating admission webhook, \<open>projects/gateway/pkg/services/k8sadmission/validating_admission_webhook.go\<close>, with the reading of
  resources of \<open>validator.go\<close> and \<open>AllNamespaces\<close> of \<open>pkg/utils/namespaces.go\<close>.

  A request of the API server is decoded, filtered by its namespace, kind and content, and handed to the validator; the
  answer says whether the change is allowed. The decoders, the unmarshalling of resources and their hashes are
  arguments.
\<close>

section \<open>Kinds\<close>

record group_version_kind =
  gvk_Group :: string
  gvk_Version :: string
  gvk_Kind :: string

definition gatewayGVK :: "string \<Rightarrow> group_version_kind" where
  "gatewayGVK kind = \<lparr>gvk_Group = ''gateway.solo.io'', gvk_Version = ''v1'', gvk_Kind = kind\<rparr>"

definition glooGVK :: "string \<Rightarrow> group_version_kind" where
  "glooGVK kind = \<lparr>gvk_Group = ''gloo.solo.io'', gvk_Version = ''v1'', gvk_Kind = kind\<rparr>"

definition ApiGvkToHashableResource :: "group_version_kind \<rightharpoonup> snap_kind" where
  "ApiGvkToHashableResource = map_of
     [(glooGVK ''Artifact'', ArtifactKind), (glooGVK ''Endpoint'', EndpointKind), (glooGVK ''Proxy'', ProxyKind),
      (glooGVK ''UpstreamGroup'', UpstreamGroupKind), (glooGVK ''Secret'', SecretKind), (glooGVK ''Upstream'', UpstreamKind),
      (\<lparr>gvk_Group = ''enterprise.gloo.solo.io'', gvk_Version = ''v1'', gvk_Kind = ''AuthConfig''\<rparr>, AuthConfigKind),
      (\<lparr>gvk_Group = ''ratelimit.solo.io'', gvk_Version = ''v1alpha1'', gvk_Kind = ''RateLimitConfig''\<rparr>, RateLimitConfigKind),
      (gatewayGVK ''VirtualService'', VirtualServiceKind), (gatewayGVK ''RouteTable'', RouteTableKind), (gatewayGVK ''Gateway'', GatewayKind),
      (gatewayGVK ''VirtualHostOption'', VirtualHostOptionKind), (gatewayGVK ''RouteOption'', RouteOptionKind),
      (gatewayGVK ''MatchableHttpGateway'', HttpGatewayKind), (gatewayGVK ''MatchableTcpGateway'', TcpGatewayKind),
      (\<lparr>gvk_Group = ''graphql.gloo.solo.io'', gvk_Version = ''v1beta1'', gvk_Kind = ''GraphQLApi''\<rparr>, GraphQLApiKind)]"

definition ListGVK :: group_version_kind where
  "ListGVK = \<lparr>gvk_Group = [], gvk_Version = ''v1'', gvk_Kind = ''List''\<rparr>"

section \<open>Requests, resources and answers\<close>

text \<open>A resource as it was read, with its annotations.\<close>

record crd_resource =
  crd_Ref :: resource_ref
  crd_Annotations :: "(string \<rightharpoonup> string) option"
  crd_Spec :: "string option"

record admission_request =
  arq_Kind :: group_version_kind
  arq_Namespace :: string
  arq_Name :: string
  arq_UID :: string
  arq_Operation :: string
  arq_Object :: string
  arq_OldObject :: string
  arq_DryRun :: "bool option"

record status_details =
  sdt_Name :: string
  sdt_Group :: string
  sdt_Kind :: string
  sdt_Causes :: "string list"

record admission_result =
  are_Message :: string
  are_Details :: "status_details option"

record admission_response =
  ars_Allowed :: bool
  ars_UID :: string
  ars_Result :: "admission_result option"

record response_with_proxies =
  rwp_Response :: "admission_response option"
  rwp_Proxies :: "stored_proxy list"

record admission_review =
  arv_Request :: "admission_request option"
  arv_ReturnProxies :: bool

record list_item =
  lit_APIVersion :: string
  lit_Kind :: string
  lit_JSON :: "string + string"

record http_request =
  hrq_ContentType :: string
  hrq_Body :: "(string + string) option"

datatype http_effect = HttpError string nat | WriteBody string

text \<open>What the webhook uses of other modules. A decoder gives what it has read also when it fails.\<close>

record webhook_lib =
  whl_validator :: validator_lib
  whl_Yaml :: "string \<Rightarrow> string option \<times> admission_review"
  whl_Decode :: "string \<Rightarrow> string option \<times> admission_review"
  whl_Marshal :: "response_with_proxies \<Rightarrow> string + string"
  whl_Write :: "string \<Rightarrow> string option"
  whl_JSON :: "string \<Rightarrow> eris_error + crd_resource"
  whl_CustomInput :: "snap_kind \<Rightarrow> bool"
  whl_TypeName :: "snap_kind \<Rightarrow> string"
  whl_UnmarshalSpec :: "snap_kind \<Rightarrow> string \<Rightarrow> eris_error + string"
  whl_UnmarshalList :: "string \<Rightarrow> eris_error + list_item list"
  whl_ParseGroupVersion :: "string \<Rightarrow> string + string \<times> string"
  whl_Hash :: "snap_resource \<Rightarrow> 64 word"
  whl_IsUnmarshalErr :: "val_error \<Rightarrow> bool"
  whl_Error :: "val_error \<Rightarrow> string"

record webhook =
  wh_watchNamespaces :: "string list"
  wh_alwaysAccept :: bool
  wh_readGatewaysFromAllNamespaces :: bool
  wh_webhookNamespace :: string
  wh_kubeGatewayEnabled :: bool

definition skipValidationCheck :: "(string \<rightharpoonup> string) option \<Rightarrow> bool" where
  "skipValidationCheck annotations =
     (case annotations of None \<Rightarrow> False | Some a \<Rightarrow> a ''gateway.solo.io/skip_validation'' = Some ''true'')"

definition isDryRun :: "admission_request \<Rightarrow> bool" where
  "isDryRun req = (case arq_DryRun req of None \<Rightarrow> False | Some b \<Rightarrow> b)"

definition AllNamespaces :: "string list \<Rightarrow> bool" where
  "AllNamespaces watchNamespaces \<longleftrightarrow> watchNamespaces = [] \<or> watchNamespaces = [[]]"

section \<open>Reading resources\<close>

text \<open>The error, or the resource with its annotations. Without a spec, the resource has its metadata only.\<close>

definition UnmarshalResource :: "webhook_lib \<Rightarrow> snap_kind \<Rightarrow> string \<Rightarrow> eris_error + snap_resource \<times> (string \<rightharpoonup> string) option" where
  "UnmarshalResource wl kind raw =
     (case whl_JSON wl raw of
        Inl e \<Rightarrow> Inl (Wrapf ''unmarshalling from raw json'' e)
      | Inr crd \<Rightarrow>
          (case crd_Spec crd of
             None \<Rightarrow> Inr (\<lparr>snr_Kind = Some kind, snr_Ref = crd_Ref crd, snr_Body = []\<rparr>, crd_Annotations crd)
           | Some spec \<Rightarrow>
               (case whl_UnmarshalSpec wl kind spec of
                  Inl e \<Rightarrow> Inl (Wrapf ((if whl_CustomInput wl kind then ''parsing custom input resource from crd spec '' else ''parsing resource from crd spec '') @
                      rref_Name (crd_Ref crd) @ '' in namespace '' @ rref_Namespace (crd_Ref crd) @ '' into '' @ whl_TypeName wl kind) e)
                | Inr body \<Rightarrow> Inr (\<lparr>snr_Kind = Some kind, snr_Ref = crd_Ref crd, snr_Body = body\<rparr>, crd_Annotations crd))))"

definition readItem :: "webhook_lib \<Rightarrow> list_item \<Rightarrow> val_error + string \<times> snap_resource" where
  "readItem wl item =
     (case whl_ParseGroupVersion wl (lit_APIVersion item) of
        Inl e \<Rightarrow> Inl (ParseErr e)
      | Inr (grp, version) \<Rightarrow>
          (case lit_JSON item of
             Inl e \<Rightarrow> Inl (ParseErr e)
           | Inr raw \<Rightarrow>
               (case ApiGvkToHashableResource \<lparr>gvk_Group = grp, gvk_Version = version, gvk_Kind = lit_Kind item\<rparr> of
                  Some kind \<Rightarrow>
                    (case UnmarshalResource wl kind raw of
                       Inl e \<Rightarrow> Inl (UnmarshalErr e)
                     | Inr (res, _) \<Rightarrow> Inr (lit_Kind item, res))
                | None \<Rightarrow> Inl (UnknownGvkErr (lit_Kind item)))))"

section \<open>The validation of a request\<close>

text \<open>The proxies of the reports, the errors, and the validator.\<close>

type_synonym review_result = "((stored_proxy list \<times> val_error list) \<times> edge_validator) outcome"

definition deleteRef :: "webhook_lib \<Rightarrow> group_version_kind \<Rightarrow> resource_ref \<Rightarrow> admission_request \<Rightarrow> edge_validator \<Rightarrow> review_result" where
  "deleteRef wl gvk ref req v =
     bind_out (if gvk_Group gvk = [] \<and> gvk_Kind gvk = ''Secret'' then Inr SecretKind else deref (ApiGvkToHashableResource gvk)) (\<lambda>kind.
       bind_out (ValidateDeletedGvk (whl_validator wl) (gvk_Kind gvk) \<lparr>snr_Kind = Some kind, snr_Ref = ref, snr_Body = []\<rparr> (isDryRun req) v) (\<lambda>(errs, v).
         Inr (([], if errs \<noteq> [] then [DeletionErr ref errs] else []), v)))"

definition shouldValidateGvk :: "webhook \<Rightarrow> group_version_kind \<Rightarrow> bool" where
  "shouldValidateGvk wh gvk =
     (if gvk = gatewayGVK ''RouteOption'' \<or> gvk = gatewayGVK ''VirtualHostOption'' then wh_kubeGatewayEnabled wh else True)"

text \<open>An error, or the resource if it is to be validated.\<close>

definition shouldValidateResource :: "webhook_lib \<Rightarrow> snap_kind \<Rightarrow> admission_request \<Rightarrow> val_error + snap_resource option" where
  "shouldValidateResource wl kind req =
     (case UnmarshalResource wl kind (arq_Object req) of
        Inl e \<Rightarrow> Inl (UnmarshalErr e)
      | Inr (res, annotations) \<Rightarrow>
          if skipValidationCheck annotations then Inr None
          else if arq_Operation req \<noteq> ''UPDATE'' then Inr (Some res)
          else case UnmarshalResource wl kind (arq_OldObject req) of
                 Inl e \<Rightarrow> Inl (UnmarshalErr e)
               | Inr (old, _) \<Rightarrow> if whl_Hash wl res = whl_Hash wl old then Inr None else Inr (Some res))"

definition validateGvk :: "webhook_lib \<Rightarrow> webhook \<Rightarrow> group_version_kind \<Rightarrow> admission_request \<Rightarrow> edge_validator \<Rightarrow> review_result" where
  "validateGvk wl wh gvk req v =
     (if \<not> shouldValidateGvk wh gvk then Inr (([], []), v)
      else bind_out (deref (ApiGvkToHashableResource gvk)) (\<lambda>kind.
        case shouldValidateResource wl kind req of
          Inl e \<Rightarrow> Inr (([], [e]), v)
        | Inr None \<Rightarrow> Inr (([], []), v)
        | Inr (Some res) \<Rightarrow>
            bind_out (ValidateModifiedGvk (whl_validator wl) (gvk_Kind gvk) res (isDryRun req) v) (\<lambda>((out, errs), v).
              Inr ((case out of None \<Rightarrow> [] | Some o1 \<Rightarrow> vout_proxies o1, if errs \<noteq> [] then [ValidatingFailedErr errs] else []), v))))"

definition validateList :: "webhook_lib \<Rightarrow> string \<Rightarrow> bool \<Rightarrow> edge_validator \<Rightarrow> review_result" where
  "validateList wl rawJson dryRun v =
     (case whl_UnmarshalList wl rawJson of
        Inl e \<Rightarrow> Inr (([], [UnmarshalErr e]), v)
      | Inr items \<Rightarrow>
          bind_out (ValidateList (whl_validator wl) (map (readItem wl) items) dryRun v) (\<lambda>(out, v).
            Inr ((vout_proxies out, vout_err out), v)))"

definition validateAdmissionRequest ::
  "webhook_lib \<Rightarrow> webhook \<Rightarrow> group_version_kind \<Rightarrow> resource_ref \<Rightarrow> admission_request \<Rightarrow> edge_validator \<Rightarrow> review_result" where
  "validateAdmissionRequest wl wh gvk ref req v =
     (let isDelete = (arq_Operation req = ''DELETE'')
      in if gvk = ListGVK then validateList wl (arq_Object req) (isDryRun req) v
         else if gvk_Group gvk = [] \<and> gvk_Kind gvk = ''Secret'' \<and> \<not> isDelete then Inr (([], []), v)
         else if \<not> (gvk_Group gvk = [] \<and> gvk_Kind gvk = ''Secret'') \<and> ApiGvkToHashableResource gvk = None then Inr (([], []), v)
         else if isDelete then deleteRef wl gvk ref req v
         else validateGvk wl wh gvk req v)"

section \<open>The answer\<close>

definition getFailureCauses :: "webhook_lib \<Rightarrow> val_error list \<Rightarrow> string list" where
  "getFailureCauses wl errs = map (\<lambda>e. ''Error '' @ whl_Error wl e) errs"

text \<open>The list of errors as \<open>%v\<close> prints it.\<close>

fun joinErrors :: "string list \<Rightarrow> string" where
  "joinErrors [] = []"
| "joinErrors [e] = e"
| "joinErrors (e # es) = e @ '' '' @ joinErrors es"

definition rejection :: "webhook_lib \<Rightarrow> admission_request \<Rightarrow> val_error list \<Rightarrow> admission_response" where
  "rejection wl req errs =
     \<lparr>ars_Allowed = False, ars_UID = [],
      ars_Result = Some \<lparr>are_Message = ''resource incompatible with current Gloo snapshot: ['' @ joinErrors (map (whl_Error wl) errs) @ '']'',
        are_Details = Some \<lparr>sdt_Name = arq_Name req, sdt_Group = gvk_Group (arq_Kind req), sdt_Kind = gvk_Kind (arq_Kind req),
          sdt_Causes = getFailureCauses wl errs\<rparr>\<rparr>\<rparr>"

text \<open>Whether the namespace of a request is watched.\<close>

definition validatingForNamespace :: "webhook \<Rightarrow> group_version_kind \<Rightarrow> string \<Rightarrow> bool" where
  "validatingForNamespace wh gvk namespace =
     (let watchNamespaces =
            (if gvk = gatewayGVK ''Gateway'' \<and> \<not> wh_readGatewaysFromAllNamespaces wh \<and> \<not> AllNamespaces (wh_watchNamespaces wh)
             then [wh_webhookNamespace wh] else wh_watchNamespaces wh)
      in if watchNamespaces \<noteq> [] then list_ex (\<lambda>ns. ns = [] \<or> ns = namespace) watchNamespaces else True)"

definition makeAdmissionResponse ::
  "webhook_lib \<Rightarrow> webhook \<Rightarrow> admission_review \<Rightarrow> edge_validator \<Rightarrow> (response_with_proxies \<times> edge_validator) outcome" where
  "makeAdmissionResponse wl wh review v =
     bind_out (deref (arv_Request review)) (\<lambda>req.
       let gvk = arq_Kind req
       in if \<not> validatingForNamespace wh gvk (arq_Namespace req)
          then Inr (\<lparr>rwp_Response = Some \<lparr>ars_Allowed = True, ars_UID = [], ars_Result = None\<rparr>, rwp_Proxies = []\<rparr>, v)
          else bind_out (validateAdmissionRequest wl wh gvk \<lparr>rref_Name = arq_Name req, rref_Namespace = arq_Namespace req\<rparr> req v)
            (\<lambda>((proxies, errs), v).
               let hasUnmarshalErr = list_ex (whl_IsUnmarshalErr wl) errs
               in Inr (if errs = [] \<or> wh_alwaysAccept wh \<and> \<not> hasUnmarshalErr
                       then \<lparr>rwp_Response = Some \<lparr>ars_Allowed = True, ars_UID = [], ars_Result = None\<rparr>, rwp_Proxies = proxies\<rparr>
                       else \<lparr>rwp_Response = Some (rejection wl req errs), rwp_Proxies = proxies\<rparr>, v)))"

text \<open>In the JSON branch the error of the decoder is a new variable: the error that is looked at afterwards is nil.\<close>

definition decodeReview ::
  "webhook_lib \<Rightarrow> webhook \<Rightarrow> string \<Rightarrow> string \<Rightarrow> edge_validator \<Rightarrow> ((response_with_proxies \<times> string option \<times> admission_review) \<times> edge_validator) outcome" where
  "decodeReview wl wh contentType body v =
     (let yaml = (contentType = ''application/x-yaml'');
          (err, review) = (if yaml then whl_Yaml wl body else whl_Decode wl body)
      in case err of
           None \<Rightarrow> bind_out (makeAdmissionResponse wl wh review v) (\<lambda>(resp, v). Inr ((resp, None, review), v))
         | Some e \<Rightarrow> Inr ((\<lparr>rwp_Response = None, rwp_Proxies = []\<rparr>, if yaml then Some e else None, review), v))"

definition reviewResponse :: "response_with_proxies \<Rightarrow> string option \<Rightarrow> admission_review \<Rightarrow> response_with_proxies outcome" where
  "reviewResponse resp err review =
     (let response = (case err of
            Some e \<Rightarrow> Some \<lparr>ars_Allowed = False, ars_UID = [], ars_Result = Some \<lparr>are_Message = e, are_Details = None\<rparr>\<rparr>
          | None \<Rightarrow> rwp_Response resp);
          proxies = (if arv_ReturnProxies review then rwp_Proxies resp else [])
      in case arv_Request review of
           None \<Rightarrow> Inr \<lparr>rwp_Response = response, rwp_Proxies = proxies\<rparr>
         | Some req \<Rightarrow>
             bind_out (deref response) (\<lambda>r. Inr \<lparr>rwp_Response = Some (r\<lparr>ars_UID := arq_UID req\<rparr>), rwp_Proxies = proxies\<rparr>))"

definition ServeHTTP :: "webhook_lib \<Rightarrow> webhook \<Rightarrow> http_request \<Rightarrow> edge_validator \<Rightarrow> (http_effect list \<times> edge_validator) outcome" where
  "ServeHTTP wl wh r v =
     (if hrq_ContentType r \<noteq> ''application/json'' \<and> hrq_ContentType r \<noteq> ''application/x-yaml''
      then Inr ([HttpError ''empty body'' 400], v)
      else let body = (case hrq_Body r of Some (Inr data) \<Rightarrow> data | _ \<Rightarrow> [])
           in if body = [] then Inr ([HttpError ''empty body'' 400], v)
              else bind_out (decodeReview wl wh (hrq_ContentType r) body v) (\<lambda>((resp, err, review), v).
                bind_out (reviewResponse resp err review) (\<lambda>answer.
                  case whl_Marshal wl answer of
                    Inl e \<Rightarrow> Inr ([HttpError (''could not encode response: '' @ e) 500], v)
                  | Inr text \<Rightarrow>
                      Inr (WriteBody text # (case whl_Write wl text of None \<Rightarrow> [] | Some e \<Rightarrow> [HttpError (''could not write response: '' @ e) 500]), v))))"

end
