(* ===== verification/EdgeReportsProps.thy ===== *)
theory EdgeReportsProps
  imports EdgeReports
begin

text \<open>
  What the charging of validation results does: the run of \<open>AddProxyValidationResult\<close> is a sequence of charges, one for
  each listener and one for each virtual host with a report, and a resource is rejected afterwards
  exactly when it was before or is a source of something charged with an error.
\<close>

section \<open>Runs\<close>

lemma for_each_append: "for_each f (xs @ ys) s = and_then (for_each f xs s) (for_each f ys)"
  by (induction xs arbitrary: s)
    (auto simp: and_then_def bind_out_def split: sum.splits option.splits)

lemma for_each_concat: "for_each (\<lambda>xs. for_each f xs) xss s = for_each f (concat xss) s"
proof (induction xss arbitrary: s)
  case (Cons xs xss)
  then have "for_each f (concat xss) = for_each (\<lambda>xs. for_each f xs) xss" by (intro ext) simp
  then show ?case by (simp add: for_each_append and_then_def)
qed simp

lemma for_each_map: "for_each f (map g xs) s = for_each (\<lambda>x. f (g x)) xs s"
proof -
  have "for_each f (map g xs) = for_each (\<lambda>x. f (g x)) xs"
  proof (induction xs)
    case (Cons x xs)
    show ?case by (rule ext) (unfold list.map for_each.simps Cons.IH, rule refl)
  qed (simp add: fun_eq_iff)
  then show ?thesis by simp
qed

lemma for_each_okE:
  assumes "for_each f (x # xs) s = Inr (None, s')"
  obtains t where "f x s = Inr (None, t)" "for_each f xs t = Inr (None, s')"
  using assms by (auto elim!: bind_out_InrE split: option.splits prod.splits)

lemma and_then_okE:
  assumes "and_then r f = Inr (None, s')"
  obtains t where "r = Inr (None, t)" "f t = Inr (None, s')"
  using assms by (auto simp: and_then_def elim!: bind_out_InrE split: option.splits prod.splits)

text \<open>A successful run of one loop is a successful run of another whose steps agree on success.\<close>

lemma for_each_ok_mono:
  assumes "for_each f xs s = Inr (None, s')" "\<And>x s s'. x \<in> set xs \<Longrightarrow> f x s = Inr (None, s') \<Longrightarrow> g x s = Inr (None, s')"
  shows "for_each g xs s = Inr (None, s')"
  using assms
proof (induction xs arbitrary: s)
  case (Cons x xs)
  from Cons.prems(1) obtain t where "f x s = Inr (None, t)" "for_each f xs t = Inr (None, s')" by (rule for_each_okE)
  with Cons show ?case by simp
qed simp

lemma for_each_returns:
  assumes "\<And>x s. x \<in> set xs \<Longrightarrow> P s \<Longrightarrow> \<exists>s'. f x s = Inr (None, s') \<and> P s'" "P s"
  shows "\<exists>s'. for_each f xs s = Inr (None, s') \<and> P s'"
  using assms
proof (induction xs arbitrary: s)
  case (Cons x xs)
  then obtain t where "f x s = Inr (None, t)" "P t" by (metis list.set_intros(1))
  with Cons.IH [of t] Cons.prems(1) show ?case by simp
qed simp

lemma foldl_map_upd:
  "foldl (\<lambda>m x. m(k x \<mapsto> v x)) m xs = (\<lambda>q. case map_of (rev (map (\<lambda>x. (k x, v x)) xs)) q of None \<Rightarrow> m q | Some y \<Rightarrow> Some y)"
  by (induction xs arbitrary: m) (auto simp: map_add_def fun_eq_iff map_of_append split: option.splits)

lemma foldl_map_upd_empty: "foldl (\<lambda>m x. m(k x \<mapsto> v x)) Map.empty xs = map_of (rev (map (\<lambda>x. (k x, v x)) xs))"
  by (simp add: foldl_map_upd fun_eq_iff split: option.splits)

section \<open>Charges\<close>

text \<open>The virtual hosts that a report under a name of a route configuration is about: those of the last
  matched listener or filter chain with that name.\<close>

definition matchedHostsAt :: "report_lib \<Rightarrow> proxy_listener \<Rightarrow> string \<Rightarrow> proxy_vhost option list" where
  "matchedHostsAt rl l key =
     (case map_of (rev (map (\<lambda>ml. (MatchedRouteConfigName rl l (pml_Matcher ml), matchedHttpListener ml)) (GetMatchedListeners l))) key of
        None \<Rightarrow> []
      | Some h \<Rightarrow> GetVirtualHosts h)"

definition chainHostsAt :: "report_lib \<Rightarrow> proxy_listener \<Rightarrow> string \<Rightarrow> proxy_vhost option list" where
  "chainHostsAt rl l key =
     chainVirtualHosts (getAggregate l)
       (case map_of (rev (map (\<lambda>c. (MatchedRouteConfigName rl l (pfc_Matcher c), pfc_VirtualHostRefs c)) (pag_HttpFilterChains (getAggregate l)))) key of
          None \<Rightarrow> []
        | Some refs \<Rightarrow> refs)"

text \<open>The virtual hosts of a listener beside their reports.\<close>

definition reportedHosts :: "report_lib \<Rightarrow> proxy_listener \<Rightarrow> vlistener_report option \<Rightarrow> (proxy_vhost option \<times> vhost_report) list" where
  "reportedHosts rl l r =
     (case lrp_ListenerTypeReport (getListenerReport r) of
        Some (HttpListenerReport h) \<Rightarrow> zip (GetVirtualHosts (GetHttpListener l)) (hlr_VirtualHostReports h)
      | Some (HybridListenerReport m) \<Rightarrow>
          concat (map (\<lambda>key. case m key of Some (Some (MatchedHttpReport h)) \<Rightarrow> zip (matchedHostsAt rl l key) (hlr_VirtualHostReports h) | _ \<Rightarrow> [])
            (rl_keys rl (dom m)))
      | Some (AggregateListenerReport hs _) \<Rightarrow>
          concat (map (\<lambda>key. case hs key of Some h \<Rightarrow> zip (chainHostsAt rl l key) (hlr_VirtualHostReports h) | _ \<Rightarrow> [])
            (rl_keys rl (dom hs)))
      | _ \<Rightarrow> [])"

type_synonym charge = "opaque_metadata \<times> eris_error list \<times> string list"

definition vhostCharge :: "proxy_vhost option \<times> vhost_report \<Rightarrow> charge" where
  "vhostCharge p = (vhostMetadata (fst p), getVirtualHostLevelErrorsAndWarnings (snd p))"

definition listenerCharges :: "report_lib \<Rightarrow> proxy_listener \<times> vlistener_report option \<Rightarrow> charge list" where
  "listenerCharges rl p =
     (pli_Metadata (fst p), getListenerLevelErrors rl (snd p), getListenerLevelWarnings (snd p)) #
     map vhostCharge (reportedHosts rl (fst p) (snd p))"

definition charges :: "report_lib \<Rightarrow> proxy_listener list \<Rightarrow> vlistener_report option list \<Rightarrow> charge list" where
  "charges rl ls reps = concat (map (listenerCharges rl) (zip ls reps))"

definition do_charge :: "report_lib \<Rightarrow> charge \<Rightarrow> resource_reports \<Rightarrow> resource_reports erun" where
  "do_charge rl c rs = ForEachSource rl (fst c) (addToSource rl (fst (snd c)) (snd (snd c))) rs"

lemma addVirtualHostResults_charges:
  assumes "length vhs = length reps"
  shows "addVirtualHostResults rl vhs reps rs = for_each (do_charge rl) (map vhostCharge (zip vhs reps)) rs"
proof -
  have "(\<lambda>(vh, v). addVirtualHostResult rl vh v) = (\<lambda>p. do_charge rl (vhostCharge p))"
    by (simp add: fun_eq_iff do_charge_def vhostCharge_def addVirtualHostResult_def case_prod_beta)
  then show ?thesis using assms by (simp add: addVirtualHostResults_def for_each_map)
qed

lemma addVirtualHostResults_ok:
  assumes "addVirtualHostResults rl vhs reps rs = Inr (None, rs')"
  shows "length vhs = length reps" "for_each (do_charge rl) (map vhostCharge (zip vhs reps)) rs = Inr (None, rs')"
proof -
  show l: "length vhs = length reps" using assms by (auto simp: addVirtualHostResults_def split: if_splits)
  show "for_each (do_charge rl) (map vhostCharge (zip vhs reps)) rs = Inr (None, rs')"
    using assms by (simp add: addVirtualHostResults_charges [OF l])
qed

lemma addHybridResults_ok:
  assumes "addHybridResults rl l m rs = Inr (None, rs')"
  shows "for_each (do_charge rl) (map vhostCharge (concat (map (\<lambda>key. case m key of
      Some (Some (MatchedHttpReport h)) \<Rightarrow> zip (matchedHostsAt rl l key) (hlr_VirtualHostReports h) | _ \<Rightarrow> []) (rl_keys rl (dom m))))) rs = Inr (None, rs')"
proof -
  let ?mls = "GetMatchedListeners l"
  let ?at = "map_of (rev (map (\<lambda>ml. (MatchedRouteConfigName rl l (pml_Matcher ml), matchedHttpListener ml)) ?mls))"
  have at: "matchedHostsAt rl l key = GetVirtualHosts h" if "?at key = Some h" for key h
    using that by (simp add: matchedHostsAt_def)
  have run: "for_each (\<lambda>key rs. case m key of
      Some (Some (MatchedHttpReport h)) \<Rightarrow>
        (case ?at key of None \<Rightarrow> Inr (Some invalidReportsHybridRcNameNotFound, rs)
         | Some hl \<Rightarrow> addVirtualHostResults rl (GetVirtualHosts hl) (hlr_VirtualHostReports h) rs)
    | _ \<Rightarrow> Inr (None, rs)) (rl_keys rl (dom m)) rs = Inr (None, rs')"
    using assms unfolding addHybridResults_def Let_def foldl_map_upd_empty .
  let ?cs = "\<lambda>key. map vhostCharge (case m key of
      Some (Some (MatchedHttpReport h)) \<Rightarrow> zip (matchedHostsAt rl l key) (hlr_VirtualHostReports h) | _ \<Rightarrow> [])"
  have "for_each (\<lambda>key. for_each (do_charge rl) (?cs key)) (rl_keys rl (dom m)) rs = Inr (None, rs')"
    by (rule for_each_ok_mono [OF run])
      (auto simp: at dest: addVirtualHostResults_ok(2) split: option.splits matched_listener_report.splits)
  then show ?thesis
    by (simp only: for_each_map [symmetric, of "for_each (do_charge rl)" ?cs] for_each_concat map_concat map_map comp_def)
qed

lemma addAggregateResults_ok:
  assumes "addAggregateResults rl l m rs = Inr (None, rs')"
  shows "for_each (do_charge rl) (map vhostCharge (concat (map (\<lambda>key. case m key of
      Some h \<Rightarrow> zip (chainHostsAt rl l key) (hlr_VirtualHostReports h) | _ \<Rightarrow> []) (rl_keys rl (dom m))))) rs = Inr (None, rs')"
proof -
  let ?agg = "getAggregate l"
  let ?at = "map_of (rev (map (\<lambda>c. (MatchedRouteConfigName rl l (pfc_Matcher c), pfc_VirtualHostRefs c)) (pag_HttpFilterChains ?agg)))"
  have at: "chainVirtualHosts ?agg (case ?at key of None \<Rightarrow> [] | Some refs \<Rightarrow> refs) = chainHostsAt rl l key" for key
    by (simp add: chainHostsAt_def)
  have run: "for_each (\<lambda>key rs. case m key of None \<Rightarrow> Inr (None, rs) | Some h \<Rightarrow>
      addVirtualHostResults rl (chainHostsAt rl l key) (hlr_VirtualHostReports h) rs) (rl_keys rl (dom m)) rs = Inr (None, rs')"
    using assms unfolding addAggregateResults_def Let_def foldl_map_upd_empty at .
  let ?cs = "\<lambda>key. map vhostCharge (case m key of Some h \<Rightarrow> zip (chainHostsAt rl l key) (hlr_VirtualHostReports h) | _ \<Rightarrow> [])"
  have "for_each (\<lambda>key. for_each (do_charge rl) (?cs key)) (rl_keys rl (dom m)) rs = Inr (None, rs')"
    by (rule for_each_ok_mono [OF run]) (auto dest: addVirtualHostResults_ok(2) split: option.splits)
  then show ?thesis
    by (simp only: for_each_map [symmetric, of "for_each (do_charge rl)" ?cs] for_each_concat map_concat map_map comp_def)
qed

lemma addListenerAndHosts_ok:
  assumes "addListenerAndHosts rl l r rs = Inr (None, rs')"
  shows "for_each (do_charge rl) (listenerCharges rl (l, r)) rs = Inr (None, rs')"
proof -
  from assms obtain t where 1: "addListenerResult rl l r rs = Inr (None, t)"
    and 2: "(case lrp_ListenerTypeReport (getListenerReport r) of
         Some (HttpListenerReport h) \<Rightarrow> addVirtualHostResults rl (GetVirtualHosts (GetHttpListener l)) (hlr_VirtualHostReports h) t
       | Some (HybridListenerReport m) \<Rightarrow> addHybridResults rl l m t
       | Some (AggregateListenerReport hs _) \<Rightarrow> addAggregateResults rl l hs t
       | _ \<Rightarrow> Inr (None, t)) = Inr (None, rs')"
    unfolding addListenerAndHosts_def by (rule and_then_okE)
  from 2 have "for_each (do_charge rl) (map vhostCharge (reportedHosts rl l r)) t = Inr (None, rs')"
    by (auto simp: reportedHosts_def dest: addVirtualHostResults_ok(2) addHybridResults_ok addAggregateResults_ok
        split: option.splits listener_type_report.splits)
  with 1 show ?thesis by (simp add: listenerCharges_def do_charge_def addListenerResult_def)
qed

text \<open>A run without error is the run of the charges.\<close>

lemma AddProxyValidationResult_charges:
  assumes "AddProxyValidationResult rl ls reps rs = Inr (None, rs')"
  shows "length ls = length reps" "for_each (do_charge rl) (charges rl ls reps) rs = Inr (None, rs')"
proof -
  show l: "length ls = length reps" using assms by (auto simp: AddProxyValidationResult_def split: if_splits)
  have run: "for_each (\<lambda>(l, r). addListenerAndHosts rl l r) (zip ls reps) rs = Inr (None, rs')"
    using assms l by (simp add: AddProxyValidationResult_def)
  have "for_each (\<lambda>p. for_each (do_charge rl) (listenerCharges rl p)) (zip ls reps) rs = Inr (None, rs')"
    by (rule for_each_ok_mono [OF run]) (auto dest: addListenerAndHosts_ok)
  then show "for_each (do_charge rl) (charges rl ls reps) rs = Inr (None, rs')"
    unfolding charges_def for_each_concat [symmetric] for_each_map .
qed

section \<open>Rejected resources\<close>

text \<open>What the code relies on of the reports of \<open>solo-kit\<close>: a lookup finds the entry with the kind and the reference, or gives
  an empty report when there is none; adding errors or warnings changes the one entry, and adding none
  changes nothing. \<open>R\<close> are the resources that the reports are about.\<close>

definition report_lib_ok :: "report_lib \<Rightarrow> input_resource set \<Rightarrow> bool" where
  "report_lib_ok rl R \<longleftrightarrow>
     (\<forall>rs kind ref. dom rs = R \<longrightarrow> (case rl_Find rl rs kind ref of
        (None, r) \<Rightarrow> rrt_Errors r = None \<and> (\<forall>res \<in> R. \<not> (ir_Kind res = kind \<and> ir_Ref res = ref))
      | (Some res, r) \<Rightarrow> rs res = Some r \<and> ir_Kind res = kind \<and> ir_Ref res = ref)) \<and>
     (\<forall>rs res r errs. rs res = Some r \<longrightarrow>
        (\<exists>r'. rl_AddErrors rl rs res errs = rs(res \<mapsto> r') \<and> rrt_Warnings r' = rrt_Warnings r \<and>
          (errs = [] \<longrightarrow> r' = r) \<and> (rrt_Errors r' = None \<longleftrightarrow> rrt_Errors r = None \<and> errs = []))) \<and>
     (\<forall>rs res r ws. rs res = Some r \<longrightarrow> rl_AddWarnings rl rs res ws = rs(res \<mapsto> r\<lparr>rrt_Warnings := rrt_Warnings r @ ws\<rparr>))"

definition hasErrors :: "resource_reports \<Rightarrow> input_resource \<Rightarrow> bool" where
  "hasErrors rs res \<longleftrightarrow> (case rs res of None \<Rightarrow> False | Some r \<Rightarrow> rrt_Errors r \<noteq> None)"

definition one_report :: "resource_reports \<Rightarrow> bool" where
  "one_report rs \<longleftrightarrow> (\<forall>a \<in> dom rs. \<forall>b \<in> dom rs. ir_Kind a = ir_Kind b \<and> ir_Ref a = ir_Ref b \<longrightarrow> a = b)"

definition sources :: "report_lib \<Rightarrow> opaque_metadata \<Rightarrow> proxy_source list" where
  "sources rl meta = (case GetSourceMeta rl meta of Inl _ \<Rightarrow> [] | Inr srcs \<Rightarrow> srcs)"

definition source_of :: "report_lib \<Rightarrow> opaque_metadata \<Rightarrow> input_resource \<Rightarrow> bool" where
  "source_of rl meta res \<longleftrightarrow>
     (\<exists>src \<in> set (sources rl meta). ps_ResourceKind src = ir_Kind res \<and> ps_ResourceRef src = Some (ir_Ref res))"

lemma report_lib_okD:
  assumes "report_lib_ok rl (dom rs)"
  shows Find_None: "rl_Find rl rs kind ref = (None, r) \<Longrightarrow> rrt_Errors r = None \<and> (\<forall>res \<in> dom rs. \<not> (ir_Kind res = kind \<and> ir_Ref res = ref))"
    and Find_Some: "rl_Find rl rs kind ref = (Some res, r) \<Longrightarrow> rs res = Some r \<and> ir_Kind res = kind \<and> ir_Ref res = ref"
    and AddErrors: "rs res = Some r \<Longrightarrow> \<exists>r'. rl_AddErrors rl rs res errs = rs(res \<mapsto> r') \<and> rrt_Warnings r' = rrt_Warnings r \<and>
      (errs = [] \<longrightarrow> r' = r) \<and> (rrt_Errors r' = None \<longleftrightarrow> rrt_Errors r = None \<and> errs = [])"
    and AddWarnings: "rs res = Some r \<Longrightarrow> rl_AddWarnings rl rs res ws = rs(res \<mapsto> r\<lparr>rrt_Warnings := rrt_Warnings r @ ws\<rparr>)"
proof -
  have find: "case rl_Find rl rs kind ref of
        (None, r) \<Rightarrow> rrt_Errors r = None \<and> (\<forall>res \<in> dom rs. \<not> (ir_Kind res = kind \<and> ir_Ref res = ref))
      | (Some res, r) \<Rightarrow> rs res = Some r \<and> ir_Kind res = kind \<and> ir_Ref res = ref"
    using assms [unfolded report_lib_ok_def, THEN conjunct1, rule_format, OF refl] .
  show "rl_Find rl rs kind ref = (None, r) \<Longrightarrow> rrt_Errors r = None \<and> (\<forall>res \<in> dom rs. \<not> (ir_Kind res = kind \<and> ir_Ref res = ref))"
    using find by simp
  show "rl_Find rl rs kind ref = (Some res, r) \<Longrightarrow> rs res = Some r \<and> ir_Kind res = kind \<and> ir_Ref res = ref"
    using find by simp
  show "rs res = Some r \<Longrightarrow> \<exists>r'. rl_AddErrors rl rs res errs = rs(res \<mapsto> r') \<and> rrt_Warnings r' = rrt_Warnings r \<and>
      (errs = [] \<longrightarrow> r' = r) \<and> (rrt_Errors r' = None \<longleftrightarrow> rrt_Errors r = None \<and> errs = [])"
    using assms [unfolded report_lib_ok_def, THEN conjunct2, THEN conjunct1] by simp
  show "rs res = Some r \<Longrightarrow> rl_AddWarnings rl rs res ws = rs(res \<mapsto> r\<lparr>rrt_Warnings := rrt_Warnings r @ ws\<rparr>)"
    using assms [unfolded report_lib_ok_def, THEN conjunct2, THEN conjunct2] by simp
qed

text \<open>The effect of a charge: the resources of \<open>E\<close> are rejected as well.\<close>

definition rejects :: "input_resource set \<Rightarrow> resource_reports \<Rightarrow> resource_reports \<Rightarrow> bool" where
  "rejects E rs rs' \<longleftrightarrow> dom rs' = dom rs \<and> (\<forall>res \<in> dom rs. hasErrors rs' res \<longleftrightarrow> hasErrors rs res \<or> res \<in> E)"

lemma rejects_empty [simp]: "rejects {} rs rs"
  by (simp add: rejects_def)

lemma rejects_trans: "rejects E rs t \<Longrightarrow> rejects F t rs' \<Longrightarrow> rejects (E \<union> F) rs rs'"
  by (auto simp: rejects_def)

lemma rejects_mono: "rejects E rs rs' \<Longrightarrow> (\<And>res. res \<in> dom rs \<Longrightarrow> res \<in> E \<longleftrightarrow> res \<in> F) \<Longrightarrow> rejects F rs rs'"
  by (simp add: rejects_def)

lemma one_report_rejects: "one_report rs \<Longrightarrow> rejects E rs rs' \<Longrightarrow> one_report rs'"
  by (simp add: one_report_def rejects_def)

lemma for_each_rejects:
  assumes "for_each f xs rs = Inr (None, rs')" "one_report rs" "dom rs = R"
    and step: "\<And>x rs rs'. x \<in> set xs \<Longrightarrow> dom rs = R \<Longrightarrow> one_report rs \<Longrightarrow> f x rs = Inr (None, rs') \<Longrightarrow> rejects (E x) rs rs'"
  shows "rejects (\<Union>x \<in> set xs. E x) rs rs'"
  using assms
proof (induction xs arbitrary: rs)
  case (Cons x xs)
  from Cons.prems(1) obtain t where 1: "f x rs = Inr (None, t)" and 2: "for_each f xs t = Inr (None, rs')" by (rule for_each_okE)
  from Cons.prems(2,3,4) 1 have e: "rejects (E x) rs t" by simp
  with Cons.prems(2) have "one_report t" by (rule one_report_rejects)
  moreover have "dom t = R" using e Cons.prems(3) by (simp add: rejects_def)
  ultimately have "rejects (\<Union>x \<in> set xs. E x) t rs'" using Cons 2 by simp
  with e show ?case using rejects_trans by fastforce
qed simp

lemma addToSource_rejects:
  assumes ok: "report_lib_ok rl (dom rs)" and one: "one_report rs" and run: "addToSource rl errs ws src rs = Inr (None, rs')"
  shows "rejects {res. errs \<noteq> [] \<and> ps_ResourceKind src = ir_Kind res \<and> ps_ResourceRef src = Some (ir_Ref res)} rs rs'"
proof -
  from run obtain ref res r where ref: "ps_ResourceRef src = Some ref" and find: "rl_Find rl rs (ps_ResourceKind src) ref = (Some res, r)"
    and rs': "rs' = rl_AddWarnings rl (rl_AddErrors rl rs res errs) res ws"
    by (cases "ps_ResourceRef src"; cases "rl_Find rl rs (ps_ResourceKind src) (the (ps_ResourceRef src))")
      (auto simp: addToSource_def split: option.splits)
  from Find_Some [OF ok find] have res: "rs res = Some r" "ir_Kind res = ps_ResourceKind src" "ir_Ref res = ref" by auto
  obtain r' where e: "rl_AddErrors rl rs res errs = rs(res \<mapsto> r')" "rrt_Errors r' = None \<longleftrightarrow> rrt_Errors r = None \<and> errs = []"
    using AddErrors [OF ok, of res r errs, OF res(1)] by (elim exE conjE) (rule that)
  have eq: "rs' = rs(res \<mapsto> r'\<lparr>rrt_Warnings := rrt_Warnings r' @ ws\<rparr>)"
  proof -
    have "dom (rs(res \<mapsto> r')) = dom rs" using res(1) by auto
    then have "report_lib_ok rl (dom (rs(res \<mapsto> r')))" using ok by simp
    from AddWarnings [OF this, of res r' ws] show ?thesis by (simp add: rs' e(1))
  qed
  have uniq: "b = res \<longleftrightarrow> ir_Kind b = ps_ResourceKind src \<and> ir_Ref b = ref" if "b \<in> dom rs" for b
  proof -
    have "res \<in> dom rs" using res(1) by blast
    with one that have "ir_Kind b = ir_Kind res \<and> ir_Ref b = ir_Ref res \<longrightarrow> b = res" unfolding one_report_def by blast
    with res(2,3) show ?thesis by auto
  qed
  have rej: "hasErrors rs' b \<longleftrightarrow> hasErrors rs b \<or> errs \<noteq> [] \<and> b = res" for b
    using res(1) e(2) by (auto simp: eq hasErrors_def)
  have "dom rs' = dom rs" using res(1) by (auto simp: eq)
  with rej uniq ref show ?thesis by (auto simp: rejects_def)
qed

lemma do_charge_rejects:
  assumes "report_lib_ok rl (dom rs)" "one_report rs" "do_charge rl c rs = Inr (None, rs')"
  shows "rejects {res. fst (snd c) \<noteq> [] \<and> source_of rl (fst c) res} rs rs'"
proof -
  from assms(3) obtain srcs where srcs: "GetSourceMeta rl (fst c) = Inr srcs"
    and run: "for_each (addToSource rl (fst (snd c)) (snd (snd c))) srcs rs = Inr (None, rs')"
    by (auto simp: do_charge_def ForEachSource_def split: sum.splits)
  have "rejects (\<Union>src \<in> set srcs. {res. fst (snd c) \<noteq> [] \<and> ps_ResourceKind src = ir_Kind res \<and> ps_ResourceRef src = Some (ir_Ref res)}) rs rs'"
    using assms(1) by (intro for_each_rejects [OF run assms(2) refl] addToSource_rejects) simp_all
  then show ?thesis by (rule rejects_mono) (auto simp: source_of_def sources_def srcs)
qed

lemma charges_bex:
  "(\<exists>c \<in> set (charges rl ls reps). fst (snd c) \<noteq> [] \<and> source_of rl (fst c) res) \<longleftrightarrow>
   (\<exists>p \<in> set (zip ls reps). getListenerLevelErrors rl (snd p) \<noteq> [] \<and> source_of rl (pli_Metadata (fst p)) res \<or>
      (\<exists>q \<in> set (reportedHosts rl (fst p) (snd p)).
        fst (getVirtualHostLevelErrorsAndWarnings (snd q)) \<noteq> [] \<and> source_of rl (vhostMetadata (fst q)) res))"
  by (simp add: charges_def listenerCharges_def vhostCharge_def bex_Un)

lemma AddProxyValidationResult_rejects:
  assumes "report_lib_ok rl (dom rs)" and "one_report rs" and "AddProxyValidationResult rl ls reps rs = Inr (None, rs')"
  shows "rejects (\<Union>c \<in> set (charges rl ls reps). {res. fst (snd c) \<noteq> [] \<and> source_of rl (fst c) res}) rs rs'"
  using assms(1) by (intro for_each_rejects [OF AddProxyValidationResult_charges(2) [OF assms(3)] assms(2) refl] do_charge_rejects) simp_all


section \<open>Reports without errors\<close>

text \<open>The virtual hosts of a listener: one group for each HTTP listener or filter chain in it.\<close>

definition hostGroups :: "proxy_listener \<Rightarrow> proxy_vhost option list list" where
  "hostGroups l =
     (case pli_ListenerType l of
        Some (PHttp h) \<Rightarrow> [phl_VirtualHosts h]
      | Some (PHybrid mls) \<Rightarrow> map phl_VirtualHosts (List.map_filter matchedHttpListener mls)
      | Some (PAggregate agg) \<Rightarrow> map (\<lambda>c. chainVirtualHosts agg (pfc_VirtualHostRefs c)) (pag_HttpFilterChains agg)
      | _ \<Rightarrow> [])"

text \<open>Every source of an object can be read and has a report.\<close>

definition known :: "report_lib \<Rightarrow> resource_reports \<Rightarrow> opaque_metadata \<Rightarrow> bool" where
  "known rl rs meta \<longleftrightarrow>
     (case GetSourceMeta rl meta of
        Inl _ \<Rightarrow> False
      | Inr srcs \<Rightarrow> \<forall>src \<in> set srcs. \<exists>res \<in> dom rs. ps_ResourceKind src = ir_Kind res \<and> ps_ResourceRef src = Some (ir_Ref res))"

definition known_listener :: "report_lib \<Rightarrow> resource_reports \<Rightarrow> proxy_listener \<Rightarrow> bool" where
  "known_listener rl rs l \<longleftrightarrow> known rl rs (pli_Metadata l) \<and> (\<forall>vhs \<in> set (hostGroups l). \<forall>vh \<in> set vhs. known rl rs (vhostMetadata vh))"

lemma for_each_const:
  assumes "\<And>x. x \<in> set xs \<Longrightarrow> f x s = Inr (None, s)"
  shows "for_each f xs s = Inr (None, s)"
  using assms by (induction xs) auto

lemma addToSource_none:
  assumes ok: "report_lib_ok rl (dom rs)" and "res \<in> dom rs" "ps_ResourceKind src = ir_Kind res" "ps_ResourceRef src = Some (ir_Ref res)"
  shows "addToSource rl [] [] src rs = Inr (None, rs)"
proof (cases "rl_Find rl rs (ps_ResourceKind src) (ir_Ref res)")
  case (Pair found r)
  obtain res' where res': "found = Some res'" using Find_None [OF ok] Pair assms(2-4) by (cases found) fastforce+
  with Find_Some [OF ok] Pair have r: "rs res' = Some r" by simp
  then have "rl_AddErrors rl rs res' [] = rs" using AddErrors [OF ok, of res' r "[]"] by auto
  moreover have "rl_AddWarnings rl rs res' [] = rs" using AddWarnings [OF ok, of res' r "[]"] r by auto
  ultimately show ?thesis using Pair res' assms(4) by (simp add: addToSource_def)
qed

lemma do_charge_none:
  assumes "report_lib_ok rl (dom rs)" "known rl rs (fst c)" "snd c = ([], [])"
  shows "do_charge rl c rs = Inr (None, rs)"
proof -
  obtain srcs where srcs: "GetSourceMeta rl (fst c) = Inr srcs"
    and known: "\<forall>src \<in> set srcs. \<exists>res \<in> dom rs. ps_ResourceKind src = ir_Kind res \<and> ps_ResourceRef src = Some (ir_Ref res)"
    using assms(2) by (auto simp: known_def split: sum.splits)
  have "for_each (addToSource rl [] []) srcs rs = Inr (None, rs)"
    using known addToSource_none [OF assms(1)] by (intro for_each_const) blast
  then show ?thesis using assms(3) by (simp add: do_charge_def ForEachSource_def srcs)
qed

lemma makeVhostReports_none:
  "v \<in> set (makeVhostReports vhs) \<Longrightarrow> getVirtualHostLevelErrorsAndWarnings v = ([], [])"
  by (auto simp: makeVhostReports_def getVirtualHostLevelErrorsAndWarnings_def GetVirtualHostErr_def GetRouteErr_def GetRouteWarning_def
      comp_def)

lemma addVirtualHostResults_make:
  assumes "report_lib_ok rl (dom rs)" "\<forall>vh \<in> set vhs. known rl rs (vhostMetadata vh)"
  shows "addVirtualHostResults rl vhs (hlr_VirtualHostReports (makeHttpReport vhs)) rs = Inr (None, rs)"
proof -
  let ?reps = "makeVhostReports vhs"
  have l: "length vhs = length ?reps" by (simp add: makeVhostReports_def)
  have "for_each (do_charge rl) (map vhostCharge (zip vhs ?reps)) rs = Inr (None, rs)"
  proof (rule for_each_const)
    fix c
    assume "c \<in> set (map vhostCharge (zip vhs ?reps))"
    then obtain vh v where "vh \<in> set vhs" "v \<in> set ?reps" "c = vhostCharge (vh, v)"
      by (auto dest: set_zip_leftD set_zip_rightD)
    then show "do_charge rl c rs = Inr (None, rs)"
      using assms by (intro do_charge_none) (auto simp: vhostCharge_def makeVhostReports_none)
  qed
  with addVirtualHostResults_charges [OF l] show ?thesis by (simp add: makeHttpReport_def)
qed

lemma map_of_rev_map:
  "map_of (rev (map (\<lambda>x. (k x, v x)) xs)) q = map_option v (map_of (rev (map (\<lambda>x. (k x, x)) xs)) q)"
  by (induction xs rule: rev_induct) auto

lemma map_of_rev_member: "map_of (rev (map (\<lambda>x. (k x, x)) xs)) q = Some x \<Longrightarrow> x \<in> set xs"
  by (drule map_of_SomeD) auto

lemma range_values_make:
  assumes "v \<in> set (range_values rl (foldl (\<lambda>m x. m(k x \<mapsto> f x)) Map.empty xs))"
  shows "\<exists>x. v = f x"
proof -
  from assms obtain q where "map_of (rev (map (\<lambda>x. (k x, f x)) xs)) q = Some v"
    unfolding foldl_map_upd_empty by (auto simp: range_values_def List.map_filter_def)
  then show ?thesis by (auto dest!: map_of_SomeD)
qed

lemma make_errors_none:
  "GetHttpListenerErr (makeHttpReport vhs) = []" "GetTcpListenerErr (makeTcpReport t) = []"
  "concat (map GetTcpHostErr (tlr_TcpHostReports (makeTcpReport t))) = []"
  by (auto simp: GetHttpListenerErr_def makeHttpReport_def GetTcpListenerErr_def makeTcpReport_def GetTcpHostErr_def makeTcpHostReports_def)

lemma concat_map_nil: "(\<And>x. x \<in> set xs \<Longrightarrow> f x = []) \<Longrightarrow> concat (map f xs) = []"
  by (induction xs) auto

lemma makeMatchedReport_none:
  "(case makeMatchedReport ml of
      Some (MatchedHttpReport h) \<Rightarrow> GetHttpListenerErr h
    | Some (MatchedTcpReport t) \<Rightarrow> GetTcpListenerErr t @ concat (map GetTcpHostErr (tlr_TcpHostReports t))
    | None \<Rightarrow> []) = []"
  by (auto simp: makeMatchedReport_def make_errors_none make_errors_none(3) [unfolded concat_eq_Nil_conv]
      split: option.splits proxy_matched_type.splits)

lemma makeListenerReport_none:
  "getListenerLevelErrors rl (makeListenerReport rl l) = []" "getListenerLevelWarnings (makeListenerReport rl l) = []"
proof -
  show "getListenerLevelWarnings (makeListenerReport rl l) = []"
    by (cases "pli_ListenerType l") (simp_all add: getListenerLevelWarnings_def getListenerReport_def makeListenerReport_def GetListenerWarning_def)
  show "getListenerLevelErrors rl (makeListenerReport rl l) = []"
  proof (cases "pli_ListenerType l")
    case None
    then show ?thesis by (simp add: getListenerLevelErrors_def getListenerReport_def makeListenerReport_def GetListenerErr_def)
  next
    case (Some ty)
    show ?thesis
    proof (cases ty)
      case (PHybrid mls)
      let ?m = "foldl (\<lambda>m ml. m(MatchedRouteConfigName rl l (pml_Matcher ml) \<mapsto> makeMatchedReport ml)) Map.empty mls"
      have "concat (map (\<lambda>mr. case mr of
              Some (MatchedHttpReport h) \<Rightarrow> GetHttpListenerErr h
            | Some (MatchedTcpReport t) \<Rightarrow> GetTcpListenerErr t @ concat (map GetTcpHostErr (tlr_TcpHostReports t))
            | None \<Rightarrow> []) (range_values rl ?m)) = []"
      proof (rule concat_map_nil)
        fix mr
        assume "mr \<in> set (range_values rl ?m)"
        then obtain ml where "mr = makeMatchedReport ml"
          using range_values_make [where k = "\<lambda>ml. MatchedRouteConfigName rl l (pml_Matcher ml)" and f = makeMatchedReport] by blast
        then show "(case mr of
              Some (MatchedHttpReport h) \<Rightarrow> GetHttpListenerErr h
            | Some (MatchedTcpReport t) \<Rightarrow> GetTcpListenerErr t @ concat (map GetTcpHostErr (tlr_TcpHostReports t))
            | None \<Rightarrow> []) = []"
          by (simp only: makeMatchedReport_none)
      qed
      with Some PHybrid show ?thesis
        by (simp add: getListenerLevelErrors_def getListenerReport_def makeListenerReport_def GetListenerErr_def)
    next
      case (PAggregate agg)
      have "concat (map GetHttpListenerErr (range_values rl (foldl (\<lambda>m c. m(MatchedRouteConfigName rl l (pfc_Matcher c) \<mapsto>
                 makeHttpReport (chainVirtualHosts agg (pfc_VirtualHostRefs c)))) Map.empty (pag_HttpFilterChains agg)))) = []"
      proof (rule concat_map_nil)
        fix h
        assume "h \<in> set (range_values rl (foldl (\<lambda>m c. m(MatchedRouteConfigName rl l (pfc_Matcher c) \<mapsto>
                 makeHttpReport (chainVirtualHosts agg (pfc_VirtualHostRefs c)))) Map.empty (pag_HttpFilterChains agg)))"
        from range_values_make [OF this] obtain c :: proxy_filter_chain where "h = makeHttpReport (chainVirtualHosts agg (pfc_VirtualHostRefs c))" by blast
        then show "GetHttpListenerErr h = []" by (simp only: make_errors_none)
      qed
      with Some PAggregate show ?thesis
        by (simp add: getListenerLevelErrors_def getListenerReport_def makeListenerReport_def GetListenerErr_def)
    qed (use Some in \<open>simp_all add: getListenerLevelErrors_def getListenerReport_def makeListenerReport_def GetListenerErr_def
        make_errors_none make_errors_none(3) [unfolded concat_eq_Nil_conv]\<close>)
  qed
qed

lemma addHybridResults_make:
  assumes "report_lib_ok rl (dom rs)" "known_listener rl rs l" "pli_ListenerType l = Some (PHybrid mls)"
  shows "addHybridResults rl l (foldl (\<lambda>m ml. m(MatchedRouteConfigName rl l (pml_Matcher ml) \<mapsto> makeMatchedReport ml)) Map.empty mls) rs =
    Inr (None, rs)"
proof -
  let ?k = "\<lambda>ml. MatchedRouteConfigName rl l (pml_Matcher ml)"
  let ?last = "\<lambda>key. map_of (rev (map (\<lambda>ml. (?k ml, ml)) mls)) key"
  have mls: "GetMatchedListeners l = mls" using assms(3) by (simp add: GetMatchedListeners_def)
  have hosts: "addVirtualHostResults rl (GetVirtualHosts (matchedHttpListener ml)) (hlr_VirtualHostReports h) rs = Inr (None, rs)"
    if "ml \<in> set mls" "makeMatchedReport ml = Some (MatchedHttpReport h)" for ml h
  proof -
    from that(2) obtain hl where hl: "matchedHttpListener ml = Some hl" "h = makeHttpReport (phl_VirtualHosts hl)"
      by (auto simp: makeMatchedReport_def matchedHttpListener_def split: option.splits proxy_matched_type.splits)
    with that(1) have "phl_VirtualHosts hl \<in> set (hostGroups l)"
      by (auto simp: hostGroups_def assms(3) List.map_filter_def image_iff)
    with assms(2) have "\<forall>vh \<in> set (phl_VirtualHosts hl). known rl rs (vhostMetadata vh)" by (simp add: known_listener_def)
    with addVirtualHostResults_make [OF assms(1)] hl show ?thesis by (simp add: GetVirtualHosts_def)
  qed
  show ?thesis
    unfolding addHybridResults_def Let_def foldl_map_upd_empty mls map_of_rev_map [of ?k makeMatchedReport] map_of_rev_map [of ?k matchedHttpListener]
    by (rule for_each_const)
      (auto simp: hosts dest: map_of_rev_member split: option.splits matched_listener_report.splits)
qed

lemma addAggregateResults_make:
  assumes "report_lib_ok rl (dom rs)" "known_listener rl rs l" "pli_ListenerType l = Some (PAggregate agg)"
  shows "addAggregateResults rl l (foldl (\<lambda>m c. m(MatchedRouteConfigName rl l (pfc_Matcher c) \<mapsto>
      makeHttpReport (chainVirtualHosts agg (pfc_VirtualHostRefs c)))) Map.empty (pag_HttpFilterChains agg)) rs = Inr (None, rs)"
proof -
  let ?k = "\<lambda>c. MatchedRouteConfigName rl l (pfc_Matcher c)"
  let ?h = "\<lambda>c. makeHttpReport (chainVirtualHosts agg (pfc_VirtualHostRefs c))"
  have agg: "getAggregate l = agg" using assms(3) by (simp add: getAggregate_def)
  have hosts: "addVirtualHostResults rl (chainVirtualHosts agg (pfc_VirtualHostRefs c)) (hlr_VirtualHostReports (?h c)) rs = Inr (None, rs)"
    if "c \<in> set (pag_HttpFilterChains agg)" for c
    using that assms(2) by (intro addVirtualHostResults_make [OF assms(1)]) (auto simp: known_listener_def hostGroups_def assms(3))
  show ?thesis
    unfolding addAggregateResults_def Let_def foldl_map_upd_empty agg map_of_rev_map [of ?k ?h] map_of_rev_map [of ?k pfc_VirtualHostRefs]
    by (rule for_each_const) (auto simp: hosts dest: map_of_rev_member split: option.splits)
qed

lemma addListenerAndHosts_make:
  assumes ok: "report_lib_ok rl (dom rs)" and known: "known_listener rl rs l"
  shows "addListenerAndHosts rl l (makeListenerReport rl l) rs = Inr (None, rs)"
proof -
  have "do_charge rl (pli_Metadata l, [], []) rs = Inr (None, rs)"
    using known by (intro do_charge_none [OF ok]) (simp_all add: known_listener_def)
  then have 1: "addListenerResult rl l (makeListenerReport rl l) rs = Inr (None, rs)"
    by (simp add: addListenerResult_def makeListenerReport_none do_charge_def)
  show ?thesis
  proof (cases "pli_ListenerType l")
    case None
    then show ?thesis using 1 by (simp add: addListenerAndHosts_def and_then_def makeListenerReport_def getListenerReport_def)
  next
    case (Some ty)
    have "addVirtualHostResults rl (phl_VirtualHosts h) (hlr_VirtualHostReports (makeHttpReport (phl_VirtualHosts h))) rs = Inr (None, rs)"
      if "ty = PHttp h" for h
      using known Some that by (intro addVirtualHostResults_make [OF ok]) (simp add: known_listener_def hostGroups_def)
    then show ?thesis
      using 1 Some addHybridResults_make [OF ok known] addAggregateResults_make [OF ok known]
      by (cases ty) (simp_all add: addListenerAndHosts_def and_then_def makeListenerReport_def getListenerReport_def GetVirtualHosts_def
          GetHttpListener_def)
  qed
qed

text \<open>C26. The report that the validation starts from fits the proxy it was made for: its shape is accepted,
  whatever names the matchers of the listeners hash to, and as long as nothing was written to it, it
  changes no report of a resource.\<close>

theorem MakeReport_neutral:
  assumes "report_lib_ok rl (dom rs)" and "\<forall>l \<in> set ls. known_listener rl rs l"
  shows "AddProxyValidationResult rl ls (MakeReport rl ls) rs = Inr (None, rs)"
proof -
  have "addListenerAndHosts rl l r rs = Inr (None, rs)" if "(l, r) \<in> set (zip ls (MakeReport rl ls))" for l r
    using that addListenerAndHosts_make [OF assms(1), of l] assms(2) by (auto simp: MakeReport_def set_zip)
  then have "for_each (\<lambda>(l, r). addListenerAndHosts rl l r) (zip ls (MakeReport rl ls)) rs = Inr (None, rs)"
    by (intro for_each_const) auto
  then show ?thesis by (simp add: AddProxyValidationResult_def MakeReport_def)
qed

end
