(* ===== verification/EdgeReconcilerProps.thy ===== *)
theory EdgeReconcilerProps
  imports EdgeReconciler EdgeReportsProps
begin

text \<open>
  What the reconciler writes: the listeners and virtual hosts whose sources are accepted, and in the place of
  those that are rejected, the ones that the stored proxy has.
\<close>

section \<open>Results\<close>

lemma bind_res_Inr [simp]: "bind_res (Inr (Inr a)) f = f a"
  by (simp add: bind_res_def)

lemma bind_res_Inl [simp]: "bind_res (Inr (Inl e)) f = Inr (Inl e)"
  by (simp add: bind_res_def)

lemma map_res_eq: "(\<And>x. x \<in> set xs \<Longrightarrow> f x = Inr (Inr (g x))) \<Longrightarrow> map_res f xs = Inr (Inr (map g xs))"
  by (induction xs) auto

lemma map_res_all2:
  assumes "\<And>x. x \<in> set xs \<Longrightarrow> \<exists>y. f x = Inr (Inr y) \<and> P x y"
  shows "\<exists>ys. map_res f xs = Inr (Inr ys) \<and> list_all2 P xs ys"
  using assms
proof (induction xs)
  case (Cons x xs)
  then obtain y ys where "f x = Inr (Inr y)" "P x y" "map_res f xs = Inr (Inr ys)" "list_all2 P xs ys" by fastforce
  then show ?case by auto
qed simp

lemma list_all2_member: "list_all2 P xs ys \<Longrightarrow> x \<in> set xs \<Longrightarrow> \<exists>y \<in> set ys. P x y"
  by (induction rule: list_all2_induct) auto

lemma sorted_by_key:
  fixes k :: "'a \<Rightarrow> 'b :: linorder"
  shows "sorted_wrt (\<lambda>a b. k a \<le> k b) (sort_stable (\<lambda>a b. k a < k b) xs)"
  by (rule sorted_sort_stable) auto

lemma sortListeners_simps [simp]: "set (sortListeners ls) = set ls" "mset (sortListeners ls) = mset ls"
  "sorted_wrt (\<lambda>a b. pli_Name a \<le> pli_Name b) (sortListeners ls)"
  by (simp_all add: sortListeners_def sorted_by_key)

lemma mset_map_sortListeners: "mset (map f (sortListeners ls)) = mset (map f ls)"
  by simp

lemma set_sortHosts [simp]: "set (sortHosts vhs) = set vhs"
  by (simp add: sortHosts_def)

section \<open>Accepted objects\<close>

definition readable :: "report_lib \<Rightarrow> opaque_metadata \<Rightarrow> bool" where
  "readable rl meta \<longleftrightarrow> (case GetSourceMeta rl meta of Inl _ \<Rightarrow> False | Inr srcs \<Rightarrow> \<forall>src \<in> set srcs. ps_ResourceRef src \<noteq> None)"

definition allAccepted :: "report_lib \<Rightarrow> resource_reports \<Rightarrow> opaque_metadata \<Rightarrow> bool" where
  "allAccepted rl rs meta \<longleftrightarrow>
     (\<forall>src \<in> set (sources rl meta). case ps_ResourceRef src of
        None \<Rightarrow> True
      | Some ref \<Rightarrow> rrt_Errors (snd (rl_Find rl rs (ps_ResourceKind src) ref)) = None)"

definition readable_listener :: "report_lib \<Rightarrow> proxy_listener \<Rightarrow> bool" where
  "readable_listener rl l \<longleftrightarrow> readable rl (pli_Metadata l) \<and> (\<forall>vhs \<in> set (hostGroups l). \<forall>vh \<in> set vhs. readable rl (vhostMetadata vh))"

lemma AllSourcesAccepted_eq:
  assumes "readable rl meta"
  shows "AllSourcesAccepted rl rs meta = Inr (Inr (allAccepted rl rs meta))"
proof -
  let ?f = "\<lambda>src accepted. bind_out (deref (ps_ResourceRef src)) (\<lambda>ref.
    Inr (None, if rrt_Errors (snd (rl_Find rl rs (ps_ResourceKind src) ref)) \<noteq> None then False else accepted)) :: bool erun"
  let ?ok = "\<lambda>src. case ps_ResourceRef src of None \<Rightarrow> True | Some ref \<Rightarrow> rrt_Errors (snd (rl_Find rl rs (ps_ResourceKind src) ref)) = None"
  have run: "for_each ?f srcs a = Inr (None, a \<and> (\<forall>src \<in> set srcs. ?ok src))" if "\<forall>src \<in> set srcs. ps_ResourceRef src \<noteq> None" for srcs a
    using that by (induction srcs arbitrary: a) auto
  from assms obtain srcs where "GetSourceMeta rl meta = Inr srcs" "\<forall>src \<in> set srcs. ps_ResourceRef src \<noteq> None"
    by (auto simp: readable_def split: sum.splits)
  with run [of srcs True] show ?thesis
    by (simp add: AllSourcesAccepted_def ForEachSource_def allAccepted_def sources_def)
qed

text \<open>A source without a report counts as accepted: with the laws of the reports, an object is accepted unless one
  of its sources is rejected.\<close>

lemma allAccepted_iff:
  assumes ok: "report_lib_ok rl (dom rs)" and one: "one_report rs"
  shows "allAccepted rl rs meta \<longleftrightarrow> (\<forall>res \<in> dom rs. source_of rl meta res \<longrightarrow> \<not> hasErrors rs res)"
proof -
  have "rrt_Errors (snd (rl_Find rl rs kind ref)) = None \<longleftrightarrow>
    (\<forall>res \<in> dom rs. ir_Kind res = kind \<and> ir_Ref res = ref \<longrightarrow> \<not> hasErrors rs res)" for kind ref
  proof (cases "rl_Find rl rs kind ref")
    case (Pair found r)
    show ?thesis
    proof (cases found)
      case None
      with Pair have "rrt_Errors r = None \<and> (\<forall>res \<in> dom rs. \<not> (ir_Kind res = kind \<and> ir_Ref res = ref))"
        using Find_None [OF ok] by blast
      with Pair show ?thesis by auto
    next
      case (Some res)
      with Pair have "rs res = Some r \<and> ir_Kind res = kind \<and> ir_Ref res = ref" using Find_Some [OF ok] by blast
      then have r: "rs res = Some r" "ir_Kind res = kind" "ir_Ref res = ref" by auto
      then have "res' \<in> dom rs \<and> ir_Kind res' = kind \<and> ir_Ref res' = ref \<longleftrightarrow> res' = res" for res'
        using one unfolding one_report_def by blast
      then have "(\<forall>res \<in> dom rs. ir_Kind res = kind \<and> ir_Ref res = ref \<longrightarrow> \<not> hasErrors rs res) \<longleftrightarrow> \<not> hasErrors rs res" by metis
      with r Pair show ?thesis by (simp add: hasErrors_def)
    qed
  qed
  note find = this
  have "(case ps_ResourceRef src of None \<Rightarrow> True | Some ref \<Rightarrow> rrt_Errors (snd (rl_Find rl rs (ps_ResourceKind src) ref)) = None) \<longleftrightarrow>
    (\<forall>res \<in> dom rs. ps_ResourceKind src = ir_Kind res \<and> ps_ResourceRef src = Some (ir_Ref res) \<longrightarrow> \<not> hasErrors rs res)" for src
    by (cases "ps_ResourceRef src") (simp_all add: find, metis)
  then show ?thesis unfolding allAccepted_def source_of_def by blast
qed

text \<open>Validation and stripping together: a listener or a virtual host that the validation has errors for is not
  accepted any more, as soon as one of its sources has a report.\<close>

lemma rejected_by_validation:
  assumes ok: "report_lib_ok rl (dom rs)" and one: "one_report rs" and run: "AddProxyValidationResult rl ls reps rs = Inr (None, rs')"
    and lr: "(l, r) \<in> set (zip ls reps)" and res: "res \<in> dom rs"
  shows "getListenerLevelErrors rl r \<noteq> [] \<Longrightarrow> source_of rl (pli_Metadata l) res \<Longrightarrow> \<not> allAccepted rl rs' (pli_Metadata l)"
    "(vh, v) \<in> set (reportedHosts rl l r) \<Longrightarrow> fst (getVirtualHostLevelErrorsAndWarnings v) \<noteq> [] \<Longrightarrow>
      source_of rl (vhostMetadata vh) res \<Longrightarrow> \<not> allAccepted rl rs' (vhostMetadata vh)"
proof -
  let ?E = "\<Union>c \<in> set (charges rl ls reps). {res. fst (snd c) \<noteq> [] \<and> source_of rl (fst c) res}"
  have rej: "rejects ?E rs rs'" by (rule AddProxyValidationResult_rejects [OF ok one run])
  have "one_report rs'" by (rule one_report_rejects [OF one rej])
  moreover have "dom rs' = dom rs" using rej by (simp add: rejects_def)
  ultimately have iff: "allAccepted rl rs' meta \<longleftrightarrow> (\<forall>res \<in> dom rs. source_of rl meta res \<longrightarrow> \<not> hasErrors rs' res)" for meta
    using allAccepted_iff [of rl rs' meta] ok by simp
  have "hasErrors rs' res" if "res \<in> ?E" using rej res that by (simp add: rejects_def)
  note bad = this
  show "\<not> allAccepted rl rs' (pli_Metadata l)" if "getListenerLevelErrors rl r \<noteq> []" "source_of rl (pli_Metadata l) res"
  proof -
    have "(pli_Metadata l, getListenerLevelErrors rl r, getListenerLevelWarnings r) \<in> set (charges rl ls reps)"
      using lr by (force simp: charges_def listenerCharges_def)
    with that bad have "hasErrors rs' res" by fastforce
    with that(2) res iff show ?thesis by blast
  qed
  show "\<not> allAccepted rl rs' (vhostMetadata vh)"
    if "(vh, v) \<in> set (reportedHosts rl l r)" "fst (getVirtualHostLevelErrorsAndWarnings v) \<noteq> []" "source_of rl (vhostMetadata vh) res"
  proof -
    have "vhostCharge (vh, v) \<in> set (charges rl ls reps)"
      using lr that(1) by (force simp: charges_def listenerCharges_def)
    with that bad have "hasErrors rs' res" by (fastforce simp: vhostCharge_def)
    with that(3) res iff show ?thesis by blast
  qed
qed

lemma forEachVhost_eq:
  assumes "\<forall>vh \<in> set vhs. readable rl (vhostMetadata vh)"
  shows "forEachVhost rl rs vhs = Inr (Inr (map (\<lambda>vh. (vh, allAccepted rl rs (vhostMetadata vh))) vhs))"
  unfolding forEachVhost_def using assms by (intro map_res_eq) (simp add: AllSourcesAccepted_eq)

lemma forEachListener_eq:
  assumes "\<forall>l \<in> set ls. readable rl (pli_Metadata l)"
  shows "forEachListener rl rs ls = Inr (Inr (map (\<lambda>l. (l, allAccepted rl rs (pli_Metadata l))) ls))"
  unfolding forEachListener_def using assms by (intro map_res_eq) (simp add: AllSourcesAccepted_eq)

lemma map_fst_filter_pair: "map fst (filter (\<lambda>p. Q (snd p)) (map (\<lambda>x. (x, f x)) xs)) = filter (\<lambda>x. Q (f x)) xs"
  by (induction xs) auto

text \<open>The virtual hosts of a group that stay, and those of the stored proxy that come back.\<close>

definition validHosts :: "report_lib \<Rightarrow> resource_reports \<Rightarrow> proxy_vhost option list \<Rightarrow> proxy_vhost option list" where
  "validHosts rl rs vhs = filter (\<lambda>vh. allAccepted rl rs (vhostMetadata vh)) vhs"

definition rejectedHosts :: "report_lib \<Rightarrow> resource_reports \<Rightarrow> proxy_vhost option list \<Rightarrow> proxy_vhost option list" where
  "rejectedHosts rl rs vhs = filter (\<lambda>vh. \<not> allAccepted rl rs (vhostMetadata vh)) vhs"

lemma validHostsFromHttpListener_eq:
  assumes "\<forall>vh \<in> set vhs. readable rl (vhostMetadata vh)"
  shows "validHostsFromHttpListener rl rs vhs = Inr (Inr (sortHosts (validHosts rl rs vhs)))"
  using map_fst_filter_pair [of "\<lambda>b. b" "\<lambda>vh. allAccepted rl rs (vhostMetadata vh)" vhs]
  by (simp add: validHostsFromHttpListener_def forEachVhost_eq [OF assms] validHosts_def)

lemma copyRejectedVirtualHosts_eq:
  assumes "\<forall>vh \<in> set (GetVirtualHosts orig). readable rl (vhostMetadata vh)"
  shows "copyRejectedVirtualHosts rl rs orig h =
    Inr (Inr (h\<lparr>phl_VirtualHosts := sortHosts (phl_VirtualHosts h @ rejectedHosts rl rs (GetVirtualHosts orig))\<rparr>))"
  using map_fst_filter_pair [of Not "\<lambda>vh. allAccepted rl rs (vhostMetadata vh)" "GetVirtualHosts orig"]
  by (simp add: copyRejectedVirtualHosts_def forEachVhost_eq [OF assms] rejectedHosts_def comp_def)

section \<open>The virtual hosts of a listener\<close>

text \<open>The HTTP listeners in a listener, by their matcher in a hybrid listener.\<close>

definition httpHosts :: "proxy_listener \<Rightarrow> (gw_matcher option option \<times> proxy_vhost option list) list" where
  "httpHosts l =
     (case pli_ListenerType l of
        Some (PHttp h) \<Rightarrow> [(None, phl_VirtualHosts h)]
      | Some (PHybrid mls) \<Rightarrow>
          List.map_filter (\<lambda>ml. map_option (\<lambda>h. (Some (pml_Matcher ml), phl_VirtualHosts h)) (matchedHttpListener ml)) mls
      | _ \<Rightarrow> [])"

text \<open>The virtual hosts that the stored listener has at the same place.\<close>

definition originalHosts :: "proxy_listener \<Rightarrow> gw_matcher option option \<Rightarrow> proxy_vhost option list" where
  "originalHosts orig key =
     GetVirtualHosts (case key of None \<Rightarrow> GetHttpListener orig | Some m \<Rightarrow> originalMatched (GetMatchedListeners orig) m)"

definition keyed_listener :: "proxy_listener \<Rightarrow> bool" where
  "keyed_listener l \<longleftrightarrow>
     (\<forall>c \<in> set (pag_HttpFilterChains (getAggregate l)). \<forall>ref \<in> set (pfc_VirtualHostRefs c).
        map_option pvh_Name (pag_VirtualHosts (getAggregate l) ref) = Some ref)"

lemma map_filter_simps: "List.map_filter f [] = []"
  "List.map_filter f (x # xs) = (case f x of None \<Rightarrow> List.map_filter f xs | Some y \<Rightarrow> y # List.map_filter f xs)"
  by (simp_all add: List.map_filter_def split: option.splits)

lemma stripMatchedListener_ok:
  assumes "\<And>h. matchedHttpListener ml = Some h \<Longrightarrow> \<forall>vh \<in> set (phl_VirtualHosts h). readable rl (vhostMetadata vh)"
  shows "stripMatchedListener rl rs ml = Inr (Inr (case matchedHttpListener ml of None \<Rightarrow> ml
    | Some h \<Rightarrow> ml\<lparr>pml_ListenerType := Some (PMatchedHttp (h\<lparr>phl_VirtualHosts := sortHosts (validHosts rl rs (phl_VirtualHosts h))\<rparr>))\<rparr>))"
  using assms by (auto simp: stripMatchedListener_def stripHttpListener_def validHostsFromHttpListener_eq split: option.splits)

lemma transitionMatched_ok:
  assumes "\<forall>vh \<in> set (GetVirtualHosts (originalMatched origs (pml_Matcher ml))). readable rl (vhostMetadata vh)"
  shows "transitionMatched rl rs origs ml = Inr (Inr (case matchedHttpListener ml of None \<Rightarrow> ml
    | Some h \<Rightarrow> ml\<lparr>pml_ListenerType := Some (PMatchedHttp (h\<lparr>phl_VirtualHosts :=
        sortHosts (phl_VirtualHosts h @ rejectedHosts rl rs (GetVirtualHosts (originalMatched origs (pml_Matcher ml))))\<rparr>))\<rparr>))"
  using assms by (auto simp: transitionMatched_def copyRejectedVirtualHosts_eq split: option.splits)

text \<open>What a listener keeps in every step: its name, its metadata and the fields that are not read.\<close>

definition same_listener :: "proxy_listener \<Rightarrow> proxy_listener \<Rightarrow> bool" where
  "same_listener l l' \<longleftrightarrow> pli_Name l' = pli_Name l \<and> pli_Metadata l' = pli_Metadata l \<and> pli_Other l' = pli_Other l"

lemma map_filter_matched:
  assumes "\<And>ml. matchedHttpListener (f ml) = map_option (\<lambda>h. h\<lparr>phl_VirtualHosts := g (pml_Matcher ml) (phl_VirtualHosts h)\<rparr>) (matchedHttpListener ml)"
    and "\<And>ml. pml_Matcher (f ml) = pml_Matcher ml"
  shows "List.map_filter (\<lambda>ml. map_option (\<lambda>h. (Some (pml_Matcher ml), phl_VirtualHosts h)) (matchedHttpListener ml)) (map f mls) =
    map (\<lambda>(key, vhs). (key, g (the key) vhs))
      (List.map_filter (\<lambda>ml. map_option (\<lambda>h. (Some (pml_Matcher ml), phl_VirtualHosts h)) (matchedHttpListener ml)) mls)"
  by (induction mls) (auto simp: assms map_filter_simps split: option.splits)

lemma map_filter_groups:
  assumes "\<And>ml. matchedHttpListener (f ml) = map_option (\<lambda>h. h\<lparr>phl_VirtualHosts := g (phl_VirtualHosts h)\<rparr>) (matchedHttpListener ml)"
  shows "map phl_VirtualHosts (List.map_filter matchedHttpListener (map f mls)) = map g (map phl_VirtualHosts (List.map_filter matchedHttpListener mls))"
  by (induction mls) (auto simp: assms map_filter_simps split: option.splits)

lemma hostGroups_matched:
  "pli_ListenerType l = Some (PHybrid mls) \<Longrightarrow> ml \<in> set mls \<Longrightarrow> matchedHttpListener ml = Some h \<Longrightarrow> phl_VirtualHosts h \<in> set (hostGroups l)"
  by (auto simp: hostGroups_def List.map_filter_def image_iff)

lemma stripFilterChain_ok:
  assumes "\<forall>vh \<in> set (chainVirtualHosts agg (pfc_VirtualHostRefs c)). readable rl (vhostMetadata vh)"
  shows "stripFilterChain rl rs agg c =
    Inr (Inr (c\<lparr>pfc_VirtualHostRefs := map GetName (sortHosts (validHosts rl rs (chainVirtualHosts agg (pfc_VirtualHostRefs c))))\<rparr>))"
  by (simp add: stripFilterChain_def validHostsFromHttpListener_eq [OF assms])

text \<open>In a listener whose filter chains refer to virtual hosts by their names, the names that are left lead to the
  virtual hosts that are left.\<close>

lemma chain_names:
  assumes "\<forall>ref \<in> set refs. map_option pvh_Name (pag_VirtualHosts agg ref) = Some ref" "set vhs \<subseteq> set (chainVirtualHosts agg refs)"
  shows "chainVirtualHosts agg (map GetName vhs) = vhs" "\<forall>ref \<in> set (map GetName vhs). map_option pvh_Name (pag_VirtualHosts agg ref) = Some ref"
proof -
  have "pag_VirtualHosts agg (GetName vh) = vh \<and> map_option pvh_Name (pag_VirtualHosts agg (GetName vh)) = Some (GetName vh)" if "vh \<in> set vhs" for vh
  proof -
    from that assms(2) obtain ref where ref: "ref \<in> set refs" "vh = pag_VirtualHosts agg ref" by (auto simp: chainVirtualHosts_def)
    with assms(1) show ?thesis by (auto simp: GetName_def)
  qed
  note named = this
  show "chainVirtualHosts agg (map GetName vhs) = vhs" using named by (auto simp: chainVirtualHosts_def intro!: map_idI)
  show "\<forall>ref \<in> set (map GetName vhs). map_option pvh_Name (pag_VirtualHosts agg ref) = Some ref"
    unfolding set_map ball_simps using named by blast
qed

lemma stripListener_ok:
  assumes r: "readable_listener rl l" and k: "keyed_listener l"
  shows "\<exists>l'. stripListener rl rs l = Inr (Inr l') \<and> same_listener l l' \<and> keyed_listener l' \<and>
    hostGroups l' = map (\<lambda>vhs. sortHosts (validHosts rl rs vhs)) (hostGroups l) \<and>
    httpHosts l' = map (\<lambda>(key, vhs). (key, sortHosts (validHosts rl rs vhs))) (httpHosts l)"
proof (cases "pli_ListenerType l")
  case None
  then show ?thesis using k by (simp add: stripListener_def same_listener_def hostGroups_def httpHosts_def)
next
  case (Some ty)
  show ?thesis
  proof (cases ty)
    case (PHttp h)
    with r Some have "\<forall>vh \<in> set (phl_VirtualHosts h). readable rl (vhostMetadata vh)" by (simp add: readable_listener_def hostGroups_def)
    from validHostsFromHttpListener_eq [OF this] show ?thesis
      using Some PHttp by (simp add: stripListener_def stripHttpListener_def same_listener_def hostGroups_def httpHosts_def keyed_listener_def getAggregate_def)
  next
    case (PTcp t)
    then show ?thesis using k Some by (simp add: stripListener_def same_listener_def hostGroups_def httpHosts_def)
  next
    case (PHybrid mls)
    let ?f = "\<lambda>ml. case matchedHttpListener ml of None \<Rightarrow> ml | Some h \<Rightarrow> ml\<lparr>pml_ListenerType :=
      Some (PMatchedHttp (h\<lparr>phl_VirtualHosts := sortHosts (validHosts rl rs (phl_VirtualHosts h))\<rparr>))\<rparr>"
    have "map_res (stripMatchedListener rl rs) mls = Inr (Inr (map ?f mls))"
      using r Some PHybrid hostGroups_matched [of l mls]
      by (intro map_res_eq stripMatchedListener_ok) (auto simp: readable_listener_def)
    moreover have f: "matchedHttpListener (?f ml) = map_option (\<lambda>h. h\<lparr>phl_VirtualHosts := sortHosts (validHosts rl rs (phl_VirtualHosts h))\<rparr>) (matchedHttpListener ml)"
      "pml_Matcher (?f ml) = pml_Matcher ml" for ml
      by (auto simp: matchedHttpListener_def split: option.splits proxy_matched_type.splits)
    ultimately show ?thesis
      using Some PHybrid map_filter_matched [of ?f "\<lambda>_ vhs. sortHosts (validHosts rl rs vhs)" mls, OF f]
        map_filter_groups [of ?f "\<lambda>vhs. sortHosts (validHosts rl rs vhs)" mls, OF f(1)]
      by (simp add: stripListener_def same_listener_def hostGroups_def httpHosts_def keyed_listener_def getAggregate_def)
  next
    case (PAggregate agg)
    let ?hosts = "\<lambda>c. chainVirtualHosts agg (pfc_VirtualHostRefs c)"
    let ?f = "\<lambda>c. c\<lparr>pfc_VirtualHostRefs := map GetName (sortHosts (validHosts rl rs (?hosts c)))\<rparr>"
    have "map_res (stripFilterChain rl rs agg) (pag_HttpFilterChains agg) = Inr (Inr (map ?f (pag_HttpFilterChains agg)))"
      using r Some PAggregate by (intro map_res_eq stripFilterChain_ok) (auto simp: readable_listener_def hostGroups_def)
    moreover have "chainVirtualHosts agg (pfc_VirtualHostRefs (?f c)) = sortHosts (validHosts rl rs (?hosts c))"
      "\<forall>ref \<in> set (pfc_VirtualHostRefs (?f c)). map_option pvh_Name (pag_VirtualHosts agg ref) = Some ref"
      if "c \<in> set (pag_HttpFilterChains agg)" for c
    proof -
      have "\<forall>ref \<in> set (pfc_VirtualHostRefs c). map_option pvh_Name (pag_VirtualHosts agg ref) = Some ref"
        using k Some PAggregate that by (simp add: keyed_listener_def getAggregate_def)
      from chain_names [OF this, of "sortHosts (validHosts rl rs (?hosts c))"]
      show "chainVirtualHosts agg (pfc_VirtualHostRefs (?f c)) = sortHosts (validHosts rl rs (?hosts c))"
        "\<forall>ref \<in> set (pfc_VirtualHostRefs (?f c)). map_option pvh_Name (pag_VirtualHosts agg ref) = Some ref"
        by (auto simp: validHosts_def)
    qed
    ultimately show ?thesis
      using Some PAggregate
      by (simp add: stripListener_def same_listener_def hostGroups_def httpHosts_def keyed_listener_def getAggregate_def chainVirtualHosts_def)
  qed
qed

lemma readable_original:
  assumes "readable_listener rl orig"
  shows "\<forall>vh \<in> set (originalHosts orig key). readable rl (vhostMetadata vh)"
proof -
  have last: "\<exists>ml \<in> set mls. matchedHttpListener ml = Some h" if "originalMatched mls m = Some h" for mls m h
    using that unfolding originalMatched_def by (induction mls rule: rev_induct) (auto split: if_splits)
  have "phl_VirtualHosts h \<in> set (hostGroups orig)" if "originalMatched (GetMatchedListeners orig) m = Some h" for m h
  proof -
    from last [OF that] obtain ml where ml: "ml \<in> set (GetMatchedListeners orig)" "matchedHttpListener ml = Some h" by blast
    then obtain mls where "pli_ListenerType orig = Some (PHybrid mls)" "ml \<in> set mls"
      by (cases "pli_ListenerType orig") (auto simp: GetMatchedListeners_def split: proxy_listener_type.splits)
    with ml(2) show ?thesis by (intro hostGroups_matched)
  qed
  moreover have "phl_VirtualHosts h \<in> set (hostGroups orig)" if "GetHttpListener orig = Some h" for h
    using that by (auto simp: GetHttpListener_def hostGroups_def split: option.splits proxy_listener_type.splits)
  ultimately show ?thesis
    using assms by (auto simp: originalHosts_def GetVirtualHosts_def readable_listener_def split: option.splits)
qed

text \<open>What a desired listener has after the transition: at each of its HTTP listeners, the rejected virtual hosts
  that the stored listener of the same name has there.\<close>

definition restoredHosts ::
  "report_lib \<Rightarrow> resource_reports \<Rightarrow> proxy_listener list \<Rightarrow> string \<Rightarrow> gw_matcher option option \<Rightarrow> proxy_vhost option list" where
  "restoredHosts rl rs origs name key =
     (case List.find (\<lambda>orig. pli_Name orig = name) origs of None \<Rightarrow> [] | Some orig \<Rightarrow> rejectedHosts rl rs (originalHosts orig key))"

lemma transitionListener_ok:
  assumes r: "\<forall>orig \<in> set origs. readable_listener rl orig"
  shows "\<exists>d'. transitionListener rl rs origs d = Inr (Inr d') \<and> same_listener d d' \<and>
    list_all2 (\<lambda>(key, vhs) (key', vhs'). key' = key \<and> set vhs' = set vhs \<union> set (restoredHosts rl rs origs (pli_Name d) key))
      (httpHosts d) (httpHosts d')"
proof (cases "List.find (\<lambda>orig. pli_Name orig = pli_Name d) origs")
  case None
  then show ?thesis
    by (auto simp: transitionListener_def same_listener_def restoredHosts_def list.rel_refl_strong list_all2_same)
next
  case (Some orig)
  then have "orig \<in> set origs" by (auto simp: find_Some_iff)
  with r have ro: "\<forall>vh \<in> set (originalHosts orig key). readable rl (vhostMetadata vh)" for key by (intro readable_original) simp
  let ?g = "\<lambda>key vhs. sortHosts (vhs @ rejectedHosts rl rs (originalHosts orig key))"
  have all2: "list_all2 (\<lambda>(key, vhs) (key', vhs'). key' = key \<and> set vhs' = set vhs \<union> set (restoredHosts rl rs origs (pli_Name d) key))
      xs (map (\<lambda>(key, vhs). (key, ?g key vhs)) xs)" for xs
    by (auto simp: list_all2_map2 list_all2_same restoredHosts_def Some)
  have "\<exists>d'. transitionListener rl rs origs d = Inr (Inr d') \<and> same_listener d d' \<and> httpHosts d' = map (\<lambda>(key, vhs). (key, ?g key vhs)) (httpHosts d)"
  proof (cases "pli_ListenerType d")
    case None
    then show ?thesis using Some by (simp add: transitionListener_def same_listener_def httpHosts_def)
  next
    case ty: (Some ty)
    show ?thesis
    proof (cases ty)
      case (PHttp h)
      have "\<forall>vh \<in> set (GetVirtualHosts (GetHttpListener orig)). readable rl (vhostMetadata vh)" using ro [of None] by (simp add: originalHosts_def)
      from copyRejectedVirtualHosts_eq [OF this] show ?thesis
        using Some ty PHttp by (simp add: transitionListener_def same_listener_def httpHosts_def originalHosts_def)
    next
      case (PHybrid mls)
      let ?f = "\<lambda>ml. case matchedHttpListener ml of None \<Rightarrow> ml | Some h \<Rightarrow> ml\<lparr>pml_ListenerType := Some (PMatchedHttp (h\<lparr>phl_VirtualHosts :=
        ?g (Some (pml_Matcher ml)) (phl_VirtualHosts h)\<rparr>))\<rparr>"
      have "map_res (transitionMatched rl rs (GetMatchedListeners orig)) mls = Inr (Inr (map ?f mls))"
      proof (rule map_res_eq)
        fix ml :: proxy_matched_listener
        have "\<forall>vh \<in> set (GetVirtualHosts (originalMatched (GetMatchedListeners orig) (pml_Matcher ml))). readable rl (vhostMetadata vh)"
          using ro [of "Some (pml_Matcher ml)"] by (simp add: originalHosts_def)
        from transitionMatched_ok [OF this]
        show "transitionMatched rl rs (GetMatchedListeners orig) ml = Inr (Inr (?f ml))" by (simp add: originalHosts_def split: option.split)
      qed
      moreover have f: "matchedHttpListener (?f ml) = map_option (\<lambda>h. h\<lparr>phl_VirtualHosts := ?g (Some (pml_Matcher ml)) (phl_VirtualHosts h)\<rparr>) (matchedHttpListener ml)"
        "pml_Matcher (?f ml) = pml_Matcher ml" for ml
        by (auto simp: matchedHttpListener_def split: option.splits proxy_matched_type.splits)
      moreover have "map (\<lambda>(key, vhs). (key, ?g (Some (the key)) vhs)) xs = map (\<lambda>(key, vhs). (key, ?g key vhs)) xs"
        if "\<forall>(key, _) \<in> set xs. key \<noteq> None" for xs :: "(gw_matcher option option \<times> proxy_vhost option list) list"
        using that by auto
      moreover have "\<forall>(key, _) \<in> set (List.map_filter (\<lambda>ml. map_option (\<lambda>h. (Some (pml_Matcher ml), phl_VirtualHosts h)) (matchedHttpListener ml)) mls). key \<noteq> None"
        by (auto simp: List.map_filter_def)
      ultimately show ?thesis
        using Some ty PHybrid map_filter_matched [of ?f "\<lambda>m. ?g (Some m)" mls, OF f]
        by (simp add: transitionListener_def same_listener_def httpHosts_def)
    qed (use Some ty in \<open>simp_all add: transitionListener_def same_listener_def httpHosts_def\<close>)
  qed
  with all2 show ?thesis by fastforce
qed

section \<open>What is written\<close>

lemma stripListeners_ok:
  assumes "\<forall>l \<in> set ls. readable_listener rl l \<and> keyed_listener l"
  shows "\<exists>ls'. stripListeners rl rs ls = Inr (Inr (sortListeners ls')) \<and>
    list_all2 (\<lambda>l l'. same_listener l l' \<and> keyed_listener l' \<and>
        hostGroups l' = map (\<lambda>vhs. sortHosts (validHosts rl rs vhs)) (hostGroups l) \<and>
        httpHosts l' = map (\<lambda>(key, vhs). (key, sortHosts (validHosts rl rs vhs))) (httpHosts l))
      (filter (\<lambda>l. allAccepted rl rs (pli_Metadata l)) ls) ls'"
proof -
  let ?P = "\<lambda>l l'. same_listener l l' \<and> keyed_listener l' \<and>
        hostGroups l' = map (\<lambda>vhs. sortHosts (validHosts rl rs vhs)) (hostGroups l) \<and>
        httpHosts l' = map (\<lambda>(key, vhs). (key, sortHosts (validHosts rl rs vhs))) (httpHosts l)"
  have each: "forEachListener rl rs ls = Inr (Inr (map (\<lambda>l. (l, allAccepted rl rs (pli_Metadata l))) ls))"
    using assms by (intro forEachListener_eq) (simp add: readable_listener_def)
  obtain stripped where s: "map_res (stripListener rl rs) ls = Inr (Inr stripped)" "list_all2 ?P ls stripped"
    using map_res_all2 [of ls "stripListener rl rs" ?P] stripListener_ok assms by blast
  have "list_all2 ?P (filter (\<lambda>l. allAccepted rl rs (pli_Metadata l)) xs)
      (map snd (filter (\<lambda>((_, accepted), _). accepted) (zip (map (\<lambda>l. (l, allAccepted rl rs (pli_Metadata l))) xs) ys)))"
    if "list_all2 ?P xs ys" for xs ys
    using that by (induction rule: list_all2_induct) auto
  from this [OF s(2)] show ?thesis by (auto simp: stripListeners_def each s(1))
qed


lemma transitionListeners_ok:
  assumes "\<forall>orig \<in> set origs. readable_listener rl orig"
  shows "\<exists>ds'. transitionListeners rl rs origs ds =
      Inr (Inr (sortListeners (ds' @ filter (\<lambda>orig. \<not> allAccepted rl rs (pli_Metadata orig)) origs))) \<and>
    list_all2 (\<lambda>d d'. same_listener d d' \<and>
      list_all2 (\<lambda>(key, vhs) (key', vhs'). key' = key \<and> set vhs' = set vhs \<union> set (restoredHosts rl rs origs (pli_Name d) key))
        (httpHosts d) (httpHosts d')) ds ds'"
proof -
  let ?P = "\<lambda>d d'. same_listener d d' \<and>
      list_all2 (\<lambda>(key, vhs) (key', vhs'). key' = key \<and> set vhs' = set vhs \<union> set (restoredHosts rl rs origs (pli_Name d) key))
        (httpHosts d) (httpHosts d')"
  obtain ds' where ds': "map_res (transitionListener rl rs origs) ds = Inr (Inr ds')" "list_all2 ?P ds ds'"
    using map_res_all2 [of ds "transitionListener rl rs origs" ?P] transitionListener_ok [OF assms] by blast
  have "forEachListener rl rs origs = Inr (Inr (map (\<lambda>l. (l, allAccepted rl rs (pli_Metadata l))) origs))"
    using assms by (intro forEachListener_eq) (simp add: readable_listener_def)
  with ds' show ?thesis
    using map_fst_filter_pair [of Not "\<lambda>l. allAccepted rl rs (pli_Metadata l)" origs]
    by (intro exI [of _ ds']) (simp add: transitionListeners_def comp_def)
qed

text \<open>C6. Nothing that is rejected replaces what works: of a generated proxy that is stripped and then takes the
  place of a stored one, every listener is a listener of the stored proxy that is rejected now and
  unchanged, or an accepted one of the generated proxy; there is one for each of either kind. Wherever
  an accepted listener has virtual hosts directly or under a matcher, it has its accepted ones and
  those rejected ones that the stored listener of its name has at the same place.\<close>

theorem last_known_good:
  assumes "\<forall>l \<in> set ls. readable_listener rl l \<and> keyed_listener l" and "\<forall>orig \<in> set origs. readable_listener rl orig"
  shows "\<exists>stripped final accepted. stripListeners rl rs ls = Inr (Inr stripped) \<and> transitionListeners rl rs origs stripped = Inr (Inr final) \<and>
    sorted_wrt (\<lambda>a b. pli_Name a \<le> pli_Name b) final \<and>
    mset final = mset accepted + mset (filter (\<lambda>orig. \<not> allAccepted rl rs (pli_Metadata orig)) origs) \<and>
    mset (map (\<lambda>l. (pli_Name l, pli_Metadata l, pli_Other l)) accepted) =
      mset (map (\<lambda>l. (pli_Name l, pli_Metadata l, pli_Other l)) (filter (\<lambda>l. allAccepted rl rs (pli_Metadata l)) ls)) \<and>
    (\<forall>l \<in> set ls. allAccepted rl rs (pli_Metadata l) \<longrightarrow>
      (\<exists>l' \<in> set accepted. pli_Name l' = pli_Name l \<and> pli_Metadata l' = pli_Metadata l \<and>
        list_all2 (\<lambda>(key, vhs) (key', vhs'). key' = key \<and>
            set vhs' = {vh \<in> set vhs. allAccepted rl rs (vhostMetadata vh)} \<union> set (restoredHosts rl rs origs (pli_Name l) key))
          (httpHosts l) (httpHosts l')))"
proof -
  from stripListeners_ok [OF assms(1), of rs] obtain ls' where ls': "stripListeners rl rs ls = Inr (Inr (sortListeners ls'))"
    and s: "list_all2 (\<lambda>l l'. same_listener l l' \<and> keyed_listener l' \<and>
        hostGroups l' = map (\<lambda>vhs. sortHosts (validHosts rl rs vhs)) (hostGroups l) \<and>
        httpHosts l' = map (\<lambda>(key, vhs). (key, sortHosts (validHosts rl rs vhs))) (httpHosts l))
      (filter (\<lambda>l. allAccepted rl rs (pli_Metadata l)) ls) ls'" by blast
  from transitionListeners_ok [OF assms(2), of rs "sortListeners ls'"] obtain ds' where
    ds': "transitionListeners rl rs origs (sortListeners ls') =
      Inr (Inr (sortListeners (ds' @ filter (\<lambda>orig. \<not> allAccepted rl rs (pli_Metadata orig)) origs)))"
    and d: "list_all2 (\<lambda>d d'. same_listener d d' \<and>
      list_all2 (\<lambda>(key, vhs) (key', vhs'). key' = key \<and> set vhs' = set vhs \<union> set (restoredHosts rl rs origs (pli_Name d) key))
        (httpHosts d) (httpHosts d')) (sortListeners ls') ds'" by blast
  let ?id = "\<lambda>l. (pli_Name l, pli_Metadata l, pli_Other l)"
  have "map ?id ls' = map ?id (filter (\<lambda>l. allAccepted rl rs (pli_Metadata l)) ls)"
    using s by (induction rule: list_all2_induct) (auto simp: same_listener_def)
  moreover have "map ?id ds' = map ?id (sortListeners ls')"
    using d by (induction rule: list_all2_induct) (auto simp: same_listener_def)
  ultimately have ids: "mset (map ?id ds') = mset (map ?id (filter (\<lambda>l. allAccepted rl rs (pli_Metadata l)) ls))"
    by (simp only: mset_map_sortListeners)
  have hosts: "\<exists>l' \<in> set ds'. pli_Name l' = pli_Name l \<and> pli_Metadata l' = pli_Metadata l \<and>
        list_all2 (\<lambda>(key, vhs) (key', vhs'). key' = key \<and>
            set vhs' = {vh \<in> set vhs. allAccepted rl rs (vhostMetadata vh)} \<union> set (restoredHosts rl rs origs (pli_Name l) key))
          (httpHosts l) (httpHosts l')" if "l \<in> set ls" "allAccepted rl rs (pli_Metadata l)" for l
  proof -
    have "l \<in> set (filter (\<lambda>l. allAccepted rl rs (pli_Metadata l)) ls)" using that by simp
    from list_all2_member [OF s this] obtain m where m: "m \<in> set ls'" "same_listener l m"
      "httpHosts m = map (\<lambda>(key, vhs). (key, sortHosts (validHosts rl rs vhs))) (httpHosts l)" by blast
    then have "m \<in> set (sortListeners ls')" by simp
    from list_all2_member [OF d this] obtain l' where l': "l' \<in> set ds'" "same_listener m l'"
      "list_all2 (\<lambda>(key, vhs) (key', vhs'). key' = key \<and> set vhs' = set vhs \<union> set (restoredHosts rl rs origs (pli_Name m) key))
        (httpHosts m) (httpHosts l')" by blast
    with m(2) have "pli_Name l' = pli_Name l \<and> pli_Metadata l' = pli_Metadata l" "pli_Name m = pli_Name l" by (simp_all add: same_listener_def)
    moreover have "set (validHosts rl rs vhs) = {vh \<in> set vhs. allAccepted rl rs (vhostMetadata vh)}" for vhs by (simp add: validHosts_def)
    ultimately show ?thesis
      using l'(1,3) by (intro bexI [of _ l']) (simp_all add: m(3) list_all2_map1 case_prod_unfold)
  qed
  show ?thesis
    by (intro exI [of _ "sortListeners ls'"] exI [of _ ds'] exI conjI) (use ls' ds' ids hosts in auto)
qed

end
