(* ===== verification/LeaderElection.thy ===== *)
theory LeaderElection
  imports Prelude
begin

text \<open>
  Leader election, \<open>pkg/bootstrap/leaderelector\<close>: the identity of a component, the action that it runs when it becomes the
  leader, and the election over Kubernetes (\<open>kube/factory.go\<close>) and for a single replica. The elector of \<open>client-go\<close> is known by
  the sequence of callbacks that it makes.
\<close>

section \<open>Identity (identity.go)\<close>

text \<open>An identity holds a channel; a channel is known by its number, and being the leader is having it closed.
  Nothing is ever sent on such a channel.\<close>

record identity = id_elected :: nat

definition IsLeader :: "(nat \<Rightarrow> bool) \<Rightarrow> identity \<Rightarrow> bool" where
  "IsLeader closed i = closed (id_elected i)"

text \<open>\<open>Reset\<close> has a value receiver: it assigns to the field of a copy of the identity, which is lost when the
  method returns. What is left is the identity of the caller.\<close>

definition identity_Reset :: "identity \<Rightarrow> nat \<Rightarrow> identity" where
  "identity_Reset i elected = (let copy = i\<lparr>id_elected := elected\<rparr> in i)"

section \<open>Elections\<close>

text \<open>The state of \<open>StartElection\<close>: the variable \<open>elected\<close> and the identity that was returned, the channels that are closed, the
  variables that its callbacks share, and the timers of \<open>dieIfUnrecoverable\<close> by the number of the context that stops
  them. The configuration's own callbacks are a trace.\<close>

datatype election_callback = StartedLeading | StoppedLeading | NewLeader string

record election =
  elc_elected :: nat
  elc_identity :: identity
  elc_closed :: "nat \<Rightarrow> bool"
  elc_nextChannel :: nat
  elc_recover :: bool
  elc_justFailed :: bool
  elc_dontDie :: "nat option"
  elc_timers :: "nat list"
  elc_cancelled :: "nat \<Rightarrow> bool"
  elc_configCalls :: "election_callback list"

definition StartElection :: "bool \<Rightarrow> election" where
  "StartElection recoverIfUnreachable =
     \<lparr>elc_elected = 0, elc_identity = \<lparr>id_elected = 0\<rparr>, elc_closed = (\<lambda>_. False), elc_nextChannel = 1,
      elc_recover = recoverIfUnreachable, elc_justFailed = False, elc_dontDie = None, elc_timers = [], elc_cancelled = (\<lambda>_. False),
      elc_configCalls = []\<rparr>"

text \<open>The election for a single replica: the channel is closed at once.\<close>

definition SingleReplicaIdentity :: "identity \<times> (nat \<Rightarrow> bool)" where
  "SingleReplicaIdentity = (let elected = (0 :: nat) in (\<lparr>id_elected = elected\<rparr>, (\<lambda>c. c = elected)))"

text \<open>Closing a channel that is closed is a panic.\<close>

definition OnStartedLeading :: "election \<Rightarrow> election outcome" where
  "OnStartedLeading e =
     (if elc_closed e (elc_elected e) then Inl CloseOfClosed
      else Inr (e\<lparr>elc_closed := (elc_closed e)(elc_elected e := True), elc_configCalls := elc_configCalls e @ [StartedLeading]\<rparr>))"

text \<open>\<open>recoveryCtx\<close> is the context of the current elector; the timer that is started stops when it is cancelled.\<close>

definition OnStoppedLeading :: "nat \<Rightarrow> election \<Rightarrow> election" where
  "OnStoppedLeading recoveryCtx e =
     (let e = e\<lparr>elc_configCalls := elc_configCalls e @ [StoppedLeading]\<rparr>
      in if elc_recover e
         then e\<lparr>elc_elected := elc_nextChannel e, elc_nextChannel := elc_nextChannel e + 1,
             elc_identity := identity_Reset (elc_identity e) (elc_nextChannel e),
             elc_timers := elc_timers e @ [recoveryCtx], elc_dontDie := Some recoveryCtx, elc_justFailed := True\<rparr>
         else e)"

definition OnNewLeader :: "string \<Rightarrow> election \<Rightarrow> election outcome" where
  "OnNewLeader leader e =
     (let e = e\<lparr>elc_configCalls := elc_configCalls e @ [NewLeader leader]\<rparr>
      in if elc_recover e \<and> elc_justFailed e
         then bind_out (deref (elc_dontDie e)) (\<lambda>cancel.
           Inr (e\<lparr>elc_cancelled := (elc_cancelled e)(cancel := True), elc_justFailed := False\<rparr>))
         else Inr e)"

definition callback :: "nat \<times> election_callback \<Rightarrow> election \<Rightarrow> election outcome" where
  "callback c e =
     (case snd c of
        StartedLeading \<Rightarrow> OnStartedLeading e
      | StoppedLeading \<Rightarrow> Inr (OnStoppedLeading (fst c) e)
      | NewLeader leader \<Rightarrow> OnNewLeader leader e)"

text \<open>The loop of the election makes a new elector, with its context, each time the last one stops.\<close>

definition election_run :: "(nat \<times> election_callback) list \<Rightarrow> election \<Rightarrow> election outcome" where
  "election_run cs e = fold_out callback cs e"

section \<open>The startup action (leader.go)\<close>

record 'a startup_action =
  sa_action :: "'a option"

definition SetAction :: "'a \<Rightarrow> 'a startup_action \<Rightarrow> 'a startup_action" where
  "SetAction a s = s\<lparr>sa_action := Some a\<rparr>"

definition GetAction :: "'a startup_action \<Rightarrow> 'a option" where
  "GetAction s = sa_action s"

text \<open>What the watch does when the channel closes: the action that is set then is performed once; an error is
  logged.\<close>

definition performStartupAction :: "('a \<Rightarrow> 'w \<Rightarrow> 'e option \<times> 'w) \<Rightarrow> 'a startup_action \<Rightarrow> 'w \<Rightarrow> 'w" where
  "performStartupAction perform s w = (case GetAction s of None \<Rightarrow> w | Some a \<Rightarrow> snd (perform a w))"

section \<open>Properties\<close>

text \<open>The callbacks of an elector: it stops leading before it starts again.\<close>

fun alternates :: "bool \<Rightarrow> (nat \<times> election_callback) list \<Rightarrow> bool" where
  "alternates leading [] = True"
| "alternates leading ((_, StartedLeading) # cs) = (\<not> leading \<and> alternates True cs)"
| "alternates leading ((_, StoppedLeading) # cs) = alternates False cs"
| "alternates leading ((_, NewLeader _) # cs) = alternates leading cs"

definition election_inv :: "bool \<Rightarrow> election \<Rightarrow> bool" where
  "election_inv leading e \<longleftrightarrow> elc_recover e \<and> (elc_closed e (elc_elected e) \<longrightarrow> leading) \<and> elc_elected e < elc_nextChannel e \<and>
     (\<forall>c \<ge> elc_nextChannel e. \<not> elc_closed e c) \<and> (elc_justFailed e \<longrightarrow> elc_dontDie e \<noteq> None)"

lemma election_inv_init: "election_inv False (StartElection True)"
  by (simp add: election_inv_def StartElection_def)

lemma election_run_returns:
  assumes "election_inv leading e" "alternates leading cs"
  shows "\<exists>e'. election_run cs e = Inr e'"
  using assms unfolding election_run_def
proof (induction cs arbitrary: leading e)
  case (Cons c cs)
  obtain n k where c: "c = (n, k)" by (cases c)
  have "\<exists>leading' e'. callback c e = Inr e' \<and> election_inv leading' e' \<and> alternates leading' cs"
  proof (cases k)
    case StartedLeading
    with Cons.prems show ?thesis
      by (intro exI [of _ True]) (auto simp: c callback_def OnStartedLeading_def election_inv_def)
  next
    case StoppedLeading
    with Cons.prems show ?thesis
      by (intro exI [of _ False]) (auto simp: c callback_def OnStoppedLeading_def election_inv_def Let_def)
  next
    case (NewLeader l)
    with Cons.prems show ?thesis
      by (intro exI [of _ leading]) (auto simp: c callback_def OnNewLeader_def election_inv_def Let_def)
  qed
  with Cons.IH show ?case by fastforce
qed simp

text \<open>Who was the leader once is the leader for good: the identity keeps its channel, whatever callbacks follow.\<close>

lemma callback_keeps_leader:
  assumes "callback c e = Inr e'" "IsLeader (elc_closed e) (elc_identity e)"
  shows "IsLeader (elc_closed e') (elc_identity e')"
  using assms
  by (cases c; cases "snd c")
    (auto simp: callback_def OnStartedLeading_def OnStoppedLeading_def OnNewLeader_def IsLeader_def identity_Reset_def Let_def
      split: if_splits elim!: bind_out_InrE)

theorem leader_for_good:
  assumes "election_run cs e = Inr e'" "IsLeader (elc_closed e) (elc_identity e)"
  shows "IsLeader (elc_closed e') (elc_identity e')"
  using fold_out_invariant [where P = "\<lambda>e. IsLeader (elc_closed e) (elc_identity e)" and f = callback] callback_keeps_leader assms
  unfolding election_run_def by blast

text \<open>An elected component that loses its lease, with recovery switched on, and sees another leader elected: it
  still takes itself for the leader.\<close>

theorem reset_has_no_effect:
  "\<exists>e. election_run [(0, StartedLeading), (0, StoppedLeading), (1, NewLeader ''other'')] (StartElection True) = Inr e \<and>
     elc_elected e \<noteq> id_elected (elc_identity e) \<and> \<not> elc_closed e (elc_elected e) \<and> IsLeader (elc_closed e) (elc_identity e)"
  by (simp add: election_run_def callback_def OnStartedLeading_def OnStoppedLeading_def OnNewLeader_def StartElection_def
      IsLeader_def identity_Reset_def Let_def)

end
