(* ===== verification/EdgeSyncer.thy ===== *)
theory EdgeSyncer
  imports EdgeReconciler EdgeTranslator LeaderElection
begin

text \<open>
  The syncer of the Edge gateway, \<open>projects/gateway/pkg/syncer/translator_syncer.go\<close>: it translates the gateways into proxies, hands
  them to the reconciler, and keeps the statuses of the resources in step with the reports and the
  statuses of the proxies. The part of \<open>projects/gloo/pkg/api/compress\<close> that marks a proxy is here as well.

  The status syncer is shared by the loop of the translation, which changes its state and asks for a sync
  through a channel, and by the goroutine that syncs. The lock makes each change and each reading of the
  state one step; the writes of a sync are steps of their own.
\<close>

section \<open>Marks of a proxy (compress.go)\<close>

definition addAnnotation :: "string \<Rightarrow> string \<Rightarrow> stored_proxy \<Rightarrow> stored_proxy" where
  "addAnnotation key v p = p\<lparr>sp_Metadata := (sp_Metadata p)\<lparr>smd_Annotations := (smd_Annotations (sp_Metadata p))(key \<mapsto> v)\<rparr>\<rparr>"

definition SetShouldCompressed :: "stored_proxy \<Rightarrow> stored_proxy" where
  "SetShouldCompressed = addAnnotation ''gloo.solo.io/compress'' ''true''"

definition shouldCompress :: "stored_proxy \<Rightarrow> bool" where
  "shouldCompress p \<longleftrightarrow> smd_Annotations (sp_Metadata p) ''gloo.solo.io/compress'' = Some ''true''"

text \<open>\<open>strconv.ParseInt\<close> with base 0: the prefix gives the base, and underscores may separate digits.\<close>

definition lower :: "char \<Rightarrow> nat" where
  "lower c = (let n = of_char c in if 65 \<le> n \<and> n \<le> 90 then n + 32 else n)"

definition digit_value :: "char \<Rightarrow> nat option" where
  "digit_value c =
     (let n = of_char c; l = lower c
      in if 48 \<le> n \<and> n \<le> (57 :: nat) then Some (n - 48) else if 97 \<le> l \<and> l \<le> 122 then Some (l - 87) else None)"

text \<open>The verdict is whether the number before the cutoff could be read; \<open>n\<close> is the value so far.\<close>

fun parse_digits :: "nat \<Rightarrow> nat \<Rightarrow> nat \<Rightarrow> string \<Rightarrow> bool" where
  "parse_digits cutoff base n [] = (n < cutoff)"
| "parse_digits cutoff base n (c # cs) =
     (if c = CHR ''_'' then parse_digits cutoff base n cs
      else case digit_value c of
             None \<Rightarrow> False
           | Some d \<Rightarrow> d < base \<and> n * base + d < 2 ^ 64 \<and> parse_digits cutoff base (n * base + d) cs)"

text \<open>\<open>underscoreOK\<close> on the digits after a prefix: \<open>sawDigit\<close> is whether the last character was a digit or the prefix.\<close>

fun underscores_ok :: "bool \<Rightarrow> string \<Rightarrow> bool" where
  "underscores_ok sawDigit [] = sawDigit"
| "underscores_ok sawDigit (c # cs) = (if c = CHR ''_'' then sawDigit \<and> underscores_ok False cs else underscores_ok True cs)"

definition int_base :: "string \<Rightarrow> nat \<times> bool \<times> string" where
  "int_base s =
     (if s \<noteq> [] \<and> s ! 0 = CHR ''0''
      then if 3 \<le> length s \<and> lower (s ! 1) = 98 then (2, True, drop 2 s)
           else if 3 \<le> length s \<and> lower (s ! 1) = 111 then (8, True, drop 2 s)
           else if 3 \<le> length s \<and> lower (s ! 1) = 120 then (16, True, drop 2 s)
           else (8, False, drop 1 s)
      else (10, False, s))"

definition ParseInt_ok :: "string \<Rightarrow> bool" where
  "ParseInt_ok s =
     (let neg = (s \<noteq> [] \<and> s ! 0 = CHR ''-'');
          u = (if s \<noteq> [] \<and> s ! 0 \<in> {CHR ''-'', CHR ''+''} then drop 1 s else s);
          (base, prefix, ds) = int_base u
      in u \<noteq> [] \<and> parse_digits (if neg then 2 ^ 63 + 1 else 2 ^ 63) base 0 ds \<and>
         (CHR ''_'' \<in> set ds \<longrightarrow> (if prefix then underscores_ok True ds else underscores_ok False u)))"

text \<open>With an error for a size that is not a number, nothing is set.\<close>

definition SetMaxStatusSizeBytes :: "string \<Rightarrow> stored_proxy \<Rightarrow> stored_proxy" where
  "SetMaxStatusSizeBytes maxStatusSize p = (if ParseInt_ok maxStatusSize then addAnnotation ''gloo.solo.io/maxStatusSize'' maxStatusSize p else p)"

section \<open>Generated proxies\<close>

text \<open>The reports of the proxies that could not be made are kept under a reference to the proxy.\<close>

record translator_syncer =
  tsy_writeNamespace :: string
  tsy_proxyStatusMaxSize :: string
  tsy_CompressedProxySpec :: bool

abbreviation proxyLabelsToWrite :: "string \<rightharpoonup> string" where
  "proxyLabelsToWrite \<equiv> [''created_by'' \<mapsto> ''gloo-gateway'']"

definition GetTranslatorSelectorExpression :: "string list \<Rightarrow> string" where
  "GetTranslatorSelectorExpression translators =
     ''created_by in ('' @ concat (map (\<lambda>i. (if i = 0 then [] else '', '') @ translators ! i) [0..<length translators]) @ '')''"

record proxy_list_opts =
  plo_Selector :: "string \<rightharpoonup> string"
  plo_ExpressionSelector :: string

definition proxyLabelSelectorOptions :: proxy_list_opts where
  "proxyLabelSelectorOptions =
     \<lparr>plo_Selector = proxyLabelsToWrite,
      plo_ExpressionSelector = GetTranslatorSelectorExpression [''gloo-gateway'', ''gloo-gateway-translator'', ''gateway'']\<rparr>"

definition markProxy :: "translator_syncer \<Rightarrow> stored_proxy \<Rightarrow> stored_proxy" where
  "markProxy s p =
     (let p = (if tsy_CompressedProxySpec s then SetShouldCompressed p else p);
          p = (if tsy_proxyStatusMaxSize s \<noteq> [] then SetMaxStatusSizeBytes (tsy_proxyStatusMaxSize s) p else p)
      in p\<lparr>sp_Metadata := (sp_Metadata p)\<lparr>smd_Labels := proxyLabelsToWrite\<rparr>\<rparr>)"

text \<open>The translator gets the name of a proxy and its gateways, by their index; \<open>names\<close> is the order of the loop over the
  names of the proxies.\<close>

definition GeneratedDesiredProxies ::
  "translator_syncer \<Rightarrow> (string \<Rightarrow> nat list \<Rightarrow> stored_proxy option \<times> resource_reports) \<Rightarrow> edge_gateway list \<Rightarrow> string list \<Rightarrow>
   generated_proxy list \<times> (resource_ref \<times> resource_reports) list" where
  "GeneratedDesiredProxies s translate gateways names =
     foldl (\<lambda>(desired, invalid) proxyName.
       let (proxy, reports) = translate proxyName (case GatewaysByProxyName gateways proxyName of None \<Rightarrow> [] | Some l \<Rightarrow> l)
       in case proxy of
            Some p \<Rightarrow> (desired @ [\<lparr>gen_Proxy = markProxy s p, gen_Reports = reports\<rparr>], invalid)
          | None \<Rightarrow> (desired, invalid @ [(\<lparr>rref_Name = proxyName, rref_Namespace = tsy_writeNamespace s\<rparr>, reports)])) ([], []) names"

section \<open>The status syncer\<close>

definition UpstreamToClusterName :: "resource_ref \<Rightarrow> string" where
  "UpstreamToClusterName ref = (if rref_Namespace ref = [] then rref_Name ref else rref_Name ref @ ''_'' @ rref_Namespace ref)"

record reports_and_status =
  ras_Status :: "string option"
  ras_Reports :: resource_reports

text \<open>What a call of \<open>WriteReports\<close> is about: a clone of the resource with its last known status, its report, and the
  statuses of the proxies.\<close>

record status_write =
  sw_Resource :: input_resource
  sw_LastStatus :: "string option"
  sw_Report :: resource_report
  sw_Statuses :: "string \<rightharpoonup> string"

text \<open>The map of the last statuses is shared: a sync keeps the map that it has read, also when the field has a new
  one. Maps are known by their number; the field is nil at first. The channel holds at most one element.\<close>

record status_syncer =
  ess_proxyToLastStatus :: "string \<rightharpoonup> reports_and_status"
  ess_inputResourceLastStatus :: "nat option"
  ess_maps :: "nat \<Rightarrow> (input_resource \<rightharpoonup> string)"
  ess_nextMap :: nat
  ess_currentGeneratedProxies :: "resource_ref list"
  ess_syncNeeded :: nat
  ess_previousProxyStatusHash :: "64 word"
  ess_leaderStartupAction :: "status_write startup_action"
  ess_metrics :: "(input_resource \<times> string) list"

definition newStatusSyncer :: status_syncer where
  "newStatusSyncer =
     \<lparr>ess_proxyToLastStatus = Map.empty, ess_inputResourceLastStatus = None, ess_maps = (\<lambda>_. Map.empty), ess_nextMap = 0,
      ess_currentGeneratedProxies = [], ess_syncNeeded = 0, ess_previousProxyStatusHash = 0,
      ess_leaderStartupAction = \<lparr>sa_action = None\<rparr>, ess_metrics = []\<rparr>"

definition setCurrentProxy :: "status_syncer \<Rightarrow> resource_ref \<times> resource_reports \<Rightarrow> status_syncer" where
  "setCurrentProxy s p =
     (let refKey = UpstreamToClusterName (fst p);
          current = (case ess_proxyToLastStatus s refKey of None \<Rightarrow> \<lparr>ras_Status = None, ras_Reports = Map.empty\<rparr> | Some c \<Rightarrow> c)
      in s\<lparr>ess_proxyToLastStatus := (ess_proxyToLastStatus s)(refKey \<mapsto> current\<lparr>ras_Reports := snd p\<rparr>),
           ess_currentGeneratedProxies := ess_currentGeneratedProxies s @ [fst p]\<rparr>)"

definition refLess :: "resource_ref \<Rightarrow> resource_ref \<Rightarrow> bool" where
  "refLess a b = (if rref_Namespace a \<noteq> rref_Namespace b then rref_Namespace a < rref_Namespace b else rref_Name a < rref_Name b)"

text \<open>The references of the valid and of the invalid proxies, in the order of the loop.\<close>

definition setCurrentProxies :: "(resource_ref \<times> resource_reports) list \<Rightarrow> status_syncer \<Rightarrow> status_syncer" where
  "setCurrentProxies proxyReportsByRef s =
     (let s = s\<lparr>ess_inputResourceLastStatus := Some (ess_nextMap s), ess_maps := (ess_maps s)(ess_nextMap s := Map.empty),
            ess_nextMap := ess_nextMap s + 1, ess_currentGeneratedProxies := []\<rparr>;
          s = foldl setCurrentProxy s proxyReportsByRef
      in s\<lparr>ess_currentGeneratedProxies := sort_stable refLess (ess_currentGeneratedProxies s)\<rparr>)"

definition setStatus :: "status_syncer \<Rightarrow> resource_ref \<times> string option \<Rightarrow> status_syncer" where
  "setStatus s p =
     (let refKey = UpstreamToClusterName (fst p)
      in s\<lparr>ess_proxyToLastStatus := (ess_proxyToLastStatus s)(refKey \<mapsto>
           (case ess_proxyToLastStatus s refKey of
              Some current \<Rightarrow> current\<lparr>ras_Status := snd p\<rparr>
            | None \<Rightarrow> \<lparr>ras_Status = snd p, ras_Reports = Map.empty\<rparr>))\<rparr>)"

definition setStatuses :: "(resource_ref \<times> string option) list \<Rightarrow> status_syncer \<Rightarrow> status_syncer" where
  "setStatuses proxies s = foldl setStatus s proxies"

text \<open>The send of \<open>forceSync\<close>; it is not reached when the channel has an element.\<close>

definition forceSync :: "status_syncer \<Rightarrow> status_syncer" where
  "forceSync s = (if ess_syncNeeded s > 0 then s else s\<lparr>ess_syncNeeded := ess_syncNeeded s + 1\<rparr>)"

text \<open>\<open>handleUpdatedProxies\<close> up to its call of \<open>forceSync\<close>, and whether it makes that call. The proxies are what the client lists, with
  the status of each; \<open>hash\<close> is the hash of their statuses.\<close>

definition handleUpdatedProxies ::
  "((string option) list \<Rightarrow> 64 word) \<Rightarrow> eris_error + (resource_ref \<times> string option) list \<Rightarrow> status_syncer \<Rightarrow> bool \<times> status_syncer" where
  "handleUpdatedProxies hash proxyList s =
     (case proxyList of
        Inl _ \<Rightarrow> (False, s)
      | Inr proxies \<Rightarrow>
          let currentHash = hash (map snd proxies)
          in if currentHash \<noteq> ess_previousProxyStatusHash s
             then (True, setStatuses proxies (s\<lparr>ess_previousProxyStatusHash := currentHash\<rparr>))
             else (False, s))"

section \<open>A sync\<close>

text \<open>\<open>multierror.Append\<close> and \<open>StatusFromReport\<close> of the reporter are from other modules, and so is \<open>WriteReports\<close>, which works on the
  state \<open>w\<close> of the cluster.\<close>

record 'w reporter_lib =
  stl_Append :: "eris_error option \<Rightarrow> eris_error \<Rightarrow> eris_error"
  stl_StatusFromReport :: "resource_report \<Rightarrow> (string \<rightharpoonup> string) \<Rightarrow> string"
  stl_WriteReports :: "status_write \<Rightarrow> 'w \<Rightarrow> eris_error option \<times> 'w"

definition combineReports :: "'w reporter_lib \<Rightarrow> resource_report \<Rightarrow> resource_report \<Rightarrow> resource_report" where
  "combineReports lib existing new =
     \<lparr>rrt_Errors = (case rrt_Errors new of None \<Rightarrow> rrt_Errors existing | Some e \<Rightarrow> Some (stl_Append lib (rrt_Errors existing) e)),
      rrt_Warnings = rrt_Warnings existing @ rrt_Warnings new\<rparr>"

type_synonym extracted = "resource_reports \<times> (input_resource \<Rightarrow> (string \<rightharpoonup> string))"

text \<open>One proxy: its reports are merged into those there are, and its status, if it has one, is noted for each of
  the resources. The order of the resources does not matter, as they are distinct.\<close>

definition extractProxy :: "'w reporter_lib \<Rightarrow> (string \<rightharpoonup> reports_and_status) \<Rightarrow> extracted \<Rightarrow> string \<Rightarrow> extracted" where
  "extractProxy lib m = (\<lambda>(allReports, statuses) refKey.
     case m refKey of
       None \<Rightarrow> (allReports, statuses)
     | Some rs \<Rightarrow>
         (\<lambda>res. case ras_Reports rs res of
            None \<Rightarrow> allReports res
          | Some new \<Rightarrow> Some (case allReports res of None \<Rightarrow> new | Some existing \<Rightarrow> combineReports lib existing new),
          \<lambda>res. if ras_Reports rs res \<noteq> None
            then (case ras_Status rs of None \<Rightarrow> statuses res | Some status \<Rightarrow> (statuses res)(''*v1.Proxy.'' @ refKey \<mapsto> status))
            else statuses res))"

definition extractCurrentReports :: "'w reporter_lib \<Rightarrow> status_syncer \<Rightarrow> extracted" where
  "extractCurrentReports lib s =
     foldl (extractProxy lib (ess_proxyToLastStatus s)) (Map.empty, \<lambda>_. Map.empty) (map UpstreamToClusterName (ess_currentGeneratedProxies s))"

text \<open>The work for one resource: the leader writes its report and notes its status in the map that the sync has,
  and any other component sets the startup action. Writing to the map when it is nil is a panic.\<close>

definition statusWrite :: "extracted \<Rightarrow> nat option \<Rightarrow> input_resource \<Rightarrow> status_syncer \<Rightarrow> status_write outcome" where
  "statusWrite ex lastMap res s =
     bind_out (deref (fst ex res)) (\<lambda>report.
       Inr \<lparr>sw_Resource = res, sw_LastStatus = (case lastMap of None \<Rightarrow> None | Some m \<Rightarrow> ess_maps s m res), sw_Report = report,
            sw_Statuses = snd ex res\<rparr>)"

definition syncResource ::
  "'w reporter_lib \<Rightarrow> bool \<Rightarrow> extracted \<Rightarrow> nat option \<Rightarrow> input_resource \<Rightarrow> eris_error list \<times> status_syncer \<times> 'w \<Rightarrow>
   (eris_error list \<times> status_syncer \<times> 'w) outcome" where
  "syncResource lib isLeader ex lastMap res = (\<lambda>(errs, s, w).
     bind_out (statusWrite ex lastMap res s) (\<lambda>sw.
       let status = stl_StatusFromReport lib (sw_Report sw) (sw_Statuses sw);
           measured = (\<lambda>s. s\<lparr>ess_metrics := ess_metrics s @ [(res, status)]\<rparr>)
       in if isLeader
          then case stl_WriteReports lib sw w of
                 (Some e, w) \<Rightarrow> Inr (errs @ [Wrapf ''failed to write reports'' e], measured s, w)
               | (None, w) \<Rightarrow>
                   (case lastMap of
                      None \<Rightarrow> Inl NilMapWrite
                    | Some m \<Rightarrow> Inr (errs, measured (s\<lparr>ess_maps := (ess_maps s)(m := (ess_maps s m)(res \<mapsto> status))\<rparr>), w))
          else Inr (errs, measured (s\<lparr>ess_leaderStartupAction := SetAction sw (ess_leaderStartupAction s)\<rparr>), w)))"

text \<open>A sync that nothing interrupts, over the resources in the order of the loop.\<close>

definition statusSyncer_syncStatus ::
  "'w reporter_lib \<Rightarrow> bool \<Rightarrow> input_resource list \<Rightarrow> status_syncer \<Rightarrow> 'w \<Rightarrow> (eris_error list \<times> status_syncer \<times> 'w) outcome" where
  "statusSyncer_syncStatus lib isLeader order s w =
     fold_out (syncResource lib isLeader (extractCurrentReports lib s) (ess_inputResourceLastStatus s)) order ([], s, w)"

section \<open>The loop of the translation\<close>

text \<open>\<open>Sync\<close>: the proxies are generated and reconciled; with an error the statuses are left alone. \<open>reorder\<close> is the order of the
  loop over the references.\<close>

definition edgeSync ::
  "translator_syncer \<Rightarrow> (string \<Rightarrow> nat list \<Rightarrow> stored_proxy option \<times> resource_reports) \<Rightarrow>
   (generated_proxy list \<Rightarrow> string \<Rightarrow> proxy_list_opts \<Rightarrow> 'w \<Rightarrow> (generated_proxy list \<times> 'w) erun) \<Rightarrow>
   ((resource_ref \<times> resource_reports) list \<Rightarrow> (resource_ref \<times> resource_reports) list) \<Rightarrow>
   edge_gateway list \<Rightarrow> string list \<Rightarrow> status_syncer \<Rightarrow> 'w \<Rightarrow> (eris_error option \<times> status_syncer \<times> 'w) outcome" where
  "edgeSync t translate reconcileProxies reorder gateways names s w =
     (let (desired, invalid) = GeneratedDesiredProxies t translate gateways names
      in bind_out (reconcileProxies desired (tsy_writeNamespace t) proxyLabelSelectorOptions w) (\<lambda>(err, (desired, w)).
           case err of
             Some e \<Rightarrow> Inr (Some e, s, w)
           | None \<Rightarrow>
               let refs = map (\<lambda>g. (\<lparr>rref_Name = smd_Name (sp_Metadata (gen_Proxy g)), rref_Namespace = smd_Namespace (sp_Metadata (gen_Proxy g))\<rparr>, gen_Reports g)) desired
               in Inr (None, forceSync (setCurrentProxies (reorder (refs @ invalid)) s), w)))"

section \<open>Interleaving\<close>

text \<open>The goroutine of the statuses waits, has taken a request, or works through the resources of what it has read, with
  the resources left, the map, and the errors so far.\<close>

datatype sync_pc =
  Waiting
| Requested
| Syncing extracted "nat option" "input_resource list" "eris_error list"

text \<open>Beside the goroutine: the callers that have changed the state and are before or in their \<open>forceSync\<close>, the timer that a
  failed sync sets, whether this component is the leader, and whether the startup action is still to run.\<close>

record 'w sync_world =
  syw_syncer :: status_syncer
  syw_pc :: sync_pc
  syw_callers :: nat
  syw_retry :: bool
  syw_leader :: bool
  syw_actionDue :: bool
  syw_cluster :: 'w

definition sync_start :: "bool \<Rightarrow> 'w \<Rightarrow> 'w sync_world" where
  "sync_start leader w = \<lparr>syw_syncer = newStatusSyncer, syw_pc = Waiting, syw_callers = 0, syw_retry = False, syw_leader = leader,
     syw_actionDue = True, syw_cluster = w\<rparr>"

inductive sync_step :: "'w reporter_lib \<Rightarrow> 'w sync_world \<Rightarrow> 'w sync_world \<Rightarrow> bool" for lib :: "'w reporter_lib" where
  current_proxies:
    "sync_step lib y (y\<lparr>syw_syncer := setCurrentProxies refs (syw_syncer y), syw_callers := syw_callers y + 1\<rparr>)"
| updated_proxies:
    "handleUpdatedProxies hash proxyList (syw_syncer y) = (True, s) \<Longrightarrow>
     sync_step lib y (y\<lparr>syw_syncer := s, syw_callers := syw_callers y + 1\<rparr>)"
| force_sync:
    "0 < syw_callers y \<Longrightarrow>
     sync_step lib y (y\<lparr>syw_syncer := forceSync (syw_syncer y), syw_callers := syw_callers y - 1\<rparr>)"
| take_request:
    "syw_pc y = Waiting \<Longrightarrow> 0 < ess_syncNeeded (syw_syncer y) \<Longrightarrow>
     sync_step lib y (y\<lparr>syw_syncer := (syw_syncer y)\<lparr>ess_syncNeeded := ess_syncNeeded (syw_syncer y) - 1\<rparr>, syw_pc := Requested\<rparr>)"
| take_retry:
    "syw_pc y = Waiting \<Longrightarrow> syw_retry y \<Longrightarrow> sync_step lib y (y\<lparr>syw_pc := Requested\<rparr>)"
| read_reports:
    "syw_pc y = Requested \<Longrightarrow> distinct order \<Longrightarrow> set order = dom (fst (extractCurrentReports lib (syw_syncer y))) \<Longrightarrow>
     sync_step lib y (y\<lparr>syw_pc := Syncing (extractCurrentReports lib (syw_syncer y)) (ess_inputResourceLastStatus (syw_syncer y)) order []\<rparr>)"
| sync_one:
    "syw_pc y = Syncing ex lastMap (res # order) errs \<Longrightarrow>
     syncResource lib (syw_leader y) ex lastMap res (errs, syw_syncer y, syw_cluster y) = Inr (errs', s, w) \<Longrightarrow>
     sync_step lib y (y\<lparr>syw_pc := Syncing ex lastMap order errs', syw_syncer := s, syw_cluster := w\<rparr>)"
| sync_done:
    "syw_pc y = Syncing ex lastMap [] errs \<Longrightarrow> sync_step lib y (y\<lparr>syw_pc := Waiting, syw_retry := (errs \<noteq> [])\<rparr>)"
| elected:
    "sync_step lib y (y\<lparr>syw_leader := True\<rparr>)"
| startup_action:
    "syw_leader y \<Longrightarrow> syw_actionDue y \<Longrightarrow>
     sync_step lib y (y\<lparr>syw_actionDue := False,
       syw_cluster := performStartupAction (stl_WriteReports lib) (ess_leaderStartupAction (syw_syncer y)) (syw_cluster y)\<rparr>)"

inductive sync_reach :: "'w reporter_lib \<Rightarrow> 'w sync_world \<Rightarrow> 'w sync_world \<Rightarrow> bool" for lib :: "'w reporter_lib" and y0 :: "'w sync_world" where
  sync_refl: "sync_reach lib y0 y0"
| sync_more: "sync_reach lib y0 y \<Longrightarrow> sync_step lib y y' \<Longrightarrow> sync_reach lib y0 y'"

end
