(* ===== verification/EdgeSyncerProps.thy ===== *)
theory EdgeSyncerProps
  imports EdgeSyncer
begin

text \<open>
  Statuses follow the reports: on the leader, whenever the goroutine of the statuses has nothing left to do, the cluster has
  the current report of every resource. A component that is elected later writes less than that.
\<close>

section \<open>References and proxies\<close>

lemma refLess_sorted: "sorted_wrt (\<lambda>a b. \<not> refLess b a) (sort_stable refLess xs)"
  by (rule sorted_sort_stable) (auto simp: refLess_def split: if_splits)

lemma setCurrentProxy_frame:
  "ess_inputResourceLastStatus (setCurrentProxy s p) = ess_inputResourceLastStatus s"
  "ess_syncNeeded (setCurrentProxy s p) = ess_syncNeeded s"
  "ess_leaderStartupAction (setCurrentProxy s p) = ess_leaderStartupAction s"
  "ess_currentGeneratedProxies (setCurrentProxy s p) = ess_currentGeneratedProxies s @ [fst p]"
  by (simp_all add: setCurrentProxy_def Let_def)

lemma foldl_setCurrentProxy_frame:
  "ess_inputResourceLastStatus (foldl setCurrentProxy s ps) = ess_inputResourceLastStatus s"
  "ess_syncNeeded (foldl setCurrentProxy s ps) = ess_syncNeeded s"
  "ess_leaderStartupAction (foldl setCurrentProxy s ps) = ess_leaderStartupAction s"
  "ess_currentGeneratedProxies (foldl setCurrentProxy s ps) = ess_currentGeneratedProxies s @ map fst ps"
  by (induction ps arbitrary: s) (simp_all add: setCurrentProxy_frame)

lemma setCurrentProxies_frame:
  "ess_inputResourceLastStatus (setCurrentProxies ps s) = Some (ess_nextMap s)"
  "ess_leaderStartupAction (setCurrentProxies ps s) = ess_leaderStartupAction s"
  "ess_currentGeneratedProxies (setCurrentProxies ps s) = sort_stable refLess (map fst ps)"
  by (simp_all add: setCurrentProxies_def Let_def foldl_setCurrentProxy_frame)

lemma setStatuses_frame:
  "ess_inputResourceLastStatus (setStatuses ps s) = ess_inputResourceLastStatus s"
  "ess_leaderStartupAction (setStatuses ps s) = ess_leaderStartupAction s"
  "ess_currentGeneratedProxies (setStatuses ps s) = ess_currentGeneratedProxies s"
  unfolding setStatuses_def by (induction ps arbitrary: s) (simp_all add: setStatus_def Let_def)

lemma handleUpdatedProxies_frame:
  assumes "handleUpdatedProxies hash ps s = (b, s')"
  shows "ess_inputResourceLastStatus s' = ess_inputResourceLastStatus s" "ess_leaderStartupAction s' = ess_leaderStartupAction s"
    "ess_currentGeneratedProxies s' = ess_currentGeneratedProxies s"
  using assms by (auto simp: handleUpdatedProxies_def Let_def setStatuses_frame split: sum.splits if_splits)

lemma forceSync_frame:
  "ess_inputResourceLastStatus (forceSync s) = ess_inputResourceLastStatus s" "ess_leaderStartupAction (forceSync s) = ess_leaderStartupAction s"
  "ess_currentGeneratedProxies (forceSync s) = ess_currentGeneratedProxies s" "ess_proxyToLastStatus (forceSync s) = ess_proxyToLastStatus s"
  "ess_syncNeeded (forceSync s) \<noteq> 0"
  by (simp_all add: forceSync_def)

text \<open>What a sync reads depends on the proxies and what is noted for them only.\<close>

lemma extract_cong:
  "ess_proxyToLastStatus s = ess_proxyToLastStatus s' \<Longrightarrow> ess_currentGeneratedProxies s = ess_currentGeneratedProxies s' \<Longrightarrow>
   extractCurrentReports lib s = extractCurrentReports lib s'"
  by (simp add: extractCurrentReports_def)

lemma extract_nothing: "ess_currentGeneratedProxies s = [] \<Longrightarrow> fst (extractCurrentReports lib s) = Map.empty"
  by (simp add: extractCurrentReports_def)

section \<open>One resource\<close>

text \<open>What the code relies on of \<open>WriteReports\<close>: \<open>stored\<close> is the report and the statuses that the cluster has for a resource; a write
  that succeeds stores what it was given, and a write for one resource leaves the others alone.\<close>

definition write_ok :: "'w reporter_lib \<Rightarrow> ('w \<Rightarrow> input_resource \<rightharpoonup> resource_report \<times> (string \<rightharpoonup> string)) \<Rightarrow> bool" where
  "write_ok lib stored \<longleftrightarrow>
     (\<forall>sw w. (\<forall>res. res \<noteq> sw_Resource sw \<longrightarrow> stored (snd (stl_WriteReports lib sw w)) res = stored w res) \<and>
        (fst (stl_WriteReports lib sw w) = None \<longrightarrow> stored (snd (stl_WriteReports lib sw w)) (sw_Resource sw) = Some (sw_Report sw, sw_Statuses sw)))"

lemma write_okD:
  assumes "write_ok lib stored" "stl_WriteReports lib sw w = (e, w')"
  shows "res \<noteq> sw_Resource sw \<Longrightarrow> stored w' res = stored w res"
    "e = None \<Longrightarrow> stored w' (sw_Resource sw) = Some (sw_Report sw, sw_Statuses sw)"
  using assms unfolding write_ok_def by (metis fst_conv snd_conv)+

lemma syncResource_leader:
  assumes "fst ex res = Some rep"
  shows "syncResource lib True ex (Some m) res (errs, s, w) =
    (let sw = \<lparr>sw_Resource = res, sw_LastStatus = ess_maps s m res, sw_Report = rep, sw_Statuses = snd ex res\<rparr>;
         status = stl_StatusFromReport lib rep (snd ex res)
     in case stl_WriteReports lib sw w of
          (Some e, w) \<Rightarrow> Inr (errs @ [Wrapf ''failed to write reports'' e], s\<lparr>ess_metrics := ess_metrics s @ [(res, status)]\<rparr>, w)
        | (None, w) \<Rightarrow> Inr (errs, s\<lparr>ess_maps := (ess_maps s)(m := (ess_maps s m)(res \<mapsto> status)), ess_metrics := ess_metrics s @ [(res, status)]\<rparr>, w))"
  using assms by (simp add: syncResource_def statusWrite_def Let_def split: prod.splits option.splits)

text \<open>A leader's work on a resource changes nothing that a sync reads.\<close>

lemma syncResource_leader_frame:
  assumes "syncResource lib True ex lastMap res (errs, s, w) = Inr (errs', s', w')"
  shows "ess_proxyToLastStatus s' = ess_proxyToLastStatus s" "ess_currentGeneratedProxies s' = ess_currentGeneratedProxies s"
    "ess_inputResourceLastStatus s' = ess_inputResourceLastStatus s" "ess_syncNeeded s' = ess_syncNeeded s"
    "ess_leaderStartupAction s' = ess_leaderStartupAction s"
  using assms by (auto simp: syncResource_def Let_def elim!: bind_out_InrE split: prod.splits option.splits)

lemma syncResource_leader_stores:
  assumes "write_ok lib stored" "syncResource lib True ex lastMap res (errs, s, w) = Inr (errs', s', w')"
  shows "res' \<noteq> res \<Longrightarrow> stored w' res' = stored w res'"
    "errs' = [] \<Longrightarrow> errs = [] \<and> stored w' res = map_option (\<lambda>rep. (rep, snd ex res)) (fst ex res)"
proof -
  from assms(2) obtain rep where rep: "fst ex res = Some rep"
    by (auto simp: syncResource_def statusWrite_def elim!: bind_out_InrE)
  let ?sw = "\<lparr>sw_Resource = res, sw_LastStatus = (case lastMap of None \<Rightarrow> None | Some m \<Rightarrow> ess_maps s m res), sw_Report = rep, sw_Statuses = snd ex res\<rparr>"
  obtain e where w: "stl_WriteReports lib ?sw w = (e, w')" and e: "errs' = errs @ (case e of None \<Rightarrow> [] | Some e \<Rightarrow> [Wrapf ''failed to write reports'' e])"
    using assms(2) by (auto simp: syncResource_def statusWrite_def rep Let_def split: prod.splits option.splits)
  show "stored w' res' = stored w res'" if "res' \<noteq> res"
    using write_okD(1) [OF assms(1) w, of res'] that by simp
  show "errs = [] \<and> stored w' res = map_option (\<lambda>rep. (rep, snd ex res)) (fst ex res)" if "errs' = []"
    using write_okD(2) [OF assms(1) w] that e rep by (auto split: option.splits)
qed

section \<open>The leader\<close>

text \<open>The cluster has the report of a resource.\<close>

definition settled :: "('w \<Rightarrow> input_resource \<rightharpoonup> resource_report \<times> (string \<rightharpoonup> string)) \<Rightarrow> extracted \<Rightarrow> 'w \<Rightarrow> input_resource \<Rightarrow> bool" where
  "settled stored ex w res \<longleftrightarrow> stored w res = map_option (\<lambda>rep. (rep, snd ex res)) (fst ex res)"

definition at_rest :: "'w sync_world \<Rightarrow> bool" where
  "at_rest y \<longleftrightarrow> syw_callers y = 0 \<and> ess_syncNeeded (syw_syncer y) = 0"

definition leader_inv ::
  "'w reporter_lib \<Rightarrow> ('w \<Rightarrow> input_resource \<rightharpoonup> resource_report \<times> (string \<rightharpoonup> string)) \<Rightarrow> 'w sync_world \<Rightarrow> bool" where
  "leader_inv lib stored y \<longleftrightarrow>
     (let s = syw_syncer y; ex = extractCurrentReports lib s
      in syw_leader y \<and> sa_action (ess_leaderStartupAction s) = None \<and>
         (ess_inputResourceLastStatus s = None \<longrightarrow> ess_currentGeneratedProxies s = []) \<and>
         (case syw_pc y of
            Waiting \<Rightarrow> at_rest y \<and> \<not> syw_retry y \<longrightarrow> (\<forall>res \<in> dom (fst ex). settled stored ex (syw_cluster y) res)
          | Requested \<Rightarrow> True
          | Syncing ex' lastMap order errs \<Rightarrow>
              (at_rest y \<longrightarrow> ex' = ex) \<and> set order \<subseteq> dom (fst ex') \<and> distinct order \<and> (lastMap = None \<longrightarrow> order = []) \<and>
              (errs = [] \<longrightarrow> (\<forall>res \<in> dom (fst ex') - set order. settled stored ex' (syw_cluster y) res))))"

lemma leader_inv_start: "leader_inv lib stored (sync_start True w)"
  by (simp add: leader_inv_def sync_start_def newStatusSyncer_def extractCurrentReports_def)

lemma leader_inv_sync_one:
  assumes ok: "write_ok lib stored" and inv: "leader_inv lib stored y" and pc: "syw_pc y = Syncing ex lastMap (res # order) errs"
    and run: "syncResource lib (syw_leader y) ex lastMap res (errs, syw_syncer y, syw_cluster y) = Inr (errs', s, w)"
  shows "leader_inv lib stored (y\<lparr>syw_pc := Syncing ex lastMap order errs', syw_syncer := s, syw_cluster := w\<rparr>)"
proof -
  from inv have "syw_leader y" by (simp add: leader_inv_def Let_def)
  with run have run: "syncResource lib True ex lastMap res (errs, syw_syncer y, syw_cluster y) = Inr (errs', s, w)" by simp
  note frame = syncResource_leader_frame [OF run]
  have ex: "extractCurrentReports lib s = extractCurrentReports lib (syw_syncer y)" by (rule extract_cong) (simp_all add: frame)
  have "settled stored ex w r" if "errs' = []" "r \<in> dom (fst ex) - set order" for r
  proof (cases "r = res")
    case True
    then show ?thesis using syncResource_leader_stores(2) [OF ok run that(1)] by (simp add: settled_def)
  next
    case False
    moreover have "errs = []" using syncResource_leader_stores(2) [OF ok run that(1)] by simp
    ultimately show ?thesis
      using inv pc that(2) syncResource_leader_stores(1) [OF ok run False] by (simp add: leader_inv_def Let_def settled_def)
  qed
  then show ?thesis using inv pc by (auto simp: leader_inv_def Let_def ex frame at_rest_def)
qed

lemma leader_inv_sync_done:
  assumes "leader_inv lib stored y" "syw_pc y = Syncing ex lastMap [] errs" "y' = y\<lparr>syw_pc := Waiting, syw_retry := (errs \<noteq> [])\<rparr>"
  shows "leader_inv lib stored y'"
proof -
  let ?ex = "extractCurrentReports lib (syw_syncer y)"
  from assms(1,2) have "at_rest y \<longrightarrow> ex = ?ex" "errs = [] \<longrightarrow> (\<forall>res \<in> dom (fst ex). settled stored ex (syw_cluster y) res)"
    by (simp_all add: leader_inv_def Let_def)
  then have "at_rest y \<and> errs = [] \<longrightarrow> (\<forall>res \<in> dom (fst ?ex). settled stored ?ex (syw_cluster y) res)" by blast
  then show ?thesis using assms by (simp add: leader_inv_def Let_def at_rest_def)
qed

lemma leader_inv_step:
  assumes ok: "write_ok lib stored" and "sync_step lib y y'" "leader_inv lib stored y"
  shows "leader_inv lib stored y'"
  using assms(2,3)
proof cases
  case (sync_one ex lastMap res order errs errs' s w)
  then show ?thesis using leader_inv_sync_one [OF ok assms(3)] by simp
next
  case (current_proxies refs)
  then show ?thesis using assms(3) by (cases "syw_pc y") (simp_all add: leader_inv_def Let_def at_rest_def setCurrentProxies_frame)
next
  case (updated_proxies hash proxyList s)
  then show ?thesis using assms(3)
    by (cases "syw_pc y") (simp_all add: leader_inv_def Let_def at_rest_def handleUpdatedProxies_frame [OF updated_proxies(2)])
next
  case force_sync
  then show ?thesis using assms(3) by (cases "syw_pc y") (simp_all add: leader_inv_def Let_def at_rest_def forceSync_frame)
next
  case take_request
  then show ?thesis using assms(3) by (simp add: leader_inv_def Let_def)
next
  case take_retry
  then show ?thesis using assms(3) by (simp add: leader_inv_def Let_def)
next
  case (read_reports order)
  moreover have "order = []" if "ess_inputResourceLastStatus (syw_syncer y) = None"
    using that assms(3) read_reports(4) extract_nothing [of "syw_syncer y" lib] by (auto simp: leader_inv_def Let_def)
  ultimately show ?thesis using assms(3) by (simp add: leader_inv_def Let_def)
next
  case (sync_done ex lastMap errs)
  from leader_inv_sync_done [OF assms(3) sync_done(2,1)] show ?thesis .
next
  case elected
  then show ?thesis using assms(3) by (cases "syw_pc y") (simp_all add: leader_inv_def Let_def at_rest_def)
next
  case startup_action
  then show ?thesis using assms(3)
    by (cases "syw_pc y") (simp_all add: leader_inv_def Let_def at_rest_def performStartupAction_def GetAction_def)
qed

lemma leader_inv_reach:
  assumes "write_ok lib stored" "sync_reach lib (sync_start True w) y"
  shows "leader_inv lib stored y"
  using assms(2) by induction (auto intro: leader_inv_start leader_inv_step [OF assms(1)])


section \<open>The startup action\<close>

lemma syncResource_follower:
  assumes "syncResource lib False ex lastMap res (errs, s, w) = Inr (errs', s', w')"
  shows "w' = w" "\<exists>sw. sa_action (ess_leaderStartupAction s') = Some sw \<and> sw_Resource sw = res"
  using assms by (auto simp: syncResource_def statusWrite_def SetAction_def elim!: bind_out_InrE)

lemma syncResources_follower:
  assumes "fold_out (syncResource lib False ex lastMap) order (errs, s, w) = Inr (errs', s', w')"
  shows "w' = w \<and> (order \<noteq> [] \<longrightarrow> (\<exists>sw. sa_action (ess_leaderStartupAction s') = Some sw \<and> sw_Resource sw = last order))"
  using assms
proof (induction order arbitrary: errs s w)
  case (Cons res order)
  then obtain errs1 s1 w1 where 1: "syncResource lib False ex lastMap res (errs, s, w) = Inr (errs1, s1, w1)"
    and 2: "fold_out (syncResource lib False ex lastMap) order (errs1, s1, w1) = Inr (errs', s', w')"
    by (auto elim!: bind_out_InrE)
  from syncResource_follower [OF 1] Cons.IH [OF 2] 2 show ?case by (cases "order = []") auto
qed simp

text \<open>A component that is not the leader keeps the write of one resource for the time when it is elected, the last of
  its loop: the writes for the others are replaced. After the election the cluster has the report of that one resource
  only, and nothing asks for another sync.\<close>

theorem startup_action_writes_one:
  assumes "write_ok lib stored" and "statusSyncer_syncStatus lib False order s w = Inr (errs, s', w')" and "order \<noteq> []" and "res \<noteq> last order"
  shows "stored (performStartupAction (stl_WriteReports lib) (ess_leaderStartupAction s') w') res = stored w res"
proof -
  from syncResources_follower [OF assms(2) [unfolded statusSyncer_syncStatus_def]] assms(3)
  obtain sw where sw: "w' = w" "sa_action (ess_leaderStartupAction s') = Some sw" "sw_Resource sw = last order" by auto
  obtain e v where "stl_WriteReports lib sw w = (e, v)" by (cases "stl_WriteReports lib sw w")
  with write_okD(1) [OF assms(1) this, of res] assms(4) sw show ?thesis by (simp add: performStartupAction_def GetAction_def)
qed

section \<open>Reports of several proxies\<close>

text \<open>The order of the proxies in the state does not depend on the order of the loop that sets them.\<close>

lemma setCurrentProxies_sorted:
  "sorted_wrt (\<lambda>a b. \<not> refLess b a) (ess_currentGeneratedProxies (setCurrentProxies ps s))"
  "mset (ess_currentGeneratedProxies (setCurrentProxies ps s)) = mset (map fst ps)"
  by (simp_all add: setCurrentProxies_frame refLess_sorted)

end
