(* ===== verification/EdgeReconcilerExamples.thy ===== *)
theory EdgeReconcilerExamples
  imports EdgeReconcilerProps EdgeSyncerProps
begin

text \<open>
  Concrete runs of the validation results, the reconciler and the status syncer: the properties applied to inputs, and what
  the code does with rejected virtual hosts of aggregate listeners, with errors of TCP listeners in them, with
  a dangling reference, and with the statuses of a component that is elected later.
\<close>

section \<open>A gateway with one virtual service\<close>

definition demoRef :: "string \<Rightarrow> resource_ref" where
  "demoRef n = \<lparr>rref_Name = n, rref_Namespace = ''ns''\<rparr>"

definition demoGateway :: input_resource where
  "demoGateway = \<lparr>ir_Kind = ''*v1.Gateway'', ir_Ref = demoRef ''gw'', ir_Pointer = 0\<rparr>"

definition demoService :: input_resource where
  "demoService = \<lparr>ir_Kind = ''*v1.VirtualService'', ir_Ref = demoRef ''vs'', ir_Pointer = 1\<rparr>"

definition noReport :: resource_report where
  "noReport = \<lparr>rrt_Errors = None, rrt_Warnings = []\<rparr>"

definition demoFind :: "resource_reports \<Rightarrow> string \<Rightarrow> resource_ref \<Rightarrow> input_resource option \<times> resource_report" where
  "demoFind rs kind ref =
     (case List.find (\<lambda>res. ir_Kind res = kind \<and> ir_Ref res = ref \<and> rs res \<noteq> None) [demoGateway, demoService] of
        None \<Rightarrow> (None, noReport)
      | Some res \<Rightarrow> (Some res, case rs res of None \<Rightarrow> noReport | Some r \<Rightarrow> r))"

definition demoLib :: report_lib where
  "demoLib = \<lparr>rl_Find = demoFind,
     rl_AddErrors = (\<lambda>rs res errs. case rs res of None \<Rightarrow> rs
       | Some r \<Rightarrow> rs(res \<mapsto> (if errs = [] then r else r\<lparr>rrt_Errors := Some (last errs)\<rparr>))),
     rl_AddWarnings = (\<lambda>rs res ws. case rs res of None \<Rightarrow> rs | Some r \<Rightarrow> rs(res \<mapsto> r\<lparr>rrt_Warnings := rrt_Warnings r @ ws\<rparr>)),
     rl_UnmarshalStruct = (\<lambda>s. Inl (Errorf s)), rl_HashMatcher = (\<lambda>_. 7), rl_keys = (\<lambda>S. if ''l-routes'' \<in> S then [''l-routes''] else [])\<rparr>"

definition source_meta :: "input_resource \<Rightarrow> opaque_metadata" where
  "source_meta res = MetadataStatic (Some [\<lparr>ps_ResourceRef = Some (ir_Ref res), ps_ResourceKind = ir_Kind res, ps_ObservedGeneration = 1\<rparr>])"

definition demoHost :: "string \<Rightarrow> proxy_vhost" where
  "demoHost other = \<lparr>pvh_Name = ''vh'', pvh_Routes = [''r''], pvh_Metadata = source_meta demoService, pvh_Other = other\<rparr>"

definition demoListener :: "proxy_listener_type \<Rightarrow> proxy_listener" where
  "demoListener ty = \<lparr>pli_Name = ''l'', pli_ListenerType = Some ty, pli_Metadata = source_meta demoGateway, pli_Other = []\<rparr>"

definition demoHttp :: "string \<Rightarrow> proxy_listener" where
  "demoHttp other = demoListener (PHttp \<lparr>phl_VirtualHosts = [Some (demoHost other)], phl_Other = []\<rparr>)"

definition demoAggregate :: "string \<Rightarrow> proxy_listener" where
  "demoAggregate other = demoListener (PAggregate \<lparr>pag_VirtualHosts = [''vh'' \<mapsto> demoHost other], pag_HttpOptions = Map.empty,
     pag_HttpFilterChains = [\<lparr>pfc_Matcher = None, pfc_HttpOptionsRef = [], pfc_VirtualHostRefs = [''vh'']\<rparr>], pag_TcpListeners = []\<rparr>)"

definition demoReports :: "eris_error option \<Rightarrow> resource_reports" where
  "demoReports err = [demoGateway \<mapsto> noReport, demoService \<mapsto> noReport\<lparr>rrt_Errors := err\<rparr>]"

definition routeError :: report_entry where
  "routeError = \<lparr>ren_Type = ''InvalidDestinationError'', ren_Reason = ''no upstream'', ren_Metadata = None\<rparr>"

definition demoReport :: vlistener_report where
  "demoReport = \<lparr>lrp_Errors = [], lrp_Warnings = [], lrp_ListenerTypeReport = Some (HttpListenerReport \<lparr>hlr_Errors = [],
     hlr_VirtualHostReports = [\<lparr>vrp_Errors = [], vrp_RouteReports = [\<lparr>rrp_Errors = [routeError], rrp_Warnings = []\<rparr>]\<rparr>]\<rparr>)\<rparr>"

lemmas demo_defs = demoRef_def demoGateway_def demoService_def noReport_def source_meta_def demoHost_def demoListener_def demoHttp_def
  demoAggregate_def demoReports_def

lemma demo_distinct: "demoGateway \<noteq> demoService" "demoService \<noteq> demoGateway"
  by (simp_all add: demoGateway_def demoService_def)

lemma demo_lib_ok: "report_lib_ok demoLib {demoGateway, demoService}"
proof -
  have "case demoFind rs kind ref of
        (None, r) \<Rightarrow> rrt_Errors r = None \<and> (\<forall>res \<in> {demoGateway, demoService}. \<not> (ir_Kind res = kind \<and> ir_Ref res = ref))
      | (Some res, r) \<Rightarrow> rs res = Some r \<and> ir_Kind res = kind \<and> ir_Ref res = ref"
    if "dom rs = {demoGateway, demoService}" for rs :: resource_reports and kind ref
    using that by (auto simp: demoFind_def noReport_def split: option.splits)
  then show ?thesis
    unfolding report_lib_ok_def demoLib_def by (simp add: fun_eq_iff)
qed

lemma demo_dom: "dom (demoReports err) = {demoGateway, demoService}"
  by (auto simp: demoReports_def)

lemma demo_one_report: "one_report (demoReports err)"
  by (auto simp: one_report_def demo_dom demoGateway_def demoService_def)

definition chargedReports :: resource_reports where
  "chargedReports = demoReports (Some (Wrapf ''Route Error'' (Errorf ''InvalidDestinationError. Reason: no upstream'')))"

lemma demo_find:
  "demoFind (demoReports err) ''*v1.Gateway'' (demoRef ''gw'') = (Some demoGateway, noReport)"
  "demoFind (demoReports err) ''*v1.VirtualService'' (demoRef ''vs'') = (Some demoService, noReport\<lparr>rrt_Errors := err\<rparr>)"
  by (simp_all add: demoFind_def demoReports_def demo_distinct) (simp_all add: demoGateway_def demoService_def demoRef_def)

lemma demo_upd:
  "(demoReports err)(demoGateway \<mapsto> noReport) = demoReports err"
  "(demoReports err)(demoService \<mapsto> noReport\<lparr>rrt_Errors := err'\<rparr>) = demoReports err'"
  by (auto simp: demoReports_def fun_eq_iff demo_distinct)

lemma demo_at: "demoReports err demoGateway = Some noReport" "demoReports err demoService = Some (noReport\<lparr>rrt_Errors := err\<rparr>)"
  by (simp_all add: demoReports_def demo_distinct)

lemma demo_charge_gateway:
  "addToSource demoLib [] [] \<lparr>ps_ResourceRef = Some (demoRef ''gw''), ps_ResourceKind = ''*v1.Gateway'', ps_ObservedGeneration = g\<rparr> (demoReports err) =
   Inr (None, demoReports err)"
  by (simp add: addToSource_def demoLib_def demo_find demo_at demo_upd)

lemma demo_charge_service:
  "errs \<noteq> [] \<Longrightarrow> addToSource demoLib errs [] \<lparr>ps_ResourceRef = Some (demoRef ''vs''), ps_ResourceKind = ''*v1.VirtualService'', ps_ObservedGeneration = g\<rparr> (demoReports err) =
   Inr (None, demoReports (Some (last errs)))"
  by (simp add: addToSource_def demoLib_def demo_find demo_at demo_upd)

lemma demo_fields: "ir_Ref demoGateway = demoRef ''gw''" "ir_Kind demoGateway = ''*v1.Gateway''"
  "ir_Ref demoService = demoRef ''vs''" "ir_Kind demoService = ''*v1.VirtualService''"
  by (simp_all add: demoGateway_def demoService_def)

lemma demo_charge_run:
  "AddProxyValidationResult demoLib [demoHttp ''new''] [Some demoReport] (demoReports None) = Inr (None, chargedReports)"
  by (simp add: AddProxyValidationResult_def addListenerAndHosts_def addListenerResult_def ForEachSource_def GetSourceMeta_def and_then_def
      demoHttp_def demoListener_def source_meta_def demo_fields getListenerLevelErrors_def getListenerLevelWarnings_def getListenerReport_def
      demoReport_def GetListenerErr_def GetListenerWarning_def GetHttpListenerErr_def demo_charge_gateway addVirtualHostResults_def
      GetVirtualHosts_def GetHttpListener_def addVirtualHostResult_def vhostMetadata_def demoHost_def getVirtualHostLevelErrorsAndWarnings_def
      GetVirtualHostErr_def GetRouteErr_def GetRouteWarning_def demo_charge_service chargedReports_def routeError_def)


lemma demo_known: "known demoLib (demoReports err) (source_meta demoGateway)" "known demoLib (demoReports err) (source_meta demoService)"
  by (simp_all add: known_def GetSourceMeta_def source_meta_def demo_dom)

theorem MakeReport_neutral_witness:
  "AddProxyValidationResult demoLib [demoAggregate ''a'', demoHttp ''b''] (MakeReport demoLib [demoAggregate ''a'', demoHttp ''b'']) (demoReports None) =
   Inr (None, demoReports None)"
proof (rule MakeReport_neutral)
  show "report_lib_ok demoLib (dom (demoReports None))" by (simp add: demo_dom demo_lib_ok)
  show "\<forall>l \<in> set [demoAggregate ''a'', demoHttp ''b'']. known_listener demoLib (demoReports None) l"
    by (simp add: known_listener_def demoAggregate_def demoHttp_def demoListener_def hostGroups_def chainVirtualHosts_def demo_known vhostMetadata_def
        demoHost_def)
qed

section \<open>Stripping and restoring\<close>

lemma demo_readable: "readable demoLib (source_meta res)"
  by (simp add: readable_def GetSourceMeta_def source_meta_def)

lemma demo_listeners_ok: "readable_listener demoLib (demoHttp a)" "keyed_listener (demoHttp a)"
  "readable_listener demoLib (demoAggregate a)" "keyed_listener (demoAggregate a)"
  by (simp_all add: readable_listener_def keyed_listener_def demoAggregate_def demoHttp_def demoListener_def hostGroups_def chainVirtualHosts_def
      vhostMetadata_def demoHost_def demo_readable getAggregate_def)

lemma demo_accepts: "allAccepted demoLib (demoReports err) (source_meta demoGateway)"
  "allAccepted demoLib (demoReports err) (source_meta demoService) \<longleftrightarrow> err = None"
  by (simp_all add: allAccepted_def sources_def GetSourceMeta_def source_meta_def demo_fields demoLib_def demo_find noReport_def)


text \<open>The virtual service was changed to something that the validation rejects: the stored virtual host stays.\<close>

theorem last_known_good_witness:
  "\<exists>stripped final. stripListeners demoLib chargedReports [demoHttp ''new''] = Inr (Inr stripped) \<and>
     transitionListeners demoLib chargedReports [demoHttp ''old''] stripped = Inr (Inr final) \<and>
     (\<exists>l' \<in> set final. \<exists>vhs. httpHosts l' = [(None, vhs)] \<and> set vhs = {Some (demoHost ''old'')})"
proof -
  from last_known_good [of "[demoHttp ''new'']" demoLib "[demoHttp ''old'']" chargedReports] demo_listeners_ok
  obtain stripped final accepted l' where r: "stripListeners demoLib chargedReports [demoHttp ''new''] = Inr (Inr stripped)"
    "transitionListeners demoLib chargedReports [demoHttp ''old''] stripped = Inr (Inr final)"
    and m: "mset final = mset accepted + mset (filter (\<lambda>orig. \<not> allAccepted demoLib chargedReports (pli_Metadata orig)) [demoHttp ''old''])"
    and l': "l' \<in> set accepted" "list_all2 (\<lambda>(key, vhs) (key', vhs'). key' = key \<and>
            set vhs' = {vh \<in> set vhs. allAccepted demoLib chargedReports (vhostMetadata vh)} \<union>
              set (restoredHosts demoLib chargedReports [demoHttp ''old''] ''l'' key)) (httpHosts (demoHttp ''new'')) (httpHosts l')"
    by (auto simp: demoHttp_def demoListener_def chargedReports_def demo_accepts)
  have "httpHosts (demoHttp a) = [(None, [Some (demoHost a)])]" for a
    by (simp add: httpHosts_def demoHttp_def demoListener_def)
  moreover have "restoredHosts demoLib chargedReports [demoHttp ''old''] ''l'' None = [Some (demoHost ''old'')]"
    by (simp add: restoredHosts_def demoHttp_def demoListener_def rejectedHosts_def originalHosts_def GetHttpListener_def GetVirtualHosts_def
        vhostMetadata_def demoHost_def chargedReports_def demo_accepts)
  ultimately have "\<exists>vhs. httpHosts l' = [(None, vhs)] \<and> set vhs = {Some (demoHost ''old'')}"
    using l'(2) by (auto simp: list_all2_Cons1 vhostMetadata_def demoHost_def chargedReports_def demo_accepts)
  moreover have "l' \<in> set final" using l'(1) m by (metis Un_iff set_mset_mset set_mset_union)
  ultimately show ?thesis using r by blast
qed

text \<open>The same change when the gateway has an aggregate listener: the virtual host is taken out and does not come
  back. The proxy that is written has no virtual host, although the stored one had.\<close>

theorem aggregate_host_lost:
  "\<exists>stripped final. stripListeners demoLib chargedReports [demoAggregate ''new''] = Inr (Inr stripped) \<and>
     transitionListeners demoLib chargedReports [demoAggregate ''old''] stripped = Inr (Inr final) \<and>
     map hostGroups [demoAggregate ''old''] = [[[Some (demoHost ''old'')]]] \<and> map hostGroups final = [[[]]]"
proof -
  have a: "AllSourcesAccepted demoLib chargedReports (source_meta demoGateway) = Inr (Inr True)"
    "AllSourcesAccepted demoLib chargedReports (source_meta demoService) = Inr (Inr False)"
    by (simp_all add: AllSourcesAccepted_eq demo_readable demo_accepts chargedReports_def)
  let ?stripped = "demoListener (PAggregate \<lparr>pag_VirtualHosts = [''vh'' \<mapsto> demoHost ''new''], pag_HttpOptions = Map.empty,
     pag_HttpFilterChains = [\<lparr>pfc_Matcher = None, pfc_HttpOptionsRef = [], pfc_VirtualHostRefs = []\<rparr>], pag_TcpListeners = []\<rparr>)"
  have "stripListeners demoLib chargedReports [demoAggregate ''new''] = Inr (Inr [?stripped])"
    by (simp add: stripListeners_def forEachListener_def demoAggregate_def demoListener_def a stripListener_def stripFilterChain_def
        validHostsFromHttpListener_def forEachVhost_def chainVirtualHosts_def vhostMetadata_def demoHost_def sortHosts_def sortListeners_def
        sort_stable_def)
  moreover have "transitionListeners demoLib chargedReports [demoAggregate ''old''] [?stripped] = Inr (Inr [?stripped])"
    by (simp add: transitionListeners_def transitionListener_def forEachListener_def demoAggregate_def demoListener_def a sortListeners_def
        sort_stable_def)
  ultimately show ?thesis by (simp add: hostGroups_def demoAggregate_def demoListener_def chainVirtualHosts_def)
qed

text \<open>A filter chain that refers to a virtual host that is not there refers to the empty name afterwards.\<close>

theorem dangling_reference_renamed:
  "stripFilterChain demoLib rs \<lparr>pag_VirtualHosts = Map.empty, pag_HttpOptions = Map.empty, pag_HttpFilterChains = [], pag_TcpListeners = []\<rparr>
     \<lparr>pfc_Matcher = None, pfc_HttpOptionsRef = [], pfc_VirtualHostRefs = [''gone'']\<rparr> =
   Inr (Inr \<lparr>pfc_Matcher = None, pfc_HttpOptionsRef = [], pfc_VirtualHostRefs = [[]]\<rparr>)"
  by (simp add: stripFilterChain_def validHostsFromHttpListener_def forEachVhost_def chainVirtualHosts_def vhostMetadata_def
      AllSourcesAccepted_def ForEachSource_def GetSourceMeta_def sortHosts_def sort_stable_def GetName_def)

text \<open>The errors of a TCP listener in an aggregate listener are errors of the proxy, but not of its gateway.\<close>

theorem aggregate_tcp_errors_dropped:
  defines "r \<equiv> Some \<lparr>lrp_Errors = [], lrp_Warnings = [], lrp_ListenerTypeReport = Some (AggregateListenerReport Map.empty
     [''l-routes'' \<mapsto> \<lparr>tlr_Errors = [routeError], tlr_TcpHostReports = []\<rparr>])\<rparr>"
  shows "getListenerLevelErrors demoLib r = [] \<and> GetListenerError demoLib r \<noteq> [] \<and> GetProxyError demoLib [r] \<noteq> []"
  by (simp add: r_def getListenerLevelErrors_def GetListenerError_def GetProxyError_def getListenerReport_def GetListenerErr_def range_values_def
      demoLib_def List.map_filter_def getTcpListenerReportErrs_def GetTcpListenerErr_def)

section \<open>Statuses\<close>

definition demoStatus :: "(input_resource \<rightharpoonup> resource_report \<times> (string \<rightharpoonup> string)) reporter_lib" where
  "demoStatus = \<lparr>stl_Append = (\<lambda>_ e. e), stl_StatusFromReport = (\<lambda>r _. if rrt_Errors r = None then ''Accepted'' else ''Rejected''),
     stl_WriteReports = (\<lambda>sw w. (None, w(sw_Resource sw \<mapsto> (sw_Report sw, sw_Statuses sw))))\<rparr>"

lemma demo_write_ok: "write_ok demoStatus (\<lambda>w. w)"
  by (simp add: write_ok_def demoStatus_def)

definition demoSyncer :: status_syncer where
  "demoSyncer = setCurrentProxies [(demoRef ''proxy'', demoReports None)] newStatusSyncer"

lemma demo_extract: "extractCurrentReports demoStatus demoSyncer = (demoReports None, \<lambda>_. Map.empty)"
  by (simp add: extractCurrentReports_def demoSyncer_def setCurrentProxies_def setCurrentProxy_def newStatusSyncer_def Let_def sort_stable_def
      extractProxy_def fun_eq_iff split: option.splits)

lemma demo_extract_cong:
  "ess_proxyToLastStatus s = ess_proxyToLastStatus demoSyncer \<Longrightarrow> ess_currentGeneratedProxies s = ess_currentGeneratedProxies demoSyncer \<Longrightarrow>
   extractCurrentReports demoStatus s = (demoReports None, \<lambda>_. Map.empty)"
  using extract_cong [of s demoSyncer demoStatus] by (simp add: demo_extract)

text \<open>A translation sets the proxies and asks for a sync, and the goroutine works it off.\<close>

lemma demo_run:
  "\<exists>y. sync_reach demoStatus (sync_start True Map.empty) y \<and> syw_pc y = Waiting \<and> syw_callers y = 0 \<and> ess_syncNeeded (syw_syncer y) = 0 \<and>
     \<not> syw_retry y \<and> ess_proxyToLastStatus (syw_syncer y) = ess_proxyToLastStatus demoSyncer \<and>
     ess_currentGeneratedProxies (syw_syncer y) = ess_currentGeneratedProxies demoSyncer"
proof -
  let ?ex = "(demoReports None, \<lambda>_. Map.empty) :: extracted"
  define y0 where "y0 = sync_start True (Map.empty :: input_resource \<rightharpoonup> resource_report \<times> (string \<rightharpoonup> string))"
  define y1 where "y1 = y0\<lparr>syw_syncer := setCurrentProxies [(demoRef ''proxy'', demoReports None)] (syw_syncer y0), syw_callers := syw_callers y0 + 1\<rparr>"
  define y2 where "y2 = y1\<lparr>syw_syncer := forceSync (syw_syncer y1), syw_callers := syw_callers y1 - 1\<rparr>"
  define y3 where "y3 = y2\<lparr>syw_syncer := (syw_syncer y2)\<lparr>ess_syncNeeded := ess_syncNeeded (syw_syncer y2) - 1\<rparr>, syw_pc := Requested\<rparr>"
  define y4 where "y4 = y3\<lparr>syw_pc := Syncing (extractCurrentReports demoStatus (syw_syncer y3)) (ess_inputResourceLastStatus (syw_syncer y3)) [demoGateway, demoService] []\<rparr>"
  note ys = y4_def y3_def y2_def y1_def y0_def
  have fields: "syw_syncer y1 = demoSyncer" "ess_syncNeeded demoSyncer = 0" "ess_inputResourceLastStatus demoSyncer = Some 0"
    by (simp_all add: ys sync_start_def demoSyncer_def setCurrentProxies_def setCurrentProxy_def newStatusSyncer_def Let_def)
  have s3: "ess_proxyToLastStatus (syw_syncer y3) = ess_proxyToLastStatus demoSyncer" "ess_currentGeneratedProxies (syw_syncer y3) = ess_currentGeneratedProxies demoSyncer"
    "ess_syncNeeded (syw_syncer y3) = 0" "ess_inputResourceLastStatus (syw_syncer y3) = Some 0"
    "ess_syncNeeded (syw_syncer y2) = 1" "syw_leader y3" "syw_callers y3 = 0" "syw_pc y2 = Waiting" "syw_pc y3 = Requested" "0 < syw_callers y1"
    by (simp_all add: ys(2-3) fields forceSync_def) (simp_all add: ys sync_start_def)
  have r2: "sync_reach demoStatus y0 y2"
  proof -
    have "sync_reach demoStatus y0 y1" unfolding y1_def by (rule sync_more [OF sync_refl current_proxies])
    with s3(10) show ?thesis unfolding y2_def by (intro sync_more [OF _ force_sync])
  qed
  have r3: "sync_reach demoStatus y0 y3" unfolding y3_def using s3 by (intro sync_more [OF r2 take_request]) simp_all
  have ex: "extractCurrentReports demoStatus (syw_syncer y3) = ?ex" using s3 by (intro demo_extract_cong)
  have r4: "sync_reach demoStatus y0 y4"
    unfolding y4_def using s3 ex by (intro sync_more [OF r3 read_reports]) (auto simp: demo_dom demo_distinct)
  have one: "\<exists>s' w'. syncResource demoStatus True ?ex (Some 0) res (errs, s, w) = Inr (errs, s', w')" if "res \<in> {demoGateway, demoService}" for res errs s w
    using that by (auto simp: syncResource_def statusWrite_def demo_at demoStatus_def Let_def)
  have pc4: "syw_pc y4 = Syncing ?ex (Some 0) [demoGateway, demoService] []" "syw_leader y4" "syw_syncer y4 = syw_syncer y3" "syw_callers y4 = 0"
    using s3 ex by (simp_all add: y4_def)
  obtain s5 w5 where 5: "syncResource demoStatus True ?ex (Some 0) demoGateway ([], syw_syncer y4, syw_cluster y4) = Inr ([], s5, w5)"
    using one by blast
  define y5 where "y5 = y4\<lparr>syw_pc := Syncing ?ex (Some 0) [demoService] [], syw_syncer := s5, syw_cluster := w5\<rparr>"
  have r5: "sync_reach demoStatus y0 y5" unfolding y5_def using 5 pc4 by (intro sync_more [OF r4 sync_one]) simp_all
  obtain s6 w6 where 6: "syncResource demoStatus True ?ex (Some 0) demoService ([], s5, w5) = Inr ([], s6, w6)"
    using one by blast
  define y6 where "y6 = y5\<lparr>syw_pc := Syncing ?ex (Some 0) [] [], syw_syncer := s6, syw_cluster := w6\<rparr>"
  have r6: "sync_reach demoStatus y0 y6" unfolding y6_def using 6 pc4 by (intro sync_more [OF r5 sync_one]) (simp_all add: y5_def)
  define y7 where "y7 = y6\<lparr>syw_pc := Waiting, syw_retry := ([] \<noteq> ([] :: eris_error list))\<rparr>"
  have "sync_reach demoStatus y0 y7" unfolding y7_def by (rule sync_more [OF r6 sync_done]) (simp add: y6_def)
  then show ?thesis
    using syncResource_leader_frame [OF 5] syncResource_leader_frame [OF 6] s3 pc4
    by (intro exI [of _ y7]) (simp add: y7_def y6_def y5_def y0_def [symmetric])
qed


end
