(* ===== verification/EdgeValidatorProps.thy ===== *)
theory EdgeValidatorProps
  imports EdgeValidator
begin

text \<open>
  What the validator promises: a change is admitted exactly when the changed snapshot validates, or when it is the deletion of a
  secret that changes no output; only an admitted change that is not a dry run reaches the snapshot; and
  collecting all errors changes no verdict.
\<close>

section \<open>The snapshot\<close>

lemma removeFirst_distinct:
  "distinct (map snr_Ref rs) \<Longrightarrow> removeFirst ref rs = filter (\<lambda>r. snr_Ref r \<noteq> ref) rs"
proof (induction rs)
  case (Cons r rs)
  then show ?case
  proof (cases "snr_Ref r = ref")
    case True
    with Cons.prems have "ref \<notin> snr_Ref ` set rs" by simp
    then have "\<forall>x \<in> set rs. snr_Ref x \<noteq> ref" by (auto simp: image_iff)
    with True show ?thesis by simp
  qed simp
qed simp

text \<open>In a snapshot with one resource for each reference: what is upserted is found under its reference, what is removed is not,
  and the other resources are as before. An upsert followed by the removal of the same resource gives back a
  snapshot that did not have it, up to the order of the list.\<close>

lemma UpsertToResourceList_set:
  assumes "\<And>xs. set (sortList xs) = set xs" "snr_Kind res = Some k" "UpsertToResourceList sortList res s = Inr s'"
  shows "set (s' k) = insert res {r \<in> set (s k). snr_Ref r \<noteq> snr_Ref res}" "k' \<noteq> k \<Longrightarrow> s' k' = s k'"
proof -
  let ?l = "map (\<lambda>r. if snr_Ref r = snr_Ref res then res else r) (s k)"
  have s': "s' = s(k := sortList (if list_ex (\<lambda>r. snr_Ref r = snr_Ref res) (s k) then ?l else ?l @ [res]))"
    using assms(2,3) by (simp add: UpsertToResourceList_def Let_def)
  show "k' \<noteq> k \<Longrightarrow> s' k' = s k'" by (simp add: s')
  have "set ?l = {r \<in> set (s k). snr_Ref r \<noteq> snr_Ref res} \<union> (if list_ex (\<lambda>r. snr_Ref r = snr_Ref res) (s k) then {res} else {})"
    by (auto simp: list_ex_iff)
  then show "set (s' k) = insert res {r \<in> set (s k). snr_Ref r \<noteq> snr_Ref res}"
    by (simp add: s' assms(1) del: set_map)
qed

lemma RemoveFromResourceList_set:
  assumes "distinct (map snr_Ref (s k))" "snr_Kind res = Some k" "RemoveFromResourceList res s = Inr s'"
  shows "set (s' k) = {r \<in> set (s k). snr_Ref r \<noteq> snr_Ref res}" "k' \<noteq> k \<Longrightarrow> s' k' = s k'"
  using assms by (auto simp: RemoveFromResourceList_def removeFirst_distinct)

section \<open>Collecting errors\<close>

lemma foldl_keeps_errors:
  assumes step: "\<And>a e x. e \<noteq> [] \<Longrightarrow> snd (h (a, e) x) \<noteq> []" and start: "snd p \<noteq> []"
  shows "snd (foldl h p xs) \<noteq> []"
  using start
proof (induction xs arbitrary: p)
  case (Cons x xs)
  from step [of "snd p" "fst p" x] Cons.prems have "snd (h p x) \<noteq> []" by simp
  then show ?case using Cons.IH by simp
qed simp

text \<open>A loop over proxies that adds errors, in two versions: as long as there are no errors, they agree.\<close>

lemma foldl_agree:
  assumes step: "\<And>a x. (snd (f (a, []) x) = [] \<longleftrightarrow> snd (g (a, []) x) = []) \<and> (snd (f (a, []) x) = [] \<longrightarrow> f (a, []) x = g (a, []) x)"
    and f: "\<And>a e x. e \<noteq> [] \<Longrightarrow> snd (f (a, e) x) \<noteq> []" and g: "\<And>a e x. e \<noteq> [] \<Longrightarrow> snd (g (a, e) x) \<noteq> []"
  shows "(snd (foldl f (a, []) xs) = [] \<longleftrightarrow> snd (foldl g (a, []) xs) = []) \<and> (snd (foldl f (a, []) xs) = [] \<longrightarrow> foldl f (a, []) xs = foldl g (a, []) xs)"
  proof (induction xs arbitrary: a)
    case (Cons x xs)
    show ?case
    proof (cases "snd (f (a, []) x) = []")
      case True
      then obtain a' where f': "f (a, []) x = (a', [])" by (metis prod.collapse)
      with step [of a x] have g': "g (a, []) x = (a', [])" by simp
      show ?thesis unfolding foldl_Cons f' g' by (rule Cons.IH)
    next
      case False
      with step [of a x] have "snd (g (a, []) x) \<noteq> []" by simp
      with False show ?thesis by (simp add: foldl_keeps_errors f g)
    qed
  qed simp

lemma translateGlooEdgeProxies_agree:
  "(snd (translateGlooEdgeProxies lib v True s) = [] \<longleftrightarrow> snd (translateGlooEdgeProxies lib v False s) = []) \<and>
   (snd (translateGlooEdgeProxies lib v True s) = [] \<longrightarrow> translateGlooEdgeProxies lib v True s = translateGlooEdgeProxies lib v False s)"
  unfolding translateGlooEdgeProxies_def
  by (rule foldl_agree)
    (auto simp: translateGlooEdgeProxy_def Let_def split: prod.splits option.splits)

lemma appendProxyErrors_grows:
  "e \<noteq> [] \<Longrightarrow> fst (appendProxyErrors lib v c r p e) \<noteq> []"
  by (auto simp: appendProxyErrors_def Let_def)

lemma appendProxyErrors_agree:
  "(fst (appendProxyErrors lib v True r p []) = [] \<longleftrightarrow> fst (appendProxyErrors lib v False r p []) = []) \<and>
   (fst (appendProxyErrors lib v True r p []) = [] \<longrightarrow> appendProxyErrors lib v True r p [] = ([], False) \<and> appendProxyErrors lib v False r p [] = ([], False))"
  by (auto simp: appendProxyErrors_def Let_def)

lemma validateProxy_agree:
  fixes lib v opts a p
  defines "f \<equiv> \<lambda>c. validateProxy lib v (opts\<lparr>vop_collectAllErrors := c\<rparr>) (a, []) p"
  shows "(snd (f True) = [] \<longleftrightarrow> snd (f False) = []) \<and> (snd (f True) = [] \<longrightarrow> f True = f False)"
proof -
  define x where "x = vlb_GlooValidator lib p (if vop_validateUnmodified opts then None else Some (vop_Resource opts)) (vop_Delete opts)"
  have f: "f c = (case x of
       Inl e \<Rightarrow> (a, [SyncNotYetRunError e])
     | Inr glooReports \<Rightarrow>
         (case glooReports of
            [report] \<Rightarrow>
              if isK8sGatewayProxy (snr_Kind (vop_Resource opts))
              then (a, case vlb_SimpleError lib glooReports p of None \<Rightarrow> [] | Some e \<Rightarrow> [PolicyErr e])
              else let (errs, stop) = appendProxyErrors lib v c (gvr_ProxyReport report) p []
                   in (a @ [gvr_ProxyReport report],
                       if stop then errs
                       else let err = getErrorsFromGlooValidation lib v glooReports
                            in if err \<noteq> [] then errs @ [ResourceReportsErr err] else errs)
          | _ \<Rightarrow> (a, [GlooValidationResponseLengthError (length glooReports)])))" for c
    by (simp add: f_def x_def validateProxy_def Let_def cong: sum.case_cong list.case_cong if_cong)
  show ?thesis
  proof (cases x)
    case (Inl e)
    then show ?thesis by (simp add: f)
  next
    case (Inr reports)
    show ?thesis
    proof (cases "\<exists>r. reports = [r]")
      case True
      then obtain r where r: "reports = [r]" by blast
      show ?thesis
      proof (cases "isK8sGatewayProxy (snr_Kind (vop_Resource opts))")
        case True
        then show ?thesis using Inr r by (simp add: f)
      next
        case False
        define q where "q c = appendProxyErrors lib v c (gvr_ProxyReport r) p []" for c
        define err where "err = getErrorsFromGlooValidation lib v [r]"
        have f': "f c = (a @ [gvr_ProxyReport r], if snd (q c) then fst (q c) else if err \<noteq> [] then fst (q c) @ [ResourceReportsErr err] else fst (q c))" for c
          using Inr r False by (simp add: f q_def err_def Let_def case_prod_beta)
        have q: "(fst (q True) = [] \<longleftrightarrow> fst (q False) = []) \<and> (fst (q True) = [] \<longrightarrow> q True = ([], False) \<and> q False = ([], False))"
          unfolding q_def by (rule appendProxyErrors_agree)
        show ?thesis
        proof (cases "fst (q True) = []")
          case True
          with q have "q True = ([], False)" "q False = ([], False)" by auto
          then show ?thesis by (simp add: f')
        next
          case False
          with q have "fst (q False) \<noteq> []" by simp
          with False show ?thesis by (simp add: f')
        qed
      qed
    next
      case False
      with Inr show ?thesis by (cases reports; cases "tl reports") (auto simp: f)
    qed
  qed
qed

lemma validateProxy_grows: "e \<noteq> [] \<Longrightarrow> snd (validateProxy lib v opts (a, e) p) \<noteq> []"
  using appendProxyErrors_grows [of e lib v "vop_collectAllErrors opts"]
  by (auto simp: validateProxy_def Let_def case_prod_beta split: sum.splits list.splits)

lemma foldl_validateProxy_grows: "e \<noteq> [] \<Longrightarrow> snd (foldl (validateProxy lib v opts) (a, e) ps) \<noteq> []"
  by (rule foldl_keeps_errors) (simp_all add: validateProxy_grows)

text \<open>The proxies of a snapshot, with the errors of their translation, and the errors of the extensions.\<close>

definition snapshotProxies :: "validator_lib \<Rightarrow> edge_validator \<Rightarrow> api_snapshot \<Rightarrow> validation_options \<Rightarrow> stored_proxy list \<times> val_error list" where
  "snapshotProxies lib v snap opts =
     (if isK8sGatewayProxy (snr_Kind (vop_Resource opts))
      then (case vlb_TranslateK8s lib snap (vop_Resource opts) of
              (ps, err) \<Rightarrow> (ps, case err of None \<Rightarrow> [] | Some e \<Rightarrow> [K8sTranslateErr e]))
      else translateGlooEdgeProxies lib v (vop_collectAllErrors opts) snap)"

definition extensionErrors :: "validator_lib \<Rightarrow> edge_validator \<Rightarrow> api_snapshot \<Rightarrow> val_error list" where
  "extensionErrors lib v snap =
     (case vlb_Extension lib snap of
        None \<Rightarrow> []
      | Some reports \<Rightarrow> (case getErrorsFromResourceReports lib v reports of None \<Rightarrow> [] | Some e \<Rightarrow> [ExtensionErr e]))"

lemma validateProxiesAndExtensions_eq:
  "validateProxiesAndExtensions lib v s opts =
     (let (ps, e0) = snapshotProxies lib v s opts; (rs, e) = foldl (validateProxy lib v opts) ([], e0) ps
      in \<lparr>vout_proxies = ps, vout_proxyReports = rs, vout_err = e @ extensionErrors lib v s\<rparr>)"
  by (simp add: validateProxiesAndExtensions_def snapshotProxies_def extensionErrors_def case_prod_beta Let_def)

lemma snapshotProxies_agree:
  fixes lib v s opts
  defines "f \<equiv> \<lambda>c. snapshotProxies lib v s (opts\<lparr>vop_collectAllErrors := c\<rparr>)"
  shows "(snd (f True) = [] \<longleftrightarrow> snd (f False) = []) \<and> (snd (f True) = [] \<longrightarrow> f True = f False)"
proof (cases "isK8sGatewayProxy (snr_Kind (vop_Resource opts))")
  case True
  then show ?thesis by (simp add: f_def snapshotProxies_def)
next
  case False
  then have f: "f c = translateGlooEdgeProxies lib v c s" for c by (simp add: f_def snapshotProxies_def)
  show ?thesis unfolding f by (rule translateGlooEdgeProxies_agree)
qed

text \<open>Collecting all errors changes what is reported, never the verdict.\<close>

lemma collect_agree:
  fixes lib v s opts
  defines "f \<equiv> \<lambda>c. validateProxiesAndExtensions lib v s (opts\<lparr>vop_collectAllErrors := c\<rparr>)"
  shows "(vout_err (f True) = [] \<longleftrightarrow> vout_err (f False) = []) \<and> (vout_err (f True) = [] \<longrightarrow> f True = f False)"
proof -
  define g where "g c = snapshotProxies lib v s (opts\<lparr>vop_collectAllErrors := c\<rparr>)" for c
  define h where "h c = foldl (validateProxy lib v (opts\<lparr>vop_collectAllErrors := c\<rparr>)) ([], snd (g c)) (fst (g c))" for c
  have f: "f c = \<lparr>vout_proxies = fst (g c), vout_proxyReports = fst (h c), vout_err = snd (h c) @ extensionErrors lib v s\<rparr>" for c
    by (simp add: f_def g_def h_def validateProxiesAndExtensions_eq case_prod_beta Let_def)
  have g: "(snd (g True) = [] \<longleftrightarrow> snd (g False) = []) \<and> (snd (g True) = [] \<longrightarrow> g True = g False)"
    unfolding g_def by (rule snapshotProxies_agree)
  show ?thesis
  proof (cases "snd (g True) = []")
    case True
    with g have eq: "g False = g True" by simp
    have h: "(snd (h True) = [] \<longleftrightarrow> snd (h False) = []) \<and> (snd (h True) = [] \<longrightarrow> h True = h False)"
      unfolding h_def eq unfolding True
      by (rule foldl_agree) (rule validateProxy_agree, (rule validateProxy_grows, assumption)+)
    show ?thesis
    proof (cases "snd (h True) = []")
      case True
      with h have "h False = h True" by simp
      then show ?thesis by (simp add: f eq)
    next
      case False
      with h have "snd (h False) \<noteq> []" by simp
      with False show ?thesis by (simp add: f)
    qed
  next
    case False
    with g have "snd (g False) \<noteq> []" by simp
    with False show ?thesis by (simp add: f h_def foldl_validateProxy_grows)
  qed
qed

text \<open>C25. Collecting all errors changes what is reported, never the verdict: a snapshot passes with the flag exactly when it
  passes without it, and then with the same proxies and the same reports.\<close>

theorem collectAllErrors_verdict:
  "(vout_err (validateProxiesAndExtensions lib v s (opts\<lparr>vop_collectAllErrors := True\<rparr>)) = []) =
     (vout_err (validateProxiesAndExtensions lib v s (opts\<lparr>vop_collectAllErrors := False\<rparr>)) = []) \<and>
   (vout_err (validateProxiesAndExtensions lib v s (opts\<lparr>vop_collectAllErrors := False\<rparr>)) = [] \<longrightarrow>
     validateProxiesAndExtensions lib v s (opts\<lparr>vop_collectAllErrors := True\<rparr>) =
     validateProxiesAndExtensions lib v s (opts\<lparr>vop_collectAllErrors := False\<rparr>))"
  using collect_agree [of lib v s opts] by argo

section \<open>The verdict\<close>

text \<open>A change of a snapshot passes when the changed snapshot validates. The deletion of a secret also passes when, with all errors
  collected, none of them is one that makes a comparison meaningless, and the outcome is that of the
  snapshot as it is.\<close>

definition passes :: "validator_lib \<Rightarrow> edge_validator \<Rightarrow> validation_options \<Rightarrow> api_snapshot \<Rightarrow> api_snapshot \<Rightarrow> bool" where
  "passes lib v opts s changed \<longleftrightarrow>
     vout_err (validateProxiesAndExtensions lib v changed (opts\<lparr>vop_collectAllErrors := False\<rparr>)) = [] \<or>
     shouldValidateAgainstPreviousState v opts \<and>
     (let out = validateProxiesAndExtensions lib v changed (opts\<lparr>vop_collectAllErrors := True\<rparr>)
      in \<not> vlb_AsBreaking lib (vout_err out) \<and>
         compareValidationOutputs lib v out
           (validateProxiesAndExtensions lib v s (opts\<lparr>vop_collectAllErrors := True, vop_validateUnmodified := True\<rparr>)))"

text \<open>What a request leads to. Before the first snapshot every change is rejected; a snapshot that is broken already stops the
  validation, and every change is let through.\<close>

definition verdict :: "validator_lib \<Rightarrow> validation_options \<Rightarrow> edge_validator \<Rightarrow> bool" where
  "verdict lib opts v =
     (case evd_latestSnapshot v of
        None \<Rightarrow> False
      | Some s \<Rightarrow>
          evd_latestSnapshotErr v \<noteq> [] \<or>
          (case applyChange lib opts s of Inl e \<Rightarrow> False | Inr changed \<Rightarrow> passes lib v opts s changed))"

text \<open>The snapshot after a request: an admitted change that is not a dry run is made, unless the snapshot is broken.\<close>

definition snapshotAfter :: "validator_lib \<Rightarrow> validation_options \<Rightarrow> edge_validator \<Rightarrow> api_snapshot option" where
  "snapshotAfter lib opts v =
     (if verdict lib opts v \<and> \<not> vop_DryRun opts \<and> evd_latestSnapshotErr v = []
      then (case evd_latestSnapshot v of
              None \<Rightarrow> None
            | Some s \<Rightarrow> (case applyChange lib opts s of Inl e \<Rightarrow> Some s | Inr changed \<Rightarrow> Some changed))
      else evd_latestSnapshot v)"

lemma shouldValidate_irrelevant [simp]:
  "shouldValidateAgainstPreviousState v (opts\<lparr>vop_collectAllErrors := c\<rparr>) = shouldValidateAgainstPreviousState v opts"
  by (simp add: shouldValidateAgainstPreviousState_def)

lemma applyChange_irrelevant [simp]: "applyChange lib (opts\<lparr>vop_collectAllErrors := c\<rparr>) = applyChange lib opts"
  by (rule ext) (simp add: applyChange_def)

text \<open>The validator with another measurement and another snapshot.\<close>

lemma validateSnapshot_run:
  assumes "evd_latestSnapshot v = Some s" "evd_latestSnapshotErr v = []" "applyChange lib opts s = Inr changed"
  shows "\<exists>out errs m. validateSnapshot lib opts v = Inr ((Some out, errs), v\<lparr>evd_latestSnapshot := snapshotAfter lib opts v, evd_metric := m\<rparr>) \<and>
           (errs = [] \<longleftrightarrow> passes lib v opts s changed) \<and> (vop_DryRun opts \<longrightarrow> m = evd_metric v)"
proof -
  define prev where "prev = shouldValidateAgainstPreviousState v opts"
  define out where "out = validateProxiesAndExtensions lib v changed (opts\<lparr>vop_collectAllErrors := prev\<rparr>)"
  define m where "m = (if vop_DryRun opts then evd_metric v else evd_metric v @ [vout_err out = []])"
  define old where "old = validateProxiesAndExtensions lib v s (opts\<lparr>vop_collectAllErrors := True, vop_validateUnmodified := True\<rparr>)"
  define passed where "passed \<longleftrightarrow> prev \<and> vout_err out \<noteq> [] \<and> \<not> vlb_AsBreaking lib (vout_err out) \<and> compareValidationOutputs lib v out old"
  have copy: "copySnapshotNonThreadSafe d v = (Some s, v)" for d
    using assms(1,2) by (simp add: copySnapshotNonThreadSafe_def)
  have against: "(if prev \<and> vout_err out \<noteq> [] then validateAgainstCurrentSnapshot lib (opts\<lparr>vop_collectAllErrors := prev\<rparr>) out v else (False, v)) = (passed, v)"
    by (simp add: validateAgainstCurrentSnapshot_def findBreakingErrors_def copy passed_def old_def)
  have "validateSnapshot lib opts v = finishValidation lib (opts\<lparr>vop_collectAllErrors := prev\<rparr>) out
      (if prev \<and> vout_err out \<noteq> [] then validateAgainstCurrentSnapshot lib (opts\<lparr>vop_collectAllErrors := prev\<rparr>) out v else (False, v))"
    unfolding validateSnapshot_def copy prod.case option.case assms(3) sum.case Let_def prev_def out_def by (simp only: assms(1) option.distinct if_False)
  then have run: "validateSnapshot lib opts v =
      Inr ((Some out, if vout_err out \<noteq> [] \<and> \<not> passed then [ValidatingErr (vout_err out)] else []),
        v\<lparr>evd_latestSnapshot := if vout_err out \<noteq> [] \<and> \<not> passed \<or> vop_DryRun opts then evd_latestSnapshot v else Some changed, evd_metric := m\<rparr>)"
    unfolding against by (simp add: finishValidation_def assms m_def Let_def)
  have passes: "passes lib v opts s changed \<longleftrightarrow> vout_err out = [] \<or> passed"
    using conjunct1 [OF collect_agree [of lib v changed opts]]
    by (cases prev) (auto simp: passes_def passed_def out_def old_def Let_def prev_def [symmetric])
  moreover have "verdict lib opts v = passes lib v opts s changed" using assms by (simp add: verdict_def)
  ultimately have "snapshotAfter lib opts v = (if vout_err out \<noteq> [] \<and> \<not> passed \<or> vop_DryRun opts then evd_latestSnapshot v else Some changed)"
    using assms by (simp add: snapshotAfter_def)
  with run passes show ?thesis
    by (intro exI [of _ out] exI [of _ "if vout_err out \<noteq> [] \<and> \<not> passed then [ValidatingErr (vout_err out)] else []"] exI [of _ m])
      (simp add: m_def)
qed

lemma validateSnapshot_spec:
  "\<exists>out errs m. validateSnapshot lib opts v = Inr ((out, errs), v\<lparr>evd_latestSnapshot := snapshotAfter lib opts v, evd_metric := m\<rparr>) \<and>
     (errs = [] \<longleftrightarrow> verdict lib opts v) \<and> (vop_DryRun opts \<longrightarrow> m = evd_metric v)"
proof (cases "evd_latestSnapshot v")
  case None
  then show ?thesis
    by (intro exI [of _ None] exI [of _ "[NotReadyErr]"] exI [of _ "evd_metric v"]) (simp add: validateSnapshot_def verdict_def snapshotAfter_def)
next
  case (Some s)
  show ?thesis
  proof (cases "evd_latestSnapshotErr v = []")
    case False
    with Some show ?thesis
      by (intro exI [of _ None] exI [of _ "[]"] exI [of _ "if vop_DryRun opts then evd_metric v else evd_metric v @ [False]"])
        (simp add: validateSnapshot_def verdict_def snapshotAfter_def copySnapshotNonThreadSafe_def)
  next
    case True
    show ?thesis
    proof (cases "applyChange lib opts s")
      case (Inl e)
      with True Some show ?thesis
        by (intro exI [of _ None] exI [of _ "[SnapshotErr e]"] exI [of _ "evd_metric v"])
          (simp add: validateSnapshot_def verdict_def snapshotAfter_def copySnapshotNonThreadSafe_def)
    next
      case (Inr changed)
      moreover have "verdict lib opts v = passes lib v opts s changed" using Some True Inr by (simp add: verdict_def)
      ultimately show ?thesis using validateSnapshot_run [OF Some True Inr] by auto
    qed
  qed
qed

text \<open>C7. The validation of a change never panics. It gives no error exactly when the verdict is positive: the changed snapshot
  validates, or the deletion of a secret changes no outcome, or the snapshot was broken before; a validator with no snapshot rejects.
  Afterwards the snapshot has the change exactly when the change was admitted, is not a dry run, and the snapshot
  was sound; the settings of the validator and its knowledge of the snapshot are as before, and a dry run changes nothing
  at all.\<close>

theorem validateSnapshot_correct:
  "\<exists>out errs v'. validateSnapshot lib opts v = Inr ((out, errs), v') \<and> (errs = []) = verdict lib opts v \<and>
     evd_latestSnapshot v' = snapshotAfter lib opts v \<and> evd_latestSnapshotErr v' = evd_latestSnapshotErr v \<and>
     evd_allowWarnings v' = evd_allowWarnings v \<and>
     evd_disableValidationAgainstPreviousState v' = evd_disableValidationAgainstPreviousState v \<and>
     (vop_DryRun opts \<longrightarrow> v' = v)"
proof -
  obtain out errs m where run: "validateSnapshot lib opts v = Inr ((out, errs), v\<lparr>evd_latestSnapshot := snapshotAfter lib opts v, evd_metric := m\<rparr>)"
    and errs: "errs = [] \<longleftrightarrow> verdict lib opts v" and dry: "vop_DryRun opts \<longrightarrow> m = evd_metric v"
    using validateSnapshot_spec [of lib opts v] by blast
  have "v\<lparr>evd_latestSnapshot := snapshotAfter lib opts v, evd_metric := m\<rparr> = v" if "vop_DryRun opts"
    using that dry by (simp add: snapshotAfter_def)
  then show ?thesis
    by (intro exI [of _ out] exI [of _ errs] exI [of _ "v\<lparr>evd_latestSnapshot := snapshotAfter lib opts v, evd_metric := m\<rparr>"])
      (simp add: run errs)
qed

section \<open>Lists of changes\<close>

text \<open>The measurements have no part in a verdict.\<close>

lemma validate_metric [simp]:
  "validateProxiesAndExtensions lib (v\<lparr>evd_metric := m\<rparr>) = validateProxiesAndExtensions lib v"
proof -
  have r [simp]: "getErrorsFromResourceReports lib (v\<lparr>evd_metric := m\<rparr>) = getErrorsFromResourceReports lib v"
    by (rule ext) (simp add: getErrorsFromResourceReports_def)
  have g [simp]: "getErrorsFromGlooValidation lib (v\<lparr>evd_metric := m\<rparr>) = getErrorsFromGlooValidation lib v"
    by (rule ext) (simp add: getErrorsFromGlooValidation_def)
  have a [simp]: "appendProxyErrors lib (v\<lparr>evd_metric := m\<rparr>) = appendProxyErrors lib v"
    by (intro ext) (simp add: appendProxyErrors_def Let_def)
  have p: "validateProxy lib (v\<lparr>evd_metric := m\<rparr>) = validateProxy lib v"
    by (rule ext) (simp only: validateProxy_def a g)
  have t: "translateGlooEdgeProxies lib (v\<lparr>evd_metric := m\<rparr>) = translateGlooEdgeProxies lib v"
    by (intro ext) (simp add: translateGlooEdgeProxies_def translateGlooEdgeProxy_def)
  show ?thesis by (intro ext) (simp only: validateProxiesAndExtensions_def r p t)
qed

lemma passes_metric [simp]: "passes lib (v\<lparr>evd_metric := m\<rparr>) = passes lib v"
  by (intro ext) (simp add: passes_def shouldValidateAgainstPreviousState_def compareValidationOutputs_def)

lemma verdict_metric [simp]: "verdict lib opts (v\<lparr>evd_metric := m\<rparr>) = verdict lib opts v"
  by (simp add: verdict_def cong: option.case_cong sum.case_cong)

lemma snapshotAfter_metric [simp]: "snapshotAfter lib opts (v\<lparr>evd_metric := m\<rparr>) = snapshotAfter lib opts v"
  by (simp add: snapshotAfter_def)

text \<open>The specification of a list: each change is judged on the snapshot with the admitted changes before it.\<close>

fun judgeList :: "validator_lib \<Rightarrow> (val_error + string \<times> snap_resource) list \<Rightarrow> edge_validator \<Rightarrow> bool list \<times> api_snapshot option" where
  "judgeList lib [] v = ([], evd_latestSnapshot v)"
| "judgeList lib (Inl e # items) v = (case judgeList lib items v of (bs, s) \<Rightarrow> (False # bs, s))"
| "judgeList lib (Inr (gvkKind, res) # items) v =
     (let opts = newOptions gvkKind res False False
      in case judgeList lib items (v\<lparr>evd_latestSnapshot := snapshotAfter lib opts v\<rparr>) of (bs, s) \<Rightarrow> (verdict lib opts v # bs, s))"

lemma judgeList_metric [simp]: "judgeList lib items (v\<lparr>evd_metric := m\<rparr>) = judgeList lib items v"
proof (induction items arbitrary: v)
  case (Cons item items)
  show ?case
  proof (cases item)
    case (Inr c)
    obtain k res where c: "c = (k, res)" by fastforce
    have "v\<lparr>evd_metric := m, evd_latestSnapshot := x\<rparr> = v\<lparr>evd_latestSnapshot := x\<rparr>\<lparr>evd_metric := m\<rparr>" for x by simp
    then show ?thesis using Cons.IH by (simp only: Inr c judgeList.simps Let_def verdict_metric snapshotAfter_metric)
  qed (simp add: Cons.IH)
qed simp

lemma collectItem_spec:
  "\<exists>acc' m. collectItem lib item (acc, v) =
     Inr (acc', (case item of Inl e \<Rightarrow> v | Inr (k, res) \<Rightarrow> v\<lparr>evd_latestSnapshot := snapshotAfter lib (newOptions k res False False) v\<rparr>)\<lparr>evd_metric := m\<rparr>) \<and>
     (vout_err acc' = [] \<longleftrightarrow> vout_err acc = [] \<and> (case item of Inl e \<Rightarrow> False | Inr (k, res) \<Rightarrow> verdict lib (newOptions k res False False) v))"
proof (cases item)
  case (Inl e)
  then show ?thesis by (simp add: collectItem_def processItem_def Let_def exI [of _ "evd_metric v"])
next
  case (Inr c)
  obtain k res where c: "c = (k, res)" by fastforce
  obtain out errs m where run: "validateSnapshot lib (newOptions k res False False) v =
      Inr ((out, errs), v\<lparr>evd_latestSnapshot := snapshotAfter lib (newOptions k res False False) v, evd_metric := m\<rparr>)"
    and errs: "errs = [] \<longleftrightarrow> verdict lib (newOptions k res False False) v"
    using validateSnapshot_spec [of lib "newOptions k res False False" v] by blast
  show ?thesis
    by (cases out) (auto simp: Inr c collectItem_def processItem_def ValidateModifiedGvk_def run errs [symmetric] Let_def intro: exI [of _ m])
qed

lemma fold_collectItem:
  "\<exists>acc' m. fold_out (collectItem lib) items (acc, v) = Inr (acc', v\<lparr>evd_latestSnapshot := snd (judgeList lib items v), evd_metric := m\<rparr>) \<and>
     (vout_err acc' = [] \<longleftrightarrow> vout_err acc = [] \<and> list_all (\<lambda>b. b) (fst (judgeList lib items v)))"
proof (induction items arbitrary: acc v)
  case Nil
  show ?case by (simp add: exI [of _ "evd_metric v"])
next
  case (Cons item items)
  define w where "w = (case item of Inl e \<Rightarrow> v | Inr (k, res) \<Rightarrow> v\<lparr>evd_latestSnapshot := snapshotAfter lib (newOptions k res False False) v\<rparr>)"
  define ok where "ok = (case item of Inl e \<Rightarrow> False | Inr (k, res) \<Rightarrow> verdict lib (newOptions k res False False) v)"
  have judge: "judgeList lib (item # items) v = (ok # fst (judgeList lib items w), snd (judgeList lib items w))"
    by (cases item) (auto simp: w_def ok_def Let_def case_prod_beta)
  obtain acc1 m1 where step: "collectItem lib item (acc, v) = Inr (acc1, w\<lparr>evd_metric := m1\<rparr>)"
    and acc1: "vout_err acc1 = [] \<longleftrightarrow> vout_err acc = [] \<and> ok"
    using collectItem_spec [of lib item acc v] unfolding w_def ok_def by blast
  obtain acc2 m2 where rest: "fold_out (collectItem lib) items (acc1, w\<lparr>evd_metric := m1\<rparr>) =
      Inr (acc2, w\<lparr>evd_metric := m1\<rparr>\<lparr>evd_latestSnapshot := snd (judgeList lib items w), evd_metric := m2\<rparr>)"
    and acc2: "vout_err acc2 = [] \<longleftrightarrow> vout_err acc1 = [] \<and> list_all (\<lambda>b. b) (fst (judgeList lib items w))"
    using Cons.IH [of acc1 "w\<lparr>evd_metric := m1\<rparr>"] unfolding judgeList_metric by blast
  have "w\<lparr>evd_metric := m1\<rparr>\<lparr>evd_latestSnapshot := x, evd_metric := m2\<rparr> = v\<lparr>evd_latestSnapshot := x, evd_metric := m2\<rparr>" for x
    by (simp add: w_def split: sum.split prod.split)
  with rest acc1 acc2 show ?case
    by (intro exI [of _ acc2] exI [of _ m2]) (simp add: step judge)
qed

text \<open>C14. A list of changes is judged in its order, each change on the snapshot with the admitted changes before it, and the
  whole list has no error exactly when all of its changes are admitted. A dry run gives the same
  reports and errors, and leaves the snapshot as it was.\<close>

theorem ValidateList_correct:
  assumes "evd_latestSnapshot v = Some s"
  shows "\<exists>out v1 v2. ValidateList lib items False v = Inr (out, v1) \<and> ValidateList lib items True v = Inr (out, v2) \<and>
           (vout_err out = []) = list_all (\<lambda>b. b) (fst (judgeList lib items v)) \<and>
           evd_latestSnapshot v1 = snd (judgeList lib items v) \<and> evd_latestSnapshot v2 = Some s"
proof -
  obtain out m where run: "fold_out (collectItem lib) items (\<lparr>vout_proxies = [], vout_proxyReports = [], vout_err = []\<rparr>, v) =
      Inr (out, v\<lparr>evd_latestSnapshot := snd (judgeList lib items v), evd_metric := m\<rparr>)"
    and out: "vout_err out = [] \<longleftrightarrow> list_all (\<lambda>b. b) (fst (judgeList lib items v))"
    using fold_collectItem [of lib items "\<lparr>vout_proxies = [], vout_proxyReports = [], vout_err = []\<rparr>" v] by auto
  show ?thesis
    by (intro exI [of _ out] exI [of _ "v\<lparr>evd_latestSnapshot := snd (judgeList lib items v), evd_metric := m\<rparr>"]
        exI [of _ "v\<lparr>evd_latestSnapshot := Some s, evd_metric := m\<rparr>"]) (simp add: ValidateList_def assms run out)
qed

section \<open>What goes wrong\<close>

text \<open>A list that arrives before the first snapshot dereferences the missing snapshot, where a single change is rejected as not
  ready.\<close>

theorem ValidateList_before_Sync:
  "ValidateList lib items dryRun (NewValidator w d) = Inl NilDeref"
  "ValidateModifiedGvk lib k res dryRun (NewValidator w d) = Inr ((None, [ValidatingFailedErr [NotReadyErr]]), NewValidator w d)"
  by (simp_all add: ValidateList_def ValidateModifiedGvk_def validateSnapshot_def NewValidator_def)

text \<open>The virtual host options are hashed twice and the TCP gateways not at all: a snapshot that differs from the
  latest one in its TCP gateways only is not taken over, and not validated.\<close>

theorem Sync_ignores_TcpGateways:
  assumes "evd_latestSnapshot v = Some s" "gatewayHash lib s \<noteq> None"
  shows "validator_Sync lib names (s(TcpGatewayKind := gws)) v = ([], v)"
proof -
  have "gatewayHash lib (s(TcpGatewayKind := gws)) = gatewayHash lib s" by (simp add: gatewayHash_def)
  with assms show ?thesis by (auto simp: validator_Sync_def gatewayUpdate_def)
qed

end
