(* ===== verification/EdgeConverterProps.thy ===== *)
theory EdgeConverterProps
  imports EdgeConverter
begin

text \<open>
  Properties of the conversion of virtual services: it always returns, whatever cycles the delegation has;
  a delegated route stays under the prefix of the route that delegates to it; every report on a route
  table is also on the virtual service.
\<close>

section \<open>Selected route tables\<close>

lemma indexFunc_less: "indexFunc P xs = Some i \<Longrightarrow> i < length xs"
  using indexFunc_SomeD by blast

lemma SelectRouteTables_valid:
  assumes "SelectRouteTables lib tables action ns = Inr is"
  shows "set is \<subseteq> {..<length tables}"
  using assms
  by (auto simp: SelectRouteTables_def RouteTablesForSelector_def findRouteTable_def dest: indexFunc_less
      split: option.splits delegation_type.splits sum.splits if_splits)

lemma appendByWeight_groups:
  assumes "\<forall>w l. m w = Some l \<longrightarrow> set l \<subseteq> S" "i \<in> S"
  shows "\<forall>w l. appendByWeight weight m i w = Some l \<longrightarrow> set l \<subseteq> S"
  using assms by (fastforce simp: appendByWeight_def split: option.splits if_splits)

lemma weightGroups_valid: "g \<in> set (weightGroups ord tables is) \<Longrightarrow> set g \<subseteq> set is"
proof -
  assume g: "g \<in> set (weightGroups ord tables is)"
  let ?f = "appendByWeight (\<lambda>i. tableWeight (tables ! i))"
  have "\<forall>w l. foldl ?f Map.empty is w = Some l \<longrightarrow> set l \<subseteq> set is"
    by (rule foldl_invariant [where P = "\<lambda>m. \<forall>w l. m w = Some l \<longrightarrow> set l \<subseteq> set is"])
      (use appendByWeight_groups in blast, simp)
  then show ?thesis using g by (fastforce simp: weightGroups_def IndexByWeight_def Let_def split: option.splits)
qed

text \<open>The map of the tables by weight.\<close>

definition byWeight :: "route_table list \<Rightarrow> nat list \<Rightarrow> (int \<rightharpoonup> nat list)" where
  "byWeight tables is w = (let l = filter (\<lambda>i. tableWeight (tables ! i) = w) is in if l = [] then None else Some l)"

lemma foldl_appendByWeight:
  "foldl (appendByWeight (\<lambda>i. tableWeight (tables ! i))) Map.empty is = byWeight tables is"
proof (induction "is" rule: rev_induct)
  case Nil
  then show ?case by (simp add: byWeight_def fun_eq_iff)
next
  case (snoc i "is")
  then show ?case by (auto simp: appendByWeight_def byWeight_def fun_eq_iff Let_def split: option.splits)
qed

text \<open>Sorting the distinct keys of a map gives the sorted list of its keys.\<close>

lemma sort_stable_keys:
  fixes ks :: "'a :: linorder list"
  assumes "distinct ks"
  shows "sort_stable (<) ks = sorted_list_of_set (set ks)"
proof -
  have "sorted_wrt (\<le>) (sort_stable (<) ks)" by (rule sorted_sort_stable) auto
  moreover have "distinct (sort_stable (<) ks)"
    by (metis assms mset_eq_imp_distinct_iff mset_sort_stable)
  ultimately show ?thesis by (metis set_sort_stable sorted_list_of_set.idem_if_sorted_distinct)
qed

text \<open>The route tables that a route delegates to are processed by increasing weight, a table without weight
  counting as 0, and those of one weight together, in the order of the snapshot, whatever the order in which
  the map of weights is visited.\<close>

theorem weightGroups_correct:
  assumes "iter_order (byWeight tables is) (ord (byWeight tables is))"
  shows "weightGroups ord tables is =
    map (\<lambda>w. filter (\<lambda>i. tableWeight (tables ! i) = w) is) (sorted_list_of_set ((\<lambda>i. tableWeight (tables ! i)) ` set is))"
proof -
  have dom: "dom (byWeight tables is) = (\<lambda>i. tableWeight (tables ! i)) ` set is"
    by (auto simp: byWeight_def dom_def Let_def filter_empty_conv)
  have "sort_stable (<) (ord (byWeight tables is)) = sorted_list_of_set ((\<lambda>i. tableWeight (tables ! i)) ` set is)"
    using assms dom sort_stable_keys [of "ord (byWeight tables is)"] by (simp add: iter_order_def)
  then show ?thesis
    by (simp add: weightGroups_def IndexByWeight_def Let_def foldl_appendByWeight) (simp add: byWeight_def Let_def)
qed

section \<open>Order of routes\<close>

text \<open>The comparison of matchers is a strict weak order, so that the sort gives an order in which no
  route stands after one that is less.\<close>

lemma lessMatcher_trans:
  "\<not> lessMatcher b a \<Longrightarrow> \<not> lessMatcher c b \<Longrightarrow> \<not> lessMatcher c a"
  by (auto simp: lessMatcher_def split: if_splits)

lemma lessMatcher_asym: "lessMatcher a b \<Longrightarrow> \<not> lessMatcher b a"
  by (auto simp: lessMatcher_def split: if_splits)

lemma SortRoutesByPath_sorted:
  "sorted_wrt (\<lambda>a b. \<not> lessMatcher (getSmallestOrDefaultMatcher (f b)) (getSmallestOrDefaultMatcher (f a))) (SortRoutesByPath f rs)"
  unfolding SortRoutesByPath_def
  by (rule sorted_sort_stable) (auto dest: lessMatcher_asym lessMatcher_trans)

lemma set_SortRoutesByPath [simp]: "set (SortRoutesByPath f rs) = set rs"
  by (simp add: SortRoutesByPath_def)

section \<open>Delegated matchers\<close>

text \<open>The path of a child starts with the prefix of the parent.\<close>

definition path_under :: "mem_matcher \<Rightarrow> mem_matcher \<Rightarrow> bool" where
  "path_under parent m \<longleftrightarrow> hasPrefix (PathAsString (mm_PathSpecifier m)) (getPrefix parent)"

lemma valid_under: "isRouteTableValidForDelegateMatcher h p ms = None \<Longrightarrow> m \<in> set ms \<Longrightarrow> path_under p m"
  by (induction h p ms rule: isRouteTableValidForDelegateMatcher.induct)
    (auto simp: validForDelegateMatcher_def path_under_def Let_def split: option.splits if_splits)

lemma length_map_st: "map_st f s xs = (s', ys) \<Longrightarrow> length ys = length xs"
  by (induction xs arbitrary: s s' ys) (auto simp: Let_def split: prod.splits)

lemma validateAndMerge_facts:
  assumes "validateAndMergeParentRoute rt child parent h = (h', Inr child')"
  shows "wr_Matchers child' \<noteq> []" "\<forall>m \<in> set (wr_Matchers child'). path_under (ri_matcher parent) m"
    "wr_Action child' = wr_Action child" "wr_Name child' = wr_Name child"
proof -
  have ne: "inheritPath p ms \<noteq> []" for p ms by (simp add: inheritPath_def)
  have ne': "snd (map_st (f :: edge_heap \<Rightarrow> mem_matcher \<Rightarrow> edge_heap \<times> mem_matcher) s xs) \<noteq> []" if "xs \<noteq> []" for f s xs
    using that length_map_st [of f s xs] by (metis length_0_conv surj_pair snd_conv)
  show "wr_Matchers child' \<noteq> []"
    using assms ne ne' by (auto simp: validateAndMergeParentRoute_def Let_def split: option.splits prod.splits if_splits)
      (metis snd_conv list.distinct(1))+
  show "\<forall>m \<in> set (wr_Matchers child'). path_under (ri_matcher parent) m"
    using assms by (auto simp: validateAndMergeParentRoute_def Let_def intro: valid_under split: option.splits prod.splits)
  show "wr_Action child' = wr_Action child" "wr_Name child' = wr_Name child"
    using assms by (auto simp: validateAndMergeParentRoute_def Let_def split: option.splits prod.splits)
qed

text \<open>A matcher that a route may delegate with has a prefix, and it is the matcher of the route unless that has no path.\<close>

lemma getDelegateRouteMatcher_facts:
  assumes "getDelegateRouteMatcher ms = Inr m"
  shows "getPrefix m \<noteq> []" "m = DefaultMatcher \<or> (ms = [m] \<and> PathAsString (mm_PathSpecifier m) = getPrefix m)"
    "ms \<noteq> [] \<Longrightarrow> mm_PathSpecifier (hd ms) \<noteq> None \<Longrightarrow> ms = [m]"
  using assms
  by (auto simp: getDelegateRouteMatcher_def getPrefix_def DefaultMatcher_def split: list.splits if_splits option.splits edge_path.splits)

lemma under_trans:
  assumes "getDelegateRouteMatcher ms = Inr m" "\<forall>x \<in> set ms. path_under p x" "ms \<noteq> []" "getPrefix p \<noteq> []" "path_under m y"
  shows "path_under p y"
proof -
  obtain x xs where ms: "ms = x # xs" using assms(3) by (cases ms) auto
  have "mm_PathSpecifier x \<noteq> None"
    using assms(2,4) ms by (cases "mm_PathSpecifier x") (auto simp: path_under_def hasPrefix_iff)
  then have "ms = [m]" using getDelegateRouteMatcher_facts(3) [OF assms(1,3)] ms by simp
  moreover then have "mm_PathSpecifier m \<noteq> None" using \<open>mm_PathSpecifier x \<noteq> None\<close> ms by simp
  ultimately have "PathAsString (mm_PathSpecifier m) = getPrefix m"
    using assms(1) by (auto simp: getDelegateRouteMatcher_def getPrefix_def split: if_splits option.splits edge_path.splits)
  then show ?thesis using assms(2,5) \<open>ms = [m]\<close> by (auto simp: path_under_def intro: hasPrefix_trans)
qed

section \<open>Reports\<close>

text \<open>Every error and warning of a route table is also one of the virtual service.\<close>

definition mirrored :: "edge_env \<Rightarrow> edge_report list \<Rightarrow> bool" where
  "mirrored env rs \<longleftrightarrow>
     (\<forall>i e. (AddError (RouteTableRes i) e \<in> set rs \<longrightarrow>
         (\<exists>v. AddError (VirtualServiceRes v) (TopLevelVirtualResourceErr (em_Ref (rtb_Metadata (ee_RouteTables env ! i))) e) \<in> set rs)) \<and>
       (AddWarning (RouteTableRes i) e \<in> set rs \<longrightarrow>
         (\<exists>v. AddWarning (VirtualServiceRes v) (TopLevelVirtualResourceErr (em_Ref (rtb_Metadata (ee_RouteTables env ! i))) e) \<in> set rs)))"

lemma mirrored_append: "mirrored env rs \<Longrightarrow> mirrored env rs' \<Longrightarrow> mirrored env (rs @ rs')"
  unfolding mirrored_def by (metis Un_iff set_append)

lemma mirrored_Nil [simp]: "mirrored env []"
  by (simp add: mirrored_def)

text \<open>A step of the traversal only adds reports, and those it adds are mirrored.\<close>

definition reports_step :: "edge_env \<Rightarrow> visit_context \<Rightarrow> visit_state \<Rightarrow> visit_state \<Rightarrow> bool" where
  "reports_step env ctx st st' \<longleftrightarrow>
     (\<exists>new. vst_reports st' = vst_reports st @ new \<and> ((\<exists>v. vc_virtualService ctx = VirtualServiceRes v) \<longrightarrow> mirrored env new))"

lemma reports_step_refl [simp]: "reports_step env ctx st st"
  by (simp add: reports_step_def)

lemma reports_step_heap [simp]:
  "reports_step env ctx st (st'\<lparr>vst_heap := h\<rparr>) = reports_step env ctx st st'"
  "reports_step env ctx (st\<lparr>vst_heap := h\<rparr>) st' = reports_step env ctx st st'"
  by (simp_all add: reports_step_def)

lemma reports_step_trans: "reports_step env ctx a b \<Longrightarrow> reports_step env ctx b c \<Longrightarrow> reports_step env ctx a c"
  by (auto simp: reports_step_def mirrored_append)

lemma reports_step_addError: "reports_step env ctx st (helper_addError env ctx res err st)"
  by (auto simp: reports_step_def helper_addError_def mirrored_def split: edge_resource.splits)

lemma reports_step_addWarning: "reports_step env ctx st (helper_addWarning env ctx res err st)"
  by (auto simp: reports_step_def helper_addWarning_def mirrored_def split: edge_resource.splits)

lemma reports_step_mergeOptionRef:
  "reports_step env ctx (fst s) (fst (foldl (mergeOptionRef env ctx res) s refs))"
proof (induction refs arbitrary: s)
  case Nil
  then show ?case by simp
next
  case (Cons ref refs)
  have "reports_step env ctx (fst s) (fst (mergeOptionRef env ctx res s ref))"
    by (cases s) (simp add: mergeOptionRef_def reports_step_addWarning split: option.splits prod.splits)
  then show ?case using Cons.IH [of "mergeOptionRef env ctx res s ref"] by (auto intro: reports_step_trans)
qed

section \<open>The traversal\<close>

text \<open>What holds of every route that a visit returns.\<close>

definition edge_route_ok :: "mem_matcher option \<Rightarrow> mem_route \<Rightarrow> bool" where
  "edge_route_ok parent r \<longleftrightarrow>
     mr_Matchers r \<noteq> [] \<and> (\<forall>a. mr_Action r \<noteq> EdgeDelegateAction a) \<and>
     (\<forall>p. parent = Some p \<and> getPrefix p \<noteq> [] \<longrightarrow> (\<forall>m \<in> set (mr_Matchers r). path_under p m))"

lemma route_ok_appendSource [simp]: "edge_route_ok p (appendSource env res r) = edge_route_ok p r"
  by (simp add: edge_route_ok_def appendSource_def)

definition acc_ok ::
  "edge_env \<Rightarrow> visit_context \<Rightarrow> (mem_route \<Rightarrow> bool) \<Rightarrow> visit_state \<Rightarrow> mem_route list \<times> visit_state \<Rightarrow> bool" where
  "acc_ok env ctx P st0 = (\<lambda>(routes, st). (\<forall>r \<in> set routes. P r) \<and> reports_step env ctx st0 st)"

definition visits_ok :: "visitor \<Rightarrow> edge_env \<Rightarrow> visit_context \<Rightarrow> nat list \<Rightarrow> bool" where
  "visits_ok vis env ctx visited \<longleftrightarrow>
     (\<forall>i < length (ee_RouteTables env). i \<notin> set visited \<longrightarrow>
       (\<forall>res parent st. \<exists>s. vis res parent (visited @ [i]) st = Inr s \<and>
          acc_ok env ctx (edge_route_ok (map_option ri_matcher parent)) st s))"

lemma visitTable_ok:
  assumes "visits_ok vis env ctx visited" "\<forall>r. edge_route_ok (Some (ri_matcher info)) r \<longrightarrow> P r"
    and "i < length (ee_RouteTables env)" "acc_ok env ctx P st0 s"
  shows "\<exists>s'. visitTable vis env ctx info visited i s = Inr s' \<and> acc_ok env ctx P st0 s'"
proof -
  obtain routes st where s: "s = (routes, st)" by (cases s)
  show ?thesis
  proof (cases "i \<in> set visited")
    case True
    then show ?thesis using assms(4)
      by (auto simp: visitTable_def checkForCycles_def s acc_ok_def intro: reports_step_trans [OF _ reports_step_addError])
  next
    case False
    then obtain s1 where "vis (visitableRouteTable env i) (Some info) (visited @ [i]) st = Inr s1"
        "acc_ok env ctx (edge_route_ok (Some (ri_matcher info))) st s1"
      using assms(1,3) unfolding visits_ok_def by (metis option.map(2))
    then show ?thesis using assms(2,4) False
      by (cases s1) (auto simp: visitTable_def checkForCycles_def s acc_ok_def intro: reports_step_trans)
  qed
qed

lemma visitWeight_ok:
  assumes "visits_ok vis env ctx visited" "\<forall>r. edge_route_ok (Some (ri_matcher info)) r \<longrightarrow> P r"
    and "set g \<subseteq> {..<length (ee_RouteTables env)}" "acc_ok env ctx P st0 s"
  shows "\<exists>s'. visitWeight vis env ctx info visited g s = Inr s' \<and> acc_ok env ctx P st0 s'"
proof -
  obtain routes st where s: "s = (routes, st)" by (cases s)
  have "\<exists>s'. fold_out (visitTable vis env ctx info visited) g ([], st) = Inr s' \<and> acc_ok env ctx P st0 s'"
    by (rule fold_out_returns) (use assms visitTable_ok in \<open>auto simp: acc_ok_def s\<close>)
  then obtain s' where "fold_out (visitTable vis env ctx info visited) g ([], st) = Inr s'" "acc_ok env ctx P st0 s'" by blast
  then show ?thesis using assms(4) by (cases s') (auto simp: visitWeight_def s acc_ok_def)
qed

text \<open>A route delegates with its only matcher, so that what holds under it holds under its parent.\<close>

lemma route_ok_weaken:
  assumes "getDelegateRouteMatcher ms = Inr m" "\<forall>p. parent = Some p \<longrightarrow> ms \<noteq> [] \<and> (\<forall>x \<in> set ms. path_under p x)" "edge_route_ok (Some m) r"
  shows "edge_route_ok parent r"
  using assms getDelegateRouteMatcher_facts(1) [OF assms(1)] under_trans [OF assms(1)]
  by (auto simp: edge_route_ok_def)

lemma visitDelegate_ok:
  assumes vis: "visits_ok vis env ctx visited"
    and ms: "\<forall>p. parent = Some p \<longrightarrow> wr_Matchers route \<noteq> [] \<and> (\<forall>x \<in> set (wr_Matchers route). path_under p x)"
    and acc: "acc_ok env ctx (edge_route_ok parent) st0 s"
  shows "\<exists>s'. visitDelegate vis env ctx res visited route nm action s = Inr s' \<and> acc_ok env ctx (edge_route_ok parent) st0 s'"
proof -
  obtain routes st where s: "s = (routes, st)" by (cases s)
  show ?thesis
  proof (cases "getDelegateRouteMatcher (wr_Matchers route)")
    case (Inl err)
    then show ?thesis using acc
      by (auto simp: visitDelegate_def s acc_ok_def intro: reports_step_trans [OF _ reports_step_addError])
  next
    case m: (Inr m)
    show ?thesis
    proof (cases "SelectRouteTables (ee_labels env) (ee_RouteTables env) action (em_Namespace (va_Metadata res))")
      case (Inl err)
      then show ?thesis using acc m
        by (auto simp: visitDelegate_def s acc_ok_def intro: reports_step_trans [OF _ reports_step_addWarning])
    next
      case (Inr tables)
      define info where "info = \<lparr>ri_matcher = m, ri_options = wr_Options route, ri_name = fst nm, ri_hasName = snd nm,
        ri_inheritableMatchers = (wr_InheritableMatchers route = Some True),
        ri_inheritablePathMatchers = (wr_InheritablePathMatchers route = Some True)\<rparr>"
      have weak: "\<forall>r. edge_route_ok (Some (ri_matcher info)) r \<longrightarrow> edge_route_ok parent r"
        using route_ok_weaken [OF m ms] by (simp add: info_def)
      have groups: "set g \<subseteq> {..<length (ee_RouteTables env)}"
        if "g \<in> set (weightGroups (ee_weights env) (ee_RouteTables env) tables)" for g
        using weightGroups_valid [OF that] SelectRouteTables_valid [OF Inr] by blast
      have "\<exists>s'. fold_out (visitWeight vis env ctx info visited) (weightGroups (ee_weights env) (ee_RouteTables env) tables) s = Inr s' \<and>
          acc_ok env ctx (edge_route_ok parent) st0 s'"
        by (rule fold_out_returns) (use visitWeight_ok [OF vis weak] groups acc in blast)+
      then show ?thesis using m Inr by (simp add: visitDelegate_def s info_def)
    qed
  qed
qed

lemma visitSimple_ok:
  assumes "\<forall>p. parent = Some p \<longrightarrow> wr_Matchers route \<noteq> [] \<and> (\<forall>x \<in> set (wr_Matchers route). path_under p x)"
    and "acc_ok env ctx (edge_route_ok parent) st0 s"
  shows "acc_ok env ctx (edge_route_ok parent) st0 (visitSimple env ctx res route hasName s)"
proof -
  obtain routes st where s: "s = (routes, st)" by (cases s)
  have "edge_route_ok parent r" if "convertSimpleAction w = Inr r" "wr_Matchers w = wr_Matchers route" for w r
    using that assms(1) by (auto simp: convertSimpleAction_def edge_route_ok_def Let_def split: option.splits edge_action.splits if_splits)
  then show ?thesis using assms(2)
    by (auto simp: visitSimple_def Let_def s acc_ok_def intro: reports_step_trans [OF _ reports_step_addError] split: sum.splits)
qed

lemma inheritFromParent_under:
  assumes "inheritFromParent env ctx parentRoute route h = (h', Inr route')"
  shows "\<forall>p. map_option ri_matcher parentRoute = Some p \<longrightarrow>
    wr_Matchers route' \<noteq> [] \<and> (\<forall>x \<in> set (wr_Matchers route'). path_under p x)"
  using assms validateAndMerge_facts(1,2)
  by (auto simp: inheritFromParent_def split: option.splits)

lemma visitRoute_ok:
  assumes vis: "visits_ok vis env ctx visited" and acc: "acc_ok env ctx (edge_route_ok (map_option ri_matcher parentRoute)) st0 s"
  shows "\<exists>s'. visitRoute vis env ctx res parentRoute visited x s = Inr s' \<and>
    acc_ok env ctx (edge_route_ok (map_option ri_matcher parentRoute)) st0 s'"
proof -
  obtain routes st where s: "s = (routes, st)" by (cases s)
  obtain idx r where x: "x = (idx, r)" by (cases x)
  obtain h route where c: "clone_route (ee_runtime env) (vst_heap st) r = (h, route)" by fastforce
  define nm where "nm = routeName ctx res (egr_Name r) parentRoute idx"
  obtain st1 options where o: "foldl (mergeOptionRef env ctx (va_InputResource res)) (st\<lparr>vst_heap := h\<rparr>, wr_Options route)
      (egr_DelegateOptions r) = (st1, options)" by fastforce
  obtain h2 merged where i: "inheritFromParent env ctx parentRoute (route\<lparr>wr_Name := fst nm, wr_Options := options\<rparr>) (vst_heap st1) =
      (h2, merged)" by fastforce
  have "reports_step env ctx st st1"
    using reports_step_mergeOptionRef [of env ctx "(st\<lparr>vst_heap := h\<rparr>, wr_Options route)" "va_InputResource res"] o
    by (metis fst_conv reports_step_heap(2))
  then have acc1: "acc_ok env ctx (edge_route_ok (map_option ri_matcher parentRoute)) st0 (routes, st1\<lparr>vst_heap := h2\<rparr>)"
    using acc by (auto simp: acc_ok_def s intro: reports_step_trans)
  show ?thesis
  proof (cases merged)
    case (Inl err)
    then show ?thesis using acc1 c o i
      by (auto simp: visitRoute_def s x nm_def [symmetric] acc_ok_def intro: reports_step_trans [OF _ reports_step_addWarning])
  next
    case (Inr route')
    note ms = inheritFromParent_under [OF i [unfolded Inr]]
    have run: "visitRoute vis env ctx res parentRoute visited x s =
      (case wr_Action route' of
         Some (EdgeDelegateAction action) \<Rightarrow>
           visitDelegate vis env ctx res visited route' nm action (routes, st1\<lparr>vst_heap := h2\<rparr>)
       | _ \<Rightarrow> Inr (visitSimple env ctx res route' (snd nm) (routes, st1\<lparr>vst_heap := h2\<rparr>)))"
      using Inr c o i unfolding nm_def by (simp add: visitRoute_def s x Let_def)
    show ?thesis
    proof (cases "\<exists>action. wr_Action route' = Some (EdgeDelegateAction action)")
      case True
      then show ?thesis using run visitDelegate_ok [OF vis ms acc1, of res nm] by auto
    next
      case False
      then have "visitRoute vis env ctx res parentRoute visited x s =
          Inr (visitSimple env ctx res route' (snd nm) (routes, st1\<lparr>vst_heap := h2\<rparr>))"
        using run by (auto split: option.splits edge_action.splits)
      then show ?thesis using visitSimple_ok [OF ms acc1] by blast
    qed
  qed
qed

text \<open>The bound on the fuel: the route tables visited on the way to a route table are different ones.\<close>

lemma visit_ok:
  assumes "length (ee_RouteTables env) < fuel + length visited" "distinct visited" "set visited \<subseteq> {..<length (ee_RouteTables env)}"
  shows "\<exists>s. visit_resource fuel env ctx res parentRoute visited st = Inr s \<and>
    acc_ok env ctx (\<lambda>r. edge_route_ok (map_option ri_matcher parentRoute) r \<and> mr_Sources r \<noteq> [] \<and>
      last (mr_Sources r) = makeSourceRef env res) st s"
  using assms
proof (induction fuel arbitrary: res parentRoute visited st)
  case 0
  then have "length visited \<le> length (ee_RouteTables env)"
    by (metis card_lessThan card_mono distinct_card finite_lessThan)
  then show ?case using 0 by simp
next
  case (Suc fuel)
  have "visits_ok (visit_resource fuel env ctx) env ctx visited"
    unfolding visits_ok_def
  proof (intro allI impI)
    fix i res' parent' st'
    assume "i < length (ee_RouteTables env)" "i \<notin> set visited"
    then obtain s where "visit_resource fuel env ctx res' parent' (visited @ [i]) st' = Inr s"
        "acc_ok env ctx (\<lambda>r. edge_route_ok (map_option ri_matcher parent') r \<and> mr_Sources r \<noteq> [] \<and>
          last (mr_Sources r) = makeSourceRef env res') st' s"
      using Suc.IH [of "visited @ [i]" res' parent' st'] Suc.prems by auto
    then show "\<exists>s. visit_resource fuel env ctx res' parent' (visited @ [i]) st' = Inr s \<and>
        acc_ok env ctx (edge_route_ok (map_option ri_matcher parent')) st' s"
      by (cases s) (auto simp: acc_ok_def)
  qed
  then have "\<exists>s. fold_out (visitRoute (visit_resource fuel env ctx) env ctx res parentRoute visited) (List.enumerate 0 (va_Routes res)) ([], st) = Inr s \<and>
      acc_ok env ctx (edge_route_ok (map_option ri_matcher parentRoute)) st s"
    by (intro fold_out_returns) (use visitRoute_ok in \<open>auto simp: acc_ok_def\<close>)
  then obtain s where "fold_out (visitRoute (visit_resource fuel env ctx) env ctx res parentRoute visited) (List.enumerate 0 (va_Routes res)) ([], st) = Inr s"
      "acc_ok env ctx (edge_route_ok (map_option ri_matcher parentRoute)) st s" by blast
  then show ?case by (cases s) (auto simp: acc_ok_def, simp_all add: appendSource_def)
qed

text \<open>Properties of the conversion of a virtual service; the fuel is that of its only caller.\<close>

definition converted :: "edge_env \<Rightarrow> visit_context \<Rightarrow> edge_meta \<Rightarrow> mem_route \<Rightarrow> bool" where
  "converted env ctx meta r \<longleftrightarrow>
     mr_Matchers r \<noteq> [] \<and> (\<forall>a. mr_Action r \<noteq> EdgeDelegateAction a) \<and> mr_Sources r \<noteq> [] \<and>
     last (mr_Sources r) = \<lparr>src_Kind = ee_Kind env (vc_virtualService ctx), src_Ref = em_Ref meta, src_Generation = em_Generation meta\<rparr>"

lemma ConvertVirtualService_ok:
  "\<exists>routes st'. ConvertVirtualService (length (ee_RouteTables env) + 1) env ctx meta rs st = Inr (routes, st') \<and>
     (\<forall>r \<in> set routes. converted env ctx meta r) \<and> reports_step env ctx st st'"
proof -
  let ?res = "\<lparr>va_InputResource = vc_virtualService ctx, va_Metadata = meta, va_Routes = rs\<rparr>"
  have "\<exists>s. visit_resource (length (ee_RouteTables env) + 1) env ctx ?res None [] st = Inr s \<and>
      acc_ok env ctx (\<lambda>r. edge_route_ok (map_option ri_matcher (None :: route_info option)) r \<and> mr_Sources r \<noteq> [] \<and>
        last (mr_Sources r) = makeSourceRef env ?res) st s"
    by (rule visit_ok) simp_all
  then show ?thesis
    by (auto simp: ConvertVirtualService_def acc_ok_def edge_route_ok_def converted_def makeSourceRef_def)
qed

text \<open>C4. A delegation always ends and stays under the prefix of the route that delegates, however deep the
  chain of route tables, whatever cycles it has and whatever the routes inherit: every path of every route
  that comes out starts with the prefix. The fuel is enough for a path through the route tables not visited yet.\<close>

theorem visit_delegated:
  assumes "distinct visited" "set visited \<subseteq> {..<length (ee_RouteTables env)}"
    and "getPrefix (ri_matcher info) \<noteq> []"
  shows "\<exists>routes st'. visit_resource (length (ee_RouteTables env) + 1 - length visited) env ctx res (Some info) visited st = Inr (routes, st') \<and>
    (\<forall>r \<in> set routes. mr_Matchers r \<noteq> [] \<and>
       (\<forall>m \<in> set (mr_Matchers r). hasPrefix (PathAsString (mm_PathSpecifier m)) (getPrefix (ri_matcher info))))"
proof -
  have "length visited \<le> length (ee_RouteTables env)"
    using assms(1,2) by (metis card_lessThan card_mono distinct_card finite_lessThan)
  then obtain s where "visit_resource (length (ee_RouteTables env) + 1 - length visited) env ctx res (Some info) visited st = Inr s"
      "acc_ok env ctx (\<lambda>r. edge_route_ok (map_option ri_matcher (Some info)) r \<and> mr_Sources r \<noteq> [] \<and>
        last (mr_Sources r) = makeSourceRef env res) st s"
    using visit_ok [OF _ assms(1,2), of "length (ee_RouteTables env) + 1 - length visited"] by fastforce
  then show ?thesis using assms(3) by (cases s) (auto simp: acc_ok_def edge_route_ok_def path_under_def)
qed

end
