(* ===== verification/EdgeVirtualServiceProps.thy ===== *)
theory EdgeVirtualServiceProps
  imports EdgeVirtualService
begin

text \<open>
  Properties of the functions of \<open>virtual_service_translator.go\<close>: the index of virtual services by domain and the conflicts it
  shows, and what a warning of a short-circuited route says about requests.
\<close>

section \<open>Indices\<close>

text \<open>The maps from keys to lists that the translator builds: the list of a key has each element as often as
  the element has the key.\<close>

definition having :: "(nat \<Rightarrow> string list) \<Rightarrow> nat list \<Rightarrow> string \<Rightarrow> nat list" where
  "having ks is d = concat (map (\<lambda>i. map (\<lambda>_. i) (filter ((=) d) (ks i))) is)"

lemma addToKey_fold:
  "foldl (addToKey i) m ds d =
     (if d \<in> set ds then Some ((case m d of None \<Rightarrow> [] | Some l \<Rightarrow> l) @ map (\<lambda>_. i) (filter ((=) d) ds)) else m d)"
  by (induction ds arbitrary: m) (auto simp: addToKey_def filter_empty_conv)

lemma having_append: "having ks (is @ js) d = having ks is d @ having ks js d"
  by (simp add: having_def)

lemma having_Nil_iff: "having ks is d = [] \<longleftrightarrow> (\<forall>i \<in> set is. d \<notin> set (ks i))"
  by (auto simp: having_def filter_empty_conv)

lemma index_fold:
  "foldl (\<lambda>m i. foldl (addToKey i) m (ks i)) Map.empty is d = (if having ks is d = [] then None else Some (having ks is d))"
proof (induction "is" rule: rev_induct)
  case Nil
  then show ?case by (simp add: having_def)
next
  case (snoc i "is")
  have "having ks [i] d = map (\<lambda>_. i) (filter ((=) d) (ks i))" by (simp add: having_def)
  then show ?case using snoc having_Nil_iff [of ks "[i]" d] by (auto simp: addToKey_fold having_append)
qed

lemma set_having: "set (having ks is d) = {i \<in> set is. d \<in> set (ks i)}"
  by (auto simp: having_def)

lemma length_having: "length (having ks is d) = count_list (concat (map ks is)) d"
  by (induction "is") (auto simp: having_def count_list_eq_length_filter)

lemma distinct_count: "distinct xs \<longleftrightarrow> (\<forall>d. count_list xs d \<le> 1)"
proof -
  have "(\<forall>d. count_list xs d = (if d \<in> set xs then 1 else 0)) \<longleftrightarrow> (\<forall>d. count_list xs d \<le> 1)"
    by (metis One_nat_def Suc_leI count_list_0_iff le_antisym le_refl neq0_conv zero_le)
  then show ?thesis by (simp add: distinct_count_atmost_1 count_mset)
qed

section \<open>Domains\<close>

definition virtualServiceDomains :: "virtual_service list \<Rightarrow> nat \<Rightarrow> string list" where
  "virtualServiceDomains vss i = (case vsv_VirtualHost (vss ! i) of None \<Rightarrow> [] | Some vh \<Rightarrow> hostDomains vh)"

lemma indexByDomain_eq:
  "indexByDomain vss vs d =
     (if having (virtualServiceDomains vss) vs d = [] then None else Some (having (virtualServiceDomains vss) vs d))"
proof -
  have "(case vsv_VirtualHost (vss ! i) of None \<Rightarrow> m | Some vh \<Rightarrow> foldl (addToKey i) m (hostDomains vh)) =
      foldl (addToKey i) m (virtualServiceDomains vss i)" for i m
    by (simp add: virtualServiceDomains_def split: option.splits)
  then show ?thesis by (simp add: indexByDomain_def index_fold)
qed

lemma conflictsOf_iff:
  "(\<exists>refs. AddError (VirtualServiceRes v) (DomainInOtherVirtualServicesErr d' refs) \<in> set (conflictsOf vss d l)) \<longleftrightarrow> d' = d \<and> v \<in> set l"
  by (simp add: conflictsOf_def image_iff in_set_conv_nth) (metis atLeastLessThan_iff zero_le)

text \<open>C27. The check of domains finds exactly the conflicts: the gateway is reported if and only if some domain
  occurs twice among all domains of its virtual services (an empty list counting as the domain ''), and a
  virtual service is reported for a domain if and only if it has it and the domain occurs more than once.\<close>

theorem validateVirtualServiceDomains_correct:
  fixes gw :: nat
  assumes "iter_order (indexByDomain vss vs) (el_keys lib (indexByDomain vss vs))"
  defines "rs \<equiv> validateVirtualServiceDomains lib gw vss vs"
    and "domains \<equiv> concat (map (virtualServiceDomains vss) vs)"
  shows "((\<exists>ds. AddError (GatewayRes gw) (ConflictingVirtualServicesErr ds) \<in> set rs) \<longleftrightarrow> \<not> distinct domains) \<and>
    (\<forall>v d. (\<exists>refs. AddError (VirtualServiceRes v) (DomainInOtherVirtualServicesErr d refs) \<in> set rs) \<longleftrightarrow>
       v \<in> set vs \<and> d \<in> set (virtualServiceDomains vss v) \<and> count_list domains d > 1)"
proof -
  define idx where "idx = indexByDomain vss vs"
  define conflicting where "conflicting = filter (\<lambda>d. length (case idx d of None \<Rightarrow> [] | Some l \<Rightarrow> l) > 1) (el_keys lib idx)"
  have keys: "set (el_keys lib idx) = dom idx" using assms(1) by (simp add: iter_order_def idx_def)
  have list: "(case idx d of None \<Rightarrow> [] | Some l \<Rightarrow> l) = having (virtualServiceDomains vss) vs d" for d
    by (simp add: idx_def indexByDomain_eq)
  have conf: "d \<in> set conflicting \<longleftrightarrow> count_list domains d > 1" for d
    using keys list [of d] length_having [of "virtualServiceDomains vss" vs d]
    by (auto simp: conflicting_def domains_def idx_def indexByDomain_eq)
  have rs: "rs = map (\<lambda>i. AddWarning (VirtualServiceRes i) (NoVirtualHostErr (vsRef vss i))) (filter (\<lambda>i. vsv_VirtualHost (vss ! i) = None) vs) @
      concat (map (\<lambda>d. conflictsOf vss d (having (virtualServiceDomains vss) vs d)) conflicting) @
      (if conflicting \<noteq> [] then [AddError (GatewayRes gw) (ConflictingVirtualServicesErr conflicting)] else [])"
    by (simp add: rs_def validateVirtualServiceDomains_def Let_def conflicting_def list flip: idx_def)
  have "(\<exists>ds. AddError (GatewayRes gw) (ConflictingVirtualServicesErr ds) \<in> set rs) \<longleftrightarrow> conflicting \<noteq> []"
    by (auto simp: rs conflictsOf_def)
  moreover have "conflicting \<noteq> [] \<longleftrightarrow> \<not> distinct domains"
    using conf distinct_count [of domains] by (metis empty_iff empty_set linorder_not_le list.set_intros(1) neq_Nil_conv)
  moreover have "(\<exists>refs. AddError (VirtualServiceRes v) (DomainInOtherVirtualServicesErr d refs) \<in> set rs) \<longleftrightarrow>
      d \<in> set conflicting \<and> v \<in> set (having (virtualServiceDomains vss) vs d)" for v d
  proof -
    have "(\<exists>refs. AddError (VirtualServiceRes v) (DomainInOtherVirtualServicesErr d refs) \<in> set rs) \<longleftrightarrow>
        (\<exists>x \<in> set conflicting. \<exists>refs. AddError (VirtualServiceRes v) (DomainInOtherVirtualServicesErr d refs) \<in>
          set (conflictsOf vss x (having (virtualServiceDomains vss) vs x)))"
      by (auto simp: rs)
    then show ?thesis by (auto simp: conflictsOf_iff)
  qed
  ultimately show ?thesis using conf by (auto simp: set_having)
qed

section \<open>Short-circuited routes\<close>

text \<open>Requests, and when a matcher without regular expressions and inverted headers accepts one. A header or parameter matcher
  without a value asks for presence. Letters may be folded by any function where the flag for case
  sensitivity is off.\<close>

record edge_request =
  rq_path :: string
  rq_method :: string
  rq_headers :: "string \<rightharpoonup> string"
  rq_params :: "string \<rightharpoonup> string"

definition fold_case :: "(char \<Rightarrow> char) \<Rightarrow> bool option \<Rightarrow> string \<Rightarrow> string" where
  "fold_case fc caseSensitive s = (if caseSensitive = Some False then map fc s else s)"

definition value_accepts :: "string \<Rightarrow> string option \<Rightarrow> bool" where
  "value_accepts want got \<longleftrightarrow> (\<exists>v. got = Some v \<and> (want = [] \<or> v = want))"

definition path_accepts :: "(char \<Rightarrow> char) \<Rightarrow> edge_matcher \<Rightarrow> string \<Rightarrow> bool" where
  "path_accepts fc m path =
     (let canon = fold_case fc (emt_CaseSensitive m)
      in case emt_PathSpecifier m of
           Some (E_Prefix p) \<Rightarrow> hasPrefix (canon path) (canon p)
         | Some (E_Exact p) \<Rightarrow> canon path = canon p
         | _ \<Rightarrow> False)"

definition accepts :: "(char \<Rightarrow> char) \<Rightarrow> edge_matcher \<Rightarrow> edge_request \<Rightarrow> bool" where
  "accepts fc m req \<longleftrightarrow>
     path_accepts fc m (rq_path req) \<and>
     (\<forall>hd \<in> set (emt_Headers m). value_accepts (ehd_Value hd) (rq_headers req (ehd_Name hd))) \<and>
     (\<forall>q \<in> set (emt_QueryParameters m). value_accepts (qpm_Value q) (rq_params req (qpm_Name q))) \<and>
     (emt_Methods m = [] \<or> rq_method req \<in> set (emt_Methods m))"

definition plain_matcher :: "edge_matcher \<Rightarrow> bool" where
  "plain_matcher m \<longleftrightarrow>
     (\<forall>r. emt_PathSpecifier m \<noteq> Some (E_Regex r)) \<and>
     (\<forall>hd \<in> set (emt_Headers m). \<not> ehd_Regex hd \<and> \<not> ehd_InvertMatch hd) \<and> (\<forall>q \<in> set (emt_QueryParameters m). \<not> qpm_Regex q)"

definition slice_ok :: "'a arrays \<Rightarrow> slice \<Rightarrow> bool" where
  "slice_ok h s \<longleftrightarrow> sl_len s \<le> length (ga_cells (h (sl_array s)))"

lemma go_append_read:
  assumes "slice_ok h s" "go_append grow fresh s xs h = (s', h')"
  shows "sl_read h' s' = sl_read h s @ xs"
  using assms by (auto simp: go_append_def sl_read_def slice_ok_def Let_def split: if_splits)

lemma go_append_other:
  assumes "go_append grow fresh s xs h = (s', h')" "sl_array t \<noteq> sl_array s" "sl_array t \<noteq> fresh"
  shows "sl_read h' t = sl_read h t"
  using assms by (auto simp: go_append_def sl_read_def Let_def split: if_splits)

lemma values_short_circuit:
  assumes "earlyQueryParametersShortCircuitedLaterOnes lib later early" "\<forall>q \<in> set early \<union> set later. \<not> qpm_Regex q"
    and "\<forall>q \<in> set later. value_accepts (qpm_Value q) (ps (qpm_Name q))" "q \<in> set early"
  shows "value_accepts (qpm_Value q) (ps (qpm_Name q))"
proof -
  have "filter (\<lambda>l. qpm_Name q = qpm_Name l) later \<noteq> []"
    and all: "\<forall>l \<in> set later. qpm_Name q = qpm_Name l \<longrightarrow> paramShortCircuits lib q l"
    using assms(1,4) by (auto simp: earlyQueryParametersShortCircuitedLaterOnes_def list_all_iff Let_def)
  then obtain l where l: "l \<in> set later" "qpm_Name q = qpm_Name l" by (auto simp: filter_empty_conv)
  then have "qpm_Value q = qpm_Value l \<or> qpm_Value q = []"
    using all assms(2,4) by (auto simp: paramShortCircuits_def split: if_splits)
  then show ?thesis using assms(3) l by (auto simp: value_accepts_def)
qed

lemma headers_short_circuit:
  assumes "earlyHeaderMatchersShortCircuitLaterOnes lib (later @ extra) early"
    and "\<forall>y \<in> set early \<union> set later. \<not> ehd_Regex y \<and> \<not> ehd_InvertMatch y"
    and "\<forall>y \<in> set later. value_accepts (ehd_Value y) (hs (ehd_Name y))" "y \<in> set early" "\<forall>x \<in> set extra. ehd_Name x \<noteq> ehd_Name y"
  shows "value_accepts (ehd_Value y) (hs (ehd_Name y))"
proof -
  have "filter (\<lambda>l. ehd_Name y = ehd_Name l) (later @ extra) \<noteq> []"
    and all: "\<forall>l \<in> set later. ehd_Name y = ehd_Name l \<longrightarrow> headerShortCircuits lib y l"
    using assms(1,4) by (auto simp: earlyHeaderMatchersShortCircuitLaterOnes_def list_all_iff Let_def)
  then obtain l where l: "l \<in> set later" "ehd_Name y = ehd_Name l"
    using assms(5) by (auto simp: filter_empty_conv)
  then have "ehd_Value y = ehd_Value l \<or> ehd_Value y = []"
    using all assms(2,4) by (auto simp: headerShortCircuits_def split: if_splits)
  then show ?thesis using assms(3) l by (auto simp: value_accepts_def)
qed

lemma prefix_short_circuit:
  assumes "prefixShortCircuits m e" "getPrefix e \<noteq> []" "\<forall>r. mm_PathSpecifier m \<noteq> Some (E_Regex r)"
    and "path_accepts fc (read_matcher h m) path"
  shows "path_accepts fc (read_matcher h' e) path"
proof -
  have e: "mm_PathSpecifier e = Some (E_Prefix (getPrefix e))"
    using assms(2) by (auto simp: getPrefix_def split: option.splits edge_path.splits)
  have cs: "mm_CaseSensitive m = mm_CaseSensitive e" and pre: "hasPrefix (PathAsString (mm_PathSpecifier m)) (getPrefix e)"
    using assms(1) by (simp_all add: prefixShortCircuits_def)
  have fold: "hasPrefix (fold_case fc c a) (fold_case fc c b)" if "hasPrefix a b" for a b c
    using that by (auto simp: fold_case_def hasPrefix_iff)
  show ?thesis
    using assms(3,4) cs e fold [OF pre, of "map_option ptr_target (mm_CaseSensitive e)"]
    by (auto simp: path_accepts_def read_matcher_def Let_def intro: hasPrefix_trans split: option.splits edge_path.splits)
qed


end
