(* ===== verification/EdgeTranslatorProps.thy ===== *)
theory EdgeTranslatorProps
  imports EdgeTranslator EdgeConverterProps EdgeVirtualServiceProps
begin

text \<open>
  Properties of the translation of gateways into a proxy: it always returns, what it may write to the
  virtual services of the snapshot, how it reports, and what the listeners are made of.
\<close>

section \<open>Steps of the state\<close>

text \<open>What the translation may change of a virtual service: the options of the virtual host, and the setting
  \<open>OneWayTls\<close> where it is not set.\<close>

definition host_kept :: "vs_host option \<Rightarrow> vs_host option \<Rightarrow> bool" where
  "host_kept a b \<longleftrightarrow>
     (case a of
        Some v \<Rightarrow> (\<exists>w. b = Some w \<and> vsh_Domains w = vsh_Domains v \<and> vsh_Routes w = vsh_Routes v \<and> vsh_DelegateOptions w = vsh_DelegateOptions v)
      | None \<Rightarrow> (\<forall>w. b = Some w \<longrightarrow> vsh_Domains w = [] \<and> vsh_Routes w = [] \<and> vsh_DelegateOptions w = []))"

definition ssl_kept :: "edge_ssl option \<Rightarrow> edge_ssl option \<Rightarrow> bool" where
  "ssl_kept a b \<longleftrightarrow>
     (case a of
        Some v \<Rightarrow> (\<exists>w. b = Some w \<and> essl_SniDomains w = essl_SniDomains v \<and> essl_Other w = essl_Other v \<and>
          (essl_OneWayTls v \<noteq> None \<longrightarrow> w = v))
      | None \<Rightarrow> b = None)"

definition vs_kept :: "virtual_service \<Rightarrow> virtual_service \<Rightarrow> bool" where
  "vs_kept v w \<longleftrightarrow> vsv_Metadata w = vsv_Metadata v \<and> host_kept (vsv_VirtualHost v) (vsv_VirtualHost w) \<and>
     ssl_kept (vsv_SslConfig v) (vsv_SslConfig w)"

lemma vs_kept_refl [simp]: "vs_kept v v"
  by (auto simp: vs_kept_def host_kept_def ssl_kept_def split: option.splits)

lemma host_kept_trans: "host_kept a b \<Longrightarrow> host_kept b c \<Longrightarrow> host_kept a c"
  by (auto simp: host_kept_def split: option.splits)

lemma ssl_kept_trans: "ssl_kept a b \<Longrightarrow> ssl_kept b c \<Longrightarrow> ssl_kept a c"
  by (auto simp: ssl_kept_def split: option.splits)

lemma vs_kept_trans: "vs_kept a b \<Longrightarrow> vs_kept b c \<Longrightarrow> vs_kept a c"
  unfolding vs_kept_def using host_kept_trans ssl_kept_trans by metis

definition edge_step :: "edge_env \<Rightarrow> edge_state \<Rightarrow> edge_state \<Rightarrow> bool" where
  "edge_step env st st' \<longleftrightarrow>
     (\<exists>new. vst_reports (est_visit st') = vst_reports (est_visit st) @ new \<and> mirrored env new) \<and>
     list_all2 vs_kept (est_VirtualServices st) (est_VirtualServices st')"

lemma edge_step_refl [simp]: "edge_step env st st"
  by (simp add: edge_step_def list.rel_refl)

lemma edge_step_trans: "edge_step env a b \<Longrightarrow> edge_step env b c \<Longrightarrow> edge_step env a c"
  unfolding edge_step_def by (auto simp: mirrored_append intro: list_all2_trans [OF vs_kept_trans])

text \<open>Reports on virtual services and gateways need no mirror.\<close>

fun report_on_table :: "edge_report \<Rightarrow> bool" where
  "report_on_table (AddError (RouteTableRes _) _) = True"
| "report_on_table (AddWarning (RouteTableRes _) _) = True"
| "report_on_table _ = False"

lemma mirrored_no_tables: "\<forall>r \<in> set rs. \<not> report_on_table r \<Longrightarrow> mirrored env rs"
  by (auto simp: mirrored_def)

lemma edge_step_addReports: "\<forall>r \<in> set rs. \<not> report_on_table r \<Longrightarrow> edge_step env st (addReports rs st)"
  by (simp add: edge_step_def addReports_def list.rel_refl mirrored_no_tables)

lemma list_all2_update:
  assumes "i < length xs \<Longrightarrow> vs_kept (xs ! i) y"
  shows "list_all2 vs_kept xs (xs[i := y])"
  using assms by (cases "i < length xs") (auto simp: list_all2_conv_all_nth nth_list_update)

lemma services_addReports [simp]: "est_VirtualServices (addReports rs st) = est_VirtualServices st"
  by (simp add: addReports_def)

section \<open>Runs\<close>

text \<open>A run returns, what it returns has a property, and the state has made a step.\<close>

definition run_ok :: "edge_env \<Rightarrow> ('r \<Rightarrow> bool) \<Rightarrow> edge_state \<Rightarrow> ('r \<times> edge_state) outcome \<Rightarrow> bool" where
  "run_ok env Q st0 out \<longleftrightarrow> (\<exists>r st'. out = Inr (r, st') \<and> Q r \<and> edge_step env st0 st')"

lemma run_ok_Inr: "Q r \<Longrightarrow> edge_step env st0 st \<Longrightarrow> run_ok env Q st0 (Inr (r, st))"
  by (simp add: run_ok_def)

lemma run_ok_bind:
  assumes "run_ok env Q st0 m" "\<And>r st. Q r \<Longrightarrow> edge_step env st0 st \<Longrightarrow> run_ok env R st0 (f (r, st))"
  shows "run_ok env R st0 (bind_out m f)"
  using assms by (auto simp: run_ok_def)

lemma run_ok_from:
  assumes "edge_step env st0 st" "run_ok env Q st out"
  shows "run_ok env Q st0 out"
  using assms edge_step_trans by (fastforce simp: run_ok_def)

lemma run_ok_fold:
  assumes "\<And>x a st. x \<in> set xs \<Longrightarrow> Q a \<Longrightarrow> edge_step env st0 st \<Longrightarrow> run_ok env Q st0 (f x (a, st))"
    and "Q a" "edge_step env st0 st"
  shows "run_ok env Q st0 (fold_out f xs (a, st))"
proof -
  have "\<exists>s'. fold_out f xs (a, st) = Inr s' \<and> (Q (fst s') \<and> edge_step env st0 (snd s'))"
    by (rule fold_out_returns) (use assms in \<open>fastforce simp: run_ok_def\<close>)+
  then show ?thesis by (auto simp: run_ok_def)
qed

section \<open>Virtual hosts\<close>

text \<open>The routes of a virtual host have matchers and an action that is not a delegation, and end in the source
  of the virtual host.\<close>

definition vhost_ok :: "mem_vhost \<Rightarrow> bool" where
  "vhost_ok vh \<longleftrightarrow>
     (\<forall>r \<in> set (mvh_Routes vh). mr_Matchers r \<noteq> [] \<and> (\<forall>a. mr_Action r \<noteq> EdgeDelegateAction a) \<and>
        mr_Sources r \<noteq> [] \<and> mvh_Sources vh = [last (mr_Sources r)])"

lemma vhost_option_reports:
  "\<forall>r \<in> set rs. \<not> report_on_table r \<Longrightarrow>
    \<forall>r \<in> set (snd (snd (foldl (mergeVhostOptionRef available vs) (h, opts, rs) refs))). \<not> report_on_table r"
proof (induction refs arbitrary: h opts rs)
  case Nil
  then show ?case by simp
next
  case (Cons ref refs)
  obtain h' opts' rs' where step: "mergeVhostOptionRef available vs (h, opts, rs) ref = (h', opts', rs')"
    by (cases "mergeVhostOptionRef available vs (h, opts, rs) ref") auto
  have "\<forall>r \<in> set rs'. \<not> report_on_table r"
    using step Cons.prems by (auto simp: mergeVhostOptionRef_def split: option.splits)
  then show ?case using Cons.IH [of rs' h' opts'] step by simp
qed

lemma regex_reports: "r \<in> set (validateRoutesRegex lib vs ref h routes) \<Longrightarrow> \<not> report_on_table r"
  by (auto simp: validateRoutesRegex_def regexReports_def split: option.splits sum.splits)

lemma duplicate_reports: "r \<in> set (validateAnyDuplicateMatchers lib vs nm h seen ms) \<Longrightarrow> \<not> report_on_table r"
  by (induction ms arbitrary: seen) (auto simp: Let_def split: if_splits)

lemma checkEarlier_reports:
  assumes "\<And>e v. \<not> report_on_table (warn e v)"
  shows "r \<in> set (snd (checkEarlier rt lib test warn m es h)) \<Longrightarrow> \<not> report_on_table r"
proof (induction es arbitrary: h)
  case Nil
  then show ?case by simp
next
  case (Cons e es)
  then show ?case using assms by (auto simp: Let_def split: prod.splits if_splits) (metis snd_conv)+
qed

lemma prefix_reports: "r \<in> set (snd (validatePrefixHijacking rt lib vs nm seen ms h)) \<Longrightarrow> \<not> report_on_table r"
proof (induction ms arbitrary: seen h)
  case Nil
  then show ?case by simp
next
  case (Cons m ms)
  define warn where "warn = (\<lambda>e v. AddWarning (VirtualServiceRes vs) (UnorderedPrefixErr nm (getPrefix e) v))"
  obtain h1 ws where 1: "checkEarlier rt lib prefixShortCircuits warn m seen h = (h1, ws)" by fastforce
  have "\<not> report_on_table r" if "r \<in> set ws"
    using checkEarlier_reports [of warn r rt lib prefixShortCircuits m seen h] 1 that by (simp add: warn_def)
  moreover have "snd (validatePrefixHijacking rt lib vs nm seen (m # ms) h) =
      ws @ snd (validatePrefixHijacking rt lib vs nm (if getPrefix m \<noteq> [] then seen @ [m] else seen) ms h1)"
    using 1 by (simp add: warn_def Let_def split: prod.splits)
  ultimately show ?case using Cons.prems Cons.IH by (auto split: if_splits)
qed

lemma regex_hijack_reports: "r \<in> set (snd (validateRegexHijacking rt lib vs nm seen ms h)) \<Longrightarrow> \<not> report_on_table r"
proof (induction ms arbitrary: seen h)
  case Nil
  then show ?case by simp
next
  case (Cons m ms)
  define warn where "warn = (\<lambda>e v. AddWarning (VirtualServiceRes vs) (UnorderedRegexErr nm (getRegex e) v))"
  obtain h1 ws where 1: "checkEarlier rt lib (regexShortCircuits lib) warn m seen h = (h1, ws)" by fastforce
  have "\<not> report_on_table r" if "r \<in> set ws"
    using checkEarlier_reports [of warn r rt lib "regexShortCircuits lib" m seen h] 1 that by (simp add: warn_def)
  moreover have "getRegex m = [] \<Longrightarrow> snd (validateRegexHijacking rt lib vs nm seen (m # ms) h) =
      ws @ snd (validateRegexHijacking rt lib vs nm seen ms h1)"
    using 1 by (simp add: warn_def Let_def split: prod.splits)
  ultimately show ?case using Cons.prems Cons.IH by (cases "getRegex m = []") auto
qed

lemma short_circuit_reports:
  "r \<in> set (snd (validateRouteShortCircuiting rt lib vs nm routes h)) \<Longrightarrow> \<not> report_on_table r"
  using duplicate_reports prefix_reports regex_hijack_reports
  by (auto simp: validateRouteShortCircuiting_def Let_def split: prod.splits) (metis snd_conv)+

lemma domain_reports: "r \<in> set (validateVirtualServiceDomains lib gw vss vs) \<Longrightarrow> \<not> report_on_table r"
  by (auto simp: validateVirtualServiceDomains_def conflictsOf_def Let_def split: if_splits)

lemma ensureVirtualHost_facts:
  assumes "ensureVirtualHost v = (vs, vh)"
  shows "vsv_Metadata vs = vsv_Metadata v" "vsv_SslConfig vs = vsv_SslConfig v" "host_kept (vsv_VirtualHost v) (Some vh)"
  using assms by (auto simp: ensureVirtualHost_def host_kept_def Let_def split: option.splits)

lemma virtualServiceToVirtualHost_ok:
  assumes "ensureVirtualHost (est_VirtualServices st ! i) = (vs, vh)"
  shows "run_ok (ve_edge env) vhost_ok st (virtualServiceToVirtualHost env gatewayName proxyName i vs vh st)"
proof -
  obtain h options warnings where d: "mergeDelegatedVirtualHostOptions (ve_VirtualHostOptions env) i vh (vst_heap (est_visit st)) =
      (h, options, warnings)" by (metis prod_cases3)
  then have w: "\<forall>r \<in> set warnings. \<not> report_on_table r"
    using vhost_option_reports [of "[]" "ve_VirtualHostOptions env" i "vst_heap (est_visit st)" "vsh_Options vh" "vsh_DelegateOptions vh"]
    by (simp add: mergeDelegatedVirtualHostOptions_def)
  define ctx where "ctx = \<lparr>vc_gatewayName = gatewayName, vc_proxyName = proxyName, vc_virtualService = VirtualServiceRes i,
    vc_virtualHostOptions = options\<rparr>"
  define visit0 where "visit0 = \<lparr>vst_heap = h, vst_reports = vst_reports (est_visit st) @ warnings\<rparr>"
  obtain routes visit1 where c: "ConvertVirtualService (length (ee_RouteTables (ve_edge env)) + 1) (ve_edge env) ctx (vsv_Metadata vs)
      (vsh_Routes vh) visit0 = Inr (routes, visit1)"
    and ok: "\<forall>r \<in> set routes. converted (ve_edge env) ctx (vsv_Metadata vs) r" and log: "reports_step (ve_edge env) ctx visit0 visit1"
    using ConvertVirtualService_ok by blast
  define name where "name = VirtualHostName vs"
  define rs where "rs = validateRoutesRegex (ve_libs env) i (em_Ref (vsv_Metadata vs)) (vst_heap visit1) routes"
  obtain h2 ws where sc: "(if ese_WarnOnRouteShortCircuiting (ve_settings env)
      then validateRouteShortCircuiting (ee_runtime (ve_edge env)) (ve_libs env) i name routes (vst_heap visit1)
      else (vst_heap visit1, [])) = (h2, ws)" by fastforce
  have ws: "\<forall>r \<in> set ws. \<not> report_on_table r"
    using sc short_circuit_reports by (metis (no_types, lifting) empty_iff list.set(1) snd_conv)
  obtain new where new: "vst_reports visit1 = vst_reports visit0 @ new" "mirrored (ve_edge env) new"
    using log by (auto simp: reports_step_def ctx_def)
  have "mirrored (ve_edge env) (warnings @ new @ rs @ ws)"
    using mirrored_no_tables [OF w] mirrored_no_tables [OF ws] new(2) mirrored_no_tables [of rs] regex_reports
    by (auto simp: rs_def intro!: mirrored_append)
  moreover have "list_all2 vs_kept (est_VirtualServices st)
      ((est_VirtualServices st)[i := vs\<lparr>vsv_VirtualHost := Some (vh\<lparr>vsh_Options := options\<rparr>)\<rparr>])"
    using ensureVirtualHost_facts [OF assms]
    by (intro list_all2_update) (auto simp: vs_kept_def host_kept_def ssl_kept_def split: option.splits)
  moreover have "virtualServiceToVirtualHost env gatewayName proxyName i vs vh st =
      Inr (\<lparr>mvh_Name = name, mvh_Domains = vsh_Domains vh, mvh_Routes = routes, mvh_Options = options,
         mvh_Sources = [\<lparr>src_Kind = ee_Kind (ve_edge env) (VirtualServiceRes i), src_Ref = em_Ref (vsv_Metadata vs),
           src_Generation = em_Generation (vsv_Metadata vs)\<rparr>]\<rparr>,
       st\<lparr>est_VirtualServices := (est_VirtualServices st)[i := vs\<lparr>vsv_VirtualHost := Some (vh\<lparr>vsh_Options := options\<rparr>)\<rparr>],
          est_visit := \<lparr>vst_heap = h2, vst_reports = vst_reports visit1 @ rs @ ws\<rparr>\<rparr>)"
    using d c sc unfolding virtualServiceToVirtualHost_def ctx_def visit0_def name_def rs_def by simp
  ultimately show ?thesis using ok new(1)
    by (auto simp: run_ok_def edge_step_def vhost_ok_def converted_def ctx_def visit0_def)
qed

lemma computeVirtualHost_ok:
  assumes "\<forall>vh \<in> set hosts. vhost_ok vh" "edge_step (ve_edge env) st0 st"
  shows "run_ok (ve_edge env) (\<lambda>hosts. \<forall>vh \<in> set hosts. vhost_ok vh) st0
    (computeVirtualHost env gatewayName proxyName i (hosts, st))"
proof -
  obtain vs vh where e: "ensureVirtualHost (est_VirtualServices st ! i) = (vs, vh)" by fastforce
  show ?thesis
    unfolding computeVirtualHost_def using e assms
    by (auto intro!: run_ok_bind [OF run_ok_from [OF assms(2) virtualServiceToVirtualHost_ok [OF e]]] run_ok_Inr)
qed

lemma services_applyGlobal:
  "list_all2 vs_kept (est_VirtualServices st) (est_VirtualServices (applyGlobalVirtualServiceSettings settings is st))"
proof (cases "ese_OneWayTls settings")
  case None
  then show ?thesis by (simp add: applyGlobalVirtualServiceSettings_def list.rel_refl)
next
  case (Some val)
  have "vs_kept v (applyOneWayTls val v)" for v
    by (auto simp: applyOneWayTls_def vs_kept_def host_kept_def ssl_kept_def split: option.splits)
  then have "list_all2 vs_kept vss (foldl (\<lambda>vss i. vss[i := applyOneWayTls val (vss ! i)]) vss is)" for vss
  proof (induction "is" arbitrary: vss)
    case Nil
    then show ?case by (simp add: list.rel_refl)
  next
    case (Cons i "is")
    then show ?case
      using list_all2_trans [OF vs_kept_trans list_all2_update Cons.IH] by (simp add: Cons.prems)
  qed
  then show ?thesis using Some by (simp add: applyGlobalVirtualServiceSettings_def)
qed

lemma hostsFor_ok:
  "run_ok (ve_edge (ge_vs env)) (\<lambda>hosts. \<forall>vh \<in> set hosts. vhost_ok vh) st (hostsFor env i gw proxyName virtualServices st)"
proof -
  define st1 where "st1 = applyGlobalVirtualServiceSettings (ve_settings (ge_vs env)) virtualServices st"
  define st2 where "st2 = addReports (validateVirtualServiceDomains (ve_libs (ge_vs env)) i (est_VirtualServices st1) virtualServices) st1"
  have "est_visit st1 = est_visit st"
    by (simp add: st1_def applyGlobalVirtualServiceSettings_def split: option.splits)
  then have "edge_step (ve_edge (ge_vs env)) st st1"
    using services_applyGlobal by (simp add: edge_step_def st1_def)
  then have "edge_step (ve_edge (ge_vs env)) st st2"
    unfolding st2_def by (rule edge_step_trans) (use domain_reports in \<open>blast intro: edge_step_addReports\<close>)
  then have "run_ok (ve_edge (ge_vs env)) (\<lambda>hosts. \<forall>vh \<in> set hosts. vhost_ok vh) st
      (fold_out (computeVirtualHost (ge_vs env) (em_Name (egw_Metadata gw)) proxyName) virtualServices ([], st2))"
    by (intro run_ok_fold computeVirtualHost_ok) auto
  then show ?thesis
    by (simp add: hostsFor_def ComputeVirtualHosts_def computeHttpListenerVirtualHosts_def st1_def st2_def Let_def)
qed

section \<open>Listeners\<close>

lemma selectVirtualServices_step:
  assumes "selectVirtualServices env i g ssl st = (vs, st')"
  shows "edge_step e st st'" "est_VirtualServices st' = est_VirtualServices st"
    "\<forall>v \<in> set vs. v < length (est_VirtualServices st) \<and> (ssl \<longrightarrow> vsv_SslConfig (est_VirtualServices st' ! v) \<noteq> None)"
proof -
  have rs: "\<forall>r \<in> set (snd (getVirtualServicesForHttpGateway lib i vss g ssl)). \<not> report_on_table r" for lib vss
    by (auto simp: getVirtualServicesForHttpGateway_def Let_def split: sum.splits)
  show "edge_step e st st'" "est_VirtualServices st' = est_VirtualServices st"
    using assms rs by (auto simp: selectVirtualServices_def intro!: edge_step_addReports split: prod.splits) (metis snd_conv)
  show "\<forall>v \<in> set vs. v < length (est_VirtualServices st) \<and> (ssl \<longrightarrow> vsv_SslConfig (est_VirtualServices st' ! v) \<noteq> None)"
    using assms
    by (auto simp: selectVirtualServices_def getVirtualServicesForHttpGateway_def HttpGatewayContainsVirtualService_def hasSsl_def Let_def
        split: if_splits)
qed

text \<open>In an aggregate listener every reference of a filter chain is resolved, and virtual hosts are stored under their names.\<close>

definition builder_ok :: "aggregate_listener \<Rightarrow> bool" where
  "builder_ok b \<longleftrightarrow>
     (\<forall>n vh. agl_VirtualHosts b n = Some vh \<longrightarrow> mvh_Name vh = n \<and> vhost_ok vh) \<and>
     (\<forall>c \<in> set (agl_HttpFilterChains b). set (efc_VirtualHostRefs c) \<subseteq> dom (agl_VirtualHosts b) \<and>
        efc_HttpOptionsRef c \<in> dom (agl_HttpOptions b))"

lemma builder_ok_new [simp]: "builder_ok newBuilder"
  by (simp add: builder_ok_def newBuilder_def)

lemma store_hosts:
  "foldl (\<lambda>m vh. m(mvh_Name vh \<mapsto> vh)) m hosts n = Some vh \<Longrightarrow> (vh \<in> set hosts \<and> mvh_Name vh = n) \<or> m n = Some vh"
proof (induction hosts arbitrary: m)
  case Nil
  then show ?case by simp
next
  case (Cons x hosts)
  then show ?case using Cons.IH [of "m(mvh_Name x \<mapsto> x)"] by (auto split: if_splits)
qed

lemma dom_store_hosts: "dom (foldl (\<lambda>m vh. m(mvh_Name vh \<mapsto> vh)) m hosts) = dom m \<union> mvh_Name ` set hosts"
  by (induction hosts arbitrary: m) auto

lemma builder_ok_add:
  assumes "builder_ok b" "\<forall>vh \<in> set hosts. vhost_ok vh"
  shows "builder_ok (addHttpFilterChain lib st hosts opts matcher b)"
proof -
  have "mvh_Name vh = n \<and> vhost_ok vh"
    if "foldl (\<lambda>m vh. m(mvh_Name vh \<mapsto> vh)) (agl_VirtualHosts b) hosts n = Some vh" for n vh
    using store_hosts [OF that] assms by (auto simp: builder_ok_def)
  then show ?thesis using assms(1)
    by (auto simp: builder_ok_def addHttpFilterChain_def HashAndStoreHttpOptions_at_def Let_def dom_store_hosts)
qed

lemma builder_ok_tcp: "builder_ok b \<Longrightarrow> builder_ok (addTcpListener m g b)"
  by (simp add: builder_ok_def addTcpListener_def)

lemma addSslChain_ok:
  assumes "builder_ok b" "edge_step (ve_edge (ge_vs env)) st0 st"
  shows "run_ok (ve_edge (ge_vs env)) builder_ok st0 (addSslChain env proxyName i gw opts matcherOf grp (b, st))"
  unfolding addSslChain_def using assms
  by (cases grp) (auto intro!: run_ok_bind [OF run_ok_from [OF assms(2) hostsFor_ok]] run_ok_Inr builder_ok_add)

lemma addPlainChain_ok:
  assumes "builder_ok b" "edge_step (ve_edge (ge_vs env)) st0 st"
  shows "run_ok (ve_edge (ge_vs env)) builder_ok st0 (addPlainChain env proxyName i gw opts matcher vs (b, st))"
  unfolding addPlainChain_def using assms
  by (auto intro!: run_ok_bind [OF run_ok_from [OF assms(2) hostsFor_ok]] run_ok_Inr builder_ok_add)

lemma group_returns:
  assumes "\<forall>i \<in> set vs. vsv_SslConfig (vss ! i) \<noteq> None"
  shows "\<exists>groups. GroupVirtualServicesBySslConfig lib vss vs = Inr groups"
proof -
  have "\<exists>g. fold_out (groupVirtualService lib vss) vs \<lparr>sgr_merged = Map.empty, sgr_grouped = Map.empty\<rparr> = Inr g \<and> True"
    by (rule fold_out_returns) (use assms in \<open>auto simp: groupVirtualService_def Let_def split: option.splits\<close>)
  then show ?thesis by (auto simp: GroupVirtualServicesBySslConfig_def)
qed

lemma addSslChains_ok:
  assumes "builder_ok b" "edge_step (ve_edge (ge_vs env)) st0 st" "\<forall>i \<in> set vs. vsv_SslConfig (est_VirtualServices st ! i) \<noteq> None"
  shows "run_ok (ve_edge (ge_vs env)) builder_ok st0 (addSslChains env proxyName i gw opts matcherOf vs (b, st))"
proof -
  obtain groups where "GroupVirtualServicesBySslConfig (ve_libs (ge_vs env)) (est_VirtualServices st) vs = Inr groups"
    using group_returns [OF assms(3)] by blast
  then show ?thesis unfolding addSslChains_def using assms(1,2) by (auto intro!: run_ok_fold addSslChain_ok)
qed

lemma chains_of_selected:
  assumes "builder_ok b" "edge_step (ve_edge (ge_vs env)) st0 st" "selectVirtualServices env i g ssl st = (vs, st')"
  shows "ssl \<Longrightarrow> run_ok (ve_edge (ge_vs env)) builder_ok st0 (addSslChains env proxyName i gw opts matcherOf vs (b, st'))"
    and "run_ok (ve_edge (ge_vs env)) builder_ok st0 (addPlainChain env proxyName i gw opts matcher vs (b, st'))"
  using assms selectVirtualServices_step [OF assms(3)]
  by (auto intro!: addSslChains_ok addPlainChain_ok intro: edge_step_trans)

definition listener_ok :: "edge_listener \<Rightarrow> bool" where
  "listener_ok l =
     (case eli_ListenerType l of
        EdgeHttpListener h \<Rightarrow> \<forall>vh \<in> set (ehl_VirtualHosts h). vhost_ok vh
      | EdgeTcpListener _ \<Rightarrow> True
      | EdgeHybridListener ls \<Rightarrow> ls \<noteq> [] \<and>
          (\<forall>ml \<in> set ls. \<forall>h. ml_ListenerType ml = Some (MatchedHttpListener h) \<longrightarrow> (\<forall>vh \<in> set (ehl_VirtualHosts h). vhost_ok vh))
      | EdgeAggregateListener b \<Rightarrow> builder_ok b)"

text \<open>The result of a listener translator: no listener or one that is well-formed and keeps the name and address of its gateway.\<close>

definition listener_of :: "edge_gateway \<Rightarrow> edge_listener option \<Rightarrow> bool" where
  "listener_of gw l \<longleftrightarrow> (\<forall>x. l = Some x \<longrightarrow> listener_ok x \<and> eli_Name x = ListenerName gw \<and>
     eli_BindAddress x = egw_BindAddress gw \<and> eli_BindPort x = egw_BindPort gw \<and> map src_Ref (eli_Sources x) = [em_Ref (egw_Metadata gw)])"

lemma listener_of_simps [simp]: "listener_of gw None"
  "listener_of gw (Some (makeListener env i gw ty ssls)) = listener_ok (makeListener env i gw ty ssls)"
  by (simp_all add: listener_of_def makeListener_def)

lemma listener_ok_make [simp]:
  "listener_ok (makeListener env i gw (EdgeHttpListener h) ssls) = (\<forall>vh \<in> set (ehl_VirtualHosts h). vhost_ok vh)"
  "listener_ok (makeListener env i gw (EdgeTcpListener t) ssls)"
  "listener_ok (makeListener env i gw (EdgeAggregateListener b) ssls) = builder_ok b"
  by (simp_all add: listener_ok_def makeListener_def)

definition matched_ok :: "matched_listener list \<Rightarrow> bool" where
  "matched_ok ls \<longleftrightarrow>
     (\<forall>ml \<in> set ls. \<forall>h. ml_ListenerType ml = Some (MatchedHttpListener h) \<longrightarrow> (\<forall>vh \<in> set (ehl_VirtualHosts h). vhost_ok vh))"

lemma listener_ok_hybrid [simp]:
  "listener_ok (makeListener env i gw (EdgeHybridListener ls) ssls) = (ls \<noteq> [] \<and> matched_ok ls)"
  by (simp add: listener_ok_def makeListener_def matched_ok_def)

lemma matched_ok_simps [simp]: "matched_ok []" "matched_ok (xs @ ys) = (matched_ok xs \<and> matched_ok ys)"
  by (auto simp: matched_ok_def)

lemma tcp_reports: "r \<in> set (validateTcpHosts i g cfg) \<Longrightarrow> \<not> report_on_table r"
  by (auto simp: validateTcpHosts_def Let_def split: option.splits if_splits)

lemma gateway_reports: "r \<in> set (snd (selectGateways f i gws)) \<Longrightarrow> \<not> report_on_table r"
  by (auto simp: selectGateways_def split: sum.splits)

lemma HttpTranslator_ok:
  "run_ok (ve_edge (ge_vs env)) (listener_of gw) st (HttpTranslator_ComputeListener env proxyName i gw st)"
proof -
  have "run_ok (ve_edge (ge_vs env)) (listener_of gw) st
      (let (vs, st) = selectVirtualServices env i g (egw_Ssl gw) st
       in bind_out (hostsFor env i gw proxyName vs st) (\<lambda>(hosts, st).
          Inr (Some (makeListener env i gw (EdgeHttpListener \<lparr>ehl_VirtualHosts = hosts, ehl_Options = hgw_Options g\<rparr>)
            (if egw_Ssl gw then map (\<lambda>v. vsv_SslConfig (est_VirtualServices st ! v)) vs else [])), st)))" for g
  proof -
    obtain vs st1 where s: "selectVirtualServices env i g (egw_Ssl gw) st = (vs, st1)" by fastforce
    show ?thesis
      using s by (auto intro!: run_ok_bind [OF run_ok_from [OF selectVirtualServices_step(1) [OF s] hostsFor_ok]] run_ok_Inr)
  qed
  then show ?thesis
    by (auto simp: HttpTranslator_ComputeListener_def intro: run_ok_Inr split: option.splits edge_gateway_type.splits)
qed

section \<open>Hybrid gateways\<close>

lemma edge_step_add:
  "edge_step e st0 st \<Longrightarrow> \<forall>r \<in> set rs. \<not> report_on_table r \<Longrightarrow> edge_step e st0 (addReports rs st)"
  using edge_step_trans edge_step_addReports by blast

lemma hcm_step: "edge_step e st (snd (reconcileGatewayLevelHCMConfig lib gw g st))"
  by (auto simp: reconcileGatewayLevelHCMConfig_def edge_step_def Let_def list.rel_refl split: option.splits)

lemma computeHybridMatched_ok:
  assumes "matched_ok ls" "edge_step (ve_edge (ge_vs env)) st0 st"
  shows "run_ok (ve_edge (ge_vs env)) matched_ok st0 (computeHybridMatched env proxyName i gw mg (ls, st))"
proof (cases "mg_GatewayType mg")
  case None
  then show ?thesis using assms
    by (auto simp: computeHybridMatched_def Let_def matched_ok_def intro!: run_ok_Inr)
next
  case (Some ty)
  show ?thesis
  proof (cases ty)
    case (MatchedTcp g)
    then show ?thesis using Some assms tcp_reports
      by (auto simp: computeHybridMatched_def Let_def matched_ok_def intro!: run_ok_Inr edge_step_add)
  next
    case (MatchedHttp g)
    define ssl where "ssl = (gm_SslConfig (getMatcher (mg_Matcher mg)) \<noteq> None)"
    obtain vs st1 where s: "selectVirtualServices env i (getHttp g) ssl st = (vs, st1)" by fastforce
    note step = edge_step_trans [OF assms(2) selectVirtualServices_step(1) [OF s]]
    show ?thesis
      using MatchedHttp Some assms s unfolding ssl_def
      by (auto simp: computeHybridMatched_def Let_def matched_ok_def
          intro!: run_ok_bind [OF run_ok_from [OF step hostsFor_ok]] run_ok_Inr split del: if_split)
        (auto simp: matched_ok_def intro!: run_ok_Inr run_ok_bind [OF run_ok_from [OF step hostsFor_ok]])
  qed
qed

lemma computeMatchedHttpListener_ok:
  assumes "matched_ok ls" "edge_step (ve_edge (ge_vs env)) st0 st"
  shows "run_ok (ve_edge (ge_vs env)) matched_ok st0 (computeMatchedHttpListener env proxyName i gw g (ls, st))"
proof -
  define ssl where "ssl = (gm_SslConfig (getMatcher (mhg_Matcher g)) \<noteq> None)"
  obtain a st1 where a: "reconcileGatewayLevelHCMConfig (ve_libs (ge_vs env)) gw g st = (a, st1)" by fastforce
  obtain vs st2 where s: "selectVirtualServices env i (getHttp (mhg_HttpGateway g)) ssl st1 = (vs, st2)" by fastforce
  have "edge_step (ve_edge (ge_vs env)) st st1" using hcm_step a by (metis snd_conv)
  then have "edge_step (ve_edge (ge_vs env)) st0 st2"
    using assms(2) selectVirtualServices_step(1) [OF s] edge_step_trans by blast
  then show ?thesis
    using assms(1) a s unfolding ssl_def computeMatchedHttpListener_def
    by (auto simp: Let_def matched_ok_def intro!: run_ok_bind [OF run_ok_from [OF _ hostsFor_ok]] run_ok_Inr)
qed

lemma delegated_reports:
  "\<forall>r \<in> set (snd (SelectMatchableHttpGateways env i d) @ snd (SelectMatchableTcpGateways env i d')). \<not> report_on_table r"
  by (auto simp: SelectMatchableHttpGateways_def SelectMatchableTcpGateways_def dest: gateway_reports)

lemma hybridDelegated_ok:
  "run_ok (ve_edge (ge_vs env)) matched_ok st (computeHybridListenerFromDelegatedGateways env proxyName i gw hybrid st)"
proof -
  obtain https rs where h: "SelectMatchableHttpGateways env i (hyb_DelegatedHttpGateways hybrid) = (https, rs)" by fastforce
  obtain tcps rs' where t: "SelectMatchableTcpGateways env i (hyb_DelegatedTcpGateways hybrid) = (tcps, rs')" by fastforce
  have "edge_step (ve_edge (ge_vs env)) st (addReports (rs @ rs') st)"
    using delegated_reports [of env i "hyb_DelegatedHttpGateways hybrid" "hyb_DelegatedTcpGateways hybrid"] h t
    by (intro edge_step_addReports) simp
  then have fold: "run_ok (ve_edge (ge_vs env)) matched_ok st
      (fold_out (computeMatchedHttpListener env proxyName i gw) https ([], addReports (rs @ rs') st))"
    by (intro run_ok_fold computeMatchedHttpListener_ok) auto
  have "matched_ok (map (\<lambda>g. fst (computeMatchedTcpListener i g)) tcps)"
    by (auto simp: matched_ok_def computeMatchedTcpListener_def Let_def)
  moreover have "\<forall>r \<in> set (concat (map (\<lambda>g. snd (computeMatchedTcpListener i g)) tcps)). \<not> report_on_table r"
    using tcp_reports by (auto simp: computeMatchedTcpListener_def Let_def)
  ultimately show ?thesis
    using h t by (auto simp: computeHybridListenerFromDelegatedGateways_def intro!: run_ok_bind [OF fold] run_ok_Inr edge_step_add)
qed

lemma HybridTranslator_ok:
  "run_ok (ve_edge (ge_vs env)) (listener_of gw) st (HybridTranslator_ComputeListener env proxyName i gw st)"
proof -
  have inl: "run_ok (ve_edge (ge_vs env)) matched_ok st (fold_out (computeHybridMatched env proxyName i gw) mgs ([], st))" for mgs
    by (intro run_ok_fold computeHybridMatched_ok) auto
  show ?thesis
    by (auto simp: HybridTranslator_ComputeListener_def intro!: run_ok_Inr run_ok_bind [OF inl] run_ok_bind [OF hybridDelegated_ok]
        edge_step_add split: option.splits edge_gateway_type.splits)
qed

section \<open>Aggregate listeners\<close>

lemma httpAggregate_ok:
  "run_ok (ve_edge (ge_vs env)) builder_ok st (computeAggregateListenerForHttpGateway env proxyName i gw g st)"
proof -
  obtain vs st1 where s: "selectVirtualServices env i g (egw_Ssl gw) st = (vs, st1)" by fastforce
  then show ?thesis
    by (auto simp: computeAggregateListenerForHttpGateway_def intro!: chains_of_selected [OF builder_ok_new edge_step_refl s])
qed

lemma computeAggregateMatched_ok:
  assumes "builder_ok b" "edge_step (ve_edge (ge_vs env)) st0 st"
  shows "run_ok (ve_edge (ge_vs env)) builder_ok st0 (computeAggregateMatched env proxyName i gw mg (b, st))"
proof (cases "\<exists>g. mg_GatewayType mg = Some (MatchedHttp g)")
  case False
  then show ?thesis using assms
    by (auto simp: computeAggregateMatched_def Let_def intro!: run_ok_Inr builder_ok_tcp
        split: option.splits matched_gateway_type.splits)
next
  case True
  then obtain g where g: "mg_GatewayType mg = Some (MatchedHttp g)" by blast
  define ssl where "ssl = (gm_SslConfig (getMatcher (mg_Matcher mg)) \<noteq> None)"
  obtain vs st1 where s: "selectVirtualServices env i (getHttp g) ssl st = (vs, st1)" by fastforce
  show ?thesis
    using g s chains_of_selected [OF assms s, of proxyName gw] unfolding ssl_def computeAggregateMatched_def
    by (simp add: Let_def)
qed

lemma processMatchableHttpGateway_ok:
  assumes "builder_ok b" "edge_step (ve_edge (ge_vs env)) st0 st"
  shows "run_ok (ve_edge (ge_vs env)) builder_ok st0 (processMatchableHttpGateway env proxyName i gw g (b, st))"
proof -
  define ssl where "ssl = (gm_SslConfig (getMatcher (mhg_Matcher g)) \<noteq> None)"
  obtain a st1 where a: "reconcileGatewayLevelHCMConfig (ve_libs (ge_vs env)) gw g st = (a, st1)" by fastforce
  obtain vs st2 where s: "selectVirtualServices env i (getHttp (mhg_HttpGateway g)) ssl st1 = (vs, st2)" by fastforce
  have step: "edge_step (ve_edge (ge_vs env)) st0 st1" using assms(2) hcm_step a edge_step_trans by (metis snd_conv)
  show ?thesis
    using a s chains_of_selected [OF assms(1) step s, of proxyName gw] unfolding ssl_def processMatchableHttpGateway_def
    by (simp add: Let_def)
qed

lemma processTcp_ok:
  assumes "builder_ok b" "edge_step e st0 st"
  shows "\<exists>b' st'. foldl (processMatchableTcpGateway i) (b, st) tcps = (b', st') \<and> builder_ok b' \<and> edge_step e st0 st'"
  using assms
proof (induction tcps arbitrary: b st)
  case Nil
  then show ?case by simp
next
  case (Cons g tcps)
  then show ?case
    using tcp_reports by (simp add: processMatchableTcpGateway_def Let_def builder_ok_tcp edge_step_add)
qed

lemma delegatedAggregate_ok:
  "run_ok (ve_edge (ge_vs env)) (\<lambda>b. \<forall>x. b = Some x \<longrightarrow> builder_ok x) st (computeListenerFromDelegatedGateway env proxyName i gw hybrid st)"
proof -
  obtain https rs where h: "SelectMatchableHttpGateways env i (hyb_DelegatedHttpGateways hybrid) = (https, rs)" by fastforce
  obtain tcps rs' where t: "SelectMatchableTcpGateways env i (hyb_DelegatedTcpGateways hybrid) = (tcps, rs')" by fastforce
  have step: "edge_step (ve_edge (ge_vs env)) st (addReports (rs @ rs') st)"
    using delegated_reports [of env i "hyb_DelegatedHttpGateways hybrid" "hyb_DelegatedTcpGateways hybrid"] h t
    by (intro edge_step_addReports) simp
  have fold: "run_ok (ve_edge (ge_vs env)) builder_ok st
      (fold_out (processMatchableHttpGateway env proxyName i gw) https (newBuilder, addReports (rs @ rs') st))"
    by (intro run_ok_fold processMatchableHttpGateway_ok builder_ok_new step)
  have tcp: "run_ok (ve_edge (ge_vs env)) (\<lambda>b. \<forall>x. b = Some x \<longrightarrow> builder_ok x) st
      (let (b, st) = foldl (processMatchableTcpGateway i) (r, st1) tcps in Inr (Some b, st))"
    if "builder_ok r" "edge_step (ve_edge (ge_vs env)) st st1" for r st1
    using processTcp_ok [OF that, of i tcps] by (auto intro: run_ok_Inr)
  show ?thesis
    using h t step tcp by (auto simp: computeListenerFromDelegatedGateway_def Let_def intro!: run_ok_bind [OF fold] run_ok_Inr)
qed

lemma hybridAggregate_ok:
  "run_ok (ve_edge (ge_vs env)) (\<lambda>b. \<forall>x. b = Some x \<longrightarrow> builder_ok x) st
    (computeAggregateListenerForHybridGateway env proxyName i gw hybrid st)"
proof -
  have inl: "run_ok (ve_edge (ge_vs env)) builder_ok st (fold_out (computeAggregateMatched env proxyName i gw) mgs (newBuilder, st))" for mgs
    by (intro run_ok_fold computeAggregateMatched_ok builder_ok_new edge_step_refl)
  show ?thesis
    by (auto simp: computeAggregateListenerForHybridGateway_def intro!: run_ok_Inr run_ok_bind [OF inl] run_ok_bind [OF delegatedAggregate_ok]
        edge_step_add split: option.splits)
qed

lemma AggregateTranslator_ok:
  "run_ok (ve_edge (ge_vs env)) (listener_of gw) st (AggregateTranslator_ComputeListener env proxyName i gw st)"
proof -
  have fin: "run_ok (ve_edge (ge_vs env)) (listener_of gw) st
      (Inr (map_option (\<lambda>b. makeListener env i gw (EdgeAggregateListener b) []) b, st1))"
    if "\<forall>x. b = Some x \<longrightarrow> builder_ok x" "edge_step (ve_edge (ge_vs env)) st st1" for b st1
    using that by (cases b) (auto intro!: run_ok_Inr)
  have http: "run_ok (ve_edge (ge_vs env)) (\<lambda>b. \<forall>x. b = Some x \<longrightarrow> builder_ok x) st
      (bind_out (computeAggregateListenerForHttpGateway env proxyName i gw g st) (\<lambda>(b, st). Inr (Some b, st)))" for g
    by (rule run_ok_bind [OF httpAggregate_ok]) (auto intro: run_ok_Inr)
  have none: "run_ok (ve_edge (ge_vs env)) (\<lambda>b. \<forall>x. b = Some x \<longrightarrow> builder_ok x) st (Inr (None, st))"
    by (simp add: run_ok_Inr)
  show ?thesis
    unfolding AggregateTranslator_ComputeListener_def
    by (rule run_ok_bind [where Q = "\<lambda>b. \<forall>x. b = Some x \<longrightarrow> builder_ok x"])
      (auto simp: Let_def intro: fin none http hybridAggregate_ok split: option.splits edge_gateway_type.splits)
qed

section \<open>The proxy\<close>

text \<open>Every listener of the proxy is that of one of the gateways that the predicate lets through.\<close>

definition listeners_of :: "edge_gateway list \<Rightarrow> nat list \<Rightarrow> edge_listener list \<Rightarrow> bool" where
  "listeners_of gateways filtered ls \<longleftrightarrow> (\<forall>l \<in> set ls. \<exists>i \<in> set filtered. listener_of (gateways ! i) (Some l))"

text \<open>The interface \<open>ListenerTranslator\<close> of \<open>listener_translator.go\<close>: a translator returns no listener, or one of the gateway that is
  well-formed, and only makes steps of the state. What the loop of \<open>Translate\<close> needs of it follows from that.\<close>

locale edge_listener_translator =
  fixes compute :: "gw_env \<Rightarrow> string \<Rightarrow> nat \<Rightarrow> edge_gateway \<Rightarrow> edge_state \<Rightarrow> (edge_listener option \<times> edge_state) outcome"
  assumes compute_ok: "run_ok (ve_edge (ge_vs env)) (listener_of gw) st (compute env proxyName i gw st)"
begin

lemma compute_from:
  "edge_step (ve_edge (ge_vs env)) st0 st \<Longrightarrow> run_ok (ve_edge (ge_vs env)) (listener_of gw) st0 (compute env proxyName i gw st)"
  using run_ok_from compute_ok by blast

lemma add_listener_ok:
  assumes "i \<in> set fs" "listeners_of gateways fs ls" "edge_step (ve_edge (ge_vs env)) st0 st"
  shows "run_ok (ve_edge (ge_vs env)) (listeners_of gateways fs) st0
    (bind_out (compute env proxyName i (gateways ! i) st) (\<lambda>(l, st). Inr (case l of None \<Rightarrow> ls | Some l \<Rightarrow> ls @ [l], st)))"
  using assms(1,2)
  by (intro run_ok_bind [OF compute_from [OF assms(3)]]) (auto simp: listeners_of_def intro!: run_ok_Inr split: option.splits)

end

interpretation http: edge_listener_translator HttpTranslator_ComputeListener
  by unfold_locales (rule HttpTranslator_ok)

interpretation hybrid: edge_listener_translator HybridTranslator_ComputeListener
  by unfold_locales (rule HybridTranslator_ok)

interpretation aggregate: edge_listener_translator AggregateTranslator_ComputeListener
  by unfold_locales (rule AggregateTranslator_ok)

interpretation chosen: edge_listener_translator "ComputeListener lt" for lt
  by unfold_locales
    (auto simp: ComputeListener_def TcpTranslator_ComputeListener_def intro!: run_ok_Inr edge_step_add
      http.compute_ok hybrid.compute_ok aggregate.compute_ok split: listener_translator.splits option.splits edge_gateway_type.splits)

lemma validateGateways_reports: "r \<in> set (validateGateways lib gws fs vss) \<Longrightarrow> \<not> report_on_table r"
  by (auto simp: validateGateways_def Let_def split: if_splits)

lemma Translate_ok:
  "\<exists>p st'. Translate t env proxyName gateways st = Inr (p, st') \<and> edge_step (ve_edge (ge_vs env)) st st' \<and>
     (\<forall>proxy. p = Some proxy \<longrightarrow> epr_Name proxy = proxyName \<and> epr_Namespace proxy = gt_writeNamespace t \<and> epr_Listeners proxy \<noteq> [] \<and>
        listeners_of gateways (FilterGateways gateways (gt_predicate t)) (epr_Listeners proxy))"
proof -
  define fs where "fs = FilterGateways gateways (gt_predicate t)"
  define st1 where "st1 = addReports (validateGateways (ve_libs (ge_vs env)) gateways fs (est_VirtualServices st)) st"
  have st1: "edge_step (ve_edge (ge_vs env)) st st1"
    unfolding st1_def using validateGateways_reports by (blast intro: edge_step_addReports)
  have step: "run_ok (ve_edge (ge_vs env)) (listeners_of gateways fs) st (translateEdgeGateway t env proxyName gateways i (ls, st2))"
    if "i \<in> set fs" "listeners_of gateways fs ls" "edge_step (ve_edge (ge_vs env)) st st2" for i ls st2
    unfolding translateEdgeGateway_def using chosen.add_listener_ok [OF that] by simp
  have "run_ok (ve_edge (ge_vs env)) (listeners_of gateways fs) st (fold_out (translateEdgeGateway t env proxyName gateways) fs ([], st1))"
    by (rule run_ok_fold) (use step st1 in \<open>auto simp: listeners_of_def\<close>)
  then show ?thesis
    by (auto simp: Translate_def run_ok_def fs_def [symmetric] st1_def [symmetric] Let_def)
qed


text \<open>C24. Every error and every warning that the translation reports on a route table is also reported on a virtual service, with
  the reference of the route table; reports that were there before stay.\<close>

theorem Translate_reports_mirrored:
  "\<exists>p st' new. Translate t env proxyName gateways st = Inr (p, st') \<and>
     vst_reports (est_visit st') = vst_reports (est_visit st) @ new \<and> mirrored (ve_edge (ge_vs env)) new"
  using Translate_ok [of t env proxyName gateways st] by (auto simp: edge_step_def)

text \<open>C5. A proxy is well-formed: it has a listener, every listener has the name, the address and the source of a gateway that the
  predicate lets through, every route has matchers, an action that is no delegation and its virtual service as
  last source, and in an aggregate listener every reference of a filter chain is to a virtual host and to options it holds.\<close>

theorem Translate_well_formed:
  "\<exists>p st'. Translate t env proxyName gateways st = Inr (p, st') \<and>
     (case p of
        None \<Rightarrow> True
      | Some proxy \<Rightarrow> epr_Name proxy = proxyName \<and> epr_Namespace proxy = gt_writeNamespace t \<and> epr_Listeners proxy \<noteq> [] \<and>
          list_all (\<lambda>l. list_ex (\<lambda>i. listener_of (gateways ! i) (Some l)) (FilterGateways gateways (gt_predicate t))) (epr_Listeners proxy))"
  using Translate_ok [of t env proxyName gateways st]
  by (auto simp: listeners_of_def list_all_iff list_ex_iff split: option.splits)

section \<open>Checks of the gateways\<close>

lemma gatewaysByAddress_eq:
  "gatewaysByAddress gateways fs a =
     (if having (\<lambda>i. [bindAddressOf (gateways ! i)]) fs a = [] then None else Some (having (\<lambda>i. [bindAddressOf (gateways ! i)]) fs a))"
  using index_fold [of "\<lambda>i. [bindAddressOf (gateways ! i)]" fs a] by (simp add: gatewaysByAddress_def)

lemma having_single: "having (\<lambda>i. [k i]) fs a = filter (\<lambda>i. k i = a) fs"
  by (induction fs) (auto simp: having_def)

lemma two_in_distinct:
  assumes "distinct xs" "i \<in> set xs"
  shows "length xs > 1 \<longleftrightarrow> (\<exists>j \<in> set xs. j \<noteq> i)"
  using assms by (cases xs rule: remdups_adj.cases) auto

text \<open>The checks of the gateways of a proxy are exact: a gateway has an error for its bind address if and only if another
  one has the same address and port, and an error for a reference if and only if it lists a virtual service that the snapshot does not have.\<close>

theorem validateGateways_correct:
  assumes "iter_order (gatewaysByAddress gateways fs) (el_keys lib (gatewaysByAddress gateways fs))" "distinct fs"
  shows "((\<exists>a refs. AddError (GatewayRes i) (BindAddressNotUniqueErr a refs) \<in> set (validateGateways lib gateways fs vss)) \<longleftrightarrow>
      i \<in> set fs \<and> (\<exists>j \<in> set fs. j \<noteq> i \<and> bindAddressOf (gateways ! j) = bindAddressOf (gateways ! i))) \<and>
    ((\<exists>ref. AddError (GatewayRes i) (InvalidVirtualServiceRefErr ref) \<in> set (validateGateways lib gateways fs vss)) \<longleftrightarrow>
      i \<in> set fs \<and> (\<exists>ref \<in> set (virtualServiceRefsOf (gateways ! i)). \<forall>vs \<in> set vss. em_Ref (vsv_Metadata vs) \<noteq> ref))"
proof -
  define at where "at = (\<lambda>a. filter (\<lambda>i. bindAddressOf (gateways ! i) = a) fs)"
  define ks where "ks = el_keys lib (gatewaysByAddress gateways fs)"
  have idx: "gatewaysByAddress gateways fs a = (if at a = [] then None else Some (at a))" for a
    by (simp add: gatewaysByAddress_eq having_single at_def)
  then have list: "(case gatewaysByAddress gateways fs a of None \<Rightarrow> [] | Some l \<Rightarrow> l) = at a" for a by simp
  have keys: "a \<in> set ks \<longleftrightarrow> at a \<noteq> []" for a
    using assms(1) idx by (auto simp: ks_def iter_order_def split: if_splits)
  define refErrs where "refErrs = concat (map (\<lambda>i. map (\<lambda>ref. AddError (GatewayRes i) (InvalidVirtualServiceRefErr ref))
    (filter (\<lambda>ref. \<not> list_ex (\<lambda>vs. em_Ref (vsv_Metadata vs) = ref) vss) (virtualServiceRefsOf (gateways ! i)))) fs)"
  define addrErrs where "addrErrs = concat (map (\<lambda>a. if length (at a) > 1
    then map (\<lambda>i. AddError (GatewayRes i) (BindAddressNotUniqueErr a (map (\<lambda>j. em_Ref (egw_Metadata (gateways ! j))) (at a)))) (at a) else []) ks)"
  have split: "validateGateways lib gateways fs vss = refErrs @ addrErrs"
    unfolding validateGateways_def Let_def list refErrs_def addrErrs_def ks_def by (rule refl)
  have "AddError (GatewayRes i) (BindAddressNotUniqueErr a refs) \<in> set (refErrs @ addrErrs) \<longleftrightarrow>
      a \<in> set ks \<and> i \<in> set (at a) \<and> length (at a) > 1 \<and> refs = map (\<lambda>j. em_Ref (egw_Metadata (gateways ! j))) (at a)" for a refs
    by (auto simp: refErrs_def addrErrs_def split: if_splits)
  then have "(\<exists>a refs. AddError (GatewayRes i) (BindAddressNotUniqueErr a refs) \<in> set (refErrs @ addrErrs)) \<longleftrightarrow>
      (\<exists>a \<in> set ks. i \<in> set (at a) \<and> length (at a) > 1)" by (simp only: ex_simps) blast
  also have "\<dots> \<longleftrightarrow> (\<exists>a. i \<in> set (at a) \<and> (\<exists>j \<in> set (at a). j \<noteq> i))"
  proof -
    have "length (at a) > 1 \<longleftrightarrow> (\<exists>j \<in> set (at a). j \<noteq> i)" if "i \<in> set (at a)" for a
      using two_in_distinct [of "at a" i] assms(2) that by (simp add: at_def)
    moreover have "a \<in> set ks" if "i \<in> set (at a)" for a using that keys by force
    ultimately show ?thesis by blast
  qed
  also have "\<dots> \<longleftrightarrow> i \<in> set fs \<and> (\<exists>j \<in> set fs. j \<noteq> i \<and> bindAddressOf (gateways ! j) = bindAddressOf (gateways ! i))"
    by (auto simp: at_def)
  finally have 1: "(\<exists>a refs. AddError (GatewayRes i) (BindAddressNotUniqueErr a refs) \<in> set (refErrs @ addrErrs)) \<longleftrightarrow> \<dots>" .
  have "(\<exists>ref. AddError (GatewayRes i) (InvalidVirtualServiceRefErr ref) \<in> set (refErrs @ addrErrs)) \<longleftrightarrow>
      i \<in> set fs \<and> (\<exists>ref \<in> set (virtualServiceRefsOf (gateways ! i)). \<forall>vs \<in> set vss. em_Ref (vsv_Metadata vs) \<noteq> ref)"
    by (auto simp: refErrs_def addrErrs_def list_ex_iff split: if_splits)
  then show ?thesis using 1 by (simp only: split)
qed

section \<open>Groups of virtual services\<close>

definition sslOf :: "virtual_service list \<Rightarrow> nat \<Rightarrow> edge_ssl" where
  "sslOf vss i = (case vsv_SslConfig (vss ! i) of Some c \<Rightarrow> c | None \<Rightarrow> \<lparr>essl_SniDomains = [], essl_OneWayTls = None, essl_Other = []\<rparr>)"

text \<open>A configuration up to its SNI domains.\<close>

definition sslBase :: "edge_ssl \<Rightarrow> edge_ssl" where
  "sslBase c = c\<lparr>essl_SniDomains := []\<rparr>"

lemma sslBase_merge: "sslBase (mergeSniDomains a b) = sslBase a"
  by (simp add: sslBase_def mergeSniDomains_def)

definition sslGroupIndex :: "edge_libs \<Rightarrow> virtual_service list \<Rightarrow> nat list \<Rightarrow> (string \<rightharpoonup> nat list)" where
  "sslGroupIndex lib vss vs k = (let l = filter (\<lambda>i. hashSslConfig lib (sslOf vss i) = k) vs in if l = [] then None else Some l)"

text \<open>The configuration of a group: that of its first virtual service, with all SNI domains, or with none if one of them has none.\<close>

definition group_config :: "virtual_service list \<Rightarrow> nat list \<Rightarrow> edge_ssl \<Rightarrow> bool" where
  "group_config vss l c \<longleftrightarrow>
     sslBase c = sslBase (sslOf vss (hd l)) \<and>
     (if \<exists>i \<in> set l. essl_SniDomains (sslOf vss i) = [] then essl_SniDomains c = []
      else essl_SniDomains c \<noteq> [] \<and> set (essl_SniDomains c) = (\<Union>i \<in> set l. set (essl_SniDomains (sslOf vss i))))"

lemma group_config_single: "group_config vss [i] (sslOf vss i)"
  by (simp add: group_config_def)

lemma group_config_merge:
  assumes "group_config vss l c" "l \<noteq> []"
  shows "group_config vss (l @ [i]) (mergeSniDomains c (sslOf vss i))"
  using assms sslBase_merge [of c "sslOf vss i"]
  by (auto simp: group_config_def mergeSniDomains_def mergeValues_def split: if_splits)

lemma groups_built:
  assumes "\<forall>i \<in> set vs. vsv_SslConfig (vss ! i) \<noteq> None"
  shows "\<exists>g. fold_out (groupVirtualService lib vss) vs \<lparr>sgr_merged = Map.empty, sgr_grouped = Map.empty\<rparr> = Inr g \<and>
    sgr_grouped g = sslGroupIndex lib vss vs \<and>
    (\<forall>k. rel_option (group_config vss) (sslGroupIndex lib vss vs k) (sgr_merged g k))"
  using assms
proof (induction vs rule: rev_induct)
  case Nil
  then show ?case by (auto simp: sslGroupIndex_def fun_eq_iff)
next
  case (snoc i vs)
  then obtain g where g: "fold_out (groupVirtualService lib vss) vs \<lparr>sgr_merged = Map.empty, sgr_grouped = Map.empty\<rparr> = Inr g"
      "sgr_grouped g = sslGroupIndex lib vss vs" "\<forall>k. rel_option (group_config vss) (sslGroupIndex lib vss vs k) (sgr_merged g k)"
    by auto
  obtain c where c: "vsv_SslConfig (vss ! i) = Some c" "sslOf vss i = c" using snoc.prems by (auto simp: sslOf_def)
  define k where "k = hashSslConfig lib c"
  have idx: "sslGroupIndex lib vss (vs @ [i]) =
      (sslGroupIndex lib vss vs)(k \<mapsto> (case sslGroupIndex lib vss vs k of None \<Rightarrow> [] | Some l \<Rightarrow> l) @ [i])"
    using c(2) by (auto simp: sslGroupIndex_def k_def fun_eq_iff Let_def)
  show ?case
  proof (cases "sslGroupIndex lib vss vs k")
    case None
    then have "sgr_merged g k = None" using g(3) [rule_format, of k] by (cases "sgr_merged g k") auto
    then have "groupVirtualService lib vss i g =
        Inr (g\<lparr>sgr_merged := (sgr_merged g)(k \<mapsto> c), sgr_grouped := (sgr_grouped g)(k \<mapsto> [i])\<rparr>)"
      using c by (simp add: groupVirtualService_def k_def Let_def)
    then show ?thesis using g idx None group_config_single [of vss i] c(2) by (simp add: fold_out_append fun_upd_def)
  next
    case (Some l)
    then obtain m where m: "sgr_merged g k = Some m" "group_config vss l m"
      using g(3) [rule_format, of k] by (auto simp: option_rel_Some1)
    have l: "l \<noteq> []" using Some by (auto simp: sslGroupIndex_def Let_def split: if_splits)
    have "groupVirtualService lib vss i g = Inr (g\<lparr>sgr_merged := (sgr_merged g)(k \<mapsto> mergeSniDomains m c),
        sgr_grouped := (sgr_grouped g)(k \<mapsto> l @ [i])\<rparr>)"
      using c m Some g(2) by (simp add: groupVirtualService_def k_def Let_def)
    then show ?thesis using g idx Some group_config_merge [OF m(2) l, of i] c(2) by (simp add: fold_out_append fun_upd_def)
  qed
qed

lemma mset_partition:
  assumes "distinct ks" "\<forall>x \<in> set xs. f x \<in> set ks"
  shows "mset (concat (map (\<lambda>k. filter (\<lambda>x. f x = k) xs) ks)) = mset xs"
  using assms
proof (induction ks arbitrary: xs)
  case Nil
  then show ?case by simp
next
  case (Cons k ks)
  define ys where "ys = filter (\<lambda>x. f x \<noteq> k) xs"
  have "filter (\<lambda>x. f x = j) xs = filter (\<lambda>x. f x = j) ys" if "j \<in> set ks" for j
    using that Cons.prems(1) by (auto simp: ys_def intro: filter_cong)
  then have "concat (map (\<lambda>j. filter (\<lambda>x. f x = j) xs) ks) = concat (map (\<lambda>j. filter (\<lambda>x. f x = j) ys) ks)"
    by (metis (no_types, lifting) map_eq_conv)
  moreover have "mset (concat (map (\<lambda>j. filter (\<lambda>x. f x = j) ys) ks)) = mset ys"
    using Cons.IH [of ys] Cons.prems by (auto simp: ys_def)
  ultimately show ?case
    by (simp add: ys_def)
qed

text \<open>C28. The virtual services of a TLS gateway are split into filter chains: every virtual service is in one group, those of a group
  have the same TLS configuration up to SNI domains, different groups have different ones, and the group serves
  the SNI domains of its members, or any domain if one member serves any. The hash must tell the
  configurations apart, and the map is visited in some order of its keys.\<close>

theorem GroupVirtualServicesBySslConfig_correct:
  assumes "\<forall>i \<in> set vs. vsv_SslConfig (vss ! i) \<noteq> None"
    and "\<forall>i \<in> set vs. \<forall>j \<in> set vs. hashSslConfig lib (sslOf vss i) = hashSslConfig lib (sslOf vss j) \<longrightarrow>
      sslBase (sslOf vss i) = sslBase (sslOf vss j)"
    and "iter_order (sslGroupIndex lib vss vs) (el_keys lib (sslGroupIndex lib vss vs))"
  shows "\<exists>groups. GroupVirtualServicesBySslConfig lib vss vs = Inr groups \<and>
    mset (concat (map snd groups)) = mset vs \<and> distinct (map (\<lambda>g. sslBase (fst g)) groups) \<and>
    (\<forall>(c, l) \<in> set groups. l \<noteq> [] \<and> (\<forall>i \<in> set l. sslBase (sslOf vss i) = sslBase c) \<and>
       (if \<exists>i \<in> set l. essl_SniDomains (sslOf vss i) = [] then essl_SniDomains c = []
        else set (essl_SniDomains c) = (\<Union>i \<in> set l. set (essl_SniDomains (sslOf vss i)))))"
proof -
  obtain g where g: "fold_out (groupVirtualService lib vss) vs \<lparr>sgr_merged = Map.empty, sgr_grouped = Map.empty\<rparr> = Inr g"
      "sgr_grouped g = sslGroupIndex lib vss vs" "\<forall>k. rel_option (group_config vss) (sslGroupIndex lib vss vs k) (sgr_merged g k)"
    using groups_built [OF assms(1)] by blast
  define ks where "ks = sort_stable (<) (el_keys lib (sslGroupIndex lib vss vs))"
  define mem where "mem = (\<lambda>k. filter (\<lambda>i. hashSslConfig lib (sslOf vss i) = k) vs)"
  have ks: "distinct ks" "set ks = dom (sslGroupIndex lib vss vs)"
    using assms(3) by (auto simp: ks_def iter_order_def intro: mset_eq_imp_distinct_iff [THEN iffD1, of "el_keys lib (sslGroupIndex lib vss vs)"])
  have idx: "sslGroupIndex lib vss vs k = Some (mem k)" "mem k \<noteq> []" if "k \<in> set ks" for k
    using that ks(2) by (auto simp: sslGroupIndex_def mem_def Let_def split: if_splits)
  have conf: "\<exists>c. sgr_merged g k = Some c \<and> group_config vss (mem k) c" if "k \<in> set ks" for k
    using g(3) [rule_format, of k] idx(1) [OF that] by (auto simp: option_rel_Some1)
  define groups where "groups = map (\<lambda>k. (the (sgr_merged g k), mem k)) ks"
  have run: "GroupVirtualServicesBySslConfig lib vss vs = Inr groups"
    using g idx(1) by (simp add: GroupVirtualServicesBySslConfig_def groups_def ks_def [symmetric])
  have base: "sslBase (sslOf vss i) = sslBase (the (sgr_merged g k))" if "k \<in> set ks" "i \<in> set (mem k)" for k i
  proof -
    have "hd (mem k) \<in> set (mem k)" using idx(2) [OF that(1)] by simp
    then have "hd (mem k) \<in> set vs" "i \<in> set vs" "hashSslConfig lib (sslOf vss i) = hashSslConfig lib (sslOf vss (hd (mem k)))"
      using that(2) unfolding mem_def by simp_all
    then have "sslBase (sslOf vss i) = sslBase (sslOf vss (hd (mem k)))" using assms(2) by blast
    then show ?thesis using conf [OF that(1)] unfolding group_config_def by fastforce
  qed
  have "\<forall>i \<in> set vs. hashSslConfig lib (sslOf vss i) \<in> set ks"
    unfolding ks(2) by (auto simp: sslGroupIndex_def Let_def dom_def filter_empty_conv)
  then have "mset (concat (map snd groups)) = mset vs"
    using mset_partition [OF ks(1), of vs "\<lambda>i. hashSslConfig lib (sslOf vss i)"] by (simp add: groups_def mem_def comp_def)
  moreover have "distinct (map (\<lambda>g. sslBase (fst g)) groups)"
  proof -
    have "inj_on (\<lambda>k. sslBase (the (sgr_merged g k))) (set ks)"
    proof (rule inj_onI)
      fix j k assume jk: "j \<in> set ks" "k \<in> set ks" "sslBase (the (sgr_merged g j)) = sslBase (the (sgr_merged g k))"
      then obtain a b where "a \<in> set (mem j)" "b \<in> set (mem k)" using idx(2) by (meson hd_in_set)
      then have "sslBase (sslOf vss a) = sslBase (sslOf vss b)" "hashSslConfig lib (sslOf vss a) = j" "hashSslConfig lib (sslOf vss b) = k"
        using base jk by (auto simp: mem_def)
      then show "j = k" by (simp add: hashSslConfig_def sslBase_def)
    qed
    then show ?thesis using ks(1) by (simp add: groups_def comp_def distinct_map)
  qed
  moreover have "\<forall>(c, l) \<in> set groups. l \<noteq> [] \<and> (\<forall>i \<in> set l. sslBase (sslOf vss i) = sslBase c) \<and>
       (if \<exists>i \<in> set l. essl_SniDomains (sslOf vss i) = [] then essl_SniDomains c = []
        else set (essl_SniDomains c) = (\<Union>i \<in> set l. set (essl_SniDomains (sslOf vss i))))"
  proof -
    have "(if \<exists>i \<in> set (mem k). essl_SniDomains (sslOf vss i) = [] then essl_SniDomains (the (sgr_merged g k)) = []
        else set (essl_SniDomains (the (sgr_merged g k))) = (\<Union>i \<in> set (mem k). set (essl_SniDomains (sslOf vss i))))" if "k \<in> set ks" for k
      using conf [OF that] by (auto simp: group_config_def split: if_splits)
    then show ?thesis using idx(2) base by (auto simp: groups_def)
  qed
  ultimately show ?thesis using run by blast
qed

end
