(* ===== verification/EdgeExamples.thy ===== *)
theory EdgeExamples
  imports EdgeTranslatorProps
begin

text \<open>Concrete runs of the Edge translator: witnesses for its theorems, and runs that show where it does not do what it is meant to do.\<close>

section \<open>Set up\<close>

definition eg_meta :: "string \<Rightarrow> edge_meta" where
  "eg_meta name = \<lparr>em_Name = name, em_Namespace = ''ns'', em_Labels = Map.empty, em_Annotations = Map.empty, em_Generation = 1\<rparr>"

definition eg_ref :: "string \<Rightarrow> resource_ref" where
  "eg_ref name = \<lparr>rref_Name = name, rref_Namespace = ''ns''\<rparr>"

definition eg_header :: "string \<Rightarrow> edge_header" where
  "eg_header name = \<lparr>ehd_Name = name, ehd_Value = ''1'', ehd_Regex = False, ehd_InvertMatch = False\<rparr>"

definition eg_matcher :: "string \<Rightarrow> edge_header list \<Rightarrow> edge_matcher" where
  "eg_matcher p hs = \<lparr>emt_PathSpecifier = Some (E_Prefix p), emt_CaseSensitive = None, emt_Headers = hs, emt_QueryParameters = [], emt_Methods = []\<rparr>"

definition eg_route :: "edge_matcher list \<Rightarrow> edge_action \<Rightarrow> edge_route" where
  "eg_route ms a = \<lparr>egr_Name = [], egr_Matchers = ms, egr_InheritableMatchers = None, egr_InheritablePathMatchers = None,
     egr_Options = None, egr_DelegateOptions = [], egr_Action = Some a\<rparr>"

definition eg_upstream :: edge_action where
  "eg_upstream = EdgeRouteAction (DestSingle (DestUpstream (eg_ref ''up'')))"

definition eg_delegate :: "string \<Rightarrow> edge_action" where
  "eg_delegate name = EdgeDelegateAction \<lparr>da_Name = [], da_Namespace = [], da_DelegationType = Some (DelegateRef (eg_ref name))\<rparr>"

definition eg_labels :: label_lib where
  "eg_labels = \<lparr>ll_SelectorFromSet = (\<lambda>ls m. list_all (\<lambda>(k, v). m k = Some v) ls), ll_NewRequirement = (\<lambda>_ _ _. Inr (\<lambda>_. True))\<rparr>"

text \<open>The growth of slices in Go: a clone appends one element at a time, and small slices double.\<close>

definition eg_grow :: "nat \<Rightarrow> nat" where
  "eg_grow n = (if n \<le> 1 then n else if n \<le> 2 then 2 else if n \<le> 4 then 4 else 8)"

definition eg_env :: "route_table list \<Rightarrow> (resource_ref \<times> nat option) list \<Rightarrow> edge_env" where
  "eg_env tables opts = \<lparr>ee_RouteTables = tables, ee_RouteOptions = opts, ee_labels = eg_labels,
     ee_weights = (\<lambda>m. filter (\<lambda>w. m w \<noteq> None) [5, 0]), ee_runtime = \<lparr>gr_append = eg_grow, gr_clone = eg_grow\<rparr>,
     ee_Kind = (\<lambda>_. ''*v1.Kind'')\<rparr>"

definition eg_heap :: edge_heap where
  "eg_heap = \<lparr>hp_options = (\<lambda>_. \<lparr>eo_HostRewriteType = None, eo_RegexRewrite = None, eo_StagedTransformations = None, eo_Fields = []\<rparr>),
     hp_vhost_options = (\<lambda>_. \<lparr>vo_StagedTransformations = None, vo_Fields = []\<rparr>),
     hp_stages = (\<lambda>_. \<lparr>sg_InheritTransformation = False, sg_Regular = None, sg_Early = None\<rparr>),
     hp_transformations = (\<lambda>_. \<lparr>trf_RequestTransforms = [], trf_ResponseTransforms = []\<rparr>),
     hp_headers = (\<lambda>_. \<lparr>ga_cells = [], ga_cap = 0\<rparr>), hp_params = (\<lambda>_. \<lparr>ga_cells = [], ga_cap = 0\<rparr>),
     hp_methods = (\<lambda>_. \<lparr>ga_cells = [], ga_cap = 0\<rparr>), hp_next = 10\<rparr>"

definition eg_ctx :: visit_context where
  "eg_ctx = \<lparr>vc_gatewayName = ''gw'', vc_proxyName = ''proxy'', vc_virtualService = VirtualServiceRes 0, vc_virtualHostOptions = None\<rparr>"

definition eg_table :: "string \<Rightarrow> int option \<Rightarrow> edge_route list \<Rightarrow> route_table" where
  "eg_table name w rs = \<lparr>rtb_Metadata = eg_meta name, rtb_Weight = w, rtb_Routes = rs\<rparr>"

text \<open>The matchers of the routes of a conversion, as they read in the heap at the end.\<close>

definition eg_read :: "(mem_route list \<times> visit_state) outcome \<Rightarrow> edge_matcher list list" where
  "eg_read out = (case out of Inl _ \<Rightarrow> [] | Inr (routes, st) \<Rightarrow> map (\<lambda>r. map (read_matcher (vst_heap st)) (mr_Matchers r)) routes)"

definition eg_convert :: "edge_env \<Rightarrow> edge_heap \<Rightarrow> edge_route list \<Rightarrow> (mem_route list \<times> visit_state) outcome" where
  "eg_convert env h rs = ConvertVirtualService (length (ee_RouteTables env) + 1) env eg_ctx (eg_meta ''vs'') rs
     \<lparr>vst_heap = h, vst_reports = []\<rparr>"

section \<open>The converter\<close>

text \<open>Two routes that inherit three headers of their parent: the array of the headers has room for a fourth one, both
  append to it, and the first route ends with the header of the second.\<close>

definition eg_shared_parent :: edge_route where
  "eg_shared_parent = (eg_route [eg_matcher ''/a'' [eg_header ''h1'', eg_header ''h2'', eg_header ''h3'']] (eg_delegate ''t''))\<lparr>egr_InheritableMatchers := Some True\<rparr>"

definition eg_shared_table :: route_table where
  "eg_shared_table = eg_table ''t'' None
     [eg_route [eg_matcher ''/a/x'' [eg_header ''x'']] eg_upstream, eg_route [eg_matcher ''/a/y'' [eg_header ''y'']] eg_upstream]"

lemma inherited_headers_overwritten:
  "map (map (map ehd_Name \<circ> emt_Headers)) (eg_read (eg_convert (eg_env [eg_shared_table] []) eg_heap [eg_shared_parent])) =
     [[[''h1'', ''h2'', ''h3'', ''y'']], [[''h1'', ''h2'', ''h3'', ''y'']]]"
  by code_simp

text \<open>Options of \<open>RouteOption\<close> resources: a route without options takes those of the first resource as they are and merges
  those of the second into them, so that another route that refers to the first resource gets both.\<close>

definition eg_option_heap :: edge_heap where
  "eg_option_heap = eg_heap\<lparr>hp_options := (hp_options eg_heap)
     (1 := (hp_options eg_heap 1)\<lparr>eo_Fields := [(''Timeout'', ''5s'')]\<rparr>, 2 := (hp_options eg_heap 2)\<lparr>eo_Fields := [(''Faults'', ''abort'')]\<rparr>)\<rparr>"

definition eg_option_routes :: "edge_route list" where
  "eg_option_routes =
     [(eg_route [eg_matcher ''/a'' []] eg_upstream)\<lparr>egr_DelegateOptions := [eg_ref ''o1'', eg_ref ''o2'']\<rparr>,
      (eg_route [eg_matcher ''/b'' []] eg_upstream)\<lparr>egr_DelegateOptions := [eg_ref ''o1'']\<rparr>]"

definition eg_fields :: "(mem_route list \<times> visit_state) outcome \<Rightarrow> option_fields option list" where
  "eg_fields out = (case out of Inl _ \<Rightarrow> [] | Inr (routes, st) \<Rightarrow> map (\<lambda>r. map_option ov_Fields (read_options (vst_heap st) (mr_Options r))) routes)"

lemma route_option_written:
  "eg_fields (eg_convert (eg_env [] [(eg_ref ''o1'', Some 1), (eg_ref ''o2'', Some 2)]) eg_option_heap eg_option_routes) =
     [Some [(''Timeout'', ''5s''), (''Faults'', ''abort'')], Some [(''Timeout'', ''5s''), (''Faults'', ''abort'')]]"
  by code_simp

text \<open>An option that the child sets is kept when the options of the parent are merged.\<close>

lemma child_option_kept: "eo_RegexRewrite child = Some r \<Longrightarrow> eo_RegexRewrite (mergeEdgeOptions child parent) = Some r"
  by (simp add: mergeEdgeOptions_def ShallowMerge_def)

text \<open>A delegating route whose matcher has no path is given the default matcher, without the headers it asks for.\<close>

lemma delegate_matcher_drops_headers:
  "mm_PathSpecifier m = None \<Longrightarrow> getDelegateRouteMatcher [m] = Inr DefaultMatcher"
  by (simp add: getDelegateRouteMatcher_def)

text \<open>A route table that delegates to itself.\<close>

definition eg_cycle_table :: route_table where
  "eg_cycle_table = eg_table ''t'' None [eg_route [eg_matcher ''/a'' []] (eg_delegate ''t'')]"

definition eg_info :: route_info where
  "eg_info = \<lparr>ri_matcher = DefaultMatcher\<lparr>mm_PathSpecifier := Some (E_Prefix ''/a'')\<rparr>, ri_options = None, ri_name = ''r'', ri_hasName = False,
     ri_inheritableMatchers = False, ri_inheritablePathMatchers = False\<rparr>"

definition eg_state :: visit_state where
  "eg_state = \<lparr>vst_heap = eg_heap, vst_reports = []\<rparr>"

lemma eg_tables: "ee_RouteTables (eg_env ts opts) = ts"
  by (simp add: eg_env_def)

lemma eg_prefix: "getPrefix (ri_matcher eg_info) = ''/a''"
  by (simp add: eg_info_def getPrefix_def)

theorem visit_delegated_witness:
  "\<exists>routes st'. visit_resource 2 (eg_env [eg_cycle_table] []) eg_ctx (visitableRouteTable (eg_env [eg_cycle_table] []) 0) (Some eg_info) [] eg_state =
      Inr (routes, st') \<and>
    (\<forall>r \<in> set routes. mr_Matchers r \<noteq> [] \<and> (\<forall>m \<in> set (mr_Matchers r). hasPrefix (PathAsString (mm_PathSpecifier m)) ''/a''))"
  using visit_delegated [of "[]" "eg_env [eg_cycle_table] []" eg_info eg_ctx "visitableRouteTable (eg_env [eg_cycle_table] []) 0" eg_state]
  by (simp add: eg_tables eg_prefix numeral_2_eq_2)

definition eg_weights :: "route_table list" where
  "eg_weights = [eg_table ''a'' (Some 5) [], eg_table ''b'' None [], eg_table ''c'' (Some 5) []]"

lemma eg_byWeight: "byWeight eg_weights [0, 1, 2] = [5 \<mapsto> [0, 2], 0 \<mapsto> [1]]"
  by (auto simp: byWeight_def eg_weights_def eg_table_def tableWeight_def fun_eq_iff)

theorem weightGroups_correct_witness:
  "weightGroups (\<lambda>m. filter (\<lambda>w. m w \<noteq> None) [5, 0]) eg_weights [0, 1, 2] =
    map (\<lambda>w. filter (\<lambda>i. tableWeight (eg_weights ! i) = w) [0, 1, 2]) (sorted_list_of_set ((\<lambda>i. tableWeight (eg_weights ! i)) ` set [0, 1, 2]))"
proof (rule weightGroups_correct)
  show "iter_order (byWeight eg_weights [0, 1, 2]) (filter (\<lambda>w. byWeight eg_weights [0, 1, 2] w \<noteq> None) [5, 0])"
    unfolding eg_byWeight by (auto simp: iter_order_def)
qed

section \<open>Virtual services\<close>

definition eg_libs :: edge_libs where
  "eg_libs = \<lparr>el_Compile = (\<lambda>r. Inr (\<lambda>s. s = r)), el_HashMatcher = (\<lambda>m. of_nat (length (emt_Headers m))),
     el_HashSsl = (\<lambda>c. of_nat (length (essl_Other c))), el_HashHttpOptions = (\<lambda>_. 7),
     el_mergeSsl = (\<lambda>_ c p. c), el_mergeHcm = (\<lambda>prevent c p. if prevent then p else c),
     el_keys = (\<lambda>m. filter (\<lambda>k. m k \<noteq> None) [''a'', ''b'', [], ''1'', ''2'', '':::80'', '':::81''])\<rparr>"

definition eg_host :: "string list \<Rightarrow> edge_route list \<Rightarrow> vs_host" where
  "eg_host ds rs = \<lparr>vsh_Domains = ds, vsh_Routes = rs, vsh_Options = None, vsh_DelegateOptions = []\<rparr>"

definition eg_vs :: "string \<Rightarrow> string list \<Rightarrow> edge_ssl option \<Rightarrow> virtual_service" where
  "eg_vs name ds ssl = \<lparr>vsv_Metadata = eg_meta name, vsv_VirtualHost = Some (eg_host ds [eg_route [eg_matcher ''/a'' []] eg_upstream]), vsv_SslConfig = ssl\<rparr>"

text \<open>A virtual service that lists a domain twice is in conflict with itself, and the error names it as the other one.\<close>

lemma domain_conflict_with_itself:
  "validateVirtualServiceDomains eg_libs 0 [eg_vs ''v'' [''a'', ''a''] None] [0] =
     [AddError (VirtualServiceRes 0) (DomainInOtherVirtualServicesErr ''a'' [eg_ref ''v'']),
      AddError (VirtualServiceRes 0) (DomainInOtherVirtualServicesErr ''a'' [eg_ref ''v'']),
      AddError (GatewayRes 0) (ConflictingVirtualServicesErr [''a''])]"
  by code_simp

definition eg_domains :: "virtual_service list" where
  "eg_domains = [eg_vs ''v'' [''a'', ''b''] None, eg_vs ''w'' [''b''] None, eg_vs ''x'' [] None]"

lemma eg_domains_of:
  "virtualServiceDomains eg_domains 0 = [''a'', ''b'']" "virtualServiceDomains eg_domains 1 = [''b'']" "virtualServiceDomains eg_domains 2 = [[]]"
  by (simp_all add: virtualServiceDomains_def eg_domains_def eg_vs_def eg_host_def hostDomains_def)

lemma eg_index: "indexByDomain eg_domains [0, 1, 2] = [''a'' \<mapsto> [0], ''b'' \<mapsto> [0, 1], [] \<mapsto> [2]]"
  unfolding fun_eq_iff indexByDomain_eq having_def list.map concat.simps eg_domains_of by simp

theorem validateVirtualServiceDomains_correct_witness:
  "((\<exists>ds. AddError (GatewayRes 3) (ConflictingVirtualServicesErr ds) \<in> set (validateVirtualServiceDomains eg_libs 3 eg_domains [0, 1, 2])) \<longleftrightarrow>
      \<not> distinct (concat (map (virtualServiceDomains eg_domains) [0, 1, 2]))) \<and>
    (\<exists>refs. AddError (VirtualServiceRes 1) (DomainInOtherVirtualServicesErr ''b'' refs) \<in> set (validateVirtualServiceDomains eg_libs 3 eg_domains [0, 1, 2]))"
proof -
  have order: "iter_order (indexByDomain eg_domains [0, 1, 2]) (el_keys eg_libs (indexByDomain eg_domains [0, 1, 2]))"
    unfolding eg_index by (simp add: iter_order_def eg_libs_def insert_commute)
  have "count_list (concat (map (virtualServiceDomains eg_domains) [0, 1, 2])) ''b'' > 1" "''b'' \<in> set (virtualServiceDomains eg_domains 1)"
    unfolding list.map eg_domains_of by simp_all
  then show ?thesis using validateVirtualServiceDomains_correct [OF order, of 3] by simp
qed

text \<open>The comparison of headers does not look at whether the later header is inverted: a route for requests without a
  header value is said to be short-circuited by a route for requests with it.\<close>

lemma inverted_later_header:
  "earlyHeaderMatchersShortCircuitLaterOnes eg_libs [(eg_header ''x'')\<lparr>ehd_InvertMatch := True\<rparr>] [eg_header ''x'']"
  by code_simp

text \<open>Flags for case sensitivity that are set in both matchers never count as equal, as each clone has its own.\<close>

lemma case_sensitive_never_equal:
  assumes "mm_CaseSensitive m = Some (Ptr a b)" "mm_CaseSensitive e = Some (Ptr c b)" "a \<noteq> c"
  shows "\<not> prefixShortCircuits m e"
  using assms by (simp add: prefixShortCircuits_def)

definition eg_early :: mem_matcher where
  "eg_early = \<lparr>mm_PathSpecifier = Some (E_Prefix ''/a''), mm_CaseSensitive = None, mm_Headers = \<lparr>sl_array = 1, sl_len = 1\<rparr>,
     mm_QueryParameters = nil_slice, mm_Methods = nil_slice\<rparr>"

definition eg_late :: mem_matcher where
  "eg_late = \<lparr>mm_PathSpecifier = Some (E_Exact ''/a/b''), mm_CaseSensitive = None, mm_Headers = \<lparr>sl_array = 2, sl_len = 2\<rparr>,
     mm_QueryParameters = nil_slice, mm_Methods = \<lparr>sl_array = 3, sl_len = 1\<rparr>\<rparr>"

definition eg_match_heap :: edge_heap where
  "eg_match_heap = eg_heap\<lparr>hp_headers := (hp_headers eg_heap)(1 := \<lparr>ga_cells = [eg_header ''x''], ga_cap = 1\<rparr>,
       2 := \<lparr>ga_cells = [eg_header ''x'', eg_header ''y''], ga_cap = 2\<rparr>),
     hp_methods := (hp_methods eg_heap)(3 := \<lparr>ga_cells = [''GET''], ga_cap = 1\<rparr>)\<rparr>"

definition eg_request :: edge_request where
  "eg_request = \<lparr>rq_path = ''/a/b'', rq_method = ''GET'', rq_headers = [''x'' \<mapsto> ''1'', ''y'' \<mapsto> ''1''], rq_params = Map.empty\<rparr>"

definition eg_runtime :: go_runtime where
  "eg_runtime = \<lparr>gr_append = eg_grow, gr_clone = eg_grow\<rparr>"


section \<open>Gateways\<close>

definition eg_ssl :: "string list \<Rightarrow> string \<Rightarrow> edge_ssl" where
  "eg_ssl sni other = \<lparr>essl_SniDomains = sni, essl_OneWayTls = None, essl_Other = other\<rparr>"

definition eg_groups :: "virtual_service list" where
  "eg_groups = [eg_vs ''v'' [''a''] (Some (eg_ssl [''a''] ''x'')), eg_vs ''w'' [''b''] (Some (eg_ssl [''b''] ''xx'')), eg_vs ''x'' [''c''] (Some (eg_ssl [''c''] ''x''))]"

lemma eg_ssl_of: "sslOf eg_groups 0 = eg_ssl [''a''] ''x''" "sslOf eg_groups 1 = eg_ssl [''b''] ''xx''" "sslOf eg_groups 2 = eg_ssl [''c''] ''x''"
  by (simp_all add: sslOf_def eg_groups_def eg_vs_def)

lemma eg_ssl_hash: "hashSslConfig eg_libs (eg_ssl sni ''x'') = ''1''" "hashSslConfig eg_libs (eg_ssl sni ''xx'') = ''2''"
  by (simp_all add: hashSslConfig_def eg_libs_def eg_ssl_def) code_simp+

lemma eg_ssl_index: "sslGroupIndex eg_libs eg_groups [0, 1, 2] = [''1'' \<mapsto> [0, 2], ''2'' \<mapsto> [1]]"
proof
  fix k show "sslGroupIndex eg_libs eg_groups [0, 1, 2] k = [''1'' \<mapsto> [0, 2], ''2'' \<mapsto> [1]] k"
    unfolding sslGroupIndex_def filter.simps eg_ssl_of eg_ssl_hash by simp
qed

theorem GroupVirtualServicesBySslConfig_correct_witness:
  "\<exists>groups. GroupVirtualServicesBySslConfig eg_libs eg_groups [0, 1, 2] = Inr groups \<and> mset (concat (map snd groups)) = mset [0, 1, 2]"
proof -
  have 1: "\<forall>i \<in> set [0, 1, 2]. vsv_SslConfig (eg_groups ! i) \<noteq> None" by (simp add: eg_groups_def eg_vs_def)
  note facts = eg_ssl_of [unfolded One_nat_def] eg_ssl_hash
  have base: "sslBase (eg_ssl sni other) = eg_ssl [] other" for sni other by (simp add: sslBase_def eg_ssl_def)
  have eq: "sslBase (sslOf eg_groups i) = sslBase (sslOf eg_groups j)"
    if "i = 0 \<or> i = Suc 0 \<or> i = 2" "j = 0 \<or> j = Suc 0 \<or> j = 2" "hashSslConfig eg_libs (sslOf eg_groups i) = hashSslConfig eg_libs (sslOf eg_groups j)" for i j
    using that by (elim disjE) (simp_all add: facts base)
  have 2: "\<forall>i \<in> set [0, 1, 2]. \<forall>j \<in> set [0, 1, 2]. hashSslConfig eg_libs (sslOf eg_groups i) = hashSslConfig eg_libs (sslOf eg_groups j) \<longrightarrow>
      sslBase (sslOf eg_groups i) = sslBase (sslOf eg_groups j)"
    by (intro ballI impI, rule eq) (auto simp only: list.set insert_iff empty_iff One_nat_def)
  have 3: "iter_order (sslGroupIndex eg_libs eg_groups [0, 1, 2]) (el_keys eg_libs (sslGroupIndex eg_libs eg_groups [0, 1, 2]))"
    unfolding eg_ssl_index by (auto simp: iter_order_def eg_libs_def)
  show ?thesis using GroupVirtualServicesBySslConfig_correct [OF 1 2 3] by blast
qed

text \<open>New values that repeat are added twice.\<close>

lemma merge_keeps_repeats: "mergeValues [''a''] [''b'', ''b''] = [''a'', ''b'', ''b'']"
  by code_simp

definition eg_gateway :: "string \<Rightarrow> 32 word \<Rightarrow> edge_gateway_type \<Rightarrow> edge_gateway" where
  "eg_gateway name port ty = \<lparr>egw_Metadata = eg_meta name, egw_Ssl = True, egw_BindAddress = ''::'', egw_BindPort = port, egw_ProxyNames = [],
     egw_GatewayType = Some ty, egw_Options = [], egw_UseProxyProto = [], egw_RouteOptions = []\<rparr>"

definition eg_http :: http_gateway where
  "eg_http = \<lparr>hgw_VirtualServices = [], hgw_VirtualServiceNamespaces = [], hgw_VirtualServiceSelector = None,
     hgw_VirtualServiceExpressions = None, hgw_Options = None\<rparr>"

definition eg_gateways :: "edge_gateway list" where
  "eg_gateways = [eg_gateway ''g'' 80 (HttpGatewayType (Some eg_http)), eg_gateway ''h'' 80 (HttpGatewayType (Some eg_http)),
     eg_gateway ''i'' 81 (HttpGatewayType (Some eg_http))]"

lemma eg_addresses: "bindAddressOf (eg_gateways ! 0) = '':::80''" "bindAddressOf (eg_gateways ! 1) = '':::80''" "bindAddressOf (eg_gateways ! 2) = '':::81''"
  by code_simp+

lemma eg_byAddress: "gatewaysByAddress eg_gateways [0, 1, 2] = ['':::80'' \<mapsto> [0, 1], '':::81'' \<mapsto> [2]]"
  unfolding fun_eq_iff gatewaysByAddress_eq having_single filter.simps eg_addresses by simp

theorem validateGateways_correct_witness:
  "\<exists>a refs. AddError (GatewayRes 0) (BindAddressNotUniqueErr a refs) \<in> set (validateGateways eg_libs eg_gateways [0, 1, 2] [])"
proof -
  have "iter_order (gatewaysByAddress eg_gateways [0, 1, 2]) (el_keys eg_libs (gatewaysByAddress eg_gateways [0, 1, 2]))"
    unfolding eg_byAddress by (auto simp: iter_order_def eg_libs_def)
  then have "(\<exists>a refs. AddError (GatewayRes 0) (BindAddressNotUniqueErr a refs) \<in> set (validateGateways eg_libs eg_gateways [0, 1, 2] [])) \<longleftrightarrow>
      (0 :: nat) \<in> set [0, 1, 2] \<and> (\<exists>j \<in> set [0, 1, 2 :: nat]. j \<noteq> 0 \<and> bindAddressOf (eg_gateways ! j) = bindAddressOf (eg_gateways ! 0))"
    by (rule conjunct1 [OF validateGateways_correct]) simp
  then show ?thesis using eg_addresses by (metis list.set_intros zero_neq_one)
qed

definition eg_gw_env :: "edge_settings \<Rightarrow> matchable_http_gateway list \<Rightarrow> gw_env" where
  "eg_gw_env settings https = \<lparr>ge_vs = \<lparr>ve_edge = eg_env [] [], ve_VirtualHostOptions = [], ve_libs = eg_libs, ve_settings = settings\<rparr>,
     ge_HttpGateways = https, ge_TcpGateways = []\<rparr>"

definition eg_settings :: edge_settings where
  "eg_settings = \<lparr>ese_OneWayTls = Some True, ese_TranslateEmptyGateways = False, ese_WarnOnRouteShortCircuiting = False\<rparr>"

definition eg_edge_state :: "virtual_service list \<Rightarrow> edge_state" where
  "eg_edge_state vss = \<lparr>est_visit = eg_state, est_VirtualServices = vss,
     est_HttpOptions = (\<lambda>_. \<lparr>hop_HcmSettings = None, hop_Other = []\<rparr>), est_nextHttpOptions = 10\<rparr>"

definition eg_translator :: "bool \<Rightarrow> edge_translator" where
  "eg_translator isolate = \<lparr>gt_writeNamespace = ''ns'', gt_predicate = AllNamespacesPredicate, gt_isolateVirtualHostsBySslConfig = isolate\<rparr>"

definition eg_listeners :: "(edge_proxy option \<times> edge_state) outcome \<Rightarrow> edge_listener list" where
  "eg_listeners out = (case out of Inr (Some p, _) \<Rightarrow> epr_Listeners p | _ \<Rightarrow> [])"

definition eg_reports :: "(edge_proxy option \<times> edge_state) outcome \<Rightarrow> edge_report list" where
  "eg_reports out = (case out of Inr (_, st) \<Rightarrow> vst_reports (est_visit st) | _ \<Rightarrow> [])"

text \<open>The default for \<open>OneWayTls\<close> of the settings reaches an HTTP listener, but not the filter chain of an aggregate listener for the same
  gateway: the chain has a copy of the configuration that was taken before the default was applied.\<close>

definition eg_chain_ssl :: "edge_listener \<Rightarrow> bool option list" where
  "eg_chain_ssl l =
     (case eli_ListenerType l of
        EdgeAggregateListener b \<Rightarrow> map (\<lambda>c. Option.bind (Option.bind (efc_Matcher c) gm_SslConfig) essl_OneWayTls) (agl_HttpFilterChains b)
      | _ \<Rightarrow> map (\<lambda>c. Option.bind c essl_OneWayTls) (eli_SslConfigurations l))"

lemma one_way_tls_missing_in_aggregate:
  "map eg_chain_ssl (eg_listeners (Translate (eg_translator False) (eg_gw_env eg_settings []) ''p''
     [eg_gateway ''g'' 80 (HttpGatewayType (Some eg_http))] (eg_edge_state [eg_vs ''v'' [] (Some (eg_ssl [] ''x''))]))) = [[Some True]]"
  "map eg_chain_ssl (eg_listeners (Translate (eg_translator True) (eg_gw_env eg_settings []) ''p''
     [eg_gateway ''g'' 80 (HttpGatewayType (Some eg_http))] (eg_edge_state [eg_vs ''v'' [] (Some (eg_ssl [] ''x''))]))) = [[None]]"
  by code_simp+

text \<open>A hybrid gateway whose only matched gateway is a TCP gateway gives a listener, but with isolated virtual hosts an error.\<close>

definition eg_tcp_gateway :: edge_gateway where
  "eg_tcp_gateway = eg_gateway ''g'' 80 (HybridGatewayType (Some \<lparr>hyb_MatchedGateways =
     Some [\<lparr>mg_Matcher = None, mg_GatewayType = Some (MatchedTcp (Some \<lparr>tgw_TcpHosts = [], tgw_Options = []\<rparr>))\<rparr>],
     hyb_DelegatedHttpGateways = None, hyb_DelegatedTcpGateways = None\<rparr>))"

lemma tcp_only_aggregate_is_error:
  "length (eg_listeners (Translate (eg_translator False) (eg_gw_env eg_settings []) ''p'' [eg_tcp_gateway] (eg_edge_state []))) = 1"
  "eg_listeners (Translate (eg_translator True) (eg_gw_env eg_settings []) ''p'' [eg_tcp_gateway] (eg_edge_state [])) = []"
  "eg_reports (Translate (eg_translator True) (eg_gw_env eg_settings []) ''p'' [eg_tcp_gateway] (eg_edge_state [])) =
     [AddError (GatewayRes 0) EmptyHybridGatewayErr]"
  by code_simp+

text \<open>Two gateways that delegate to the same HTTP gateway: the settings of the first are written to the options of the delegated gateway,
  so that the second gets them too, although it has none.\<close>

definition eg_parent :: "string \<Rightarrow> 32 word \<Rightarrow> string option \<Rightarrow> edge_gateway" where
  "eg_parent name port hcm = eg_gateway name port (HybridGatewayType (Some \<lparr>hyb_MatchedGateways = None,
     hyb_DelegatedHttpGateways = Some \<lparr>dhg_Ref = Some (eg_ref ''child''), dhg_Selector = None, dhg_PreventChildOverrides = False,
       dhg_HcmSettings = hcm, dhg_SslConfig = None\<rparr>, hyb_DelegatedTcpGateways = None\<rparr>))"

definition eg_child :: matchable_http_gateway where
  "eg_child = \<lparr>mhg_Metadata = eg_meta ''child'', mhg_Matcher = None, mhg_HttpGateway = Some (eg_http\<lparr>hgw_Options := Some 1\<rparr>)\<rparr>"

definition eg_hcm :: "(edge_proxy option \<times> edge_state) outcome \<Rightarrow> (string \<times> string option list) list" where
  "eg_hcm out =
     (case out of
        Inr (Some p, st) \<Rightarrow> map (\<lambda>l. (eli_Name l, case eli_ListenerType l of
            EdgeHybridListener ls \<Rightarrow> concat (map (\<lambda>ml. case ml_ListenerType ml of
              Some (MatchedHttpListener h) \<Rightarrow> [Option.bind (ehl_Options h) (\<lambda>a. hop_HcmSettings (est_HttpOptions st a))] | _ \<Rightarrow> []) ls)
          | _ \<Rightarrow> [])) (epr_Listeners p)
      | _ \<Rightarrow> [])"

lemma hcm_settings_leak:
  "eg_hcm (Translate (eg_translator False) (eg_gw_env eg_settings [eg_child]) ''p''
     [eg_parent ''g'' 80 (Some ''server: a''), eg_parent ''h'' 81 None] (eg_edge_state [])) =
     [(''listener-::-80'', [Some ''server: a'']), (''listener-::-81'', [Some ''server: a''])]"
  by code_simp

end
