(* ===== verification/EdgeValidatorExamples.thy ===== *)
theory EdgeValidatorExamples
  imports EdgeReconcilerExamples EdgeValidatorProps EdgeExamples
begin

text \<open>
  Concrete runs of the validator: changes of route options, of which the translator rejects those whose body says so.
\<close>

definition demoRouteOption :: "string \<Rightarrow> string \<Rightarrow> snap_resource" where
  "demoRouteOption n body = \<lparr>snr_Kind = Some RouteOptionKind, snr_Ref = demoRef n, snr_Body = body\<rparr>"

definition demoStored :: stored_proxy where
  "demoStored = \<lparr>sp_Metadata = \<lparr>smd_Name = ''p'', smd_Namespace = ''ns'', smd_Labels = Map.empty, smd_Annotations = Map.empty\<rparr>,
     sp_Listeners = [demoHttp ''x''], sp_Status = [], sp_Other = []\<rparr>"

definition demoValidation :: validator_lib where
  "demoValidation = \<lparr>vlb_Gateways = (\<lambda>_. []), vlb_edge = eg_libs, vlb_Translate = (\<lambda>_ _ _. (None, Map.empty)),
     vlb_TranslateK8s = (\<lambda>_ res. ([demoStored], if snr_Body res = ''bad'' then Some (Errorf ''invalid'') else None)),
     vlb_GlooValidator = (\<lambda>_ _ _. Inr [\<lparr>gvr_ProxyReport = [], gvr_ResourceReports = Map.empty\<rparr>]),
     vlb_SimpleError = (\<lambda>_ _. None), vlb_Extension = (\<lambda>_. None), vlb_Validate = (\<lambda>_. None), vlb_ValidateStrict = (\<lambda>_. None),
     vlb_reports = demoLib, vlb_Error = (\<lambda>_. []), vlb_ErisError = (\<lambda>_. []), vlb_AsBreaking = (\<lambda>_. False), vlb_HashProxy = (\<lambda>_. 3),
     vlb_HashAllSafe = (\<lambda>rs. Some (of_nat (length rs))), vlb_Sort = (\<lambda>rs. rs)\<rparr>"

definition demoValidator :: edge_validator where
  "demoValidator = (NewValidator True False)\<lparr>evd_latestSnapshot := Some (\<lambda>_. [])\<rparr>"

lemma demo_validate:
  "snr_Kind (vop_Resource opts) = Some RouteOptionKind \<Longrightarrow>
   vout_err (validateProxiesAndExtensions demoValidation v s opts) =
     (if snr_Body (vop_Resource opts) = ''bad'' then [K8sTranslateErr (Errorf ''invalid'')] else [])"
  by (simp add: validateProxiesAndExtensions_def demoValidation_def validateProxy_def)

lemma demo_verdict:
  "vop_Resource opts = demoRouteOption n body \<Longrightarrow> \<not> vop_Delete opts \<Longrightarrow> evd_latestSnapshot v = Some s \<Longrightarrow> evd_latestSnapshotErr v = [] \<Longrightarrow>
   verdict demoValidation opts v \<longleftrightarrow> body \<noteq> ''bad''"
  by (simp add: verdict_def applyChange_def UpsertToResourceList_def demoRouteOption_def Let_def passes_def demo_validate
      shouldValidateAgainstPreviousState_def)

theorem collectAllErrors_verdict_witness:
  "validateProxiesAndExtensions demoValidation demoValidator (\<lambda>_. [])
     ((newOptions ''RouteOption'' (demoRouteOption ''a'' ''good'') False False)\<lparr>vop_collectAllErrors := True\<rparr>) =
   validateProxiesAndExtensions demoValidation demoValidator (\<lambda>_. [])
     ((newOptions ''RouteOption'' (demoRouteOption ''a'' ''good'') False False)\<lparr>vop_collectAllErrors := False\<rparr>)"
  by (rule mp [OF conjunct2 [OF collectAllErrors_verdict]])
    (simp add: demo_validate newOptions_def demoRouteOption_def)

theorem validateSnapshot_correct_witness:
  "\<exists>out errs. validateSnapshot demoValidation (newOptions ''RouteOption'' (demoRouteOption ''a'' ''bad'') False True) demoValidator =
     Inr ((out, errs), demoValidator) \<and> errs \<noteq> []"
proof -
  let ?opts = "newOptions ''RouteOption'' (demoRouteOption ''a'' ''bad'') False True"
  have "\<not> verdict demoValidation ?opts demoValidator"
    using demo_verdict [of ?opts "''a''" "''bad''" demoValidator "\<lambda>_. []"] by (simp add: newOptions_def demoValidator_def NewValidator_def)
  moreover have "vop_DryRun ?opts" by (simp add: newOptions_def)
  ultimately show ?thesis using validateSnapshot_correct [of demoValidation ?opts demoValidator] by auto
qed

text \<open>Two changes of which the second is rejected.\<close>

theorem ValidateList_correct_witness:
  "\<exists>out v1 v2. ValidateList demoValidation [Inr (''RouteOption'', demoRouteOption ''a'' ''good''), Inr (''RouteOption'', demoRouteOption ''b'' ''bad'')]
       False demoValidator = Inr (out, v1) \<and>
     ValidateList demoValidation [Inr (''RouteOption'', demoRouteOption ''a'' ''good''), Inr (''RouteOption'', demoRouteOption ''b'' ''bad'')]
       True demoValidator = Inr (out, v2) \<and> vout_err out \<noteq> [] \<and>
     evd_latestSnapshot v1 = Some ((\<lambda>_. [])(RouteOptionKind := [demoRouteOption ''a'' ''good''])) \<and> evd_latestSnapshot v2 = Some (\<lambda>_. [])"
proof -
  let ?a = "newOptions ''RouteOption'' (demoRouteOption ''a'' ''good'') False False"
  let ?b = "newOptions ''RouteOption'' (demoRouteOption ''b'' ''bad'') False False"
  let ?s = "(\<lambda>_. [])(RouteOptionKind := [demoRouteOption ''a'' ''good''])"
  define w where "w = demoValidator\<lparr>evd_latestSnapshot := Some ?s\<rparr>"
  have v: "evd_latestSnapshot demoValidator = Some (\<lambda>_. [])" "evd_latestSnapshotErr demoValidator = []"
    by (simp_all add: demoValidator_def NewValidator_def)
  have a: "verdict demoValidation ?a demoValidator"
    using demo_verdict [of ?a "''a''" "''good''" demoValidator] v by (simp add: newOptions_def)
  moreover have "applyChange demoValidation ?a (\<lambda>_. []) = Inr ?s"
    by (simp add: applyChange_def newOptions_def UpsertToResourceList_def demoRouteOption_def demoValidation_def)
  ultimately have a': "snapshotAfter demoValidation ?a demoValidator = Some ?s"
    using v by (simp add: snapshotAfter_def newOptions_def)
  have b: "\<not> verdict demoValidation ?b w"
    using demo_verdict [of ?b "''b''" "''bad''" w] v by (simp add: newOptions_def w_def)
  have w: "evd_latestSnapshot w = Some ?s" by (simp add: w_def)
  have b': "snapshotAfter demoValidation ?b w = Some ?s" using b w by (simp add: snapshotAfter_def)
  have "judgeList demoValidation [Inr (''RouteOption'', demoRouteOption ''a'' ''good''), Inr (''RouteOption'', demoRouteOption ''b'' ''bad'')] demoValidator =
      ([True, False], Some ?s)"
    by (simp only: judgeList.simps Let_def a a' b b' w_def [symmetric] prod.case) (simp add: a b b')
  with ValidateList_correct [OF v(1), of demoValidation "[Inr (''RouteOption'', demoRouteOption ''a'' ''good''), Inr (''RouteOption'', demoRouteOption ''b'' ''bad'')]"]
  show ?thesis by auto
qed

end
