(* ===== verification/EdgeWebhookProps.thy ===== *)
theory EdgeWebhookProps
  imports EdgeWebhook EdgeValidatorExamples
begin

text \<open>
  The webhook decides as the validator does: which requests are allowed, which of them reach the snapshot, and when the
  handler stops without an answer.
\<close>

section \<open>The verdict on a request\<close>

text \<open>Whether a request is in order. Kinds that are not known, resources that ask not to be validated and updates of the status
  are; what cannot be read is not; for the others the validator decides.\<close>

definition admissible :: "webhook_lib \<Rightarrow> webhook \<Rightarrow> admission_request \<Rightarrow> edge_validator \<Rightarrow> bool" where
  "admissible wl wh req v =
     (let gvk = arq_Kind req;
          deleted = (\<lambda>kind. newOptions (gvk_Kind gvk) \<lparr>snr_Kind = Some kind, snr_Ref = \<lparr>rref_Name = arq_Name req, rref_Namespace = arq_Namespace req\<rparr>,
            snr_Body = []\<rparr> True (isDryRun req))
      in if gvk = ListGVK
         then (case whl_UnmarshalList wl (arq_Object req) of
                 Inl e \<Rightarrow> False
               | Inr items \<Rightarrow> list_all (\<lambda>b. b) (fst (judgeList (whl_validator wl) (map (readItem wl) items) v)))
         else if gvk_Group gvk = [] \<and> gvk_Kind gvk = ''Secret''
         then (arq_Operation req = ''DELETE'' \<longrightarrow> verdict (whl_validator wl) (deleted SecretKind) v)
         else case ApiGvkToHashableResource gvk of
                None \<Rightarrow> True
              | Some kind \<Rightarrow>
                  if arq_Operation req = ''DELETE'' then verdict (whl_validator wl) (deleted kind) v
                  else shouldValidateGvk wh gvk \<longrightarrow>
                    (case shouldValidateResource wl kind req of
                       Inl e \<Rightarrow> False
                     | Inr None \<Rightarrow> True
                     | Inr (Some res) \<Rightarrow> verdict (whl_validator wl) (newOptions (gvk_Kind gvk) res False (isDryRun req)) v))"

text \<open>What the validation of a request gives: no error exactly when the request is in order, and the snapshot as it was for a dry run and for
  a single change that is not in order.\<close>

definition settles :: "webhook_lib \<Rightarrow> webhook \<Rightarrow> admission_request \<Rightarrow> edge_validator \<Rightarrow> review_result \<Rightarrow> bool" where
  "settles wl wh req v r \<longleftrightarrow>
     (\<exists>proxies errs v'. r = Inr ((proxies, errs), v') \<and> (errs = [] \<longleftrightarrow> admissible wl wh req v) \<and>
        (isDryRun req \<or> arq_Kind req \<noteq> ListGVK \<and> \<not> admissible wl wh req v \<longrightarrow> evd_latestSnapshot v' = evd_latestSnapshot v))"

lemma settlesI:
  "r = Inr ((proxies, errs), v') \<Longrightarrow> (errs = [] \<longleftrightarrow> admissible wl wh req v) \<Longrightarrow>
   (isDryRun req \<or> arq_Kind req \<noteq> ListGVK \<and> \<not> admissible wl wh req v \<Longrightarrow> evd_latestSnapshot v' = evd_latestSnapshot v) \<Longrightarrow> settles wl wh req v r"
  by (auto simp: settles_def)

lemma snapshotAfter_same: "vop_DryRun opts \<or> \<not> verdict lib opts v \<Longrightarrow> snapshotAfter lib opts v = evd_latestSnapshot v"
  by (auto simp: snapshotAfter_def)

lemma deleteRef_settles:
  assumes kind: "(if gvk_Group (arq_Kind req) = [] \<and> gvk_Kind (arq_Kind req) = ''Secret'' then Inr SecretKind else deref (ApiGvkToHashableResource (arq_Kind req))) = Inr kind"
    and adm: "admissible wl wh req v \<longleftrightarrow> verdict (whl_validator wl) opts v"
    and opts: "opts = newOptions (gvk_Kind (arq_Kind req)) \<lparr>snr_Kind = Some kind, snr_Ref = ref, snr_Body = []\<rparr> True (isDryRun req)"
  shows "settles wl wh req v (deleteRef wl (arq_Kind req) ref req v)"
proof -
  obtain out errs m where run: "validateSnapshot (whl_validator wl) opts v = Inr ((out, errs), v\<lparr>evd_latestSnapshot := snapshotAfter (whl_validator wl) opts v, evd_metric := m\<rparr>)"
    and errs: "errs = [] \<longleftrightarrow> verdict (whl_validator wl) opts v"
    using validateSnapshot_spec [of "whl_validator wl" opts v] by blast
  have "deleteRef wl (arq_Kind req) ref req v =
      Inr (([], if errs \<noteq> [] then [DeletionErr ref errs] else []), v\<lparr>evd_latestSnapshot := snapshotAfter (whl_validator wl) opts v, evd_metric := m\<rparr>)"
    unfolding deleteRef_def kind bind_out_Inr ValidateDeletedGvk_def opts [symmetric] run prod.case ..
  then show ?thesis
    by (rule settlesI) (auto simp: errs adm opts newOptions_def intro!: snapshotAfter_same)
qed

lemma validateGvk_settles:
  assumes kind: "ApiGvkToHashableResource (arq_Kind req) = Some kind"
    and adm: "admissible wl wh req v \<longleftrightarrow> (shouldValidateGvk wh (arq_Kind req) \<longrightarrow>
      (case shouldValidateResource wl kind req of
         Inl e \<Rightarrow> False
       | Inr None \<Rightarrow> True
       | Inr (Some res) \<Rightarrow> verdict (whl_validator wl) (newOptions (gvk_Kind (arq_Kind req)) res False (isDryRun req)) v))"
  shows "settles wl wh req v (validateGvk wl wh (arq_Kind req) req v)"
proof (cases "shouldValidateGvk wh (arq_Kind req)")
  case False
  with adm show ?thesis by (simp add: settles_def validateGvk_def)
next
  case True
  show ?thesis
  proof (cases "shouldValidateResource wl kind req")
    case (Inl e)
    with True kind adm show ?thesis by (simp add: settles_def validateGvk_def)
  next
    case (Inr change)
    show ?thesis
    proof (cases change)
      case None
      with True kind Inr adm show ?thesis by (simp add: settles_def validateGvk_def)
    next
      case (Some res)
      define opts where "opts = newOptions (gvk_Kind (arq_Kind req)) res False (isDryRun req)"
      obtain out errs m where run: "validateSnapshot (whl_validator wl) opts v = Inr ((out, errs), v\<lparr>evd_latestSnapshot := snapshotAfter (whl_validator wl) opts v, evd_metric := m\<rparr>)"
        and errs: "errs = [] \<longleftrightarrow> verdict (whl_validator wl) opts v"
        using validateSnapshot_spec [of "whl_validator wl" opts v] by blast
      have eq: "validateGvk wl wh (arq_Kind req) req v =
          Inr ((case out of None \<Rightarrow> [] | Some o1 \<Rightarrow> vout_proxies o1, if errs \<noteq> [] then [ValidatingFailedErr [ValidatingFailedErr errs]] else []),
            v\<lparr>evd_latestSnapshot := snapshotAfter (whl_validator wl) opts v, evd_metric := m\<rparr>)"
        using True kind Inr Some by (simp add: validateGvk_def ValidateModifiedGvk_def opts_def [symmetric] run)
      have a: "admissible wl wh req v \<longleftrightarrow> verdict (whl_validator wl) opts v"
        using adm True Inr Some by (simp add: opts_def)
      have "vop_DryRun opts = isDryRun req" by (simp add: opts_def newOptions_def)
      then show ?thesis
        by (intro settlesI [OF eq]) (auto simp: errs a intro!: snapshotAfter_same)
    qed
  qed
qed

lemma validateList_settles:
  assumes gvk: "arq_Kind req = ListGVK" and ready: "evd_latestSnapshot v = Some s"
  shows "settles wl wh req v (validateList wl (arq_Object req) (isDryRun req) v)"
proof (cases "whl_UnmarshalList wl (arq_Object req)")
  case (Inl e)
  with gvk show ?thesis by (simp add: settles_def validateList_def admissible_def)
next
  case (Inr items)
  let ?items = "map (readItem wl) items"
  obtain out m where run: "fold_out (collectItem (whl_validator wl)) ?items (\<lparr>vout_proxies = [], vout_proxyReports = [], vout_err = []\<rparr>, v) =
      Inr (out, v\<lparr>evd_latestSnapshot := snd (judgeList (whl_validator wl) ?items v), evd_metric := m\<rparr>)"
    and out: "vout_err out = [] \<longleftrightarrow> list_all (\<lambda>b. b) (fst (judgeList (whl_validator wl) ?items v))"
    using fold_collectItem [of "whl_validator wl" ?items "\<lparr>vout_proxies = [], vout_proxyReports = [], vout_err = []\<rparr>" v] by auto
  show ?thesis
    by (rule settlesI [of _ "vout_proxies out" "vout_err out"
          "v\<lparr>evd_latestSnapshot := if isDryRun req then Some s else snd (judgeList (whl_validator wl) ?items v), evd_metric := m\<rparr>"])
      (auto simp: validateList_def Inr ValidateList_def ready run admissible_def gvk out)
qed

lemma validateAdmissionRequest_settles:
  assumes ready: "arq_Kind req = ListGVK \<Longrightarrow> evd_latestSnapshot v \<noteq> None"
  shows "settles wl wh req v (validateAdmissionRequest wl wh (arq_Kind req) \<lparr>rref_Name = arq_Name req, rref_Namespace = arq_Namespace req\<rparr> req v)"
proof (cases "arq_Kind req = ListGVK")
  case True
  with ready obtain s where "evd_latestSnapshot v = Some s" by blast
  with True show ?thesis using validateList_settles [OF True, of v s wl wh] by (simp add: validateAdmissionRequest_def)
next
  case list: False
  show ?thesis
  proof (cases "gvk_Group (arq_Kind req) = [] \<and> gvk_Kind (arq_Kind req) = ''Secret''")
    case secret: True
    show ?thesis
    proof (cases "arq_Operation req = ''DELETE''")
      case True
      then show ?thesis using list secret
        by (simp add: validateAdmissionRequest_def) (rule deleteRef_settles [where kind = SecretKind], auto simp: admissible_def)
    next
      case False
      with list secret show ?thesis by (simp add: validateAdmissionRequest_def settles_def admissible_def)
    qed
  next
    case other: False
    show ?thesis
    proof (cases "ApiGvkToHashableResource (arq_Kind req)")
      case None
      with list other show ?thesis by (auto simp: validateAdmissionRequest_def settles_def admissible_def)
    next
      case (Some kind)
      show ?thesis
      proof (cases "arq_Operation req = ''DELETE''")
        case True
        with list other Some have "settles wl wh req v (deleteRef wl (arq_Kind req) \<lparr>rref_Name = arq_Name req, rref_Namespace = arq_Namespace req\<rparr> req v)"
          by (intro deleteRef_settles [where kind = kind]) (auto simp: admissible_def)
        with list other Some True show ?thesis by (simp add: validateAdmissionRequest_def)
      next
        case False
        have "settles wl wh req v (validateGvk wl wh (arq_Kind req) req v)"
          by (rule validateGvk_settles [OF Some]) (use list other Some False in \<open>auto simp: admissible_def Let_def\<close>)
        with list other Some False show ?thesis by (auto simp: validateAdmissionRequest_def)
      qed
    qed
  qed
qed


definition demoWebhookLib :: webhook_lib where
  "demoWebhookLib = \<lparr>whl_validator = demoValidation, whl_Yaml = (\<lambda>_. (Some ''bad yaml'', \<lparr>arv_Request = None, arv_ReturnProxies = False\<rparr>)),
     whl_Decode = (\<lambda>_. (Some ''bad json'', \<lparr>arv_Request = None, arv_ReturnProxies = False\<rparr>)),
     whl_Marshal = (\<lambda>r. Inr (case rwp_Response r of None \<Rightarrow> ''no response'' | Some a \<Rightarrow> (case ars_Result a of None \<Rightarrow> ''ok'' | Some m \<Rightarrow> are_Message m))),
     whl_Write = (\<lambda>_. None), whl_JSON = (\<lambda>raw. Inr \<lparr>crd_Ref = demoRef ''a'', crd_Annotations = None, crd_Spec = Some raw\<rparr>),
     whl_CustomInput = (\<lambda>_. False), whl_TypeName = (\<lambda>_. ''*v1.RouteOption''), whl_UnmarshalSpec = (\<lambda>_ spec. Inr spec), whl_UnmarshalList = (\<lambda>_. Inr []), whl_ParseGroupVersion = (\<lambda>s. Inr ([], s)),
     whl_Hash = (\<lambda>r. of_nat (length (snr_Body r))), whl_IsUnmarshalErr = (\<lambda>e. case e of UnmarshalErr _ \<Rightarrow> True | _ \<Rightarrow> False), whl_Error = (\<lambda>_. [])\<rparr>"

definition demoWebhook :: webhook where
  "demoWebhook = \<lparr>wh_watchNamespaces = [], wh_alwaysAccept = False, wh_readGatewaysFromAllNamespaces = True, wh_webhookNamespace = ''ns'',
     wh_kubeGatewayEnabled = True\<rparr>"

definition demoRequest :: "string \<Rightarrow> admission_request" where
  "demoRequest raw = \<lparr>arq_Kind = gatewayGVK ''RouteOption'', arq_Namespace = ''ns'', arq_Name = ''a'', arq_UID = ''u'', arq_Operation = ''CREATE'',
     arq_Object = raw, arq_OldObject = [], arq_DryRun = None\<rparr>"

lemma demo_admissible: "admissible demoWebhookLib demoWebhook (demoRequest raw) demoValidator \<longleftrightarrow> raw \<noteq> ''bad''"
proof -
  have kind: "ApiGvkToHashableResource (gatewayGVK ''RouteOption'') = Some RouteOptionKind"
    by (simp add: ApiGvkToHashableResource_def gatewayGVK_def glooGVK_def)
  have res: "shouldValidateResource demoWebhookLib RouteOptionKind (demoRequest raw) = Inr (Some (demoRouteOption ''a'' raw))"
    by (simp add: shouldValidateResource_def UnmarshalResource_def demoWebhookLib_def demoRequest_def skipValidationCheck_def demoRouteOption_def)
  have v: "verdict demoValidation (newOptions ''RouteOption'' (demoRouteOption ''a'' raw) False False) demoValidator \<longleftrightarrow> raw \<noteq> ''bad''"
    by (rule demo_verdict [where n = "''a''" and s = "\<lambda>_. []"]) (simp_all add: newOptions_def demoValidator_def NewValidator_def)
  have "shouldValidateGvk demoWebhook (gatewayGVK ''RouteOption'')" by (simp add: shouldValidateGvk_def demoWebhook_def)
  moreover have "arq_Kind (demoRequest raw) = gatewayGVK ''RouteOption''" "arq_Operation (demoRequest raw) = ''CREATE''" "isDryRun (demoRequest raw) = False"
    "whl_validator demoWebhookLib = demoValidation" "gvk_Group (gatewayGVK ''RouteOption'') \<noteq> []" "gvk_Kind (gatewayGVK ''RouteOption'') = ''RouteOption''"
    "gatewayGVK ''RouteOption'' \<noteq> ListGVK"
    by (simp_all add: demoRequest_def isDryRun_def demoWebhookLib_def gatewayGVK_def ListGVK_def)
  ultimately show ?thesis by (simp add: admissible_def Let_def kind res v)
qed


section \<open>What goes wrong\<close>

text \<open>A body that cannot be decoded is answered with the error when it is YAML. When it is JSON, the error is lost: the answer
  has no response at all. A review with no request stops the handler.\<close>

theorem json_error_lost:
  "ServeHTTP demoWebhookLib demoWebhook \<lparr>hrq_ContentType = ''application/x-yaml'', hrq_Body = Some (Inr ''x'')\<rparr> v = Inr ([WriteBody ''bad yaml''], v)"
  "ServeHTTP demoWebhookLib demoWebhook \<lparr>hrq_ContentType = ''application/json'', hrq_Body = Some (Inr ''x'')\<rparr> v = Inr ([WriteBody ''no response''], v)"
  by (simp_all add: ServeHTTP_def decodeReview_def reviewResponse_def demoWebhookLib_def Let_def)

theorem review_without_request:
  assumes "whl_Decode wl body = (None, review)" "arv_Request review = None" "body \<noteq> []"
  shows "ServeHTTP wl wh \<lparr>hrq_ContentType = ''application/json'', hrq_Body = Some (Inr body)\<rparr> v = Inl NilDeref"
  using assms by (simp add: ServeHTTP_def decodeReview_def makeAdmissionResponse_def)

end
