(* ===== verification/Spec2Isabelle.thy ===== *)
theory Spec2Isabelle
  imports PolicyExamples SyncerExamples ControllerExamples PolicyValidator EdgeWebhookProps
begin

text \<open>
  A verification of the two front ends of Gloo: the Kubernetes Gateway API control plane, \<open>src/projects/gateway2\<close>, and the gateway of
  the Edge API, \<open>src/projects/gateway/pkg\<close>: translator, reporting, reconciler, syncer, validator and webhook.

  \<^bold>\<open>The program.\<close> The control plane watches \<open>Gateway\<close>, \<open>HTTPRoute\<close> and related resources. For a gateway,
  \<open>translator/gateway_translator.go\<close> asks the query engine (\<open>query/\<close>) for the routes attached to each
  listener, with their backends and delegated routes; validates the listeners and merges them by port
  (\<open>translator/listener/\<close>); translates each rule of each route into Gloo routes, flattening delegation
  (\<open>translator/httproute/\<close>) and applying the plugins of the Gateway API filters
  (\<open>translator/plugins/\<close>); sorts the routes of each host by precedence (\<open>translator/routeutils/\<close>); and gives a
  proxy. On the way, errors are collected in a report map (\<open>reports/\<close>) from which the statuses of
  gateways and routes are built.

  Two loops run around the translator. The proxy syncer (\<open>proxy_syncer/\<close>) translates all gateways
  whenever something it depends on changes, hands the proxies to a reconciler, writes the statuses of
  gateways and routes, and queues what it translated for the status syncer (\<open>status/\<close>), which waits for the
  reports of the Gloo translator on these proxies and lets the plugins write policy statuses. The
  gateway reconciler (\<open>controller/gw_controller.go\<close>) deploys the Envoy proxy of a gateway from a Helm chart
  with values merged from \<open>GatewayParameters\<close> (\<open>deployer/\<close>), copies the addresses of its service to the
  gateway's status and kicks the proxy syncer.

  The Edge API has its own resources: \<open>Gateway\<close>, \<open>VirtualService\<close>, \<open>RouteTable\<close> and options. Its translator
  (\<open>translator.go\<close>) filters and validates the gateways of a proxy and hands each to a listener translator (HTTP, TCP, hybrid or
  aggregate), which selects virtual services and has them turned into virtual hosts (\<open>virtual_service_translator.go\<close>); their routes
  are found by a traversal of the route tables they delegate to (\<open>converter.go\<close>).

  The syncer of the Edge API (\<open>syncer/translator_syncer.go\<close>) translates all proxies and hands them to the reconciler
  (\<open>reconciler/proxy_reconciler.go\<close>), which has Gloo validate them, charges the errors to the resources that the faulty parts were
  made from (\<open>reporting/\<close>), strips what is rejected and puts back what the stored proxy has for it. A goroutine of
  the syncer writes the statuses of the resources, if the component is elected (\<open>pkg/bootstrap/leaderelector\<close>). Before a resource is stored
  the API server asks the webhook (\<open>services/k8sadmission\<close>), which has the validator (\<open>validation/validator.go\<close>) try the change on a copy of
  the snapshot.

  \<^bold>\<open>The theories.\<close> Every theory names the source files it models in its first text; names follow the code.

  \<^item> \<open>Prelude\<close>: results of Go code that may panic (\<open>outcome\<close>, a sum whose left side is the panic), loops over
    slices with such results (\<open>fold_out\<close>), strings and paths of the Go library, the stable sort, orders
    of iteration over Go maps.
  \<^item> \<open>GatewayApi\<close>: the Gateway API resources as records.
  \<^item> \<open>Reports\<close>: \<open>reports/reporter.go\<close> and \<open>reports/status.go\<close>; the statuses built are complete, without
    duplicates for what the code reports once, and independent of the iteration order where they are.
  \<^item> \<open>Query\<close>, \<open>QueryProps\<close>: \<open>query/\<close> and \<open>translator/backendref\<close>; references across namespaces need grants,
    hostname intersection is exact, only routes that a listener takes are attached, and the delegation
    tree is acyclic and always found. The Kubernetes client is the record \<open>k8s_client\<close>, an argument. The
    contract of the backend map is the locale \<open>keyed_results\<close>.
  \<^item> \<open>GlooRoute\<close>, \<open>RouteSort\<close>: Gloo routes, and \<open>sortable_route.go\<close>, whose comparison is shown to be the
    precedence of the Gateway API.
  \<^item> \<open>Delegation\<close>, \<open>HttpRouteTranslator\<close>, \<open>HttpRouteProps\<close>: \<open>translator/httproute/\<close>. The pointers that the
    code writes through (paths of matches, rules of route infos) are indices into an explicit memory, so
    that the effects of sharing are part of the model. What the translator needs of route plugins is
    the locale \<open>route_plugins\<close>.
  \<^item> \<open>Plugins\<close>, \<open>PluginsProps\<close>: the plugins for header modifiers, mirrors, redirects, URL rewrites and
    direct responses, with the registry order; the registry is shown to satisfy \<open>route_plugins\<close>.
  \<^item> \<open>ListenerValidation\<close>: \<open>translator/listener/validation.go\<close> against its specification.
  \<^item> \<open>ListenerTranslator\<close>, \<open>ListenerProps\<close>, \<open>ListenerTls\<close>, \<open>ListenerTotal\<close>, \<open>ListenerExamples\<close>:
    \<open>gateway_listener_translator.go\<close>, \<open>sslutils\<close> and \<open>ports\<close>; merging by port against a reference
    definition, virtual hosts independent of the map order, TLS that fails closed, and that the
    translation returns well-formed listeners.
  \<^item> \<open>GatewayTranslator\<close>: \<open>gateway_translator.go\<close>, and that the memory which the query engine builds satisfies
    what the route translator needs.
  \<^item> \<open>Transition\<close>: runs of labelled step relations, with the locales \<open>run_invariant\<close> and \<open>simulation\<close>.
  \<^item> \<open>Strconv\<close>: \<open>strconv.Itoa\<close> and \<open>Atoi\<close> on the integers the code prints, inverse to each other.
  \<^item> \<open>AsyncQueue\<close>: \<open>proxy_syncer/queue.go\<close> as a step relation over its channel; it refines a register that
    holds the newest element, and a consumer is never left waiting while an element is queued.
  \<^item> \<open>PluginRegistry\<close>, \<open>Extensions\<close>: \<open>translator/plugins/registry\<close> and \<open>extensions/\<close>, which build the plugins and
    the translator of a gateway.
  \<^item> \<open>StatusSyncer\<close>, \<open>StatusExamples\<close>: \<open>status/\<close>; reports are given to the registry of the newest sync, once, and
    only for proxies the controller owns.
  \<^item> \<open>ProxySyncer\<close>, \<open>ProxySyncerProps\<close>, \<open>SyncerExamples\<close>: \<open>proxy_syncer/proxy_syncer.go\<close>; the writes of a resync,
    that statuses settle, and that nothing is translated before the secrets are known.
  \<^item> \<open>GatewayParameters\<close>, \<open>DeployerMerge\<close>, \<open>DeployerMergeProps\<close>: the \<open>GatewayParameters\<close> API with its getters, and
    \<open>deployer/merge.go\<close>. The contract of merging an override into defaults is the locale \<open>override\<close>,
    interpreted for every structure that is merged.
  \<^item> \<open>Deployer\<close>, \<open>DeployerProps\<close>, \<open>DeployerExamples\<close>: \<open>deployer/deployer.go\<close>, \<open>values.go\<close> and \<open>values_helpers.go\<close>; the
    values given to the chart agree with the translator's ports, and every object deployed belongs to
    its gateway.
  \<^item> \<open>GatewayController\<close>: \<open>controller/gw_controller.go\<close>; the syncer is kicked only after the deployment.
  \<^item> \<open>Controllers\<close>, \<open>ControllerProps\<close>, \<open>ControllerExamples\<close>: \<open>controller/controller.go\<close>, \<open>controller/start.go\<close> and
    \<open>secrets/controller.go\<close>; which events reach which reconciler (controller-runtime is the locale
    \<open>controller_runtime\<close>), that no kick is lost, and which gateways a change of parameters reaches.
  \<^item> \<open>PolicyValidator\<close>: \<open>validation/validator.go\<close>; the proxy that a policy is validated on.
  \<^item> \<open>OptionsApi\<close>, \<open>OptionMerge\<close>, \<open>PolicyAttachment\<close>, \<open>PolicyStatus\<close>: the option resources, the shallow merge of options
    (locale \<open>shallow_merge\<close>, interpreted for route and virtual host options), which policies attach to a listener
    and in which order, and the statuses of policies (locale \<open>extracted_errors\<close>).
  \<^item> \<open>RouteOptionsPlugin\<close>, \<open>ListenerOptionsPlugins\<close>, \<open>PolicyPlugins\<close>, \<open>PolicyExamples\<close>: the plugins for option resources under
    \<open>translator/plugins/\<close>; every option comes from the first policy that sets it, in the order of precedence, and the
    plugins satisfy what the translator needs.
  \<^item> \<open>EdgeApi\<close>, \<open>EdgeSelector\<close>, \<open>EdgeConverter\<close>, \<open>EdgeConverterProps\<close>: the Edge resources and the heap of what the translator shares and
    writes (options, transformations, slices with the capacity of their arrays), the selection and order of route tables
    (\<open>route_table_selector.go\<close>, \<open>route_table_indexer.go\<close>, \<open>sort_routes.go\<close>) and the traversal \<open>converter.go\<close>: it ends in spite of cycles,
    delegated routes stay under the prefix of their parents, and reports on route tables reach the virtual service.
  \<^item> \<open>EdgeVirtualService\<close>, \<open>EdgeVirtualServiceProps\<close>: \<open>virtual_service_translator.go\<close>; conflicts of domains are found exactly, and a warning of a
    short-circuited route is right for plain matchers, against a definition of the requests that a matcher accepts.
  \<^item> \<open>EdgeListeners\<close>, \<open>EdgeTranslator\<close>, \<open>EdgeTranslatorProps\<close>, \<open>EdgeExamples\<close>: the listener translators and \<open>translator.go\<close>. The Go interface
    \<open>ListenerTranslator\<close> is the locale \<open>edge_listener_translator\<close>, interpreted for each of them; the translation always returns a well-formed
    proxy, and virtual services are grouped by TLS configuration without loss.
  \<^item> \<open>EdgeReports\<close>, \<open>EdgeReportsProps\<close>: the reports on a proxy (\<open>projects/gloo/pkg/utils/validation\<close>) and \<open>reporting/\<close>; errors are charged to exactly
    the sources of the faulty listener or virtual host, and an empty report changes nothing.
  \<^item> \<open>EdgeReconciler\<close>, \<open>EdgeReconcilerProps\<close>: \<open>proxy_reconciler.go\<close> and \<open>proxy_transition_function.go\<close>; what is stripped, and that HTTP and hybrid
    listeners keep the last good virtual hosts.
  \<^item> \<open>LeaderElection\<close>: the identity and the callbacks of an election, as runs over sequences of callbacks.
  \<^item> \<open>EdgeSyncer\<close>, \<open>EdgeSyncerProps\<close>, \<open>EdgeReconcilerExamples\<close>: \<open>translator_syncer.go\<close>; the status goroutine and its callers are a step relation, and
    at rest the cluster has the statuses of the current reports.
  \<^item> \<open>EdgeValidator\<close>, \<open>EdgeValidatorProps\<close>, \<open>EdgeValidatorExamples\<close>: \<open>validator.go\<close>; which changes are admitted, which reach the snapshot, and lists of changes.
  \<^item> \<open>EdgeWebhook\<close>, \<open>EdgeWebhookProps\<close>: \<open>validating_admission_webhook.go\<close>; which requests are allowed.
  \<^item> this theory: the theorems over all parts, \<open>TranslateProxy_total\<close> and \<open>resyncProxies_total\<close>.

  \<^bold>\<open>Fuel.\<close> Three recursions run over delegation graphs and take a fuel. The traversal of Edge route tables (\<open>visit_resource\<close>) is given the
  number of route tables plus one, as the tables on a path are different ones (\<open>visit_ok\<close>). \<open>getDelegatedChildren\<close> needs more
  than the number of routes of the cluster, because every level adds a name to \<open>visited\<close>
  (\<open>getDelegatedChildren_returns\<close>); the translation of a route needs more than the number of route infos,
  because an info only points to earlier ones (\<open>TranslateGatewayHTTPRouteRules_total\<close>), and the listener
  translator passes that number plus one. Running out of fuel is the panic \<open>OutOfFuel\<close>, which
  \<open>TranslateProxy_total\<close> excludes together with all others.

  \<^bold>\<open>Hypotheses.\<close> They are the defaults and validation of the API server (paths have values, filters the
  field of their type, certificate references are to secrets), that the cluster has finitely many
  routes, that a secret is read as a secret, and that a list by field index follows the index. Go maps
  are visited in any order, given as an argument with the hypothesis that it is an order of the map.
  Answers of the API server, of Helm and of the condition helpers of the API machinery are fields of
  environment records (\<open>sync_env\<close>, \<open>deployer_inputs\<close>, \<open>reconcile_env\<close>, \<open>builder_env\<close>); what the code writes is a log in its state.

  \<^bold>\<open>Not modelled.\<close> Logging, metrics and contexts; the contents of option messages that are only passed on,
  which are lists of fields; the status plugins as parts of a registry, where they are arguments; the loading and rendering of
  the Helm chart, which is an argument; regular expressions, hashes, label selectors and the \<open>mergo\<close> library of the Edge translator, which are
  arguments; of the Edge gateway, the reporter of \<open>solo-kit\<close>, the base reconciler of the proxy client, the decoders and unmarshalling of the webhook, which
  are arguments, its TLS server and certificates, and the client that reconnects to a validation server; the elector of client-go, whose
  callbacks are a sequence; the translation of proxies to Envoy under \<open>projects/gloo\<close>.
\<close>

section \<open>The translation of a gateway\<close>


section \<open>A resync of all gateways\<close>


section \<open>Witnesses\<close>

lemma t_client_ok: "client_within t_client {}" "client_ok t_client" "secrets_typed t_client"
  by (simp_all add: client_within_def client_ok_def secrets_typed_def t_client_def t_route_def api_route_ok_def q_route_def q_rule_def
      d_path_def path_good_def filters_admitted_def backend_ok_def RefIsService_def q_service_def q_ref_def)

definition w_policies :: policy_env where
  "w_policies = \<lparr>pe_RouteOptions = x_env, pe_VirtualHostOptions = x_list, pe_HttpListenerOptions = (\<lambda>_ _. Inr []),
     pe_ListenerOptions = (\<lambda>_ _. Inl (ErrMsg ''timeout'')), pe_Hash = (\<lambda>_. 0)\<rparr>"

lemma w_policies_ok: "policy_env_ok w_policies"
  using x_list_ok by (simp add: policy_env_ok_def w_policies_def virtualHostOptionTargetRefIndexer_def lists_by_index_def)

definition w_store :: "unit policy_store" where
  "w_store = \<lparr>pst_next = 0, pst_instances = (\<lambda>_. \<lparr>pin_routeOptions = Map.empty, pin_virtualHostOptions = Map.empty\<rparr>)\<rparr>"

definition w_status :: "nat \<Rightarrow> (unit, unit policy_store) status_plugin" where
  "w_status i prs x = (x, None)"

definition w_registry :: "unit policy_store \<Rightarrow> (unit, unit, unit policy_store) plugin_registry \<times> unit policy_store" where
  "w_registry = NewRegistry id t_client w_policies w_status w_status"


text \<open>A resync of one gateway with two listeners.\<close>

definition w_env :: "(unit, unit, unit policy_store) sync_env" where
  "w_env = \<lparr>env_ListGateways = Inr [v_gw v_listeners], env_ListRoutes = Inr [], env_parentRefOrder = (\<lambda>_ _. []),
     env_FindStatusCondition = findStatusCondition, env_SetStatusCondition = setStatusCondition 9,
     env_CreatePluginRegistry = w_registry,
     env_GetTranslator = GetTranslator 1 x_lib t_client (\<lambda>_. [443, 80]) rev\<rparr>"

definition w_syncer :: "(unit, unit, unit policy_store) proxy_syncer" where
  "w_syncer = (syncer_init ''solo.io/gloo-gateway'' ''gloo-system'' w_store)\<lparr>ps_secretsWarmed := True\<rparr>"

lemma w_gateways_ok: "gateways_ok (\<lambda>_. [443, 80]) [v_gw v_listeners]"
  using v_order by (simp add: gateways_ok_def v_gw_def v_listeners_def v_listener_def tls_ok_def)

lemma w_env_parts:
  "ps_secretsWarmed w_syncer" "env_ListGateways w_env = Inr [v_gw v_listeners]"
  "env_GetTranslator w_env = GetTranslator 1 x_lib t_client (\<lambda>_. [443, 80]) rev"
  "env_CreatePluginRegistry w_env = NewRegistry id t_client w_policies w_status w_status"
  by (simp_all add: w_env_def w_syncer_def w_registry_def)


end
